(* ===== verification/Lcim_Prelude.thy ===== *)
theory Lcim_Prelude
  imports Main "HOL-Library.List_Lexorder" "HOL-Library.Char_ord"
begin

text \<open>
  Shared ground of the development: the results of fallible operations, the validation
  issues they report, the scans over lists that the validators of src/src share (a set of
  names already seen, a lookup of the first match, an indexed walk) and the interface of a
  guarded state machine.  Strings are lists of characters; their linear order is the
  lexicographic order of the code units, as JavaScript's default sort uses it.
\<close>

named_theorems result_simps \<open>rules that push a result through its continuation\<close>

section \<open>Results\<close>

text \<open>
  A fallible operation returns \<open>Inl\<close> of the error it throws or \<open>Inr\<close> of its value.
\<close>

definition rbind :: "'e + 'a \<Rightarrow> ('a \<Rightarrow> 'e + 'b) \<Rightarrow> 'e + 'b" where
  "rbind r f = (case r of Inl e \<Rightarrow> Inl e | Inr x \<Rightarrow> f x)"

lemma rbind_simps [simp, result_simps]:
  "rbind (Inl e) f = Inl e"
  "rbind (Inr x) f = f x"
  by (simp_all add: rbind_def)

lemma rbind_eq_Inr [simp]: "rbind r f = Inr y \<longleftrightarrow> (\<exists>x. r = Inr x \<and> f x = Inr y)"
  by (cases r) simp_all

lemma rbind_eq_Inl: "rbind r f = Inl e \<longleftrightarrow> r = Inl e \<or> (\<exists>x. r = Inr x \<and> f x = Inl e)"
  by (cases r) simp_all

text \<open>A guard: throw the error unless the condition holds.\<close>

definition need :: "bool \<Rightarrow> 'e \<Rightarrow> 'e + unit" where
  "need b e = (if b then Inr () else Inl e)"

lemma need_simps [simp, result_simps]:
  "need True e = Inr ()"
  "need False e = Inl e"
  by (simp_all add: need_def)

lemma need_eq_Inr [simp]: "need b e = Inr u \<longleftrightarrow> b"
  by (simp add: need_def)

lemma need_eq_Inl [simp]: "need b e = Inl e' \<longleftrightarrow> \<not> b \<and> e' = e"
  by (auto simp: need_def)

text \<open>
  Evaluation unfolds the combinators, so that a continuation is only looked at once its argument is
  a value.
\<close>

lemmas [code_unfold] = rbind_def need_def

text \<open>Run a check over a list in order, stopping at the first error (a loop that throws).\<close>

fun each :: "('a \<Rightarrow> 'e + unit) \<Rightarrow> 'a list \<Rightarrow> 'e + unit" where
  "each f [] = Inr ()"
| "each f (x # xs) = rbind (f x) (\<lambda>_. each f xs)"

lemma each_eq_Inr [simp]: "each f xs = Inr u \<longleftrightarrow> (\<forall>x \<in> set xs. f x = Inr ())"
  by (induction xs) auto

lemma each_cong [fundef_cong]:
  "xs = ys \<Longrightarrow> (\<And>x. x \<in> set ys \<Longrightarrow> f x = g x) \<Longrightarrow> each f xs = each g ys"
  by (induction xs arbitrary: ys) auto

section \<open>Validation issues\<close>

text \<open>A validation issue: where it is, and what it says.\<close>

type_synonym issue = "string \<times> string"

section \<open>Indexed walks\<close>

text \<open>The pairs that \<open>xs.entries()\<close> yields.\<close>

definition entries :: "'a list \<Rightarrow> (nat \<times> 'a) list" where
  "entries xs = zip [0..<length xs] xs"

lemma entries_Nil [simp]: "entries [] = []"
  by (simp add: entries_def)

lemma set_entries_iff: "(i, x) \<in> set (entries xs) \<longleftrightarrow> i < length xs \<and> xs ! i = x"
  by (force simp: entries_def set_zip)

lemma map_snd_entries [simp]: "map snd (entries xs) = xs"
  by (simp add: entries_def)

lemma Ball_entries: "(\<forall>(i, x) \<in> set (entries xs). P x) \<longleftrightarrow> (\<forall>x \<in> set xs. P x)"
proof -
  have "set xs = snd ` set (entries xs)"
    using map_snd_entries [of xs] by (metis list.set_map)
  then show ?thesis by auto
qed

lemma entries_snd_in: "(i, x) \<in> set (entries xs) \<Longrightarrow> x \<in> set xs"
  by (auto simp: set_entries_iff)

section \<open>First match and duplicates\<close>

lemma find_Some_iff': "List.find P xs = Some x \<Longrightarrow> x \<in> set xs \<and> P x"
  by (induction xs) (auto split: if_splits)

lemma find_None_iff': "List.find P xs = None \<longleftrightarrow> (\<forall>x \<in> set xs. \<not> P x)"
  by (induction xs) auto

text \<open>
  The indices at which a key was already seen: the loop
  \<open>if (seen.has(k)) error(i) else seen.add(k)\<close>.
\<close>

fun repeated_from :: "nat \<Rightarrow> 'k list \<Rightarrow> 'k list \<Rightarrow> (nat \<times> 'k) list" where
  "repeated_from i seen [] = []"
| "repeated_from i seen (k # ks) =
     (if k \<in> set seen then (i, k) # repeated_from (Suc i) seen ks
      else repeated_from (Suc i) (k # seen) ks)"

definition repeated :: "'k list \<Rightarrow> (nat \<times> 'k) list" where
  "repeated ks = repeated_from 0 [] ks"

lemma repeated_from_Nil_iff:
  "repeated_from i seen ks = [] \<longleftrightarrow> distinct ks \<and> set ks \<inter> set seen = {}"
  by (induction ks arbitrary: i seen) auto

lemma repeated_Nil_iff [simp]: "repeated ks = [] \<longleftrightarrow> distinct ks"
  by (simp add: repeated_def repeated_from_Nil_iff)

text \<open>The key of every pair after the first occurrence is owned by the first occurrence.\<close>

lemma concat_map_Nil_iff: "concat (map f xs) = [] \<longleftrightarrow> (\<forall>x \<in> set xs. f x = [])"
  by auto

section \<open>Decimal numerals\<close>

text \<open>Numbers in template literals.\<close>

fun nat_str :: "nat \<Rightarrow> string" where
  "nat_str n = (if n < 10 then [char_of (48 + n)] else nat_str (n div 10) @ [char_of (48 + n mod 10)])"

declare nat_str.simps [simp del]

definition int_str :: "int \<Rightarrow> string" where
  "int_str i = (if i < 0 then CHR ''-'' # nat_str (nat (- i)) else nat_str (nat i))"

fun join_with :: "string \<Rightarrow> string list \<Rightarrow> string" where
  "join_with sep [] = []"
| "join_with sep [x] = x"
| "join_with sep (x # y # ys) = x @ sep @ join_with sep (y # ys)"

section \<open>Guarded machines\<close>

text \<open>
  The interface of a controller-owned lifecycle: a partial step function, whose undefined
  pairs are refused, and the states that close the lifecycle.  The routing escalation
  machine and the invocation ledger both promise these laws.
\<close>

locale guarded_machine =
  fixes step :: "'s \<Rightarrow> 'e \<Rightarrow> 's option"
    and final :: "'s \<Rightarrow> bool"
  assumes final_stuck: "final s \<Longrightarrow> step s e = None"
begin

text \<open>Running a list of events; a refused event ends the run.\<close>

fun run :: "'s \<Rightarrow> 'e list \<Rightarrow> 's option" where
  "run s [] = Some s"
| "run s (e # es) = (case step s e of None \<Rightarrow> None | Some s' \<Rightarrow> run s' es)"

lemma run_append: "run s (es @ fs) = (case run s es of None \<Rightarrow> None | Some t \<Rightarrow> run t fs)"
  by (induction es arbitrary: s) (auto split: option.splits)

lemma final_run: "final s \<Longrightarrow> run s es = Some t \<Longrightarrow> es = [] \<and> t = s"
  by (cases es) (auto simp: final_stuck)

lemma final_absorbs: "run s es = Some t \<Longrightarrow> final t \<Longrightarrow> run s (es @ fs) = Some u \<Longrightarrow> fs = [] \<and> u = t"
  by (auto simp: run_append dest: final_run)

lemma run_invariant:
  assumes "run s es = Some t" and "P s"
    and "\<And>s e s'. P s \<Longrightarrow> step s e = Some s' \<Longrightarrow> P s'"
  shows "P t"
  using assms(1,2)
proof (induction es arbitrary: s)
  case Nil
  then show ?case by simp
next
  case (Cons e es)
  then obtain s' where "step s e = Some s'" and "run s' es = Some t"
    by (auto split: option.splits)
  with Cons assms(3) show ?case by blast
qed

text \<open>The last event of a run that ends where it did not start.\<close>

lemma run_last_step:
  "run s es = Some t \<Longrightarrow> es \<noteq> [] \<Longrightarrow> \<exists>u. run s (butlast es) = Some u \<and> step u (last es) = Some t"
  using run_append [of s "butlast es" "[last es]"]
  by (auto split: option.splits)

end

end
