(* ===== verification/Js_Values.thy ===== *)
theory Js_Values
  imports Lcim_Prelude
begin

text \<open>
  The values the program computes with.  The validators of src/src work on dynamic
  JavaScript values parsed from JSON, so they are modelled on one datatype, and a value that
  may be \<open>undefined\<close> is an option.  Objects keep their own enumerable properties in
  property order.  Members that every object inherits from \<open>Object.prototype\<close> are
  modelled too: the \<open>in\<close> operator and a computed member access see them.
\<close>

section \<open>Values\<close>

text \<open>
  A number that is an integer is \<open>JInt\<close>; any other number is \<open>JFloat\<close> with its JSON
  text, which determines it.  \<open>JFn\<close> is a function, which only arises by reading an
  inherited member.  Characters are code units below 256.
\<close>

datatype json =
    JNull
  | JBool bool
  | JInt int
  | JFloat string
  | JStr string
  | JArr "json list"
  | JObj "(string \<times> json) list"
  | JFn string

text \<open>\<open>None\<close> is JavaScript's \<open>undefined\<close>.\<close>

type_synonym jsval = "json option"

text \<open>The size of a member is smaller than the size of the value that holds it.\<close>

lemma size_map_of [simp, termination_simp]:
  "map_of kvs k = Some v \<Longrightarrow> size v < Suc (size_list (size_prod (\<lambda>_. 0) size) kvs)"
  by (induction kvs) (auto split: if_splits)

section \<open>Types of values\<close>

fun is_obj :: "json \<Rightarrow> bool" where
  "is_obj (JObj _) = True"
| "is_obj _ = False"

fun is_arr :: "json \<Rightarrow> bool" where
  "is_arr (JArr _) = True"
| "is_arr _ = False"

fun is_str :: "json \<Rightarrow> bool" where
  "is_str (JStr _) = True"
| "is_str _ = False"

fun is_num :: "json \<Rightarrow> bool" where
  "is_num (JInt _) = True"
| "is_num (JFloat _) = True"
| "is_num _ = False"

fun is_int :: "json \<Rightarrow> bool" where
  "is_int (JInt _) = True"
| "is_int _ = False"

fun is_bool :: "json \<Rightarrow> bool" where
  "is_bool (JBool _) = True"
| "is_bool _ = False"

lemma is_obj_iff: "is_obj v \<longleftrightarrow> (\<exists>kvs. v = JObj kvs)"
  by (cases v) auto

lemma is_arr_iff: "is_arr v \<longleftrightarrow> (\<exists>xs. v = JArr xs)"
  by (cases v) auto

fun js_typeof :: "jsval \<Rightarrow> string" where
  "js_typeof None = ''undefined''"
| "js_typeof (Some (JBool _)) = ''boolean''"
| "js_typeof (Some (JInt _)) = ''number''"
| "js_typeof (Some (JFloat _)) = ''number''"
| "js_typeof (Some (JStr _)) = ''string''"
| "js_typeof (Some (JFn _)) = ''function''"
| "js_typeof (Some _) = ''object''"

text \<open>
  \<open>v !== null && typeof v === 'object' && !Array.isArray(v)\<close>.
\<close>

fun plain_object :: "jsval \<Rightarrow> bool" where
  "plain_object (Some (JObj _)) = True"
| "plain_object _ = False"

lemma plain_object_iff: "plain_object v \<longleftrightarrow> (\<exists>kvs. v = Some (JObj kvs))"
  by (cases v rule: plain_object.cases) auto

text \<open>\<open>typeof v === 'string' && v.length > 0\<close>.\<close>

fun nonempty_string :: "jsval \<Rightarrow> bool" where
  "nonempty_string (Some (JStr s)) = (s \<noteq> [])"
| "nonempty_string _ = False"

lemma nonempty_string_iff: "nonempty_string v \<longleftrightarrow> (\<exists>s. v = Some (JStr s) \<and> s \<noteq> [])"
  by (cases v rule: nonempty_string.cases) auto

fun js_truthy :: "jsval \<Rightarrow> bool" where
  "js_truthy None = False"
| "js_truthy (Some JNull) = False"
| "js_truthy (Some (JBool b)) = b"
| "js_truthy (Some (JInt i)) = (i \<noteq> 0)"
| "js_truthy (Some (JStr s)) = (s \<noteq> [])"
| "js_truthy (Some _) = True"

text \<open>\<open>v === null || v === undefined\<close>.\<close>

fun nullish :: "jsval \<Rightarrow> bool" where
  "nullish None = True"
| "nullish (Some JNull) = True"
| "nullish _ = False"

lemma nullish_iff: "nullish v \<longleftrightarrow> v = None \<or> v = Some JNull"
  by (cases v rule: nullish.cases) auto

text \<open>\<open>Array.isArray(v) ? v : []\<close>, also \<open>v ?? []\<close> for values that are arrays.\<close>

fun arr_or_empty :: "jsval \<Rightarrow> json list" where
  "arr_or_empty (Some (JArr xs)) = xs"
| "arr_or_empty _ = []"

text \<open>\<open>Number.isInteger(v) && v >= n\<close>.\<close>

fun int_at_least :: "int \<Rightarrow> jsval \<Rightarrow> bool" where
  "int_at_least n (Some (JInt i)) = (n \<le> i)"
| "int_at_least n _ = False"

lemma int_at_least_iff: "int_at_least n v \<longleftrightarrow> (\<exists>i. v = Some (JInt i) \<and> n \<le> i)"
  by (cases "(n, v)" rule: int_at_least.cases) auto

section \<open>Members\<close>

text \<open>The names every object inherits from \<open>Object.prototype\<close>.\<close>

definition proto_methods :: "string list" where
  "proto_methods = [''constructor'', ''__defineGetter__'', ''__defineSetter__'', ''hasOwnProperty'',
     ''__lookupGetter__'', ''__lookupSetter__'', ''isPrototypeOf'', ''propertyIsEnumerable'',
     ''toString'', ''valueOf'', ''toLocaleString'']"

definition inherited_names :: "string list" where
  "inherited_names = ''__proto__'' # proto_methods"

text \<open>
  An own property: \<open>Object.hasOwn(v, k) ? v[k] : undefined\<close>.  For a name that
  \<open>Object.prototype\<close> does not have this is \<open>v[k]\<close>, also with optional chaining when
  the value may be missing.
\<close>

fun own :: "string \<Rightarrow> jsval \<Rightarrow> jsval" where
  "own k (Some (JObj kvs)) = map_of kvs k"
| "own k _ = None"

fun own_keys :: "json \<Rightarrow> string list" where
  "own_keys (JObj kvs) = map fst kvs"
| "own_keys _ = []"

text \<open>
  A computed member access \<open>v[k]\<close>, inherited members included; a value that is not
  nullish inherits them whether it is an object or not.
\<close>

definition member :: "string \<Rightarrow> jsval \<Rightarrow> jsval" where
  "member k v =
     (case own k v of
        Some w \<Rightarrow> Some w
      | None \<Rightarrow>
          (if nullish v then None
           else if k \<in> set proto_methods then Some (JFn k)
           else if k = ''__proto__'' then Some (JObj [])
           else None))"

text \<open>The \<open>in\<close> operator on an object.\<close>

definition js_in :: "string \<Rightarrow> json \<Rightarrow> bool" where
  "js_in k v \<longleftrightarrow> k \<in> set (own_keys v) \<or> k \<in> set inherited_names"

lemma own_None_iff: "own k (Some v) = None \<longleftrightarrow> k \<notin> set (own_keys v)"
  by (cases v) (auto simp: map_of_eq_None_iff)

lemma own_Some_in_keys: "own k (Some v) = Some w \<Longrightarrow> k \<in> set (own_keys v)"
  using own_None_iff [of k v] by auto

lemma own_plain: "own k v = Some w \<Longrightarrow> plain_object v"
  by (cases "(k, v)" rule: own.cases) auto

lemma member_own: "k \<notin> set inherited_names \<Longrightarrow> member k v = own k v"
  by (auto simp: member_def inherited_names_def split: option.splits)

lemma member_Some_own: "own k v = Some w \<Longrightarrow> member k v = Some w"
  by (simp add: member_def)

lemma js_in_own: "k \<notin> set inherited_names \<Longrightarrow> js_in k v \<longleftrightarrow> own k (Some v) \<noteq> None"
  by (simp add: js_in_def own_None_iff)

text \<open>The own enumerable properties that \<open>{ ...v }\<close> copies.\<close>

fun spread :: "jsval \<Rightarrow> (string \<times> json) list" where
  "spread (Some (JObj kvs)) = kvs"
| "spread (Some (JArr xs)) = map (\<lambda>(i, x). (nat_str i, x)) (entries xs)"
| "spread _ = []"

text \<open>Strict equality with a string or Boolean literal.\<close>

abbreviation is_lit :: "jsval \<Rightarrow> string \<Rightarrow> bool" where
  "is_lit v s \<equiv> v = Some (JStr s)"

abbreviation is_true :: "jsval \<Rightarrow> bool" where
  "is_true v \<equiv> v = Some (JBool True)"

text \<open>\<open>names.includes(v)\<close> for a list of string literals.\<close>

fun one_of :: "string list \<Rightarrow> jsval \<Rightarrow> bool" where
  "one_of names (Some (JStr s)) = (s \<in> set names)"
| "one_of names _ = False"

lemma one_of_iff: "one_of names v \<longleftrightarrow> (\<exists>s. v = Some (JStr s) \<and> s \<in> set names)"
  by (cases "(names, v)" rule: one_of.cases) auto

section \<open>Building objects\<close>

text \<open>
  Own property order: array-index keys come first, in ascending order, then the other keys
  in the order they were created.
\<close>

fun digits_value :: "nat \<Rightarrow> string \<Rightarrow> nat option" where
  "digits_value acc [] = Some acc"
| "digits_value acc (c # cs) =
     (if CHR ''0'' \<le> c \<and> c \<le> CHR ''9'' then digits_value (10 * acc + (of_char c - 48)) cs else None)"

definition array_index :: "string \<Rightarrow> nat option" where
  "array_index k =
     (if k = [] \<or> (hd k = CHR ''0'' \<and> k \<noteq> ''0'') then None
      else case digits_value 0 k of
             Some n \<Rightarrow> (if n < 4294967295 then Some n else None)
           | None \<Rightarrow> None)"

definition property_order :: "(string \<times> 'v) list \<Rightarrow> (string \<times> 'v) list" where
  "property_order kvs =
     sort_key (\<lambda>kv. the (array_index (fst kv))) (filter (\<lambda>kv. array_index (fst kv) \<noteq> None) kvs)
     @ filter (\<lambda>kv. array_index (fst kv) = None) kvs"

text \<open>Defining a property: \<open>{ ...obj, k: v }\<close> keeps the position of an existing key.\<close>

fun put :: "string \<Rightarrow> 'v \<Rightarrow> (string \<times> 'v) list \<Rightarrow> (string \<times> 'v) list" where
  "put k v [] = [(k, v)]"
| "put k v ((k', v') # kvs) = (if k' = k then (k, v) # kvs else (k', v') # put k v kvs)"

text \<open>Removing a property: the rest of \<open>const { k: _, ...rest } = obj\<close>.\<close>

definition without :: "string \<Rightarrow> (string \<times> 'v) list \<Rightarrow> (string \<times> 'v) list" where
  "without k kvs = filter (\<lambda>kv. fst kv \<noteq> k) kvs"

lemma map_of_put [simp]: "map_of (put k v kvs) k' = (if k' = k then Some v else map_of kvs k')"
  by (induction kvs) auto

lemma map_of_without [simp]: "map_of (without k kvs) k' = (if k' = k then None else map_of kvs k')"
  by (induction kvs) (auto simp: without_def)

lemma without_put [simp]: "without k (put k v kvs) = without k kvs"
  by (induction kvs) (auto simp: without_def)

lemma without_idem: "map_of kvs k = None \<Longrightarrow> without k kvs = kvs"
  by (induction kvs) (auto simp: without_def split: if_splits)

section \<open>Structural equality\<close>

text \<open>
  \<open>deepStrictEqual\<close> on such values: arrays pointwise, objects as sets of own
  properties whatever their order, everything else by value.
\<close>

function (sequential) deep_equal :: "json \<Rightarrow> json \<Rightarrow> bool"
  and deep_equal_list :: "json list \<Rightarrow> json list \<Rightarrow> bool"
  and deep_equal_props :: "(string \<times> json) list \<Rightarrow> (string \<times> json) list \<Rightarrow> bool" where
  "deep_equal (JArr xs) (JArr ys) = deep_equal_list xs ys"
| "deep_equal (JObj kvs) (JObj lws) = (length kvs = length lws \<and> deep_equal_props kvs lws)"
| "deep_equal a b = (a = b)"
| "deep_equal_list [] [] = True"
| "deep_equal_list (x # xs) (y # ys) = (deep_equal x y \<and> deep_equal_list xs ys)"
| "deep_equal_list _ _ = False"
| "deep_equal_props [] lws = True"
| "deep_equal_props ((k, v) # kvs) lws =
     ((case map_of lws k of None \<Rightarrow> False | Some w \<Rightarrow> deep_equal v w) \<and> deep_equal_props kvs lws)"
  by pat_completeness auto
termination
  by (relation "measure (\<lambda>x. case x of Inl (a, b) \<Rightarrow> size a
        | Inr (Inl (xs, ys)) \<Rightarrow> size_list size xs
        | Inr (Inr (kvs, lws)) \<Rightarrow> size_list (size_prod (\<lambda>_. 0) size) kvs)") auto

text \<open>Values whose objects have distinct keys, as every JavaScript object has.\<close>

fun wf_json :: "json \<Rightarrow> bool" where
  "wf_json (JArr xs) = list_all wf_json xs"
| "wf_json (JObj kvs) = (distinct (map fst kvs) \<and> list_all (\<lambda>kv. wf_json (snd kv)) kvs)"
| "wf_json _ = True"

lemma deep_equal_props_iff:
  "deep_equal_props kvs lws \<longleftrightarrow>
     (\<forall>kv \<in> set kvs. \<exists>w. map_of lws (fst kv) = Some w \<and> deep_equal (snd kv) w)"
  by (induction kvs) (auto split: option.splits)

lemma deep_equal_list_iff: "deep_equal_list xs ys \<longleftrightarrow> list_all2 deep_equal xs ys"
proof (induction xs arbitrary: ys)
  case Nil
  then show ?case by (cases ys) auto
next
  case (Cons x xs)
  then show ?case by (cases ys) auto
qed

lemma deep_equal_refl: "wf_json v \<Longrightarrow> deep_equal v v"
proof (induction v)
  case (JArr xs)
  then show ?case by (auto simp: deep_equal_list_iff list_all_iff intro!: list_all2_all_nthI)
next
  case (JObj kvs)
  have "map_of kvs (fst kv) = Some (snd kv) \<and> deep_equal (snd kv) (snd kv)"
    if "kv \<in> set kvs" for kv
  proof
    show "map_of kvs (fst kv) = Some (snd kv)"
      using that JObj.prems by (auto intro: map_of_is_SomeI)
    show "deep_equal (snd kv) (snd kv)"
      using that JObj.prems by (intro JObj.IH [of kv]) (auto simp: list_all_iff snds.simps)
  qed
  then show ?case by (auto simp: deep_equal_props_iff)
qed simp_all

lemma deep_equal_scalar:
  "deep_equal (JStr s) v \<longleftrightarrow> v = JStr s"
  "deep_equal (JBool b) v \<longleftrightarrow> v = JBool b"
  "deep_equal JNull v \<longleftrightarrow> v = JNull"
  "deep_equal (JInt i) v \<longleftrightarrow> v = JInt i"
  by (cases v; auto)+

end
