(* ===== verification/Json_Text.thy ===== *)
theory Json_Text
  imports Js_Values "HOL-Library.Multiset"
begin

text \<open>
  Texts of values: template literals, \<open>JSON.stringify\<close>, and the two canonical
  serializations of the program, \<open>canonicalizeJson\<close> of src/src/contracts/digest.mjs (a
  value with sorted keys, then stringified) and \<open>canonicalJson\<close> of
  src/src/logging/digest.mjs (a string directly), with the deep clone of
  src/src/contracts/deep-freeze.mjs.  The lemmas show that both serializations only depend on
  a value up to the order of its properties, and which properties they lose.
\<close>

section \<open>Text of a value\<close>

fun js_string :: "jsval \<Rightarrow> string"
  and js_string_elem :: "json \<Rightarrow> string" where
  "js_string None = ''undefined''"
| "js_string (Some JNull) = ''null''"
| "js_string (Some (JBool b)) = (if b then ''true'' else ''false'')"
| "js_string (Some (JInt i)) = int_str i"
| "js_string (Some (JFloat t)) = t"
| "js_string (Some (JStr s)) = s"
| "js_string (Some (JArr xs)) = join_with '','' (map js_string_elem xs)"
| "js_string (Some (JObj _)) = ''[object Object]''"
| "js_string (Some (JFn n)) = ''function '' @ n @ ''() { [native code] }''"
| "js_string_elem JNull = []"
| "js_string_elem (JArr xs) = join_with '','' (map js_string_elem xs)"
| "js_string_elem (JBool b) = (if b then ''true'' else ''false'')"
| "js_string_elem (JInt i) = int_str i"
| "js_string_elem (JFloat t) = t"
| "js_string_elem (JStr s) = s"
| "js_string_elem (JObj _) = ''[object Object]''"
| "js_string_elem (JFn n) = ''function '' @ n @ ''() { [native code] }''"

section \<open>JSON.stringify\<close>

definition hex_digit :: "nat \<Rightarrow> char" where
  "hex_digit d = (if d < 10 then char_of (48 + d) else char_of (87 + d))"

definition escape_char :: "char \<Rightarrow> string" where
  "escape_char c =
     (let n = of_char c :: nat in
      if n = 34 then [CHR 0x5C, CHR 0x22]
      else if n = 92 then [CHR 0x5C, CHR 0x5C]
      else if n = 8 then [CHR 0x5C, CHR ''b'']
      else if n = 12 then [CHR 0x5C, CHR ''f'']
      else if n = 10 then [CHR 0x5C, CHR ''n'']
      else if n = 13 then [CHR 0x5C, CHR ''r'']
      else if n = 9 then [CHR 0x5C, CHR ''t'']
      else if n < 32 then [CHR 0x5C, CHR ''u'', CHR ''0'', CHR ''0'', hex_digit (n div 16), hex_digit (n mod 16)]
      else [c])"

definition quote_string :: "string \<Rightarrow> string" where
  "quote_string s = CHR 0x22 # concat (map escape_char s) @ [CHR 0x22]"

fun json_stringify :: "json \<Rightarrow> string" where
  "json_stringify JNull = ''null''"
| "json_stringify (JBool b) = (if b then ''true'' else ''false'')"
| "json_stringify (JInt i) = int_str i"
| "json_stringify (JFloat t) = t"
| "json_stringify (JStr s) = quote_string s"
| "json_stringify (JArr xs) = ''['' @ join_with '','' (map json_stringify xs) @ '']''"
| "json_stringify (JObj kvs) =
     ''{'' @ join_with '','' (map (\<lambda>kv. quote_string (fst kv) @ '':'' @ json_stringify (snd kv)) kvs) @ ''}''"
| "json_stringify (JFn _) = ''null''"

fun stringify_val :: "jsval \<Rightarrow> string" where
  "stringify_val None = ''undefined''"
| "stringify_val (Some v) = json_stringify v"

section \<open>Canonical values and deep clones\<close>

text \<open>
  Assigning \<open>out[key] = x\<close> makes an own property for every key but \<open>__proto__\<close>, whose
  assignment replaces the prototype of \<open>out\<close> and leaves its own properties alone.
\<close>

definition assignable :: "string \<times> 'v \<Rightarrow> bool" where
  "assignable kv \<longleftrightarrow> fst kv \<noteq> ''__proto__''"

fun canonicalize_json :: "json \<Rightarrow> json" where
  "canonicalize_json (JArr xs) = JArr (map canonicalize_json xs)"
| "canonicalize_json (JObj kvs) =
     JObj (property_order (filter assignable
       (sort_key fst (map (\<lambda>kv. (fst kv, canonicalize_json (snd kv))) kvs))))"
| "canonicalize_json v = v"

fun deep_clone_json :: "json \<Rightarrow> json" where
  "deep_clone_json (JArr xs) = JArr (map deep_clone_json xs)"
| "deep_clone_json (JObj kvs) =
     JObj (filter assignable (map (\<lambda>kv. (fst kv, deep_clone_json (snd kv))) kvs))"
| "deep_clone_json v = v"

text \<open>The ledger's serialization; a value in an object is never \<open>undefined\<close> here.\<close>

fun canonical_json :: "json \<Rightarrow> string" where
  "canonical_json (JArr xs) = ''['' @ join_with '','' (map canonical_json xs) @ '']''"
| "canonical_json (JObj kvs) =
     ''{'' @ join_with '','' (map (\<lambda>kt. quote_string (fst kt) @ '':'' @ snd kt)
        (sort_key fst (map (\<lambda>kv. (fst kv, canonical_json (snd kv))) kvs))) @ ''}''"
| "canonical_json v = json_stringify v"

text \<open>
  What is read back from the canonical text of a value: the value with sorted properties
  (names that are array indices, which a parsed object lists first, are not modelled here).
\<close>

fun sorted_json :: "json \<Rightarrow> json" where
  "sorted_json (JArr xs) = JArr (map sorted_json xs)"
| "sorted_json (JObj kvs) = JObj (sort_key fst (map (\<lambda>kv. (fst kv, sorted_json (snd kv))) kvs))"
| "sorted_json v = v"

section \<open>Independence of the property order\<close>

lemma sort_key_fst_eq:
  assumes "distinct (map fst xs)" and "distinct (map fst ys)" and "set xs = set ys"
  shows "sort_key (fst :: 'k :: linorder \<times> 'v \<Rightarrow> 'k) xs = sort_key fst ys"
proof (rule sort_key_eq_sort_key)
  show "mset xs = mset ys"
    using assms by (metis distinct_map set_eq_iff_mset_eq_distinct)
  show "inj_on fst (set xs)"
    using assms(1) by (simp add: distinct_map)
qed

text \<open>Two objects with the same keys up to order, whose values a function identifies.\<close>

lemma set_map_props_eq:
  assumes "distinct (map fst kvs)" and "distinct (map fst lws)" and "length kvs = length lws"
    and rel: "\<And>kv. kv \<in> set kvs \<Longrightarrow> \<exists>w. map_of lws (fst kv) = Some w \<and> f (snd kv) = g w"
  shows "set (map (\<lambda>kv. (fst kv, f (snd kv))) kvs) = set (map (\<lambda>kv. (fst kv, g (snd kv))) lws)"
    (is "set ?A = set ?B")
proof (rule card_subset_eq)
  show "set ?A \<subseteq> set ?B"
    using rel by (force dest: map_of_SomeD)
  have "distinct (map fst ?A)" and "distinct (map fst ?B)"
    using assms(1,2) by (simp_all add: comp_def)
  then have "distinct ?A" and "distinct ?B"
    by (metis distinct_map)+
  then show "card (set ?A) = card (set ?B)"
    using assms(3) by (metis distinct_card length_map)
qed simp

lemma sort_props_eq:
  assumes "distinct (map fst kvs)" and "distinct (map fst lws)" and "length kvs = length lws"
    and "\<And>kv. kv \<in> set kvs \<Longrightarrow> \<exists>w. map_of lws (fst kv) = Some w \<and> f (snd kv) = g w"
  shows "sort_key fst (map (\<lambda>kv. (fst kv :: string, f (snd kv))) kvs)
    = sort_key fst (map (\<lambda>kv. (fst kv, g (snd kv))) lws)"
  using assms by (intro sort_key_fst_eq set_map_props_eq) (simp_all add: comp_def)

lemma canonicalize_deep_equal:
  "deep_equal a b \<Longrightarrow> wf_json a \<Longrightarrow> wf_json b \<Longrightarrow> canonicalize_json a = canonicalize_json b"
proof (induction a arbitrary: b)
  case (JArr xs)
  then obtain ys where b: "b = JArr ys" and rel: "list_all2 deep_equal xs ys"
    by (cases b) (auto simp: deep_equal_list_iff)
  have "map canonicalize_json xs = map canonicalize_json ys"
    using rel JArr by (auto simp: list_all2_conv_all_nth list_all_iff b intro!: nth_equalityI)
  then show ?case by (simp add: b)
next
  case (JObj kvs)
  then obtain lws where b: "b = JObj lws"
    by (cases b) auto
  have "\<exists>w. map_of lws (fst kv) = Some w \<and> canonicalize_json (snd kv) = canonicalize_json w"
    if "kv \<in> set kvs" for kv
  proof -
    from that JObj.prems(1) obtain w where w: "map_of lws (fst kv) = Some w" "deep_equal (snd kv) w"
      by (auto simp: b deep_equal_props_iff)
    with that JObj.prems(2,3) have "canonicalize_json (snd kv) = canonicalize_json w"
      by (intro JObj.IH [of kv]) (auto simp: b list_all_iff snds.simps dest!: map_of_SomeD)
    with w show ?thesis by blast
  qed
  then have "sort_key fst (map (\<lambda>kv. (fst kv, canonicalize_json (snd kv))) kvs)
    = sort_key fst (map (\<lambda>kv. (fst kv, canonicalize_json (snd kv))) lws)"
    using JObj.prems b by (intro sort_props_eq) auto
  then show ?case by (simp add: b)
qed auto

lemma canonical_json_deep_equal:
  "deep_equal a b \<Longrightarrow> wf_json a \<Longrightarrow> wf_json b \<Longrightarrow> canonical_json a = canonical_json b"
proof (induction a arbitrary: b)
  case (JArr xs)
  then obtain ys where b: "b = JArr ys" and rel: "list_all2 deep_equal xs ys"
    by (cases b) (auto simp: deep_equal_list_iff)
  have "map canonical_json xs = map canonical_json ys"
    using rel JArr by (auto simp: list_all2_conv_all_nth list_all_iff b intro!: nth_equalityI)
  then show ?case by (simp add: b)
next
  case (JObj kvs)
  then obtain lws where b: "b = JObj lws"
    by (cases b) auto
  have "\<exists>w. map_of lws (fst kv) = Some w \<and> canonical_json (snd kv) = canonical_json w"
    if "kv \<in> set kvs" for kv
  proof -
    from that JObj.prems(1) obtain w where w: "map_of lws (fst kv) = Some w" "deep_equal (snd kv) w"
      by (auto simp: b deep_equal_props_iff)
    with that JObj.prems(2,3) have "canonical_json (snd kv) = canonical_json w"
      by (intro JObj.IH [of kv]) (auto simp: b list_all_iff snds.simps dest!: map_of_SomeD)
    with w show ?thesis by blast
  qed
  then have "sort_key fst (map (\<lambda>kv. (fst kv, canonical_json (snd kv))) kvs)
    = sort_key fst (map (\<lambda>kv. (fst kv, canonical_json (snd kv))) lws)"
    using JObj.prems b by (intro sort_props_eq) auto
  then show ?case by (simp add: b)
qed auto

text \<open>A property named \<open>__proto__\<close> is lost by the canonical value and by the clone.\<close>

lemma canonicalize_drops_proto:
  "canonicalize_json (JObj ((''__proto__'', v) # kvs)) = canonicalize_json (JObj kvs)"
  if "''__proto__'' \<notin> set (map fst kvs)" and "distinct (map fst kvs)"
proof -
  let ?f = "\<lambda>kv. (fst kv, canonicalize_json (snd kv))"
  have *: "filter assignable (sort_key fst xs) = sort_key fst (filter assignable xs)"
    for xs :: "(string \<times> json) list"
    by (simp add: filter_sort)
  show ?thesis
    unfolding canonicalize_json.simps * by (simp add: assignable_def)
qed

lemma deep_clone_drops_proto:
  "deep_clone_json (JObj ((''__proto__'', v) # kvs)) = deep_clone_json (JObj kvs)"
  by (simp add: assignable_def)

text \<open>On values without that name a clone is the value itself.\<close>

fun no_proto :: "json \<Rightarrow> bool" where
  "no_proto (JArr xs) = list_all no_proto xs"
| "no_proto (JObj kvs) = list_all (\<lambda>kv. fst kv \<noteq> ''__proto__'' \<and> no_proto (snd kv)) kvs"
| "no_proto _ = True"

lemma deep_clone_id: "no_proto v \<Longrightarrow> deep_clone_json v = v"
proof (induction v)
  case (JArr xs)
  then show ?case by (auto simp: list_all_iff intro: map_idI)
next
  case (JObj kvs)
  then have "map (\<lambda>kv. (fst kv, deep_clone_json (snd kv))) kvs = kvs"
    by (intro map_idI) (auto simp: list_all_iff snds.simps prod_eq_iff)
  moreover have "filter assignable kvs = kvs"
    using JObj.prems by (auto simp: list_all_iff assignable_def)
  ultimately show ?case by simp
qed auto

end
