(* ===== verification/Lcim_Errors.thy ===== *)
theory Lcim_Errors
  imports Lcim_Prelude
begin

text \<open>
  The error taxonomy (src/src/shared/errors.mjs, src/src/routing/errors.mjs and the errors of
  src/src/contracts, src/src/sol, src/src/git/errors.mjs, src/src/audit and the controller): the class of an error and the part of its details the program reads or
  reports.  The prose of a message is left out, its leading code or its cause is kept.
  \<open>SystemError\<close> is an error of the operating system with its code, and \<open>OtherError\<close> one of a
  component that is a parameter, with its code when it has one.
\<close>

datatype lcim_error =
    ConfigError string
  | SchemaValidationError "issue list"
  | SchemaEngineError string string
  | TransportParseError string
  | RoutingError string
  | RouteStateError string string
  | ProviderDiscoveryError "string option"
  | BudgetExhaustedError
  | SolCommandMasqueradeError
  | ContractCompileError "issue list"
  | RepairContractError string "issue list"
  | LedgerIntegrityError "issue list"
  | LedgerFinalizedError string
  | LedgerWriteError string
  | RunStoreError string "issue list"
  | SystemError string
  | SolAskError string "issue list"
  | SolResponseError string "issue list"
  | SolRepairTicketError string "issue list"
  | GitOperationError
  | BaseMismatchError
  | ScopeViolationError
  | PathSafetyError string
  | WorktreeSafetyError
  | EvidenceError
  | ControllerError string
  | AuditError
  | PublicSafetyError
  | ProHandoffError string
  | ProIdentityError
  | ProResponseError string
  | ProRedactionError string
  | OtherError "string option"
  | TypeError

type_synonym 'a result = "lcim_error + 'a"

text \<open>\<open>err instanceof ProviderDiscoveryError\<close>.\<close>

fun is_discovery_error :: "lcim_error \<Rightarrow> bool" where
  "is_discovery_error (ProviderDiscoveryError _) = True"
| "is_discovery_error _ = False"

text \<open>\<open>err instanceof RoutingError\<close>: the class and its subclasses.\<close>

fun is_routing_error :: "lcim_error \<Rightarrow> bool" where
  "is_routing_error (RoutingError _) = True"
| "is_routing_error (RouteStateError _ _) = True"
| "is_routing_error (ProviderDiscoveryError _) = True"
| "is_routing_error BudgetExhaustedError = True"
| "is_routing_error SolCommandMasqueradeError = True"
| "is_routing_error _ = False"

text \<open>The property \<open>code\<close> of an error.\<close>

fun error_code :: "lcim_error \<Rightarrow> string option" where
  "error_code (ConfigError _) = Some ''CONFIG_INVALID''"
| "error_code (SchemaValidationError _) = Some ''SCHEMA_VALIDATION_FAILED''"
| "error_code (SchemaEngineError _ _) = Some ''SCHEMA_ENGINE_UNSUPPORTED''"
| "error_code (TransportParseError _) = Some ''TRANSPORT_PARSE_FAILED''"
| "error_code (RoutingError _) = Some ''ROUTING_DECISION_FAILED''"
| "error_code (RouteStateError _ _) = Some ''ROUTING_STATE_TRANSITION_INVALID''"
| "error_code (ProviderDiscoveryError _) = Some ''PROVIDER_DISCOVERY_FAILED''"
| "error_code BudgetExhaustedError = Some ''BUDGET_EXHAUSTED''"
| "error_code SolCommandMasqueradeError = Some ''SOL_COMMAND_MASQUERADE''"
| "error_code (ContractCompileError _) = Some ''CONTRACT_COMPILE_FAILED''"
| "error_code (RepairContractError _ _) = Some ''REPAIR_CONTRACT_INVALID''"
| "error_code (LedgerIntegrityError _) = Some ''LEDGER_INTEGRITY_VIOLATION''"
| "error_code (LedgerFinalizedError _) = Some ''LEDGER_FINALIZED''"
| "error_code (LedgerWriteError _) = Some ''LEDGER_WRITE_FAILED''"
| "error_code (RunStoreError _ _) = Some ''RUN_STORE_INVALID''"
| "error_code (SystemError c) = Some c"
| "error_code (SolAskError c _) = Some c"
| "error_code (SolResponseError c _) = Some c"
| "error_code (SolRepairTicketError c _) = Some c"
| "error_code GitOperationError = Some ''GIT_OPERATION_FAILED''"
| "error_code BaseMismatchError = Some ''BASE_MISMATCH''"
| "error_code ScopeViolationError = Some ''SCOPE_VIOLATION''"
| "error_code (PathSafetyError _) = Some ''PATH_SAFETY_VIOLATION''"
| "error_code WorktreeSafetyError = Some ''WORKTREE_SAFETY_VIOLATION''"
| "error_code EvidenceError = Some ''EVIDENCE_INVALID''"
| "error_code (ControllerError c) = Some c"
| "error_code AuditError = Some ''AUDIT_FAILED''"
| "error_code PublicSafetyError = Some ''PUBLIC_SAFETY_VIOLATION''"
| "error_code (ProHandoffError c) = Some c"
| "error_code ProIdentityError = Some ''PRO_IDENTITY_MISMATCH''"
| "error_code (ProResponseError c) = Some c"
| "error_code (ProRedactionError c) = Some c"
| "error_code (OtherError c) = c"
| "error_code TypeError = None"

end
