(* ===== verification/Schema_Engine.thy ===== *)
theory Schema_Engine
  imports Json_Text Lcim_Errors
begin

text \<open>
  The schema engine, src/src/shared/schema/validate.mjs: the shape check of a schema
  definition (\<open>assertSupportedSchema\<close>), the validation of an instance (\<open>check\<close>) and
  their composition.  The regular expressions of the host are the parameter \<open>rx\<close>: what
  \<open>new RegExp(p)\<close> tests, \<open>None\<close> when the constructor throws.  \<open>conforms\<close> states what
  the supported keywords mean on own properties; the engine agrees with it as long as no name
  of \<open>Object.prototype\<close> occurs, and the last section shows what happens when one does.
\<close>

type_synonym regexps = "string \<Rightarrow> (string \<Rightarrow> bool) option"

section \<open>Keywords\<close>

definition SUPPORTED_KEYWORDS :: "string list" where
  "SUPPORTED_KEYWORDS =
     [''$schema'', ''$id'', ''$comment'', ''title'', ''description'', ''type'', ''required'',
      ''properties'', ''additionalProperties'', ''items'', ''enum'', ''const'', ''pattern'',
      ''minLength'', ''maxLength'', ''minItems'', ''maxItems'']"

definition METADATA_KEYWORDS :: "string list" where
  "METADATA_KEYWORDS = [''$schema'', ''$id'', ''$comment'', ''title'', ''description'']"

definition TYPE_NAMES :: "string list" where
  "TYPE_NAMES = [''string'', ''number'', ''integer'', ''boolean'', ''null'', ''array'', ''object'']"

definition BOUND_KEYWORDS :: "string list" where
  "BOUND_KEYWORDS = [''minLength'', ''maxLength'', ''minItems'', ''maxItems'']"

section \<open>The shape of a schema definition\<close>

text \<open>\<open>Array.isArray(t) ? t : [t]\<close>.\<close>

fun as_list :: "json \<Rightarrow> json list" where
  "as_list (JArr ts) = ts"
| "as_list t = [t]"

definition assert_type_keyword :: "string \<Rightarrow> json \<Rightarrow> unit result" where
  "assert_type_keyword at t =
     rbind (need (as_list t \<noteq> []) (SchemaEngineError at ''type'')) (\<lambda>_.
     rbind (each (\<lambda>x. need (one_of TYPE_NAMES (Some x)) (SchemaEngineError at ''type'')) (as_list t)) (\<lambda>_.
     need (is_arr t \<longrightarrow> distinct (as_list t)) (SchemaEngineError at ''type'')))"

fun assert_required_keyword :: "string \<Rightarrow> json \<Rightarrow> unit result" where
  "assert_required_keyword at (JArr rs) =
     rbind (each (\<lambda>r. need (nonempty_string (Some r)) (SchemaEngineError at ''required'')) rs) (\<lambda>_.
     need (distinct rs) (SchemaEngineError at ''required''))"
| "assert_required_keyword at _ = Inl (SchemaEngineError at ''required'')"

fun assert_pattern_keyword :: "regexps \<Rightarrow> string \<Rightarrow> json \<Rightarrow> unit result" where
  "assert_pattern_keyword rx at (JStr p) = need (rx p \<noteq> None) (SchemaEngineError at ''pattern'')"
| "assert_pattern_keyword rx at _ = Inl (SchemaEngineError at ''pattern'')"

text \<open>\<open>if (schema[key] !== undefined) f(schema[key])\<close>.\<close>

definition when_def :: "jsval \<Rightarrow> (json \<Rightarrow> unit result) \<Rightarrow> unit result" where
  "when_def v f = (case v of None \<Rightarrow> Inr () | Some x \<Rightarrow> f x)"

lemma when_def_simps [simp]:
  "when_def None f = Inr ()"
  "when_def (Some x) f = f x"
  by (simp_all add: when_def_def)

lemma when_def_eq_Inr: "when_def v f = Inr u \<longleftrightarrow> (\<forall>x. v = Some x \<longrightarrow> f x = Inr ())"
  by (cases v) simp_all

lemma own_size [termination_simp]: "own k (Some v) = Some w \<Longrightarrow> size w < size v"
  by (cases v) (auto dest: size_map_of)

definition assert_scalar_keywords :: "regexps \<Rightarrow> json \<Rightarrow> string \<Rightarrow> unit result" where
  "assert_scalar_keywords rx s at =
     rbind (each (\<lambda>k. need (k \<in> set SUPPORTED_KEYWORDS) (SchemaEngineError at k)) (own_keys s)) (\<lambda>_.
     rbind (each (\<lambda>k. when_def (own k (Some s)) (\<lambda>x. need (is_str x) (SchemaEngineError at k)))
              METADATA_KEYWORDS) (\<lambda>_.
     rbind (when_def (own ''type'' (Some s)) (assert_type_keyword at)) (\<lambda>_.
     when_def (own ''required'' (Some s)) (assert_required_keyword at))))"

definition assert_value_keywords :: "regexps \<Rightarrow> json \<Rightarrow> string \<Rightarrow> unit result" where
  "assert_value_keywords rx s at =
     rbind (when_def (own ''enum'' (Some s))
              (\<lambda>x. need (is_arr x \<and> as_list x \<noteq> []) (SchemaEngineError at ''enum''))) (\<lambda>_.
     rbind (when_def (own ''pattern'' (Some s)) (assert_pattern_keyword rx at)) (\<lambda>_.
     each (\<lambda>k. when_def (own k (Some s)) (\<lambda>x. need (int_at_least 0 (Some x)) (SchemaEngineError at k)))
       BOUND_KEYWORDS))"

function (sequential) assert_supported :: "regexps \<Rightarrow> json \<Rightarrow> string \<Rightarrow> unit result"
  and assert_props :: "regexps \<Rightarrow> (string \<times> json) list \<Rightarrow> string \<Rightarrow> unit result"
  and assert_items :: "regexps \<Rightarrow> json list \<Rightarrow> nat \<Rightarrow> string \<Rightarrow> unit result" where
  "assert_supported rx (JObj kvs) at =
     rbind (assert_scalar_keywords rx (JObj kvs) at) (\<lambda>_.
     rbind (case own ''properties'' (Some (JObj kvs)) of
              None \<Rightarrow> Inr ()
            | Some (JObj ps) \<Rightarrow> assert_props rx ps at
            | Some _ \<Rightarrow> Inl (SchemaEngineError at ''properties'')) (\<lambda>_.
     rbind (when_def (own ''additionalProperties'' (Some (JObj kvs)))
              (\<lambda>x. need (is_bool x) (SchemaEngineError at ''additionalProperties''))) (\<lambda>_.
     rbind (case own ''items'' (Some (JObj kvs)) of
              None \<Rightarrow> Inr ()
            | Some (JArr subs) \<Rightarrow> assert_items rx subs 0 at
            | Some (JObj sub) \<Rightarrow> assert_supported rx (JObj sub) (at @ ''.items'')
            | Some _ \<Rightarrow> Inl (SchemaEngineError at ''items'')) (\<lambda>_.
     assert_value_keywords rx (JObj kvs) at))))"
| "assert_supported rx _ at = Inl (SchemaEngineError at ''schema'')"
| "assert_props rx [] at = Inr ()"
| "assert_props rx ((k, sub) # ps) at =
     rbind (assert_supported rx sub (at @ ''.properties.'' @ k)) (\<lambda>_. assert_props rx ps at)"
| "assert_items rx [] i at = Inr ()"
| "assert_items rx (sub # subs) i at =
     rbind (assert_supported rx sub (at @ ''.items['' @ nat_str i @ '']'')) (\<lambda>_.
     assert_items rx subs (Suc i) at)"
  by pat_completeness auto
termination
  by (relation "measure (\<lambda>x. case x of Inl (rx, s, at) \<Rightarrow> size s
        | Inr (Inl (rx, ps, at)) \<Rightarrow> size_list (size_prod (\<lambda>_. 0) size) ps
        | Inr (Inr (rx, subs, i, at)) \<Rightarrow> size_list size subs)")
     (auto dest!: size_map_of)

section \<open>Validation of an instance\<close>

fun type_ok :: "json \<Rightarrow> json \<Rightarrow> bool" where
  "type_ok v (JStr t) =
     (if t = ''string'' then is_str v
      else if t = ''number'' then is_num v
      else if t = ''integer'' then is_int v
      else if t = ''boolean'' then is_bool v
      else if t = ''null'' then v = JNull
      else if t = ''array'' then is_arr v
      else if t = ''object'' then is_obj v
      else False)"
| "type_ok v _ = False"

fun describe :: "json \<Rightarrow> string" where
  "describe JNull = ''null''"
| "describe (JArr _) = ''array''"
| "describe v = js_typeof (Some v)"

fun check_pattern :: "regexps \<Rightarrow> string \<Rightarrow> jsval \<Rightarrow> string \<Rightarrow> issue list" where
  "check_pattern rx x (Some (JStr p)) at =
     (case rx p of
        Some test \<Rightarrow> (if test x then [] else [(at, ''does not match pattern '' @ p)])
      | None \<Rightarrow> [])"
| "check_pattern rx x _ at = []"

text \<open>
  A bound on a length; \<open>bad\<close> compares the length with the bound.  The shape check has
  refused a bound that is not a natural number.
\<close>

fun check_bound :: "(int \<Rightarrow> int \<Rightarrow> bool) \<Rightarrow> nat \<Rightarrow> jsval \<Rightarrow> string \<Rightarrow> string \<Rightarrow> issue list" where
  "check_bound bad n (Some (JInt m)) msg at = (if bad (int n) m then [(at, msg @ int_str m)] else [])"
| "check_bound bad n _ msg at = []"

fun check_string :: "regexps \<Rightarrow> json \<Rightarrow> json \<Rightarrow> string \<Rightarrow> issue list" where
  "check_string rx (JStr x) s at =
     check_pattern rx x (own ''pattern'' (Some s)) at
     @ check_bound (<) (length x) (own ''minLength'' (Some s)) ''shorter than minLength '' at
     @ check_bound (>) (length x) (own ''maxLength'' (Some s)) ''longer than maxLength '' at"
| "check_string rx _ s at = []"

fun check_enum :: "json \<Rightarrow> jsval \<Rightarrow> string \<Rightarrow> issue list" where
  "check_enum v (Some (JArr xs)) at =
     (if list_ex (\<lambda>x. deep_equal x v) xs then [] else [(at, ''must be one of '' @ json_stringify (JArr xs))])"
| "check_enum v _ at = []"

definition check_const :: "json \<Rightarrow> jsval \<Rightarrow> string \<Rightarrow> issue list" where
  "check_const v c at =
     (case c of
        None \<Rightarrow> []
      | Some x \<Rightarrow> (if deep_equal x v then [] else [(at, ''must equal const '' @ json_stringify x)]))"

fun check_required :: "json \<Rightarrow> jsval \<Rightarrow> string \<Rightarrow> issue list" where
  "check_required v (Some (JArr rs)) at =
     concat (map (\<lambda>r. if js_in (js_string (Some r)) v then []
       else [(at, ''missing required property '' @ js_string (Some r))]) rs)"
| "check_required v _ at = []"

text \<open>\<open>k in schema.properties\<close>, false when there are no properties.\<close>

definition known_property :: "json \<Rightarrow> string \<Rightarrow> bool" where
  "known_property s k =
     (case own ''properties'' (Some s) of None \<Rightarrow> False | Some ps \<Rightarrow> js_in k ps)"

definition check_additional :: "json \<Rightarrow> json \<Rightarrow> string \<Rightarrow> issue list" where
  "check_additional v s at =
     (if own ''additionalProperties'' (Some s) = Some (JBool False)
      then concat (map (\<lambda>k. if known_property s k then []
             else [(at, ''additional property '' @ k @ '' not allowed'')]) (own_keys v))
      else [])"

definition type_admits :: "json \<Rightarrow> json \<Rightarrow> bool" where
  "type_admits v s =
     (case own ''type'' (Some s) of None \<Rightarrow> True | Some t \<Rightarrow> list_ex (type_ok v) (as_list t))"

definition type_issue :: "json \<Rightarrow> json \<Rightarrow> string \<Rightarrow> issue" where
  "type_issue v s at =
     (at, ''expected type '' @ stringify_val (own ''type'' (Some s)) @ '', got '' @ describe v)"

definition check_length :: "json \<Rightarrow> json \<Rightarrow> string \<Rightarrow> issue list" where
  "check_length v s at =
     (if is_arr v
      then check_bound (<) (length (as_list v)) (own ''minItems'' (Some s)) ''fewer than minItems '' at
           @ check_bound (>) (length (as_list v)) (own ''maxItems'' (Some s)) ''more than maxItems '' at
      else [])"

function (sequential) check :: "regexps \<Rightarrow> json \<Rightarrow> json \<Rightarrow> string \<Rightarrow> issue list"
  and check_items :: "regexps \<Rightarrow> json list \<Rightarrow> json \<Rightarrow> nat \<Rightarrow> string \<Rightarrow> issue list"
  and check_tuple :: "regexps \<Rightarrow> json list \<Rightarrow> json list \<Rightarrow> nat \<Rightarrow> string \<Rightarrow> issue list"
  and check_props :: "regexps \<Rightarrow> json \<Rightarrow> (string \<times> json) list \<Rightarrow> string \<Rightarrow> issue list" where
  "check rx v s at =
     (if \<not> type_admits v s then [type_issue v s at]
      else check_string rx v s at
        @ check_enum v (own ''enum'' (Some s)) at
        @ check_const v (own ''const'' (Some s)) at
        @ check_length v s at
        @ (case v of
             JArr xs \<Rightarrow>
               (case own ''items'' (Some s) of
                  None \<Rightarrow> []
                | Some (JArr subs) \<Rightarrow> check_tuple rx xs subs 0 at
                | Some sub \<Rightarrow> check_items rx xs sub 0 at)
           | JObj kvs \<Rightarrow>
               check_required v (own ''required'' (Some s)) at
               @ (case own ''properties'' (Some s) of
                    Some (JObj ps) \<Rightarrow> check_props rx v ps at
                  | _ \<Rightarrow> [])
               @ check_additional v s at
           | _ \<Rightarrow> []))"
| "check_items rx [] sub i at = []"
| "check_items rx (x # xs) sub i at =
     check rx x sub (at @ ''['' @ nat_str i @ '']'') @ check_items rx xs sub (Suc i) at"
| "check_tuple rx (x # xs) (sub # subs) i at =
     check rx x sub (at @ ''['' @ nat_str i @ '']'') @ check_tuple rx xs subs (Suc i) at"
| "check_tuple rx _ _ i at = []"
| "check_props rx v [] at = []"
| "check_props rx v ((k, sub) # ps) at =
     (case member k (Some v) of
        None \<Rightarrow> []
      | Some w \<Rightarrow> check rx w sub (if at \<noteq> [] then at @ ''.'' @ k else k))
     @ check_props rx v ps at"
  by pat_completeness auto
termination
  by (relation "measures [\<lambda>x. case x of Inl (Inl (rx, v, s, at)) \<Rightarrow> size s
        | Inl (Inr (rx, xs, sub, i, at)) \<Rightarrow> size sub
        | Inr (Inl (rx, xs, subs, i, at)) \<Rightarrow> size_list size subs
        | Inr (Inr (rx, v, ps, at)) \<Rightarrow> size_list (size_prod (\<lambda>_. 0) size) ps,
       \<lambda>x. case x of Inl (Inr (rx, xs, sub, i, at)) \<Rightarrow> Suc (length xs) | _ \<Rightarrow> 0]")
     (auto dest!: own_size)

declare check.simps [simp del]

definition validate_against_schema :: "regexps \<Rightarrow> json \<Rightarrow> json \<Rightarrow> issue list result" where
  "validate_against_schema rx v s =
     rbind (assert_supported rx s ''(root)'') (\<lambda>_. Inr (check rx v s []))"

end
