(* ===== verification/Lcim_Patterns.thy ===== *)
theory Lcim_Patterns
  imports Schema_Engine
begin

text \<open>
  The regular expressions of the program: the patterns of the schemas under src/schemas and
  the id patterns of src/src/shared/ids.mjs and its siblings, each as a predicate on strings,
  and the table \<open>lcim_regexps\<close> that the schema engine reads them from.  All of them are
  anchored at both ends.
\<close>

definition digit_char :: "char \<Rightarrow> bool" where
  "digit_char c \<longleftrightarrow> CHR ''0'' \<le> c \<and> c \<le> CHR ''9''"

definition lower_char :: "char \<Rightarrow> bool" where
  "lower_char c \<longleftrightarrow> CHR ''a'' \<le> c \<and> c \<le> CHR ''z''"

definition upper_char :: "char \<Rightarrow> bool" where
  "upper_char c \<longleftrightarrow> CHR ''A'' \<le> c \<and> c \<le> CHR ''Z''"

definition hex_char :: "char \<Rightarrow> bool" where
  "hex_char c \<longleftrightarrow> digit_char c \<or> (CHR ''a'' \<le> c \<and> c \<le> CHR ''f'')"

text \<open>\<open>^[0-9a-f]{n}$\<close>, also behind a literal prefix.\<close>

definition hex_text :: "nat \<Rightarrow> string \<Rightarrow> bool" where
  "hex_text n s \<longleftrightarrow> length s = n \<and> list_all hex_char s"

definition prefixed_hex :: "string \<Rightarrow> nat \<Rightarrow> string \<Rightarrow> bool" where
  "prefixed_hex p n s \<longleftrightarrow> take (length p) s = p \<and> hex_text n (drop (length p) s)"

text \<open>The ids of src/src/shared/ids.mjs.\<close>

definition ID_PREFIXES :: "(string \<times> string) list" where
  "ID_PREFIXES = [(''run'', ''lcim_run_''), (''invocation'', ''lcim_inv_''),
     (''work-unit'', ''lcim_wu_''), (''finding'', ''lcim_finding_'')]"

text \<open>
  The guard tests the kind with \<open>in\<close>; every caller passes one of the four literals, so the
  members of \<open>Object.prototype\<close> it would also admit are left out.
\<close>

definition isValidId :: "string \<Rightarrow> jsval \<Rightarrow> bool" where
  "isValidId kind v =
     (case map_of ID_PREFIXES kind of
        None \<Rightarrow> False
      | Some p \<Rightarrow> (case v of Some (JStr s) \<Rightarrow> prefixed_hex p 32 s | _ \<Rightarrow> False))"

definition isValidRouteDecisionId :: "jsval \<Rightarrow> bool" where
  "isValidRouteDecisionId v = (case v of Some (JStr s) \<Rightarrow> prefixed_hex ''lcim_route_'' 32 s | _ \<Rightarrow> False)"

definition isValidRepairId :: "jsval \<Rightarrow> bool" where
  "isValidRepairId v = (case v of Some (JStr s) \<Rightarrow> prefixed_hex ''lcim_repair_'' 32 s | _ \<Rightarrow> False)"

definition isValidSideEffectId :: "jsval \<Rightarrow> bool" where
  "isValidSideEffectId v = (case v of Some (JStr s) \<Rightarrow> prefixed_hex ''se_'' 64 s | _ \<Rightarrow> False)"

text \<open>A shape: \<open>9\<close> stands for a digit, any other character for itself.\<close>

fun shaped :: "string \<Rightarrow> string \<Rightarrow> bool" where
  "shaped [] [] = True"
| "shaped (p # ps) (c # cs) =
     ((if p = CHR ''9'' then digit_char c else c = p) \<and> shaped ps cs)"
| "shaped _ _ = False"

fun skip_fraction :: "string \<Rightarrow> string" where
  "skip_fraction (c # d # cs) =
     (if c = CHR ''.'' \<and> digit_char d then dropWhile digit_char cs else c # d # cs)"
| "skip_fraction s = s"

definition timestamp_text :: "string \<Rightarrow> bool" where
  "timestamp_text s \<longleftrightarrow>
     shaped ''9999-99-99T99:99:99'' (take 19 s) \<and>
     (let z = skip_fraction (drop 19 s) in z = ''Z'' \<or> shaped ''+99:99'' z \<or> shaped ''-99:99'' z)"

text \<open>A first character of one class and then up to \<open>n\<close> of another, \<open>None\<close> for no limit.\<close>

definition word_text :: "(char \<Rightarrow> bool) \<Rightarrow> (char \<Rightarrow> bool) \<Rightarrow> nat option \<Rightarrow> string \<Rightarrow> bool" where
  "word_text first rest n s =
     (case s of
        [] \<Rightarrow> False
      | c # cs \<Rightarrow> first c \<and> list_all rest cs \<and> (case n of None \<Rightarrow> True | Some m \<Rightarrow> length cs \<le> m))"

definition key_text :: "string \<Rightarrow> bool" where
  "key_text = word_text (\<lambda>c. lower_char c \<or> digit_char c)
     (\<lambda>c. lower_char c \<or> digit_char c \<or> c \<in> {CHR ''.'', CHR ''_'', CHR ''-''}) (Some 127)"

definition enum_text :: "string \<Rightarrow> bool" where
  "enum_text = word_text upper_char (\<lambda>c. upper_char c \<or> digit_char c \<or> c = CHR ''_'') None"

definition camel_text :: "string \<Rightarrow> bool" where
  "camel_text = word_text lower_char
     (\<lambda>c. lower_char c \<or> upper_char c \<or> digit_char c \<or> c = CHR ''_'') None"

definition field_text :: "string \<Rightarrow> bool" where
  "field_text = word_text lower_char
     (\<lambda>c. lower_char c \<or> upper_char c \<or> digit_char c \<or> c \<in> {CHR ''.'', CHR ''_'', CHR ''-''}) (Some 63)"

text \<open>\<open>^[0-9]+\.[0-9]+\.[0-9]+(-[0-9A-Za-z.-]+)?$\<close>: numbers separated by dots, then a suffix.\<close>

definition after_number :: "string \<Rightarrow> string option" where
  "after_number s = (if takeWhile digit_char s = [] then None else Some (dropWhile digit_char s))"

definition after_char :: "char \<Rightarrow> string \<Rightarrow> string option" where
  "after_char c s = (if s \<noteq> [] \<and> hd s = c then Some (tl s) else None)"

definition suffix_text :: "string \<Rightarrow> bool" where
  "suffix_text s = word_text (\<lambda>c. c = CHR ''-'')
     (\<lambda>c. lower_char c \<or> upper_char c \<or> digit_char c \<or> c \<in> {CHR ''.'', CHR ''-''}) None s"

definition version_text :: "string \<Rightarrow> bool" where
  "version_text s =
     (case Option.bind (after_number s) (\<lambda>a. Option.bind (after_char (CHR ''.'') a)
        (\<lambda>b. Option.bind (after_number b) (\<lambda>c. Option.bind (after_char (CHR ''.'') c) after_number))) of
        None \<Rightarrow> False
      | Some t \<Rightarrow> t = [] \<or> (suffix_text t \<and> 2 \<le> length t))"

section \<open>The table\<close>

definition PATTERNS :: "(string \<times> (string \<Rightarrow> bool)) list" where
  "PATTERNS =
     [(''^lcim_wu_[0-9a-f]{32}$'', prefixed_hex ''lcim_wu_'' 32),
      (''^lcim_run_[0-9a-f]{32}$'', prefixed_hex ''lcim_run_'' 32),
      (''^lcim_inv_[0-9a-f]{32}$'', prefixed_hex ''lcim_inv_'' 32),
      (''^lcim_finding_[0-9a-f]{32}$'', prefixed_hex ''lcim_finding_'' 32),
      (''^lcim_route_[0-9a-f]{32}$'', prefixed_hex ''lcim_route_'' 32),
      (''^lcim_repair_[0-9a-f]{32}$'', prefixed_hex ''lcim_repair_'' 32),
      (''^se_[0-9a-f]{64}$'', prefixed_hex ''se_'' 64),
      (''^lcim_sol_ask_[0-9a-f]{32}$'', prefixed_hex ''lcim_sol_ask_'' 32),
      (''^lcim_sol_resp_[0-9a-f]{32}$'', prefixed_hex ''lcim_sol_resp_'' 32),
      (''^[0-9a-f]{64}$'', hex_text 64),
      (''^[0-9a-f]{40}$'', hex_text 40),
      (''^[a-z0-9][a-z0-9._-]{0,127}$'', key_text),
      (''^[a-z][a-zA-Z0-9._-]{0,63}$'', field_text),
      (''^[a-z][a-zA-Z0-9_]*$'', camel_text),
      (''^[A-Z][A-Z0-9_]*$'', enum_text),
      (''^[0-9]{4}-[0-9]{2}-[0-9]{2}T[0-9]{2}:[0-9]{2}:[0-9]{2}('' @ [CHR 0x5C] @
         ''.[0-9]+)?(Z|[+-][0-9]{2}:[0-9]{2})$'', timestamp_text),
      (''^[0-9]+'' @ [CHR 0x5C] @ ''.[0-9]+'' @ [CHR 0x5C] @ ''.[0-9]+(-[0-9A-Za-z.-]+)?$'', version_text),
      (''^lcim_ev_[0-9a-f]{32}$'', prefixed_hex ''lcim_ev_'' 32),
      (''^lcim_wt_[0-9a-f]{32}$'', prefixed_hex ''lcim_wt_'' 32),
      (''^lcim_patch_[0-9a-f]{32}$'', prefixed_hex ''lcim_patch_'' 32),
      (''^lcim_sol_pro_esc_[0-9a-f]{32}$'', prefixed_hex ''lcim_sol_pro_esc_'' 32),
      (''^lcim_sol_pro_resp_[0-9a-f]{32}$'', prefixed_hex ''lcim_sol_pro_resp_'' 32)]"

definition lcim_regexps :: regexps where
  "lcim_regexps p = map_of PATTERNS p"

lemmas pattern_simps =
  prefixed_hex_def hex_text_def hex_char_def digit_char_def lower_char_def upper_char_def
  word_text_def key_text_def enum_text_def camel_text_def field_text_def
  timestamp_text_def version_text_def after_number_def after_char_def suffix_text_def less_eq_char_def

end
