(* ===== verification/Lcim_Schemas.thy ===== *)
theory Lcim_Schemas
  imports Lcim_Patterns
begin

text \<open>
  The schema files under src/schemas that the modelled components load, as the values that
  JSON.parse reads from them, generated from the files.  The prose keywords \<open>$comment\<close> and
  \<open>description\<close>, which the engine requires to be strings and then ignores, are left out.
\<close>

text \<open>src/schemas/semantic-contract.v2.schema.json.\<close>

definition SEMANTIC_CONTRACT_SCHEMA :: json where
  "SEMANTIC_CONTRACT_SCHEMA =
    JObj [
      (''$schema'', JStr ''https://json-schema.org/draft/2020-12/schema''),
      (''$id'', JStr ''https://lcim.local/schemas/semantic-contract.v2.schema.json''),
      (''title'', JStr ''LCIM V2 semantic contract''),
      (''type'', JStr ''object''),
      (''additionalProperties'', JBool False),
      (''required'', JArr [JStr ''schemaName'', JStr ''schemaVersion'', JStr ''contractKey'', JStr ''title'',
          JStr ''compileStatus'', JStr ''riskClass'', JStr ''compiledAt'',
          JStr ''semanticDigest'', JStr ''sourceObjects'', JStr ''concepts'',
          JStr ''distinctConcepts'', JStr ''negativeSideEffects'', JStr ''factsEstablished'',
          JStr ''unresolvedSemantics'']),
      (''properties'', JObj [
          (''schemaName'', JObj [(''const'', JStr ''lcim.semantic-contract'')]),
          (''schemaVersion'', JObj [(''const'', JStr ''2.0.0'')]),
          (''contractKey'', JObj [
              (''type'', JStr ''string''),
              (''pattern'', JStr ''^[a-z0-9][a-z0-9._-]{0,127}$'')]),
          (''title'', JObj [
              (''type'', JStr ''string''),
              (''minLength'', JInt 1),
              (''maxLength'', JInt 200)]),
          (''compileStatus'', JObj [(''enum'', JArr [JStr ''COMPILED'', JStr ''CONTRACT_REVIEW_REQUIRED''])]),
          (''riskClass'', JObj [
              (''enum'', JArr [JStr ''AUTHORIZATION_SECURITY_PROVIDER'', JStr ''MIGRATION'', JStr ''IDENTITY'',
                  JStr ''FINANCIAL'', JStr ''PRODUCTION_EXECUTION'',
                  JStr ''IRREVERSIBLE_LIFECYCLE_DATA'', JStr ''LOW_RISK''])]),
          (''compiledAt'', JObj [
              (''type'', JStr ''string''),
              (''pattern'', JStr (''^[0-9]{4}-[0-9]{2}-[0-9]{2}T[0-9]{2}:[0-9]{2}:[0-9]{2}('' @ [CHR 0x5C] @ ''.[0-9]+)?(Z|[+-][0-9]{2}:[0-9]{2})$''))]),
          (''semanticDigest'', JObj [(''type'', JStr ''string''), (''pattern'', JStr ''^[0-9a-f]{64}$'')]),
          (''sourceObjects'', JObj [
              (''type'', JStr ''array''),
              (''minItems'', JInt 1),
              (''items'', JObj [
                  (''type'', JStr ''object''),
                  (''additionalProperties'', JBool False),
                  (''required'', JArr [JStr ''key'', JStr ''kind'', JStr ''ref'', JStr ''authority'']),
                  (''properties'', JObj [
                      (''key'', JObj [
                          (''type'', JStr ''string''),
                          (''pattern'', JStr ''^[a-z0-9][a-z0-9._-]{0,127}$'')]),
                      (''kind'', JObj [
                          (''enum'', JArr [JStr ''schema'', JStr ''record'', JStr ''config'', JStr ''fixture'',
                              JStr ''documentation'', JStr ''evidence''])]),
                      (''ref'', JObj [
                          (''type'', JStr ''string''),
                          (''minLength'', JInt 1),
                          (''maxLength'', JInt 300)]),
                      (''path'', JObj [(''type'', JStr ''string''), (''maxLength'', JInt 300)]),
                      (''authority'', JObj [
                          (''type'', JStr ''string''),
                          (''minLength'', JInt 1),
                          (''maxLength'', JInt 300)])])])]),
          (''concepts'', JObj [
              (''type'', JStr ''array''),
              (''minItems'', JInt 1),
              (''items'', JObj [
                  (''type'', JStr ''object''),
                  (''additionalProperties'', JBool False),
                  (''required'', JArr [JStr ''name'', JStr ''kind'', JStr ''authoritativeFieldNames'', JStr ''ownership'']),
                  (''properties'', JObj [
                      (''name'', JObj [
                          (''type'', JStr ''string''),
                          (''pattern'', JStr ''^[a-z][a-zA-Z0-9_]*$'')]),
                      (''kind'', JObj [
                          (''enum'', JArr [JStr ''field'', JStr ''record'', JStr ''digest'', JStr ''identity'', JStr ''registry'',
                              JStr ''ticker'', JStr ''timestamp'', JStr ''enum'',
                              JStr ''provider'', JStr ''mutation'', JStr ''gate''])]),
                      (''authoritativeFieldNames'', JObj [
                          (''type'', JStr ''array''),
                          (''minItems'', JInt 1),
                          (''items'', JObj [
                              (''type'', JStr ''string''),
                              (''minLength'', JInt 1),
                              (''maxLength'', JInt 200)])]),
                      (''authoritativeEnum'', JObj [
                          (''type'', JStr ''array''),
                          (''minItems'', JInt 1),
                          (''items'', JObj [
                              (''type'', JStr ''string''),
                              (''minLength'', JInt 1),
                              (''maxLength'', JInt 100)])]),
                      (''digestMeaning'', JObj [(''type'', JStr ''string''), (''maxLength'', JInt 500)]),
                      (''identityMeaning'', JObj [(''type'', JStr ''string''), (''maxLength'', JInt 500)]),
                      (''dateTimeRepresentation'', JObj [(''type'', JStr ''string''), (''maxLength'', JInt 300)]),
                      (''ownership'', JObj [
                          (''type'', JStr ''string''),
                          (''minLength'', JInt 1),
                          (''maxLength'', JInt 300)]),
                      (''lifecycle'', JObj [
                          (''type'', JStr ''array''),
                          (''minItems'', JInt 1),
                          (''items'', JObj [
                              (''type'', JStr ''string''),
                              (''minLength'', JInt 1),
                              (''maxLength'', JInt 100)])]),
                      (''allowedTransitions'', JObj [
                          (''type'', JStr ''array''),
                          (''items'', JObj [
                              (''type'', JStr ''object''),
                              (''additionalProperties'', JBool False),
                              (''required'', JArr [JStr ''from'', JStr ''to'']),
                              (''properties'', JObj [
                                  (''from'', JObj [
                                      (''type'', JStr ''string''),
                                      (''minLength'', JInt 1),
                                      (''maxLength'', JInt 100)]),
                                  (''to'', JObj [
                                      (''type'', JStr ''string''),
                                      (''minLength'', JInt 1),
                                      (''maxLength'', JInt 100)]),
                                  (''condition'', JObj [
                                      (''type'', JStr ''string''),
                                      (''maxLength'', JInt 500)])])])]),
                      (''forbiddenAlternatives'', JObj [
                          (''type'', JStr ''array''),
                          (''items'', JObj [
                              (''type'', JStr ''string''),
                              (''minLength'', JInt 1),
                              (''maxLength'', JInt 200)])]),
                      (''sourceObjectKey'', JObj [
                          (''type'', JStr ''string''),
                          (''pattern'', JStr ''^[a-z0-9][a-z0-9._-]{0,127}$'')]),
                      (''failureBehavior'', JObj [(''type'', JStr ''string''), (''maxLength'', JInt 500)]),
                      (''notes'', JObj [(''type'', JStr ''string''), (''maxLength'', JInt 500)])])])]),
          (''distinctConcepts'', JObj [
              (''type'', JStr ''array''),
              (''items'', JObj [
                  (''type'', JStr ''object''),
                  (''additionalProperties'', JBool False),
                  (''required'', JArr [JStr ''conceptA'', JStr ''conceptB'', JStr ''mustNotConflate'', JStr ''severity'']),
                  (''properties'', JObj [
                      (''conceptA'', JObj [
                          (''type'', JStr ''string''),
                          (''minLength'', JInt 1),
                          (''maxLength'', JInt 200)]),
                      (''conceptB'', JObj [
                          (''type'', JStr ''string''),
                          (''minLength'', JInt 1),
                          (''maxLength'', JInt 200)]),
                      (''mustNotConflate'', JObj [
                          (''type'', JStr ''string''),
                          (''minLength'', JInt 1),
                          (''maxLength'', JInt 500)]),
                      (''severity'', JObj [(''enum'', JArr [JStr ''WARNING'', JStr ''CRITICAL''])]),
                      (''warnIfSameValue'', JObj [(''type'', JStr ''boolean'')]),
                      (''alsoDistinctFrom'', JObj [
                          (''type'', JStr ''array''),
                          (''items'', JObj [
                              (''type'', JStr ''string''),
                              (''minLength'', JInt 1),
                              (''maxLength'', JInt 200)])])])])]),
          (''negativeSideEffects'', JObj [
              (''type'', JStr ''array''),
              (''items'', JObj [
                  (''type'', JStr ''object''),
                  (''additionalProperties'', JBool False),
                  (''required'', JArr [JStr ''gate'', JStr ''scope'', JStr ''requirement'', JStr ''expectedCount'',
                      JStr ''sideEffectId'']),
                  (''properties'', JObj [
                      (''gate'', JObj [
                          (''type'', JStr ''string''),
                          (''minLength'', JInt 1),
                          (''maxLength'', JInt 300)]),
                      (''scope'', JObj [
                          (''enum'', JArr [JStr ''provider_factory'', JStr ''network'', JStr ''database'', JStr ''lock'',
                              JStr ''mutation''])]),
                      (''requirement'', JObj [
                          (''type'', JStr ''string''),
                          (''minLength'', JInt 1),
                          (''maxLength'', JInt 500)]),
                      (''expectedCount'', JObj [(''type'', JStr ''integer'')]),
                      (''sideEffectId'', JObj [
                          (''type'', JStr ''string''),
                          (''pattern'', JStr ''^se_[0-9a-f]{64}$'')]),
                      (''evidenceKind'', JObj [
                          (''enum'', JArr [JStr ''instrumented_counter'', JStr ''audit_log'', JStr ''transaction_count'',
                              JStr ''lock_acquire_count''])])])])]),
          (''factsEstablished'', JObj [
              (''type'', JStr ''array''),
              (''items'', JObj [
                  (''type'', JStr ''object''),
                  (''additionalProperties'', JBool False),
                  (''required'', JArr [JStr ''fact'', JStr ''evidence'']),
                  (''properties'', JObj [
                      (''fact'', JObj [
                          (''type'', JStr ''string''),
                          (''minLength'', JInt 1),
                          (''maxLength'', JInt 500)]),
                      (''evidence'', JObj [
                          (''type'', JStr ''string''),
                          (''minLength'', JInt 1),
                          (''maxLength'', JInt 500)])])])]),
          (''unresolvedSemantics'', JObj [
              (''type'', JStr ''array''),
              (''items'', JObj [
                  (''type'', JStr ''object''),
                  (''additionalProperties'', JBool False),
                  (''required'', JArr [JStr ''question'', JStr ''riskClass'']),
                  (''properties'', JObj [
                      (''question'', JObj [
                          (''type'', JStr ''string''),
                          (''minLength'', JInt 1),
                          (''maxLength'', JInt 500)]),
                      (''riskClass'', JObj [
                          (''enum'', JArr [JStr ''AUTHORIZATION_SECURITY_PROVIDER'', JStr ''MIGRATION'', JStr ''IDENTITY'',
                              JStr ''FINANCIAL'', JStr ''PRODUCTION_EXECUTION'',
                              JStr ''IRREVERSIBLE_LIFECYCLE_DATA'', JStr ''LOW_RISK''])]),
                      (''impact'', JObj [(''type'', JStr ''string''), (''maxLength'', JInt 500)]),
                      (''requiredBy'', JObj [
                          (''type'', JStr ''array''),
                          (''items'', JObj [
                              (''type'', JStr ''string''),
                              (''minLength'', JInt 1),
                              (''maxLength'', JInt 200)])])])])]),
          (''compileWarnings'', JObj [
              (''type'', JStr ''array''),
              (''items'', JObj [
                  (''type'', JStr ''object''),
                  (''additionalProperties'', JBool False),
                  (''required'', JArr [JStr ''code'', JStr ''message'']),
                  (''properties'', JObj [
                      (''code'', JObj [
                          (''type'', JStr ''string''),
                          (''minLength'', JInt 1),
                          (''maxLength'', JInt 100)]),
                      (''message'', JObj [
                          (''type'', JStr ''string''),
                          (''minLength'', JInt 1),
                          (''maxLength'', JInt 500)]),
                      (''path'', JObj [(''type'', JStr ''string''), (''maxLength'', JInt 300)])])])])])]"

text \<open>src/schemas/acceptance-contract.v2.schema.json.\<close>

definition ACCEPTANCE_CONTRACT_SCHEMA :: json where
  "ACCEPTANCE_CONTRACT_SCHEMA =
    JObj [
      (''$schema'', JStr ''https://json-schema.org/draft/2020-12/schema''),
      (''$id'', JStr ''https://lcim.local/schemas/acceptance-contract.v2.schema.json''),
      (''title'', JStr ''LCIM V2 worker-ready repair/acceptance contract''),
      (''type'', JStr ''object''),
      (''additionalProperties'', JBool False),
      (''required'', JArr [JStr ''schemaName'', JStr ''schemaVersion'', JStr ''repairId'', JStr ''contractKey'',
          JStr ''sourceSemanticDigest'', JStr ''rejectedAcceptanceRefs'', JStr ''objective'',
          JStr ''violation'', JStr ''requiredBehavior'', JStr ''mustChange'',
          JStr ''mustNotChange'', JStr ''acceptanceTests'', JStr ''negativeSideEffects'',
          JStr ''frozenSemantics'', JStr ''verification'', JStr ''createdAt'']),
      (''properties'', JObj [
          (''schemaName'', JObj [(''const'', JStr ''lcim.acceptance-contract'')]),
          (''schemaVersion'', JObj [(''const'', JStr ''2.0.0'')]),
          (''repairId'', JObj [
              (''type'', JStr ''string''),
              (''pattern'', JStr ''^lcim_repair_[0-9a-f]{32}$'')]),
          (''contractKey'', JObj [
              (''type'', JStr ''string''),
              (''pattern'', JStr ''^[a-z0-9][a-z0-9._-]{0,127}$'')]),
          (''sourceSemanticDigest'', JObj [(''type'', JStr ''string''), (''pattern'', JStr ''^[0-9a-f]{64}$'')]),
          (''rejectedAcceptanceRefs'', JObj [
              (''type'', JStr ''array''),
              (''minItems'', JInt 1),
              (''items'', JObj [(''type'', JStr ''string''), (''pattern'', JStr ''^se_[0-9a-f]{64}$'')])]),
          (''objective'', JObj [
              (''type'', JStr ''string''),
              (''minLength'', JInt 1),
              (''maxLength'', JInt 500)]),
          (''violation'', JObj [
              (''type'', JStr ''string''),
              (''minLength'', JInt 1),
              (''maxLength'', JInt 500)]),
          (''requiredBehavior'', JObj [
              (''type'', JStr ''string''),
              (''minLength'', JInt 1),
              (''maxLength'', JInt 500)]),
          (''mustChange'', JObj [
              (''type'', JStr ''array''),
              (''minItems'', JInt 1),
              (''items'', JObj [
                  (''type'', JStr ''object''),
                  (''additionalProperties'', JBool False),
                  (''required'', JArr [JStr ''target'', JStr ''change'']),
                  (''properties'', JObj [
                      (''target'', JObj [
                          (''type'', JStr ''string''),
                          (''minLength'', JInt 1),
                          (''maxLength'', JInt 300)]),
                      (''change'', JObj [
                          (''type'', JStr ''string''),
                          (''minLength'', JInt 1),
                          (''maxLength'', JInt 500)])])])]),
          (''mustNotChange'', JObj [
              (''type'', JStr ''array''),
              (''items'', JObj [
                  (''type'', JStr ''object''),
                  (''additionalProperties'', JBool False),
                  (''required'', JArr [JStr ''target'', JStr ''reason'']),
                  (''properties'', JObj [
                      (''target'', JObj [
                          (''type'', JStr ''string''),
                          (''minLength'', JInt 1),
                          (''maxLength'', JInt 300)]),
                      (''reason'', JObj [
                          (''type'', JStr ''string''),
                          (''minLength'', JInt 1),
                          (''maxLength'', JInt 500)])])])]),
          (''acceptanceTests'', JObj [
              (''type'', JStr ''array''),
              (''minItems'', JInt 1),
              (''items'', JObj [
                  (''type'', JStr ''object''),
                  (''additionalProperties'', JBool False),
                  (''required'', JArr [JStr ''name'', JStr ''expectation'']),
                  (''properties'', JObj [
                      (''name'', JObj [
                          (''type'', JStr ''string''),
                          (''minLength'', JInt 1),
                          (''maxLength'', JInt 200)]),
                      (''command'', JObj [(''type'', JStr ''string''), (''maxLength'', JInt 500)]),
                      (''expectation'', JObj [
                          (''type'', JStr ''string''),
                          (''minLength'', JInt 1),
                          (''maxLength'', JInt 500)]),
                      (''negativeSideEffectId'', JObj [
                          (''type'', JStr ''string''),
                          (''pattern'', JStr ''^se_[0-9a-f]{64}$'')]),
                      (''negativeSideEffectRef'', JObj [(''type'', JStr ''string''), (''maxLength'', JInt 300)]),
                      (''negativeSideEffectScope'', JObj [
                          (''enum'', JArr [JStr ''provider_factory'', JStr ''network'', JStr ''database'', JStr ''lock'',
                              JStr ''mutation''])]),
                      (''expectedSideEffectCount'', JObj [(''type'', JStr ''integer'')])])])]),
          (''negativeSideEffects'', JObj [
              (''type'', JStr ''array''),
              (''items'', JObj [
                  (''type'', JStr ''object''),
                  (''additionalProperties'', JBool False),
                  (''required'', JArr [JStr ''gate'', JStr ''scope'', JStr ''requirement'', JStr ''expectedCount'',
                      JStr ''sideEffectId'']),
                  (''properties'', JObj [
                      (''gate'', JObj [
                          (''type'', JStr ''string''),
                          (''minLength'', JInt 1),
                          (''maxLength'', JInt 300)]),
                      (''scope'', JObj [
                          (''enum'', JArr [JStr ''provider_factory'', JStr ''network'', JStr ''database'', JStr ''lock'',
                              JStr ''mutation''])]),
                      (''requirement'', JObj [
                          (''type'', JStr ''string''),
                          (''minLength'', JInt 1),
                          (''maxLength'', JInt 500)]),
                      (''expectedCount'', JObj [(''type'', JStr ''integer'')]),
                      (''sideEffectId'', JObj [
                          (''type'', JStr ''string''),
                          (''pattern'', JStr ''^se_[0-9a-f]{64}$'')]),
                      (''evidenceKind'', JObj [
                          (''enum'', JArr [JStr ''instrumented_counter'', JStr ''audit_log'', JStr ''transaction_count'',
                              JStr ''lock_acquire_count''])])])])]),
          (''frozenSemantics'', JObj [
              (''type'', JStr ''object''),
              (''additionalProperties'', JBool False),
              (''required'', JArr [JStr ''sourceObjects'', JStr ''concepts'', JStr ''distinctConcepts'',
                  JStr ''negativeSideEffects'', JStr ''factsEstablished'',
                  JStr ''unresolvedSemantics'']),
              (''properties'', JObj [
                  (''sourceObjects'', JObj [
                      (''type'', JStr ''array''),
                      (''minItems'', JInt 1),
                      (''items'', JObj [
                          (''type'', JStr ''object''),
                          (''additionalProperties'', JBool False),
                          (''required'', JArr [JStr ''key'', JStr ''kind'', JStr ''ref'', JStr ''authority'']),
                          (''properties'', JObj [
                              (''key'', JObj [
                                  (''type'', JStr ''string''),
                                  (''pattern'', JStr ''^[a-z0-9][a-z0-9._-]{0,127}$'')]),
                              (''kind'', JObj [
                                  (''enum'', JArr [JStr ''schema'', JStr ''record'', JStr ''config'', JStr ''fixture'',
                                      JStr ''documentation'', JStr ''evidence''])]),
                              (''ref'', JObj [
                                  (''type'', JStr ''string''),
                                  (''minLength'', JInt 1),
                                  (''maxLength'', JInt 300)]),
                              (''path'', JObj [(''type'', JStr ''string''), (''maxLength'', JInt 300)]),
                              (''authority'', JObj [
                                  (''type'', JStr ''string''),
                                  (''minLength'', JInt 1),
                                  (''maxLength'', JInt 300)])])])]),
                  (''concepts'', JObj [
                      (''type'', JStr ''array''),
                      (''minItems'', JInt 1),
                      (''items'', JObj [
                          (''type'', JStr ''object''),
                          (''additionalProperties'', JBool False),
                          (''required'', JArr [JStr ''name'', JStr ''kind'', JStr ''authoritativeFieldNames'', JStr ''ownership'']),
                          (''properties'', JObj [
                              (''name'', JObj [
                                  (''type'', JStr ''string''),
                                  (''pattern'', JStr ''^[a-z][a-zA-Z0-9_]*$'')]),
                              (''kind'', JObj [
                                  (''enum'', JArr [JStr ''field'', JStr ''record'', JStr ''digest'', JStr ''identity'', JStr ''registry'',
                                      JStr ''ticker'', JStr ''timestamp'', JStr ''enum'',
                                      JStr ''provider'', JStr ''mutation'', JStr ''gate''])]),
                              (''authoritativeFieldNames'', JObj [
                                  (''type'', JStr ''array''),
                                  (''minItems'', JInt 1),
                                  (''items'', JObj [
                                      (''type'', JStr ''string''),
                                      (''minLength'', JInt 1),
                                      (''maxLength'', JInt 200)])]),
                              (''authoritativeEnum'', JObj [
                                  (''type'', JStr ''array''),
                                  (''minItems'', JInt 1),
                                  (''items'', JObj [
                                      (''type'', JStr ''string''),
                                      (''minLength'', JInt 1),
                                      (''maxLength'', JInt 100)])]),
                              (''digestMeaning'', JObj [(''type'', JStr ''string''), (''maxLength'', JInt 500)]),
                              (''identityMeaning'', JObj [(''type'', JStr ''string''), (''maxLength'', JInt 500)]),
                              (''dateTimeRepresentation'', JObj [(''type'', JStr ''string''), (''maxLength'', JInt 300)]),
                              (''ownership'', JObj [
                                  (''type'', JStr ''string''),
                                  (''minLength'', JInt 1),
                                  (''maxLength'', JInt 300)]),
                              (''lifecycle'', JObj [
                                  (''type'', JStr ''array''),
                                  (''minItems'', JInt 1),
                                  (''items'', JObj [
                                      (''type'', JStr ''string''),
                                      (''minLength'', JInt 1),
                                      (''maxLength'', JInt 100)])]),
                              (''allowedTransitions'', JObj [
                                  (''type'', JStr ''array''),
                                  (''items'', JObj [
                                      (''type'', JStr ''object''),
                                      (''additionalProperties'', JBool False),
                                      (''required'', JArr [JStr ''from'', JStr ''to'']),
                                      (''properties'', JObj [
                                          (''from'', JObj [
                                              (''type'', JStr ''string''),
                                              (''minLength'', JInt 1),
                                              (''maxLength'', JInt 100)]),
                                          (''to'', JObj [
                                              (''type'', JStr ''string''),
                                              (''minLength'', JInt 1),
                                              (''maxLength'', JInt 100)]),
                                          (''condition'', JObj [
                                              (''type'', JStr ''string''),
                                              (''maxLength'', JInt 500)])])])]),
                              (''forbiddenAlternatives'', JObj [
                                  (''type'', JStr ''array''),
                                  (''items'', JObj [
                                      (''type'', JStr ''string''),
                                      (''minLength'', JInt 1),
                                      (''maxLength'', JInt 200)])]),
                              (''sourceObjectKey'', JObj [
                                  (''type'', JStr ''string''),
                                  (''pattern'', JStr ''^[a-z0-9][a-z0-9._-]{0,127}$'')]),
                              (''failureBehavior'', JObj [(''type'', JStr ''string''), (''maxLength'', JInt 500)]),
                              (''notes'', JObj [(''type'', JStr ''string''), (''maxLength'', JInt 500)])])])]),
                  (''distinctConcepts'', JObj [
                      (''type'', JStr ''array''),
                      (''items'', JObj [
                          (''type'', JStr ''object''),
                          (''additionalProperties'', JBool False),
                          (''required'', JArr [JStr ''conceptA'', JStr ''conceptB'', JStr ''mustNotConflate'', JStr ''severity'']),
                          (''properties'', JObj [
                              (''conceptA'', JObj [
                                  (''type'', JStr ''string''),
                                  (''minLength'', JInt 1),
                                  (''maxLength'', JInt 200)]),
                              (''conceptB'', JObj [
                                  (''type'', JStr ''string''),
                                  (''minLength'', JInt 1),
                                  (''maxLength'', JInt 200)]),
                              (''mustNotConflate'', JObj [
                                  (''type'', JStr ''string''),
                                  (''minLength'', JInt 1),
                                  (''maxLength'', JInt 500)]),
                              (''severity'', JObj [(''enum'', JArr [JStr ''WARNING'', JStr ''CRITICAL''])]),
                              (''warnIfSameValue'', JObj [(''type'', JStr ''boolean'')]),
                              (''alsoDistinctFrom'', JObj [
                                  (''type'', JStr ''array''),
                                  (''items'', JObj [
                                      (''type'', JStr ''string''),
                                      (''minLength'', JInt 1),
                                      (''maxLength'', JInt 200)])])])])]),
                  (''negativeSideEffects'', JObj [
                      (''type'', JStr ''array''),
                      (''items'', JObj [
                          (''type'', JStr ''object''),
                          (''additionalProperties'', JBool False),
                          (''required'', JArr [JStr ''gate'', JStr ''scope'', JStr ''requirement'', JStr ''expectedCount'',
                              JStr ''sideEffectId'']),
                          (''properties'', JObj [
                              (''gate'', JObj [
                                  (''type'', JStr ''string''),
                                  (''minLength'', JInt 1),
                                  (''maxLength'', JInt 300)]),
                              (''scope'', JObj [
                                  (''enum'', JArr [JStr ''provider_factory'', JStr ''network'', JStr ''database'', JStr ''lock'',
                                      JStr ''mutation''])]),
                              (''requirement'', JObj [
                                  (''type'', JStr ''string''),
                                  (''minLength'', JInt 1),
                                  (''maxLength'', JInt 500)]),
                              (''expectedCount'', JObj [(''type'', JStr ''integer'')]),
                              (''sideEffectId'', JObj [
                                  (''type'', JStr ''string''),
                                  (''pattern'', JStr ''^se_[0-9a-f]{64}$'')]),
                              (''evidenceKind'', JObj [
                                  (''enum'', JArr [JStr ''instrumented_counter'', JStr ''audit_log'', JStr ''transaction_count'',
                                      JStr ''lock_acquire_count''])])])])]),
                  (''factsEstablished'', JObj [
                      (''type'', JStr ''array''),
                      (''items'', JObj [
                          (''type'', JStr ''object''),
                          (''additionalProperties'', JBool False),
                          (''required'', JArr [JStr ''fact'', JStr ''evidence'']),
                          (''properties'', JObj [
                              (''fact'', JObj [
                                  (''type'', JStr ''string''),
                                  (''minLength'', JInt 1),
                                  (''maxLength'', JInt 500)]),
                              (''evidence'', JObj [
                                  (''type'', JStr ''string''),
                                  (''minLength'', JInt 1),
                                  (''maxLength'', JInt 500)])])])]),
                  (''unresolvedSemantics'', JObj [
                      (''type'', JStr ''array''),
                      (''items'', JObj [
                          (''type'', JStr ''object''),
                          (''additionalProperties'', JBool False),
                          (''required'', JArr [JStr ''question'', JStr ''riskClass'']),
                          (''properties'', JObj [
                              (''question'', JObj [
                                  (''type'', JStr ''string''),
                                  (''minLength'', JInt 1),
                                  (''maxLength'', JInt 500)]),
                              (''riskClass'', JObj [
                                  (''enum'', JArr [JStr ''AUTHORIZATION_SECURITY_PROVIDER'', JStr ''MIGRATION'', JStr ''IDENTITY'',
                                      JStr ''FINANCIAL'', JStr ''PRODUCTION_EXECUTION'',
                                      JStr ''IRREVERSIBLE_LIFECYCLE_DATA'', JStr ''LOW_RISK''])]),
                              (''impact'', JObj [(''type'', JStr ''string''), (''maxLength'', JInt 500)]),
                              (''requiredBy'', JObj [
                                  (''type'', JStr ''array''),
                                  (''items'', JObj [
                                      (''type'', JStr ''string''),
                                      (''minLength'', JInt 1),
                                      (''maxLength'', JInt 200)])])])])])])]),
          (''verification'', JObj [
              (''type'', JStr ''array''),
              (''minItems'', JInt 1),
              (''items'', JObj [
                  (''type'', JStr ''object''),
                  (''additionalProperties'', JBool False),
                  (''required'', JArr [JStr ''method'', JStr ''expectation'']),
                  (''properties'', JObj [
                      (''method'', JObj [
                          (''type'', JStr ''string''),
                          (''minLength'', JInt 1),
                          (''maxLength'', JInt 300)]),
                      (''expectation'', JObj [
                          (''type'', JStr ''string''),
                          (''minLength'', JInt 1),
                          (''maxLength'', JInt 500)])])])]),
          (''findingRefs'', JObj [
              (''type'', JStr ''array''),
              (''items'', JObj [
                  (''type'', JStr ''string''),
                  (''pattern'', JStr ''^lcim_finding_[0-9a-f]{32}$'')])]),
          (''riskClass'', JObj [
              (''enum'', JArr [JStr ''AUTHORIZATION_SECURITY_PROVIDER'', JStr ''MIGRATION'', JStr ''IDENTITY'',
                  JStr ''FINANCIAL'', JStr ''PRODUCTION_EXECUTION'',
                  JStr ''IRREVERSIBLE_LIFECYCLE_DATA'', JStr ''LOW_RISK''])]),
          (''createdAt'', JObj [
              (''type'', JStr ''string''),
              (''pattern'', JStr (''^[0-9]{4}-[0-9]{2}-[0-9]{2}T[0-9]{2}:[0-9]{2}:[0-9]{2}('' @ [CHR 0x5C] @ ''.[0-9]+)?(Z|[+-][0-9]{2}:[0-9]{2})$''))])])]"

text \<open>src/schemas/route-decision.v2.schema.json.\<close>

definition ROUTE_DECISION_SCHEMA_2_0 :: json where
  "ROUTE_DECISION_SCHEMA_2_0 =
    JObj [
      (''$schema'', JStr ''https://json-schema.org/draft/2020-12/schema''),
      (''$id'', JStr ''https://lcim.local/schemas/route-decision.v2.schema.json''),
      (''title'', JStr ''LCIM V2 route decision''),
      (''type'', JStr ''object''),
      (''additionalProperties'', JBool False),
      (''required'', JArr [JStr ''schemaName'', JStr ''schemaVersion'', JStr ''decisionId'', JStr ''workUnitId'',
          JStr ''decision'', JStr ''reasonCode'', JStr ''state'', JStr ''nextState'',
          JStr ''decidedAt'', JStr ''budget'', JStr ''evidenceRefs'']),
      (''properties'', JObj [
          (''schemaName'', JObj [(''const'', JStr ''lcim.route-decision'')]),
          (''schemaVersion'', JObj [(''const'', JStr ''2.0.0'')]),
          (''decisionId'', JObj [
              (''type'', JStr ''string''),
              (''pattern'', JStr ''^lcim_route_[0-9a-f]{32}$'')]),
          (''runId'', JObj [
              (''type'', JStr ''string''),
              (''pattern'', JStr ''^lcim_run_[0-9a-f]{32}$'')]),
          (''workUnitId'', JObj [(''type'', JStr ''string''), (''pattern'', JStr ''^lcim_wu_[0-9a-f]{32}$'')]),
          (''decision'', JObj [
              (''enum'', JArr [JStr ''ROUTE_IMPLEMENT_FLASH'', JStr ''ROUTE_IMPLEMENT_FLASH_MAX'',
                  JStr ''ROUTE_IMPLEMENT_PRO_MAX'', JStr ''ROUTE_SOL_CONTRACT_CHECK'',
                  JStr ''ROUTE_SOL_DIAGNOSE'', JStr ''ROUTE_SOL_FINAL_REVIEW'',
                  JStr ''ROUTE_SOL_RECHECK'', JStr ''ROUTE_COMPLETE'', JStr ''STOP_STUCK'',
                  JStr ''STOP_BUDGET'', JStr ''FAIL_NO_SUBSTITUTE''])]),
          (''reasonCode'', JObj [
              (''enum'', JArr [JStr ''NORMAL_BOUNDED_TASK'', JStr ''RESULT_ACCEPTED'', JStr ''REPAIR_TARGETED_FIRST'',
                  JStr ''MAX_JUSTIFIED'', JStr ''PRO_MAX_ESCALATION'',
                  JStr ''SEMANTIC_REJECTION_ESCALATION'',
                  JStr ''UNRESOLVED_HIGH_RISK_CONTRACT'', JStr ''SOL_RECHECK_AFTER_REPAIR'',
                  JStr ''SOL_FINAL_REVIEW'', JStr ''EXACT_SUBSTITUTE_CONFIGURED'',
                  JStr ''CAPABILITY_FALLBACK_CONFIGURED'',
                  JStr ''CAPABILITY_GAP_NO_SUBSTITUTE'', JStr ''PROVIDER_UNAVAILABLE'',
                  JStr ''BUDGET_EXHAUSTED'', JStr ''SAME_AC_FAILED_AFTER_REPAIR'',
                  JStr ''SUBSTANTIVE_SEMANTIC_CONTRADICTION'',
                  JStr ''MODEL_ATTEMPTS_CONTRACT_CHANGE'', JStr ''CONFLATES_DISTINCT_CONCEPTS'',
                  JStr ''NO_FALSIFIABLE_EXPLANATION'', JStr ''SCOPE_BROADENS_WITHOUT_EVIDENCE'',
                  JStr ''SOL_FINDING_SURVIVES_ONE_REPAIR'', JStr ''PROVIDER_LACKS_CAPABILITY'',
                  JStr ''REPAIR_LIMIT_REACHED''])]),
          (''state'', JObj [
              (''enum'', JArr [JStr ''ROUTING_READY'', JStr ''AWAITING_IMPLEMENTATION'', JStr ''AWAITING_REPAIR'',
                  JStr ''AWAITING_SOL_CONTRACT_CHECK'', JStr ''AWAITING_SOL_DIAGNOSE'',
                  JStr ''AWAITING_SOL_FINAL_REVIEW'', JStr ''AWAITING_SOL_RECHECK'',
                  JStr ''AWAITING_PRO_MAX'', JStr ''UNIT_COMPLETE'', JStr ''STOPPED_STUCK'',
                  JStr ''STOPPED_BUDGET'', JStr ''FAILED_NO_SUBSTITUTE''])]),
          (''nextState'', JObj [
              (''enum'', JArr [JStr ''ROUTING_READY'', JStr ''AWAITING_IMPLEMENTATION'', JStr ''AWAITING_REPAIR'',
                  JStr ''AWAITING_SOL_CONTRACT_CHECK'', JStr ''AWAITING_SOL_DIAGNOSE'',
                  JStr ''AWAITING_SOL_FINAL_REVIEW'', JStr ''AWAITING_SOL_RECHECK'',
                  JStr ''AWAITING_PRO_MAX'', JStr ''UNIT_COMPLETE'', JStr ''STOPPED_STUCK'',
                  JStr ''STOPPED_BUDGET'', JStr ''FAILED_NO_SUBSTITUTE''])]),
          (''targetProvider'', JObj [(''enum'', JArr [JStr ''pi'', JStr ''sol'', JStr ''sol-pro''])]),
          (''targetModel'', JObj [
              (''enum'', JArr [JStr ''deepseek-v4-flash'', JStr ''deepseek-pro-max'', JStr ''sol-xhigh'', JStr ''terra'',
                  JStr ''luna''])]),
          (''targetRole'', JObj [
              (''enum'', JArr [JStr ''IMPLEMENT'', JStr ''REPAIR'', JStr ''SOL_CONTRACT_CHECK'', JStr ''SOL_DIAGNOSE'',
                  JStr ''SOL_FINAL_REVIEW'', JStr ''SOL_RECHECK''])]),
          (''reasoningLevel'', JObj [(''enum'', JArr [JStr ''XHIGH'', JStr ''MAX''])]),
          (''substituteOf'', JObj [
              (''type'', JStr ''string''),
              (''minLength'', JInt 1),
              (''maxLength'', JInt 100)]),
          (''escalationJustification'', JObj [
              (''type'', JStr ''object''),
              (''additionalProperties'', JBool False),
              (''required'', JArr [JStr ''basis'', JStr ''detail'']),
              (''properties'', JObj [
                  (''basis'', JObj [
                      (''enum'', JArr [JStr ''SOL_DIRECTED_REPAIR'', JStr ''CONFIRMED_CAPABILITY_FAILURE'',
                          JStr ''CONTRACT_LOCKED_DIFFICULT_TASK''])]),
                  (''detail'', JObj [
                      (''type'', JStr ''string''),
                      (''minLength'', JInt 1),
                      (''maxLength'', JInt 300)])])]),
          (''budget'', JObj [
              (''type'', JStr ''object''),
              (''additionalProperties'', JBool False),
              (''required'', JArr [JStr ''runCallsConsumed'', JStr ''runCallsLimit'', JStr ''unitCallsConsumed'',
                  JStr ''unitCallsLimit'']),
              (''properties'', JObj [
                  (''runCallsConsumed'', JObj [(''type'', JStr ''integer'')]),
                  (''runCallsLimit'', JObj [(''type'', JStr ''integer'')]),
                  (''unitCallsConsumed'', JObj [(''type'', JStr ''integer'')]),
                  (''unitCallsLimit'', JObj [(''type'', JStr ''integer'')])])]),
          (''decidedAt'', JObj [
              (''type'', JStr ''string''),
              (''pattern'', JStr (''^[0-9]{4}-[0-9]{2}-[0-9]{2}T[0-9]{2}:[0-9]{2}:[0-9]{2}('' @ [CHR 0x5C] @ ''.[0-9]+)?(Z|[+-][0-9]{2}:[0-9]{2})$''))]),
          (''evidenceRefs'', JObj [
              (''type'', JStr ''array''),
              (''items'', JObj [
                  (''type'', JStr ''string''),
                  (''minLength'', JInt 1),
                  (''maxLength'', JInt 300)])])])]"

text \<open>src/schemas/route-decision.v2.1.schema.json.\<close>

definition ROUTE_DECISION_SCHEMA_2_1 :: json where
  "ROUTE_DECISION_SCHEMA_2_1 =
    JObj [
      (''$schema'', JStr ''https://json-schema.org/draft/2020-12/schema''),
      (''$id'', JStr ''https://lcim.local/schemas/route-decision.v2.1.schema.json''),
      (''title'', JStr ''LCIM V2 route decision (2.1.0)''),
      (''type'', JStr ''object''),
      (''additionalProperties'', JBool False),
      (''required'', JArr [JStr ''schemaName'', JStr ''schemaVersion'', JStr ''decisionId'', JStr ''workUnitId'',
          JStr ''decision'', JStr ''reasonCode'', JStr ''state'', JStr ''nextState'',
          JStr ''decidedAt'', JStr ''budget'', JStr ''evidenceRefs'']),
      (''properties'', JObj [
          (''schemaName'', JObj [(''const'', JStr ''lcim.route-decision'')]),
          (''schemaVersion'', JObj [(''const'', JStr ''2.1.0'')]),
          (''decisionId'', JObj [
              (''type'', JStr ''string''),
              (''pattern'', JStr ''^lcim_route_[0-9a-f]{32}$'')]),
          (''runId'', JObj [
              (''type'', JStr ''string''),
              (''pattern'', JStr ''^lcim_run_[0-9a-f]{32}$'')]),
          (''workUnitId'', JObj [(''type'', JStr ''string''), (''pattern'', JStr ''^lcim_wu_[0-9a-f]{32}$'')]),
          (''decision'', JObj [
              (''enum'', JArr [JStr ''ROUTE_IMPLEMENT_FLASH'', JStr ''ROUTE_IMPLEMENT_FLASH_MAX'',
                  JStr ''ROUTE_IMPLEMENT_PRO_MAX'', JStr ''ROUTE_SOL_CONTRACT_CHECK'',
                  JStr ''ROUTE_SOL_DIAGNOSE'', JStr ''ROUTE_SOL_FINAL_REVIEW'',
                  JStr ''ROUTE_SOL_RECHECK'', JStr ''ROUTE_COMPLETE'', JStr ''STOP_STUCK'',
                  JStr ''STOP_BUDGET'', JStr ''FAIL_NO_SUBSTITUTE''])]),
          (''reasonCode'', JObj [
              (''enum'', JArr [JStr ''NORMAL_BOUNDED_TASK'', JStr ''RESULT_ACCEPTED'', JStr ''REPAIR_TARGETED_FIRST'',
                  JStr ''MAX_JUSTIFIED'', JStr ''PRO_MAX_ESCALATION'',
                  JStr ''SEMANTIC_REJECTION_ESCALATION'',
                  JStr ''UNRESOLVED_HIGH_RISK_CONTRACT'', JStr ''SOL_RECHECK_AFTER_REPAIR'',
                  JStr ''SOL_FINAL_REVIEW'', JStr ''EXACT_SUBSTITUTE_CONFIGURED'',
                  JStr ''CAPABILITY_FALLBACK_CONFIGURED'',
                  JStr ''CAPABILITY_GAP_NO_SUBSTITUTE'', JStr ''PROVIDER_UNAVAILABLE'',
                  JStr ''CODEX_OAUTH_UNAVAILABLE'', JStr ''BUDGET_EXHAUSTED'',
                  JStr ''SAME_AC_FAILED_AFTER_REPAIR'',
                  JStr ''SUBSTANTIVE_SEMANTIC_CONTRADICTION'',
                  JStr ''MODEL_ATTEMPTS_CONTRACT_CHANGE'', JStr ''CONFLATES_DISTINCT_CONCEPTS'',
                  JStr ''NO_FALSIFIABLE_EXPLANATION'', JStr ''SCOPE_BROADENS_WITHOUT_EVIDENCE'',
                  JStr ''SOL_FINDING_SURVIVES_ONE_REPAIR'', JStr ''PROVIDER_LACKS_CAPABILITY'',
                  JStr ''REPAIR_LIMIT_REACHED''])]),
          (''state'', JObj [
              (''enum'', JArr [JStr ''ROUTING_READY'', JStr ''AWAITING_IMPLEMENTATION'', JStr ''AWAITING_REPAIR'',
                  JStr ''AWAITING_SOL_CONTRACT_CHECK'', JStr ''AWAITING_SOL_DIAGNOSE'',
                  JStr ''AWAITING_SOL_FINAL_REVIEW'', JStr ''AWAITING_SOL_RECHECK'',
                  JStr ''AWAITING_PRO_MAX'', JStr ''UNIT_COMPLETE'', JStr ''STOPPED_STUCK'',
                  JStr ''STOPPED_BUDGET'', JStr ''FAILED_NO_SUBSTITUTE''])]),
          (''nextState'', JObj [
              (''enum'', JArr [JStr ''ROUTING_READY'', JStr ''AWAITING_IMPLEMENTATION'', JStr ''AWAITING_REPAIR'',
                  JStr ''AWAITING_SOL_CONTRACT_CHECK'', JStr ''AWAITING_SOL_DIAGNOSE'',
                  JStr ''AWAITING_SOL_FINAL_REVIEW'', JStr ''AWAITING_SOL_RECHECK'',
                  JStr ''AWAITING_PRO_MAX'', JStr ''UNIT_COMPLETE'', JStr ''STOPPED_STUCK'',
                  JStr ''STOPPED_BUDGET'', JStr ''FAILED_NO_SUBSTITUTE''])]),
          (''targetProvider'', JObj [(''enum'', JArr [JStr ''pi'', JStr ''sol'', JStr ''sol-pro''])]),
          (''targetModel'', JObj [
              (''enum'', JArr [JStr ''deepseek-v4-flash'', JStr ''deepseek-pro-max'', JStr ''sol-xhigh'',
                  JStr ''gpt-5.6-sol'', JStr ''terra'', JStr ''luna''])]),
          (''targetRole'', JObj [
              (''enum'', JArr [JStr ''IMPLEMENT'', JStr ''REPAIR'', JStr ''SOL_CONTRACT_CHECK'', JStr ''SOL_DIAGNOSE'',
                  JStr ''SOL_FINAL_REVIEW'', JStr ''SOL_RECHECK''])]),
          (''reasoningLevel'', JObj [(''enum'', JArr [JStr ''XHIGH'', JStr ''MAX''])]),
          (''substituteOf'', JObj [
              (''type'', JStr ''string''),
              (''minLength'', JInt 1),
              (''maxLength'', JInt 100)]),
          (''escalationJustification'', JObj [
              (''type'', JStr ''object''),
              (''additionalProperties'', JBool False),
              (''required'', JArr [JStr ''basis'', JStr ''detail'']),
              (''properties'', JObj [
                  (''basis'', JObj [
                      (''enum'', JArr [JStr ''SOL_DIRECTED_REPAIR'', JStr ''CONFIRMED_CAPABILITY_FAILURE'',
                          JStr ''CONTRACT_LOCKED_DIFFICULT_TASK''])]),
                  (''detail'', JObj [
                      (''type'', JStr ''string''),
                      (''minLength'', JInt 1),
                      (''maxLength'', JInt 300)])])]),
          (''budget'', JObj [
              (''type'', JStr ''object''),
              (''additionalProperties'', JBool False),
              (''required'', JArr [JStr ''runCallsConsumed'', JStr ''runCallsLimit'', JStr ''unitCallsConsumed'',
                  JStr ''unitCallsLimit'']),
              (''properties'', JObj [
                  (''runCallsConsumed'', JObj [(''type'', JStr ''integer'')]),
                  (''runCallsLimit'', JObj [(''type'', JStr ''integer'')]),
                  (''unitCallsConsumed'', JObj [(''type'', JStr ''integer'')]),
                  (''unitCallsLimit'', JObj [(''type'', JStr ''integer'')])])]),
          (''decidedAt'', JObj [
              (''type'', JStr ''string''),
              (''pattern'', JStr (''^[0-9]{4}-[0-9]{2}-[0-9]{2}T[0-9]{2}:[0-9]{2}:[0-9]{2}('' @ [CHR 0x5C] @ ''.[0-9]+)?(Z|[+-][0-9]{2}:[0-9]{2})$''))]),
          (''evidenceRefs'', JObj [
              (''type'', JStr ''array''),
              (''items'', JObj [
                  (''type'', JStr ''string''),
                  (''minLength'', JInt 1),
                  (''maxLength'', JInt 300)])])])]"

text \<open>src/schemas/worker-result.v2.schema.json.\<close>

definition WORKER_RESULT_SCHEMA :: json where
  "WORKER_RESULT_SCHEMA =
    JObj [
      (''$schema'', JStr ''https://json-schema.org/draft/2020-12/schema''),
      (''$id'', JStr ''https://lcim.local/schemas/worker-result.v2.schema.json''),
      (''title'', JStr ''LCIM V2 worker result (model-owned handoff payload)''),
      (''type'', JStr ''object''),
      (''additionalProperties'', JBool False),
      (''required'', JArr [JStr ''workUnitId'', JStr ''workerStatus'', JStr ''summary'']),
      (''properties'', JObj [
          (''workUnitId'', JObj [(''type'', JStr ''string''), (''pattern'', JStr ''^lcim_wu_[0-9a-f]{32}$'')]),
          (''workerStatus'', JObj [
              (''enum'', JArr [JStr ''WORK_COMPLETE'', JStr ''BLOCKED'', JStr ''FAILED'', JStr ''NO_CHANGE''])]),
          (''summary'', JObj [
              (''type'', JStr ''string''),
              (''minLength'', JInt 1),
              (''maxLength'', JInt 2000)]),
          (''acceptanceClaims'', JObj [
              (''type'', JStr ''array''),
              (''items'', JObj [
                  (''type'', JStr ''object''),
                  (''additionalProperties'', JBool False),
                  (''required'', JArr [JStr ''claim'', JStr ''evidenceRefs'']),
                  (''properties'', JObj [
                      (''claim'', JObj [
                          (''type'', JStr ''string''),
                          (''minLength'', JInt 1),
                          (''maxLength'', JInt 500)]),
                      (''evidenceRefs'', JObj [
                          (''type'', JStr ''array''),
                          (''items'', JObj [
                              (''type'', JStr ''string''),
                              (''minLength'', JInt 1),
                              (''maxLength'', JInt 500)])])])])]),
          (''remainingIssues'', JObj [
              (''type'', JStr ''array''),
              (''items'', JObj [
                  (''type'', JStr ''string''),
                  (''minLength'', JInt 1),
                  (''maxLength'', JInt 500)])]),
          (''reviewRisks'', JObj [
              (''type'', JStr ''array''),
              (''items'', JObj [
                  (''type'', JStr ''string''),
                  (''minLength'', JInt 1),
                  (''maxLength'', JInt 500)])]),
          (''uncertainty'', JObj [
              (''type'', JStr ''string''),
              (''minLength'', JInt 1),
              (''maxLength'', JInt 1000)])])]"

text \<open>src/schemas/event.v2.schema.json.\<close>

definition EVENT_SCHEMA :: json where
  "EVENT_SCHEMA =
    JObj [
      (''$schema'', JStr ''https://json-schema.org/draft/2020-12/schema''),
      (''$id'', JStr ''https://lcim.local/schemas/event.v2.schema.json''),
      (''title'', JStr ''LCIM V2 ledger event''),
      (''type'', JStr ''object''),
      (''additionalProperties'', JBool False),
      (''required'', JArr [JStr ''schemaName'', JStr ''schemaVersion'', JStr ''runId'', JStr ''seq'', JStr ''kind'',
          JStr ''invocationId'', JStr ''workUnitId'', JStr ''occurredAt'', JStr ''prevDigest'',
          JStr ''digest'']),
      (''properties'', JObj [
          (''schemaName'', JObj [(''const'', JStr ''lcim.event'')]),
          (''schemaVersion'', JObj [(''const'', JStr ''1.0.0'')]),
          (''runId'', JObj [
              (''type'', JStr ''string''),
              (''pattern'', JStr ''^lcim_run_[0-9a-f]{32}$'')]),
          (''seq'', JObj [(''type'', JStr ''integer'')]),
          (''kind'', JObj [
              (''enum'', JArr [JStr ''START'', JStr ''COMPLETION'', JStr ''ASSESSMENT'', JStr ''RECONCILIATION''])]),
          (''invocationId'', JObj [
              (''type'', JStr ''string''),
              (''pattern'', JStr ''^lcim_inv_[0-9a-f]{32}$'')]),
          (''workUnitId'', JObj [(''type'', JStr ''string''), (''pattern'', JStr ''^lcim_wu_[0-9a-f]{32}$'')]),
          (''occurredAt'', JObj [
              (''type'', JStr ''string''),
              (''pattern'', JStr (''^[0-9]{4}-[0-9]{2}-[0-9]{2}T[0-9]{2}:[0-9]{2}:[0-9]{2}('' @ [CHR 0x5C] @ ''.[0-9]+)?(Z|[+-][0-9]{2}:[0-9]{2})$''))]),
          (''prevDigest'', JObj [(''type'', JStr ''string''), (''pattern'', JStr ''^[0-9a-f]{64}$'')]),
          (''digest'', JObj [(''type'', JStr ''string''), (''pattern'', JStr ''^[0-9a-f]{64}$'')]),
          (''provider'', JObj [
              (''type'', JStr ''string''),
              (''minLength'', JInt 1),
              (''maxLength'', JInt 100)]),
          (''model'', JObj [
              (''type'', JStr ''string''),
              (''minLength'', JInt 1),
              (''maxLength'', JInt 100)]),
          (''role'', JObj [(''enum'', JArr [JStr ''WORKER'', JStr ''SOL'', JStr ''SOL_PRO''])]),
          (''reasoningEffort'', JObj [
              (''type'', JStr ''string''),
              (''minLength'', JInt 1),
              (''maxLength'', JInt 100)]),
          (''outcome'', JObj [
              (''enum'', JArr [JStr ''SUCCESS'', JStr ''FAILURE'', JStr ''TIMEOUT'', JStr ''TRANSPORT_ERROR'',
                  JStr ''CANCELED''])]),
          (''usage'', JObj [
              (''type'', JStr ''object''),
              (''additionalProperties'', JBool False),
              (''required'', JArr [JStr ''inputTokens'', JStr ''outputTokens'', JStr ''totalTokens'']),
              (''properties'', JObj [
                  (''inputTokens'', JObj [(''type'', JStr ''integer'')]),
                  (''outputTokens'', JObj [(''type'', JStr ''integer'')]),
                  (''totalTokens'', JObj [(''type'', JStr ''integer'')])])]),
          (''errorCode'', JObj [(''type'', JStr ''string''), (''pattern'', JStr ''^[A-Z][A-Z0-9_]*$'')]),
          (''rejectionCode'', JObj [
              (''enum'', JArr [JStr ''TRANSPORT_MALFORMED'', JStr ''SCHEMA_MISMATCH'', JStr ''SEMANTIC_CONFLATION'',
                  JStr ''WRONG_BASE'', JStr ''SCOPE_VIOLATION'', JStr ''UNRESOLVED_SEMANTICS'',
                  JStr ''UNSUPPORTED_CLAIM'', JStr ''INCOMPLETE_LEDGER'',
                  JStr ''BUDGET_EXHAUSTED'', JStr ''SECRET_DENIED_PATH'',
                  JStr ''SOL_ASK_INVALID''])]),
          (''assessmentResult'', JObj [(''enum'', JArr [JStr ''ACCEPTED'', JStr ''REJECTED''])]),
          (''summary'', JObj [
              (''type'', JStr ''string''),
              (''minLength'', JInt 1),
              (''maxLength'', JInt 500)]),
          (''evidenceRefs'', JObj [
              (''type'', JStr ''array''),
              (''maxItems'', JInt 50),
              (''items'', JObj [
                  (''type'', JStr ''string''),
                  (''minLength'', JInt 1),
                  (''maxLength'', JInt 500)])]),
          (''reconciliationReason'', JObj [
              (''enum'', JArr [JStr ''CRASH_AFTER_START'', JStr ''CRASH_AFTER_COMPLETION'', JStr ''DUPLICATE_LIFECYCLE'',
                  JStr ''OTHER''])]),
          (''replacementInvocationId'', JObj [
              (''type'', JStr ''string''),
              (''pattern'', JStr ''^lcim_inv_[0-9a-f]{32}$'')]),
          (''note'', JObj [
              (''type'', JStr ''string''),
              (''minLength'', JInt 1),
              (''maxLength'', JInt 500)])])]"

text \<open>src/schemas/invocation.v2.schema.json.\<close>

definition INVOCATION_SCHEMA :: json where
  "INVOCATION_SCHEMA =
    JObj [
      (''$schema'', JStr ''https://json-schema.org/draft/2020-12/schema''),
      (''$id'', JStr ''https://lcim.local/schemas/invocation.v2.schema.json''),
      (''title'', JStr ''LCIM V2 compact invocation record (run store projection)''),
      (''type'', JStr ''object''),
      (''additionalProperties'', JBool False),
      (''required'', JArr [JStr ''schemaName'', JStr ''schemaVersion'', JStr ''invocationId'', JStr ''runId'',
          JStr ''workUnitId'', JStr ''status'', JStr ''provider'', JStr ''model'',
          JStr ''role'', JStr ''reasoningEffort'', JStr ''startedAt'', JStr ''completedAt'',
          JStr ''assessedAt'', JStr ''reconciledAt'']),
      (''properties'', JObj [
          (''schemaName'', JObj [(''const'', JStr ''lcim.invocation'')]),
          (''schemaVersion'', JObj [(''const'', JStr ''1.0.0'')]),
          (''invocationId'', JObj [
              (''type'', JStr ''string''),
              (''pattern'', JStr ''^lcim_inv_[0-9a-f]{32}$'')]),
          (''runId'', JObj [
              (''type'', JStr ''string''),
              (''pattern'', JStr ''^lcim_run_[0-9a-f]{32}$'')]),
          (''workUnitId'', JObj [(''type'', JStr ''string''), (''pattern'', JStr ''^lcim_wu_[0-9a-f]{32}$'')]),
          (''status'', JObj [
              (''enum'', JArr [JStr ''STARTED'', JStr ''COMPLETED'', JStr ''ASSESSED'', JStr ''ORPHANED'',
                  JStr ''SUPERSEDED''])]),
          (''provider'', JObj [
              (''type'', JStr ''string''),
              (''minLength'', JInt 1),
              (''maxLength'', JInt 100)]),
          (''model'', JObj [
              (''type'', JStr ''string''),
              (''minLength'', JInt 1),
              (''maxLength'', JInt 100)]),
          (''role'', JObj [(''enum'', JArr [JStr ''WORKER'', JStr ''SOL'', JStr ''SOL_PRO''])]),
          (''reasoningEffort'', JObj [
              (''type'', JStr ''string''),
              (''minLength'', JInt 1),
              (''maxLength'', JInt 100)]),
          (''startedAt'', JObj [
              (''type'', JStr ''string''),
              (''pattern'', JStr (''^[0-9]{4}-[0-9]{2}-[0-9]{2}T[0-9]{2}:[0-9]{2}:[0-9]{2}('' @ [CHR 0x5C] @ ''.[0-9]+)?(Z|[+-][0-9]{2}:[0-9]{2})$''))]),
          (''completedAt'', JObj [
              (''type'', JArr [JStr ''string'', JStr ''null'']),
              (''pattern'', JStr (''^[0-9]{4}-[0-9]{2}-[0-9]{2}T[0-9]{2}:[0-9]{2}:[0-9]{2}('' @ [CHR 0x5C] @ ''.[0-9]+)?(Z|[+-][0-9]{2}:[0-9]{2})$''))]),
          (''assessedAt'', JObj [
              (''type'', JArr [JStr ''string'', JStr ''null'']),
              (''pattern'', JStr (''^[0-9]{4}-[0-9]{2}-[0-9]{2}T[0-9]{2}:[0-9]{2}:[0-9]{2}('' @ [CHR 0x5C] @ ''.[0-9]+)?(Z|[+-][0-9]{2}:[0-9]{2})$''))]),
          (''reconciledAt'', JObj [
              (''type'', JArr [JStr ''string'', JStr ''null'']),
              (''pattern'', JStr (''^[0-9]{4}-[0-9]{2}-[0-9]{2}T[0-9]{2}:[0-9]{2}:[0-9]{2}('' @ [CHR 0x5C] @ ''.[0-9]+)?(Z|[+-][0-9]{2}:[0-9]{2})$''))]),
          (''outcome'', JObj [
              (''enum'', JArr [JStr ''SUCCESS'', JStr ''FAILURE'', JStr ''TIMEOUT'', JStr ''TRANSPORT_ERROR'',
                  JStr ''CANCELED''])]),
          (''usage'', JObj [
              (''type'', JStr ''object''),
              (''additionalProperties'', JBool False),
              (''required'', JArr [JStr ''inputTokens'', JStr ''outputTokens'', JStr ''totalTokens'']),
              (''properties'', JObj [
                  (''inputTokens'', JObj [(''type'', JStr ''integer'')]),
                  (''outputTokens'', JObj [(''type'', JStr ''integer'')]),
                  (''totalTokens'', JObj [(''type'', JStr ''integer'')])])]),
          (''errorCode'', JObj [(''type'', JStr ''string''), (''pattern'', JStr ''^[A-Z][A-Z0-9_]*$'')]),
          (''rejectionCode'', JObj [
              (''enum'', JArr [JStr ''TRANSPORT_MALFORMED'', JStr ''SCHEMA_MISMATCH'', JStr ''SEMANTIC_CONFLATION'',
                  JStr ''WRONG_BASE'', JStr ''SCOPE_VIOLATION'', JStr ''UNRESOLVED_SEMANTICS'',
                  JStr ''UNSUPPORTED_CLAIM'', JStr ''INCOMPLETE_LEDGER'',
                  JStr ''BUDGET_EXHAUSTED'', JStr ''SECRET_DENIED_PATH'',
                  JStr ''SOL_ASK_INVALID''])]),
          (''assessmentResult'', JObj [(''enum'', JArr [JStr ''ACCEPTED'', JStr ''REJECTED''])]),
          (''summary'', JObj [
              (''type'', JStr ''string''),
              (''minLength'', JInt 1),
              (''maxLength'', JInt 500)]),
          (''evidenceRefs'', JObj [
              (''type'', JStr ''array''),
              (''maxItems'', JInt 50),
              (''items'', JObj [
                  (''type'', JStr ''string''),
                  (''minLength'', JInt 1),
                  (''maxLength'', JInt 500)])]),
          (''reconciliationReason'', JObj [
              (''enum'', JArr [JStr ''CRASH_AFTER_START'', JStr ''CRASH_AFTER_COMPLETION'', JStr ''DUPLICATE_LIFECYCLE'',
                  JStr ''OTHER''])]),
          (''supersededByInvocationId'', JObj [
              (''type'', JStr ''string''),
              (''pattern'', JStr ''^lcim_inv_[0-9a-f]{32}$'')])])]"

text \<open>src/schemas/run.v2.schema.json.\<close>

definition RUN_SCHEMA :: json where
  "RUN_SCHEMA =
    JObj [
      (''$schema'', JStr ''https://json-schema.org/draft/2020-12/schema''),
      (''$id'', JStr ''https://lcim.local/schemas/run.v2.schema.json''),
      (''title'', JStr ''LCIM V2 run store record''),
      (''type'', JStr ''object''),
      (''additionalProperties'', JBool False),
      (''required'', JArr [JStr ''schemaName'', JStr ''schemaVersion'', JStr ''runId'', JStr ''lifecycleState'',
          JStr ''lcimVersion'', JStr ''lcimCommit'', JStr ''targetBaseSha'',
          JStr ''configDigest'', JStr ''createdAt'', JStr ''storeVersion'',
          JStr ''finalizedAt'', JStr ''abortedAt'', JStr ''abortNote'', JStr ''finalSummary'']),
      (''properties'', JObj [
          (''schemaName'', JObj [(''const'', JStr ''lcim.run'')]),
          (''schemaVersion'', JObj [(''const'', JStr ''1.0.0'')]),
          (''runId'', JObj [
              (''type'', JStr ''string''),
              (''pattern'', JStr ''^lcim_run_[0-9a-f]{32}$'')]),
          (''lifecycleState'', JObj [
              (''enum'', JArr [JStr ''OPEN'', JStr ''COMPLETED'', JStr ''INCOMPLETE_LEDGER'', JStr ''ABORTED''])]),
          (''lcimVersion'', JObj [
              (''type'', JStr ''string''),
              (''pattern'', JStr (''^[0-9]+'' @ [CHR 0x5C] @ ''.[0-9]+'' @ [CHR 0x5C] @ ''.[0-9]+(-[0-9A-Za-z.-]+)?$''))]),
          (''lcimCommit'', JObj [
              (''type'', JArr [JStr ''string'', JStr ''null'']),
              (''pattern'', JStr ''^[0-9a-f]{40}$'')]),
          (''targetBaseSha'', JObj [(''type'', JStr ''string''), (''pattern'', JStr ''^[0-9a-f]{40}$'')]),
          (''configDigest'', JObj [(''type'', JStr ''string''), (''pattern'', JStr ''^[0-9a-f]{64}$'')]),
          (''createdAt'', JObj [
              (''type'', JStr ''string''),
              (''pattern'', JStr (''^[0-9]{4}-[0-9]{2}-[0-9]{2}T[0-9]{2}:[0-9]{2}:[0-9]{2}('' @ [CHR 0x5C] @ ''.[0-9]+)?(Z|[+-][0-9]{2}:[0-9]{2})$''))]),
          (''storeVersion'', JObj [(''const'', JStr ''1'')]),
          (''finalizedAt'', JObj [
              (''type'', JArr [JStr ''string'', JStr ''null'']),
              (''pattern'', JStr (''^[0-9]{4}-[0-9]{2}-[0-9]{2}T[0-9]{2}:[0-9]{2}:[0-9]{2}('' @ [CHR 0x5C] @ ''.[0-9]+)?(Z|[+-][0-9]{2}:[0-9]{2})$''))]),
          (''abortedAt'', JObj [
              (''type'', JArr [JStr ''string'', JStr ''null'']),
              (''pattern'', JStr (''^[0-9]{4}-[0-9]{2}-[0-9]{2}T[0-9]{2}:[0-9]{2}:[0-9]{2}('' @ [CHR 0x5C] @ ''.[0-9]+)?(Z|[+-][0-9]{2}:[0-9]{2})$''))]),
          (''abortNote'', JObj [
              (''type'', JArr [JStr ''string'', JStr ''null'']),
              (''minLength'', JInt 1),
              (''maxLength'', JInt 500)]),
          (''finalSummary'', JObj [
              (''type'', JArr [JStr ''object'', JStr ''null'']),
              (''additionalProperties'', JBool False),
              (''required'', JArr [JStr ''events'', JStr ''invocations'', JStr ''starts'', JStr ''completions'',
                  JStr ''assessments'', JStr ''reconciliations'', JStr ''lastSeq'',
                  JStr ''ledgerDigest'', JStr ''incompleteInvocationIds'']),
              (''properties'', JObj [
                  (''events'', JObj [(''type'', JStr ''integer'')]),
                  (''invocations'', JObj [(''type'', JStr ''integer'')]),
                  (''starts'', JObj [(''type'', JStr ''integer'')]),
                  (''completions'', JObj [(''type'', JStr ''integer'')]),
                  (''assessments'', JObj [(''type'', JStr ''integer'')]),
                  (''reconciliations'', JObj [(''type'', JStr ''integer'')]),
                  (''lastSeq'', JObj [(''type'', JStr ''integer'')]),
                  (''ledgerDigest'', JObj [(''type'', JStr ''string''), (''pattern'', JStr ''^[0-9a-f]{64}$'')]),
                  (''incompleteInvocationIds'', JObj [
                      (''type'', JStr ''array''),
                      (''items'', JObj [
                          (''type'', JStr ''string''),
                          (''pattern'', JStr ''^lcim_inv_[0-9a-f]{32}$'')])])])])])]"

end
