(* ===== verification/Schema_Spec.thy ===== *)
theory Schema_Spec
  imports Schema_Engine
begin

text \<open>
  What the supported keywords of a schema mean (\<open>conforms\<close>, on own properties), and the
  lemmas that relate the engine of Schema_Engine to it: agreement when no name of
  \<open>Object.prototype\<close> occurs, the fail-closed shape check, and the two keywords that an
  inherited name escapes.
\<close>

section \<open>The meaning of a schema\<close>

fun pattern_admits :: "regexps \<Rightarrow> string \<Rightarrow> jsval \<Rightarrow> bool" where
  "pattern_admits rx x (Some (JStr p)) = (case rx p of Some test \<Rightarrow> test x | None \<Rightarrow> True)"
| "pattern_admits rx x _ = True"

fun bound_admits :: "(int \<Rightarrow> int \<Rightarrow> bool) \<Rightarrow> nat \<Rightarrow> jsval \<Rightarrow> bool" where
  "bound_admits ok n (Some (JInt m)) = ok (int n) m"
| "bound_admits ok n _ = True"

definition string_admits :: "regexps \<Rightarrow> json \<Rightarrow> json \<Rightarrow> bool" where
  "string_admits rx v s =
     (case v of
        JStr x \<Rightarrow> pattern_admits rx x (own ''pattern'' (Some s))
          \<and> bound_admits (\<ge>) (length x) (own ''minLength'' (Some s))
          \<and> bound_admits (\<le>) (length x) (own ''maxLength'' (Some s))
      | _ \<Rightarrow> True)"

definition value_admits :: "json \<Rightarrow> json \<Rightarrow> bool" where
  "value_admits v s =
     ((case own ''enum'' (Some s) of Some (JArr xs) \<Rightarrow> (\<exists>x \<in> set xs. deep_equal x v) | _ \<Rightarrow> True)
      \<and> (case own ''const'' (Some s) of Some x \<Rightarrow> deep_equal x v | None \<Rightarrow> True))"

definition length_admits :: "json \<Rightarrow> json \<Rightarrow> bool" where
  "length_admits v s =
     (case v of
        JArr xs \<Rightarrow> bound_admits (\<ge>) (length xs) (own ''minItems'' (Some s))
          \<and> bound_admits (\<le>) (length xs) (own ''maxItems'' (Some s))
      | _ \<Rightarrow> True)"

text \<open>The required names are own properties, and a closed object has no other property.\<close>

definition keys_admit :: "json \<Rightarrow> json \<Rightarrow> bool" where
  "keys_admit v s =
     ((case own ''required'' (Some s) of
         Some (JArr rs) \<Rightarrow> (\<forall>r \<in> set rs. js_string (Some r) \<in> set (own_keys v)) | _ \<Rightarrow> True)
      \<and> (own ''additionalProperties'' (Some s) = Some (JBool False) \<longrightarrow>
           (case own ''properties'' (Some s) of
              Some ps \<Rightarrow> set (own_keys v) \<subseteq> set (own_keys ps)
            | None \<Rightarrow> own_keys v = [])))"

lemma size_zip_snd: "(x, sub) \<in> set (zip xs subs) \<Longrightarrow> size sub < Suc (size_list size subs)"
  by (auto dest!: set_zip_rightD intro: le_imp_less_Suc size_list_estimation')

lemma size_prop_snd: "(k, sub) \<in> set ps \<Longrightarrow> size sub < Suc (size_list (size_prod (\<lambda>_. 0) size) ps)"
  by (induction ps) auto

function conforms :: "regexps \<Rightarrow> json \<Rightarrow> json \<Rightarrow> bool" where
  "conforms rx v s =
     (type_admits v s \<and> string_admits rx v s \<and> value_admits v s \<and> length_admits v s \<and>
      (case v of
         JArr xs \<Rightarrow>
           (case own ''items'' (Some s) of
              None \<Rightarrow> True
            | Some (JArr subs) \<Rightarrow> (\<forall>(x, sub) \<in> set (zip xs subs). conforms rx x sub)
            | Some sub \<Rightarrow> (\<forall>x \<in> set xs. conforms rx x sub))
       | JObj kvs \<Rightarrow>
           keys_admit v s \<and>
           (case own ''properties'' (Some s) of
              Some (JObj ps) \<Rightarrow>
                (\<forall>(k, sub) \<in> set ps. case map_of kvs k of None \<Rightarrow> True | Some w \<Rightarrow> conforms rx w sub)
            | _ \<Rightarrow> True)
       | _ \<Rightarrow> True))"
  by pat_completeness auto

termination
  by (relation "measure (\<lambda>(rx, v, s). size s)")
     (fastforce dest: own_size size_zip_snd size_prop_snd)+

declare conforms.simps [simp del]

section \<open>Names of Object.prototype\<close>

fun plain_keys :: "json \<Rightarrow> bool" where
  "plain_keys (JArr xs) = list_all plain_keys xs"
| "plain_keys (JObj kvs) = list_all (\<lambda>kv. fst kv \<notin> set inherited_names \<and> plain_keys (snd kv)) kvs"
| "plain_keys _ = True"

fun plain_words :: "json \<Rightarrow> bool" where
  "plain_words (JStr s) = (s \<notin> set inherited_names)"
| "plain_words (JArr xs) = list_all plain_words xs"
| "plain_words (JObj kvs) = list_all (\<lambda>kv. fst kv \<notin> set inherited_names \<and> plain_words (snd kv)) kvs"
| "plain_words (JFn n) = False"
| "plain_words _ = True"

lemma plain_words_own: "plain_words s \<Longrightarrow> own k (Some s) = Some w \<Longrightarrow> plain_words w"
  by (cases s) (auto simp: list_all_iff dest!: map_of_SomeD)

lemma plain_keys_own: "plain_keys s \<Longrightarrow> own k (Some s) = Some w \<Longrightarrow> plain_keys w"
  by (cases s) (auto simp: list_all_iff dest!: map_of_SomeD)

lemma plain_keys_in: "plain_keys v \<Longrightarrow> k \<in> set (own_keys v) \<Longrightarrow> k \<notin> set inherited_names"
  by (cases v) (auto simp: list_all_iff)

section \<open>Agreement of the engine with the meaning\<close>

lemma check_pattern_iff: "check_pattern rx x p at = [] \<longleftrightarrow> pattern_admits rx x p"
  by (cases "(rx, x, p)" rule: pattern_admits.cases) (auto split: option.splits)

lemma check_bound_iff:
  "check_bound (<) n b msg at = [] \<longleftrightarrow> bound_admits (\<ge>) n b"
  "check_bound (>) n b msg at = [] \<longleftrightarrow> bound_admits (\<le>) n b"
  by (induction "(<) :: int \<Rightarrow> int \<Rightarrow> bool" n b msg at rule: check_bound.induct) auto

lemma check_string_iff: "check_string rx v s at = [] \<longleftrightarrow> string_admits rx v s"
  by (cases v) (auto simp: string_admits_def check_pattern_iff check_bound_iff)

lemma check_value_iff:
  "check_enum v (own ''enum'' (Some s)) at @ check_const v (own ''const'' (Some s)) at = []
     \<longleftrightarrow> value_admits v s"
  by (auto simp: value_admits_def check_const_def list_ex_iff split: option.splits json.splits if_splits)

lemma check_length_iff: "check_length v s at = [] \<longleftrightarrow> length_admits v s"
  by (cases v) (auto simp: length_admits_def check_length_def check_bound_iff)

lemma required_word_plain:
  "plain_words s \<Longrightarrow> own ''required'' (Some s) = Some (JArr rs) \<Longrightarrow> r \<in> set rs \<Longrightarrow> is_str r
    \<Longrightarrow> js_string (Some r) \<notin> set inherited_names"
  by (drule (1) plain_words_own) (cases r; auto simp: list_all_iff)

definition required_strings :: "json \<Rightarrow> bool" where
  "required_strings s \<longleftrightarrow> (\<forall>rs. own ''required'' (Some s) = Some (JArr rs) \<longrightarrow> list_all is_str rs)"

lemma check_keys_iff:
  assumes "plain_words s" and "plain_keys v" and "required_strings s"
  shows "check_required v (own ''required'' (Some s)) at @ check_additional v s at = []
     \<longleftrightarrow> keys_admit v s"
proof -
  have req: "check_required v (own ''required'' (Some s)) at = [] \<longleftrightarrow>
      (case own ''required'' (Some s) of
         Some (JArr rs) \<Rightarrow> (\<forall>r \<in> set rs. js_string (Some r) \<in> set (own_keys v)) | _ \<Rightarrow> True)"
    using assms(1,3) required_word_plain [of s]
    by (auto simp: js_in_def required_strings_def list_all_iff split: option.splits json.splits if_splits)
  have add: "check_additional v s at = [] \<longleftrightarrow>
      (own ''additionalProperties'' (Some s) = Some (JBool False) \<longrightarrow>
           (case own ''properties'' (Some s) of
              Some ps \<Rightarrow> set (own_keys v) \<subseteq> set (own_keys ps)
            | None \<Rightarrow> own_keys v = []))"
    using plain_keys_in [OF assms(2)]
    by (auto simp: check_additional_def known_property_def js_in_def subset_iff
        split: option.splits if_splits)
  show ?thesis
    by (simp add: keys_admit_def req add)
qed

text \<open>What a schema that passed the shape check promises about its parts.\<close>

lemma is_str_iff: "is_str x \<longleftrightarrow> (\<exists>s. x = JStr s)"
  by (cases x) auto

lemma supported_scalar:
  "assert_supported rx s at = Inr u \<Longrightarrow> assert_scalar_keywords rx s at = Inr ()"
  by (cases s) auto

lemma supported_required_strings:
  "assert_supported rx s at = Inr u \<Longrightarrow> required_strings s"
  by (drule supported_scalar)
     (fastforce simp: assert_scalar_keywords_def when_def_eq_Inr required_strings_def
      list_all_iff nonempty_string_iff is_str_iff)

lemma supported_obj: "assert_supported rx s at = Inr u \<Longrightarrow> \<exists>kvs. s = JObj kvs"
  by (cases s) auto

lemma supported_properties:
  "assert_supported rx s at = Inr u \<Longrightarrow> own ''properties'' (Some s) = Some p \<Longrightarrow>
     \<exists>ps. p = JObj ps \<and> assert_props rx ps at = Inr ()"
  by (cases s) (auto split: json.splits)

lemma supported_items:
  "assert_supported rx s at = Inr u \<Longrightarrow> own ''items'' (Some s) = Some p \<Longrightarrow>
     (\<exists>subs. p = JArr subs \<and> assert_items rx subs 0 at = Inr ()) \<or>
     (\<exists>kvs. p = JObj kvs \<and> assert_supported rx (JObj kvs) (at @ ''.items'') = Inr ())"
  by (cases s) (auto split: json.splits)

lemma assert_props_in:
  "assert_props rx ps at = Inr u \<Longrightarrow> (k, sub) \<in> set ps \<Longrightarrow> \<exists>at'. assert_supported rx sub at' = Inr ()"
  by (induction ps) auto

lemma assert_items_in:
  "assert_items rx subs i at = Inr u \<Longrightarrow> sub \<in> set subs \<Longrightarrow> \<exists>at'. assert_supported rx sub at' = Inr ()"
  by (induction subs arbitrary: i) auto

definition supported :: "regexps \<Rightarrow> json \<Rightarrow> bool" where
  "supported rx s \<longleftrightarrow> (\<exists>at. assert_supported rx s at = Inr ())"

lemma supported_cases:
  assumes "supported rx s"
  obtains (no_items) "own ''items'' (Some s) = None"
  | (tuple) subs where "own ''items'' (Some s) = Some (JArr subs)" "\<forall>sub \<in> set subs. supported rx sub"
  | (all) kvs where "own ''items'' (Some s) = Some (JObj kvs)" "supported rx (JObj kvs)"
proof -
  obtain at where at: "assert_supported rx s at = Inr ()"
    using assms by (auto simp: supported_def)
  show ?thesis
  proof (cases "own ''items'' (Some s)")
    case None
    then show ?thesis by (rule no_items)
  next
    case (Some p)
    from supported_items [OF at this] show ?thesis
    proof
      assume "\<exists>subs. p = JArr subs \<and> assert_items rx subs 0 at = Inr ()"
      then obtain subs where "p = JArr subs" "assert_items rx subs 0 at = Inr ()" by blast
      then show ?thesis
        using Some assert_items_in by (intro tuple) (auto simp: supported_def)
    next
      assume "\<exists>kvs. p = JObj kvs \<and> assert_supported rx (JObj kvs) (at @ ''.items'') = Inr ()"
      then show ?thesis
        using Some all by (auto simp: supported_def)
    qed
  qed
qed

lemma supported_props_cases:
  assumes "supported rx s"
  obtains (no_props) "own ''properties'' (Some s) = None"
  | (props) ps where "own ''properties'' (Some s) = Some (JObj ps)" "\<forall>kv \<in> set ps. supported rx (snd kv)"
proof -
  obtain at where at: "assert_supported rx s at = Inr ()"
    using assms by (auto simp: supported_def)
  show ?thesis
  proof (cases "own ''properties'' (Some s)")
    case None
    then show ?thesis by (rule no_props)
  next
    case (Some p)
    then obtain ps where p: "p = JObj ps" "assert_props rx ps at = Inr ()"
      using supported_properties [OF at] by blast
    then show ?thesis
      using Some assert_props_in [OF p(2)] by (intro props) (auto simp: supported_def)
  qed
qed

theorem check_conforms_aux:
  "supported rx s \<Longrightarrow> plain_words s \<Longrightarrow> plain_keys v \<Longrightarrow>
     check rx v s at = [] \<longleftrightarrow> conforms rx v s"
  "supported rx sub \<Longrightarrow> plain_words sub \<Longrightarrow> list_all plain_keys xs \<Longrightarrow>
     check_items rx xs sub i at = [] \<longleftrightarrow> (\<forall>x \<in> set xs. conforms rx x sub)"
  "\<forall>sub \<in> set subs. supported rx sub \<and> plain_words sub \<Longrightarrow> list_all plain_keys xs \<Longrightarrow>
     check_tuple rx xs subs i at = [] \<longleftrightarrow> (\<forall>(x, sub) \<in> set (zip xs subs). conforms rx x sub)"
  "\<forall>kv \<in> set ps. supported rx (snd kv) \<and> plain_words (snd kv) \<and> fst kv \<notin> set inherited_names \<Longrightarrow>
     plain_keys v \<Longrightarrow>
     check_props rx v ps at = [] \<longleftrightarrow>
       (\<forall>(k, sub) \<in> set ps. case own k (Some v) of None \<Rightarrow> True | Some w \<Rightarrow> conforms rx w sub)"
proof (induction rx v s at and rx xs sub i at and rx xs subs i at and rx v ps at
    rule: check_check_items_check_tuple_check_props.induct)
  case (1 rx v s at)
  have keys: "check_required v (own ''required'' (Some s)) at @ check_additional v s at = []
      \<longleftrightarrow> keys_admit v s"
    using "1.prems"(1) supported_required_strings unfolding supported_def
    by (intro check_keys_iff [OF "1.prems"(2,3)]) blast
  have items: "(case own ''items'' (Some s) of None \<Rightarrow> []
        | Some (JArr subs) \<Rightarrow> check_tuple rx xs subs 0 at
        | Some sub \<Rightarrow> check_items rx xs sub 0 at) = [] \<longleftrightarrow>
      (case own ''items'' (Some s) of None \<Rightarrow> True
        | Some (JArr subs) \<Rightarrow> (\<forall>(x, sub) \<in> set (zip xs subs). conforms rx x sub)
        | Some sub \<Rightarrow> (\<forall>x \<in> set xs. conforms rx x sub))"
    if v: "v = JArr xs" "type_admits v s" for xs
  proof -
    have xs: "list_all plain_keys xs" using "1.prems"(3) v by simp
    from "1.prems"(1) show ?thesis
    proof (cases rule: supported_cases)
      case no_items
      then show ?thesis by simp
    next
      case (tuple subs)
      moreover have "\<forall>sub \<in> set subs. plain_words sub"
        using plain_words_own [OF "1.prems"(2) tuple(1)] by (simp add: list_all_iff)
      ultimately show ?thesis
        using "1.IH" v xs by simp
    next
      case (all kvs)
      moreover have "plain_words (JObj kvs)"
        using plain_words_own [OF "1.prems"(2) all(1)] .
      ultimately show ?thesis
        using "1.IH" v xs by simp
    qed
  qed
  have props: "(case own ''properties'' (Some s) of
          Some (JObj ps) \<Rightarrow> check_props rx v ps at | _ \<Rightarrow> []) = [] \<longleftrightarrow>
      (case own ''properties'' (Some s) of
          Some (JObj ps) \<Rightarrow>
            (\<forall>(k, sub) \<in> set ps. case map_of kvs k of None \<Rightarrow> True | Some w \<Rightarrow> conforms rx w sub)
        | _ \<Rightarrow> True)"
    if "v = JObj kvs" "type_admits v s" for kvs
  proof (cases "own ''properties'' (Some s)")
    case None
    then show ?thesis by simp
  next
    case (Some p)
    then obtain ps where p: "own ''properties'' (Some s) = Some (JObj ps)"
      and sup: "\<forall>kv \<in> set ps. supported rx (snd kv)"
      using "1.prems"(1) by (auto elim!: supported_props_cases)
    have "plain_words (JObj ps)"
      using p "1.prems"(2) by (blast dest: plain_words_own)
    then have "\<forall>kv \<in> set ps. supported rx (snd kv) \<and> plain_words (snd kv) \<and> fst kv \<notin> set inherited_names"
      using sup by (auto simp: list_all_iff)
    then show ?thesis
      using "1.IH" "1.prems"(3) that p by simp
  qed
  have split_enum: "check rx v s at = [] \<longleftrightarrow>
      type_admits v s \<and> string_admits rx v s \<and> value_admits v s \<and> length_admits v s \<and>
      (case v of
             JArr xs \<Rightarrow>
               (case own ''items'' (Some s) of
                  None \<Rightarrow> []
                | Some (JArr subs) \<Rightarrow> check_tuple rx xs subs 0 at
                | Some sub \<Rightarrow> check_items rx xs sub 0 at)
           | JObj kvs \<Rightarrow>
               check_required v (own ''required'' (Some s)) at
               @ (case own ''properties'' (Some s) of
                    Some (JObj ps) \<Rightarrow> check_props rx v ps at
                  | _ \<Rightarrow> [])
               @ check_additional v s at
           | _ \<Rightarrow> []) = []"
    using check_value_iff [of v s at]
    by (subst check.simps) (simp add: check_string_iff check_length_iff, blast)
  show ?case
    using keys items props
    by (subst split_enum, subst conforms.simps) (cases v; auto)
next
  case (7 rx v k sub ps at)
  then have "member k (Some v) = own k (Some v)"
    by (simp add: member_own)
  with 7 show ?case
    by (auto split: option.splits dest: plain_keys_own)
qed auto

text \<open>The shape check is fail-closed: every subschema uses supported keywords only.\<close>

inductive subschema :: "json \<Rightarrow> json \<Rightarrow> bool" where
  whole: "subschema s s"
| property: "own ''properties'' (Some s) = Some (JObj ps) \<Longrightarrow> (k, sub) \<in> set ps \<Longrightarrow> subschema sub t
    \<Longrightarrow> subschema s t"
| item: "own ''items'' (Some s) = Some (JObj kvs) \<Longrightarrow> subschema (JObj kvs) t \<Longrightarrow> subschema s t"
| tuple: "own ''items'' (Some s) = Some (JArr subs) \<Longrightarrow> sub \<in> set subs \<Longrightarrow> subschema sub t
    \<Longrightarrow> subschema s t"

lemma supported_subschema: "subschema s t \<Longrightarrow> supported rx s \<Longrightarrow> supported rx t"
  by (induction rule: subschema.induct) (force elim: supported_cases supported_props_cases)+

lemma supported_keywords: "supported rx s \<Longrightarrow> set (own_keys s) \<subseteq> set SUPPORTED_KEYWORDS"
  by (auto simp: supported_def assert_scalar_keywords_def dest!: supported_scalar)

lemma validate_eq_Inr:
  "validate_against_schema rx v s = Inr es \<longleftrightarrow>
     assert_supported rx s ''(root)'' = Inr () \<and> es = check rx v s []"
  by (auto simp: validate_against_schema_def)

lemma validate_supported: "validate_against_schema rx v s = Inr es \<Longrightarrow> supported rx s"
  by (auto simp: validate_eq_Inr supported_def)

section \<open>Reading off an accepted document\<close>

text \<open>
  The engine has no issue with a value; the facts below read the parts of an accepted document
  off its schema, which the proofs about the contracts and the routing records use.
\<close>

definition accepts :: "regexps \<Rightarrow> json \<Rightarrow> json \<Rightarrow> bool" where
  "accepts rx v s \<longleftrightarrow> (\<exists>at. check rx v s at = [])"

definition schema_prop :: "json \<Rightarrow> string \<Rightarrow> json option" where
  "schema_prop s k = (case own ''properties'' (Some s) of Some (JObj ps) \<Rightarrow> map_of ps k | _ \<Rightarrow> None)"

lemma validate_accepts: "validate_against_schema rx v s = Inr [] \<Longrightarrow> accepts rx v s"
  unfolding validate_eq_Inr accepts_def by metis

lemma check_Nil:
  "check rx v s at = [] \<longleftrightarrow>
     type_admits v s \<and> check_string rx v s at = [] \<and> check_enum v (own ''enum'' (Some s)) at = [] \<and>
     check_const v (own ''const'' (Some s)) at = [] \<and> check_length v s at = [] \<and>
     (case v of
        JArr xs \<Rightarrow>
          (case own ''items'' (Some s) of
             None \<Rightarrow> []
           | Some (JArr subs) \<Rightarrow> check_tuple rx xs subs 0 at
           | Some sub \<Rightarrow> check_items rx xs sub 0 at)
      | JObj kvs \<Rightarrow>
          check_required v (own ''required'' (Some s)) at
          @ (case own ''properties'' (Some s) of
               Some (JObj ps) \<Rightarrow> check_props rx v ps at
             | _ \<Rightarrow> [])
          @ check_additional v s at
      | _ \<Rightarrow> []) = []"
  by (subst check.simps) (cases "type_admits v s", simp_all only: if_True if_False append_is_Nil_conv
      not_True_eq_False not_False_eq_True list.distinct simp_thms)

lemma accepts_type: "accepts rx v s \<Longrightarrow> own ''type'' (Some s) = Some (JStr t) \<Longrightarrow> type_ok v (JStr t)"
  unfolding accepts_def check_Nil by (auto simp only: type_admits_def option.case as_list.simps list_ex_iff list.set singleton_iff)

lemma accepts_enum:
  "accepts rx v s \<Longrightarrow> own ''enum'' (Some s) = Some (JArr xs) \<Longrightarrow> \<exists>x \<in> set xs. deep_equal x v"
  by (auto simp: accepts_def list_ex_iff check_Nil split: if_splits)

lemma accepts_const: "accepts rx v s \<Longrightarrow> own ''const'' (Some s) = Some x \<Longrightarrow> deep_equal x v"
  by (auto simp: accepts_def check_const_def check_Nil split: if_splits)

lemma accepts_pattern:
  "accepts rx (JStr x) s \<Longrightarrow> own ''pattern'' (Some s) = Some (JStr p) \<Longrightarrow> rx p = Some test \<Longrightarrow> test x"
  by (auto simp: accepts_def check_Nil split: if_splits)

lemma accepts_max_length:
  "accepts rx (JStr x) s \<Longrightarrow> own ''maxLength'' (Some s) = Some (JInt m) \<Longrightarrow> int (length x) \<le> m"
  by (auto simp: accepts_def check_Nil split: if_splits)

lemma accepts_required:
  assumes "accepts rx v s" and "is_obj v" and "own ''required'' (Some s) = Some (JArr rs)"
    and "JStr k \<in> set rs" and "k \<notin> set inherited_names"
  shows "\<exists>w. own k (Some v) = Some w"
proof -
  obtain kvs at where v: "v = JObj kvs" and "check rx (JObj kvs) s at = []"
    using assms(1,2) by (cases v) (auto simp: accepts_def)
  then have "check_required v (Some (JArr rs)) at = []"
    using assms(3) by (simp only: check_Nil json.case append_is_Nil_conv)
  then have "js_in k v"
    using assms(4) by (fastforce split: if_splits)
  then show ?thesis
    using assms(5) by (auto simp: js_in_own)
qed

lemma check_props_in:
  "check_props rx v ps at = [] \<Longrightarrow> (k, sub) \<in> set ps \<Longrightarrow> own k (Some v) = Some w \<Longrightarrow> accepts rx w sub"
proof (induction ps)
  case (Cons p ps)
  then show ?case
    by (cases p) (auto simp: accepts_def member_Some_own)
qed simp

lemma accepts_prop:
  assumes "accepts rx v s" and "schema_prop s k = Some sub" and "own k (Some v) = Some w"
  shows "accepts rx w sub"
proof -
  obtain kvs where v: "v = JObj kvs"
    using assms(3) by (cases v) auto
  obtain ps where ps: "own ''properties'' (Some s) = Some (JObj ps)" "map_of ps k = Some sub"
    using assms(2) by (auto simp: schema_prop_def split: option.splits json.splits)
  obtain at where "check rx (JObj kvs) s at = []"
    using assms(1) v by (auto simp: accepts_def)
  then have "check_props rx v ps at = []"
    using ps v by (simp add: check_Nil)
  then show ?thesis
    using map_of_SomeD [OF ps(2)] assms(3) by (rule check_props_in)
qed

lemma accepts_items:
  assumes "accepts rx (JArr xs) s" and "own ''items'' (Some s) = Some (JObj sub)" and "x \<in> set xs"
  shows "accepts rx x (JObj sub)"
proof -
  obtain at where "check rx (JArr xs) s at = []"
    using assms(1) by (auto simp: accepts_def)
  then have "check_items rx xs (JObj sub) 0 at = []"
    using assms(2) by (simp add: check_Nil)
  then have "\<exists>i. check_items rx xs (JObj sub) i at = []"
    by blast
  with assms(3) show ?thesis
    by (induction xs) (auto simp: accepts_def)
qed

end
