(* ===== verification/Contract_Digest.thy ===== *)
theory Contract_Digest
  imports Lcim_Schemas Schema_Spec
begin

text \<open>
  The content identities of semantic contracts: src/src/risk/classes.mjs and
  src/src/risk/side-effects.mjs (risk classes, side-effect scopes, the guard of a side-effect
  spec and its content-bound identity), src/src/contracts/digest.mjs (the semantic digest) and
  src/src/contracts/status.mjs (the compile status).  The hash of node:crypto is the parameter
  \<open>sha\<close>, from a text to the hex digest; nothing is assumed of it unless a lemma says so.
  The lemmas show that the digest only depends on the authority-bearing content, not on the
  order of properties or of the set-like collections.
\<close>

type_synonym digest_fun = "string \<Rightarrow> string"

section \<open>Risk classes\<close>

definition HIGH_RISK_CLASSES :: "string list" where
  "HIGH_RISK_CLASSES = [''AUTHORIZATION_SECURITY_PROVIDER'', ''MIGRATION'', ''IDENTITY'', ''FINANCIAL'',
     ''PRODUCTION_EXECUTION'', ''IRREVERSIBLE_LIFECYCLE_DATA'']"

definition RISK_CLASSES :: "string list" where
  "RISK_CLASSES = HIGH_RISK_CLASSES @ [''LOW_RISK'']"

definition isHighRiskClass :: "jsval \<Rightarrow> bool" where
  "isHighRiskClass v = one_of HIGH_RISK_CLASSES v"

definition isValidRiskClass :: "jsval \<Rightarrow> bool" where
  "isValidRiskClass v = one_of RISK_CLASSES v"

definition assertRiskClass :: "jsval \<Rightarrow> unit result" where
  "assertRiskClass v = need (isValidRiskClass v) (ConfigError ''riskClass'')"

section \<open>Side effects\<close>

definition SIDE_EFFECT_SCOPES :: "string list" where
  "SIDE_EFFECT_SCOPES = [''provider_factory'', ''network'', ''database'', ''lock'', ''mutation'']"

definition SIDE_EFFECT_EVIDENCE_KINDS :: "string list" where
  "SIDE_EFFECT_EVIDENCE_KINDS =
     [''instrumented_counter'', ''audit_log'', ''transaction_count'', ''lock_acquire_count'']"

definition isValidSideEffectScope :: "jsval \<Rightarrow> bool" where
  "isValidSideEffectScope v = one_of SIDE_EFFECT_SCOPES v"

definition isValidSideEffectEvidenceKind :: "jsval \<Rightarrow> bool" where
  "isValidSideEffectEvidenceKind v = one_of SIDE_EFFECT_EVIDENCE_KINDS v"

text \<open>The text that is hashed: the canonical serialization of the spec without its identity.\<close>

definition side_effect_text :: "json \<Rightarrow> string" where
  "side_effect_text spec =
     json_stringify (canonicalize_json (JObj (without ''sideEffectId'' (spread (Some spec)))))"

definition sideEffectIdForSpec :: "digest_fun \<Rightarrow> json \<Rightarrow> string" where
  "sideEffectIdForSpec sha spec = ''se_'' @ sha (side_effect_text spec)"

definition assertSideEffectSpec :: "json \<Rightarrow> unit result" where
  "assertSideEffectSpec spec =
     (let s = Some spec in
      rbind (need (plain_object s) (ConfigError ''side-effect spec'')) (\<lambda>_.
      rbind (need (nonempty_string (own ''gate'' s)) (ConfigError ''gate'')) (\<lambda>_.
      rbind (need (isValidSideEffectScope (own ''scope'' s)) (ConfigError ''scope'')) (\<lambda>_.
      rbind (need (nonempty_string (own ''requirement'' s)) (ConfigError ''requirement'')) (\<lambda>_.
      rbind (need (int_at_least 0 (own ''expectedCount'' s)) (ConfigError ''expectedCount'')) (\<lambda>_.
      rbind (need (own ''evidenceKind'' s \<noteq> None \<longrightarrow> isValidSideEffectEvidenceKind (own ''evidenceKind'' s))
               (ConfigError ''evidenceKind'')) (\<lambda>_.
      need (own ''sideEffectId'' s = None) (ConfigError ''sideEffectId''))))))))"

section \<open>Compile status\<close>

definition computeCompileStatus :: "jsval \<Rightarrow> string" where
  "computeCompileStatus unresolved =
     (if filter (\<lambda>u. isHighRiskClass (own ''riskClass'' (Some u))) (arr_or_empty unresolved) \<noteq> []
      then ''CONTRACT_REVIEW_REQUIRED'' else ''COMPILED'')"

text \<open>
  The reason of a review-required status: the distinct high-risk classes, in the order of
  their first occurrence.
\<close>

definition reviewRequiredClasses :: "jsval \<Rightarrow> string list option" where
  "reviewRequiredClasses unresolved =
     (let hs = filter (\<lambda>u. isHighRiskClass (own ''riskClass'' (Some u))) (arr_or_empty unresolved) in
      if hs = [] then None
      else Some (rev (remdups (rev (map (\<lambda>u. js_string (own ''riskClass'' (Some u))) hs)))))"

lemma computeCompileStatus_iff:
  "computeCompileStatus u = ''CONTRACT_REVIEW_REQUIRED'' \<longleftrightarrow>
     (\<exists>x \<in> set (arr_or_empty u). isHighRiskClass (own ''riskClass'' (Some x)))"
  "computeCompileStatus u = ''COMPILED'' \<longleftrightarrow>
     (\<forall>x \<in> set (arr_or_empty u). \<not> isHighRiskClass (own ''riskClass'' (Some x)))"
  by (auto simp: computeCompileStatus_def filter_empty_conv)

lemma reviewRequiredClasses_iff:
  "reviewRequiredClasses u = None \<longleftrightarrow> computeCompileStatus u = ''COMPILED''"
  by (auto simp: reviewRequiredClasses_def computeCompileStatus_def Let_def)

section \<open>Semantic digest\<close>

definition SET_LIKE_ARRAYS :: "string list" where
  "SET_LIKE_ARRAYS = [''sourceObjects'', ''concepts'', ''distinctConcepts'', ''negativeSideEffects'',
     ''factsEstablished'', ''unresolvedSemantics'']"

definition canonicalSortKey :: "json \<Rightarrow> string" where
  "canonicalSortKey v = json_stringify (canonicalize_json v)"

text \<open>\<open>v ?? null\<close>.\<close>

definition or_null :: "jsval \<Rightarrow> json" where
  "or_null v = (case v of None \<Rightarrow> JNull | Some x \<Rightarrow> x)"

definition digest_payload :: "json \<Rightarrow> json" where
  "digest_payload doc =
     JObj ([(''contractKey'', or_null (own ''contractKey'' (Some doc))),
            (''riskClass'', or_null (own ''riskClass'' (Some doc)))]
       @ map (\<lambda>f. (f, JArr (sort_key canonicalSortKey (arr_or_empty (own f (Some doc)))))) SET_LIKE_ARRAYS)"

definition computeSemanticDigest :: "digest_fun \<Rightarrow> json \<Rightarrow> string" where
  "computeSemanticDigest sha doc = sha (json_stringify (canonicalize_json (digest_payload doc)))"

section \<open>What the identities depend on\<close>

lemma without_keys: "map fst (without k kvs) = filter (\<lambda>x. x \<noteq> k) (map fst kvs)"
  by (induction kvs) (auto simp: without_def)

text \<open>A carried identity never takes part in its own derivation.\<close>

lemma sideEffectIdForSpec_ignores_id:
  "sideEffectIdForSpec sha (JObj (put ''sideEffectId'' v kvs)) = sideEffectIdForSpec sha (JObj kvs)"
  by (simp add: sideEffectIdForSpec_def side_effect_text_def)

text \<open>The canonical texts of the members of a collection, sorted.\<close>

definition sorted_texts :: "string \<Rightarrow> json \<Rightarrow> string list" where
  "sorted_texts f doc = sort (map canonicalSortKey (arr_or_empty (own f (Some doc))))"

lemma map_sort_key_self: "map f (sort_key f xs) = sort (map f xs)"
  by (rule sym, rule properties_for_sort) simp_all

lemma stringify_canonical_array:
  "json_stringify (canonicalize_json (JArr (sort_key canonicalSortKey xs)))
     = ''['' @ join_with '','' (sort (map canonicalSortKey xs)) @ '']''"
proof -
  have "map json_stringify (map canonicalize_json (sort_key canonicalSortKey xs))
      = map canonicalSortKey (sort_key canonicalSortKey xs)"
    by (simp add: canonicalSortKey_def)
  then show ?thesis
    by (simp add: map_sort_key_self)
qed

text \<open>The payload's properties in canonical order.\<close>

lemma payload_text:
  "json_stringify (canonicalize_json (digest_payload doc)) =
     ''{'' @ join_with '','' (map (\<lambda>kt. quote_string (fst kt) @ '':'' @ snd kt)
       [(''concepts'', ''['' @ join_with '','' (sorted_texts ''concepts'' doc) @ '']''),
        (''contractKey'', canonicalSortKey (or_null (own ''contractKey'' (Some doc)))),
        (''distinctConcepts'', ''['' @ join_with '','' (sorted_texts ''distinctConcepts'' doc) @ '']''),
        (''factsEstablished'', ''['' @ join_with '','' (sorted_texts ''factsEstablished'' doc) @ '']''),
        (''negativeSideEffects'', ''['' @ join_with '','' (sorted_texts ''negativeSideEffects'' doc) @ '']''),
        (''riskClass'', canonicalSortKey (or_null (own ''riskClass'' (Some doc)))),
        (''sourceObjects'', ''['' @ join_with '','' (sorted_texts ''sourceObjects'' doc) @ '']''),
        (''unresolvedSemantics'', ''['' @ join_with '','' (sorted_texts ''unresolvedSemantics'' doc) @ '']'')])
     @ ''}''"
proof -
  define g where "g f = canonicalize_json (JArr (sort_key canonicalSortKey (arr_or_empty (own f (Some doc)))))" for f
  define ck where "ck = canonicalize_json (or_null (own ''contractKey'' (Some doc)))"
  define rc where "rc = canonicalize_json (or_null (own ''riskClass'' (Some doc)))"
  have "canonicalize_json (digest_payload doc) =
    JObj (property_order (filter assignable (sort_key fst
      [(''contractKey'', ck), (''riskClass'', rc), (''sourceObjects'', g ''sourceObjects''),
       (''concepts'', g ''concepts''), (''distinctConcepts'', g ''distinctConcepts''),
       (''negativeSideEffects'', g ''negativeSideEffects''),
       (''factsEstablished'', g ''factsEstablished''),
       (''unresolvedSemantics'', g ''unresolvedSemantics'')])))"
    by (simp add: digest_payload_def SET_LIKE_ARRAYS_def ck_def rc_def g_def)
  also have "\<dots> = JObj [(''concepts'', g ''concepts''), (''contractKey'', ck),
       (''distinctConcepts'', g ''distinctConcepts''), (''factsEstablished'', g ''factsEstablished''),
       (''negativeSideEffects'', g ''negativeSideEffects''), (''riskClass'', rc),
       (''sourceObjects'', g ''sourceObjects''), (''unresolvedSemantics'', g ''unresolvedSemantics'')]"
    by (simp add: assignable_def property_order_def array_index_def less_eq_char_def)
  finally have "canonicalize_json (digest_payload doc) = \<dots>" .
  moreover have "json_stringify (g f) = ''['' @ join_with '','' (sorted_texts f doc) @ '']''" for f
    unfolding g_def stringify_canonical_array by (simp add: sorted_texts_def)
  ultimately show ?thesis
    by (simp add: ck_def rc_def canonicalSortKey_def)
qed

lemma semantic_digest_cong:
  assumes "own ''contractKey'' (Some d) = own ''contractKey'' (Some d')"
    and "own ''riskClass'' (Some d) = own ''riskClass'' (Some d')"
    and "\<And>f. f \<in> set SET_LIKE_ARRAYS \<Longrightarrow>
      mset (map canonicalSortKey (arr_or_empty (own f (Some d))))
      = mset (map canonicalSortKey (arr_or_empty (own f (Some d'))))"
  shows "computeSemanticDigest sha d = computeSemanticDigest sha d'"
proof -
  have "sorted_texts f d = sorted_texts f d'" if "f \<in> set SET_LIKE_ARRAYS" for f
    using assms(3) [OF that] unfolding sorted_texts_def
    by (metis mset_sort properties_for_sort sorted_sort)
  then show ?thesis
    unfolding computeSemanticDigest_def payload_text
    using assms(1,2) by (simp add: SET_LIKE_ARRAYS_def)
qed

lemma canonicalSortKey_deep_equal:
  "deep_equal a b \<Longrightarrow> wf_json a \<Longrightarrow> wf_json b \<Longrightarrow> canonicalSortKey a = canonicalSortKey b"
  by (simp add: canonicalSortKey_def canonicalize_deep_equal)

end
