(* ===== verification/Contract_Validate.thy ===== *)
theory Contract_Validate
  imports Contract_Digest
begin

text \<open>
  Validation of semantic contracts, src/src/contracts/validate.mjs (\<open>validateSemanticContract\<close>,
  \<open>applySemanticRules\<close>, \<open>authorityFailureReason\<close>, \<open>isAuthoritative\<close>).  A report is the
  pair of its issues and its warnings; an issue is its path and the code its message starts
  with, a warning is the object the source builds.  The second half gives the meaning of the rules (\<open>contract_consistent\<close>) and shows that
  the validator reports no issue exactly when it holds.
\<close>

type_synonym report = "issue list \<times> json list"

definition warning_json :: "string \<Rightarrow> string \<Rightarrow> string \<Rightarrow> json" where
  "warning_json code message path =
     JObj [(''code'', JStr code), (''message'', JStr message), (''path'', JStr path)]"

abbreviation fld :: "string \<Rightarrow> json \<Rightarrow> jsval" where
  "fld k v \<equiv> own k (Some v)"

abbreviation items_of :: "string \<Rightarrow> json \<Rightarrow> json list" where
  "items_of k v \<equiv> arr_or_empty (own k (Some v))"

text \<open>Paths such as \<open>concepts[3]\<close>.\<close>

definition at_index :: "string \<Rightarrow> nat \<Rightarrow> string" where
  "at_index name i = name @ ''['' @ nat_str i @ '']''"

section \<open>Concepts\<close>

definition source_key_issues :: "json \<Rightarrow> issue list" where
  "source_key_issues doc =
     map (\<lambda>(i, k). (at_index ''sourceObjects'' i @ ''.key'', ''DUPLICATE_SOURCE_KEY''))
       (repeated (map (fld ''key'') (items_of ''sourceObjects'' doc)))"

definition source_keys :: "json \<Rightarrow> jsval list" where
  "source_keys doc = map (fld ''key'') (items_of ''sourceObjects'' doc)"

definition source_ref_issues :: "jsval list \<Rightarrow> string \<Rightarrow> json \<Rightarrow> issue list" where
  "source_ref_issues keys at c =
     (if fld ''sourceObjectKey'' c \<noteq> None \<and> fld ''sourceObjectKey'' c \<notin> set keys
      then [(at @ ''.sourceObjectKey'', ''UNKNOWN_SOURCE_OBJECT'')] else [])"

definition in_lifecycle :: "json \<Rightarrow> jsval \<Rightarrow> bool" where
  "in_lifecycle c st \<longleftrightarrow> (\<exists>x \<in> set (items_of ''lifecycle'' c). st = Some x)"

definition transition_issues :: "string \<Rightarrow> json \<Rightarrow> issue list" where
  "transition_issues at c =
     (if items_of ''lifecycle'' c \<noteq> []
      then concat (map (\<lambda>(j, t).
             if \<not> in_lifecycle c (fld ''from'' t) \<or> \<not> in_lifecycle c (fld ''to'' t)
             then [(at @ ''.'' @ at_index ''allowedTransitions'' j, ''INVALID_TRANSITION_STATE'')] else [])
             (entries (items_of ''allowedTransitions'' c)))
      else [])"

fun concept_loop :: "jsval list \<Rightarrow> nat \<Rightarrow> jsval list \<Rightarrow> json list \<Rightarrow> issue list" where
  "concept_loop keys i seen [] = []"
| "concept_loop keys i seen (c # cs) =
     (let at = at_index ''concepts'' i; name = fld ''name'' c in
      (if name \<in> set seen then [(at @ ''.name'', ''DUPLICATE_CONCEPT'')] else [])
      @ source_ref_issues keys at c
      @ transition_issues at c
      @ concept_loop keys (Suc i) (name # seen) cs)"

text \<open>A warning about a concept; its message quotes the concept's name.\<close>

definition concept_warning :: "nat \<Rightarrow> json \<Rightarrow> string \<Rightarrow> string \<Rightarrow> string \<Rightarrow> string \<Rightarrow> json" where
  "concept_warning i c field code pre suff =
     warning_json code (pre @ CHR 0x27 # js_string (fld ''name'' c) @ CHR 0x27 # suff)
       (at_index ''concepts'' i @ ''.'' @ field)"

definition concept_warnings :: "json \<Rightarrow> json list" where
  "concept_warnings doc =
     concat (map (\<lambda>(i, c).
        (if is_lit (fld ''kind'' c) ''digest'' \<and> \<not> js_truthy (fld ''digestMeaning'' c)
         then [concept_warning i c ''digestMeaning'' ''MISSING_DIGEST_MEANING'' ''digest concept ''
                 '' declares no digestMeaning; its distinctness cannot be verified''] else [])
        @ (if is_lit (fld ''kind'' c) ''identity'' \<and> \<not> js_truthy (fld ''identityMeaning'' c)
           then [concept_warning i c ''identityMeaning'' ''MISSING_IDENTITY_MEANING'' ''identity concept ''
                   '' declares no identityMeaning; its binding cannot be verified''] else [])
        @ (if fld ''sourceObjectKey'' c = None
           then [concept_warning i c ''sourceObjectKey'' ''MISSING_SOURCE_OF_TRUTH'' ''concept ''
                   '' references no source object; authoritative origin is unverifiable''] else []))
       (entries (items_of ''concepts'' doc)))"

section \<open>Ownership of names\<close>

text \<open>
  The loop that both the authoritative field names and the forbidden alternatives go through:
  a map from a name to the concept that claimed it first, and what to report for a name that
  another concept claimed.
\<close>

fun claim_names :: "(json \<times> jsval) list \<Rightarrow> jsval \<Rightarrow> (json \<Rightarrow> jsval \<Rightarrow> 'w) \<Rightarrow> json list
    \<Rightarrow> 'w list \<times> (json \<times> jsval) list" where
  "claim_names owners name report [] = ([], owners)"
| "claim_names owners name report (f # fs) =
     (case map_of owners f of
        Some n \<Rightarrow>
          (let r = claim_names owners name report fs in
           (if n \<noteq> name then report f n # fst r else fst r, snd r))
      | None \<Rightarrow> claim_names ((f, name) # owners) name report fs)"

fun claim_all :: "string \<Rightarrow> (nat \<Rightarrow> jsval \<Rightarrow> json \<Rightarrow> jsval \<Rightarrow> 'w) \<Rightarrow> nat \<Rightarrow> (json \<times> jsval) list
    \<Rightarrow> json list \<Rightarrow> 'w list" where
  "claim_all field report i owners [] = []"
| "claim_all field report i owners (c # cs) =
     (let r = claim_names owners (fld ''name'' c) (report i (fld ''name'' c)) (items_of field c)
      in fst r @ claim_all field report (Suc i) (snd r) cs)"

definition field_overlap_issues :: "json \<Rightarrow> issue list" where
  "field_overlap_issues doc =
     claim_all ''authoritativeFieldNames''
       (\<lambda>i name f owner. (at_index ''concepts'' i @ ''.authoritativeFieldNames'', ''FIELD_NAME_OVERLAP''))
       0 [] (items_of ''concepts'' doc)"

definition alternative_warning :: "nat \<Rightarrow> jsval \<Rightarrow> json \<Rightarrow> jsval \<Rightarrow> json" where
  "alternative_warning i name a owner =
     warning_json ''FORBIDDEN_ALTERNATIVE_OVERLAP''
       (''forbidden alternative '' @ CHR 0x27 # js_string (Some a) @ CHR 0x27 #
        '' is claimed by both '' @ CHR 0x27 # js_string owner @ CHR 0x27 #
        '' and '' @ CHR 0x27 # js_string name @ [CHR 0x27])
       (at_index ''concepts'' i @ ''.forbiddenAlternatives'')"

definition alternative_warnings :: "json \<Rightarrow> json list" where
  "alternative_warnings doc =
     claim_all ''forbiddenAlternatives'' alternative_warning 0 [] (items_of ''concepts'' doc)"

section \<open>Distinct concepts\<close>

text \<open>\<open>byName.get(ref)\<close>: the first concept of that name.\<close>

definition find_concept :: "json \<Rightarrow> jsval \<Rightarrow> json option" where
  "find_concept doc name = List.find (\<lambda>c. fld ''name'' c = name) (items_of ''concepts'' doc)"

definition meanings :: "json \<Rightarrow> jsval list" where
  "meanings c = filter js_truthy [fld ''digestMeaning'' c, fld ''identityMeaning'' c]"

definition shared_meaning :: "json \<Rightarrow> json \<Rightarrow> bool" where
  "shared_meaning a b \<longleftrightarrow> filter (\<lambda>m. m \<in> set (meanings b)) (meanings a) \<noteq> []"

definition ambiguous_pair :: "json \<Rightarrow> jsval \<Rightarrow> jsval \<Rightarrow> bool" where
  "ambiguous_pair doc na nb =
     (case (find_concept doc na, find_concept doc nb) of
        (Some a, Some b) \<Rightarrow> shared_meaning a b
      | _ \<Rightarrow> False)"

definition distinct_issues :: "json \<Rightarrow> nat \<Rightarrow> json \<Rightarrow> issue list" where
  "distinct_issues doc i d =
     (let at = at_index ''distinctConcepts'' i;
          a = fld ''conceptA'' d; b = fld ''conceptB'' d;
          also_refs = map Some (items_of ''alsoDistinctFrom'' d) in
      concat (map (\<lambda>r. if find_concept doc r = None then [(at, ''UNKNOWN_DISTINCT_REF'')] else [])
        (a # b # also_refs))
      @ (if a = b then [(at, ''SELF_DISTINCT_PAIR'')] else [])
      @ concat (map (\<lambda>r. if r = a \<or> r = b
          then [(at @ ''.alsoDistinctFrom'', ''SELF_DISTINCT_PAIR'')] else []) also_refs)
      @ (if ambiguous_pair doc a b then [(at, ''AMBIGUOUS_MEANING'')] else []))"

section \<open>Status, side effects and digest\<close>

definition status_issues :: "json \<Rightarrow> issue list" where
  "status_issues doc =
     (if \<not> is_lit (fld ''compileStatus'' doc) (computeCompileStatus (fld ''unresolvedSemantics'' doc))
      then [(''compileStatus'', ''STATUS_MISMATCH'')] else [])"

definition count_issues :: "json \<Rightarrow> issue list" where
  "count_issues doc =
     concat (map (\<lambda>(i, s). if \<not> int_at_least 0 (fld ''expectedCount'' s)
         then [(at_index ''negativeSideEffects'' i @ ''.expectedCount'', ''INVALID_SIDE_EFFECT_COUNT'')] else [])
       (entries (items_of ''negativeSideEffects'' doc)))"

fun side_effect_id_loop :: "digest_fun \<Rightarrow> nat \<Rightarrow> jsval list \<Rightarrow> json list \<Rightarrow> issue list" where
  "side_effect_id_loop sha i seen [] = []"
| "side_effect_id_loop sha i seen (s # ss) =
     (let sid = fld ''sideEffectId'' s; at = at_index ''negativeSideEffects'' i @ ''.sideEffectId'' in
      if \<not> isValidSideEffectId sid then side_effect_id_loop sha (Suc i) seen ss
      else if sid \<in> set seen
      then (at, ''DUPLICATE_SIDE_EFFECT_ID'') # side_effect_id_loop sha (Suc i) seen ss
      else (if is_lit sid (sideEffectIdForSpec sha s) then []
            else [(at, ''SIDE_EFFECT_ID_MISMATCH'')])
        @ side_effect_id_loop sha (Suc i) (sid # seen) ss)"

definition digest_issues :: "digest_fun \<Rightarrow> json \<Rightarrow> issue list" where
  "digest_issues sha doc =
     (case fld ''semanticDigest'' doc of
        Some (JStr d) \<Rightarrow>
          (if computeSemanticDigest sha doc \<noteq> d then [(''semanticDigest'', ''DIGEST_MISMATCH'')] else [])
      | _ \<Rightarrow> [])"

section \<open>The validator\<close>

definition applySemanticRules :: "digest_fun \<Rightarrow> json \<Rightarrow> report" where
  "applySemanticRules sha doc =
     (source_key_issues doc
      @ concept_loop (source_keys doc) 0 [] (items_of ''concepts'' doc)
      @ field_overlap_issues doc
      @ concat (map (\<lambda>(i, d). distinct_issues doc i d) (entries (items_of ''distinctConcepts'' doc)))
      @ status_issues doc
      @ count_issues doc
      @ side_effect_id_loop sha 0 [] (items_of ''negativeSideEffects'' doc)
      @ digest_issues sha doc,
      concept_warnings doc @ alternative_warnings doc)"

definition validateSemanticContract :: "digest_fun \<Rightarrow> json \<Rightarrow> report result" where
  "validateSemanticContract sha doc =
     rbind (validate_against_schema lcim_regexps doc SEMANTIC_CONTRACT_SCHEMA) (\<lambda>es.
     Inr (if es = [] \<and> is_obj doc then applySemanticRules sha doc else (es, [])))"

text \<open>Why a contract is not authoritative, \<open>None\<close> when it is.\<close>

definition authorityFailureReason :: "digest_fun \<Rightarrow> jsval \<Rightarrow> string option" where
  "authorityFailureReason sha contract =
     (if \<not> plain_object contract then Some ''not a semantic contract object''
      else case validateSemanticContract sha (the contract) of
             Inl e \<Rightarrow> Some ''semantic contract could not be validated''
           | Inr (es, ws) \<Rightarrow>
               (if es \<noteq> [] then Some ''validation failed''
                else if \<not> is_lit (own ''compileStatus'' contract) ''COMPILED'' then Some ''not COMPILED''
                else None))"

definition isAuthoritative :: "digest_fun \<Rightarrow> jsval \<Rightarrow> bool" where
  "isAuthoritative sha contract \<longleftrightarrow> authorityFailureReason sha contract = None"

section \<open>The meaning of the rules\<close>

definition concept_names :: "json \<Rightarrow> jsval list" where
  "concept_names doc = map (fld ''name'') (items_of ''concepts'' doc)"

text \<open>No name of the field is claimed by two concepts of different names.\<close>

definition exclusively_owned :: "string \<Rightarrow> json list \<Rightarrow> bool" where
  "exclusively_owned field cs \<longleftrightarrow>
     (\<forall>c \<in> set cs. \<forall>d \<in> set cs. \<forall>f \<in> set (items_of field c) \<inter> set (items_of field d).
        fld ''name'' c = fld ''name'' d)"

definition concept_sound :: "json \<Rightarrow> json \<Rightarrow> bool" where
  "concept_sound doc c \<longleftrightarrow>
     (fld ''sourceObjectKey'' c \<noteq> None \<longrightarrow> fld ''sourceObjectKey'' c \<in> set (source_keys doc)) \<and>
     (items_of ''lifecycle'' c \<noteq> [] \<longrightarrow>
        (\<forall>t \<in> set (items_of ''allowedTransitions'' c).
           in_lifecycle c (fld ''from'' t) \<and> in_lifecycle c (fld ''to'' t)))"

definition distinction_sound :: "json \<Rightarrow> json \<Rightarrow> bool" where
  "distinction_sound doc d \<longleftrightarrow>
     (let a = fld ''conceptA'' d; b = fld ''conceptB'' d;
          others = map Some (items_of ''alsoDistinctFrom'' d) in
      {a, b} \<union> set others \<subseteq> set (concept_names doc) \<and>
      a \<noteq> b \<and> a \<notin> set others \<and> b \<notin> set others \<and>
      \<not> ambiguous_pair doc a b)"

text \<open>The side effects that carry a well-formed identity.\<close>

definition identified :: "json list \<Rightarrow> json list" where
  "identified ss = filter (\<lambda>s. isValidSideEffectId (fld ''sideEffectId'' s)) ss"

definition side_effects_sound :: "digest_fun \<Rightarrow> json list \<Rightarrow> bool" where
  "side_effects_sound sha ss \<longleftrightarrow>
     (\<forall>s \<in> set ss. int_at_least 0 (fld ''expectedCount'' s)) \<and>
     distinct (map (fld ''sideEffectId'') (identified ss)) \<and>
     (\<forall>s \<in> set (identified ss). is_lit (fld ''sideEffectId'' s) (sideEffectIdForSpec sha s))"

definition contract_consistent :: "digest_fun \<Rightarrow> json \<Rightarrow> bool" where
  "contract_consistent sha doc \<longleftrightarrow>
     distinct (source_keys doc) \<and>
     distinct (concept_names doc) \<and>
     (\<forall>c \<in> set (items_of ''concepts'' doc). concept_sound doc c) \<and>
     exclusively_owned ''authoritativeFieldNames'' (items_of ''concepts'' doc) \<and>
     (\<forall>d \<in> set (items_of ''distinctConcepts'' doc). distinction_sound doc d) \<and>
     is_lit (fld ''compileStatus'' doc) (computeCompileStatus (fld ''unresolvedSemantics'' doc)) \<and>
     side_effects_sound sha (items_of ''negativeSideEffects'' doc) \<and>
     (\<forall>d. fld ''semanticDigest'' doc = Some (JStr d) \<longrightarrow> d = computeSemanticDigest sha doc)"

section \<open>The validator decides the meaning\<close>

lemma concat_entries_Nil:
  "concat (map (\<lambda>(i, x). f i x) (entries xs)) = [] \<longleftrightarrow> (\<forall>i < length xs. f i (xs ! i) = [])"
proof -
  have "(\<forall>p \<in> set (entries xs). (case p of (i, x) \<Rightarrow> f i x) = []) \<longleftrightarrow>
      (\<forall>i x. (i, x) \<in> set (entries xs) \<longrightarrow> f i x = [])"
    by auto
  then show ?thesis
    by (auto simp: set_entries_iff)
qed

lemma concat_entries_Nil_if:
  "concat (map (\<lambda>(i, x). if P x then [g i x] else []) (entries xs)) = [] \<longleftrightarrow> (\<forall>x \<in> set xs. \<not> P x)"
  unfolding concat_entries_Nil by (auto simp: all_set_conv_all_nth split: if_splits)

lemma source_key_issues_iff: "source_key_issues doc = [] \<longleftrightarrow> distinct (source_keys doc)"
  by (simp add: source_key_issues_def source_keys_def)

lemma concept_part_iff:
  "source_ref_issues (source_keys doc) at c @ transition_issues at c = [] \<longleftrightarrow> concept_sound doc c"
  by (auto simp: source_ref_issues_def transition_issues_def concept_sound_def concat_entries_Nil_if
      simp del: concat_eq_Nil_conv)

lemma concept_loop_iff:
  "concept_loop (source_keys doc) i seen cs = [] \<longleftrightarrow>
     distinct (map (fld ''name'') cs) \<and> set (map (fld ''name'') cs) \<inter> set seen = {} \<and>
     (\<forall>c \<in> set cs. concept_sound doc c)"
proof (induction cs arbitrary: i seen)
  case Nil
  then show ?case by simp
next
  case (Cons c cs)
  show ?case
    using concept_part_iff [of doc "at_index ''concepts'' i" c] Cons.IH [of "Suc i" "fld ''name'' c # seen"]
    by (auto simp: Let_def)
qed

text \<open>The owners map records a name exactly for the fields claimed so far.\<close>

lemma claim_names_owner:
  "map_of (snd (claim_names owners name report fs)) f =
     (case map_of owners f of Some n \<Rightarrow> Some n | None \<Rightarrow> if f \<in> set fs then Some name else None)"
  by (induction owners name report fs rule: claim_names.induct) (auto split: option.splits simp: Let_def)

lemma claim_names_Nil:
  "fst (claim_names owners name report fs) = [] \<longleftrightarrow> (\<forall>f \<in> set fs. \<forall>n. map_of owners f = Some n \<longrightarrow> n = name)"
  by (induction owners name report fs rule: claim_names.induct) (auto split: option.splits simp: Let_def)

lemma claim_all_Nil:
  "claim_all field report i owners cs = [] \<longleftrightarrow>
     (\<forall>c \<in> set cs. \<forall>f \<in> set (items_of field c). \<forall>n. map_of owners f = Some n \<longrightarrow> n = fld ''name'' c) \<and>
     exclusively_owned field cs"
proof (induction cs arbitrary: i owners)
  case Nil
  then show ?case by (simp add: exclusively_owned_def)
next
  case (Cons c cs)
  let ?r = "claim_names owners (fld ''name'' c) (report i (fld ''name'' c)) (items_of field c)"
  have owned: "map_of (snd ?r) f =
      (case map_of owners f of Some n \<Rightarrow> Some n
       | None \<Rightarrow> if f \<in> set (items_of field c) then Some (fld ''name'' c) else None)" for f
    by (rule claim_names_owner)
  have ex: "exclusively_owned field (c # cs) \<longleftrightarrow> exclusively_owned field cs \<and>
      (\<forall>d \<in> set cs. \<forall>f \<in> set (items_of field c). f \<in> set (items_of field d) \<longrightarrow>
         fld ''name'' d = fld ''name'' c)"
    (is "?L \<longleftrightarrow> ?R")
  proof
    assume ?L
    then show ?R unfolding exclusively_owned_def by fastforce
  next
    assume ?R
    then show ?L unfolding exclusively_owned_def by (metis Int_iff set_ConsD)
  qed
  have step: "(\<forall>n. map_of (snd ?r) f = Some n \<longrightarrow> n = x) \<longleftrightarrow>
      (\<forall>n. map_of owners f = Some n \<longrightarrow> n = x) \<and> (f \<in> set (items_of field c) \<longrightarrow> fld ''name'' c = x)"
    if "\<forall>f \<in> set (items_of field c). \<forall>n. map_of owners f = Some n \<longrightarrow> n = fld ''name'' c" for f x
    using that by (cases "map_of owners f") (auto simp only: owned option.case option.inject split: if_splits)
  show ?case
  proof (cases "\<forall>f \<in> set (items_of field c). \<forall>n. map_of owners f = Some n \<longrightarrow> n = fld ''name'' c")
    case True
    show ?thesis
      unfolding claim_all.simps Let_def append_is_Nil_conv Cons.IH claim_names_Nil ex step [OF True]
      using True by (auto simp: ball_conj_distrib)
  next
    case False
    then show ?thesis
      unfolding claim_all.simps Let_def append_is_Nil_conv claim_names_Nil by auto
  qed
qed

lemma field_overlap_iff:
  "field_overlap_issues doc = [] \<longleftrightarrow>
     exclusively_owned ''authoritativeFieldNames'' (items_of ''concepts'' doc)"
  by (simp add: field_overlap_issues_def claim_all_Nil)

lemma find_concept_None: "find_concept doc r = None \<longleftrightarrow> r \<notin> set (concept_names doc)"
  by (auto simp: find_concept_def concept_names_def find_None_iff')

lemma distinct_issues_iff: "distinct_issues doc i d = [] \<longleftrightarrow> distinction_sound doc d"
proof -
  have refs: "concat (map (\<lambda>r. if find_concept doc r = None then [x] else []) rs) = [] \<longleftrightarrow>
      set rs \<subseteq> set (concept_names doc)" for rs and x :: issue
    unfolding find_concept_None by (induction rs) auto
  have selfs: "concat (map (\<lambda>r. if r = a \<or> r = b then [x] else []) rs) = [] \<longleftrightarrow>
      a \<notin> set rs \<and> b \<notin> set rs" for rs a b and x :: issue
    by (induction rs) auto
  show ?thesis
    unfolding distinct_issues_def distinction_sound_def Let_def append_is_Nil_conv refs selfs
    by auto
qed

lemma count_issues_iff:
  "count_issues doc = [] \<longleftrightarrow>
     (\<forall>s \<in> set (items_of ''negativeSideEffects'' doc). int_at_least 0 (fld ''expectedCount'' s))"
  by (simp add: count_issues_def concat_entries_Nil_if del: concat_eq_Nil_conv)

lemma side_effect_id_loop_iff:
  "side_effect_id_loop sha i seen ss = [] \<longleftrightarrow>
     distinct (map (fld ''sideEffectId'') (identified ss)) \<and>
     set (map (fld ''sideEffectId'') (identified ss)) \<inter> set seen = {} \<and>
     (\<forall>s \<in> set (identified ss). is_lit (fld ''sideEffectId'' s) (sideEffectIdForSpec sha s))"
  by (induction ss arbitrary: i seen) (auto simp: Let_def identified_def)

lemma digest_issues_iff:
  "digest_issues sha doc = [] \<longleftrightarrow>
     (\<forall>d. fld ''semanticDigest'' doc = Some (JStr d) \<longrightarrow> d = computeSemanticDigest sha doc)"
  by (auto simp: digest_issues_def split: option.splits json.splits)

lemma applySemanticRules_iff: "fst (applySemanticRules sha doc) = [] \<longleftrightarrow> contract_consistent sha doc"
  unfolding applySemanticRules_def contract_consistent_def fst_conv append_is_Nil_conv
    source_key_issues_iff concept_loop_iff field_overlap_iff concat_entries_Nil distinct_issues_iff
    count_issues_iff side_effect_id_loop_iff digest_issues_iff side_effects_sound_def
  by (auto simp: concept_names_def status_issues_def all_set_conv_all_nth)

lemma validateSemanticContract_valid_iff:
  "(\<exists>ws. validateSemanticContract sha doc = Inr ([], ws)) \<longleftrightarrow>
     validate_against_schema lcim_regexps doc SEMANTIC_CONTRACT_SCHEMA = Inr [] \<and>
     (is_obj doc \<longrightarrow> contract_consistent sha doc)"
  using applySemanticRules_iff [of sha doc]
  by (auto simp: validateSemanticContract_def prod_eq_iff split: if_splits)

lemma isAuthoritative_iff:
  "isAuthoritative sha (Some doc) \<longleftrightarrow>
     is_obj doc \<and> (\<exists>ws. validateSemanticContract sha doc = Inr ([], ws)) \<and>
     is_lit (fld ''compileStatus'' doc) ''COMPILED''"
  by (cases doc) (auto simp: isAuthoritative_def authorityFailureReason_def split: sum.splits)

lemma isAuthoritative_obj: "isAuthoritative sha c \<Longrightarrow> \<exists>doc. c = Some doc \<and> is_obj doc"
  by (auto simp: isAuthoritative_def authorityFailureReason_def plain_object_iff split: if_splits)

end
