(* ===== verification/Contract_Acceptance.thy ===== *)
theory Contract_Acceptance
  imports Contract_Validate
begin

text \<open>
  Validation of repair (acceptance) contracts, src/src/contracts/validate.mjs
  (\<open>validateAcceptanceContract\<close>, \<open>applyAcceptanceRules\<close>): the rules a repair document obeys
  on its own, and the rules that bind it to its source semantic contract (authority, digest,
  bounded scope, exact carry, one test per side effect, frozen semantics).
  \<open>repair_bound\<close> states the binding declaratively.
\<close>

section \<open>Rules of the document alone\<close>

definition test_count_issues :: "json \<Rightarrow> issue list" where
  "test_count_issues doc =
     concat (map (\<lambda>(i, t).
         if fld ''expectedSideEffectCount'' t \<noteq> None \<and> \<not> int_at_least 0 (fld ''expectedSideEffectCount'' t)
         then [(at_index ''acceptanceTests'' i @ ''.expectedSideEffectCount'', ''INVALID_SIDE_EFFECT_COUNT'')]
         else [])
       (entries (items_of ''acceptanceTests'' doc)))"

definition rejected_ref_issues :: "json \<Rightarrow> issue list" where
  "rejected_ref_issues doc =
     map (\<lambda>(i, r). (at_index ''rejectedAcceptanceRefs'' i, ''DUPLICATE_REJECTED_REF''))
       (repeated (items_of ''rejectedAcceptanceRefs'' doc))"

text \<open>\<open>seenRejected\<close>: the distinct references in the order of their first occurrence.\<close>

definition seen_rejected :: "json \<Rightarrow> json list" where
  "seen_rejected doc = rev (remdups (rev (items_of ''rejectedAcceptanceRefs'' doc)))"

section \<open>Source lookups\<close>

text \<open>
  The items of \<open>semanticContract.negativeSideEffects ?? []\<close>.  A source that is not
  authoritative may hold any value there: a value that is not iterable, or a null member whose
  \<open>sideEffectId\<close> is read, throws; a string iterates over its characters.
\<close>

fun source_items :: "jsval \<Rightarrow> json list result" where
  "source_items None = Inr []"
| "source_items (Some JNull) = Inr []"
| "source_items (Some (JArr xs)) = (if JNull \<in> set xs then Inl TypeError else Inr xs)"
| "source_items (Some (JStr s)) = Inr (map (\<lambda>c. JStr [c]) s)"
| "source_items (Some v) = Inl TypeError"

text \<open>\<open>sourceById.get(id)\<close>: a later item replaces an earlier one of the same identity.\<close>

definition source_by_id :: "json list \<Rightarrow> jsval \<Rightarrow> json option" where
  "source_by_id src k = List.find (\<lambda>s. fld ''sideEffectId'' s = k) (rev src)"

definition rejected_scopes :: "json list \<Rightarrow> json list \<Rightarrow> jsval list" where
  "rejected_scopes src refs =
     concat (map (\<lambda>r. case source_by_id src (Some r) of
       None \<Rightarrow> [] | Some s \<Rightarrow> [fld ''scope'' s]) refs)"

section \<open>Binding to the source\<close>

definition key_issues :: "json \<Rightarrow> json \<Rightarrow> issue list" where
  "key_issues doc sem =
     (if fld ''contractKey'' sem \<noteq> fld ''contractKey'' doc
      then [(''contractKey'', ''CONTRACT_KEY_MISMATCH'')] else [])"

definition source_digest_issues :: "digest_fun \<Rightarrow> json \<Rightarrow> json \<Rightarrow> issue list" where
  "source_digest_issues sha doc sem =
     (if \<not> is_lit (fld ''semanticDigest'' sem) (computeSemanticDigest sha sem)
      then [(''sourceSemanticDigest'', ''SOURCE_DIGEST_INVALID'')]
      else if fld ''sourceSemanticDigest'' doc \<noteq> fld ''semanticDigest'' sem
      then [(''sourceSemanticDigest'', ''SOURCE_DIGEST_MISMATCH'')]
      else [])"

definition unknown_ref_issues :: "json list \<Rightarrow> json list \<Rightarrow> issue list" where
  "unknown_ref_issues src refs =
     concat (map (\<lambda>r. if source_by_id src (Some r) = None
       then [(''rejectedAcceptanceRefs'', ''UNKNOWN_REJECTED_REF'')] else []) refs)"

definition scope_issues :: "json list \<Rightarrow> json list \<Rightarrow> json \<Rightarrow> issue list" where
  "scope_issues src refs doc =
     concat (map (\<lambda>(i, m). if fld ''target'' m \<notin> set (rejected_scopes src refs)
         then [(at_index ''mustChange'' i @ ''.target'', ''UNBOUNDED_MUST_CHANGE'')] else [])
       (entries (items_of ''mustChange'' doc)))"

text \<open>\<open>carriedById\<close> and the duplicates found while it is built; the first record stays.\<close>

fun carried_loop :: "nat \<Rightarrow> json list \<Rightarrow> json list \<Rightarrow> issue list \<times> json list" where
  "carried_loop i seen [] = ([], seen)"
| "carried_loop i seen (s # ss) =
     (let sid = fld ''sideEffectId'' s in
      if \<not> isValidSideEffectId sid then carried_loop (Suc i) seen ss
      else if sid \<in> set (map (fld ''sideEffectId'') seen)
      then (let r = carried_loop (Suc i) seen ss in
        ((at_index ''negativeSideEffects'' i @ ''.sideEffectId'', ''DUPLICATE_CARRIED_SIDE_EFFECT'') # fst r, snd r))
      else carried_loop (Suc i) (seen @ [s]) ss)"

definition same_spec :: "json \<Rightarrow> json \<Rightarrow> bool" where
  "same_spec c s \<longleftrightarrow>
     fld ''gate'' c = fld ''gate'' s \<and> fld ''scope'' c = fld ''scope'' s \<and>
     fld ''requirement'' c = fld ''requirement'' s \<and> fld ''expectedCount'' c = fld ''expectedCount'' s \<and>
     or_null (fld ''evidenceKind'' c) = or_null (fld ''evidenceKind'' s)"

definition carry_issues :: "json list \<Rightarrow> json list \<Rightarrow> issue list" where
  "carry_issues carried src =
     concat (map (\<lambda>s.
       (case List.find (\<lambda>c. fld ''sideEffectId'' c = fld ''sideEffectId'' s) carried of
          None \<Rightarrow> [(''negativeSideEffects'', ''SIDE_EFFECT_NOT_CARRIED'')]
        | Some c \<Rightarrow> (if same_spec c s then [] else [(''negativeSideEffects'', ''SIDE_EFFECT_CARRY_MISMATCH'')])))
       src)"

definition foreign_issues :: "json list \<Rightarrow> json list \<Rightarrow> issue list" where
  "foreign_issues src effects =
     concat (map (\<lambda>(i, s). if source_by_id src (fld ''sideEffectId'' s) = None
         then [(at_index ''negativeSideEffects'' i @ ''.sideEffectId'', ''SIDE_EFFECT_NOT_FROM_SOURCE'')] else [])
       (entries effects))"

definition tests_of :: "jsval \<Rightarrow> json list \<Rightarrow> json list" where
  "tests_of sid tests =
     filter (\<lambda>t. isValidSideEffectId (fld ''negativeSideEffectId'' t) \<and> fld ''negativeSideEffectId'' t = sid) tests"

definition pins_spec :: "json \<Rightarrow> json \<Rightarrow> bool" where
  "pins_spec t s \<longleftrightarrow>
     fld ''negativeSideEffectScope'' t = fld ''scope'' s \<and>
     fld ''expectedSideEffectCount'' t = fld ''expectedCount'' s"

definition test_issues :: "json list \<Rightarrow> json list \<Rightarrow> issue list" where
  "test_issues tests src =
     concat (map (\<lambda>s.
       (let n = length (tests_of (fld ''sideEffectId'' s) tests) in
        if n = 0 then [(''acceptanceTests'', ''SIDE_EFFECT_TEST_MISSING'')]
        else if n > 1 then [(''acceptanceTests'', ''DUPLICATE_SIDE_EFFECT_TEST'')]
        else case List.find (\<lambda>t. fld ''negativeSideEffectId'' t = fld ''sideEffectId'' s) tests of
               None \<Rightarrow> []
             | Some t \<Rightarrow> (if pins_spec t s then [] else [(''acceptanceTests'', ''SIDE_EFFECT_TEST_MISMATCH'')])))
       src)"

text \<open>\<open>v ?? []\<close>.\<close>

definition or_empty :: "jsval \<Rightarrow> json" where
  "or_empty v = (if nullish v then JArr [] else the v)"

definition unrejected :: "json list \<Rightarrow> json list \<Rightarrow> json list" where
  "unrejected refs src = filter (\<lambda>s. fld ''sideEffectId'' s \<notin> Some ` set refs) src"

definition FROZEN_FIELDS :: "string list" where
  "FROZEN_FIELDS = [''sourceObjects'', ''concepts'', ''distinctConcepts'', ''negativeSideEffects'',
     ''factsEstablished'', ''unresolvedSemantics'']"

definition expected_frozen :: "json \<Rightarrow> json list \<Rightarrow> json list \<Rightarrow> string \<Rightarrow> json" where
  "expected_frozen sem src refs f =
     (if f = ''negativeSideEffects'' then JArr (unrejected refs src) else or_empty (fld f sem))"

definition frozen_issues :: "json \<Rightarrow> json \<Rightarrow> json list \<Rightarrow> json list \<Rightarrow> issue list" where
  "frozen_issues doc sem src refs =
     (let frozen = fld ''frozenSemantics'' doc in
      if \<not> plain_object frozen then []
      else concat (map (\<lambda>f.
        if deep_equal (or_empty (own f frozen)) (expected_frozen sem src refs f) then []
        else [(''frozenSemantics.'' @ f, ''FROZEN_REQUIREMENT_MISMATCH'')]) FROZEN_FIELDS))"

definition binding_issues :: "digest_fun \<Rightarrow> json \<Rightarrow> json \<Rightarrow> issue list result" where
  "binding_issues sha doc sem =
     rbind (source_items (fld ''negativeSideEffects'' sem)) (\<lambda>src.
     let refs = seen_rejected doc;
         effects = items_of ''negativeSideEffects'' doc;
         r = carried_loop 0 [] effects in
     Inr (key_issues doc sem @ source_digest_issues sha doc sem
       @ unknown_ref_issues src refs @ scope_issues src refs doc
       @ fst r @ carry_issues (snd r) src @ foreign_issues src effects
       @ test_issues (items_of ''acceptanceTests'' doc) src
       @ frozen_issues doc sem src refs))"

section \<open>The validator\<close>

definition applyAcceptanceRules :: "digest_fun \<Rightarrow> json \<Rightarrow> jsval \<Rightarrow> issue list result" where
  "applyAcceptanceRules sha doc semantic =
     (let base = count_issues doc @ test_count_issues doc @ rejected_ref_issues doc;
          auth = (if authorityFailureReason sha semantic = None then []
                  else [(''sourceSemanticDigest'', ''SOURCE_NOT_AUTHORITATIVE'')]) in
      case semantic of
        None \<Rightarrow> Inr base
      | Some sem \<Rightarrow>
          (if \<not> is_obj sem then Inr (base @ auth)
           else rbind (binding_issues sha doc sem) (\<lambda>b. Inr (base @ auth @ b))))"

definition validateAcceptanceContract :: "digest_fun \<Rightarrow> json \<Rightarrow> jsval \<Rightarrow> report result" where
  "validateAcceptanceContract sha doc semantic =
     rbind (validate_against_schema lcim_regexps doc ACCEPTANCE_CONTRACT_SCHEMA) (\<lambda>es.
     if es = [] \<and> is_obj doc
     then rbind (applyAcceptanceRules sha doc semantic) (\<lambda>rs. Inr (rs, []))
     else Inr (es, []))"

section \<open>The meaning of the binding\<close>

definition repair_bound :: "digest_fun \<Rightarrow> json \<Rightarrow> json \<Rightarrow> json list \<Rightarrow> bool" where
  "repair_bound sha doc sem src \<longleftrightarrow>
     (let refs = items_of ''rejectedAcceptanceRefs'' doc;
          effects = items_of ''negativeSideEffects'' doc;
          tests = items_of ''acceptanceTests'' doc in
      fld ''contractKey'' doc = fld ''contractKey'' sem \<and>
      is_lit (fld ''semanticDigest'' sem) (computeSemanticDigest sha sem) \<and>
      fld ''sourceSemanticDigest'' doc = fld ''semanticDigest'' sem \<and>
      Some ` set refs \<subseteq> fld ''sideEffectId'' ` set src \<and>
      (\<forall>m \<in> set (items_of ''mustChange'' doc). \<exists>r \<in> set refs. \<exists>s.
         source_by_id src (Some r) = Some s \<and> fld ''target'' m = fld ''scope'' s) \<and>
      distinct (map (fld ''sideEffectId'') (identified effects)) \<and>
      (\<forall>s \<in> set src. \<exists>c \<in> set (identified effects).
         fld ''sideEffectId'' c = fld ''sideEffectId'' s \<and> same_spec c s) \<and>
      fld ''sideEffectId'' ` set effects \<subseteq> fld ''sideEffectId'' ` set src \<and>
      (\<forall>s \<in> set src. \<exists>t. tests_of (fld ''sideEffectId'' s) tests = [t] \<and> pins_spec t s) \<and>
      (plain_object (fld ''frozenSemantics'' doc) \<longrightarrow>
         (\<forall>f \<in> set FROZEN_FIELDS.
            deep_equal (or_empty (own f (fld ''frozenSemantics'' doc))) (expected_frozen sem src refs f))))"

definition acceptance_sound :: "json \<Rightarrow> bool" where
  "acceptance_sound doc \<longleftrightarrow>
     (\<forall>s \<in> set (items_of ''negativeSideEffects'' doc). int_at_least 0 (fld ''expectedCount'' s)) \<and>
     (\<forall>t \<in> set (items_of ''acceptanceTests'' doc). fld ''expectedSideEffectCount'' t \<noteq> None \<longrightarrow>
        int_at_least 0 (fld ''expectedSideEffectCount'' t)) \<and>
     distinct (items_of ''rejectedAcceptanceRefs'' doc)"

section \<open>The validator decides the meaning\<close>

lemma set_seen_rejected [simp]: "set (seen_rejected doc) = set (items_of ''rejectedAcceptanceRefs'' doc)"
  by (simp add: seen_rejected_def)

lemma source_by_id_None: "source_by_id src k = None \<longleftrightarrow> k \<notin> fld ''sideEffectId'' ` set src"
  by (auto simp: source_by_id_def find_None_iff')

lemma source_by_id_Some: "source_by_id src k = Some s \<Longrightarrow> s \<in> set src \<and> fld ''sideEffectId'' s = k"
  by (auto simp: source_by_id_def dest: find_Some_iff')

lemma set_rejected_scopes:
  "set (rejected_scopes src refs) =
     {x. \<exists>r \<in> set refs. \<exists>s. source_by_id src (Some r) = Some s \<and> x = fld ''scope'' s}"
proof -
  have "set (case source_by_id src (Some r) of None \<Rightarrow> [] | Some s \<Rightarrow> [fld ''scope'' s]) =
      {x. \<exists>s. source_by_id src (Some r) = Some s \<and> x = fld ''scope'' s}" for r
    by (cases "source_by_id src (Some r)") auto
  then show ?thesis by (auto simp: rejected_scopes_def)
qed

lemma base_issues_iff:
  "count_issues doc @ test_count_issues doc @ rejected_ref_issues doc = [] \<longleftrightarrow> acceptance_sound doc"
  unfolding append_is_Nil_conv count_issues_iff test_count_issues_def concat_entries_Nil_if acceptance_sound_def
  by (auto simp: rejected_ref_issues_def)

lemma key_issues_iff: "key_issues doc sem = [] \<longleftrightarrow> fld ''contractKey'' doc = fld ''contractKey'' sem"
  by (auto simp: key_issues_def)

lemma source_digest_issues_iff:
  "source_digest_issues sha doc sem = [] \<longleftrightarrow>
     is_lit (fld ''semanticDigest'' sem) (computeSemanticDigest sha sem) \<and>
     fld ''sourceSemanticDigest'' doc = fld ''semanticDigest'' sem"
  by (auto simp: source_digest_issues_def)

lemma unknown_ref_issues_iff:
  "unknown_ref_issues src refs = [] \<longleftrightarrow> Some ` set refs \<subseteq> fld ''sideEffectId'' ` set src"
  unfolding unknown_ref_issues_def concat_map_Nil_iff source_by_id_None by auto

lemma scope_issues_iff:
  "scope_issues src refs doc = [] \<longleftrightarrow>
     (\<forall>m \<in> set (items_of ''mustChange'' doc). fld ''target'' m \<in> set (rejected_scopes src refs))"
  unfolding scope_issues_def concat_entries_Nil_if by simp

lemma carried_loop_iff:
  "fst (carried_loop i seen ss) = [] \<longleftrightarrow>
     distinct (map (fld ''sideEffectId'') (identified ss)) \<and>
     set (map (fld ''sideEffectId'') (identified ss)) \<inter> set (map (fld ''sideEffectId'') seen) = {}"
  by (induction i seen ss rule: carried_loop.induct) (auto simp: Let_def identified_def)

lemma carried_loop_kept:
  "fst (carried_loop i seen ss) = [] \<Longrightarrow> snd (carried_loop i seen ss) = seen @ identified ss"
  by (induction i seen ss rule: carried_loop.induct) (auto simp: Let_def identified_def split: if_splits)

lemma find_unique:
  "distinct (map f xs) \<Longrightarrow> x \<in> set xs \<Longrightarrow> List.find (\<lambda>y. f y = f x) xs = Some x"
  by (induction xs) auto

lemma carry_issues_iff:
  assumes "distinct (map (fld ''sideEffectId'') carried)"
  shows "carry_issues carried src = [] \<longleftrightarrow>
    (\<forall>s \<in> set src. \<exists>c \<in> set carried. fld ''sideEffectId'' c = fld ''sideEffectId'' s \<and> same_spec c s)"
proof -
  have "(case List.find (\<lambda>c. fld ''sideEffectId'' c = fld ''sideEffectId'' s) carried of
        None \<Rightarrow> [x] | Some c \<Rightarrow> (if same_spec c s then [] else [y])) = [] \<longleftrightarrow>
      (\<exists>c \<in> set carried. fld ''sideEffectId'' c = fld ''sideEffectId'' s \<and> same_spec c s)"
    for s and x y :: issue
  proof (cases "List.find (\<lambda>c. fld ''sideEffectId'' c = fld ''sideEffectId'' s) carried")
    case None
    then have "\<forall>c \<in> set carried. fld ''sideEffectId'' c \<noteq> fld ''sideEffectId'' s"
      by (simp add: find_None_iff')
    with None show ?thesis by simp
  next
    case (Some c)
    note found = find_Some_iff' [OF Some]
    have "d = c" if "d \<in> set carried" "fld ''sideEffectId'' d = fld ''sideEffectId'' s" for d
      using assms that found by (auto simp: distinct_map inj_on_def)
    with found Some show ?thesis by auto
  qed
  then show ?thesis
    unfolding carry_issues_def concat_map_Nil_iff by simp
qed

lemma foreign_issues_iff:
  "foreign_issues src effects = [] \<longleftrightarrow> fld ''sideEffectId'' ` set effects \<subseteq> fld ''sideEffectId'' ` set src"
  unfolding foreign_issues_def concat_entries_Nil_if source_by_id_None by auto

text \<open>With a valid identity, the test that is found is the one that is counted.\<close>

lemma find_hd_filter: "filter P xs = x # ys \<Longrightarrow> List.find P xs = Some x"
  by (induction xs) (auto split: if_splits)

lemma test_found:
  assumes "tests_of sid tests = [t]"
  shows "List.find (\<lambda>t. fld ''negativeSideEffectId'' t = sid) tests = Some t"
proof (rule find_hd_filter)
  have "t \<in> set (tests_of sid tests)"
    using assms by simp
  then have "isValidSideEffectId sid"
    by (auto simp: tests_of_def)
  then have "tests_of sid tests = filter (\<lambda>t. fld ''negativeSideEffectId'' t = sid) tests"
    unfolding tests_of_def by (intro filter_cong) auto
  with assms show "filter (\<lambda>t. fld ''negativeSideEffectId'' t = sid) tests = [t]"
    by simp
qed

lemma test_issues_iff:
  "test_issues tests src = [] \<longleftrightarrow>
     (\<forall>s \<in> set src. \<exists>t. tests_of (fld ''sideEffectId'' s) tests = [t] \<and> pins_spec t s)"
proof -
  have "(let n = length (tests_of sid tests) in if n = 0 then [x] else if n > 1 then [y]
      else case List.find (\<lambda>t. fld ''negativeSideEffectId'' t = sid) tests of
             None \<Rightarrow> [] | Some t \<Rightarrow> (if pins_spec t s then [] else [z])) = [] \<longleftrightarrow>
      (\<exists>t. tests_of sid tests = [t] \<and> pins_spec t s)" for s sid and x y z :: issue
  proof (cases "tests_of sid tests")
    case Nil
    then show ?thesis by simp
  next
    case (Cons t ts)
    then show ?thesis
      using test_found [of sid tests t] by (cases ts) (auto simp: Let_def)
  qed
  then show ?thesis
    unfolding test_issues_def concat_map_Nil_iff by simp
qed

lemma expected_frozen_refs: "set refs = set refs' \<Longrightarrow> expected_frozen sem src refs = expected_frozen sem src refs'"
  by (simp add: fun_eq_iff expected_frozen_def unrejected_def)

lemma frozen_issues_iff:
  "frozen_issues doc sem src refs = [] \<longleftrightarrow>
     (plain_object (fld ''frozenSemantics'' doc) \<longrightarrow>
        (\<forall>f \<in> set FROZEN_FIELDS.
           deep_equal (or_empty (own f (fld ''frozenSemantics'' doc))) (expected_frozen sem src refs f)))"
proof -
  have "concat (map (\<lambda>f. if P f then [] else [g f]) fs) = [] \<longleftrightarrow> (\<forall>f \<in> set fs. P f)"
    for P and g :: "string \<Rightarrow> issue" and fs
    by (induction fs) auto
  then show ?thesis
    unfolding frozen_issues_def Let_def by simp
qed

lemma binding_issues_iff:
  "binding_issues sha doc sem = Inr [] \<longleftrightarrow>
     (\<exists>src. source_items (fld ''negativeSideEffects'' sem) = Inr src \<and> repair_bound sha doc sem src)"
proof -
  let ?refs = "seen_rejected doc" and ?effects = "items_of ''negativeSideEffects'' doc"
  let ?r = "carried_loop 0 [] ?effects"
  have "key_issues doc sem @ source_digest_issues sha doc sem
       @ unknown_ref_issues src ?refs @ scope_issues src ?refs doc
       @ fst ?r @ carry_issues (snd ?r) src @ foreign_issues src ?effects
       @ test_issues (items_of ''acceptanceTests'' doc) src
       @ frozen_issues doc sem src ?refs = [] \<longleftrightarrow> repair_bound sha doc sem src" for src
  proof (cases "fst ?r = []")
    case True
    then have d: "distinct (map (fld ''sideEffectId'') (identified ?effects))"
      and k: "snd ?r = identified ?effects"
      using carried_loop_iff [of 0 "[]" ?effects] carried_loop_kept [of 0 "[]" ?effects] by auto
    show ?thesis
      unfolding append_is_Nil_conv key_issues_iff source_digest_issues_iff unknown_ref_issues_iff
        scope_issues_iff set_rejected_scopes k carry_issues_iff [OF d] foreign_issues_iff test_issues_iff
        frozen_issues_iff repair_bound_def Let_def set_seen_rejected
        expected_frozen_refs [OF set_seen_rejected]
      using True d by auto
  next
    case False
    then have "\<not> distinct (map (fld ''sideEffectId'') (identified ?effects))"
      using carried_loop_iff [of 0 "[]" ?effects] by simp
    with False show ?thesis
      unfolding append_is_Nil_conv repair_bound_def Let_def by simp
  qed
  then show ?thesis
    by (simp add: binding_issues_def Let_def)
qed

text \<open>
  A repair document passes with a source exactly when it is well formed, its source is
  authoritative, and it is bound to that source.
\<close>

lemma applyAcceptanceRules_iff:
  "applyAcceptanceRules sha doc (Some sem) = Inr [] \<longleftrightarrow>
     acceptance_sound doc \<and> isAuthoritative sha (Some sem) \<and> is_obj sem \<and>
     (\<exists>src. source_items (fld ''negativeSideEffects'' sem) = Inr src \<and>
        repair_bound sha doc sem src)"
proof -
  have obj: "is_obj sem" if "isAuthoritative sha (Some sem)"
    using isAuthoritative_obj [OF that] by auto
  show ?thesis
    using base_issues_iff [of doc] obj binding_issues_iff [of sha doc sem]
    by (auto simp: applyAcceptanceRules_def Let_def isAuthoritative_def)
qed

lemma validateAcceptanceContract_valid_iff:
  assumes "is_obj doc"
  shows "validateAcceptanceContract sha doc (Some sem) = Inr ([], ws) \<longleftrightarrow> ws = [] \<and>
    validate_against_schema lcim_regexps doc ACCEPTANCE_CONTRACT_SCHEMA = Inr [] \<and>
    applyAcceptanceRules sha doc (Some sem) = Inr []"
  using assms by (auto simp: validateAcceptanceContract_def split: if_splits)

end
