(* ===== verification/Contract_Build.thy ===== *)
theory Contract_Build
  imports Contract_Acceptance
begin

text \<open>
  The two builders of contracts: \<open>compileSemanticContract\<close> (src/src/contracts/compiler.mjs),
  which stamps explicit input with side-effect identities, a compile status and a digest, and
  \<open>buildRepairContract\<close> (src/src/contracts/repair.mjs), which derives a bounded repair ticket
  from an authoritative contract.  The clock and the fresh repair id are arguments.  Freezing a
  document leaves its value as it is.  The lemmas show what a returned document satisfies, and
  that a repair document is bound to its source by construction.
\<close>

section \<open>Guards\<close>

definition assertPlainObject :: "jsval \<Rightarrow> string \<Rightarrow> unit result" where
  "assertPlainObject v what = need (plain_object v) (ConfigError what)"

definition assertString :: "jsval \<Rightarrow> string \<Rightarrow> unit result" where
  "assertString v what = need (nonempty_string v) (ConfigError what)"

definition assertArrayOf :: "jsval \<Rightarrow> string \<Rightarrow> (json \<Rightarrow> unit result) \<Rightarrow> unit result" where
  "assertArrayOf v what check_item =
     (case v of
        Some (JArr xs) \<Rightarrow> each check_item xs
      | _ \<Rightarrow> Inl (ConfigError what))"

text \<open>A plain object all of whose named members are non-empty strings.\<close>

definition assert_strings :: "string list \<Rightarrow> json \<Rightarrow> unit result" where
  "assert_strings names x =
     rbind (assertPlainObject (Some x) ''item'') (\<lambda>_.
     each (\<lambda>n. assertString (fld n x) n) names)"

lemma assertArrayOf_eq_Inr:
  "assertArrayOf v what f = Inr u \<longleftrightarrow> (\<exists>xs. v = Some (JArr xs) \<and> (\<forall>x \<in> set xs. f x = Inr ()))"
  by (auto simp: assertArrayOf_def split: option.splits json.splits)

lemma assert_strings_eq_Inr:
  "assert_strings names x = Inr u \<longleftrightarrow> is_obj x \<and> (\<forall>n \<in> set names. nonempty_string (fld n x))"
  by (cases x) (auto simp: assert_strings_def assertPlainObject_def assertString_def)

section \<open>The compiler\<close>

definition INVENTED_ANSWER_FIELDS :: "string list" where
  "INVENTED_ANSWER_FIELDS = [''answer'', ''resolvedValue'', ''resolved'', ''decision'', ''conclusion'']"

definition assert_concept :: "json \<Rightarrow> unit result" where
  "assert_concept c =
     rbind (assert_strings [''name'', ''ownership''] c) (\<lambda>_.
     assertArrayOf (fld ''authoritativeFieldNames'' c) ''authoritativeFieldNames''
       (\<lambda>f. assertString (Some f) ''authoritativeFieldNames''))"

definition assert_side_effect :: "json \<Rightarrow> unit result" where
  "assert_side_effect s = rbind (assertPlainObject (Some s) ''side effect'') (\<lambda>_. assertSideEffectSpec s)"

definition assert_unresolved :: "json \<Rightarrow> unit result" where
  "assert_unresolved u =
     rbind (assert_strings [''question''] u) (\<lambda>_.
     rbind (assertRiskClass (fld ''riskClass'' u)) (\<lambda>_.
     each (\<lambda>f. need (\<not> js_in f u) (ConfigError ''invented answer'')) INVENTED_ANSWER_FIELDS))"

definition assert_compiler_input :: "jsval \<Rightarrow> unit result" where
  "assert_compiler_input input =
     rbind (assertPlainObject input ''semantic contract input'') (\<lambda>_.
     rbind (need (own ''semanticDigest'' input = None) (ConfigError ''semanticDigest'')) (\<lambda>_.
     rbind (assertString (own ''contractKey'' input) ''contractKey'') (\<lambda>_.
     rbind (assertString (own ''title'' input) ''title'') (\<lambda>_.
     rbind (assertRiskClass (own ''riskClass'' input)) (\<lambda>_.
     rbind (assertArrayOf (own ''sourceObjects'' input) ''sourceObjects''
              (assert_strings [''key'', ''ref'', ''authority''])) (\<lambda>_.
     rbind (assertArrayOf (own ''concepts'' input) ''concepts'' assert_concept) (\<lambda>_.
     rbind (assertArrayOf (own ''distinctConcepts'' input) ''distinctConcepts''
              (assert_strings [''conceptA'', ''conceptB'', ''mustNotConflate''])) (\<lambda>_.
     rbind (assertArrayOf (own ''negativeSideEffects'' input) ''negativeSideEffects'' assert_side_effect) (\<lambda>_.
     rbind (assertArrayOf (own ''factsEstablished'' input) ''factsEstablished''
              (assert_strings [''fact'', ''evidence''])) (\<lambda>_.
     assertArrayOf (own ''unresolvedSemantics'' input) ''unresolvedSemantics'' assert_unresolved))))))))))"

text \<open>\<open>{ ...s, sideEffectId: sideEffectIdForSpec(s) }\<close>.\<close>

definition stamp_side_effect :: "digest_fun \<Rightarrow> json \<Rightarrow> json" where
  "stamp_side_effect sha s =
     JObj (put ''sideEffectId'' (JStr (sideEffectIdForSpec sha s)) (spread (Some s)))"

definition or_else :: "jsval \<Rightarrow> json \<Rightarrow> json" where
  "or_else v d = (if nullish v then d else the v)"

definition compile_draft :: "digest_fun \<Rightarrow> json \<Rightarrow> jsval \<Rightarrow> json" where
  "compile_draft sha compiledAt input =
     JObj [(''schemaName'', JStr ''lcim.semantic-contract''),
           (''schemaVersion'', JStr ''2.0.0''),
           (''contractKey'', or_null (own ''contractKey'' input)),
           (''title'', or_null (own ''title'' input)),
           (''compileStatus'', JStr (computeCompileStatus (own ''unresolvedSemantics'' input))),
           (''riskClass'', or_null (own ''riskClass'' input)),
           (''compiledAt'', compiledAt),
           (''sourceObjects'', or_null (own ''sourceObjects'' input)),
           (''concepts'', or_null (own ''concepts'' input)),
           (''distinctConcepts'', or_null (own ''distinctConcepts'' input)),
           (''negativeSideEffects'',
              JArr (map (stamp_side_effect sha) (arr_or_empty (own ''negativeSideEffects'' input)))),
           (''factsEstablished'', or_null (own ''factsEstablished'' input)),
           (''unresolvedSemantics'', or_null (own ''unresolvedSemantics'' input))]"

definition compile_stamped :: "digest_fun \<Rightarrow> json \<Rightarrow> jsval \<Rightarrow> json" where
  "compile_stamped sha compiledAt input =
     (let draft = compile_draft sha compiledAt input in
      JObj (spread (Some draft) @ [(''semanticDigest'', JStr (computeSemanticDigest sha draft))]))"

definition with_warnings :: "json \<Rightarrow> json list \<Rightarrow> json" where
  "with_warnings doc ws =
     JObj (spread (Some doc) @ (if ws \<noteq> [] then [(''compileWarnings'', JArr ws)] else []))"

definition compileSemanticContract :: "digest_fun \<Rightarrow> string \<Rightarrow> jsval \<Rightarrow> jsval \<Rightarrow> json result" where
  "compileSemanticContract sha now opts input =
     rbind (assert_compiler_input input) (\<lambda>_.
     let stamped = compile_stamped sha (or_else (own ''compiledAt'' opts) (JStr now)) input in
     rbind (validateSemanticContract sha stamped) (\<lambda>(es, ws).
     rbind (need (es = []) (ContractCompileError es)) (\<lambda>_.
     Inr (deep_clone_json (with_warnings stamped ws)))))"

section \<open>The repair builder\<close>

definition assert_rejected_refs :: "jsval \<Rightarrow> json list result" where
  "assert_rejected_refs v =
     rbind (assertArrayOf v ''rejectedAcceptanceRefs''
              (\<lambda>r. need (isValidSideEffectId (Some r)) (ConfigError ''rejectedAcceptanceRefs''))) (\<lambda>_.
     let refs = arr_or_empty v in
     rbind (need (refs \<noteq> []) (ConfigError ''rejectedAcceptanceRefs is empty'')) (\<lambda>_.
     rbind (need (distinct refs) (ConfigError ''rejectedAcceptanceRefs repeats'')) (\<lambda>_.
     Inr refs)))"

definition allowed_scopes :: "json list \<Rightarrow> json list \<Rightarrow> jsval list" where
  "allowed_scopes src refs = filter js_truthy (rejected_scopes src refs)"

definition assert_finding_refs :: "jsval \<Rightarrow> unit result" where
  "assert_finding_refs v =
     (if nullish v then Inr ()
      else case v of
        Some (JArr xs) \<Rightarrow> each (\<lambda>f. need (isValidId ''finding'' (Some f)) (ConfigError ''findingRefs'')) xs
      | _ \<Rightarrow> Inl TypeError)"

definition assert_repair_input :: "json list \<Rightarrow> json list \<Rightarrow> jsval \<Rightarrow> unit result" where
  "assert_repair_input src refs input =
     rbind (assertString (own ''objective'' input) ''objective'') (\<lambda>_.
     rbind (assertString (own ''violation'' input) ''violation'') (\<lambda>_.
     rbind (assertString (own ''requiredBehavior'' input) ''requiredBehavior'') (\<lambda>_.
     rbind (assertArrayOf (own ''mustChange'' input) ''mustChange''
              (assert_strings [''target'', ''change''])) (\<lambda>_.
     rbind (each (\<lambda>m. need (fld ''target'' m \<in> set (allowed_scopes src refs))
                        (RepairContractError ''mustChange outside the repair scope'' []))
              (arr_or_empty (own ''mustChange'' input))) (\<lambda>_.
     rbind (assertArrayOf (Some (or_empty (own ''mustNotChange'' input))) ''mustNotChange''
              (assert_strings [''target'', ''reason''])) (\<lambda>_.
     rbind (assertArrayOf (own ''verification'' input) ''verification''
              (assert_strings [''method'', ''expectation''])) (\<lambda>_.
     rbind (assertArrayOf (Some (or_empty (own ''acceptanceTests'' input))) ''acceptanceTests''
              (assert_strings [''name'', ''expectation''])) (\<lambda>_.
     assert_finding_refs (own ''findingRefs'' input)))))))))"

definition assert_user_test :: "json list \<Rightarrow> json \<Rightarrow> unit result" where
  "assert_user_test src t =
     (let sid = fld ''negativeSideEffectId'' t;
          legacy = (fld ''negativeSideEffectRef'' t \<noteq> None \<or> fld ''negativeSideEffectScope'' t \<noteq> None) in
      if sid = None
      then need (\<not> legacy) (ConfigError ''side effect without negativeSideEffectId'')
      else rbind (need (isValidSideEffectId sid) (ConfigError ''negativeSideEffectId'')) (\<lambda>_.
        case source_by_id src sid of
          None \<Rightarrow> Inl (ConfigError ''unknown side effect'')
        | Some spec \<Rightarrow> need (pins_spec t spec) (RepairContractError ''conflicting acceptance test'' [])))"

text \<open>The generated guard test of a side effect.\<close>

definition guard_test :: "json \<Rightarrow> json" where
  "guard_test s =
     (let text = (\<lambda>f. js_string (fld f s)) in
      JObj (concat (map (\<lambda>(k, v). case v of None \<Rightarrow> [] | Some x \<Rightarrow> [(k, x)])
       [(''name'', Some (JStr (''side-effect guard: '' @ text ''scope'' @ '' stays '' @ text ''expectedCount''
            @ '' before '' @ text ''gate'' @ '' ('' @ text ''sideEffectId'' @ '')''))),
        (''expectation'', fld ''requirement'' s),
        (''negativeSideEffectId'', fld ''sideEffectId'' s),
        (''negativeSideEffectRef'', Some (JStr (text ''gate'' @ ''::'' @ text ''scope''))),
        (''negativeSideEffectScope'', fld ''scope'' s),
        (''expectedSideEffectCount'', fld ''expectedCount'' s)])))"

fun guard_loop :: "json list \<Rightarrow> json list \<Rightarrow> json list" where
  "guard_loop tests [] = tests"
| "guard_loop tests (s # ss) =
     (case List.find (\<lambda>t. fld ''negativeSideEffectId'' t = fld ''sideEffectId'' s) tests of
        Some _ \<Rightarrow> guard_loop tests ss
      | None \<Rightarrow> guard_loop (tests @ [guard_test s]) ss)"

definition frozen_semantics :: "json \<Rightarrow> json list \<Rightarrow> json list \<Rightarrow> json" where
  "frozen_semantics sem src refs =
     JObj (map (\<lambda>f. (f, deep_clone_json (expected_frozen sem src refs f))) FROZEN_FIELDS)"

definition repair_draft :: "json \<Rightarrow> json \<Rightarrow> json \<Rightarrow> json list \<Rightarrow> json list \<Rightarrow> jsval \<Rightarrow> json" where
  "repair_draft fresh now sem src refs input =
     (let carried = map deep_clone_json src;
          userTests = arr_or_empty (own ''acceptanceTests'' input) in
      JObj ([(''schemaName'', JStr ''lcim.acceptance-contract''),
        (''schemaVersion'', JStr ''2.0.0''),
        (''repairId'', or_else (own ''repairId'' input) fresh),
        (''contractKey'', or_null (fld ''contractKey'' sem)),
        (''sourceSemanticDigest'', or_null (fld ''semanticDigest'' sem)),
        (''rejectedAcceptanceRefs'', JArr refs),
        (''objective'', or_null (own ''objective'' input)),
        (''violation'', or_null (own ''violation'' input)),
        (''requiredBehavior'', or_null (own ''requiredBehavior'' input)),
        (''mustChange'', or_null (own ''mustChange'' input)),
        (''mustNotChange'', or_empty (own ''mustNotChange'' input)),
        (''acceptanceTests'', JArr (guard_loop userTests carried)),
        (''negativeSideEffects'', JArr carried),
        (''frozenSemantics'', frozen_semantics sem src refs),
        (''verification'', or_null (own ''verification'' input))]
       @ (case own ''findingRefs'' input of None \<Rightarrow> [] | Some v \<Rightarrow> [(''findingRefs'', v)])
       @ (case fld ''riskClass'' sem of None \<Rightarrow> [] | Some v \<Rightarrow> [(''riskClass'', v)])
       @ [(''createdAt'', or_else (own ''createdAt'' input) now)]))"

text \<open>The guards in the order of the source; the result is the document before validation.\<close>

definition repair_document :: "digest_fun \<Rightarrow> json \<Rightarrow> json \<Rightarrow> jsval \<Rightarrow> (json \<times> json) result" where
  "repair_document sha fresh now input =
     rbind (assertPlainObject input ''repair contract input'') (\<lambda>_.
     let semantic = own ''semanticContract'' input in
     rbind (assertPlainObject semantic ''semanticContract'') (\<lambda>_.
     let sem = the semantic in
     rbind (need (is_lit (fld ''schemaName'' sem) ''lcim.semantic-contract'') (ConfigError ''schemaName'')) (\<lambda>_.
     rbind (need (isAuthoritative sha semantic) (RepairContractError ''not authoritative'' [])) (\<lambda>_.
     rbind (assert_rejected_refs (own ''rejectedAcceptanceRefs'' input)) (\<lambda>refs.
     let src = items_of ''negativeSideEffects'' sem in
     rbind (each (\<lambda>r. need (source_by_id src (Some r) \<noteq> None)
                        (RepairContractError ''unknown rejected reference'' [])) refs) (\<lambda>_.
     rbind (assert_repair_input src refs input) (\<lambda>_.
     rbind (each (assert_user_test src) (arr_or_empty (own ''acceptanceTests'' input))) (\<lambda>_.
     Inr (sem, repair_draft fresh now sem src refs input)))))))))"

definition buildRepairContract :: "digest_fun \<Rightarrow> json \<Rightarrow> json \<Rightarrow> jsval \<Rightarrow> json result" where
  "buildRepairContract sha fresh now input =
     rbind (repair_document sha fresh now input) (\<lambda>(sem, doc).
     rbind (validateAcceptanceContract sha doc (Some sem)) (\<lambda>(es, ws).
     rbind (need (es = []) (RepairContractError ''failed validation'' es)) (\<lambda>_.
     Inr (deep_clone_json doc))))"

section \<open>What an authoritative source holds\<close>

definition side_effect_schema :: json where
  "side_effect_schema = the (own ''items'' (schema_prop SEMANTIC_CONTRACT_SCHEMA ''negativeSideEffects''))"

lemma side_effects_schema:
  "schema_prop SEMANTIC_CONTRACT_SCHEMA ''negativeSideEffects''
     = Some (JObj [(''type'', JStr ''array''), (''items'', side_effect_schema)])"
  by (simp add: side_effect_schema_def schema_prop_def SEMANTIC_CONTRACT_SCHEMA_def)

lemma side_effect_schema:
  "is_obj side_effect_schema"
  "own ''type'' (Some side_effect_schema) = Some (JStr ''object'')"
  "own ''required'' (Some side_effect_schema) = Some (JArr [JStr ''gate'', JStr ''scope'',
     JStr ''requirement'', JStr ''expectedCount'', JStr ''sideEffectId''])"
  "schema_prop side_effect_schema ''sideEffectId''
     = Some (JObj [(''type'', JStr ''string''), (''pattern'', JStr ''^se_[0-9a-f]{64}$'')])"
  by (simp_all add: side_effect_schema_def schema_prop_def SEMANTIC_CONTRACT_SCHEMA_def)

lemma side_effect_pattern: "lcim_regexps ''^se_[0-9a-f]{64}$'' = Some (prefixed_hex ''se_'' 64)"
  by (simp add: lcim_regexps_def PATTERNS_def)

lemma accepted_side_effect:
  assumes "accepts lcim_regexps x side_effect_schema"
  shows "is_obj x" and "isValidSideEffectId (fld ''sideEffectId'' x)"
proof -
  show obj: "is_obj x"
    using accepts_type [OF assms side_effect_schema(2)] by simp
  obtain w where w: "fld ''sideEffectId'' x = Some w"
    using accepts_required [OF assms obj side_effect_schema(3), of "''sideEffectId''"]
    by (auto simp: inherited_names_def proto_methods_def)
  have acc: "accepts lcim_regexps w (JObj [(''type'', JStr ''string''), (''pattern'', JStr ''^se_[0-9a-f]{64}$'')])"
    by (rule accepts_prop [OF assms side_effect_schema(4) w])
  obtain t where t: "w = JStr t"
    using accepts_type [OF acc, of "''string''"] by (auto simp: is_str_iff)
  show "isValidSideEffectId (fld ''sideEffectId'' x)"
    using accepts_pattern [OF acc [unfolded t] _ side_effect_pattern] w t
    by (simp add: isValidSideEffectId_def)
qed

lemma semantic_required:
  assumes "isAuthoritative sha (Some sem)"
    and "k \<in> {''contractKey'', ''semanticDigest'', ''negativeSideEffects''}"
  shows "\<exists>w. fld k sem = Some w"
proof -
  have acc: "accepts lcim_regexps sem SEMANTIC_CONTRACT_SCHEMA" and obj: "is_obj sem"
    using assms(1) by (auto simp: isAuthoritative_iff validateSemanticContract_valid_iff intro: validate_accepts)
  show ?thesis
    by (rule accepts_required [OF acc obj, of "as_list (the (own ''required'' (Some SEMANTIC_CONTRACT_SCHEMA)))"])
       (use assms(2) in \<open>auto simp: SEMANTIC_CONTRACT_SCHEMA_def inherited_names_def proto_methods_def\<close>)
qed

lemma authoritative_source:
  assumes "isAuthoritative sha (Some sem)"
  defines "src \<equiv> items_of ''negativeSideEffects'' sem"
  shows "\<forall>s \<in> set src. is_obj s \<and> isValidSideEffectId (fld ''sideEffectId'' s)"
    and "distinct (map (fld ''sideEffectId'') src)"
    and "source_items (fld ''negativeSideEffects'' sem) = Inr src"
    and "is_lit (fld ''semanticDigest'' sem) (computeSemanticDigest sha sem)"
    and "contract_consistent sha sem"
proof -
  have acc: "accepts lcim_regexps sem SEMANTIC_CONTRACT_SCHEMA" and obj: "is_obj sem"
    and con: "contract_consistent sha sem"
    using assms(1) by (auto simp: isAuthoritative_iff validateSemanticContract_valid_iff intro: validate_accepts)
  obtain w where w: "fld ''negativeSideEffects'' sem = Some w"
    using semantic_required [OF assms(1), of "''negativeSideEffects''"] by auto
  have aw: "accepts lcim_regexps w (JObj [(''type'', JStr ''array''), (''items'', side_effect_schema)])"
    by (rule accepts_prop [OF acc side_effects_schema w])
  obtain xs where xs: "w = JArr xs"
    using accepts_type [OF aw, of "''array''"] by (cases w) auto
  obtain o' where o': "side_effect_schema = JObj o'"
    using side_effect_schema(1) unfolding is_obj_iff by blast
  have src: "src = xs"
    by (simp add: src_def w xs)
  have item: "accepts lcim_regexps x side_effect_schema" if "x \<in> set xs" for x
    using accepts_items [OF aw [unfolded xs], of o' x] that o' by simp
  then show valid: "\<forall>s \<in> set src. is_obj s \<and> isValidSideEffectId (fld ''sideEffectId'' s)"
    using accepted_side_effect src by blast
  then have "identified src = src"
    by (auto simp: identified_def filter_id_conv)
  then show "distinct (map (fld ''sideEffectId'') src)"
    using con by (simp add: contract_consistent_def side_effects_sound_def src_def)
  have "JNull \<notin> set xs"
    using valid src by auto
  then show "source_items (fld ''negativeSideEffects'' sem) = Inr src"
    by (simp add: w xs src)
  obtain d where d: "fld ''semanticDigest'' sem = Some d"
    using semantic_required [OF assms(1), of "''semanticDigest''"] by auto
  have "schema_prop SEMANTIC_CONTRACT_SCHEMA ''semanticDigest''
      = Some (JObj [(''type'', JStr ''string''), (''pattern'', JStr ''^[0-9a-f]{64}$'')])"
    by (simp add: schema_prop_def SEMANTIC_CONTRACT_SCHEMA_def)
  from accepts_type [OF accepts_prop [OF acc this d], of "''string''"]
  obtain t where "d = JStr t"
    by (auto simp: is_str_iff)
  with d con show "is_lit (fld ''semanticDigest'' sem) (computeSemanticDigest sha sem)"
    by (simp add: contract_consistent_def)
  show "contract_consistent sha sem"
    by (rule con)
qed

section \<open>A repair document is bound to its source\<close>

abbreviation test_id :: "json \<Rightarrow> jsval" where
  "test_id t \<equiv> fld ''negativeSideEffectId'' t"

abbreviation effect_id :: "json \<Rightarrow> jsval" where
  "effect_id s \<equiv> fld ''sideEffectId'' s"

lemma guard_test_members:
  "test_id (guard_test s) = effect_id s"
  "fld ''negativeSideEffectScope'' (guard_test s) = fld ''scope'' s"
  "fld ''expectedSideEffectCount'' (guard_test s) = fld ''expectedCount'' s"
  by (auto simp: guard_test_def Let_def split: option.splits)

lemma guard_loop:
  "distinct (map effect_id ss) \<Longrightarrow>
     guard_loop tests ss = tests @ map guard_test (filter (\<lambda>s. effect_id s \<notin> test_id ` set tests) ss)"
proof (induction ss arbitrary: tests)
  case Nil
  then show ?case by simp
next
  case (Cons s ss)
  show ?case
  proof (cases "List.find (\<lambda>t. test_id t = effect_id s) tests")
    case None
    then have new: "effect_id s \<notin> test_id ` set tests"
      by (auto simp: find_None_iff')
    have other: "effect_id x \<noteq> effect_id s" if "x \<in> set ss" for x
    proof
      assume "effect_id x = effect_id s"
      with imageI [OF that, of effect_id] Cons.prems show False by simp
    qed
    have "filter (\<lambda>x. effect_id x \<notin> test_id ` set (tests @ [guard_test s])) ss
        = filter (\<lambda>x. effect_id x \<notin> test_id ` set tests) ss"
      by (rule filter_cong [OF HOL.refl], drule other) (simp only: set_append image_Un list.set image_insert
        image_empty guard_test_members Un_iff singleton_iff, blast)
    with None new Cons show ?thesis by simp
  next
    case (Some t)
    then have "t \<in> set tests" and t: "test_id t = effect_id s"
      by (auto dest!: find_Some_iff')
    then have "effect_id s \<in> test_id ` set tests"
      using imageI [of t "set tests" test_id] by simp
    with Some Cons show ?thesis by simp
  qed
qed

lemma filter_one:
  assumes "distinct (map f (filter P xs))" and "x \<in> set xs" and "P x"
  shows "filter (\<lambda>y. P y \<and> f y = f x) xs = [x]"
  using assms
proof (induction xs)
  case (Cons a xs)
  show ?case
  proof (cases "a = x")
    case True
    then have "P a" and "f x \<notin> f ` {y \<in> set xs. P y}"
      using Cons.prems by auto
    then show ?thesis
      using True by (auto simp: filter_empty_conv image_iff)
  next
    case False
    then have "x \<in> set xs" and "\<not> (P a \<and> f a = f x)"
      using Cons.prems by (auto simp: image_iff split: if_splits)
    with Cons show ?thesis by (auto split: if_splits)
  qed
qed simp

lemma filter_one':
  "distinct (map f xs) \<Longrightarrow> x \<in> set xs \<Longrightarrow> filter (\<lambda>y. f y = f x) xs = [x]"
  using filter_one [of f "\<lambda>_. True" xs x] by simp

text \<open>Every side effect has exactly one test, its own or the caller's.\<close>

lemma guarded_tests:
  assumes ids: "distinct (map effect_id src)" and valid: "\<forall>s \<in> set src. isValidSideEffectId (effect_id s)"
    and users: "distinct (map test_id (filter (\<lambda>t. test_id t \<noteq> None) tests))"
    and pinned: "\<And>t s. t \<in> set tests \<Longrightarrow> s \<in> set src \<Longrightarrow> test_id t = effect_id s \<Longrightarrow> pins_spec t s"
    and s: "s \<in> set src"
  shows "\<exists>t. tests_of (effect_id s) (guard_loop tests src) = [t] \<and> pins_spec t s"
proof -
  let ?new = "filter (\<lambda>s. effect_id s \<notin> test_id ` set tests) src"
  have val: "isValidSideEffectId (effect_id s)"
    using valid s by blast
  have split: "tests_of (effect_id s) (guard_loop tests src) =
      filter (\<lambda>t. test_id t = effect_id s) tests @ map guard_test (filter (\<lambda>x. effect_id x = effect_id s) ?new)"
  proof -
    have "(isValidSideEffectId x \<and> x = effect_id s) = (x = effect_id s)" for x
      using val by auto
    then show ?thesis
      unfolding guard_loop [OF ids] tests_of_def by (simp add: filter_map o_def guard_test_members)
  qed
  show ?thesis
  proof (cases "effect_id s \<in> test_id ` set tests")
    case True
    then obtain t where t: "t \<in> set tests" "test_id t = effect_id s"
      by auto
    have some: "test_id t \<noteq> None"
      using val t(2) by (cases "effect_id s") (simp_all add: isValidSideEffectId_def)
    have same: "(test_id y \<noteq> None \<and> test_id y = test_id t) = (test_id y = effect_id s)" for y
      using some t(2) by metis
    have "filter (\<lambda>y. test_id y = effect_id s) tests = [t]"
      using filter_one [where f = test_id and P = "\<lambda>t. test_id t \<noteq> None" and xs = tests and x = t]
        users t(1) some unfolding same by blast
    moreover have "filter (\<lambda>x. effect_id x = effect_id s) ?new = []"
      using True by (auto simp: filter_empty_conv)
    ultimately show ?thesis
      using split pinned [OF t(1) s t(2)] by simp
  next
    case False
    then have "filter (\<lambda>t. test_id t = effect_id s) tests = []"
      by (auto simp: filter_empty_conv image_iff)
    moreover have "s \<in> set ?new" and "distinct (map effect_id ?new)"
      using False s ids by (auto simp: distinct_map inj_on_def)
    then have "filter (\<lambda>x. effect_id x = effect_id s) ?new = [s]"
      using filter_one' [of effect_id ?new s] by blast
    ultimately show ?thesis
      using split by (simp add: pins_spec_def guard_test_members)
  qed
qed

lemma no_proto_own: "no_proto v \<Longrightarrow> own k (Some v) = Some w \<Longrightarrow> no_proto w"
  by (cases v) (auto simp: list_all_iff dest!: map_of_SomeD)

lemma wf_json_own: "wf_json v \<Longrightarrow> own k (Some v) = Some w \<Longrightarrow> wf_json w"
  by (cases v) (auto simp: list_all_iff dest!: map_of_SomeD)

lemma arr_or_empty_in: "x \<in> set (arr_or_empty v) \<Longrightarrow> \<exists>xs. v = Some (JArr xs) \<and> x \<in> set xs"
  by (cases v rule: arr_or_empty.cases) auto

lemma no_proto_items: "no_proto v \<Longrightarrow> x \<in> set (items_of k v) \<Longrightarrow> no_proto x"
  by (drule arr_or_empty_in, elim exE conjE, drule (1) no_proto_own) (simp add: list_all_iff)

lemma wf_json_items: "wf_json v \<Longrightarrow> x \<in> set (items_of k v) \<Longrightarrow> wf_json x"
  by (drule arr_or_empty_in, elim exE conjE, drule (1) wf_json_own) (simp add: list_all_iff)

lemma or_empty_clean:
  "no_proto v \<Longrightarrow> no_proto (or_empty (fld f v))"
  "wf_json v \<Longrightarrow> wf_json (or_empty (fld f v))"
  by (cases "fld f v"; simp add: or_empty_def no_proto_own wf_json_own)+

lemma expected_frozen_clean:
  assumes "no_proto sem" and "wf_json sem"
  shows "no_proto (expected_frozen sem (items_of ''negativeSideEffects'' sem) refs f)"
    and "wf_json (expected_frozen sem (items_of ''negativeSideEffects'' sem) refs f)"
  using assms
  by (auto simp: expected_frozen_def unrejected_def list_all_iff or_empty_clean
      intro: no_proto_items wf_json_items)

lemma or_empty_idem: "or_empty (Some (expected_frozen sem src refs f)) = expected_frozen sem src refs f"
  by (auto simp: expected_frozen_def or_empty_def nullish_iff)

lemma own_frozen_semantics:
  "f \<in> set FROZEN_FIELDS \<Longrightarrow>
     own f (Some (frozen_semantics sem src refs)) = Some (deep_clone_json (expected_frozen sem src refs f))"
  by (auto simp: frozen_semantics_def FROZEN_FIELDS_def)

lemmas repair_draft_members = repair_draft_def Let_def

lemma repair_draft_own:
  "fld ''contractKey'' (repair_draft fresh now sem src refs input) = Some (or_null (fld ''contractKey'' sem))"
  "fld ''sourceSemanticDigest'' (repair_draft fresh now sem src refs input) = Some (or_null (fld ''semanticDigest'' sem))"
  "fld ''rejectedAcceptanceRefs'' (repair_draft fresh now sem src refs input) = Some (JArr refs)"
  "fld ''mustChange'' (repair_draft fresh now sem src refs input) = Some (or_null (own ''mustChange'' input))"
  "fld ''negativeSideEffects'' (repair_draft fresh now sem src refs input) = Some (JArr (map deep_clone_json src))"
  "fld ''acceptanceTests'' (repair_draft fresh now sem src refs input)
     = Some (JArr (guard_loop (arr_or_empty (own ''acceptanceTests'' input)) (map deep_clone_json src)))"
  "fld ''frozenSemantics'' (repair_draft fresh now sem src refs input) = Some (frozen_semantics sem src refs)"
  by (simp_all add: repair_draft_def Let_def)

lemma repair_document_cases:
  assumes "repair_document sha fresh now input = Inr (sem, doc)"
  obtains refs where "own ''semanticContract'' input = Some sem" and "isAuthoritative sha (Some sem)"
    and "own ''rejectedAcceptanceRefs'' input = Some (JArr refs)"
    and "refs \<noteq> []" and "distinct refs"
    and "\<forall>r \<in> set refs. source_by_id (items_of ''negativeSideEffects'' sem) (Some r) \<noteq> None"
    and "assert_repair_input (items_of ''negativeSideEffects'' sem) refs input = Inr ()"
    and "\<forall>t \<in> set (arr_or_empty (own ''acceptanceTests'' input)).
           assert_user_test (items_of ''negativeSideEffects'' sem) t = Inr ()"
    and "doc = repair_draft fresh now sem (items_of ''negativeSideEffects'' sem) refs input"
  using assms
  by (auto simp: repair_document_def assert_rejected_refs_def assertPlainObject_def assertArrayOf_eq_Inr Let_def
      plain_object_iff simp del: not_None_eq)

lemma repair_targets_bounded:
  assumes "assert_repair_input src refs input = Inr ()" and "m \<in> set (arr_or_empty (own ''mustChange'' input))"
  shows "\<exists>r \<in> set refs. \<exists>s. source_by_id src (Some r) = Some s \<and> fld ''target'' m = fld ''scope'' s"
proof -
  have "fld ''target'' m \<in> set (allowed_scopes src refs)"
    using assms by (simp add: assert_repair_input_def)
  then show ?thesis
    by (simp add: allowed_scopes_def set_rejected_scopes)
qed

lemma user_test_pinned:
  assumes "assert_user_test src t = Inr ()" and "distinct (map effect_id src)"
    and "s \<in> set src" and "test_id t = effect_id s" and "isValidSideEffectId (effect_id s)"
  shows "pins_spec t s"
proof -
  have some: "test_id t \<noteq> None"
    using assms(4,5) by (cases "effect_id s") (simp_all add: isValidSideEffectId_def)
  then obtain spec where spec: "source_by_id src (test_id t) = Some spec" "pins_spec t spec"
    using assms(1) by (auto simp: assert_user_test_def Let_def split: option.splits)
  then have "spec \<in> set src" "effect_id spec = effect_id s"
    using source_by_id_Some assms(4) by fastforce+
  then have "spec = s"
    using assms(2,3) by (simp add: distinct_map inj_on_def)
  with spec show ?thesis by simp
qed

text \<open>
  What the builder assembles from input that passes its guards is bound to the source: the
  cross-document rules never refuse it, unless the caller names one side effect in two of its own
  tests.
\<close>

lemma repair_document_bound:
  assumes doc: "repair_document sha fresh now input = Inr (sem, doc)"
    and clean: "no_proto sem" "wf_json sem"
    and users: "distinct (map test_id (filter (\<lambda>t. test_id t \<noteq> None)
                  (arr_or_empty (own ''acceptanceTests'' input))))"
  shows "binding_issues sha doc sem = Inr []"
proof -
  let ?src = "items_of ''negativeSideEffects'' sem" and ?tests = "arr_or_empty (own ''acceptanceTests'' input)"
  obtain refs where auth: "isAuthoritative sha (Some sem)" and refs: "distinct refs"
      "\<forall>r \<in> set refs. source_by_id ?src (Some r) \<noteq> None"
    and inp: "assert_repair_input ?src refs input = Inr ()"
    and tests: "\<forall>t \<in> set ?tests. assert_user_test ?src t = Inr ()"
    and d: "doc = repair_draft fresh now sem ?src refs input"
    using doc by (elim repair_document_cases)
  note src = authoritative_source [OF auth]
  have ident: "identified ?src = ?src"
    using src(1) by (auto simp: identified_def filter_id_conv)
  have copy: "map deep_clone_json ?src = ?src"
    by (rule map_idI, rule deep_clone_id, erule no_proto_items [OF clean(1)])
  have mc: "arr_or_empty (Some (or_null (own ''mustChange'' input))) = arr_or_empty (own ''mustChange'' input)"
    by (cases "own ''mustChange'' input") (simp_all add: or_null_def)
  have frozen: "deep_equal (or_empty (own f (Some (frozen_semantics sem ?src refs)))) (expected_frozen sem ?src refs f)"
    if "f \<in> set FROZEN_FIELDS" for f
    using that expected_frozen_clean [OF clean, of refs f]
    by (simp add: own_frozen_semantics deep_clone_id or_empty_idem deep_equal_refl)
  obtain ck dg where ck: "fld ''semanticDigest'' sem = Some dg"
    using src(4) by auto
  have bound: "repair_bound sha doc sem ?src" if "fld ''contractKey'' sem \<noteq> None"
    unfolding repair_bound_def Let_def d repair_draft_own copy arr_or_empty.simps ident mc
  proof (intro conjI ballI impI)
    show "Some (or_null (fld ''contractKey'' sem)) = fld ''contractKey'' sem"
      using that by (auto simp: or_null_def)
    show "Some (or_null (fld ''semanticDigest'' sem)) = fld ''semanticDigest'' sem"
      using ck by (simp add: or_null_def)
    show "is_lit (fld ''semanticDigest'' sem) (computeSemanticDigest sha sem)"
      by (rule src(4))
    show "Some ` set refs \<subseteq> effect_id ` set ?src"
      using refs(2) unfolding source_by_id_None by auto
    show "distinct (map effect_id ?src)"
      by (rule src(2))
  next
    fix m assume "m \<in> set (arr_or_empty (own ''mustChange'' input))"
    then show "\<exists>r \<in> set refs. \<exists>s. source_by_id ?src (Some r) = Some s \<and> fld ''target'' m = fld ''scope'' s"
      by (rule repair_targets_bounded [OF inp])
  next
    fix s assume s: "s \<in> set ?src"
    show "\<exists>c \<in> set ?src. effect_id c = effect_id s \<and> same_spec c s"
      by (rule bexI [OF _ s]) (simp add: same_spec_def)
    show "\<exists>t. tests_of (effect_id s) (guard_loop ?tests ?src) = [t] \<and> pins_spec t s"
    proof (rule guarded_tests [OF src(2) _ users _ s])
      show "\<forall>s \<in> set ?src. isValidSideEffectId (effect_id s)"
        using src(1) by blast
      show "pins_spec t s" if "t \<in> set ?tests" "s \<in> set ?src" "test_id t = effect_id s" for t s
        using user_test_pinned [of ?src t s] tests src(1,2) that by blast
    qed
  next
    fix f assume "f \<in> set FROZEN_FIELDS"
    then show "deep_equal (or_empty (own f (Some (frozen_semantics sem ?src refs)))) (expected_frozen sem ?src refs f)"
      by (rule frozen)
  qed simp
  show ?thesis
    unfolding binding_issues_iff using src(3) bound semantic_required [OF auth, of "''contractKey''"] by auto
qed

section \<open>What the compiler stamps\<close>

lemma map_of_snoc: "k \<noteq> j \<Longrightarrow> map_of (kvs @ [(j, v)]) k = map_of kvs k"
  by (induction kvs) auto

lemma digest_ignores_stamp:
  "computeSemanticDigest sha (JObj (kvs @ [(''semanticDigest'', v)])) = computeSemanticDigest sha (JObj kvs)"
  by (simp add: computeSemanticDigest_def digest_payload_def SET_LIKE_ARRAYS_def map_of_snoc del: map_of_append)

lemma compile_stamped_own:
  fixes sha ca
  assumes "assert_compiler_input input = Inr ()"
  defines "st \<equiv> compile_stamped sha ca input"
  shows "fld ''compileStatus'' st = Some (JStr (computeCompileStatus (own ''unresolvedSemantics'' input)))"
    and "fld ''unresolvedSemantics'' st = own ''unresolvedSemantics'' input"
    and "fld ''semanticDigest'' st = Some (JStr (computeSemanticDigest sha st))"
    and "items_of ''negativeSideEffects'' st
      = map (stamp_side_effect sha) (arr_or_empty (own ''negativeSideEffects'' input))"
proof -
  show "fld ''compileStatus'' st = Some (JStr (computeCompileStatus (own ''unresolvedSemantics'' input)))"
    by (simp add: st_def compile_stamped_def compile_draft_def Let_def)
  obtain us where "own ''unresolvedSemantics'' input = Some (JArr us)"
    using assms(1) unfolding assert_compiler_input_def
    by (simp only: rbind_eq_Inr assertArrayOf_eq_Inr) blast
  then show "fld ''unresolvedSemantics'' st = own ''unresolvedSemantics'' input"
    by (simp add: st_def compile_stamped_def compile_draft_def Let_def or_null_def)
  show "fld ''semanticDigest'' st = Some (JStr (computeSemanticDigest sha st))"
    unfolding st_def compile_stamped_def Let_def digest_ignores_stamp
    by (simp add: compile_draft_def)
  show "items_of ''negativeSideEffects'' st
      = map (stamp_side_effect sha) (arr_or_empty (own ''negativeSideEffects'' input))"
    by (simp add: st_def compile_stamped_def compile_draft_def Let_def)
qed

lemma stamp_side_effect_own:
  "is_obj s \<Longrightarrow> is_lit (fld ''sideEffectId'' (stamp_side_effect sha s)) (sideEffectIdForSpec sha (stamp_side_effect sha s))"
  "is_obj s \<Longrightarrow> k \<noteq> ''sideEffectId'' \<Longrightarrow> fld k (stamp_side_effect sha s) = fld k s"
  by (auto simp: is_obj_iff stamp_side_effect_def sideEffectIdForSpec_ignores_id)

text \<open>The derived parts of a compiled document never contradict its content.\<close>

lemma compile_stamps_sound:
  fixes sha ca
  assumes "assert_compiler_input input = Inr ()"
  defines "st \<equiv> compile_stamped sha ca input"
  shows "status_issues st = []" and "digest_issues sha st = []" and "count_issues st = []"
    and "\<forall>s \<in> set (items_of ''negativeSideEffects'' st).
           is_lit (fld ''sideEffectId'' s) (sideEffectIdForSpec sha s)"
proof -
  note own = compile_stamped_own [OF assms(1), of sha ca, folded st_def]
  obtain ss where ss: "own ''negativeSideEffects'' input = Some (JArr ss)"
    and ok: "\<forall>s \<in> set ss. is_obj s \<and> int_at_least 0 (fld ''expectedCount'' s)"
  proof -
    have "assertArrayOf (own ''negativeSideEffects'' input) ''negativeSideEffects'' assert_side_effect = Inr ()"
      using assms(1) by (simp add: assert_compiler_input_def)
    then obtain ss where ss: "own ''negativeSideEffects'' input = Some (JArr ss)"
        "\<forall>s \<in> set ss. assert_side_effect s = Inr ()"
      by (auto simp: assertArrayOf_eq_Inr)
    moreover have "is_obj s \<and> int_at_least 0 (fld ''expectedCount'' s)" if "assert_side_effect s = Inr ()" for s
      using that by (cases s) (simp_all add: assert_side_effect_def assertPlainObject_def assertSideEffectSpec_def Let_def)
    ultimately show ?thesis
      using that by blast
  qed
  show "status_issues st = []" and "digest_issues sha st = []"
    by (simp_all add: status_issues_def digest_issues_def own)
  show "count_issues st = []"
    using ok by (auto simp: count_issues_iff own ss stamp_side_effect_own)
  show "\<forall>s \<in> set (items_of ''negativeSideEffects'' st).
      is_lit (fld ''sideEffectId'' s) (sideEffectIdForSpec sha s)"
    using ok by (auto simp: own ss stamp_side_effect_own)
qed

lemma compile_result:
  assumes "compileSemanticContract sha now opts input = Inr doc"
  obtains st ws where "assert_compiler_input input = Inr ()"
    and "st = compile_stamped sha (or_else (own ''compiledAt'' opts) (JStr now)) input"
    and "validateSemanticContract sha st = Inr ([], ws)" and "doc = deep_clone_json (with_warnings st ws)"
  using assms by (auto simp: compileSemanticContract_def Let_def)

lemma with_warnings_Nil: "is_obj st \<Longrightarrow> with_warnings st [] = st"
  by (auto simp: with_warnings_def is_obj_iff)

lemma with_warnings_own: "k \<noteq> ''compileWarnings'' \<Longrightarrow> is_obj st \<Longrightarrow> fld k (with_warnings st ws) = fld k st"
  by (auto simp: with_warnings_def is_obj_iff map_of_snoc simp del: map_of_append)

text \<open>
  The returned document carries the status its unresolved questions call for; without warnings it
  is authoritative exactly when none of them is of a high-risk class.
\<close>

lemma deep_clone_own:
  "k \<noteq> ''__proto__'' \<Longrightarrow> fld k (deep_clone_json v) = map_option deep_clone_json (fld k v)"
proof (cases v)
  case (JObj kvs)
  assume "k \<noteq> ''__proto__''"
  then show ?thesis
    unfolding JObj by (induction kvs) (auto simp: assignable_def)
qed simp_all

lemma compile_status:
  assumes "compileSemanticContract sha now opts input = Inr doc"
  shows "fld ''compileStatus'' doc = Some (JStr (computeCompileStatus (own ''unresolvedSemantics'' input)))"
proof -
  obtain st ws where inp: "assert_compiler_input input = Inr ()"
    and st: "st = compile_stamped sha (or_else (own ''compiledAt'' opts) (JStr now)) input"
    and doc: "doc = deep_clone_json (with_warnings st ws)"
    using assms by (elim compile_result)
  have "is_obj st" by (simp add: st compile_stamped_def Let_def)
  then have "fld ''compileStatus'' (with_warnings st ws)
      = Some (JStr (computeCompileStatus (own ''unresolvedSemantics'' input)))"
    using compile_stamped_own(1) [OF inp, of sha "or_else (own ''compiledAt'' opts) (JStr now)"]
    by (simp add: with_warnings_own st)
  then show ?thesis
    by (simp add: doc deep_clone_own)
qed

section \<open>What a returned repair holds\<close>

lemma clone_no_proto: "no_proto (deep_clone_json v)"
  by (induction v) (auto simp: list_all_iff assignable_def snds.simps)

lemma clone_twice: "deep_clone_json (deep_clone_json v) = deep_clone_json v"
  by (rule deep_clone_id [OF clone_no_proto])

lemma contract_key_text:
  assumes "isAuthoritative sha (Some sem)"
  shows "\<exists>key. fld ''contractKey'' sem = Some (JStr key)"
proof -
  have acc: "accepts lcim_regexps sem SEMANTIC_CONTRACT_SCHEMA"
    using assms by (auto simp: isAuthoritative_iff validateSemanticContract_valid_iff intro: validate_accepts)
  obtain w where w: "fld ''contractKey'' sem = Some w"
    using semantic_required [OF assms, of "''contractKey''"] by auto
  have "schema_prop SEMANTIC_CONTRACT_SCHEMA ''contractKey'' = Some (JObj [(''type'', JStr ''string''), (''pattern'', JStr ''^[a-z0-9][a-z0-9._-]{0,127}$'')])"
    by (simp add: schema_prop_def SEMANTIC_CONTRACT_SCHEMA_def)
  from accepts_type [OF accepts_prop [OF acc this w], of "''string''"] w show ?thesis
    by (auto simp: is_str_iff)
qed

text \<open>
  What a returned repair contract holds: the identity of its authoritative source, the rejected
  references of the request, the side effects of the source, and the changes of the request.
\<close>

lemma returned_repair:
  assumes "buildRepairContract sha fresh now input = Inr d"
  obtains sem refs where "own ''semanticContract'' input = Some sem" and "isAuthoritative sha (Some sem)"
    and "own ''rejectedAcceptanceRefs'' input = Some (JArr refs)" and "refs \<noteq> []" and "distinct refs"
    and "\<forall>r \<in> set refs. source_by_id (items_of ''negativeSideEffects'' sem) (Some r) \<noteq> None"
    and "fld ''contractKey'' d = fld ''contractKey'' sem" and "fld ''sourceSemanticDigest'' d = fld ''semanticDigest'' sem"
    and "fld ''rejectedAcceptanceRefs'' d = Some (JArr refs)"
    and "items_of ''negativeSideEffects'' d = map deep_clone_json (items_of ''negativeSideEffects'' sem)"
    and "items_of ''mustChange'' d = map deep_clone_json (arr_or_empty (own ''mustChange'' input))"
    and "\<forall>m \<in> set (items_of ''mustChange'' d). \<exists>r \<in> set refs. \<exists>s.
       source_by_id (items_of ''negativeSideEffects'' sem) (Some r) = Some s \<and> fld ''target'' m = fld ''scope'' s"
proof -
  obtain sem doc where doc: "repair_document sha fresh now input = Inr (sem, doc)" and d: "d = deep_clone_json doc"
    using assms by (auto simp: buildRepairContract_def)
  let ?src = "items_of ''negativeSideEffects'' sem"
  obtain refs where inp: "own ''semanticContract'' input = Some sem" "isAuthoritative sha (Some sem)"
      "own ''rejectedAcceptanceRefs'' input = Some (JArr refs)" "refs \<noteq> []" "distinct refs"
      "\<forall>r \<in> set refs. source_by_id ?src (Some r) \<noteq> None"
    and ok: "assert_repair_input ?src refs input = Inr ()" and draft: "doc = repair_draft fresh now sem ?src refs input"
    using doc by (elim repair_document_cases)
  note src = authoritative_source [OF inp(2)]
  have strings: "deep_clone_json r = r" if "r \<in> set refs" for r
    using inp(6) src(1) that unfolding source_by_id_None by (fastforce simp: isValidSideEffectId_def split: option.splits json.splits)
  obtain ms where ms: "own ''mustChange'' input = Some (JArr ms)" "\<forall>m \<in> set ms. \<exists>t. is_lit (fld ''target'' m) t"
    using ok by (auto simp: assert_repair_input_def assertArrayOf_eq_Inr assert_strings_eq_Inr nonempty_string_iff) blast
  have changes: "items_of ''mustChange'' d = map deep_clone_json (arr_or_empty (own ''mustChange'' input))"
    unfolding d draft by (simp add: deep_clone_own repair_draft_own ms or_null_def)
  show ?thesis
  proof (rule that [OF inp])
    show "fld ''contractKey'' d = fld ''contractKey'' sem" "fld ''sourceSemanticDigest'' d = fld ''semanticDigest'' sem"
      using contract_key_text [OF inp(2)] src(4) unfolding d draft
      by (auto simp: deep_clone_own repair_draft_own or_null_def)
    show "fld ''rejectedAcceptanceRefs'' d = Some (JArr refs)"
      using strings unfolding d draft by (simp add: deep_clone_own repair_draft_own map_idI)
    show "items_of ''negativeSideEffects'' d = map deep_clone_json ?src"
      unfolding d draft by (auto simp: deep_clone_own repair_draft_own clone_twice)
    show "items_of ''mustChange'' d = map deep_clone_json (arr_or_empty (own ''mustChange'' input))"
      by (rule changes)
    show "\<forall>m \<in> set (items_of ''mustChange'' d). \<exists>r \<in> set refs. \<exists>s.
       source_by_id ?src (Some r) = Some s \<and> fld ''target'' m = fld ''scope'' s"
    proof (unfold changes set_map, intro ballI, elim imageE)
      fix m m' assume m: "m = deep_clone_json m'" "m' \<in> set (arr_or_empty (own ''mustChange'' input))"
      then have "fld ''target'' m = fld ''target'' m'"
        using ms by (auto simp: deep_clone_own)
      with repair_targets_bounded [OF ok m(2)] show "\<exists>r \<in> set refs. \<exists>s.
          source_by_id ?src (Some r) = Some s \<and> fld ''target'' m = fld ''scope'' s"
        by simp
    qed
  qed
qed

end
