(* ===== verification/Route_Machine.thy ===== *)
theory Route_Machine
  imports Js_Values Lcim_Errors
begin

text \<open>
  The controller-owned parts of routing that keep or classify state: the escalation machine
  (src/src/routing/state.mjs), the hard call budgets (src/src/routing/budget.mjs) and the STUCK
  criteria (src/src/routing/stuck.mjs, reasons.mjs).  The machine interprets
  \<open>guarded_machine\<close>; the two counters of the budget tracker interpret \<open>metered\<close>.
\<close>

section \<open>The escalation machine\<close>

definition ESCALATION_STATE :: "string list" where
  "ESCALATION_STATE =
    [''ROUTING_READY'', ''AWAITING_IMPLEMENTATION'', ''AWAITING_REPAIR'',
     ''AWAITING_SOL_CONTRACT_CHECK'', ''AWAITING_SOL_DIAGNOSE'',
     ''AWAITING_SOL_FINAL_REVIEW'', ''AWAITING_SOL_RECHECK'', ''AWAITING_PRO_MAX'',
     ''UNIT_COMPLETE'', ''STOPPED_STUCK'', ''STOPPED_BUDGET'', ''FAILED_NO_SUBSTITUTE'']"

definition TERMINAL_STATES :: "string list" where
  "TERMINAL_STATES = [''UNIT_COMPLETE'', ''STOPPED_STUCK'', ''STOPPED_BUDGET'', ''FAILED_NO_SUBSTITUTE'']"

definition ESCALATION_EVENT :: "string list" where
  "ESCALATION_EVENT =
    [''TASK_READY'', ''CONTRACT_REVIEW_REQUIRED'', ''RESULT_ACCEPTED'',
     ''RESULT_ACCEPTED_HIGH_RISK'', ''FAILURE_FIRST_CREDIBLE'', ''SEMANTIC_REJECTION'',
     ''SOL_FINDING_SURVIVED_REPAIR'', ''SOL_CHECK_RESOLVED'', ''SOL_DIAGNOSIS_READY'',
     ''SOL_REVIEW_PASSED'', ''PRO_MAX_JUSTIFIED'', ''STUCK'', ''BUDGET_EXHAUSTED'',
     ''CAPABILITY_GAP'', ''PROVIDER_UNAVAILABLE'']"

text \<open>\<open>TRANSITIONS\<close>: state, event, next state.\<close>

definition TRANSITIONS :: "(string \<times> (string \<times> string) list) list" where
  "TRANSITIONS =
    [(''ROUTING_READY'', [(''TASK_READY'', ''AWAITING_IMPLEMENTATION''),
        (''CONTRACT_REVIEW_REQUIRED'', ''AWAITING_SOL_CONTRACT_CHECK''),
        (''STUCK'', ''STOPPED_STUCK''),
        (''BUDGET_EXHAUSTED'', ''STOPPED_BUDGET''),
        (''CAPABILITY_GAP'', ''FAILED_NO_SUBSTITUTE''),
        (''PROVIDER_UNAVAILABLE'', ''FAILED_NO_SUBSTITUTE'')]),
     (''AWAITING_IMPLEMENTATION'', [(''RESULT_ACCEPTED'', ''UNIT_COMPLETE''),
        (''RESULT_ACCEPTED_HIGH_RISK'', ''AWAITING_SOL_FINAL_REVIEW''),
        (''FAILURE_FIRST_CREDIBLE'', ''AWAITING_REPAIR''),
        (''SEMANTIC_REJECTION'', ''AWAITING_SOL_DIAGNOSE''),
        (''SOL_FINDING_SURVIVED_REPAIR'', ''AWAITING_SOL_RECHECK''),
        (''STUCK'', ''STOPPED_STUCK''),
        (''BUDGET_EXHAUSTED'', ''STOPPED_BUDGET''),
        (''CAPABILITY_GAP'', ''FAILED_NO_SUBSTITUTE''),
        (''PROVIDER_UNAVAILABLE'', ''FAILED_NO_SUBSTITUTE'')]),
     (''AWAITING_REPAIR'', [(''RESULT_ACCEPTED'', ''UNIT_COMPLETE''),
        (''RESULT_ACCEPTED_HIGH_RISK'', ''AWAITING_SOL_FINAL_REVIEW''),
        (''SEMANTIC_REJECTION'', ''AWAITING_SOL_DIAGNOSE''),
        (''SOL_FINDING_SURVIVED_REPAIR'', ''AWAITING_SOL_RECHECK''),
        (''STUCK'', ''STOPPED_STUCK''),
        (''BUDGET_EXHAUSTED'', ''STOPPED_BUDGET''),
        (''CAPABILITY_GAP'', ''FAILED_NO_SUBSTITUTE''),
        (''PROVIDER_UNAVAILABLE'', ''FAILED_NO_SUBSTITUTE'')]),
     (''AWAITING_SOL_CONTRACT_CHECK'', [(''SOL_CHECK_RESOLVED'', ''AWAITING_IMPLEMENTATION''),
        (''CONTRACT_REVIEW_REQUIRED'', ''AWAITING_SOL_CONTRACT_CHECK''),
        (''PRO_MAX_JUSTIFIED'', ''AWAITING_PRO_MAX''),
        (''STUCK'', ''STOPPED_STUCK''),
        (''BUDGET_EXHAUSTED'', ''STOPPED_BUDGET''),
        (''CAPABILITY_GAP'', ''FAILED_NO_SUBSTITUTE''),
        (''PROVIDER_UNAVAILABLE'', ''FAILED_NO_SUBSTITUTE'')]),
     (''AWAITING_SOL_DIAGNOSE'', [(''SOL_DIAGNOSIS_READY'', ''AWAITING_IMPLEMENTATION''),
        (''PRO_MAX_JUSTIFIED'', ''AWAITING_PRO_MAX''),
        (''STUCK'', ''STOPPED_STUCK''),
        (''BUDGET_EXHAUSTED'', ''STOPPED_BUDGET''),
        (''CAPABILITY_GAP'', ''FAILED_NO_SUBSTITUTE''),
        (''PROVIDER_UNAVAILABLE'', ''FAILED_NO_SUBSTITUTE'')]),
     (''AWAITING_SOL_FINAL_REVIEW'', [(''SOL_REVIEW_PASSED'', ''UNIT_COMPLETE''),
        (''FAILURE_FIRST_CREDIBLE'', ''AWAITING_REPAIR''),
        (''PRO_MAX_JUSTIFIED'', ''AWAITING_PRO_MAX''),
        (''STUCK'', ''STOPPED_STUCK''),
        (''BUDGET_EXHAUSTED'', ''STOPPED_BUDGET''),
        (''CAPABILITY_GAP'', ''FAILED_NO_SUBSTITUTE''),
        (''PROVIDER_UNAVAILABLE'', ''FAILED_NO_SUBSTITUTE'')]),
     (''AWAITING_SOL_RECHECK'', [(''SOL_REVIEW_PASSED'', ''UNIT_COMPLETE''),
        (''RESULT_ACCEPTED_HIGH_RISK'', ''AWAITING_SOL_FINAL_REVIEW''),
        (''FAILURE_FIRST_CREDIBLE'', ''AWAITING_REPAIR''),
        (''PRO_MAX_JUSTIFIED'', ''AWAITING_PRO_MAX''),
        (''STUCK'', ''STOPPED_STUCK''),
        (''BUDGET_EXHAUSTED'', ''STOPPED_BUDGET''),
        (''CAPABILITY_GAP'', ''FAILED_NO_SUBSTITUTE''),
        (''PROVIDER_UNAVAILABLE'', ''FAILED_NO_SUBSTITUTE'')]),
     (''AWAITING_PRO_MAX'', [(''RESULT_ACCEPTED'', ''UNIT_COMPLETE''),
        (''RESULT_ACCEPTED_HIGH_RISK'', ''AWAITING_SOL_FINAL_REVIEW''),
        (''SEMANTIC_REJECTION'', ''AWAITING_SOL_DIAGNOSE''),
        (''SOL_FINDING_SURVIVED_REPAIR'', ''AWAITING_SOL_RECHECK''),
        (''STUCK'', ''STOPPED_STUCK''),
        (''BUDGET_EXHAUSTED'', ''STOPPED_BUDGET''),
        (''CAPABILITY_GAP'', ''FAILED_NO_SUBSTITUTE''),
        (''PROVIDER_UNAVAILABLE'', ''FAILED_NO_SUBSTITUTE'')]),
     (''UNIT_COMPLETE'', []),
     (''STOPPED_STUCK'', []),
     (''STOPPED_BUDGET'', []),
     (''FAILED_NO_SUBSTITUTE'', [])]"

definition isTerminalState :: "string \<Rightarrow> bool" where
  "isTerminalState s \<longleftrightarrow> s \<in> set TERMINAL_STATES"

text \<open>
  A name that the table inherits from \<open>Object.prototype\<close> has no transition for any event, so it
  fails like an unknown one.
\<close>

definition nextState :: "string \<Rightarrow> string \<Rightarrow> string result" where
  "nextState state event =
     (case map_of TRANSITIONS state of
        None \<Rightarrow> Inl (RouteStateError state event)
      | Some table \<Rightarrow>
          (case map_of table event of
             None \<Rightarrow> Inl (RouteStateError state event)
           | Some next \<Rightarrow> Inr next))"

definition machine_step :: "string \<Rightarrow> string \<Rightarrow> string option" where
  "machine_step s e = (case nextState s e of Inl _ \<Rightarrow> None | Inr t \<Rightarrow> Some t)"

lemma machine_step_eq_Some [simp]: "machine_step s e = Some t \<longleftrightarrow> nextState s e = Inr t"
  by (simp add: machine_step_def split: sum.splits)

text \<open>The rows of the table, as one fact per defined transition.\<close>

definition transition_list :: "(string \<times> string \<times> string) list" where
  "transition_list = concat (map (\<lambda>(s, t). map (\<lambda>(e, n). (s, e, n)) t) TRANSITIONS)"

lemma nextState_listed: "nextState s e = Inr t \<Longrightarrow> (s, e, t) \<in> set transition_list"
  by (force simp: nextState_def transition_list_def split: option.splits dest!: map_of_SomeD)

lemma transition_list_all:
  "list_all (\<lambda>(s, e, t). s \<in> set ESCALATION_STATE \<and> \<not> isTerminalState s \<and> e \<in> set ESCALATION_EVENT
     \<and> t \<in> set ESCALATION_STATE) transition_list"
  "list_all (\<lambda>(s, e, t). (t = ''UNIT_COMPLETE'' \<longleftrightarrow> e \<in> {''RESULT_ACCEPTED'', ''SOL_REVIEW_PASSED''})
     \<and> (t = ''STOPPED_STUCK'' \<longleftrightarrow> e = ''STUCK'') \<and> (t = ''STOPPED_BUDGET'' \<longleftrightarrow> e = ''BUDGET_EXHAUSTED'')
     \<and> (t = ''FAILED_NO_SUBSTITUTE'' \<longleftrightarrow> e \<in> {''CAPABILITY_GAP'', ''PROVIDER_UNAVAILABLE''})
     \<and> (t = ''AWAITING_REPAIR'' \<longrightarrow> s \<noteq> ''AWAITING_REPAIR'')
     \<and> (t = ''AWAITING_PRO_MAX'' \<longleftrightarrow> e = ''PRO_MAX_JUSTIFIED'')
     \<and> (t = ''AWAITING_SOL_FINAL_REVIEW'' \<longleftrightarrow> e = ''RESULT_ACCEPTED_HIGH_RISK'')
     \<and> (e = ''SOL_REVIEW_PASSED'' \<longrightarrow> s \<in> {''AWAITING_SOL_FINAL_REVIEW'', ''AWAITING_SOL_RECHECK''})
     \<and> (e = ''RESULT_ACCEPTED'' \<longrightarrow> s \<notin> {''AWAITING_SOL_FINAL_REVIEW'', ''AWAITING_SOL_RECHECK''}))
   transition_list"
  by code_simp+

lemma nextState_closed:
  assumes "nextState s e = Inr t"
  shows "s \<in> set ESCALATION_STATE" and "\<not> isTerminalState s" and "t \<in> set ESCALATION_STATE"
  using transition_list_all(1) [unfolded list_all_iff, rule_format, OF nextState_listed [OF assms]]
  by simp_all

lemma nextState_targets:
  assumes "nextState s e = Inr t"
  shows "t = ''UNIT_COMPLETE'' \<longleftrightarrow> e \<in> {''RESULT_ACCEPTED'', ''SOL_REVIEW_PASSED''}"
    and "t = ''STOPPED_STUCK'' \<longleftrightarrow> e = ''STUCK''"
    and "t = ''STOPPED_BUDGET'' \<longleftrightarrow> e = ''BUDGET_EXHAUSTED''"
    and "t = ''FAILED_NO_SUBSTITUTE'' \<longleftrightarrow> e \<in> {''CAPABILITY_GAP'', ''PROVIDER_UNAVAILABLE''}"
    and "t = ''AWAITING_REPAIR'' \<Longrightarrow> s \<noteq> ''AWAITING_REPAIR''"
    and "e = ''SOL_REVIEW_PASSED'' \<Longrightarrow> s \<in> {''AWAITING_SOL_FINAL_REVIEW'', ''AWAITING_SOL_RECHECK''}"
  using transition_list_all(2) [unfolded list_all_iff, rule_format, OF nextState_listed [OF assms]]
  by simp_all

interpretation escalation: guarded_machine machine_step isTerminalState
proof
  fix s e
  assume "isTerminalState s"
  then show "machine_step s e = None"
    using nextState_closed(2) [of s e] by (auto simp: machine_step_def split: sum.splits)
qed

text \<open>
  Stop and fail events are accepted in every state that is not terminal, so a hard stop is never
  refused by the table.
\<close>

lemma stop_always_defined:
  assumes "s \<in> set ESCALATION_STATE" and "\<not> isTerminalState s"
  shows "nextState s ''STUCK'' = Inr ''STOPPED_STUCK''"
    and "nextState s ''BUDGET_EXHAUSTED'' = Inr ''STOPPED_BUDGET''"
    and "nextState s ''CAPABILITY_GAP'' = Inr ''FAILED_NO_SUBSTITUTE''"
    and "nextState s ''PROVIDER_UNAVAILABLE'' = Inr ''FAILED_NO_SUBSTITUTE''"
proof -
  have *: "list_all (\<lambda>s. isTerminalState s \<or> (nextState s ''STUCK'' = Inr ''STOPPED_STUCK'' \<and>
      nextState s ''BUDGET_EXHAUSTED'' = Inr ''STOPPED_BUDGET'' \<and>
      nextState s ''CAPABILITY_GAP'' = Inr ''FAILED_NO_SUBSTITUTE'' \<and>
      nextState s ''PROVIDER_UNAVAILABLE'' = Inr ''FAILED_NO_SUBSTITUTE'')) ESCALATION_STATE"
    by (simp add: ESCALATION_STATE_def isTerminalState_def TERMINAL_STATES_def nextState_def TRANSITIONS_def)
  show "nextState s ''STUCK'' = Inr ''STOPPED_STUCK''"
    "nextState s ''BUDGET_EXHAUSTED'' = Inr ''STOPPED_BUDGET''"
    "nextState s ''CAPABILITY_GAP'' = Inr ''FAILED_NO_SUBSTITUTE''"
    "nextState s ''PROVIDER_UNAVAILABLE'' = Inr ''FAILED_NO_SUBSTITUTE''"
    using * assms by (auto simp: list_all_iff)
qed

section \<open>Hard budgets\<close>

text \<open>
  A gauge that no step may push over its cap.  A refused step leaves the state as it is, as a
  dispatch layer that catches the refusal sees it.
\<close>

locale metered =
  fixes step :: "'s \<Rightarrow> 'o \<Rightarrow> 's option"
    and gauge :: "'s \<Rightarrow> int"
    and cap :: "'s \<Rightarrow> int"
  assumes cap_kept: "step s x = Some t \<Longrightarrow> cap t = cap s"
    and gauge_capped: "step s x = Some t \<Longrightarrow> gauge s \<le> cap s \<Longrightarrow> gauge t \<le> cap t"
begin

fun drive :: "'s \<Rightarrow> 'o list \<Rightarrow> 's" where
  "drive s [] = s"
| "drive s (x # xs) = drive (case step s x of None \<Rightarrow> s | Some t \<Rightarrow> t) xs"

lemma never_overrun: "gauge s \<le> cap s \<Longrightarrow> gauge (drive s xs) \<le> cap s \<and> cap (drive s xs) = cap s"
proof (induction xs arbitrary: s)
  case (Cons x xs)
  show ?case
  proof (cases "step s x")
    case (Some t)
    then show ?thesis
      using Cons.IH [of t] Cons.prems cap_kept [OF Some] gauge_capped [OF Some] by simp
  qed (use Cons in simp)
qed simp

lemma drive_append: "drive s (xs @ ys) = drive (drive s xs) ys"
  by (induction xs arbitrary: s) simp_all

end

record budget =
  unitCalls :: int
  runCalls :: int
  unitCallsConsumed :: int
  runCallsConsumed :: int

definition safe_natural :: "jsval \<Rightarrow> bool" where
  "safe_natural v = (case v of Some (JInt i) \<Rightarrow> 0 \<le> i \<and> i \<le> 9007199254740991 | _ \<Rightarrow> False)"

fun int_value :: "jsval \<Rightarrow> int" where
  "int_value (Some (JInt i)) = i"
| "int_value _ = 0"

definition createBudgetTracker :: "jsval \<Rightarrow> jsval \<Rightarrow> budget result" where
  "createBudgetTracker unit_limit run_limit =
     rbind (need (safe_natural unit_limit) (ConfigError ''unitCalls'')) (\<lambda>_.
     rbind (need (safe_natural run_limit) (ConfigError ''runCalls'')) (\<lambda>_.
     Inr \<lparr>unitCalls = int_value unit_limit, runCalls = int_value run_limit,
          unitCallsConsumed = 0, runCallsConsumed = 0\<rparr>))"

definition available :: "budget \<Rightarrow> bool" where
  "available b \<longleftrightarrow> unitCallsConsumed b < unitCalls b \<and> runCallsConsumed b < runCalls b"

definition isExhausted :: "budget \<Rightarrow> bool" where
  "isExhausted b \<longleftrightarrow> \<not> available b"

definition consume :: "budget \<Rightarrow> budget result" where
  "consume b =
     rbind (need (available b) BudgetExhaustedError) (\<lambda>_.
     Inr (b\<lparr>unitCallsConsumed := unitCallsConsumed b + 1, runCallsConsumed := runCallsConsumed b + 1\<rparr>))"

definition resetUnit :: "budget \<Rightarrow> budget" where
  "resetUnit b = b\<lparr>unitCallsConsumed := 0\<rparr>"

definition snapshot :: "budget \<Rightarrow> json" where
  "snapshot b =
     JObj [(''unitCallsConsumed'', JInt (unitCallsConsumed b)), (''unitCallsLimit'', JInt (unitCalls b)),
           (''runCallsConsumed'', JInt (runCallsConsumed b)), (''runCallsLimit'', JInt (runCalls b))]"

text \<open>The operations of the tracker that change it.\<close>

datatype budget_op = Consume | ResetUnit

fun budget_step :: "budget \<Rightarrow> budget_op \<Rightarrow> budget option" where
  "budget_step b Consume = (case consume b of Inl _ \<Rightarrow> None | Inr b' \<Rightarrow> Some b')"
| "budget_step b ResetUnit = Some (resetUnit b)"

definition budget_ok :: "budget \<Rightarrow> bool" where
  "budget_ok b \<longleftrightarrow> 0 \<le> unitCallsConsumed b \<and> unitCallsConsumed b \<le> unitCalls b \<and>
     0 \<le> runCallsConsumed b \<and> runCallsConsumed b \<le> runCalls b"

lemma consume_eq_Inr:
  "consume b = Inr b' \<longleftrightarrow> available b \<and>
     b' = b\<lparr>unitCallsConsumed := unitCallsConsumed b + 1, runCallsConsumed := runCallsConsumed b + 1\<rparr>"
  by (auto simp: consume_def)

lemma budget_step_ok: "budget_ok b \<Longrightarrow> budget_step b x = Some b' \<Longrightarrow> budget_ok b'"
  by (cases x) (auto simp: budget_ok_def consume_eq_Inr available_def resetUnit_def split: sum.splits)

lemma createBudgetTracker_ok:
  "createBudgetTracker u r = Inr b \<Longrightarrow> budget_ok b \<and> unitCallsConsumed b = 0 \<and> runCallsConsumed b = 0"
  by (auto simp: createBudgetTracker_def budget_ok_def safe_natural_def split: option.splits json.splits if_splits)

interpretation run_meter: metered budget_step runCallsConsumed runCalls
proof
  fix s t :: budget and x
  assume step: "budget_step s x = Some t"
  show "runCalls t = runCalls s"
    using step by (cases x) (auto simp: consume_eq_Inr resetUnit_def split: sum.splits)
  show "runCallsConsumed t \<le> runCalls t" if "runCallsConsumed s \<le> runCalls s"
    using step that by (cases x) (auto simp: consume_eq_Inr available_def resetUnit_def split: sum.splits)
qed

text \<open>The calls that a sequence of operations let through, and the run counter that counts them.\<close>

fun granted :: "budget \<Rightarrow> budget_op list \<Rightarrow> int" where
  "granted b [] = 0"
| "granted b (x # xs) =
     (case budget_step b x of
        None \<Rightarrow> granted b xs
      | Some b' \<Rightarrow> (if x = Consume then 1 else 0) + granted b' xs)"

lemma granted_counts: "runCallsConsumed (run_meter.drive b xs) = runCallsConsumed b + granted b xs"
proof (induction xs arbitrary: b)
  case (Cons x xs)
  then show ?case
    by (cases x) (auto simp: consume_eq_Inr resetUnit_def split: sum.splits)
qed simp

section \<open>STUCK criteria\<close>

definition STUCK_CRITERIA :: "string list" where
  "STUCK_CRITERIA =
    [''SAME_AC_FAILED_AFTER_REPAIR'', ''SUBSTANTIVE_SEMANTIC_CONTRADICTION'',
     ''MODEL_ATTEMPTS_CONTRACT_CHANGE'', ''CONFLATES_DISTINCT_CONCEPTS'', ''NO_FALSIFIABLE_EXPLANATION'',
     ''SCOPE_BROADENS_WITHOUT_EVIDENCE'', ''SOL_FINDING_SURVIVES_ONE_REPAIR'', ''PROVIDER_LACKS_CAPABILITY'']"

definition STUCK_REASON_CODES :: "string list" where
  "STUCK_REASON_CODES =
    [''SAME_AC_FAILED_AFTER_REPAIR'', ''SUBSTANTIVE_SEMANTIC_CONTRADICTION'',
     ''MODEL_ATTEMPTS_CONTRACT_CHANGE'', ''CONFLATES_DISTINCT_CONCEPTS'', ''NO_FALSIFIABLE_EXPLANATION'',
     ''SCOPE_BROADENS_WITHOUT_EVIDENCE'', ''SOL_FINDING_SURVIVES_ONE_REPAIR'', ''PROVIDER_LACKS_CAPABILITY'',
     ''REPAIR_LIMIT_REACHED'']"

definition isStuckReasonCode :: "jsval \<Rightarrow> bool" where
  "isStuckReasonCode v = one_of STUCK_REASON_CODES v"

definition ESCALATION_BASIS :: "string list" where
  "ESCALATION_BASIS = [''SOL_DIRECTED_REPAIR'', ''CONFIRMED_CAPABILITY_FAILURE'', ''CONTRACT_LOCKED_DIFFICULT_TASK'']"

definition PRO_MAX_BASES :: "string list" where
  "PRO_MAX_BASES = [''SOL_DIRECTED_REPAIR'', ''CONFIRMED_CAPABILITY_FAILURE'', ''CONTRACT_LOCKED_DIFFICULT_TASK'']"

definition FLASH_MAX_BASES :: "string list" where
  "FLASH_MAX_BASES = [''CONTRACT_LOCKED_DIFFICULT_TASK'']"

definition isValidEscalationBasis :: "jsval \<Rightarrow> bool" where
  "isValidEscalationBasis v = one_of ESCALATION_BASIS v"

text \<open>Every reference of every failure, with its repetitions.\<close>

definition failure_refs :: "jsval \<Rightarrow> json list" where
  "failure_refs ctx =
     concat (map (\<lambda>f. arr_or_empty (own ''rejectedAcceptanceRefs'' (Some f)))
       (arr_or_empty (own ''failureHistory'' ctx)))"

definition deriveSameAcFailedAfterRepair :: "jsval \<Rightarrow> bool" where
  "deriveSameAcFailedAfterRepair ctx \<longleftrightarrow>
     length (arr_or_empty (own ''failureHistory'' ctx)) \<ge> 2 \<and>
     list_ex (\<lambda>r. length (filter (\<lambda>x. x = r) (failure_refs ctx)) \<ge> 2) (failure_refs ctx)"

definition survived_finding :: "json \<Rightarrow> bool" where
  "survived_finding f \<longleftrightarrow>
     is_lit (own ''status'' (Some f)) ''OPEN'' \<and>
     int_at_least 1 (own ''repairCycles'' (Some f)) \<and> int_at_least 1 (own ''rechecks'' (Some f))"

definition deriveSolFindingSurvivedOneRepair :: "jsval \<Rightarrow> bool" where
  "deriveSolFindingSurvivedOneRepair ctx \<longleftrightarrow>
     list_ex survived_finding (arr_or_empty (own ''solFindings'' ctx))"

definition stuck_flags :: "jsval \<Rightarrow> bool list" where
  "stuck_flags ctx =
     (let ev = own ''stuckEvidence'' ctx in
      [deriveSameAcFailedAfterRepair ctx,
       is_true (own ''semanticContradiction'' ev),
       is_true (own ''contractChangeAttempt'' ev),
       is_true (own ''conflation'' ev),
       is_true (own ''lacksFalsifiableExplanation'' ev),
       is_true (own ''scopeBroadenedWithoutEvidence'' ev),
       deriveSolFindingSurvivedOneRepair ctx,
       is_true (own ''providerLacksCapability'' ev)])"

definition evaluateStuckCriteria :: "jsval \<Rightarrow> string list" where
  "evaluateStuckCriteria ctx = map fst (filter snd (zip STUCK_CRITERIA (stuck_flags ctx)))"

lemma evaluateStuckCriteria_subset: "set (evaluateStuckCriteria ctx) \<subseteq> set STUCK_REASON_CODES"
proof -
  have "set (evaluateStuckCriteria ctx) \<subseteq> set STUCK_CRITERIA"
    by (auto simp: evaluateStuckCriteria_def dest: set_zip_leftD)
  also have "\<dots> \<subseteq> set STUCK_REASON_CODES"
    by (simp add: STUCK_CRITERIA_def STUCK_REASON_CODES_def)
  finally show ?thesis .
qed

lemma evaluateStuckCriteria_mem:
  "''SAME_AC_FAILED_AFTER_REPAIR'' \<in> set (evaluateStuckCriteria ctx) \<longleftrightarrow> deriveSameAcFailedAfterRepair ctx"
  "''SOL_FINDING_SURVIVES_ONE_REPAIR'' \<in> set (evaluateStuckCriteria ctx) \<longleftrightarrow>
     deriveSolFindingSurvivedOneRepair ctx"
  by (auto simp: evaluateStuckCriteria_def stuck_flags_def STUCK_CRITERIA_def Let_def)

text \<open>
  The derived criterion speaks of failures, but counts references: a reference listed twice in one
  failure is enough once there are two failures.
\<close>

lemma same_ac_shared:
  assumes "fs = arr_or_empty (own ''failureHistory'' ctx)" and "i < j" and "j < length fs"
    and "r \<in> set (arr_or_empty (own ''rejectedAcceptanceRefs'' (Some (fs ! i))))"
    and "r \<in> set (arr_or_empty (own ''rejectedAcceptanceRefs'' (Some (fs ! j))))"
  shows "deriveSameAcFailedAfterRepair ctx"
proof -
  let ?refs = "\<lambda>f. arr_or_empty (own ''rejectedAcceptanceRefs'' (Some f))"
  have split: "fs = take j fs @ fs ! j # drop (Suc j) fs"
    using assms(3) by (simp add: id_take_nth_drop)
  have "fs ! i \<in> set (take j fs)"
    using assms(2,3) by (auto simp: in_set_conv_nth intro!: exI [of _ i])
  then have "r \<in> set (concat (map ?refs (take j fs)))"
    using assms(4) by (simp only: set_concat set_map) blast
  then have one: "1 \<le> length (filter (\<lambda>x. x = r) (concat (map ?refs (take j fs))))"
    using length_pos_if_in_set [of r "filter (\<lambda>x. x = r) (concat (map ?refs (take j fs)))"]
    by (simp add: Suc_le_eq)
  have two: "1 \<le> length (filter (\<lambda>x. x = r) (?refs (fs ! j)))"
    using assms(5) by (auto simp: Suc_le_eq filter_empty_conv)
  have "failure_refs ctx = concat (map ?refs (take j fs)) @ ?refs (fs ! j) @ concat (map ?refs (drop (Suc j) fs))"
    unfolding failure_refs_def assms(1) [symmetric] by (subst split) simp
  then have "2 \<le> length (filter (\<lambda>x. x = r) (failure_refs ctx))" and "r \<in> set (failure_refs ctx)"
    using one two assms(5) by auto
  then show ?thesis
    using assms(2,3) by (auto simp: deriveSameAcFailedAfterRepair_def assms(1) list_ex_iff)
qed

end
