(* ===== verification/Route_Discovery.thy ===== *)
theory Route_Discovery
  imports Json_Text Lcim_Errors
begin

text \<open>
  Which model a route may name: the capability metadata
  (src/src/providers/capabilities/metadata.mjs), exact discovery with its two explicit
  substitution paths (src/src/providers/capabilities/discovery.mjs) and the facts about Pi's
  OAuth store (src/src/providers/oauth.mjs).  The files of the host are an argument.  The lemmas
  show that discovery never names a model without a configured endpoint and that a substitute is
  one the configuration names.
\<close>

section \<open>Metadata\<close>

definition REASONING_LEVELS :: "string list" where
  "REASONING_LEVELS = [''XHIGH'', ''MAX'']"

definition IMPLEMENT_ROLES :: "string list" where
  "IMPLEMENT_ROLES = [''IMPLEMENT'', ''REPAIR'']"

definition SOL_ROLES :: "string list" where
  "SOL_ROLES = [''SOL_CONTRACT_CHECK'', ''SOL_DIAGNOSE'', ''SOL_FINAL_REVIEW'', ''SOL_RECHECK'']"

definition model_spec :: "string \<Rightarrow> string \<Rightarrow> string \<Rightarrow> string list \<Rightarrow> string list \<Rightarrow> string
    \<Rightarrow> bool \<Rightarrow> bool \<Rightarrow> bool \<Rightarrow> json" where
  "model_spec provider family tier roles reasoning dflt escalation ladder disabled =
     JObj [(''provider'', JStr provider), (''family'', JStr family), (''tier'', JStr tier),
       (''roles'', JArr (map JStr roles)), (''supportedReasoning'', JArr (map JStr reasoning)),
       (''defaultReasoning'', JStr dflt), (''escalationOnly'', JBool escalation),
       (''defaultLadder'', JBool ladder), (''disabledByDefault'', JBool disabled)]"

definition MODEL_SPECS :: json where
  "MODEL_SPECS = JObj
     [(''deepseek-v4-flash'', model_spec ''pi'' ''deepseek'' ''flash'' IMPLEMENT_ROLES [''XHIGH'', ''MAX''] ''XHIGH'' False True False),
      (''deepseek-pro-max'', model_spec ''pi'' ''deepseek'' ''pro-max'' IMPLEMENT_ROLES [''XHIGH'', ''MAX''] ''MAX'' True False False),
      (''sol-xhigh'', model_spec ''sol'' ''sol'' ''xhigh'' SOL_ROLES [''XHIGH''] ''XHIGH'' False False False),
      (''gpt-5.6-sol'', model_spec ''pi'' ''gpt'' ''sol'' SOL_ROLES [''XHIGH''] ''XHIGH'' False False False),
      (''terra'', model_spec ''pi'' ''terra'' ''terra'' IMPLEMENT_ROLES [''XHIGH'', ''MAX''] ''XHIGH'' False False True),
      (''luna'', model_spec ''pi'' ''luna'' ''luna'' IMPLEMENT_ROLES [''XHIGH'', ''MAX''] ''XHIGH'' False False True)]"

definition LADDER_HEAD :: string where
  "LADDER_HEAD = ''deepseek-v4-flash''"

definition CODEX_SOL_MODEL :: string where
  "CODEX_SOL_MODEL = ''gpt-5.6-sol''"

definition CLASSIC_SOL_MODEL :: string where
  "CLASSIC_SOL_MODEL = ''sol-xhigh''"

section \<open>Discovery\<close>

definition assertPlainConfig :: "jsval \<Rightarrow> unit result" where
  "assertPlainConfig config = need (plain_object config) (ConfigError ''discovery config'')"

text \<open>
  A model key is any value of the configuration; it is turned into a property key where it is
  looked up, inherited members of the registry included.
\<close>

definition spec_of :: "json \<Rightarrow> jsval" where
  "spec_of key = member (js_string (Some key)) (Some MODEL_SPECS)"

definition endpoint_of :: "jsval \<Rightarrow> json \<Rightarrow> jsval" where
  "endpoint_of config key =
     (let eps = own ''endpoints'' config in
      member (js_string (Some key)) (if nullish eps then Some (JObj []) else eps))"

text \<open>\<open>typeof v === 'object'\<close> and not null.\<close>

fun object_like :: "jsval \<Rightarrow> bool" where
  "object_like (Some (JObj _)) = True"
| "object_like (Some (JArr _)) = True"
| "object_like _ = False"

definition discoverModel :: "json \<Rightarrow> jsval \<Rightarrow> json result" where
  "discoverModel key config =
     rbind (assertPlainConfig config) (\<lambda>_.
     rbind (need (spec_of key \<noteq> None) (ProviderDiscoveryError None)) (\<lambda>_.
     let spec = spec_of key; endpoint = endpoint_of config key in
     rbind (need (object_like endpoint) (ProviderDiscoveryError (Some ''ENDPOINT_NOT_CONFIGURED''))) (\<lambda>_.
     rbind (need (is_true (own ''disabledByDefault'' spec) \<longrightarrow>
                  key \<in> set (arr_or_empty (own ''enableOptionalFallbacks'' config)))
              (ProviderDiscoveryError (Some ''DISABLED_DEFAULT_MODEL''))) (\<lambda>_.
     Inr (JObj (put ''endpoint'' (JObj (spread endpoint)) (put ''modelKey'' key (spread spec))))))))"

text \<open>\<open>[...v].sort()\<close>; spreading a value that is no array throws.\<close>

definition sorted_words :: "jsval \<Rightarrow> string list result" where
  "sorted_words v =
     (case v of
        Some (JArr xs) \<Rightarrow> Inr (sort (map (\<lambda>x. js_string (Some x)) xs))
      | _ \<Rightarrow> Inl TypeError)"

definition capabilityEqual :: "jsval \<Rightarrow> jsval \<Rightarrow> bool result" where
  "capabilityEqual a b =
     (if a = None \<or> b = None then Inr False
      else rbind (sorted_words (own ''roles'' a)) (\<lambda>ra.
           rbind (sorted_words (own ''roles'' b)) (\<lambda>rb.
           if ra \<noteq> rb then Inr False
           else rbind (sorted_words (own ''supportedReasoning'' a)) (\<lambda>sa.
                rbind (sorted_words (own ''supportedReasoning'' b)) (\<lambda>sb.
                Inr (sa = sb \<and> own ''escalationOnly'' a = own ''escalationOnly'' b))))))"

text \<open>A resolved implementation model: its spec, what it substitutes, and by which path.\<close>

record resolution =
  r_spec :: json
  r_substituteOf :: "string option"
  r_kind :: "string option"

definition exact_substitute :: "string \<Rightarrow> jsval \<Rightarrow> resolution result" where
  "exact_substitute sub config =
     rbind (discoverModel (JStr sub) config) (\<lambda>spec.
     rbind (need (\<not> is_true (own ''escalationOnly'' (Some spec)))
              (ProviderDiscoveryError (Some ''SUBSTITUTE_ESCALATION_ONLY''))) (\<lambda>_.
     rbind (capabilityEqual (spec_of (JStr LADDER_HEAD)) (Some spec)) (\<lambda>eq.
     rbind (need eq (ProviderDiscoveryError (Some ''SUBSTITUTE_NOT_CAPABILITY_EQUAL''))) (\<lambda>_.
     Inr \<lparr>r_spec = spec, r_substituteOf = Some LADDER_HEAD, r_kind = Some ''exact''\<rparr>))))"

fun try_fallbacks :: "jsval \<Rightarrow> lcim_error \<Rightarrow> json list \<Rightarrow> resolution result" where
  "try_fallbacks config primary [] = Inl primary"
| "try_fallbacks config primary (k # ks) =
     (if k = JStr LADDER_HEAD \<or> is_true (own ''escalationOnly'' (spec_of k)) then try_fallbacks config primary ks
      else case discoverModel k config of
             Inr spec \<Rightarrow> Inr \<lparr>r_spec = spec, r_substituteOf = Some LADDER_HEAD, r_kind = Some ''fallback''\<rparr>
           | Inl _ \<Rightarrow> try_fallbacks config primary ks)"

definition resolveImplementationModel :: "jsval \<Rightarrow> resolution result" where
  "resolveImplementationModel config =
     rbind (assertPlainConfig config) (\<lambda>_.
     case discoverModel (JStr LADDER_HEAD) config of
       Inr spec \<Rightarrow> Inr \<lparr>r_spec = spec, r_substituteOf = None, r_kind = None\<rparr>
     | Inl primary \<Rightarrow>
         (case own LADDER_HEAD (own ''exactSubstitutes'' config) of
            Some (JStr sub) \<Rightarrow>
              (if sub \<noteq> LADDER_HEAD then exact_substitute sub config
               else try_fallbacks config primary (arr_or_empty (own ''enableOptionalFallbacks'' config)))
          | _ \<Rightarrow> try_fallbacks config primary (arr_or_empty (own ''enableOptionalFallbacks'' config))))"

definition configuredEndpoint :: "jsval \<Rightarrow> string \<Rightarrow> bool" where
  "configuredEndpoint config key \<longleftrightarrow> \<not> nullish (own key (own ''endpoints'' config))"

definition assertSolRole :: "string \<Rightarrow> unit result" where
  "assertSolRole role = need (role \<in> set SOL_ROLES) (ProviderDiscoveryError (Some ''SOL_ROLE_UNKNOWN''))"

definition assertSolSpec :: "json \<Rightarrow> string \<Rightarrow> string \<Rightarrow> unit result" where
  "assertSolSpec spec role provider =
     rbind (need (is_lit (own ''provider'' (Some spec)) provider)
              (ProviderDiscoveryError (Some ''SOL_PROVIDER_MISMATCH''))) (\<lambda>_.
     rbind (need (JStr role \<in> set (arr_or_empty (own ''roles'' (Some spec))))
              (ProviderDiscoveryError (Some ''SOL_ROLE_UNAVAILABLE''))) (\<lambda>_.
     need (JStr ''XHIGH'' \<in> set (arr_or_empty (own ''supportedReasoning'' (Some spec))))
       (ProviderDiscoveryError (Some ''SOL_REASONING_UNAVAILABLE''))))"

definition discover_sol :: "string \<Rightarrow> string \<Rightarrow> string \<Rightarrow> jsval \<Rightarrow> json result" where
  "discover_sol key provider role config =
     rbind (assertSolRole role) (\<lambda>_.
     rbind (discoverModel (JStr key) config) (\<lambda>spec.
     rbind (assertSolSpec spec role provider) (\<lambda>_.
     Inr (JObj (put ''role'' (JStr role) (spread (Some spec)))))))"

definition discoverSolRoute :: "string \<Rightarrow> jsval \<Rightarrow> json result" where
  "discoverSolRoute role config = discover_sol CLASSIC_SOL_MODEL ''sol'' role config"

definition discoverSolCodexRoute :: "string \<Rightarrow> jsval \<Rightarrow> json result" where
  "discoverSolCodexRoute role config = discover_sol CODEX_SOL_MODEL ''pi'' role config"

text \<open>\<open>Inr True\<close> is the codex channel, \<open>Inr False\<close> is null.\<close>

definition resolveSolChannel :: "jsval \<Rightarrow> bool result" where
  "resolveSolChannel config =
     rbind (need (\<not> configuredEndpoint config CLASSIC_SOL_MODEL)
              (ProviderDiscoveryError (Some ''SOL_CHANNEL_CLASSIC_NO_AUTHORITY''))) (\<lambda>_.
     Inr (configuredEndpoint config CODEX_SOL_MODEL))"

definition assertNoDowngrade :: "string \<Rightarrow> string \<Rightarrow> jsval \<Rightarrow> json result" where
  "assertNoDowngrade key level config =
     rbind (need (level \<in> set REASONING_LEVELS) (ProviderDiscoveryError None)) (\<lambda>_.
     rbind (discoverModel (JStr key) config) (\<lambda>spec.
     rbind (need (JStr level \<in> set (arr_or_empty (own ''supportedReasoning'' (Some spec))))
              (ProviderDiscoveryError None)) (\<lambda>_.
     Inr spec)))"

section \<open>Pi's OAuth store\<close>

text \<open>
  The host: the home directory of the process, its environment, and the files.  Reading a file
  yields the error code of the read or of the JSON parser, or the parsed value.
\<close>

record oauth_host =
  oh_env :: json
  oh_homedir :: string
  oh_exists :: "string \<Rightarrow> bool"
  oh_read :: "string \<Rightarrow> string + json"

definition is_absolute :: "string \<Rightarrow> bool" where
  "is_absolute p \<longleftrightarrow> (case p of [] \<Rightarrow> False | c # _ \<Rightarrow> c = CHR ''/'')"

text \<open>\<open>path.join\<close> for an absolute first part: empty and dot segments go, dot-dot climbs.\<close>

fun split_slash :: "string \<Rightarrow> string \<Rightarrow> string list" where
  "split_slash acc [] = [rev acc]"
| "split_slash acc (c # cs) = (if c = CHR ''/'' then rev acc # split_slash [] cs else split_slash (c # acc) cs)"

fun normal_segments :: "string list \<Rightarrow> string list \<Rightarrow> string list" where
  "normal_segments acc [] = rev acc"
| "normal_segments acc (s # ss) =
     (if s = [] \<or> s = ''.'' then normal_segments acc ss
      else if s = ''..'' then normal_segments (tl acc) ss
      else normal_segments (s # acc) ss)"

definition path_join :: "string list \<Rightarrow> string" where
  "path_join parts = CHR ''/'' # join_with ''/'' (normal_segments [] (split_slash [] (join_with ''/'' parts)))"

text \<open>The \<open>env\<close> option: the process environment when it is not given.\<close>

definition env_of :: "oauth_host \<Rightarrow> jsval \<Rightarrow> jsval" where
  "env_of host env = (case env of None \<Rightarrow> Some (oh_env host) | Some v \<Rightarrow> Some v)"

definition resolvePiAgentDir :: "oauth_host \<Rightarrow> jsval \<Rightarrow> string result" where
  "resolvePiAgentDir host env =
     (let e = env_of host env in
      if nonempty_string (own ''PI_CODING_AGENT_DIR'' e)
      then let dir = js_string (own ''PI_CODING_AGENT_DIR'' e) in
           rbind (need (is_absolute dir) (ConfigError ''PI_CODING_AGENT_DIR'')) (\<lambda>_. Inr dir)
      else let home = (if nonempty_string (own ''HOME'' e) then js_string (own ''HOME'' e) else oh_homedir host) in
           rbind (need (is_absolute home) (ConfigError ''HOME'')) (\<lambda>_.
           Inr (path_join [home, ''.pi'', ''agent''])))"

record oauth_facts =
  of_authFile :: string
  of_exists :: bool
  of_parseError :: "string option"
  of_type :: json
  of_hasAccessToken :: bool
  of_expiresAt :: json

text \<open>A finite number; the JSON parser turns an overflowing literal into an infinity.\<close>

fun finite_number :: "jsval \<Rightarrow> bool" where
  "finite_number (Some (JInt _)) = True"
| "finite_number (Some (JFloat t)) = (t \<noteq> ''Infinity'' \<and> t \<noteq> ''-Infinity'')"
| "finite_number _ = False"

fun number_value :: "jsval \<Rightarrow> bool" where
  "number_value (Some v) = is_num v"
| "number_value None = False"

definition usable_entry :: "jsval \<Rightarrow> bool" where
  "usable_entry entry \<longleftrightarrow>
     object_like entry \<and> is_lit (own ''type'' entry) ''oauth'' \<and>
     nonempty_string (own ''access'' entry) \<and> nonempty_string (own ''refresh'' entry) \<and>
     finite_number (own ''expires'' entry)"

text \<open>The entry of the store: what the file holds under the provider's name.\<close>

definition stored_entry :: "oauth_host \<Rightarrow> string \<Rightarrow> jsval" where
  "stored_entry host file =
     (if oh_exists host file
      then case oh_read host file of Inl _ \<Rightarrow> None | Inr v \<Rightarrow> own ''openai-codex'' (Some v)
      else None)"

definition readCodexOAuthEntry :: "oauth_host \<Rightarrow> jsval \<Rightarrow> oauth_facts result" where
  "readCodexOAuthEntry host env =
     rbind (resolvePiAgentDir host env) (\<lambda>dir.
     let file = path_join [dir, ''auth.json''];
         entry = stored_entry host file in
     Inr \<lparr>of_authFile = file,
          of_exists = oh_exists host file,
          of_parseError = (if oh_exists host file
                           then case oh_read host file of Inl e \<Rightarrow> Some e | Inr _ \<Rightarrow> None else None),
          of_type = (if object_like entry
                     then case own ''type'' entry of None \<Rightarrow> JNull | Some t \<Rightarrow> t else JNull),
          of_hasAccessToken = usable_entry entry,
          of_expiresAt = (if object_like entry \<and> number_value (own ''expires'' entry)
                          then the (own ''expires'' entry) else JNull)\<rparr>)"

definition assertCodexOAuthAvailable :: "oauth_host \<Rightarrow> jsval \<Rightarrow> oauth_facts result" where
  "assertCodexOAuthAvailable host env =
     rbind (readCodexOAuthEntry host env) (\<lambda>st.
     rbind (need (of_exists st \<and> of_parseError st = None \<and> of_hasAccessToken st)
              (ProviderDiscoveryError (Some ''CODEX_OAUTH_UNAVAILABLE''))) (\<lambda>_.
     Inr st))"

definition string_or_null :: "jsval \<Rightarrow> json" where
  "string_or_null v = (if nonempty_string v then the v else JNull)"

definition loadCodexOAuthCredential :: "oauth_host \<Rightarrow> jsval \<Rightarrow> json result" where
  "loadCodexOAuthCredential host env =
     rbind (readCodexOAuthEntry host env) (\<lambda>st.
     let entry = stored_entry host (of_authFile st) in
     if \<not> (of_exists st \<and> of_parseError st = None \<and> of_hasAccessToken st) then Inr JNull
     else if \<not> plain_object entry \<or> \<not> nonempty_string (own ''access'' entry) then Inr JNull
     else Inr (JObj
       [(''type'', case own ''type'' entry of Some (JStr t) \<Rightarrow> JStr t | _ \<Rightarrow> JNull),
        (''access'', the (own ''access'' entry)),
        (''refresh'', string_or_null (own ''refresh'' entry)),
        (''expires'', if number_value (own ''expires'' entry) then the (own ''expires'' entry) else JNull),
        (''accountId'', string_or_null (own ''accountId'' entry))]))"

section \<open>What discovery guarantees\<close>

lemma discoverModel_cases:
  assumes "discoverModel key config = Inr spec"
  shows "plain_object config" and "spec_of key \<noteq> None" and "object_like (endpoint_of config key)"
    and "own ''modelKey'' (Some spec) = Some key"
    and "is_true (own ''disabledByDefault'' (spec_of key)) \<Longrightarrow>
      key \<in> set (arr_or_empty (own ''enableOptionalFallbacks'' config))"
  using assms by (auto simp: discoverModel_def assertPlainConfig_def Let_def)

lemma discoverModel_own:
  "discoverModel key config = Inr spec \<Longrightarrow> k \<noteq> ''modelKey'' \<Longrightarrow> k \<noteq> ''endpoint'' \<Longrightarrow>
     own k (Some spec) = map_of (spread (spec_of key)) k"
  by (auto simp: discoverModel_def assertPlainConfig_def Let_def)

lemma try_fallbacks_cases:
  "try_fallbacks config primary ks = Inr r \<Longrightarrow>
     \<exists>k \<in> set ks. k \<noteq> JStr LADDER_HEAD \<and> discoverModel k config = Inr (r_spec r) \<and>
       \<not> is_true (own ''escalationOnly'' (spec_of k)) \<and>
       r_substituteOf r = Some LADDER_HEAD \<and> r_kind r = Some ''fallback''"
  by (induction ks) (auto split: if_splits sum.splits)

lemma exact_substitute_cases:
  "exact_substitute sub config = Inr r \<Longrightarrow>
     discoverModel (JStr sub) config = Inr (r_spec r) \<and> \<not> is_true (own ''escalationOnly'' (Some (r_spec r))) \<and>
     capabilityEqual (spec_of (JStr LADDER_HEAD)) (Some (r_spec r)) = Inr True \<and>
     r_substituteOf r = Some LADDER_HEAD \<and> r_kind r = Some ''exact''"
  by (auto simp: exact_substitute_def)

text \<open>
  The resolved model: the head of the ladder, or what the configuration names as its exact
  substitute or among its fallbacks, and then only because the head was not discovered.
\<close>

lemma resolveImplementationModel_cases:
  assumes "resolveImplementationModel config = Inr r"
  obtains
    (ladder) "discoverModel (JStr LADDER_HEAD) config = Inr (r_spec r)" "r_substituteOf r = None" "r_kind r = None"
  | (exact) sub where "own LADDER_HEAD (own ''exactSubstitutes'' config) = Some (JStr sub)" "sub \<noteq> LADDER_HEAD"
      "discoverModel (JStr sub) config = Inr (r_spec r)" "\<not> is_true (own ''escalationOnly'' (Some (r_spec r)))"
      "capabilityEqual (spec_of (JStr LADDER_HEAD)) (Some (r_spec r)) = Inr True"
      "r_substituteOf r = Some LADDER_HEAD" "r_kind r = Some ''exact''"
      "\<exists>e. discoverModel (JStr LADDER_HEAD) config = Inl e"
  | (fallback) k where "k \<in> set (arr_or_empty (own ''enableOptionalFallbacks'' config))" "k \<noteq> JStr LADDER_HEAD"
      "discoverModel k config = Inr (r_spec r)" "\<not> is_true (own ''escalationOnly'' (spec_of k))"
      "r_substituteOf r = Some LADDER_HEAD" "r_kind r = Some ''fallback''"
      "\<exists>e. discoverModel (JStr LADDER_HEAD) config = Inl e"
proof (cases "discoverModel (JStr LADDER_HEAD) config")
  case (Inr spec)
  then show thesis
    using assms ladder by (auto simp: resolveImplementationModel_def)
next
  case (Inl e)
  have fb: "thesis" if "try_fallbacks config e (arr_or_empty (own ''enableOptionalFallbacks'' config)) = Inr r"
    using try_fallbacks_cases [OF that] fallback Inl by blast
  show thesis
  proof (cases "\<exists>sub. own LADDER_HEAD (own ''exactSubstitutes'' config) = Some (JStr sub) \<and> sub \<noteq> LADDER_HEAD")
    case True
    then obtain sub where sub: "own LADDER_HEAD (own ''exactSubstitutes'' config) = Some (JStr sub)" "sub \<noteq> LADDER_HEAD"
      by blast
    then have "exact_substitute sub config = Inr r"
      using assms Inl by (simp add: resolveImplementationModel_def)
    then show thesis
      using exact_substitute_cases exact [OF sub] Inl by blast
  next
    case False
    then have "try_fallbacks config e (arr_or_empty (own ''enableOptionalFallbacks'' config)) = Inr r"
      using assms Inl
      by (cases "own LADDER_HEAD (own ''exactSubstitutes'' config)")
         (auto simp: resolveImplementationModel_def split: json.splits if_splits)
    then show thesis by (rule fb)
  qed
qed

lemma assertCodexOAuthAvailable_eq_Inr:
  "assertCodexOAuthAvailable host env = Inr st \<longleftrightarrow>
     readCodexOAuthEntry host env = Inr st \<and> of_exists st \<and> of_parseError st = None \<and> of_hasAccessToken st"
  by (auto simp: assertCodexOAuthAvailable_def)

text \<open>
  The availability gate never compares the expiry with the clock: the facts it accepts put no
  bound on the time at which the credential expires.
\<close>

lemma usable_entry_any_expiry:
  "usable_entry (Some (JObj [(''type'', JStr ''oauth''), (''access'', JStr ''a''), (''refresh'', JStr ''r''),
     (''expires'', JInt i)]))"
  by (simp add: usable_entry_def)

end
