(* ===== verification/Route_Registry.thy ===== *)
theory Route_Registry
  imports Lcim_Schemas Schema_Spec Route_Machine Route_Discovery
begin

text \<open>
  The route-decision record family (src/src/routing/registry.mjs): the schema version a record is
  validated against, the conditional rules beyond the schema, and stamping.  An issue of a rule
  is its path and a short cause.  \<open>route_lawful\<close> states the rules of version 2.1.0 declaratively.
\<close>

section \<open>Schema versions\<close>

definition ROUTE_SCHEMA_VERSION :: string where
  "ROUTE_SCHEMA_VERSION = ''2.1.0''"

definition ROUTE_SCHEMA_MANIFEST :: "(string \<times> json) list" where
  "ROUTE_SCHEMA_MANIFEST = [(''2.0.0'', ROUTE_DECISION_SCHEMA_2_0), (''2.1.0'', ROUTE_DECISION_SCHEMA_2_1)]"

text \<open>A version that is not given is the current one, by the default of the parameter.\<close>

definition loadRouteSchema :: "jsval \<Rightarrow> json result" where
  "loadRouteSchema version =
     (case (case version of None \<Rightarrow> Some ROUTE_SCHEMA_VERSION | Some (JStr v) \<Rightarrow> Some v | Some _ \<Rightarrow> None) of
        None \<Rightarrow> Inl (ConfigError ''schema version'')
      | Some v \<Rightarrow> (case map_of ROUTE_SCHEMA_MANIFEST v of
            None \<Rightarrow> Inl (ConfigError ''schema version'')
          | Some s \<Rightarrow> Inr s))"

section \<open>Conditional rules\<close>

definition IMPLEMENTATION_MODELS :: "string list" where
  "IMPLEMENTATION_MODELS = [''deepseek-v4-flash'', ''deepseek-pro-max'', ''terra'', ''luna'']"

definition IMPLEMENTATION_DECISIONS :: "string list" where
  "IMPLEMENTATION_DECISIONS = [''ROUTE_IMPLEMENT_FLASH'', ''ROUTE_IMPLEMENT_FLASH_MAX'', ''ROUTE_IMPLEMENT_PRO_MAX'']"

definition SOL_DECISIONS :: "string list" where
  "SOL_DECISIONS = [''ROUTE_SOL_CONTRACT_CHECK'', ''ROUTE_SOL_DIAGNOSE'', ''ROUTE_SOL_FINAL_REVIEW'', ''ROUTE_SOL_RECHECK'']"

definition TERMINAL_DECISIONS :: "string list" where
  "TERMINAL_DECISIONS = [''ROUTE_COMPLETE'', ''STOP_STUCK'', ''STOP_BUDGET'', ''FAIL_NO_SUBSTITUTE'']"

definition FAIL_NO_SUBSTITUTE_CODES :: "string list" where
  "FAIL_NO_SUBSTITUTE_CODES = [''PROVIDER_UNAVAILABLE'', ''CAPABILITY_GAP_NO_SUBSTITUTE'', ''CODEX_OAUTH_UNAVAILABLE'']"

text \<open>An issue unless the condition holds.\<close>

definition unless :: "bool \<Rightarrow> string \<Rightarrow> string \<Rightarrow> issue list" where
  "unless ok path msg = (if ok then [] else [(path, msg)])"

lemma unless_Nil [simp]: "unless ok path msg = [] \<longleftrightarrow> ok"
  by (simp add: unless_def)

definition pro_max_issues :: "json \<Rightarrow> issue list" where
  "pro_max_issues d =
     (let j = own ''escalationJustification'' (Some d) in
      (if j = None then [(''escalationJustification'', ''required'')]
       else unless (one_of PRO_MAX_BASES (own ''basis'' j)) ''escalationJustification.basis'' ''invalid Pro MAX basis'')
      @ unless (is_lit (own ''reasoningLevel'' (Some d)) ''MAX'') ''reasoningLevel'' ''must be MAX''
      @ unless (is_lit (own ''targetModel'' (Some d)) ''deepseek-pro-max'') ''targetModel'' ''must be deepseek-pro-max'')"

definition flash_max_issues :: "json \<Rightarrow> issue list" where
  "flash_max_issues d =
     (let j = own ''escalationJustification'' (Some d) in
      (if j = None then [(''escalationJustification'', ''required'')]
       else unless (one_of FLASH_MAX_BASES (own ''basis'' j)) ''escalationJustification.basis'' ''invalid Flash MAX basis'')
      @ unless (is_lit (own ''reasoningLevel'' (Some d)) ''MAX'') ''reasoningLevel'' ''must be MAX''
      @ unless (is_lit (own ''targetModel'' (Some d)) ''deepseek-v4-flash'') ''targetModel'' ''must be deepseek-v4-flash'')"

definition implementation_issues :: "json \<Rightarrow> issue list" where
  "implementation_issues d =
     unless (one_of IMPLEMENTATION_MODELS (own ''targetModel'' (Some d))) ''targetModel'' ''not implementation-capable''
     @ unless (one_of IMPLEMENT_ROLES (own ''targetRole'' (Some d))) ''targetRole'' ''not an implementation role''
     @ unless (is_lit (own ''targetProvider'' (Some d)) ''pi'') ''targetProvider'' ''must be pi''
     @ unless (is_lit (own ''targetModel'' (Some d)) ''deepseek-pro-max'' \<longrightarrow>
         is_lit (own ''decision'' (Some d)) ''ROUTE_IMPLEMENT_PRO_MAX'') ''targetModel'' ''escalation-only''"

definition sol_issues :: "bool \<Rightarrow> json \<Rightarrow> issue list" where
  "sol_issues v2_1 d =
     (let m = own ''targetModel'' (Some d); p = own ''targetProvider'' (Some d);
          r = own ''reasoningLevel'' (Some d) in
      unless (if v2_1 then is_lit m ''gpt-5.6-sol'' \<and> is_lit p ''pi'' else is_lit m ''sol-xhigh'' \<and> is_lit p ''sol'')
        ''targetModel'' ''not the SOL target''
      @ unless (one_of SOL_ROLES (own ''targetRole'' (Some d))) ''targetRole'' ''not a SOL role''
      @ (if v2_1 \<and> \<not> is_lit r ''XHIGH'' then [(''reasoningLevel'', ''must be XHIGH'')]
         else if \<not> v2_1 \<and> r \<noteq> None \<and> \<not> is_lit r ''XHIGH'' then [(''reasoningLevel'', ''must be XHIGH when present'')]
         else []))"

definition substitute_issues :: "json \<Rightarrow> issue list" where
  "substitute_issues d =
     (if own ''substituteOf'' (Some d) = None then []
      else unless (one_of IMPLEMENTATION_DECISIONS (own ''decision'' (Some d))) ''substituteOf'' ''implementation only''
           @ unless (one_of [''EXACT_SUBSTITUTE_CONFIGURED'', ''CAPABILITY_FALLBACK_CONFIGURED''] (own ''reasonCode'' (Some d)))
               ''reasonCode'' ''not a substitution reason'')"

definition terminal_issues :: "json \<Rightarrow> issue list" where
  "terminal_issues d =
     unless (one_of TERMINAL_DECISIONS (own ''decision'' (Some d)) \<longrightarrow>
       own ''targetModel'' (Some d) = None \<and> own ''targetRole'' (Some d) = None \<and>
       own ''reasoningLevel'' (Some d) = None \<and> own ''escalationJustification'' (Some d) = None)
       ''decision'' ''terminal decisions carry no target''"

definition budget_issues :: "json \<Rightarrow> issue list" where
  "budget_issues d =
     (let b = own ''budget'' (Some d) in
      if object_like b
      then concat (map (\<lambda>k. unless (safe_natural (own k b)) (''budget.'' @ k) ''must be a non-negative integer'')
             [''runCallsConsumed'', ''runCallsLimit'', ''unitCallsConsumed'', ''unitCallsLimit''])
      else [])"

definition decision_rules :: "bool \<Rightarrow> json \<Rightarrow> issue list" where
  "decision_rules v2_1 d =
     (let dec = own ''decision'' (Some d); reason = own ''reasonCode'' (Some d) in
      (if is_lit dec ''ROUTE_IMPLEMENT_PRO_MAX'' then pro_max_issues d else [])
      @ (if is_lit dec ''ROUTE_IMPLEMENT_FLASH_MAX'' then flash_max_issues d else [])
      @ (if is_lit dec ''ROUTE_IMPLEMENT_FLASH''
         then unless (is_lit (own ''reasoningLevel'' (Some d)) ''XHIGH'') ''reasoningLevel'' ''must be XHIGH'' else [])
      @ (if one_of IMPLEMENTATION_DECISIONS dec then implementation_issues d else [])
      @ (if one_of SOL_DECISIONS dec then sol_issues v2_1 d else [])
      @ unless (is_lit dec ''STOP_STUCK'' \<longrightarrow> isStuckReasonCode reason) ''reasonCode'' ''not a STUCK reason''
      @ unless (is_lit dec ''STOP_BUDGET'' \<longrightarrow> is_lit reason ''BUDGET_EXHAUSTED'') ''reasonCode'' ''not BUDGET_EXHAUSTED''
      @ unless (v2_1 \<and> is_lit dec ''FAIL_NO_SUBSTITUTE'' \<longrightarrow> one_of FAIL_NO_SUBSTITUTE_CODES reason)
          ''reasonCode'' ''not a no-substitute reason''
      @ substitute_issues d @ terminal_issues d @ budget_issues d)"

definition validateRouteDecision :: "json \<Rightarrow> issue list result" where
  "validateRouteDecision inst =
     (let version = own ''schemaVersion'' (Some inst) in
      case loadRouteSchema version of
        Inl _ \<Rightarrow> Inr [(''schemaVersion'', ''unknown schemaVersion'')]
      | Inr schema \<Rightarrow>
          rbind (validate_against_schema lcim_regexps inst schema) (\<lambda>es.
          Inr (if es \<noteq> [] \<or> \<not> is_obj inst then es
               else decision_rules (is_lit version ''2.1.0'') inst)))"

text \<open>
  \<open>{ ...data, schemaName, schemaVersion }\<close>, validated; freezing leaves the value as it is.
\<close>

definition stampRouteDecision :: "jsval \<Rightarrow> json result" where
  "stampRouteDecision data =
     rbind (need (plain_object data) (ConfigError ''stampRouteDecision'')) (\<lambda>_.
     let record = JObj (put ''schemaVersion'' (JStr ROUTE_SCHEMA_VERSION)
                   (put ''schemaName'' (JStr ''lcim.route-decision'') (spread data))) in
     rbind (validateRouteDecision record) (\<lambda>es.
     rbind (need (es = []) (SchemaValidationError es)) (\<lambda>_. Inr record)))"

section \<open>The law of a 2.1.0 record\<close>

definition route_lawful :: "json \<Rightarrow> bool" where
  "route_lawful d \<longleftrightarrow>
     (let get = (\<lambda>k. own k (Some d)); dec = get ''decision''; j = get ''escalationJustification'' in
      (one_of IMPLEMENTATION_DECISIONS dec \<longrightarrow>
         one_of IMPLEMENTATION_MODELS (get ''targetModel'') \<and> one_of IMPLEMENT_ROLES (get ''targetRole'') \<and>
         is_lit (get ''targetProvider'') ''pi'' \<and>
         (is_lit (get ''targetModel'') ''deepseek-pro-max'' \<longrightarrow> is_lit dec ''ROUTE_IMPLEMENT_PRO_MAX'')) \<and>
      (is_lit dec ''ROUTE_IMPLEMENT_PRO_MAX'' \<longrightarrow>
         is_lit (get ''targetModel'') ''deepseek-pro-max'' \<and> is_lit (get ''reasoningLevel'') ''MAX'' \<and>
         one_of PRO_MAX_BASES (own ''basis'' j)) \<and>
      (is_lit dec ''ROUTE_IMPLEMENT_FLASH_MAX'' \<longrightarrow>
         is_lit (get ''targetModel'') ''deepseek-v4-flash'' \<and> is_lit (get ''reasoningLevel'') ''MAX'' \<and>
         one_of FLASH_MAX_BASES (own ''basis'' j)) \<and>
      (is_lit dec ''ROUTE_IMPLEMENT_FLASH'' \<longrightarrow>
         is_lit (get ''reasoningLevel'') ''XHIGH'') \<and>
      (one_of SOL_DECISIONS dec \<longrightarrow>
         is_lit (get ''targetModel'') ''gpt-5.6-sol'' \<and> is_lit (get ''targetProvider'') ''pi'' \<and>
         is_lit (get ''reasoningLevel'') ''XHIGH'' \<and> one_of SOL_ROLES (get ''targetRole'')) \<and>
      (is_lit dec ''STOP_STUCK'' \<longrightarrow> isStuckReasonCode (get ''reasonCode'')) \<and>
      (is_lit dec ''STOP_BUDGET'' \<longrightarrow> is_lit (get ''reasonCode'') ''BUDGET_EXHAUSTED'') \<and>
      (is_lit dec ''FAIL_NO_SUBSTITUTE'' \<longrightarrow> one_of FAIL_NO_SUBSTITUTE_CODES (get ''reasonCode'')) \<and>
      (get ''substituteOf'' \<noteq> None \<longrightarrow> one_of IMPLEMENTATION_DECISIONS dec \<and>
         one_of [''EXACT_SUBSTITUTE_CONFIGURED'', ''CAPABILITY_FALLBACK_CONFIGURED''] (get ''reasonCode'')) \<and>
      (one_of TERMINAL_DECISIONS dec \<longrightarrow>
         get ''targetModel'' = None \<and> get ''targetRole'' = None \<and> get ''reasoningLevel'' = None \<and> j = None) \<and>
      (object_like (get ''budget'') \<longrightarrow>
         (\<forall>k \<in> {''runCallsConsumed'', ''runCallsLimit'', ''unitCallsConsumed'', ''unitCallsLimit''}.
            safe_natural (own k (get ''budget'')))))"

lemma pro_max_issues_iff:
  "pro_max_issues d = [] \<longleftrightarrow>
     one_of PRO_MAX_BASES (own ''basis'' (own ''escalationJustification'' (Some d))) \<and>
     is_lit (own ''reasoningLevel'' (Some d)) ''MAX'' \<and> is_lit (own ''targetModel'' (Some d)) ''deepseek-pro-max''"
  by (cases "own ''escalationJustification'' (Some d)") (simp_all add: pro_max_issues_def Let_def)

lemma flash_max_issues_iff:
  "flash_max_issues d = [] \<longleftrightarrow>
     one_of FLASH_MAX_BASES (own ''basis'' (own ''escalationJustification'' (Some d))) \<and>
     is_lit (own ''reasoningLevel'' (Some d)) ''MAX'' \<and> is_lit (own ''targetModel'' (Some d)) ''deepseek-v4-flash''"
  by (cases "own ''escalationJustification'' (Some d)") (simp_all add: flash_max_issues_def Let_def)

lemma implementation_issues_iff:
  "implementation_issues d = [] \<longleftrightarrow>
     one_of IMPLEMENTATION_MODELS (own ''targetModel'' (Some d)) \<and>
     one_of IMPLEMENT_ROLES (own ''targetRole'' (Some d)) \<and> is_lit (own ''targetProvider'' (Some d)) ''pi'' \<and>
     (is_lit (own ''targetModel'' (Some d)) ''deepseek-pro-max'' \<longrightarrow>
        is_lit (own ''decision'' (Some d)) ''ROUTE_IMPLEMENT_PRO_MAX'')"
  by (simp only: implementation_issues_def append_is_Nil_conv unless_Nil)

lemma sol_issues_iff:
  "sol_issues True d = [] \<longleftrightarrow>
     is_lit (own ''targetModel'' (Some d)) ''gpt-5.6-sol'' \<and> is_lit (own ''targetProvider'' (Some d)) ''pi'' \<and>
     one_of SOL_ROLES (own ''targetRole'' (Some d)) \<and> is_lit (own ''reasoningLevel'' (Some d)) ''XHIGH''"
  by (simp add: sol_issues_def Let_def)

lemma substitute_issues_iff:
  "substitute_issues d = [] \<longleftrightarrow>
     (own ''substituteOf'' (Some d) \<noteq> None \<longrightarrow> one_of IMPLEMENTATION_DECISIONS (own ''decision'' (Some d)) \<and>
        one_of [''EXACT_SUBSTITUTE_CONFIGURED'', ''CAPABILITY_FALLBACK_CONFIGURED''] (own ''reasonCode'' (Some d)))"
  by (simp add: substitute_issues_def)

lemma budget_issues_iff:
  "budget_issues d = [] \<longleftrightarrow>
     (object_like (own ''budget'' (Some d)) \<longrightarrow>
        (\<forall>k \<in> {''runCallsConsumed'', ''runCallsLimit'', ''unitCallsConsumed'', ''unitCallsLimit''}.
           safe_natural (own k (own ''budget'' (Some d)))))"
  by (simp add: budget_issues_def Let_def)

lemma if_Nil: "(if b then xs else []) = [] \<longleftrightarrow> (b \<longrightarrow> xs = [])"
  by simp

text \<open>The conditional rules report nothing exactly on the lawful records.\<close>

lemma decision_rules_lawful: "decision_rules True d = [] \<longleftrightarrow> route_lawful d"
  unfolding decision_rules_def route_lawful_def Let_def append_is_Nil_conv if_Nil unless_Nil
    pro_max_issues_iff flash_max_issues_iff implementation_issues_iff sol_issues_iff substitute_issues_iff
    terminal_issues_def budget_issues_iff simp_thms
  by argo

lemma stampRouteDecision_cases:
  assumes "stampRouteDecision (Some (JObj kvs)) = Inr r"
  shows "r = JObj (put ''schemaVersion'' (JStr ''2.1.0'') (put ''schemaName'' (JStr ''lcim.route-decision'') kvs))"
    and "validateRouteDecision r = Inr []"
  using assms by (auto simp: stampRouteDecision_def Let_def ROUTE_SCHEMA_VERSION_def)

lemma validateRouteDecision_lawful:
  assumes "validateRouteDecision d = Inr []" and "is_lit (own ''schemaVersion'' (Some d)) ''2.1.0''"
  shows "route_lawful d" and "accepts lcim_regexps d ROUTE_DECISION_SCHEMA_2_1"
proof -
  have "is_obj d"
    using assms(2) by (cases d) auto
  then have "validate_against_schema lcim_regexps d ROUTE_DECISION_SCHEMA_2_1 = Inr []"
    and "decision_rules True d = []"
    using assms by (auto simp: validateRouteDecision_def Let_def loadRouteSchema_def
        ROUTE_SCHEMA_MANIFEST_def split: if_splits)
  then show "route_lawful d" and "accepts lcim_regexps d ROUTE_DECISION_SCHEMA_2_1"
    by (auto simp: decision_rules_lawful intro: validate_accepts)
qed

text \<open>A version that the manifest does not list is refused before any rule is read.\<close>

lemma unknown_version_refused:
  "own ''schemaVersion'' (Some d) = Some v \<Longrightarrow> v \<noteq> JStr ''2.0.0'' \<Longrightarrow> v \<noteq> JStr ''2.1.0'' \<Longrightarrow>
     validateRouteDecision d = Inr [(''schemaVersion'', ''unknown schemaVersion'')]"
  by (cases v) (simp_all add: validateRouteDecision_def loadRouteSchema_def ROUTE_SCHEMA_MANIFEST_def)

end
