(* ===== verification/Route_Policy.thy ===== *)
theory Route_Policy
  imports Route_Registry Contract_Validate
begin

text \<open>
  The deterministic routing policy (src/src/routing/policy.mjs).  The data of a routing context is
  one object value; what the context carries beside data, or the module takes from its host, is a
  \<open>route_env\<close>: the budget tracker, whether the configuration object is the controller-marked
  fixture seam, the OAuth host, the hash, a fresh decision id and the clock.  Each numbered step
  of \<open>decideRoute\<close> is a definition of its own.
\<close>

record route_env =
  env_budget :: "budget option"
  env_seam :: bool
  env_oauth :: oauth_host
  env_sha :: digest_fun
  env_fresh :: json
  env_now :: json

text \<open>A route target.\<close>

record target =
  t_model :: json
  t_role :: string
  t_provider :: string
  t_reasoning :: string
  t_substituteOf :: "string option"

abbreviation ctx_get :: "string \<Rightarrow> json \<Rightarrow> jsval" where
  "ctx_get k ctx \<equiv> own k (Some ctx)"

definition ctx_state :: "json \<Rightarrow> string" where
  "ctx_state ctx = js_string (ctx_get ''state'' ctx)"

definition ctx_config :: "json \<Rightarrow> jsval" where
  "ctx_config ctx = (let c = ctx_get ''config'' ctx in if nullish c then Some (JObj []) else c)"

definition SEMANTIC_REJECTION_CODES :: "string list" where
  "SEMANTIC_REJECTION_CODES = [''SEMANTIC_CONFLATION'', ''UNRESOLVED_SEMANTICS'', ''UNSUPPORTED_CLAIM'']"

definition SOL_TARGETS :: "(string \<times> string) list" where
  "SOL_TARGETS = [(''ROUTE_SOL_CONTRACT_CHECK'', ''SOL_CONTRACT_CHECK''), (''ROUTE_SOL_DIAGNOSE'', ''SOL_DIAGNOSE''),
     (''ROUTE_SOL_FINAL_REVIEW'', ''SOL_FINAL_REVIEW''), (''ROUTE_SOL_RECHECK'', ''SOL_RECHECK'')]"

definition SOL_REVIEW_STATES :: "string list" where
  "SOL_REVIEW_STATES = [''AWAITING_SOL_FINAL_REVIEW'', ''AWAITING_SOL_RECHECK'']"

definition assertCtx :: "route_env \<Rightarrow> json \<Rightarrow> unit result" where
  "assertCtx env ctx =
     rbind (need (is_obj ctx) (ConfigError ''context'')) (\<lambda>_.
     rbind (need (nonempty_string (ctx_get ''workUnitId'' ctx)) (ConfigError ''workUnitId'')) (\<lambda>_.
     rbind (need (nonempty_string (ctx_get ''state'' ctx)) (ConfigError ''state'')) (\<lambda>_.
     need (env_budget env \<noteq> None) (ConfigError ''budget''))))"

section \<open>Facts\<close>

record facts =
  f_contract :: jsval
  f_reviewRequired :: bool
  f_highRisk :: bool

definition resolveContractFacts :: "route_env \<Rightarrow> json \<Rightarrow> facts result" where
  "resolveContractFacts env ctx =
     (let sc = ctx_get ''semanticContract'' ctx; flag = ctx_get ''contractReviewRequired'' ctx in
      if nullish sc
      then Inr \<lparr>f_contract = None, f_reviewRequired = is_true flag, f_highRisk = False\<rparr>
      else rbind (validateSemanticContract (env_sha env) (the sc)) (\<lambda>(es, ws).
        rbind (need (es = []) (RoutingError ''invalid semantic contract'')) (\<lambda>_.
        let required = (computeCompileStatus (own ''unresolvedSemantics'' sc) = ''CONTRACT_REVIEW_REQUIRED'') in
        rbind (need (flag = None \<or> flag = Some (JBool required))
                 (RoutingError ''contractReviewRequired contradicts the contract'')) (\<lambda>_.
        Inr \<lparr>f_contract = sc, f_reviewRequired = required,
             f_highRisk = isHighRiskClass (own ''riskClass'' sc)\<rparr>))))"

definition contractCauseRefs :: "json \<Rightarrow> string list" where
  "contractCauseRefs ctx =
     (let k = own ''contractKey'' (ctx_get ''semanticContract'' ctx) in
      if js_truthy k then [''contract:'' @ js_string k] else [])"

definition sol_findings :: "json \<Rightarrow> json list" where
  "sol_findings ctx = arr_or_empty (ctx_get ''solFindings'' ctx)"

definition recheck_due :: "json \<Rightarrow> bool" where
  "recheck_due f \<longleftrightarrow>
     is_lit (own ''status'' (Some f)) ''OPEN'' \<and> int_at_least 1 (own ''repairCycles'' (Some f)) \<and>
     own ''rechecks'' (Some f) = Some (JInt 0)"

text \<open>The finding that is due for its recheck; the active finding, when there is one, decides alone.\<close>

definition isOpenFindingRecheckDue :: "json \<Rightarrow> json option" where
  "isOpenFindingRecheckDue ctx =
     (let findings = sol_findings ctx;
          selected = (case ctx_get ''activeFindingId'' ctx of
            Some (JStr i) \<Rightarrow> List.find (\<lambda>f. is_lit (own ''findingId'' (Some f)) i) findings
          | _ \<Rightarrow> None) in
      List.find recheck_due (case selected of None \<Rightarrow> findings | Some f \<Rightarrow> [f]))"

definition openAuthoritativeFindings :: "json \<Rightarrow> json list" where
  "openAuthoritativeFindings ctx = filter (\<lambda>f. is_lit (own ''status'' (Some f)) ''OPEN'') (sol_findings ctx)"

definition finding_ref :: "json \<Rightarrow> string" where
  "finding_ref f = ''finding:'' @ js_string (own ''findingId'' (Some f))"

section \<open>Emission\<close>

definition target_props :: "target option \<Rightarrow> (string \<times> json) list" where
  "target_props t =
     (case t of
        None \<Rightarrow> []
      | Some t \<Rightarrow>
          [(''targetProvider'', JStr (t_provider t)), (''targetModel'', t_model t), (''targetRole'', JStr (t_role t)),
           (''reasoningLevel'', JStr (t_reasoning t))]
          @ (case t_substituteOf t of None \<Rightarrow> [] | Some s \<Rightarrow> [(''substituteOf'', JStr s)]))"

definition route_record :: "route_env \<Rightarrow> json \<Rightarrow> string \<Rightarrow> string \<Rightarrow> string \<Rightarrow> target option
    \<Rightarrow> json option \<Rightarrow> string list \<Rightarrow> json" where
  "route_record env ctx decision reason next target justification refs =
     JObj ([(''decisionId'', let d = ctx_get ''decisionId'' ctx in if nullish d then env_fresh env else the d),
        (''workUnitId'', or_null (ctx_get ''workUnitId'' ctx)),
        (''decision'', JStr decision),
        (''reasonCode'', JStr reason),
        (''state'', JStr (ctx_state ctx)),
        (''nextState'', JStr next),
        (''decidedAt'', let d = ctx_get ''decidedAt'' ctx in if nullish d then env_now env else the d),
        (''budget'', snapshot (the (env_budget env))),
        (''evidenceRefs'', JArr (arr_or_empty (ctx_get ''evidenceRefs'' ctx) @ map JStr refs))]
       @ (if nonempty_string (ctx_get ''runId'' ctx) then [(''runId'', the (ctx_get ''runId'' ctx))] else [])
       @ target_props target
       @ (case justification of None \<Rightarrow> [] | Some j \<Rightarrow> [(''escalationJustification'', j)]))"

definition emit :: "route_env \<Rightarrow> json \<Rightarrow> string \<Rightarrow> string \<Rightarrow> string \<Rightarrow> target option \<Rightarrow> json option
    \<Rightarrow> string list \<Rightarrow> json result" where
  "emit env ctx decision reason event target justification refs =
     rbind (nextState (ctx_state ctx) event) (\<lambda>next.
     stampRouteDecision (Some (route_record env ctx decision reason next target justification refs)))"

definition failNoSubstituteDecision :: "route_env \<Rightarrow> json \<Rightarrow> lcim_error \<Rightarrow> json result" where
  "failNoSubstituteDecision env ctx err =
     (case err of
        ProviderDiscoveryError (Some r) \<Rightarrow>
          (if r = ''CODEX_OAUTH_UNAVAILABLE''
           then emit env ctx ''FAIL_NO_SUBSTITUTE'' ''CODEX_OAUTH_UNAVAILABLE'' ''PROVIDER_UNAVAILABLE'' None None
                  [''discovery:codex-oauth-unavailable'']
           else if r = ''ENDPOINT_NOT_CONFIGURED''
           then emit env ctx ''FAIL_NO_SUBSTITUTE'' ''PROVIDER_UNAVAILABLE'' ''PROVIDER_UNAVAILABLE'' None None
                  [''discovery:endpoint-not-configured'']
           else emit env ctx ''FAIL_NO_SUBSTITUTE'' ''CAPABILITY_GAP_NO_SUBSTITUTE'' ''CAPABILITY_GAP'' None None
                  [''discovery:no-exact-match''])
      | _ \<Rightarrow> emit env ctx ''FAIL_NO_SUBSTITUTE'' ''CAPABILITY_GAP_NO_SUBSTITUTE'' ''CAPABILITY_GAP'' None None
               [''discovery:no-exact-match''])"

text \<open>\<open>catch (err) { if (err instanceof ProviderDiscoveryError) return fail...; throw err; }\<close>.\<close>

definition or_fail :: "route_env \<Rightarrow> json \<Rightarrow> 'a result \<Rightarrow> ('a \<Rightarrow> json result) \<Rightarrow> json result" where
  "or_fail env ctx attempt k =
     (case attempt of
        Inr x \<Rightarrow> k x
      | Inl e \<Rightarrow> (if is_discovery_error e then failNoSubstituteDecision env ctx e else Inl e))"

definition sol_command :: "json \<Rightarrow> jsval" where
  "sol_command ctx = own ''command'' (own ''sol'' (ctx_get ''config'' ctx))"

definition discover_codex_target :: "route_env \<Rightarrow> json \<Rightarrow> string \<Rightarrow> target result" where
  "discover_codex_target env ctx role =
     rbind (discoverSolCodexRoute role (ctx_config ctx)) (\<lambda>_.
     rbind (assertCodexOAuthAvailable (env_oauth env) (ctx_get ''environment'' ctx)) (\<lambda>_.
     Inr \<lparr>t_model = JStr CODEX_SOL_MODEL, t_role = role, t_provider = ''pi'', t_reasoning = ''XHIGH'',
          t_substituteOf = None\<rparr>))"

definition emitSol :: "route_env \<Rightarrow> json \<Rightarrow> string \<Rightarrow> string \<Rightarrow> string \<Rightarrow> string list \<Rightarrow> json result" where
  "emitSol env ctx decision reason event refs =
     rbind (need (nullish (sol_command ctx) \<or> env_seam env) SolCommandMasqueradeError) (\<lambda>_.
     let role = the (map_of SOL_TARGETS decision) in
     case resolveSolChannel (ctx_config ctx) of
       Inl e \<Rightarrow>
         (if e = ProviderDiscoveryError (Some ''SOL_CHANNEL_CLASSIC_NO_AUTHORITY'')
          then Inl (RoutingError ''SOL_CHANNEL_CLASSIC_NO_AUTHORITY'')
          else if is_discovery_error e then failNoSubstituteDecision env ctx e else Inl e)
     | Inr codex \<Rightarrow>
         (if \<not> codex
          then emit env ctx ''FAIL_NO_SUBSTITUTE'' ''PROVIDER_UNAVAILABLE'' ''PROVIDER_UNAVAILABLE'' None None
                 [''discovery:endpoint-not-configured'']
          else rbind (need (nullish (sol_command ctx)) SolCommandMasqueradeError) (\<lambda>_.
            or_fail env ctx (discover_codex_target env ctx role) (\<lambda>t.
            emit env ctx decision reason event (Some t) None refs))))"

definition implementationRoute :: "route_env \<Rightarrow> json \<Rightarrow> string \<Rightarrow> string \<Rightarrow> string \<Rightarrow> string list
    \<Rightarrow> json result" where
  "implementationRoute env ctx role reason event refs =
     or_fail env ctx (resolveImplementationModel (ctx_config ctx)) (\<lambda>r.
       emit env ctx ''ROUTE_IMPLEMENT_FLASH''
         (if r_kind r = Some ''exact'' then ''EXACT_SUBSTITUTE_CONFIGURED''
          else if r_kind r = Some ''fallback'' then ''CAPABILITY_FALLBACK_CONFIGURED''
          else reason)
         event
         (Some \<lparr>t_model = or_null (own ''modelKey'' (Some (r_spec r))), t_role = role, t_provider = ''pi'',
                t_reasoning = ''XHIGH'', t_substituteOf = r_substituteOf r\<rparr>)
         None
         (case r_substituteOf r of Some s \<Rightarrow> [''substitute:'' @ s] | None \<Rightarrow> refs))"

definition findingRefs :: "jsval \<Rightarrow> string list" where
  "findingRefs review =
     (let ids = arr_or_empty (own ''findingIds'' review) in
      if ids \<noteq> [] then map (\<lambda>i. ''finding:'' @ js_string (Some i)) ids else [''finding:unspecified''])"

definition recheckHasFinalReviewProvenance :: "json \<Rightarrow> jsval \<Rightarrow> bool" where
  "recheckHasFinalReviewProvenance ctx review \<longleftrightarrow>
     (let ids = arr_or_empty (own ''findingIds'' review) in
      ids \<noteq> [] \<and>
      list_all (\<lambda>i. case List.find (\<lambda>f. own ''findingId'' (Some f) = Some i) (sol_findings ctx) of
          None \<Rightarrow> False
        | Some f \<Rightarrow> is_lit (own ''origin'' (Some f)) ''FINAL_REVIEW'') ids)"

section \<open>The review outcome\<close>

definition handleReviewPassed :: "route_env \<Rightarrow> json \<Rightarrow> facts \<Rightarrow> jsval \<Rightarrow> json result" where
  "handleReviewPassed env ctx facts review =
     (let opn = openAuthoritativeFindings ctx in
      if opn \<noteq> [] then
        (if ctx_state ctx = ''AWAITING_SOL_FINAL_REVIEW'' then Inl (RoutingError ''PASS with open findings'')
         else case List.find (\<lambda>f. int_at_least 1 (own ''rechecks'' (Some f))) opn of
           Some f \<Rightarrow> emit env ctx ''STOP_STUCK'' ''SOL_FINDING_SURVIVES_ONE_REPAIR'' ''STUCK'' None None
                      [finding_ref f, ''review:finding-survived-recheck'']
         | None \<Rightarrow> implementationRoute env ctx ''REPAIR'' ''REPAIR_TARGETED_FIRST'' ''FAILURE_FIRST_CREDIBLE''
                     (map finding_ref opn @ [''review:next-open-defect-repair'']))
      else if ctx_state ctx = ''AWAITING_SOL_FINAL_REVIEW''
      then emit env ctx ''ROUTE_COMPLETE'' ''RESULT_ACCEPTED'' ''SOL_REVIEW_PASSED'' None None [''review:passed'']
      else if f_highRisk facts \<and> \<not> recheckHasFinalReviewProvenance ctx review
      then emitSol env ctx ''ROUTE_SOL_FINAL_REVIEW'' ''SOL_FINAL_REVIEW'' ''RESULT_ACCEPTED_HIGH_RISK''
             (contractCauseRefs ctx @ [''review:recheck-passed-without-final-review''])
      else emit env ctx ''ROUTE_COMPLETE'' ''RESULT_ACCEPTED'' ''SOL_REVIEW_PASSED'' None None [''review:passed''])"

section \<open>The steps of the decision\<close>

text \<open>Step 6: an accepted result.\<close>

definition decide_accepted :: "route_env \<Rightarrow> json \<Rightarrow> facts \<Rightarrow> json result" where
  "decide_accepted env ctx facts =
     (let review = ctx_get ''solReview'' ctx in
      if ctx_state ctx \<in> set SOL_REVIEW_STATES then
        (if nullish review then Inl (RoutingError ''no solReview outcome'')
         else if is_lit (own ''verdict'' review) ''PASSED'' then handleReviewPassed env ctx facts review
         else Inl (RoutingError ''resultAccepted contradicts the verdict''))
      else if f_highRisk facts
      then emitSol env ctx ''ROUTE_SOL_FINAL_REVIEW'' ''SOL_FINAL_REVIEW'' ''RESULT_ACCEPTED_HIGH_RISK''
             (contractCauseRefs ctx @ [''review:high-risk-final''])
      else emit env ctx ''ROUTE_COMPLETE'' ''RESULT_ACCEPTED'' ''RESULT_ACCEPTED'' None None [])"

text \<open>Step 7: an explicit escalation request.\<close>

definition max_target :: "string \<Rightarrow> target" where
  "max_target m = \<lparr>t_model = JStr m, t_role = ''IMPLEMENT'', t_provider = ''pi'', t_reasoning = ''MAX'',
     t_substituteOf = None\<rparr>"

definition decide_escalation :: "route_env \<Rightarrow> json \<Rightarrow> jsval \<Rightarrow> json result" where
  "decide_escalation env ctx esc =
     (let basis = own ''basis'' esc; detail = own ''detail'' esc; model = own ''model'' esc;
          justification = JObj [(''basis'', or_null basis), (''detail'', or_null detail)] in
      rbind (need (isValidEscalationBasis basis \<and> nonempty_string detail) (RoutingError ''invalid escalation'')) (\<lambda>_.
      if is_lit model ''deepseek-pro-max'' then
        rbind (need (one_of PRO_MAX_BASES basis) (RoutingError ''invalid Pro MAX basis'')) (\<lambda>_.
        or_fail env ctx (assertNoDowngrade ''deepseek-pro-max'' ''MAX'' (ctx_config ctx)) (\<lambda>_.
        emit env ctx ''ROUTE_IMPLEMENT_PRO_MAX'' ''PRO_MAX_ESCALATION'' ''PRO_MAX_JUSTIFIED''
          (Some (max_target ''deepseek-pro-max'')) (Some justification) [''escalation:'' @ js_string basis]))
      else if is_lit model ''deepseek-v4-flash'' \<and> is_lit basis ''CONTRACT_LOCKED_DIFFICULT_TASK'' then
        or_fail env ctx (assertNoDowngrade ''deepseek-v4-flash'' ''MAX'' (ctx_config ctx)) (\<lambda>_.
        emit env ctx ''ROUTE_IMPLEMENT_FLASH_MAX'' ''MAX_JUSTIFIED'' ''TASK_READY''
          (Some (max_target ''deepseek-v4-flash'')) (Some justification) [''escalation:contract-locked-difficult''])
      else Inl (RoutingError ''invalid escalation request'')))"

text \<open>Step 8: the outcome of a SOL review state.\<close>

definition decide_review :: "route_env \<Rightarrow> json \<Rightarrow> facts \<Rightarrow> json result" where
  "decide_review env ctx facts =
     (let review = ctx_get ''solReview'' ctx; verdict = own ''verdict'' review in
      if nullish review \<or> verdict = None then Inl (RoutingError ''no solReview outcome'')
      else if is_lit verdict ''PASSED'' then handleReviewPassed env ctx facts review
      else if is_lit verdict ''FINDING'' then
        (if ctx_state ctx = ''AWAITING_SOL_FINAL_REVIEW''
         then implementationRoute env ctx ''REPAIR'' ''REPAIR_TARGETED_FIRST'' ''FAILURE_FIRST_CREDIBLE''
                (findingRefs review @ [''review:finding-bounded-repair''])
         else emit env ctx ''STOP_STUCK'' ''SOL_FINDING_SURVIVES_ONE_REPAIR'' ''STUCK'' None None
                (findingRefs review @ [''review:finding-survived-recheck'']))
      else Inl (RoutingError ''invalid verdict''))"

text \<open>Steps 9 and 10: failure handling, then the default bounded route.\<close>

definition decide_failure :: "route_env \<Rightarrow> json \<Rightarrow> json result" where
  "decide_failure env ctx =
     (let history = arr_or_empty (ctx_get ''failureHistory'' ctx);
          credible = (history \<noteq> [] \<and> is_true (own ''credibleHypothesis'' (Some (last history)))) in
      if history \<noteq> [] \<and> last history \<noteq> JNull \<and> ctx_state ctx = ''AWAITING_IMPLEMENTATION'' \<and> credible
      then implementationRoute env ctx ''REPAIR'' ''REPAIR_TARGETED_FIRST'' ''FAILURE_FIRST_CREDIBLE''
             [''failure:first-credible'']
      else if history \<noteq> [] \<and> last history \<noteq> JNull \<and> ctx_state ctx = ''AWAITING_PRO_MAX'' \<and> credible
      then emit env ctx ''STOP_STUCK'' ''REPAIR_LIMIT_REACHED'' ''STUCK'' None None [''repair-limit:pro-max-reached'']
      else if history \<noteq> [] \<and> last history \<noteq> JNull \<and> \<not> credible
      then emit env ctx ''STOP_STUCK'' ''NO_FALSIFIABLE_EXPLANATION'' ''STUCK'' None None
             [''failure:no-falsifiable-explanation'']
      else implementationRoute env ctx ''IMPLEMENT'' ''NORMAL_BOUNDED_TASK'' ''TASK_READY'' [])"

text \<open>Steps 8 to 10 by state.\<close>

definition decide_by_state :: "route_env \<Rightarrow> json \<Rightarrow> facts \<Rightarrow> json result" where
  "decide_by_state env ctx facts =
     (if ctx_state ctx \<in> set SOL_REVIEW_STATES then decide_review env ctx facts
      else if ctx_state ctx = ''AWAITING_SOL_CONTRACT_CHECK'' then
        (if f_contract facts \<noteq> None \<and> \<not> f_reviewRequired facts
         then implementationRoute env ctx ''IMPLEMENT'' ''NORMAL_BOUNDED_TASK'' ''SOL_CHECK_RESOLVED''
                [''contract-check:resolved'']
         else Inl (RoutingError ''no resolved contract''))
      else if ctx_state ctx = ''AWAITING_SOL_DIAGNOSE'' then
        (if is_lit (own ''status'' (ctx_get ''solDiagnosis'' ctx)) ''RESOLVED''
         then implementationRoute env ctx ''IMPLEMENT'' ''NORMAL_BOUNDED_TASK'' ''SOL_DIAGNOSIS_READY''
                [''diagnosis:resolved'']
         else Inl (RoutingError ''no resolved diagnosis''))
      else decide_failure env ctx)"

text \<open>Steps 4 to 10, once the hard stops are excluded.\<close>

definition decide_open :: "route_env \<Rightarrow> json \<Rightarrow> facts \<Rightarrow> json result" where
  "decide_open env ctx facts =
     (let code = own ''rejectionCode'' (ctx_get ''latestRejection'' ctx) in
      case isOpenFindingRecheckDue ctx of
        Some f \<Rightarrow> emitSol env ctx ''ROUTE_SOL_RECHECK'' ''SOL_RECHECK_AFTER_REPAIR'' ''SOL_FINDING_SURVIVED_REPAIR''
                   [finding_ref f, ''finding:repair-done'']
      | None \<Rightarrow>
          (if one_of SEMANTIC_REJECTION_CODES code
           then emitSol env ctx ''ROUTE_SOL_DIAGNOSE'' ''SEMANTIC_REJECTION_ESCALATION'' ''SEMANTIC_REJECTION''
                  [''rejection:'' @ js_string code]
           else if is_true (ctx_get ''resultAccepted'' ctx) then decide_accepted env ctx facts
           else if \<not> nullish (ctx_get ''escalation'' ctx) then decide_escalation env ctx (ctx_get ''escalation'' ctx)
           else decide_by_state env ctx facts))"

definition decideRoute :: "route_env \<Rightarrow> json \<Rightarrow> json result" where
  "decideRoute env ctx =
     rbind (assertCtx env ctx) (\<lambda>_.
     rbind (need (\<not> isTerminalState (ctx_state ctx)) (RouteStateError (ctx_state ctx) ''terminal'')) (\<lambda>_.
     if isExhausted (the (env_budget env))
     then emit env ctx ''STOP_BUDGET'' ''BUDGET_EXHAUSTED'' ''BUDGET_EXHAUSTED'' None None [''budget:exhausted'']
     else rbind (resolveContractFacts env ctx) (\<lambda>facts.
       if f_reviewRequired facts
       then emitSol env ctx ''ROUTE_SOL_CONTRACT_CHECK'' ''UNRESOLVED_HIGH_RISK_CONTRACT'' ''CONTRACT_REVIEW_REQUIRED''
              (contractCauseRefs ctx)
       else let stuck = evaluateStuckCriteria (Some ctx) in
         if stuck \<noteq> []
         then emit env ctx ''STOP_STUCK'' (hd stuck) ''STUCK'' None None (map (\<lambda>c. ''stuck:'' @ c) stuck)
         else decide_open env ctx facts)))"

end
