(* ===== verification/Route_Laws.thy ===== *)
theory Route_Laws
  imports Route_Policy
begin

text \<open>
  What the routing policy guarantees: every decision it returns is a valid, lawful 2.1.0 record
  whose next state is the machine's; hard stops come first; a high-risk unit completes only
  through the final review; SOL routes pass the codex gate; Pro MAX and substitutes are explicit.
\<close>


section \<open>What an emitted record says\<close>

abbreviation decision_of :: "json \<Rightarrow> jsval" where
  "decision_of r \<equiv> own ''decision'' (Some r)"

lemma map_of_append_None: "map_of xs k = None \<Longrightarrow> map_of (xs @ ys) k = map_of ys k"
  by (simp add: map_add_def)

lemma target_props_own:
  "map_of (target_props t) ''decision'' = None"
  "map_of (target_props t) ''escalationJustification'' = None"
  "map_of (target_props (Some u)) ''targetModel'' = Some (t_model u)"
  "map_of (target_props (Some u)) ''targetRole'' = Some (JStr (t_role u))"
  "map_of (target_props (Some u)) ''targetProvider'' = Some (JStr (t_provider u))"
  "map_of (target_props (Some u)) ''reasoningLevel'' = Some (JStr (t_reasoning u))"
  "map_of (target_props (Some u)) ''substituteOf'' = map_option JStr (t_substituteOf u)"
  by (auto simp: target_props_def split: option.splits)

lemma emit_cases:
  assumes "emit env ctx dec reason ev t j refs = Inr r"
  shows "\<exists>next. nextState (ctx_state ctx) ev = Inr next \<and> is_lit (own ''nextState'' (Some r)) next"
    and "is_lit (decision_of r) dec"
    and "is_lit (own ''reasonCode'' (Some r)) reason"
    and "is_lit (own ''state'' (Some r)) (ctx_state ctx)"
    and "own ''budget'' (Some r) = Some (snapshot (the (env_budget env)))"
    and "own ''escalationJustification'' (Some r) = j"
    and "\<And>t'. t = Some t' \<Longrightarrow> own ''targetModel'' (Some r) = Some (t_model t')"
    and "\<And>t'. t = Some t' \<Longrightarrow> own ''substituteOf'' (Some r) = map_option JStr (t_substituteOf t')"
    and "validateRouteDecision r = Inr []" and "route_lawful r"
    and "accepts lcim_regexps r ROUTE_DECISION_SCHEMA_2_1"
proof -
  obtain nx where n: "nextState (ctx_state ctx) ev = Inr nx"
    and s: "stampRouteDecision (Some (route_record env ctx dec reason nx t j refs)) = Inr r"
    using assms by (auto simp: emit_def)
  note st = stampRouteDecision_cases [OF s [unfolded route_record_def]]
  have ver: "is_lit (own ''schemaVersion'' (Some r)) ''2.1.0''"
    by (simp add: st(1))
  show "\<exists>next. nextState (ctx_state ctx) ev = Inr next \<and> is_lit (own ''nextState'' (Some r)) next"
    using n by (simp add: st(1))
  show "is_lit (decision_of r) dec" "is_lit (own ''reasonCode'' (Some r)) reason"
    "is_lit (own ''state'' (Some r)) (ctx_state ctx)"
    "own ''budget'' (Some r) = Some (snapshot (the (env_budget env)))"
    by (simp_all add: st(1))
  show "own ''escalationJustification'' (Some r) = j"
    by (cases j) (simp_all add: st(1) map_add_def target_props_own)
  show "own ''targetModel'' (Some r) = Some (t_model t')" "own ''substituteOf'' (Some r) = map_option JStr (t_substituteOf t')"
    if "t = Some t'" for t'
    using that by (simp_all add: st(1) target_props_own map_add_def split: option.splits)
  show "validateRouteDecision r = Inr []" by (rule st(2))
  show "route_lawful r" "accepts lcim_regexps r ROUTE_DECISION_SCHEMA_2_1"
    using validateRouteDecision_lawful [OF st(2) ver] by blast+
qed

lemmas emit_decision = emit_cases(2)

lemma fail_cases:
  assumes "failNoSubstituteDecision env ctx e = Inr r"
  shows "\<exists>reason ev refs. emit env ctx ''FAIL_NO_SUBSTITUTE'' reason ev None None refs = Inr r \<and>
    ev \<in> {''CAPABILITY_GAP'', ''PROVIDER_UNAVAILABLE''}"
  using assms by (auto simp: failNoSubstituteDecision_def split: lcim_error.splits option.splits if_splits)

lemma or_fail_cases:
  assumes "or_fail env ctx attempt k = Inr r"
  obtains (ok) x where "attempt = Inr x" "k x = Inr r"
  | (fail) e reason ev refs where "attempt = Inl e" "is_discovery_error e"
      "emit env ctx ''FAIL_NO_SUBSTITUTE'' reason ev None None refs = Inr r"
      "ev \<in> {''CAPABILITY_GAP'', ''PROVIDER_UNAVAILABLE''}"
proof (cases attempt)
  case (Inr x)
  then show thesis using assms ok by (simp add: or_fail_def)
next
  case (Inl e)
  then have "is_discovery_error e" and "failNoSubstituteDecision env ctx e = Inr r"
    using assms by (auto simp: or_fail_def split: if_splits)
  then show thesis using fail_cases fail Inl by blast
qed

text \<open>
  A SOL emission is the requested decision, towards the codex target with a usable credential and
  no local command, or a no-substitute failure.
\<close>

lemma emitSol_cases:
  assumes "emitSol env ctx dec reason ev refs = Inr r"
  obtains (sol) t st where "nullish (sol_command ctx)"
      "configuredEndpoint (ctx_config ctx) CODEX_SOL_MODEL" "\<not> configuredEndpoint (ctx_config ctx) CLASSIC_SOL_MODEL"
      "assertCodexOAuthAvailable (env_oauth env) (ctx_get ''environment'' ctx) = Inr st"
      "emit env ctx dec reason ev (Some t) None refs = Inr r"
  | (fail) reason' ev' refs' where "emit env ctx ''FAIL_NO_SUBSTITUTE'' reason' ev' None None refs' = Inr r"
      "ev' \<in> {''CAPABILITY_GAP'', ''PROVIDER_UNAVAILABLE''}"
proof (cases "resolveSolChannel (ctx_config ctx)")
  case (Inl e)
  have "failNoSubstituteDecision env ctx e = Inr r"
    using assms Inl by (auto simp: emitSol_def split: if_splits)
  then show thesis using fail_cases fail by blast
next
  case (Inr codex)
  show thesis
  proof (cases codex)
    case False
    then have "emit env ctx ''FAIL_NO_SUBSTITUTE'' ''PROVIDER_UNAVAILABLE'' ''PROVIDER_UNAVAILABLE'' None None
        [''discovery:endpoint-not-configured''] = Inr r"
      using assms Inr by (auto simp: emitSol_def)
    then show thesis using fail by blast
  next
    case True
    let ?d = "discover_codex_target env ctx (the (map_of SOL_TARGETS dec))"
    have nc: "nullish (sol_command ctx)"
      and o: "or_fail env ctx ?d (\<lambda>t. emit env ctx dec reason ev (Some t) None refs) = Inr r"
      using assms Inr True by (auto simp: emitSol_def Let_def)
    have ch: "configuredEndpoint (ctx_config ctx) CODEX_SOL_MODEL"
      "\<not> configuredEndpoint (ctx_config ctx) CLASSIC_SOL_MODEL"
      using Inr True by (auto simp: resolveSolChannel_def)
    from o show thesis
    proof (cases rule: or_fail_cases)
      case (ok t)
      then show thesis
        using sol nc ch by (auto simp: discover_codex_target_def)
    next
      case (fail e reason' ev' refs')
      then show thesis using that(2) by blast
    qed
  qed
qed

lemma implementationRoute_cases:
  assumes "implementationRoute env ctx role reason ev refs = Inr r"
  obtains (route) res reason' refs' t where "resolveImplementationModel (ctx_config ctx) = Inr res"
      "emit env ctx ''ROUTE_IMPLEMENT_FLASH'' reason' ev (Some t) None refs' = Inr r"
      "t_model t = or_null (own ''modelKey'' (Some (r_spec res)))" "t_substituteOf t = r_substituteOf res"
  | (fail) reason' ev' refs' where "emit env ctx ''FAIL_NO_SUBSTITUTE'' reason' ev' None None refs' = Inr r"
      "ev' \<in> {''CAPABILITY_GAP'', ''PROVIDER_UNAVAILABLE''}"
  using assms unfolding implementationRoute_def
proof (cases rule: or_fail_cases)
  case (ok res)
  then show thesis by (intro route) auto
next
  case (fail e reason' ev' refs')
  then show thesis using that(2) by blast
qed

lemma emitSol_decision: "emitSol env ctx dec reason ev refs = Inr r \<Longrightarrow>
    is_lit (decision_of r) dec \<or> is_lit (decision_of r) ''FAIL_NO_SUBSTITUTE''"
  by (erule emitSol_cases) (auto dest: emit_decision)

lemma implementationRoute_decision: "implementationRoute env ctx role reason ev refs = Inr r \<Longrightarrow>
    is_lit (decision_of r) ''ROUTE_IMPLEMENT_FLASH'' \<or> is_lit (decision_of r) ''FAIL_NO_SUBSTITUTE''"
  by (erule implementationRoute_cases) (auto dest: emit_decision)

section \<open>Completion\<close>

lemma handleReviewPassed_complete:
  assumes "handleReviewPassed env ctx facts review = Inr r" and "is_lit (decision_of r) ''ROUTE_COMPLETE''"
  shows "openAuthoritativeFindings ctx = []"
    and "f_highRisk facts \<Longrightarrow> ctx_state ctx = ''AWAITING_SOL_FINAL_REVIEW'' \<or>
      recheckHasFinalReviewProvenance ctx review"
  using assms
  by (auto simp: handleReviewPassed_def Let_def split: if_splits option.splits
      dest!: emit_decision emitSol_decision implementationRoute_decision)

lemma decide_accepted_complete:
  assumes "decide_accepted env ctx facts = Inr r" and "is_lit (decision_of r) ''ROUTE_COMPLETE''"
    and "f_highRisk facts"
  shows "ctx_state ctx \<in> set SOL_REVIEW_STATES"
    and "is_lit (own ''verdict'' (ctx_get ''solReview'' ctx)) ''PASSED''"
    and "handleReviewPassed env ctx facts (ctx_get ''solReview'' ctx) = Inr r"
  using assms by (auto simp: decide_accepted_def Let_def split: if_splits dest!: emitSol_decision)

lemma decide_review_complete:
  assumes "decide_review env ctx facts = Inr r" and "is_lit (decision_of r) ''ROUTE_COMPLETE''"
  shows "is_lit (own ''verdict'' (ctx_get ''solReview'' ctx)) ''PASSED''"
    and "handleReviewPassed env ctx facts (ctx_get ''solReview'' ctx) = Inr r"
  using assms by (auto simp: decide_review_def Let_def split: if_splits
      dest!: emit_decision implementationRoute_decision)

lemma decide_escalation_decision:
  assumes "decide_escalation env ctx esc = Inr r"
  shows "one_of [''ROUTE_IMPLEMENT_PRO_MAX'', ''ROUTE_IMPLEMENT_FLASH_MAX'', ''FAIL_NO_SUBSTITUTE''] (decision_of r)"
  using assms unfolding decide_escalation_def Let_def
  by (auto split: if_splits elim!: or_fail_cases dest!: emit_decision simp: one_of_iff)

lemma decide_failure_decision:
  assumes "decide_failure env ctx = Inr r"
  shows "one_of [''ROUTE_IMPLEMENT_FLASH'', ''STOP_STUCK'', ''FAIL_NO_SUBSTITUTE''] (decision_of r)"
  using assms unfolding decide_failure_def Let_def
  by (auto split: if_splits dest!: emit_decision implementationRoute_decision simp: one_of_iff)

lemma decide_by_state_complete:
  assumes "decide_by_state env ctx facts = Inr r" and "is_lit (decision_of r) ''ROUTE_COMPLETE''"
  shows "ctx_state ctx \<in> set SOL_REVIEW_STATES" and "decide_review env ctx facts = Inr r"
  using assms unfolding decide_by_state_def
  by (auto split: if_splits dest!: implementationRoute_decision decide_failure_decision simp: one_of_iff)

text \<open>The facts a decision that passes the hard stops was taken on.\<close>

lemma decideRoute_cases:
  assumes "decideRoute env ctx = Inr r"
  obtains (budget) "isExhausted (the (env_budget env))"
      "emit env ctx ''STOP_BUDGET'' ''BUDGET_EXHAUSTED'' ''BUDGET_EXHAUSTED'' None None [''budget:exhausted''] = Inr r"
  | (review) facts where "available (the (env_budget env))" "resolveContractFacts env ctx = Inr facts"
      "f_reviewRequired facts"
      "emitSol env ctx ''ROUTE_SOL_CONTRACT_CHECK'' ''UNRESOLVED_HIGH_RISK_CONTRACT'' ''CONTRACT_REVIEW_REQUIRED''
         (contractCauseRefs ctx) = Inr r"
  | (stuck) facts refs where "available (the (env_budget env))" "resolveContractFacts env ctx = Inr facts"
      "\<not> f_reviewRequired facts" "evaluateStuckCriteria (Some ctx) \<noteq> []"
      "emit env ctx ''STOP_STUCK'' (hd (evaluateStuckCriteria (Some ctx))) ''STUCK'' None None refs = Inr r"
  | (decide) facts where "available (the (env_budget env))" "resolveContractFacts env ctx = Inr facts"
      "\<not> f_reviewRequired facts" "evaluateStuckCriteria (Some ctx) = []" "decide_open env ctx facts = Inr r"
  using assms unfolding decideRoute_def Let_def isExhausted_def
  by (simp only: rbind_eq_Inr split: if_splits) blast+

lemma decideRoute_guarded:
  assumes "decideRoute env ctx = Inr r"
  shows "assertCtx env ctx = Inr ()" and "\<not> isTerminalState (ctx_state ctx)"
  using assms by (auto simp: decideRoute_def)

text \<open>
  A unit whose contract is of a high-risk class completes only out of a SOL review state, on a
  PASSED verdict, with every finding closed, and either in the final review itself or with
  final-review findings behind the recheck.
\<close>

lemma decideRoute_complete:
  assumes dec: "decideRoute env ctx = Inr r" and comp: "is_lit (decision_of r) ''ROUTE_COMPLETE''"
    and facts: "resolveContractFacts env ctx = Inr facts" and high: "f_highRisk facts"
  shows "ctx_state ctx \<in> set SOL_REVIEW_STATES"
    and "is_lit (own ''verdict'' (ctx_get ''solReview'' ctx)) ''PASSED''"
    and "openAuthoritativeFindings ctx = []"
    and "ctx_state ctx = ''AWAITING_SOL_FINAL_REVIEW'' \<or>
      recheckHasFinalReviewProvenance ctx (ctx_get ''solReview'' ctx)"
proof -
  have opn: "decide_open env ctx facts = Inr r"
    using dec comp facts
    by (cases rule: decideRoute_cases) (auto dest!: emit_decision emitSol_decision)
  have base: "ctx_state ctx \<in> set SOL_REVIEW_STATES \<and> is_lit (own ''verdict'' (ctx_get ''solReview'' ctx)) ''PASSED'' \<and>
      handleReviewPassed env ctx facts (ctx_get ''solReview'' ctx) = Inr r"
  proof (cases "is_true (ctx_get ''resultAccepted'' ctx)")
    case True
    then have "decide_accepted env ctx facts = Inr r"
      using opn comp by (auto simp: decide_open_def Let_def split: option.splits if_splits dest!: emitSol_decision)
    then show ?thesis
      using decide_accepted_complete [OF _ comp high] by blast
  next
    case False
    then have "decide_by_state env ctx facts = Inr r"
      using opn comp
      by (auto simp: decide_open_def Let_def one_of_iff split: option.splits if_splits
          dest!: emitSol_decision decide_escalation_decision)
    then show ?thesis
      using decide_by_state_complete [OF _ comp] decide_review_complete [OF _ comp] by blast
  qed
  then show "ctx_state ctx \<in> set SOL_REVIEW_STATES"
    and "is_lit (own ''verdict'' (ctx_get ''solReview'' ctx)) ''PASSED''"
    by blast+
  show "openAuthoritativeFindings ctx = []"
    and "ctx_state ctx = ''AWAITING_SOL_FINAL_REVIEW'' \<or>
      recheckHasFinalReviewProvenance ctx (ctx_get ''solReview'' ctx)"
    using base handleReviewPassed_complete [OF _ comp] high by blast+
qed

section \<open>Every decision is an emission\<close>

text \<open>The pairs of a decision and the event it is emitted with.\<close>

definition EMISSIONS :: "(string \<times> string) list" where
  "EMISSIONS =
    [(''STOP_BUDGET'', ''BUDGET_EXHAUSTED''), (''STOP_STUCK'', ''STUCK''),
     (''FAIL_NO_SUBSTITUTE'', ''CAPABILITY_GAP''), (''FAIL_NO_SUBSTITUTE'', ''PROVIDER_UNAVAILABLE''),
     (''ROUTE_SOL_CONTRACT_CHECK'', ''CONTRACT_REVIEW_REQUIRED''),
     (''ROUTE_SOL_RECHECK'', ''SOL_FINDING_SURVIVED_REPAIR''), (''ROUTE_SOL_DIAGNOSE'', ''SEMANTIC_REJECTION''),
     (''ROUTE_SOL_FINAL_REVIEW'', ''RESULT_ACCEPTED_HIGH_RISK''),
     (''ROUTE_COMPLETE'', ''RESULT_ACCEPTED''), (''ROUTE_COMPLETE'', ''SOL_REVIEW_PASSED''),
     (''ROUTE_IMPLEMENT_PRO_MAX'', ''PRO_MAX_JUSTIFIED''), (''ROUTE_IMPLEMENT_FLASH_MAX'', ''TASK_READY''),
     (''ROUTE_IMPLEMENT_FLASH'', ''FAILURE_FIRST_CREDIBLE''), (''ROUTE_IMPLEMENT_FLASH'', ''SOL_CHECK_RESOLVED''),
     (''ROUTE_IMPLEMENT_FLASH'', ''SOL_DIAGNOSIS_READY''), (''ROUTE_IMPLEMENT_FLASH'', ''TASK_READY'')]"

definition emitted :: "route_env \<Rightarrow> json \<Rightarrow> json \<Rightarrow> bool" where
  "emitted env ctx r \<longleftrightarrow>
     (\<exists>p \<in> set EMISSIONS. \<exists>reason t j refs. emit env ctx (fst p) reason (snd p) t j refs = Inr r)"

lemma emittedI: "emit env ctx dec reason ev t j refs = Inr r \<Longrightarrow> (dec, ev) \<in> set EMISSIONS \<Longrightarrow> emitted env ctx r"
  unfolding emitted_def by (rule bexI [of _ "(dec, ev)"]) auto

lemma emitSol_emitted:
  "emitSol env ctx dec reason ev refs = Inr r \<Longrightarrow> (dec, ev) \<in> set EMISSIONS \<Longrightarrow> emitted env ctx r"
  by (erule emitSol_cases) (erule emittedI, force simp: EMISSIONS_def)+

lemma implementationRoute_emitted:
  "implementationRoute env ctx role reason ev refs = Inr r \<Longrightarrow> (''ROUTE_IMPLEMENT_FLASH'', ev) \<in> set EMISSIONS
    \<Longrightarrow> emitted env ctx r"
  by (erule implementationRoute_cases) (erule emittedI, force simp: EMISSIONS_def)+

lemmas emitted_rules = emittedI emitSol_emitted implementationRoute_emitted

lemma handleReviewPassed_emitted: "handleReviewPassed env ctx facts review = Inr r \<Longrightarrow> emitted env ctx r"
  unfolding handleReviewPassed_def Let_def
  by (auto split: if_splits option.splits elim!: emitted_rules simp: EMISSIONS_def)

lemma decide_accepted_emitted: "decide_accepted env ctx facts = Inr r \<Longrightarrow> emitted env ctx r"
  unfolding decide_accepted_def Let_def
  by (auto split: if_splits elim!: emitted_rules handleReviewPassed_emitted simp: EMISSIONS_def)

lemma decide_escalation_emitted: "decide_escalation env ctx esc = Inr r \<Longrightarrow> emitted env ctx r"
  unfolding decide_escalation_def Let_def
  by (auto split: if_splits elim!: or_fail_cases emittedI simp: EMISSIONS_def)

lemma decide_review_emitted: "decide_review env ctx facts = Inr r \<Longrightarrow> emitted env ctx r"
  unfolding decide_review_def Let_def
  by (auto split: if_splits elim!: emitted_rules handleReviewPassed_emitted simp: EMISSIONS_def)

lemma decide_failure_emitted: "decide_failure env ctx = Inr r \<Longrightarrow> emitted env ctx r"
  unfolding decide_failure_def Let_def
  by (auto split: if_splits elim!: emitted_rules simp: EMISSIONS_def)

lemma decide_by_state_emitted: "decide_by_state env ctx facts = Inr r \<Longrightarrow> emitted env ctx r"
  unfolding decide_by_state_def
  by (auto split: if_splits elim!: emitted_rules decide_review_emitted decide_failure_emitted simp: EMISSIONS_def)

lemma decide_open_emitted: "decide_open env ctx facts = Inr r \<Longrightarrow> emitted env ctx r"
  unfolding decide_open_def Let_def
  by (auto split: if_splits option.splits simp: EMISSIONS_def
      elim!: emitted_rules decide_accepted_emitted decide_escalation_emitted decide_by_state_emitted)

lemma decideRoute_emitted: "decideRoute env ctx = Inr r \<Longrightarrow> emitted env ctx r"
  by (erule decideRoute_cases) (auto elim!: emitted_rules decide_open_emitted simp: EMISSIONS_def)

lemma decideRoute_valid:
  assumes "decideRoute env ctx = Inr r"
  shows "validateRouteDecision r = Inr []" and "route_lawful r"
    and "is_lit (own ''state'' (Some r)) (ctx_state ctx)"
    and "own ''budget'' (Some r) = Some (snapshot (the (env_budget env)))"
  using decideRoute_emitted [OF assms] by (auto simp: emitted_def dest: emit_cases)

text \<open>The recorded next state is the machine's, and it tells the stop decisions apart.\<close>

lemma decideRoute_transition:
  assumes "decideRoute env ctx = Inr r"
  shows "\<exists>ev nx. ev \<in> set ESCALATION_EVENT \<and> nextState (ctx_state ctx) ev = Inr nx \<and>
           is_lit (own ''nextState'' (Some r)) nx"
    and "is_lit (decision_of r) ''ROUTE_COMPLETE'' \<longleftrightarrow> is_lit (own ''nextState'' (Some r)) ''UNIT_COMPLETE''"
    and "is_lit (decision_of r) ''STOP_STUCK'' \<longleftrightarrow> is_lit (own ''nextState'' (Some r)) ''STOPPED_STUCK''"
    and "is_lit (decision_of r) ''STOP_BUDGET'' \<longleftrightarrow> is_lit (own ''nextState'' (Some r)) ''STOPPED_BUDGET''"
    and "is_lit (decision_of r) ''FAIL_NO_SUBSTITUTE'' \<longleftrightarrow>
           is_lit (own ''nextState'' (Some r)) ''FAILED_NO_SUBSTITUTE''"
proof -
  obtain dec ev reason t j refs where p: "(dec, ev) \<in> set EMISSIONS"
    and e: "emit env ctx dec reason ev t j refs = Inr r"
    using decideRoute_emitted [OF assms] by (auto simp: emitted_def)
  obtain nx where n: "nextState (ctx_state ctx) ev = Inr nx" and l: "is_lit (own ''nextState'' (Some r)) nx"
    using emit_cases(1) [OF e] by blast
  note d = emit_decision [OF e] and tg = nextState_targets [OF n]
  have all: "list_all (\<lambda>(d, e). e \<in> set ESCALATION_EVENT \<and>
      (d = ''ROUTE_COMPLETE'' \<longleftrightarrow> e \<in> {''RESULT_ACCEPTED'', ''SOL_REVIEW_PASSED''}) \<and>
      (d = ''STOP_STUCK'' \<longleftrightarrow> e = ''STUCK'') \<and> (d = ''STOP_BUDGET'' \<longleftrightarrow> e = ''BUDGET_EXHAUSTED'') \<and>
      (d = ''FAIL_NO_SUBSTITUTE'' \<longleftrightarrow> e \<in> {''CAPABILITY_GAP'', ''PROVIDER_UNAVAILABLE''})) EMISSIONS"
    by code_simp
  note pe = all [unfolded list_all_iff, rule_format, OF p, unfolded prod.case]
  show "\<exists>ev nx. ev \<in> set ESCALATION_EVENT \<and> nextState (ctx_state ctx) ev = Inr nx \<and>
      is_lit (own ''nextState'' (Some r)) nx"
    by (intro exI conjI) (rule conjunct1 [OF pe], rule n, rule l)
  show "is_lit (decision_of r) ''ROUTE_COMPLETE'' \<longleftrightarrow> is_lit (own ''nextState'' (Some r)) ''UNIT_COMPLETE''"
    "is_lit (decision_of r) ''STOP_STUCK'' \<longleftrightarrow> is_lit (own ''nextState'' (Some r)) ''STOPPED_STUCK''"
    "is_lit (decision_of r) ''STOP_BUDGET'' \<longleftrightarrow> is_lit (own ''nextState'' (Some r)) ''STOPPED_BUDGET''"
    "is_lit (decision_of r) ''FAIL_NO_SUBSTITUTE'' \<longleftrightarrow> is_lit (own ''nextState'' (Some r)) ''FAILED_NO_SUBSTITUTE''"
    unfolding d l option.inject json.inject using pe tg(1-4) by argo+
qed

section \<open>Hard stops and escalation\<close>

lemma decideRoute_exhausted:
  "decideRoute env ctx = Inr r \<Longrightarrow> \<not> available (the (env_budget env)) \<Longrightarrow> is_lit (decision_of r) ''STOP_BUDGET''"
  by (erule decideRoute_cases) (auto dest: emit_decision)

lemma decideRoute_review_required:
  assumes "decideRoute env ctx = Inr r" and "available (the (env_budget env))"
    and "resolveContractFacts env ctx = Inr facts" and "f_reviewRequired facts"
  shows "is_lit (decision_of r) ''ROUTE_SOL_CONTRACT_CHECK'' \<or> is_lit (decision_of r) ''FAIL_NO_SUBSTITUTE''"
  using assms by (elim decideRoute_cases) (auto simp: isExhausted_def dest: emitSol_decision)

lemma decideRoute_stuck:
  assumes "decideRoute env ctx = Inr r" and "available (the (env_budget env))"
    and "resolveContractFacts env ctx = Inr facts" and "\<not> f_reviewRequired facts"
    and "evaluateStuckCriteria (Some ctx) \<noteq> []"
  shows "is_lit (decision_of r) ''STOP_STUCK''"
    and "is_lit (own ''reasonCode'' (Some r)) (hd (evaluateStuckCriteria (Some ctx)))"
  using assms by (elim decideRoute_cases; auto simp: isExhausted_def dest: emit_cases)+

lemma emitSol_gate:
  assumes "emitSol env ctx dec reason ev refs = Inr r" and "one_of SOL_DECISIONS (decision_of r)"
  shows "nullish (sol_command ctx)" and "\<not> configuredEndpoint (ctx_config ctx) CLASSIC_SOL_MODEL"
    and "\<exists>st. assertCodexOAuthAvailable (env_oauth env) (ctx_get ''environment'' ctx) = Inr st"
  using assms by (elim emitSol_cases; auto simp: SOL_DECISIONS_def dest: emit_decision)+

text \<open>The four ways a record comes about: a plain stop, a SOL route, an implementation, an escalation.\<close>

definition via_stop :: "route_env \<Rightarrow> json \<Rightarrow> json \<Rightarrow> bool" where
  "via_stop env ctx r \<longleftrightarrow> (\<exists>dec reason ev refs. dec \<in> set TERMINAL_DECISIONS \<and>
     emit env ctx dec reason ev None None refs = Inr r)"

definition via_sol :: "route_env \<Rightarrow> json \<Rightarrow> json \<Rightarrow> bool" where
  "via_sol env ctx r \<longleftrightarrow> (\<exists>dec reason ev refs. dec \<in> set SOL_DECISIONS \<and> emitSol env ctx dec reason ev refs = Inr r)"

definition via_implementation :: "route_env \<Rightarrow> json \<Rightarrow> json \<Rightarrow> bool" where
  "via_implementation env ctx r \<longleftrightarrow> (\<exists>role reason ev refs. implementationRoute env ctx role reason ev refs = Inr r)"

definition via_escalation :: "route_env \<Rightarrow> json \<Rightarrow> json \<Rightarrow> bool" where
  "via_escalation env ctx r \<longleftrightarrow> decide_escalation env ctx (ctx_get ''escalation'' ctx) = Inr r"

definition routed :: "route_env \<Rightarrow> json \<Rightarrow> json \<Rightarrow> bool" where
  "routed env ctx r \<longleftrightarrow> via_stop env ctx r \<or> via_sol env ctx r \<or> via_implementation env ctx r \<or> via_escalation env ctx r"

lemma via_stopI: "emit env ctx dec reason ev None None refs = Inr r \<Longrightarrow> dec \<in> set TERMINAL_DECISIONS \<Longrightarrow> routed env ctx r"
  unfolding routed_def via_stop_def by blast

lemma via_solI: "emitSol env ctx dec reason ev refs = Inr r \<Longrightarrow> dec \<in> set SOL_DECISIONS \<Longrightarrow> routed env ctx r"
  unfolding routed_def via_sol_def by blast

lemma via_implementationI: "implementationRoute env ctx role reason ev refs = Inr r \<Longrightarrow> routed env ctx r"
  unfolding routed_def via_implementation_def by blast

lemma via_escalationI: "decide_escalation env ctx (ctx_get ''escalation'' ctx) = Inr r \<Longrightarrow> routed env ctx r"
  unfolding routed_def via_escalation_def by blast

lemmas via_rules = via_stopI via_solI via_implementationI via_escalationI

lemmas decision_names = TERMINAL_DECISIONS_def SOL_DECISIONS_def

lemma handleReviewPassed_routed: "handleReviewPassed env ctx facts review = Inr r \<Longrightarrow> routed env ctx r"
  unfolding handleReviewPassed_def Let_def
  by (auto split: if_splits option.splits elim!: via_rules simp: decision_names)

lemma decide_review_routed: "decide_review env ctx facts = Inr r \<Longrightarrow> routed env ctx r"
  unfolding decide_review_def Let_def
  by (auto split: if_splits elim!: via_rules handleReviewPassed_routed simp: decision_names)

lemma decide_by_state_routed: "decide_by_state env ctx facts = Inr r \<Longrightarrow> routed env ctx r"
  unfolding decide_by_state_def decide_failure_def Let_def
  by (auto split: if_splits elim!: via_rules decide_review_routed simp: decision_names)

lemma decide_open_routed: "decide_open env ctx facts = Inr r \<Longrightarrow> routed env ctx r"
  unfolding decide_open_def decide_accepted_def Let_def
  by (auto split: if_splits option.splits simp: decision_names
      elim!: via_rules handleReviewPassed_routed decide_by_state_routed)

lemma decideRoute_routed: "decideRoute env ctx = Inr r \<Longrightarrow> routed env ctx r"
  by (erule decideRoute_cases) (auto elim!: via_rules decide_open_routed simp: decision_names)

lemma via_stop_decision: "via_stop env ctx r \<Longrightarrow> one_of TERMINAL_DECISIONS (decision_of r)"
  by (auto simp: via_stop_def dest!: emit_decision)

lemma via_sol_decision: "via_sol env ctx r \<Longrightarrow> one_of (''FAIL_NO_SUBSTITUTE'' # SOL_DECISIONS) (decision_of r)"
  unfolding via_sol_def by (elim exE conjE) (drule emitSol_decision, auto)

lemma via_implementation_decision:
  "via_implementation env ctx r \<Longrightarrow> one_of [''ROUTE_IMPLEMENT_FLASH'', ''FAIL_NO_SUBSTITUTE''] (decision_of r)"
  unfolding via_implementation_def by (elim exE conjE) (drule implementationRoute_decision, auto)

lemma via_escalation_decision: "via_escalation env ctx r \<Longrightarrow>
    one_of [''ROUTE_IMPLEMENT_PRO_MAX'', ''ROUTE_IMPLEMENT_FLASH_MAX'', ''FAIL_NO_SUBSTITUTE''] (decision_of r)"
  unfolding via_escalation_def by (rule decide_escalation_decision)

text \<open>
  A SOL decision is taken only without a local command, with the classic channel unconfigured and
  Pi's OAuth store usable, and it targets exactly the codex model.
\<close>

lemma decideRoute_sol_gate:
  assumes dec: "decideRoute env ctx = Inr r" and sol: "one_of SOL_DECISIONS (decision_of r)"
  shows "nullish (sol_command ctx)" and "\<not> configuredEndpoint (ctx_config ctx) CLASSIC_SOL_MODEL"
    and "\<exists>st. assertCodexOAuthAvailable (env_oauth env) (ctx_get ''environment'' ctx) = Inr st"
    and "is_lit (own ''targetModel'' (Some r)) ''gpt-5.6-sol''"
    and "is_lit (own ''targetProvider'' (Some r)) ''pi''"
    and "is_lit (own ''reasoningLevel'' (Some r)) ''XHIGH''"
proof -
  have "via_sol env ctx r"
    using decideRoute_routed [OF dec] sol
    by (auto simp: routed_def decision_names dest!: via_stop_decision via_implementation_decision via_escalation_decision)
       (auto simp: one_of_iff)
  then obtain d reason ev refs where e: "emitSol env ctx d reason ev refs = Inr r"
    unfolding via_sol_def by blast
  show "nullish (sol_command ctx)" "\<not> configuredEndpoint (ctx_config ctx) CLASSIC_SOL_MODEL"
    "\<exists>st. assertCodexOAuthAvailable (env_oauth env) (ctx_get ''environment'' ctx) = Inr st"
    using emitSol_gate [OF e sol] by blast+
  show "is_lit (own ''targetModel'' (Some r)) ''gpt-5.6-sol''" "is_lit (own ''targetProvider'' (Some r)) ''pi''"
    "is_lit (own ''reasoningLevel'' (Some r)) ''XHIGH''"
    using decideRoute_valid(2) [OF dec] sol by (simp_all add: route_lawful_def Let_def)
qed

text \<open>Pro MAX only answers a request of the context, and records its justification.\<close>

lemma decideRoute_pro_max:
  assumes dec: "decideRoute env ctx = Inr r" and pm: "is_lit (decision_of r) ''ROUTE_IMPLEMENT_PRO_MAX''"
  defines "esc \<equiv> ctx_get ''escalation'' ctx"
  shows "is_lit (own ''model'' esc) ''deepseek-pro-max''" and "one_of PRO_MAX_BASES (own ''basis'' esc)"
    and "nonempty_string (own ''detail'' esc)"
    and "own ''escalationJustification'' (Some r)
      = Some (JObj [(''basis'', the (own ''basis'' esc)), (''detail'', the (own ''detail'' esc))])"
proof -
  have "via_escalation env ctx r"
    using decideRoute_routed [OF dec] pm
    by (auto simp: routed_def decision_names dest!: via_stop_decision via_sol_decision via_implementation_decision)
  then have e: "decide_escalation env ctx esc = Inr r"
    by (simp add: via_escalation_def esc_def)
  have v: "isValidEscalationBasis (own ''basis'' esc)" "nonempty_string (own ''detail'' esc)"
    using e by (auto simp: decide_escalation_def Let_def)
  have m: "is_lit (own ''model'' esc) ''deepseek-pro-max''"
    using e pm by (auto simp: decide_escalation_def Let_def split: if_splits elim!: or_fail_cases dest!: emit_decision)
  then show "is_lit (own ''model'' esc) ''deepseek-pro-max''" .
  show "one_of PRO_MAX_BASES (own ''basis'' esc)"
    using e m by (auto simp: decide_escalation_def Let_def)
  show "nonempty_string (own ''detail'' esc)" by (rule v(2))
  have "own ''escalationJustification'' (Some r)
      = Some (JObj [(''basis'', or_null (own ''basis'' esc)), (''detail'', or_null (own ''detail'' esc))])"
    using e m pm by (auto simp: decide_escalation_def Let_def elim!: or_fail_cases dest: emit_decision emit_cases(6))
  then show "own ''escalationJustification'' (Some r)
      = Some (JObj [(''basis'', the (own ''basis'' esc)), (''detail'', the (own ''detail'' esc))])"
    using v by (auto simp: isValidEscalationBasis_def one_of_iff nonempty_string_iff or_null_def)
qed

text \<open>
  No silent substitution: an implementation record names the head of the ladder, or it says what
  it substitutes and the configuration names the model it chose.
\<close>

lemma decideRoute_no_silent_substitute:
  assumes dec: "decideRoute env ctx = Inr r" and im: "is_lit (decision_of r) ''ROUTE_IMPLEMENT_FLASH''"
    and other: "\<not> is_lit (own ''targetModel'' (Some r)) LADDER_HEAD"
  shows "is_lit (own ''substituteOf'' (Some r)) LADDER_HEAD"
    and "\<exists>m. own ''targetModel'' (Some r) = Some m \<and>
      (own LADDER_HEAD (own ''exactSubstitutes'' (ctx_config ctx)) = Some m \<or>
       m \<in> set (arr_or_empty (own ''enableOptionalFallbacks'' (ctx_config ctx))))"
    and "one_of [''terra'', ''luna''] (own ''targetModel'' (Some r))"
proof -
  have "via_implementation env ctx r"
    using decideRoute_routed [OF dec] im
    by (auto simp: routed_def decision_names dest!: via_stop_decision via_sol_decision via_escalation_decision)
  then obtain res t reason ev refs where res: "resolveImplementationModel (ctx_config ctx) = Inr res"
    and e: "emit env ctx ''ROUTE_IMPLEMENT_FLASH'' reason ev (Some t) None refs = Inr r"
    and t: "t_model t = or_null (own ''modelKey'' (Some (r_spec res)))" "t_substituteOf t = r_substituteOf res"
    using im unfolding via_implementation_def
    by (elim exE implementationRoute_cases) (auto dest!: emit_decision)
  note rec = emit_cases(7,8) [OF e HOL.refl]
  have law: "one_of IMPLEMENTATION_MODELS (own ''targetModel'' (Some r))"
    "\<not> is_lit (own ''targetModel'' (Some r)) ''deepseek-pro-max''"
    using decideRoute_valid(2) [OF dec] im
    by (auto simp: route_lawful_def Let_def IMPLEMENTATION_DECISIONS_def)
  then show "one_of [''terra'', ''luna''] (own ''targetModel'' (Some r))"
    using other by (auto simp: one_of_iff IMPLEMENTATION_MODELS_def LADDER_HEAD_def)
  from res have "is_lit (own ''substituteOf'' (Some r)) LADDER_HEAD \<and>
      (\<exists>m. own ''targetModel'' (Some r) = Some m \<and>
        (own LADDER_HEAD (own ''exactSubstitutes'' (ctx_config ctx)) = Some m \<or>
         m \<in> set (arr_or_empty (own ''enableOptionalFallbacks'' (ctx_config ctx)))))"
  proof (cases rule: resolveImplementationModel_cases)
    case ladder
    then have "is_lit (own ''targetModel'' (Some r)) LADDER_HEAD"
      using discoverModel_cases(4) rec(1) t(1) by (simp add: or_null_def)
    with other show ?thesis by simp
  next
    case (exact sub)
    then show ?thesis
      using discoverModel_cases(4) [OF exact(3)] rec t by (simp add: or_null_def)
  next
    case (fallback k)
    then show ?thesis
      using discoverModel_cases(4) [OF fallback(3)] rec t by (simp add: or_null_def)
  qed
  then show "is_lit (own ''substituteOf'' (Some r)) LADDER_HEAD"
    and "\<exists>m. own ''targetModel'' (Some r) = Some m \<and>
      (own LADDER_HEAD (own ''exactSubstitutes'' (ctx_config ctx)) = Some m \<or>
       m \<in> set (arr_or_empty (own ''enableOptionalFallbacks'' (ctx_config ctx))))"
    by blast+
qed

end
