(* ===== verification/Lcim_Samples.thy ===== *)
theory Lcim_Samples
  imports Contract_Build Route_Laws
begin

text \<open>
  Concrete inputs on which the properties of the root theory are evaluated: a compiled semantic
  contract of a high-risk class with one side effect, and routing contexts over it.  The hash is
  a constant function here, which makes the identities literal.
\<close>

section \<open>A contract\<close>

definition zeros :: "nat \<Rightarrow> string" where
  "zeros n = replicate n (CHR ''0'')"

definition sample_sha :: digest_fun where
  "sample_sha t = zeros 64"

definition sample_effect :: json where
  "sample_effect = JObj [(''gate'', JStr ''checkout''), (''scope'', JStr ''network''),
     (''requirement'', JStr ''no call''), (''expectedCount'', JInt 0)]"

definition sample_effect_id :: string where
  "sample_effect_id = ''se_'' @ zeros 64"

definition sample_sources :: json where
  "sample_sources = JArr [JObj [(''key'', JStr ''orders''), (''kind'', JStr ''schema''),
     (''ref'', JStr ''schema/orders''), (''authority'', JStr ''orders team'')]]"

definition sample_concepts :: json where
  "sample_concepts = JArr [JObj [(''name'', JStr ''orderStatus''), (''kind'', JStr ''field''),
     (''ownership'', JStr ''orders''), (''authoritativeFieldNames'', JArr [JStr ''status'']),
     (''sourceObjectKey'', JStr ''orders'')]]"

definition sample_input :: json where
  "sample_input = JObj
    [(''contractKey'', JStr ''order-status''), (''title'', JStr ''Order status''), (''riskClass'', JStr ''FINANCIAL''),
     (''sourceObjects'', sample_sources), (''concepts'', sample_concepts), (''distinctConcepts'', JArr []),
     (''negativeSideEffects'', JArr [sample_effect]), (''factsEstablished'', JArr []),
     (''unresolvedSemantics'', JArr [])]"

definition sample_time :: string where
  "sample_time = ''2026-01-01T00:00:00Z''"

definition sample_stamped_effect :: json where
  "sample_stamped_effect = JObj [(''gate'', JStr ''checkout''), (''scope'', JStr ''network''),
     (''requirement'', JStr ''no call''), (''expectedCount'', JInt 0), (''sideEffectId'', JStr sample_effect_id)]"

definition sample_contract :: json where
  "sample_contract = JObj
    [(''schemaName'', JStr ''lcim.semantic-contract''), (''schemaVersion'', JStr ''2.0.0''),
     (''contractKey'', JStr ''order-status''), (''title'', JStr ''Order status''),
     (''compileStatus'', JStr ''COMPILED''), (''riskClass'', JStr ''FINANCIAL''),
     (''compiledAt'', JStr sample_time), (''sourceObjects'', sample_sources), (''concepts'', sample_concepts),
     (''distinctConcepts'', JArr []), (''negativeSideEffects'', JArr [sample_stamped_effect]),
     (''factsEstablished'', JArr []), (''unresolvedSemantics'', JArr []), (''semanticDigest'', JStr (zeros 64))]"

lemmas sample_parts = sample_sources_def sample_concepts_def sample_effect_def sample_stamped_effect_def
  sample_effect_id_def sample_time_def zeros_def

lemma sample_compiled: "compile_stamped sample_sha (JStr sample_time) (Some sample_input) = sample_contract"
  by (simp add: sample_contract_def compile_stamped_def compile_draft_def Let_def sample_input_def or_null_def
      computeSemanticDigest_def sideEffectIdForSpec_def sample_sha_def computeCompileStatus_def
      stamp_side_effect_def sample_parts)

lemma sample_schema_valid:
  "validate_against_schema lcim_regexps sample_contract SEMANTIC_CONTRACT_SCHEMA = Inr []"
  by code_simp

lemma sample_rules: "applySemanticRules sample_sha sample_contract = ([], [])"
  by (simp add: sample_contract_def applySemanticRules_def source_key_issues_def repeated_def source_keys_def
      source_ref_issues_def transition_issues_def field_overlap_issues_def alternative_warnings_def
      concept_warnings_def status_issues_def computeCompileStatus_def entries_def count_issues_def
      isValidSideEffectId_def pattern_simps sideEffectIdForSpec_def computeSemanticDigest_def sample_sha_def
      digest_issues_def Let_def sample_parts)

lemma sample_valid: "validateSemanticContract sample_sha sample_contract = Inr ([], [])"
  unfolding validateSemanticContract_def sample_schema_valid
  by (simp add: sample_rules)

lemma sample_authoritative: "isAuthoritative sample_sha (Some sample_contract)"
  unfolding isAuthoritative_iff using sample_valid by (auto simp: sample_contract_def)

lemma sample_input_ok: "assert_compiler_input (Some sample_input) = Inr ()"
  by code_simp

lemma sample_clean: "no_proto sample_contract" "wf_json sample_contract"
  by (simp_all add: sample_contract_def sample_parts)

lemma sample_compile:
  "compileSemanticContract sample_sha sample_time None (Some sample_input) = Inr sample_contract"
proof -
  have "with_warnings sample_contract [] = sample_contract"
    by (simp add: with_warnings_def sample_contract_def)
  then show ?thesis
    by (simp add: compileSemanticContract_def sample_input_ok sample_compiled sample_valid or_else_def
        deep_clone_id sample_clean Let_def)
qed

section \<open>A repair\<close>

definition sample_repair_input :: json where
  "sample_repair_input = JObj
    [(''semanticContract'', sample_contract), (''rejectedAcceptanceRefs'', JArr [JStr sample_effect_id]),
     (''objective'', JStr ''stop the call''), (''violation'', JStr ''one call''), (''requiredBehavior'', JStr ''no call''),
     (''mustChange'', JArr [JObj [(''target'', JStr ''network''), (''change'', JStr ''guard'')]]),
     (''verification'', JArr [JObj [(''method'', JStr ''test''), (''expectation'', JStr ''zero'')]])]"

definition sample_repair_id :: json where
  "sample_repair_id = JStr (''lcim_repair_'' @ zeros 32)"

definition sample_repair :: json where
  "sample_repair = repair_draft sample_repair_id (JStr sample_time) sample_contract [sample_stamped_effect]
     [JStr sample_effect_id] (Some sample_repair_input)"

lemma sample_source: "items_of ''negativeSideEffects'' sample_contract = [sample_stamped_effect]"
  by (simp add: sample_contract_def)

lemma sample_repair_document:
  "repair_document sample_sha sample_repair_id (JStr sample_time) (Some sample_repair_input)
     = Inr (sample_contract, sample_repair)"
proof -
  have own: "own ''semanticContract'' (Some sample_repair_input) = Some sample_contract"
    "own ''rejectedAcceptanceRefs'' (Some sample_repair_input) = Some (JArr [JStr sample_effect_id])"
    "own ''acceptanceTests'' (Some sample_repair_input) = None"
    by (simp_all add: sample_repair_input_def)
  have refs: "assert_rejected_refs (Some (JArr [JStr sample_effect_id])) = Inr [JStr sample_effect_id]"
    by code_simp
  have inp: "assert_repair_input [sample_stamped_effect] [JStr sample_effect_id] (Some sample_repair_input) = Inr ()"
    by (simp add: assert_repair_input_def sample_repair_input_def assertString_def assertArrayOf_def
        assert_strings_def assertPlainObject_def allowed_scopes_def rejected_scopes_def source_by_id_def
        sample_stamped_effect_def or_empty_def assert_finding_refs_def)
  have src: "source_by_id [sample_stamped_effect] (Some (JStr sample_effect_id)) \<noteq> None"
    by (simp add: source_by_id_def sample_stamped_effect_def)
  have obj: "plain_object (Some sample_repair_input)" "plain_object (Some sample_contract)"
    "is_lit (fld ''schemaName'' sample_contract) ''lcim.semantic-contract''"
    by (simp_all add: sample_repair_input_def sample_contract_def)
  show ?thesis
    unfolding repair_document_def assertPlainObject_def own Let_def option.sel sample_source
    by (simp add: obj sample_authoritative refs src [simplified] inp sample_repair_def del: option.sel)
qed

lemma sample_repair_valid:
  "validateAcceptanceContract sample_sha sample_repair (Some sample_contract) = Inr ([], [])"
proof -
  have schema: "validate_against_schema lcim_regexps sample_repair ACCEPTANCE_CONTRACT_SCHEMA = Inr []"
    by code_simp
  have obj: "is_obj sample_repair" "is_obj sample_contract"
    by (simp_all add: sample_repair_def repair_draft_def sample_contract_def Let_def)
  have "acceptance_sound sample_repair"
  proof -
    have tests: "arr_or_empty (own ''acceptanceTests'' (Some sample_repair_input)) = []"
      by (simp add: sample_repair_input_def)
    have count: "fld ''expectedCount'' sample_stamped_effect = Some (JInt 0)"
      "deep_clone_json sample_stamped_effect = sample_stamped_effect"
      by (simp_all add: sample_stamped_effect_def assignable_def)
    show ?thesis
      unfolding acceptance_sound_def sample_repair_def repair_draft_own tests
      by (simp add: guard_test_members count del: deep_clone_json.simps)
  qed
  moreover have "binding_issues sample_sha sample_repair sample_contract = Inr []"
    by (rule repair_document_bound [OF sample_repair_document sample_clean]) (simp add: sample_repair_input_def)
  ultimately show ?thesis
    using obj schema sample_authoritative
    by (auto simp: validateAcceptanceContract_valid_iff applyAcceptanceRules_iff binding_issues_iff)
qed

lemma sample_built:
  "buildRepairContract sample_sha sample_repair_id (JStr sample_time) (Some sample_repair_input)
     = Inr (deep_clone_json sample_repair)"
  by (simp add: buildRepairContract_def sample_repair_document sample_repair_valid)

section \<open>Routing contexts\<close>

definition sample_host :: oauth_host where
  "sample_host = \<lparr>oh_env = JObj [(''HOME'', JStr ''/home/u'')], oh_homedir = ''/home/u'',
     oh_exists = (\<lambda>p. p = ''/home/u/.pi/agent/auth.json''),
     oh_read = (\<lambda>p. Inr (JObj [(''openai-codex'', JObj [(''type'', JStr ''oauth''), (''access'', JStr ''a''),
        (''refresh'', JStr ''r''), (''expires'', JInt 0)])]))\<rparr>"

definition sample_env :: "int \<Rightarrow> route_env" where
  "sample_env consumed =
     \<lparr>env_budget = Some \<lparr>unitCalls = 3, runCalls = 5, unitCallsConsumed = consumed, runCallsConsumed = consumed\<rparr>,
      env_seam = False, env_oauth = sample_host, env_sha = sample_sha,
      env_fresh = JStr (''lcim_route_'' @ zeros 32), env_now = JStr sample_time\<rparr>"

definition sample_ctx :: "string \<Rightarrow> (string \<times> json) list \<Rightarrow> json" where
  "sample_ctx st extra = JObj ([(''workUnitId'', JStr (''lcim_wu_'' @ zeros 32)), (''state'', JStr st)] @ extra)"

definition sol_config :: json where
  "sol_config = JObj [(''endpoints'', JObj [(''gpt-5.6-sol'', JObj [])])]"

definition terra_config :: json where
  "terra_config = JObj [(''endpoints'', JObj [(''terra'', JObj [])]), (''enableOptionalFallbacks'', JArr [JStr ''terra''])]"

definition pro_config :: json where
  "pro_config = JObj [(''endpoints'', JObj [(''deepseek-pro-max'', JObj [])])]"

definition review_ctx :: json where
  "review_ctx = sample_ctx ''ROUTING_READY'' [(''contractReviewRequired'', JBool True)]"

definition stuck_ctx :: json where
  "stuck_ctx = sample_ctx ''AWAITING_IMPLEMENTATION''
     [(''resultAccepted'', JBool True), (''stuckEvidence'', JObj [(''conflation'', JBool True)])]"

definition diagnose_ctx :: json where
  "diagnose_ctx = sample_ctx ''AWAITING_IMPLEMENTATION''
     [(''config'', sol_config), (''latestRejection'', JObj [(''rejectionCode'', JStr ''SEMANTIC_CONFLATION'')])]"

definition pro_ctx :: json where
  "pro_ctx = sample_ctx ''AWAITING_SOL_CONTRACT_CHECK''
     [(''config'', pro_config), (''escalation'', JObj [(''model'', JStr ''deepseek-pro-max''),
        (''basis'', JStr ''SOL_DIRECTED_REPAIR''), (''detail'', JStr ''directed'')])]"

definition terra_ctx :: json where
  "terra_ctx = sample_ctx ''ROUTING_READY'' [(''config'', terra_config)]"

definition complete_ctx :: json where
  "complete_ctx = sample_ctx ''AWAITING_SOL_FINAL_REVIEW''
     [(''semanticContract'', sample_contract), (''resultAccepted'', JBool True),
      (''solReview'', JObj [(''verdict'', JStr ''PASSED'')])]"

text \<open>The decisions on these contexts, as far as the properties need them.\<close>

definition decides :: "json result \<Rightarrow> (json \<Rightarrow> bool) \<Rightarrow> bool" where
  "decides d P = (case d of Inl _ \<Rightarrow> False | Inr r \<Rightarrow> P r)"

lemma decides_iff: "decides d P \<longleftrightarrow> (\<exists>r. d = Inr r \<and> P r)"
  by (cases d) (simp_all add: decides_def)

lemma sample_exhausted: "\<exists>r. decideRoute (sample_env 3) (sample_ctx ''ROUTING_READY'' []) = Inr r"
proof -
  have "decides (decideRoute (sample_env 3) (sample_ctx ''ROUTING_READY'' [])) (\<lambda>_. True)"
    by code_simp
  then show ?thesis by (simp add: decides_iff)
qed

lemma sample_review: "\<exists>r. decideRoute (sample_env 0) review_ctx = Inr r"
proof -
  have "decides (decideRoute (sample_env 0) review_ctx) (\<lambda>_. True)"
    by code_simp
  then show ?thesis by (simp add: decides_iff)
qed

lemma sample_stuck: "\<exists>r. decideRoute (sample_env 0) stuck_ctx = Inr r"
proof -
  have "decides (decideRoute (sample_env 0) stuck_ctx) (\<lambda>_. True)"
    by code_simp
  then show ?thesis by (simp add: decides_iff)
qed

lemma sample_diagnose:
  "\<exists>r. decideRoute (sample_env 0) diagnose_ctx = Inr r \<and> is_lit (decision_of r) ''ROUTE_SOL_DIAGNOSE''"
proof -
  have "decides (decideRoute (sample_env 0) diagnose_ctx) (\<lambda>r. is_lit (decision_of r) ''ROUTE_SOL_DIAGNOSE'')"
    by code_simp
  then show ?thesis by (simp add: decides_iff)
qed

lemma sample_pro:
  "\<exists>r. decideRoute (sample_env 0) pro_ctx = Inr r \<and> is_lit (decision_of r) ''ROUTE_IMPLEMENT_PRO_MAX''"
proof -
  have "decides (decideRoute (sample_env 0) pro_ctx) (\<lambda>r. is_lit (decision_of r) ''ROUTE_IMPLEMENT_PRO_MAX'')"
    by code_simp
  then show ?thesis by (simp add: decides_iff)
qed

lemma sample_terra:
  "\<exists>r. decideRoute (sample_env 0) terra_ctx = Inr r \<and> is_lit (decision_of r) ''ROUTE_IMPLEMENT_FLASH'' \<and>
     \<not> is_lit (own ''targetModel'' (Some r)) LADDER_HEAD"
proof -
  have "decides (decideRoute (sample_env 0) terra_ctx)
      (\<lambda>r. is_lit (decision_of r) ''ROUTE_IMPLEMENT_FLASH'' \<and> \<not> is_lit (own ''targetModel'' (Some r)) LADDER_HEAD)"
    by code_simp
  then show ?thesis by (simp add: decides_iff)
qed

lemma sample_complete_facts:
  "resolveContractFacts (sample_env 0) complete_ctx
     = Inr \<lparr>f_contract = Some sample_contract, f_reviewRequired = False, f_highRisk = True\<rparr>"
proof -
  have ctx: "ctx_get ''semanticContract'' complete_ctx = Some sample_contract"
    "ctx_get ''contractReviewRequired'' complete_ctx = None"
    by (simp_all add: complete_ctx_def sample_ctx_def)
  have "\<not> nullish (Some sample_contract)" "fld ''unresolvedSemantics'' sample_contract = Some (JArr [])"
    "fld ''riskClass'' sample_contract = Some (JStr ''FINANCIAL'')"
    by (simp_all add: sample_contract_def)
  then show ?thesis
    unfolding resolveContractFacts_def ctx
    by (simp add: sample_env_def sample_valid computeCompileStatus_def isHighRiskClass_def HIGH_RISK_CLASSES_def Let_def)
qed

lemma sample_complete:
  "\<exists>r. decideRoute (sample_env 0) complete_ctx = Inr r \<and> is_lit (decision_of r) ''ROUTE_COMPLETE''"
proof -
  have guard: "assertCtx (sample_env 0) complete_ctx = Inr ()" "\<not> isTerminalState (ctx_state complete_ctx)"
    "\<not> isExhausted (the (env_budget (sample_env 0)))" "evaluateStuckCriteria (Some complete_ctx) = []"
    by code_simp+
  have "decides (decide_open (sample_env 0) complete_ctx
      \<lparr>f_contract = Some sample_contract, f_reviewRequired = False, f_highRisk = True\<rparr>)
      (\<lambda>r. is_lit (decision_of r) ''ROUTE_COMPLETE'')"
    by code_simp
  then show ?thesis
    by (simp add: decides_iff decideRoute_def guard sample_complete_facts)
qed

end
