(* ===== verification/Ledger_Events.thy ===== *)
theory Ledger_Events
  imports Lcim_Schemas Lcim_Errors Json_Text Schema_Spec
begin

text \<open>
  One event of the run ledger and the lifecycle it drives: the vocabularies of
  src/src/logging/enums.mjs, the record families of src/src/logging/schemas.mjs with the
  rules beyond their schemas, and from src/src/logging/ledger.mjs the transition check, the
  states of the invocations that a list of events gives, and their summary.  An invocation
  follows the machine \<open>lifecycle_step\<close>; \<open>lifecycle_refines\<close> says that the bookkeeping of the
  code runs that machine once for every invocation.
\<close>

section \<open>Vocabularies\<close>

datatype event_kind = START | COMPLETION | ASSESSMENT | RECONCILIATION

datatype invocation_status = STARTED | COMPLETED | ASSESSED | ORPHANED | SUPERSEDED

fun event_kind_of :: "jsval \<Rightarrow> event_kind option" where
  "event_kind_of (Some (JStr s)) =
     (if s = ''START'' then Some START
      else if s = ''COMPLETION'' then Some COMPLETION
      else if s = ''ASSESSMENT'' then Some ASSESSMENT
      else if s = ''RECONCILIATION'' then Some RECONCILIATION
      else None)"
| "event_kind_of _ = None"

fun status_text :: "invocation_status \<Rightarrow> string" where
  "status_text STARTED = ''STARTED''"
| "status_text COMPLETED = ''COMPLETED''"
| "status_text ASSESSED = ''ASSESSED''"
| "status_text ORPHANED = ''ORPHANED''"
| "status_text SUPERSEDED = ''SUPERSEDED''"

definition FINAL_INVOCATION_STATUSES :: "invocation_status list" where
  "FINAL_INVOCATION_STATUSES = [ASSESSED, ORPHANED, SUPERSEDED]"

definition INVOCATION_ROLE :: "string list" where
  "INVOCATION_ROLE = [''WORKER'', ''SOL'', ''SOL_PRO'']"

definition INVOCATION_OUTCOME :: "string list" where
  "INVOCATION_OUTCOME = [''SUCCESS'', ''FAILURE'', ''TIMEOUT'', ''TRANSPORT_ERROR'', ''CANCELED'']"

definition RECONCILIATION_REASON :: "string list" where
  "RECONCILIATION_REASON = [''CRASH_AFTER_START'', ''CRASH_AFTER_COMPLETION'', ''DUPLICATE_LIFECYCLE'', ''OTHER'']"

definition LEDGER_GENESIS_DIGEST :: string where
  "LEDGER_GENESIS_DIGEST = replicate 64 (CHR ''0'')"

section \<open>Record families\<close>

definition SPRINT_SCHEMA_VERSION :: string where
  "SPRINT_SCHEMA_VERSION = ''1.0.0''"

text \<open>A name and the parsed schema file it stands for; the version of all three is one.\<close>

definition SPRINT_SCHEMA_MANIFEST :: "(string \<times> json) list" where
  "SPRINT_SCHEMA_MANIFEST =
     [(''lcim.event'', EVENT_SCHEMA), (''lcim.invocation'', INVOCATION_SCHEMA), (''lcim.run'', RUN_SCHEMA)]"

text \<open>
  The guard uses \<open>in\<close>: a name of \<open>Object.prototype\<close> passes it and then has no file, which
  \<open>path.join\<close> refuses with a TypeError.
\<close>

definition loadSprintSchema :: "string \<Rightarrow> json result" where
  "loadSprintSchema name =
     (case map_of SPRINT_SCHEMA_MANIFEST name of
        Some s \<Rightarrow> Inr s
      | None \<Rightarrow> Inl (if name \<in> set inherited_names then TypeError else ConfigError ''unknown sprint schema name''))"

definition assertRejectedAssessmentHasRejectionCode :: "string \<Rightarrow> json \<Rightarrow> issue list" where
  "assertRejectedAssessmentHasRejectionCode name v =
     (if name \<noteq> ''lcim.event'' \<and> name \<noteq> ''lcim.invocation'' then []
      else if is_lit (own ''assessmentResult'' (Some v)) ''REJECTED'' \<and> own ''rejectionCode'' (Some v) = None
      then [(''rejectionCode'', ''rejectionCode is required when assessmentResult is REJECTED'')]
      else [])"

definition validateSprintRecord :: "string \<Rightarrow> json \<Rightarrow> issue list result" where
  "validateSprintRecord name v =
     rbind (loadSprintSchema name) (\<lambda>s.
     rbind (validate_against_schema lcim_regexps v s) (\<lambda>es.
     Inr (if es = [] then assertRejectedAssessmentHasRejectionCode name v else es)))"

definition stampSprintRecord :: "string \<Rightarrow> jsval \<Rightarrow> json result" where
  "stampSprintRecord name data =
     (if \<not> plain_object data then Inl (ConfigError ''stampSprintRecord requires a plain object'')
      else
        rbind (loadSprintSchema name) (\<lambda>_.
        let rec = JObj (put ''schemaVersion'' (JStr SPRINT_SCHEMA_VERSION)
                    (put ''schemaName'' (JStr name) (spread data))) in
        rbind (validateSprintRecord name rec) (\<lambda>es.
        if es = [] then Inr rec else Inl (SchemaValidationError es))))"

section \<open>One event\<close>

definition field_issues :: "json \<Rightarrow> string \<Rightarrow> issue list" where
  "field_issues ev f =
     (if nonempty_string (own f (Some ev)) then []
      else [(f, ''required non-empty string for START events'')])"

definition usage_issues :: "jsval \<Rightarrow> string \<Rightarrow> issue list" where
  "usage_issues usage f =
     (if int_at_least 0 (own f usage) then []
      else [(''usage.'' @ f, ''usage tokens must be non-negative integers'')])"

definition kind_issues :: "json \<Rightarrow> issue list" where
  "kind_issues ev =
     (let get = \<lambda>f. own f (Some ev) in
      case event_kind_of (get ''kind'') of
        Some START \<Rightarrow>
          concat (map (field_issues ev) [''provider'', ''model'', ''role'', ''reasoningEffort''])
          @ (if get ''role'' \<noteq> None \<and> \<not> one_of INVOCATION_ROLE (get ''role'')
             then [(''role'', ''invalid invocation role '' @ stringify_val (get ''role''))] else [])
      | Some COMPLETION \<Rightarrow>
          (if get ''outcome'' = None then [(''outcome'', ''required for COMPLETION events'')]
           else if \<not> one_of INVOCATION_OUTCOME (get ''outcome'')
           then [(''outcome'', ''invalid outcome '' @ stringify_val (get ''outcome''))] else [])
          @ (if get ''usage'' \<noteq> None
             then concat (map (usage_issues (get ''usage'')) [''inputTokens'', ''outputTokens'', ''totalTokens''])
             else [])
      | Some ASSESSMENT \<Rightarrow>
          (if get ''assessmentResult'' = None then [(''assessmentResult'', ''required for ASSESSMENT events'')] else [])
      | Some RECONCILIATION \<Rightarrow>
          (if get ''reconciliationReason'' = None
           then [(''reconciliationReason'', ''required for RECONCILIATION events'')] else [])
      | None \<Rightarrow> [(''kind'', ''unknown event kind '' @ stringify_val (get ''kind''))])"

definition validateEventInstance :: "json \<Rightarrow> issue list result" where
  "validateEventInstance ev =
     rbind (validateSprintRecord ''lcim.event'' ev) (\<lambda>es.
     Inr (if es \<noteq> [] then es
          else (if int_at_least 1 (own ''seq'' (Some ev)) then []
                else [(''seq'', ''seq must be a positive integer (monotonic from 1)'')])
               @ kind_issues ev))"

section \<open>The state of an invocation\<close>

record invocation_state =
  st_invocationId :: jsval
  st_runId :: jsval
  st_workUnitId :: jsval
  st_status :: "invocation_status option"
  st_counts :: "event_kind \<Rightarrow> nat"
  st_provider :: jsval
  st_model :: jsval
  st_role :: jsval
  st_reasoningEffort :: jsval
  st_startedAt :: jsval
  st_completedAt :: jsval
  st_assessedAt :: jsval
  st_reconciledAt :: jsval
  st_outcome :: jsval
  st_usage :: jsval
  st_errorCode :: jsval
  st_rejectionCode :: jsval
  st_assessmentResult :: jsval
  st_summary :: jsval
  st_evidenceRefs :: jsval
  st_reconciliationReason :: jsval
  st_supersededByInvocationId :: jsval
  st_lastSeq :: jsval

text \<open>
  The Map from invocation ids to states, in insertion order.  A key is found by SameValueZero,
  so an object or an array read from another event is never the same key.
\<close>

type_synonym states = "(jsval \<times> invocation_state) list"

fun same_key :: "jsval \<Rightarrow> jsval \<Rightarrow> bool" where
  "same_key (Some (JObj _)) _ = False"
| "same_key (Some (JArr _)) _ = False"
| "same_key a b = (a = b)"

fun state_of :: "states \<Rightarrow> jsval \<Rightarrow> invocation_state option" where
  "state_of [] k = None"
| "state_of ((k', st) # S) k = (if same_key k' k then Some st else state_of S k)"

fun set_state :: "jsval \<Rightarrow> invocation_state \<Rightarrow> states \<Rightarrow> states" where
  "set_state k st [] = [(k, st)]"
| "set_state k st ((k', st') # S) = (if same_key k' k then (k', st) # S else (k', st') # set_state k st S)"

definition newInvocationState :: "json \<Rightarrow> invocation_state" where
  "newInvocationState ev =
     \<lparr>st_invocationId = own ''invocationId'' (Some ev), st_runId = own ''runId'' (Some ev),
      st_workUnitId = own ''workUnitId'' (Some ev), st_status = None, st_counts = (\<lambda>_. 0),
      st_provider = None, st_model = None, st_role = None, st_reasoningEffort = None,
      st_startedAt = None, st_completedAt = None, st_assessedAt = None, st_reconciledAt = None,
      st_outcome = None, st_usage = None, st_errorCode = None, st_rejectionCode = None,
      st_assessmentResult = None, st_summary = None, st_evidenceRefs = None,
      st_reconciliationReason = None, st_supersededByInvocationId = None, st_lastSeq = None\<rparr>"

text \<open>\<open>undefined\<close> keeps the value that is there.\<close>

definition or_keep :: "jsval \<Rightarrow> jsval \<Rightarrow> jsval" where
  "or_keep new old = (case new of None \<Rightarrow> old | Some v \<Rightarrow> Some v)"

definition bump :: "event_kind \<Rightarrow> json \<Rightarrow> invocation_state \<Rightarrow> invocation_state" where
  "bump k ev st = st\<lparr>st_counts := (st_counts st)(k := Suc (st_counts st k)), st_lastSeq := own ''seq'' (Some ev)\<rparr>"

text \<open>Only an event whose transition is legal is applied, so its kind is one of the four.\<close>

definition applyEvent :: "invocation_state \<Rightarrow> json \<Rightarrow> invocation_state" where
  "applyEvent st ev =
     (let get = \<lambda>f. own f (Some ev) in
      case event_kind_of (get ''kind'') of
        Some START \<Rightarrow>
          (bump START ev st)\<lparr>st_status := Some STARTED, st_startedAt := get ''occurredAt'',
             st_provider := get ''provider'', st_model := get ''model'', st_role := get ''role'',
             st_reasoningEffort := get ''reasoningEffort''\<rparr>
      | Some COMPLETION \<Rightarrow>
          (bump COMPLETION ev st)\<lparr>st_status := Some COMPLETED, st_completedAt := get ''occurredAt'',
             st_outcome := get ''outcome'', st_usage := get ''usage'',
             st_errorCode := get ''errorCode'', st_rejectionCode := get ''rejectionCode''\<rparr>
      | Some ASSESSMENT \<Rightarrow>
          (bump ASSESSMENT ev st)\<lparr>st_status := Some ASSESSED, st_assessedAt := get ''occurredAt'',
             st_assessmentResult := get ''assessmentResult'', st_summary := get ''summary'',
             st_evidenceRefs := get ''evidenceRefs'',
             st_rejectionCode := or_keep (get ''rejectionCode'') (st_rejectionCode st)\<rparr>
      | Some RECONCILIATION \<Rightarrow>
          (bump RECONCILIATION ev st)\<lparr>
             st_status := Some (if get ''replacementInvocationId'' \<noteq> None then SUPERSEDED else ORPHANED),
             st_reconciledAt := get ''occurredAt'',
             st_reconciliationReason := get ''reconciliationReason'',
             st_supersededByInvocationId :=
               or_keep (get ''replacementInvocationId'') (st_supersededByInvocationId st)\<rparr>
      | None \<Rightarrow> st)"

section \<open>Transitions\<close>

definition status_string :: "invocation_status option \<Rightarrow> string" where
  "status_string s = (case s of None \<Rightarrow> ''undefined'' | Some t \<Rightarrow> status_text t)"

definition replacement_problem :: "states \<Rightarrow> jsval \<Rightarrow> jsval \<Rightarrow> string option" where
  "replacement_problem S iid r =
     (if r = None then None
      else if same_key r iid
      then Some (''RECONCILIATION replacement must differ from the superseded invocation '' @ js_string iid)
      else if state_of S r = None
      then Some (''RECONCILIATION replacement '' @ js_string r @ '' has no START in this run'')
      else None)"

definition transition_problem :: "states \<Rightarrow> json \<Rightarrow> string option" where
  "transition_problem S ev =
     (let iid = own ''invocationId'' (Some ev); at = js_string iid in
      case event_kind_of (own ''kind'' (Some ev)) of
        Some START \<Rightarrow>
          (case state_of S iid of
             Some _ \<Rightarrow> Some (''duplicate START for invocation '' @ at)
           | None \<Rightarrow> None)
      | Some COMPLETION \<Rightarrow>
          (case state_of S iid of
             None \<Rightarrow> Some (''COMPLETION without START for invocation '' @ at)
           | Some st \<Rightarrow>
               (if st_status st \<noteq> Some STARTED
                then Some (''COMPLETION for invocation '' @ at @ '' in state '' @ status_string (st_status st))
                else None))
      | Some ASSESSMENT \<Rightarrow>
          (case state_of S iid of
             None \<Rightarrow> Some (''ASSESSMENT without START for invocation '' @ at)
           | Some st \<Rightarrow>
               (if st_status st \<noteq> Some COMPLETED
                then Some (''ASSESSMENT for invocation '' @ at @ '' in state '' @ status_string (st_status st))
                else None))
      | Some RECONCILIATION \<Rightarrow>
          (case state_of S iid of
             None \<Rightarrow> Some (''RECONCILIATION for unknown invocation '' @ at)
           | Some st \<Rightarrow>
               (if st_status st \<noteq> Some STARTED \<and> st_status st \<noteq> Some COMPLETED
                then Some (''RECONCILIATION for invocation '' @ at @ '' in state '' @ status_string (st_status st))
                else replacement_problem S iid (own ''replacementInvocationId'' (Some ev))))
      | None \<Rightarrow> Some (''unknown event kind '' @ stringify_val (own ''kind'' (Some ev))))"

text \<open>Reading a member of \<open>null\<close> throws.\<close>

definition checkTransition :: "states \<Rightarrow> json \<Rightarrow> string option result" where
  "checkTransition S ev = (if ev = JNull then Inl TypeError else Inr (transition_problem S ev))"

definition apply_to :: "states \<Rightarrow> json \<Rightarrow> states" where
  "apply_to S ev =
     (let iid = own ''invocationId'' (Some ev) in
      set_state iid
        (applyEvent (case state_of S iid of None \<Rightarrow> newInvocationState ev | Some st \<Rightarrow> st) ev) S)"

fun build_from :: "states \<Rightarrow> issue list \<Rightarrow> json list \<Rightarrow> (states \<times> issue list) result" where
  "build_from S errs [] = Inr (S, errs)"
| "build_from S errs (ev # evs) =
     rbind (checkTransition S ev) (\<lambda>p.
       case p of
         Some msg \<Rightarrow> build_from S (errs @ [(''seq '' @ js_string (own ''seq'' (Some ev)), msg)]) evs
       | None \<Rightarrow> build_from (apply_to S ev) errs evs)"

definition buildInvocationStates :: "json list \<Rightarrow> (states \<times> issue list) result" where
  "buildInvocationStates evs = build_from [] [] evs"

section \<open>Summary\<close>

record ledger_summary =
  sum_events :: nat
  sum_invocations :: nat
  sum_starts :: nat
  sum_completions :: nat
  sum_assessments :: nat
  sum_reconciliations :: nat
  sum_lastSeq :: jsval
  sum_ledgerDigest :: jsval
  sum_incompleteInvocationIds :: "jsval list"

definition incomplete :: "invocation_state \<Rightarrow> bool" where
  "incomplete st \<longleftrightarrow> st_status st \<notin> Some ` set FINAL_INVOCATION_STATUSES"

text \<open>The default sort: by text, \<open>undefined\<close> last.\<close>

definition js_sort :: "jsval list \<Rightarrow> jsval list" where
  "js_sort vs = sort_key js_string (filter (\<lambda>v. v \<noteq> None) vs) @ filter (\<lambda>v. v = None) vs"

definition sum_kind :: "event_kind \<Rightarrow> states \<Rightarrow> nat" where
  "sum_kind k S = sum_list (map (\<lambda>e. st_counts (snd e) k) S)"

definition last_event :: "json list \<Rightarrow> jsval" where
  "last_event evs = (if evs = [] then None else Some (last evs))"

definition last_seq :: "json list \<Rightarrow> jsval" where
  "last_seq evs = (if js_truthy (last_event evs) then own ''seq'' (last_event evs) else Some (JInt 0))"

definition last_digest :: "json list \<Rightarrow> jsval" where
  "last_digest evs =
     (if js_truthy (last_event evs) then own ''digest'' (last_event evs) else Some (JStr LEDGER_GENESIS_DIGEST))"

definition summary_of :: "states \<Rightarrow> json list \<Rightarrow> ledger_summary" where
  "summary_of S evs =
     \<lparr>sum_events = length evs, sum_invocations = length S,
      sum_starts = sum_kind START S, sum_completions = sum_kind COMPLETION S,
      sum_assessments = sum_kind ASSESSMENT S, sum_reconciliations = sum_kind RECONCILIATION S,
      sum_lastSeq = last_seq evs, sum_ledgerDigest = last_digest evs,
      sum_incompleteInvocationIds =
        js_sort (map (\<lambda>e. st_invocationId (snd e)) (filter (\<lambda>e. incomplete (snd e)) S))\<rparr>"

definition summarizeLedger :: "json list \<Rightarrow> ledger_summary result" where
  "summarizeLedger evs = rbind (buildInvocationStates evs) (\<lambda>(S, _). Inr (summary_of S evs))"

end
