(* ===== verification/Json_Unique.thy ===== *)
theory Json_Unique
  imports Json_Text
begin

text \<open>
  Texts determine values: \<open>JSON.stringify\<close> is injective on JSON data, also in front of more
  input, and the ledger's \<open>canonicalJson\<close> identifies two values exactly when they are deeply
  equal.  So a digest over a canonical text covers all of a value.
\<close>

section \<open>JSON data\<close>

definition number_char :: "char \<Rightarrow> bool" where
  "number_char c \<longleftrightarrow> (CHR ''0'' \<le> c \<and> c \<le> CHR ''9'') \<or> c \<in> {CHR ''-'', CHR ''+'', CHR ''.'', CHR ''e''}"

text \<open>The text of a number that is not an integer.\<close>

definition float_text :: "string \<Rightarrow> bool" where
  "float_text t \<longleftrightarrow> list_all number_char t \<and> (CHR ''.'' \<in> set t \<or> CHR ''e'' \<in> set t)"

fun data_json :: "json \<Rightarrow> bool" where
  "data_json (JArr xs) = list_all data_json xs"
| "data_json (JObj kvs) = (distinct (map fst kvs) \<and> list_all (\<lambda>kv. data_json (snd kv)) kvs)"
| "data_json (JFloat t) = float_text t"
| "data_json (JFn _) = False"
| "data_json _ = True"

lemma data_json_wf: "data_json v \<Longrightarrow> wf_json v"
  by (induction v) (auto simp: list_all_iff snds.simps)

section \<open>Numerals\<close>

lemma digits_value_append:
  "digits_value acc (xs @ ys) = Option.bind (digits_value acc xs) (\<lambda>a. digits_value a ys)"
  by (induction xs arbitrary: acc) auto

lemma of_char_digit: "d < 10 \<Longrightarrow> (of_char (char_of (48 + d :: nat)) :: nat) = 48 + d"
  by simp

lemma digit_le: "d < 10 \<Longrightarrow> CHR ''0'' \<le> char_of (48 + d :: nat) \<and> char_of (48 + d :: nat) \<le> CHR ''9''"
  by (simp add: less_eq_char_def)

lemma digits_value_nat_str: "digits_value 0 (nat_str n) = Some n"
proof (induction n rule: nat_str.induct)
  case (1 n)
  show ?case
  proof (cases "n < 10")
    case True
    then show ?thesis using digit_le [of n] by (subst nat_str.simps) simp
  next
    case False
    have "n mod 10 < 10" by simp
    from digit_le [OF this] of_char_digit [OF this] 1 [OF False] False show ?thesis
      by (subst nat_str.simps) (simp add: digits_value_append)
  qed
qed

lemma nat_str_digits: "list_all (\<lambda>c. CHR ''0'' \<le> c \<and> c \<le> CHR ''9'') (nat_str n)"
proof (induction n rule: nat_str.induct)
  case (1 n)
  have "n mod 10 < 10" by simp
  from digit_le [OF this] 1 digit_le [of n] show ?case
    by (subst nat_str.simps) (cases "n < 10"; simp)
qed

lemma nat_str_inj: "nat_str m = nat_str n \<longleftrightarrow> m = n"
  using digits_value_nat_str by (metis option.inject)

lemma nat_str_no_minus: "nat_str n \<noteq> CHR ''-'' # s"
  using nat_str_digits [of n] by (auto simp: less_eq_char_def)

lemma int_str_inj: "int_str i = int_str j \<longleftrightarrow> i = j"
  using nat_str_no_minus nat_str_no_minus [symmetric]
  by (auto simp: int_str_def nat_str_inj split: if_splits)

lemma nat_str_no_point: "CHR ''.'' \<notin> set (nat_str n)" "CHR ''e'' \<notin> set (nat_str n)"
  using nat_str_digits [of n] by (fastforce simp: list_all_iff less_eq_char_def)+

lemma int_str_chars: "list_all number_char (int_str i)" "CHR ''.'' \<notin> set (int_str i)" "CHR ''e'' \<notin> set (int_str i)"
  using nat_str_digits nat_str_no_point
  by (auto simp: int_str_def list_all_iff number_char_def less_eq_char_def)

lemma nat_str_nonempty [simp]: "nat_str n \<noteq> []"
  by (subst nat_str.simps) simp

lemma int_str_nonempty [simp]: "int_str i \<noteq> []"
  by (simp add: int_str_def)

section \<open>Strings\<close>

definition hex_value :: "char \<Rightarrow> nat" where
  "hex_value c = (let n = of_char c in if n < 58 then n - 48 else n - 87)"

lemma hex_value_digit: "d < 16 \<Longrightarrow> hex_value (hex_digit d) = d"
  by (simp add: hex_value_def hex_digit_def Let_def)

text \<open>Reading one character of a quoted string.\<close>

fun unescape :: "string \<Rightarrow> (char \<times> string) option" where
  "unescape [] = None"
| "unescape (c # cs) =
     (if c \<noteq> CHR 0x5C then Some (c, cs)
      else case cs of
             [] \<Rightarrow> None
           | d # ds \<Rightarrow>
               (if d = CHR ''u''
                then Some (char_of (16 * hex_value (ds ! 2) + hex_value (ds ! 3)), drop 4 ds)
                else if d = CHR ''b'' then Some (char_of (8 :: nat), ds)
                else if d = CHR ''f'' then Some (char_of (12 :: nat), ds)
                else if d = CHR ''n'' then Some (char_of (10 :: nat), ds)
                else if d = CHR ''r'' then Some (char_of (13 :: nat), ds)
                else if d = CHR ''t'' then Some (char_of (9 :: nat), ds)
                else Some (d, ds)))"

lemma unescape_escape: "unescape (escape_char c @ x) = Some (c, x)"
proof -
  define n :: nat where "n = of_char c"
  have c: "char_of n = c" and n: "n < 256"
    by (simp_all add: n_def)
  have lits: "char_of (34 :: nat) = CHR 0x22" "char_of (92 :: nat) = CHR 0x5C"
    by code_simp+
  have hex: "hex_value (hex_digit (n div 16)) = n div 16" "hex_value (hex_digit (n mod 16)) = n mod 16"
    using n by (intro hex_value_digit; simp)+
  consider "n = 34" | "n = 92" | "n = 8" | "n = 12" | "n = 10" | "n = 13" | "n = 9"
    | "n < 32" "n \<notin> {8, 12, 10, 13, 9}" | "32 \<le> n" "n \<noteq> 34" "n \<noteq> 92"
    by force
  then show ?thesis
  proof cases
    case 8
    then show ?thesis
      using c hex by (simp add: escape_char_def n_def [symmetric] Let_def)
  next
    case 9
    then have "c \<noteq> CHR 0x5C"
      using n_def by auto
    with 9 show ?thesis
      by (simp add: escape_char_def n_def [symmetric] Let_def)
  qed (use c lits in \<open>auto simp: escape_char_def n_def [symmetric] Let_def\<close>)
qed

lemma escape_char_hd: "\<exists>d ds. escape_char c = d # ds \<and> d \<noteq> CHR 0x22"
proof -
  have "of_char c = (34 :: nat) \<or> c \<noteq> CHR 0x22"
    by auto
  then show ?thesis
    by (auto simp: escape_char_def Let_def)
qed

lemma escapes_unique:
  "concat (map escape_char s) @ CHR 0x22 # r = concat (map escape_char s') @ CHR 0x22 # r' \<Longrightarrow> s = s' \<and> r = r'"
proof (induction s arbitrary: s')
  case Nil
  show ?case
  proof (cases s')
    case Nil
    with Nil.prems show ?thesis by simp
  next
    case (Cons c t)
    with Nil.prems show ?thesis
      using escape_char_hd [of c] by auto
  qed
next
  case (Cons c s)
  show ?case
  proof (cases s')
    case Nil
    with Cons.prems show ?thesis
      using escape_char_hd [of c] by auto
  next
    case (Cons c' t)
    with Cons.prems have "unescape (escape_char c @ concat (map escape_char s) @ CHR 0x22 # r)
        = unescape (escape_char c' @ concat (map escape_char t) @ CHR 0x22 # r')"
      by simp
    then have "c = c'" "concat (map escape_char s) @ CHR 0x22 # r = concat (map escape_char t) @ CHR 0x22 # r'"
      by (simp_all only: unescape_escape option.inject prod.inject)
    with Cons.IH [of t] Cons show ?thesis by simp
  qed
qed

lemma quote_unique: "quote_string s @ r = quote_string s' @ r' \<Longrightarrow> s = s' \<and> r = r'"
  using escapes_unique [of s r s' r'] by (simp add: quote_string_def)

section \<open>Values in front of more input\<close>

definition stops :: "string \<Rightarrow> bool" where
  "stops r \<longleftrightarrow> r = [] \<or> hd r \<in> {CHR '','', CHR '']'', CHR ''}''}"

lemma stops_simps [simp]:
  "stops []"
  "stops (c # r) \<longleftrightarrow> c \<in> {CHR '','', CHR '']'', CHR ''}''}"
  by (simp_all add: stops_def)

lemma takeWhile_number: "list_all number_char t \<Longrightarrow> stops r \<Longrightarrow> takeWhile number_char (t @ r) = t"
  by (cases r) (auto simp: stops_def number_char_def less_eq_char_def list_all_iff takeWhile_append)

lemma number_unique:
  "list_all number_char t \<Longrightarrow> list_all number_char t' \<Longrightarrow> stops r \<Longrightarrow> stops r' \<Longrightarrow> t @ r = t' @ r' \<Longrightarrow> t = t' \<and> r = r'"
  using takeWhile_number [of t r] takeWhile_number [of t' r'] by auto

lemma join_with_Cons: "join_with sep (x # xs) = x @ concat (map (\<lambda>y. sep @ y) xs)"
  by (induction xs arbitrary: x) auto

lemma tail_stops: "c \<in> {CHR '']'', CHR ''}''} \<Longrightarrow> stops (concat (map (\<lambda>y. '','' @ f y) xs) @ c # r)"
  by (cases xs) auto

lemma tail_unique:
  assumes "\<And>x y r r'. x \<in> set xs \<Longrightarrow> y \<in> set ys \<Longrightarrow> stops r \<Longrightarrow> stops r' \<Longrightarrow> f x @ r = f y @ r' \<Longrightarrow> x = y \<and> r = r'"
    and c: "c \<in> {CHR '']'', CHR ''}''}"
    and "concat (map (\<lambda>y. '','' @ f y) xs) @ c # r = concat (map (\<lambda>y. '','' @ f y) ys) @ c # r'"
  shows "xs = ys \<and> r = r'"
  using assms(1,3)
proof (induction xs arbitrary: ys)
  case Nil
  then show ?case using c by (cases ys) auto
next
  case (Cons x xs)
  show ?case
  proof (cases ys)
    case Nil
    with Cons.prems(2) c show ?thesis by auto
  next
    case (Cons y zs)
    have "x = y \<and> concat (map (\<lambda>y. '','' @ f y) xs) @ c # r = concat (map (\<lambda>y. '','' @ f y) zs) @ c # r'"
      using Cons.prems(2) Cons c tail_stops [OF c, of f] by (intro Cons.prems(1)) auto
    moreover have "xs = zs \<and> r = r'"
      using calculation Cons.prems(1) Cons by (intro Cons.IH) auto
    ultimately show ?thesis using Cons by simp
  qed
qed

lemma join_unique:
  assumes "\<And>x y r r'. x \<in> set xs \<Longrightarrow> y \<in> set ys \<Longrightarrow> stops r \<Longrightarrow> stops r' \<Longrightarrow> f x @ r = f y @ r' \<Longrightarrow> x = y \<and> r = r'"
    and c: "c \<in> {CHR '']'', CHR ''}''}"
    and nonempty: "\<And>x. x \<in> set xs \<union> set ys \<Longrightarrow> f x \<noteq> [] \<and> hd (f x) \<noteq> c"
    and "join_with '','' (map f xs) @ c # r = join_with '','' (map f ys) @ c # r'"
  shows "xs = ys \<and> r = r'"
proof (cases xs)
  case Nil
  with assms(4) nonempty [of "hd ys"] show ?thesis
    by (cases ys; cases "f (hd ys)") (auto simp: join_with_Cons)
next
  case (Cons x zs)
  show ?thesis
  proof (cases ys)
    case Nil
    with Cons assms(4) nonempty [of x] show ?thesis
      by (cases "f x") (auto simp: join_with_Cons)
  next
    case (Cons y ws)
    note xs = \<open>xs = x # zs\<close>
    have "x = y \<and> concat (map (\<lambda>y. '','' @ f y) zs) @ c # r = concat (map (\<lambda>y. '','' @ f y) ws) @ c # r'"
      using assms(4) Cons xs tail_stops [OF c, of f]
      by (intro assms(1)) (auto simp: join_with_Cons comp_def)
    moreover have "zs = ws \<and> r = r'"
    proof (rule tail_unique [where f = f, OF _ c])
      show "concat (map (\<lambda>y. '','' @ f y) zs) @ c # r = concat (map (\<lambda>y. '','' @ f y) ws) @ c # r'"
        using calculation by simp
    qed (rule assms(1); simp add: Cons xs)
    ultimately show ?thesis using Cons xs by simp
  qed
qed

section \<open>Stringified values\<close>

lemma number_text:
  "is_num v \<Longrightarrow> data_json v \<Longrightarrow> list_all number_char (json_stringify v) \<and> json_stringify v \<noteq> []"
  by (cases v) (auto simp: int_str_chars float_text_def)

lemma number_text_inj:
  "is_num a \<Longrightarrow> is_num b \<Longrightarrow> data_json a \<Longrightarrow> data_json b \<Longrightarrow> json_stringify a = json_stringify b \<Longrightarrow> a = b"
  by (cases a; cases b) (auto simp: int_str_inj float_text_def dest: int_str_chars(2,3) [THEN notE, rotated])

text \<open>The first character tells the kind of a value.\<close>

fun lead_char :: "json \<Rightarrow> char" where
  "lead_char (JStr _) = CHR 0x22"
| "lead_char (JArr _) = CHR ''[''"
| "lead_char (JObj _) = CHR ''{''"
| "lead_char JNull = CHR ''n''"
| "lead_char (JBool b) = (if b then CHR ''t'' else CHR ''f'')"
| "lead_char _ = CHR ''#''"

lemma text_lead:
  assumes "data_json v"
  shows "json_stringify v \<noteq> [] \<and>
    (if is_num v then number_char (hd (json_stringify v)) else hd (json_stringify v) = lead_char v)"
  using assms number_text [of v]
  by (cases v; cases "json_stringify v") (auto simp: quote_string_def split: if_splits)

lemma same_lead:
  assumes "data_json a" and "data_json b" and "json_stringify a @ r = json_stringify b @ r'"
  shows "(is_num a \<and> is_num b) \<or> (\<not> is_num a \<and> \<not> is_num b \<and> lead_char a = lead_char b)"
proof -
  have "hd (json_stringify a) = hd (json_stringify b)"
    using text_lead [OF assms(1)] text_lead [OF assms(2)] assms(3)
    by (metis hd_append2)
  moreover have "number_char (lead_char v) \<Longrightarrow> is_num v" for v
    using assms by (cases v) (auto simp: number_char_def less_eq_char_def split: if_splits)
  ultimately show ?thesis
    using text_lead [OF assms(1)] text_lead [OF assms(2)] by (auto split: if_splits)
qed

lemma text_not_close: "data_json v \<Longrightarrow> c \<in> {CHR '']'', CHR ''}''} \<Longrightarrow> json_stringify v \<noteq> [] \<and> hd (json_stringify v) \<noteq> c"
  using text_lead [of v]
  by (cases v) (auto simp: number_char_def less_eq_char_def split: if_splits)

theorem stringify_unique:
  "json_stringify a @ r = json_stringify b @ r' \<Longrightarrow> data_json a \<Longrightarrow> data_json b \<Longrightarrow> stops r \<Longrightarrow> stops r' \<Longrightarrow>
     a = b \<and> r = r'"
proof (induction a arbitrary: b r r')
  case (JArr xs)
  then obtain ys where b: "b = JArr ys"
    using same_lead [OF JArr.prems(2,3,1)] by (cases b) (auto split: if_splits)
  have "xs = ys \<and> r = r'"
  proof (rule join_unique [where f = json_stringify and c = "CHR '']''"])
    show "join_with '','' (map json_stringify xs) @ CHR '']'' # r = join_with '','' (map json_stringify ys) @ CHR '']'' # r'"
      using JArr.prems(1) b by simp
    show "json_stringify x \<noteq> [] \<and> hd (json_stringify x) \<noteq> CHR '']''" if "x \<in> set xs \<union> set ys" for x
      using that JArr.prems(2,3) b by (intro text_not_close) (auto simp: list_all_iff)
    show "x = y \<and> s = s'" if "x \<in> set xs" "y \<in> set ys" "stops s" "stops s'"
      "json_stringify x @ s = json_stringify y @ s'" for x y s s'
      using that JArr.prems(2,3) b by (intro JArr.IH) (auto simp: list_all_iff)
  qed simp
  with b show ?case by simp
next
  case (JObj kvs)
  let ?f = "\<lambda>kv. quote_string (fst kv) @ '':'' @ json_stringify (snd kv)"
  obtain lws where b: "b = JObj lws"
    using same_lead [OF JObj.prems(2,3,1)] by (cases b) (auto split: if_splits)
  have "kvs = lws \<and> r = r'"
  proof (rule join_unique [where f = ?f and c = "CHR ''}''"])
    show "join_with '','' (map ?f kvs) @ CHR ''}'' # r = join_with '','' (map ?f lws) @ CHR ''}'' # r'"
      using JObj.prems(1) b by simp
    show "?f kv \<noteq> [] \<and> hd (?f kv) \<noteq> CHR ''}''" for kv
      by (simp add: quote_string_def)
    show "kv = lw \<and> s = s'" if "kv \<in> set kvs" "lw \<in> set lws" "stops s" "stops s'"
      "?f kv @ s = ?f lw @ s'" for kv lw s s'
    proof -
      have "fst kv = fst lw \<and> '':'' @ json_stringify (snd kv) @ s = '':'' @ json_stringify (snd lw) @ s'"
        using that(5) by (intro quote_unique) simp
      moreover have "snd kv = snd lw \<and> s = s'"
        using calculation that JObj.prems(2,3) b
        by (intro JObj.IH [of kv "snd kv"]) (auto simp: list_all_iff snds.simps)
      ultimately show ?thesis by (simp add: prod_eq_iff)
    qed
  qed simp
  with b show ?case by simp
next
  case (JStr s)
  then obtain t where "b = JStr t"
    using same_lead [OF JStr.prems(2,3,1)] by (cases b) (auto split: if_splits)
  with JStr show ?case
    using quote_unique [of s r t r'] by simp
next
  case (JInt i)
  then have "is_num b" using same_lead [OF JInt.prems(2,3,1)] by simp
  with JInt show ?case
    using number_unique [of "json_stringify (JInt i)" "json_stringify b" r r'] number_text [of b]
      number_text [of "JInt i"] number_text_inj [of "JInt i" b] by simp
next
  case (JFloat t)
  then have "is_num b" using same_lead [OF JFloat.prems(2,3,1)] by simp
  with JFloat show ?case
    using number_unique [of "json_stringify (JFloat t)" "json_stringify b" r r'] number_text [of b]
      number_text [of "JFloat t"] number_text_inj [of "JFloat t" b] by simp
next
  case JNull
  then show ?case
    using same_lead [OF JNull.prems(2,3,1)] by (cases b) (auto split: if_splits)
next
  case (JBool x)
  then show ?case
    using same_lead [OF JBool.prems(2,3,1)] by (cases b) (auto split: if_splits)
next
  case (JFn n)
  then show ?case by simp
qed

corollary stringify_inj:
  "data_json a \<Longrightarrow> data_json b \<Longrightarrow> json_stringify a = json_stringify b \<longleftrightarrow> a = b"
  using stringify_unique [of a "[]" b "[]"] by auto

section \<open>Canonical texts\<close>

lemma insort_key_map: "(\<And>x. k' (h x) = k x) \<Longrightarrow> insort_key k' (h x) (map h xs) = map h (insort_key k x xs)"
  by (induction xs) auto

lemma sort_key_map: "(\<And>x. k' (h x) = k x) \<Longrightarrow> sort_key k' (map h xs) = map h (sort_key k xs)"
  by (induction xs) (simp_all add: insort_key_map)

lemma sort_key_props:
  "sort_key fst (map (\<lambda>kv. (fst kv :: string, f (snd kv))) kvs) = map (\<lambda>kv. (fst kv, f (snd kv))) (sort_key fst kvs)"
  by (rule sort_key_map [where h = "\<lambda>kv. (fst kv, f (snd kv))"]) simp

lemma canonical_json_sorted: "canonical_json v = json_stringify (sorted_json v)"
proof (induction v)
  case (JArr xs)
  then show ?case by (simp cong: map_cong)
next
  case (JObj kvs)
  then show ?case
    by (auto simp: sort_key_props comp_def snds.simps intro!: arg_cong [where f = "join_with _"] map_cong)
qed simp_all

lemma distinct_sort_props: "distinct (map fst (sort_key k kvs)) \<longleftrightarrow> distinct (map fst kvs)"
proof -
  have "mset (map fst (sort_key k kvs)) = mset (map fst kvs)" by simp
  then show ?thesis by (metis mset_eq_imp_distinct_iff)
qed

lemma map_of_sorted:
  "distinct (map fst kvs) \<Longrightarrow> map_of (sort_key k kvs) x = map_of kvs x"
  using map_of_inject_set [of "sort_key k kvs" kvs] by (simp add: distinct_sort_props)

lemma data_sorted: "data_json v \<Longrightarrow> data_json (sorted_json v)"
  by (induction v) (auto simp: list_all_iff sort_key_props distinct_sort_props comp_def snds.simps)

lemma map_of_map_snd: "map_of (map (\<lambda>kv. (fst kv, f (snd kv))) kvs) k = map_option f (map_of kvs k)"
  by (induction kvs) auto

lemma sorted_own: "wf_json v \<Longrightarrow> own k (Some (sorted_json v)) = map_option sorted_json (own k (Some v))"
  by (cases v) (simp_all add: sort_key_props map_of_map_snd map_of_sorted)

lemma sorted_json_deep_equal:
  "data_json a \<Longrightarrow> data_json b \<Longrightarrow> sorted_json a = sorted_json b \<Longrightarrow> deep_equal a b"
proof (induction a arbitrary: b)
  case (JArr xs)
  then obtain ys where b: "b = JArr ys" and eq: "map sorted_json xs = map sorted_json ys"
    by (cases b) auto
  have "list_all2 deep_equal xs ys"
  proof (rule list_all2_all_nthI)
    show "length xs = length ys" using eq by (metis length_map)
    show "deep_equal (xs ! n) (ys ! n)" if n: "n < length xs" for n
    proof (rule JArr.IH)
      have m: "n < length ys" using n eq by (metis length_map)
      show "xs ! n \<in> set xs" using n by simp
      show "data_json (xs ! n)" "data_json (ys ! n)"
        using n m JArr.prems(1,2) b by (simp_all add: list_all_length)
      show "sorted_json (xs ! n) = sorted_json (ys ! n)"
        using n m eq by (metis nth_map)
    qed
  qed
  then show ?case by (simp add: b deep_equal_list_iff)
next
  case (JObj kvs)
  obtain lws where b: "b = JObj lws"
    using JObj.prems(3) by (cases b) simp_all
  have len: "length kvs = length lws"
    using arg_cong [OF JObj.prems(3), of "length \<circ> own_keys"] b by simp
  have "\<exists>w. map_of lws (fst kv) = Some w \<and> deep_equal (snd kv) w" if kv: "kv \<in> set kvs" for kv
  proof -
    have "map_of kvs (fst kv) = Some (snd kv)"
      using kv JObj.prems(1) by (auto intro: map_of_is_SomeI)
    then have "own (fst kv) (Some (sorted_json (JObj kvs))) = Some (sorted_json (snd kv))"
      by (simp only: sorted_own [OF data_json_wf [OF JObj.prems(1)]] own.simps option.map)
    then have "map_option sorted_json (own (fst kv) (Some b)) = Some (sorted_json (snd kv))"
      by (simp only: JObj.prems(3) sorted_own [OF data_json_wf [OF JObj.prems(2)]])
    then obtain w where w: "map_of lws (fst kv) = Some w" "sorted_json w = sorted_json (snd kv)"
      using b by auto
    have "deep_equal (snd kv) w"
      using kv w JObj.prems b
      by (intro JObj.IH [of kv "snd kv"]) (auto simp: list_all_iff snds.simps dest!: map_of_SomeD)
    with w show ?thesis by blast
  qed
  then show ?case by (simp add: b len deep_equal_props_iff)
next
  case (JStr s)
  then show ?case by (cases b) auto
next
  case JNull
  then show ?case by (cases b) auto
next
  case (JBool x)
  then show ?case by (cases b) auto
next
  case (JInt i)
  then show ?case by (cases b) auto
next
  case (JFloat t)
  then show ?case by (cases b) auto
qed simp

theorem canonical_json_eq_iff:
  assumes "data_json a" and "data_json b"
  shows "canonical_json a = canonical_json b \<longleftrightarrow> deep_equal a b"
proof
  assume "canonical_json a = canonical_json b"
  then have "sorted_json a = sorted_json b"
    using assms by (simp add: canonical_json_sorted stringify_inj data_sorted)
  with assms show "deep_equal a b" by (rule sorted_json_deep_equal)
next
  assume "deep_equal a b"
  then show "canonical_json a = canonical_json b"
    using assms data_json_wf by (intro canonical_json_deep_equal)
qed

end
