(* ===== verification/Ledger_Chain.thy ===== *)
theory Ledger_Chain
  imports Ledger_Events Contract_Digest Json_Unique
begin

text \<open>
  The integrity chain and the append-only writer of src/src/logging/ledger.mjs, with the file
  operations of src/src/logging/io.mjs they use.  The digest \<open>sha\<close> of a text is a parameter.
  A ledger file is the list of its lines, each with its length in bytes and what
  \<open>JSON.parse\<close> reads from it (\<open>None\<close> for a blank line or one that does not parse), and a flag for a
  last line without its newline.  Failures of the operating system are not modelled.
\<close>

section \<open>Validation of a ledger\<close>

text \<open>The digest of an event is over its canonical text without the digest itself.\<close>

definition event_text :: "json \<Rightarrow> string" where
  "event_text ev = canonical_json (JObj (without ''digest'' (spread (Some ev))))"

definition link_issues :: "digest_fun \<Rightarrow> nat \<Rightarrow> jsval \<Rightarrow> json \<Rightarrow> issue list" where
  "link_issues sha i prev ev =
     (let at = ''seq '' @ nat_str (Suc i) in
      (if own ''seq'' (Some ev) = Some (JInt (int (Suc i))) then []
       else [(at, ''sequence must be monotonic from 1 (expected '' @ nat_str (Suc i) @ '', got ''
          @ stringify_val (own ''seq'' (Some ev)) @ '')'')])
      @ (if same_key (own ''prevDigest'' (Some ev)) prev then []
         else [(at, ''prevDigest mismatch: expected '' @ js_string prev @ '', got ''
            @ stringify_val (own ''prevDigest'' (Some ev)))])
      @ (if own ''digest'' (Some ev) = Some (JStr (sha (event_text ev))) then []
         else [(at, ''digest mismatch: event content or chain was rewritten'')]))"

text \<open>The path of an issue below another one.\<close>

definition issue_at :: "string \<Rightarrow> issue \<Rightarrow> issue" where
  "issue_at at e = (at @ ''.'' @ (if fst e = [] then ''(root)'' else fst e), snd e)"

fun chain_issues :: "digest_fun \<Rightarrow> nat \<Rightarrow> jsval \<Rightarrow> json list \<Rightarrow> issue list result" where
  "chain_issues sha i prev [] = Inr []"
| "chain_issues sha i prev (ev # evs) =
     (let at = ''seq '' @ nat_str (Suc i) in
      if \<not> is_obj ev then Inr [(at, ''event is not an object: '' @ json_stringify ev)]
      else
        rbind (validateEventInstance ev) (\<lambda>es.
        rbind (chain_issues sha (Suc i) (own ''digest'' (Some ev)) evs) (\<lambda>rest.
        Inr (link_issues sha i prev ev @ map (issue_at at) es @ rest))))"

record ledger_report =
  lr_errors :: "issue list"
  lr_states :: states
  lr_summary :: ledger_summary

definition lr_valid :: "ledger_report \<Rightarrow> bool" where
  "lr_valid r \<longleftrightarrow> lr_errors r = []"

definition validateLedger :: "digest_fun \<Rightarrow> json list \<Rightarrow> ledger_report result" where
  "validateLedger sha evs =
     rbind (chain_issues sha 0 (Some (JStr LEDGER_GENESIS_DIGEST)) evs) (\<lambda>es.
     rbind (buildInvocationStates evs) (\<lambda>(S, ts).
     Inr \<lparr>lr_errors = es @ ts, lr_states = S, lr_summary = summary_of S evs\<rparr>))"

section \<open>Ledger files\<close>

type_synonym ledger_line = "nat \<times> json option"

record ledger_file =
  lf_lines :: "ledger_line list"
  lf_torn :: bool

definition line_issue :: "nat \<times> ledger_line \<Rightarrow> issue list" where
  "line_issue nl = (case snd (snd nl) of
     None \<Rightarrow> [(nat_str (Suc (fst nl)), ''empty line or invalid JSON'')]
   | Some _ \<Rightarrow> [])"

definition readJsonlFile :: "ledger_file \<Rightarrow> json list \<times> issue list" where
  "readJsonlFile f =
     (List.map_filter snd (lf_lines f),
      (if lf_torn f then [(nat_str (length (lf_lines f)), ''torn tail'')] else [])
      @ concat (map line_issue (entries (lf_lines f))))"

datatype tail =
    EmptyFile
  | TornTail
  | TailLine "json option"

definition TAIL_SCAN :: nat where
  "TAIL_SCAN = 64 * 1024"

text \<open>
  The scan reads the last 64 KiB.  When the last line with its newline is longer, the scan sees
  a proper suffix of the text of an object, which is not the text of a value.
\<close>

definition readTailLine :: "ledger_file \<Rightarrow> tail" where
  "readTailLine f =
     (if lf_lines f = [] then EmptyFile
      else if lf_torn f then TornTail
      else case last (lf_lines f) of
             (n, v) \<Rightarrow> TailLine (if TAIL_SCAN < Suc n then None else v))"

definition utf8_length :: "string \<Rightarrow> nat" where
  "utf8_length s = sum_list (map (\<lambda>c. if (of_char c :: nat) < 128 then 1 else 2) s)"

text \<open>What is read back from the canonical text of an event is \<open>sorted_json\<close> of it.\<close>

definition appendLineSync :: "ledger_file \<Rightarrow> json \<Rightarrow> ledger_file" where
  "appendLineSync f ev = f\<lparr>lf_lines := lf_lines f @ [(utf8_length (canonical_json ev), Some (sorted_json ev))]\<rparr>"

section \<open>The writer\<close>

text \<open>\<open>lastEvent\<close> is the last of the events whenever the fields are assigned.\<close>

record ledger =
  lg_runId :: json
  lg_events :: "json list"
  lg_states :: states

definition reload :: "digest_fun \<Rightarrow> ledger_file \<Rightarrow> ledger \<Rightarrow> ledger result" where
  "reload sha f L =
     (let (evs, parse_errors) = readJsonlFile f in
      if parse_errors \<noteq> [] then Inl (LedgerIntegrityError parse_errors)
      else
        rbind (validateLedger sha evs) (\<lambda>r.
        if \<not> lr_valid r then Inl (LedgerIntegrityError (lr_errors r))
        else Inr (L\<lparr>lg_events := evs, lg_states := lr_states r\<rparr>)))"

definition open_ledger :: "digest_fun \<Rightarrow> json \<Rightarrow> ledger_file option \<Rightarrow> ledger result" where
  "open_ledger sha runId f =
     (case f of
        None \<Rightarrow> Inl (LedgerIntegrityError [(''events.v2.jsonl'', ''ledger file missing'')])
      | Some file \<Rightarrow> reload sha file \<lparr>lg_runId = runId, lg_events = [], lg_states = []\<rparr>)"

text \<open>
  An operation of the writer gives the error it throws or its value, and the writer as it is
  left: a reload is kept when a later guard throws.
\<close>

definition reload_longer :: "digest_fun \<Rightarrow> ledger_file \<Rightarrow> ledger \<Rightarrow> unit result \<times> ledger" where
  "reload_longer sha f L =
     (case reload sha f L of
        Inl e \<Rightarrow> (Inl e, L)
      | Inr L' \<Rightarrow>
          (need (length (lg_events L) \<le> length (lg_events L'))
             (LedgerIntegrityError [(''ledger'', ''ledger shrank while appending'')]), L'))"

definition sync :: "digest_fun \<Rightarrow> ledger_file \<Rightarrow> ledger \<Rightarrow> unit result \<times> ledger" where
  "sync sha f L =
     (case readTailLine f of
        TornTail \<Rightarrow> (Inl (LedgerIntegrityError [(''ledger'', ''torn ledger tail'')]), L)
      | EmptyFile \<Rightarrow> (if lg_events L \<noteq> [] then reload_longer sha f L else (Inr (), L))
      | TailLine None \<Rightarrow> (Inl (LedgerIntegrityError [(''ledger'', ''cannot parse ledger tail'')]), L)
      | TailLine (Some t) \<Rightarrow>
          (if lg_events L = [] then reload_longer sha f L
           else if t = JNull then (Inl TypeError, L)
           else if own ''seq'' (Some t) \<noteq> own ''seq'' (last_event (lg_events L))
             \<or> own ''digest'' (Some t) \<noteq> own ''digest'' (last_event (lg_events L))
           then reload_longer sha f L
           else (Inr (), L)))"

definition assign :: "string \<Rightarrow> jsval \<Rightarrow> (string \<times> json) list \<Rightarrow> (string \<times> json) list" where
  "assign k v kvs = (case v of None \<Rightarrow> without k kvs | Some w \<Rightarrow> put k w kvs)"

text \<open>The sequence number of a validated event is an integer.\<close>

definition next_seq :: "json list \<Rightarrow> json" where
  "next_seq evs = (case last_seq evs of Some (JInt n) \<Rightarrow> JInt (n + 1) | _ \<Rightarrow> JFloat ''NaN'')"

definition chained_event :: "digest_fun \<Rightarrow> string \<Rightarrow> ledger \<Rightarrow> (string \<times> json) list \<Rightarrow> json" where
  "chained_event sha now L given =
     (let body = without ''digest''
            (put ''occurredAt'' (case own ''occurredAt'' (Some (JObj given)) of
                 Some v \<Rightarrow> (if v = JNull then JStr now else v) | None \<Rightarrow> JStr now)
            (assign ''prevDigest'' (last_digest (lg_events L))
            (put ''seq'' (next_seq (lg_events L))
            (put ''runId'' (lg_runId L)
            (put ''schemaVersion'' (JStr ''1.0.0'')
            (put ''schemaName'' (JStr ''lcim.event'') given))))))
      in JObj (put ''digest'' (JStr (sha (canonical_json (JObj body)))) body))"

text \<open>Appending while the run lock is held.\<close>

definition appendEventLocked ::
  "digest_fun \<Rightarrow> string \<Rightarrow> (string \<times> json) list \<Rightarrow> ledger_file \<Rightarrow> ledger
    \<Rightarrow> json result \<times> ledger \<times> ledger_file" where
  "appendEventLocked sha now given f L =
     (case sync sha f L of
        (Inl e, L1) \<Rightarrow> (Inl e, L1, f)
      | (Inr _, L1) \<Rightarrow>
          (let ev = chained_event sha now L1 given in
           case transition_problem (lg_states L1) ev of
             Some msg \<Rightarrow> (Inl (LedgerIntegrityError [(''transition'', msg)]), L1, f)
           | None \<Rightarrow>
               (case validateEventInstance ev of
                  Inl e \<Rightarrow> (Inl e, L1, f)
                | Inr es \<Rightarrow>
                    (if es \<noteq> [] then (Inl (LedgerIntegrityError es), L1, f)
                     else
                       (case buildInvocationStates (lg_events L1 @ [ev]) of
                          Inl e \<Rightarrow> (Inl e, L1\<lparr>lg_events := lg_events L1 @ [ev]\<rparr>, appendLineSync f ev)
                        | Inr (S, _) \<Rightarrow>
                            (Inr ev, L1\<lparr>lg_events := lg_events L1 @ [ev], lg_states := S\<rparr>,
                             appendLineSync f ev))))))"

end
