(* ===== verification/Ledger_Laws.thy ===== *)
theory Ledger_Laws
  imports Ledger_Chain
begin

text \<open>
  Laws of the ledger: the lifecycle of one invocation as a guarded machine, the bookkeeping of
  \<open>buildInvocationStates\<close> as its refinement, the counts that every state keeps, and what the
  chain and the writer promise.
\<close>

section \<open>The lifecycle machine\<close>

text \<open>
  \<open>None\<close> is an invocation that has not started.  An event is its kind and whether it names a
  replacement.
\<close>

fun lifecycle_step ::
  "invocation_status option \<Rightarrow> event_kind \<times> bool \<Rightarrow> invocation_status option option" where
  "lifecycle_step None (START, r) = Some (Some STARTED)"
| "lifecycle_step (Some STARTED) (COMPLETION, r) = Some (Some COMPLETED)"
| "lifecycle_step (Some COMPLETED) (ASSESSMENT, r) = Some (Some ASSESSED)"
| "lifecycle_step (Some STARTED) (RECONCILIATION, r) = Some (Some (if r then SUPERSEDED else ORPHANED))"
| "lifecycle_step (Some COMPLETED) (RECONCILIATION, r) = Some (Some (if r then SUPERSEDED else ORPHANED))"
| "lifecycle_step _ _ = None"

definition lifecycle_final :: "invocation_status option \<Rightarrow> bool" where
  "lifecycle_final s \<longleftrightarrow> s \<in> Some ` set FINAL_INVOCATION_STATUSES"

interpretation invocation: guarded_machine lifecycle_step lifecycle_final
proof unfold_locales
  fix s e
  assume "lifecycle_final s"
  then show "lifecycle_step s e = None"
    by (cases e) (auto simp: lifecycle_final_def FINAL_INVOCATION_STATUSES_def)
qed

text \<open>The machine's event that a ledger event is for an invocation.\<close>

definition lifecycle_of :: "jsval \<Rightarrow> json \<Rightarrow> (event_kind \<times> bool) option" where
  "lifecycle_of iid ev =
     (if own ''invocationId'' (Some ev) = iid
      then map_option (\<lambda>k. (k, own ''replacementInvocationId'' (Some ev) \<noteq> None))
             (event_kind_of (own ''kind'' (Some ev)))
      else None)"

definition status_of :: "states \<Rightarrow> jsval \<Rightarrow> invocation_status option" where
  "status_of S iid = Option.bind (state_of S iid) st_status"

section \<open>Maps of states\<close>

lemma same_key_iff: "same_key a b \<longleftrightarrow> a = b \<and> same_key a a"
  by (cases "(a, b)" rule: same_key.cases) auto

lemma same_key_string [simp]: "same_key (Some (JStr s)) b \<longleftrightarrow> b = Some (JStr s)"
  by auto

lemma same_key_eq: "same_key a b \<Longrightarrow> a = b"
  using same_key_iff by blast

lemma state_of_set_state:
  "state_of (set_state k st S) k' = (if same_key k k' then Some st else state_of S k')"
proof (induction S)
  case Nil
  then show ?case by simp
next
  case (Cons e S)
  obtain k0 st0 where e: "e = (k0, st0)" by (cases e)
  show ?case
  proof (cases "same_key k0 k")
    case True
    then have "k0 = k" by (rule same_key_eq)
    with True e show ?thesis by simp
  next
    case False
    then have "\<not> (same_key k0 k' \<and> same_key k k')"
      using same_key_eq [of k0 k'] same_key_eq [of k k'] by metis
    with False e Cons show ?thesis by simp
  qed
qed

lemma state_of_in: "state_of S k = Some st \<Longrightarrow> (k, st) \<in> set S"
  by (induction S k rule: state_of.induct) (auto split: if_splits dest: same_key_eq)

lemma set_state_in: "e \<in> set (set_state k st S) \<Longrightarrow> e = (k, st) \<or> e \<in> set S"
  by (induction k st S rule: set_state.induct) (auto split: if_splits dest: same_key_eq)

lemma status_of_apply_other:
  "\<not> same_key (own ''invocationId'' (Some ev)) k \<Longrightarrow> status_of (apply_to S ev) k = status_of S k"
  by (simp add: status_of_def apply_to_def Let_def state_of_set_state)

section \<open>Legal transitions\<close>

lemma applyEvent_status:
  "event_kind_of (own ''kind'' (Some ev)) = Some k \<Longrightarrow>
     st_status (applyEvent st ev) =
       Some (case k of START \<Rightarrow> STARTED | COMPLETION \<Rightarrow> COMPLETED | ASSESSMENT \<Rightarrow> ASSESSED
         | RECONCILIATION \<Rightarrow> if own ''replacementInvocationId'' (Some ev) \<noteq> None then SUPERSEDED else ORPHANED)"
  by (cases k) (simp_all add: applyEvent_def Let_def)

lemma applyEvent_counts:
  "event_kind_of (own ''kind'' (Some ev)) = Some k \<Longrightarrow>
     st_counts (applyEvent st ev) = (st_counts st)(k := Suc (st_counts st k))"
  by (cases k) (simp_all add: applyEvent_def Let_def bump_def)

lemma transition_None_kind:
  "transition_problem S ev = None \<Longrightarrow> \<exists>k. event_kind_of (own ''kind'' (Some ev)) = Some k"
  by (auto simp: transition_problem_def Let_def split: option.splits)

lemma transition_None_cases:
  assumes "transition_problem S ev = None"
  obtains
    (start) "event_kind_of (own ''kind'' (Some ev)) = Some START" "state_of S (own ''invocationId'' (Some ev)) = None"
  | (completion) st where "event_kind_of (own ''kind'' (Some ev)) = Some COMPLETION"
      "state_of S (own ''invocationId'' (Some ev)) = Some st" "st_status st = Some STARTED"
  | (assessment) st where "event_kind_of (own ''kind'' (Some ev)) = Some ASSESSMENT"
      "state_of S (own ''invocationId'' (Some ev)) = Some st" "st_status st = Some COMPLETED"
  | (reconciliation) st s where "event_kind_of (own ''kind'' (Some ev)) = Some RECONCILIATION"
      "state_of S (own ''invocationId'' (Some ev)) = Some st" "st_status st = Some s"
      "s = STARTED \<or> s = COMPLETED"
proof -
  obtain k where k: "event_kind_of (own ''kind'' (Some ev)) = Some k"
    using transition_None_kind [OF assms] by blast
  show ?thesis
  proof (cases k)
    case START
    with assms k show ?thesis
      by (intro start) (auto simp: transition_problem_def Let_def split: option.splits)
  next
    case COMPLETION
    with assms k show ?thesis
      using completion by (auto simp: transition_problem_def Let_def split: option.splits if_splits)
  next
    case ASSESSMENT
    with assms k show ?thesis
      using assessment by (auto simp: transition_problem_def Let_def split: option.splits if_splits)
  next
    case RECONCILIATION
    with assms k show ?thesis
      using reconciliation
      by (auto simp: transition_problem_def Let_def split: option.splits if_splits)
  qed
qed

lemma legal_lifecycle_step:
  assumes "transition_problem S ev = None" and "own ''invocationId'' (Some ev) = iid" and "same_key iid iid"
  shows "\<exists>e. lifecycle_of iid ev = Some e \<and>
    lifecycle_step (status_of S iid) e = Some (status_of (apply_to S ev) iid)"
  using assms(1)
  by (cases rule: transition_None_cases)
     (use assms(2,3) in \<open>auto simp: lifecycle_of_def status_of_def apply_to_def Let_def
        state_of_set_state applyEvent_status\<close>)

lemma build_from_errs: "build_from S errs evs = Inr (S', errs') \<Longrightarrow> \<exists>more. errs' = errs @ more"
proof (induction evs arbitrary: S errs)
  case (Cons ev evs)
  then show ?case by (fastforce split: option.splits)
qed simp

lemma build_from_Cons_clean:
  "build_from S errs (ev # evs) = Inr (S', errs) \<longleftrightarrow>
     ev \<noteq> JNull \<and> transition_problem S ev = None \<and> build_from (apply_to S ev) errs evs = Inr (S', errs)"
  by (auto simp: checkTransition_def split: option.splits if_splits dest: build_from_errs)

lemma build_from_append_clean:
  "build_from S errs (evs @ [ev]) = Inr (S', errs) \<longleftrightarrow>
     (\<exists>T. build_from S errs evs = Inr (T, errs) \<and> ev \<noteq> JNull \<and> transition_problem T ev = None
       \<and> S' = apply_to T ev)"
  by (induction evs arbitrary: S) (auto simp: build_from_Cons_clean simp del: build_from.simps(2))

lemma lifecycle_refines_from:
  assumes "same_key iid iid" and "build_from S errs evs = Inr (S', errs)"
  shows "invocation.run (status_of S iid) (List.map_filter (lifecycle_of iid) evs) = Some (status_of S' iid)"
  using assms(2)
proof (induction evs arbitrary: S)
  case Nil
  then show ?case by (simp add: List.map_filter_simps)
next
  case (Cons ev evs)
  then have clean: "transition_problem S ev = None" "build_from (apply_to S ev) errs evs = Inr (S', errs)"
    by (simp_all only: build_from_Cons_clean)
  show ?case
  proof (cases "own ''invocationId'' (Some ev) = iid")
    case True
    then show ?thesis
      using legal_lifecycle_step [OF clean(1) True assms(1)] Cons.IH [OF clean(2)]
      by (auto simp: List.map_filter_simps)
  next
    case False
    then have "\<not> same_key (own ''invocationId'' (Some ev)) iid"
      using same_key_iff by blast
    with False Cons.IH [OF clean(2)] show ?thesis
      by (simp add: List.map_filter_simps lifecycle_of_def status_of_apply_other)
  qed
qed

section \<open>Counts\<close>

fun counts_ok :: "invocation_status \<Rightarrow> (event_kind \<Rightarrow> nat) \<Rightarrow> bool" where
  "counts_ok STARTED c = (c COMPLETION = 0 \<and> c ASSESSMENT = 0 \<and> c RECONCILIATION = 0)"
| "counts_ok COMPLETED c = (c COMPLETION = 1 \<and> c ASSESSMENT = 0 \<and> c RECONCILIATION = 0)"
| "counts_ok ASSESSED c = (c COMPLETION = 1 \<and> c ASSESSMENT = 1 \<and> c RECONCILIATION = 0)"
| "counts_ok ORPHANED c = (c COMPLETION \<le> 1 \<and> c ASSESSMENT = 0 \<and> c RECONCILIATION = 1)"
| "counts_ok SUPERSEDED c = (c COMPLETION \<le> 1 \<and> c ASSESSMENT = 0 \<and> c RECONCILIATION = 1)"

definition state_ok :: "invocation_state \<Rightarrow> bool" where
  "state_ok st \<longleftrightarrow>
     (\<exists>s. st_status st = Some s \<and> counts_ok s (st_counts st)) \<and> st_counts st START = 1"

lemma state_ok_apply:
  assumes "transition_problem S ev = None" and "\<forall>e \<in> set S. state_ok (snd e)"
  shows "state_ok (applyEvent (case state_of S (own ''invocationId'' (Some ev)) of
    None \<Rightarrow> newInvocationState ev | Some st \<Rightarrow> st) ev)"
  using assms(1)
proof (cases rule: transition_None_cases)
  case start
  then show ?thesis
    by (simp add: state_ok_def applyEvent_status applyEvent_counts newInvocationState_def)
next
  case (completion st)
  then have "state_ok st" using assms(2) state_of_in by fastforce
  with completion show ?thesis
    by (simp add: state_ok_def applyEvent_status applyEvent_counts)
next
  case (assessment st)
  then have "state_ok st" using assms(2) state_of_in by fastforce
  with assessment show ?thesis
    by (simp add: state_ok_def applyEvent_status applyEvent_counts)
next
  case (reconciliation st s)
  then have "state_ok st" using assms(2) state_of_in by fastforce
  with reconciliation show ?thesis
    by (auto simp: state_ok_def applyEvent_status applyEvent_counts)
qed

lemma states_ok_from:
  "build_from S errs evs = Inr (S', errs') \<Longrightarrow> \<forall>e \<in> set S. state_ok (snd e) \<Longrightarrow> \<forall>e \<in> set S'. state_ok (snd e)"
proof (induction evs arbitrary: S errs)
  case (Cons ev evs)
  show ?case
  proof (cases "transition_problem S ev")
    case None
    have "\<forall>e \<in> set (apply_to S ev). state_ok (snd e)"
      using state_ok_apply [OF None Cons.prems(2)] Cons.prems(2)
      by (fastforce simp: apply_to_def Let_def dest: set_state_in)
    moreover have "build_from (apply_to S ev) errs evs = Inr (S', errs')"
      using Cons.prems(1) None by (simp add: checkTransition_def split: if_splits)
    ultimately show ?thesis using Cons.IH by blast
  next
    case (Some msg)
    then show ?thesis
      using Cons by (auto simp: checkTransition_def split: if_splits)
  qed
qed simp

lemma states_ok: "buildInvocationStates evs = Inr (S, errs) \<Longrightarrow> e \<in> set S \<Longrightarrow> state_ok (snd e)"
  using states_ok_from [of "[]" "[]" evs S errs] by (auto simp: buildInvocationStates_def)

lemma incomplete_iff:
  "state_ok st \<Longrightarrow> incomplete st \<longleftrightarrow> st_status st = Some STARTED \<or> st_status st = Some COMPLETED"
  by (auto simp: state_ok_def incomplete_def FINAL_INVOCATION_STATUSES_def elim: counts_ok.elims)

lemma length_js_sort [simp]: "length (js_sort vs) = length vs"
  by (induction vs) (auto simp: js_sort_def)

lemma summary_balance:
  assumes "\<forall>e \<in> set S. state_ok (snd e)"
  shows "sum_kind START S = length S \<and>
    sum_kind START S = sum_kind ASSESSMENT S + sum_kind RECONCILIATION S
      + length (filter (\<lambda>e. incomplete (snd e)) S) \<and>
    sum_kind ASSESSMENT S \<le> sum_kind COMPLETION S \<and> sum_kind COMPLETION S \<le> sum_kind START S"
  using assms
proof (induction S)
  case Nil
  then show ?case by (simp add: sum_kind_def)
next
  case (Cons e S)
  then have e: "state_ok (snd e)" by simp
  then obtain s where s: "st_status (snd e) = Some s" "counts_ok s (st_counts (snd e))"
      "st_counts (snd e) START = 1"
    by (auto simp: state_ok_def)
  have "st_counts (snd e) START = st_counts (snd e) ASSESSMENT + st_counts (snd e) RECONCILIATION
      + (if incomplete (snd e) then 1 else 0)
    \<and> st_counts (snd e) ASSESSMENT \<le> st_counts (snd e) COMPLETION \<and> st_counts (snd e) COMPLETION \<le> 1"
    using s incomplete_iff [OF e] by (cases s) auto
  with Cons s(3) show ?case
    by (auto simp: sum_kind_def)
qed

section \<open>The chain\<close>

text \<open>A list of events that follows an event with digest \<open>prev\<close> at position \<open>i\<close>.\<close>

fun chained :: "digest_fun \<Rightarrow> nat \<Rightarrow> jsval \<Rightarrow> json list \<Rightarrow> bool" where
  "chained sha i prev [] = True"
| "chained sha i prev (ev # evs) =
     (is_obj ev \<and> validateEventInstance ev = Inr [] \<and>
      own ''seq'' (Some ev) = Some (JInt (int (Suc i))) \<and>
      same_key (own ''prevDigest'' (Some ev)) prev \<and>
      own ''digest'' (Some ev) = Some (JStr (sha (event_text ev))) \<and>
      chained sha (Suc i) (own ''digest'' (Some ev)) evs)"

lemma link_issues_Nil_iff:
  "link_issues sha i prev ev = [] \<longleftrightarrow>
     own ''seq'' (Some ev) = Some (JInt (int (Suc i))) \<and> same_key (own ''prevDigest'' (Some ev)) prev \<and>
     own ''digest'' (Some ev) = Some (JStr (sha (event_text ev)))"
  by (simp add: link_issues_def Let_def)

lemma chain_issues_Nil_iff: "chain_issues sha i prev evs = Inr [] \<longleftrightarrow> chained sha i prev evs"
  by (induction evs arbitrary: i prev) (auto simp: Let_def link_issues_Nil_iff)

definition genesis :: jsval where
  "genesis = Some (JStr LEDGER_GENESIS_DIGEST)"

text \<open>A ledger without a single issue, and the states it gives.\<close>

definition valid_ledger :: "digest_fun \<Rightarrow> json list \<Rightarrow> states \<Rightarrow> bool" where
  "valid_ledger sha evs S \<longleftrightarrow> chained sha 0 genesis evs \<and> buildInvocationStates evs = Inr (S, [])"

lemma validateLedger_valid_iff:
  "(\<exists>r. validateLedger sha evs = Inr r \<and> lr_valid r \<and> lr_states r = S) \<longleftrightarrow> valid_ledger sha evs S"
  by (auto simp: validateLedger_def valid_ledger_def lr_valid_def genesis_def chain_issues_Nil_iff [symmetric])

lemma validateLedger_report:
  "validateLedger sha evs = Inr r \<Longrightarrow> lr_valid r \<Longrightarrow>
     valid_ledger sha evs (lr_states r) \<and> lr_summary r = summary_of (lr_states r) evs"
  by (auto simp: validateLedger_def valid_ledger_def lr_valid_def genesis_def chain_issues_Nil_iff [symmetric])

definition end_digest :: "jsval \<Rightarrow> json list \<Rightarrow> jsval" where
  "end_digest prev evs = (if evs = [] then prev else own ''digest'' (Some (last evs)))"

lemma chained_append:
  "chained sha i prev (evs @ fs) \<longleftrightarrow>
     chained sha i prev evs \<and> chained sha (i + length evs) (end_digest prev evs) fs"
  by (induction evs arbitrary: i prev) (auto simp: end_digest_def)

lemma chained_objects: "chained sha i prev evs \<Longrightarrow> ev \<in> set evs \<Longrightarrow> is_obj ev"
  by (induction evs arbitrary: i prev) auto

lemma chained_seq:
  "chained sha i prev evs \<Longrightarrow> n < length evs \<Longrightarrow> own ''seq'' (Some (evs ! n)) = Some (JInt (int (Suc (i + n))))"
proof (induction evs arbitrary: i prev n)
  case (Cons ev evs)
  then show ?case by (cases n) auto
qed simp

lemma chained_digest:
  "chained sha i prev evs \<Longrightarrow> n < length evs \<Longrightarrow>
     own ''digest'' (Some (evs ! n)) = Some (JStr (sha (event_text (evs ! n))))"
proof (induction evs arbitrary: i prev n)
  case (Cons ev evs)
  then show ?case by (cases n) auto
qed simp

lemma chained_prev:
  "chained sha i prev evs \<Longrightarrow> n < length evs \<Longrightarrow>
     own ''prevDigest'' (Some (evs ! n)) = end_digest prev (take n evs)"
proof (induction evs arbitrary: i prev n)
  case (Cons ev evs)
  then show ?case
    by (cases n) (auto simp: end_digest_def dest: same_key_eq)
qed simp

lemma is_obj_truthy: "is_obj v \<Longrightarrow> js_truthy (Some v)"
  by (cases v) auto

lemma chained_last:
  assumes "chained sha 0 genesis evs"
  shows "last_seq evs = Some (JInt (int (length evs)))" and "last_digest evs = end_digest genesis evs"
    and "\<exists>s. last_digest evs = Some (JStr s)"
proof -
  have "evs \<noteq> [] \<Longrightarrow> js_truthy (last_event evs)"
    using assms by (auto simp: last_event_def intro!: is_obj_truthy chained_objects)
  moreover have "evs \<noteq> [] \<Longrightarrow> own ''seq'' (Some (last evs)) = Some (JInt (int (length evs)))"
    using chained_seq [OF assms, of "length evs - 1"] by (simp add: last_conv_nth)
  moreover have "evs \<noteq> [] \<Longrightarrow> \<exists>s. own ''digest'' (Some (last evs)) = Some (JStr s)"
    using chained_digest [OF assms, of "length evs - 1"] by (simp add: last_conv_nth)
  ultimately show "last_seq evs = Some (JInt (int (length evs)))" and "last_digest evs = end_digest genesis evs"
    and "\<exists>s. last_digest evs = Some (JStr s)"
    by (auto simp: last_seq_def last_digest_def end_digest_def genesis_def last_event_def)
qed

section \<open>The writer\<close>

definition ledger_ok :: "digest_fun \<Rightarrow> ledger \<Rightarrow> bool" where
  "ledger_ok sha L \<longleftrightarrow> valid_ledger sha (lg_events L) (lg_states L)"

lemma reload_ok: "reload sha f L = Inr L' \<Longrightarrow> ledger_ok sha L' \<and> lg_runId L' = lg_runId L \<and>
    lg_events L' = fst (readJsonlFile f)"
  by (auto simp: reload_def ledger_ok_def split: prod.splits if_splits dest: validateLedger_report)

lemma sync_ok:
  assumes "ledger_ok sha L" and "sync sha f L = (r, L')"
  shows "ledger_ok sha L'" and "r = Inr u \<Longrightarrow> length (lg_events L) \<le> length (lg_events L')"
    and "lg_runId L' = lg_runId L" and "L' = L \<or> lg_events L' = fst (readJsonlFile f)"
proof -
  have "ledger_ok sha L' \<and> (r = Inr u \<longrightarrow> length (lg_events L) \<le> length (lg_events L'))
      \<and> lg_runId L' = lg_runId L \<and> (L' = L \<or> lg_events L' = fst (readJsonlFile f))"
    if "reload_longer sha f L = (r, L')"
    using that assms(1) by (auto simp: reload_longer_def dest: reload_ok split: sum.splits)
  then show "ledger_ok sha L'" and "r = Inr u \<Longrightarrow> length (lg_events L) \<le> length (lg_events L')"
    and "lg_runId L' = lg_runId L" and "L' = L \<or> lg_events L' = fst (readJsonlFile f)"
    using assms by (auto simp: sync_def split: tail.splits option.splits if_splits)
qed

lemma chained_event_facts:
  assumes "chained sha 0 genesis (lg_events L)"
  shows "is_obj (chained_event sha now L given)"
    and "own ''seq'' (Some (chained_event sha now L given)) = Some (JInt (int (Suc (length (lg_events L)))))"
    and "same_key (own ''prevDigest'' (Some (chained_event sha now L given))) (end_digest genesis (lg_events L))"
    and "own ''digest'' (Some (chained_event sha now L given))
      = Some (JStr (sha (event_text (chained_event sha now L given))))"
proof -
  obtain s where s: "last_digest (lg_events L) = Some (JStr s)"
    using chained_last(3) [OF assms] by blast
  have idem: "without ''digest'' (without ''digest'' kvs) = without ''digest'' kvs" for kvs :: "(string \<times> json) list"
    by (simp add: without_def)
  show "is_obj (chained_event sha now L given)"
    by (simp add: chained_event_def Let_def)
  show "own ''seq'' (Some (chained_event sha now L given)) = Some (JInt (int (Suc (length (lg_events L)))))"
    by (simp add: chained_event_def Let_def assign_def s next_seq_def chained_last(1) [OF assms])
  show "same_key (own ''prevDigest'' (Some (chained_event sha now L given))) (end_digest genesis (lg_events L))"
    using s chained_last(2) [OF assms] by (simp add: chained_event_def Let_def assign_def)
  show "own ''digest'' (Some (chained_event sha now L given))
      = Some (JStr (sha (event_text (chained_event sha now L given))))"
    by (simp add: chained_event_def Let_def event_text_def idem)
qed

lemma append_valid:
  assumes "ledger_ok sha L" and "validateEventInstance (chained_event sha now L given) = Inr []"
    and "transition_problem (lg_states L) (chained_event sha now L given) = None"
  shows "\<exists>S. buildInvocationStates (lg_events L @ [chained_event sha now L given]) = Inr (S, []) \<and>
    valid_ledger sha (lg_events L @ [chained_event sha now L given]) S"
proof -
  let ?ev = "chained_event sha now L given"
  have ok: "chained sha 0 genesis (lg_events L)" "build_from [] [] (lg_events L) = Inr (lg_states L, [])"
    using assms(1) by (simp_all add: ledger_ok_def valid_ledger_def buildInvocationStates_def)
  have "?ev \<noteq> JNull"
    using chained_event_facts(1) [OF ok(1), of now given] by auto
  then have "buildInvocationStates (lg_events L @ [?ev]) = Inr (apply_to (lg_states L) ?ev, [])"
    using ok(2) assms(3) by (simp only: buildInvocationStates_def build_from_append_clean) simp
  moreover have "chained sha 0 genesis (lg_events L @ [?ev])"
    using chained_event_facts [OF ok(1), of now given] assms(2) ok(1)
    by (simp add: chained_append)
  ultimately show ?thesis
    by (simp add: valid_ledger_def)
qed

lemma append_cases:
  assumes "ledger_ok sha L" and "appendEventLocked sha now given f L = (r, L', f')"
  obtains (failed) e where "r = Inl e" "ledger_ok sha L'" "f' = f"
      "L' = L \<or> lg_events L' = fst (readJsonlFile f)"
  | (appended) ev L1 where "r = Inr ev" "sync sha f L = (Inr (), L1)"
      "ev = chained_event sha now L1 given" "lg_events L' = lg_events L1 @ [ev]"
      "ledger_ok sha L'" "f' = appendLineSync f ev" "lg_runId L' = lg_runId L"
      "validateEventInstance ev = Inr []" "transition_problem (lg_states L1) ev = None"
proof (cases "sync sha f L")
  case (Pair s L1)
  note L1 = sync_ok [OF assms(1) Pair]
  show ?thesis
  proof (cases s)
    case (Inl e)
    with assms(2) Pair L1 show ?thesis
      by (intro failed) (auto simp: appendEventLocked_def)
  next
    case (Inr u)
    let ?ev = "chained_event sha now L1 given"
    show ?thesis
    proof (cases "transition_problem (lg_states L1) ?ev = None \<and> validateEventInstance ?ev = Inr []")
      case True
      then obtain S where S: "buildInvocationStates (lg_events L1 @ [?ev]) = Inr (S, [])"
          "valid_ledger sha (lg_events L1 @ [?ev]) S"
        using append_valid [OF L1(1)] by blast
      with True assms(2) Pair Inr L1 show ?thesis
        by (intro appended [of ?ev L1]) (auto simp: appendEventLocked_def Let_def ledger_ok_def)
    next
      case False
      with assms(2) Pair Inr L1 show ?thesis
        by (intro failed [of "case r of Inl e \<Rightarrow> e | Inr _ \<Rightarrow> TypeError"])
           (auto simp: appendEventLocked_def Let_def split: option.splits sum.splits if_splits)
    qed
  qed
qed

text \<open>
  The tail scan of an append reads 64 KiB: once the last line of a ledger does not fit, every
  append fails, whatever the event is, and leaves the writer and the file alone.
\<close>

theorem long_line_blocks_appends:
  assumes "lf_lines f \<noteq> []" and "\<not> lf_torn f" and "TAIL_SCAN \<le> fst (last (lf_lines f))"
  shows "appendEventLocked sha now given f L
    = (Inl (LedgerIntegrityError [(''ledger'', ''cannot parse ledger tail'')]), L, f)"
  using assms by (cases "last (lf_lines f)") (simp add: appendEventLocked_def sync_def readTailLine_def)


text \<open>
  Tamper evidence of the ledger: the sequence number and the digest of its last event determine
  all of its events, as long as the hash does not collide on the texts at hand.
\<close>

lemma deep_equal_objD:
  assumes "deep_equal (JObj kvs) (JObj lws)" and "map_of kvs k = Some v"
  shows "\<exists>w. map_of lws k = Some w \<and> deep_equal v w"
  using assms map_of_SomeD [OF assms(2)] by (force simp: deep_equal_props_iff)

lemma length_without:
  "distinct (map fst kvs) \<Longrightarrow> map_of kvs k = Some v \<Longrightarrow> length kvs = Suc (length (without k kvs))"
proof (induction kvs)
  case (Cons kv kvs)
  show ?case
  proof (cases "fst kv = k")
    case True
    then have "map_of kvs k = None"
      using Cons.prems(1) by (auto simp: map_of_eq_None_iff)
    with True show ?thesis
      using without_idem [of kvs k] by (simp add: without_def)
  next
    case False
    with Cons show ?thesis by (cases kv) (simp add: without_def)
  qed
qed simp

lemma deep_equal_restore:
  assumes "deep_equal (JObj (without k kvs)) (JObj (without k lws))"
    and "distinct (map fst kvs)" and "distinct (map fst lws)"
    and "map_of kvs k = Some v" and "map_of lws k = Some v" and "deep_equal v v"
  shows "deep_equal (JObj kvs) (JObj lws)"
proof -
  have len: "length kvs = length lws"
    using assms length_without [of kvs k v] length_without [of lws k v] by simp
  have "\<exists>w. map_of lws (fst kv) = Some w \<and> deep_equal (snd kv) w" if kv: "kv \<in> set kvs" for kv
  proof (cases "fst kv = k")
    case True
    have "map_of kvs (fst kv) = Some (snd kv)"
      using kv assms(2) by (intro map_of_is_SomeI) simp_all
    with True assms(4-6) show ?thesis by simp
  next
    case False
    then have "map_of (without k kvs) (fst kv) = Some (snd kv)"
      using kv assms(2) by (simp add: map_of_is_SomeI)
    from deep_equal_objD [OF assms(1) this] False show ?thesis by simp
  qed
  then show ?thesis by (simp add: len deep_equal_props_iff)
qed

lemma data_without: "data_json (JObj kvs) \<Longrightarrow> data_json (JObj (without k kvs))"
  by (auto simp: without_def list_all_iff distinct_map intro: inj_on_subset)

text \<open>Two chained events with the same text and digest are the same up to property order.\<close>

lemma event_text_determines:
  assumes "event_text a = event_text b" and "data_json a" and "data_json b" and "is_obj a" and "is_obj b"
    and "own ''digest'' (Some a) = Some (JStr d)" and "own ''digest'' (Some b) = Some (JStr d)"
  shows "deep_equal a b"
proof -
  obtain kvs lws where objs: "a = JObj kvs" "b = JObj lws"
    using assms(4,5) by (auto simp: is_obj_iff)
  note facts = assms [unfolded objs]
  have "deep_equal (JObj (without ''digest'' kvs)) (JObj (without ''digest'' lws))"
    using facts(1) data_without [OF facts(2)] data_without [OF facts(3)]
    by (simp only: canonical_json_eq_iff [symmetric] event_text_def spread.simps)
  then have "deep_equal (JObj kvs) (JObj lws)"
  proof (rule deep_equal_restore)
    show "distinct (map fst kvs)" "distinct (map fst lws)"
      using facts(2,3) by simp_all
    show "map_of kvs ''digest'' = Some (JStr d)" "map_of lws ''digest'' = Some (JStr d)"
      using facts(6,7) by simp_all
  qed simp
  with objs show ?thesis by simp
qed

lemma ledger_end_determines:
  assumes "chained sha 0 genesis evs" and "chained sha 0 genesis fs" and "length evs = length fs"
    and "end_digest genesis evs = end_digest genesis fs"
    and "list_all data_json evs" and "list_all data_json fs"
    and "inj_on sha (event_text ` (set evs \<union> set fs))"
  shows "list_all2 deep_equal evs fs"
  using assms
proof (induction evs arbitrary: fs rule: rev_induct)
  case Nil
  then show ?case by simp
next
  case (snoc ev evs)
  then obtain gs g where fs: "fs = gs @ [g]"
    by (cases fs rule: rev_cases) auto
  have ch: "chained sha 0 genesis evs" "chained sha 0 genesis gs"
    "chained sha (length evs) (end_digest genesis evs) [ev]"
    "chained sha (length gs) (end_digest genesis gs) [g]"
    using snoc.prems(1,2) fs by (simp_all add: chained_append)
  have dig: "own ''digest'' (Some ev) = Some (JStr (sha (event_text ev)))"
    "own ''digest'' (Some g) = Some (JStr (sha (event_text g)))"
    "own ''digest'' (Some ev) = own ''digest'' (Some g)"
    using ch(3,4) snoc.prems(4) fs by (simp_all add: end_digest_def)
  have "sha (event_text ev) = sha (event_text g)"
    using dig by simp
  then have same_text: "event_text ev = event_text g"
    by (rule inj_onD [OF snoc.prems(7)]) (simp_all add: fs)
  have eq: "deep_equal ev g"
    using same_text dig ch(3,4) snoc.prems(5,6) fs
    by (intro event_text_determines [where d = "sha (event_text g)"]) simp_all
  obtain kvs lws where objs: "ev = JObj kvs" "g = JObj lws"
    using ch(3,4) by (auto simp: is_obj_iff)
  obtain s where s: "end_digest genesis evs = Some (JStr s)"
    using chained_last(2,3) [OF ch(1)] by auto
  have "own ''prevDigest'' (Some ev) = Some (JStr s)" "own ''prevDigest'' (Some g) = end_digest genesis gs"
    using ch(3,4) s by (auto dest: same_key_eq)
  moreover have "own ''prevDigest'' (Some g) = Some (JStr s)"
    using deep_equal_objD [of kvs lws "''prevDigest''" "JStr s"] eq objs calculation(1)
    by (auto simp: deep_equal_scalar)
  ultimately have "end_digest genesis evs = end_digest genesis gs"
    using s by simp
  moreover have "inj_on sha (event_text ` (set evs \<union> set gs))"
    using snoc.prems(7) by (rule inj_on_subset) (auto simp: fs)
  ultimately have "list_all2 deep_equal evs gs"
    using snoc.prems(3,5,6) fs ch by (intro snoc.IH) simp_all
  with eq fs show ?case by (simp add: list_all2_appendI)
qed

end
