(* ===== verification/Run_Store.thy ===== *)
theory Run_Store
  imports Ledger_Laws
begin

text \<open>
  The run store: src/src/runtime/run-store.mjs, the invocation wrapper of
  src/src/logging/invocation.mjs and the validator of src/src/logging/reader.mjs.  The directory
  of a run is a record of its files, and a session is what one \<open>RunStore\<close> object keeps in
  memory.  Every operation takes both and returns its result with both as it leaves them.
  Fresh ids, the clock, the version of the program and the verdict of the sweep of the SOL
  transport (a component of its own) are parameters.  What happens under the run lock is one step;
  an append of the lifecycle has a second one, the refresh of the projection after the lock is
  released (Run_Laws interleaves the steps of several sessions).
  The optional raw sink is left out, and the
  order of the properties of a written record, which nothing reads, is not the code's.
\<close>

section \<open>The files of a run\<close>

datatype json_file = Missing | Unparseable | Parsed json

record run_dir =
  rd_run :: json_file
  rd_ledger :: "ledger_file option"
  rd_invocations :: "(string \<times> json_file) list option"

definition readJsonFile :: "json_file \<Rightarrow> json result" where
  "readJsonFile f =
     (case f of
        Missing \<Rightarrow> Inl (RunStoreError ''cannot read'' [])
      | Unparseable \<Rightarrow> Inl (RunStoreError ''cannot parse'' [])
      | Parsed v \<Rightarrow> Inr v)"

section \<open>Projections\<close>

definition value_or_null :: "jsval \<Rightarrow> jsval" where
  "value_or_null v = (case v of None \<Rightarrow> Some JNull | Some w \<Rightarrow> Some w)"

definition status_val :: "invocation_state \<Rightarrow> jsval" where
  "status_val st = map_option (\<lambda>s. JStr (status_text s)) (st_status st)"

text \<open>The compared fields of a compact invocation record, as the ledger gives them.\<close>

definition projection_of :: "invocation_state \<Rightarrow> (string \<times> jsval) list" where
  "projection_of st =
     [(''status'', status_val st), (''workUnitId'', st_workUnitId st), (''provider'', st_provider st),
      (''model'', st_model st), (''role'', st_role st), (''reasoningEffort'', st_reasoningEffort st),
      (''startedAt'', st_startedAt st), (''completedAt'', value_or_null (st_completedAt st)),
      (''assessedAt'', value_or_null (st_assessedAt st)), (''reconciledAt'', value_or_null (st_reconciledAt st)),
      (''outcome'', st_outcome st), (''usage'', st_usage st), (''errorCode'', st_errorCode st),
      (''rejectionCode'', st_rejectionCode st), (''assessmentResult'', st_assessmentResult st),
      (''summary'', st_summary st), (''evidenceRefs'', st_evidenceRefs st),
      (''reconciliationReason'', st_reconciliationReason st),
      (''supersededByInvocationId'', st_supersededByInvocationId st)]"

fun opt_deep_equal :: "jsval \<Rightarrow> jsval \<Rightarrow> bool" where
  "opt_deep_equal None None = True"
| "opt_deep_equal (Some a) (Some b) = deep_equal a b"
| "opt_deep_equal _ _ = False"

definition mismatch_issues :: "string \<Rightarrow> json \<Rightarrow> invocation_state \<Rightarrow> issue list" where
  "mismatch_issues at rec st =
     concat (map (\<lambda>(k, v). if opt_deep_equal (own k (Some rec)) v then []
        else [(at @ ''.'' @ k, ''projection mismatch: record has '' @ stringify_val (own k (Some rec))
          @ '', ledger has '' @ stringify_val v)]) (projection_of st))"

definition invocation_path :: "string \<Rightarrow> string" where
  "invocation_path i = ''invocations/'' @ i @ ''.json''"

definition record_issues :: "states \<Rightarrow> string \<times> json_file \<Rightarrow> issue list result" where
  "record_issues S f =
     (let at = invocation_path (fst f) in
      case readJsonFile (snd f) of
        Inl _ \<Rightarrow> Inr [(at, ''unparseable'')]
      | Inr rec \<Rightarrow>
          rbind (validateSprintRecord ''lcim.invocation'' rec) (\<lambda>es.
          let schema_issues = map (issue_at at) es in
          case state_of S (Some (JStr (fst f))) of
            None \<Rightarrow> Inr (schema_issues @ [(at, ''no ledger events for this invocation record'')])
          | Some st \<Rightarrow>
              (if rec = JNull then Inl TypeError
               else Inr (schema_issues @ mismatch_issues at rec st))))"

fun all_record_issues :: "states \<Rightarrow> (string \<times> json_file) list \<Rightarrow> issue list result" where
  "all_record_issues S [] = Inr []"
| "all_record_issues S (f # fs) =
     rbind (record_issues S f) (\<lambda>es. rbind (all_record_issues S fs) (\<lambda>rest. Inr (es @ rest)))"

definition missing_records :: "states \<Rightarrow> (string \<times> json_file) list \<Rightarrow> issue list" where
  "missing_records S files =
     concat (map (\<lambda>(k, _). if k \<in> (\<lambda>f. Some (JStr (fst f))) ` set files then []
        else [(invocation_path (js_string k), ''missing projection record for a ledger invocation'')]) S)"

definition checkProjections :: "(string \<times> json_file) list option \<Rightarrow> json list \<Rightarrow> issue list result" where
  "checkProjections dir evs =
     rbind (buildInvocationStates evs) (\<lambda>(S, _).
       case dir of
         None \<Rightarrow> Inr [(''invocations'', ''missing invocation records directory'')]
       | Some files \<Rightarrow>
           rbind (all_record_issues S (sort_key fst files)) (\<lambda>es.
           Inr (es @ missing_records S files)))"

section \<open>Validation of a run store\<close>

definition incomplete_ids :: "ledger_summary \<Rightarrow> json" where
  "incomplete_ids sm = JArr (List.map_filter (\<lambda>x. x) (sum_incompleteInvocationIds sm))"

definition consistency_issues :: "json \<Rightarrow> ledger_summary \<Rightarrow> json list \<Rightarrow> issue list" where
  "consistency_issues run sm evs =
     (let get = \<lambda>k. own k (Some run); state = get ''lifecycleState''; final = get ''finalSummary'';
          closed = is_lit state ''COMPLETED'' \<or> is_lit state ''INCOMPLETE_LEDGER'' in
      (if is_lit state ''COMPLETED'' \<and> sum_incompleteInvocationIds sm \<noteq> []
       then [(''run.json.lifecycleState'', ''run claims COMPLETED but the ledger has incomplete invocations'')] else [])
      @ (if is_lit state ''INCOMPLETE_LEDGER'' then
           (let recorded = own ''incompleteInvocationIds'' final in
            if deep_equal (if nullish recorded then JArr [] else the recorded) (incomplete_ids sm) then []
            else [(''run.json.finalSummary.incompleteInvocationIds'', ''finalSummary lists other invocations'')])
           @ (if nullish (get ''finalizedAt'')
              then [(''run.json.finalizedAt'', ''INCOMPLETE_LEDGER run must be finalized'')] else [])
         else [])
      @ (if closed \<and> nullish final
         then [(''run.json.finalSummary'', ''a finalized run must carry the finalizer summary'')] else [])
      @ (if is_lit state ''OPEN'' \<and> (get ''finalizedAt'' \<noteq> Some JNull \<or> get ''abortedAt'' \<noteq> Some JNull)
         then [(''run.json.lifecycleState'', ''OPEN run must not carry finalizedAt/abortedAt'')] else [])
      @ (if nullish final then []
         else
           (if same_key (own ''ledgerDigest'' final) (last_digest evs) then []
            else [(''run.json.finalSummary.ledgerDigest'', ''does not match the ledger end'')])
           @ (if same_key (own ''lastSeq'' final) (last_seq evs) then []
              else [(''run.json.finalSummary.lastSeq'', ''does not match the ledger end seq'')])))"

definition run_issues :: "json_file \<Rightarrow> issue list result" where
  "run_issues f =
     (case f of
        Missing \<Rightarrow> Inr [(''run.json'', ''missing run record'')]
      | Unparseable \<Rightarrow> Inr [(''run.json'', ''unparseable'')]
      | Parsed run \<Rightarrow>
          (if run = JNull then Inr []
           else rbind (validateSprintRecord ''lcim.run'' run) (\<lambda>es. Inr (map (issue_at ''run.json'') es))))"

definition ledger_issues :: "digest_fun \<Rightarrow> ledger_file option \<Rightarrow> (json list \<times> issue list) result" where
  "ledger_issues sha f =
     (case f of
        None \<Rightarrow> Inr ([], [(''events.v2.jsonl'', ''missing ledger file'')])
      | Some file \<Rightarrow>
          (let (evs, parse_errors) = readJsonlFile file in
           rbind (validateLedger sha evs) (\<lambda>r.
           Inr (evs, map (\<lambda>(n, m). (''events.v2.jsonl:'' @ n, m)) parse_errors
             @ map (\<lambda>(p, m). (''events.v2.jsonl.'' @ p, m)) (lr_errors r)))))"

record store_report =
  sr_errors :: "issue list"
  sr_run :: "json option"
  sr_summary :: ledger_summary

definition validateRunStore :: "digest_fun \<Rightarrow> run_dir \<Rightarrow> store_report result" where
  "validateRunStore sha d =
     rbind (run_issues (rd_run d)) (\<lambda>res.
     rbind (ledger_issues sha (rd_ledger d)) (\<lambda>(evs, les).
     rbind (summarizeLedger evs) (\<lambda>sm.
     let run = (case rd_run d of Parsed v \<Rightarrow> (if v = JNull then None else Some v) | _ \<Rightarrow> None) in
     rbind (checkProjections (rd_invocations d) evs) (\<lambda>pes.
     Inr \<lparr>sr_errors = res @ les
              @ (case run of None \<Rightarrow> [] | Some v \<Rightarrow> consistency_issues v sm evs) @ pes,
          sr_run = run, sr_summary = sm\<rparr>))))"

section \<open>Sessions\<close>

text \<open>The fields of a \<open>RunStore\<close>; \<open>finalState\<close> is \<open>null\<close> or the terminal state it knows of.\<close>

record session =
  ss_runId :: json
  ss_record :: json
  ss_ledger :: ledger
  ss_finalState :: "json option"

definition assertWritable :: "session \<Rightarrow> unit result" where
  "assertWritable s = need (ss_finalState s = None) (LedgerFinalizedError ''session'')"

text \<open>The authoritative gate: the record on disk, read under the run lock.\<close>

definition assertAuthoritativeOpen :: "run_dir \<Rightarrow> json result" where
  "assertAuthoritativeOpen d =
     rbind (readJsonFile (rd_run d)) (\<lambda>run.
     rbind (validateSprintRecord ''lcim.run'' run) (\<lambda>es.
     rbind (need (es = []) (RunStoreError ''authoritative run record is invalid'' es)) (\<lambda>_.
     rbind (need (is_lit (own ''lifecycleState'' (Some run)) ''OPEN'') (LedgerFinalizedError ''on disk'')) (\<lambda>_.
     Inr run))))"

type_synonym 'a step_result = "'a result \<times> session \<times> run_dir"

text \<open>The callback of \<open>withRunDirLock\<close>: the gate and the append share one critical section.\<close>

definition append_under_lock ::
  "digest_fun \<Rightarrow> string \<Rightarrow> (string \<times> json) list \<Rightarrow> session \<Rightarrow> run_dir \<Rightarrow> json step_result" where
  "append_under_lock sha now given s d =
     (case assertAuthoritativeOpen d of
        Inl e \<Rightarrow> (Inl e, s, d)
      | Inr _ \<Rightarrow>
          (case rd_ledger d of
             None \<Rightarrow> (Inl (SystemError ''ENOENT''), s, d)
           | Some f \<Rightarrow>
               (case appendEventLocked sha now given f (ss_ledger s) of
                  (r, L, f') \<Rightarrow> (r, s\<lparr>ss_ledger := L\<rparr>, d\<lparr>rd_ledger := Some f'\<rparr>))))"

definition appendEvent ::
  "digest_fun \<Rightarrow> string \<Rightarrow> (string \<times> json) list \<Rightarrow> session \<Rightarrow> run_dir \<Rightarrow> json step_result" where
  "appendEvent sha now given s d =
     (case assertWritable s of
        Inl e \<Rightarrow> (Inl e, s, d)
      | Inr _ \<Rightarrow> append_under_lock sha now given s d)"

text \<open>The defined properties of an object literal.\<close>

definition defined_props :: "(string \<times> jsval) list \<Rightarrow> (string \<times> json) list" where
  "defined_props kvs = List.map_filter (\<lambda>(k, v). map_option (Pair k) v) kvs"

definition invocation_record :: "string \<Rightarrow> session \<Rightarrow> json result" where
  "invocation_record i s =
     (case state_of (lg_states (ss_ledger s)) (Some (JStr i)) of
        None \<Rightarrow> Inl (LedgerIntegrityError [(i, ''no ledger state for invocation'')])
      | Some st \<Rightarrow>
          stampSprintRecord ''lcim.invocation''
            (Some (JObj (defined_props ([(''invocationId'', Some (JStr i)), (''runId'', Some (ss_runId s))]
               @ projection_of st)))))"

text \<open>
  The refresh writes what the session remembers: it neither holds the lock nor reads the record of
  the run or the ledger file.
\<close>

definition refreshInvocationRecord :: "string \<Rightarrow> session \<Rightarrow> run_dir \<Rightarrow> json result \<times> run_dir" where
  "refreshInvocationRecord i s d =
     (case invocation_record i s of
        Inl e \<Rightarrow> (Inl e, d)
      | Inr rec \<Rightarrow>
          (case rd_invocations d of
             None \<Rightarrow> (Inl (RunStoreError ''cannot write'' []), d)
           | Some files \<Rightarrow> (Inr rec, d\<lparr>rd_invocations := Some (put i (Parsed rec) files)\<rparr>)))"

text \<open>
  One call of \<open>_appendInvocationEvent\<close> from its begin to its end, with no other session in between:
  the fields are completed from memory, the event is appended under the lock, and then, outside the
  lock, the projection of the accepted event is refreshed.  The schema makes the id of the event a
  string.  The single session of a controller run proceeds like this.
\<close>

definition lifecycle_fields :: "(string \<times> json) list \<Rightarrow> session \<Rightarrow> (string \<times> json) list" where
  "lifecycle_fields given s =
     assign ''workUnitId''
       (case state_of (lg_states (ss_ledger s)) (map_of given ''invocationId'') of
          Some st \<Rightarrow> st_workUnitId st | None \<Rightarrow> map_of given ''workUnitId'') given"

definition event_invocation :: "json \<Rightarrow> string" where
  "event_invocation ev = js_string (own ''invocationId'' (Some ev))"

definition appendInvocationEvent ::
  "digest_fun \<Rightarrow> string \<Rightarrow> (string \<times> json) list \<Rightarrow> session \<Rightarrow> run_dir \<Rightarrow> json step_result" where
  "appendInvocationEvent sha now given s d =
     (case appendEvent sha now (lifecycle_fields given s) s d of
        (Inl e, s', d') \<Rightarrow> (Inl e, s', d')
      | (Inr ev, s', d') \<Rightarrow>
          (case refreshInvocationRecord (event_invocation ev) s' d' of
             (Inl e, d'') \<Rightarrow> (Inl e, s', d'')
           | (Inr _, d'') \<Rightarrow> (Inr ev, s', d'')))"

end
