(* ===== verification/Run_Lifecycle.thy ===== *)
theory Run_Lifecycle
  imports Run_Store
begin

text \<open>
  The public operations of a run store (src/src/runtime/run-store.mjs and
  src/src/logging/invocation.mjs) over the files and sessions of Run_Store: creating and opening a
  run, the invocation lifecycle, reconciliation, finalizing and aborting, and the machine of all
  the sessions that share a run.
\<close>

section \<open>Invocations\<close>

definition MAX_NOTE :: nat where
  "MAX_NOTE = 500"

definition startInvocation ::
  "digest_fun \<Rightarrow> string \<Rightarrow> string \<Rightarrow> (string \<times> json) list \<Rightarrow> session \<Rightarrow> run_dir \<Rightarrow> json step_result" where
  "startInvocation sha now fresh given s d =
     (let get = map_of given in
      case rbind (need (isValidId ''work-unit'' (get ''workUnitId'')) (ConfigError ''invalid workUnitId'')) (\<lambda>_.
           rbind (each (\<lambda>f. need (nonempty_string (get f)) (ConfigError f)) [''provider'', ''model'', ''reasoningEffort'']) (\<lambda>_.
           need (one_of INVOCATION_ROLE (get ''role'')) (ConfigError ''invalid role''))) of
        Inl e \<Rightarrow> (Inl e, s, d)
      | Inr _ \<Rightarrow>
          appendInvocationEvent sha now
            (defined_props [(''kind'', Some (JStr ''START'')), (''invocationId'', Some (JStr fresh)),
               (''workUnitId'', get ''workUnitId''), (''provider'', get ''provider''), (''model'', get ''model''),
               (''role'', get ''role''), (''reasoningEffort'', get ''reasoningEffort''),
               (''occurredAt'', get ''occurredAt'')]) s d)"

definition complete ::
  "digest_fun \<Rightarrow> string \<Rightarrow> string \<Rightarrow> (string \<times> json) list \<Rightarrow> session \<Rightarrow> run_dir \<Rightarrow> json step_result" where
  "complete sha now i given s d =
     (let get = map_of given in
      appendInvocationEvent sha now
        (defined_props [(''kind'', Some (JStr ''COMPLETION'')), (''invocationId'', Some (JStr i)),
           (''outcome'', get ''outcome''), (''usage'', get ''usage''), (''errorCode'', get ''errorCode''),
           (''rejectionCode'', get ''rejectionCode''), (''occurredAt'', get ''occurredAt'')]) s d)"

definition assess ::
  "digest_fun \<Rightarrow> string \<Rightarrow> string \<Rightarrow> (string \<times> json) list \<Rightarrow> session \<Rightarrow> run_dir \<Rightarrow> json step_result" where
  "assess sha now i given s d =
     (let get = map_of given in
      appendInvocationEvent sha now
        (defined_props [(''kind'', Some (JStr ''ASSESSMENT'')), (''invocationId'', Some (JStr i)),
           (''assessmentResult'', get ''assessmentResult''), (''rejectionCode'', get ''rejectionCode''),
           (''summary'', get ''summary''), (''evidenceRefs'', get ''evidenceRefs''),
           (''occurredAt'', get ''occurredAt'')]) s d)"

fun note_ok :: "jsval \<Rightarrow> bool" where
  "note_ok None = True"
| "note_ok (Some (JStr t)) = (t \<noteq> [] \<and> length t \<le> MAX_NOTE)"
| "note_ok _ = False"

definition reconcileInvocation ::
  "digest_fun \<Rightarrow> string \<Rightarrow> (string \<times> json) list \<Rightarrow> session \<Rightarrow> run_dir \<Rightarrow> json step_result" where
  "reconcileInvocation sha now given s d =
     (let get = map_of given in
      case rbind (need (isValidId ''invocation'' (get ''invocationId'')) (ConfigError ''invalid invocationId'')) (\<lambda>_.
           rbind (need (one_of RECONCILIATION_REASON (get ''reason'')) (ConfigError ''invalid reconciliation reason'')) (\<lambda>_.
           rbind (need (get ''replacementInvocationId'' = None \<or>
               isValidId ''invocation'' (get ''replacementInvocationId''))
             (ConfigError ''invalid replacementInvocationId'')) (\<lambda>_.
           need (note_ok (get ''note'')) (ConfigError ''note must be a bounded non-empty string'')))) of
        Inl e \<Rightarrow> (Inl e, s, d)
      | Inr _ \<Rightarrow>
          appendInvocationEvent sha now
            (defined_props [(''kind'', Some (JStr ''RECONCILIATION'')), (''invocationId'', get ''invocationId''),
               (''reconciliationReason'', get ''reason''),
               (''replacementInvocationId'', get ''replacementInvocationId''), (''note'', get ''note''),
               (''occurredAt'', get ''occurredAt'')]) s d)"

definition orphan_targets :: "session \<Rightarrow> jsval list" where
  "orphan_targets s =
     js_sort (map (\<lambda>e. st_invocationId (snd e))
       (filter (\<lambda>e. st_status (snd e) = Some STARTED \<or> st_status (snd e) = Some COMPLETED)
          (lg_states (ss_ledger s))))"

text \<open>The loop reads the state of each target again; an error leaves the earlier events.\<close>

fun reconcile_all ::
  "digest_fun \<Rightarrow> string \<Rightarrow> jsval \<Rightarrow> jsval list \<Rightarrow> json list \<Rightarrow> session \<Rightarrow> run_dir \<Rightarrow> json list step_result" where
  "reconcile_all sha now at [] acc s d = (Inr acc, s, d)"
| "reconcile_all sha now at (i # is) acc s d =
     (case state_of (lg_states (ss_ledger s)) i of
        None \<Rightarrow> (Inl TypeError, s, d)
      | Some st \<Rightarrow>
          (case reconcileInvocation sha now
             (defined_props [(''invocationId'', i),
                (''reason'', Some (JStr (if st_status st = Some STARTED then ''CRASH_AFTER_START'' else ''CRASH_AFTER_COMPLETION''))),
                (''occurredAt'', at)]) s d of
             (Inl e, s', d') \<Rightarrow> (Inl e, s', d')
           | (Inr ev, s', d') \<Rightarrow> reconcile_all sha now at is (acc @ [ev]) s' d'))"

definition reconcileOrphans ::
  "digest_fun \<Rightarrow> string \<Rightarrow> jsval \<Rightarrow> session \<Rightarrow> run_dir \<Rightarrow> json list step_result" where
  "reconcileOrphans sha now at s d =
     (case assertWritable s of
        Inl e \<Rightarrow> (Inl e, s, d)
      | Inr _ \<Rightarrow> reconcile_all sha now at (orphan_targets s) [] s d)"

section \<open>Terminal transitions\<close>

definition summary_json :: "ledger_summary \<Rightarrow> json" where
  "summary_json sm =
     JObj (defined_props
       [(''events'', Some (JInt (int (sum_events sm)))), (''invocations'', Some (JInt (int (sum_invocations sm)))),
        (''starts'', Some (JInt (int (sum_starts sm)))), (''completions'', Some (JInt (int (sum_completions sm)))),
        (''assessments'', Some (JInt (int (sum_assessments sm)))),
        (''reconciliations'', Some (JInt (int (sum_reconciliations sm)))),
        (''lastSeq'', sum_lastSeq sm), (''ledgerDigest'', sum_ledgerDigest sm),
        (''incompleteInvocationIds'', Some (incomplete_ids sm))])"

definition baseRecordFields :: "session \<Rightarrow> (string \<times> jsval) list" where
  "baseRecordFields s =
     map (\<lambda>k. (k, own k (Some (ss_record s))))
       [''runId'', ''lcimVersion'', ''lcimCommit'', ''targetBaseSha'', ''configDigest'', ''createdAt'', ''storeVersion'']"

text \<open>
  The terminal guards, shared by \<open>finalize\<close> and \<open>abort\<close>: this session has not ended the run, the
  record on disk is valid and open, and the sweep of the SOL transport (the parameter \<open>clean\<close>)
  has proved its surfaces gone.
\<close>

definition assertTerminalSolTransportClean :: "bool \<Rightarrow> unit result" where
  "assertTerminalSolTransportClean clean =
     need clean (RunStoreError ''SOL transport terminal cleanup could not be proven'' [])"

definition terminal_guards :: "bool \<Rightarrow> session \<Rightarrow> run_dir \<Rightarrow> unit result" where
  "terminal_guards clean s d =
     rbind (assertWritable s) (\<lambda>_.
     rbind (assertAuthoritativeOpen d) (\<lambda>_.
     assertTerminalSolTransportClean clean))"

definition closing_summary :: "digest_fun \<Rightarrow> run_dir \<Rightarrow> ledger_summary result" where
  "closing_summary sha d =
     (case rd_ledger d of
        None \<Rightarrow> Inl (RunStoreError ''cannot read'' [])
      | Some f \<Rightarrow>
          (let (evs, parse_errors) = readJsonlFile f in
           rbind (need (parse_errors = []) (LedgerIntegrityError parse_errors)) (\<lambda>_.
           rbind (validateLedger sha evs) (\<lambda>r.
           rbind (need (lr_valid r) (LedgerIntegrityError (lr_errors r))) (\<lambda>_.
           rbind (checkProjections (rd_invocations d) evs) (\<lambda>pes.
           rbind (need (pes = []) (LedgerIntegrityError pes)) (\<lambda>_.
           Inr (lr_summary r))))))))"

definition closing_state :: "ledger_summary \<Rightarrow> string" where
  "closing_state sm = (if sum_incompleteInvocationIds sm \<noteq> [] then ''INCOMPLETE_LEDGER'' else ''COMPLETED'')"

definition closing_record :: "string \<Rightarrow> session \<Rightarrow> ledger_summary \<Rightarrow> json result" where
  "closing_record now s sm =
     stampSprintRecord ''lcim.run''
       (Some (JObj (defined_props (baseRecordFields s @
          [(''lifecycleState'', Some (JStr (closing_state sm))), (''finalizedAt'', Some (JStr now)),
           (''abortedAt'', Some JNull), (''abortNote'', Some JNull), (''finalSummary'', Some (summary_json sm))]))))"

definition finalize :: "digest_fun \<Rightarrow> bool \<Rightarrow> string \<Rightarrow> session \<Rightarrow> run_dir \<Rightarrow> json step_result" where
  "finalize sha clean now s d =
     (case rbind (terminal_guards clean s d) (\<lambda>_.
           rbind (closing_summary sha d) (\<lambda>sm.
           rbind (closing_record now s sm) (\<lambda>rec.
           Inr (JStr (closing_state sm), rec)))) of
        Inl e \<Rightarrow> (Inl e, s, d)
      | Inr (state, rec) \<Rightarrow>
          (Inr rec, s\<lparr>ss_record := rec, ss_finalState := Some state\<rparr>, d\<lparr>rd_run := Parsed rec\<rparr>))"

definition abort_record :: "string \<Rightarrow> jsval \<Rightarrow> session \<Rightarrow> json result" where
  "abort_record now note s =
     stampSprintRecord ''lcim.run''
       (Some (JObj (defined_props (baseRecordFields s @
          [(''lifecycleState'', Some (JStr ''ABORTED'')), (''finalizedAt'', Some JNull),
           (''abortedAt'', Some (JStr now)), (''abortNote'', value_or_null note), (''finalSummary'', Some JNull)]))))"

definition abort :: "bool \<Rightarrow> string \<Rightarrow> jsval \<Rightarrow> session \<Rightarrow> run_dir \<Rightarrow> json step_result" where
  "abort clean now note s d =
     (case rbind (assertWritable s) (\<lambda>_.
           rbind (need (note_ok note) (ConfigError ''note must be a bounded non-empty string'')) (\<lambda>_.
           rbind (terminal_guards clean s d) (\<lambda>_.
           abort_record now note s))) of
        Inl e \<Rightarrow> (Inl e, s, d)
      | Inr rec \<Rightarrow>
          (Inr rec, s\<lparr>ss_record := rec, ss_finalState := Some (JStr ''ABORTED'')\<rparr>, d\<lparr>rd_run := Parsed rec\<rparr>))"

section \<open>Creating and opening a run\<close>

definition create_record :: "string \<Rightarrow> string \<Rightarrow> json \<Rightarrow> string \<Rightarrow> jsval \<Rightarrow> jsval \<Rightarrow> json result" where
  "create_record fresh version commit now base config =
     stampSprintRecord ''lcim.run''
       (Some (JObj (defined_props
          [(''runId'', Some (JStr fresh)), (''lifecycleState'', Some (JStr ''OPEN'')),
           (''lcimVersion'', Some (JStr version)), (''lcimCommit'', Some commit),
           (''targetBaseSha'', base), (''configDigest'', config), (''createdAt'', Some (JStr now)),
           (''storeVersion'', Some (JStr ''1'')), (''finalizedAt'', Some JNull), (''abortedAt'', Some JNull),
           (''abortNote'', Some JNull), (''finalSummary'', Some JNull)])))"

fun text_matching :: "(string \<Rightarrow> bool) \<Rightarrow> jsval \<Rightarrow> bool" where
  "text_matching P (Some (JStr t)) = P t"
| "text_matching P _ = False"

text \<open>\<open>existing\<close> is the directory of the fresh run id, if there is one.\<close>

definition create ::
  "digest_fun \<Rightarrow> string \<Rightarrow> string \<Rightarrow> json \<Rightarrow> string \<Rightarrow> jsval \<Rightarrow> jsval \<Rightarrow> run_dir option \<Rightarrow> (session \<times> run_dir) result" where
  "create sha fresh version commit now base config existing =
     rbind (need (text_matching (hex_text 40) base) (ConfigError ''targetBaseSha must be a 40-hex git sha'')) (\<lambda>_.
     rbind (need (text_matching (hex_text 64) config) (ConfigError ''configDigest must be a 64-hex sha256 digest'')) (\<lambda>_.
     rbind (need (existing = None) (RunStoreError ''run store already exists'' [])) (\<lambda>_.
     rbind (create_record fresh version commit now base config) (\<lambda>rec.
     let d = \<lparr>rd_run = Parsed rec, rd_ledger = Some \<lparr>lf_lines = [], lf_torn = False\<rparr>, rd_invocations = Some []\<rparr> in
     rbind (open_ledger sha (JStr fresh) (rd_ledger d)) (\<lambda>L.
     Inr (\<lparr>ss_runId = JStr fresh, ss_record = rec, ss_ledger = L, ss_finalState = None\<rparr>, d))))))"

text \<open>
  The anchor of a finalized run: the sequence number and the digest of the last event.  Without
  events the digest that is compared is \<open>undefined\<close>.
\<close>

definition anchor_ok :: "json \<Rightarrow> json list \<Rightarrow> bool" where
  "anchor_ok run evs =
     (let final = own ''finalSummary'' (Some run) in
      same_key (own ''lastSeq'' final) (if js_truthy (last_event evs) then own ''seq'' (last_event evs) else Some (JInt 0)) \<and>
      same_key (own ''ledgerDigest'' final) (if js_truthy (last_event evs) then own ''digest'' (last_event evs) else None))"

definition open_run :: "digest_fun \<Rightarrow> jsval \<Rightarrow> run_dir option \<Rightarrow> session result" where
  "open_run sha runId dir =
     rbind (need (isValidId ''run'' runId) (ConfigError ''invalid run id'')) (\<lambda>_.
     case dir of
       None \<Rightarrow> Inl (RunStoreError ''run store does not exist'' [])
     | Some d \<Rightarrow>
         rbind (readJsonFile (rd_run d)) (\<lambda>run.
         rbind (validateSprintRecord ''lcim.run'' run) (\<lambda>es.
         rbind (need (es = []) (RunStoreError ''run record is invalid'' es)) (\<lambda>_.
         rbind (open_ledger sha (the runId) (rd_ledger d)) (\<lambda>L.
         let get = \<lambda>k. own k (Some run); state = get ''lifecycleState'' in
         rbind (need (\<not> ((is_lit state ''COMPLETED'' \<or> is_lit state ''INCOMPLETE_LEDGER'') \<and>
                  (get ''finalSummary'' = Some JNull \<or> get ''finalizedAt'' = Some JNull)))
             (RunStoreError ''missing finalSummary/finalizedAt'' [])) (\<lambda>_.
         rbind (need (is_lit state ''OPEN'' \<or> get ''finalSummary'' = Some JNull \<or> anchor_ok run (lg_events L))
             (LedgerIntegrityError [(''run.json'', ''ledger end does not match the finalized run anchor'')])) (\<lambda>_.
         Inr \<lparr>ss_runId = the runId, ss_record = run, ss_ledger = L,
              ss_finalState = (if is_lit state ''OPEN'' then None else state)\<rparr>)))))))"

section \<open>Reading\<close>

definition readEvents :: "digest_fun \<Rightarrow> run_dir \<Rightarrow> json list result" where
  "readEvents sha d =
     (case rd_ledger d of
        None \<Rightarrow> Inl (RunStoreError ''cannot read'' [])
      | Some f \<Rightarrow>
          (let (evs, parse_errors) = readJsonlFile f in
           rbind (need (parse_errors = []) (LedgerIntegrityError parse_errors)) (\<lambda>_.
           rbind (validateLedger sha evs) (\<lambda>r.
           rbind (need (lr_valid r) (LedgerIntegrityError (lr_errors r))) (\<lambda>_.
           Inr evs)))))"

definition getInvocationRecord :: "jsval \<Rightarrow> run_dir \<Rightarrow> json result" where
  "getInvocationRecord i d =
     rbind (need (isValidId ''invocation'' i) (ConfigError ''invalid invocationId'')) (\<lambda>_.
     case Option.bind (rd_invocations d) (\<lambda>files. map_of files (js_string i)) of
       None \<Rightarrow> Inl (RunStoreError ''no invocation record'' [])
     | Some f \<Rightarrow>
         rbind (readJsonFile f) (\<lambda>rec.
         rbind (validateSprintRecord ''lcim.invocation'' rec) (\<lambda>es.
         rbind (need (es = []) (RunStoreError ''invocation record is invalid'' es)) (\<lambda>_.
         Inr rec))))"

end
