(* ===== verification/Run_Laws.thy ===== *)
theory Run_Laws
  imports Run_Lifecycle Ledger_Laws
begin

text \<open>
  Laws of the run store: the sessions that share a run as a step relation on its files and on what
  they remember, whose terminal states absorb and whose ledger only grows; what a finalized record
  says; when a finalized run opens again.
\<close>

section \<open>Object literals and stamped records\<close>

lemma map_of_defined_props [simp]:
  "map_of (defined_props []) k = None"
  "map_of (defined_props ((k', v) # kvs)) k = (if k' = k \<and> v \<noteq> None then v else map_of (defined_props kvs) k)"
  by (cases v; simp add: defined_props_def List.map_filter_simps)+

lemma map_of_defined_props_append:
  "map_of (defined_props (kvs @ lws)) k =
     (case map_of (defined_props kvs) k of None \<Rightarrow> map_of (defined_props lws) k | Some v \<Rightarrow> Some v)"
proof (induction kvs)
  case (Cons kv kvs)
  then show ?case by (cases kv) auto
qed simp

lemma map_of_defined_fields:
  "k \<notin> set ks \<Longrightarrow> map_of (defined_props (map (\<lambda>k. (k, f k)) ks)) k = None"
  by (induction ks) auto

lemma stampSprintRecord_Inr:
  assumes "stampSprintRecord name (Some (JObj kvs)) = Inr rec"
  shows "validateSprintRecord name rec = Inr []"
    and "k \<noteq> ''schemaName'' \<Longrightarrow> k \<noteq> ''schemaVersion'' \<Longrightarrow> own k (Some rec) = map_of kvs k"
    and "is_obj rec"
  using assms by (auto simp: stampSprintRecord_def Let_def split: if_splits)

section \<open>Gates\<close>

definition run_open :: "run_dir \<Rightarrow> bool" where
  "run_open d \<longleftrightarrow> (\<exists>run. rd_run d = Parsed run \<and> own ''lifecycleState'' (Some run) = Some (JStr ''OPEN''))"

lemma assertAuthoritativeOpen_open: "assertAuthoritativeOpen d = Inr run \<Longrightarrow> run_open d"
  by (auto simp: assertAuthoritativeOpen_def readJsonFile_def run_open_def split: json_file.splits)

lemma closed_gate: "\<not> run_open d \<Longrightarrow> \<exists>e. assertAuthoritativeOpen d = Inl e"
  using assertAuthoritativeOpen_open by (cases "assertAuthoritativeOpen d") blast+

lemma closed_append_under_lock:
  "\<not> run_open d \<Longrightarrow> \<exists>e. append_under_lock sha now given s d = (Inl e, s, d)"
  using closed_gate [of d] by (auto simp: append_under_lock_def)

lemma closed_guards: "\<not> run_open d \<Longrightarrow> \<exists>e. terminal_guards clean s d = Inl e"
  using closed_gate [of d] by (cases "assertWritable s") (auto simp: terminal_guards_def)

lemma closed_finalize: "\<not> run_open d \<Longrightarrow> \<exists>e. finalize sha clean now s d = (Inl e, s, d)"
  using closed_guards [of d clean s] by (auto simp: finalize_def)

lemma closed_abort: "\<not> run_open d \<Longrightarrow> \<exists>e. abort clean now note s d = (Inl e, s, d)"
proof -
  assume "\<not> run_open d"
  then obtain e where "terminal_guards clean s d = Inl e" using closed_guards by blast
  then have "\<exists>e. rbind (assertWritable s) (\<lambda>_.
      rbind (need (note_ok note) (ConfigError ''note must be a bounded non-empty string'')) (\<lambda>_.
      rbind (terminal_guards clean s d) (\<lambda>_. abort_record now note s))) = Inl e"
    by (cases "assertWritable s"; cases "note_ok note") simp_all
  then show ?thesis by (auto simp: abort_def)
qed

section \<open>Appended lines\<close>

lemma append_file:
  "appendEventLocked sha now given f L = (r, L', f') \<Longrightarrow> f' = f \<or> (\<exists>ev. f' = appendLineSync f ev)"
  by (auto simp: appendEventLocked_def Let_def split: prod.splits sum.splits option.splits if_splits)

definition ledger_grows :: "run_dir \<Rightarrow> run_dir \<Rightarrow> bool" where
  "ledger_grows d d' \<longleftrightarrow>
     (case rd_ledger d of None \<Rightarrow> rd_ledger d' = None
      | Some f \<Rightarrow> (\<exists>f' more. rd_ledger d' = Some f' \<and> lf_lines f' = lf_lines f @ more \<and> lf_torn f' = lf_torn f))"

lemma ledger_grows_refl: "ledger_grows d d"
  by (simp add: ledger_grows_def split: option.splits)

lemma ledger_grows_trans: "ledger_grows a b \<Longrightarrow> ledger_grows b c \<Longrightarrow> ledger_grows a c"
  by (fastforce simp: ledger_grows_def split: option.splits)

lemma ledger_grows_same: "rd_ledger d' = rd_ledger d \<Longrightarrow> ledger_grows d d'"
  by (simp add: ledger_grows_def split: option.splits)

lemma append_under_lock_grows: "append_under_lock sha now given s d = (r, s', d') \<Longrightarrow> ledger_grows d d'"
  by (auto simp: append_under_lock_def ledger_grows_def appendLineSync_def split: sum.splits option.splits prod.splits
      dest!: append_file)

lemma refresh_ledger: "refreshInvocationRecord i s d = (r, d') \<Longrightarrow> rd_ledger d' = rd_ledger d \<and> rd_run d' = rd_run d"
  by (auto simp: refreshInvocationRecord_def split: option.splits sum.splits)

lemma finalize_ledger: "finalize sha clean now s d = (r, s', d') \<Longrightarrow> rd_ledger d' = rd_ledger d"
  by (auto simp: finalize_def split: sum.splits prod.splits)

lemma abort_ledger: "abort clean now note s d = (r, s', d') \<Longrightarrow> rd_ledger d' = rd_ledger d"
  by (auto simp: abort_def split: sum.splits)

section \<open>The sessions of one run\<close>

text \<open>
  The sessions that have a run open, in one or several processes, with its files.  The run lock
  makes a terminal transition and the append of an event one step each.  The refresh of a
  projection follows the release of the lock: until its session gets to it, it is due, and any
  other session may step.  The check of the session's own memory before the lock is not a guard
  here, since it may have passed long before.
\<close>

record run_system =
  sys_dir :: run_dir
  sys_sessions :: "nat \<Rightarrow> session option"
  sys_due :: "(nat \<times> string) list"

definition resumed :: "nat \<Rightarrow> session \<Rightarrow> run_dir \<Rightarrow> run_system \<Rightarrow> run_system" where
  "resumed k s d c = c\<lparr>sys_dir := d, sys_sessions := (sys_sessions c)(k \<mapsto> s)\<rparr>"

lemma resumed_sel [simp]:
  "sys_dir (resumed k s d c) = d" "sys_due (resumed k s d c) = sys_due c"
  "sys_sessions (resumed k s d c) = (sys_sessions c)(k \<mapsto> s)"
  by (simp_all add: resumed_def)

lemma resumed_same: "sys_sessions c k = Some s \<Longrightarrow> resumed k s (sys_dir c) c = c"
  by (simp add: resumed_def fun_upd_idem)

definition due_refreshes :: "nat \<Rightarrow> json result \<Rightarrow> (nat \<times> string) list" where
  "due_refreshes k r = (case r of Inl _ \<Rightarrow> [] | Inr ev \<Rightarrow> [(k, event_invocation ev)])"

inductive run_step :: "digest_fun \<Rightarrow> run_system \<Rightarrow> run_system \<Rightarrow> bool" for sha where
  reopening: "sys_sessions c k = None \<Longrightarrow> k \<notin> fst ` set (sys_due c) \<Longrightarrow> open_run sha i (Some (sys_dir c)) = Inr s
    \<Longrightarrow> run_step sha c (resumed k s (sys_dir c) c)"
| appending: "sys_sessions c k = Some s \<Longrightarrow> append_under_lock sha now given s (sys_dir c) = (r, s', d')
    \<Longrightarrow> run_step sha c ((resumed k s' d' c)\<lparr>sys_due := sys_due c @ due_refreshes k r\<rparr>)"
| refreshing: "sys_due c = earlier @ (k, i) # later \<Longrightarrow> sys_sessions c k = Some s
    \<Longrightarrow> refreshInvocationRecord i s (sys_dir c) = (r, d')
    \<Longrightarrow> run_step sha c (c\<lparr>sys_dir := d', sys_due := earlier @ later\<rparr>)"
| finalizing: "sys_sessions c k = Some s \<Longrightarrow> finalize sha clean now s (sys_dir c) = (r, s', d')
    \<Longrightarrow> run_step sha c (resumed k s' d' c)"
| aborting: "sys_sessions c k = Some s \<Longrightarrow> abort clean now note s (sys_dir c) = (r, s', d')
    \<Longrightarrow> run_step sha c (resumed k s' d' c)"

inductive_cases run_stepE: "run_step sha c c'"

lemma step_grows: "run_step sha c c' \<Longrightarrow> ledger_grows (sys_dir c) (sys_dir c')"
  by (induction rule: run_step.induct)
    (auto dest: append_under_lock_grows refresh_ledger finalize_ledger abort_ledger
      intro: ledger_grows_same ledger_grows_refl)

lemma steps_grow: "(run_step sha)\<^sup>*\<^sup>* c c' \<Longrightarrow> ledger_grows (sys_dir c) (sys_dir c')"
  by (induction rule: rtranclp_induct) (auto intro: ledger_grows_refl ledger_grows_trans step_grows)

text \<open>A call that no other session interrupts is the two steps of the system, one after the other.\<close>

lemma uninterrupted_call:
  assumes "sys_sessions c k = Some s" and "appendInvocationEvent sha now given s (sys_dir c) = (r, s', d')"
  shows "(run_step sha)\<^sup>*\<^sup>* c (resumed k s' d' c)"
proof (cases "assertWritable s")
  case (Inl e)
  then have "resumed k s' d' c = c"
    using assms by (auto simp: appendInvocationEvent_def appendEvent_def resumed_same)
  then show ?thesis by simp
next
  case (Inr u)
  obtain q t d1 where q: "append_under_lock sha now (lifecycle_fields given s) s (sys_dir c) = (q, t, d1)"
    by (metis prod_cases3)
  let ?c1 = "(resumed k t d1 c)\<lparr>sys_due := sys_due c @ due_refreshes k q\<rparr>"
  have app: "run_step sha c ?c1"
    by (rule run_step.appending [OF assms(1) q])
  show ?thesis
  proof (cases q)
    case (Inl e)
    then have "?c1 = resumed k s' d' c"
      using assms(2) Inr q by (auto simp: appendInvocationEvent_def appendEvent_def due_refreshes_def)
    then show ?thesis using app by auto
  next
    case ev: (Inr ev)
    let ?i = "event_invocation ev"
    obtain p d2 where p: "refreshInvocationRecord ?i t d1 = (p, d2)"
      by (metis surj_pair)
    have fin: "s' = t" "d' = d2"
      using assms(2) Inr q ev p
      by (auto simp: appendInvocationEvent_def appendEvent_def split: sum.splits)
    have "run_step sha ?c1 (?c1\<lparr>sys_dir := d2, sys_due := sys_due c @ []\<rparr>)"
      using p by (intro run_step.refreshing [where k = k and i = ?i and s = t]) (simp_all add: ev due_refreshes_def)
    moreover have "?c1\<lparr>sys_dir := d2, sys_due := sys_due c @ []\<rparr> = resumed k s' d' c"
      by (simp add: fin resumed_def)
    ultimately show ?thesis
      using app by (metis converse_rtranclp_into_rtranclp r_into_rtranclp)
  qed
qed

section \<open>Closed runs\<close>

definition record_file :: "string \<Rightarrow> run_dir \<Rightarrow> json_file option" where
  "record_file i d = Option.bind (rd_invocations d) (\<lambda>files. map_of files i)"

text \<open>
  What is left to happen to a run that is closed in \<open>c\<close>: the refreshes that are due then, each of
  which writes what its session remembers.
\<close>

definition only_due :: "run_system \<Rightarrow> run_system \<Rightarrow> bool" where
  "only_due c c' \<longleftrightarrow>
     rd_run (sys_dir c') = rd_run (sys_dir c) \<and> rd_ledger (sys_dir c') = rd_ledger (sys_dir c) \<and>
     (\<forall>i. record_file i (sys_dir c') = record_file i (sys_dir c) \<or>
        (\<exists>k s rec. (k, i) \<in> set (sys_due c) \<and> sys_sessions c k = Some s \<and> invocation_record i s = Inr rec \<and>
           record_file i (sys_dir c') = Some (Parsed rec))) \<and>
     (sys_due c = [] \<longrightarrow> sys_dir c' = sys_dir c)"

definition waiting_same :: "run_system \<Rightarrow> run_system \<Rightarrow> bool" where
  "waiting_same c c' \<longleftrightarrow> (\<forall>(k, i) \<in> set (sys_due c'). (k, i) \<in> set (sys_due c) \<and> sys_sessions c' k = sys_sessions c k)"

lemma refresh_record:
  "refreshInvocationRecord i s d = (r, d') \<Longrightarrow> record_file j d' = record_file j d \<or>
     (j = i \<and> (\<exists>rec. invocation_record i s = Inr rec \<and> record_file j d' = Some (Parsed rec)))"
  by (auto simp: refreshInvocationRecord_def record_file_def split: sum.splits option.splits if_splits)

lemma closed_step:
  assumes "run_step sha c' c''" and "\<not> run_open (sys_dir c')" and "only_due c c'" and "waiting_same c c'"
  shows "\<not> run_open (sys_dir c'') \<and> only_due c c'' \<and> waiting_same c c''"
  using assms
proof (induction rule: run_step.induct)
  case (reopening c' k i s)
  then show ?case by (auto simp: only_due_def waiting_same_def image_iff split: prod.splits)
next
  case (appending c' k s at_time given r s' d')
  then obtain e where "r = Inl e" "s' = s" "d' = sys_dir c'"
    using closed_append_under_lock [of "sys_dir c'" sha at_time given s] by auto
  then show ?case using appending by (simp add: resumed_same due_refreshes_def)
next
  case (refreshing c' done_a k i done_b s r d')
  have k: "(k, i) \<in> set (sys_due c)" "sys_sessions c k = Some s"
    using refreshing by (auto simp: waiting_same_def)
  have same: "rd_run d' = rd_run (sys_dir c')" "rd_ledger d' = rd_ledger (sys_dir c')"
    using refresh_ledger [OF refreshing(3)] by auto
  have "record_file j d' = record_file j (sys_dir c) \<or>
      (\<exists>k s rec. (k, j) \<in> set (sys_due c) \<and> sys_sessions c k = Some s \<and> invocation_record j s = Inr rec \<and>
         record_file j d' = Some (Parsed rec))" for j
    using refresh_record [OF refreshing(3), of j] k refreshing(5) by (auto simp: only_due_def)
  then have "only_due c (c'\<lparr>sys_dir := d', sys_due := done_a @ done_b\<rparr>)"
    using same refreshing(5) k by (auto simp: only_due_def)
  moreover have "waiting_same c (c'\<lparr>sys_dir := d', sys_due := done_a @ done_b\<rparr>)"
    using refreshing(1,6) by (auto simp: waiting_same_def)
  ultimately show ?case
    using refreshing(4) same by (simp add: run_open_def)
next
  case (finalizing c' k s clean at_time r s' d')
  then obtain e where "s' = s" "d' = sys_dir c'"
    using closed_finalize [of "sys_dir c'" sha clean at_time s] by auto
  then show ?case using finalizing by (simp add: resumed_same)
next
  case (aborting c' k s clean at_time a_note r s' d')
  then obtain e where "s' = s" "d' = sys_dir c'"
    using closed_abort [of "sys_dir c'" clean at_time a_note s] by auto
  then show ?case using aborting by (simp add: resumed_same)
qed

lemma closed_steps:
  assumes "(run_step sha)\<^sup>*\<^sup>* c c'" and "\<not> run_open (sys_dir c)"
  shows "only_due c c'"
proof -
  from assms have "\<not> run_open (sys_dir c') \<and> only_due c c' \<and> waiting_same c c'"
  proof (induction rule: rtranclp_induct)
    case base
    then show ?case by (auto simp: only_due_def waiting_same_def)
  next
    case (step y z)
    then show ?case using closed_step [of sha y z c] by blast
  qed
  then show ?thesis by simp
qed

text \<open>
  Nothing stops a refresh that is due: it rewrites the record of an invocation of a closed run with
  what its session remembers, also where another session has written a later state.
\<close>

lemma late_refresh_writes:
  assumes "sys_due c = earlier @ (k, i) # later" and "sys_sessions c k = Some s"
    and "invocation_record i s = Inr rec" and "rd_invocations (sys_dir c) = Some files"
  shows "\<exists>c'. run_step sha c c' \<and> record_file i (sys_dir c') = Some (Parsed rec)"
proof -
  have "refreshInvocationRecord i s (sys_dir c)
      = (Inr rec, (sys_dir c)\<lparr>rd_invocations := Some (put i (Parsed rec) files)\<rparr>)"
    using assms(3,4) by (simp add: refreshInvocationRecord_def)
  from run_step.refreshing [OF assms(1,2) this] show ?thesis
    by (auto intro!: exI simp: record_file_def)
qed

section \<open>Finalized runs\<close>

text \<open>What a successful finalization has checked and written.\<close>

lemma finalize_Inr:
  assumes "finalize sha clean now s d = (Inr rec, s', d')"
  obtains f evs S sm where "rd_ledger d = Some f" "readJsonlFile f = (evs, [])" "valid_ledger sha evs S"
    "sm = summary_of S evs" "checkProjections (rd_invocations d) evs = Inr []"
    "closing_record now s sm = Inr rec" "d' = d\<lparr>rd_run := Parsed rec\<rparr>" "clean" "run_open d"
    "ss_finalState s = None"
proof -
  from assms obtain sm where g: "terminal_guards clean s d = Inr ()" "closing_summary sha d = Inr sm"
      "closing_record now s sm = Inr rec" "d' = d\<lparr>rd_run := Parsed rec\<rparr>"
    by (auto simp: finalize_def split: sum.splits prod.splits)
  from g(2) obtain f evs r where "rd_ledger d = Some f" "readJsonlFile f = (evs, [])"
      "validateLedger sha evs = Inr r" "lr_valid r" "sm = lr_summary r"
      "checkProjections (rd_invocations d) evs = Inr []"
    by (auto simp: closing_summary_def split: option.splits prod.splits)
  moreover have "valid_ledger sha evs (lr_states r)" "lr_summary r = summary_of (lr_states r) evs"
    using calculation(3,4) validateLedger_report by blast+
  ultimately show ?thesis
    using g that assertAuthoritativeOpen_open
    by (auto simp: terminal_guards_def assertWritable_def assertTerminalSolTransportClean_def)
qed

lemma closing_record_fields:
  assumes "closing_record now s sm = Inr rec"
  shows "validateSprintRecord ''lcim.run'' rec = Inr []" and "is_obj rec"
    and "own ''lifecycleState'' (Some rec) = Some (JStr (closing_state sm))"
    and "own ''finalizedAt'' (Some rec) = Some (JStr now)"
    and "own ''finalSummary'' (Some rec) = Some (summary_json sm)"
  using stampSprintRecord_Inr [OF assms [unfolded closing_record_def]]
  by (simp_all add: map_of_defined_props_append baseRecordFields_def)

lemma closed_after_finalize:
  assumes "finalize sha clean now s d = (Inr rec, s', d')"
  shows "\<not> run_open d'"
proof -
  from assms obtain sm where "closing_record now s sm = Inr rec" "d' = d\<lparr>rd_run := Parsed rec\<rparr>"
    by (auto elim: finalize_Inr)
  then show ?thesis
    using closing_record_fields(3) by (auto simp: run_open_def closing_state_def)
qed

lemma closed_after_abort:
  assumes "abort clean now note s d = (Inr rec, s', d')"
  shows "\<not> run_open d'"
proof -
  from assms have "abort_record now note s = Inr rec" "d' = d\<lparr>rd_run := Parsed rec\<rparr>"
    by (auto simp: abort_def split: sum.splits)
  then show ?thesis
    using stampSprintRecord_Inr(2) [of "''lcim.run''" _ rec "''lifecycleState''"]
    by (auto simp: run_open_def abort_record_def map_of_defined_props_append baseRecordFields_def)
qed

lemma js_sort_Nil [simp]: "js_sort vs = [] \<longleftrightarrow> vs = []"
  using length_js_sort [of vs] by (metis length_0_conv)

lemma closing_state_iff:
  "closing_state (summary_of S evs) = ''COMPLETED'' \<longleftrightarrow> (\<forall>e \<in> set S. \<not> incomplete (snd e))"
  by (auto simp: closing_state_def summary_of_def filter_empty_conv)

lemma summary_anchor:
  "own ''lastSeq'' (Some (summary_json (summary_of S evs))) = last_seq evs"
  "own ''ledgerDigest'' (Some (summary_json (summary_of S evs))) = last_digest evs"
  by (auto simp: summary_json_def summary_of_def)

lemma anchor_iff:
  assumes "valid_ledger sha evs S" and "own ''finalSummary'' (Some run) = Some (summary_json (summary_of S evs))"
  shows "anchor_ok run evs \<longleftrightarrow> evs \<noteq> []"
proof -
  have ch: "chained sha 0 genesis evs"
    using assms(1) by (simp add: valid_ledger_def)
  show ?thesis
  proof (cases "evs = []")
    case True
    then show ?thesis
      using chained_last(3) [OF ch] by (auto simp: anchor_ok_def assms(2) summary_anchor Let_def last_event_def)
  next
    case False
    then have "js_truthy (last_event evs)"
      using chained_objects [OF ch] by (auto simp: last_event_def intro!: is_obj_truthy)
    with False show ?thesis
      using chained_last [OF ch]
      by (auto simp: anchor_ok_def assms(2) summary_anchor Let_def last_seq_def last_digest_def)
  qed
qed

lemma reload_valid:
  assumes "readJsonlFile f = (evs, [])" and "valid_ledger sha evs S"
  shows "reload sha f L = Inr (L\<lparr>lg_events := evs, lg_states := S\<rparr>)"
proof -
  obtain r where "validateLedger sha evs = Inr r" "lr_valid r" "lr_states r = S"
    using assms(2) validateLedger_valid_iff by blast
  with assms(1) show ?thesis by (simp add: reload_def)
qed

lemma reopen_finalized:
  assumes "finalize sha clean now s d = (Inr rec, s', d')" and "isValidId ''run'' (Some runId)"
    and "rd_ledger d = Some f" and "readJsonlFile f = (evs, [])"
  shows "(\<exists>t. open_run sha (Some runId) (Some d') = Inr t) \<longleftrightarrow> evs \<noteq> []"
proof -
  from assms(1,3,4) obtain S where v: "valid_ledger sha evs S"
      "closing_record now s (summary_of S evs) = Inr rec" "d' = d\<lparr>rd_run := Parsed rec\<rparr>"
    by (auto elim!: finalize_Inr)
  note rec = closing_record_fields [OF v(2)]
  have open_ledger: "open_ledger sha runId (rd_ledger d')
      = Inr \<lparr>lg_runId = runId, lg_events = evs, lg_states = S\<rparr>"
    using v assms(3) by (simp add: open_ledger_def reload_valid [OF assms(4) v(1)])
  have "summary_json (summary_of S evs) \<noteq> JNull"
    by (simp add: summary_json_def)
  moreover have "closing_state (summary_of S evs) \<noteq> ''OPEN''"
    by (simp add: closing_state_def)
  ultimately show ?thesis
    using v(3) rec anchor_iff [OF v(1) rec(5)] open_ledger assms(2)
    by (auto simp: open_run_def readJsonFile_def Let_def)
qed

text \<open>
  A run record that is the JSON value \<open>null\<close> escapes the validator of the run store: with an
  empty ledger and no invocation records, the report has no error and no run.
\<close>

theorem null_run_record_accepted:
  "validateRunStore sha \<lparr>rd_run = Parsed JNull, rd_ledger = Some \<lparr>lf_lines = [], lf_torn = False\<rparr>, rd_invocations = Some []\<rparr>
    = Inr \<lparr>sr_errors = [], sr_run = None, sr_summary = summary_of [] []\<rparr>"
  by (simp add: validateRunStore_def run_issues_def ledger_issues_def readJsonlFile_def List.map_filter_simps
      validateLedger_def buildInvocationStates_def summarizeLedger_def checkProjections_def missing_records_def)

end
