(* ===== verification/Ledger_Samples.thy ===== *)
theory Ledger_Samples
  imports Lcim_Samples Run_Laws
begin

text \<open>
  Concrete ledgers and run directories on which the properties of the ledger and of the run store
  are evaluated; the hash is the constant function of Lcim_Samples.
\<close>

section \<open>Events\<close>

definition sample_run_id :: string where
  "sample_run_id = ''lcim_run_'' @ zeros 32"

definition sample_inv_id :: string where
  "sample_inv_id = ''lcim_inv_'' @ zeros 32"

definition sample_wu_id :: string where
  "sample_wu_id = ''lcim_wu_'' @ zeros 32"

definition start_fields :: "(string \<times> json) list" where
  "start_fields =
     [(''kind'', JStr ''START''), (''invocationId'', JStr sample_inv_id), (''workUnitId'', JStr sample_wu_id),
      (''provider'', JStr ''pi''), (''model'', JStr ''deepseek-v4-flash''), (''role'', JStr ''WORKER''),
      (''reasoningEffort'', JStr ''HIGH'')]"

definition start_event :: json where
  "start_event =
     JObj [(''kind'', JStr ''START''), (''invocationId'', JStr sample_inv_id), (''workUnitId'', JStr sample_wu_id),
      (''provider'', JStr ''pi''), (''model'', JStr ''deepseek-v4-flash''), (''role'', JStr ''WORKER''),
      (''reasoningEffort'', JStr ''HIGH''), (''schemaName'', JStr ''lcim.event''), (''schemaVersion'', JStr ''1.0.0''),
      (''runId'', JStr sample_run_id), (''seq'', JInt 1), (''prevDigest'', JStr (zeros 64)),
      (''occurredAt'', JStr sample_time), (''digest'', JStr (zeros 64))]"

text \<open>The same event with its properties in another order.\<close>

definition start_event_rotated :: json where
  "start_event_rotated = (case start_event of JObj kvs \<Rightarrow> JObj (rotate1 kvs) | v \<Rightarrow> v)"

definition completion_event :: json where
  "completion_event =
     JObj [(''kind'', JStr ''COMPLETION''), (''invocationId'', JStr sample_inv_id), (''seq'', JInt 2)]"

definition assessment_event :: json where
  "assessment_event =
     JObj [(''kind'', JStr ''ASSESSMENT''), (''invocationId'', JStr sample_inv_id), (''seq'', JInt 3)]"

definition empty_ledger :: ledger where
  "empty_ledger = \<lparr>lg_runId = JStr sample_run_id, lg_events = [], lg_states = []\<rparr>"

definition empty_file :: ledger_file where
  "empty_file = \<lparr>lf_lines = [], lf_torn = False\<rparr>"

lemmas sample_ids = sample_run_id_def sample_inv_id_def sample_wu_id_def zeros_def

lemma genesis_zeros: "LEDGER_GENESIS_DIGEST = zeros 64"
  by (simp add: LEDGER_GENESIS_DIGEST_def zeros_def)

lemma start_chained: "chained_event sample_sha sample_time empty_ledger start_fields = start_event"
  by (simp add: chained_event_def Let_def start_fields_def start_event_def empty_ledger_def sample_sha_def
      last_digest_def last_event_def next_seq_def last_seq_def assign_def genesis_zeros without_def
      del: canonical_json.simps)

lemma start_valid: "validateEventInstance start_event = Inr []"
  by code_simp

lemma rotated_valid: "validateEventInstance start_event_rotated = Inr []"
  by code_simp

lemma start_transition: "transition_problem [] start_event = None"
  by (simp add: transition_problem_def start_event_def)

lemma empty_ledger_ok: "ledger_ok sample_sha empty_ledger"
  by (simp add: ledger_ok_def valid_ledger_def empty_ledger_def buildInvocationStates_def)

lemma start_states: "\<exists>S. buildInvocationStates [start_event] = Inr (S, [])"
  using start_transition by (simp add: buildInvocationStates_def checkTransition_def start_event_def)

lemma start_ledger: "chained sample_sha 0 genesis [start_event]"
  using start_valid by (simp add: start_event_def genesis_def genesis_zeros sample_sha_def)

lemma rotated_ledger: "chained sample_sha 0 genesis [start_event_rotated]"
  using rotated_valid by (simp add: start_event_def start_event_rotated_def genesis_def genesis_zeros sample_sha_def)

lemma sample_append:
  "\<exists>L'. appendEventLocked sample_sha sample_time start_fields empty_file empty_ledger
     = (Inr start_event, L', appendLineSync empty_file start_event)"
proof -
  have sync: "sync sample_sha empty_file empty_ledger = (Inr (), empty_ledger)"
    by (simp add: sync_def readTailLine_def empty_file_def empty_ledger_def)
  obtain S where "buildInvocationStates [start_event] = Inr (S, [])"
    using start_states by blast
  then show ?thesis
    using sync start_transition start_valid
    by (simp add: appendEventLocked_def Let_def start_chained empty_ledger_def [THEN arg_cong, of lg_events]
        empty_ledger_def [THEN arg_cong, of lg_states])
qed

section \<open>A run\<close>

definition open_record :: json where
  "open_record =
     JObj [(''runId'', JStr sample_run_id), (''lifecycleState'', JStr ''OPEN''), (''lcimVersion'', JStr ''2.0.0''),
       (''lcimCommit'', JNull), (''targetBaseSha'', JStr (zeros 40)), (''configDigest'', JStr (zeros 64)),
       (''createdAt'', JStr sample_time), (''storeVersion'', JStr ''1''), (''finalizedAt'', JNull),
       (''abortedAt'', JNull), (''abortNote'', JNull), (''finalSummary'', JNull),
       (''schemaName'', JStr ''lcim.run''), (''schemaVersion'', JStr ''1.0.0'')]"

definition sample_dir :: run_dir where
  "sample_dir = \<lparr>rd_run = Parsed open_record, rd_ledger = Some empty_file, rd_invocations = Some []\<rparr>"

definition sample_session :: session where
  "sample_session = \<lparr>ss_runId = JStr sample_run_id, ss_record = open_record, ss_ledger = empty_ledger,
     ss_finalState = None\<rparr>"

definition empty_summary :: ledger_summary where
  "empty_summary = summary_of [] []"

definition final_record :: json where
  "final_record =
     JObj [(''runId'', JStr sample_run_id), (''lcimVersion'', JStr ''2.0.0''), (''lcimCommit'', JNull),
       (''targetBaseSha'', JStr (zeros 40)), (''configDigest'', JStr (zeros 64)), (''createdAt'', JStr sample_time),
       (''storeVersion'', JStr ''1''), (''lifecycleState'', JStr ''COMPLETED''), (''finalizedAt'', JStr sample_time),
       (''abortedAt'', JNull), (''abortNote'', JNull),
       (''finalSummary'', JObj [(''events'', JInt 0), (''invocations'', JInt 0), (''starts'', JInt 0),
          (''completions'', JInt 0), (''assessments'', JInt 0), (''reconciliations'', JInt 0),
          (''lastSeq'', JInt 0), (''ledgerDigest'', JStr (zeros 64)), (''incompleteInvocationIds'', JArr [])]),
       (''schemaName'', JStr ''lcim.run''), (''schemaVersion'', JStr ''1.0.0'')]"

lemma open_record_valid: "validateSprintRecord ''lcim.run'' open_record = Inr []"
  by code_simp

lemma final_record_valid: "validateSprintRecord ''lcim.run'' final_record = Inr []"
  by code_simp

lemma sample_open: "assertAuthoritativeOpen sample_dir = Inr open_record"
  using open_record_valid
  by (simp add: assertAuthoritativeOpen_def sample_dir_def readJsonFile_def open_record_def)

lemma defined_props_Nil [simp]: "defined_props [] = []"
  by (simp add: defined_props_def List.map_filter_simps)

lemma defined_props_Cons [simp]:
  "defined_props ((k, Some v) # kvs) = (k, v) # defined_props kvs"
  "defined_props ((k, None) # kvs) = defined_props kvs"
  by (simp_all add: defined_props_def List.map_filter_simps)

lemma sample_closing: "closing_record sample_time sample_session empty_summary = Inr final_record"
proof -
  have "put ''schemaVersion'' (JStr SPRINT_SCHEMA_VERSION) (put ''schemaName'' (JStr ''lcim.run'')
      (defined_props (baseRecordFields sample_session @
        [(''lifecycleState'', Some (JStr (closing_state empty_summary))), (''finalizedAt'', Some (JStr sample_time)),
         (''abortedAt'', Some JNull), (''abortNote'', Some JNull), (''finalSummary'', Some (summary_json empty_summary))])))
      = own_props final_record"
    if "own_props = (\<lambda>v. case v of JObj kvs \<Rightarrow> kvs | _ \<Rightarrow> [])" for own_props
    by (simp add: that final_record_def baseRecordFields_def sample_session_def open_record_def closing_state_def
        empty_summary_def summary_of_def summary_json_def sum_kind_def js_sort_def last_seq_def last_digest_def
        last_event_def genesis_zeros incomplete_ids_def SPRINT_SCHEMA_VERSION_def List.map_filter_simps)
  from this [OF refl] show ?thesis
    using final_record_valid
    by (simp add: closing_record_def stampSprintRecord_def Let_def loadSprintSchema_def SPRINT_SCHEMA_MANIFEST_def
        final_record_def)
qed

lemma sample_finalize:
  "\<exists>s'. finalize sample_sha True sample_time sample_session sample_dir
     = (Inr final_record, s', sample_dir\<lparr>rd_run := Parsed final_record\<rparr>)"
proof -
  have "closing_summary sample_sha sample_dir = Inr empty_summary"
    by (simp add: closing_summary_def sample_dir_def empty_file_def readJsonlFile_def List.map_filter_simps
        validateLedger_def buildInvocationStates_def lr_valid_def checkProjections_def missing_records_def
        empty_summary_def)
  moreover have "terminal_guards True sample_session sample_dir = Inr ()"
    using sample_open
    by (simp add: terminal_guards_def assertWritable_def sample_session_def assertTerminalSolTransportClean_def)
  ultimately show ?thesis
    using sample_closing by (simp add: finalize_def)
qed

text \<open>Two sessions of one run, of which the second remembers it as open for good.\<close>

definition sample_system :: run_system where
  "sample_system = \<lparr>sys_dir = sample_dir, sys_sessions = [0 \<mapsto> sample_session, 1 \<mapsto> sample_session], sys_due = []\<rparr>"

end
