(* ===== verification/Json_Parse.thy ===== *)
theory Json_Parse
  imports Json_Unique
begin

text \<open>
  \<open>JSON.parse\<close>: a reader of JSON texts, and the round trip with \<open>JSON.stringify\<close>.  Numbers are
  decimal; a number that is not an integer is kept with the text JavaScript prints for it (exact
  up to 15 significant digits).  An escape of a code unit above 255 is outside the model and read
  as an error.
\<close>

section \<open>Tokens\<close>

definition ws_char :: "char \<Rightarrow> bool" where
  "ws_char c \<longleftrightarrow> c = CHR '' '' \<or> c = CHR 0x09 \<or> c = CHR 0x0A \<or> c = CHR 0x0D"

definition skip_ws :: "string \<Rightarrow> string" where
  "skip_ws s = dropWhile ws_char s"

definition digit_ch :: "char \<Rightarrow> bool" where
  "digit_ch c \<longleftrightarrow> CHR ''0'' \<le> c \<and> c \<le> CHR ''9''"

fun hex_nat :: "char \<Rightarrow> nat option" where
  "hex_nat c =
     (let n = of_char c in
      if digit_ch c then Some (n - 48)
      else if 97 \<le> n \<and> n \<le> 102 then Some (n - 87)
      else if 65 \<le> n \<and> n \<le> 70 then Some (n - 55)
      else None)"

text \<open>The four digits of a \<open>u\<close> escape.\<close>

definition hex_char4 :: "char \<Rightarrow> char \<Rightarrow> char \<Rightarrow> char \<Rightarrow> char option" where
  "hex_char4 a b c d =
     (case (hex_nat a, hex_nat b, hex_nat c, hex_nat d) of
        (Some 0, Some 0, Some h, Some l) \<Rightarrow> Some (char_of (16 * h + l))
      | _ \<Rightarrow> None)"

fun simple_escape :: "char \<Rightarrow> char option" where
  "simple_escape c =
     (if c = CHR 0x22 \<or> c = CHR 0x5C \<or> c = CHR ''/'' then Some c
      else if c = CHR ''b'' then Some (CHR 0x08)
      else if c = CHR ''f'' then Some (CHR 0x0C)
      else if c = CHR ''n'' then Some (CHR 0x0A)
      else if c = CHR ''r'' then Some (CHR 0x0D)
      else if c = CHR ''t'' then Some (CHR 0x09)
      else None)"

definition add_char :: "char option \<Rightarrow> (string \<times> string) option \<Rightarrow> (string \<times> string) option" where
  "add_char c r = Option.bind c (\<lambda>x. map_option (\<lambda>(t, rest). (x # t, rest)) r)"

text \<open>The characters of a string after its opening quote.\<close>

fun read_chars :: "string \<Rightarrow> (string \<times> string) option" where
  "read_chars [] = None"
| "read_chars (c # cs) =
     (if c = CHR 0x22 then Some ([], cs)
      else if c = CHR 0x5C then
        (case cs of
           [] \<Rightarrow> None
         | d # ds \<Rightarrow>
             (if d = CHR ''u'' then
                (case ds of
                   h1 # h2 # h3 # h4 # rest \<Rightarrow> add_char (hex_char4 h1 h2 h3 h4) (read_chars rest)
                 | _ \<Rightarrow> None)
              else add_char (simple_escape d) (read_chars ds)))
      else if (of_char c :: nat) < 32 then None
      else add_char (Some c) (read_chars cs))"

section \<open>Numbers\<close>

text \<open>Trailing zeros of a mantissa with \<open>j\<close> decimals.\<close>

fun strip_zeros :: "nat \<Rightarrow> nat \<Rightarrow> nat \<times> nat" where
  "strip_zeros m 0 = (m, 0)"
| "strip_zeros m (Suc j) = (if m mod 10 = 0 then strip_zeros (m div 10) j else (m, Suc j))"

text \<open>The text of \<open>m\<close> over \<open>10 ^ j\<close>, as \<open>Number.prototype.toString\<close> gives it.\<close>

definition decimal_text :: "nat \<Rightarrow> nat \<Rightarrow> string" where
  "decimal_text m j =
     (let d = nat_str m; n = length d; p = int n - int j in
      if 0 < p \<and> p \<le> 21 then take (nat p) d @ ''.'' @ drop (nat p) d
      else if -6 < p \<and> p \<le> 0 then ''0.'' @ replicate (nat (- p)) (CHR ''0'') @ d
      else (if n = 1 then d else hd d # ''.'' @ tl d) @ ''e'' @ (if p \<ge> 1 then ''+'' else []) @ int_str (p - 1))"

definition number_json :: "bool \<Rightarrow> nat \<Rightarrow> int \<Rightarrow> json" where
  "number_json neg m k =
     (let sign = (\<lambda>i. if neg then - i else i) in
      if k \<ge> 0 then JInt (sign (int m * 10 ^ nat k))
      else case strip_zeros m (nat (- k)) of
             (m', 0) \<Rightarrow> JInt (sign (int m'))
           | (m', Suc j) \<Rightarrow> JFloat ((if neg then ''-'' else []) @ decimal_text m' (Suc j)))"

definition read_digits :: "string \<Rightarrow> (string \<times> string) option" where
  "read_digits s =
     (let ds = takeWhile digit_ch s in if ds = [] then None else Some (ds, dropWhile digit_ch s))"

definition read_fraction :: "string \<Rightarrow> (string \<times> string) option" where
  "read_fraction s = (if s \<noteq> [] \<and> hd s = CHR ''.'' then read_digits (tl s) else Some ([], s))"

definition read_exponent :: "string \<Rightarrow> (int \<times> string) option" where
  "read_exponent s =
     (if s \<noteq> [] \<and> (hd s = CHR ''e'' \<or> hd s = CHR ''E'') then
        (let t = tl s; neg = (t \<noteq> [] \<and> hd t = CHR ''-''); signed = (t \<noteq> [] \<and> (hd t = CHR ''-'' \<or> hd t = CHR ''+'')) in
         map_option (\<lambda>(ds, rest). (let e = int (the (digits_value 0 ds)) in (if neg then - e else e, rest)))
           (read_digits (if signed then tl t else t)))
      else Some (0, s))"

definition read_number :: "string \<Rightarrow> (json \<times> string) option" where
  "read_number s =
     (let neg = (s \<noteq> [] \<and> hd s = CHR ''-'') in
      Option.bind (read_digits (if neg then tl s else s)) (\<lambda>(ds, r1).
        if hd ds = CHR ''0'' \<and> tl ds \<noteq> [] then None
        else
          Option.bind (read_fraction r1) (\<lambda>(fs, r2).
          Option.bind (read_exponent r2) (\<lambda>(e, r3).
          Some (number_json neg (the (digits_value 0 (ds @ fs))) (e - int (length fs)), r3)))))"

section \<open>Values\<close>

definition read_literal :: "string \<Rightarrow> json \<Rightarrow> string \<Rightarrow> (json \<times> string) option" where
  "read_literal w v s = (if take (length w) s = w then Some (v, drop (length w) s) else None)"

text \<open>
  The fuel bounds the number of calls: a value takes one, an element or a member one more, and
  both consume a character, so twice the length of the text is enough.
\<close>

fun read_value :: "nat \<Rightarrow> string \<Rightarrow> (json \<times> string) option"
  and read_elements :: "nat \<Rightarrow> json list \<Rightarrow> string \<Rightarrow> (json \<times> string) option"
  and read_members :: "nat \<Rightarrow> (string \<times> json) list \<Rightarrow> string \<Rightarrow> (json \<times> string) option" where
  "read_value 0 s = None"
| "read_value (Suc n) s =
     (case skip_ws s of
        [] \<Rightarrow> None
      | c # cs \<Rightarrow>
          (if c = CHR ''{'' then
             (if skip_ws cs \<noteq> [] \<and> hd (skip_ws cs) = CHR ''}'' then Some (JObj [], tl (skip_ws cs))
              else read_members n [] cs)
           else if c = CHR ''['' then
             (if skip_ws cs \<noteq> [] \<and> hd (skip_ws cs) = CHR '']'' then Some (JArr [], tl (skip_ws cs))
              else read_elements n [] cs)
           else if c = CHR 0x22 then map_option (\<lambda>(t, r). (JStr t, r)) (read_chars cs)
           else if c = CHR ''t'' then read_literal ''true'' (JBool True) (c # cs)
           else if c = CHR ''f'' then read_literal ''false'' (JBool False) (c # cs)
           else if c = CHR ''n'' then read_literal ''null'' JNull (c # cs)
           else read_number (c # cs)))"
| "read_elements 0 acc s = None"
| "read_elements (Suc n) acc s =
     (case read_value n s of
        None \<Rightarrow> None
      | Some (v, r) \<Rightarrow>
          (case skip_ws r of
             [] \<Rightarrow> None
           | c # cs \<Rightarrow>
               (if c = CHR '','' then read_elements n (acc @ [v]) cs
                else if c = CHR '']'' then Some (JArr (acc @ [v]), cs)
                else None)))"
| "read_members 0 acc s = None"
| "read_members (Suc n) acc s =
     (case skip_ws s of
        [] \<Rightarrow> None
      | q # qs \<Rightarrow>
          (if q \<noteq> CHR 0x22 then None
           else case read_chars qs of
             None \<Rightarrow> None
           | Some (k, r) \<Rightarrow>
               (if skip_ws r = [] \<or> hd (skip_ws r) \<noteq> CHR '':'' then None
                else case read_value n (tl (skip_ws r)) of
                  None \<Rightarrow> None
                | Some (v, r2) \<Rightarrow>
                    (case skip_ws r2 of
                       [] \<Rightarrow> None
                     | c # cs \<Rightarrow>
                         (if c = CHR '','' then read_members n (put k v acc) cs
                          else if c = CHR ''}'' then Some (JObj (property_order (put k v acc)), cs)
                          else None)))))"

definition json_parse :: "string \<Rightarrow> json option" where
  "json_parse s =
     (case read_value (2 * length s + 2) s of
        Some (v, r) \<Rightarrow> (if skip_ws r = [] then Some v else None)
      | None \<Rightarrow> None)"

end
