(* ===== verification/Json_Roundtrip.thy ===== *)
theory Json_Roundtrip
  imports Json_Parse
begin

text \<open>
  The reader of JSON texts gives back every value that \<open>JSON.stringify\<close> printed, also in front of
  more input, and its fuel is never the reason of a failure there.
\<close>

section \<open>Tokens\<close>

lemma hex_nat_digit: "d < 16 \<Longrightarrow> hex_nat (hex_digit d) = Some d"
  by (auto simp: hex_digit_def digit_ch_def less_eq_char_def Let_def)

lemma hex_char4_zero:
  "n < 256 \<Longrightarrow> hex_char4 (CHR ''0'') (CHR ''0'') (hex_digit (n div 16)) (hex_digit (n mod 16)) = Some (char_of n)"
proof -
  assume n: "n < 256"
  have "hex_nat (CHR ''0'') = Some 0"
    by (simp add: digit_ch_def)
  moreover have "hex_nat (hex_digit (n div 16)) = Some (n div 16)" "hex_nat (hex_digit (n mod 16)) = Some (n mod 16)"
    using n by (intro hex_nat_digit; simp)+
  ultimately show ?thesis
    unfolding hex_char4_def by simp
qed

declare hex_nat.simps [simp del]

lemma read_escaped: "read_chars (escape_char c @ x) = add_char (Some c) (read_chars x)"
proof -
  define n :: nat where "n = of_char c"
  have c: "char_of n = c" and n: "n < 256"
    by (simp_all add: n_def)
  have lits: "char_of (34 :: nat) = CHR 0x22" "char_of (92 :: nat) = CHR 0x5C" "char_of (8 :: nat) = CHR 0x08"
    "char_of (12 :: nat) = CHR 0x0C" "char_of (10 :: nat) = CHR 0x0A" "char_of (13 :: nat) = CHR 0x0D"
    "char_of (9 :: nat) = CHR 0x09"
    by code_simp+
  consider "n = 34" | "n = 92" | "n = 8" | "n = 12" | "n = 10" | "n = 13" | "n = 9"
    | "n < 32" "n \<notin> {8, 12, 10, 13, 9}" | "32 \<le> n" "n \<noteq> 34" "n \<noteq> 92"
    by force
  then show ?thesis
  proof cases
    case 8
    then show ?thesis
      using c n by (simp add: escape_char_def n_def [symmetric] Let_def hex_char4_zero)
  next
    case 9
    then have "c \<noteq> CHR 0x5C" "c \<noteq> CHR 0x22"
      using n_def by auto
    with 9 show ?thesis
      by (simp add: escape_char_def n_def [symmetric] Let_def)
  qed (use c lits in \<open>auto simp: escape_char_def n_def [symmetric] Let_def\<close>)
qed

lemma read_quoted: "read_chars (concat (map escape_char s) @ CHR 0x22 # r) = Some (s, r)"
  by (induction s) (simp_all add: read_escaped add_char_def del: read_chars.simps(2), simp)

section \<open>Integers\<close>

lemma digit_run: "takeWhile digit_ch (nat_str n @ r) = nat_str n \<and> dropWhile digit_ch (nat_str n @ r) = r"
  if "r = [] \<or> \<not> digit_ch (hd r)"
proof -
  have all: "\<forall>c \<in> set (nat_str n). digit_ch c"
    using nat_str_digits [of n] by (simp add: list_all_iff digit_ch_def)
  then have "takeWhile digit_ch (nat_str n @ r) = nat_str n @ takeWhile digit_ch r"
    "dropWhile digit_ch (nat_str n @ r) = dropWhile digit_ch r"
    by (simp_all add: takeWhile_append2 dropWhile_append2)
  moreover have "takeWhile digit_ch r = []" "dropWhile digit_ch r = r"
    using that by (cases r; simp)+
  ultimately show ?thesis by simp
qed

lemma nat_str_leading: "hd (nat_str n) = CHR ''0'' \<Longrightarrow> tl (nat_str n) = []"
proof (induction n rule: nat_str.induct)
  case (1 n)
  show ?case
  proof (cases "n < 10")
    case True
    then show ?thesis by (subst nat_str.simps) simp
  next
    case False
    then have shape: "nat_str n = nat_str (n div 10) @ [char_of (48 + n mod 10)]"
      by (subst nat_str.simps) simp
    then have lead: "hd (nat_str (n div 10)) = CHR ''0''"
      using 1(2) by (simp add: shape hd_append)
    then have "tl (nat_str (n div 10)) = []"
      using 1(1) False by blast
    then have "nat_str (n div 10) = ''0''"
      using lead by (cases "nat_str (n div 10)") auto
    also have "\<dots> = nat_str 0"
      by code_simp
    finally have "n div 10 = 0"
      by (simp only: nat_str_inj)
    with False show ?thesis by simp
  qed
qed

lemma stops_number: "stops r \<Longrightarrow> r = [] \<or> \<not> digit_ch (hd r) \<and> hd r \<noteq> CHR ''.'' \<and> hd r \<noteq> CHR ''e'' \<and> hd r \<noteq> CHR ''E''"
  by (auto simp: stops_def digit_ch_def less_eq_char_def)

lemma read_int: "stops r \<Longrightarrow> read_number (int_str i @ r) = Some (JInt i, r)"
proof -
  assume r: "stops r"
  have run: "read_digits (nat_str n @ r) = Some (nat_str n, r)" for n
  proof -
    have "takeWhile digit_ch (nat_str n @ r) = nat_str n \<and> dropWhile digit_ch (nat_str n @ r) = r"
      using stops_number [OF r] by (intro digit_run) blast
    then show ?thesis by (simp add: read_digits_def)
  qed
  have rest: "read_fraction r = Some ([], r)" "read_exponent r = Some (0, r)"
    using stops_number [OF r] by (auto simp: read_fraction_def read_exponent_def)
  have no_minus: "hd (nat_str n @ r) \<noteq> CHR ''-''" for n
    using nat_str_no_minus [of n] by (cases "nat_str n") auto
  show ?thesis
    using run rest no_minus
    by (cases "i < 0") (auto simp: read_number_def int_str_def Let_def nat_str_leading digits_value_nat_str number_json_def)
qed

section \<open>Values\<close>

text \<open>
  Values without fractions whose objects have distinct keys in the order a parsed object lists
  them.
\<close>

fun parsed_form :: "json \<Rightarrow> bool" where
  "parsed_form (JArr xs) = list_all parsed_form xs"
| "parsed_form (JObj kvs) =
     (distinct (map fst kvs) \<and> property_order kvs = kvs \<and> list_all (\<lambda>kv. parsed_form (snd kv)) kvs)"
| "parsed_form (JFloat _) = False"
| "parsed_form (JFn _) = False"
| "parsed_form _ = True"

lemma parsed_form_data: "parsed_form v \<Longrightarrow> data_json v"
  by (induction v) (auto simp: list_all_iff snds.simps)

lemma put_new: "k \<notin> set (map fst acc) \<Longrightarrow> put k v acc = acc @ [(k, v)]"
  by (induction acc) auto

lemma skip_ws_visible [simp]: "\<not> ws_char c \<Longrightarrow> skip_ws (c # s) = c # s"
  by (simp add: skip_ws_def)

lemma number_visible: "number_char c \<Longrightarrow> \<not> ws_char c"
  by (auto simp: number_char_def ws_char_def less_eq_char_def)

lemma read_number_value: "number_char c \<Longrightarrow> read_value (Suc m) (c # cs) = read_number (c # cs)"
proof -
  assume c: "number_char c"
  then have "c \<notin> set ''{[tfn'' \<and> c \<noteq> CHR 0x22"
    by (auto simp: number_char_def less_eq_char_def)
  then show ?thesis
    using number_visible [OF c] by simp
qed

lemma text_visible:
  assumes "data_json v"
  shows "\<exists>c cs. json_stringify v = c # cs \<and> \<not> ws_char c \<and> c \<noteq> CHR '']''"
  using text_lead [OF assms] text_not_close [OF assms, of "CHR '']''"] number_visible
  by (cases "json_stringify v"; cases v) (auto simp: ws_char_def split: if_splits)

lemma read_tail:
  assumes "\<And>x n r. x \<in> set xs \<Longrightarrow> stops r \<Longrightarrow> 2 * length (f x) \<le> n \<Longrightarrow> read_value n (f x @ r) = Some (x, r)"
    and "xs \<noteq> []"
    and "2 * length (join_with '','' (map f xs) @ ''] '') \<le> n + 2"
  shows "read_elements n acc (join_with '','' (map f xs) @ CHR '']'' # r) = Some (JArr (acc @ xs), r)"
  using assms
proof (induction xs arbitrary: acc n)
  case Nil
  then show ?case by simp
next
  case (Cons x xs)
  obtain m where n: "n = Suc m"
    using Cons.prems(3) by (cases n) auto
  show ?case
  proof (cases xs)
    case Nil
    have "read_value m (f x @ CHR '']'' # r) = Some (x, CHR '']'' # r)"
      using Cons.prems(1) [of x "CHR '']'' # r" m] Cons.prems(3) Nil n by simp
    then show ?thesis
      by (simp add: n Nil ws_char_def)
  next
    case (Cons y ys)
    let ?rest = "join_with '','' (map f xs) @ CHR '']'' # r"
    have shape: "join_with '','' (map f (x # xs)) @ CHR '']'' # r = f x @ CHR '','' # ?rest"
      by (simp add: Cons)
    have "read_value m (f x @ CHR '','' # ?rest) = Some (x, CHR '','' # ?rest)"
      using Cons.prems(1) [of x "CHR '','' # ?rest" m] Cons.prems(3) n Cons by simp
    moreover have "read_elements m (acc @ [x]) ?rest = Some (JArr ((acc @ [x]) @ xs), r)"
    proof (rule Cons.IH)
      show "xs \<noteq> []" by (simp add: Cons)
      show "2 * length (join_with '','' (map f xs) @ ''] '') \<le> m + 2"
        using Cons.prems(3) n Cons by simp
      show "read_value k (f z @ s) = Some (z, s)" if "z \<in> set xs" "stops s" "2 * length (f z) \<le> k" for z k s
        using that Cons.prems(1) by simp
    qed
    ultimately show ?thesis
      unfolding shape by (simp add: n ws_char_def)
  qed
qed

abbreviation member_text :: "string \<times> json \<Rightarrow> string" where
  "member_text kv \<equiv> quote_string (fst kv) @ '':'' @ json_stringify (snd kv)"

lemma read_member_tail:
  assumes "\<And>kv n r. kv \<in> set kvs \<Longrightarrow> stops r \<Longrightarrow> 2 * length (json_stringify (snd kv)) \<le> n \<Longrightarrow>
      read_value n (json_stringify (snd kv) @ r) = Some (snd kv, r)"
    and "kvs \<noteq> []" and "distinct (map fst (acc @ kvs))"
    and "2 * length (join_with '','' (map member_text kvs) @ ''} '') \<le> n + 2"
  shows "read_members n acc (join_with '','' (map member_text kvs) @ CHR ''}'' # r)
    = Some (JObj (property_order (acc @ kvs)), r)"
  using assms
proof (induction kvs arbitrary: acc n)
  case Nil
  then show ?case by simp
next
  case (Cons kv kvs)
  obtain k v where kv: "kv = (k, v)" by (cases kv)
  obtain m where n: "n = Suc m"
    using Cons.prems(4) by (cases n) auto
  have key: "read_chars (concat (map escape_char k) @ CHR 0x22 # t) = Some (k, t)" for t
    by (rule read_quoted)
  have quote: "\<not> ws_char (CHR 0x22)" "\<not> ws_char (CHR '':'')" "\<not> ws_char (CHR '','')" "\<not> ws_char (CHR ''}'')"
    by (simp_all add: ws_char_def)
  have put: "put k v acc = acc @ [(k, v)]"
    using Cons.prems(3) by (intro put_new) (simp add: kv)
  show ?case
  proof (cases kvs)
    case Nil
    have "read_value m (json_stringify v @ CHR ''}'' # r) = Some (v, CHR ''}'' # r)"
      using Cons.prems(1) [of kv "CHR ''}'' # r" m] Cons.prems(4) Nil n kv by simp
    then show ?thesis
      using key quote put by (simp add: n Nil kv quote_string_def)
  next
    case (Cons lw lws)
    let ?rest = "join_with '','' (map member_text kvs) @ CHR ''}'' # r"
    have shape: "join_with '','' (map member_text (kv # kvs)) @ CHR ''}'' # r
        = CHR 0x22 # concat (map escape_char k) @ CHR 0x22 # CHR '':'' # json_stringify v @ CHR '','' # ?rest"
      by (simp add: Cons kv quote_string_def)
    have "read_value m (json_stringify v @ CHR '','' # ?rest) = Some (v, CHR '','' # ?rest)"
      using Cons.prems(1) [of kv "CHR '','' # ?rest" m] Cons.prems(4) n Cons kv by simp
    moreover have "read_members m (acc @ [(k, v)]) ?rest = Some (JObj (property_order ((acc @ [(k, v)]) @ kvs)), r)"
    proof (rule Cons.IH)
      show "kvs \<noteq> []" by (simp add: Cons)
      show "distinct (map fst ((acc @ [(k, v)]) @ kvs))" using Cons.prems(3) kv by simp
      show "2 * length (join_with '','' (map member_text kvs) @ ''} '') \<le> m + 2"
        using Cons.prems(4) n Cons by simp
      show "read_value j (json_stringify (snd z) @ s) = Some (snd z, s)"
        if "z \<in> set kvs" "stops s" "2 * length (json_stringify (snd z)) \<le> j" for z j s
        using that Cons.prems(1) by simp
    qed
    ultimately show ?thesis
      unfolding shape using key quote put by (simp add: n kv)
  qed
qed

text \<open>An object needs nothing of what follows it.\<close>

lemma read_object_text:
  assumes "\<And>kv n r. kv \<in> set kvs \<Longrightarrow> stops r \<Longrightarrow> 2 * length (json_stringify (snd kv)) \<le> n \<Longrightarrow>
      read_value n (json_stringify (snd kv) @ r) = Some (snd kv, r)"
    and "parsed_form (JObj kvs)" and "2 * length (json_stringify (JObj kvs)) \<le> n"
  shows "read_value n (json_stringify (JObj kvs) @ r) = Some (JObj kvs, r)"
proof -
  obtain m where n: "n = Suc m"
    using assms(3) by (cases n) auto
  show ?thesis
  proof (cases kvs)
    case Nil
    then show ?thesis using n by (simp add: ws_char_def)
  next
    case (Cons lw lws)
    let ?s = "join_with '','' (map member_text kvs) @ CHR ''}'' # r"
    have opened: "skip_ws ?s \<noteq> []" "hd (skip_ws ?s) \<noteq> CHR ''}''"
      by (simp_all add: Cons join_with_Cons quote_string_def ws_char_def)
    have "read_members m [] ?s = Some (JObj (property_order ([] @ kvs)), r)"
    proof (rule read_member_tail)
      show "kvs \<noteq> []" by (simp add: Cons)
      show "distinct (map fst ([] @ kvs))" using assms(2) by simp
      show "2 * length (join_with '','' (map member_text kvs) @ ''} '') \<le> m + 2"
        using assms(3) n by simp
    qed (rule assms(1))
    with opened assms(2) show ?thesis by (simp add: n ws_char_def)
  qed
qed

theorem read_stringified:
  "parsed_form v \<Longrightarrow> stops r \<Longrightarrow> 2 * length (json_stringify v) \<le> n \<Longrightarrow>
     read_value n (json_stringify v @ r) = Some (v, r)"
proof (induction v arbitrary: n r)
  case JNull
  then obtain m where "n = Suc m" by (cases n) auto
  then show ?case by (simp add: read_literal_def ws_char_def)
next
  case (JBool b)
  then obtain m where "n = Suc m" by (cases n; cases b) auto
  then show ?case by (cases b) (simp_all add: read_literal_def ws_char_def)
next
  case (JInt i)
  then obtain m where n: "n = Suc m"
    using int_str_nonempty [of i] by (cases n) auto
  obtain c cs where c: "int_str i = c # cs"
    using int_str_nonempty [of i] by (cases "int_str i") auto
  then have "number_char c" using int_str_chars(1) [of i] by simp
  then show ?case
    using read_int [OF JInt.prems(2), of i] by (simp add: n c read_number_value del: read_value.simps)
next
  case (JStr s)
  then obtain m where "n = Suc m"
    by (cases n) (auto simp: quote_string_def)
  then show ?case
    by (simp add: quote_string_def ws_char_def read_quoted)
next
  case (JArr xs)
  then obtain m where n: "n = Suc m" by (cases n) auto
  show ?case
  proof (cases xs)
    case Nil
    then show ?thesis using n by (simp add: ws_char_def)
  next
    case (Cons y ys)
    let ?s = "join_with '','' (map json_stringify xs) @ CHR '']'' # r"
    have "data_json y"
      using JArr.prems(1) Cons by (auto intro: parsed_form_data)
    then obtain c cs where "json_stringify y = c # cs" "\<not> ws_char c" "c \<noteq> CHR '']''"
      using text_visible by blast
    then have opened: "skip_ws ?s \<noteq> []" "hd (skip_ws ?s) \<noteq> CHR '']''"
      by (simp_all add: Cons join_with_Cons)
    have "read_elements m [] ?s = Some (JArr ([] @ xs), r)"
    proof (rule read_tail)
      show "xs \<noteq> []" by (simp add: Cons)
      show "2 * length (join_with '','' (map json_stringify xs) @ ''] '') \<le> m + 2"
        using JArr.prems(3) n by simp
      show "read_value k (json_stringify x @ s) = Some (x, s)"
        if "x \<in> set xs" "stops s" "2 * length (json_stringify x) \<le> k" for x k s
        using that JArr by (simp add: list_all_iff)
    qed
    with opened show ?thesis by (simp add: n ws_char_def)
  qed
next
  case (JObj kvs)
  show ?case
  proof (rule read_object_text [OF _ JObj.prems(1,3)])
    fix kv k s
    assume kv: "kv \<in> set kvs" and s: "stops s" "2 * length (json_stringify (snd kv)) \<le> k"
    show "read_value k (json_stringify (snd kv) @ s) = Some (snd kv, s)"
    proof (rule JObj.IH [OF kv _ _ s])
      show "snd kv \<in> Basic_BNFs.snds kv"
        by (simp add: snds.simps)
      show "parsed_form (snd kv)"
        using JObj.prems(1) kv by (simp add: list_all_iff)
    qed
  qed
qed simp_all

corollary parse_stringify: "parsed_form v \<Longrightarrow> json_parse (json_stringify v) = Some v"
  using read_stringified [of v "[]" "2 * length (json_stringify v) + 2"]
  by (simp add: json_parse_def skip_ws_def)

lemma read_object:
  "parsed_form (JObj kvs) \<Longrightarrow> 2 * length (json_stringify (JObj kvs)) \<le> n \<Longrightarrow>
     read_value n (json_stringify (JObj kvs) @ r) = Some (JObj kvs, r)"
  by (rule read_object_text) (auto simp: list_all_iff intro: read_stringified)

end
