(* ===== verification/Js_Regexp.thy ===== *)
theory Js_Regexp
  imports Lcim_Prelude
begin

text \<open>
  The string operations and the regular expressions the program uses: white space and letter
  case, UTF-8 lengths, and a backtracking matcher.  A position is the character before it and the
  rest of the text; \<open>matches r p\<close> lists the positions a match from \<open>p\<close> can end at, in the order
  the backtracking of ECMAScript tries them, so its head is the match \<open>exec\<close> finds.
\<close>

section \<open>Strings\<close>

text \<open>The white space of \<open>trim\<close> and of the class \<open>\s\<close> below 256.\<close>

definition trim_char :: "char \<Rightarrow> bool" where
  "trim_char c \<longleftrightarrow> c \<in> set [CHR 0x09, CHR 0x0A, CHR 0x0B, CHR 0x0C, CHR 0x0D, CHR '' '', CHR 0xA0]"

definition blank_text :: "string \<Rightarrow> bool" where
  "blank_text s \<longleftrightarrow> list_all trim_char s"

definition js_trim :: "string \<Rightarrow> string" where
  "js_trim s = rev (dropWhile trim_char (rev (dropWhile trim_char s)))"

text \<open>Lower case of the ASCII letters.\<close>

definition lower_ascii :: "char \<Rightarrow> char" where
  "lower_ascii c = (if CHR ''A'' \<le> c \<and> c \<le> CHR ''Z'' then char_of ((of_char c :: nat) + 32) else c)"

definition to_lower :: "string \<Rightarrow> string" where
  "to_lower = map lower_ascii"

text \<open>\<open>Buffer.byteLength(s, 'utf8')\<close>: two bytes from 128 on.\<close>

definition byte_length :: "string \<Rightarrow> nat" where
  "byte_length s = length s + length (filter (\<lambda>c. 128 \<le> (of_char c :: nat)) s)"

text \<open>\<open>s.includes(t)\<close>.\<close>

fun js_includes :: "string \<Rightarrow> string \<Rightarrow> bool" where
  "js_includes [] t \<longleftrightarrow> t = []"
| "js_includes (c # cs) t \<longleftrightarrow> take (length t) (c # cs) = t \<or> js_includes cs t"

lemma js_includes_iff: "js_includes s t \<longleftrightarrow> (\<exists>u v. s = u @ t @ v)"
proof (induction s)
  case (Cons c cs)
  have "take (length t) (c # cs) = t \<longleftrightarrow> (\<exists>v. c # cs = t @ v)"
    by (metis append_eq_conv_conj append_take_drop_id)
  moreover have "(\<exists>u v. c # cs = u @ t @ v) \<longleftrightarrow> (\<exists>v. c # cs = t @ v) \<or> (\<exists>u v. cs = u @ t @ v)"
    by (metis append_Cons append_Nil list.exhaust list.inject)
  ultimately show ?case
    using Cons by simp
qed simp

text \<open>The characters of \<open>\w\<close>.\<close>

definition word_char :: "char \<Rightarrow> bool" where
  "word_char c \<longleftrightarrow>
     (CHR ''A'' \<le> c \<and> c \<le> CHR ''Z'') \<or> (CHR ''a'' \<le> c \<and> c \<le> CHR ''z'')
     \<or> (CHR ''0'' \<le> c \<and> c \<le> CHR ''9'') \<or> c = CHR ''_''"

section \<open>Regular expressions\<close>

datatype regexp =
    Cls "char \<Rightarrow> bool"
  | Eps
  | Seq regexp regexp
  | Alt regexp regexp
  | Rep nat "nat option" regexp
  | Bound
  | Begin

type_synonym position = "char option \<times> string"

definition at_boundary :: "position \<Rightarrow> bool" where
  "at_boundary p \<longleftrightarrow>
     (case fst p of None \<Rightarrow> False | Some c \<Rightarrow> word_char c) \<noteq> (snd p \<noteq> [] \<and> word_char (hd (snd p)))"

fun exactly :: "nat \<Rightarrow> ('p \<Rightarrow> 'p list) \<Rightarrow> 'p \<Rightarrow> 'p list" where
  "exactly 0 f p = [p]"
| "exactly (Suc n) f p = concat (map (exactly n f) (f p))"

text \<open>Greedy: one more iteration first; an iteration that consumes nothing is not tried.\<close>

fun at_most :: "nat \<Rightarrow> (position \<Rightarrow> position list) \<Rightarrow> position \<Rightarrow> position list" where
  "at_most 0 f p = [p]"
| "at_most (Suc n) f p = concat (map (at_most n f) (filter (\<lambda>q. snd q \<noteq> snd p) (f p))) @ [p]"

primrec matches :: "regexp \<Rightarrow> position \<Rightarrow> position list" where
  "matches (Cls P) p = (case snd p of [] \<Rightarrow> [] | c # cs \<Rightarrow> (if P c then [(Some c, cs)] else []))"
| "matches Eps p = [p]"
| "matches (Seq r s) p = concat (map (matches s) (matches r p))"
| "matches (Alt r s) p = matches r p @ matches s p"
| "matches (Rep lo hi r) p =
     concat (map (\<lambda>q. at_most (case hi of None \<Rightarrow> length (snd q) | Some n \<Rightarrow> n - lo) (matches r) q)
       (exactly lo (matches r) p))"
| "matches Bound p = (if at_boundary p then [p] else [])"
| "matches Begin p = (if fst p = None then [p] else [])"

text \<open>\<open>re.test(text)\<close>, \<open>text.match(re) !== null\<close>: a match from some position.\<close>

fun test_from :: "regexp \<Rightarrow> char option \<Rightarrow> string \<Rightarrow> bool" where
  "test_from r p [] \<longleftrightarrow> matches r (p, []) \<noteq> []"
| "test_from r p (c # cs) \<longleftrightarrow> matches r (p, c # cs) \<noteq> [] \<or> test_from r (Some c) cs"

definition re_test :: "regexp \<Rightarrow> string \<Rightarrow> bool" where
  "re_test r s = test_from r None s"

text \<open>
  The texts of \<open>s.matchAll(re)\<close>: the next match is looked for behind the last one.  \<open>n\<close> bounds
  the number of positions left.
\<close>

fun all_from :: "nat \<Rightarrow> regexp \<Rightarrow> position \<Rightarrow> string list" where
  "all_from 0 r p = []"
| "all_from (Suc n) r p =
     (let next = (case snd p of [] \<Rightarrow> [] | c # cs \<Rightarrow> all_from n r (Some c, cs)) in
      case matches r p of
        [] \<Rightarrow> next
      | q # _ \<Rightarrow>
          (let m = take (length (snd p) - length (snd q)) (snd p) in
           if m = [] then [] # next else m # all_from n r q))"

definition match_all :: "regexp \<Rightarrow> string \<Rightarrow> string list" where
  "match_all r s = all_from (Suc (length s)) r (None, s)"

section \<open>Building blocks\<close>

definition seqs :: "regexp list \<Rightarrow> regexp" where
  "seqs rs = foldr Seq rs Eps"

fun alts :: "regexp list \<Rightarrow> regexp" where
  "alts [] = Cls (\<lambda>_. False)"
| "alts [r] = r"
| "alts (r # rs) = Alt r (alts rs)"

text \<open>A word, with and without the flag \<open>i\<close>; the word is given in lower case.\<close>

definition word_i :: "string \<Rightarrow> regexp" where
  "word_i w = seqs (map (\<lambda>c. Cls (\<lambda>d. lower_ascii d = c)) w)"

definition word_of :: "string \<Rightarrow> regexp" where
  "word_of w = seqs (map (\<lambda>c. Cls (\<lambda>d. d = c)) w)"

definition words_i :: "string list \<Rightarrow> regexp" where
  "words_i ws = alts (map word_i ws)"

definition spaces :: regexp where
  "spaces = Rep 1 None (Cls trim_char)"

definition opt :: "regexp \<Rightarrow> regexp" where
  "opt r = Rep 0 (Some 1) r"

text \<open>\<open>new RegExp(`\b${escapeRegExp(w)}\b`).test(text)\<close>.\<close>

definition mentions :: "string \<Rightarrow> string \<Rightarrow> bool" where
  "mentions w s = re_test (seqs [Bound, word_of w, Bound]) s"

section \<open>Facts\<close>

lemma matches_seqs: "matches (seqs (r # rs)) p = concat (map (matches (seqs rs)) (matches r p))"
  by (simp add: seqs_def)

lemma matches_eps [simp]: "matches (seqs []) p = [p]"
  by (simp add: seqs_def)

lemma test_from_iff:
  "test_from r p s \<longleftrightarrow> (\<exists>u v. s = u @ v \<and> matches r (if u = [] then p else Some (last u), v) \<noteq> [])"
proof (induction r p s rule: test_from.induct)
  case (2 r p c cs)
  have "(\<exists>u v. c # cs = u @ v \<and> matches r (if u = [] then p else Some (last u), v) \<noteq> []) \<longleftrightarrow>
      matches r (p, c # cs) \<noteq> [] \<or> (\<exists>u v. cs = u @ v \<and> matches r (if u = [] then Some c else Some (last u), v) \<noteq> [])"
    (is "?L \<longleftrightarrow> ?R")
  proof
    assume ?L
    then obtain u v where uv: "c # cs = u @ v" "matches r (if u = [] then p else Some (last u), v) \<noteq> []"
      by blast
    show ?R
    proof (cases u)
      case Nil
      with uv show ?thesis by simp
    next
      case (Cons d w)
      with uv have "cs = w @ v" "matches r (if w = [] then Some c else Some (last w), v) \<noteq> []"
        by (auto split: if_splits)
      then show ?thesis by blast
    qed
  next
    assume ?R
    then show ?L
    proof
      assume "matches r (p, c # cs) \<noteq> []"
      then show ?thesis by (intro exI [of _ "[]"] exI [of _ "c # cs"]) simp
    next
      assume "\<exists>u v. cs = u @ v \<and> matches r (if u = [] then Some c else Some (last u), v) \<noteq> []"
      then obtain u v where "cs = u @ v" "matches r (if u = [] then Some c else Some (last u), v) \<noteq> []"
        by blast
      then show ?thesis by (intro exI [of _ "c # u"] exI [of _ v]) (auto split: if_splits)
    qed
  qed
  with 2 show ?case by simp
qed simp

lemma matches_word_of:
  "matches (word_of w) (p, s) = (if take (length w) s = w
     then [(if w = [] then p else Some (last w), drop (length w) s)] else [])"
proof (induction w arbitrary: p s)
  case Nil
  then show ?case by (simp add: word_of_def)
next
  case (Cons c w)
  have step: "matches (word_of (c # w)) q = concat (map (matches (word_of w)) (matches (Cls (\<lambda>d. d = c)) q))" for q
    by (simp add: word_of_def matches_seqs)
  show ?case
    by (cases s) (auto simp: step Cons.IH)
qed

text \<open>A text mentions a word exactly when the word stands in it between word boundaries.\<close>

theorem mentions_iff:
  "mentions w s \<longleftrightarrow> (\<exists>u v. s = u @ w @ v \<and>
     at_boundary (if u = [] then None else Some (last u), w @ v) \<and>
     at_boundary (if u @ w = [] then None else Some (last (u @ w)), v))"
proof -
  have one: "matches (seqs [Bound, word_of w, Bound]) (p, x) \<noteq> [] \<longleftrightarrow>
      (\<exists>v. x = w @ v \<and> at_boundary (p, x) \<and> at_boundary (if w = [] then p else Some (last w), v))" for p x
  proof -
    have "take (length w) x = w \<longleftrightarrow> (\<exists>v. x = w @ v)"
      by (metis append_eq_conv_conj append_take_drop_id)
    then show ?thesis
      by (auto simp: matches_seqs matches_word_of)
  qed
  show ?thesis
    unfolding mentions_def re_test_def test_from_iff one
    by (intro iffI; elim exE conjE; (rule exI)+; force split: if_splits)
qed

end
