(* ===== verification/Handoff_Parse.thy ===== *)
theory Handoff_Parse
  imports Json_Roundtrip Lcim_Errors Js_Regexp "HOL-Library.Sublist"
begin

text \<open>
  The reader of worker responses, src/src/handoff/parse.mjs: code fences, balanced brace spans and
  the decision which text of a response is its payload.
\<close>

section \<open>Lines\<close>

text \<open>\<open>text.split('\n')\<close>.\<close>

fun split_lines :: "string \<Rightarrow> string list" where
  "split_lines [] = [[]]"
| "split_lines (c # cs) =
     (let rest = split_lines cs in
      if c = CHR 0x0A then [] # rest else (c # hd rest) # tl rest)"

declare split_lines.simps(2) [simp del]

lemma split_lines_Cons [simp]:
  "split_lines (c # cs) =
     (if c = CHR 0x0A then [] # split_lines cs else (c # hd (split_lines cs)) # tl (split_lines cs))"
  by (simp add: split_lines.simps(2) Let_def)

abbreviation join_lines :: "string list \<Rightarrow> string" where
  "join_lines \<equiv> join_with [CHR 0x0A]"

text \<open>\<open>text.slice(start, end)\<close>, of characters or of lines.\<close>

definition slice :: "nat \<Rightarrow> nat \<Rightarrow> 'a list \<Rightarrow> 'a list" where
  "slice i j xs = take (j - i) (drop i xs)"

section \<open>Code fences\<close>

definition fence_blank :: "char \<Rightarrow> bool" where
  "fence_blank c \<longleftrightarrow> c = CHR '' '' \<or> c = CHR 0x09 \<or> c = CHR 0x0D"

definition tag_char :: "char \<Rightarrow> bool" where
  "tag_char c \<longleftrightarrow>
     (CHR ''A'' \<le> c \<and> c \<le> CHR ''Z'') \<or> (CHR ''a'' \<le> c \<and> c \<le> CHR ''z'')
     \<or> (CHR ''0'' \<le> c \<and> c \<le> CHR ''9'') \<or> c = CHR ''_'' \<or> c = CHR ''+'' \<or> c = CHR ''-''"

text \<open>
  \<open>FENCE_LINE\<close>: the tag of a fence line.  The two classes of the pattern share no character, so
  the match is the greedy one.
\<close>

definition FENCE_MARK :: string where
  "FENCE_MARK = replicate 3 (CHR 0x60)"

definition fence_line :: "string \<Rightarrow> string option" where
  "fence_line l =
     (if take 3 l = FENCE_MARK
      then (let r = dropWhile fence_blank (drop 3 l) in
            if list_all fence_blank (dropWhile tag_char r) then Some (takeWhile tag_char r) else None)
      else None)"

record fence =
  fence_tag :: string
  fence_content :: string
  fence_start :: nat
  fence_end :: nat

text \<open>
  The loop of \<open>extractFences\<close>: \<open>i\<close> is the index of the next line, \<open>opened\<close> the open
  fence's line and tag.
\<close>

fun scan_fences :: "string list \<Rightarrow> nat \<Rightarrow> string list \<Rightarrow> (nat \<times> string) option \<Rightarrow> fence list \<Rightarrow> bool \<times> fence list" where
  "scan_fences ls i [] opened fences = (opened \<noteq> None, fences)"
| "scan_fences ls i (l # rest) opened fences =
     (case fence_line l of
        None \<Rightarrow> scan_fences ls (Suc i) rest opened fences
      | Some t \<Rightarrow>
          (case opened of
             None \<Rightarrow> scan_fences ls (Suc i) rest (Some (i, t)) fences
           | Some (k, tg) \<Rightarrow>
               scan_fences ls (Suc i) rest None
                 (fences @ [\<lparr> fence_tag = tg, fence_content = join_lines (slice (Suc k) i ls),
                    fence_start = k, fence_end = i \<rparr>])))"

definition extractFences :: "string \<Rightarrow> bool \<times> fence list" where
  "extractFences s = scan_fences (split_lines s) 0 (split_lines s) None []"

section \<open>Balanced spans\<close>

record brace_scan =
  depth :: nat
  span_start :: "nat option"
  in_string :: bool
  escaped :: bool
  spans :: "(nat \<times> nat) list"

definition scan_init :: brace_scan where
  "scan_init = \<lparr> depth = 0, span_start = None, in_string = False, escaped = False, spans = [] \<rparr>"

text \<open>One turn of the loop of \<open>findBalancedObjectSpans\<close>.\<close>

definition scan_char :: "nat \<Rightarrow> char \<Rightarrow> brace_scan \<Rightarrow> brace_scan" where
  "scan_char i c st =
     (if in_string st then
        (if escaped st then st\<lparr> escaped := False \<rparr>
         else if c = CHR 0x5C then st\<lparr> escaped := True \<rparr>
         else if c = CHR 0x22 then st\<lparr> in_string := False \<rparr>
         else st)
      else if c = CHR 0x22 then st\<lparr> in_string := True \<rparr>
      else if c = CHR ''{'' then
        st\<lparr> depth := Suc (depth st), span_start := (if depth st = 0 then Some i else span_start st) \<rparr>
      else if c = CHR ''}'' then
        (if depth st = 0 then st
         else if depth st = 1 then
           (case span_start st of
              None \<Rightarrow> st\<lparr> depth := 0 \<rparr>
            | Some k \<Rightarrow> st\<lparr> depth := 0, span_start := None, spans := spans st @ [(k, i)] \<rparr>)
         else st\<lparr> depth := depth st - 1 \<rparr>)
      else st)"

fun scan_text :: "nat \<Rightarrow> string \<Rightarrow> brace_scan \<Rightarrow> brace_scan" where
  "scan_text i [] st = st"
| "scan_text i (c # cs) st = scan_text (Suc i) cs (scan_char i c st)"

definition findBalancedObjectSpans :: "string \<Rightarrow> (nat \<times> nat) list" where
  "findBalancedObjectSpans s = spans (scan_text 0 s scan_init)"

section \<open>Candidates\<close>

definition span_text :: "string \<Rightarrow> nat \<times> nat \<Rightarrow> string" where
  "span_text s k = slice (fst k) (Suc (snd k)) s"

text \<open>The spans that parse, each with its value.\<close>

definition json_candidates :: "string \<Rightarrow> ((nat \<times> nat) \<times> json) list" where
  "json_candidates s =
     List.map_filter (\<lambda>k. map_option (Pair k) (json_parse (span_text s k))) (findBalancedObjectSpans s)"

text \<open>\<open>findJsonObjectCandidate\<close>: the first span that parses.\<close>

definition findJsonObjectCandidate :: "string \<Rightarrow> (nat \<times> nat) option" where
  "findJsonObjectCandidate s =
     List.find (\<lambda>k. json_parse (span_text s k) \<noteq> None) (findBalancedObjectSpans s)"

definition findUniqueJsonObject :: "string \<Rightarrow> string + ((nat \<times> nat) \<times> json)" where
  "findUniqueJsonObject s =
     (case json_candidates s of
        [] \<Rightarrow> Inl ''no-json-object-found''
      | [only] \<Rightarrow>
          (if is_obj (snd only) then Inr only else Inl ''unique-json-value-is-not-an-object'')
      | _ \<Rightarrow> Inl ''ambiguous-multiple-json-objects'')"

section \<open>The response\<close>

datatype extraction =
    Strict
  | Fenced nat nat string
  | ProseWrapped nat nat string

text \<open>\<open>parsed.normalization\<close> and \<open>parsed.extraction.method\<close>.\<close>

fun normalization :: "extraction \<Rightarrow> string" where
  "normalization Strict = ''none''"
| "normalization (Fenced _ _ _) = ''fence''"
| "normalization (ProseWrapped _ _ _) = ''prose-wrapped''"

fun extraction_method :: "extraction \<Rightarrow> string" where
  "extraction_method Strict = ''strict''"
| "extraction_method (Fenced _ _ _) = ''fence''"
| "extraction_method (ProseWrapped _ _ _) = ''prose-wrapped''"

text \<open>A tag has no letters beyond ASCII, so \<open>fence.tag.toLowerCase()\<close> is \<open>to_lower\<close>.\<close>

definition parse_fenced :: "string \<Rightarrow> fence \<Rightarrow> (json \<times> extraction) result" where
  "parse_fenced raw f =
     (if fence_tag f \<noteq> [] \<and> to_lower (fence_tag f) \<noteq> ''json'' then Inl (TransportParseError ''non-json-fence'')
      else case json_parse (fence_content f) of
             None \<Rightarrow> Inl (TransportParseError ''fence-content-invalid'')
           | Some v \<Rightarrow>
               (let ls = split_lines raw;
                    prefix = join_lines (take (fence_start f) ls);
                    suffix = join_lines (drop (Suc (fence_end f)) ls) in
                if findJsonObjectCandidate prefix \<noteq> None \<or> findJsonObjectCandidate suffix \<noteq> None
                then Inl (TransportParseError ''ambiguous-json-outside-fence'')
                else Inr (v, Fenced (fence_start f) (fence_end f) (fence_content f))))"

definition parse_unfenced :: "string \<Rightarrow> (json \<times> extraction) result" where
  "parse_unfenced raw =
     (case json_parse raw of
        Some v \<Rightarrow> Inr (v, Strict)
      | None \<Rightarrow>
          (case findUniqueJsonObject raw of
             Inr (k, v) \<Rightarrow> Inr (v, ProseWrapped (fst k) (snd k) (span_text raw k))
           | Inl reason \<Rightarrow> Inl (TransportParseError reason)))"

fun parseWorkerResponse :: "jsval \<Rightarrow> (json \<times> extraction) result" where
  "parseWorkerResponse (Some (JStr raw)) =
     (if blank_text raw then Inl (TransportParseError ''empty'')
      else case extractFences raw of
             (True, _) \<Rightarrow> Inl (TransportParseError ''unclosed-fence'')
           | (False, []) \<Rightarrow> parse_unfenced raw
           | (False, [f]) \<Rightarrow> parse_fenced raw f
           | (False, _) \<Rightarrow> Inl (TransportParseError ''multiple-fences''))"
| "parseWorkerResponse _ = Inl (TransportParseError ''not-a-string'')"

end
