(* ===== verification/Handoff_Laws.thy ===== *)
theory Handoff_Laws
  imports Handoff_Parse
begin

text \<open>
  What the reader of worker responses promises: an accepted value is the parse of a text that
  stands in the response (soundness), and a value printed by \<open>JSON.stringify\<close> is recovered from
  prose or from a code fence (the round trips).
\<close>

section \<open>Lines\<close>

lemma split_lines_nonempty [simp]: "split_lines s \<noteq> []"
  by (cases s) auto

lemma join_split: "join_lines (split_lines s) = s"
proof (induction s)
  case (Cons c cs)
  then show ?case
    by (cases "split_lines cs"; cases "tl (split_lines cs)") auto
qed simp

lemma split_line: "CHR 0x0A \<notin> set l \<Longrightarrow> split_lines l = [l]"
  by (induction l) auto

lemma split_line_append: "CHR 0x0A \<notin> set l \<Longrightarrow> split_lines (l @ CHR 0x0A # s) = l # split_lines s"
  by (induction l) auto

lemma split_join:
  "ls \<noteq> [] \<Longrightarrow> list_all (\<lambda>l. CHR 0x0A \<notin> set l) ls \<Longrightarrow> split_lines (join_lines ls) = ls"
  by (induction "[CHR 0x0A]" ls rule: join_with.induct) (auto simp: split_line split_line_append)

lemma join_with_append:
  "join_with sep (xs @ ys) = join_with sep xs @ (if xs \<noteq> [] \<and> ys \<noteq> [] then sep else []) @ join_with sep ys"
proof (induction sep xs rule: join_with.induct)
  case (2 sep x)
  then show ?case by (cases ys) auto
qed auto

lemma sublist_join: "sublist (join_with sep ys) (join_with sep (xs @ ys @ zs))"
  by (simp add: join_with_append sublist_appendI flip: append_assoc)
     (metis append.assoc sublist_appendI)

lemma slice_parts: "\<exists>xs zs. ls = xs @ slice i j ls @ zs"
proof -
  have "ls = take i ls @ take (j - i) (drop i ls) @ drop (j - i) (drop i ls)"
    by (simp only: append_take_drop_id)
  then show ?thesis unfolding slice_def by blast
qed

lemma sublist_slice: "sublist (slice i j s) s"
  by (metis slice_parts sublist_def)

lemma sublist_line_slice: "sublist (join_with sep (slice i j ls)) (join_with sep ls)"
  by (metis slice_parts sublist_join)

section \<open>Soundness\<close>

lemma scan_fences_content:
  assumes "\<And>f. f \<in> set fences \<Longrightarrow> \<exists>i j. fence_content f = join_lines (slice i j ls)"
    and "f \<in> set (snd (scan_fences ls i rest opened fences))"
  shows "\<exists>i j. fence_content f = join_lines (slice i j ls)"
  using assms
proof (induction ls i rest opened fences rule: scan_fences.induct)
  case (2 ls i l rest opened fences)
  show ?case
  proof (cases "fence_line l")
    case None
    with 2 show ?thesis by simp
  next
    case (Some t)
    show ?thesis
    proof (cases opened)
      case None
      with 2 Some show ?thesis by simp
    next
      case (Some kt)
      obtain k tg where kt: "kt = (k, tg)" by (cases kt)
      show ?thesis
        by (rule 2(3) [OF \<open>fence_line l = Some t\<close> Some kt [symmetric]])
          (use 2(4,5) \<open>fence_line l = Some t\<close> Some kt in \<open>auto simp: Un_iff\<close>, blast)
    qed
  qed
qed auto

lemma fence_content_sublist: "f \<in> set (snd (extractFences raw)) \<Longrightarrow> sublist (fence_content f) raw"
  using scan_fences_content [of "[]" "split_lines raw" f 0 "split_lines raw" None]
    sublist_line_slice [of "[CHR 0x0A]" _ _ "split_lines raw"]
  by (auto simp: extractFences_def join_split)

text \<open>The text a response is read from.\<close>

fun payload :: "string \<Rightarrow> extraction \<Rightarrow> string" where
  "payload raw Strict = raw"
| "payload raw (Fenced _ _ t) = t"
| "payload raw (ProseWrapped _ _ t) = t"

lemma candidate_iff:
  "c \<in> set (json_candidates s) \<longleftrightarrow>
     fst c \<in> set (findBalancedObjectSpans s) \<and> json_parse (span_text s (fst c)) = Some (snd c)"
  by (cases c) (force simp: json_candidates_def List.map_filter_def image_iff)

lemma no_candidate_iff:
  "findJsonObjectCandidate s = None \<longleftrightarrow>
     (\<forall>k \<in> set (findBalancedObjectSpans s). json_parse (span_text s k) = None)"
  by (auto simp: findJsonObjectCandidate_def find_None_iff)

lemma unique_object:
  assumes "findUniqueJsonObject s = Inr (k, v)"
  shows "json_candidates s = [(k, v)] \<and> is_obj v"
  using assms by (auto simp: findUniqueJsonObject_def split: list.splits if_splits)

lemma parse_fenced_Inr:
  assumes "parse_fenced raw f = Inr (v, e)"
  shows "json_parse (fence_content f) = Some v \<and> e = Fenced (fence_start f) (fence_end f) (fence_content f)
    \<and> findJsonObjectCandidate (join_lines (take (fence_start f) (split_lines raw))) = None
    \<and> findJsonObjectCandidate (join_lines (drop (Suc (fence_end f)) (split_lines raw))) = None"
  using assms by (auto simp: parse_fenced_def Let_def simp del: split_paired_All split_paired_Ex
    split: if_splits option.splits)

lemma parse_unfenced_Inr:
  assumes "parse_unfenced raw = Inr (v, e)"
  shows "(e = Strict \<and> json_parse raw = Some v)
    \<or> (\<exists>i j. e = ProseWrapped i j (span_text raw (i, j)) \<and> json_parse raw = None
         \<and> json_candidates raw = [((i, j), v)] \<and> is_obj v)"
  using assms
  by (auto simp: parse_unfenced_def dest!: unique_object split: option.splits sum.splits)

lemma accepted_cases:
  assumes "parseWorkerResponse (Some (JStr raw)) = Inr (v, e)"
  obtains (unfenced) "extractFences raw = (False, [])" "parse_unfenced raw = Inr (v, e)"
  | (fenced) f where "extractFences raw = (False, [f])" "parse_fenced raw f = Inr (v, e)"
  using assms by (auto split: if_splits prod.splits bool.splits list.splits)

lemma accepted_text:
  assumes "parseWorkerResponse (Some (JStr raw)) = Inr (v, e)"
  shows "sublist (payload raw e) raw \<and> json_parse (payload raw e) = Some v"
  using assms
proof (cases rule: accepted_cases)
  case unfenced
  from parse_unfenced_Inr [OF unfenced(2)] show ?thesis
  proof (elim disjE exE conjE)
    fix i j
    assume "e = ProseWrapped i j (span_text raw (i, j))" "json_candidates raw = [((i, j), v)]"
    then show ?thesis
      using candidate_iff [of "((i, j), v)" raw] by (simp add: span_text_def sublist_slice)
  qed simp
next
  case (fenced f)
  with parse_fenced_Inr [OF fenced(2)] fence_content_sublist [of f raw] show ?thesis by auto
qed

section \<open>The scanner on printed values\<close>

text \<open>Outside a string literal.\<close>

definition outside :: "brace_scan \<Rightarrow> bool" where
  "outside st \<longleftrightarrow> \<not> in_string st \<and> \<not> escaped st"

lemma scan_append: "scan_text i (s @ t) st = scan_text (i + length s) t (scan_text i s st)"
  by (induction s arbitrary: i st) simp_all

lemma scan_escape:
  assumes "in_string st" "\<not> escaped st"
  shows "scan_text i (escape_char c @ s) st = scan_text (i + length (escape_char c)) s st"
proof -
  have hex: "hex_digit n \<noteq> CHR 0x22" "hex_digit n \<noteq> CHR 0x5C" if "n < 16" for n
    using that by (auto simp: hex_digit_def dest!: arg_cong [of _ _ "of_char :: char \<Rightarrow> nat"] split: if_splits)
  have n: "(of_char c :: nat) div 16 < 16" "(of_char c :: nat) mod 16 < 16"
    by (simp_all add: less_mult_imp_div_less)
  have plain: "c \<noteq> CHR 0x22" "c \<noteq> CHR 0x5C" if "(of_char c :: nat) \<noteq> 34" "(of_char c :: nat) \<noteq> 92"
    using that by auto
  show ?thesis
    using assms hex [OF n(1)] hex [OF n(2)] plain
    by (cases st) (simp add: escape_char_def Let_def scan_char_def)
qed

lemma scan_quote: "outside st \<Longrightarrow> scan_text i (quote_string s) st = st"
proof -
  assume st: "outside st"
  have body: "scan_text j (concat (map escape_char s) @ t) u = scan_text (j + length (concat (map escape_char s))) t u"
    if "in_string u" "\<not> escaped u" for j t u
    using that by (induction s arbitrary: j) (simp_all add: scan_escape add.assoc)
  from st show ?thesis
    by (cases st) (simp add: quote_string_def body scan_char_def outside_def)
qed

definition neutral :: "char \<Rightarrow> bool" where
  "neutral c \<longleftrightarrow> c \<noteq> CHR 0x22 \<and> c \<noteq> CHR ''{'' \<and> c \<noteq> CHR ''}''"

lemma scan_neutral: "list_all neutral s \<Longrightarrow> outside st \<Longrightarrow> scan_text i s st = st"
  by (induction s arbitrary: i) (auto simp: neutral_def outside_def scan_char_def)

lemma number_neutral: "number_char c \<Longrightarrow> neutral c"
  by (auto simp: number_char_def neutral_def less_eq_char_def)

text \<open>Inside an object the text of a value leaves the scanner where it was.\<close>

lemma scan_joined:
  assumes "\<And>x i. x \<in> set xs \<Longrightarrow> scan_text i (f x) st = st" and "outside st"
  shows "scan_text i (join_with '','' (map f xs) @ t) st
    = scan_text (i + length (join_with '','' (map f xs))) t st"
proof -
  have "scan_text i (join_with '','' (map f xs)) st = st"
    using assms
  proof (induction xs arbitrary: i)
    case (Cons x xs)
    then show ?case
      by (cases xs) (simp_all add: scan_append scan_char_def outside_def)
  qed simp
  then show ?thesis by (simp add: scan_append)
qed

lemma scan_value:
  "parsed_form v \<Longrightarrow> outside st \<Longrightarrow> depth st > 0 \<Longrightarrow> scan_text i (json_stringify v) st = st"
proof (induction v arbitrary: i st)
  case (JInt n)
  then show ?case
    using int_str_chars(1) [of n] by (auto intro!: scan_neutral simp: list_all_iff number_neutral)
next
  case (JStr s)
  then show ?case by (simp add: scan_quote)
next
  case (JArr xs)
  have "scan_text i (join_with '','' (map json_stringify xs) @ t) st
      = scan_text (i + length (join_with '','' (map json_stringify xs))) t st" for i t
    using JArr by (intro scan_joined) (auto simp: list_all_iff)
  then show ?case
    using JArr.prems(2) by (simp add: scan_char_def outside_def)
next
  case (JObj kvs)
  let ?st = "st\<lparr>depth := Suc (depth st)\<rparr>"
  have member: "scan_text i (member_text kv) ?st = ?st" if "kv \<in> set kvs" for i kv
  proof -
    have "scan_text j (json_stringify (snd kv)) ?st = ?st" for j
    proof (rule JObj.IH [OF that])
      show "snd kv \<in> Basic_BNFs.snds kv" by (simp add: snds.simps)
      show "parsed_form (snd kv)" using JObj.prems(1) that by (simp add: list_all_iff)
    qed (use JObj.prems in \<open>simp_all add: outside_def\<close>)
    then show ?thesis
      using JObj.prems(2) by (simp add: scan_append scan_quote outside_def scan_char_def)
  qed
  have "scan_text i (join_with '','' (map member_text kvs) @ t) ?st
      = scan_text (i + length (join_with '','' (map member_text kvs))) t ?st" for i t
    using JObj.prems(2) member by (intro scan_joined) (auto simp: outside_def)
  then show ?case
    using JObj.prems(2,3) by (simp add: scan_char_def outside_def)
qed (auto simp: scan_char_def outside_def)

section \<open>An object in prose\<close>

text \<open>Prose that opens neither a string nor an object nor an array.\<close>

definition prose_text :: "string \<Rightarrow> bool" where
  "prose_text s \<longleftrightarrow> list_all (\<lambda>c. c \<notin> set [CHR 0x22, CHR ''{'', CHR ''['']) s"

lemma scan_prose: "prose_text s \<Longrightarrow> outside st \<Longrightarrow> depth st = 0 \<Longrightarrow> scan_text i s st = st"
  by (induction s arbitrary: i) (auto simp: prose_text_def outside_def scan_char_def)

lemma scan_object:
  assumes "parsed_form (JObj kvs)" and "outside st" and "depth st = 0"
  shows "scan_text i (json_stringify (JObj kvs)) st
    = st\<lparr>span_start := None, spans := spans st @ [(i, i + length (json_stringify (JObj kvs)) - 1)]\<rparr>"
proof -
  let ?st = "st\<lparr>depth := 1, span_start := Some i\<rparr>"
  have member: "scan_text j (member_text kv) ?st = ?st" if "kv \<in> set kvs" for j kv
    using assms that by (simp add: scan_append scan_quote scan_value outside_def scan_char_def list_all_iff)
  have "scan_text j (join_with '','' (map member_text kvs) @ t) ?st
      = scan_text (j + length (join_with '','' (map member_text kvs))) t ?st" for j t
    using assms(2) member by (intro scan_joined) (auto simp: outside_def)
  then show ?thesis
    using assms(2,3) by (cases st) (simp add: scan_char_def outside_def)
qed

lemma spans_in_prose:
  assumes "parsed_form (JObj kvs)" and "prose_text p" and "prose_text q"
  shows "findBalancedObjectSpans (p @ json_stringify (JObj kvs) @ q)
    = [(length p, length p + length (json_stringify (JObj kvs)) - 1)]"
  using assms unfolding findBalancedObjectSpans_def
  by (simp add: scan_append scan_prose scan_object scan_init_def outside_def del: json_stringify.simps)

lemma span_in_prose:
  "span_text (p @ json_stringify (JObj kvs) @ q) (length p, length p + length (json_stringify (JObj kvs)) - 1)
     = json_stringify (JObj kvs)"
proof -
  let ?o = "json_stringify (JObj kvs)"
  have "?o \<noteq> []" by simp
  then have "Suc (length p + length ?o - 1) = length p + length ?o"
    by (cases ?o) simp_all
  then show ?thesis
    unfolding span_text_def slice_def by (simp only: fst_conv snd_conv) simp
qed

lemma object_in_prose:
  assumes "parsed_form (JObj kvs)" and "prose_text p" and "prose_text q"
  shows "json_candidates (p @ json_stringify (JObj kvs) @ q)
    = [((length p, length p + length (json_stringify (JObj kvs)) - 1), JObj kvs)]"
  using parse_stringify [OF assms(1)] span_in_prose [of p kvs q]
  by (simp add: json_candidates_def spans_in_prose [OF assms] map_filter_simps del: json_stringify.simps)

text \<open>Such a text parses to nothing but the object.\<close>

lemma read_value_skip: "read_value n (skip_ws s) = read_value n s"
  by (cases n) (simp_all add: skip_ws_def)

lemma digits_keep:
  assumes "read_digits s = Some (ds, r)" "\<not> digit_ch c" "c \<in> set s"
  shows "c \<in> set r"
proof -
  have "set s = set (takeWhile digit_ch s) \<union> set (dropWhile digit_ch s)"
    by (metis set_append takeWhile_dropWhile_id)
  with assms(3) have "c \<in> set (takeWhile digit_ch s) \<or> c \<in> set (dropWhile digit_ch s)"
    by simp
  then show ?thesis
    using assms(1,2) by (auto simp: read_digits_def Let_def dest: set_takeWhileD split: if_splits)
qed

lemma number_keeps_brace:
  assumes "read_number s = Some (v, r)" "CHR ''{'' \<in> set s"
  shows "CHR ''{'' \<in> set r"
proof -
  have brace: "\<not> digit_ch (CHR ''{'')"
    by (simp add: digit_ch_def)
  obtain ds r1 fs r2 e where parts: "read_digits (if s \<noteq> [] \<and> hd s = CHR ''-'' then tl s else s) = Some (ds, r1)"
    "read_fraction r1 = Some (fs, r2)" "read_exponent r2 = Some (e, r)"
    using assms(1) by (auto simp: read_number_def Let_def bind_eq_Some_conv split: if_splits)
  have "CHR ''{'' \<in> set (if s \<noteq> [] \<and> hd s = CHR ''-'' then tl s else s)"
    using assms(2) by (cases s) auto
  then have "CHR ''{'' \<in> set r1"
    using digits_keep parts(1) brace by blast
  then have "CHR ''{'' \<in> set r2"
    using parts(2) digits_keep [OF _ brace, of "tl r1" fs r2]
    by (cases r1) (auto simp: read_fraction_def split: if_splits)
  then show ?thesis
    using parts(3) digits_keep [OF _ brace]
    by (cases r2) (auto simp: read_exponent_def Let_def split: if_splits, (cases "tl r2"; auto)+)
qed

lemma literal_keeps_brace:
  assumes "read_literal w v s = Some (u, r)" "CHR ''{'' \<in> set s" "CHR ''{'' \<notin> set w"
  shows "CHR ''{'' \<in> set r"
proof -
  have "set s = set (take (length w) s) \<union> set (drop (length w) s)"
    by (metis set_append append_take_drop_id)
  with assms(2) have "CHR ''{'' \<in> set (take (length w) s) \<or> CHR ''{'' \<in> set (drop (length w) s)"
    by simp
  then show ?thesis
    using assms(1,3) unfolding read_literal_def by (auto split: if_splits)
qed

lemma brace_not_skipped: "CHR ''{'' \<in> set s \<Longrightarrow> skip_ws s \<noteq> []"
  by (auto simp: skip_ws_def ws_char_def dropWhile_eq_Nil_conv)

lemma prose_value_keeps_brace:
  assumes "read_value n (c # cs) = Some (v, r)" "\<not> ws_char c" "c \<notin> set [CHR 0x22, CHR ''{'', CHR ''['']"
    and "CHR ''{'' \<in> set cs"
  shows "CHR ''{'' \<in> set r"
proof -
  obtain m where n: "n = Suc m"
    using assms(1) by (cases n) auto
  show ?thesis
    using assms number_keeps_brace [of "c # cs" v r] literal_keeps_brace [of _ _ "c # cs" v r]
    by (auto simp: n split: if_splits)
qed

lemma prose_parse:
  assumes o: "parsed_form (JObj kvs)" and p: "prose_text p"
  shows "json_parse (p @ json_stringify (JObj kvs) @ q) \<in> {None, Some (JObj kvs)}"
proof -
  let ?o = "json_stringify (JObj kvs)" and ?n = "2 * length (p @ json_stringify (JObj kvs) @ q) + 2"
  have start: "\<exists>cs. ?o = CHR ''{'' # cs" by simp
  show ?thesis
  proof (cases "dropWhile ws_char p")
    case Nil
    then have "skip_ws (p @ ?o @ q) = ?o @ q"
      using start by (auto simp: skip_ws_def dropWhile_append3 dropWhile_eq_Nil_conv ws_char_def)
    then have "read_value ?n (p @ ?o @ q) = read_value ?n (?o @ q)"
      by (metis read_value_skip)
    also have "\<dots> = Some (JObj kvs, q)"
      by (rule read_object [OF o]) simp
    finally show ?thesis
      by (simp add: json_parse_def del: json_stringify.simps)
  next
    case (Cons c cs)
    then have c: "\<not> ws_char c"
      by (metis hd_dropWhile list.distinct(1) list.sel(1))
    have "c \<in> set p"
      using Cons by (metis list.set_intros(1) set_dropWhileD)
    then have cp: "c \<notin> set [CHR 0x22, CHR ''{'', CHR ''['']"
      using p unfolding prose_text_def list_all_iff by blast
    have skip: "skip_ws (p @ ?o @ q) = c # cs @ ?o @ q"
      using Cons c \<open>c \<in> set p\<close> by (auto simp: skip_ws_def dropWhile_append simp del: json_stringify.simps)
    have brace: "CHR ''{'' \<in> set (cs @ ?o @ q)" by simp
    have "CHR ''{'' \<in> set r" if "read_value ?n (p @ ?o @ q) = Some (v, r)" for v r
      using that prose_value_keeps_brace [OF _ c cp brace, of ?n v r] by (metis read_value_skip skip)
    then show ?thesis
      using brace_not_skipped unfolding json_parse_def by (auto split: option.splits prod.splits)
  qed
qed

definition fence_free :: "string \<Rightarrow> bool" where
  "fence_free s \<longleftrightarrow> list_all (\<lambda>l. fence_line l = None) (split_lines s)"

lemma scan_no_fence:
  "list_all (\<lambda>l. fence_line l = None) rest \<Longrightarrow> scan_fences ls i (rest @ tail) opened fences = scan_fences ls (i + length rest) tail opened fences"
  by (induction rest arbitrary: i) simp_all

lemma fence_free_extract: "fence_free s \<Longrightarrow> extractFences s = (False, [])"
  using scan_no_fence [of "split_lines s" "split_lines s" 0 "[]"]
  by (simp add: fence_free_def extractFences_def)

lemma visible_not_blank: "c \<in> set s \<Longrightarrow> \<not> trim_char c \<Longrightarrow> \<not> blank_text s"
  by (auto simp: blank_text_def list_all_iff)

theorem prose_response:
  assumes "parsed_form (JObj kvs)" and "prose_text p" and "prose_text q"
    and "fence_free (p @ json_stringify (JObj kvs) @ q)"
  shows "parseWorkerResponse (Some (JStr (p @ json_stringify (JObj kvs) @ q)))
    = Inr (JObj kvs, if json_parse (p @ json_stringify (JObj kvs) @ q) = None
        then ProseWrapped (length p) (length p + length (json_stringify (JObj kvs)) - 1) (json_stringify (JObj kvs))
        else Strict)"
proof -
  let ?o = "json_stringify (JObj kvs)" and ?raw = "p @ json_stringify (JObj kvs) @ q"
  have "\<not> blank_text ?raw"
    by (rule visible_not_blank [of "CHR ''{''"]) (simp_all add: trim_char_def)
  moreover have "span_text ?raw (length p, length p + length ?o - 1) = ?o"
    by (rule span_in_prose)
  ultimately show ?thesis
    using prose_parse [OF assms(1,2), of q] object_in_prose [OF assms(1-3)] fence_free_extract [OF assms(4)]
    by (auto simp: parse_unfenced_def findUniqueJsonObject_def simp del: json_stringify.simps)
qed

section \<open>What an accepted response leaves out\<close>

text \<open>
  A text shows an object when the print of one stands in it after a part without quotes and opening
  braces, whatever follows.  (After an unbalanced quote the scanner of the program takes an
  object for a part of a string.)
\<close>

definition plain_text :: "string \<Rightarrow> bool" where
  "plain_text s \<longleftrightarrow> list_all (\<lambda>c. c \<noteq> CHR 0x22 \<and> c \<noteq> CHR ''{'') s"

definition shows_object :: "string \<Rightarrow> string \<Rightarrow> json \<Rightarrow> bool" where
  "shows_object s p v \<longleftrightarrow> plain_text p \<and> is_obj v \<and> parsed_form v \<and> (\<exists>q. s = p @ json_stringify v @ q)"

lemma scan_plain: "plain_text s \<Longrightarrow> outside st \<Longrightarrow> depth st = 0 \<Longrightarrow> scan_text i s st = st"
  by (induction s arbitrary: i) (auto simp: plain_text_def outside_def scan_char_def)

lemma scan_char_spans: "\<exists>more. spans (scan_char i c st) = spans st @ more"
  by (auto simp: scan_char_def split: option.split)

lemma scan_text_spans: "\<exists>more. spans (scan_text i s st) = spans st @ more"
proof (induction s arbitrary: i st)
  case (Cons c s)
  then show ?case
    using scan_char_spans [of i c st] by (metis append.assoc scan_text.simps(2))
qed simp

lemma shown_span:
  assumes "shows_object s p v"
  shows "\<exists>more. findBalancedObjectSpans s = (length p, length p + length (json_stringify v) - 1) # more"
    and "json_parse (span_text s (length p, length p + length (json_stringify v) - 1)) = Some v"
proof -
  obtain kvs q where v: "v = JObj kvs" "parsed_form (JObj kvs)" and s: "s = p @ json_stringify (JObj kvs) @ q"
    and p: "plain_text p"
    using assms by (auto simp: shows_object_def is_obj_iff)
  show "json_parse (span_text s (length p, length p + length (json_stringify v) - 1)) = Some v"
    unfolding s v(1) span_in_prose by (rule parse_stringify [OF v(2)])
  have init: "outside scan_init" "depth scan_init = 0" "spans scan_init = []"
    by (simp_all add: scan_init_def outside_def)
  let ?k = "(length p, length p + length (json_stringify (JObj kvs)) - 1)"
  define st where "st = scan_init\<lparr>span_start := None, spans := [?k]\<rparr>"
  have "scan_text 0 s scan_init = scan_text (length p + length (json_stringify (JObj kvs))) q st"
    using init by (simp add: s scan_append scan_plain [OF p] scan_object [OF v(2)] st_def del: json_stringify.simps)
  moreover obtain more where "spans (scan_text (length p + length (json_stringify (JObj kvs))) q st) = spans st @ more"
    using scan_text_spans by blast
  ultimately show "\<exists>more. findBalancedObjectSpans s = (length p, length p + length (json_stringify v) - 1) # more"
    by (simp add: findBalancedObjectSpans_def v(1) st_def del: json_stringify.simps)
qed

lemma shown_candidate: "shows_object s p v \<Longrightarrow> findJsonObjectCandidate s \<noteq> None"
  using shown_span unfolding no_candidate_iff by (metis list.set_intros(1) option.distinct(1))

lemma shown_only:
  assumes "json_candidates s = [((i, j), u)]" and "shows_object s p v"
  shows "u = v \<and> i = length p"
proof -
  have "((length p, length p + length (json_stringify v) - 1), v) \<in> set (json_candidates s)"
    using shown_span [OF assms(2)] by (auto simp: candidate_iff)
  with assms(1) show ?thesis by simp
qed

text \<open>The fence lines of a text are those of its fences, in order.\<close>

definition fence_lines :: "string list \<Rightarrow> nat \<Rightarrow> nat list" where
  "fence_lines ls n = filter (\<lambda>k. fence_line (ls ! k) \<noteq> None) [0..<n]"

definition fence_at :: "string list \<Rightarrow> fence \<Rightarrow> bool" where
  "fence_at ls f \<longleftrightarrow> fence_line (ls ! fence_start f) = Some (fence_tag f) \<and>
     fence_content f = join_lines (slice (Suc (fence_start f)) (fence_end f) ls)"

lemma scan_fences_lines:
  assumes "rest = drop i ls" and "i \<le> length ls" and "list_all (fence_at ls) fences"
    and "fence_lines ls i = concat (map (\<lambda>f. [fence_start f, fence_end f]) fences) @ (case opened of None \<Rightarrow> [] | Some (k, t) \<Rightarrow> [k])"
    and "\<And>k t. opened = Some (k, t) \<Longrightarrow> fence_line (ls ! k) = Some t"
    and "scan_fences ls i rest opened fences = (False, fs)"
  shows "list_all (fence_at ls) fs \<and> fence_lines ls (length ls) = concat (map (\<lambda>f. [fence_start f, fence_end f]) fs)"
  using assms
proof (induction ls i rest opened fences rule: scan_fences.induct)
  case (1 ls i opened fences)
  then show ?case by (cases opened) auto
next
  case (2 ls i l rest opened fences)
  have i: "i < length ls" "ls ! i = l" "rest = drop (Suc i) ls"
    using "2.prems"(1,2) by (metis drop_all linorder_not_le list.distinct(1)) (metis "2.prems"(1) nth_via_drop, metis "2.prems"(1) drop_Suc list.sel(3) tl_drop)
  have lines: "fence_lines ls (Suc i) = fence_lines ls i @ (if fence_line l = None then [] else [i])"
    using i by (simp add: fence_lines_def)
  show ?case
  proof (cases "fence_line l")
    case None
    have "scan_fences ls (Suc i) rest opened fences = (False, fs)"
      using "2.prems"(6) None by simp
    moreover have "fence_lines ls (Suc i) = fence_lines ls i"
      using lines None by simp
    ultimately show ?thesis
      using "2.IH"(1) [OF None i(3) _ "2.prems"(3)] i(1) "2.prems"(4,5) by simp
  next
    case (Some t)
    then have l: "fence_line (ls ! i) = Some t" using i(2) by simp
    have step: "fence_lines ls (Suc i) = fence_lines ls i @ [i]" using lines Some by simp
    show ?thesis
    proof (cases opened)
      case None
      have "scan_fences ls (Suc i) rest (Some (i, t)) fences = (False, fs)"
        using "2.prems"(6) Some None by simp
      then show ?thesis
        using "2.IH"(2) [OF Some None i(3) _ "2.prems"(3)] i(1) step l "2.prems"(4) None by simp
    next
      case kt: (Some kt)
      obtain k tg where k: "kt = (k, tg)" by (cases kt)
      let ?f = "\<lparr> fence_tag = tg, fence_content = join_lines (slice (Suc k) i ls), fence_start = k, fence_end = i \<rparr>"
      have sc: "scan_fences ls (Suc i) rest None (fences @ [?f]) = (False, fs)"
        using "2.prems"(6) Some kt k by simp
      have "fence_at ls ?f"
        using "2.prems"(5) [of k tg] kt k by (simp add: fence_at_def)
      then have at: "list_all (fence_at ls) (fences @ [?f])"
        using "2.prems"(3) by simp
      show ?thesis
        using "2.IH"(3) [OF Some kt k [symmetric] i(3) _ at] sc i(1) step "2.prems"(4) kt k by simp
    qed
  qed
qed

lemma single_fence:
  assumes "extractFences raw = (False, [f])"
  shows "fence_at (split_lines raw) f"
    and "fence_lines (split_lines raw) (length (split_lines raw)) = [fence_start f, fence_end f]"
  using scan_fences_lines [of "split_lines raw" 0 "split_lines raw" "[]" None "[f]"] assms
  by (simp_all add: extractFences_def fence_lines_def)

lemma fenced_tag: "parse_fenced raw f = Inr (v, e) \<Longrightarrow> fence_tag f = [] \<or> to_lower (fence_tag f) = ''json''"
  by (auto simp: parse_fenced_def split: if_splits)

section \<open>A value in a fence\<close>

lemma fence_line_mark: "fence_line l = Some t \<Longrightarrow> CHR 0x60 \<in> set l"
  by (cases l) (auto simp: fence_line_def FENCE_MARK_def numeral_3_eq_3 split: if_splits)

lemma set_join: "l \<in> set ls \<Longrightarrow> set l \<subseteq> set (join_with sep ls)"
  by (induction sep ls rule: join_with.induct) auto

definition fenced_lines :: "string list \<Rightarrow> string \<Rightarrow> string list \<Rightarrow> string \<Rightarrow> string list \<Rightarrow> string list" where
  "fenced_lines ls1 tagline body endline ls2 = ls1 @ tagline # body @ endline # ls2"

lemma fenced_extract:
  assumes "list_all (\<lambda>l. CHR 0x0A \<notin> set l) (fenced_lines ls1 tagline body endline ls2)"
    and "list_all (\<lambda>l. fence_line l = None) (ls1 @ body @ ls2)"
    and "fence_line tagline = Some t" and "fence_line endline \<noteq> None"
  shows "extractFences (join_lines (fenced_lines ls1 tagline body endline ls2)) =
    (False, [\<lparr> fence_tag = t, fence_content = join_lines body,
       fence_start = length ls1, fence_end = Suc (length ls1 + length body) \<rparr>])"
proof -
  let ?ls = "fenced_lines ls1 tagline body endline ls2"
  have ls: "split_lines (join_lines ?ls) = ?ls"
    using assms(1) by (intro split_join) (simp_all add: fenced_lines_def)
  have slice: "slice (Suc (length ls1)) (Suc (length ls1 + length body)) ?ls = body"
    by (simp add: slice_def fenced_lines_def)
  have "scan_fences ?ls i (ls1 @ rest) None fences = scan_fences ?ls (i + length ls1) rest None fences" for i rest fences
    using assms(2) by (intro scan_no_fence) simp
  moreover have "scan_fences ?ls i (body @ rest) w fences = scan_fences ?ls (i + length body) rest w fences" for i rest w fences
    using assms(2) by (intro scan_no_fence) simp
  moreover have "scan_fences ?ls i (ls2 @ []) None fences = scan_fences ?ls (i + length ls2) [] None fences" for i fences
    using assms(2) by (intro scan_no_fence) simp
  ultimately have "scan_fences ?ls 0 (ls1 @ tagline # body @ endline # ls2) None [] =
    (False, [\<lparr> fence_tag = t, fence_content = join_lines body,
       fence_start = length ls1, fence_end = Suc (length ls1 + length body) \<rparr>])"
    using assms(3,4) slice by auto
  then show ?thesis
    unfolding extractFences_def ls by (simp only: fenced_lines_def)
qed

theorem fenced_response:
  assumes "list_all (\<lambda>l. CHR 0x0A \<notin> set l) (fenced_lines ls1 tagline body endline ls2)"
    and "list_all (\<lambda>l. fence_line l = None) (ls1 @ body @ ls2)"
    and "fence_line tagline = Some t" and "t = [] \<or> to_lower t = ''json''" and "fence_line endline \<noteq> None"
    and "json_parse (join_lines body) = Some v"
  shows "parseWorkerResponse (Some (JStr (join_lines (fenced_lines ls1 tagline body endline ls2)))) =
    (if findJsonObjectCandidate (join_lines ls1) = None \<and> findJsonObjectCandidate (join_lines ls2) = None
     then Inr (v, Fenced (length ls1) (Suc (length ls1 + length body)) (join_lines body))
     else Inl (TransportParseError ''ambiguous-json-outside-fence''))"
proof -
  let ?ls = "fenced_lines ls1 tagline body endline ls2"
  have ls: "split_lines (join_lines ?ls) = ?ls"
    using assms(1) by (intro split_join) (simp_all add: fenced_lines_def)
  have parts: "take (length ls1) ?ls = ls1" "drop (Suc (Suc (length ls1 + length body))) ?ls = ls2"
    by (simp_all add: fenced_lines_def)
  have "CHR 0x60 \<in> set (join_lines ?ls)"
    using fence_line_mark [OF assms(3)] set_join [of tagline "?ls"] by (auto simp: fenced_lines_def)
  then have "\<not> blank_text (join_lines ?ls)"
    by (rule visible_not_blank) (simp add: trim_char_def)
  then show ?thesis
    using assms(4,6) fenced_extract [OF assms(1,2,3,5)] by (auto simp: parse_fenced_def ls parts)
qed

text \<open>A text without a back quote has no fence line.\<close>

lemma no_mark_fence_free: "CHR 0x60 \<notin> set s \<Longrightarrow> fence_free s"
  using set_join [of _ "split_lines s" "[CHR 0x0A]"] fence_line_mark
  by (fastforce simp: fence_free_def list_all_iff join_split)

end
