(* ===== verification/Handoff_Assessment.thy ===== *)
theory Handoff_Assessment
  imports Handoff_Laws Schema_Spec Lcim_Schemas Lcim_Patterns
begin

text \<open>
  The worker contract (src/src/workers/contract.mjs), the validation of a worker result
  (src/src/handoff/validate.mjs) and the assessment of a handoff with its separated states
  (src/src/handoff/assessment.mjs, states.mjs).  The write of the raw response is the parameter
  \<open>preserve\<close>.
\<close>

section \<open>The worker contract\<close>

definition WORKER_RESULT_SCHEMA_VERSION :: string where
  "WORKER_RESULT_SCHEMA_VERSION = ''2.0.0''"

definition WORKER_STATUS :: "string list" where
  "WORKER_STATUS = [''WORK_COMPLETE'', ''BLOCKED'', ''FAILED'', ''NO_CHANGE'']"

definition WORKER_OWNED_FIELDS :: "string list" where
  "WORKER_OWNED_FIELDS =
     [''workUnitId'', ''workerStatus'', ''summary'', ''acceptanceClaims'', ''remainingIssues'',
      ''reviewRisks'', ''uncertainty'']"

definition ACCEPTANCE_CLAIM_OWNED_FIELDS :: "string list" where
  "ACCEPTANCE_CLAIM_OWNED_FIELDS = [''claim'', ''evidenceRefs'']"

definition WORKER_FORBIDDEN_FIELDS :: "(string \<times> string) list" where
  "WORKER_FORBIDDEN_FIELDS =
     [(''changedFiles'', ''changed-file lists are controller-owned evidence (Sprint 03)''),
      (''lineCount'', ''line counts are controller-owned evidence (Sprint 03)''),
      (''patchHash'', ''patch hashes are controller-owned evidence (Sprint 03)''),
      (''patchReady'', ''PATCH_READY is not a worker status; workers never claim patch readiness''),
      (''baseSha'', ''base claims are controller-owned (Sprint 03)''),
      (''headSha'', ''HEAD claims are controller-owned (Sprint 03)''),
      (''expectedBaseSha'', ''base claims are controller-owned (Sprint 03)''),
      (''testLogPath'', ''test-log paths are controller-owned evidence (Sprint 03)''),
      (''testExitStatus'', ''test exit status is controller-owned evidence (Sprint 03)''),
      (''exitStatus'', ''process exit status is controller-owned evidence''),
      (''exitCode'', ''process exit code is controller-owned evidence''),
      (''secretScan'', ''secret-scan results are controller-owned evidence (Sprint 03)''),
      (''integrationStatus'', ''integration status is controller-owned''),
      (''disposition'', ''controller dispositions are never reported by workers''),
      (''schemaName'', ''envelope metadata is controller-stamped, not model-reported''),
      (''schemaVersion'', ''envelope metadata is controller-stamped, not model-reported''),
      (''lcimVersion'', ''LCIM version is controller-owned''),
      (''lcimCommit'', ''LCIM commit is controller-owned''),
      (''configDigest'', ''config digest is controller-owned''),
      (''patchObserved'', ''patch observation is a controller state, never a worker field''),
      (''controllerValidated'', ''controller validation is a controller state, never a worker field''),
      (''evidence'', ''legacy V1 evidence field (string or array) is replaced by acceptanceClaims[].evidenceRefs'')]"

definition isWorkerOwnedField :: "string \<Rightarrow> bool" where
  "isWorkerOwnedField k \<longleftrightarrow> k \<in> set WORKER_OWNED_FIELDS"

definition isForbiddenField :: "string \<Rightarrow> bool" where
  "isForbiddenField k \<longleftrightarrow> map_of WORKER_FORBIDDEN_FIELDS k \<noteq> None"

definition forbidden_reason :: "string \<Rightarrow> string" where
  "forbidden_reason k = the (map_of WORKER_FORBIDDEN_FIELDS k)"

text \<open>The fields of a result and the \<open>evidence\<close> field of its claims.\<close>

definition field_violations :: "json \<Rightarrow> issue list" where
  "field_violations v = map (\<lambda>k. (k, forbidden_reason k)) (filter isForbiddenField (own_keys v))"

definition claim_violations :: "jsval \<Rightarrow> issue list" where
  "claim_violations cs =
     concat (map (\<lambda>(i, c).
       if own ''evidence'' (Some c) \<noteq> None
       then [(''acceptanceClaims['' @ nat_str i @ ''].evidence'', forbidden_reason ''evidence'')] else [])
       (entries (arr_or_empty cs)))"

definition listObjectiveEvidenceViolations :: "json \<Rightarrow> issue list" where
  "listObjectiveEvidenceViolations v =
     (if is_obj v then field_violations v @ claim_violations (own ''acceptanceClaims'' (Some v)) else [])"

section \<open>Validation\<close>

definition validateWorkerResult :: "json \<Rightarrow> (bool \<times> issue list) result" where
  "validateWorkerResult v =
     rbind (validate_against_schema lcim_regexps v WORKER_RESULT_SCHEMA) (\<lambda>errs.
       let violations = listObjectiveEvidenceViolations v in
       Inr (errs = [] \<and> violations = [], errs @ violations))"

definition assertWorkerResult :: "json \<Rightarrow> json result" where
  "assertWorkerResult v =
     rbind (validateWorkerResult v) (\<lambda>(ok, errs).
       if ok then Inr v else Inl (SchemaValidationError errs))"

section \<open>Assessment\<close>

text \<open>
  Only a controller's observation enters \<open>modelProcessCompleted\<close> and \<open>patchObserved\<close>;
  \<open>JNull\<close> is not known.
\<close>

record handoff_states =
  responseReceived :: bool
  modelProcessCompleted :: json
  responseParsed :: bool
  responseSchemaValid :: bool
  patchObserved :: json
  controllerValidated :: json

record parse_state =
  parseState :: string
  parseExtraction :: "extraction option"
  parseError :: "(string \<times> string) option"

record schema_state =
  schemaState :: string
  schemaErrors :: "issue list"

record assessment =
  assessedUnit :: string
  assessedVersion :: string
  states :: handoff_states
  parse :: parse_state
  schema :: schema_state
  transportDefect :: "string option"
  patchPreserved :: bool
  workerStatus :: jsval
  workerResult :: "json option"
  rawPreserved :: bool
  rawResponseRef :: "string option"

definition has_handoff :: "jsval \<Rightarrow> bool" where
  "has_handoff raw \<longleftrightarrow> (case raw of Some (JStr s) \<Rightarrow> \<not> blank_text s | _ \<Rightarrow> False)"

definition empty_assessment :: "string \<Rightarrow> bool \<Rightarrow> json \<Rightarrow> assessment" where
  "empty_assessment unit received completed =
     \<lparr> assessedUnit = unit, assessedVersion = WORKER_RESULT_SCHEMA_VERSION,
       states = \<lparr> responseReceived = received, modelProcessCompleted = completed, responseParsed = False,
         responseSchemaValid = False, patchObserved = JNull, controllerValidated = JNull \<rparr>,
       parse = \<lparr> parseState = (if received then ''PARSE_FAILED'' else ''NO_RESPONSE''),
         parseExtraction = None, parseError = None \<rparr>,
       schema = \<lparr> schemaState = ''NOT_VALIDATED'', schemaErrors = [] \<rparr>,
       transportDefect = None, patchPreserved = True, workerStatus = None, workerResult = None,
       rawPreserved = False, rawResponseRef = None \<rparr>"

text \<open>\<open>preserve root unit raw\<close> is the write of the raw response: its reference, or the error thrown.\<close>

type_synonym preservation = "string \<Rightarrow> string \<Rightarrow> string \<Rightarrow> string result"

definition with_preserved :: "preservation \<Rightarrow> jsval \<Rightarrow> string \<Rightarrow> string \<Rightarrow> assessment \<Rightarrow> assessment" where
  "with_preserved preserve root unit raw a =
     (case root of
        Some (JStr r) \<Rightarrow>
          (if r = [] then a
           else case preserve r unit raw of
                  Inr ref \<Rightarrow> a\<lparr> rawPreserved := True, rawResponseRef := Some ref \<rparr>
                | Inl _ \<Rightarrow> a)
      | _ \<Rightarrow> a)"

text \<open>The message of a parse error, by its reason.\<close>

definition parse_message :: "string \<Rightarrow> string" where
  "parse_message reason =
     (if reason = ''not-a-string'' then ''worker response is not text; no transport payload to parse''
      else if reason = ''empty'' then ''worker response is empty; no transport payload to parse''
      else if reason = ''unclosed-fence''
      then ''worker response contains an unclosed code fence; the JSON payload is not identifiable''
      else if reason = ''multiple-fences''
      then ''worker response contains multiple code fences; the JSON payload is ambiguous''
      else if reason = ''non-json-fence''
      then ''worker response uses a non-JSON code fence; only a json fence (or an untagged fence) is accepted''
      else if reason = ''fence-content-invalid'' then ''worker response fence content is not valid JSON''
      else if reason = ''ambiguous-json-outside-fence''
      then ''worker response contains another JSON object outside the code fence; the payload is ambiguous''
      else ''worker response is not valid JSON and no unique JSON object could be identified'')"

fun error_message :: "lcim_error \<Rightarrow> string" where
  "error_message (TransportParseError reason) = parse_message reason"
| "error_message _ = []"

definition malformed :: "lcim_error \<Rightarrow> assessment \<Rightarrow> assessment" where
  "malformed err a =
     a\<lparr> parse := \<lparr> parseState = ''PARSE_FAILED'', parseExtraction = None,
          parseError = Some (''TRANSPORT_MALFORMED'', error_message err) \<rparr>,
        transportDefect := Some ''TRANSPORT_MALFORMED'' \<rparr>"

definition parsed_as :: "extraction \<Rightarrow> assessment \<Rightarrow> assessment" where
  "parsed_as e a =
     a\<lparr> parse := \<lparr> parseState = ''PARSED'', parseExtraction = Some e, parseError = None \<rparr>,
        states := (states a)\<lparr> responseParsed := True \<rparr> \<rparr>"

definition schema_invalid :: "issue list \<Rightarrow> assessment \<Rightarrow> assessment" where
  "schema_invalid errs a =
     a\<lparr> schema := \<lparr> schemaState = ''INVALID'', schemaErrors = errs \<rparr>,
        transportDefect := Some ''SCHEMA_MISMATCH'' \<rparr>"

definition schema_valid :: "json \<Rightarrow> assessment \<Rightarrow> assessment" where
  "schema_valid v a =
     a\<lparr> schema := \<lparr> schemaState = ''VALID'', schemaErrors = [] \<rparr>,
        states := (states a)\<lparr> responseSchemaValid := True \<rparr>,
        workerStatus := own ''workerStatus'' (Some v), workerResult := Some v \<rparr>"

definition assess_response :: "string \<Rightarrow> assessment \<Rightarrow> assessment result" where
  "assess_response raw a =
     (case parseWorkerResponse (Some (JStr raw)) of
        Inl err \<Rightarrow> Inr (malformed err a)
      | Inr (v, e) \<Rightarrow>
          rbind (validateWorkerResult v) (\<lambda>(ok, errs).
            Inr (if ok then schema_valid v (parsed_as e a) else schema_invalid errs (parsed_as e a))))"

text \<open>\<open>modelProcessCompleted\<close>: a Boolean, or null or absent for not known.\<close>

definition observation :: "jsval \<Rightarrow> json option" where
  "observation m =
     (case m of
        None \<Rightarrow> Some JNull
      | Some JNull \<Rightarrow> Some JNull
      | Some (JBool b) \<Rightarrow> Some (JBool b)
      | _ \<Rightarrow> None)"

fun assessHandoff :: "preservation \<Rightarrow> jsval \<Rightarrow> jsval \<Rightarrow> jsval \<Rightarrow> jsval \<Rightarrow> assessment result" where
  "assessHandoff preserve unit raw root completed =
     (if \<not> isValidId ''work-unit'' unit then Inl (ConfigError ''work-unit id'')
      else case observation completed of
        None \<Rightarrow> Inl (ConfigError ''modelProcessCompleted'')
      | Some c \<Rightarrow>
          (let u = js_string unit; a = empty_assessment u (has_handoff raw) c in
           case raw of
             Some (JStr s) \<Rightarrow>
               (if blank_text s then Inr a
                else assess_response s (with_preserved preserve root u s a))
           | _ \<Rightarrow> Inr a))"

definition recordPatchObservation :: "assessment \<Rightarrow> json \<Rightarrow> assessment" where
  "recordPatchObservation a observed = a\<lparr> states := (states a)\<lparr> patchObserved := observed \<rparr> \<rparr>"

record handoff_report =
  reportUnit :: string
  reportVersion :: string
  reportStates :: handoff_states
  reportParse :: string
  reportNormalization :: "string option"
  reportSchema :: string
  reportDefect :: "string option"
  reportStatus :: jsval
  acceptanceClaimCount :: nat
  remainingIssueCount :: nat
  reportPreserved :: bool
  reportRef :: "string option"

definition field_count :: "string \<Rightarrow> json option \<Rightarrow> nat" where
  "field_count k r = (case r of None \<Rightarrow> 0 | Some v \<Rightarrow> length (arr_or_empty (own k (Some v))))"

definition summarizeForReport :: "assessment \<Rightarrow> handoff_report" where
  "summarizeForReport a =
     \<lparr> reportUnit = assessedUnit a, reportVersion = assessedVersion a, reportStates = states a,
       reportParse = parseState (parse a),
       reportNormalization = map_option normalization (parseExtraction (parse a)),
       reportSchema = schemaState (schema a), reportDefect = transportDefect a,
       reportStatus = workerStatus a,
       acceptanceClaimCount = field_count ''acceptanceClaims'' (workerResult a),
       remainingIssueCount = field_count ''remainingIssues'' (workerResult a),
       reportPreserved = rawPreserved a, reportRef = rawResponseRef a \<rparr>"

end
