(* ===== verification/Handoff_States.thy ===== *)
theory Handoff_States
  imports Handoff_Assessment
begin

text \<open>
  What an assessment promises: it always exists, its states are separate, and a result it keeps
  is the worker's own text, in the worker's own vocabulary; and responses for the witnesses.
\<close>

section \<open>The result schema\<close>

lemma worker_schema_supported: "assert_supported lcim_regexps WORKER_RESULT_SCHEMA ''(root)'' = Inr ()"
  by code_simp

lemma validateWorkerResult_eq:
  "validateWorkerResult v =
     (let errs = check lcim_regexps v WORKER_RESULT_SCHEMA []; violations = listObjectiveEvidenceViolations v in
      Inr (errs = [] \<and> violations = [], errs @ violations))"
  by (simp add: validateWorkerResult_def validate_against_schema_def worker_schema_supported Let_def)

definition worker_ok :: "json \<Rightarrow> bool" where
  "worker_ok v \<longleftrightarrow> check lcim_regexps v WORKER_RESULT_SCHEMA [] = [] \<and> listObjectiveEvidenceViolations v = []"

lemma worker_ok_accepts: "worker_ok v \<Longrightarrow> accepts lcim_regexps v WORKER_RESULT_SCHEMA"
  by (auto simp: worker_ok_def accepts_def)

lemma worker_schema_fields:
  "own ''type'' (Some WORKER_RESULT_SCHEMA) = Some (JStr ''object'')"
  "own ''required'' (Some WORKER_RESULT_SCHEMA)
     = Some (JArr [JStr ''workUnitId'', JStr ''workerStatus'', JStr ''summary''])"
  "own ''additionalProperties'' (Some WORKER_RESULT_SCHEMA) = Some (JBool False)"
  "map_option own_keys (own ''properties'' (Some WORKER_RESULT_SCHEMA)) = Some WORKER_OWNED_FIELDS"
  "schema_prop WORKER_RESULT_SCHEMA ''workerStatus''
     = Some (JObj [(''enum'', JArr [JStr ''WORK_COMPLETE'', JStr ''BLOCKED'', JStr ''FAILED'', JStr ''NO_CHANGE''])])"
  "schema_prop WORKER_RESULT_SCHEMA ''workUnitId''
     = Some (JObj [(''type'', JStr ''string''), (''pattern'', JStr ''^lcim_wu_[0-9a-f]{32}$'')])"
  by code_simp+

lemma work_unit_pattern: "lcim_regexps ''^lcim_wu_[0-9a-f]{32}$'' = Some (prefixed_hex ''lcim_wu_'' 32)"
  by (simp add: lcim_regexps_def PATTERNS_def)

lemma deep_equal_str: "deep_equal (JStr s) v \<longleftrightarrow> v = JStr s"
  by (cases v) auto

lemma worker_ok_obj: "worker_ok v \<Longrightarrow> is_obj v"
  using accepts_type [OF worker_ok_accepts worker_schema_fields(1)] by simp

lemma worker_ok_field:
  assumes "worker_ok v" and "k \<in> {''workUnitId'', ''workerStatus'', ''summary''}"
  shows "\<exists>w. own k (Some v) = Some w"
  using assms(2) by (intro accepts_required [OF worker_ok_accepts [OF assms(1)] worker_ok_obj [OF assms(1)] worker_schema_fields(2)])
    (auto simp: inherited_names_def proto_methods_def)

lemma worker_ok_status: "worker_ok v \<Longrightarrow> \<exists>st \<in> set WORKER_STATUS. own ''workerStatus'' (Some v) = Some (JStr st)"
proof -
  assume v: "worker_ok v"
  then obtain w where w: "own ''workerStatus'' (Some v) = Some w"
    using worker_ok_field [of v "''workerStatus''"] by auto
  have "accepts lcim_regexps w (JObj [(''enum'', JArr [JStr ''WORK_COMPLETE'', JStr ''BLOCKED'', JStr ''FAILED'', JStr ''NO_CHANGE''])])"
    by (rule accepts_prop [OF worker_ok_accepts [OF v] worker_schema_fields(5) w])
  from accepts_enum [OF this] w show ?thesis
    by (auto simp: WORKER_STATUS_def deep_equal_str)
qed

lemma worker_ok_unit: "worker_ok v \<Longrightarrow> isValidId ''work-unit'' (own ''workUnitId'' (Some v))"
proof -
  assume v: "worker_ok v"
  then obtain w where w: "own ''workUnitId'' (Some v) = Some w"
    using worker_ok_field [of v "''workUnitId''"] by auto
  have acc: "accepts lcim_regexps w (JObj [(''type'', JStr ''string''), (''pattern'', JStr ''^lcim_wu_[0-9a-f]{32}$'')])"
    by (rule accepts_prop [OF worker_ok_accepts [OF v] worker_schema_fields(6) w])
  then have "is_str w"
    using accepts_type [of lcim_regexps w _ "''string''"] by simp
  then obtain x where x: "w = JStr x" by (auto simp: is_str_iff)
  have "prefixed_hex ''lcim_wu_'' 32 x"
    using accepts_pattern [OF acc [unfolded x] _ work_unit_pattern] by simp
  then show ?thesis
    by (simp add: w x isValidId_def ID_PREFIXES_def)
qed

lemma worker_ok_keys:
  assumes "worker_ok v"
  shows "set (own_keys v) \<subseteq> set WORKER_OWNED_FIELDS \<union> set inherited_names
    \<and> (\<forall>k \<in> set (own_keys v). \<not> isForbiddenField k)"
proof
  obtain kvs where v: "v = JObj kvs"
    using worker_ok_obj [OF assms] by (cases v) auto
  have "check_additional v WORKER_RESULT_SCHEMA [] = []"
    using assms unfolding worker_ok_def check_Nil v by simp
  then have known: "\<forall>k \<in> set (own_keys v). known_property WORKER_RESULT_SCHEMA k"
    by (auto simp: check_additional_def worker_schema_fields(3) split: if_splits)
  show "set (own_keys v) \<subseteq> set WORKER_OWNED_FIELDS \<union> set inherited_names"
    using known worker_schema_fields(4) by (auto simp: known_property_def js_in_def)
  show "\<forall>k \<in> set (own_keys v). \<not> isForbiddenField k"
    using assms by (auto simp: worker_ok_def listObjectiveEvidenceViolations_def field_violations_def v filter_empty_conv)
qed

section \<open>The course of an assessment\<close>

lemma assess_response_eq:
  "assess_response raw a = Inr
     (case parseWorkerResponse (Some (JStr raw)) of
        Inl err \<Rightarrow> malformed err a
      | Inr (v, e) \<Rightarrow>
          (if worker_ok v then schema_valid v (parsed_as e a)
           else schema_invalid (check lcim_regexps v WORKER_RESULT_SCHEMA [] @ listObjectiveEvidenceViolations v) (parsed_as e a)))"
  by (simp add: assess_response_def validateWorkerResult_eq worker_ok_def Let_def del: parseWorkerResponse.simps
    split: sum.split prod.split)

lemma assess_total:
  assumes "isValidId ''work-unit'' unit" and "observation completed \<noteq> None"
  shows "\<exists>a. assessHandoff preserve unit raw root completed = Inr a"
  using assms by (auto simp: Let_def assess_response_eq split: option.split json.split)

text \<open>An assessment is the empty one, or the one of a text.\<close>

lemma assess_cases:
  assumes "assessHandoff preserve unit raw root completed = Inr a"
  obtains (none) c u where "observation completed = Some c" "\<not> has_handoff raw" "a = empty_assessment u False c"
  | (response) c u s where "observation completed = Some c" "raw = Some (JStr s)" "\<not> blank_text s"
      "assess_response s (with_preserved preserve root u s (empty_assessment u True c)) = Inr a"
proof -
  obtain c where c: "observation completed = Some c"
    using assms by (auto split: if_splits option.splits)
  show thesis
  proof (cases "has_handoff raw")
    case True
    then obtain s where "raw = Some (JStr s)" "\<not> blank_text s"
      by (auto simp: has_handoff_def split: option.splits json.splits)
    then show thesis
      using assms c True by (intro response) (auto simp: Let_def split: if_splits)
  next
    case False
    then show thesis
      using assms c by (intro none) (auto simp: Let_def has_handoff_def split: if_splits option.splits json.splits)
  qed
qed

text \<open>The part of a state no response reaches.\<close>

definition untouched :: "bool \<Rightarrow> json \<Rightarrow> assessment \<Rightarrow> bool" where
  "untouched received c a \<longleftrightarrow>
     responseReceived (states a) = received \<and> modelProcessCompleted (states a) = c
     \<and> patchObserved (states a) = JNull \<and> controllerValidated (states a) = JNull \<and> patchPreserved a"

definition orderly :: "assessment \<Rightarrow> bool" where
  "orderly a \<longleftrightarrow>
     (responseParsed (states a) \<longrightarrow> responseReceived (states a))
     \<and> (responseSchemaValid (states a) \<longrightarrow> responseParsed (states a))
     \<and> (workerResult a \<noteq> None \<longleftrightarrow> responseSchemaValid (states a))
     \<and> (workerStatus a \<noteq> None \<longrightarrow> responseSchemaValid (states a))
     \<and> (transportDefect a = Some ''TRANSPORT_MALFORMED'' \<longleftrightarrow> responseReceived (states a) \<and> \<not> responseParsed (states a))
     \<and> (transportDefect a = Some ''SCHEMA_MISMATCH'' \<longleftrightarrow> responseParsed (states a) \<and> \<not> responseSchemaValid (states a))"

lemma with_preserved_states:
  "with_preserved preserve root u s a = a
   \<or> (\<exists>ref. with_preserved preserve root u s a = a\<lparr>rawPreserved := True, rawResponseRef := Some ref\<rparr>)"
  by (auto simp: with_preserved_def split: option.split json.split sum.split)

lemma assessed_states:
  assumes "assessHandoff preserve unit raw root completed = Inr a"
  shows "orderly a \<and> (\<exists>c. observation completed = Some c \<and> untouched (has_handoff raw) c a)"
  using assms
proof (cases rule: assess_cases)
  case none
  then show ?thesis
    by (simp add: orderly_def untouched_def empty_assessment_def)
next
  case (response c u s)
  then have "has_handoff raw" by (simp add: has_handoff_def)
  then show ?thesis
    using response with_preserved_states [of preserve root u s "empty_assessment u True c"]
    by (auto simp: assess_response_eq orderly_def untouched_def empty_assessment_def malformed_def parsed_as_def
      schema_valid_def schema_invalid_def simp del: parseWorkerResponse.simps split: sum.splits if_splits)
qed

lemma kept_result:
  assumes "assessHandoff preserve unit raw root completed = Inr a" and "workerResult a = Some v"
  shows "\<exists>s e. raw = Some (JStr s) \<and> parseWorkerResponse raw = Inr (v, e) \<and> worker_ok v
    \<and> workerStatus a = own ''workerStatus'' (Some v)"
  using assms(1)
proof (cases rule: assess_cases)
  case none
  then show ?thesis using assms(2) by (simp add: empty_assessment_def)
next
  case (response c u s)
  then show ?thesis
    using assms(2) with_preserved_states [of preserve root u s "empty_assessment u True c"]
    by (auto simp: assess_response_eq empty_assessment_def malformed_def parsed_as_def
      schema_valid_def schema_invalid_def simp del: parseWorkerResponse.simps split: sum.splits if_splits)
qed


text \<open>
  Concrete worker responses for the witnesses: a small result, wrapped in prose and in a fence.
\<close>

definition sample_unit :: string where
  "sample_unit = ''lcim_wu_'' @ replicate 32 (CHR ''0'')"

definition sample_fields :: "(string \<times> json) list" where
  "sample_fields = [(''workUnitId'', JStr sample_unit), (''workerStatus'', JStr ''WORK_COMPLETE''),
     (''summary'', JStr ''done'')]"

definition sample_prose :: string where
  "sample_prose = ''Done: '' @ json_stringify (JObj sample_fields) @ ''.''"

definition sample_fenced :: "string list" where
  "sample_fenced = fenced_lines [''Done:''] (FENCE_MARK @ ''json'') [json_stringify (JObj sample_fields)] FENCE_MARK []"

lemma sample_form: "parsed_form (JObj sample_fields)"
  by (simp add: sample_fields_def property_order_def array_index_def)

lemmas sample_text = sample_fields_def sample_unit_def quote_string_def escape_char_def

lemma sample_prose_parts: "prose_text ''Done: ''" "prose_text ''.''" "fence_free sample_prose"
  by (simp_all add: prose_text_def no_mark_fence_free sample_prose_def sample_text)

lemma sample_worker_ok: "worker_ok (JObj sample_fields)"
  by code_simp

lemma sample_unit_valid: "isValidId ''work-unit'' (Some (JStr sample_unit))"
  by code_simp

lemma sample_parsed: "\<exists>e. parseWorkerResponse (Some (JStr sample_prose)) = Inr (JObj sample_fields, e)"
  using prose_response [OF sample_form sample_prose_parts(1,2)] sample_prose_parts(3)
  unfolding sample_prose_def by blast

lemma sample_not_blank: "\<not> blank_text sample_prose"
  by code_simp

lemma sample_assessed:
  "\<exists>a. assessHandoff preserve (Some (JStr sample_unit)) (Some (JStr sample_prose)) None (Some (JBool True)) = Inr a
    \<and> workerResult a = Some (JObj sample_fields)"
proof -
  obtain e where "parseWorkerResponse (Some (JStr sample_prose)) = Inr (JObj sample_fields, e)"
    using sample_parsed by blast
  then show ?thesis
    using sample_worker_ok sample_unit_valid sample_not_blank
    by (simp add: Let_def assess_response_eq observation_def schema_valid_def del: parseWorkerResponse.simps)
qed

lemma sample_fenced_lines:
  "list_all (\<lambda>l. CHR 0x0A \<notin> set l) sample_fenced"
  "list_all (\<lambda>l. fence_line l = None) ([''Done:''] @ [json_stringify (JObj sample_fields)] @ [])"
  "fence_line (FENCE_MARK @ ''json'') = Some ''json''"
  "fence_line FENCE_MARK \<noteq> None"
  "findJsonObjectCandidate ''Done:'' = None" "findJsonObjectCandidate [] = None"
  by code_simp+

end
