(* ===== verification/Sol_Schemas.thy ===== *)
theory Sol_Schemas
  imports Schema_Engine
begin

text \<open>
  The schemas of the SOL contracts, src/schemas, without their comments.
\<close>

text \<open>src/schemas/sol-ask.v2.schema.json.\<close>

definition SOL_ASK_SCHEMA :: json where
  "SOL_ASK_SCHEMA =
    JObj [
      (''$schema'', JStr ''https://json-schema.org/draft/2020-12/schema''),
      (''$id'', JStr ''https://lcim.local/schemas/sol-ask.v2.schema.json''),
      (''title'', JStr ''LCIM V2 SOL ask (compiled decision request)''),
      (''type'', JStr ''object''),
      (''additionalProperties'', JBool False),
      (''required'', JArr [JStr ''schemaName'', JStr ''schemaVersion'', JStr ''askId'', JStr ''callType'',
          JStr ''singleDecisionQuestion'', JStr ''whyNeeded'', JStr ''contractRefs'',
          JStr ''establishedFacts'', JStr ''evidence'', JStr ''passCondition'',
          JStr ''failCondition'', JStr ''allowedScope'', JStr ''outOfScope'',
          JStr ''requiredResponseShape'', JStr ''repairConstraints'', JStr ''evidenceBudget'',
          JStr ''compiledAt'']),
      (''properties'', JObj [
          (''schemaName'', JObj [(''const'', JStr ''lcim.sol-ask'')]),
          (''schemaVersion'', JObj [(''const'', JStr ''2.0.0'')]),
          (''askId'', JObj [
              (''type'', JStr ''string''),
              (''pattern'', JStr ''^lcim_sol_ask_[0-9a-f]{32}$'')]),
          (''callType'', JObj [
              (''enum'', JArr [JStr ''SOL_CONTRACT_CHECK'', JStr ''SOL_DIAGNOSE'', JStr ''SOL_FINAL_REVIEW'',
                  JStr ''SOL_RECHECK''])]),
          (''singleDecisionQuestion'', JObj [
              (''type'', JStr ''string''),
              (''minLength'', JInt 1),
              (''maxLength'', JInt 300)]),
          (''whyNeeded'', JObj [
              (''type'', JStr ''string''),
              (''minLength'', JInt 1),
              (''maxLength'', JInt 500)]),
          (''contractRefs'', JObj [
              (''type'', JStr ''array''),
              (''minItems'', JInt 1),
              (''maxItems'', JInt 8),
              (''items'', JObj [
                  (''type'', JStr ''object''),
                  (''additionalProperties'', JBool False),
                  (''required'', JArr [JStr ''contractKey'', JStr ''semanticDigest'']),
                  (''properties'', JObj [
                      (''contractKey'', JObj [
                          (''type'', JStr ''string''),
                          (''pattern'', JStr ''^[a-z0-9][a-z0-9._-]{0,127}$'')]),
                      (''semanticDigest'', JObj [
                          (''type'', JStr ''string''),
                          (''pattern'', JStr ''^[0-9a-f]{64}$'')]),
                      (''requirementRefs'', JObj [
                          (''type'', JStr ''array''),
                          (''maxItems'', JInt 16),
                          (''items'', JObj [
                              (''type'', JStr ''string''),
                              (''pattern'', JStr ''^se_[0-9a-f]{64}$'')])])])])]),
          (''establishedFacts'', JObj [
              (''type'', JStr ''array''),
              (''maxItems'', JInt 16),
              (''items'', JObj [
                  (''type'', JStr ''object''),
                  (''additionalProperties'', JBool False),
                  (''required'', JArr [JStr ''fact'', JStr ''evidence'']),
                  (''properties'', JObj [
                      (''fact'', JObj [
                          (''type'', JStr ''string''),
                          (''minLength'', JInt 1),
                          (''maxLength'', JInt 300)]),
                      (''evidence'', JObj [
                          (''type'', JStr ''string''),
                          (''minLength'', JInt 1),
                          (''maxLength'', JInt 300)])])])]),
          (''evidence'', JObj [
              (''type'', JStr ''array''),
              (''maxItems'', JInt 32),
              (''items'', JObj [
                  (''type'', JStr ''object''),
                  (''additionalProperties'', JBool False),
                  (''required'', JArr [JStr ''ref'', JStr ''content'']),
                  (''properties'', JObj [
                      (''ref'', JObj [
                          (''type'', JStr ''string''),
                          (''minLength'', JInt 1),
                          (''maxLength'', JInt 200)]),
                      (''content'', JObj [
                          (''type'', JStr ''string''),
                          (''minLength'', JInt 1),
                          (''maxLength'', JInt 2000)]),
                      (''decisionCritical'', JObj [(''type'', JStr ''boolean'')]),
                      (''kind'', JObj [
                          (''enum'', JArr [JStr ''observation'', JStr ''test_result'', JStr ''log_summary'', JStr ''prior_finding'',
                              JStr ''requirement'', JStr ''other''])])])])]),
          (''passCondition'', JObj [
              (''type'', JStr ''string''),
              (''minLength'', JInt 1),
              (''maxLength'', JInt 500)]),
          (''failCondition'', JObj [
              (''type'', JStr ''string''),
              (''minLength'', JInt 1),
              (''maxLength'', JInt 500)]),
          (''passEvidenceRefs'', JObj [
              (''type'', JStr ''array''),
              (''maxItems'', JInt 8),
              (''items'', JObj [
                  (''type'', JStr ''string''),
                  (''minLength'', JInt 1),
                  (''maxLength'', JInt 200)])]),
          (''failEvidenceRefs'', JObj [
              (''type'', JStr ''array''),
              (''maxItems'', JInt 8),
              (''items'', JObj [
                  (''type'', JStr ''string''),
                  (''minLength'', JInt 1),
                  (''maxLength'', JInt 200)])]),
          (''allowedScope'', JObj [
              (''type'', JStr ''array''),
              (''minItems'', JInt 1),
              (''maxItems'', JInt 16),
              (''items'', JObj [
                  (''type'', JStr ''string''),
                  (''minLength'', JInt 1),
                  (''maxLength'', JInt 200)])]),
          (''outOfScope'', JObj [
              (''type'', JStr ''array''),
              (''minItems'', JInt 1),
              (''maxItems'', JInt 16),
              (''items'', JObj [
                  (''type'', JStr ''string''),
                  (''minLength'', JInt 1),
                  (''maxLength'', JInt 200)])]),
          (''requiredResponseShape'', JObj [
              (''type'', JStr ''object''),
              (''additionalProperties'', JBool False),
              (''required'', JArr [JStr ''verdicts'', JStr ''fields'']),
              (''properties'', JObj [
                  (''verdicts'', JObj [
                      (''type'', JStr ''array''),
                      (''minItems'', JInt 1),
                      (''maxItems'', JInt 4),
                      (''items'', JObj [
                          (''type'', JStr ''string''),
                          (''minLength'', JInt 1),
                          (''maxLength'', JInt 50)])]),
                  (''fields'', JObj [
                      (''type'', JStr ''array''),
                      (''minItems'', JInt 1),
                      (''maxItems'', JInt 16),
                      (''items'', JObj [
                          (''type'', JStr ''string''),
                          (''minLength'', JInt 1),
                          (''maxLength'', JInt 100)])])])]),
          (''repairConstraints'', JObj [
              (''type'', JStr ''object''),
              (''additionalProperties'', JBool False),
              (''required'', JArr [JStr ''maxMustChangeTargets'', JStr ''mustNotChangeRequired'',
                  JStr ''boundedToRejectedAcceptance'']),
              (''properties'', JObj [
                  (''maxMustChangeTargets'', JObj [(''type'', JStr ''integer'')]),
                  (''mustNotChangeRequired'', JObj [(''type'', JStr ''boolean'')]),
                  (''boundedToRejectedAcceptance'', JObj [(''const'', JBool True)]),
                  (''mustNotChange'', JObj [
                      (''type'', JStr ''array''),
                      (''maxItems'', JInt 8),
                      (''items'', JObj [
                          (''type'', JStr ''object''),
                          (''additionalProperties'', JBool False),
                          (''required'', JArr [JStr ''target'', JStr ''reason'']),
                          (''properties'', JObj [
                              (''target'', JObj [
                                  (''type'', JStr ''string''),
                                  (''minLength'', JInt 1),
                                  (''maxLength'', JInt 300)]),
                              (''reason'', JObj [
                                  (''type'', JStr ''string''),
                                  (''minLength'', JInt 1),
                                  (''maxLength'', JInt 500)])])])])])]),
          (''evidenceBudget'', JObj [
              (''type'', JStr ''object''),
              (''additionalProperties'', JBool False),
              (''required'', JArr [JStr ''maxItems'', JStr ''maxBytes'', JStr ''onOverflow'']),
              (''properties'', JObj [
                  (''maxItems'', JObj [(''type'', JStr ''integer'')]),
                  (''maxBytes'', JObj [(''type'', JStr ''integer'')]),
                  (''onOverflow'', JObj [
                      (''enum'', JArr [JStr ''FAIL_CLOSED'', JStr ''TRUNCATE_SUMMARIZE''])])])]),
          (''contractCheck'', JObj [
              (''type'', JStr ''object''),
              (''additionalProperties'', JBool False),
              (''required'', JArr [JStr ''amendmentsOnly'', JStr ''expectedVerdicts'']),
              (''properties'', JObj [
                  (''amendmentsOnly'', JObj [(''const'', JBool True)]),
                  (''expectedVerdicts'', JObj [
                      (''type'', JStr ''array''),
                      (''minItems'', JInt 2),
                      (''maxItems'', JInt 2),
                      (''items'', JObj [
                          (''enum'', JArr [JStr ''SUFFICIENTLY_SPECIFIED'', JStr ''AMENDMENTS_REQUIRED''])])])])]),
          (''diagnose'', JObj [
              (''type'', JStr ''object''),
              (''additionalProperties'', JBool False),
              (''required'', JArr [JStr ''acceptanceCriterionRef'', JStr ''criterionRequirement'']),
              (''properties'', JObj [
                  (''acceptanceCriterionRef'', JObj [
                      (''type'', JStr ''string''),
                      (''pattern'', JStr ''^se_[0-9a-f]{64}$'')]),
                  (''criterionRequirement'', JObj [
                      (''type'', JStr ''string''),
                      (''minLength'', JInt 1),
                      (''maxLength'', JInt 500)]),
                  (''priorEvidenceRefs'', JObj [
                      (''type'', JStr ''array''),
                      (''maxItems'', JInt 8),
                      (''items'', JObj [
                          (''type'', JStr ''string''),
                          (''minLength'', JInt 1),
                          (''maxLength'', JInt 200)])])])]),
          (''finalReview'', JObj [
              (''type'', JStr ''object''),
              (''additionalProperties'', JBool False),
              (''required'', JArr [JStr ''invariantChecklist'', JStr ''maxAdjacentCriticalDefects'']),
              (''properties'', JObj [
                  (''invariantChecklist'', JObj [
                      (''type'', JStr ''array''),
                      (''minItems'', JInt 1),
                      (''maxItems'', JInt 16),
                      (''items'', JObj [
                          (''type'', JStr ''object''),
                          (''additionalProperties'', JBool False),
                          (''required'', JArr [JStr ''invariantId'', JStr ''invariant'', JStr ''lockedRequirementRef'']),
                          (''properties'', JObj [
                              (''invariantId'', JObj [
                                  (''type'', JStr ''string''),
                                  (''pattern'', JStr ''^[a-z][a-zA-Z0-9._-]{0,63}$'')]),
                              (''invariant'', JObj [
                                  (''type'', JStr ''string''),
                                  (''minLength'', JInt 1),
                                  (''maxLength'', JInt 500)]),
                              (''lockedRequirementRef'', JObj [
                                  (''type'', JStr ''string''),
                                  (''minLength'', JInt 1),
                                  (''maxLength'', JInt 200)])])])]),
                  (''maxAdjacentCriticalDefects'', JObj [(''const'', JInt 1)])])]),
          (''recheck'', JObj [
              (''type'', JStr ''object''),
              (''additionalProperties'', JBool False),
              (''required'', JArr [JStr ''priorFindingRef'', JStr ''priorAskId'', JStr ''priorResponseId'',
                  JStr ''priorFindingDigest'', JStr ''deltaEvidenceRefs'',
                  JStr ''neighboringInvariants'', JStr ''mustNotReopen'']),
              (''properties'', JObj [
                  (''priorFindingRef'', JObj [
                      (''type'', JStr ''string''),
                      (''pattern'', JStr ''^lcim_finding_[0-9a-f]{32}$'')]),
                  (''priorAskId'', JObj [
                      (''type'', JStr ''string''),
                      (''pattern'', JStr ''^lcim_sol_ask_[0-9a-f]{32}$'')]),
                  (''priorResponseId'', JObj [
                      (''type'', JStr ''string''),
                      (''pattern'', JStr ''^lcim_sol_resp_[0-9a-f]{32}$'')]),
                  (''priorFindingDigest'', JObj [(''type'', JStr ''string''), (''pattern'', JStr ''^[0-9a-f]{64}$'')]),
                  (''deltaEvidenceRefs'', JObj [
                      (''type'', JStr ''array''),
                      (''minItems'', JInt 1),
                      (''maxItems'', JInt 8),
                      (''items'', JObj [
                          (''type'', JStr ''string''),
                          (''minLength'', JInt 1),
                          (''maxLength'', JInt 200)])]),
                  (''neighboringInvariants'', JObj [
                      (''type'', JStr ''array''),
                      (''minItems'', JInt 1),
                      (''maxItems'', JInt 8),
                      (''items'', JObj [
                          (''type'', JStr ''string''),
                          (''minLength'', JInt 1),
                          (''maxLength'', JInt 200)])]),
                  (''mustNotReopen'', JObj [(''const'', JBool True)])])]),
          (''compiledAt'', JObj [
              (''type'', JStr ''string''),
              (''pattern'', JStr (''^[0-9]{4}-[0-9]{2}-[0-9]{2}T[0-9]{2}:[0-9]{2}:[0-9]{2}('' @ [CHR 0x5C] @ ''.[0-9]+)?(Z|[+-][0-9]{2}:[0-9]{2})$''))])])]"

text \<open>src/schemas/sol-response.v2.schema.json.\<close>

definition SOL_RESPONSE_SCHEMA :: json where
  "SOL_RESPONSE_SCHEMA =
    JObj [
      (''$schema'', JStr ''https://json-schema.org/draft/2020-12/schema''),
      (''$id'', JStr ''https://lcim.local/schemas/sol-response.v2.schema.json''),
      (''title'', JStr ''LCIM V2 SOL response (bounded decision result)''),
      (''type'', JStr ''object''),
      (''additionalProperties'', JBool False),
      (''required'', JArr [JStr ''schemaName'', JStr ''schemaVersion'', JStr ''responseId'', JStr ''askId'',
          JStr ''callType'', JStr ''verdict'', JStr ''decisionSummary'', JStr ''evidence'',
          JStr ''compiledAt'']),
      (''properties'', JObj [
          (''schemaName'', JObj [(''const'', JStr ''lcim.sol-response'')]),
          (''schemaVersion'', JObj [(''const'', JStr ''2.0.0'')]),
          (''responseId'', JObj [
              (''type'', JStr ''string''),
              (''pattern'', JStr ''^lcim_sol_resp_[0-9a-f]{32}$'')]),
          (''askId'', JObj [
              (''type'', JStr ''string''),
              (''pattern'', JStr ''^lcim_sol_ask_[0-9a-f]{32}$'')]),
          (''callType'', JObj [
              (''enum'', JArr [JStr ''SOL_CONTRACT_CHECK'', JStr ''SOL_DIAGNOSE'', JStr ''SOL_FINAL_REVIEW'',
                  JStr ''SOL_RECHECK''])]),
          (''verdict'', JObj [
              (''type'', JStr ''string''),
              (''minLength'', JInt 1),
              (''maxLength'', JInt 50)]),
          (''decisionSummary'', JObj [
              (''type'', JStr ''string''),
              (''minLength'', JInt 1),
              (''maxLength'', JInt 800)]),
          (''evidence'', JObj [
              (''type'', JStr ''array''),
              (''maxItems'', JInt 32),
              (''items'', JObj [
                  (''type'', JStr ''object''),
                  (''additionalProperties'', JBool False),
                  (''required'', JArr [JStr ''ref'', JStr ''content'']),
                  (''properties'', JObj [
                      (''ref'', JObj [
                          (''type'', JStr ''string''),
                          (''minLength'', JInt 1),
                          (''maxLength'', JInt 200)]),
                      (''content'', JObj [
                          (''type'', JStr ''string''),
                          (''minLength'', JInt 1),
                          (''maxLength'', JInt 2000)]),
                      (''decisionCritical'', JObj [(''type'', JStr ''boolean'')]),
                      (''kind'', JObj [
                          (''enum'', JArr [JStr ''observation'', JStr ''test_result'', JStr ''log_summary'', JStr ''prior_finding'',
                              JStr ''requirement'', JStr ''other''])])])])]),
          (''findings'', JObj [
              (''type'', JStr ''array''),
              (''maxItems'', JInt 16),
              (''items'', JObj [
                  (''type'', JStr ''object''),
                  (''additionalProperties'', JBool False),
                  (''required'', JArr [JStr ''findingId'', JStr ''severity'', JStr ''invariantRef'', JStr ''summary'',
                      JStr ''evidenceRefs'']),
                  (''properties'', JObj [
                      (''findingId'', JObj [
                          (''type'', JStr ''string''),
                          (''pattern'', JStr ''^lcim_finding_[0-9a-f]{32}$'')]),
                      (''severity'', JObj [
                          (''enum'', JArr [JStr ''INFO'', JStr ''WARNING'', JStr ''CRITICAL''])]),
                      (''invariantRef'', JObj [
                          (''type'', JStr ''string''),
                          (''minLength'', JInt 1),
                          (''maxLength'', JInt 200)]),
                      (''summary'', JObj [
                          (''type'', JStr ''string''),
                          (''minLength'', JInt 1),
                          (''maxLength'', JInt 500)]),
                      (''evidenceRefs'', JObj [
                          (''type'', JStr ''array''),
                          (''minItems'', JInt 1),
                          (''maxItems'', JInt 8),
                          (''items'', JObj [
                              (''type'', JStr ''string''),
                              (''minLength'', JInt 1),
                              (''maxLength'', JInt 200)])])])])]),
          (''amendment'', JObj [
              (''type'', JStr ''object''),
              (''additionalProperties'', JBool False),
              (''required'', JArr [JStr ''exactAmendments'']),
              (''properties'', JObj [
                  (''exactAmendments'', JObj [
                      (''type'', JStr ''array''),
                      (''minItems'', JInt 1),
                      (''maxItems'', JInt 8),
                      (''items'', JObj [
                          (''type'', JStr ''object''),
                          (''additionalProperties'', JBool False),
                          (''required'', JArr [JStr ''contractKey'', JStr ''target'', JStr ''current'', JStr ''exactAmendment'',
                              JStr ''reason'']),
                          (''properties'', JObj [
                              (''contractKey'', JObj [
                                  (''type'', JStr ''string''),
                                  (''pattern'', JStr ''^[a-z0-9][a-z0-9._-]{0,127}$'')]),
                              (''target'', JObj [
                                  (''type'', JStr ''string''),
                                  (''minLength'', JInt 1),
                                  (''maxLength'', JInt 200)]),
                              (''current'', JObj [
                                  (''type'', JStr ''string''),
                                  (''minLength'', JInt 1),
                                  (''maxLength'', JInt 500)]),
                              (''exactAmendment'', JObj [
                                  (''type'', JStr ''string''),
                                  (''minLength'', JInt 1),
                                  (''maxLength'', JInt 500)]),
                              (''reason'', JObj [
                                  (''type'', JStr ''string''),
                                  (''minLength'', JInt 1),
                                  (''maxLength'', JInt 500)])])])])])]),
          (''failure'', JObj [
              (''type'', JStr ''object''),
              (''additionalProperties'', JBool False),
              (''required'', JArr [JStr ''rootCause'', JStr ''evidenceRefs'', JStr ''repair'', JStr ''falsification'']),
              (''properties'', JObj [
                  (''rootCause'', JObj [
                      (''type'', JStr ''string''),
                      (''minLength'', JInt 1),
                      (''maxLength'', JInt 500)]),
                  (''evidenceRefs'', JObj [
                      (''type'', JStr ''array''),
                      (''minItems'', JInt 1),
                      (''maxItems'', JInt 8),
                      (''items'', JObj [
                          (''type'', JStr ''string''),
                          (''minLength'', JInt 1),
                          (''maxLength'', JInt 200)])]),
                  (''falsification'', JObj [
                      (''type'', JStr ''string''),
                      (''minLength'', JInt 1),
                      (''maxLength'', JInt 500)]),
                  (''repair'', JObj [
                      (''type'', JStr ''object''),
                      (''additionalProperties'', JBool False),
                      (''required'', JArr [JStr ''mustChange'', JStr ''mustNotChange'', JStr ''exactTests'', JStr ''verification'']),
                      (''properties'', JObj [
                          (''mustChange'', JObj [
                              (''type'', JStr ''array''),
                              (''minItems'', JInt 1),
                              (''maxItems'', JInt 4),
                              (''items'', JObj [
                                  (''type'', JStr ''object''),
                                  (''additionalProperties'', JBool False),
                                  (''required'', JArr [JStr ''target'', JStr ''change'']),
                                  (''properties'', JObj [
                                      (''target'', JObj [
                                          (''type'', JStr ''string''),
                                          (''minLength'', JInt 1),
                                          (''maxLength'', JInt 300)]),
                                      (''change'', JObj [
                                          (''type'', JStr ''string''),
                                          (''minLength'', JInt 1),
                                          (''maxLength'', JInt 500)])])])]),
                          (''mustNotChange'', JObj [
                              (''type'', JStr ''array''),
                              (''items'', JObj [
                                  (''type'', JStr ''object''),
                                  (''additionalProperties'', JBool False),
                                  (''required'', JArr [JStr ''target'', JStr ''reason'']),
                                  (''properties'', JObj [
                                      (''target'', JObj [
                                          (''type'', JStr ''string''),
                                          (''minLength'', JInt 1),
                                          (''maxLength'', JInt 300)]),
                                      (''reason'', JObj [
                                          (''type'', JStr ''string''),
                                          (''minLength'', JInt 1),
                                          (''maxLength'', JInt 500)])])])]),
                          (''exactTests'', JObj [
                              (''type'', JStr ''array''),
                              (''minItems'', JInt 1),
                              (''maxItems'', JInt 8),
                              (''items'', JObj [
                                  (''type'', JStr ''object''),
                                  (''additionalProperties'', JBool False),
                                  (''required'', JArr [JStr ''name'', JStr ''expectation'']),
                                  (''properties'', JObj [
                                      (''name'', JObj [
                                          (''type'', JStr ''string''),
                                          (''minLength'', JInt 1),
                                          (''maxLength'', JInt 200)]),
                                      (''command'', JObj [
                                          (''type'', JStr ''string''),
                                          (''maxLength'', JInt 500)]),
                                      (''expectation'', JObj [
                                          (''type'', JStr ''string''),
                                          (''minLength'', JInt 1),
                                          (''maxLength'', JInt 500)]),
                                      (''acceptanceCriterionRef'', JObj [
                                          (''type'', JStr ''string''),
                                          (''pattern'', JStr ''^se_[0-9a-f]{64}$'')])])])]),
                          (''verification'', JObj [
                              (''type'', JStr ''array''),
                              (''minItems'', JInt 1),
                              (''maxItems'', JInt 8),
                              (''items'', JObj [
                                  (''type'', JStr ''object''),
                                  (''additionalProperties'', JBool False),
                                  (''required'', JArr [JStr ''method'', JStr ''expectation'']),
                                  (''properties'', JObj [
                                      (''method'', JObj [
                                          (''type'', JStr ''string''),
                                          (''minLength'', JInt 1),
                                          (''maxLength'', JInt 300)]),
                                      (''expectation'', JObj [
                                          (''type'', JStr ''string''),
                                          (''minLength'', JInt 1),
                                          (''maxLength'', JInt 500)])])])])])])])]),
          (''adjacentCriticalDefects'', JObj [
              (''type'', JStr ''array''),
              (''maxItems'', JInt 1),
              (''items'', JObj [
                  (''type'', JStr ''object''),
                  (''additionalProperties'', JBool False),
                  (''required'', JArr [JStr ''summary'', JStr ''evidenceRefs'', JStr ''lockedRequirementRef'']),
                  (''properties'', JObj [
                      (''summary'', JObj [
                          (''type'', JStr ''string''),
                          (''minLength'', JInt 1),
                          (''maxLength'', JInt 500)]),
                      (''evidenceRefs'', JObj [
                          (''type'', JStr ''array''),
                          (''minItems'', JInt 1),
                          (''maxItems'', JInt 8),
                          (''items'', JObj [
                              (''type'', JStr ''string''),
                              (''minLength'', JInt 1),
                              (''maxLength'', JInt 200)])]),
                      (''lockedRequirementRef'', JObj [
                          (''type'', JStr ''string''),
                          (''minLength'', JInt 1),
                          (''maxLength'', JInt 200)])])])]),
          (''compiledAt'', JObj [
              (''type'', JStr ''string''),
              (''pattern'', JStr (''^[0-9]{4}-[0-9]{2}-[0-9]{2}T[0-9]{2}:[0-9]{2}:[0-9]{2}('' @ [CHR 0x5C] @ ''.[0-9]+)?(Z|[+-][0-9]{2}:[0-9]{2})$''))])])]"

text \<open>src/schemas/repair-ticket.v2.schema.json.\<close>

definition REPAIR_TICKET_SCHEMA :: json where
  "REPAIR_TICKET_SCHEMA =
    JObj [
      (''$schema'', JStr ''https://json-schema.org/draft/2020-12/schema''),
      (''$id'', JStr ''https://lcim.local/schemas/repair-ticket.v2.schema.json''),
      (''title'', JStr ''LCIM V2 deterministic repair-ticket conversion record''),
      (''type'', JStr ''object''),
      (''additionalProperties'', JBool False),
      (''required'', JArr [JStr ''schemaName'', JStr ''schemaVersion'', JStr ''ticketId'', JStr ''sourceAskId'',
          JStr ''sourceResponseId'', JStr ''callType'', JStr ''repairId'', JStr ''contractKey'',
          JStr ''sourceSemanticDigest'', JStr ''rejectedAcceptanceRefs'',
          JStr ''conversionDigest'', JStr ''compiledAt'']),
      (''properties'', JObj [
          (''schemaName'', JObj [(''const'', JStr ''lcim.repair-ticket'')]),
          (''schemaVersion'', JObj [(''const'', JStr ''2.0.0'')]),
          (''ticketId'', JObj [
              (''type'', JStr ''string''),
              (''pattern'', JStr ''^lcim_repair_[0-9a-f]{32}$'')]),
          (''sourceAskId'', JObj [
              (''type'', JStr ''string''),
              (''pattern'', JStr ''^lcim_sol_ask_[0-9a-f]{32}$'')]),
          (''sourceResponseId'', JObj [
              (''type'', JStr ''string''),
              (''pattern'', JStr ''^lcim_sol_resp_[0-9a-f]{32}$'')]),
          (''callType'', JObj [(''const'', JStr ''SOL_DIAGNOSE'')]),
          (''repairId'', JObj [
              (''type'', JStr ''string''),
              (''pattern'', JStr ''^lcim_repair_[0-9a-f]{32}$'')]),
          (''contractKey'', JObj [
              (''type'', JStr ''string''),
              (''pattern'', JStr ''^[a-z0-9][a-z0-9._-]{0,127}$'')]),
          (''sourceSemanticDigest'', JObj [(''type'', JStr ''string''), (''pattern'', JStr ''^[0-9a-f]{64}$'')]),
          (''rejectedAcceptanceRefs'', JObj [
              (''type'', JStr ''array''),
              (''minItems'', JInt 1),
              (''maxItems'', JInt 1),
              (''items'', JObj [(''type'', JStr ''string''), (''pattern'', JStr ''^se_[0-9a-f]{64}$'')])]),
          (''conversionDigest'', JObj [(''type'', JStr ''string''), (''pattern'', JStr ''^[0-9a-f]{64}$'')]),
          (''compiledAt'', JObj [
              (''type'', JStr ''string''),
              (''pattern'', JStr (''^[0-9]{4}-[0-9]{2}-[0-9]{2}T[0-9]{2}:[0-9]{2}:[0-9]{2}('' @ [CHR 0x5C] @ ''.[0-9]+)?(Z|[+-][0-9]{2}:[0-9]{2})$''))])])]"

end
