(* ===== verification/Sol_Types.thy ===== *)
theory Sol_Types
  imports Sol_Schemas Lcim_Patterns Contract_Validate Js_Regexp
begin

text \<open>
  The vocabulary of the SOL contracts: call types, verdicts and response shapes
  (src/src/sol/contracts/call-types.mjs), the accounting of evidence (evidence.mjs) and the
  identities (ids.mjs).
\<close>

section \<open>Call types\<close>

definition SOL_CALL_TYPES :: "string list" where
  "SOL_CALL_TYPES = [''SOL_CONTRACT_CHECK'', ''SOL_DIAGNOSE'', ''SOL_FINAL_REVIEW'', ''SOL_RECHECK'']"

definition SOL_VERDICTS :: "(string \<times> string list) list" where
  "SOL_VERDICTS =
     [(''SOL_CONTRACT_CHECK'', [''SUFFICIENTLY_SPECIFIED'', ''AMENDMENTS_REQUIRED'']),
      (''SOL_DIAGNOSE'', [''CAUSE_IDENTIFIED'', ''CAUSE_UNRESOLVED'']),
      (''SOL_FINAL_REVIEW'', [''PASS'', ''FAIL'']),
      (''SOL_RECHECK'', [''RESOLVED'', ''NOT_RESOLVED''])]"

definition SOL_RESPONSE_FIELDS :: "(string \<times> string list) list" where
  "SOL_RESPONSE_FIELDS =
     [(''SOL_CONTRACT_CHECK'', [''verdict'', ''decisionSummary'', ''amendment.exactAmendments'']),
      (''SOL_DIAGNOSE'', [''verdict'', ''decisionSummary'', ''failure.rootCause'', ''failure.evidenceRefs'',
         ''failure.repair'', ''failure.falsification'']),
      (''SOL_FINAL_REVIEW'', [''verdict'', ''decisionSummary'', ''findings'', ''adjacentCriticalDefects'']),
      (''SOL_RECHECK'', [''verdict'', ''decisionSummary'', ''findings''])]"

definition SOL_REPAIR_CONSTRAINTS :: json where
  "SOL_REPAIR_CONSTRAINTS =
     JObj [(''maxMustChangeTargets'', JInt 1), (''mustNotChangeRequired'', JBool True),
       (''boundedToRejectedAcceptance'', JBool True)]"

definition SOL_CALL_TYPE_BLOCKS :: "(string \<times> string) list" where
  "SOL_CALL_TYPE_BLOCKS =
     [(''SOL_CONTRACT_CHECK'', ''contractCheck''), (''SOL_DIAGNOSE'', ''diagnose''),
      (''SOL_FINAL_REVIEW'', ''finalReview''), (''SOL_RECHECK'', ''recheck'')]"

definition MAX_ADJACENT_CRITICAL_DEFECTS :: nat where
  "MAX_ADJACENT_CRITICAL_DEFECTS = 1"

definition isValidSolCallType :: "jsval \<Rightarrow> bool" where
  "isValidSolCallType t = one_of SOL_CALL_TYPES t"

definition assertSolCallType :: "jsval \<Rightarrow> unit result" where
  "assertSolCallType t = need (isValidSolCallType t) (ConfigError ''invalid SOL call type'')"

text \<open>A table of the source looked up with a call type; other types have no entry.\<close>

definition for_type :: "(string \<times> 'a) list \<Rightarrow> jsval \<Rightarrow> 'a option" where
  "for_type table t = (case t of Some (JStr s) \<Rightarrow> map_of table s | _ \<Rightarrow> None)"

definition solVerdictsFor :: "jsval \<Rightarrow> string list result" where
  "solVerdictsFor t = rbind (assertSolCallType t) (\<lambda>_. Inr (the (for_type SOL_VERDICTS t)))"

definition solTypeBlockFor :: "jsval \<Rightarrow> string result" where
  "solTypeBlockFor t = rbind (assertSolCallType t) (\<lambda>_. Inr (the (for_type SOL_CALL_TYPE_BLOCKS t)))"

text \<open>\<open>SOL_VERDICTS[callType] ?? []\<close>.\<close>

definition verdicts_of :: "jsval \<Rightarrow> string list" where
  "verdicts_of t = (case for_type SOL_VERDICTS t of None \<Rightarrow> [] | Some vs \<Rightarrow> vs)"

definition isValidSolVerdict :: "jsval \<Rightarrow> jsval \<Rightarrow> bool" where
  "isValidSolVerdict t v = one_of (verdicts_of t) v"

text \<open>\<open>SOL_RESPONSE_SHAPES[callType]\<close>.\<close>

definition sol_response_shape :: "jsval \<Rightarrow> json" where
  "sol_response_shape t =
     JObj [(''verdicts'', JArr (map JStr (verdicts_of t))),
       (''fields'', JArr (map JStr (case for_type SOL_RESPONSE_FIELDS t of None \<Rightarrow> [] | Some fs \<Rightarrow> fs)))]"

section \<open>Evidence\<close>

definition TRUNCATION_MARKER_REF :: string where
  "TRUNCATION_MARKER_REF = ''lcim.budget.truncation-marker''"

definition TRUNCATION_MARKER_KIND :: string where
  "TRUNCATION_MARKER_KIND = ''other''"

definition EVIDENCE_ITEM_OVERHEAD_BYTES :: nat where
  "EVIDENCE_ITEM_OVERHEAD_BYTES = 32"

definition TRUNCATION_MARKER_BYTES :: nat where
  "TRUNCATION_MARKER_BYTES = 200"

definition EVIDENCE_BUDGET_OVERFLOW_MODES :: "string list" where
  "EVIDENCE_BUDGET_OVERFLOW_MODES = [''FAIL_CLOSED'', ''TRUNCATE_SUMMARIZE'']"

definition DEFAULT_EVIDENCE_BUDGET :: json where
  "DEFAULT_EVIDENCE_BUDGET =
     JObj [(''maxItems'', JInt 16), (''maxBytes'', JInt 8192), (''onOverflow'', JStr ''FAIL_CLOSED'')]"

text \<open>
  \<open>Buffer.byteLength(v ?? '', 'utf8')\<close> accepts strings only; \<open>measurable\<close> says that it does not
  throw.
\<close>

definition text_bytes :: "jsval \<Rightarrow> nat" where
  "text_bytes v = (case v of Some (JStr s) \<Rightarrow> byte_length s | _ \<Rightarrow> 0)"

fun is_text :: "jsval \<Rightarrow> bool" where
  "is_text (Some (JStr s)) = True"
| "is_text _ = False"

definition measurable :: "json \<Rightarrow> bool" where
  "measurable item \<longleftrightarrow> list_all (\<lambda>k. nullish (fld k item) \<or> is_text (fld k item)) [''ref'', ''content'']"

definition evidenceItemBytes :: "json \<Rightarrow> nat" where
  "evidenceItemBytes item = text_bytes (fld ''ref'' item) + text_bytes (fld ''content'' item) + EVIDENCE_ITEM_OVERHEAD_BYTES"

text \<open>\<open>evidenceByteLength\<close>: the number of items and their bytes.\<close>

definition evidence_bytes :: "json list \<Rightarrow> nat" where
  "evidence_bytes items = sum_list (map evidenceItemBytes items)"

definition assertEvidenceBudget :: "jsval \<Rightarrow> unit result" where
  "assertEvidenceBudget b =
     rbind (need (plain_object b) (ConfigError ''evidence budget'')) (\<lambda>_.
     rbind (each (\<lambda>k. need (int_at_least 1 (own k b)) (ConfigError k)) [''maxItems'', ''maxBytes'']) (\<lambda>_.
     need (one_of EVIDENCE_BUDGET_OVERFLOW_MODES (own ''onOverflow'' b)) (ConfigError ''onOverflow'')))"

text \<open>
  \<open>n > v\<close> for a number \<open>n\<close> of items or bytes, where JavaScript converts \<open>v\<close> to a number first.  Since \<open>n\<close> is
  a natural number, the integer part of \<open>v\<close> decides, and any negative value is exceeded.  A text is read
  as a decimal number without exponent, up to space around it; another text is no number here (so an
  exponent or a prefix of another radix is not read).
\<close>

definition is_digit :: "char \<Rightarrow> bool" where
  "is_digit c \<longleftrightarrow> of_char c \<in> {48..57 :: nat}"

definition digits_nat :: "string \<Rightarrow> nat" where
  "digits_nat s = fold (\<lambda>c n. 10 * n + (of_char c - 48)) s 0"

definition unsigned_floor :: "string \<Rightarrow> int option" where
  "unsigned_floor s =
     (let whole = takeWhile is_digit s; rest = dropWhile is_digit s; part = takeWhile is_digit (tl rest) in
      if (rest = [] \<and> whole \<noteq> []) \<or> (rest \<noteq> [] \<and> hd rest = CHR ''.'' \<and> tl rest = part \<and> whole @ part \<noteq> [])
      then Some (int (digits_nat whole)) else None)"

definition negative_floor :: "string \<Rightarrow> int option" where
  "negative_floor s =
     map_option (\<lambda>m. if list_all (\<lambda>c. c \<in> set ''0.'') s then 0 else -1) (unsigned_floor s)"

definition text_floor :: "string \<Rightarrow> int option" where
  "text_floor s =
     (case js_trim s of
        [] \<Rightarrow> Some 0
      | c # t \<Rightarrow> if c = CHR ''-'' then negative_floor t
          else if c = CHR ''+'' then unsigned_floor t else unsigned_floor (c # t))"

text \<open>The text of a number that is no integer has an exponent only when it is between -1 and 1.\<close>

definition float_floor :: "string \<Rightarrow> int" where
  "float_floor t =
     (if take 1 t = ''-'' then -1 else if CHR ''e'' \<in> set t then 0 else int (digits_nat (takeWhile is_digit t)))"

fun number_floor :: "jsval \<Rightarrow> int option" where
  "number_floor (Some (JInt m)) = Some m"
| "number_floor (Some (JFloat t)) = Some (float_floor t)"
| "number_floor (Some JNull) = Some 0"
| "number_floor (Some (JBool b)) = Some (if b then 1 else 0)"
| "number_floor (Some (JStr s)) = text_floor s"
| "number_floor (Some (JArr xs)) = text_floor (js_string (Some (JArr xs)))"
| "number_floor _ = None"

definition exceeds :: "nat \<Rightarrow> jsval \<Rightarrow> bool" where
  "exceeds n v = (case number_floor v of None \<Rightarrow> False | Some m \<Rightarrow> m < int n)"

lemma exceeds_int [simp]: "exceeds n (Some (JInt m)) \<longleftrightarrow> m < int n"
  by (simp add: exceeds_def)

lemma exceeds_none [simp]: "\<not> exceeds n None"
  by (simp add: exceeds_def)

definition is_marker :: "jsval \<Rightarrow> bool" where
  "is_marker r \<longleftrightarrow> is_lit r TRUNCATION_MARKER_REF"

definition isValidTruncationMarker :: "json \<Rightarrow> bool" where
  "isValidTruncationMarker item \<longleftrightarrow>
     is_obj item \<and> is_marker (fld ''ref'' item) \<and> is_lit (fld ''kind'' item) TRUNCATION_MARKER_KIND"

section \<open>Identities\<close>

definition isValidSolAskId :: "jsval \<Rightarrow> bool" where
  "isValidSolAskId v = (case v of Some (JStr s) \<Rightarrow> prefixed_hex ''lcim_sol_ask_'' 32 s | _ \<Rightarrow> False)"

definition isValidSolResponseId :: "jsval \<Rightarrow> bool" where
  "isValidSolResponseId v = (case v of Some (JStr s) \<Rightarrow> prefixed_hex ''lcim_sol_resp_'' 32 s | _ \<Rightarrow> False)"

text \<open>\<open>sha256Hex(JSON.stringify(canonicalizeJson(v)))\<close>.\<close>

definition content_digest :: "digest_fun \<Rightarrow> json \<Rightarrow> string" where
  "content_digest sha v = sha (json_stringify (canonicalize_json v))"

definition adjacentDefectFindingId :: "digest_fun \<Rightarrow> json \<Rightarrow> string" where
  "adjacentDefectFindingId sha d = ''lcim_finding_'' @ take 32 (content_digest sha d)"

end
