(* ===== verification/Sol_Ask.thy ===== *)
theory Sol_Ask
  imports Sol_Types
begin

text \<open>
  The rules of a compiled SOL ask, src/src/sol/contracts/validate.mjs (\<open>applyAskRules\<close>,
  \<open>applySourceBindingRules\<close>, \<open>validateSourceSet\<close>): the budget of its evidence, the closure of
  its evidence references and conditions, its per-type block, and its binding to validated
  source contracts.  An issue is its path and its code.  The rules run on a document its schema
  accepts, so its arrays and strings are such; the provenance of a recheck is in Sol_Validate.
\<close>

section \<open>Evidence references\<close>

text \<open>\<open>resolvableEvidenceRefs\<close>: the references of the evidence pool but the marker's.\<close>

definition resolvable_ref :: "json \<Rightarrow> string option" where
  "resolvable_ref item =
     (case fld ''ref'' item of
        Some (JStr r) \<Rightarrow> (if r = TRUNCATION_MARKER_REF then None else Some r)
      | _ \<Rightarrow> None)"

definition resolvableEvidenceRefs :: "jsval \<Rightarrow> string list" where
  "resolvableEvidenceRefs doc = List.map_filter resolvable_ref (arr_or_empty (own ''evidence'' doc))"

definition is_ref_of :: "jsval \<Rightarrow> json \<Rightarrow> bool" where
  "is_ref_of doc r \<longleftrightarrow> (\<exists>s \<in> set (resolvableEvidenceRefs doc). r = JStr s)"

definition budget_of :: "json \<Rightarrow> jsval" where
  "budget_of doc = (if plain_object (fld ''evidenceBudget'' doc) then fld ''evidenceBudget'' doc else None)"

definition ask_budget_issues :: "json \<Rightarrow> issue list" where
  "ask_budget_issues doc =
     (case budget_of doc of
        None \<Rightarrow> []
      | Some b \<Rightarrow>
          concat (map (\<lambda>k. if int_at_least 1 (fld k b) then []
            else [(''evidenceBudget.'' @ k, ''INVALID_EVIDENCE_BUDGET'')]) [''maxItems'', ''maxBytes''])
          @ (if one_of EVIDENCE_BUDGET_OVERFLOW_MODES (fld ''onOverflow'' b) then []
             else [(''evidenceBudget.onOverflow'', ''INVALID_EVIDENCE_BUDGET'')]))"

definition over_budget :: "jsval \<Rightarrow> json list \<Rightarrow> bool" where
  "over_budget budget items \<longleftrightarrow>
     exceeds (length items) (own ''maxItems'' budget) \<or> exceeds (evidence_bytes items) (own ''maxBytes'' budget)"

definition evidence_fit_issues :: "json \<Rightarrow> issue list" where
  "evidence_fit_issues doc =
     (if budget_of doc \<noteq> None \<and> over_budget (budget_of doc) (items_of ''evidence'' doc)
      then [(''evidence'', ''EVIDENCE_BUDGET_EXCEEDED'')] else [])"

text \<open>The marker: well-formed, only where truncation is allowed, and the last item.\<close>

definition marker_issue :: "bool \<Rightarrow> nat \<Rightarrow> nat \<Rightarrow> json \<Rightarrow> issue list" where
  "marker_issue allowed n i item =
     (if is_marker (fld ''ref'' item) \<and> (\<not> isValidTruncationMarker item \<or> \<not> allowed \<or> Suc i \<noteq> n)
      then [(at_index ''evidence'' i, ''INVALID_TRUNCATION_MARKER'')] else [])"

definition marker_issues :: "bool \<Rightarrow> json list \<Rightarrow> issue list" where
  "marker_issues allowed items = concat (map (\<lambda>(i, x). marker_issue allowed (length items) i x) (entries items))"

text \<open>References that must resolve: the marker and an unknown reference are reported.\<close>

definition ref_issues :: "string \<Rightarrow> string \<Rightarrow> (json \<Rightarrow> bool) \<Rightarrow> json list \<Rightarrow> issue list" where
  "ref_issues at code known refs =
     concat (map (\<lambda>(i, r).
         if is_marker (Some r) then [(at_index at i, ''EVIDENCE_REF_MARKER'')]
         else if known r then [] else [(at_index at i, code)])
       (entries refs))"

definition decision_refs :: "json \<Rightarrow> (string \<times> json list) list" where
  "decision_refs doc =
     [(''passEvidenceRefs'', items_of ''passEvidenceRefs'' doc),
      (''failEvidenceRefs'', items_of ''failEvidenceRefs'' doc),
      (''diagnose.priorEvidenceRefs'', arr_or_empty (own ''priorEvidenceRefs'' (fld ''diagnose'' doc))),
      (''recheck.deltaEvidenceRefs'', arr_or_empty (own ''deltaEvidenceRefs'' (fld ''recheck'' doc)))]"

definition decision_ref_issues :: "json \<Rightarrow> issue list" where
  "decision_ref_issues doc =
     concat (map (\<lambda>(at, refs). ref_issues at ''EVIDENCE_REF_UNRESOLVED'' (is_ref_of (Some doc)) refs)
       (decision_refs doc))"

section \<open>Conditions\<close>

text \<open>\<open>EVIDENCE_REF_TOKEN_PATTERN\<close>.\<close>

definition token_start :: "char \<Rightarrow> bool" where
  "token_start c \<longleftrightarrow> word_char c \<and> c \<noteq> CHR ''_''"

definition token_char :: "char \<Rightarrow> bool" where
  "token_char c \<longleftrightarrow> word_char c \<or> c = CHR ''.'' \<or> c = CHR ''-''"

definition EVIDENCE_REF_TOKEN :: regexp where
  "EVIDENCE_REF_TOKEN = seqs [Bound, word_of ''ev.'', Cls token_start, Rep 0 None (Cls token_char), Bound]"

text \<open>A set of the source listed in the order of insertion.\<close>

definition in_order :: "'a list \<Rightarrow> 'a list" where
  "in_order xs = rev (remdups (rev xs))"

definition conditionMentionedEvidenceRefs :: "jsval \<Rightarrow> string list \<Rightarrow> string list" where
  "conditionMentionedEvidenceRefs text pool =
     (case text of
        Some (JStr s) \<Rightarrow> in_order (match_all EVIDENCE_REF_TOKEN s @ filter (\<lambda>r. mentions r s) pool)
      | _ \<Rightarrow> [])"

definition condition_issues :: "json \<Rightarrow> string \<Rightarrow> string \<Rightarrow> issue list" where
  "condition_issues doc field declared =
     (case fld field doc of
        Some (JStr s) \<Rightarrow> (if js_includes s TRUNCATION_MARKER_REF then [(field, ''EVIDENCE_REF_MARKER'')] else [])
      | _ \<Rightarrow> [])
     @ concat (map (\<lambda>t. if JStr t \<in> set (items_of declared doc) then []
         else [(field, ''CONDITION_EVIDENCE_REF_UNDECLARED'')])
         (conditionMentionedEvidenceRefs (fld field doc) (resolvableEvidenceRefs (Some doc))))"

section \<open>Call type\<close>

definition call_type :: "json \<Rightarrow> string \<Rightarrow> bool" where
  "call_type doc t \<longleftrightarrow> is_lit (fld ''callType'' doc) t"

definition delta_issues :: "json \<Rightarrow> issue list" where
  "delta_issues doc =
     (if call_type doc ''SOL_RECHECK''
      then concat (map (\<lambda>(i, x).
          if is_marker (fld ''ref'' x)
             \<or> (\<exists>r \<in> set (arr_or_empty (own ''deltaEvidenceRefs'' (fld ''recheck'' doc))). fld ''ref'' x = Some r)
          then [] else [(at_index ''evidence'' i @ ''.ref'', ''RECHECK_NONDELTA_EVIDENCE'')])
          (entries (items_of ''evidence'' doc)))
      else [])"

definition TYPE_BLOCKS :: "string list" where
  "TYPE_BLOCKS = [''contractCheck'', ''diagnose'', ''finalReview'', ''recheck'']"

definition present_blocks :: "json \<Rightarrow> string list" where
  "present_blocks doc = filter (\<lambda>b. fld b doc \<noteq> None) TYPE_BLOCKS"

definition block_issues :: "json \<Rightarrow> issue list" where
  "block_issues doc =
     (case present_blocks doc of
        [] \<Rightarrow> [(''callType'', ''TYPE_BLOCK_MISMATCH'')]
      | [b] \<Rightarrow> (if for_type SOL_CALL_TYPE_BLOCKS (fld ''callType'' doc) = Some b then []
                else [(''callType'', ''TYPE_BLOCK_MISMATCH'')])
      | _ \<Rightarrow> [(''callType'', ''CROSS_TYPE_BLOCKS'')])"

definition shape_issues :: "json \<Rightarrow> issue list" where
  "shape_issues doc =
     (case own ''verdicts'' (fld ''requiredResponseShape'' doc) of
        Some (JArr vs) \<Rightarrow>
          (if vs = map JStr (verdicts_of (fld ''callType'' doc)) then []
           else [(''requiredResponseShape.verdicts'', ''RESPONSE_SHAPE_MISMATCH'')])
      | _ \<Rightarrow> [])"

definition constraint_issues :: "json \<Rightarrow> issue list" where
  "constraint_issues doc =
     (if plain_object (fld ''repairConstraints'' doc)
         \<and> \<not> int_at_least 1 (own ''maxMustChangeTargets'' (fld ''repairConstraints'' doc))
      then [(''repairConstraints.maxMustChangeTargets'', ''INVALID_REPAIR_CONSTRAINTS'')] else [])"

definition declaredRequirementRefs :: "json \<Rightarrow> json list" where
  "declaredRequirementRefs doc = concat (map (items_of ''requirementRefs'') (items_of ''contractRefs'' doc))"

definition is_declared :: "json \<Rightarrow> jsval \<Rightarrow> bool" where
  "is_declared doc r \<longleftrightarrow> (\<exists>x \<in> set (declaredRequirementRefs doc). r = Some x)"

definition criterion_ref :: "jsval \<Rightarrow> jsval" where
  "criterion_ref ask = own ''acceptanceCriterionRef'' (own ''diagnose'' ask)"

definition criterion_issues :: "json \<Rightarrow> issue list" where
  "criterion_issues doc =
     (if call_type doc ''SOL_DIAGNOSE'' \<and> plain_object (fld ''diagnose'' doc)
         \<and> \<not> is_declared doc (criterion_ref (Some doc))
      then [(''diagnose.acceptanceCriterionRef'', ''CRITERION_NOT_DECLARED'')] else [])"

definition checklist :: "jsval \<Rightarrow> json list" where
  "checklist ask = arr_or_empty (own ''invariantChecklist'' (own ''finalReview'' ask))"

definition checklist_issues :: "json \<Rightarrow> issue list" where
  "checklist_issues doc =
     (if call_type doc ''SOL_FINAL_REVIEW''
      then map (\<lambda>(i, k). (at_index ''finalReview.invariantChecklist'' i @ ''.invariantId'', ''DUPLICATE_INVARIANT_ID''))
             (repeated (map (fld ''invariantId'') (checklist (Some doc))))
      else [])"

section \<open>Sources\<close>

text \<open>\<open>validateSourceSet\<close>: the issues and the validated sources.\<close>

definition source_issue :: "digest_fun \<Rightarrow> nat \<Rightarrow> json \<Rightarrow> issue list" where
  "source_issue sha i src =
     (if is_obj src \<and> (case validateSemanticContract sha src of Inr (es, _) \<Rightarrow> es = [] | Inl _ \<Rightarrow> False) then []
      else [(at_index ''sources'' i, ''SOURCE_INVALID'')])"

fun validateSourceSet :: "digest_fun \<Rightarrow> jsval \<Rightarrow> issue list \<times> json list" where
  "validateSourceSet sha (Some (JArr srcs)) =
     (if srcs = [] \<or> 8 < length srcs then ([(''sources'', ''SOURCE_INVALID'')], [])
      else (concat (map (\<lambda>(i, s). source_issue sha i s) (entries srcs)),
            map snd (filter (\<lambda>(i, s). source_issue sha i s = []) (entries srcs))))"
| "validateSourceSet sha _ = ([(''sources'', ''SOURCE_INVALID'')], [])"

definition criterion_spec :: "json \<Rightarrow> jsval \<Rightarrow> json option" where
  "criterion_spec source criterion = List.find (\<lambda>s. fld ''sideEffectId'' s = criterion) (items_of ''negativeSideEffects'' source)"

fun findCriterionSpec :: "json list \<Rightarrow> jsval \<Rightarrow> (json \<times> json) option" where
  "findCriterionSpec [] criterion = None"
| "findCriterionSpec (s # ss) criterion =
     (case criterion_spec s criterion of Some spec \<Rightarrow> Some (s, spec) | None \<Rightarrow> findCriterionSpec ss criterion)"

text \<open>\<open>byKeyAndDigest.get(...)\<close>: a later source of the same key and digest replaces an earlier one.\<close>

definition bound_source :: "json list \<Rightarrow> json \<Rightarrow> json option" where
  "bound_source sources ref =
     List.find (\<lambda>s. fld ''contractKey'' s = fld ''contractKey'' ref \<and> fld ''semanticDigest'' s = fld ''semanticDigest'' ref)
       (rev sources)"

definition names_source :: "json \<Rightarrow> bool" where
  "names_source ref \<longleftrightarrow> list_all (\<lambda>k. is_text (fld k ref)) [''contractKey'', ''semanticDigest'']"

definition contract_ref_issues :: "json list \<Rightarrow> nat \<Rightarrow> json \<Rightarrow> issue list" where
  "contract_ref_issues sources i ref =
     (case (if names_source ref then bound_source sources ref else None) of
        None \<Rightarrow> [(at_index ''contractRefs'' i, ''CONTRACT_REF_UNBOUND'')]
      | Some s \<Rightarrow>
          concat (map (\<lambda>(j, r). if criterion_spec s (Some r) = None
              then [(at_index ''contractRefs'' i @ ''.'' @ at_index ''requirementRefs'' j, ''REQUIREMENT_REF_UNBOUND'')]
              else [])
            (entries (items_of ''requirementRefs'' ref))))"

definition IMPLEMENTATION_FACING_CALL_TYPES :: "string list" where
  "IMPLEMENTATION_FACING_CALL_TYPES = [''SOL_DIAGNOSE'', ''SOL_FINAL_REVIEW'', ''SOL_RECHECK'']"

definition authority_issues :: "json list \<Rightarrow> json \<Rightarrow> issue list" where
  "authority_issues sources doc =
     (if one_of IMPLEMENTATION_FACING_CALL_TYPES (fld ''callType'' doc)
      then concat (map (\<lambda>(i, ref).
          case (if names_source ref then bound_source sources ref else None) of
            None \<Rightarrow> []
          | Some s \<Rightarrow> (if is_lit (fld ''compileStatus'' s) ''COMPILED'' then []
                       else [(at_index ''contractRefs'' i, ''SOURCE_NOT_IMPLEMENTATION_AUTHORITATIVE'')]))
          (entries (items_of ''contractRefs'' doc)))
      else [])"

definition locked_issues :: "json \<Rightarrow> issue list" where
  "locked_issues doc =
     (if call_type doc ''SOL_FINAL_REVIEW''
      then concat (map (\<lambda>(i, inv). if is_declared doc (fld ''lockedRequirementRef'' inv) then []
          else [(at_index ''finalReview.invariantChecklist'' i @ ''.lockedRequirementRef'', ''INVARIANT_REQUIREMENT_UNBOUND'')])
          (entries (checklist (Some doc))))
      else [])"

definition neighbors :: "jsval \<Rightarrow> json list" where
  "neighbors ask = arr_or_empty (own ''neighboringInvariants'' (own ''recheck'' ask))"

definition neighbor_issues :: "json \<Rightarrow> issue list" where
  "neighbor_issues doc =
     (if call_type doc ''SOL_RECHECK''
      then concat (map (\<lambda>(i, r). if is_declared doc (Some r) then []
          else [(at_index ''recheck.neighboringInvariants'' i, ''NEIGHBOR_UNBOUND'')])
          (entries (neighbors (Some doc))))
      else [])"

definition criterion_source_issues :: "json list \<Rightarrow> json \<Rightarrow> issue list" where
  "criterion_source_issues sources doc =
     (if call_type doc ''SOL_DIAGNOSE'' \<and> plain_object (fld ''diagnose'' doc)
      then (case findCriterionSpec sources (criterion_ref (Some doc)) of
              None \<Rightarrow> [(''diagnose.acceptanceCriterionRef'', ''CRITERION_UNKNOWN_TO_SOURCE'')]
            | Some (s, spec) \<Rightarrow>
                (if own ''criterionRequirement'' (fld ''diagnose'' doc) = fld ''requirement'' spec then []
                 else [(''diagnose.criterionRequirement'', ''CRITERION_REQUIREMENT_MISMATCH'')]))
      else [])"

definition applySourceBindingRules :: "digest_fun \<Rightarrow> json \<Rightarrow> jsval \<Rightarrow> issue list" where
  "applySourceBindingRules sha doc sources =
     (let r = validateSourceSet sha sources in
      if fst r \<noteq> [] then fst r
      else concat (map (\<lambda>(i, ref). contract_ref_issues (snd r) i ref) (entries (items_of ''contractRefs'' doc)))
        @ authority_issues (snd r) doc @ locked_issues doc @ neighbor_issues doc
        @ criterion_source_issues (snd r) doc)"

section \<open>The rules together\<close>

text \<open>The rules that need no source and no prior chain.\<close>

definition intrinsic_ask_issues :: "json \<Rightarrow> issue list" where
  "intrinsic_ask_issues doc =
     ask_budget_issues doc @ evidence_fit_issues doc
     @ marker_issues (is_lit (own ''onOverflow'' (budget_of doc)) ''TRUNCATE_SUMMARIZE'') (items_of ''evidence'' doc)
     @ decision_ref_issues doc
     @ condition_issues doc ''passCondition'' ''passEvidenceRefs''
     @ condition_issues doc ''failCondition'' ''failEvidenceRefs''
     @ delta_issues doc @ block_issues doc @ shape_issues doc @ constraint_issues doc
     @ criterion_issues doc @ checklist_issues doc"

definition ask_rules :: "digest_fun \<Rightarrow> json \<Rightarrow> jsval \<Rightarrow> issue list" where
  "ask_rules sha doc sources =
     intrinsic_ask_issues doc @ (if sources = None then [] else applySourceBindingRules sha doc sources)"

end
