(* ===== verification/Sol_Response.thy ===== *)
theory Sol_Response
  imports Sol_Ask
begin

text \<open>
  The rules of a SOL response, src/src/sol/contracts/validate.mjs (\<open>applyResponseRules\<close>,
  \<open>collectModelAuthoredText\<close>): its verdict, its binding to the ask, the blocks of each call type
  and the scan of everything the model wrote for open-ended recommendations.  \<open>ask\<close> and
  \<open>sources\<close> are the options of the call, absent as \<open>None\<close>.
\<close>

section \<open>Text written by the model\<close>

definition nonempty_text :: "jsval \<Rightarrow> string list" where
  "nonempty_text v = (case v of Some (JStr s) \<Rightarrow> (if s = [] then [] else [s]) | _ \<Rightarrow> [])"

definition texts_in :: "string list \<Rightarrow> json list \<Rightarrow> string list" where
  "texts_in ks items = concat (map (\<lambda>x. concat (map (\<lambda>k. nonempty_text (fld k x)) ks)) items)"

definition repair_of :: "json \<Rightarrow> jsval" where
  "repair_of doc = own ''repair'' (fld ''failure'' doc)"

definition repair_items :: "string \<Rightarrow> json \<Rightarrow> json list" where
  "repair_items k doc = arr_or_empty (own k (repair_of doc))"

definition test_texts :: "json \<Rightarrow> string list" where
  "test_texts t =
     nonempty_text (fld ''name'' t) @ nonempty_text (fld ''command'' t)
     @ (if fld ''acceptanceCriterionRef'' t = None then nonempty_text (fld ''expectation'' t) else [])"

definition collectModelAuthoredText :: "json \<Rightarrow> string" where
  "collectModelAuthoredText doc = join_with '' ''
     (nonempty_text (fld ''decisionSummary'' doc)
      @ texts_in [''content''] (items_of ''evidence'' doc)
      @ texts_in [''summary''] (items_of ''findings'' doc)
      @ texts_in [''summary''] (items_of ''adjacentCriticalDefects'' doc)
      @ texts_in [''current'', ''exactAmendment'', ''reason''] (arr_or_empty (own ''exactAmendments'' (fld ''amendment'' doc)))
      @ nonempty_text (own ''rootCause'' (fld ''failure'' doc))
      @ nonempty_text (own ''falsification'' (fld ''failure'' doc))
      @ texts_in [''change''] (repair_items ''mustChange'' doc)
      @ texts_in [''reason''] (repair_items ''mustNotChange'' doc)
      @ concat (map test_texts (repair_items ''exactTests'' doc))
      @ texts_in [''method'', ''expectation''] (repair_items ''verification'' doc))"

text \<open>\<open>UNBOUNDED_RECOMMENDATION_PATTERNS\<close>; \<open>gap n\<close> is \<open>[^.]{0,n}\<close>.\<close>

definition gap :: "nat \<Rightarrow> regexp" where
  "gap n = Rep 0 (Some n) (Cls (\<lambda>c. c \<noteq> CHR ''.''))"

definition code_style :: regexp where
  "code_style = seqs [word_i ''code'', spaces, word_i ''style'']"

definition bounded_words :: "regexp list \<Rightarrow> regexp" where
  "bounded_words rs = seqs ([Bound] @ rs @ [Bound])"

definition UNBOUNDED_RECOMMENDATION_PATTERNS :: "regexp list" where
  "UNBOUNDED_RECOMMENDATION_PATTERNS =
     [bounded_words [words_i [''recommend'', ''suggest'', ''consider''], Bound, gap 80, Bound,
        alts [word_i ''cleanup'', word_i ''refactoring'', code_style, word_i ''cosmetic'']],
      bounded_words [alts [word_i ''cleanup'', word_i ''refactoring'', code_style], Bound, gap 80, Bound,
        words_i [''recommend'', ''suggest'', ''consider'']],
      bounded_words [alts [word_i ''perform'', word_i ''do'', seqs [word_i ''carry'', spaces, word_i ''out''],
          word_i ''execute''], Bound, gap 60, Bound, words_i [''cleanup'', ''refactoring'']],
      bounded_words [words_i [''general'', ''generic'', ''broad'', ''open-ended''], spaces,
        words_i [''cleanup'', ''refactoring'']]]"

definition recommendation_issues :: "json \<Rightarrow> issue list" where
  "recommendation_issues doc =
     (if list_ex (\<lambda>re. re_test re (collectModelAuthoredText doc)) UNBOUNDED_RECOMMENDATION_PATTERNS
      then [(''decisionSummary'', ''UNBOUNDED_RECOMMENDATION'')] else [])"

section \<open>Rules for every response\<close>

definition verdict_issues :: "json \<Rightarrow> issue list" where
  "verdict_issues doc =
     (if one_of (verdicts_of (fld ''callType'' doc)) (fld ''verdict'' doc) then []
      else [(''verdict'', ''VERDICT_NOT_IN_VOCABULARY'')])"

definition ask_binding_issues :: "jsval \<Rightarrow> json \<Rightarrow> issue list" where
  "ask_binding_issues ask doc =
     (if ask = None then []
      else (if own ''askId'' ask = fld ''askId'' doc then [] else [(''askId'', ''ASK_ID_MISMATCH'')])
        @ (if own ''callType'' ask = fld ''callType'' doc then [] else [(''callType'', ''CALL_TYPE_MISMATCH'')]))"

definition block_pairing_issues :: "json \<Rightarrow> issue list" where
  "block_pairing_issues doc =
     concat (map (\<lambda>(b, t). if fld b doc \<noteq> None \<and> \<not> call_type doc t then [(b, ''TYPE_BLOCK_MISMATCH'')] else [])
       [(''amendment'', ''SOL_CONTRACT_CHECK''), (''failure'', ''SOL_DIAGNOSE''),
        (''adjacentCriticalDefects'', ''SOL_FINAL_REVIEW'')])
     @ (if call_type doc ''SOL_CONTRACT_CHECK'' \<and> items_of ''findings'' doc \<noteq> []
        then [(''findings'', ''FINDINGS_NOT_ALLOWED'')] else [])"

definition response_budget :: "jsval \<Rightarrow> jsval" where
  "response_budget ask =
     (if plain_object (own ''evidenceBudget'' ask) then own ''evidenceBudget'' ask else Some DEFAULT_EVIDENCE_BUDGET)"

definition response_fit_issues :: "jsval \<Rightarrow> json \<Rightarrow> issue list" where
  "response_fit_issues ask doc =
     (if over_budget (response_budget ask) (items_of ''evidence'' doc)
      then [(''evidence'', ''RESPONSE_EVIDENCE_BUDGET_EXCEEDED'')] else [])"

text \<open>References into the evidence of the response or, when there is one, of the ask.\<close>

definition known_ref :: "jsval \<Rightarrow> json \<Rightarrow> json \<Rightarrow> bool" where
  "known_ref ask doc r \<longleftrightarrow> is_ref_of (Some doc) r \<or> is_ref_of ask r"

section \<open>Contract check\<close>

definition contract_check_issues :: "jsval \<Rightarrow> json \<Rightarrow> issue list" where
  "contract_check_issues ask doc =
     (if is_lit (fld ''verdict'' doc) ''SUFFICIENTLY_SPECIFIED'' \<and> fld ''amendment'' doc \<noteq> None
      then [(''amendment'', ''CONTRACT_CHECK_AMENDMENT_MISMATCH'')] else [])
     @ (if is_lit (fld ''verdict'' doc) ''AMENDMENTS_REQUIRED'' \<and> fld ''amendment'' doc = None
        then [(''amendment'', ''CONTRACT_CHECK_AMENDMENT_MISMATCH'')] else [])
     @ (if ask = None then []
        else concat (map (\<lambda>(i, a).
            if fld ''contractKey'' a \<in> set (map (fld ''contractKey'') (arr_or_empty (own ''contractRefs'' ask))) then []
            else [(at_index ''amendment.exactAmendments'' i @ ''.contractKey'', ''AMENDMENT_CONTRACT_UNKNOWN'')])
            (entries (arr_or_empty (own ''exactAmendments'' (fld ''amendment'' doc))))))"

section \<open>Diagnose\<close>

definition diagnose_shape_issues :: "jsval \<Rightarrow> json \<Rightarrow> issue list" where
  "diagnose_shape_issues ask doc =
     (if is_lit (fld ''verdict'' doc) ''CAUSE_IDENTIFIED'' \<and> fld ''failure'' doc = None
      then [(''failure'', ''DIAGNOSE_FAILURE_MISMATCH'')] else [])
     @ (if is_lit (fld ''verdict'' doc) ''CAUSE_UNRESOLVED'' \<and> fld ''failure'' doc \<noteq> None
        then [(''failure'', ''DIAGNOSE_FAILURE_MISMATCH'')] else [])
     @ (if 1 < length (items_of ''findings'' doc) then [(''findings'', ''DIAGNOSE_FINDING_SCOPE'')] else [])
     @ (case items_of ''findings'' doc of
          [f] \<Rightarrow> (if ask \<noteq> None \<and> fld ''invariantRef'' f \<noteq> criterion_ref ask
                  then [(''findings[0].invariantRef'', ''DIAGNOSE_FINDING_SCOPE'')] else [])
        | _ \<Rightarrow> [])"

text \<open>The bounds of the ask on a repair: the criterion of its tests, its targets.\<close>

definition repair_bound_issues :: "jsval \<Rightarrow> json \<Rightarrow> issue list" where
  "repair_bound_issues ask doc =
     (let limits = own ''repairConstraints'' ask in
      concat (map (\<lambda>(i, t).
          if fld ''acceptanceCriterionRef'' t \<noteq> None \<and> fld ''acceptanceCriterionRef'' t \<noteq> criterion_ref ask
          then [(at_index ''failure.repair.exactTests'' i @ ''.acceptanceCriterionRef'', ''TEST_CRITERION_UNKNOWN'')]
          else []) (entries (repair_items ''exactTests'' doc)))
      @ (if exceeds (length (repair_items ''mustChange'' doc)) (own ''maxMustChangeTargets'' limits)
         then [(''failure.repair.mustChange'', ''FAILURE_TARGET_COUNT_EXCEEDED'')] else [])
      @ (if is_true (own ''mustNotChangeRequired'' limits) \<and> repair_items ''mustNotChange'' doc = []
         then [(''failure.repair.mustNotChange'', ''FAILURE_MUST_NOT_CHANGE_MISSING'')] else []))"

text \<open>The bounds of the diagnosed criterion's specification in the sources.\<close>

definition repair_scope_issues :: "jsval \<Rightarrow> json \<Rightarrow> json \<Rightarrow> issue list" where
  "repair_scope_issues ask spec doc =
     concat (map (\<lambda>(i, m). if fld ''target'' m = fld ''scope'' spec then []
        else [(at_index ''failure.repair.mustChange'' i @ ''.target'', ''FAILURE_SCOPE_UNBOUNDED'')])
        (entries (repair_items ''mustChange'' doc)))
     @ concat (map (\<lambda>(i, t).
        if fld ''acceptanceCriterionRef'' t = criterion_ref ask \<and> fld ''expectation'' t \<noteq> fld ''requirement'' spec
        then [(at_index ''failure.repair.exactTests'' i @ ''.expectation'', ''TEST_EXPECTATION_MISMATCH'')] else [])
        (entries (repair_items ''exactTests'' doc)))"

definition failure_issues :: "jsval \<Rightarrow> jsval \<Rightarrow> json \<Rightarrow> issue list" where
  "failure_issues ask sources doc =
     ref_issues ''failure.evidenceRefs'' ''FAILURE_EVIDENCE_UNRESOLVED'' (known_ref ask doc)
       (arr_or_empty (own ''evidenceRefs'' (fld ''failure'' doc)))
     @ (if ask = None then [] else repair_bound_issues ask doc)
     @ (if ask = None \<or> sources = None then []
        else case findCriterionSpec (arr_or_empty sources) (criterion_ref ask) of
               None \<Rightarrow> []
             | Some (s, spec) \<Rightarrow> repair_scope_issues ask spec doc)"

definition diagnose_issues :: "jsval \<Rightarrow> jsval \<Rightarrow> json \<Rightarrow> issue list" where
  "diagnose_issues ask sources doc =
     diagnose_shape_issues ask doc @ (if fld ''failure'' doc = None then [] else failure_issues ask sources doc)"

section \<open>Final review\<close>

definition final_shape_issues :: "json \<Rightarrow> issue list" where
  "final_shape_issues doc =
     (let findings = items_of ''findings'' doc; adjacent = items_of ''adjacentCriticalDefects'' doc;
          pass = is_lit (fld ''verdict'' doc) ''PASS''; failed = is_lit (fld ''verdict'' doc) ''FAIL'' in
      (if pass \<and> findings \<noteq> [] then [(''findings'', ''FINAL_REVIEW_PASS_WITH_FINDINGS'')] else [])
      @ (if failed \<and> findings = [] then [(''findings'', ''FINAL_REVIEW_FAIL_WITHOUT_FINDINGS'')] else [])
      @ (if failed \<and> \<not> list_ex (\<lambda>f. is_lit (fld ''severity'' f) ''CRITICAL'') findings \<and> adjacent = []
         then [(''findings'', ''FINAL_REVIEW_FAIL_WITHOUT_CRITICAL'')] else [])
      @ (if pass \<and> adjacent \<noteq> [] then [(''adjacentCriticalDefects'', ''FINAL_REVIEW_ADJACENT_WITHOUT_FAIL'')] else [])
      @ (if MAX_ADJACENT_CRITICAL_DEFECTS < length adjacent
         then [(''adjacentCriticalDefects'', ''FINAL_REVIEW_ADJACENT_WITHOUT_FAIL'')] else []))"

definition invariant_issues :: "jsval \<Rightarrow> json \<Rightarrow> issue list" where
  "invariant_issues ask doc =
     (if ask = None \<or> \<not> plain_object (own ''finalReview'' ask) then []
      else concat (map (\<lambda>(i, f).
          if fld ''invariantRef'' f \<in> set (map (fld ''invariantId'') (checklist ask)) then []
          else [(at_index ''findings'' i @ ''.invariantRef'', ''FINAL_REVIEW_UNKNOWN_INVARIANT'')])
          (entries (items_of ''findings'' doc))))"

definition finding_ref_issues :: "string \<Rightarrow> (json \<Rightarrow> bool) \<Rightarrow> nat \<Rightarrow> json \<Rightarrow> issue list" where
  "finding_ref_issues code known i f =
     ref_issues (at_index ''findings'' i @ ''.evidenceRefs'') code known (items_of ''evidenceRefs'' f)"

definition adjacent_issues :: "jsval \<Rightarrow> json \<Rightarrow> nat \<Rightarrow> json \<Rightarrow> issue list" where
  "adjacent_issues ask doc i a =
     ref_issues (at_index ''adjacentCriticalDefects'' i @ ''.evidenceRefs'') ''ADJACENT_EVIDENCE_UNRESOLVED''
       (known_ref ask doc) (items_of ''evidenceRefs'' a)
     @ (case ask of
          None \<Rightarrow> []
        | Some askdoc \<Rightarrow>
            (if is_declared askdoc (fld ''lockedRequirementRef'' a) then []
             else [(at_index ''adjacentCriticalDefects'' i @ ''.lockedRequirementRef'', ''ADJACENT_REQUIREMENT_UNBOUND'')]))"

definition final_review_issues :: "jsval \<Rightarrow> json \<Rightarrow> issue list" where
  "final_review_issues ask doc =
     final_shape_issues doc @ invariant_issues ask doc
     @ concat (map (\<lambda>(i, f). finding_ref_issues ''FINDING_EVIDENCE_UNRESOLVED'' (known_ref ask doc) i f)
         (entries (items_of ''findings'' doc)))
     @ concat (map (\<lambda>(i, a). adjacent_issues ask doc i a) (entries (items_of ''adjacentCriticalDefects'' doc)))"

section \<open>Recheck\<close>

definition recheck_shape_issues :: "json \<Rightarrow> issue list" where
  "recheck_shape_issues doc =
     (if items_of ''evidence'' doc \<noteq> [] then [(''evidence'', ''RECHECK_RESPONSE_EVIDENCE_FORBIDDEN'')] else [])
     @ (if is_lit (fld ''verdict'' doc) ''RESOLVED'' \<and> items_of ''findings'' doc \<noteq> []
        then [(''findings'', ''RECHECK_RESOLVED_WITH_FINDINGS'')] else [])
     @ (if is_lit (fld ''verdict'' doc) ''NOT_RESOLVED'' \<and> items_of ''findings'' doc = []
        then [(''findings'', ''RECHECK_UNRESOLVED_WITHOUT_FINDINGS'')] else [])"

definition recheck_allowed :: "jsval \<Rightarrow> jsval \<Rightarrow> bool" where
  "recheck_allowed ask r \<longleftrightarrow>
     r = own ''priorFindingRef'' (own ''recheck'' ask) \<or> (\<exists>x \<in> set (neighbors ask). r = Some x)"

definition recheck_finding_issues :: "jsval \<Rightarrow> nat \<Rightarrow> json \<Rightarrow> issue list" where
  "recheck_finding_issues ask i f =
     (if recheck_allowed ask (fld ''invariantRef'' f) then []
      else [(at_index ''findings'' i @ ''.invariantRef'', ''RECHECK_REOPEN'')])
     @ finding_ref_issues ''RECHECK_EVIDENCE_UNRESOLVED'' (is_ref_of ask) i f"

definition recheck_issues :: "jsval \<Rightarrow> json \<Rightarrow> issue list" where
  "recheck_issues ask doc =
     recheck_shape_issues doc
     @ (if ask \<noteq> None \<and> plain_object (own ''recheck'' ask)
        then concat (map (\<lambda>(i, f). recheck_finding_issues ask i f) (entries (items_of ''findings'' doc))) else [])"

section \<open>The rules together\<close>

definition type_issues :: "jsval \<Rightarrow> jsval \<Rightarrow> json \<Rightarrow> issue list" where
  "type_issues ask sources doc =
     (if call_type doc ''SOL_CONTRACT_CHECK'' then contract_check_issues ask doc
      else if call_type doc ''SOL_DIAGNOSE'' then diagnose_issues ask sources doc
      else if call_type doc ''SOL_FINAL_REVIEW'' then final_review_issues ask doc
      else if call_type doc ''SOL_RECHECK'' then recheck_issues ask doc
      else [])"

definition applyResponseRules :: "json \<Rightarrow> jsval \<Rightarrow> jsval \<Rightarrow> issue list" where
  "applyResponseRules doc ask sources =
     verdict_issues doc
     @ (if ask \<noteq> None \<and> \<not> plain_object ask then [(''askId'', ''ASK_ID_MISMATCH'')]
        else ask_binding_issues ask doc @ block_pairing_issues doc @ response_fit_issues ask doc
          @ marker_issues True (items_of ''evidence'' doc) @ recommendation_issues doc
          @ type_issues ask sources doc)"

definition validateSolResponse :: "json \<Rightarrow> jsval \<Rightarrow> jsval \<Rightarrow> issue list result" where
  "validateSolResponse doc ask sources =
     rbind (validate_against_schema lcim_regexps doc SOL_RESPONSE_SCHEMA) (\<lambda>errs.
       Inr (if errs = [] then applyResponseRules doc ask sources else errs))"

end
