(* ===== verification/Sol_Validate.thy ===== *)
theory Sol_Validate
  imports Sol_Response
begin

text \<open>
  The validators of src/src/sol/contracts/validate.mjs as callers see them: asks with sources and
  the provenance of a recheck, the resolution of a diagnosed criterion to its source, and repair
  tickets.
\<close>

section \<open>Asks\<close>

definition schema_then :: "json \<Rightarrow> json \<Rightarrow> issue list result \<Rightarrow> issue list result" where
  "schema_then schema doc rules =
     rbind (validate_against_schema lcim_regexps doc schema) (\<lambda>errs. if errs = [] then rules else Inr errs)"

text \<open>\<open>validateSolAsk(doc)\<close> without options.\<close>

definition validate_ask_alone :: "json \<Rightarrow> issue list result" where
  "validate_ask_alone doc = schema_then SOL_ASK_SCHEMA doc (Inr (intrinsic_ask_issues doc))"

text \<open>
  The record a prior finding reference resolves to: a finding of the response, or an adjacent
  critical defect by its derived identity.
\<close>

definition prior_finding :: "digest_fun \<Rightarrow> json \<Rightarrow> jsval \<Rightarrow> json option" where
  "prior_finding sha response ref =
     (case List.find (\<lambda>f. fld ''findingId'' f = ref) (items_of ''findings'' response) of
        Some f \<Rightarrow> Some f
      | None \<Rightarrow> List.find (\<lambda>d. is_lit ref (adjacentDefectFindingId sha d)) (items_of ''adjacentCriticalDefects'' response))"

definition frozen_issues_of :: "digest_fun \<Rightarrow> json \<Rightarrow> json \<Rightarrow> json \<Rightarrow> issue list" where
  "frozen_issues_of sha doc ask response =
     (let recheck = fld ''recheck'' doc in
      (if own ''priorAskId'' recheck = fld ''askId'' ask \<and> own ''priorResponseId'' recheck = fld ''responseId'' response
       then [] else [(''recheck.priorAskId'', ''PRIOR_CHAIN_INVALID'')])
      @ (case prior_finding sha response (own ''priorFindingRef'' recheck) of
           None \<Rightarrow> [(''recheck.priorFindingRef'', ''PRIOR_FINDING_UNKNOWN'')]
         | Some f \<Rightarrow>
             (if is_lit (own ''priorFindingDigest'' recheck) (content_digest sha f) then []
              else [(''recheck.priorFindingDigest'', ''PRIOR_FINDING_DIGEST_MISMATCH'')])))"

definition applyPriorProvenanceRules :: "digest_fun \<Rightarrow> json \<Rightarrow> jsval \<Rightarrow> issue list result" where
  "applyPriorProvenanceRules sha doc prior =
     (case (own ''ask'' prior, own ''response'' prior) of
        (Some (JObj a), Some (JObj r)) \<Rightarrow>
          rbind (validate_ask_alone (JObj a)) (\<lambda>askIssues.
          if askIssues \<noteq> [] then Inr [(''recheck.priorAskId'', ''PRIOR_CHAIN_INVALID'')]
          else
            rbind (validateSolResponse (JObj r) (Some (JObj a)) None) (\<lambda>chainIssues.
            if chainIssues \<noteq> [] then Inr [(''recheck.priorFindingRef'', ''PRIOR_CHAIN_INVALID'')]
            else Inr (frozen_issues_of sha doc (JObj a) (JObj r))))
      | _ \<Rightarrow> Inr [(''recheck.priorFindingRef'', ''PRIOR_CHAIN_INVALID'')])"

definition applyAskRules :: "digest_fun \<Rightarrow> json \<Rightarrow> jsval \<Rightarrow> jsval \<Rightarrow> issue list result" where
  "applyAskRules sha doc sources prior =
     (let es = ask_rules sha doc sources in
      if call_type doc ''SOL_RECHECK'' \<and> prior \<noteq> None
      then rbind (applyPriorProvenanceRules sha doc prior) (\<lambda>ps. Inr (es @ ps))
      else Inr es)"

definition validateSolAsk :: "digest_fun \<Rightarrow> json \<Rightarrow> jsval \<Rightarrow> jsval \<Rightarrow> issue list result" where
  "validateSolAsk sha doc sources prior = schema_then SOL_ASK_SCHEMA doc (applyAskRules sha doc sources prior)"

section \<open>The source of a diagnosed criterion\<close>

text \<open>\<open>resolveCriterionBinding\<close>: the contract reference, the source and the specification, or the code.\<close>

definition claiming_refs :: "json \<Rightarrow> json \<Rightarrow> json list" where
  "claiming_refs ask criterion = filter (\<lambda>r. criterion \<in> set (items_of ''requirementRefs'' r)) (items_of ''contractRefs'' ask)"

definition resolveCriterionBinding :: "json \<Rightarrow> json list \<Rightarrow> string + (json \<times> json \<times> json)" where
  "resolveCriterionBinding ask sources =
     (case criterion_ref (Some ask) of
        Some (JStr c) \<Rightarrow>
          (case claiming_refs ask (JStr c) of
             [] \<Rightarrow> Inl ''CRITERION_BINDING_MISSING''
           | [b] \<Rightarrow>
               (case List.find (\<lambda>s. fld ''contractKey'' s = fld ''contractKey'' b
                       \<and> fld ''semanticDigest'' s = fld ''semanticDigest'' b) sources of
                  None \<Rightarrow> Inl ''SOURCE_BINDING_MISSING''
                | Some s \<Rightarrow>
                    (case criterion_spec s (Some (JStr c)) of
                       None \<Rightarrow> Inl ''CRITERION_UNKNOWN_TO_SOURCE''
                     | Some spec \<Rightarrow> Inr (b, s, spec)))
           | _ \<Rightarrow> Inl ''AMBIGUOUS_CRITERION_BINDING'')
      | _ \<Rightarrow> Inl ''CRITERION_BINDING_MISSING'')"

section \<open>Repair tickets\<close>

definition ticket_issues :: "json \<Rightarrow> jsval \<Rightarrow> jsval \<Rightarrow> issue list" where
  "ticket_issues doc ask response =
     (if fld ''ticketId'' doc = fld ''repairId'' doc then [] else [(''ticketId'', ''TICKET_ID_MISMATCH'')])
     @ (if (ask \<noteq> None \<or> response \<noteq> None)
           \<and> \<not> (plain_object ask \<and> own ''askId'' ask = fld ''sourceAskId'' doc
                \<and> plain_object response \<and> own ''responseId'' response = fld ''sourceResponseId'' doc)
        then [(''sourceAskId'', ''TICKET_SOURCE_MISMATCH'')] else [])"

definition validateRepairTicket :: "json \<Rightarrow> jsval \<Rightarrow> jsval \<Rightarrow> issue list result" where
  "validateRepairTicket doc ask response =
     schema_then REPAIR_TICKET_SCHEMA doc (Inr (ticket_issues doc ask response))"

end
