(* ===== verification/Sol_Preflight.thy ===== *)
theory Sol_Preflight
  imports Sol_Types
begin

text \<open>
  The preflight of a raw SOL request, src/src/sol/ask-compiler/preflight.mjs: which questions are
  refused before an ask is compiled.  A rejection is its code; the pattern that matched, which the
  source reports beside it, is left out.
\<close>

section \<open>Patterns\<close>

text \<open>Words separated by white space, between word boundaries, in any letter case.\<close>

definition phrase :: "regexp list \<Rightarrow> regexp" where
  "phrase rs = seqs ([Bound] @ rs @ [Bound])"

fun spaced :: "regexp list \<Rightarrow> regexp list" where
  "spaced [] = []"
| "spaced [r] = [r]"
| "spaced (r # rs) = r # spaces # spaced rs"

definition optional_word :: "string \<Rightarrow> regexp" where
  "optional_word s = opt (seqs [word_i s, spaces])"

definition trouble :: regexp where
  "trouble = words_i [''issues'', ''problems'', ''bugs'', ''defects'']"

definition GENERIC_ASK_PATTERNS :: "regexp list" where
  "GENERIC_ASK_PATTERNS =
     [phrase (spaced [word_i ''review'', word_i ''this'']),
      phrase (spaced [word_i ''review'', word_i ''the'', words_i [''entire'', ''whole'', ''full'', ''complete'', ''all''],
        words_i [''repo'', ''repository'', ''codebase'', ''project'', ''code'', ''task'', ''sprint'', ''module'']]),
      phrase (spaced [word_i ''review'', word_i ''everything'']),
      phrase (spaced [word_i ''look'', word_i ''for'', word_i ''bugs'']),
      phrase [word_i ''find'', spaces, optional_word ''all'', words_i [''bugs'', ''issues'', ''problems'', ''defects'']],
      phrase (spaced [word_i ''diagnose'', word_i ''everything'']),
      phrase (spaced [word_i ''general'', word_i ''review'']),
      phrase (spaced [word_i ''overall'', alts [word_i ''quality'', word_i ''health'', seqs [word_i ''code'', spaces,
        word_i ''quality'']]]),
      phrase (spaced [word_i ''any'', word_i ''other'', trouble]),
      phrase (spaced [word_i ''are'', word_i ''there'', word_i ''any'', trouble])]"

definition BUNDLED_CONCERN_WORDS :: "string list" where
  "BUNDLED_CONCERN_WORDS = [''architecture'', ''implementation'', ''testing'', ''cleanup'', ''refactoring'']"

definition asking :: regexp where
  "asking = alts [word_i ''whether'', seqs [word_i ''is'', spaces, word_i ''it''], seqs [word_i ''does'', spaces,
    word_i ''it''],
     seqs [word_i ''should'', spaces, word_i ''it''], seqs [word_i ''can'', spaces, word_i ''it'']]"

definition CONJUNCTIVE_QUESTION_PATTERNS :: "regexp list" where
  "CONJUNCTIVE_QUESTION_PATTERNS =
     [phrase (spaced [word_i ''and'', word_i ''whether'']),
      phrase (spaced [words_i [''and'', ''&''],
        words_i [''is'', ''are'', ''does'', ''do'', ''should'', ''can'', ''must'', ''will'']]),
      phrase [asking, Bound, Rep 0 (Some 160) (Cls (\<lambda>c. c \<noteq> CHR ''?'')), Bound, asking]]"

definition EDIT_REQUEST_PATTERNS :: "regexp list" where
  "EDIT_REQUEST_PATTERNS =
     [phrase [words_i [''edit'', ''modify'', ''rewrite'', ''implement'', ''write'', ''create'', ''update'', ''change'',
          ''fix'', ''apply''], spaces, optional_word ''the'',
        words_i [''code'', ''file'', ''files'', ''function'', ''method'', ''class'', ''module'', ''repo'', ''repository'',
          ''patch'', ''implementation'', ''source'']],
      phrase (spaced [word_i ''apply'', words_i [''this'', ''the''], word_i ''patch'']),
      phrase [words_i [''implement'', ''write'', ''create'', ''make''], spaces, optional_word ''the'',
        words_i [''fix'', ''solution'', ''change'', ''changes'', ''edit'', ''edits'', ''repair'']],
      phrase [word_i ''make'', spaces, optional_word ''the'', words_i [''code'', ''file'', ''files'', ''implementation'']]]"

definition DECISION_CLAUSE_STARTER :: regexp where
  "DECISION_CLAUSE_STARTER =
     alts [seqs [Begin, Rep 0 None (Cls trim_char),
         words_i [''whether'', ''is'', ''are'', ''does'', ''do'', ''should'', ''can'', ''could'', ''must'', ''will'',
           ''would'', ''may''], Bound],
       seqs [Begin, Rep 0 None (Cls trim_char), words_i [''why'', ''how'', ''what'', ''when'', ''where'', ''who''], spaces,
         words_i [''is'', ''are'', ''does'', ''do'', ''did'', ''was'', ''were'', ''should'', ''can'', ''could'', ''must'',
           ''will'', ''would'', ''have'', ''has'', ''had''], Bound]]"

text \<open>Single spaces inside a phrase are literal here.\<close>

definition CALL_TYPE_QUESTION_DOMAINS :: "(string \<times> regexp list) list" where
  "CALL_TYPE_QUESTION_DOMAINS =
     [(''SOL_CONTRACT_CHECK'', [phrase [word_i ''sufficiently specified''], phrase [word_i ''exact semantics''],
         phrase [word_i ''semantics''], phrase [word_i ''specified''], phrase [word_i ''unambiguous'']]),
      (''SOL_DIAGNOSE'', [phrase [word_i ''why''], phrase [word_i ''root cause'']]),
      (''SOL_FINAL_REVIEW'', [seqs [Bound, word_i ''invariant''], phrase [word_i ''checklist''],
        phrase [word_i ''final review'']]),
      (''SOL_RECHECK'', [seqs [Bound, word_i ''finding''], phrase [word_i ''resolved''], phrase [word_i ''recheck''],
         phrase [word_i ''delta'']])]"

section \<open>Detection\<close>

definition matches_any :: "regexp list \<Rightarrow> string \<Rightarrow> bool" where
  "matches_any rs s \<longleftrightarrow> list_ex (\<lambda>r. re_test r s) rs"

definition countQuestionMarks :: "string \<Rightarrow> nat" where
  "countQuestionMarks s = length (filter (\<lambda>c. c = CHR ''?'') s)"

fun isSingleQuestion :: "jsval \<Rightarrow> bool" where
  "isSingleQuestion (Some (JStr s)) \<longleftrightarrow> countQuestionMarks s = 1"
| "isSingleQuestion _ \<longleftrightarrow> False"

text \<open>The separators below 256; splitting at a run of them leaves empty clauses, which are dropped.\<close>

definition clause_separator :: "char \<Rightarrow> bool" where
  "clause_separator c \<longleftrightarrow> c = CHR '';'' \<or> c = CHR 0x0A \<or> c = CHR 0x0D"

fun split_at :: "(char \<Rightarrow> bool) \<Rightarrow> string \<Rightarrow> string list" where
  "split_at P [] = [[]]"
| "split_at P (c # cs) =
     (let rest = split_at P cs in if P c then [] # rest else (c # hd rest) # tl rest)"

fun splitDecisionClauses :: "jsval \<Rightarrow> string list" where
  "splitDecisionClauses (Some (JStr q)) = filter (\<lambda>c. c \<noteq> []) (map js_trim (split_at clause_separator q))"
| "splitDecisionClauses _ = []"

definition isDecisionClause :: "string \<Rightarrow> bool" where
  "isDecisionClause c \<longleftrightarrow> re_test DECISION_CLAUSE_STARTER c"

fun detectGenericAsk :: "jsval \<Rightarrow> string option" where
  "detectGenericAsk (Some (JStr s)) = (if matches_any GENERIC_ASK_PATTERNS s then Some ''GENERIC_ASK'' else None)"
| "detectGenericAsk _ = None"

definition concerns :: "string \<Rightarrow> string list" where
  "concerns q = filter (\<lambda>c. re_test (phrase [word_i c]) q) BUNDLED_CONCERN_WORDS"

fun detectMultipleQuestions :: "jsval \<Rightarrow> string option" where
  "detectMultipleQuestions (Some (JStr q)) =
     (if countQuestionMarks q = 0 then Some ''MULTIPLE_QUESTIONS''
      else if 1 < countQuestionMarks q then Some ''MULTIPLE_QUESTIONS''
      else if matches_any CONJUNCTIVE_QUESTION_PATTERNS q then Some ''MULTIPLE_QUESTIONS''
      else if 1 < length (filter isDecisionClause (splitDecisionClauses (Some (JStr q)))) then Some ''MULTIPLE_QUESTIONS''
      else if 2 \<le> length (concerns q) then Some ''BUNDLED_CONCERNS''
      else None)"
| "detectMultipleQuestions _ = Some ''MULTIPLE_QUESTIONS''"

definition crossed_domains :: "string \<Rightarrow> string \<Rightarrow> string list" where
  "crossed_domains q t =
     map fst (filter (\<lambda>(n, anchors). n \<noteq> t \<and> matches_any anchors q) CALL_TYPE_QUESTION_DOMAINS)"

fun detectCrossDomainQuestion :: "jsval \<Rightarrow> jsval \<Rightarrow> string option" where
  "detectCrossDomainQuestion (Some (JStr q)) (Some (JStr t)) =
     (case map_of CALL_TYPE_QUESTION_DOMAINS t of
        None \<Rightarrow> None
      | Some anchors \<Rightarrow>
          (if matches_any anchors q \<and> crossed_domains q t \<noteq> [] then Some ''CROSS_DOMAIN_QUESTION'' else None))"
| "detectCrossDomainQuestion _ _ = None"

fun detectEditRequest :: "jsval \<Rightarrow> string option" where
  "detectEditRequest (Some (JStr s)) = (if matches_any EDIT_REQUEST_PATTERNS s then Some ''EDIT_REQUEST'' else None)"
| "detectEditRequest _ = None"

text \<open>The text the generic and edit patterns scan; an absent \<open>whyNeeded\<close> is the empty string.\<close>

definition preflight_context :: "jsval \<Rightarrow> string \<Rightarrow> jsval \<Rightarrow> string" where
  "preflight_context why question scope =
     (if why = None then [] else js_string why) @ '' '' @ question @ '' ''
     @ (case scope of Some (JArr xs) \<Rightarrow> join_with '' '' (map js_string_elem xs) | _ \<Rightarrow> [])"

fun first_hit :: "'a option list \<Rightarrow> 'a option" where
  "first_hit [] = None"
| "first_hit (x # xs) = (case x of Some v \<Rightarrow> Some v | None \<Rightarrow> first_hit xs)"

text \<open>\<open>None\<close> is \<open>valid: true\<close>, otherwise the code of the rejection.\<close>

definition preflightSolRequest :: "jsval \<Rightarrow> jsval \<Rightarrow> jsval \<Rightarrow> jsval \<Rightarrow> string option" where
  "preflightSolRequest decisionQuestion why scope callType =
     (let question = (case decisionQuestion of Some (JStr q) \<Rightarrow> q | _ \<Rightarrow> []);
          context_text = Some (JStr (preflight_context why question scope)) in
      first_hit
        [detectGenericAsk context_text, detectEditRequest context_text,
         detectMultipleQuestions (Some (JStr question)),
         detectCrossDomainQuestion (Some (JStr question)) callType])"

end
