(* ===== verification/Sol_Budget.thy ===== *)
theory Sol_Budget
  imports Sol_Types Json_Unique "HOL-Library.Sublist"
begin

text \<open>
  The evidence budget applied when an ask or a response is compiled,
  src/src/sol/ask-compiler/evidence-budget.mjs: what fits is kept in its order, what a decision rests
  on is never dropped, and a truncation is recorded by a marker at the end; and what this promises.
\<close>

section \<open>The loop\<close>

definition fits :: "int \<Rightarrow> int \<Rightarrow> json list \<Rightarrow> nat \<Rightarrow> json \<Rightarrow> bool" where
  "fits maxItems maxBytes kept bytes item \<longleftrightarrow>
     int (length kept) + 1 \<le> maxItems \<and> int (bytes + evidenceItemBytes item) \<le> maxBytes"

definition required_item :: "jsval list \<Rightarrow> json \<Rightarrow> bool" where
  "required_item protected_refs item \<longleftrightarrow>
     is_true (fld ''decisionCritical'' item) \<or> fld ''ref'' item \<in> set protected_refs"

definition exhausted :: "'a result" where
  "exhausted = Inl (SolAskError ''BUDGET_EXHAUSTED'' [])"

fun fit_loop :: "int \<Rightarrow> int \<Rightarrow> jsval list \<Rightarrow> json list \<Rightarrow> nat \<Rightarrow> json list \<Rightarrow> (json list \<times> nat) result" where
  "fit_loop mi mb prot kept bytes [] = Inr (kept, bytes)"
| "fit_loop mi mb prot kept bytes (x # xs) =
     (if fits mi mb kept bytes x then fit_loop mi mb prot (kept @ [x]) (bytes + evidenceItemBytes x) xs
      else if x = JNull then Inl TypeError
      else if required_item prot x then exhausted
      else fit_loop mi mb prot kept bytes xs)"

section \<open>The marker\<close>

definition marker_text :: "nat \<Rightarrow> nat \<Rightarrow> nat \<Rightarrow> nat \<Rightarrow> string" where
  "marker_text kept given bytes measured =
     ''truncated: kept '' @ nat_str kept @ '' of '' @ nat_str given @ '' evidence items ('' @ nat_str bytes
     @ '' of '' @ nat_str measured
     @ '' bytes); dropped items were non-decision-critical and are summarized, never broadened''"

definition truncation_marker :: "nat \<Rightarrow> nat \<Rightarrow> nat \<Rightarrow> nat \<Rightarrow> json" where
  "truncation_marker kept given bytes measured =
     JObj [(''ref'', JStr TRUNCATION_MARKER_REF), (''kind'', JStr TRUNCATION_MARKER_KIND),
       (''content'', JStr (marker_text kept given bytes measured))]"

section \<open>applyEvidenceBudget\<close>

text \<open>Numbers of a budget that has passed \<open>assertEvidenceBudget\<close>.\<close>

definition budget_int :: "string \<Rightarrow> jsval \<Rightarrow> int" where
  "budget_int k b = (case own k b of Some (JInt n) \<Rightarrow> n | _ \<Rightarrow> 0)"

definition truncate_evidence :: "json list \<Rightarrow> int \<Rightarrow> int \<Rightarrow> jsval list \<Rightarrow> json list result" where
  "truncate_evidence items maxItems maxBytes prot =
     (let mi = maxItems - 1; mb = maxBytes - int TRUNCATION_MARKER_BYTES in
      if mi < 1 \<or> mb < 1 then exhausted
      else rbind (fit_loop mi mb prot [] 0 items) (\<lambda>(kept, bytes).
        if maxItems < int (length kept) + 1 \<or> maxBytes < int (bytes + TRUNCATION_MARKER_BYTES) then exhausted
        else Inr (kept @ [truncation_marker (length kept) (length items) bytes (evidence_bytes items)])))"

definition applyEvidenceBudget :: "jsval \<Rightarrow> jsval \<Rightarrow> jsval list \<Rightarrow> (json list \<times> bool) result" where
  "applyEvidenceBudget evidence budget prot =
     rbind (assertEvidenceBudget budget) (\<lambda>_.
     let items = map deep_clone_json (arr_or_empty evidence);
         mi = budget_int ''maxItems'' budget; mb = budget_int ''maxBytes'' budget in
     rbind (each (\<lambda>x. need (measurable x) TypeError) items) (\<lambda>_.
     if int (length items) \<le> mi \<and> int (evidence_bytes items) \<le> mb then Inr (items, False)
     else if is_lit (own ''onOverflow'' budget) ''FAIL_CLOSED'' then exhausted
     else rbind (truncate_evidence items mi mb prot) (\<lambda>r. Inr (r, True))))"


text \<open>
  What the application of an evidence budget promises: order, no loss of required evidence, the
  bounds; and where the fixed allowance for the marker is too small.
\<close>

section \<open>The loop\<close>

lemma evidence_bytes_append [simp]: "evidence_bytes (xs @ ys) = evidence_bytes xs + evidence_bytes ys"
  by (simp add: evidence_bytes_def)

lemma evidence_bytes_simps [simp]:
  "evidence_bytes [] = 0" "evidence_bytes (x # xs) = evidenceItemBytes x + evidence_bytes xs"
  by (simp_all add: evidence_bytes_def)

lemma fit_loop_Inr:
  assumes "fit_loop mi mb prot kept bytes items = Inr (kept', bytes')"
  shows "\<exists>more. kept' = kept @ more \<and> subseq more items \<and> bytes' = bytes + evidence_bytes more \<and>
    (\<forall>x \<in> set items. required_item prot x \<longrightarrow> x \<in> set more) \<and>
    (more = [] \<or> int (length kept') \<le> mi \<and> int bytes' \<le> mb)"
  using assms
proof (induction mi mb prot kept bytes items rule: fit_loop.induct)
  case (1 mi mb prot kept bytes)
  then show ?case by simp
next
  case (2 mi mb prot kept bytes x xs)
  show ?case
  proof (cases "fits mi mb kept bytes x")
    case True
    then obtain more where more: "kept' = (kept @ [x]) @ more" "subseq more xs"
      "bytes' = bytes + evidenceItemBytes x + evidence_bytes more"
      "\<forall>y \<in> set xs. required_item prot y \<longrightarrow> y \<in> set more"
      "more = [] \<or> int (length kept') \<le> mi \<and> int bytes' \<le> mb"
      using 2 by auto
    then show ?thesis
      using True by (intro exI [of _ "x # more"]) (auto simp: fits_def)
  next
    case False
    then obtain more where "kept' = kept @ more" "subseq more xs" "bytes' = bytes + evidence_bytes more"
      "\<forall>y \<in> set xs. required_item prot y \<longrightarrow> y \<in> set more"
      "more = [] \<or> int (length kept') \<le> mi \<and> int bytes' \<le> mb" "\<not> required_item prot x"
      using 2 by (auto simp: exhausted_def split: if_splits)
    then show ?thesis
      by (intro exI [of _ more]) auto
  qed
qed

lemma truncate_evidence_Inr:
  assumes "truncate_evidence items maxItems maxBytes prot = Inr r"
  shows "\<exists>kept. r = kept @ [truncation_marker (length kept) (length items) (evidence_bytes kept) (evidence_bytes items)] \<and>
    subseq kept items \<and> (\<forall>x \<in> set items. required_item prot x \<longrightarrow> x \<in> set kept) \<and>
    int (length r) \<le> maxItems \<and> int (evidence_bytes kept + TRUNCATION_MARKER_BYTES) \<le> maxBytes"
proof -
  obtain kept bytes where "fit_loop (maxItems - 1) (maxBytes - int TRUNCATION_MARKER_BYTES) prot [] 0 items = Inr (kept, bytes)"
    and r: "r = kept @ [truncation_marker (length kept) (length items) bytes (evidence_bytes items)]"
    "int (length kept) + 1 \<le> maxItems" "int (bytes + TRUNCATION_MARKER_BYTES) \<le> maxBytes"
    using assms by (auto simp: truncate_evidence_def Let_def exhausted_def split: if_splits)
  from fit_loop_Inr [OF this(1)] r show ?thesis
    by (intro exI [of _ kept]) auto
qed

section \<open>The marker\<close>

lemma nat_str_ascii: "filter (\<lambda>c. 128 \<le> (of_char c :: nat)) (nat_str n) = []"
proof -
  have "(of_char c :: nat) < 128" if "c \<in> set (nat_str n)" for c
  proof -
    have "c \<le> CHR ''9''"
      using that nat_str_digits [of n] by (auto simp: list_all_iff)
    then have "(of_char c :: nat) \<le> of_char (CHR ''9'')"
      by (simp add: less_eq_char_def)
    also have "\<dots> < 128" by simp
    finally show ?thesis .
  qed
  then show ?thesis
    by (auto simp: filter_empty_conv not_le)
qed

lemma utf8_append: "byte_length (s @ t) = byte_length s + byte_length t"
  by (simp add: byte_length_def)

lemma utf8_nat_str: "byte_length (nat_str n) = length (nat_str n)"
  by (simp add: byte_length_def nat_str_ascii)

text \<open>The bytes of a marker: 187 and the digits of its four numbers.\<close>

definition marker_digits :: "nat \<Rightarrow> nat \<Rightarrow> nat \<Rightarrow> nat \<Rightarrow> nat" where
  "marker_digits kept given bytes measured =
     length (nat_str kept) + length (nat_str given) + length (nat_str bytes) + length (nat_str measured)"

lemma marker_bytes:
  "evidenceItemBytes (truncation_marker kept given bytes measured) = 187 + marker_digits kept given bytes measured"
proof -
  have lits: "byte_length TRUNCATION_MARKER_REF = 29" "byte_length ''truncated: kept '' = 16" "byte_length '' of '' = 4"
    "byte_length '' evidence items ('' = 17"
    "byte_length '' bytes); dropped items were non-decision-critical and are summarized, never broadened'' = 85"
    by (simp_all add: byte_length_def TRUNCATION_MARKER_REF_def)
  have "byte_length (marker_text kept given bytes measured) = 126 + marker_digits kept given bytes measured"
    unfolding marker_text_def marker_digits_def utf8_append utf8_nat_str lits by simp
  then show ?thesis
    by (simp add: evidenceItemBytes_def truncation_marker_def text_bytes_def lits EVIDENCE_ITEM_OVERHEAD_BYTES_def)
qed

section \<open>applyEvidenceBudget\<close>

lemma applied_budget:
  assumes "applyEvidenceBudget (Some (JArr evs)) budget prot = Inr (r, truncated)"
  shows "if truncated
    then truncate_evidence (map deep_clone_json evs) (budget_int ''maxItems'' budget) (budget_int ''maxBytes'' budget) prot = Inr r
    else r = map deep_clone_json evs \<and> int (length r) \<le> budget_int ''maxItems'' budget
      \<and> int (evidence_bytes r) \<le> budget_int ''maxBytes'' budget"
  using assms by (auto simp: applyEvidenceBudget_def Let_def exhausted_def split: if_splits)

lemma kept_required:
  assumes "applyEvidenceBudget (Some (JArr evs)) budget prot = Inr (r, truncated)"
  shows "\<forall>x \<in> set (map deep_clone_json evs). required_item prot x \<longrightarrow> x \<in> set r"
  using applied_budget [OF assms] by (cases truncated) (auto dest: truncate_evidence_Inr)

text \<open>A list that was truncated fits its budget as long as the marker fits its allowance.\<close>

lemma truncated_fits:
  assumes "truncate_evidence items maxItems maxBytes prot = Inr r"
    and "marker_digits (length r - 1) (length items) (evidence_bytes (butlast r)) (evidence_bytes items) \<le> 13"
  shows "int (evidence_bytes r) \<le> maxBytes"
proof -
  obtain kept where kept: "r = kept @ [truncation_marker (length kept) (length items) (evidence_bytes kept) (evidence_bytes items)]"
    "int (evidence_bytes kept + TRUNCATION_MARKER_BYTES) \<le> maxBytes"
    using truncate_evidence_Inr [OF assms(1)] by blast
  have "marker_digits (length kept) (length items) (evidence_bytes kept) (evidence_bytes items) \<le> 13"
    using assms(2) by (simp add: kept(1))
  then show ?thesis
    using kept(2) by (simp add: kept(1) marker_bytes TRUNCATION_MARKER_BYTES_def)
qed

text \<open>
  The allowance is not an upper bound: eleven items of a thousand bytes each, with a budget of
  eleven thousand and the two hundred of the allowance, leave a packet one byte over its budget.
\<close>

definition wide_item :: json where
  "wide_item = JObj [(''ref'', JStr ''a''), (''content'', JStr (replicate 967 (CHR ''x'')))]"

lemma wide_item_bytes [simp]: "evidenceItemBytes wide_item = 1000"
proof -
  have "byte_length (replicate n (CHR ''x'')) = n" for n
    by (simp add: byte_length_def)
  then show ?thesis
    by (simp add: wide_item_def evidenceItemBytes_def text_bytes_def EVIDENCE_ITEM_OVERHEAD_BYTES_def byte_length_def)
qed

lemma marker_overflow:
  "\<exists>r. truncate_evidence (replicate 12 wide_item) 16 11200 [] = Inr r \<and> evidence_bytes r = 11201"
proof -
  have not_required: "\<not> required_item [] wide_item"
    by (simp add: required_item_def wide_item_def)
  have not_null: "wide_item \<noteq> JNull"
    by (simp add: wide_item_def)
  have keep: "fit_loop 15 11000 [] kept bytes (replicate n wide_item) = Inr (kept @ replicate n wide_item, bytes + 1000 * n)"
    if "length kept + n \<le> 15" "bytes + 1000 * n \<le> 11000" for kept bytes n
    using that by (induction n arbitrary: kept bytes) (auto simp: fits_def replicate_append_same)
  have split: "fit_loop mi mb prot kept bytes (xs @ ys) = (case fit_loop mi mb prot kept bytes xs of
      Inl e \<Rightarrow> Inl e | Inr (k, b) \<Rightarrow> fit_loop mi mb prot k b ys)" for mi mb prot kept bytes xs ys
    by (induction mi mb prot kept bytes xs rule: fit_loop.induct) (auto simp: exhausted_def)
  have "replicate 12 wide_item = replicate 11 wide_item @ [wide_item]"
    by (simp add: replicate_append_same flip: replicate_Suc)
  then have loop: "fit_loop 15 11000 [] [] 0 (replicate 12 wide_item) = Inr (replicate 11 wide_item, 11000)"
    using keep [of "[]" 11 0] not_required not_null by (simp add: split fits_def)
  have bytes: "evidence_bytes (replicate n wide_item) = 1000 * n" for n
    by (induction n) auto
  have digits: "marker_digits 11 12 11000 12000 = 14"
    by (simp add: marker_digits_def nat_str.simps)
  show ?thesis
    using loop by (simp add: truncate_evidence_def Let_def TRUNCATION_MARKER_BYTES_def bytes marker_bytes digits)
qed

end
