(* ===== verification/Sol_Compile.thy ===== *)
theory Sol_Compile
  imports Sol_Validate Sol_Preflight Sol_Budget Contract_Build
begin

text \<open>
  The compilers of SOL asks and responses, src/src/sol/ask-compiler/compiler.mjs and response.mjs.
  The fresh identity and the clock are parameters; \<open>sources\<close>, \<open>prior\<close> and \<open>ask\<close> are the
  options of the call.
\<close>

section \<open>Shared\<close>

definition optional_field :: "string \<Rightarrow> jsval \<Rightarrow> (string \<times> json) list" where
  "optional_field k v = (case v of None \<Rightarrow> [] | Some x \<Rightarrow> [(k, x)])"

text \<open>\<open>[...(v ?? [])]\<close>: a string spreads into its characters, other values but arrays throw.\<close>

fun spread_items :: "jsval \<Rightarrow> json list result" where
  "spread_items None = Inr []"
| "spread_items (Some JNull) = Inr []"
| "spread_items (Some (JArr xs)) = Inr xs"
| "spread_items (Some (JStr s)) = Inr (map (\<lambda>c. JStr [c]) s)"
| "spread_items (Some v) = Inl TypeError"

text \<open>\<open>(v ?? []).entries()\<close>: only arrays have it.\<close>

fun array_items :: "jsval \<Rightarrow> json list result" where
  "array_items None = Inr []"
| "array_items (Some JNull) = Inr []"
| "array_items (Some (JArr xs)) = Inr xs"
| "array_items (Some v) = Inl TypeError"

definition not_derived :: "string list \<Rightarrow> json \<Rightarrow> unit result" where
  "not_derived ks input = each (\<lambda>k. need (\<not> js_in k input) (ConfigError k)) ks"

definition not_reserved :: "json list \<Rightarrow> unit result" where
  "not_reserved items = each (\<lambda>x. need (\<not> is_marker (fld ''ref'' x)) (ConfigError ''reserved ref'')) items"

section \<open>The ask compiler\<close>

definition DERIVED_ASK_FIELDS :: "string list" where
  "DERIVED_ASK_FIELDS = [''schemaName'', ''schemaVersion'', ''askId'', ''compiledAt'']"

text \<open>The guards before any source is read; the result is the name of the per-type block.\<close>

definition ask_guards :: "json \<Rightarrow> string result" where
  "ask_guards input =
     rbind (not_derived DERIVED_ASK_FIELDS input) (\<lambda>_.
     rbind (assertSolCallType (fld ''callType'' input)) (\<lambda>_.
     rbind (each (\<lambda>k. assertString (fld k input) k)
              [''singleDecisionQuestion'', ''whyNeeded'', ''passCondition'', ''failCondition'']) (\<lambda>_.
     rbind (case preflightSolRequest (fld ''singleDecisionQuestion'' input) (fld ''whyNeeded'' input)
                   (fld ''allowedScope'' input) (fld ''callType'' input) of
              None \<Rightarrow> Inr ()
            | Some code \<Rightarrow> Inl (SolAskError ''SOL_ASK_INVALID'' [(''preflight'', code)])) (\<lambda>_.
     rbind (solTypeBlockFor (fld ''callType'' input)) (\<lambda>expected.
     rbind (need (present_blocks input = [expected]) (ConfigError ''per-type block'')) (\<lambda>_.
     Inr expected))))))"

text \<open>The chain a recheck refers to: the prior ask, the prior response and the prior finding.\<close>

definition prior_block :: "digest_fun \<Rightarrow> json \<Rightarrow> json \<Rightarrow> json \<Rightarrow> json \<Rightarrow> json" where
  "prior_block sha input a r f =
     JObj (put ''priorFindingDigest'' (JStr (content_digest sha f))
       (put ''priorResponseId'' (or_null (fld ''responseId'' r))
         (put ''priorAskId'' (or_null (fld ''askId'' a)) (spread (fld ''recheck'' input)))))"

definition recheck_block :: "digest_fun \<Rightarrow> json \<Rightarrow> jsval \<Rightarrow> json result" where
  "recheck_block sha input prior =
     (case (own ''ask'' prior, own ''response'' prior) of
        (Some (JObj a), Some (JObj r)) \<Rightarrow>
          rbind (validate_ask_alone (JObj a)) (\<lambda>es.
          rbind (need (es = []) (SolAskError ''PRIOR_CHAIN_INVALID'' es)) (\<lambda>_.
          rbind (validateSolResponse (JObj r) (Some (JObj a)) None) (\<lambda>es.
          rbind (need (es = []) (SolAskError ''PRIOR_CHAIN_INVALID'' es)) (\<lambda>_.
          (case prior_finding sha (JObj r) (own ''priorFindingRef'' (fld ''recheck'' input)) of
             None \<Rightarrow> Inl (SolAskError ''PRIOR_FINDING_UNKNOWN'' [])
           | Some f \<Rightarrow> Inr (prior_block sha input (JObj a) (JObj r) f))))))
      | _ \<Rightarrow> Inl (ConfigError ''prior''))"

text \<open>The evidence the block of the call type carries.\<close>

definition prior_evidence :: "json \<Rightarrow> jsval" where
  "prior_evidence input = own ''priorEvidence'' (fld ''diagnose'' input)"

definition delta_evidence :: "json \<Rightarrow> jsval" where
  "delta_evidence input = own ''deltaEvidence'' (fld ''recheck'' input)"

definition block_evidence :: "json \<Rightarrow> json list result" where
  "block_evidence input =
     (if call_type input ''SOL_DIAGNOSE''
      then rbind (need (case prior_evidence input of None \<Rightarrow> True | Some v \<Rightarrow> is_arr v) (ConfigError ''priorEvidence''))
             (\<lambda>_. Inr (arr_or_empty (prior_evidence input)))
      else if call_type input ''SOL_RECHECK''
      then rbind (need (arr_or_empty (delta_evidence input) \<noteq> []) (ConfigError ''deltaEvidence''))
             (\<lambda>_. Inr (arr_or_empty (delta_evidence input)))
      else Inr [])"

fun unique_refs :: "string list \<Rightarrow> json list \<Rightarrow> unit result" where
  "unique_refs seen [] = Inr ()"
| "unique_refs seen (x # xs) =
     (case fld ''ref'' x of
        Some (JStr r) \<Rightarrow>
          (if r = [] then Inl (ConfigError ''evidence ref'')
           else if r \<in> set seen then Inl (ConfigError ''duplicate evidence ref'')
           else unique_refs (r # seen) xs)
      | _ \<Rightarrow> Inl (ConfigError ''evidence ref''))"

text \<open>The one evidence universe of the ask, before the budget.\<close>

definition evidence_pool :: "json \<Rightarrow> json list result" where
  "evidence_pool input =
     rbind (block_evidence input) (\<lambda>extra.
     rbind (spread_items (fld ''evidence'' input)) (\<lambda>top.
     rbind (need (\<not> (call_type input ''SOL_RECHECK'' \<and> top \<noteq> [])) (SolAskError ''RECHECK_NONDELTA_EVIDENCE'' [])) (\<lambda>_.
     rbind (not_reserved (top @ extra)) (\<lambda>_.
     rbind (unique_refs [] (top @ extra)) (\<lambda>_.
     Inr (top @ extra))))))"

definition protected_refs :: "json \<Rightarrow> jsval list result" where
  "protected_refs input =
     rbind (spread_items (fld ''passEvidenceRefs'' input)) (\<lambda>ps.
     rbind (spread_items (fld ''failEvidenceRefs'' input)) (\<lambda>fs.
     Inr (map Some ps @ map Some fs
       @ (if call_type input ''SOL_DIAGNOSE'' then map (fld ''ref'') (arr_or_empty (prior_evidence input)) else [])
       @ (if call_type input ''SOL_RECHECK'' then map (fld ''ref'') (arr_or_empty (delta_evidence input)) else []))))"

definition refs_json :: "json list \<Rightarrow> json" where
  "refs_json items = JArr (map (\<lambda>x. or_null (fld ''ref'' x)) items)"

text \<open>
  The block of the call type, its evidence replaced by references; destructuring a null block
  throws.  (A block that is a string, whose characters the source would copy, is refused by the
  schema in either case.)
\<close>

definition per_type_block :: "json \<Rightarrow> string \<Rightarrow> json \<Rightarrow> json result" where
  "per_type_block input expected recheck =
     (if call_type input ''SOL_DIAGNOSE''
      then (if fld ''diagnose'' input = Some JNull then Inl TypeError
            else Inr (JObj (let rest = without ''priorEvidence'' (spread (fld ''diagnose'' input)) in
              if arr_or_empty (prior_evidence input) = [] then rest
              else put ''priorEvidenceRefs'' (refs_json (arr_or_empty (prior_evidence input))) rest)))
      else if call_type input ''SOL_RECHECK''
      then Inr (JObj (put ''deltaEvidenceRefs'' (refs_json (arr_or_empty (delta_evidence input)))
             (without ''deltaEvidence'' (spread (Some recheck)))))
      else Inr (or_null (fld expected input)))"

definition ask_draft :: "json \<Rightarrow> json \<Rightarrow> json \<Rightarrow> string \<Rightarrow> json \<Rightarrow> json \<Rightarrow> json list \<Rightarrow> json" where
  "ask_draft fresh at input expected block budget evidence =
     JObj ([(''schemaName'', JStr ''lcim.sol-ask''), (''schemaVersion'', JStr ''2.0.0''), (''askId'', fresh),
         (''callType'', or_null (fld ''callType'' input)),
         (''singleDecisionQuestion'', or_null (fld ''singleDecisionQuestion'' input)),
         (''whyNeeded'', or_null (fld ''whyNeeded'' input))]
       @ optional_field ''contractRefs'' (fld ''contractRefs'' input)
       @ [(''establishedFacts'', or_empty (fld ''establishedFacts'' input)), (''evidence'', JArr evidence),
         (''passCondition'', or_null (fld ''passCondition'' input)), (''failCondition'', or_null (fld ''failCondition'' input))]
       @ optional_field ''passEvidenceRefs'' (fld ''passEvidenceRefs'' input)
       @ optional_field ''failEvidenceRefs'' (fld ''failEvidenceRefs'' input)
       @ optional_field ''allowedScope'' (fld ''allowedScope'' input)
       @ optional_field ''outOfScope'' (fld ''outOfScope'' input)
       @ [(''requiredResponseShape'', or_else (fld ''requiredResponseShape'' input) (sol_response_shape (fld ''callType'' input))),
         (''repairConstraints'', or_else (fld ''repairConstraints'' input) SOL_REPAIR_CONSTRAINTS),
         (''evidenceBudget'', budget), (expected, block), (''compiledAt'', at)])"

definition ask_document :: "digest_fun \<Rightarrow> json \<Rightarrow> json \<Rightarrow> jsval \<Rightarrow> jsval \<Rightarrow> json \<Rightarrow> (json list \<times> json) result" where
  "ask_document sha fresh at sources prior input =
     rbind (ask_guards input) (\<lambda>expected.
     let checked = validateSourceSet sha sources in
     rbind (need (fst checked = []) (SolAskError ''SOL_ASK_INVALID'' (fst checked))) (\<lambda>_.
     rbind (if call_type input ''SOL_RECHECK'' then recheck_block sha input prior
            else Inr (or_null (fld ''recheck'' input))) (\<lambda>recheck.
     rbind (evidence_pool input) (\<lambda>pool.
     rbind (protected_refs input) (\<lambda>prot.
     let budget = or_else (fld ''evidenceBudget'' input) DEFAULT_EVIDENCE_BUDGET in
     rbind (applyEvidenceBudget (Some (JArr pool)) (Some budget) prot) (\<lambda>(evidence, truncated).
     rbind (per_type_block input expected recheck) (\<lambda>block.
     Inr (snd checked, ask_draft fresh at input expected block budget evidence))))))))"

definition compileSolAsk :: "digest_fun \<Rightarrow> json \<Rightarrow> json \<Rightarrow> jsval \<Rightarrow> jsval \<Rightarrow> jsval \<Rightarrow> json result" where
  "compileSolAsk sha fresh at sources prior input =
     rbind (assertPlainObject input ''SOL ask input'') (\<lambda>_.
     rbind (ask_document sha fresh at sources prior (the input)) (\<lambda>(bound, draft).
     rbind (validateSolAsk sha draft (Some (JArr bound)) prior) (\<lambda>es.
     rbind (need (es = []) (SolAskError ''SOL_ASK_INVALID'' es)) (\<lambda>_.
     Inr (deep_clone_json draft)))))"

section \<open>The response compiler\<close>

definition DERIVED_RESPONSE_FIELDS :: "string list" where
  "DERIVED_RESPONSE_FIELDS = [''schemaName'', ''schemaVersion'', ''responseId'', ''compiledAt'']"

text \<open>The ask must be the compiled one, and the response must be for it.\<close>

definition response_guards :: "digest_fun \<Rightarrow> jsval \<Rightarrow> jsval \<Rightarrow> json \<Rightarrow> json result" where
  "response_guards sha ask sources input =
     rbind (not_derived DERIVED_RESPONSE_FIELDS input) (\<lambda>_.
     rbind (need (plain_object ask) (SolResponseError ''ASK_REQUIRED'' [])) (\<lambda>_.
     rbind (validateSolAsk sha (the ask) sources None) (\<lambda>es.
     rbind (need (es = []) (SolResponseError ''ASK_REQUIRED'' es)) (\<lambda>_.
     rbind (assertString (fld ''askId'' input) ''askId'') (\<lambda>_.
     rbind (need (own ''askId'' ask = fld ''askId'' input) (SolResponseError ''ASK_ID_MISMATCH'' [])) (\<lambda>_.
     rbind (assertSolCallType (fld ''callType'' input)) (\<lambda>_.
     rbind (need (own ''callType'' ask = fld ''callType'' input) (SolResponseError ''CALL_TYPE_MISMATCH'' [])) (\<lambda>_.
     rbind (each (\<lambda>k. assertString (fld k input) k) [''verdict'', ''decisionSummary'']) (\<lambda>_.
     Inr (the ask))))))))))"

text \<open>\<open>decisionReferencedEvidenceRefs\<close>.\<close>

fun refs_of_each :: "json list \<Rightarrow> jsval list result" where
  "refs_of_each [] = Inr []"
| "refs_of_each (x # xs) =
     rbind (spread_items (fld ''evidenceRefs'' x)) (\<lambda>rs. rbind (refs_of_each xs) (\<lambda>more. Inr (map Some rs @ more)))"

definition decisionReferencedEvidenceRefs :: "json \<Rightarrow> jsval list result" where
  "decisionReferencedEvidenceRefs input =
     rbind (spread_items (own ''evidenceRefs'' (fld ''failure'' input))) (\<lambda>rs.
     rbind (spread_items (fld ''findings'' input)) (\<lambda>fs.
     rbind (refs_of_each fs) (\<lambda>frs.
     rbind (spread_items (fld ''adjacentCriticalDefects'' input)) (\<lambda>ds.
     rbind (refs_of_each ds) (\<lambda>drs. Inr (map Some rs @ frs @ drs))))))"

text \<open>A budget error of the response path is a response error.\<close>

fun as_response_error :: "lcim_error \<Rightarrow> lcim_error" where
  "as_response_error (SolAskError c es) = SolResponseError c es"
| "as_response_error e = e"

definition response_draft :: "json \<Rightarrow> json \<Rightarrow> json \<Rightarrow> json list \<Rightarrow> json" where
  "response_draft fresh at input evidence =
     JObj ([(''schemaName'', JStr ''lcim.sol-response''), (''schemaVersion'', JStr ''2.0.0''), (''responseId'', fresh),
         (''askId'', or_null (fld ''askId'' input)), (''callType'', or_null (fld ''callType'' input)),
         (''verdict'', or_null (fld ''verdict'' input)), (''decisionSummary'', or_null (fld ''decisionSummary'' input)),
         (''evidence'', JArr evidence)]
       @ concat (map (\<lambda>k. optional_field k (fld k input)) [''findings'', ''amendment'', ''failure'', ''adjacentCriticalDefects''])
       @ [(''compiledAt'', at)])"

definition response_document :: "digest_fun \<Rightarrow> json \<Rightarrow> json \<Rightarrow> jsval \<Rightarrow> jsval \<Rightarrow> json \<Rightarrow> (json \<times> json) result" where
  "response_document sha fresh at ask sources input =
     rbind (response_guards sha ask sources input) (\<lambda>askdoc.
     rbind (array_items (fld ''evidence'' input)) (\<lambda>items.
     rbind (not_reserved items) (\<lambda>_.
     let budget = or_else (fld ''evidenceBudget'' askdoc) DEFAULT_EVIDENCE_BUDGET in
     rbind (assertEvidenceBudget (Some budget)) (\<lambda>_.
     rbind (decisionReferencedEvidenceRefs input) (\<lambda>prot.
     (case applyEvidenceBudget (Some (or_empty (fld ''evidence'' input))) (Some budget) prot of
        Inl e \<Rightarrow> Inl (as_response_error e)
      | Inr (evidence, truncated) \<Rightarrow> Inr (askdoc, response_draft fresh at input evidence)))))))"

definition compileSolResponse :: "digest_fun \<Rightarrow> json \<Rightarrow> json \<Rightarrow> jsval \<Rightarrow> jsval \<Rightarrow> jsval \<Rightarrow> json result" where
  "compileSolResponse sha fresh at ask sources input =
     rbind (assertPlainObject input ''SOL response input'') (\<lambda>_.
     rbind (response_document sha fresh at ask sources (the input)) (\<lambda>(askdoc, draft).
     rbind (validateSolResponse draft (Some askdoc) sources) (\<lambda>es.
     rbind (need (es = []) (SolResponseError ''SOL_RESPONSE_INVALID'' es)) (\<lambda>_.
     Inr (deep_clone_json draft)))))"

end
