(* ===== verification/Sol_Ticket.thy ===== *)
theory Sol_Ticket
  imports Sol_Compile
begin

text \<open>
  The compiler of repair tickets, src/src/sol/ask-compiler/repair-ticket.mjs: a diagnosed failure
  becomes a repair contract of the contract library and its conversion record, after the whole
  chain of source, ask and response has been validated again.
\<close>

section \<open>Guards\<close>

definition ticket_error :: "string \<Rightarrow> lcim_error" where
  "ticket_error code = SolRepairTicketError code []"

definition chain_error :: "issue list \<Rightarrow> lcim_error" where
  "chain_error es = SolRepairTicketError ''TICKET_CHAIN_INVALID'' es"

definition decision_guards :: "json \<Rightarrow> json \<Rightarrow> unit result" where
  "decision_guards ask response =
     rbind (need (call_type ask ''SOL_DIAGNOSE'' \<and> call_type response ''SOL_DIAGNOSE'')
       (ticket_error ''NOT_DIAGNOSE_CAUSE_IDENTIFIED'')) (\<lambda>_.
     rbind (need (fld ''askId'' response = fld ''askId'' ask) (ticket_error ''TICKET_ASK_RESPONSE_MISMATCH'')) (\<lambda>_.
     need (is_lit (fld ''verdict'' response) ''CAUSE_IDENTIFIED'' \<and> fld ''failure'' response \<noteq> None)
       (ticket_error ''NOT_DIAGNOSE_CAUSE_IDENTIFIED'')))"

definition ticket_sources :: "digest_fun \<Rightarrow> jsval \<Rightarrow> json list result" where
  "ticket_sources sha sources =
     (let r = validateSourceSet sha sources in
      rbind (need (fst r = []) (chain_error (fst r))) (\<lambda>_.
      rbind (each (\<lambda>s. need (isAuthoritative sha (Some s)) (ticket_error ''SOURCE_NOT_AUTHORITATIVE'')) (snd r)) (\<lambda>_.
      Inr (snd r))))"

definition ticket_chain :: "digest_fun \<Rightarrow> json \<Rightarrow> json \<Rightarrow> json list \<Rightarrow> unit result" where
  "ticket_chain sha ask response bound =
     rbind (validateSolAsk sha ask (Some (JArr bound)) None) (\<lambda>es.
     rbind (need (es = []) (chain_error es)) (\<lambda>_.
     rbind (validateSolResponse response (Some ask) (Some (JArr bound))) (\<lambda>es.
     need (es = []) (chain_error es))))"

section \<open>The conversion\<close>

definition ticket_objective :: "jsval \<Rightarrow> json \<Rightarrow> string" where
  "ticket_objective criterion spec =
     ''restore acceptance criterion '' @ CHR 0x27 # js_string criterion @ CHR 0x27 # '' ('' @ js_string (fld ''requirement'' spec) @ '')''"

definition ticket_violation :: "jsval \<Rightarrow> json \<Rightarrow> string" where
  "ticket_violation criterion spec =
     ''acceptance criterion '' @ CHR 0x27 # js_string criterion @ CHR 0x27 # '' violated: '' @ js_string (fld ''requirement'' spec)"

text \<open>The exact tests of the criterion, pinned to the source; other tests are left out.\<close>

definition bound_test :: "json \<Rightarrow> json \<Rightarrow> json" where
  "bound_test spec t =
     JObj (optional_field ''name'' (fld ''name'' t) @ optional_field ''command'' (fld ''command'' t)
       @ optional_field ''expectation'' (fld ''requirement'' spec)
       @ optional_field ''negativeSideEffectId'' (fld ''sideEffectId'' spec)
       @ optional_field ''negativeSideEffectScope'' (fld ''scope'' spec)
       @ optional_field ''expectedSideEffectCount'' (fld ''expectedCount'' spec))"

definition bound_tests :: "jsval \<Rightarrow> json \<Rightarrow> json list \<Rightarrow> json list" where
  "bound_tests criterion spec tests =
     map (bound_test spec) (filter (\<lambda>t. fld ''acceptanceCriterionRef'' t = criterion) tests)"

definition ticket_findings :: "json \<Rightarrow> jsval" where
  "ticket_findings response =
     (case fld ''findings'' response of
        Some (JArr [f]) \<Rightarrow> Some (JArr [or_null (fld ''findingId'' f)])
      | _ \<Rightarrow> None)"

text \<open>The content of a response without its identity and time.\<close>

definition response_content :: "json \<Rightarrow> json" where
  "response_content response =
     JObj (without ''compiledAt'' (without ''responseId'' (without ''schemaVersion'' (without ''schemaName''
       (spread (Some response))))))"

text \<open>The parts of a repair that the payload and the repair contract share.\<close>

definition repair_fields :: "json \<Rightarrow> jsval \<Rightarrow> json \<Rightarrow> (string \<times> json) list" where
  "repair_fields response criterion spec =
     [(''objective'', JStr (ticket_objective criterion spec)),
      (''violation'', JStr (ticket_violation criterion spec))]
     @ optional_field ''requiredBehavior'' (fld ''requirement'' spec)
     @ optional_field ''mustChange'' (own ''mustChange'' (repair_of response))
     @ [(''mustNotChange'', or_empty (own ''mustNotChange'' (repair_of response))),
        (''acceptanceTests'', JArr (bound_tests criterion spec (repair_items ''exactTests'' response)))]
     @ optional_field ''verification'' (own ''verification'' (repair_of response))
     @ optional_field ''findingRefs'' (ticket_findings response)"

definition conversion_payload :: "digest_fun \<Rightarrow> json \<Rightarrow> json \<Rightarrow> json \<Rightarrow> json \<Rightarrow> json" where
  "conversion_payload sha ask response source spec =
     JObj ([(''schemaFamily'', JStr ''lcim.repair-ticket'')]
       @ optional_field ''askId'' (fld ''askId'' ask) @ optional_field ''callType'' (fld ''callType'' ask)
       @ optional_field ''criterion'' (criterion_ref (Some ask))
       @ optional_field ''contractKey'' (fld ''contractKey'' source)
       @ optional_field ''sourceSemanticDigest'' (fld ''semanticDigest'' source)
       @ [(''responseContentDigest'', JStr (content_digest sha (response_content response)))]
       @ repair_fields response (criterion_ref (Some ask)) spec)"

definition conversion_digest :: "digest_fun \<Rightarrow> json \<Rightarrow> json \<Rightarrow> json \<Rightarrow> json \<Rightarrow> string" where
  "conversion_digest sha ask response source spec = content_digest sha (conversion_payload sha ask response source spec)"

definition derived_repair_id :: "digest_fun \<Rightarrow> json \<Rightarrow> json \<Rightarrow> json \<Rightarrow> json \<Rightarrow> string" where
  "derived_repair_id sha ask response source spec = ''lcim_repair_'' @ take 32 (conversion_digest sha ask response source spec)"

definition repair_input :: "json \<Rightarrow> json \<Rightarrow> json \<Rightarrow> json \<Rightarrow> string \<Rightarrow> json" where
  "repair_input ask response source spec repairId =
     JObj ([(''semanticContract'', source), (''rejectedAcceptanceRefs'', JArr [or_null (criterion_ref (Some ask))])]
       @ repair_fields response (criterion_ref (Some ask)) spec
       @ [(''repairId'', JStr repairId)] @ optional_field ''createdAt'' (fld ''compiledAt'' response))"

definition ticket_record :: "digest_fun \<Rightarrow> json \<Rightarrow> json \<Rightarrow> json \<Rightarrow> json \<Rightarrow> json" where
  "ticket_record sha ask response source spec =
     (let rid = JStr (derived_repair_id sha ask response source spec) in
      JObj ([(''schemaName'', JStr ''lcim.repair-ticket''), (''schemaVersion'', JStr ''2.0.0''), (''ticketId'', rid)]
        @ optional_field ''sourceAskId'' (fld ''askId'' ask) @ optional_field ''sourceResponseId'' (fld ''responseId'' response)
        @ [(''callType'', JStr ''SOL_DIAGNOSE''), (''repairId'', rid)]
        @ optional_field ''contractKey'' (fld ''contractKey'' source)
        @ optional_field ''sourceSemanticDigest'' (fld ''semanticDigest'' source)
        @ [(''rejectedAcceptanceRefs'', JArr [or_null (criterion_ref (Some ask))]),
           (''conversionDigest'', JStr (conversion_digest sha ask response source spec))]
        @ optional_field ''compiledAt'' (fld ''compiledAt'' response)))"

definition in_scope :: "json \<Rightarrow> json \<Rightarrow> unit result" where
  "in_scope response spec =
     each (\<lambda>m. need (fld ''target'' m = fld ''scope'' spec) (ticket_error ''TICKET_SCOPE_UNBOUNDED''))
       (repair_items ''mustChange'' response)"

text \<open>The conversion once the source is resolved; \<open>now\<close> is the clock the repair builder may read.\<close>

definition convert_repair :: "digest_fun \<Rightarrow> json \<Rightarrow> json \<Rightarrow> json \<Rightarrow> json \<Rightarrow> json \<Rightarrow> (json \<times> json) result" where
  "convert_repair sha now ask response source spec =
     (let rid = derived_repair_id sha ask response source spec;
          ticket = ticket_record sha ask response source spec in
      rbind (in_scope response spec) (\<lambda>_.
      rbind (need (isValidRepairId (Some (JStr rid))) (ticket_error ''TICKET_ID_MISMATCH'')) (\<lambda>_.
      rbind (buildRepairContract sha JNull now (Some (repair_input ask response source spec rid))) (\<lambda>contract.
      rbind (validateRepairTicket ticket (Some ask) (Some response)) (\<lambda>es.
      rbind (need (es = []) (SolRepairTicketError ''SOL_REPAIR_CONVERSION_FAILED'' es)) (\<lambda>_.
      Inr (contract, deep_clone_json ticket)))))))"

definition compileRepairTicket :: "digest_fun \<Rightarrow> json \<Rightarrow> jsval \<Rightarrow> jsval \<Rightarrow> jsval \<Rightarrow> (json \<times> json) result" where
  "compileRepairTicket sha now ask response sources =
     rbind (need (plain_object ask \<and> plain_object response) (ConfigError ''ask and response'')) (\<lambda>_.
     rbind (decision_guards (the ask) (the response)) (\<lambda>_.
     rbind (ticket_sources sha sources) (\<lambda>bound.
     rbind (ticket_chain sha (the ask) (the response) bound) (\<lambda>_.
     (case resolveCriterionBinding (the ask) bound of
        Inl code \<Rightarrow> Inl (ticket_error code)
      | Inr (ref, source, spec) \<Rightarrow> convert_repair sha now (the ask) (the response) source spec)))))"

end
