(* ===== verification/Sol_Laws.thy ===== *)
theory Sol_Laws
  imports Sol_Ticket
begin

text \<open>
  What an ask, a response and a repair ticket that pass validation satisfy: closed evidence,
  bindings to valid sources, the provenance of a recheck, and a repair inside the scope of the
  diagnosed criterion.
\<close>

section \<open>Reading issue lists\<close>

lemma entries_all [simp]:
  "(\<forall>p \<in> set (entries xs). (case p of (i, x) \<Rightarrow> f i x) = []) \<longleftrightarrow> (\<forall>i < length xs. f i (xs ! i) = [])"
  using concat_entries_Nil [of f xs] by (simp add: concat_map_Nil_iff)

lemma ref_issues_iff: "ref_issues at code known refs = [] \<longleftrightarrow> (\<forall>r \<in> set refs. \<not> is_marker (Some r) \<and> known r)"
  unfolding ref_issues_def concat_entries_Nil by (auto simp: all_set_conv_all_nth split: if_splits)

lemma schema_then_Nil: "schema_then s doc rules = Inr [] \<longleftrightarrow> validate_against_schema lcim_regexps doc s = Inr [] \<and> rules = Inr []"
  by (auto simp: schema_then_def split: if_splits)

lemma set_map_filter: "y \<in> set (List.map_filter f xs) \<longleftrightarrow> (\<exists>x \<in> set xs. f x = Some y)"
  by (induction xs) (auto simp: map_filter_simps split: option.split)

lemma resolvable_ref_Some: "resolvable_ref x = Some s \<longleftrightarrow> fld ''ref'' x = Some (JStr s) \<and> s \<noteq> TRUNCATION_MARKER_REF"
  by (auto simp: resolvable_ref_def split: option.split json.split)

lemma is_ref_of_iff:
  "is_ref_of doc r \<longleftrightarrow> (\<exists>x \<in> set (arr_or_empty (own ''evidence'' doc)). \<exists>s.
     r = JStr s \<and> fld ''ref'' x = Some (JStr s) \<and> s \<noteq> TRUNCATION_MARKER_REF)"
proof -
  have "s \<in> set (resolvableEvidenceRefs doc) \<longleftrightarrow> (\<exists>x \<in> set (arr_or_empty (own ''evidence'' doc)).
      fld ''ref'' x = Some (JStr s) \<and> s \<noteq> TRUNCATION_MARKER_REF)" for s
    by (auto simp: resolvableEvidenceRefs_def set_map_filter resolvable_ref_Some)
  then show ?thesis by (auto simp: is_ref_of_def)
qed

lemma is_declared_iff:
  "is_declared doc (Some r) \<longleftrightarrow> (\<exists>c \<in> set (items_of ''contractRefs'' doc). r \<in> set (items_of ''requirementRefs'' c))"
  by (auto simp: is_declared_def declaredRequirementRefs_def)

lemma is_declared_refs: "is_declared doc v \<longleftrightarrow> (\<exists>r \<in> set (declaredRequirementRefs doc). v = Some r)"
  by (simp add: is_declared_def)

section \<open>Asks\<close>

lemma valid_ask_parts:
  assumes "validateSolAsk sha doc sources prior = Inr []"
  shows "intrinsic_ask_issues doc = []" "sources \<noteq> None \<Longrightarrow> applySourceBindingRules sha doc sources = []"
    "call_type doc ''SOL_RECHECK'' \<Longrightarrow> prior \<noteq> None \<Longrightarrow> applyPriorProvenanceRules sha doc prior = Inr []"
    "validate_against_schema lcim_regexps doc SOL_ASK_SCHEMA = Inr []"
  using assms by (auto simp: validateSolAsk_def schema_then_Nil applyAskRules_def ask_rules_def Let_def split: if_splits)

lemma in_order_set [simp]: "set (in_order xs) = set xs"
  by (simp add: in_order_def)

definition word_in :: "string \<Rightarrow> string \<Rightarrow> bool" where
  "word_in w s \<longleftrightarrow> (\<exists>u v. s = u @ w @ v \<and>
     at_boundary (if u = [] then None else Some (last u), w @ v) \<and>
     at_boundary (if u @ w = [] then None else Some (last (u @ w)), v))"

lemma condition_issues_iff:
  "condition_issues doc field declared = [] \<longleftrightarrow>
     (\<forall>s. fld field doc = Some (JStr s) \<longrightarrow> \<not> js_includes s TRUNCATION_MARKER_REF) \<and>
     (\<forall>t \<in> set (conditionMentionedEvidenceRefs (fld field doc) (resolvableEvidenceRefs (Some doc))).
        JStr t \<in> set (items_of declared doc))"
  unfolding condition_issues_def append_is_Nil_conv concat_map_Nil_iff
  by (auto split: option.split json.split)

lemma condition_closed:
  assumes "condition_issues doc field declared = []" and "fld field doc = Some (JStr s)"
  shows "\<not> (\<exists>u v. s = u @ TRUNCATION_MARKER_REF @ v) \<and>
    (\<forall>r. is_ref_of (Some doc) (JStr r) \<and> word_in r s \<longrightarrow> JStr r \<in> set (items_of declared doc))"
proof
  show "\<not> (\<exists>u v. s = u @ TRUNCATION_MARKER_REF @ v)"
    using assms by (simp add: condition_issues_iff js_includes_iff)
  show "\<forall>r. is_ref_of (Some doc) (JStr r) \<and> word_in r s \<longrightarrow> JStr r \<in> set (items_of declared doc)"
  proof (intro allI impI, elim conjE)
    fix r
    assume "is_ref_of (Some doc) (JStr r)" "word_in r s"
    then have "r \<in> set (conditionMentionedEvidenceRefs (fld field doc) (resolvableEvidenceRefs (Some doc)))"
      using assms(2) by (simp add: conditionMentionedEvidenceRefs_def mentions_iff word_in_def is_ref_of_def)
    then show "JStr r \<in> set (items_of declared doc)"
      using assms(1) by (simp add: condition_issues_iff)
  qed
qed

lemma valid_ask_refs:
  assumes "intrinsic_ask_issues doc = []" and "(at, refs) \<in> set (decision_refs doc)" and "r \<in> set refs"
  shows "is_ref_of (Some doc) r"
proof -
  have "decision_ref_issues doc = []"
    using assms(1) by (simp add: intrinsic_ask_issues_def)
  then have "ref_issues at ''EVIDENCE_REF_UNRESOLVED'' (is_ref_of (Some doc)) refs = []"
    using assms(2) by (force simp: decision_ref_issues_def concat_map_Nil_iff)
  then show ?thesis
    using assms(3) by (simp add: ref_issues_iff)
qed

lemma within_budget:
  assumes "intrinsic_ask_issues doc = []" and "budget_of doc = Some b"
  shows "\<exists>mi mb. fld ''maxItems'' b = Some (JInt mi) \<and> fld ''maxBytes'' b = Some (JInt mb) \<and>
    int (length (items_of ''evidence'' doc)) \<le> mi \<and> int (evidence_bytes (items_of ''evidence'' doc)) \<le> mb"
proof -
  have "ask_budget_issues doc = []" "evidence_fit_issues doc = []"
    using assms(1) by (simp_all add: intrinsic_ask_issues_def)
  then have "int_at_least 1 (fld ''maxItems'' b)" "int_at_least 1 (fld ''maxBytes'' b)" "\<not> over_budget (Some b) (items_of ''evidence'' doc)"
    using assms(2) by (auto simp: ask_budget_issues_def evidence_fit_issues_def split: if_splits)
  then show ?thesis
    by (cases "fld ''maxItems'' b" rule: number_floor.cases; cases "fld ''maxBytes'' b" rule: number_floor.cases)
      (auto simp: over_budget_def not_less)
qed

lemma one_block:
  assumes "intrinsic_ask_issues doc = []"
  shows "\<exists>b. present_blocks doc = [b] \<and> for_type SOL_CALL_TYPE_BLOCKS (fld ''callType'' doc) = Some b"
  using assms by (auto simp: intrinsic_ask_issues_def block_issues_def split: list.splits if_splits)

section \<open>Sources\<close>

lemma validateSourceSet_valid:
  assumes "fst (validateSourceSet sha sources) = []"
  shows "\<exists>srcs. sources = Some (JArr srcs) \<and> snd (validateSourceSet sha sources) = srcs \<and>
    (\<forall>s \<in> set srcs. is_obj s \<and> (\<exists>ws. validateSemanticContract sha s = Inr ([], ws)))"
proof -
  obtain srcs where srcs: "sources = Some (JArr srcs)" "srcs \<noteq> []" "length srcs \<le> 8"
    "\<forall>i < length srcs. source_issue sha i (srcs ! i) = []"
    using assms
    by (cases "(sha, sources)" rule: validateSourceSet.cases) (auto split: if_splits)
  have "filter (\<lambda>(i, s). source_issue sha i s = []) (entries srcs) = entries srcs"
    using srcs(4) by (intro filter_True) (auto simp: set_entries_iff)
  moreover have "is_obj s \<and> (\<exists>ws. validateSemanticContract sha s = Inr ([], ws))" if s: "s \<in> set srcs" for s
  proof -
    obtain i where "i < length srcs" "s = srcs ! i"
      using s by (auto simp: in_set_conv_nth)
    then have "source_issue sha i s = []"
      using srcs(4) by simp
    then show ?thesis
      by (auto simp: source_issue_def split: if_splits sum.splits)
  qed
  ultimately show ?thesis
    using srcs by simp
qed

lemma bound_source_Some:
  "bound_source sources ref = Some s \<Longrightarrow> s \<in> set sources \<and> fld ''contractKey'' s = fld ''contractKey'' ref
     \<and> fld ''semanticDigest'' s = fld ''semanticDigest'' ref"
  unfolding bound_source_def by (drule find_Some_iff') simp

lemma criterion_spec_Some: "criterion_spec s c = Some x \<Longrightarrow> x \<in> set (items_of ''negativeSideEffects'' s) \<and> fld ''sideEffectId'' x = c"
  unfolding criterion_spec_def by (drule find_Some_iff') simp

lemma contract_ref_bound:
  assumes "contract_ref_issues sources i ref = []"
  shows "\<exists>s. bound_source sources ref = Some s \<and> (\<forall>r \<in> set (items_of ''requirementRefs'' ref).
    \<exists>x \<in> set (items_of ''negativeSideEffects'' s). fld ''sideEffectId'' x = Some r)"
proof -
  obtain s where s: "names_source ref" "bound_source sources ref = Some s"
    using assms by (auto simp: contract_ref_issues_def split: if_splits option.splits)
  have "criterion_spec s (Some r) \<noteq> None" if r: "r \<in> set (items_of ''requirementRefs'' ref)" for r
  proof -
    obtain j where "j < length (items_of ''requirementRefs'' ref)" "r = items_of ''requirementRefs'' ref ! j"
      using r by (auto simp: in_set_conv_nth)
    then show ?thesis
      using assms s by (auto simp: contract_ref_issues_def split: if_splits)
  qed
  then show ?thesis
    using s(2) criterion_spec_Some by fastforce
qed

lemma valid_binding:
  assumes "applySourceBindingRules sha doc sources = []"
  shows "\<exists>srcs. sources = Some (JArr srcs) \<and> snd (validateSourceSet sha sources) = srcs \<and>
    (\<forall>s \<in> set srcs. is_obj s \<and> (\<exists>ws. validateSemanticContract sha s = Inr ([], ws))) \<and>
    (\<forall>ref \<in> set (items_of ''contractRefs'' doc). \<exists>s. bound_source srcs ref = Some s \<and>
      (\<forall>r \<in> set (items_of ''requirementRefs'' ref). \<exists>x \<in> set (items_of ''negativeSideEffects'' s). fld ''sideEffectId'' x = Some r) \<and>
      (one_of IMPLEMENTATION_FACING_CALL_TYPES (fld ''callType'' doc) \<longrightarrow> is_lit (fld ''compileStatus'' s) ''COMPILED'')) \<and>
    locked_issues doc = [] \<and> neighbor_issues doc = [] \<and> criterion_source_issues srcs doc = []"
proof -
  have fst0: "fst (validateSourceSet sha sources) = []"
    using assms by (auto simp: applySourceBindingRules_def Let_def split: if_splits)
  then obtain srcs where srcs: "sources = Some (JArr srcs)" "snd (validateSourceSet sha sources) = srcs"
    "\<forall>s \<in> set srcs. is_obj s \<and> (\<exists>ws. validateSemanticContract sha s = Inr ([], ws))"
    using validateSourceSet_valid by blast
  have rules: "\<forall>i < length (items_of ''contractRefs'' doc). contract_ref_issues srcs i (items_of ''contractRefs'' doc ! i) = []"
    "authority_issues srcs doc = []" "locked_issues doc = []" "neighbor_issues doc = []" "criterion_source_issues srcs doc = []"
    using assms fst0 srcs(2) by (simp_all add: applySourceBindingRules_def Let_def)
  have "\<exists>s. bound_source srcs ref = Some s \<and>
      (\<forall>r \<in> set (items_of ''requirementRefs'' ref). \<exists>x \<in> set (items_of ''negativeSideEffects'' s). fld ''sideEffectId'' x = Some r) \<and>
      (one_of IMPLEMENTATION_FACING_CALL_TYPES (fld ''callType'' doc) \<longrightarrow> is_lit (fld ''compileStatus'' s) ''COMPILED'')"
    if "ref \<in> set (items_of ''contractRefs'' doc)" for ref
  proof -
    obtain i where i: "i < length (items_of ''contractRefs'' doc)" "ref = items_of ''contractRefs'' doc ! i"
      using \<open>ref \<in> _\<close> by (auto simp: in_set_conv_nth)
    then have iss: "contract_ref_issues srcs i ref = []"
      using rules(1) by simp
    then have "names_source ref"
      by (auto simp: contract_ref_issues_def split: if_splits)
    with contract_ref_bound [OF iss] rules(2) i show ?thesis
      by (fastforce simp: authority_issues_def split: if_splits option.splits)
  qed
  then show ?thesis
    using srcs rules(3-5) by blast
qed

lemma compiled_source_authoritative:
  "is_obj s \<Longrightarrow> validateSemanticContract sha s = Inr ([], ws) \<Longrightarrow> is_lit (fld ''compileStatus'' s) ''COMPILED''
    \<Longrightarrow> isAuthoritative sha (Some s)"
  by (auto simp: isAuthoritative_iff)

section \<open>Rechecks\<close>

lemma prior_finding_Some:
  assumes "prior_finding sha response ref = Some f"
  shows "(f \<in> set (items_of ''findings'' response) \<and> fld ''findingId'' f = ref) \<or>
    (f \<in> set (items_of ''adjacentCriticalDefects'' response) \<and> is_lit ref (adjacentDefectFindingId sha f))"
  using assms by (auto simp: prior_finding_def split: option.splits dest: find_Some_iff')

text \<open>The chain of a recheck: both documents valid, the identities, the finding and its digest.\<close>

definition recheck_chained :: "digest_fun \<Rightarrow> jsval \<Rightarrow> json \<Rightarrow> json \<Rightarrow> json \<Rightarrow> bool" where
  "recheck_chained sha recheck a r f \<longleftrightarrow>
     validate_ask_alone a = Inr [] \<and> validateSolResponse r (Some a) None = Inr [] \<and>
     own ''priorAskId'' recheck = fld ''askId'' a \<and> own ''priorResponseId'' recheck = fld ''responseId'' r \<and>
     prior_finding sha r (own ''priorFindingRef'' recheck) = Some f \<and>
     is_lit (own ''priorFindingDigest'' recheck) (content_digest sha f)"

lemma provenance_chained:
  assumes "applyPriorProvenanceRules sha doc prior = Inr []"
  shows "\<exists>a r f. own ''ask'' prior = Some a \<and> own ''response'' prior = Some r \<and> recheck_chained sha (fld ''recheck'' doc) a r f"
  using assms
  by (auto simp: applyPriorProvenanceRules_def frozen_issues_of_def recheck_chained_def Let_def
      split: option.splits json.splits if_splits)

lemma valid_response_rules:
  assumes "validateSolResponse doc (Some ask) sources = Inr []"
  shows "fld ''askId'' doc = fld ''askId'' ask" "fld ''callType'' doc = fld ''callType'' ask"
    "type_issues (Some ask) sources doc = []" "block_pairing_issues doc = []" "response_fit_issues (Some ask) doc = []"
    "marker_issues True (items_of ''evidence'' doc) = []" "recommendation_issues doc = []"
    "one_of (verdicts_of (fld ''callType'' doc)) (fld ''verdict'' doc)" "is_obj ask"
  using assms
  by (auto simp: validateSolResponse_def applyResponseRules_def ask_binding_issues_def verdict_issues_def
      plain_object_iff is_obj_iff split: if_splits)

lemma finding_refs_resolved:
  "finding_ref_issues code known i f = [] \<Longrightarrow> r \<in> set (items_of ''evidenceRefs'' f) \<Longrightarrow> known r \<and> \<not> is_marker (Some r)"
  by (simp add: finding_ref_issues_def ref_issues_iff)

lemma recheck_response:
  assumes "validateSolResponse doc (Some ask) sources = Inr []" and "call_type doc ''SOL_RECHECK''"
    and "plain_object (fld ''recheck'' ask)"
  shows "items_of ''evidence'' doc = []"
    and "is_lit (fld ''verdict'' doc) ''RESOLVED'' \<longleftrightarrow> items_of ''findings'' doc = []"
    and "\<forall>f \<in> set (items_of ''findings'' doc). recheck_allowed (Some ask) (fld ''invariantRef'' f) \<and>
      (\<forall>r \<in> set (items_of ''evidenceRefs'' f). is_ref_of (Some ask) r)"
proof -
  have iss: "recheck_issues (Some ask) doc = []"
    using valid_response_rules(3) [OF assms(1)] assms(2) by (simp add: type_issues_def call_type_def)
  have verdict: "is_lit (fld ''verdict'' doc) ''RESOLVED'' \<or> is_lit (fld ''verdict'' doc) ''NOT_RESOLVED''"
    using valid_response_rules(8) [OF assms(1)] assms(2)
    by (auto simp: call_type_def verdicts_of_def for_type_def SOL_VERDICTS_def one_of_iff)
  show "items_of ''evidence'' doc = []"
    "is_lit (fld ''verdict'' doc) ''RESOLVED'' \<longleftrightarrow> items_of ''findings'' doc = []"
    using iss verdict by (auto simp: recheck_issues_def recheck_shape_issues_def split: if_splits)
  show "\<forall>f \<in> set (items_of ''findings'' doc). recheck_allowed (Some ask) (fld ''invariantRef'' f) \<and>
      (\<forall>r \<in> set (items_of ''evidenceRefs'' f). is_ref_of (Some ask) r)"
  proof
    fix f
    assume "f \<in> set (items_of ''findings'' doc)"
    then obtain i where "i < length (items_of ''findings'' doc)" "f = items_of ''findings'' doc ! i"
      by (auto simp: in_set_conv_nth)
    then have "recheck_finding_issues (Some ask) i f = []"
      using iss assms(3) by (simp add: recheck_issues_def)
    then show "recheck_allowed (Some ask) (fld ''invariantRef'' f) \<and>
      (\<forall>r \<in> set (items_of ''evidenceRefs'' f). is_ref_of (Some ask) r)"
      by (auto simp: recheck_finding_issues_def split: if_splits dest: finding_refs_resolved)
  qed
qed

section \<open>Final reviews and diagnoses\<close>

lemma final_review_response:
  assumes "validateSolResponse doc (Some ask) sources = Inr []" and "call_type doc ''SOL_FINAL_REVIEW''"
    and "plain_object (fld ''finalReview'' ask)"
  shows "is_lit (fld ''verdict'' doc) ''PASS'' \<longleftrightarrow> items_of ''findings'' doc = []"
    and "is_lit (fld ''verdict'' doc) ''PASS'' \<Longrightarrow> items_of ''adjacentCriticalDefects'' doc = []"
    and "is_lit (fld ''verdict'' doc) ''FAIL'' \<Longrightarrow>
      (\<exists>f \<in> set (items_of ''findings'' doc). is_lit (fld ''severity'' f) ''CRITICAL'') \<or> items_of ''adjacentCriticalDefects'' doc \<noteq> []"
    and "length (items_of ''adjacentCriticalDefects'' doc) \<le> 1"
    and "\<forall>f \<in> set (items_of ''findings'' doc). fld ''invariantRef'' f \<in> fld ''invariantId'' ` set (checklist (Some ask)) \<and>
      (\<forall>r \<in> set (items_of ''evidenceRefs'' f). known_ref (Some ask) doc r)"
    and "\<forall>d \<in> set (items_of ''adjacentCriticalDefects'' doc). is_declared ask (fld ''lockedRequirementRef'' d)"
proof -
  have iss: "final_shape_issues doc = []" "invariant_issues (Some ask) doc = []"
    "\<forall>i < length (items_of ''findings'' doc).
       finding_ref_issues ''FINDING_EVIDENCE_UNRESOLVED'' (known_ref (Some ask) doc) i (items_of ''findings'' doc ! i) = []"
    "\<forall>i < length (items_of ''adjacentCriticalDefects'' doc).
       adjacent_issues (Some ask) doc i (items_of ''adjacentCriticalDefects'' doc ! i) = []"
    using valid_response_rules(3) [OF assms(1)] assms(2) by (simp_all add: type_issues_def call_type_def final_review_issues_def)
  have verdict: "is_lit (fld ''verdict'' doc) ''PASS'' \<or> is_lit (fld ''verdict'' doc) ''FAIL''"
    using valid_response_rules(8) [OF assms(1)] assms(2)
    by (auto simp: call_type_def verdicts_of_def for_type_def SOL_VERDICTS_def one_of_iff)
  show "is_lit (fld ''verdict'' doc) ''PASS'' \<longleftrightarrow> items_of ''findings'' doc = []"
    "is_lit (fld ''verdict'' doc) ''PASS'' \<Longrightarrow> items_of ''adjacentCriticalDefects'' doc = []"
    "is_lit (fld ''verdict'' doc) ''FAIL'' \<Longrightarrow>
      (\<exists>f \<in> set (items_of ''findings'' doc). is_lit (fld ''severity'' f) ''CRITICAL'') \<or> items_of ''adjacentCriticalDefects'' doc \<noteq> []"
    "length (items_of ''adjacentCriticalDefects'' doc) \<le> 1"
    using iss(1) verdict
    by (auto simp: final_shape_issues_def Let_def list_ex_iff MAX_ADJACENT_CRITICAL_DEFECTS_def split: if_splits)
  show "\<forall>f \<in> set (items_of ''findings'' doc). fld ''invariantRef'' f \<in> fld ''invariantId'' ` set (checklist (Some ask)) \<and>
      (\<forall>r \<in> set (items_of ''evidenceRefs'' f). known_ref (Some ask) doc r)"
  proof
    fix f
    assume "f \<in> set (items_of ''findings'' doc)"
    then obtain i where "i < length (items_of ''findings'' doc)" "f = items_of ''findings'' doc ! i"
      by (auto simp: in_set_conv_nth)
    with iss(2,3) assms(3) show "fld ''invariantRef'' f \<in> fld ''invariantId'' ` set (checklist (Some ask)) \<and>
      (\<forall>r \<in> set (items_of ''evidenceRefs'' f). known_ref (Some ask) doc r)"
      by (auto simp: invariant_issues_def split: if_splits dest: finding_refs_resolved)
  qed
  show "\<forall>d \<in> set (items_of ''adjacentCriticalDefects'' doc). is_declared ask (fld ''lockedRequirementRef'' d)"
    using iss(4) by (auto simp: adjacent_issues_def in_set_conv_nth split: if_splits)
qed

section \<open>Repair tickets\<close>

lemma map_of_optional [simp]: "map_of (optional_field k v) j = (if j = k then v else None)"
  by (auto simp: optional_field_def split: option.split)

lemma claiming_refs_one:
  assumes "resolveCriterionBinding ask sources = Inr (b, s, spec)"
  shows "\<exists>c. criterion_ref (Some ask) = Some (JStr c) \<and> claiming_refs ask (JStr c) = [b] \<and> s \<in> set sources \<and>
    fld ''contractKey'' s = fld ''contractKey'' b \<and> fld ''semanticDigest'' s = fld ''semanticDigest'' b \<and>
    spec \<in> set (items_of ''negativeSideEffects'' s) \<and> is_lit (fld ''sideEffectId'' spec) c"
  using assms
  by (auto simp: resolveCriterionBinding_def split: option.splits json.splits list.splits
      dest: find_Some_iff' criterion_spec_Some)

lemma ticket_sources_authoritative:
  "ticket_sources sha sources = Inr bound \<Longrightarrow> sources = Some (JArr bound) \<and> (\<forall>s \<in> set bound. isAuthoritative sha (Some s))"
  using validateSourceSet_valid [of sha sources] by (auto simp: ticket_sources_def Let_def)

lemma ticket_steps:
  assumes "compileRepairTicket sha now ask response sources = Inr (contract, ticket)"
  obtains a r bound b s spec where "ask = Some a" "response = Some r" "decision_guards a r = Inr ()"
    "ticket_sources sha sources = Inr bound" "ticket_chain sha a r bound = Inr ()"
    "resolveCriterionBinding a bound = Inr (b, s, spec)" "convert_repair sha now a r s spec = Inr (contract, ticket)"
proof -
  obtain a r where ar [simp]: "ask = Some a" "response = Some r"
    using assms by (auto simp: compileRepairTicket_def plain_object_iff)
  obtain bound where parts: "decision_guards a r = Inr ()" "ticket_sources sha sources = Inr bound"
    "ticket_chain sha a r bound = Inr ()"
    "(case resolveCriterionBinding a bound of Inl code \<Rightarrow> Inl (ticket_error code)
      | Inr (b, s, spec) \<Rightarrow> convert_repair sha now a r s spec) = Inr (contract, ticket)"
    using assms unfolding compileRepairTicket_def ar option.sel by (auto simp del: split_paired_All split_paired_Ex)
  then obtain b s spec where "resolveCriterionBinding a bound = Inr (b, s, spec)"
    "convert_repair sha now a r s spec = Inr (contract, ticket)"
    by (cases "resolveCriterionBinding a bound") (auto split: prod.splits)
  with that ar parts(1-3) show thesis by blast
qed

text \<open>Looking a key up in a list of members written with optional parts.\<close>

lemma map_of_parts: "map_of (xs @ ys) k = (case map_of xs k of None \<Rightarrow> map_of ys k | Some v \<Rightarrow> Some v)"
  by (simp add: map_add_def split: option.split)

lemma repair_input_own:
  "own ''semanticContract'' (Some (repair_input a r s spec rid)) = Some s"
  "own ''rejectedAcceptanceRefs'' (Some (repair_input a r s spec rid)) = Some (JArr [or_null (criterion_ref (Some a))])"
  "own ''requiredBehavior'' (Some (repair_input a r s spec rid)) = fld ''requirement'' spec"
  "own ''mustChange'' (Some (repair_input a r s spec rid)) = own ''mustChange'' (repair_of r)"
  "own ''repairId'' (Some (repair_input a r s spec rid)) = Some (JStr rid)"
  by (auto simp: repair_input_def repair_fields_def map_of_parts simp del: map_of_append split: option.split)

lemma repair_draft_input_own:
  "fld ''repairId'' (repair_draft fresh now sem src refs input) = Some (or_else (own ''repairId'' input) fresh)"
  "fld ''requiredBehavior'' (repair_draft fresh now sem src refs input) = Some (or_null (own ''requiredBehavior'' input))"
  by (simp_all add: repair_draft_def Let_def)

lemma clone_items: "k \<noteq> ''__proto__'' \<Longrightarrow> items_of k (deep_clone_json v) = map deep_clone_json (items_of k v)"
  by (cases "fld k v" rule: arr_or_empty.cases) (auto simp: deep_clone_own)

text \<open>The repair contract of a ticket and its record carry what the source and the ask fix.\<close>

lemma built_repair:
  assumes "buildRepairContract sha JNull now (Some (repair_input a r s spec rid)) = Inr contract"
    and "criterion_ref (Some a) = Some (JStr c)"
  shows "fld ''contractKey'' contract = fld ''contractKey'' s \<and> fld ''sourceSemanticDigest'' contract = fld ''semanticDigest'' s"
    and "fld ''rejectedAcceptanceRefs'' contract = Some (JArr [JStr c])"
    and "\<exists>b. fld ''requirement'' spec = Some (JStr b) \<and> is_lit (fld ''requiredBehavior'' contract) b"
    and "is_lit (fld ''repairId'' contract) rid"
    and "items_of ''mustChange'' contract = map deep_clone_json (repair_items ''mustChange'' r)"
    and "\<forall>m \<in> set (repair_items ''mustChange'' r). \<exists>t. is_lit (fld ''target'' m) t"
proof -
  define input where "input = Some (repair_input a r s spec rid)"
  have inp: "own ''semanticContract'' input = Some s" "own ''rejectedAcceptanceRefs'' input = Some (JArr [JStr c])"
    "own ''requiredBehavior'' input = fld ''requirement'' spec" "own ''mustChange'' input = own ''mustChange'' (repair_of r)"
    "own ''repairId'' input = Some (JStr rid)"
    using assms(2) by (simp_all add: input_def repair_input_own or_null_def)
  obtain sem d where doc: "repair_document sha JNull now input = Inr (sem, d)" "contract = deep_clone_json d"
    using assms(1) by (auto simp: buildRepairContract_def input_def)
  from doc(1) obtain refs where *: "sem = s" "refs = [JStr c]"
    "assert_repair_input (items_of ''negativeSideEffects'' s) refs input = Inr ()"
    "d = repair_draft JNull now s (items_of ''negativeSideEffects'' s) refs input"
    by (rule repair_document_cases) (auto simp: inp)
  have req: "nonempty_string (fld ''requirement'' spec)"
    and change: "\<exists>ms. own ''mustChange'' (repair_of r) = Some (JArr ms) \<and> (\<forall>m \<in> set ms. \<exists>t. is_lit (fld ''target'' m) t)"
    using *(3) by (auto simp: assert_repair_input_def assertString_def assertArrayOf_eq_Inr assert_strings_eq_Inr inp
        nonempty_string_iff) blast
  show "fld ''contractKey'' contract = fld ''contractKey'' s \<and> fld ''sourceSemanticDigest'' contract = fld ''semanticDigest'' s"
    by (rule returned_repair [OF assms(1)]) (use inp(1) in \<open>simp add: input_def\<close>)
  show "fld ''rejectedAcceptanceRefs'' contract = Some (JArr [JStr c])"
    unfolding doc(2) *(4) by (simp add: deep_clone_own repair_draft_own *(2))
  show "\<exists>b. fld ''requirement'' spec = Some (JStr b) \<and> is_lit (fld ''requiredBehavior'' contract) b"
    "is_lit (fld ''repairId'' contract) rid"
    unfolding doc(2) *(4) using req
    by (auto simp: deep_clone_own repair_draft_input_own inp nonempty_string_iff or_null_def or_else_def)
  show "items_of ''mustChange'' contract = map deep_clone_json (repair_items ''mustChange'' r)"
    "\<forall>m \<in> set (repair_items ''mustChange'' r). \<exists>t. is_lit (fld ''target'' m) t"
    unfolding doc(2) *(4) using change
    by (auto simp: deep_clone_own repair_draft_own inp or_null_def repair_items_def)
qed

lemma converted:
  assumes "convert_repair sha now a r s spec = Inr (contract, ticket)"
  shows "\<forall>m \<in> set (repair_items ''mustChange'' r). fld ''target'' m = fld ''scope'' spec"
    and "buildRepairContract sha JNull now (Some (repair_input a r s spec (derived_repair_id sha a r s spec))) = Inr contract"
    and "validateRepairTicket (ticket_record sha a r s spec) (Some a) (Some r) = Inr []"
    and "ticket = deep_clone_json (ticket_record sha a r s spec)"
  using assms by (auto simp: convert_repair_def Let_def in_scope_def)

text \<open>
  The repair of the criterion \<open>c\<close>, which is the side effect \<open>spec\<close> of the source \<open>s\<close>: what the
  source, the ask and the response say is all the contract holds.
\<close>

definition repair_within :: "json \<Rightarrow> json \<Rightarrow> json \<Rightarrow> string \<Rightarrow> json \<Rightarrow> bool" where
  "repair_within contract s spec c r \<longleftrightarrow>
     fld ''contractKey'' contract = fld ''contractKey'' s \<and> fld ''sourceSemanticDigest'' contract = fld ''semanticDigest'' s \<and>
     fld ''rejectedAcceptanceRefs'' contract = Some (JArr [JStr c]) \<and>
     (\<exists>b. is_lit (fld ''requirement'' spec) b \<and> is_lit (fld ''requiredBehavior'' contract) b) \<and>
     items_of ''mustChange'' contract = map deep_clone_json (repair_items ''mustChange'' r) \<and>
     (\<forall>m \<in> set (items_of ''mustChange'' contract). fld ''target'' m = fld ''scope'' spec)"

lemma converted_within:
  assumes "convert_repair sha now a r s spec = Inr (contract, ticket)" and "criterion_ref (Some a) = Some (JStr c)"
  shows "repair_within contract s spec c r"
proof -
  note built = built_repair [OF converted(2) [OF assms(1)] assms(2)]
  have "fld ''target'' (deep_clone_json m) = fld ''scope'' spec" if "m \<in> set (repair_items ''mustChange'' r)" for m
    using converted(1) [OF assms(1)] built(6) that by (auto simp: deep_clone_own)
  then have "\<forall>m \<in> set (items_of ''mustChange'' contract). fld ''target'' m = fld ''scope'' spec"
    unfolding built(5) by simp
  with built(1,2,3,5) show ?thesis
    unfolding repair_within_def by blast
qed

lemma ticket_identity:
  assumes "convert_repair sha now a r s spec = Inr (contract, ticket)" and "criterion_ref (Some a) = Some (JStr c)"
  shows "is_lit (fld ''repairId'' contract) (derived_repair_id sha a r s spec)"
    and "is_lit (fld ''repairId'' ticket) (derived_repair_id sha a r s spec)"
    and "is_lit (fld ''ticketId'' ticket) (derived_repair_id sha a r s spec)"
    and "is_lit (fld ''conversionDigest'' ticket) (conversion_digest sha a r s spec)"
    and "fld ''rejectedAcceptanceRefs'' ticket = Some (JArr [JStr c])"
proof -
  show "is_lit (fld ''repairId'' contract) (derived_repair_id sha a r s spec)"
    by (rule built_repair(4) [OF converted(2) [OF assms(1)] assms(2)])
  have "is_lit (fld ''repairId'' (ticket_record sha a r s spec)) (derived_repair_id sha a r s spec)"
    "is_lit (fld ''ticketId'' (ticket_record sha a r s spec)) (derived_repair_id sha a r s spec)"
    "is_lit (fld ''conversionDigest'' (ticket_record sha a r s spec)) (conversion_digest sha a r s spec)"
    "fld ''rejectedAcceptanceRefs'' (ticket_record sha a r s spec) = Some (JArr [JStr c])"
    using assms(2)
    by (simp_all add: ticket_record_def Let_def map_of_parts or_null_def del: map_of_append split: option.split)
  then show "is_lit (fld ''repairId'' ticket) (derived_repair_id sha a r s spec)"
    "is_lit (fld ''ticketId'' ticket) (derived_repair_id sha a r s spec)"
    "is_lit (fld ''conversionDigest'' ticket) (conversion_digest sha a r s spec)"
    "fld ''rejectedAcceptanceRefs'' ticket = Some (JArr [JStr c])"
    unfolding converted(4) [OF assms(1)] by (simp_all add: deep_clone_own)
qed

text \<open>The conversion depends on a response only through its content without identity and time.\<close>

lemma same_content_own:
  assumes "response_content r' = response_content r" and "is_obj r" and "is_obj r'"
    and "k \<notin> {''schemaName'', ''schemaVersion'', ''responseId'', ''compiledAt''}"
  shows "fld k r' = fld k r"
proof -
  obtain kvs kvs' where r: "r = JObj kvs" "r' = JObj kvs'" using assms(2,3) by (auto simp: is_obj_iff)
  have "map_of (without ''compiledAt'' (without ''responseId'' (without ''schemaVersion'' (without ''schemaName'' kvs')))) k =
      map_of (without ''compiledAt'' (without ''responseId'' (without ''schemaVersion'' (without ''schemaName'' kvs)))) k"
    using assms(1) by (simp add: response_content_def r)
  with assms(4) show ?thesis by (simp add: r)
qed

lemma same_content_conversion:
  assumes "response_content r' = response_content r" and "is_obj r" and "is_obj r'"
  shows "conversion_digest sha a r' s spec = conversion_digest sha a r s spec"
proof -
  note own = same_content_own [OF assms]
  have "repair_of r' = repair_of r" "ticket_findings r' = ticket_findings r"
    by (simp_all add: repair_of_def ticket_findings_def own)
  then show ?thesis
    by (simp add: conversion_digest_def conversion_payload_def repair_fields_def repair_items_def assms(1))
qed

text \<open>
  Two tickets of one ask and source set from responses of the same content have one identity,
  whatever the clock and the identity and time of the responses.
\<close>

lemma ticket_objects:
  "compileRepairTicket sha now (Some a) (Some r) sources = Inr x \<Longrightarrow> is_obj a \<and> is_obj r"
  by (cases a; cases r) (simp_all add: compileRepairTicket_def)

lemma same_content_identity:
  assumes "compileRepairTicket sha now (Some a) (Some r) sources = Inr (contract, ticket)"
    and "compileRepairTicket sha now' (Some a) (Some r') sources = Inr (contract', ticket')"
    and "response_content r' = response_content r"
  shows "fld ''repairId'' contract' = fld ''repairId'' contract \<and> fld ''ticketId'' ticket' = fld ''ticketId'' ticket \<and>
    fld ''conversionDigest'' ticket' = fld ''conversionDigest'' ticket"
proof -
  obtain bound b s spec where t: "ticket_sources sha sources = Inr bound"
    "resolveCriterionBinding a bound = Inr (b, s, spec)" "convert_repair sha now a r s spec = Inr (contract, ticket)"
    using ticket_steps [OF assms(1)] by (metis option.inject)
  obtain bound' b' s' spec' where t': "ticket_sources sha sources = Inr bound'"
    "resolveCriterionBinding a bound' = Inr (b', s', spec')" "convert_repair sha now' a r' s' spec' = Inr (contract', ticket')"
    using ticket_steps [OF assms(2)] by (metis option.inject)
  have same: "s' = s" "spec' = spec"
    using t(1,2) t'(1,2) by simp_all
  obtain c where c: "criterion_ref (Some a) = Some (JStr c)"
    using claiming_refs_one [OF t(2)] by blast
  have "conversion_digest sha a r' s spec = conversion_digest sha a r s spec"
    using same_content_conversion [OF assms(3)] ticket_objects [OF assms(1)] ticket_objects [OF assms(2)] by blast
  then show ?thesis
    using ticket_identity [OF t(3) c] ticket_identity [OF t'(3) c] by (simp add: same derived_repair_id_def)
qed

text \<open>The criterion is one side effect of its source.\<close>

lemma only_effect:
  assumes "isAuthoritative sha (Some s)" and "spec \<in> set (items_of ''negativeSideEffects'' s)"
    and "is_lit (fld ''sideEffectId'' spec) c"
  shows "filter (\<lambda>e. is_lit (fld ''sideEffectId'' e) c) (items_of ''negativeSideEffects'' s) = [spec]"
  using filter_one' [OF authoritative_source(2) [OF assms(1)] assms(2)] assms(3) by simp

section \<open>The ask compiler\<close>

text \<open>What the preflight lets through.\<close>

definition single_decision :: "string \<Rightarrow> bool" where
  "single_decision q \<longleftrightarrow> countQuestionMarks q = 1 \<and> \<not> matches_any CONJUNCTIVE_QUESTION_PATTERNS q
     \<and> length (filter isDecisionClause (splitDecisionClauses (Some (JStr q)))) \<le> 1 \<and> length (concerns q) \<le> 1"

lemma first_hit_None: "first_hit xs = None \<longleftrightarrow> (\<forall>x \<in> set xs. x = None)"
  by (induction xs) (auto split: option.split)

lemma multiple_None: "detectMultipleQuestions (Some (JStr q)) = None \<longleftrightarrow> single_decision q"
  by (auto simp: single_decision_def)

lemma preflight_passed:
  "preflightSolRequest (Some (JStr q)) why scope t = None \<longleftrightarrow>
     single_decision q \<and> \<not> matches_any GENERIC_ASK_PATTERNS (preflight_context why q scope)
     \<and> \<not> matches_any EDIT_REQUEST_PATTERNS (preflight_context why q scope)
     \<and> detectCrossDomainQuestion (Some (JStr q)) t = None"
  unfolding preflightSolRequest_def Let_def first_hit_None
  by (simp add: multiple_None del: detectMultipleQuestions.simps detectCrossDomainQuestion.simps)

lemma draft_own:
  "fld ''singleDecisionQuestion'' (ask_draft fresh at input expected block budget evidence)
     = Some (or_null (fld ''singleDecisionQuestion'' input))"
  "fld ''askId'' (ask_draft fresh at input expected block budget evidence) = Some fresh"
  "fld ''evidence'' (ask_draft fresh at input expected block budget evidence) = Some (JArr evidence)"
  by (simp_all add: ask_draft_def map_of_parts del: map_of_append split: option.split)

lemma ask_steps:
  assumes "compileSolAsk sha fresh at sources prior (Some inp) = Inr doc"
  obtains bound draft expected pool prot block budget evidence truncated
  where "validateSourceSet sha sources = ([], bound)" "ask_guards inp = Inr expected"
    "evidence_pool inp = Inr pool" "protected_refs inp = Inr prot"
    "budget = or_else (fld ''evidenceBudget'' inp) DEFAULT_EVIDENCE_BUDGET"
    "applyEvidenceBudget (Some (JArr pool)) (Some budget) prot = Inr (evidence, truncated)"
    "draft = ask_draft fresh at inp expected block budget evidence"
    "validateSolAsk sha draft (Some (JArr bound)) prior = Inr []" "doc = deep_clone_json draft"
proof -
  obtain bound draft where doc: "ask_document sha fresh at sources prior inp = Inr (bound, draft)"
    "validateSolAsk sha draft (Some (JArr bound)) prior = Inr []" "doc = deep_clone_json draft"
    using assms unfolding compileSolAsk_def option.sel by auto
  from doc(1) show thesis
    unfolding ask_document_def Let_def
    by (cases "validateSourceSet sha sources") (auto intro!: that [OF _ _ _ _ refl _ _ doc(2,3)])
qed

lemma guarded_question:
  assumes "ask_guards inp = Inr expected"
  shows "\<exists>q. is_lit (fld ''singleDecisionQuestion'' inp) q \<and>
    preflightSolRequest (Some (JStr q)) (fld ''whyNeeded'' inp) (fld ''allowedScope'' inp) (fld ''callType'' inp) = None"
  using assms by (auto simp: ask_guards_def assertString_def nonempty_string_iff split: option.splits)

end
