(* ===== verification/Sol_Samples.thy ===== *)
theory Sol_Samples
  imports Sol_Laws Sol_Budget Lcim_Samples
begin

text \<open>
  Concrete documents for the witnesses: a diagnosis of the sample contract's side effect, its
  response and ticket, and a recheck of the finding.
\<close>

section \<open>A diagnosis\<close>

definition sample_ask_id :: json where
  "sample_ask_id = JStr (''lcim_sol_ask_'' @ zeros 32)"

definition sample_response_id :: json where
  "sample_response_id = JStr (''lcim_sol_resp_'' @ zeros 32)"

definition sample_finding_id :: json where
  "sample_finding_id = JStr (''lcim_finding_'' @ zeros 32)"

definition sample_contract_refs :: json where
  "sample_contract_refs = JArr [JObj [(''contractKey'', JStr ''order-status''), (''semanticDigest'', JStr (zeros 64)),
     (''requirementRefs'', JArr [JStr sample_effect_id])]]"

definition sample_evidence :: json where
  "sample_evidence = JObj [(''ref'', JStr ''ev.log''), (''content'', JStr ''one call'')]"

definition sample_ask_head :: "string \<Rightarrow> string \<Rightarrow> (string \<times> json) list" where
  "sample_ask_head t q = [(''callType'', JStr t), (''singleDecisionQuestion'', JStr q), (''whyNeeded'', JStr ''unknown''),
     (''contractRefs'', sample_contract_refs), (''passCondition'', JStr ''named''), (''failCondition'', JStr ''not named''),
     (''allowedScope'', JArr [JStr ''network'']), (''outOfScope'', JArr [JStr ''prices''])]"

definition sample_ask_input :: json where
  "sample_ask_input = JObj (sample_ask_head ''SOL_DIAGNOSE'' ''Why this call?'' @
     [(''evidence'', JArr [sample_evidence]),
      (''diagnose'', JObj [(''acceptanceCriterionRef'', JStr sample_effect_id), (''criterionRequirement'', JStr ''no call'')])])"

definition sample_ask :: json where
  "sample_ask = ask_draft sample_ask_id (JStr sample_time) sample_ask_input ''diagnose''
     (JObj [(''acceptanceCriterionRef'', JStr sample_effect_id), (''criterionRequirement'', JStr ''no call'')])
     DEFAULT_EVIDENCE_BUDGET [sample_evidence]"

definition sample_bound :: jsval where
  "sample_bound = Some (JArr [sample_contract])"

lemma sample_source_set: "validateSourceSet sample_sha sample_bound = ([], [sample_contract])"
  using sample_valid by (simp add: sample_bound_def source_issue_def entries_def) (simp add: sample_contract_def)

lemma sample_ask_schema: "validate_against_schema lcim_regexps sample_ask SOL_ASK_SCHEMA = Inr []"
  by code_simp

lemma sample_ask_intrinsic: "intrinsic_ask_issues sample_ask = []"
  by code_simp

lemma sample_ask_parts:
  "items_of ''contractRefs'' sample_ask = [JObj [(''contractKey'', JStr ''order-status''), (''semanticDigest'', JStr (zeros 64)),
     (''requirementRefs'', JArr [JStr sample_effect_id])]]"
  "call_type sample_ask ''SOL_DIAGNOSE''" "\<not> call_type sample_ask ''SOL_RECHECK''" "\<not> call_type sample_ask ''SOL_FINAL_REVIEW''"
  "criterion_ref (Some sample_ask) = Some (JStr sample_effect_id)"
  "own ''criterionRequirement'' (fld ''diagnose'' sample_ask) = Some (JStr ''no call'')"
  "plain_object (fld ''diagnose'' sample_ask)"
  by code_simp+

lemma sample_spec: "criterion_spec sample_contract (Some (JStr sample_effect_id)) = Some sample_stamped_effect"
  by code_simp

lemma sample_ask_bound: "applySourceBindingRules sample_sha sample_ask sample_bound = []"
proof -
  have ref: "contract_ref_issues [sample_contract] 0 (hd (items_of ''contractRefs'' sample_ask)) = []"
    "bound_source [sample_contract] (hd (items_of ''contractRefs'' sample_ask)) = Some sample_contract"
    "is_lit (fld ''compileStatus'' sample_contract) ''COMPILED''"
    by code_simp+
  have spec: "fld ''requirement'' sample_stamped_effect = Some (JStr ''no call'')"
    by (simp add: sample_stamped_effect_def)
  show ?thesis
    using ref spec
    by (simp add: applySourceBindingRules_def sample_source_set sample_ask_parts entries_def authority_issues_def
        locked_issues_def neighbor_issues_def criterion_source_issues_def sample_spec)
qed

lemma sample_ask_valid: "validateSolAsk sample_sha sample_ask sample_bound None = Inr []"
  by (simp add: validateSolAsk_def schema_then_Nil sample_ask_schema applyAskRules_def ask_rules_def
      sample_ask_intrinsic sample_ask_bound Let_def)

lemma sample_ask_alone: "validate_ask_alone sample_ask = Inr []"
  by (simp add: validate_ask_alone_def schema_then_Nil sample_ask_schema sample_ask_intrinsic)

lemma sample_ask_clean: "deep_clone_json sample_ask = sample_ask"
  by code_simp

lemma sample_compiled_ask:
  "compileSolAsk sample_sha sample_ask_id (JStr sample_time) sample_bound None (Some sample_ask_input) = Inr sample_ask"
proof -
  have steps: "assertPlainObject (Some sample_ask_input) ''SOL ask input'' = Inr ()"
    "ask_guards sample_ask_input = Inr ''diagnose''" "call_type sample_ask_input ''SOL_RECHECK'' = False"
    "evidence_pool sample_ask_input = Inr [sample_evidence]" "protected_refs sample_ask_input = Inr []"
    "or_else (fld ''evidenceBudget'' sample_ask_input) DEFAULT_EVIDENCE_BUDGET = DEFAULT_EVIDENCE_BUDGET"
    "applyEvidenceBudget (Some (JArr [sample_evidence])) (Some DEFAULT_EVIDENCE_BUDGET) [] = Inr ([sample_evidence], False)"
    "per_type_block sample_ask_input ''diagnose'' x = Inr (JObj [(''acceptanceCriterionRef'', JStr sample_effect_id),
       (''criterionRequirement'', JStr ''no call'')])" for x
    by code_simp+
  have "ask_document sample_sha sample_ask_id (JStr sample_time) sample_bound None sample_ask_input
    = Inr ([sample_contract], sample_ask)"
    unfolding ask_document_def Let_def sample_source_set steps by (simp add: steps sample_ask_def)
  then show ?thesis
    using sample_ask_valid by (simp add: compileSolAsk_def steps sample_ask_clean sample_bound_def)
qed

section \<open>Its response and ticket\<close>

definition sample_finding :: json where
  "sample_finding = JObj [(''findingId'', sample_finding_id), (''severity'', JStr ''CRITICAL''),
     (''invariantRef'', JStr sample_effect_id), (''summary'', JStr ''a call''), (''evidenceRefs'', JArr [JStr ''ev.log''])]"

definition sample_failure :: json where
  "sample_failure = JObj [(''rootCause'', JStr ''no guard''), (''evidenceRefs'', JArr [JStr ''ev.log'']),
     (''repair'', JObj [(''mustChange'', JArr [JObj [(''target'', JStr ''network''), (''change'', JStr ''guard'')]]),
        (''mustNotChange'', JArr [JObj [(''target'', JStr ''prices''), (''reason'', JStr ''frozen'')]]),
        (''exactTests'', JArr [JObj [(''name'', JStr ''zero''), (''expectation'', JStr ''no call''),
           (''acceptanceCriterionRef'', JStr sample_effect_id)]]),
        (''verification'', JArr [JObj [(''method'', JStr ''test''), (''expectation'', JStr ''zero'')]])]),
     (''falsification'', JStr ''a call'')]"

definition sample_response :: json where
  "sample_response = JObj [(''schemaName'', JStr ''lcim.sol-response''), (''schemaVersion'', JStr ''2.0.0''),
     (''responseId'', sample_response_id), (''askId'', sample_ask_id), (''callType'', JStr ''SOL_DIAGNOSE''),
     (''verdict'', JStr ''CAUSE_IDENTIFIED''), (''decisionSummary'', JStr ''no guard''), (''evidence'', JArr []),
     (''findings'', JArr [sample_finding]), (''failure'', sample_failure), (''compiledAt'', JStr sample_time)]"

lemma sample_response_valid:
  "validateSolResponse sample_response (Some sample_ask) None = Inr []"
  "validateSolResponse sample_response (Some sample_ask) sample_bound = Inr []"
  by code_simp+

definition sample_rid :: string where
  "sample_rid = ''lcim_repair_'' @ zeros 32"

definition sample_ticket_input :: json where
  "sample_ticket_input = repair_input sample_ask sample_response sample_contract sample_stamped_effect sample_rid"

definition sample_ticket_repair :: json where
  "sample_ticket_repair = repair_draft JNull JNull sample_contract [sample_stamped_effect] [JStr sample_effect_id]
     (Some sample_ticket_input)"

definition sample_bound_test :: json where
  "sample_bound_test = JObj [(''name'', JStr ''zero''), (''expectation'', JStr ''no call''),
     (''negativeSideEffectId'', JStr sample_effect_id), (''negativeSideEffectScope'', JStr ''network''),
     (''expectedSideEffectCount'', JInt 0)]"

lemma sample_ticket_fields:
  "own ''semanticContract'' (Some sample_ticket_input) = Some sample_contract"
  "own ''rejectedAcceptanceRefs'' (Some sample_ticket_input) = Some (JArr [JStr sample_effect_id])"
  "own ''acceptanceTests'' (Some sample_ticket_input) = Some (JArr [sample_bound_test])"
  "plain_object (Some sample_ticket_input)"
  by code_simp+

lemma sample_ticket_guards:
  "assert_repair_input [sample_stamped_effect] [JStr sample_effect_id] (Some sample_ticket_input) = Inr ()"
  "assert_rejected_refs (Some (JArr [JStr sample_effect_id])) = Inr [JStr sample_effect_id]"
  "assert_user_test [sample_stamped_effect] sample_bound_test = Inr ()"
  "source_by_id [sample_stamped_effect] (Some (JStr sample_effect_id)) = Some sample_stamped_effect"
  "is_lit (fld ''schemaName'' sample_contract) ''lcim.semantic-contract''" "plain_object (Some sample_contract)"
  by code_simp+

lemma sample_ticket_document:
  "repair_document sample_sha JNull JNull (Some sample_ticket_input) = Inr (sample_contract, sample_ticket_repair)"
  unfolding repair_document_def assertPlainObject_def sample_ticket_fields Let_def option.sel sample_source
  by (simp add: sample_ticket_fields(4) sample_authoritative sample_ticket_guards sample_ticket_repair_def del: option.sel)

lemma sample_ticket_schema: "validate_against_schema lcim_regexps sample_ticket_repair ACCEPTANCE_CONTRACT_SCHEMA = Inr []"
  by code_simp

lemma sample_ticket_sound: "count_issues sample_ticket_repair @ test_count_issues sample_ticket_repair
    @ rejected_ref_issues sample_ticket_repair = []"
  by code_simp

lemma sample_ticket_valid:
  "validateAcceptanceContract sample_sha sample_ticket_repair (Some sample_contract) = Inr ([], [])"
proof -
  have obj: "is_obj sample_ticket_repair" "is_obj sample_contract"
    by (simp_all add: sample_ticket_repair_def repair_draft_def sample_contract_def Let_def)
  have "binding_issues sample_sha sample_ticket_repair sample_contract = Inr []"
    by (rule repair_document_bound [OF sample_ticket_document sample_clean])
       (simp add: sample_ticket_fields sample_bound_test_def)
  moreover have "acceptance_sound sample_ticket_repair"
    using sample_ticket_sound unfolding base_issues_iff .
  ultimately show ?thesis
    using obj sample_ticket_schema sample_authoritative
    by (auto simp: validateAcceptanceContract_valid_iff applyAcceptanceRules_iff binding_issues_iff)
qed

lemma sample_derived: "derived_repair_id sample_sha a r s spec = sample_rid"
  by (simp add: derived_repair_id_def conversion_digest_def content_digest_def sample_sha_def sample_rid_def zeros_def)

lemma sample_ticket_record:
  "validateRepairTicket (ticket_record sample_sha sample_ask sample_response sample_contract sample_stamped_effect)
     (Some sample_ask) (Some sample_response) = Inr []"
  "isValidRepairId (Some (JStr sample_rid))"
  "in_scope sample_response sample_stamped_effect = Inr ()"
  by code_simp+

lemma sample_converted:
  "\<exists>contract ticket. convert_repair sample_sha JNull sample_ask sample_response sample_contract sample_stamped_effect
     = Inr (contract, ticket)"
  by (simp add: convert_repair_def Let_def sample_derived sample_ticket_record buildRepairContract_def
      sample_ticket_document sample_ticket_valid flip: sample_ticket_input_def)

lemma sample_resolved:
  "resolveCriterionBinding sample_ask [sample_contract]
     = Inr (hd (items_of ''contractRefs'' sample_ask), sample_contract, sample_stamped_effect)"
proof -
  have refs: "items_of ''requirementRefs'' (hd (items_of ''contractRefs'' sample_ask)) = [JStr sample_effect_id]"
    "fld ''contractKey'' sample_contract = fld ''contractKey'' (hd (items_of ''contractRefs'' sample_ask))"
    "fld ''semanticDigest'' sample_contract = fld ''semanticDigest'' (hd (items_of ''contractRefs'' sample_ask))"
    by code_simp+
  have "items_of ''contractRefs'' sample_ask = [hd (items_of ''contractRefs'' sample_ask)]"
    by (simp add: sample_ask_parts(1))
  moreover have "claiming_refs ask c = [b]" if "items_of ''contractRefs'' ask = [b]" "items_of ''requirementRefs'' b = [c]" for ask b c
    using that by (simp add: claiming_refs_def)
  ultimately have "claiming_refs sample_ask (JStr sample_effect_id) = [hd (items_of ''contractRefs'' sample_ask)]"
    using refs(1) by blast
  then show ?thesis
    using refs(2,3) by (simp add: resolveCriterionBinding_def sample_ask_parts(5) sample_spec)
qed

lemma sample_ticket:
  "\<exists>contract ticket. compileRepairTicket sample_sha JNull (Some sample_ask) (Some sample_response) sample_bound
     = Inr (contract, ticket)"
proof -
  have objects: "plain_object (Some sample_ask)" "plain_object (Some sample_response)"
    and decided: "decision_guards sample_ask sample_response = Inr ()"
    by code_simp+
  have sources: "ticket_sources sample_sha sample_bound = Inr [sample_contract]"
    by (simp add: ticket_sources_def sample_source_set sample_authoritative)
  have chain: "ticket_chain sample_sha sample_ask sample_response [sample_contract] = Inr ()"
    using sample_ask_valid sample_response_valid(2) by (simp add: ticket_chain_def sample_bound_def)
  show ?thesis
    unfolding compileRepairTicket_def option.sel
    using sample_converted by (simp add: objects decided sources chain sample_resolved)
qed

section \<open>A recheck\<close>

definition sample_delta :: json where
  "sample_delta = JObj [(''ref'', JStr ''ev.fix''), (''content'', JStr ''no call'')]"

definition sample_recheck_input :: json where
  "sample_recheck_input = JObj (sample_ask_head ''SOL_RECHECK'' ''Is the finding resolved?'' @
     [(''recheck'', JObj [(''priorFindingRef'', sample_finding_id), (''neighboringInvariants'', JArr [JStr sample_effect_id]),
        (''mustNotReopen'', JBool True), (''deltaEvidence'', JArr [sample_delta])])])"

definition sample_recheck_block :: json where
  "sample_recheck_block = JObj [(''priorFindingRef'', sample_finding_id), (''neighboringInvariants'', JArr [JStr sample_effect_id]),
     (''mustNotReopen'', JBool True), (''priorAskId'', sample_ask_id), (''priorResponseId'', sample_response_id),
     (''priorFindingDigest'', JStr (zeros 64)), (''deltaEvidenceRefs'', JArr [JStr ''ev.fix''])]"

definition sample_recheck :: json where
  "sample_recheck = ask_draft sample_ask_id (JStr sample_time) sample_recheck_input ''recheck'' sample_recheck_block
     DEFAULT_EVIDENCE_BUDGET [sample_delta]"

definition sample_prior :: jsval where
  "sample_prior = Some (JObj [(''ask'', sample_ask), (''response'', sample_response)])"

lemma sample_recheck_schema: "validate_against_schema lcim_regexps sample_recheck SOL_ASK_SCHEMA = Inr []"
  by code_simp

lemma sample_recheck_intrinsic: "intrinsic_ask_issues sample_recheck = []"
  by code_simp

lemma sample_recheck_bound: "applySourceBindingRules sample_sha sample_recheck sample_bound = []"
proof -
  have ref: "entries (items_of ''contractRefs'' sample_recheck) = [(0, hd (items_of ''contractRefs'' sample_recheck))]"
    "contract_ref_issues [sample_contract] 0 (hd (items_of ''contractRefs'' sample_recheck)) = []"
    "authority_issues [sample_contract] sample_recheck = []" "locked_issues sample_recheck = []"
    "neighbor_issues sample_recheck = []" "criterion_source_issues [sample_contract] sample_recheck = []"
    by code_simp+
  show ?thesis
    unfolding applySourceBindingRules_def Let_def sample_source_set fst_conv snd_conv ref(1)
    by (simp add: ref(2-))
qed

lemma sample_frozen: "frozen_issues_of sample_sha sample_recheck sample_ask sample_response = []"
proof -
  have chain: "own ''priorAskId'' (fld ''recheck'' sample_recheck) = fld ''askId'' sample_ask"
    "own ''priorResponseId'' (fld ''recheck'' sample_recheck) = fld ''responseId'' sample_response"
    "own ''priorFindingRef'' (fld ''recheck'' sample_recheck) = Some sample_finding_id"
    "own ''priorFindingDigest'' (fld ''recheck'' sample_recheck) = Some (JStr (zeros 64))"
    "items_of ''findings'' sample_response = [sample_finding]" "fld ''findingId'' sample_finding = Some sample_finding_id"
    by code_simp+
  then have "prior_finding sample_sha sample_response (Some sample_finding_id) = Some sample_finding"
    by (simp add: prior_finding_def)
  with chain show ?thesis
    by (simp add: frozen_issues_of_def content_digest_def sample_sha_def)
qed

lemma sample_provenance: "applyPriorProvenanceRules sample_sha sample_recheck sample_prior = Inr []"
proof -
  have parts: "own ''ask'' sample_prior = Some sample_ask" "own ''response'' sample_prior = Some sample_response"
    "is_obj sample_ask" "is_obj sample_response"
    by code_simp+
  obtain a r where ar: "sample_ask = JObj a" "sample_response = JObj r"
    using parts(3,4) by (auto simp: is_obj_iff)
  show ?thesis
    using sample_ask_alone sample_response_valid(1) sample_frozen
    by (simp add: applyPriorProvenanceRules_def parts ar)
qed

lemma sample_recheck_valid: "validateSolAsk sample_sha sample_recheck sample_bound sample_prior = Inr []"
  using sample_provenance
  by (simp add: validateSolAsk_def schema_then_Nil sample_recheck_schema applyAskRules_def ask_rules_def
      sample_recheck_intrinsic sample_recheck_bound Let_def)

definition sample_reported :: json where
  "sample_reported = JObj [(''findingId'', JStr (''lcim_finding_'' @ zeros 32)), (''severity'', JStr ''CRITICAL''),
     (''invariantRef'', sample_finding_id), (''summary'', JStr ''a call''), (''evidenceRefs'', JArr [JStr ''ev.fix''])]"

definition sample_recheck_response :: json where
  "sample_recheck_response = JObj [(''schemaName'', JStr ''lcim.sol-response''), (''schemaVersion'', JStr ''2.0.0''),
     (''responseId'', sample_response_id), (''askId'', sample_ask_id), (''callType'', JStr ''SOL_RECHECK''),
     (''verdict'', JStr ''NOT_RESOLVED''), (''decisionSummary'', JStr ''a call''), (''evidence'', JArr []),
     (''findings'', JArr [sample_reported]), (''compiledAt'', JStr sample_time)]"

lemma sample_recheck_response_valid:
  "validateSolResponse sample_recheck_response (Some sample_recheck) None = Inr []"
  "call_type sample_recheck_response ''SOL_RECHECK''" "call_type sample_recheck ''SOL_RECHECK''"
  "plain_object (fld ''recheck'' sample_recheck)"
  by code_simp+

section \<open>A truncation\<close>

definition sample_pool :: "json list" where
  "sample_pool = [JObj [(''ref'', JStr ''ev.a''), (''content'', JStr ''x''), (''decisionCritical'', JBool True)],
     JObj [(''ref'', JStr ''ev.b''), (''content'', JStr ''y'')], JObj [(''ref'', JStr ''ev.c''), (''content'', JStr ''z'')]]"

definition sample_budget :: json where
  "sample_budget = JObj [(''maxItems'', JInt 2), (''maxBytes'', JInt 240), (''onOverflow'', JStr ''TRUNCATE_SUMMARIZE'')]"

lemma sample_truncated:
  "applyEvidenceBudget (Some (JArr sample_pool)) (Some sample_budget) []
     = Inr ([hd sample_pool, truncation_marker 1 3 37 111], True)"
  by code_simp

end
