(* ===== verification/Common_Schemas.thy ===== *)
theory Common_Schemas
  imports Schema_Engine
begin

text \<open>
  The shared schemas, src/schemas/common, and the schemas of records, without their comments.
\<close>

text \<open>src/schemas/common/common-envelope.v2.schema.json.\<close>

definition ENVELOPE_SCHEMA :: json where
  "ENVELOPE_SCHEMA =
    JObj [
      (''$schema'', JStr ''https://json-schema.org/draft/2020-12/schema''),
      (''$id'', JStr ''https://lcim.local/schemas/common/common-envelope.v2.schema.json''),
      (''title'', JStr ''LCIM V2 shared record envelope''),
      (''type'', JStr ''object''),
      (''additionalProperties'', JBool False),
      (''required'', JArr [JStr ''schemaName'', JStr ''schemaVersion'']),
      (''properties'', JObj [
          (''schemaName'', JObj [
              (''enum'', JArr [JStr ''lcim.common.envelope'', JStr ''lcim.common.enums'', JStr ''lcim.common.run'',
                  JStr ''lcim.common.invocation'', JStr ''lcim.common.work-unit'',
                  JStr ''lcim.common.disposition'', JStr ''lcim.common.review-finding'',
                  JStr ''lcim.common.rejection'', JStr ''lcim.common.error''])]),
          (''schemaVersion'', JObj [(''const'', JStr ''2.0.0'')])])]"

text \<open>src/schemas/common/common-enums.v2.schema.json.\<close>

definition ENUMS_SCHEMA :: json where
  "ENUMS_SCHEMA =
    JObj [
      (''$schema'', JStr ''https://json-schema.org/draft/2020-12/schema''),
      (''$id'', JStr ''https://lcim.local/schemas/common/common-enums.v2.schema.json''),
      (''title'', JStr ''LCIM V2 shared enum registry snapshot''),
      (''type'', JStr ''object''),
      (''additionalProperties'', JBool False),
      (''required'', JArr [JStr ''schemaName'', JStr ''schemaVersion'', JStr ''workerStatus'',
          JStr ''controllerDisposition'', JStr ''runStatus'', JStr ''invocationEventKind'',
          JStr ''workUnitStatus'', JStr ''reviewFindingSeverity'', JStr ''rejectionCode'']),
      (''properties'', JObj [
          (''schemaName'', JObj [(''const'', JStr ''lcim.common.enums'')]),
          (''schemaVersion'', JObj [(''const'', JStr ''2.0.0'')]),
          (''workerStatus'', JObj [
              (''type'', JStr ''array''),
              (''minItems'', JInt 1),
              (''items'', JObj [
                  (''enum'', JArr [JStr ''WORK_COMPLETE'', JStr ''BLOCKED'', JStr ''FAILED'', JStr ''NO_CHANGE''])])]),
          (''controllerDisposition'', JObj [
              (''type'', JStr ''array''),
              (''minItems'', JInt 1),
              (''items'', JObj [
                  (''enum'', JArr [JStr ''PATCH_VALID'', JStr ''SEMANTICALLY_ACCEPTED'', JStr ''CANDIDATE_INTEGRATED'',
                      JStr ''REVIEW_APPROVED'', JStr ''REJECTED'', JStr ''REVIEW_REQUIRED''])])]),
          (''runStatus'', JObj [
              (''type'', JStr ''array''),
              (''minItems'', JInt 1),
              (''items'', JObj [
                  (''enum'', JArr [JStr ''OPEN'', JStr ''COMPLETED'', JStr ''INCOMPLETE_LEDGER'', JStr ''ABORTED''])])]),
          (''invocationEventKind'', JObj [
              (''type'', JStr ''array''),
              (''minItems'', JInt 1),
              (''items'', JObj [
                  (''enum'', JArr [JStr ''START'', JStr ''COMPLETION'', JStr ''ASSESSMENT'', JStr ''RECONCILIATION''])])]),
          (''workUnitStatus'', JObj [
              (''type'', JStr ''array''),
              (''minItems'', JInt 1),
              (''items'', JObj [
                  (''enum'', JArr [JStr ''CREATED'', JStr ''IN_PROGRESS'', JStr ''BLOCKED'', JStr ''COMPLETED'',
                      JStr ''FAILED''])])]),
          (''reviewFindingSeverity'', JObj [
              (''type'', JStr ''array''),
              (''minItems'', JInt 1),
              (''items'', JObj [(''enum'', JArr [JStr ''INFO'', JStr ''WARNING'', JStr ''CRITICAL''])])]),
          (''rejectionCode'', JObj [
              (''type'', JStr ''array''),
              (''minItems'', JInt 1),
              (''items'', JObj [
                  (''enum'', JArr [JStr ''TRANSPORT_MALFORMED'', JStr ''SCHEMA_MISMATCH'', JStr ''SEMANTIC_CONFLATION'',
                      JStr ''WRONG_BASE'', JStr ''SCOPE_VIOLATION'',
                      JStr ''UNRESOLVED_SEMANTICS'', JStr ''UNSUPPORTED_CLAIM'',
                      JStr ''INCOMPLETE_LEDGER'', JStr ''BUDGET_EXHAUSTED'',
                      JStr ''SECRET_DENIED_PATH'', JStr ''SOL_ASK_INVALID''])])])])]"

text \<open>src/schemas/common/common-run.v2.schema.json.\<close>

definition COMMON_RUN_SCHEMA :: json where
  "COMMON_RUN_SCHEMA =
    JObj [
      (''$schema'', JStr ''https://json-schema.org/draft/2020-12/schema''),
      (''$id'', JStr ''https://lcim.local/schemas/common/common-run.v2.schema.json''),
      (''title'', JStr ''LCIM V2 shared run record header''),
      (''type'', JStr ''object''),
      (''additionalProperties'', JBool False),
      (''required'', JArr [JStr ''schemaName'', JStr ''schemaVersion'', JStr ''runId'', JStr ''lifecycleState'',
          JStr ''lcimVersion'', JStr ''lcimCommit'', JStr ''targetBaseSha'',
          JStr ''configDigest'', JStr ''createdAt'']),
      (''properties'', JObj [
          (''schemaName'', JObj [(''const'', JStr ''lcim.common.run'')]),
          (''schemaVersion'', JObj [(''const'', JStr ''2.0.0'')]),
          (''runId'', JObj [
              (''type'', JStr ''string''),
              (''pattern'', JStr ''^lcim_run_[0-9a-f]{32}$'')]),
          (''lifecycleState'', JObj [
              (''enum'', JArr [JStr ''OPEN'', JStr ''COMPLETED'', JStr ''INCOMPLETE_LEDGER'', JStr ''ABORTED''])]),
          (''lcimVersion'', JObj [
              (''type'', JStr ''string''),
              (''pattern'', JStr (''^[0-9]+'' @ [CHR 0x5C] @ ''.[0-9]+'' @ [CHR 0x5C] @ ''.[0-9]+(-[0-9A-Za-z.-]+)?$''))]),
          (''lcimCommit'', JObj [
              (''type'', JArr [JStr ''string'', JStr ''null'']),
              (''pattern'', JStr ''^[0-9a-f]{40}$'')]),
          (''targetBaseSha'', JObj [(''type'', JStr ''string''), (''pattern'', JStr ''^[0-9a-f]{40}$'')]),
          (''configDigest'', JObj [(''type'', JStr ''string''), (''pattern'', JStr ''^[0-9a-f]{64}$'')]),
          (''createdAt'', JObj [
              (''type'', JStr ''string''),
              (''pattern'', JStr (''^[0-9]{4}-[0-9]{2}-[0-9]{2}T[0-9]{2}:[0-9]{2}:[0-9]{2}('' @ [CHR 0x5C] @ ''.[0-9]+)?(Z|[+-][0-9]{2}:[0-9]{2})$''))])])]"

text \<open>src/schemas/common/common-invocation.v2.schema.json.\<close>

definition COMMON_INVOCATION_SCHEMA :: json where
  "COMMON_INVOCATION_SCHEMA =
    JObj [
      (''$schema'', JStr ''https://json-schema.org/draft/2020-12/schema''),
      (''$id'', JStr ''https://lcim.local/schemas/common/common-invocation.v2.schema.json''),
      (''title'', JStr ''LCIM V2 shared invocation record header''),
      (''type'', JStr ''object''),
      (''additionalProperties'', JBool False),
      (''required'', JArr [JStr ''schemaName'', JStr ''schemaVersion'', JStr ''invocationId'', JStr ''runId'',
          JStr ''workUnitId'', JStr ''createdAt'']),
      (''properties'', JObj [
          (''schemaName'', JObj [(''const'', JStr ''lcim.common.invocation'')]),
          (''schemaVersion'', JObj [(''const'', JStr ''2.0.0'')]),
          (''invocationId'', JObj [
              (''type'', JStr ''string''),
              (''pattern'', JStr ''^lcim_inv_[0-9a-f]{32}$'')]),
          (''runId'', JObj [
              (''type'', JStr ''string''),
              (''pattern'', JStr ''^lcim_run_[0-9a-f]{32}$'')]),
          (''workUnitId'', JObj [(''type'', JStr ''string''), (''pattern'', JStr ''^lcim_wu_[0-9a-f]{32}$'')]),
          (''workerStatus'', JObj [
              (''enum'', JArr [JStr ''WORK_COMPLETE'', JStr ''BLOCKED'', JStr ''FAILED'', JStr ''NO_CHANGE''])]),
          (''createdAt'', JObj [
              (''type'', JStr ''string''),
              (''pattern'', JStr (''^[0-9]{4}-[0-9]{2}-[0-9]{2}T[0-9]{2}:[0-9]{2}:[0-9]{2}('' @ [CHR 0x5C] @ ''.[0-9]+)?(Z|[+-][0-9]{2}:[0-9]{2})$''))])])]"

text \<open>src/schemas/common/common-work-unit.v2.schema.json.\<close>

definition WORK_UNIT_SCHEMA :: json where
  "WORK_UNIT_SCHEMA =
    JObj [
      (''$schema'', JStr ''https://json-schema.org/draft/2020-12/schema''),
      (''$id'', JStr ''https://lcim.local/schemas/common/common-work-unit.v2.schema.json''),
      (''title'', JStr ''LCIM V2 shared work-unit record''),
      (''type'', JStr ''object''),
      (''additionalProperties'', JBool False),
      (''required'', JArr [JStr ''schemaName'', JStr ''schemaVersion'', JStr ''workUnitId'', JStr ''runId'',
          JStr ''status'', JStr ''expectedBaseSha'', JStr ''allowedWritePaths'',
          JStr ''createdAt'']),
      (''properties'', JObj [
          (''schemaName'', JObj [(''const'', JStr ''lcim.common.work-unit'')]),
          (''schemaVersion'', JObj [(''const'', JStr ''2.0.0'')]),
          (''workUnitId'', JObj [(''type'', JStr ''string''), (''pattern'', JStr ''^lcim_wu_[0-9a-f]{32}$'')]),
          (''runId'', JObj [
              (''type'', JStr ''string''),
              (''pattern'', JStr ''^lcim_run_[0-9a-f]{32}$'')]),
          (''status'', JObj [
              (''enum'', JArr [JStr ''CREATED'', JStr ''IN_PROGRESS'', JStr ''BLOCKED'', JStr ''COMPLETED'',
                  JStr ''FAILED''])]),
          (''expectedBaseSha'', JObj [(''type'', JStr ''string''), (''pattern'', JStr ''^[0-9a-f]{40}$'')]),
          (''allowedWritePaths'', JObj [
              (''type'', JStr ''array''),
              (''minItems'', JInt 1),
              (''items'', JObj [(''type'', JStr ''string'')])]),
          (''mustChangePaths'', JObj [
              (''type'', JStr ''array''),
              (''minItems'', JInt 1),
              (''items'', JObj [(''type'', JStr ''string'')])]),
          (''createdAt'', JObj [
              (''type'', JStr ''string''),
              (''pattern'', JStr (''^[0-9]{4}-[0-9]{2}-[0-9]{2}T[0-9]{2}:[0-9]{2}:[0-9]{2}('' @ [CHR 0x5C] @ ''.[0-9]+)?(Z|[+-][0-9]{2}:[0-9]{2})$''))])])]"

text \<open>src/schemas/common/common-disposition.v2.schema.json.\<close>

definition DISPOSITION_SCHEMA :: json where
  "DISPOSITION_SCHEMA =
    JObj [
      (''$schema'', JStr ''https://json-schema.org/draft/2020-12/schema''),
      (''$id'', JStr ''https://lcim.local/schemas/common/common-disposition.v2.schema.json''),
      (''title'', JStr ''LCIM V2 controller disposition record''),
      (''type'', JStr ''object''),
      (''additionalProperties'', JBool False),
      (''required'', JArr [JStr ''schemaName'', JStr ''schemaVersion'', JStr ''workUnitId'', JStr ''disposition'',
          JStr ''decidedAt'', JStr ''evidenceRefs'']),
      (''properties'', JObj [
          (''schemaName'', JObj [(''const'', JStr ''lcim.common.disposition'')]),
          (''schemaVersion'', JObj [(''const'', JStr ''2.0.0'')]),
          (''workUnitId'', JObj [(''type'', JStr ''string''), (''pattern'', JStr ''^lcim_wu_[0-9a-f]{32}$'')]),
          (''disposition'', JObj [
              (''enum'', JArr [JStr ''PATCH_VALID'', JStr ''SEMANTICALLY_ACCEPTED'', JStr ''CANDIDATE_INTEGRATED'',
                  JStr ''REVIEW_APPROVED'', JStr ''REJECTED'', JStr ''REVIEW_REQUIRED''])]),
          (''reasonCode'', JObj [
              (''enum'', JArr [JStr ''TRANSPORT_MALFORMED'', JStr ''SCHEMA_MISMATCH'', JStr ''SEMANTIC_CONFLATION'',
                  JStr ''WRONG_BASE'', JStr ''SCOPE_VIOLATION'', JStr ''UNRESOLVED_SEMANTICS'',
                  JStr ''UNSUPPORTED_CLAIM'', JStr ''INCOMPLETE_LEDGER'',
                  JStr ''BUDGET_EXHAUSTED'', JStr ''SECRET_DENIED_PATH'',
                  JStr ''SOL_ASK_INVALID''])]),
          (''decidedAt'', JObj [
              (''type'', JStr ''string''),
              (''pattern'', JStr (''^[0-9]{4}-[0-9]{2}-[0-9]{2}T[0-9]{2}:[0-9]{2}:[0-9]{2}('' @ [CHR 0x5C] @ ''.[0-9]+)?(Z|[+-][0-9]{2}:[0-9]{2})$''))]),
          (''evidenceRefs'', JObj [(''type'', JStr ''array''), (''items'', JObj [(''type'', JStr ''string'')])])])]"

text \<open>src/schemas/common/common-review-finding.v2.schema.json.\<close>

definition REVIEW_FINDING_SCHEMA :: json where
  "REVIEW_FINDING_SCHEMA =
    JObj [
      (''$schema'', JStr ''https://json-schema.org/draft/2020-12/schema''),
      (''$id'', JStr ''https://lcim.local/schemas/common/common-review-finding.v2.schema.json''),
      (''title'', JStr ''LCIM V2 review finding record''),
      (''type'', JStr ''object''),
      (''additionalProperties'', JBool False),
      (''required'', JArr [JStr ''schemaName'', JStr ''schemaVersion'', JStr ''findingId'', JStr ''severity'',
          JStr ''summary'', JStr ''evidenceRefs'', JStr ''createdAt'']),
      (''properties'', JObj [
          (''schemaName'', JObj [(''const'', JStr ''lcim.common.review-finding'')]),
          (''schemaVersion'', JObj [(''const'', JStr ''2.0.0'')]),
          (''findingId'', JObj [
              (''type'', JStr ''string''),
              (''pattern'', JStr ''^lcim_finding_[0-9a-f]{32}$'')]),
          (''severity'', JObj [(''enum'', JArr [JStr ''INFO'', JStr ''WARNING'', JStr ''CRITICAL''])]),
          (''invariantRef'', JObj [(''type'', JStr ''string''), (''minLength'', JInt 1)]),
          (''summary'', JObj [(''type'', JStr ''string''), (''minLength'', JInt 1)]),
          (''evidenceRefs'', JObj [(''type'', JStr ''array''), (''items'', JObj [(''type'', JStr ''string'')])]),
          (''createdAt'', JObj [
              (''type'', JStr ''string''),
              (''pattern'', JStr (''^[0-9]{4}-[0-9]{2}-[0-9]{2}T[0-9]{2}:[0-9]{2}:[0-9]{2}('' @ [CHR 0x5C] @ ''.[0-9]+)?(Z|[+-][0-9]{2}:[0-9]{2})$''))])])]"

text \<open>src/schemas/common/common-rejection.v2.schema.json.\<close>

definition REJECTION_SCHEMA :: json where
  "REJECTION_SCHEMA =
    JObj [
      (''$schema'', JStr ''https://json-schema.org/draft/2020-12/schema''),
      (''$id'', JStr ''https://lcim.local/schemas/common/common-rejection.v2.schema.json''),
      (''title'', JStr ''LCIM V2 rejection record''),
      (''type'', JStr ''object''),
      (''additionalProperties'', JBool False),
      (''required'', JArr [JStr ''schemaName'', JStr ''schemaVersion'', JStr ''workUnitId'', JStr ''rejectionCode'',
          JStr ''reason'', JStr ''evidenceRefs'', JStr ''rejectedAt'']),
      (''properties'', JObj [
          (''schemaName'', JObj [(''const'', JStr ''lcim.common.rejection'')]),
          (''schemaVersion'', JObj [(''const'', JStr ''2.0.0'')]),
          (''workUnitId'', JObj [(''type'', JStr ''string''), (''pattern'', JStr ''^lcim_wu_[0-9a-f]{32}$'')]),
          (''rejectionCode'', JObj [
              (''enum'', JArr [JStr ''TRANSPORT_MALFORMED'', JStr ''SCHEMA_MISMATCH'', JStr ''SEMANTIC_CONFLATION'',
                  JStr ''WRONG_BASE'', JStr ''SCOPE_VIOLATION'', JStr ''UNRESOLVED_SEMANTICS'',
                  JStr ''UNSUPPORTED_CLAIM'', JStr ''INCOMPLETE_LEDGER'',
                  JStr ''BUDGET_EXHAUSTED'', JStr ''SECRET_DENIED_PATH'',
                  JStr ''SOL_ASK_INVALID''])]),
          (''reason'', JObj [(''type'', JStr ''string''), (''minLength'', JInt 1)]),
          (''evidenceRefs'', JObj [(''type'', JStr ''array''), (''items'', JObj [(''type'', JStr ''string'')])]),
          (''rejectedAt'', JObj [
              (''type'', JStr ''string''),
              (''pattern'', JStr (''^[0-9]{4}-[0-9]{2}-[0-9]{2}T[0-9]{2}:[0-9]{2}:[0-9]{2}('' @ [CHR 0x5C] @ ''.[0-9]+)?(Z|[+-][0-9]{2}:[0-9]{2})$''))])])]"

text \<open>src/schemas/common/common-error.v2.schema.json.\<close>

definition COMMON_ERROR_SCHEMA :: json where
  "COMMON_ERROR_SCHEMA =
    JObj [
      (''$schema'', JStr ''https://json-schema.org/draft/2020-12/schema''),
      (''$id'', JStr ''https://lcim.local/schemas/common/common-error.v2.schema.json''),
      (''title'', JStr ''LCIM V2 error record''),
      (''type'', JStr ''object''),
      (''additionalProperties'', JBool False),
      (''required'', JArr [JStr ''schemaName'', JStr ''schemaVersion'', JStr ''code'', JStr ''message'']),
      (''properties'', JObj [
          (''schemaName'', JObj [(''const'', JStr ''lcim.common.error'')]),
          (''schemaVersion'', JObj [(''const'', JStr ''2.0.0'')]),
          (''code'', JObj [(''type'', JStr ''string''), (''pattern'', JStr ''^[A-Z][A-Z0-9_]*$'')]),
          (''message'', JObj [(''type'', JStr ''string''), (''minLength'', JInt 1)]),
          (''details'', JObj [(''type'', JStr ''object'')])])]"


text \<open>
  The schemas of the patch evidence and of the escalations to SOL Pro, without their comments.
\<close>

text \<open>src/schemas/patch-evidence.v2.schema.json.\<close>

definition PATCH_EVIDENCE_SCHEMA :: json where
  "PATCH_EVIDENCE_SCHEMA =
    JObj [
      (''$schema'', JStr ''https://json-schema.org/draft/2020-12/schema''),
      (''$id'', JStr ''https://lcim.local/schemas/patch-evidence.v2.schema.json''),
      (''title'', JStr ''LCIM V2 controller-owned patch evidence record''),
      (''type'', JStr ''object''),
      (''additionalProperties'', JBool False),
      (''required'', JArr [JStr ''schemaName'', JStr ''schemaVersion'', JStr ''evidenceId'', JStr ''patchId'',
          JStr ''workUnitId'', JStr ''worktreeId'', JStr ''baseSha'', JStr ''worktreeHead'',
          JStr ''changedPaths'', JStr ''additions'', JStr ''deletions'', JStr ''patchHash'',
          JStr ''diffCheck'', JStr ''createdAt'']),
      (''properties'', JObj [
          (''schemaName'', JObj [(''const'', JStr ''lcim.patch-evidence'')]),
          (''schemaVersion'', JObj [(''const'', JStr ''2.0.0'')]),
          (''evidenceId'', JObj [(''type'', JStr ''string''), (''pattern'', JStr ''^lcim_ev_[0-9a-f]{32}$'')]),
          (''patchId'', JObj [
              (''type'', JStr ''string''),
              (''pattern'', JStr ''^lcim_patch_[0-9a-f]{32}$'')]),
          (''workUnitId'', JObj [(''type'', JStr ''string''), (''pattern'', JStr ''^lcim_wu_[0-9a-f]{32}$'')]),
          (''worktreeId'', JObj [(''type'', JStr ''string''), (''pattern'', JStr ''^lcim_wt_[0-9a-f]{32}$'')]),
          (''baseSha'', JObj [(''type'', JStr ''string''), (''pattern'', JStr ''^[0-9a-f]{40}$'')]),
          (''worktreeHead'', JObj [(''type'', JStr ''string''), (''pattern'', JStr ''^[0-9a-f]{40}$'')]),
          (''changedPaths'', JObj [(''type'', JStr ''array''), (''items'', JObj [(''type'', JStr ''string'')])]),
          (''additions'', JObj [(''type'', JStr ''array''), (''items'', JObj [(''type'', JStr ''string'')])]),
          (''deletions'', JObj [(''type'', JStr ''array''), (''items'', JObj [(''type'', JStr ''string'')])]),
          (''patchHash'', JObj [(''type'', JStr ''string''), (''pattern'', JStr ''^[0-9a-f]{64}$'')]),
          (''diffCheck'', JObj [
              (''type'', JStr ''object''),
              (''additionalProperties'', JBool False),
              (''required'', JArr [JStr ''clean'']),
              (''properties'', JObj [
                  (''clean'', JObj [(''type'', JStr ''boolean'')]),
                  (''errors'', JObj [
                      (''type'', JStr ''array''),
                      (''items'', JObj [(''type'', JStr ''string'')])])])]),
          (''validationResults'', JObj [
              (''type'', JStr ''array''),
              (''minItems'', JInt 1),
              (''items'', JObj [
                  (''type'', JStr ''object''),
                  (''additionalProperties'', JBool False),
                  (''required'', JArr [JStr ''kind'', JStr ''outcome'', JStr ''summary'']),
                  (''properties'', JObj [
                      (''kind'', JObj [(''enum'', JArr [JStr ''test'', JStr ''secret-scan''])]),
                      (''outcome'', JObj [
                          (''enum'', JArr [JStr ''PASS'', JStr ''FAIL'', JStr ''NOT_RUN''])]),
                      (''summary'', JObj [(''type'', JStr ''string''), (''minLength'', JInt 1)]),
                      (''evidenceRef'', JObj [(''type'', JStr ''string''), (''minLength'', JInt 1)])])])]),
          (''createdAt'', JObj [
              (''type'', JStr ''string''),
              (''pattern'', JStr (''^[0-9]{4}-[0-9]{2}-[0-9]{2}T[0-9]{2}:[0-9]{2}:[0-9]{2}('' @ [CHR 0x5C] @ ''.[0-9]+)?(Z|[+-][0-9]{2}:[0-9]{2})$''))])])]"

text \<open>src/schemas/sol-pro-escalation.v2.schema.json.\<close>

definition PRO_ESCALATION_SCHEMA :: json where
  "PRO_ESCALATION_SCHEMA =
    JObj [
      (''$schema'', JStr ''https://json-schema.org/draft/2020-12/schema''),
      (''$id'', JStr ''https://lcim.local/schemas/sol-pro-escalation.v2.schema.json''),
      (''title'', JStr ''LCIM V2 local SOL Pro escalation record''),
      (''type'', JStr ''object''),
      (''additionalProperties'', JBool False),
      (''required'', JArr [JStr ''schemaName'', JStr ''schemaVersion'', JStr ''escalationId'', JStr ''findingId'',
          JStr ''createdAt'', JStr ''context'', JStr ''sources'', JStr ''exchanges'']),
      (''properties'', JObj [
          (''schemaName'', JObj [(''const'', JStr ''lcim.sol-pro-escalation'')]),
          (''schemaVersion'', JObj [(''const'', JStr ''2.0.0'')]),
          (''escalationId'', JObj [
              (''type'', JStr ''string''),
              (''pattern'', JStr ''^lcim_sol_pro_esc_[0-9a-f]{32}$'')]),
          (''findingId'', JObj [
              (''type'', JStr ''string''),
              (''pattern'', JStr ''^lcim_finding_[0-9a-f]{32}$'')]),
          (''createdAt'', JObj [
              (''type'', JStr ''string''),
              (''pattern'', JStr (''^[0-9]{4}-[0-9]{2}-[0-9]{2}T[0-9]{2}:[0-9]{2}:[0-9]{2}('' @ [CHR 0x5C] @ ''.[0-9]+)?(Z|[+-][0-9]{2}:[0-9]{2})$''))]),
          (''context'', JObj [
              (''type'', JStr ''object''),
              (''additionalProperties'', JBool False),
              (''properties'', JObj [
                  (''task'', JObj [
                      (''type'', JStr ''string''),
                      (''minLength'', JInt 1),
                      (''maxLength'', JInt 500)]),
                  (''previousAttempt'', JObj [
                      (''type'', JStr ''string''),
                      (''minLength'', JInt 1),
                      (''maxLength'', JInt 1000)]),
                  (''controllerRejection'', JObj [
                      (''type'', JStr ''string''),
                      (''minLength'', JInt 1),
                      (''maxLength'', JInt 1000)])])]),
          (''sources'', JObj [
              (''type'', JStr ''array''),
              (''minItems'', JInt 1),
              (''maxItems'', JInt 8),
              (''items'', JObj [(''type'', JStr ''object'')])]),
          (''exchanges'', JObj [
              (''type'', JStr ''array''),
              (''minItems'', JInt 1),
              (''maxItems'', JInt 16),
              (''items'', JObj [
                  (''type'', JStr ''object''),
                  (''additionalProperties'', JBool False),
                  (''required'', JArr [JStr ''sequence'', JStr ''kind'', JStr ''responseBindingId'', JStr ''askInput'',
                      JStr ''context'', JStr ''compiledAsk'', JStr ''canonicalResponse'',
                      JStr ''repairTicket'', JStr ''repairContract'', JStr ''copiedAt'',
                      JStr ''responseRecordedAt'']),
                  (''properties'', JObj [
                      (''sequence'', JObj [(''type'', JStr ''integer'')]),
                      (''kind'', JObj [(''enum'', JArr [JStr ''INITIAL'', JStr ''FOLLOW_UP''])]),
                      (''responseBindingId'', JObj [
                          (''type'', JStr ''string''),
                          (''pattern'', JStr ''^lcim_sol_pro_resp_[0-9a-f]{32}$'')]),
                      (''askInput'', JObj [(''type'', JStr ''object'')]),
                      (''context'', JObj [
                          (''type'', JStr ''object''),
                          (''additionalProperties'', JBool False),
                          (''properties'', JObj [
                              (''task'', JObj [
                                  (''type'', JStr ''string''),
                                  (''minLength'', JInt 1),
                                  (''maxLength'', JInt 500)]),
                              (''previousAttempt'', JObj [
                                  (''type'', JStr ''string''),
                                  (''minLength'', JInt 1),
                                  (''maxLength'', JInt 1000)]),
                              (''controllerRejection'', JObj [
                                  (''type'', JStr ''string''),
                                  (''minLength'', JInt 1),
                                  (''maxLength'', JInt 1000)])])]),
                      (''compiledAsk'', JObj [(''type'', JArr [JStr ''object'', JStr ''null''])]),
                      (''canonicalResponse'', JObj [(''type'', JArr [JStr ''object'', JStr ''null''])]),
                      (''repairTicket'', JObj [(''type'', JArr [JStr ''object'', JStr ''null''])]),
                      (''repairContract'', JObj [(''type'', JArr [JStr ''object'', JStr ''null''])]),
                      (''copiedAt'', JObj [
                          (''type'', JArr [JStr ''string'', JStr ''null'']),
                          (''pattern'', JStr (''^[0-9]{4}-[0-9]{2}-[0-9]{2}T[0-9]{2}:[0-9]{2}:[0-9]{2}('' @ [CHR 0x5C] @ ''.[0-9]+)?(Z|[+-][0-9]{2}:[0-9]{2})$''))]),
                      (''responseRecordedAt'', JObj [
                          (''type'', JArr [JStr ''string'', JStr ''null'']),
                          (''pattern'', JStr (''^[0-9]{4}-[0-9]{2}-[0-9]{2}T[0-9]{2}:[0-9]{2}:[0-9]{2}('' @ [CHR 0x5C] @ ''.[0-9]+)?(Z|[+-][0-9]{2}:[0-9]{2})$''))])])])])])]"

end
