(* ===== verification/Ctl_Records.thy ===== *)
theory Ctl_Records
  imports Common_Schemas Run_Lifecycle Sol_Ticket
begin

text \<open>
  The records the controller keeps beside the ledger: the registry of the shared schemas
  (src/src/shared/schema-registry.mjs) and the controller's files of a run
  (src/src/controller/state.mjs and the artifacts of the orchestrator).  A line of a file is kept as
  the value it holds.  An action of the controller works on the store of a run and returns its
  result, or the error it throws, with the store as it leaves it.
\<close>

section \<open>The registry of shared schemas\<close>

definition SCHEMA_VERSION :: string where
  "SCHEMA_VERSION = ''2.0.0''"

definition SCHEMA_MANIFEST :: "(string \<times> json) list" where
  "SCHEMA_MANIFEST =
     [(''lcim.common.envelope'', ENVELOPE_SCHEMA), (''lcim.common.enums'', ENUMS_SCHEMA),
      (''lcim.common.run'', COMMON_RUN_SCHEMA), (''lcim.common.invocation'', COMMON_INVOCATION_SCHEMA),
      (''lcim.common.work-unit'', WORK_UNIT_SCHEMA), (''lcim.common.disposition'', DISPOSITION_SCHEMA),
      (''lcim.common.review-finding'', REVIEW_FINDING_SCHEMA), (''lcim.common.rejection'', REJECTION_SCHEMA),
      (''lcim.common.error'', COMMON_ERROR_SCHEMA)]"

definition schemaNames :: "string list" where
  "schemaNames = map fst SCHEMA_MANIFEST"

text \<open>
  Every entry of the manifest has the same version.  (A name that \<open>Object.prototype\<close> has passes
  the \<open>in\<close> test of the source and then fails on the missing file; here it is unknown.)
\<close>

definition getSchemaVersion :: "string \<Rightarrow> string result" where
  "getSchemaVersion name =
     rbind (need (name \<in> set schemaNames) (ConfigError ''unknown schema name'')) (\<lambda>_. Inr SCHEMA_VERSION)"

definition loadSchema :: "string \<Rightarrow> json result" where
  "loadSchema name =
     (case map_of SCHEMA_MANIFEST name of
        None \<Rightarrow> Inl (ConfigError ''unknown schema name'')
      | Some s \<Rightarrow>
          rbind (need (nonempty_string (own ''$id'' (Some s))) (ConfigError ''missing $id'')) (\<lambda>_. Inr s))"

definition assertRejectedDispositionHasReasonCode :: "string \<Rightarrow> json \<Rightarrow> issue list" where
  "assertRejectedDispositionHasReasonCode name v =
     (if name = ''lcim.common.disposition'' \<and> is_lit (own ''disposition'' (Some v)) ''REJECTED''
         \<and> own ''reasonCode'' (Some v) = None
      then [(''reasonCode'', ''required when REJECTED'')] else [])"

definition validateCommonRecord :: "string \<Rightarrow> json \<Rightarrow> issue list result" where
  "validateCommonRecord name v =
     rbind (loadSchema name) (\<lambda>schema.
     rbind (validate_against_schema lcim_regexps v schema) (\<lambda>es.
     Inr (if es = [] then assertRejectedDispositionHasReasonCode name v else es)))"

definition stampRecord :: "string \<Rightarrow> jsval \<Rightarrow> json result" where
  "stampRecord name data =
     rbind (need (plain_object data) (ConfigError ''stampRecord requires a plain object'')) (\<lambda>_.
     rbind (getSchemaVersion name) (\<lambda>version.
     let rec = JObj (put ''schemaVersion'' (JStr version) (put ''schemaName'' (JStr name) (spread data))) in
     rbind (validateCommonRecord name rec) (\<lambda>es.
     rbind (need (es = []) (SchemaValidationError es)) (\<lambda>_. Inr rec))))"

section \<open>The store of a run and its actions\<close>

text \<open>The files below \<open>controller/\<close>; the artifacts are keyed by their kind and id.\<close>

record ctl_files =
  cf_events :: "json list"
  cf_routes :: "json list"
  cf_dispositions :: "json list"
  cf_rejections :: "json list"
  cf_findings :: "json list"
  cf_units :: "(string \<times> json) list"
  cf_candidates :: "(string \<times> json) list"
  cf_artifacts :: "((string \<times> string) \<times> json) list"

definition no_files :: ctl_files where
  "no_files = \<lparr>cf_events = [], cf_routes = [], cf_dispositions = [], cf_rejections = [], cf_findings = [],
     cf_units = [], cf_candidates = [], cf_artifacts = []\<rparr>"

record store =
  st_session :: session
  st_dir :: run_dir
  st_files :: ctl_files

text \<open>An action on a state; most of them work on the store of a run.\<close>

type_synonym ('s, 'a) action = "'s \<Rightarrow> 'a result \<times> 's"

type_synonym 'a act = "(store, 'a) action"

text \<open>Sequencing: an error leaves the store as the failing action left it.\<close>

definition act_bind :: "('s, 'a) action \<Rightarrow> ('a \<Rightarrow> ('s, 'b) action) \<Rightarrow> ('s, 'b) action" where
  "act_bind m k = (\<lambda>s. case m s of (Inl e, s') \<Rightarrow> (Inl e, s') | (Inr x, s') \<Rightarrow> k x s')"

text \<open>A pure computation that may throw.\<close>

definition act_of :: "'a result \<Rightarrow> ('s, 'a) action" where
  "act_of r = (\<lambda>s. (r, s))"

text \<open>\<open>try { m } catch { }\<close>: only the effects of the action remain.\<close>

definition attempt :: "('s, 'a) action \<Rightarrow> ('s, unit) action" where
  "attempt m = (\<lambda>s. (Inr (), snd (m s)))"

text \<open>An operation of the run store, and a change of the controller's files.\<close>

definition run_op :: "(session \<Rightarrow> run_dir \<Rightarrow> 'a step_result) \<Rightarrow> 'a act" where
  "run_op f = (\<lambda>s. case f (st_session s) (st_dir s) of
     (r, ss, d) \<Rightarrow> (r, s\<lparr>st_session := ss, st_dir := d\<rparr>))"

definition file_op :: "(ctl_files \<Rightarrow> ctl_files) \<Rightarrow> unit act" where
  "file_op f = (\<lambda>s. (Inr (), s\<lparr>st_files := f (st_files s)\<rparr>))"

lemmas [code_unfold] = act_bind_def act_of_def attempt_def run_op_def file_op_def

section \<open>The controller's files\<close>

definition appendControllerEvent :: "string \<Rightarrow> json \<Rightarrow> json act" where
  "appendControllerEvent now event =
     act_bind (act_of (need (is_obj event) (ConfigError ''controller event must be an object''))) (\<lambda>_.
     let at = own ''recordedAt'' (Some event);
         rec = JObj (put ''recordedAt'' (or_else at (JStr now)) (spread (Some event))) in
     act_bind (file_op (\<lambda>f. f\<lparr>cf_events := cf_events f @ [rec]\<rparr>)) (\<lambda>_. act_of (Inr rec)))"

definition persistRouteDecision :: "json \<Rightarrow> json act" where
  "persistRouteDecision decision =
     act_bind (file_op (\<lambda>f. f\<lparr>cf_routes := cf_routes f @ [decision]\<rparr>)) (\<lambda>_. act_of (Inr decision))"

definition persistDisposition :: "jsval \<Rightarrow> json act" where
  "persistDisposition data =
     act_bind (act_of (stampRecord ''lcim.common.disposition'' data)) (\<lambda>rec.
     act_bind (file_op (\<lambda>f. f\<lparr>cf_dispositions := cf_dispositions f @ [rec]\<rparr>)) (\<lambda>_. act_of (Inr rec)))"

definition persistRejection :: "jsval \<Rightarrow> json act" where
  "persistRejection data =
     act_bind (act_of (stampRecord ''lcim.common.rejection'' data)) (\<lambda>rec.
     act_bind (file_op (\<lambda>f. f\<lparr>cf_rejections := cf_rejections f @ [rec]\<rparr>)) (\<lambda>_. act_of (Inr rec)))"

text \<open>A finding without an id gets the fresh one; a missing summary is refused by the schema.\<close>

definition finding_fields :: "string \<Rightarrow> string \<Rightarrow> jsval \<Rightarrow> (string \<times> json) list" where
  "finding_fields now fresh data =
     [(''findingId'', or_else (own ''findingId'' data) (JStr fresh)),
      (''severity'', or_else (own ''severity'' data) (JStr ''CRITICAL''))]
     @ optional_field ''invariantRef'' (own ''invariantRef'' data)
     @ optional_field ''summary'' (own ''summary'' data)
     @ [(''evidenceRefs'', or_else (own ''evidenceRefs'' data) (JArr [])),
        (''createdAt'', or_else (own ''createdAt'' data) (JStr now))]"

definition persistFinding :: "string \<Rightarrow> string \<Rightarrow> jsval \<Rightarrow> json act" where
  "persistFinding now fresh data =
     act_bind (act_of (stampRecord ''lcim.common.review-finding'' (Some (JObj (finding_fields now fresh data))))) (\<lambda>rec.
     act_bind (file_op (\<lambda>f. f\<lparr>cf_findings := cf_findings f @ [rec]\<rparr>)) (\<lambda>_. act_of (Inr rec)))"

definition persistWorkUnit :: "jsval \<Rightarrow> json act" where
  "persistWorkUnit data =
     act_bind (act_of (stampRecord ''lcim.common.work-unit'' data)) (\<lambda>rec.
     act_bind (file_op (\<lambda>f. f\<lparr>cf_units := put (js_string (own ''workUnitId'' (Some rec))) rec (cf_units f)\<rparr>)) (\<lambda>_.
     act_of (Inr rec)))"

text \<open>A candidate is for review only, whatever its data says.\<close>

definition candidate_record :: "json \<Rightarrow> json" where
  "candidate_record c =
     JObj (put ''autoPublished'' (JBool False) (put ''publication'' (JStr ''REVIEWABLE_ONLY'')
       (fold (\<lambda>(k, v). put k v) (spread (Some c))
         [(''schemaName'', JStr ''lcim.controller.candidate''), (''schemaVersion'', JStr ''1.0.0'')])))"

definition persistCandidate :: "json \<Rightarrow> json act" where
  "persistCandidate c =
     act_bind (act_of (need (is_obj c) (ConfigError ''candidate must be an object''))) (\<lambda>_.
     let rec = candidate_record c in
     act_bind (file_op (\<lambda>f. f\<lparr>cf_candidates :=
         put (js_string (own ''workUnitId'' (Some rec))) rec (cf_candidates f)\<rparr>)) (\<lambda>_.
     act_of (Inr rec)))"

text \<open>An artifact is written once: \<open>flag: 'wx'\<close>.\<close>

definition persistSolArtifact :: "string \<Rightarrow> string \<Rightarrow> json \<Rightarrow> unit act" where
  "persistSolArtifact kind i v = (\<lambda>s.
     if map_of (cf_artifacts (st_files s)) (kind, i) \<noteq> None then (Inl (SystemError ''EEXIST''), s)
     else file_op (\<lambda>f. f\<lparr>cf_artifacts := cf_artifacts f @ [((kind, i), v)]\<rparr>) s)"

section \<open>Laws of actions\<close>

lemma act_bind_Inr: "m s = (Inr x, s') \<Longrightarrow> act_bind m k s = k x s'"
  by (simp add: act_bind_def)

lemma act_bind_Inl: "m s = (Inl e, s') \<Longrightarrow> act_bind m k s = (Inl e, s')"
  by (simp add: act_bind_def)

lemma act_bind_eq_Inr:
  "act_bind m k s = (Inr y, t) \<longleftrightarrow> (\<exists>x s'. m s = (Inr x, s') \<and> k x s' = (Inr y, t))"
  by (auto simp: act_bind_def split: prod.splits sum.splits)

lemma act_of_simps [simp, result_simps]: "act_of r s = (r, s)"
  by (simp add: act_of_def)

lemma act_bind_of [simp, result_simps]:
  "act_bind (act_of (Inr x)) k = k x" "act_bind (act_of (Inl e)) k = act_of (Inl e)"
  by (simp_all add: act_bind_def act_of_def)

lemma attempt_simps [simp]: "attempt m s = (Inr (), snd (m s))"
  by (simp add: attempt_def)

lemma file_op_simps [simp]: "file_op f s = (Inr (), s\<lparr>st_files := f (st_files s)\<rparr>)"
  by (simp add: file_op_def)

text \<open>
  A relation on states that is reflexive and transitive and that holds of every single operation
  holds of a composed action.
\<close>

locale store_relation =
  fixes R :: "'s \<Rightarrow> 's \<Rightarrow> bool"
  assumes R_refl: "R s s" and R_trans: "R s t \<Longrightarrow> R t u \<Longrightarrow> R s u"
begin

definition keeps :: "('s, 'a) action \<Rightarrow> bool" where
  "keeps m \<longleftrightarrow> (\<forall>s. R s (snd (m s)))"

lemma keepsI: "(\<And>s. R s (snd (m s))) \<Longrightarrow> keeps m"
  by (simp add: keeps_def)

lemma keepsD: "keeps m \<Longrightarrow> m s = (r, t) \<Longrightarrow> R s t"
  by (metis keeps_def snd_conv)

lemma keeps_of: "keeps (act_of r)"
  by (simp add: keeps_def R_refl)

lemma keeps_attempt: "keeps m \<Longrightarrow> keeps (attempt m)"
  by (simp add: keeps_def)

lemma keeps_bind: "keeps m \<Longrightarrow> (\<And>x. keeps (k x)) \<Longrightarrow> keeps (act_bind m k)"
  unfolding keeps_def act_bind_def
  by (auto split: prod.splits sum.splits) (metis R_trans snd_conv)+

end

text \<open>The files only grow: no event, route, disposition, rejection, finding or artifact is lost.\<close>

definition extends :: "'a list \<Rightarrow> 'a list \<Rightarrow> bool" where
  "extends xs ys \<longleftrightarrow> take (length xs) ys = xs"

definition files_grow :: "ctl_files \<Rightarrow> ctl_files \<Rightarrow> bool" where
  "files_grow f g \<longleftrightarrow>
     extends (cf_events f) (cf_events g) \<and> extends (cf_routes f) (cf_routes g) \<and>
     extends (cf_dispositions f) (cf_dispositions g) \<and> extends (cf_rejections f) (cf_rejections g) \<and>
     extends (cf_findings f) (cf_findings g) \<and> extends (cf_artifacts f) (cf_artifacts g)"

lemma extends_iff: "extends xs ys \<longleftrightarrow> (\<exists>zs. ys = xs @ zs)"
  by (metis append_eq_conv_conj append_take_drop_id extends_def)

lemma extends_refl [simp]: "extends xs xs" and extends_append [simp]: "extends xs (xs @ ys)"
  by (simp_all add: extends_def)

lemma extends_trans: "extends xs ys \<Longrightarrow> extends ys zs \<Longrightarrow> extends xs zs"
  by (auto simp: extends_iff)

lemma files_grow_refl [simp]: "files_grow f f"
  by (simp add: files_grow_def)

lemma files_grow_trans: "files_grow f g \<Longrightarrow> files_grow g h \<Longrightarrow> files_grow f h"
  by (auto simp: files_grow_def intro: extends_trans)

end
