(* ===== verification/Ctl_Bind.thy ===== *)
theory Ctl_Bind
  imports Ctl_Records Route_Policy
begin

text \<open>
  The pure helpers of the controller, src/src/controller/orchestrator.mjs: the codes of errors and
  rejections, the contract and the configuration of a run, the routing context, the asks the
  controller makes of SOL and the binding of a repair to a finding of the final review.
\<close>

section \<open>Codes\<close>

definition SEMANTIC_REJECTIONS :: "string list" where
  "SEMANTIC_REJECTIONS = [''SEMANTIC_CONFLATION'', ''UNRESOLVED_SEMANTICS'', ''UNSUPPORTED_CLAIM'']"

definition CANONICAL_REJECTION_CODES :: "string list" where
  "CANONICAL_REJECTION_CODES =
     [''TRANSPORT_MALFORMED'', ''SCHEMA_MISMATCH'', ''SEMANTIC_CONFLATION'', ''WRONG_BASE'', ''SCOPE_VIOLATION'',
      ''UNRESOLVED_SEMANTICS'', ''UNSUPPORTED_CLAIM'', ''INCOMPLETE_LEDGER'', ''BUDGET_EXHAUSTED'',
      ''SECRET_DENIED_PATH'', ''SOL_ASK_INVALID'']"

definition MAX_CONTROLLER_STEPS :: nat where
  "MAX_CONTROLLER_STEPS = 8"

definition canonicalRejectionCode :: "string \<Rightarrow> string" where
  "canonicalRejectionCode code = (if code \<in> set CANONICAL_REJECTION_CODES then code else ''UNSUPPORTED_CLAIM'')"

definition TRANSPORT_TAXONOMY_CODES :: "string list" where
  "TRANSPORT_TAXONOMY_CODES =
     [''TRANSPORT_CREDENTIAL_LEAK'', ''SOL_TRANSPORT_REJECTED'', ''SOL_TRANSPORT_SURFACE_VIOLATION'',
      ''SOL_OAUTH_RELOAD_FAILED'', ''SOL_TRANSPORT_CLEANUP_FAILED'', ''SOL_TRANSPORT_EVIDENCE_FAILED'',
      ''SOL_CREDENTIAL_SCAN_INCOMPLETE'', ''SOL_RESPONSE_TOO_LARGE'', ''CODEX_OAUTH_UNAVAILABLE'']"

definition publicErrorCode :: "lcim_error \<Rightarrow> string \<Rightarrow> string" where
  "publicErrorCode e fallback =
     (case e of
        BaseMismatchError \<Rightarrow> ''WRONG_BASE''
      | ScopeViolationError \<Rightarrow> ''SCOPE_VIOLATION''
      | WorktreeSafetyError \<Rightarrow> ''SCOPE_VIOLATION''
      | _ \<Rightarrow> (case error_code e of
           Some c \<Rightarrow> (if enum_text c then c else fallback)
         | None \<Rightarrow> fallback))"

definition STATIC_REASONS :: "(string \<times> string) list" where
  "STATIC_REASONS =
     [(''WRONG_BASE'', ''controller base checkpoint failed''),
      (''SCOPE_VIOLATION'', ''controller safety or write-scope validation failed''),
      (''TRANSPORT_MALFORMED'', ''provider response transport was malformed''),
      (''SCHEMA_MISMATCH'', ''provider response did not satisfy its reviewed schema''),
      (''SOL_ASK_INVALID'', ''compiled SOL decision contract was invalid''),
      (''PROCESS_TREE_QUIESCENCE_FAILED'',
       ''model-controlled descendant processes remained alive; invocation process-tree quiescence could not be proven''),
      (''TRANSPORT_CREDENTIAL_LEAK'',
       ''provider output contained credential material and was rejected; invocation fails closed''),
      (''SOL_TRANSPORT_REJECTED'',
       ''the SOL transport acceptance gate failed (status, error, timeout, completion, truncation, or credential checks)''),
      (''SOL_TRANSPORT_SURFACE_VIOLATION'',
       ''the isolated Pi agent surface contained unexpected authority-bearing files after the invocation''),
      (''SOL_OAUTH_RELOAD_FAILED'',
       ''the isolated Pi auth store could not be reloaded after the invocation; refreshed credential state cannot be verified''),
      (''SOL_TRANSPORT_CLEANUP_FAILED'',
       ''the controller-owned SOL transport surface could not be removed; cleanup failure fails closed''),
      (''SOL_TRANSPORT_RECONCILE_FAILED'', ''stale controller-owned SOL transport surfaces could not be reconciled at startup''),
      (''SOL_TEST_SEAM_NON_AUTHORITATIVE'',
       ''the run used controller-internal test seams and cannot grant production review authority''),
      (''SOL_CLASSIC_NO_AUTHORITY'',
       ''the classic sol-xhigh SOL execution branch has no production authority in 2.1; every SOL role runs through the strict openai-codex transport gate''),
      (''SOL_TRANSPORT_EVIDENCE_FAILED'', ''authoritative SOL transport proof evidence could not be persisted; the transport fails closed''),
      (''SOL_CREDENTIAL_SCAN_INCOMPLETE'',
       ''the credential analysis hit a search/view bound and is INCOMPLETE; the transport fails closed instead of claiming not-detected''),
      (''CODEX_OAUTH_UNAVAILABLE'',
       ''RE-AUTHENTICATION REQUIRED: the read-only real openai-codex source credential could not authenticate or refresh; LCIM did not modify it. Run `pi /login` (ChatGPT Plus/Pro Codex) and retry'')]"

definition static_reason :: "string \<Rightarrow> string" where
  "static_reason code =
     (case map_of STATIC_REASONS code of
        Some r \<Rightarrow> r
      | None \<Rightarrow> ''controller validation failed ('' @ code @ '')'')"

definition staticReason :: "lcim_error \<Rightarrow> string \<Rightarrow> string" where
  "staticReason e fallback = static_reason (publicErrorCode e fallback)"

text \<open>\<open>staticReason({ code }, fallback)\<close>.\<close>

definition reason_of_code :: "string \<Rightarrow> string \<Rightarrow> string" where
  "reason_of_code code fallback = static_reason (if enum_text code then code else fallback)"

section \<open>The contract and the configuration of a run\<close>

definition defaultSemanticContract :: "string \<Rightarrow> string list \<Rightarrow> json" where
  "defaultSemanticContract projectKey allowed =
     JObj [
       (''contractKey'', JStr (projectKey @ ''.default'')),
       (''title'', JStr (''Bounded implementation for '' @ projectKey)),
       (''riskClass'', JStr ''LOW_RISK''),
       (''sourceObjects'', JArr [JObj [(''key'', JStr ''project-config''), (''kind'', JStr ''config''),
          (''ref'', JStr ''.lcim/project.json''), (''authority'', JStr ''target project owner configuration'')]]),
       (''concepts'', JArr [JObj [(''name'', JStr ''candidatePatch''), (''kind'', JStr ''mutation''),
          (''authoritativeFieldNames'', JArr [JStr ''allowedWritePaths'']), (''ownership'', JStr ''LCIM controller''),
          (''sourceObjectKey'', JStr ''project-config''),
          (''failureBehavior'', JStr ''reject observed changes outside the controller allow-list''),
          (''notes'', JStr (''allowed paths: '' @ join_with '', '' allowed))]]),
       (''distinctConcepts'', JArr []),
       (''negativeSideEffects'', JArr [JObj [(''gate'', JStr ''controller authorization''), (''scope'', JStr ''mutation''),
          (''requirement'', JStr ''No candidate mutation is published before controller validation and reviewable-candidate recording.''),
          (''expectedCount'', JInt 0), (''evidenceKind'', JStr ''audit_log'')]]),
       (''factsEstablished'', JArr [
          JObj [(''fact'', JStr ''LCIM derives patch identity and changed paths from the isolated worktree.''),
            (''evidence'', JStr ''Sprint-03 controller pipeline'')],
          JObj [(''fact'', JStr ''Workers cannot decide patch readiness or publication.''),
            (''evidence'', JStr ''Sprint-00/Sprint-02 authority contract'')]]),
       (''unresolvedSemantics'', JArr [])]"

text \<open>The strings of a list of paths of the (normalized) configuration.\<close>

definition path_list :: "string \<Rightarrow> json \<Rightarrow> string list" where
  "path_list k config = map (\<lambda>v. js_string (Some v)) (arr_or_empty (own k (Some config)))"

definition compileProjectContract :: "digest_fun \<Rightarrow> string \<Rightarrow> json \<Rightarrow> json result" where
  "compileProjectContract sha now config =
     (let raw = or_else (own ''semanticContract'' (Some config))
            (defaultSemanticContract (js_string (own ''projectKey'' (Some config))) (path_list ''allowedWritePaths'' config)) in
      compileSemanticContract sha now (Some (JObj [(''compiledAt'', JStr now)])) (Some raw))"

text \<open>\<open>withLocalRouteEndpoints\<close> of src/src/controller/provider.mjs.\<close>

definition local_endpoint :: "string \<Rightarrow> json" where
  "local_endpoint role = JObj [(''baseUrl'', JStr (''local://controller-'' @ role)), (''kind'', JStr ''local-command'')]"

definition withLocalRouteEndpoints :: "json \<Rightarrow> bool \<Rightarrow> bool \<Rightarrow> json" where
  "withLocalRouteEndpoints projectConfig workerCommand solCommand =
     (let config = deep_clone_json projectConfig;
          eps = spread (own ''endpoints'' (Some config));
          eps1 = (if workerCommand \<and> map_of eps ''deepseek-v4-flash'' = None
                  then put ''deepseek-v4-flash'' (local_endpoint ''worker'') eps else eps);
          eps2 = (if solCommand \<and> map_of eps1 ''sol-xhigh'' = None \<and> map_of eps1 ''gpt-5.6-sol'' = None
                  then put ''sol-xhigh'' (local_endpoint ''sol'') eps1 else eps1) in
      JObj (put ''endpoints'' (JObj eps2) (spread (Some config))))"

text \<open>
  \<open>config[role].command = clone(command)\<close>.  The sections of a normalized configuration are
  objects; on anything but an object the assignment is lost or throws.
\<close>

definition with_command :: "string \<Rightarrow> json option \<Rightarrow> json \<Rightarrow> json result" where
  "with_command role command config =
     (case command of
        None \<Rightarrow> Inr config
      | Some argv \<Rightarrow>
          rbind (need (plain_object (own role (Some config))) TypeError) (\<lambda>_.
          Inr (JObj (put role (JObj (put ''command'' argv (spread (own role (Some config))))) (spread (Some config))))))"

definition effectiveRoutingConfig :: "json \<Rightarrow> json option \<Rightarrow> json option \<Rightarrow> json result" where
  "effectiveRoutingConfig projectConfig workerCommand solCommand =
     (let configured = (\<lambda>role. own ''command'' (own role (Some projectConfig)) \<noteq> Some JNull);
          config = withLocalRouteEndpoints projectConfig (workerCommand \<noteq> None \<or> configured ''worker'')
            (solCommand \<noteq> None \<or> configured ''sol'') in
      rbind (with_command ''worker'' workerCommand config) (\<lambda>config1.
      with_command ''sol'' solCommand config1))"

definition usesExternalProvider :: "json \<Rightarrow> string \<Rightarrow> bool" where
  "usesExternalProvider config role =
     nullish (own ''command'' (own (if role = ''SOL'' then ''sol'' else ''worker'') (Some config)))"

definition isExternalProviderAllowed :: "json \<Rightarrow> bool" where
  "isExternalProviderAllowed config \<longleftrightarrow> is_true (own ''externalProvider'' (own ''permissions'' (Some config)))"

definition isCodexSolModel :: "jsval \<Rightarrow> bool" where
  "isCodexSolModel m \<longleftrightarrow> is_lit m CODEX_SOL_MODEL"

section \<open>The requirements of a contract\<close>

definition sideEffectSpecs :: "json \<Rightarrow> json list" where
  "sideEffectSpecs contract = arr_or_empty (own ''negativeSideEffects'' (Some contract))"

definition spec_ids :: "json \<Rightarrow> json list" where
  "spec_ids contract = map (\<lambda>s. or_null (fld ''sideEffectId'' s)) (sideEffectSpecs contract)"

definition contractRefs :: "json \<Rightarrow> json" where
  "contractRefs contract =
     JArr [JObj (optional_field ''contractKey'' (own ''contractKey'' (Some contract))
       @ optional_field ''semanticDigest'' (own ''semanticDigest'' (Some contract))
       @ [(''requirementRefs'', JArr (spec_ids contract))])]"

section \<open>Evidence\<close>

text \<open>
  What the controller observed of a patch, the result of one validation, and an item of evidence:
  its reference, kind and content.
\<close>

record patch_record =
  pr_evidenceId :: string
  pr_patchId :: string
  pr_patchHash :: string
  pr_changedPaths :: "string list"
  pr_clean :: bool

record validation =
  va_kind :: string
  va_outcome :: string
  va_summary :: string
  va_ref :: "string option"

type_synonym evidence = "string \<times> string \<times> string"

definition evidence_json :: "evidence \<Rightarrow> json" where
  "evidence_json e = (case e of (r, k, c) \<Rightarrow> JObj [(''ref'', JStr r), (''kind'', JStr k), (''content'', JStr c)])"

fun validation_evidence :: "nat \<Rightarrow> validation list \<Rightarrow> evidence list" where
  "validation_evidence n [] = []"
| "validation_evidence n (v # vs) =
     (case va_ref v of Some r \<Rightarrow> r | None \<Rightarrow> ''validation:'' @ nat_str n, ''test_result'', va_summary v)
     # validation_evidence (Suc n) vs"

definition patch_evidence :: "string option \<Rightarrow> patch_record option \<Rightarrow> evidence list" where
  "patch_evidence evidenceId patchRecord =
     (case evidenceId of
        Some i \<Rightarrow> (if i = [] then [] else [(''patch:'' @ i, ''observation'', ''Controller-derived patch evidence was persisted.'')])
      | None \<Rightarrow> [])
     @ (case patchRecord of
          Some p \<Rightarrow>
            [(''controller:changed-paths'', ''observation'',
              ''Controller observed '' @ nat_str (length (pr_changedPaths p)) @ '' changed path(s) within the isolated worktree.''),
             (''controller:diff-check'', ''test_result'',
              ''Controller diff-check result: '' @ (if pr_clean p then ''clean'' else ''errors recorded'') @ ''.'')]
        | None \<Rightarrow> [])"

definition evidenceForController ::
  "string option \<Rightarrow> patch_record option \<Rightarrow> string option \<Rightarrow> validation list \<Rightarrow> evidence list" where
  "evidenceForController evidenceId patchRecord reason results =
     (let out = patch_evidence evidenceId patchRecord in
      out @ validation_evidence (length out) results
      @ (case reason of
           Some r \<Rightarrow> (if r = [] then [] else [(''controller:rejection'', ''observation'', r)])
         | None \<Rightarrow> []))"

text \<open>The patterns of \<open>secretScan\<close>; all of them ignore case.\<close>

definition class_of :: "string \<Rightarrow> regexp" where
  "class_of extra = Cls (\<lambda>c. (CHR ''a'' \<le> lower_ascii c \<and> lower_ascii c \<le> CHR ''z'') \<or> (CHR ''0'' \<le> c \<and> c \<le> CHR ''9'')
     \<or> c \<in> set extra)"

definition SECRET_PATTERNS :: "regexp list" where
  "SECRET_PATTERNS =
     [seqs [Bound, words_i [''sk-'', ''ghp_'', ''github_pat_'', ''glpat-''], Rep 12 None (class_of ''_-''), Bound],
      seqs [Bound, word_i ''bearer'', spaces, Rep 8 None (class_of ''._~+/-'')],
      seqs [word_i ''-----begin'',
        opt (seqs [word_i '' '', class_of [], Rep 0 None (class_of '' '')]), word_i '' private key-----''],
      seqs [Bound,
        alts [seqs [word_i ''api'', opt (Cls (\<lambda>c. c \<in> set ''_-'')), word_i ''key''],
          seqs [word_i ''access'', opt (Cls (\<lambda>c. c \<in> set ''_-'')), word_i ''token''], word_i ''password'', word_i ''secret''],
        Rep 0 None (Cls trim_char), Cls (\<lambda>c. c \<in> set '':=''), Rep 0 None (Cls trim_char),
        Rep 1 None (Cls (\<lambda>c. \<not> trim_char c \<and> c \<notin> set '',;''))]]"

definition secretScan :: "string \<Rightarrow> validation" where
  "secretScan text =
     (let found = list_ex (\<lambda>p. re_test p text) SECRET_PATTERNS in
      \<lparr>va_kind = ''secret-scan'', va_outcome = (if found then ''FAIL'' else ''PASS''),
       va_summary = (if found then ''controller secret scan found denied credential-shaped patch material''
                     else ''controller secret scan passed''),
       va_ref = Some ''validation:secret-scan''\<rparr>)"

text \<open>\<open>codexReauthenticationRequired\<close>: a status, an error text and the output of the provider.\<close>

definition any_char :: regexp where
  "any_char = Cls (\<lambda>c. c \<notin> set [CHR 0x0A, CHR 0x0D])"

definition anything :: regexp where
  "anything = Rep 0 None any_char"

definition REAUTHENTICATION_PATTERNS :: "regexp list" where
  "REAUTHENTICATION_PATTERNS =
     [seqs [word_of ''openai codex token '', alts [word_of ''refresh'', word_of ''exchange''], anything,
        alts [word_of ''fail'', word_of ''error'']],
      alts [word_of ''invalid_grant'', word_of ''invalid refresh token'',
        seqs [word_of ''refresh token'', anything, alts (map word_of [''invalid'', ''expired'', ''revoked''])]],
      alts [word_of ''401'', word_of ''unauthorized'', word_of ''authentication failed'', word_of ''not authenticated'',
        seqs [word_of ''oauth credential'', anything, alts (map word_of [''invalid'', ''expired''])]]]"

definition codexReauthenticationRequired :: "json \<Rightarrow> string option \<Rightarrow> string \<Rightarrow> string \<Rightarrow> bool" where
  "codexReauthenticationRequired status err stderr stdout \<longleftrightarrow>
     \<not> (status = JInt 0 \<and> err = None) \<and>
     (let text = to_lower ((case err of None \<Rightarrow> [] | Some e \<Rightarrow> e) @ [CHR 0x0A] @ stderr @ [CHR 0x0A] @ stdout) in
      list_ex (\<lambda>p. re_test p text) REAUTHENTICATION_PATTERNS)"

section \<open>The work unit and the routing context\<close>

definition createControllerWorkUnit :: "string \<Rightarrow> json \<Rightarrow> string \<Rightarrow> json \<Rightarrow> json \<Rightarrow> string \<Rightarrow> json" where
  "createControllerWorkUnit now runId workUnitId base config status =
     JObj ([(''workUnitId'', JStr workUnitId), (''runId'', runId), (''status'', JStr status), (''expectedBaseSha'', base)]
       @ optional_field ''allowedWritePaths'' (own ''allowedWritePaths'' (Some config))
       @ (if path_list ''mustChangePaths'' config \<noteq> []
          then optional_field ''mustChangePaths'' (own ''mustChangePaths'' (Some config)) else [])
       @ [(''createdAt'', JStr now)])"

definition routeCallType :: "string \<Rightarrow> string option" where
  "routeCallType decision = map_of SOL_TARGETS decision"

end
