(* ===== verification/Ctl_Ask.thy ===== *)
theory Ctl_Ask
  imports Ctl_Bind
begin

text \<open>
  The asks of the controller, src/src/controller/orchestrator.mjs: the one question of each call
  type with its fixed pass and fail conditions, and the binding of a repair to the finding of a
  final review.
\<close>

section \<open>The questions\<close>

text \<open>\<open>[...new Set(xs)]\<close>: the first occurrences.\<close>

definition uniq :: "'a list \<Rightarrow> 'a list" where
  "uniq xs = rev (remdups (rev xs))"

definition solQuestion :: "string \<Rightarrow> json \<Rightarrow> string" where
  "solQuestion callType contract =
     (if callType = ''SOL_CONTRACT_CHECK''
      then ''Are the exact semantics of contract '' @ js_string (own ''contractKey'' (Some contract))
        @ '' sufficiently specified for bounded implementation?''
      else if callType = ''SOL_DIAGNOSE''
      then ''Why does acceptance criterion ''
        @ (case spec_ids contract of
             i # _ \<Rightarrow> (if i = JNull then ''the declared controller criterion'' else js_string (Some i))
           | [] \<Rightarrow> ''the declared controller criterion'')
        @ '' fail in this work unit?''
      else if callType = ''SOL_FINAL_REVIEW''
      then ''Does the candidate satisfy every named high-risk invariant in the locked checklist?''
      else ''Is the exact prior finding resolved by the new delta evidence?'')"

definition whyNeeded :: "string \<Rightarrow> string" where
  "whyNeeded callType =
     (if callType = ''SOL_CONTRACT_CHECK''
      then ''The compiled contract contains unresolved high-risk semantics and implementation authority is blocked.''
      else if callType = ''SOL_DIAGNOSE''
      then ''The controller observed a bounded rejection and needs one falsifiable diagnosis before a targeted repair.''
      else if callType = ''SOL_FINAL_REVIEW''
      then ''A high-risk candidate requires a named final-review decision before it can be reviewably advanced.''
      else ''One exact prior finding received one bounded repair; only its new delta evidence may be considered.'')"

definition passCondition :: "string \<Rightarrow> string" where
  "passCondition callType =
     (if callType = ''SOL_CONTRACT_CHECK''
      then ''Return SUFFICIENTLY_SPECIFIED only when every locked semantic required for this unit is explicit and unambiguous.''
      else if callType = ''SOL_DIAGNOSE''
      then ''Return CAUSE_IDENTIFIED only with one root cause, bounded evidence, one smallest safe repair, and falsification.''
      else if callType = ''SOL_FINAL_REVIEW''
      then ''Return PASS only when every named invariant is directly supported by the bounded evidence.''
      else ''Return RESOLVED only when the prior finding is closed by the retained delta evidence.'')"

definition failCondition :: "string \<Rightarrow> string" where
  "failCondition callType =
     (if callType = ''SOL_CONTRACT_CHECK''
      then ''Return AMENDMENTS_REQUIRED when any required semantic is unresolved, contradictory, or ambiguous.''
      else if callType = ''SOL_DIAGNOSE''
      then ''Return CAUSE_UNRESOLVED when the single failure lacks a falsifiable bounded explanation.''
      else if callType = ''SOL_FINAL_REVIEW''
      then ''Return FAIL when a named invariant is not satisfied or a directly evidenced locked defect remains.''
      else ''Return NOT_RESOLVED when the exact prior finding still fails.'')"

definition askScope :: "json \<Rightarrow> json" where
  "askScope contract =
     (let specs = sideEffectSpecs contract in
      if specs = [] then JArr [JStr ''mutation'']
      else JArr (uniq (map (\<lambda>s. or_null (fld ''scope'' s)) specs)))"

section \<open>The ask\<close>

text \<open>The id of the first patch reference.\<close>

definition patch_ref :: "string list \<Rightarrow> string option" where
  "patch_ref refs = map_option (drop 6) (List.find (\<lambda>r. take 6 r = ''patch:'') refs)"

text \<open>The fields every call type shares, with the evidence that stays at the top.\<close>

definition ask_common :: "string \<Rightarrow> json \<Rightarrow> evidence list \<Rightarrow> (string \<times> json) list" where
  "ask_common callType contract shown =
     [(''callType'', JStr callType), (''singleDecisionQuestion'', JStr (solQuestion callType contract)),
      (''whyNeeded'', JStr (whyNeeded callType)), (''contractRefs'', contractRefs contract),
      (''establishedFacts'', JArr (take 8 (arr_or_empty (own ''factsEstablished'' (Some contract))))),
      (''evidence'', JArr (map evidence_json shown)), (''passCondition'', JStr (passCondition callType)),
      (''failCondition'', JStr (failCondition callType)), (''allowedScope'', askScope contract),
      (''outOfScope'', JArr [JStr ''generic review'', JStr ''unbounded refactoring'',
         JStr ''controller disposition changes'', JStr ''publication or push''])]"

definition items_or :: "evidence \<Rightarrow> evidence list \<Rightarrow> json" where
  "items_or d es = JArr (map evidence_json (if es \<noteq> [] then es else [d]))"

definition checklist_item :: "nat \<times> json \<Rightarrow> json" where
  "checklist_item p =
     (case p of (i, s) \<Rightarrow> JObj ([(''invariantId'', JStr (''invariant'' @ nat_str (Suc i)))]
        @ optional_field ''invariant'' (fld ''requirement'' s)
        @ optional_field ''lockedRequirementRef'' (fld ''sideEffectId'' s)))"

definition contract_check_block :: json where
  "contract_check_block =
     JObj [(''amendmentsOnly'', JBool True),
       (''expectedVerdicts'', JArr [JStr ''SUFFICIENTLY_SPECIFIED'', JStr ''AMENDMENTS_REQUIRED''])]"

definition diagnose_block :: "json \<Rightarrow> evidence list \<Rightarrow> json" where
  "diagnose_block spec es =
     JObj (optional_field ''acceptanceCriterionRef'' (fld ''sideEffectId'' spec)
       @ optional_field ''criterionRequirement'' (fld ''requirement'' spec)
       @ [(''priorEvidence'', items_or (''controller:rejection'', ''observation'',
            ''Controller recorded a bounded rejection for diagnosis.'') es)])"

definition final_review_block :: "json list \<Rightarrow> json" where
  "final_review_block specs =
     JObj [(''invariantChecklist'', JArr (map checklist_item (entries (take 16 specs)))),
       (''maxAdjacentCriticalDefects'', JInt 1)]"

definition recheck_input :: "json \<Rightarrow> json \<Rightarrow> json \<Rightarrow> evidence list \<Rightarrow> json" where
  "recheck_input contract prior finding es =
     JObj (optional_field ''priorFindingRef'' (fld ''findingId'' finding)
       @ optional_field ''priorAskId'' (own ''askId'' (fld ''ask'' prior))
       @ optional_field ''priorResponseId'' (own ''responseId'' (fld ''response'' prior))
       @ [(''deltaEvidence'', items_or (''controller:delta'', ''observation'',
            ''Controller recorded bounded delta evidence for recheck.'') es),
          (''neighboringInvariants'', JArr (take 8 (spec_ids contract))), (''mustNotReopen'', JBool True)])"

text \<open>\<open>prior\<close> and \<open>finding\<close> are \<open>None\<close> for \<open>null\<close>.\<close>

definition makeSolAsk ::
  "string \<Rightarrow> json \<Rightarrow> patch_record option \<Rightarrow> string list \<Rightarrow> json option \<Rightarrow> json option \<Rightarrow> json result" where
  "makeSolAsk callType contract patchRecord evidenceRefs prior finding =
     (let specs = sideEffectSpecs contract;
          es = patch_evidence (patch_ref evidenceRefs) patchRecord in
      if callType = ''SOL_CONTRACT_CHECK''
      then Inr (JObj (ask_common callType contract es @ [(''contractCheck'', contract_check_block)]))
      else if callType = ''SOL_DIAGNOSE''
      then (case specs of
              [] \<Rightarrow> Inl (ControllerError ''SOL_ASK_INVALID'')
            | s # _ \<Rightarrow> Inr (JObj (ask_common callType contract [] @ [(''diagnose'', diagnose_block s es)])))
      else if callType = ''SOL_FINAL_REVIEW''
      then rbind (need (specs \<noteq> []) (ControllerError ''SOL_ASK_INVALID'')) (\<lambda>_.
           Inr (JObj (ask_common callType contract es @ [(''finalReview'', final_review_block specs)])))
      else (case (prior, finding) of
              (Some p, Some f) \<Rightarrow>
                Inr (JObj (ask_common callType contract [] @ [(''recheck'', recheck_input contract p f es)]))
            | _ \<Rightarrow> Inl (ControllerError ''SOL_ASK_INVALID'')))"

section \<open>The binding of a repair to a finding\<close>

text \<open>
  The criterion of a finding: the locked requirement of the invariant it names in the ask, else the
  one it carries itself.
\<close>

definition finding_criterion :: "json \<Rightarrow> json \<Rightarrow> json" where
  "finding_criterion finding ask =
     (let checklist = arr_or_empty (own ''invariantChecklist'' (fld ''finalReview'' ask));
          invariant = List.find (\<lambda>i. fld ''invariantId'' i = fld ''invariantRef'' finding) checklist;
          locked = (case invariant of Some i \<Rightarrow> fld ''lockedRequirementRef'' i | None \<Rightarrow> None) in
      or_else locked (or_else (fld ''lockedRequirementRef'' finding) JNull))"

definition binding_repair_id :: "digest_fun \<Rightarrow> json \<Rightarrow> json \<Rightarrow> json \<Rightarrow> string" where
  "binding_repair_id sha finding ask response =
     ''lcim_repair_'' @ take 32 (sha (js_string (fld ''findingId'' finding) @ '':'' @ js_string (fld ''askId'' ask)
       @ '':'' @ js_string (fld ''responseId'' response)))"

definition binding_input :: "json \<Rightarrow> json \<Rightarrow> json \<Rightarrow> json \<Rightarrow> json \<Rightarrow> string \<Rightarrow> json" where
  "binding_input contract finding response criterion spec repairId =
     (let fid = js_string (fld ''findingId'' finding) in
      JObj ([(''semanticContract'', contract), (''rejectedAcceptanceRefs'', JArr [criterion]),
          (''objective'', JStr (''resolve final-review finding '' @ fid)),
          (''violation'', JStr (''final-review finding '' @ fid @ '': '' @ js_string (fld ''summary'' finding)))]
        @ optional_field ''requiredBehavior'' (fld ''requirement'' spec)
        @ [(''mustChange'', JArr [JObj (optional_field ''target'' (fld ''scope'' spec)
              @ [(''change'', JStr (''Resolve the controller-recorded final-review finding '' @ fid
                   @ '' without widening scope.''))])]),
           (''mustNotChange'', JArr [JObj [(''target'', JStr ''contract''),
              (''reason'', JStr ''preserve the locked semantic contract and every unrelated invariant'')]]),
           (''acceptanceTests'', JArr []),
           (''verification'', JArr [JObj ([(''method'', JStr ''controller validation and bound SOL_RECHECK'')]
              @ optional_field ''expectation'' (fld ''requirement'' spec))]),
           (''findingRefs'', JArr [or_null (fld ''findingId'' finding)]), (''repairId'', JStr repairId)]
        @ optional_field ''createdAt'' (fld ''compiledAt'' response)))"

text \<open>The binding record.  Its fields are those of the repair, the finding and the exchange.\<close>

definition binding_ticket :: "json \<Rightarrow> json \<Rightarrow> json \<Rightarrow> json \<Rightarrow> json" where
  "binding_ticket repairContract finding ask response =
     JObj ([(''kind'', JStr ''lcim.final-review-repair-binding''),
         (''findingId'', or_null (fld ''findingId'' finding)),
         (''defectKind'', or_else (fld ''defectKind'' finding) (JStr ''FINDING'')),
         (''repairId'', or_null (fld ''repairId'' repairContract)), (''sourceAskId'', or_null (fld ''askId'' ask)),
         (''sourceResponseId'', or_null (fld ''responseId'' response))]
       @ (if nullish (fld ''invariantRef'' finding) then [] else optional_field ''invariantRef'' (fld ''invariantRef'' finding))
       @ (if nullish (fld ''lockedRequirementRef'' finding) then []
          else optional_field ''lockedRequirementRef'' (fld ''lockedRequirementRef'' finding)))"

definition createFinalReviewRepairBinding ::
  "digest_fun \<Rightarrow> string \<Rightarrow> json \<Rightarrow> json \<Rightarrow> json \<Rightarrow> json \<Rightarrow> (json \<times> json) result" where
  "createFinalReviewRepairBinding sha now contract finding ask response =
     rbind (need (is_obj finding \<and> is_text (fld ''findingId'' finding)) (ControllerError ''SOL_ASK_INVALID'')) (\<lambda>_.
     let criterion = finding_criterion finding ask in
     case List.find (\<lambda>s. fld ''sideEffectId'' s = Some criterion) (sideEffectSpecs contract) of
       None \<Rightarrow> Inl (ControllerError ''SOL_ASK_INVALID'')
     | Some spec \<Rightarrow>
         rbind (buildRepairContract sha JNull (JStr now)
             (Some (binding_input contract finding response criterion spec (binding_repair_id sha finding ask response)))) (\<lambda>repair.
         Inr (repair, binding_ticket repair finding ask response)))"

end
