(* ===== verification/Ctl_Assess.thy ===== *)
theory Ctl_Assess
  imports Ctl_Ask Handoff_Assessment
begin

text \<open>
  How the controller judges an attempt, src/src/controller/orchestrator.mjs and the acceptance gate
  of src/src/controller/sol-transport.mjs.  Everything here is a function of what was observed: the
  result of the provider process, the verdicts of the Git inspection, the evidence collector, the
  validation copy, the credential scans and the transport proofs, which are components of their own.
\<close>

section \<open>The result of a provider\<close>

text \<open>
  A status is \<open>null\<close> or a number; what a failed invocation does not report is \<open>None\<close>.
\<close>

record provider_result =
  pv_status :: json
  pv_error :: "string option"
  pv_timedOut :: bool
  pv_truncated :: "bool option"
  pv_completed :: bool
  pv_identityBefore :: "bool option"
  pv_identityAfter :: "bool option"
  pv_stdout :: string
  pv_stderr :: string

text \<open>The result the controller records when the invocation throws.\<close>

definition failed_provider :: "string \<Rightarrow> provider_result" where
  "failed_provider message =
     \<lparr>pv_status = JNull, pv_error = Some message, pv_timedOut = False, pv_truncated = None, pv_completed = False,
      pv_identityBefore = None, pv_identityAfter = None, pv_stdout = [], pv_stderr = []\<rparr>"

definition provider_of :: "string + provider_result \<Rightarrow> provider_result" where
  "provider_of r = (case r of Inl m \<Rightarrow> failed_provider m | Inr p \<Rightarrow> p)"

definition provider_outcome :: "provider_result \<Rightarrow> string" where
  "provider_outcome p =
     (if pv_timedOut p then ''TIMEOUT''
      else if pv_error p \<noteq> None \<or> \<not> pv_completed p then ''TRANSPORT_ERROR''
      else if pv_status p = JInt 0 then ''SUCCESS'' else ''FAILURE'')"

section \<open>The assessment of a worker\<close>

record evidence_result =
  er_record :: patch_record
  er_evidenceId :: string
  er_patchText :: string

text \<open>
  One attempt as the controller observes it.  A component that throws is an error; \<open>wk_provider\<close>
  is \<open>Inl\<close> the message of the error the invocation threw.
\<close>

record worker_obs =
  wk_invocation :: string
  wk_boundary :: "(json \<times> json \<times> json \<times> string) result"
  wk_prompt :: "lcim_error option"
  wk_provider :: "string + provider_result"
  wk_settle :: "lcim_error option"
  wk_lifetime :: string
  wk_quiescent :: bool
  wk_safety :: "lcim_error option"
  wk_evidenceError :: "lcim_error option"
  wk_evidence :: "evidence_result option"
  wk_validation :: "string + (validation list \<times> string option)"
  wk_semantic :: "jsval result option"

record worker_outcome =
  wo_accepted :: bool
  wo_patchValid :: bool
  wo_transportValid :: bool
  wo_semanticAccepted :: bool
  wo_rejectionCode :: "string option"
  wo_patch :: "patch_record option"
  wo_handoff :: assessment
  wo_evidenceRefs :: "string list"

definition patch_text :: "worker_obs \<Rightarrow> string" where
  "patch_text ob = (case wk_evidence ob of None \<Rightarrow> [] | Some e \<Rightarrow> er_patchText e)"

text \<open>The results of the validation copy and of the secret scan; neither runs without a patch.\<close>

definition validation_results :: "worker_obs \<Rightarrow> validation list" where
  "validation_results ob =
     (if patch_text ob = [] then []
      else (case wk_validation ob of
              Inr (rs, _) \<Rightarrow> rs
            | Inl m \<Rightarrow> [\<lparr>va_kind = ''test'', va_outcome = ''FAIL'',
                va_summary = ''controller validation could not complete on the base+patch copy: '' @ m,
                va_ref = Some ''validation:test-execution''\<rparr>])
           @ [secretScan (patch_text ob)])"

definition validation_file :: "worker_obs \<Rightarrow> string option" where
  "validation_file ob =
     (if patch_text ob = [] then None else case wk_validation ob of Inr (_, f) \<Rightarrow> f | Inl _ \<Rightarrow> None)"

definition all_pass :: "string \<Rightarrow> validation list \<Rightarrow> bool" where
  "all_pass kind rs \<longleftrightarrow> list_all (\<lambda>v. va_outcome v = ''PASS'') (filter (\<lambda>v. va_kind v = kind) rs)"

definition patch_valid :: "worker_obs \<Rightarrow> bool" where
  "patch_valid ob \<longleftrightarrow>
     wk_safety ob = None \<and> wk_evidenceError ob = None \<and>
     (case wk_evidence ob of
        None \<Rightarrow> False
      | Some e \<Rightarrow> pr_changedPaths (er_record e) \<noteq> [] \<and> pr_clean (er_record e)) \<and>
     all_pass ''test'' (validation_results ob) \<and> all_pass ''secret-scan'' (validation_results ob)"

text \<open>
  The semantic decision: the validator of the caller, then the rejection the project configures.
  The code of a rejection may be any value.
\<close>

definition semantic_decision :: "json \<Rightarrow> worker_obs \<Rightarrow> (bool \<times> jsval) result" where
  "semantic_decision config ob =
     rbind (case (patch_valid ob, wk_semantic ob) of
        (True, Some r) \<Rightarrow>
          rbind r (\<lambda>d. case own ''accepted'' d of
              Some (JBool b) \<Rightarrow> Inr (b, if b then Some JNull else own ''rejectionCode'' d)
            | _ \<Rightarrow> Inl (ControllerError ''CONTROLLER_SEMANTIC_INVALID''))
      | _ \<Rightarrow> Inr (patch_valid ob, Some JNull)) (\<lambda>decision.
     let configured = own ''semanticRejectionCode'' (Some config) in
     Inr (if patch_valid ob \<and> configured \<noteq> Some JNull then (False, configured) else decision))"

definition transport_valid :: "string \<Rightarrow> assessment \<Rightarrow> bool" where
  "transport_valid unit handoff \<longleftrightarrow>
     schemaState (schema handoff) = ''VALID'' \<and> is_lit (own ''workUnitId'' (workerResult handoff)) unit"

definition worker_rejection :: "worker_obs \<Rightarrow> provider_result \<Rightarrow> bool \<Rightarrow> assessment \<Rightarrow> bool \<times> jsval \<Rightarrow> jsval" where
  "worker_rejection ob p transport handoff decision =
     (case wk_safety ob of
        Some e \<Rightarrow> Some (JStr (publicErrorCode e ''SCOPE_VIOLATION''))
      | None \<Rightarrow> (case wk_evidenceError ob of
          Some e \<Rightarrow> Some (JStr (publicErrorCode e ''SCOPE_VIOLATION''))
        | None \<Rightarrow>
            (if \<not> transport then
               (case transportDefect handoff of
                  Some d \<Rightarrow> Some (JStr d)
                | None \<Rightarrow> Some (JStr (if pv_status p = JInt 0 then ''SCHEMA_MISMATCH'' else ''TRANSPORT_MALFORMED'')))
             else if \<not> patch_valid ob then
               (if list_ex (\<lambda>v. va_kind v = ''secret-scan'' \<and> va_outcome v = ''FAIL'') (validation_results ob) then Some (JStr ''SECRET_DENIED_PATH'')
                else Some (JStr ''SCOPE_VIOLATION''))
             else if \<not> fst decision then
               (if nullish (snd decision) then Some (JStr ''UNSUPPORTED_CLAIM'') else snd decision)
             else None)))"

text \<open>\<open>canonicalRejectionCode(code ?? 'UNSUPPORTED_CLAIM')\<close> of any value.\<close>

definition canonical_code :: "jsval \<Rightarrow> string" where
  "canonical_code v = (case v of Some (JStr c) \<Rightarrow> canonicalRejectionCode c | _ \<Rightarrow> ''UNSUPPORTED_CLAIM'')"

definition judge_worker :: "json \<Rightarrow> string \<Rightarrow> worker_obs \<Rightarrow> provider_result \<Rightarrow> assessment \<Rightarrow> worker_outcome result" where
  "judge_worker config unit ob p handoff =
     (let patch = map_option er_record (wk_evidence ob); transport = transport_valid unit handoff in
      rbind (semantic_decision config ob) (\<lambda>decision.
      let accepted = (patch_valid ob \<and> transport \<and> fst decision \<and> pv_status p = JInt 0);
          code = (if accepted then None else Some (canonical_code (worker_rejection ob p transport handoff decision)));
          refs = evidenceForController (map_option er_evidenceId (wk_evidence ob)) patch
                   (map_option (\<lambda>c. reason_of_code c c) code) (validation_results ob) in
      Inr \<lparr>wo_accepted = accepted, wo_patchValid = patch_valid ob, wo_transportValid = transport,
           wo_semanticAccepted = fst decision, wo_rejectionCode = code, wo_patch = patch, wo_handoff = handoff,
           wo_evidenceRefs = map fst refs
             @ (case validation_file ob of None \<Rightarrow> [] | Some f \<Rightarrow> [''validation-evidence:'' @ f])\<rparr>))"

section \<open>The acceptance gate of the SOL transport\<close>

record transport_proof =
  tp_status :: json
  tp_error :: "string option"
  tp_timedOut :: bool
  tp_truncated :: "bool option"
  tp_completed :: bool
  tp_identityBefore :: "bool option"
  tp_identityAfter :: "bool option"
  tp_processAbsence :: bool
  tp_quiescence :: bool
  tp_surface :: bool
  tp_credentialScan :: bool
  tp_cleanup :: bool
  tp_nonAuthoritative :: bool

record gate =
  gate_ok :: bool
  gate_authoritative :: bool
  gate_failures :: "string list"

text \<open>
  \<open>assessSolTransportResult\<close>: every proof is required exactly; a missing one is a failure.  The
  authority of a proof is one of the two the controller writes.
\<close>

definition assessSolTransportResult :: "transport_proof \<Rightarrow> bool \<Rightarrow> gate" where
  "assessSolTransportResult p allowTestSeam =
     (let required =
        [(tp_status p = JInt 0, ''status''), (tp_error p = None, ''transport-error''),
         (\<not> tp_timedOut p, ''timeout''), (tp_truncated p = Some False, ''output-truncated''),
         (tp_completed p, ''process-not-completed''),
         (tp_identityBefore p = Some True, ''identity-before-spawn-unverified''),
         (tp_identityAfter p = Some True, ''entrypoint-identity-changed''),
         (tp_processAbsence p, ''process-absence-unverified''), (tp_quiescence p, ''quiescence-unverified''),
         (tp_surface p, ''surface-unverified''), (tp_credentialScan p, ''credential-scan-failed''),
         (tp_cleanup p, ''cleanup-unverified''),
         (\<not> tp_nonAuthoritative p \<or> allowTestSeam, ''review-authority'')];
          failures = map snd (filter (\<lambda>r. \<not> fst r) required) in
      \<lparr>gate_ok = (failures = []), gate_authoritative = (\<not> tp_nonAuthoritative p), gate_failures = failures\<rparr>)"

definition assessEvidencePersistenceFailure :: "bool \<Rightarrow> string option" where
  "assessEvidencePersistenceFailure accepted = (if accepted then Some ''SOL_TRANSPORT_EVIDENCE_FAILED'' else None)"

section \<open>The transport of a SOL invocation\<close>

text \<open>
  \<open>so_proofs\<close> are the facts observed after the exit: the reload of the credential store, the
  surface inspection, and the raw credential scan (a detection, and whether it was complete).
  \<open>so_canonical\<close> is the scan of the parsed values: \<open>Inl\<close> the code of the error when they could
  not be collected.  \<open>so_acquired\<close> says that the run has its credential store after the attempt, and
  \<open>so_failPaths\<close> the evidence files (process lifetime, transport) an attempt that threw has left.
  The evidence files are \<open>None\<close> when they could not be written.
\<close>

record sol_obs =
  so_invocation :: string
  so_askId :: string
  so_responseId :: string
  so_store :: "lcim_error option"
  so_nonAuthoritative :: bool
  so_provider :: "string + provider_result"
  so_settle :: "lcim_error option"
  so_lifetime :: string
  so_quiescent :: bool
  so_absence :: bool
  so_proofs :: "(bool \<times> bool \<times> bool \<times> bool) result"
  so_cleanup :: bool
  so_proofFile :: "string option"
  so_canonical :: "string + (bool \<times> bool)"
  so_semanticFile :: "string option"
  so_acquired :: bool
  so_failPaths :: "string list \<times> string list"

definition transport_proof_of :: "sol_obs \<Rightarrow> provider_result \<Rightarrow> bool \<Rightarrow> bool \<Rightarrow> transport_proof" where
  "transport_proof_of ob p surface scan =
     \<lparr>tp_status = pv_status p, tp_error = pv_error p, tp_timedOut = pv_timedOut p, tp_truncated = pv_truncated p,
      tp_completed = pv_completed p, tp_identityBefore = pv_identityBefore p, tp_identityAfter = pv_identityAfter p,
      tp_processAbsence = so_absence ob, tp_quiescence = so_quiescent ob, tp_surface = surface,
      tp_credentialScan = scan, tp_cleanup = so_cleanup ob, tp_nonAuthoritative = so_nonAuthoritative ob\<rparr>"

text \<open>\<open>parseProviderJson\<close>: the value, when there is one.\<close>

definition parseProviderJson :: "string \<Rightarrow> json option" where
  "parseProviderJson raw =
     (if blank_text raw then None
      else case parseWorkerResponse (Some (JStr raw)) of Inl _ \<Rightarrow> None | Inr (v, _) \<Rightarrow> Some v)"

text \<open>
  What the transport of an invocation comes to: the code it is refused with, if any, and the result
  of the provider as the later stages see it.  The first gate guards the parser; the second, with the
  scan of the parsed values, everything after it.
\<close>

definition first_refusal :: "sol_obs \<Rightarrow> provider_result \<Rightarrow> bool \<times> bool \<times> bool \<times> bool \<Rightarrow> string option" where
  "first_refusal ob p proofs =
     (case proofs of (reloaded, surface, leak, full) \<Rightarrow>
        (if gate_ok (assessSolTransportResult
             (transport_proof_of ob p surface (reloaded \<and> full \<and> \<not> leak)) (so_nonAuthoritative ob))
         then None
         else Some (if leak then ''TRANSPORT_CREDENTIAL_LEAK''
           else if \<not> reloaded then ''SOL_OAUTH_RELOAD_FAILED''
           else if \<not> surface then ''SOL_TRANSPORT_SURFACE_VIOLATION''
           else if \<not> so_cleanup ob then ''SOL_TRANSPORT_CLEANUP_FAILED''
           else if \<not> full then ''SOL_CREDENTIAL_SCAN_INCOMPLETE''
           else if codexReauthenticationRequired (pv_status p) (pv_error p) (pv_stderr p) (pv_stdout p)
           then ''CODEX_OAUTH_UNAVAILABLE'' else ''SOL_TRANSPORT_REJECTED'')))"

definition second_refusal :: "sol_obs \<Rightarrow> provider_result \<Rightarrow> bool \<Rightarrow> string option" where
  "second_refusal ob p surface =
     (let scanned = (case so_canonical ob of Inr (leak, full) \<Rightarrow> full \<and> \<not> leak | Inl _ \<Rightarrow> False) in
      if gate_ok (assessSolTransportResult (transport_proof_of ob p surface scanned) (so_nonAuthoritative ob))
      then None
      else Some (case so_canonical ob of
          Inr (leak, full) \<Rightarrow>
            (if leak then ''TRANSPORT_CREDENTIAL_LEAK''
             else if \<not> full then ''SOL_CREDENTIAL_SCAN_INCOMPLETE'' else ''SOL_TRANSPORT_REJECTED'')
        | Inl code \<Rightarrow>
            (if code = ''SOL_RESPONSE_TOO_LARGE'' then ''SOL_RESPONSE_TOO_LARGE'' else ''SOL_TRANSPORT_REJECTED'')))"

text \<open>Credential-bearing output never reaches the later stages.\<close>

definition without_leak :: "string option \<Rightarrow> provider_result \<Rightarrow> provider_result" where
  "without_leak code p =
     (if code = Some ''TRANSPORT_CREDENTIAL_LEAK''
      then p\<lparr>pv_status := JNull, pv_stdout := [], pv_stderr := [],
             pv_error := Some ''provider output contained credential material and was rejected; invocation fails closed (TRANSPORT_CREDENTIAL_LEAK)''\<rparr>
      else p)"

definition transport_refusal :: "sol_obs \<Rightarrow> provider_result \<Rightarrow> bool \<times> bool \<times> bool \<times> bool \<Rightarrow> string option" where
  "transport_refusal ob p proofs =
     (case first_refusal ob p proofs of
        Some code \<Rightarrow> Some code
      | None \<Rightarrow> second_refusal ob p (fst (snd proofs)))"

section \<open>Facts\<close>

lemma canonicalRejectionCode_in: "canonicalRejectionCode c \<in> set CANONICAL_REJECTION_CODES"
  by (simp add: canonicalRejectionCode_def CANONICAL_REJECTION_CODES_def)

lemma canonicalRejectionCode_idem [simp]: "canonicalRejectionCode (canonicalRejectionCode c) = canonicalRejectionCode c"
  using canonicalRejectionCode_in [of c] by (simp add: canonicalRejectionCode_def)

lemma unsupported_canonical: "''UNSUPPORTED_CLAIM'' \<in> set CANONICAL_REJECTION_CODES"
  by (simp add: CANONICAL_REJECTION_CODES_def)

lemma canonical_code_in: "canonical_code v \<in> set CANONICAL_REJECTION_CODES"
  by (simp add: canonical_code_def canonicalRejectionCode_in unsupported_canonical split: option.split json.split)

text \<open>A worker is accepted exactly when every objective check passed, and rejected with a taxonomy code.\<close>

lemma judge_worker_sound:
  assumes "judge_worker config unit ob p handoff = Inr w"
  shows "wo_accepted w \<longleftrightarrow> patch_valid ob \<and> transport_valid unit handoff \<and> wo_semanticAccepted w \<and> pv_status p = JInt 0"
    and "wo_accepted w \<longleftrightarrow> wo_rejectionCode w = None"
    and "wo_rejectionCode w = Some c \<Longrightarrow> c \<in> set CANONICAL_REJECTION_CODES"
    and "wo_patchValid w = patch_valid ob" and "wo_transportValid w = transport_valid unit handoff"
    and "wo_patch w = map_option er_record (wk_evidence ob)" and "wo_handoff w = handoff"
  using assms by (auto simp: judge_worker_def Let_def canonical_code_in split: if_split_asm)

text \<open>The gate opens for exact proofs only.\<close>

lemma gate_ok_iff:
  "gate_ok (assessSolTransportResult p seam) \<longleftrightarrow>
     tp_status p = JInt 0 \<and> tp_error p = None \<and> \<not> tp_timedOut p \<and> tp_truncated p = Some False \<and> tp_completed p \<and>
     tp_identityBefore p = Some True \<and> tp_identityAfter p = Some True \<and> tp_processAbsence p \<and> tp_quiescence p \<and>
     tp_surface p \<and> tp_credentialScan p \<and> tp_cleanup p \<and> (tp_nonAuthoritative p \<longrightarrow> seam)"
  unfolding assessSolTransportResult_def Let_def gate.simps
  by (simp add: filter_empty_conv del: filter.simps)

text \<open>A transport that is not refused has passed every proof of both gates.\<close>

lemma transport_accepted:
  assumes "transport_refusal ob p proofs = None"
  shows "pv_status p = JInt 0" and "pv_error p = None" and "pv_completed p" and "so_quiescent ob" and "so_absence ob"
    and "so_cleanup ob" and "so_canonical ob = Inr (False, True)" and "proofs = (True, True, False, True)"
    and "\<not> pv_timedOut p" and "pv_truncated p = Some False"
    and "pv_identityBefore p = Some True" and "pv_identityAfter p = Some True"
proof -
  obtain reloaded surface leak full where proofs: "proofs = (reloaded, surface, leak, full)"
    by (cases proofs)
  have one: "gate_ok (assessSolTransportResult
      (transport_proof_of ob p surface (reloaded \<and> full \<and> \<not> leak)) (so_nonAuthoritative ob))"
    using assms by (simp add: transport_refusal_def proofs first_refusal_def split: option.splits if_split_asm)
  then have "second_refusal ob p surface = None"
    using assms by (simp add: transport_refusal_def proofs first_refusal_def)
  then have two: "gate_ok (assessSolTransportResult (transport_proof_of ob p surface
      (case so_canonical ob of Inr (leak, full) \<Rightarrow> full \<and> \<not> leak | Inl _ \<Rightarrow> False)) (so_nonAuthoritative ob))"
    by (simp add: second_refusal_def Let_def split: if_split_asm)
  show "pv_status p = JInt 0" "pv_error p = None" "pv_completed p" "so_quiescent ob" "so_absence ob" "so_cleanup ob"
    "proofs = (True, True, False, True)" "\<not> pv_timedOut p" "pv_truncated p = Some False"
    "pv_identityBefore p = Some True" "pv_identityAfter p = Some True"
    using one by (simp_all add: gate_ok_iff transport_proof_of_def proofs)
  show "so_canonical ob = Inr (False, True)"
    using two by (simp add: gate_ok_iff transport_proof_of_def split: sum.splits prod.splits)
qed

end
