(* ===== verification/Ctl_Attempts.thy ===== *)
theory Ctl_Attempts
  imports Ctl_Assess
begin

text \<open>
  The attempts of the controller, \<open>executeWorkerAttempt\<close> and \<open>executeSolAttempt\<close> of
  src/src/controller/orchestrator.mjs, as actions on the store of the run: what is observed of the
  outside is a parameter, what the controller writes to the ledger and to its files is modelled.
\<close>

section \<open>The environment of a run\<close>

text \<open>
  What a run is given: its configuration and contract, what it takes from its host, and for the
  step of each number the clock, the fresh route id and the observations of an attempt.
\<close>

record ctl_env =
  ce_sha :: digest_fun
  ce_oauth :: oauth_host
  ce_environment :: json
  ce_config :: json
  ce_permissions :: json
  ce_contract :: json
  ce_fixture :: bool
  ce_testSeam :: bool
  ce_unit :: string
  ce_base :: json
  ce_root :: string
  ce_preserve :: preservation
  ce_now :: "nat \<Rightarrow> string"
  ce_route :: "nat \<Rightarrow> json"
  ce_worker :: "nat \<Rightarrow> worker_obs"
  ce_sol :: "nat \<Rightarrow> sol_obs"

definition obj :: "(string \<times> json) list \<Rightarrow> json" where
  "obj kvs = JObj kvs"

definition strs :: "string list \<Rightarrow> json" where
  "strs xs = JArr (map JStr xs)"

definition or_nulls :: "string option \<Rightarrow> json" where
  "or_nulls v = (case v of None \<Rightarrow> JNull | Some t \<Rightarrow> JStr t)"

section \<open>The invocation ledger\<close>

definition start_act :: "ctl_env \<Rightarrow> nat \<Rightarrow> json \<Rightarrow> string \<Rightarrow> string \<Rightarrow> json act" where
  "start_act env n route role i =
     run_op (startInvocation (ce_sha env) (ce_now env n) i
       ([(''workUnitId'', JStr (ce_unit env))] @ optional_field ''provider'' (fld ''targetProvider'' route)
        @ optional_field ''model'' (fld ''targetModel'' route)
        @ [(''role'', JStr role), (''reasoningEffort'', or_else (fld ''reasoningLevel'' route) (JStr ''XHIGH''))]))"

definition complete_act :: "ctl_env \<Rightarrow> nat \<Rightarrow> string \<Rightarrow> string \<Rightarrow> string option \<Rightarrow> json act" where
  "complete_act env n i outcome err =
     run_op (complete (ce_sha env) (ce_now env n) i
       ([(''outcome'', JStr outcome)] @ optional_field ''errorCode'' (map_option JStr err)))"

definition assess_act :: "ctl_env \<Rightarrow> nat \<Rightarrow> string \<Rightarrow> string option \<Rightarrow> string \<Rightarrow> string list \<Rightarrow> json act" where
  "assess_act env n i rejection summary refs =
     run_op (assess (ce_sha env) (ce_now env n) i
       ([(''assessmentResult'', JStr (if rejection = None then ''ACCEPTED'' else ''REJECTED''))]
        @ optional_field ''rejectionCode'' (map_option JStr rejection)
        @ [(''summary'', JStr summary), (''evidenceRefs'', strs refs)]))"

text \<open>
  An invocation that never reached completion is reconciled; a failure to do so does not mask the
  error.
\<close>

definition or_reconcile :: "ctl_env \<Rightarrow> nat \<Rightarrow> string \<Rightarrow> string \<Rightarrow> 'a act \<Rightarrow> 'a act" where
  "or_reconcile env n i note m = (\<lambda>s. case m s of
     (Inl e, s') \<Rightarrow> (Inl e, snd (run_op (reconcileInvocation (ce_sha env) (ce_now env n)
        [(''invocationId'', JStr i), (''reason'', JStr ''CRASH_AFTER_START''), (''note'', JStr note)]) s'))
   | r \<Rightarrow> r)"

definition QUIESCENCE_SUMMARY :: string where
  "QUIESCENCE_SUMMARY =
     ''model-controlled descendant processes remained alive; invocation process-tree quiescence could not be proven''"

text \<open>
  The processes of the invocation could not be proven gone: it is completed as a failure and
  rejected, \<open>ev\<close> records it, and the run fails closed.
\<close>

definition close_unquiescent :: "ctl_env \<Rightarrow> nat \<Rightarrow> string \<Rightarrow> string \<Rightarrow> string \<Rightarrow> unit act \<Rightarrow> 'a act" where
  "close_unquiescent env n i note lifetime ev =
     act_bind (or_reconcile env n i note (complete_act env n i ''FAILURE'' (Some ''PROCESS_TREE_QUIESCENCE_FAILED''))) (\<lambda>_.
     act_bind (assess_act env n i (Some ''UNSUPPORTED_CLAIM'') QUIESCENCE_SUMMARY [''process-lifetime:'' @ lifetime]) (\<lambda>_.
     act_bind ev (\<lambda>_.
     act_of (Inl (ControllerError ''PROCESS_TREE_QUIESCENCE_FAILED'')))))"

definition act_unit :: "'a act \<Rightarrow> unit act" where
  "act_unit m = act_bind m (\<lambda>_. act_of (Inr ()))"

lemmas [code_unfold] = or_reconcile_def act_unit_def

definition fail_if :: "lcim_error option \<Rightarrow> unit act" where
  "fail_if e = act_of (case e of None \<Rightarrow> Inr () | Some x \<Rightarrow> Inl x)"

section \<open>The worker attempt\<close>

definition boundary_event :: "string \<Rightarrow> string \<Rightarrow> json \<times> json \<times> json \<times> string \<Rightarrow> json" where
  "boundary_event unit i b =
     (case b of (mechanism, mode, root, file) \<Rightarrow>
        obj [(''kind'', JStr ''EXECUTION_BOUNDARY_VERIFIED''), (''workUnitId'', JStr unit), (''invocationId'', JStr i),
          (''mechanism'', mechanism), (''networkMode'', mode), (''allowedWriteRoot'', root),
          (''evidenceRef'', JStr (''boundary:'' @ file))])"

text \<open>The invocation up to the point where its processes are quiet; an error here is a crash.\<close>

definition worker_invoke :: "ctl_env \<Rightarrow> nat \<Rightarrow> worker_obs \<Rightarrow> provider_result act" where
  "worker_invoke env n ob =
     act_bind (act_of (wk_boundary ob)) (\<lambda>b.
     act_bind (appendControllerEvent (ce_now env n) (boundary_event (ce_unit env) (wk_invocation ob) b)) (\<lambda>_.
     act_bind (fail_if (wk_prompt ob)) (\<lambda>_.
     act_bind (fail_if (wk_settle ob)) (\<lambda>_.
     act_of (Inr (provider_of (wk_provider ob)))))))"

definition worker_event :: "ctl_env \<Rightarrow> worker_obs \<Rightarrow> (string \<times> json) list \<Rightarrow> json \<Rightarrow> json \<Rightarrow> bool \<times> bool
    \<Rightarrow> bool \<times> bool \<times> bool \<times> bool \<Rightarrow> json \<Rightarrow> json \<Rightarrow> json" where
  "worker_event env ob extra safety handoff process flags rejection raw =
     (case (process, flags) of ((completed, succeeded), (observed, valid, transport, semantic)) \<Rightarrow>
      obj ([(''kind'', JStr ''WORKER_ASSESSMENT''), (''workUnitId'', JStr (ce_unit env)),
          (''invocationId'', JStr (wk_invocation ob))] @ extra
        @ [(''safety'', safety), (''handoff'', handoff), (''processCompleted'', JBool completed),
          (''processSucceeded'', JBool succeeded), (''patchObserved'', JBool observed), (''patchValid'', JBool valid),
          (''transportValid'', JBool transport), (''semanticAccepted'', JBool semantic), (''rejectionCode'', rejection),
          (''rawResponseRef'', raw)]))"

definition unsafe :: "string \<Rightarrow> json" where
  "unsafe code = obj [(''ok'', JBool False), (''code'', JStr code)]"

definition WORKER_CRASH_NOTE :: string where
  "WORKER_CRASH_NOTE = ''invocation failed before provider completion; run fails closed''"

definition worker_try :: "ctl_env \<Rightarrow> nat \<Rightarrow> worker_obs \<Rightarrow> provider_result act" where
  "worker_try env n ob =
     act_bind (or_reconcile env n (wk_invocation ob) WORKER_CRASH_NOTE (worker_invoke env n ob)) (\<lambda>p.
     if wk_quiescent ob then act_of (Inr p)
     else close_unquiescent env n (wk_invocation ob) WORKER_CRASH_NOTE (wk_lifetime ob)
       (act_unit (appendControllerEvent (ce_now env n)
         (worker_event env ob [(''failClosed'', JStr ''PROCESS_TREE_QUIESCENCE_FAILED'')]
           (unsafe ''PROCESS_TREE_QUIESCENCE_FAILED'') JNull (pv_completed p, False) (False, False, False, False)
           (JStr ''UNSUPPORTED_CLAIM'') JNull))))"

definition states_json :: "handoff_states \<Rightarrow> json" where
  "states_json st =
     obj [(''responseReceived'', JBool (responseReceived st)), (''modelProcessCompleted'', modelProcessCompleted st),
       (''responseParsed'', JBool (responseParsed st)), (''responseSchemaValid'', JBool (responseSchemaValid st)),
       (''patchObserved'', patchObserved st), (''controllerValidated'', controllerValidated st)]"

definition report_json :: "handoff_report \<Rightarrow> json" where
  "report_json r =
     obj [(''workUnitId'', JStr (reportUnit r)), (''schemaVersion'', JStr (reportVersion r)),
       (''states'', states_json (reportStates r)), (''parseState'', JStr (reportParse r)),
       (''normalization'', or_nulls (reportNormalization r)), (''schemaState'', JStr (reportSchema r)),
       (''transportDefect'', or_nulls (reportDefect r)), (''workerStatus'', or_null (reportStatus r)),
       (''acceptanceClaimCount'', JInt (int (acceptanceClaimCount r))),
       (''remainingIssueCount'', JInt (int (remainingIssueCount r))), (''rawPreserved'', JBool (reportPreserved r)),
       (''rawResponseRef'', or_nulls (reportRef r))]"

definition safety_json :: "lcim_error option \<Rightarrow> json" where
  "safety_json e = (case e of None \<Rightarrow> obj [(''ok'', JBool True)] | Some x \<Rightarrow> unsafe (publicErrorCode x ''SCOPE_VIOLATION''))"

text \<open>The handoff of the attempt, with the controller's own observation of a patch.\<close>

definition worker_handoff :: "ctl_env \<Rightarrow> worker_obs \<Rightarrow> provider_result \<Rightarrow> assessment result" where
  "worker_handoff env ob p =
     rbind (assessHandoff (ce_preserve env) (Some (JStr (ce_unit env))) (Some (JStr (pv_stdout p)))
       (Some (JStr (ce_root env))) (Some (JBool (pv_completed p)))) (\<lambda>a.
     Inr (recordPatchObservation a (JBool (wk_evidence ob \<noteq> None))))"

text \<open>The file of the raw output of an invocation, below the directory of the run.\<close>

definition raw_ref :: "string \<Rightarrow> json" where
  "raw_ref i = JStr (''controller/raw/'' @ i @ ''.txt'')"

definition record_worker :: "ctl_env \<Rightarrow> nat \<Rightarrow> worker_obs \<Rightarrow> provider_result \<Rightarrow> worker_outcome \<Rightarrow> worker_outcome act" where
  "record_worker env n ob p w =
     act_bind (assess_act env n (wk_invocation ob) (wo_rejectionCode w)
       (case wo_rejectionCode w of
          None \<Rightarrow> ''controller objective patch and transport validation passed''
        | Some c \<Rightarrow> reason_of_code c ''UNSUPPORTED_CLAIM'') (wo_evidenceRefs w)) (\<lambda>_.
     act_bind (appendControllerEvent (ce_now env n)
       (worker_event env ob [] (safety_json (wk_safety ob)) (report_json (summarizeForReport (wo_handoff w)))
         (pv_completed p, pv_status p = JInt 0)
         (wo_patch w \<noteq> None, wo_patchValid w, wo_transportValid w, wo_semanticAccepted w)
         (or_nulls (wo_rejectionCode w)) (raw_ref (wk_invocation ob)))) (\<lambda>_.
     act_of (Inr w)))"

definition executeWorkerAttempt :: "ctl_env \<Rightarrow> nat \<Rightarrow> json \<Rightarrow> worker_outcome act" where
  "executeWorkerAttempt env n route =
     (let ob = ce_worker env n in
      act_bind (start_act env n route ''WORKER'' (wk_invocation ob)) (\<lambda>_.
      act_bind (worker_try env n ob) (\<lambda>p.
      let outcome = provider_outcome p in
      act_bind (complete_act env n (wk_invocation ob) outcome
        (if outcome = ''SUCCESS'' then None else Some ''PROVIDER_EXECUTION_FAILED'')) (\<lambda>_.
      act_bind (act_of (worker_handoff env ob p)) (\<lambda>handoff.
      act_bind (act_of (judge_worker (ce_config env) (ce_unit env) ob p handoff)) (\<lambda>w.
      record_worker env n ob p w))))))"

section \<open>The SOL attempt\<close>

record sol_outcome =
  sr_accepted :: bool
  sr_ask :: json
  sr_response :: "json option"
  sr_conversion :: "(json \<times> json) option"
  sr_errorCode :: "string option"
  sr_refs :: "string list"

definition SOL_CRASH_NOTE :: string where
  "SOL_CRASH_NOTE = ''SOL invocation failed before provider completion; run fails closed''"

text \<open>The compiled ask of a call, written before the invocation starts.\<close>

definition sol_ask_act :: "ctl_env \<Rightarrow> nat \<Rightarrow> string \<Rightarrow> patch_record option \<Rightarrow> string list \<Rightarrow> json option \<Rightarrow> json option
    \<Rightarrow> json act" where
  "sol_ask_act env n callType patchRecord refs prior finding =
     act_bind (act_of (makeSolAsk callType (ce_contract env) patchRecord refs prior finding)) (\<lambda>input.
     act_bind (act_of (compileSolAsk (ce_sha env) (JStr (so_askId (ce_sol env n))) (JStr (ce_now env n))
       (Some (JArr [ce_contract env])) (if callType = ''SOL_RECHECK'' then prior else None) (Some input))) (\<lambda>ask.
     act_bind (persistSolArtifact ''asks'' (js_string (fld ''askId'' ask)) ask) (\<lambda>_.
     act_of (Inr ask))))"

text \<open>Only the Codex transport has authority; the invocation has started when it is refused.\<close>

definition codex_only :: "json \<Rightarrow> json \<Rightarrow> unit result" where
  "codex_only config route =
     rbind (need (\<not> (isCodexSolModel (fld ''targetModel'' route) \<and> \<not> usesExternalProvider config ''SOL''))
       (ControllerError ''SOL_COMMAND_MASQUERADE'')) (\<lambda>_.
     need (isCodexSolModel (fld ''targetModel'' route)) (ControllerError ''SOL_CLASSIC_NO_AUTHORITY''))"

text \<open>
  The invocation: the store and its surface, the provider, the quiet processes, the proofs of both
  gates and their evidence, which must be written before anything is parsed.  The result is the
  refusal of the transport, if any, with the output the later stages see.
\<close>

definition sol_proofs :: "sol_obs \<Rightarrow> (string option \<times> provider_result) result" where
  "sol_proofs ob =
     (let p = provider_of (so_provider ob) in
      rbind (so_proofs ob) (\<lambda>proofs.
      rbind (need (so_proofFile ob \<noteq> None) (ControllerError ''SOL_TRANSPORT_EVIDENCE_FAILED'')) (\<lambda>_.
      let code = transport_refusal ob p proofs in
      Inr (code, without_leak code p))))"

definition sol_try :: "ctl_env \<Rightarrow> nat \<Rightarrow> sol_obs \<Rightarrow> (string option \<times> provider_result) act" where
  "sol_try env n ob =
     act_bind (or_reconcile env n (so_invocation ob) SOL_CRASH_NOTE
       (act_bind (fail_if (so_store ob)) (\<lambda>_. fail_if (so_settle ob)))) (\<lambda>_.
     if so_quiescent ob
     then or_reconcile env n (so_invocation ob) SOL_CRASH_NOTE (act_of (sol_proofs ob))
     else close_unquiescent env n (so_invocation ob) SOL_CRASH_NOTE (so_lifetime ob) (act_of (Inr ())))"

text \<open>
  The compilation of the response: the response when one was compiled, the repair it converts to,
  and the code of the failure.
\<close>

definition compile_response :: "ctl_env \<Rightarrow> nat \<Rightarrow> json \<Rightarrow> json \<Rightarrow> json act" where
  "compile_response env n ask v =
     act_of (compileSolResponse (ce_sha env) (JStr (so_responseId (ce_sol env n))) (JStr (ce_now env n))
       (Some ask) (Some (JArr [ce_contract env])) (Some (deep_clone_json v)))"

definition convert_response :: "ctl_env \<Rightarrow> nat \<Rightarrow> string \<Rightarrow> json \<Rightarrow> json \<Rightarrow> (json \<times> json) option act" where
  "convert_response env n callType ask response =
     act_bind (persistSolArtifact ''responses'' (js_string (fld ''responseId'' response)) response) (\<lambda>_.
     if callType = ''SOL_DIAGNOSE'' \<and> is_lit (fld ''verdict'' response) ''CAUSE_IDENTIFIED'' then
       act_bind (act_of (compileRepairTicket (ce_sha env) (JStr (ce_now env n)) (Some ask) (Some response)
         (Some (JArr [ce_contract env])))) (\<lambda>conversion.
       act_bind (persistSolArtifact ''tickets'' (js_string (fld ''ticketId'' (snd conversion)))
         (obj [(''repairContract'', fst conversion), (''ticket'', snd conversion)])) (\<lambda>_.
       act_of (Inr (Some conversion))))
     else act_of (Inr None))"

definition response_code :: "lcim_error \<Rightarrow> string" where
  "response_code e = (if error_code e = Some ''SOL_ASK_INVALID'' then ''SOL_ASK_INVALID'' else ''SCHEMA_MISMATCH'')"

definition sol_response :: "ctl_env \<Rightarrow> nat \<Rightarrow> string \<Rightarrow> json \<Rightarrow> string option \<times> provider_result
    \<Rightarrow> (json option \<times> (json \<times> json) option \<times> string option) act" where
  "sol_response env n callType ask r = (\<lambda>s.
     case fst r of
       Some code \<Rightarrow> (Inr (None, None, Some code), s)
     | None \<Rightarrow>
         (case parseProviderJson (pv_stdout (snd r)) of
            None \<Rightarrow> (Inr (None, None, Some ''TRANSPORT_MALFORMED''), s)
          | Some v \<Rightarrow>
              (case compile_response env n ask v s of
                 (Inl e, s') \<Rightarrow> (Inr (None, None, Some (response_code e)), s')
               | (Inr response, s') \<Rightarrow>
                   (case convert_response env n callType ask response s' of
                      (Inl e, s'') \<Rightarrow> (Inr (Some response, None, Some (response_code e)), s'')
                    | (Inr conversion, s'') \<Rightarrow> (Inr (Some response, conversion, None), s'')))))"

text \<open>The acceptance is bound to the transport proof by a record of its own, without which it is lost.\<close>

definition sol_verdict :: "sol_obs \<Rightarrow> json option \<Rightarrow> string option \<Rightarrow> bool \<times> string option" where
  "sol_verdict ob response code =
     (if response \<noteq> None \<and> code = None then
        (case so_semanticFile ob of
           Some _ \<Rightarrow> (True, None)
         | None \<Rightarrow> (False, assessEvidencePersistenceFailure True))
      else (False, code))"

definition sol_refs :: "sol_obs \<Rightarrow> string list \<Rightarrow> json \<Rightarrow> string list" where
  "sol_refs ob refs ask = refs @ [''sol-ask:'' @ js_string (fld ''askId'' ask)]"

definition sol_event :: "ctl_env \<Rightarrow> sol_obs \<Rightarrow> string \<Rightarrow> json \<Rightarrow> json option \<Rightarrow> bool \<times> string option \<Rightarrow> json" where
  "sol_event env ob callType ask response verdict =
     obj [(''kind'', JStr ''SOL_ASSESSMENT''), (''workUnitId'', JStr (ce_unit env)),
       (''invocationId'', JStr (so_invocation ob)), (''callType'', JStr callType),
       (''askId'', or_null (fld ''askId'' ask)), (''responseId'', or_null (own ''responseId'' response)),
       (''responseVerdict'', or_null (own ''verdict'' response)), (''accepted'', JBool (fst verdict)),
       (''rejectionCode'', or_nulls (snd verdict)), (''rawResponseRef'', JNull)]"

definition sol_rejection :: "bool \<times> string option \<Rightarrow> string option" where
  "sol_rejection verdict =
     (if fst verdict then None
      else Some (case snd verdict of
          Some c \<Rightarrow> (if c \<in> set TRANSPORT_TAXONOMY_CODES then ''TRANSPORT_MALFORMED'' else c)
        | None \<Rightarrow> ''SOL_ASK_INVALID''))"

definition record_sol :: "ctl_env \<Rightarrow> nat \<Rightarrow> string \<Rightarrow> string list \<Rightarrow> json
    \<Rightarrow> json option \<times> (json \<times> json) option \<times> string option \<Rightarrow> sol_outcome act" where
  "record_sol env n callType refs ask r =
     (case r of (response, conversion, code) \<Rightarrow>
      let ob = ce_sol env n; verdict = sol_verdict ob response code in
      act_bind (assess_act env n (so_invocation ob) (sol_rejection verdict)
        (if fst verdict then ''compiled SOL response bound to the exact ask''
         else reason_of_code (case snd verdict of Some c \<Rightarrow> c | None \<Rightarrow> ''SOL_ASK_INVALID'') ''SOL_ASK_INVALID'')
        (sol_refs ob refs ask)) (\<lambda>_.
      act_bind (appendControllerEvent (ce_now env n) (sol_event env ob callType ask response verdict)) (\<lambda>_.
      act_of (Inr \<lparr>sr_accepted = fst verdict, sr_ask = ask, sr_response = response, sr_conversion = conversion,
        sr_errorCode = snd verdict,
        sr_refs = sol_refs ob refs ask
          @ (case so_proofFile ob of None \<Rightarrow> [] | Some f \<Rightarrow> [''sol-transport:'' @ f])
          @ (if fst verdict then (case so_semanticFile ob of None \<Rightarrow> [] | Some f \<Rightarrow> [''sol-semantic:'' @ f]) else [])\<rparr>))))"

definition executeSolAttempt :: "ctl_env \<Rightarrow> nat \<Rightarrow> json \<Rightarrow> string \<Rightarrow> patch_record option \<Rightarrow> string list
    \<Rightarrow> json option \<Rightarrow> json option \<Rightarrow> sol_outcome act" where
  "executeSolAttempt env n route callType patchRecord refs prior finding =
     (let ob = ce_sol env n in
      act_bind (sol_ask_act env n callType patchRecord refs prior finding) (\<lambda>ask.
      act_bind (start_act env n route ''SOL'' (so_invocation ob)) (\<lambda>_.
      act_bind (act_of (codex_only (ce_config env) route)) (\<lambda>_.
      act_bind (sol_try env n ob) (\<lambda>r.
      let outcome = provider_outcome (snd r) in
      act_bind (complete_act env n (so_invocation ob) outcome
        (if outcome = ''SUCCESS'' then None else Some ''SOL_PROVIDER_FAILED'')) (\<lambda>_.
      act_bind (sol_response env n callType ask r) (\<lambda>resp.
      record_sol env n callType refs ask resp)))))))"

end
