(* ===== verification/Ctl_Loop.thy ===== *)
theory Ctl_Loop
  imports Ctl_Attempts
begin

text \<open>
  The loop of the controller, \<open>runController\<close> of src/src/controller/orchestrator.mjs: at most eight
  routing decisions, each dispatched to an attempt whose result changes what the controller knows.
  The variables of the function are one record.  An error that leaves the loop is the error of
  the step, with the record as the step left it.
\<close>

section \<open>What the controller knows\<close>

record ctl =
  ct_state :: string
  ct_accepted :: bool
  ct_rejection :: json
  ct_failures :: "json list"
  ct_dispatched :: int
  ct_diagnosis :: json
  ct_review :: json
  ct_findings :: "json list"
  ct_active :: json
  ct_repair :: "json option"
  ct_binding :: "json option"
  ct_patch :: "patch_record option"
  ct_refs :: "string list"
  ct_budget :: budget
  ct_routes :: "json list"
  ct_errors :: "string list"
  ct_disposition :: string
  ct_reason :: "string option"
  ct_candidate :: "json option"
  ct_worktree :: bool
  ct_solStore :: bool
  ct_solRemoved :: bool
  ct_boundaryPaths :: "string list"
  ct_lifetimePaths :: "string list"
  ct_validationPaths :: "string list"
  ct_solPaths :: "string list"
  ct_store :: store

definition initial_ctl :: "budget \<Rightarrow> store \<Rightarrow> ctl" where
  "initial_ctl b s =
     \<lparr>ct_state = ''ROUTING_READY'', ct_accepted = False, ct_rejection = JNull, ct_failures = [], ct_dispatched = 0,
      ct_diagnosis = JNull, ct_review = JNull, ct_findings = [], ct_active = JNull, ct_repair = None, ct_binding = None,
      ct_patch = None, ct_refs = [], ct_budget = b, ct_routes = [], ct_errors = [], ct_disposition = ''REJECTED'',
      ct_reason = Some ''UNSUPPORTED_CLAIM'', ct_candidate = None, ct_worktree = False, ct_solStore = False, ct_solRemoved = False,
      ct_boundaryPaths = [], ct_lifetimePaths = [], ct_validationPaths = [], ct_solPaths = [], ct_store = s\<rparr>"

datatype signal = Continue | Break

type_synonym 'a step = "(ctl, 'a) action"

text \<open>An action on the store, a change of the variables, and a step that reads them.\<close>

definition on_store :: "'a act \<Rightarrow> 'a step" where
  "on_store m = (\<lambda>c. case m (ct_store c) of (r, s) \<Rightarrow> (r, c\<lparr>ct_store := s\<rparr>))"

definition set_vars :: "(ctl \<Rightarrow> ctl) \<Rightarrow> unit step" where
  "set_vars f = (\<lambda>c. (Inr (), f c))"

definition with_vars :: "(ctl \<Rightarrow> 'a step) \<Rightarrow> 'a step" where
  "with_vars f = (\<lambda>c. f c c)"

definition then_signal :: "'a step \<Rightarrow> signal \<Rightarrow> signal step" where
  "then_signal m g = act_bind m (\<lambda>_. act_of (Inr g))"

lemmas [code_unfold] = on_store_def set_vars_def with_vars_def then_signal_def

text \<open>The run stops with this disposition and reason, and these errors are reported.\<close>

definition stop :: "string \<Rightarrow> string option \<Rightarrow> string list \<Rightarrow> signal step" where
  "stop disposition reason errs =
     then_signal (set_vars (\<lambda>c. c\<lparr>ct_disposition := disposition, ct_reason := reason, ct_errors := ct_errors c @ errs\<rparr>)) Break"

definition fail_with :: "lcim_error option \<Rightarrow> unit step" where
  "fail_with e = act_of (case e of None \<Rightarrow> Inr () | Some x \<Rightarrow> Inl x)"

section \<open>The findings\<close>

definition is_open :: "json \<Rightarrow> bool" where
  "is_open f \<longleftrightarrow> is_lit (fld ''status'' f) ''OPEN''"

definition open_with_id :: "json \<Rightarrow> json \<Rightarrow> bool" where
  "open_with_id i f \<longleftrightarrow> fld ''findingId'' f = Some i \<and> is_open f"

definition count_of :: "string \<Rightarrow> json \<Rightarrow> int" where
  "count_of k f = int_value (fld k f)"

definition unrepaired :: "json \<Rightarrow> bool" where
  "unrepaired f \<longleftrightarrow> is_open f \<and> count_of ''repairCycles'' f = 0"

definition set_field :: "string \<Rightarrow> json \<Rightarrow> json \<Rightarrow> json" where
  "set_field k v f = JObj (put k v (spread (Some f)))"

definition bump :: "string \<Rightarrow> json \<Rightarrow> json" where
  "bump k f = set_field k (JInt (count_of k f + 1)) f"

text \<open>A change of the object \<open>find\<close> returns: the first entry that satisfies the predicate.\<close>

fun update_first :: "('a \<Rightarrow> bool) \<Rightarrow> ('a \<Rightarrow> 'a) \<Rightarrow> 'a list \<Rightarrow> 'a list" where
  "update_first P f [] = []"
| "update_first P f (x # xs) = (if P x then f x # xs else x # update_first P f xs)"

definition update_finding :: "(json \<Rightarrow> bool) \<Rightarrow> (json \<Rightarrow> json) \<Rightarrow> unit step" where
  "update_finding P f = set_vars (\<lambda>c. c\<lparr>ct_findings := update_first P f (ct_findings c)\<rparr>)"

definition exchange :: "json \<Rightarrow> json \<Rightarrow> json" where
  "exchange ask response = obj [(''ask'', ask), (''response'', response)]"

section \<open>The routing decision\<close>

definition routeContext :: "ctl_env \<Rightarrow> ctl \<Rightarrow> json" where
  "routeContext env c =
     obj [(''workUnitId'', JStr (ce_unit env)), (''runId'', ss_runId (st_session (ct_store c))),
       (''state'', JStr (ct_state c)), (''semanticContract'', ce_contract env),
       (''resultAccepted'', JBool (ct_accepted c)), (''latestRejection'', ct_rejection c),
       (''failureHistory'', JArr (ct_failures c)), (''repairsDispatched'', JInt (ct_dispatched c)),
       (''solDiagnosis'', ct_diagnosis c), (''solReview'', ct_review c), (''solFindings'', JArr (ct_findings c)),
       (''stuckEvidence'', obj []), (''config'', ce_config env), (''environment'', ce_environment env),
       (''activeFindingId'', ct_active c), (''evidenceRefs'', strs (ct_refs c))]"

definition route_env_of :: "ctl_env \<Rightarrow> nat \<Rightarrow> ctl \<Rightarrow> route_env" where
  "route_env_of env n c =
     \<lparr>env_budget = Some (ct_budget c), env_seam = ce_fixture env, env_oauth = ce_oauth env, env_sha = ce_sha env,
      env_fresh = ce_route env n, env_now = JStr (ce_now env n)\<rparr>"

definition event :: "ctl_env \<Rightarrow> nat \<Rightarrow> string \<Rightarrow> (string \<times> json) list \<Rightarrow> unit step" where
  "event env n kind parts =
     on_store (act_unit (appendControllerEvent (ce_now env n)
       (obj ([(''kind'', JStr kind), (''workUnitId'', JStr (ce_unit env))] @ parts))))"

definition record_route :: "ctl_env \<Rightarrow> nat \<Rightarrow> json \<Rightarrow> unit step" where
  "record_route env n route =
     act_bind (set_vars (\<lambda>c. c\<lparr>ct_routes := ct_routes c @ [route]\<rparr>)) (\<lambda>_.
     act_bind (on_store (persistRouteDecision route)) (\<lambda>_.
     event env n ''ROUTE_DECISION''
       (map (\<lambda>k. (k, or_null (fld k route))) [''decisionId'', ''decision'', ''nextState'', ''reasonCode''])))"

section \<open>The repair of a finding\<close>

text \<open>The first repair of a finding binds it to the exchange that reported it.\<close>

definition bind_finding :: "ctl_env \<Rightarrow> nat \<Rightarrow> json \<Rightarrow> json \<Rightarrow> json \<Rightarrow> (json \<times> json) step" where
  "bind_finding env n finding ask response =
     act_bind (act_of (createFinalReviewRepairBinding (ce_sha env) (ce_now env n) (ce_contract env) finding ask response)) (\<lambda>b.
     act_bind (on_store (persistSolArtifact ''repair-bindings'' (js_string (fld ''repairId'' (snd b))) (snd b))) (\<lambda>_.
     act_bind (set_vars (\<lambda>c. c\<lparr>ct_active := or_null (fld ''findingId'' finding), ct_repair := Some (fst b),
       ct_binding := Some (snd b)\<rparr>)) (\<lambda>_. act_of (Inr b))))"

definition exchange_parts :: "json \<Rightarrow> (string \<times> json) list" where
  "exchange_parts ticket =
     [(''sourceAskId'', or_null (fld ''sourceAskId'' ticket)), (''sourceResponseId'', or_null (fld ''sourceResponseId'' ticket))]"

definition bind_next :: "ctl_env \<Rightarrow> nat \<Rightarrow> unit step" where
  "bind_next env n = with_vars (\<lambda>c.
     case List.find unrepaired (ct_findings c) of
       None \<Rightarrow> act_of (Inl (ControllerError ''SOL_ASK_INVALID''))
     | Some f \<Rightarrow>
         (case fld ''priorSol'' f of
            Some (JObj kvs) \<Rightarrow>
              act_bind (bind_finding env n f (or_null (map_of kvs ''ask'')) (or_null (map_of kvs ''response''))) (\<lambda>b.
              event env n ''SOL_FINDING_REPAIR_BOUND''
                ([(''findingId'', or_null (fld ''findingId'' f)), (''repairId'', or_null (fld ''repairId'' (snd b)))]
                 @ exchange_parts (snd b) @ [(''defectKind'', or_null (fld ''defectKind'' (snd b)))]))
          | _ \<Rightarrow> act_of (Inl (ControllerError ''SOL_ASK_INVALID''))))"

text \<open>The active finding must be open, and the repair contract the one bound to it.\<close>

definition bound_to_active :: "ctl \<Rightarrow> bool" where
  "bound_to_active c \<longleftrightarrow>
     List.find (open_with_id (ct_active c)) (ct_findings c) \<noteq> None \<and>
     own ''findingId'' (ct_binding c) = Some (ct_active c) \<and>
     own ''repairId'' (ct_repair c) = own ''repairId'' (ct_binding c)"

definition dispatch_repair :: "ctl_env \<Rightarrow> nat \<Rightarrow> (json \<Rightarrow> bool) \<Rightarrow> unit step" where
  "dispatch_repair env n P = with_vars (\<lambda>c.
     case List.find P (ct_findings c) of
       None \<Rightarrow> act_of (Inl (ControllerError ''SOL_ASK_INVALID''))
     | Some f \<Rightarrow>
         act_bind (update_finding P (bump ''repairCycles'')) (\<lambda>_.
         act_bind (set_vars (\<lambda>c. c\<lparr>ct_dispatched := ct_dispatched c + 1\<rparr>)) (\<lambda>_.
         event env n ''SOL_FINDING_REPAIR_DISPATCHED''
           ([(''findingId'', ct_active c), (''repairId'', or_null (own ''repairId'' (ct_binding c)))]
            @ exchange_parts (or_null (ct_binding c))
            @ [(''repairCycles'', or_null (fld ''repairCycles'' (bump ''repairCycles'' f)))]))))"

definition prepare_repair :: "ctl_env \<Rightarrow> nat \<Rightarrow> unit step" where
  "prepare_repair env n = with_vars (\<lambda>c.
     if ct_active c \<noteq> JNull
     then (if bound_to_active c then dispatch_repair env n (open_with_id (ct_active c))
           else act_of (Inl (ControllerError ''SOL_ASK_INVALID'')))
     else act_bind (bind_next env n) (\<lambda>_. dispatch_repair env n unrepaired))"

section \<open>The worker\<close>

definition first_criterion :: "json \<Rightarrow> json" where
  "first_criterion contract =
     (case sideEffectSpecs contract of
        s # _ \<Rightarrow> or_else (fld ''sideEffectId'' s) (JStr ''controller:patch'')
      | [] \<Rightarrow> JStr ''controller:patch'')"

definition worker_paths :: "worker_obs \<Rightarrow> ctl \<Rightarrow> ctl" where
  "worker_paths ob c =
     c\<lparr>ct_boundaryPaths := ct_boundaryPaths c @ (case wk_boundary ob of Inr (_, _, _, f) \<Rightarrow> [f] | Inl _ \<Rightarrow> []),
       ct_lifetimePaths := ct_lifetimePaths c @ [wk_lifetime ob],
       ct_validationPaths := ct_validationPaths c @ (case validation_file ob of None \<Rightarrow> [] | Some f \<Rightarrow> [f])\<rparr>"

definition learn_worker :: "ctl_env \<Rightarrow> worker_obs \<Rightarrow> worker_outcome \<Rightarrow> ctl \<Rightarrow> ctl" where
  "learn_worker env ob w c0 =
     (let c = worker_paths ob c0;
          c1 = c\<lparr>ct_patch := (case wo_patch w of None \<Rightarrow> ct_patch c | Some p \<Rightarrow> Some p),
                 ct_refs := uniq (ct_refs c @ wo_evidenceRefs w), ct_accepted := wo_accepted w\<rparr> in
      if wo_accepted w then c1\<lparr>ct_rejection := JNull\<rparr>
      else
        (let code = (case wo_rejectionCode w of None \<Rightarrow> ''UNSUPPORTED_CLAIM'' | Some x \<Rightarrow> x);
             refs = JArr [first_criterion (ce_contract env)] in
         c1\<lparr>ct_rejection := obj [(''rejectionCode'', JStr code), (''rejectedAcceptanceRefs'', refs)],
            ct_failures := ct_failures c @ [obj [(''rejectedAcceptanceRefs'', refs),
              (''credibleHypothesis'', JBool (wo_patchValid w \<and> wo_transportValid w))]],
            ct_reason := Some code\<rparr>))"

definition worker_step :: "ctl_env \<Rightarrow> nat \<Rightarrow> json \<Rightarrow> signal step" where
  "worker_step env n route =
     act_bind (if is_lit (fld ''targetRole'' route) ''REPAIR'' then prepare_repair env n else act_of (Inr ())) (\<lambda>_.
     act_bind (on_store (executeWorkerAttempt env n route)) (\<lambda>w.
     then_signal (set_vars (learn_worker env (ce_worker env n) w)) Continue))"

section \<open>SOL\<close>

definition finding_data :: "json \<Rightarrow> json \<Rightarrow> json \<Rightarrow> json" where
  "finding_data i severity item =
     obj ([(''findingId'', i), (''severity'', severity)] @ optional_field ''invariantRef'' (fld ''invariantRef'' item)
       @ optional_field ''summary'' (fld ''summary'' item)
       @ [(''evidenceRefs'', or_else (fld ''evidenceRefs'' item) (JArr []))])"

definition finding_entry :: "json \<Rightarrow> string \<Rightarrow> (string \<times> json) list \<Rightarrow> json \<Rightarrow> json \<Rightarrow> json" where
  "finding_entry i kind parts ask response =
     obj ([(''findingId'', i), (''status'', JStr ''OPEN''), (''repairCycles'', JInt 0), (''rechecks'', JInt 0),
         (''origin'', JStr ''FINAL_REVIEW''), (''defectKind'', JStr kind)] @ parts
       @ [(''priorSol'', exchange ask response)])"

definition push_finding :: "ctl_env \<Rightarrow> nat \<Rightarrow> json \<Rightarrow> (json \<Rightarrow> json) \<Rightarrow> json step" where
  "push_finding env n data entry =
     act_bind (on_store (persistFinding (ce_now env n) [] (Some data))) (\<lambda>rec.
     let i = or_null (fld ''findingId'' rec) in
     act_bind (set_vars (\<lambda>c. c\<lparr>ct_findings := ct_findings c @ [entry i]\<rparr>)) (\<lambda>_. act_of (Inr i)))"

fun push_findings :: "ctl_env \<Rightarrow> nat \<Rightarrow> json \<Rightarrow> json \<Rightarrow> json list \<Rightarrow> json list step" where
  "push_findings env n ask response [] = act_of (Inr [])"
| "push_findings env n ask response (item # items) =
     act_bind (push_finding env n
         (finding_data (or_null (fld ''findingId'' item)) (or_else (fld ''severity'' item) (JStr ''CRITICAL'')) item)
         (\<lambda>i. finding_entry i ''FINDING'' (optional_field ''invariantRef'' (fld ''invariantRef'' item)
            @ optional_field ''summary'' (fld ''summary'' item)) ask response)) (\<lambda>i.
     act_bind (push_findings env n ask response items) (\<lambda>is. act_of (Inr (i # is))))"

text \<open>A defect has an identity derived from its content, and no invariant.\<close>

fun push_defects :: "ctl_env \<Rightarrow> nat \<Rightarrow> json \<Rightarrow> json \<Rightarrow> nat \<Rightarrow> json list \<Rightarrow> json list step" where
  "push_defects env n ask response k [] = act_of (Inr [])"
| "push_defects env n ask response k (item # items) =
     act_bind (push_finding env n
         (obj ([(''findingId'', JStr (adjacentDefectFindingId (ce_sha env) item)), (''severity'', JStr ''CRITICAL'')]
           @ optional_field ''summary'' (fld ''summary'' item)
           @ [(''evidenceRefs'', or_else (fld ''evidenceRefs'' item) (JArr []))]))
         (\<lambda>i. finding_entry i ''ADJACENT_CRITICAL_DEFECT'' ([(''invariantRef'', JNull)]
            @ optional_field ''lockedRequirementRef'' (fld ''lockedRequirementRef'' item)
            @ [(''adjacentIndex'', JInt (int k))] @ optional_field ''summary'' (fld ''summary'' item)
            @ [(''evidenceRefs'', or_else (fld ''evidenceRefs'' item) (JArr []))]) ask response)) (\<lambda>i.
     act_bind (push_defects env n ask response (Suc k) items) (\<lambda>is. act_of (Inr (i # is))))"

text \<open>
  The final review.  The failure history gets the locked requirement of the ticket, which only a
  defect has: for an ordinary finding the reference is \<open>undefined\<close>, here \<open>null\<close>.
\<close>

definition review_step :: "ctl_env \<Rightarrow> nat \<Rightarrow> json \<Rightarrow> json \<Rightarrow> signal step" where
  "review_step env n ask response =
     act_bind (push_findings env n ask response (arr_or_empty (fld ''findings'' response))) (\<lambda>fs.
     act_bind (push_defects env n ask response 0 (arr_or_empty (fld ''adjacentCriticalDefects'' response))) (\<lambda>ds.
     if is_lit (fld ''verdict'' response) ''PASS''
     then then_signal (set_vars (\<lambda>c. c\<lparr>ct_review := obj [(''verdict'', JStr ''PASSED''), (''findingIds'', JArr [])],
            ct_accepted := True\<rparr>)) Continue
     else with_vars (\<lambda>c.
       case List.find (\<lambda>f. or_null (fld ''findingId'' f) \<in> set (fs @ ds) \<and> is_open f) (ct_findings c) of
         None \<Rightarrow> act_of (Inl (ControllerError ''SOL_ASK_INVALID''))
       | Some f \<Rightarrow>
           act_bind (bind_finding env n f ask response) (\<lambda>b.
           act_bind (set_vars (\<lambda>c. c\<lparr>ct_review := obj [(''verdict'', JStr ''FINDING''), (''findingIds'', JArr (fs @ ds))],
             ct_accepted := False\<rparr>)) (\<lambda>_.
           act_bind (event env n ''SOL_FINAL_REVIEW_FINDING_BOUND''
             [(''findingId'', or_null (fld ''findingId'' f)), (''defectKind'', or_null (fld ''defectKind'' f)),
              (''repairId'', or_null (fld ''repairId'' (snd b))), (''askId'', or_null (fld ''askId'' ask)),
              (''responseId'', or_null (fld ''responseId'' response))]) (\<lambda>_.
           then_signal (set_vars (\<lambda>c. c\<lparr>ct_failures := ct_failures c @
             [obj [(''rejectedAcceptanceRefs'', JArr [or_null (fld ''lockedRequirementRef'' (snd b))]),
               (''credibleHypothesis'', JBool True)]]\<rparr>)) Continue))))))"

fun persist_reported :: "ctl_env \<Rightarrow> nat \<Rightarrow> json list \<Rightarrow> json list step" where
  "persist_reported env n [] = act_of (Inr [])"
| "persist_reported env n (item # items) =
     act_bind (on_store (persistFinding (ce_now env n) []
       (Some (finding_data (or_null (fld ''findingId'' item)) (or_else (fld ''severity'' item) (JStr ''CRITICAL'')) item)))) (\<lambda>rec.
     act_bind (persist_reported env n items) (\<lambda>is. act_of (Inr (or_null (fld ''findingId'' rec) # is))))"

text \<open>The recheck of the active finding: only \<open>RESOLVED\<close> closes it.\<close>

definition recheck_finding :: "bool \<Rightarrow> json \<Rightarrow> json" where
  "recheck_finding passed f =
     (let g = bump ''rechecks'' f in if passed then set_field ''status'' (JStr ''CLOSED'') g else g)"

definition recheck_step :: "ctl_env \<Rightarrow> nat \<Rightarrow> json \<Rightarrow> json \<Rightarrow> signal step" where
  "recheck_step env n finding response =
     (let passed = is_lit (fld ''verdict'' response) ''RESOLVED''; i = or_null (fld ''findingId'' finding);
          after = recheck_finding passed finding; prior = fld ''priorSol'' finding in
      act_bind (update_finding (open_with_id i) (recheck_finding passed)) (\<lambda>_.
      act_bind (persist_reported env n (arr_or_empty (fld ''findings'' response))) (\<lambda>is.
      act_bind (set_vars (\<lambda>c. c\<lparr>ct_review := obj [(''verdict'', JStr (if passed then ''PASSED'' else ''FINDING'')),
          (''findingIds'', JArr (uniq (i # is)))], ct_accepted := passed\<rparr>)) (\<lambda>_.
      act_bind (event env n ''SOL_RECHECK_RECORDED''
        [(''findingId'', i), (''verdict'', or_null (fld ''verdict'' response)), (''status'', or_null (fld ''status'' after)),
         (''rechecks'', or_null (fld ''rechecks'' after)),
         (''sourceAskId'', or_null (own ''askId'' (own ''ask'' prior))),
         (''sourceResponseId'', or_null (own ''responseId'' (own ''response'' prior)))]) (\<lambda>_.
      then_signal (set_vars (\<lambda>c. if passed then c\<lparr>ct_active := JNull, ct_binding := None, ct_repair := None\<rparr> else c))
        Continue)))))"

definition diagnose_step :: "sol_outcome \<Rightarrow> json \<Rightarrow> signal step" where
  "diagnose_step r response =
     (case sr_conversion r of
        Some (repair, ticket) \<Rightarrow>
          (if is_lit (fld ''verdict'' response) ''CAUSE_IDENTIFIED''
           then then_signal (set_vars (\<lambda>c. c\<lparr>ct_repair := Some repair, ct_diagnosis := obj [(''status'', JStr ''RESOLVED'')],
                  ct_accepted := False, ct_rejection := JNull\<rparr>)) Continue
           else stop ''REJECTED'' (Some ''UNSUPPORTED_CLAIM'') [])
      | None \<Rightarrow> stop ''REJECTED'' (Some ''UNSUPPORTED_CLAIM'') [])"

definition contract_check_step :: "ctl_env \<Rightarrow> nat \<Rightarrow> json \<Rightarrow> json \<Rightarrow> signal step" where
  "contract_check_step env n ask response =
     act_bind (set_vars (\<lambda>c. c\<lparr>ct_disposition := ''REVIEW_REQUIRED'', ct_reason := Some ''UNRESOLVED_SEMANTICS''\<rparr>)) (\<lambda>_.
     then_signal (event env n ''CONTRACT_REVIEW'' [(''verdict'', or_null (fld ''verdict'' response)),
       (''askId'', or_null (fld ''askId'' ask))]) Break)"

definition learn_sol :: "ctl_env \<Rightarrow> nat \<Rightarrow> string \<Rightarrow> json option \<Rightarrow> sol_outcome \<Rightarrow> signal step" where
  "learn_sol env n callType finding r =
     act_bind (set_vars (\<lambda>c. c\<lparr>ct_refs := uniq (ct_refs c @ sr_refs r)\<rparr>)) (\<lambda>_.
     case (sr_accepted r, sr_response r) of
       (True, Some response) \<Rightarrow>
         (if callType = ''SOL_DIAGNOSE'' then diagnose_step r response
          else if callType = ''SOL_CONTRACT_CHECK'' then contract_check_step env n (sr_ask r) response
          else if callType = ''SOL_FINAL_REVIEW'' then review_step env n (sr_ask r) response
          else recheck_step env n (or_null finding) response)
     | _ \<Rightarrow>
         (let code = (case sr_errorCode r of None \<Rightarrow> ''SOL_ASK_INVALID'' | Some x \<Rightarrow> x) in
          stop ''REJECTED'' (Some code) (if code = ''CODEX_OAUTH_UNAVAILABLE'' then [code] else [])))"

definition sol_ok_paths :: "sol_obs \<Rightarrow> sol_outcome \<Rightarrow> ctl \<Rightarrow> ctl" where
  "sol_ok_paths ob r c =
     c\<lparr>ct_solStore := (ct_solStore c \<or> so_acquired ob), ct_lifetimePaths := ct_lifetimePaths c @ [so_lifetime ob],
       ct_solPaths := ct_solPaths c @ (case so_proofFile ob of None \<Rightarrow> [] | Some f \<Rightarrow> [f])
         @ (if sr_accepted r then (case so_semanticFile ob of None \<Rightarrow> [] | Some f \<Rightarrow> [f]) else [])\<rparr>"

definition sol_failed_paths :: "sol_obs \<Rightarrow> ctl \<Rightarrow> ctl" where
  "sol_failed_paths ob c =
     c\<lparr>ct_solStore := (ct_solStore c \<or> so_acquired ob), ct_lifetimePaths := ct_lifetimePaths c @ fst (so_failPaths ob),
       ct_solPaths := ct_solPaths c @ snd (so_failPaths ob)\<rparr>"

text \<open>An attempt that throws ends the loop; it does not leave it.\<close>

definition call_sol :: "ctl_env \<Rightarrow> nat \<Rightarrow> json \<Rightarrow> string option \<Rightarrow> json option \<Rightarrow> json option \<Rightarrow> signal step" where
  "call_sol env n route callType prior finding = (\<lambda>c.
     case (case callType of
             None \<Rightarrow> (Inl (ControllerError ''SOL_ASK_INVALID''), c)
           | Some t \<Rightarrow> on_store (executeSolAttempt env n route t (ct_patch c) (ct_refs c) prior finding) c) of
       (Inl e, c') \<Rightarrow>
         (let code = publicErrorCode e ''SOL_ASK_INVALID'' in
          stop ''REJECTED'' (Some code) [code] (sol_failed_paths (ce_sol env n) c'))
     | (Inr r, c') \<Rightarrow> learn_sol env n (the callType) finding r (sol_ok_paths (ce_sol env n) r c'))"

definition sol_step :: "ctl_env \<Rightarrow> nat \<Rightarrow> json \<Rightarrow> string \<Rightarrow> signal step" where
  "sol_step env n route decision = with_vars (\<lambda>c.
     let callType = routeCallType decision in
     if callType = Some ''SOL_RECHECK'' then
       (case List.find (open_with_id (ct_active c)) (ct_findings c) of
          None \<Rightarrow> act_of (Inl (ControllerError ''SOL_ASK_INVALID''))
        | Some f \<Rightarrow>
            (let prior = fld ''priorSol'' f in
             if nullish prior then act_of (Inl (ControllerError ''SOL_ASK_INVALID''))
             else
               act_bind (event env n ''SOL_FINDING_RECHECK_DISPATCHED''
                 [(''findingId'', or_null (fld ''findingId'' f)), (''repairCycles'', or_else (fld ''repairCycles'' f) (JInt 0)),
                  (''sourceAskId'', or_null (own ''askId'' (own ''ask'' prior))),
                  (''sourceResponseId'', or_null (own ''responseId'' (own ''response'' prior)))]) (\<lambda>_.
               call_sol env n route callType prior (Some f))))
     else call_sol env n route callType None None)"

section \<open>One step\<close>

text \<open>A decision that ends the run.\<close>

definition complete_step :: "ctl_env \<Rightarrow> signal step" where
  "complete_step env = with_vars (\<lambda>c.
     if list_ex is_open (ct_findings c)
     then stop ''REJECTED'' (Some ''UNSUPPORTED_CLAIM'') [''OPEN_AUTHORITATIVE_SOL_FINDING'']
     else stop (if is_lit (own ''riskClass'' (Some (ce_contract env))) ''LOW_RISK'' then ''SEMANTICALLY_ACCEPTED''
                else ''REVIEW_APPROVED'') None [])"

definition stuck_reason :: "ctl \<Rightarrow> json \<Rightarrow> string" where
  "stuck_reason c route =
     js_string (Some (or_else (own ''rejectionCode'' (Some (ct_rejection c))) (or_null (fld ''reasonCode'' route))))"

text \<open>A dispatch: the permission, the worktree (its preparation may fail) and the budget come first.\<close>

definition dispatch :: "ctl_env \<Rightarrow> lcim_error option \<Rightarrow> nat \<Rightarrow> json \<Rightarrow> string \<Rightarrow> signal step" where
  "dispatch env worktree n route decision =
     act_bind (set_vars (\<lambda>c. c\<lparr>ct_state := js_string (fld ''nextState'' route)\<rparr>)) (\<lambda>_.
     let role = (if take 10 decision = ''ROUTE_SOL_'' then ''SOL'' else ''WORKER'') in
     if usesExternalProvider (ce_config env) role \<and> \<not> isExternalProviderAllowed (ce_permissions env)
     then stop ''REJECTED'' (Some ''UNSUPPORTED_CLAIM'') [''PROVIDER_PERMISSION_DENIED'']
     else
       act_bind (with_vars (\<lambda>c. if ct_worktree c then act_of (Inr ()) else fail_with worktree)) (\<lambda>_.
       act_bind (set_vars (\<lambda>c. c\<lparr>ct_worktree := True\<rparr>)) (\<lambda>_.
       act_bind (with_vars (\<lambda>c. act_bind (act_of (consume (ct_budget c))) (\<lambda>b. set_vars (\<lambda>c. c\<lparr>ct_budget := b\<rparr>)))) (\<lambda>_.
       if take 16 decision = ''ROUTE_IMPLEMENT_'' then worker_step env n route
       else sol_step env n route decision))))"

definition perform :: "ctl_env \<Rightarrow> lcim_error option \<Rightarrow> nat \<Rightarrow> json \<Rightarrow> signal step" where
  "perform env worktree n route =
     (let decision = js_string (fld ''decision'' route) in
      if decision = ''ROUTE_COMPLETE'' then complete_step env
      else if decision = ''STOP_BUDGET'' then stop ''REJECTED'' (Some ''BUDGET_EXHAUSTED'') []
      else if decision = ''STOP_STUCK''
      then with_vars (\<lambda>c. stop ''REJECTED'' (Some (stuck_reason c route)) [])
      else if decision = ''FAIL_NO_SUBSTITUTE''
      then stop ''REJECTED'' (Some ''UNSUPPORTED_CLAIM'') [js_string (fld ''reasonCode'' route)]
      else dispatch env worktree n route decision)"

definition controller_step :: "ctl_env \<Rightarrow> lcim_error option \<Rightarrow> nat \<Rightarrow> signal step" where
  "controller_step env worktree n = with_vars (\<lambda>c.
     act_bind (act_of (decideRoute (route_env_of env n c) (routeContext env c))) (\<lambda>route.
     act_bind (record_route env n route) (\<lambda>_.
     perform env worktree n route)))"

text \<open>The loop: \<open>k\<close> steps are left.  It ends by a break, by an error, or when the steps are used up.\<close>

fun controller_loop :: "ctl_env \<Rightarrow> lcim_error option \<Rightarrow> nat \<Rightarrow> nat \<Rightarrow> unit step" where
  "controller_loop env worktree 0 n = act_of (Inr ())"
| "controller_loop env worktree (Suc k) n =
     act_bind (controller_step env worktree n) (\<lambda>signal.
     if signal = Continue then controller_loop env worktree k (Suc n) else act_of (Inr ()))"

end
