(* ===== verification/Ctl_Run.thy ===== *)
theory Ctl_Run
  imports Ctl_Loop
begin

text \<open>
  The end and the start of a run, \<open>runController\<close> of src/src/controller/orchestrator.mjs: what is
  decided and recorded when the loop is over, the failure path of every error, the finalization of
  the ledger, and the operator's recovery commands.
\<close>

section \<open>The end of the loop\<close>

text \<open>
  What the end of a run observes: whether the real credential source is unchanged (with a reason),
  whether the run's credential store could be removed, at the first and at the last attempt, the
  verdicts of the sweeps of the transport surfaces, whether the ledger could take the transport as
  clean, and whether the worktree could be removed.
\<close>

record ctl_end =
  ed_now :: string
  ed_realAuth :: "bool \<times> json"
  ed_removed :: bool
  ed_swept :: bool
  ed_removedLast :: bool
  ed_sweptLast :: bool
  ed_clean :: bool
  ed_worktree :: bool

definition reject_with :: "string \<Rightarrow> string list \<Rightarrow> unit step" where
  "reject_with reason errs =
     set_vars (\<lambda>c. c\<lparr>ct_disposition := ''REJECTED'', ct_reason := Some reason, ct_errors := ct_errors c @ errs\<rparr>)"

definition when_vars :: "(ctl \<Rightarrow> bool) \<Rightarrow> unit step \<Rightarrow> unit step" where
  "when_vars P m = with_vars (\<lambda>c. if P c then m else act_of (Inr ()))"

lemmas [code_unfold] = when_vars_def

text \<open>The guards before anything is recorded; each can only turn the run into a rejection.\<close>

definition seam_guard :: "ctl_env \<Rightarrow> unit step" where
  "seam_guard env =
     when_vars (\<lambda>c. ct_disposition c = ''REVIEW_APPROVED'' \<and> ce_testSeam env)
       (reject_with ''SOL_TEST_SEAM_NON_AUTHORITATIVE'' [''SOL_TEST_SEAM_NON_AUTHORITATIVE''])"

definition store_guard :: "ctl_env \<Rightarrow> ctl_end \<Rightarrow> unit step" where
  "store_guard env fin =
     when_vars ct_solStore
       (act_bind (on_store (act_unit (appendControllerEvent (ed_now fin)
          (obj [(''kind'', JStr ''SOL_REAL_AUTH_READONLY_VERIFIED''), (''workUnitId'', JStr (ce_unit env)),
            (''invocationId'', JNull), (''readOnly'', JBool (fst (ed_realAuth fin))),
            (''reason'', snd (ed_realAuth fin)), (''recordedAt'', JStr (ed_now fin))])))) (\<lambda>_.
        if ed_removed fin then set_vars (\<lambda>c. c\<lparr>ct_solRemoved := True\<rparr>)
        else reject_with ''SOL_TRANSPORT_CLEANUP_FAILED'' [''SOL_TRANSPORT_CLEANUP_FAILED'']))"

definition sweep_guard :: "ctl_end \<Rightarrow> unit step" where
  "sweep_guard fin =
     (if ed_swept fin then act_of (Inr ())
      else reject_with ''SOL_TRANSPORT_CLEANUP_FAILED'' [''SOL_TRANSPORT_CLEANUP_FAILED''])"

definition approved :: "ctl \<Rightarrow> bool" where
  "approved c \<longleftrightarrow> ct_disposition c = ''SEMANTICALLY_ACCEPTED'' \<or> ct_disposition c = ''REVIEW_APPROVED''"

definition open_guard :: "unit step" where
  "open_guard =
     when_vars (\<lambda>c. approved c \<and> list_ex is_open (ct_findings c))
       (reject_with ''UNSUPPORTED_CLAIM'' [''OPEN_AUTHORITATIVE_SOL_FINDING''])"

text \<open>The references of every record of the end.\<close>

definition disposition_refs :: "ctl \<Rightarrow> string list" where
  "disposition_refs c =
     uniq (ct_refs c @ map (append ''boundary:'') (ct_boundaryPaths c)
       @ map (append ''process-lifetime:'') (ct_lifetimePaths c)
       @ map (append ''validation-evidence:'') (ct_validationPaths c)
       @ map (append ''sol-transport:'') (ct_solPaths c))"

definition disposition_data :: "ctl_env \<Rightarrow> ctl_end \<Rightarrow> string \<Rightarrow> string option \<Rightarrow> string list \<Rightarrow> json" where
  "disposition_data env fin disposition reason refs =
     obj ([(''workUnitId'', JStr (ce_unit env)), (''disposition'', JStr disposition)]
       @ optional_field ''reasonCode'' (map_option JStr reason)
       @ [(''decidedAt'', JStr (ed_now fin)), (''evidenceRefs'', strs refs)])"

definition record_disposition :: "ctl_env \<Rightarrow> ctl_end \<Rightarrow> string \<Rightarrow> string option \<Rightarrow> string list \<Rightarrow> unit step" where
  "record_disposition env fin disposition reason refs =
     on_store (act_unit (persistDisposition (Some (disposition_data env fin disposition reason refs))))"

definition reason_text :: "ctl \<Rightarrow> string" where
  "reason_text c = canonicalRejectionCode (case ct_reason c of None \<Rightarrow> ''UNSUPPORTED_CLAIM'' | Some r \<Rightarrow> r)"

definition record_rejected :: "ctl_env \<Rightarrow> ctl_end \<Rightarrow> unit step" where
  "record_rejected env fin =
     act_bind (set_vars (\<lambda>c. c\<lparr>ct_reason := Some (reason_text c)\<rparr>)) (\<lambda>_.
     with_vars (\<lambda>c. let reason = reason_text c; refs = disposition_refs c in
       act_bind (on_store (persistRejection (Some (obj [(''workUnitId'', JStr (ce_unit env)), (''rejectionCode'', JStr reason),
         (''reason'', JStr (reason_of_code reason ''UNSUPPORTED_CLAIM'')), (''evidenceRefs'', strs refs),
         (''rejectedAt'', JStr (ed_now fin))])))) (\<lambda>_.
       record_disposition env fin ''REJECTED'' (Some reason) refs)))"

definition candidate_data :: "ctl_env \<Rightarrow> ctl \<Rightarrow> json" where
  "candidate_data env c =
     (let get = \<lambda>f. case ct_patch c of None \<Rightarrow> JNull | Some p \<Rightarrow> JStr (f p) in
      obj [(''candidateId'', case ct_patch c of None \<Rightarrow> JStr (''candidate_'' @ ce_unit env) | Some p \<Rightarrow> JStr (pr_patchId p)),
        (''workUnitId'', JStr (ce_unit env)), (''runId'', ss_runId (st_session (ct_store c))),
        (''status'', JStr ''REVIEWABLE_CANDIDATE''), (''disposition'', JStr (ct_disposition c)),
        (''patchEvidenceId'', get pr_evidenceId), (''patchId'', get pr_patchId), (''patchHash'', get pr_patchHash),
        (''changedPaths'', strs (case ct_patch c of None \<Rightarrow> [] | Some p \<Rightarrow> pr_changedPaths p)),
        (''expectedBaseSha'', ce_base env),
        (''review'', JStr (if ct_disposition c = ''REVIEW_APPROVED'' then ''SOL_REVIEWED'' else ''NOT_REQUIRED_FOR_LOW_RISK''))])"

definition record_accepted :: "ctl_env \<Rightarrow> ctl_end \<Rightarrow> unit step" where
  "record_accepted env fin = with_vars (\<lambda>c. let refs = disposition_refs c in
     act_bind (record_disposition env fin ''PATCH_VALID'' None refs) (\<lambda>_.
     act_bind (record_disposition env fin ''SEMANTICALLY_ACCEPTED'' None refs) (\<lambda>_.
     act_bind (on_store (persistCandidate (candidate_data env c))) (\<lambda>candidate.
     act_bind (set_vars (\<lambda>c. c\<lparr>ct_candidate := Some candidate\<rparr>)) (\<lambda>_.
     if ct_disposition c = ''REVIEW_APPROVED'' then record_disposition env fin ''REVIEW_APPROVED'' None refs
     else act_of (Inr ()))))))"

definition unit_status :: "string \<Rightarrow> string" where
  "unit_status disposition =
     (if disposition = ''REJECTED'' \<or> disposition = ''REVIEW_REQUIRED'' then ''FAILED'' else ''COMPLETED'')"

definition record_end :: "ctl_env \<Rightarrow> ctl_end \<Rightarrow> json \<Rightarrow> unit step" where
  "record_end env fin unit = with_vars (\<lambda>c.
     act_bind (if ct_disposition c = ''REJECTED'' then record_rejected env fin
       else if ct_disposition c = ''REVIEW_REQUIRED''
       then record_disposition env fin ''REVIEW_REQUIRED'' None (disposition_refs c)
       else record_accepted env fin) (\<lambda>_.
     on_store (act_unit (persistWorkUnit
       (Some (set_field ''status'' (JStr (unit_status (ct_disposition c))) unit))))))"

definition end_of_loop :: "ctl_env \<Rightarrow> ctl_end \<Rightarrow> json \<Rightarrow> unit step" where
  "end_of_loop env fin unit =
     act_bind (seam_guard env) (\<lambda>_.
     act_bind (store_guard env fin) (\<lambda>_.
     act_bind (sweep_guard fin) (\<lambda>_.
     act_bind open_guard (\<lambda>_.
     record_end env fin unit))))"

section \<open>Errors, cleanup and the ledger\<close>

text \<open>Every error that leaves the loop or its end is a rejection; recording it may fail.\<close>

definition failure_path :: "ctl_env \<Rightarrow> ctl_end \<Rightarrow> lcim_error \<Rightarrow> unit step" where
  "failure_path env fin e =
     (let reason = canonicalRejectionCode (publicErrorCode e ''UNSUPPORTED_CLAIM'') in
      act_bind (reject_with reason [publicErrorCode e ''CONTROLLER_FAILED'']) (\<lambda>_.
      with_vars (\<lambda>c. attempt (record_disposition env fin ''REJECTED'' (Some reason) (ct_refs c)))))"

definition or_failure :: "ctl_env \<Rightarrow> ctl_end \<Rightarrow> unit step \<Rightarrow> unit step" where
  "or_failure env fin m = (\<lambda>c. case m c of (Inl e, c') \<Rightarrow> failure_path env fin e c' | r \<Rightarrow> r)"

lemmas [code_unfold] = or_failure_def

definition report_error :: "string \<Rightarrow> unit step" where
  "report_error code = set_vars (\<lambda>c. c\<lparr>ct_errors := ct_errors c @ [code]\<rparr>)"

definition finally_clean :: "ctl_env \<Rightarrow> ctl_end \<Rightarrow> unit step" where
  "finally_clean env fin =
     act_bind (when_vars (\<lambda>c. ct_solStore c \<and> \<not> ct_solRemoved c \<and> \<not> ed_removedLast fin)
       (report_error ''SOL_TRANSPORT_CLEANUP_FAILED'')) (\<lambda>_.
     (\<lambda>c. case on_store (run_op (reconcileOrphans (ce_sha env) (ed_now fin) None)) c of
        (Inl _, c') \<Rightarrow> report_error ''INCOMPLETE_LEDGER'' c'
      | (Inr _, c') \<Rightarrow> (Inr (), c')))"

text \<open>The terminal transition of the ledger, and the state it leaves.\<close>

definition finalize_run :: "ctl_env \<Rightarrow> ctl_end \<Rightarrow> json step" where
  "finalize_run env fin =
     act_bind (act_of (need (ed_sweptLast fin) (ControllerError ''SOL_TRANSPORT_CLEANUP_FAILED''))) (\<lambda>_.
     on_store (run_op (finalize (ce_sha env) (ed_clean fin) (ed_now fin))))"

definition close_ledger :: "ctl_env \<Rightarrow> ctl_end \<Rightarrow> (string \<times> jsval) step" where
  "close_ledger env fin = (\<lambda>c. case finalize_run env fin c of
     (Inr rec, c') \<Rightarrow> (Inr (js_string (own ''lifecycleState'' (Some rec)), own ''finalSummary'' (Some rec)), c')
   | (Inl e, c') \<Rightarrow>
       (Inr (''INCOMPLETE_LEDGER'', Some JNull),
        snd (report_error (if error_code e = Some ''SOL_TRANSPORT_CLEANUP_FAILED'' then ''SOL_TRANSPORT_CLEANUP_FAILED''
          else ''INCOMPLETE_LEDGER'') c')))"

section \<open>The result of a run\<close>

record run_result =
  rr_ok :: bool
  rr_lifecycle :: string
  rr_summary :: jsval
  rr_disposition :: string
  rr_rejectionCode :: "string option"
  rr_candidate :: "json option"
  rr_patch :: "patch_record option"
  rr_routes :: "json list"
  rr_errors :: "string list"

definition result_of :: "ctl \<Rightarrow> string \<times> jsval \<Rightarrow> run_result" where
  "result_of c life =
     \<lparr>rr_ok = (approved c \<and> fst life \<noteq> ''INCOMPLETE_LEDGER''), rr_lifecycle = fst life, rr_summary = snd life,
      rr_disposition = ct_disposition c,
      rr_rejectionCode = (if ct_disposition c = ''REJECTED'' then ct_reason c else None),
      rr_candidate = ct_candidate c, rr_patch = ct_patch c, rr_routes = ct_routes c, rr_errors = ct_errors c\<rparr>"

text \<open>The run of a work unit whose record is \<open>unit\<close>: it always has a result.\<close>

definition run_unit :: "ctl_env \<Rightarrow> lcim_error option \<Rightarrow> ctl_end \<Rightarrow> json \<Rightarrow> ctl \<Rightarrow> run_result \<times> ctl" where
  "run_unit env worktree fin unit c0 =
     (let c1 = snd (or_failure env fin (act_bind (controller_loop env worktree MAX_CONTROLLER_STEPS 0)
                 (\<lambda>_. end_of_loop env fin unit)) c0);
          c2 = snd (finally_clean env fin c1) in
      case close_ledger env fin c2 of
        (Inl _, c3) \<Rightarrow> (result_of c3 (''INCOMPLETE_LEDGER'', Some JNull), c3)
      | (Inr life, c3) \<Rightarrow>
          (let c4 = (if ct_worktree c3 \<and> \<not> ed_worktree fin
                     then c3\<lparr>ct_errors := ct_errors c3 @ [''WORKTREE_CLEANUP_FAILED'']\<rparr> else c3) in
           (result_of c4 life, c4)))"

section \<open>The start of a run\<close>

text \<open>
  What a run is started with, beside the environment: the normalized project configuration, the
  commands of the caller, the base of the target, the ids and the version of the program, and the
  verdict of the sweep of stale transport surfaces.  The environment's configuration, contract and
  permissions are computed from them.
\<close>

record run_input =
  ri_project :: json
  ri_worker :: "json option"
  ri_sol :: "json option"
  ri_base :: jsval
  ri_staleSwept :: bool
  ri_runId :: string
  ri_version :: string
  ri_commit :: json
  ri_existing :: "run_dir option"

definition digestConfig :: "digest_fun \<Rightarrow> json \<Rightarrow> string" where
  "digestConfig sha config = sha (canonical_json config)"

definition open_unit :: "string \<Rightarrow> json \<Rightarrow> store \<Rightarrow> store result" where
  "open_unit now unit s =
     (case act_bind (persistWorkUnit (Some unit)) (\<lambda>_.
           persistWorkUnit (Some (set_field ''status'' (JStr ''IN_PROGRESS'') unit))) s of
        (Inl e, _) \<Rightarrow> Inl e
      | (Inr _, s') \<Rightarrow> Inr s')"

definition runController :: "ctl_env \<Rightarrow> lcim_error option \<Rightarrow> ctl_end \<Rightarrow> run_input \<Rightarrow> (run_result \<times> ctl) result" where
  "runController env0 worktree fin inp =
     (let sha = ce_sha env0; now = ce_now env0 0 in
      rbind (compileProjectContract sha now (ri_project inp)) (\<lambda>contract.
      rbind (effectiveRoutingConfig (ri_project inp) (ri_worker inp) (ri_sol inp)) (\<lambda>config.
      rbind (need (ri_staleSwept inp) (ControllerError ''SOL_TRANSPORT_RECONCILE_FAILED'')) (\<lambda>_.
      rbind (create sha (ri_runId inp) (ri_version inp) (ri_commit inp) now (ri_base inp)
        (Some (JStr (digestConfig sha config))) (ri_existing inp)) (\<lambda>(ss, d).
      let env = env0\<lparr>ce_contract := contract, ce_config := config, ce_permissions := ri_project inp,
                     ce_base := or_null (ri_base inp)\<rparr>;
          unit = createControllerWorkUnit now (ss_runId ss) (ce_unit env0) (ce_base env) (ri_project inp) ''CREATED'' in
      rbind (open_unit now unit \<lparr>st_session = ss, st_dir = d, st_files = no_files\<rparr>) (\<lambda>s.
      rbind (createBudgetTracker (own ''unitCalls'' (own ''budgets'' (Some (ri_project inp))))
        (own ''runCalls'' (own ''budgets'' (Some (ri_project inp))))) (\<lambda>b.
      Inr (run_unit env worktree fin unit (initial_ctl b s)))))))))"

section \<open>Recovery\<close>

text \<open>
  \<open>recoverRun\<close>, \<open>finalizeRun\<close> and \<open>abortRun\<close>: nothing is done unless the sweep proved the transport
  gone, and a run that is closed stays as it is.
\<close>

definition terminal_sweep :: "bool \<Rightarrow> ('s, unit) action" where
  "terminal_sweep swept = act_of (need swept (ControllerError ''SOL_TRANSPORT_CLEANUP_FAILED''))"

definition open_for :: "digest_fun \<Rightarrow> jsval \<Rightarrow> run_dir option \<Rightarrow> (session \<times> run_dir) result" where
  "open_for sha runId dir =
     rbind (need (nonempty_string runId) (ConfigError ''a run id is required'')) (\<lambda>_.
     rbind (open_run sha runId dir) (\<lambda>ss. Inr (ss, the dir)))"

definition is_open_run :: "session \<Rightarrow> bool" where
  "is_open_run ss \<longleftrightarrow> is_lit (own ''lifecycleState'' (Some (ss_record ss))) ''OPEN''"

definition when_open :: "store \<Rightarrow> unit act \<Rightarrow> unit result \<times> store" where
  "when_open s m = (if is_open_run (st_session s) then m s else (Inr (), s))"

definition terminal_command :: "digest_fun \<Rightarrow> bool \<Rightarrow> jsval \<Rightarrow> run_dir option \<Rightarrow> unit act \<Rightarrow> unit result \<times> run_dir option" where
  "terminal_command sha swept runId dir m =
     (case rbind (open_for sha runId dir) (\<lambda>r. rbind (need swept (ControllerError ''SOL_TRANSPORT_CLEANUP_FAILED'')) (\<lambda>_. Inr r)) of
        Inl e \<Rightarrow> (Inl e, dir)
      | Inr (ss, d) \<Rightarrow>
          (case when_open \<lparr>st_session = ss, st_dir = d, st_files = no_files\<rparr> m of (r, s) \<Rightarrow> (r, Some (st_dir s))))"

definition recoverRun :: "digest_fun \<Rightarrow> bool \<Rightarrow> bool \<Rightarrow> string \<Rightarrow> jsval \<Rightarrow> run_dir option \<Rightarrow> unit result \<times> run_dir option" where
  "recoverRun sha swept clean now runId dir =
     terminal_command sha swept runId dir
       (act_bind (run_op (reconcileOrphans sha now None)) (\<lambda>_. act_unit (run_op (finalize sha clean now))))"

definition finalizeRun :: "digest_fun \<Rightarrow> bool \<Rightarrow> bool \<Rightarrow> string \<Rightarrow> jsval \<Rightarrow> run_dir option \<Rightarrow> unit result \<times> run_dir option" where
  "finalizeRun sha swept clean now runId dir =
     terminal_command sha swept runId dir (act_unit (run_op (finalize sha clean now)))"

definition abortRun :: "digest_fun \<Rightarrow> bool \<Rightarrow> bool \<Rightarrow> string \<Rightarrow> jsval \<Rightarrow> jsval \<Rightarrow> run_dir option \<Rightarrow> unit result \<times> run_dir option" where
  "abortRun sha swept clean now note runId dir =
     terminal_command sha swept runId dir
       (act_unit (run_op (abort clean now (Some (or_else note (JStr ''controller abort requested''))))))"

end
