(* ===== verification/Ctl_Ledger.thy ===== *)
theory Ctl_Ledger
  imports Ctl_Run Run_Laws
begin

text \<open>
  What the attempts of the controller leave behind: the files only grow, and every operation of
  the ledger but the start of an invocation leaves the number of started invocations as it is.
\<close>

named_theorems calm_rules \<open>actions under which no record is lost and no invocation starts\<close>

section \<open>Started invocations\<close>

definition is_start_line :: "nat \<times> json option \<Rightarrow> bool" where
  "is_start_line line \<longleftrightarrow> (case snd line of None \<Rightarrow> False | Some v \<Rightarrow> is_lit (own ''kind'' (Some v)) ''START'')"

definition started_in :: "run_dir \<Rightarrow> nat" where
  "started_in d = (case rd_ledger d of None \<Rightarrow> 0 | Some f \<Rightarrow> length (filter is_start_line (lf_lines f)))"

lemma map_of_filter: "map_of kvs k = (case filter (\<lambda>kv. fst kv = k) kvs of [] \<Rightarrow> None | kv # _ \<Rightarrow> Some (snd kv))"
  by (induction kvs) auto

lemma map_of_sort_key: "map_of (sort_key fst kvs) k = map_of kvs k"
  by (simp add: map_of_filter [of "sort_key fst kvs"] map_of_filter [of kvs] sort_key_stable)

lemma own_sorted: "own k (Some (sorted_json v)) = map_option sorted_json (own k (Some v))"
  by (cases v) (simp_all add: map_of_sort_key map_of_map_snd)

lemma assign_other: "k \<noteq> j \<Longrightarrow> map_of (assign j v kvs) k = map_of kvs k"
  by (simp add: assign_def split: option.split)

lemma chained_event_kind: "own ''kind'' (Some (chained_event sha now L given)) = map_of given ''kind''"
  by (simp add: chained_event_def Let_def assign_other)

lemma sorted_str [simp]: "sorted_json z = JStr s \<longleftrightarrow> z = JStr s"
  by (cases z) simp_all

text \<open>An append adds at most one line, of the kind it was given.\<close>

lemma append_line:
  assumes "appendEventLocked sha now given f L = (r, L', f')"
  shows "length (filter is_start_line (lf_lines f')) \<le>
    length (filter is_start_line (lf_lines f)) + (if is_lit (map_of given ''kind'') ''START'' then 1 else 0)"
proof -
  have "f' = f \<or> (\<exists>L1. f' = appendLineSync f (chained_event sha now L1 given))"
    using assms by (auto simp: appendEventLocked_def Let_def split: prod.splits sum.splits option.splits if_splits)
  then show ?thesis
    by (auto simp: appendLineSync_def is_start_line_def own_sorted chained_event_kind)
qed

lemma append_started:
  assumes "appendInvocationEvent sha now given s d = (r, s', d')"
  shows "started_in d' \<le> started_in d + (if is_lit (map_of given ''kind'') ''START'' then 1 else 0)"
proof -
  obtain q s1 d1 where q: "appendEvent sha now (lifecycle_fields given s) s d = (q, s1, d1)"
    by (metis surj_pair)
  have ev: "started_in d1 \<le> started_in d + (if is_lit (map_of given ''kind'') ''START'' then 1 else 0)"
    using q
    by (auto simp: appendEvent_def append_under_lock_def started_in_def lifecycle_fields_def assign_other
        split: sum.splits option.splits prod.splits dest!: append_line)
  have "d' = d1 \<or> (\<exists>i r2. refreshInvocationRecord i s1 d1 = (r2, d'))"
    using assms unfolding appendInvocationEvent_def q by (auto split: sum.splits prod.splits)
  then have "rd_ledger d' = rd_ledger d1"
    by (auto dest: refresh_ledger)
  then show ?thesis
    using ev by (simp add: started_in_def)
qed

lemma kind_of_defined: "map_of (defined_props ((''kind'', Some v) # kvs)) ''kind'' = Some v"
  by (simp add: defined_props_def List.map_filter_simps)

lemma complete_started: "complete sha now i given s d = (r, s', d') \<Longrightarrow> started_in d' \<le> started_in d"
  by (simp only: complete_def Let_def) (drule append_started, simp add: kind_of_defined)

lemma assess_started: "assess sha now i given s d = (r, s', d') \<Longrightarrow> started_in d' \<le> started_in d"
  by (simp only: assess_def Let_def) (drule append_started, simp add: kind_of_defined)

lemma reconcile_started: "reconcileInvocation sha now given s d = (r, s', d') \<Longrightarrow> started_in d' \<le> started_in d"
  by (auto simp: reconcileInvocation_def Let_def kind_of_defined split: sum.splits dest!: append_started)

lemma start_started: "startInvocation sha now i given s d = (r, s', d') \<Longrightarrow> started_in d' \<le> Suc (started_in d)"
  by (auto simp: startInvocation_def Let_def kind_of_defined split: sum.splits dest!: append_started)

lemma reconcile_all_started: "reconcile_all sha now at is acc s d = (r, s', d') \<Longrightarrow> started_in d' \<le> started_in d"
proof (induction "is" arbitrary: acc s d)
  case (Cons i "is")
  show ?case
  proof (cases "state_of (lg_states (ss_ledger s)) i")
    case (Some st)
    obtain q s1 d1 where q: "reconcileInvocation sha now
         (defined_props [(''invocationId'', i),
            (''reason'', Some (JStr (if st_status st = Some STARTED then ''CRASH_AFTER_START'' else ''CRASH_AFTER_COMPLETION''))),
            (''occurredAt'', at)]) s d = (q, s1, d1)"
      by (metis surj_pair)
    show ?thesis
    proof (cases q)
      case (Inl e)
      then show ?thesis
        using Cons.prems reconcile_started [OF q] by (simp add: Some q)
    next
      case (Inr ev)
      then have "reconcile_all sha now at is (acc @ [ev]) s1 d1 = (r, s', d')"
        using Cons.prems by (simp add: Some q)
      from Cons.IH [OF this] show ?thesis
        using reconcile_started [OF q] by simp
    qed
  qed (use Cons.prems in simp)
qed simp

section \<open>Calm actions\<close>

definition started :: "store \<Rightarrow> nat" where
  "started s = started_in (st_dir s)"

definition calm :: "store \<Rightarrow> store \<Rightarrow> bool" where
  "calm s t \<longleftrightarrow> files_grow (st_files s) (st_files t) \<and> started t \<le> started s"

interpretation calm: store_relation calm
  by unfold_locales (auto simp: calm_def intro: files_grow_trans)

lemma calm_file_op: "(\<And>f. files_grow f (g f)) \<Longrightarrow> calm.keeps (file_op g)"
  by (rule calm.keepsI) (simp add: calm_def started_def)

lemma calm_files [calm_rules]:
  "calm.keeps (appendControllerEvent now ev)" "calm.keeps (persistRouteDecision r)"
  "calm.keeps (persistDisposition d)" "calm.keeps (persistRejection d)"
  "calm.keeps (persistFinding now fresh d)" "calm.keeps (persistWorkUnit d)"
  "calm.keeps (persistCandidate v)"
  unfolding appendControllerEvent_def persistRouteDecision_def persistDisposition_def persistRejection_def
    persistFinding_def persistWorkUnit_def persistCandidate_def Let_def
  by (intro calm.keeps_bind calm.keeps_of calm_file_op; simp add: files_grow_def)+

lemma calm_artifact [calm_rules]: "calm.keeps (persistSolArtifact kind i v)"
  by (rule calm.keepsI) (simp add: persistSolArtifact_def calm_def files_grow_def started_def)

lemma calm_run_op:
  assumes "\<And>ss d r ss' d'. f ss d = (r, ss', d') \<Longrightarrow> started_in d' \<le> started_in d"
  shows "calm.keeps (run_op f)"
  by (rule calm.keepsI) (auto simp: run_op_def calm_def started_def split: prod.split dest: assms)

lemma calm_ledger [calm_rules]:
  "calm.keeps (complete_act env n i outcome err)" "calm.keeps (assess_act env n i rej summary refs)"
  unfolding complete_act_def assess_act_def
  by (rule calm_run_op, erule complete_started) (rule calm_run_op, erule assess_started)

lemma calm_or_reconcile [calm_rules]: "calm.keeps m \<Longrightarrow> calm.keeps (or_reconcile env n i note m)"
proof (rule calm.keepsI)
  fix s
  assume m: "calm.keeps m"
  obtain r t where mt: "m s = (r, t)" by (metis surj_pair)
  have rec: "calm.keeps (run_op (reconcileInvocation sha now given))" for sha now given
    by (rule calm_run_op, erule reconcile_started)
  show "calm s (snd (or_reconcile env n i note m s))"
  proof (cases r)
    case (Inl e)
    then show ?thesis
      unfolding or_reconcile_def mt using calm.R_trans [OF calm.keepsD [OF m mt]] rec
      by (simp add: calm.keeps_def)
  next
    case (Inr x)
    then show ?thesis
      using calm.keepsD [OF m mt] by (simp add: or_reconcile_def mt)
  qed
qed

lemma calm_unit [calm_rules]: "calm.keeps m \<Longrightarrow> calm.keeps (act_unit m)"
  unfolding act_unit_def by (intro calm.keeps_bind calm.keeps_of)

lemmas [calm_rules] = calm.keeps_of calm.keeps_attempt

lemma calm_fail [calm_rules]: "calm.keeps (fail_if e)"
  by (simp add: fail_if_def calm.keeps_of)

lemma calm_unquiescent [calm_rules]: "calm.keeps ev \<Longrightarrow> calm.keeps (close_unquiescent env n i note lifetime ev)"
  unfolding close_unquiescent_def by (intro calm.keeps_bind calm_rules)

lemma calm_worker_try: "calm.keeps (worker_try env n ob)"
  unfolding worker_try_def worker_invoke_def
  by (intro calm.keeps_bind calm_rules; simp add: calm_rules)+

lemma calm_record_worker: "calm.keeps (record_worker env n ob p w)"
  unfolding record_worker_def by (intro calm.keeps_bind calm_rules)

lemma calm_sol_try: "calm.keeps (sol_try env n ob)"
  unfolding sol_try_def by (intro calm.keeps_bind calm_rules; simp add: calm_rules)+

lemma calm_convert: "calm.keeps (convert_response env n t ask response)"
  unfolding convert_response_def by (intro calm.keeps_bind calm_rules; simp add: calm_rules calm.keeps_bind)+

lemma calm_sol_response: "calm.keeps (sol_response env n t ask r)"
proof (rule calm.keepsI)
  fix s
  have "calm s (snd (convert_response env n t ask response s))" for response
    using calm_convert by (simp add: calm.keeps_def)
  then show "calm s (snd (sol_response env n t ask r s))"
    by (auto simp: sol_response_def compile_response_def calm.R_refl split: option.split sum.split prod.split)
       (metis snd_conv)+
qed

lemma calm_record_sol: "calm.keeps (record_sol env n t refs ask r)"
  unfolding record_sol_def Let_def by (cases r) (auto intro!: calm.keeps_bind calm_rules)

lemma calm_sol_ask: "calm.keeps (sol_ask_act env n t p refs prior finding)"
  unfolding sol_ask_act_def by (intro calm.keeps_bind calm_rules)

section \<open>Attempts\<close>

text \<open>An attempt starts at most one invocation.\<close>

definition one_start :: "store \<Rightarrow> store \<Rightarrow> bool" where
  "one_start s t \<longleftrightarrow> files_grow (st_files s) (st_files t) \<and> started t \<le> Suc (started s)"

lemma calm_one_start: "calm s t \<Longrightarrow> one_start s t"
  by (simp add: calm_def one_start_def)

lemma calm_then_one: "calm s t \<Longrightarrow> one_start t u \<Longrightarrow> one_start s u"
  by (auto simp: calm_def one_start_def intro: files_grow_trans)

lemma one_then_calm: "one_start s t \<Longrightarrow> calm t u \<Longrightarrow> one_start s u"
  by (auto simp: calm_def one_start_def intro: files_grow_trans)

lemma start_act_one: "one_start s (snd (start_act env n route role i s))"
  by (auto simp: start_act_def run_op_def one_start_def started_def split: prod.split dest: start_started)

lemma one_start_bind:
  assumes "one_start s (snd (m s))" and "\<And>x. calm.keeps (k x)"
  shows "one_start s (snd (act_bind m k s))"
proof -
  obtain r t where "m s = (r, t)" by (metis surj_pair)
  then show ?thesis
    using assms by (auto simp: act_bind_def calm.keeps_def split: sum.split intro: one_then_calm)
qed

lemma worker_one_start: "one_start s (snd (executeWorkerAttempt env n route s))"
  unfolding executeWorkerAttempt_def Let_def
  by (intro one_start_bind start_act_one calm.keeps_bind calm_worker_try calm_record_worker calm_rules)

lemma sol_one_start: "one_start s (snd (executeSolAttempt env n route t p refs prior finding s))"
proof -
  let ?rest = "\<lambda>ask. act_bind (start_act env n route ''SOL'' (so_invocation (ce_sol env n))) (\<lambda>_.
      act_bind (act_of (codex_only (ce_config env) route)) (\<lambda>_.
      act_bind (sol_try env n (ce_sol env n)) (\<lambda>r.
      act_bind (complete_act env n (so_invocation (ce_sol env n)) (provider_outcome (snd r))
        (if provider_outcome (snd r) = ''SUCCESS'' then None else Some ''SOL_PROVIDER_FAILED'')) (\<lambda>_.
      act_bind (sol_response env n t ask r) (\<lambda>resp.
      record_sol env n t refs ask resp)))))"
  have rest: "one_start u (snd (?rest ask u))" for ask u
    by (intro one_start_bind start_act_one calm.keeps_bind calm_sol_try calm_sol_response calm_record_sol calm_rules)
  obtain r u where ru: "sol_ask_act env n t p refs prior finding s = (r, u)" by (metis surj_pair)
  have "calm s u"
    by (rule calm.keepsD [OF calm_sol_ask ru])
  then show ?thesis
    unfolding executeSolAttempt_def Let_def using rest
    by (auto simp: act_bind_def [of "sol_ask_act env n t p refs prior finding"] ru split: sum.split
        intro: calm_then_one calm_one_start)
qed

end
