(* ===== verification/Ctl_Triples.thy ===== *)
theory Ctl_Triples
  imports Ctl_Ledger Route_Laws Sol_Laws
begin

text \<open>
  Reasoning about the actions of the controller: a triple says what holds after an action when it
  returns and when it throws.  The invariant of the loop is stated over the record of its
  variables: the routes are a path of the escalation machine, the started invocations are paid
  for, and what the controller believes of a review or of a closed finding is vouched for by the
  compiled documents and the events of the run.
\<close>

named_theorems triple_rules \<open>triples of composed actions\<close>

named_theorems core_rules \<open>actions that keep the invariant of the loop\<close>

section \<open>Triples\<close>

definition triple :: "('s \<Rightarrow> bool) \<Rightarrow> ('s, 'a) action \<Rightarrow> ('a \<Rightarrow> 's \<Rightarrow> bool) \<Rightarrow> ('s \<Rightarrow> bool) \<Rightarrow> bool" where
  "triple P m Q E \<longleftrightarrow> (\<forall>s. P s \<longrightarrow>
     (\<forall>x t. m s = (Inr x, t) \<longrightarrow> Q x t) \<and> (\<forall>e t. m s = (Inl e, t) \<longrightarrow> E t))"

abbreviation stable :: "('s \<Rightarrow> bool) \<Rightarrow> ('s, 'a) action \<Rightarrow> bool" where
  "stable I m \<equiv> triple I m (\<lambda>_. I) I"

lemma tripleI: "(\<And>s x t. P s \<Longrightarrow> m s = (Inr x, t) \<Longrightarrow> Q x t) \<Longrightarrow> (\<And>s e t. P s \<Longrightarrow> m s = (Inl e, t) \<Longrightarrow> E t) \<Longrightarrow> triple P m Q E"
  unfolding triple_def by blast

lemma triple_Inr: "triple P m Q E \<Longrightarrow> P s \<Longrightarrow> m s = (Inr x, t) \<Longrightarrow> Q x t"
  unfolding triple_def by blast

lemma triple_Inl: "triple P m Q E \<Longrightarrow> P s \<Longrightarrow> m s = (Inl e, t) \<Longrightarrow> E t"
  unfolding triple_def by blast

lemma triple_bind [triple_rules]:
  assumes m: "triple P m R E" and k: "\<And>x. triple (R x) (k x) Q E"
  shows "triple P (act_bind m k) Q E"
proof (rule tripleI)
  fix s y u
  assume P: "P s" and "act_bind m k s = (Inr y, u)"
  then obtain x t where "m s = (Inr x, t)" "k x t = (Inr y, u)"
    by (auto simp: act_bind_eq_Inr)
  then show "Q y u"
    using triple_Inr [OF k triple_Inr [OF m P]] by blast
next
  fix s e u
  assume P: "P s" and "act_bind m k s = (Inl e, u)"
  then consider "m s = (Inl e, u)" | x t where "m s = (Inr x, t)" "k x t = (Inl e, u)"
    by (auto simp: act_bind_def split: prod.splits sum.splits)
  then show "E u"
    using triple_Inl [OF m P] triple_Inl [OF k triple_Inr [OF m P]] by cases blast+
qed

lemma triple_weaken:
  "triple P m Q E \<Longrightarrow> (\<And>s. P' s \<Longrightarrow> P s) \<Longrightarrow> (\<And>x s. Q x s \<Longrightarrow> Q' x s) \<Longrightarrow> (\<And>s. E s \<Longrightarrow> E' s) \<Longrightarrow> triple P' m Q' E'"
  unfolding triple_def by blast

lemma triple_of: "(\<And>s x. P s \<Longrightarrow> r = Inr x \<Longrightarrow> Q x s) \<Longrightarrow> (\<And>s e. P s \<Longrightarrow> r = Inl e \<Longrightarrow> E s) \<Longrightarrow> triple P (act_of r) Q E"
  by (auto intro!: tripleI)

lemma triple_set: "(\<And>c. P c \<Longrightarrow> Q () (f c)) \<Longrightarrow> triple P (set_vars f) Q E"
  by (auto intro!: tripleI simp: set_vars_def)

lemma triple_with: "(\<And>c. triple (\<lambda>d. d = c \<and> P d) (f c) Q E) \<Longrightarrow> triple P (with_vars f) Q E"
  unfolding triple_def with_vars_def by blast

lemma triple_gives: "triple P m (\<lambda>_. Q) Q \<Longrightarrow> P s \<Longrightarrow> Q (snd (m s))"
  unfolding triple_def by (cases "m s"; cases "fst (m s)") (metis fst_conv snd_conv)+

lemma stableI: "(\<And>s. I s \<Longrightarrow> I (snd (m s))) \<Longrightarrow> stable I m"
  by (rule tripleI) (metis snd_conv)+

lemma stable_of [core_rules]: "stable I (act_of r)"
  by (auto intro: triple_of)

lemma stable_bind: "stable I m \<Longrightarrow> (\<And>x. stable I (k x)) \<Longrightarrow> stable I (act_bind m k)"
  by (rule triple_bind)

lemma stable_with: "(\<And>c. stable I (f c)) \<Longrightarrow> stable I (with_vars f)"
  unfolding triple_def with_vars_def by blast

lemma stable_set: "(\<And>c. I c \<Longrightarrow> I (f c)) \<Longrightarrow> stable I (set_vars f)"
  by (rule triple_set)

lemma triple_then: "triple P m (\<lambda>_. Q g) E \<Longrightarrow> triple P (then_signal m g) Q E"
  unfolding then_signal_def by (rule triple_bind) (auto intro: triple_of)

lemma triple_attempt: "stable I m \<Longrightarrow> stable I (attempt m)"
  by (rule tripleI) (auto dest: triple_gives)

section \<open>What vouches for a review\<close>

text \<open>
  A compiled ask and a compiled response of a call type are among the artifacts of the run, and an
  assessment of the response, with its verdict, was accepted.
\<close>

definition accepted_event :: "string \<Rightarrow> json \<Rightarrow> json \<Rightarrow> json \<Rightarrow> bool" where
  "accepted_event callType ask response ev \<longleftrightarrow>
     is_lit (fld ''kind'' ev) ''SOL_ASSESSMENT'' \<and> is_lit (fld ''callType'' ev) callType \<and>
     fld ''accepted'' ev = Some (JBool True) \<and> fld ''askId'' ev = Some (or_null (fld ''askId'' ask)) \<and>
     fld ''responseId'' ev = Some (or_null (fld ''responseId'' response)) \<and>
     fld ''responseVerdict'' ev = Some (or_null (fld ''verdict'' response))"

definition vouched :: "ctl_files \<Rightarrow> string \<Rightarrow> json \<Rightarrow> json \<Rightarrow> bool" where
  "vouched f callType ask response \<longleftrightarrow>
     map_of (cf_artifacts f) (''asks'', js_string (fld ''askId'' ask)) = Some ask \<and>
     map_of (cf_artifacts f) (''responses'', js_string (fld ''responseId'' response)) = Some response \<and>
     list_ex (accepted_event callType ask response) (cf_events f)"

lemma extends_set: "extends xs ys \<Longrightarrow> list_ex P xs \<Longrightarrow> list_ex P ys"
  by (auto simp: extends_iff)

lemma extends_map_of: "extends xs ys \<Longrightarrow> map_of xs k = Some v \<Longrightarrow> map_of ys k = Some v"
  by (auto simp: extends_iff map_add_def)

lemma vouched_grow: "files_grow f g \<Longrightarrow> vouched f t a r \<Longrightarrow> vouched g t a r"
  by (auto simp: vouched_def files_grow_def intro: extends_set extends_map_of)

text \<open>A review the controller takes as passed.\<close>

definition review_vouched :: "ctl_files \<Rightarrow> bool" where
  "review_vouched f \<longleftrightarrow> (\<exists>ask response.
     vouched f ''SOL_FINAL_REVIEW'' ask response \<and> is_lit (fld ''verdict'' response) ''PASS'' \<or>
     vouched f ''SOL_RECHECK'' ask response \<and> is_lit (fld ''verdict'' response) ''RESOLVED'')"

text \<open>A recheck of exactly this finding that found it resolved.\<close>

definition recheck_vouched :: "ctl_files \<Rightarrow> json \<Rightarrow> bool" where
  "recheck_vouched f finding \<longleftrightarrow> (\<exists>ask response.
     vouched f ''SOL_RECHECK'' ask response \<and> is_lit (fld ''verdict'' response) ''RESOLVED'' \<and>
     own ''priorFindingRef'' (fld ''recheck'' ask) = map_option deep_clone_json (fld ''findingId'' finding))"

definition beliefs_vouched :: "ctl \<Rightarrow> bool" where
  "beliefs_vouched c \<longleftrightarrow>
     (is_lit (own ''verdict'' (Some (ct_review c))) ''PASSED'' \<longrightarrow> review_vouched (st_files (ct_store c))) \<and>
     (\<forall>f \<in> set (ct_findings c). is_open f \<or> recheck_vouched (st_files (ct_store c)) f)"

lemma review_vouched_grow: "files_grow f g \<Longrightarrow> review_vouched f \<Longrightarrow> review_vouched g"
  unfolding review_vouched_def using vouched_grow by blast

lemma recheck_vouched_grow: "files_grow f g \<Longrightarrow> recheck_vouched f x \<Longrightarrow> recheck_vouched g x"
  unfolding recheck_vouched_def using vouched_grow by blast

section \<open>The path of the routes\<close>

text \<open>A list of decisions that starts in a state and follows the machine, and the state it leads to.\<close>

fun follows :: "string \<Rightarrow> json list \<Rightarrow> bool" where
  "follows s [] \<longleftrightarrow> True"
| "follows s (r # rs) \<longleftrightarrow>
     is_lit (fld ''state'' r) s \<and> validateRouteDecision r = Inr [] \<and>
     list_ex (\<lambda>e. machine_step s e = Some (js_string (fld ''nextState'' r))) ESCALATION_EVENT \<and>
     follows (js_string (fld ''nextState'' r)) rs"

fun leads_to :: "string \<Rightarrow> json list \<Rightarrow> string" where
  "leads_to s [] = s"
| "leads_to s (r # rs) = leads_to (js_string (fld ''nextState'' r)) rs"

lemma follows_append: "follows s (rs @ qs) \<longleftrightarrow> follows s rs \<and> follows (leads_to s rs) qs"
  by (induction s rs rule: follows.induct) auto

lemma leads_to_append: "leads_to s (rs @ qs) = leads_to (leads_to s rs) qs"
  by (induction s rs rule: leads_to.induct) auto

lemma decided_follows:
  assumes "decideRoute env ctx = Inr r"
  shows "follows (ctx_state ctx) [r]"
proof -
  obtain ev nx where ev: "ev \<in> set ESCALATION_EVENT" "nextState (ctx_state ctx) ev = Inr nx" "is_lit (fld ''nextState'' r) nx"
    using decideRoute_transition(1) [OF assms] by blast
  then show ?thesis
    using decideRoute_valid(1,3) [OF assms] by (auto simp: list_ex_iff intro!: bexI [of _ ev])
qed

section \<open>The invariant of the loop\<close>

text \<open>
  What the invariant is relative to: the limits of the budget and of the number of routes, how many
  routes are left, how many of the taken ones are not paid for yet, how many invocations may start
  before more of the budget is consumed, the state the routes lead to, the current state, and
  documents that are vouched for.
\<close>

record mark =
  mk_limits :: "budget \<times> nat"
  mk_left :: nat
  mk_spare :: nat
  mk_paid :: nat
  mk_end :: string
  mk_state :: string
  mk_docs :: "(string \<times> json \<times> json) list"

definition core :: "mark \<Rightarrow> ctl \<Rightarrow> bool" where
  "core p c \<longleftrightarrow>
     follows ''ROUTING_READY'' (ct_routes c) \<and> leads_to ''ROUTING_READY'' (ct_routes c) = mk_end p \<and>
     ct_state c = mk_state p \<and> length (ct_routes c) + mk_left p = snd (mk_limits p) \<and>
     unitCalls (ct_budget c) = unitCalls (fst (mk_limits p)) \<and> runCalls (ct_budget c) = runCalls (fst (mk_limits p)) \<and>
     budget_ok (ct_budget c) \<and> unitCallsConsumed (ct_budget c) = runCallsConsumed (ct_budget c) \<and>
     int (started (ct_store c) + mk_paid p) \<le> runCallsConsumed (ct_budget c) \<and>
     runCallsConsumed (ct_budget c) + int (mk_spare p) \<le> int (length (ct_routes c)) \<and>
     ct_disposition c \<in> {''REJECTED'', ''REVIEW_REQUIRED''} \<and> beliefs_vouched c \<and>
     list_all (\<lambda>(t, a, r). vouched (st_files (ct_store c)) t a r) (mk_docs p)"

text \<open>The invariant as an error leaves it.\<close>

definition kept :: "budget \<times> nat \<Rightarrow> ctl \<Rightarrow> bool" where
  "kept b c \<longleftrightarrow> (\<exists>p. mk_limits p = b \<and> core p c)"

lemma core_kept: "core p c \<Longrightarrow> kept (mk_limits p) c"
  by (auto simp: kept_def)

lemma on_store_eq: "on_store m c = (case m (ct_store c) of (r, s) \<Rightarrow> (r, c\<lparr>ct_store := s\<rparr>))"
  by (simp add: on_store_def)

lemma beliefs_store:
  assumes "beliefs_vouched c" and "files_grow (st_files (ct_store c)) (st_files s)"
  shows "beliefs_vouched (c\<lparr>ct_store := s\<rparr>)"
  using assms by (auto simp: beliefs_vouched_def intro: review_vouched_grow recheck_vouched_grow)

lemma docs_grow: "files_grow f g \<Longrightarrow> list_all (\<lambda>(t, a, r). vouched f t a r) ds \<Longrightarrow> list_all (\<lambda>(t, a, r). vouched g t a r) ds"
  by (auto simp: list_all_iff intro: vouched_grow)

lemma core_store: "core p c \<Longrightarrow> calm (ct_store c) st \<Longrightarrow> core p (c\<lparr>ct_store := st\<rparr>)"
  by (auto simp: core_def calm_def intro: beliefs_store docs_grow)

lemma core_on_store [core_rules]: "calm.keeps m \<Longrightarrow> stable (core p) (on_store m)"
  by (rule tripleI) (auto simp: on_store_eq split: prod.splits intro: core_store dest: calm.keepsD)

text \<open>An action that may start one invocation uses up what is paid for.\<close>

lemma core_one_start:
  assumes "core p c" and "mk_paid p = 1" and "one_start (ct_store c) st"
  shows "core (p\<lparr>mk_paid := 0\<rparr>) (c\<lparr>ct_store := st\<rparr>)"
  using assms by (auto simp: core_def one_start_def intro: beliefs_store docs_grow)

lemma triple_one_start:
  assumes "\<And>s. one_start s (snd (m s))" and "mk_paid p = 1"
  shows "triple (core p) (on_store (m :: 'a act)) (\<lambda>_. core (p\<lparr>mk_paid := 0\<rparr>)) (core (p\<lparr>mk_paid := 0\<rparr>))"
proof (rule tripleI)
  have *: "core (p\<lparr>mk_paid := 0\<rparr>) t" if c: "core p c" and m: "on_store m c = (r, t)"
    for c t and r :: "'a result"
    using core_one_start [OF c assms(2,1)] m by (auto simp: on_store_eq split: prod.splits)
  fix c x t e
  show "core p c \<Longrightarrow> on_store m c = (Inr x, t) \<Longrightarrow> core (p\<lparr>mk_paid := 0\<rparr>) t"
    by (rule *)
  show "core p c \<Longrightarrow> on_store m c = (Inl e, t) \<Longrightarrow> core (p\<lparr>mk_paid := 0\<rparr>) t"
    by (rule *)
qed

text \<open>A change of the variables the invariant does not speak of.\<close>

definition unseen :: "(ctl \<Rightarrow> ctl) \<Rightarrow> bool" where
  "unseen f \<longleftrightarrow> (\<forall>c. ct_routes (f c) = ct_routes c \<and> ct_state (f c) = ct_state c \<and> ct_budget (f c) = ct_budget c \<and>
     ct_store (f c) = ct_store c \<and> ct_disposition (f c) = ct_disposition c \<and> ct_review (f c) = ct_review c \<and>
     ct_findings (f c) = ct_findings c)"

lemma core_unseen: "unseen f \<Longrightarrow> core p c \<Longrightarrow> core p (f c)"
  by (simp add: unseen_def core_def beliefs_vouched_def)

lemma core_set [core_rules]: "unseen f \<Longrightarrow> stable (core p) (set_vars f)"
  by (auto intro: stable_set core_unseen)

end
