(* ===== verification/Ctl_Sol_Laws.thy ===== *)
theory Ctl_Sol_Laws
  imports Ctl_Triples
begin

text \<open>
  What an accepted SOL attempt leaves behind: the compiled ask and the compiled response among the
  artifacts of the run, and an accepted assessment of exactly this exchange among its events.
\<close>

lemma grow_stable:
  assumes "\<And>s. files_grow (st_files s) (st_files (snd (m s)))"
    and "\<And>s t. files_grow (st_files s) (st_files t) \<Longrightarrow> I s \<Longrightarrow> I t"
  shows "stable I m"
  by (rule tripleI) (metis assms snd_conv)+

lemma calm_grows: "calm.keeps m \<Longrightarrow> files_grow (st_files s) (st_files (snd (m s)))"
  by (simp add: calm.keeps_def calm_def)

lemma start_grows: "files_grow (st_files s) (st_files (snd (start_act env n route role i s)))"
  using start_act_one [of s] by (simp add: one_start_def)

section \<open>Artifacts\<close>

definition stored :: "string \<Rightarrow> string \<Rightarrow> json \<Rightarrow> store \<Rightarrow> bool" where
  "stored kind i v s \<longleftrightarrow> map_of (cf_artifacts (st_files s)) (kind, i) = Some v"

lemma stored_grow: "files_grow (st_files s) (st_files t) \<Longrightarrow> stored kind i v s \<Longrightarrow> stored kind i v t"
  by (auto simp: stored_def files_grow_def intro: extends_map_of)

lemma calm_stored: "calm.keeps m \<Longrightarrow> stable (stored kind i v) m"
  by (rule grow_stable [OF calm_grows stored_grow])

lemma persist_stored: "triple P (persistSolArtifact kind i v) (\<lambda>_. stored kind i v) (\<lambda>_. True)"
  by (rule tripleI) (auto simp: persistSolArtifact_def stored_def map_add_def split: if_splits)

lemma triple_true: "triple P m (\<lambda>_ _. True) (\<lambda>_. True)"
  by (simp add: triple_def)

section \<open>The recheck block of a compiled ask\<close>

lemma clone_own: "k \<noteq> ''__proto__'' \<Longrightarrow> own k (map_option deep_clone_json v) = map_option deep_clone_json (own k v)"
  by (cases v) (simp_all add: deep_clone_own)

lemma recheck_draft:
  "fld ''recheck'' (ask_draft fresh at input ''recheck'' block budget evidence) = Some block"
  by (simp add: ask_draft_def map_of_parts del: map_of_append split: option.split)

lemma recheck_made:
  assumes "makeSolAsk ''SOL_RECHECK'' contract pr refs prior finding = Inr inp"
  shows "call_type inp ''SOL_RECHECK''"
    and "\<exists>kvs. fld ''recheck'' inp = Some (JObj kvs) \<and> map_of kvs ''priorFindingRef'' = own ''findingId'' finding"
  using assms
  by (auto simp: makeSolAsk_def Let_def call_type_def ask_common_def recheck_input_def map_of_parts
      simp del: map_of_append split: option.splits)

lemma recheck_block_ref:
  assumes "recheck_block sha inp prior = Inr block" and "fld ''recheck'' inp = Some (JObj kvs)"
  shows "own ''priorFindingRef'' (Some block) = map_of kvs ''priorFindingRef''"
proof -
  obtain a r f where "block = prior_block sha inp a r f"
    using assms by (auto simp: recheck_block_def Let_def split: option.splits json.splits)
  then show ?thesis
    using assms(2) by (auto simp: prior_block_def)
qed

lemma solTypeBlock_recheck: "call_type inp ''SOL_RECHECK'' \<Longrightarrow> solTypeBlockFor (fld ''callType'' inp) = Inr x \<Longrightarrow> x = ''recheck''"
  by (auto simp: call_type_def solTypeBlockFor_def for_type_def SOL_CALL_TYPE_BLOCKS_def split: option.splits if_splits)

text \<open>The compiled ask of a recheck names the finding it is about.\<close>

lemma recheck_ask_ref:
  assumes made: "makeSolAsk ''SOL_RECHECK'' contract pr refs prior finding = Inr inp"
    and ask: "compileSolAsk sha fresh at sources pr' (Some inp) = Inr ask"
  shows "own ''priorFindingRef'' (fld ''recheck'' ask) = map_option deep_clone_json (own ''findingId'' finding)"
proof -
  note ct = recheck_made(1) [OF made]
  obtain kvs where kvs: "fld ''recheck'' inp = Some (JObj kvs)" "map_of kvs ''priorFindingRef'' = own ''findingId'' finding"
    using recheck_made(2) [OF made] by blast
  have nt: "\<not> call_type inp ''SOL_DIAGNOSE''"
    using ct by (simp add: call_type_def)
  obtain bound draft where doc: "ask_document sha fresh at sources pr' inp = Inr (bound, draft)" "ask = deep_clone_json draft"
    using ask unfolding compileSolAsk_def option.sel by auto
  from doc(1) obtain expected block recheck budget evidence where
    g: "ask_guards inp = Inr expected" and r: "recheck_block sha inp pr' = Inr recheck"
    and b: "per_type_block inp expected recheck = Inr block" and d: "draft = ask_draft fresh at inp expected block budget evidence"
    unfolding ask_document_def Let_def using ct by auto
  have e: "expected = ''recheck''"
    using g ct by (auto simp: ask_guards_def dest: solTypeBlock_recheck)
  have "own ''priorFindingRef'' (Some block) = own ''priorFindingRef'' (Some recheck)"
    using b ct nt r by (auto simp: per_type_block_def recheck_block_def prior_block_def Let_def split: option.splits json.splits)
  then show ?thesis
    unfolding doc(2) deep_clone_own [of "''recheck''", simplified] d e recheck_draft
    using recheck_block_ref [OF r kvs(1)] kvs(2) by (simp add: deep_clone_own)
qed

section \<open>The attempt\<close>

definition ask_made :: "string \<Rightarrow> json option \<Rightarrow> json \<Rightarrow> store \<Rightarrow> bool" where
  "ask_made callType finding ask s \<longleftrightarrow>
     stored ''asks'' (js_string (fld ''askId'' ask)) ask s \<and>
     (callType = ''SOL_RECHECK'' \<longrightarrow>
        own ''priorFindingRef'' (fld ''recheck'' ask) = map_option deep_clone_json (own ''findingId'' finding))"

lemma ask_made_grow: "files_grow (st_files s) (st_files t) \<Longrightarrow> ask_made ct f a s \<Longrightarrow> ask_made ct f a t"
  by (auto simp: ask_made_def intro: stored_grow)

lemma made_ask: "triple P (sol_ask_act env n ct p refs prior finding) (ask_made ct finding) (\<lambda>_. True)"
proof (rule tripleI)
  fix s ask t
  assume "sol_ask_act env n ct p refs prior finding s = (Inr ask, t)"
  then obtain inp where inp: "makeSolAsk ct (ce_contract env) p refs prior finding = Inr inp"
    and c: "compileSolAsk (ce_sha env) (JStr (so_askId (ce_sol env n))) (JStr (ce_now env n))
       (Some (JArr [ce_contract env])) (if ct = ''SOL_RECHECK'' then prior else None) (Some inp) = Inr ask"
    and w: "persistSolArtifact ''asks'' (js_string (fld ''askId'' ask)) ask s = (Inr (), t)"
    unfolding sol_ask_act_def by (auto simp: act_bind_eq_Inr)
  have "stored ''asks'' (js_string (fld ''askId'' ask)) ask t"
    using triple_Inr [OF persist_stored [of "\<lambda>_. True"] TrueI w] .
  then show "ask_made ct finding ask t"
    using recheck_ask_ref [OF _ c] inp by (auto simp: ask_made_def)
qed simp

text \<open>A response without a code was compiled and stored.\<close>

definition response_made :: "json option \<times> (json \<times> json) option \<times> string option \<Rightarrow> store \<Rightarrow> bool" where
  "response_made r s \<longleftrightarrow> (case r of
     (Some response, _, None) \<Rightarrow> stored ''responses'' (js_string (fld ''responseId'' response)) response s
   | _ \<Rightarrow> True)"

lemma response_made_grow: "files_grow (st_files s) (st_files t) \<Longrightarrow> response_made r s \<Longrightarrow> response_made r t"
  by (auto simp: response_made_def split: option.splits prod.splits intro: stored_grow)

lemma response_stored: "triple P (convert_response env n ct ask response)
    (\<lambda>_. stored ''responses'' (js_string (fld ''responseId'' response)) response) (\<lambda>_. True)"
  unfolding convert_response_def
proof (rule triple_bind [OF persist_stored])
  fix x :: unit
  have "calm.keeps (if ct = ''SOL_DIAGNOSE'' \<and> is_lit (fld ''verdict'' response) ''CAUSE_IDENTIFIED'' then
       act_bind (act_of (compileRepairTicket (ce_sha env) (JStr (ce_now env n)) (Some ask) (Some response)
         (Some (JArr [ce_contract env])))) (\<lambda>conversion.
       act_bind (persistSolArtifact ''tickets'' (js_string (fld ''ticketId'' (snd conversion)))
         (obj [(''repairContract'', fst conversion), (''ticket'', snd conversion)])) (\<lambda>_.
       act_of (Inr (Some conversion))))
     else act_of (Inr None))" (is "calm.keeps ?m")
    by (simp add: calm.keeps_of calm.keeps_bind calm_rules)
  then show "triple (stored ''responses'' (js_string (fld ''responseId'' response)) response) ?m
     (\<lambda>_. stored ''responses'' (js_string (fld ''responseId'' response)) response) (\<lambda>_. True)"
    by (rule triple_weaken [OF calm_stored]) auto
qed

lemma made_response: "triple P (sol_response env n ct ask r) response_made (\<lambda>_. True)"
proof (rule tripleI)
  fix s x t
  assume "sol_response env n ct ask r s = (Inr x, t)"
  then show "response_made x t"
    by (auto simp: sol_response_def compile_response_def response_made_def act_of_def
        split: option.splits sum.splits prod.splits dest: triple_Inr [OF response_stored [of "\<lambda>_. True"] TrueI])
qed simp

lemma appended_event:
  "appendControllerEvent now (obj kvs) s = (Inr ev, t) \<Longrightarrow>
     ev \<in> set (cf_events (st_files t)) \<and> (\<forall>k. k \<noteq> ''recordedAt'' \<longrightarrow> fld k ev = map_of kvs k)"
  by (auto simp: appendControllerEvent_def obj_def Let_def act_bind_def)

definition sol_vouched :: "string \<Rightarrow> json option \<Rightarrow> sol_outcome \<Rightarrow> store \<Rightarrow> bool" where
  "sol_vouched callType finding r s \<longleftrightarrow> (sr_accepted r \<longrightarrow> (\<exists>response. sr_response r = Some response \<and>
     vouched (st_files s) callType (sr_ask r) response \<and>
     (callType = ''SOL_RECHECK'' \<longrightarrow>
        own ''priorFindingRef'' (fld ''recheck'' (sr_ask r)) = map_option deep_clone_json (own ''findingId'' finding))))"

lemma sol_event_accepted:
  assumes "fst verdict"
  shows "\<exists>kvs. sol_event env ob ct ask (Some response) verdict = obj kvs \<and>
    (\<forall>ev. (\<forall>k. k \<noteq> ''recordedAt'' \<longrightarrow> fld k ev = map_of kvs k) \<longrightarrow> accepted_event ct ask response ev)"
  using assms by (auto simp: sol_event_def obj_def accepted_event_def)

lemma recorded:
  assumes s: "ask_made ct finding ask s" "response_made r s" and rec: "record_sol env n ct refs ask r s = (Inr out, t)"
  shows "sol_vouched ct finding out t"
proof -
  obtain response conversion code where r: "r = (response, conversion, code)" by (cases r)
  define verdict where "verdict = sol_verdict (ce_sol env n) response code"
  obtain s1 ev where a: "appendControllerEvent (ce_now env n) (sol_event env (ce_sol env n) ct ask response verdict) s1 = (Inr ev, t)"
    and out: "sr_accepted out = fst verdict" "sr_ask out = ask" "sr_response out = response"
    using rec unfolding record_sol_def r Let_def verdict_def by (auto simp: act_bind_eq_Inr)
  have "files_grow (st_files s) (st_files t)"
    using calm_grows [OF calm_record_sol, of s env n ct refs ask r] rec by simp
  then have t: "ask_made ct finding ask t" "response_made r t"
    using s by (blast intro: ask_made_grow response_made_grow)+
  show ?thesis
    unfolding sol_vouched_def
  proof
    assume "sr_accepted out"
    then have v: "fst verdict" and c: "code = None" and resp: "response \<noteq> None"
      by (auto simp: out verdict_def sol_verdict_def split: if_splits option.splits)
    then obtain x where x: "response = Some x" by blast
    obtain kvs where kvs: "sol_event env (ce_sol env n) ct ask (Some x) verdict = obj kvs"
      "\<forall>ev. (\<forall>k. k \<noteq> ''recordedAt'' \<longrightarrow> fld k ev = map_of kvs k) \<longrightarrow> accepted_event ct ask x ev"
      using sol_event_accepted [OF v, of env "ce_sol env n" ct ask x] by (elim exE conjE)
    note ev = appended_event [OF a [unfolded x kvs(1)]]
    have "accepted_event ct ask x ev"
      by (rule mp [OF spec [OF kvs(2)]], rule conjunct2 [OF ev])
    then have "list_ex (accepted_event ct ask x) (cf_events (st_files t))"
      unfolding list_ex_iff using conjunct1 [OF ev] by (rule bexI)
    then show "\<exists>response. sr_response out = Some response \<and> vouched (st_files t) ct (sr_ask out) response \<and>
        (ct = ''SOL_RECHECK'' \<longrightarrow>
          own ''priorFindingRef'' (fld ''recheck'' (sr_ask out)) = map_option deep_clone_json (own ''findingId'' finding))"
      using t unfolding out r c x
      by (simp add: vouched_def ask_made_def response_made_def stored_def del: json.inject)
  qed
qed

lemma triple_keep:
  "(\<And>s. files_grow (st_files s) (st_files (snd (m s)))) \<Longrightarrow> (\<And>s t. files_grow (st_files s) (st_files t) \<Longrightarrow> I s \<Longrightarrow> I t)
    \<Longrightarrow> (\<And>x. triple I (k x) Q (\<lambda>_. True)) \<Longrightarrow> triple I (act_bind m k) Q (\<lambda>_. True)"
  by (rule triple_bind [of _ _ "\<lambda>_. I"]) (auto intro: triple_weaken [OF grow_stable])

lemma answered: "triple (ask_made ct finding ask) (act_bind (sol_response env n ct ask r) (\<lambda>resp.
    record_sol env n ct refs ask resp)) (sol_vouched ct finding) (\<lambda>_. True)"
proof (rule triple_bind [of _ _ "\<lambda>resp s. ask_made ct finding ask s \<and> response_made resp s"])
  have g: "stable (ask_made ct finding ask) (sol_response env n ct ask r)"
    by (rule grow_stable [OF calm_grows [OF calm_sol_response] ask_made_grow])
  show "triple (ask_made ct finding ask) (sol_response env n ct ask r)
      (\<lambda>resp s. ask_made ct finding ask s \<and> response_made resp s) (\<lambda>_. True)"
    by (rule tripleI) (auto dest: triple_Inr [OF g] triple_Inr [OF made_response [of "\<lambda>_. True"] TrueI])
  show "triple (\<lambda>s. ask_made ct finding ask s \<and> response_made resp s) (record_sol env n ct refs ask resp)
      (sol_vouched ct finding) (\<lambda>_. True)" for resp
    by (rule tripleI) (auto dest: recorded)
qed

lemmas attempt_grows = start_grows calm_grows [OF calm_sol_try] calm_grows [OF calm.keeps_of] calm_grows [OF calm_ledger(1)]

lemma sol_attempt: "triple P (executeSolAttempt env n route ct p refs prior finding) (sol_vouched ct finding) (\<lambda>_. True)"
  unfolding executeSolAttempt_def Let_def
  by (rule triple_bind [OF made_ask]) (intro triple_keep [OF _ ask_made_grow] attempt_grows answered; assumption)

end
