(* ===== verification/Ctl_Laws.thy ===== *)
theory Ctl_Laws
  imports Ctl_Sol_Laws
begin

text \<open>
  The invariant of the controller's loop is kept by every step: the worker and the SOL attempts,
  the repairs and the rechecks of findings, and the loop itself, up to the disposition it ends
  with.
\<close>

section \<open>Findings\<close>

lemma update_first_set: "x \<in> set (update_first P h xs) \<Longrightarrow> x \<in> set xs \<or> (\<exists>y \<in> set xs. P y \<and> x = h y)"
  by (induction xs) (auto split: if_splits)

lemma is_open_obj: "is_open f \<Longrightarrow> \<exists>kvs. f = JObj kvs"
  by (cases f) (auto simp: is_open_def)

lemma set_field_own: "is_open f \<Longrightarrow> fld k (set_field j v f) = (if k = j then Some v else fld k f)"
  by (auto simp: set_field_def dest!: is_open_obj)

lemma bump_open: "is_open f \<Longrightarrow> k \<noteq> ''status'' \<Longrightarrow> is_open (bump k f)"
  unfolding bump_def is_open_def [of "set_field _ _ _"] by (subst set_field_own) (auto simp: is_open_def)

lemma bump_own: "is_open f \<Longrightarrow> j \<noteq> k \<Longrightarrow> fld j (bump k f) = fld j f"
  unfolding bump_def by (subst set_field_own) auto

lemma core_findings:
  assumes "\<And>c f. core p c \<Longrightarrow> f \<in> set (g c) \<Longrightarrow> f \<in> set (ct_findings c) \<or> is_open f \<or> recheck_vouched (st_files (ct_store c)) f"
  shows "stable (core p) (set_vars (\<lambda>c. c\<lparr>ct_findings := g c\<rparr>))"
proof (rule stable_set)
  fix c
  assume c: "core p c"
  have "is_open f \<or> recheck_vouched (st_files (ct_store c)) f" if "f \<in> set (g c)" for f
    using assms [OF c that] c by (auto simp: core_def beliefs_vouched_def)
  then show "core p (c\<lparr>ct_findings := g c\<rparr>)"
    using c by (simp add: core_def beliefs_vouched_def)
qed

lemma core_update:
  assumes "\<And>f. P f \<Longrightarrow> is_open (h f)"
  shows "stable (core p) (update_finding P h)"
  unfolding update_finding_def by (rule core_findings) (auto dest!: update_first_set intro: assms)

lemma core_bump [core_rules]:
  "stable (core p) (update_finding (open_with_id i) (bump ''repairCycles''))"
  "stable (core p) (update_finding unrepaired (bump ''repairCycles''))"
  by (rule core_update, simp add: open_with_id_def unrepaired_def bump_open)+

lemma core_push: "is_open e \<Longrightarrow> stable (core p) (set_vars (\<lambda>c. c\<lparr>ct_findings := ct_findings c @ [e]\<rparr>))"
  by (rule core_findings) auto

lemma entry_open: "is_open (finding_entry i kind parts ask response)"
  by (simp add: is_open_def finding_entry_def obj_def)

section \<open>The smaller steps\<close>

lemma core_event [core_rules]: "stable (core p) (event env n kind parts)"
  unfolding event_def by (intro core_rules calm_rules)

lemma core_bind_finding [core_rules]: "stable (core p) (bind_finding env n f ask response)"
  unfolding bind_finding_def by (intro stable_bind core_rules calm_rules) (simp add: unseen_def)

lemma core_bind_next [core_rules]: "stable (core p) (bind_next env n)"
  unfolding bind_next_def
  by (rule stable_with) (auto split: option.split json.split intro!: stable_bind core_rules)

lemma core_dispatch_repair:
  "stable (core p) (dispatch_repair env n (open_with_id i))" "stable (core p) (dispatch_repair env n unrepaired)"
  unfolding dispatch_repair_def
  by (rule stable_with; auto split: option.split intro!: stable_bind core_rules simp: unseen_def)+

lemma core_prepare_repair [core_rules]: "stable (core p) (prepare_repair env n)"
  unfolding prepare_repair_def
  by (rule stable_with) (auto intro!: stable_bind core_rules core_dispatch_repair)

lemma core_push_finding [core_rules]: "(\<And>i. is_open (entry i)) \<Longrightarrow> stable (core p) (push_finding env n data entry)"
  unfolding push_finding_def Let_def by (intro stable_bind core_rules calm_rules core_push)

lemma core_pair [core_rules]: "stable (core p) (Pair r)"
  using stable_of [of "core p" r] by (simp add: act_of_def [abs_def])

lemma core_push_findings [core_rules]: "stable (core p) (push_findings env n ask response items)"
  by (induction items) (auto intro!: stable_bind core_rules entry_open)

lemma core_push_defects [core_rules]: "stable (core p) (push_defects env n ask response k items)"
  by (induction items arbitrary: k) (auto intro!: stable_bind core_rules entry_open)

lemma core_persist_reported [core_rules]: "stable (core p) (persist_reported env n items)"
  by (induction items) (auto intro!: stable_bind core_rules calm_rules)

lemma core_then [core_rules]: "stable (core p) m \<Longrightarrow> stable (core p) (then_signal m g)"
  by (rule triple_then)

lemma core_stop [core_rules]: "stable (core p) (stop ''REJECTED'' reason errs)"
  unfolding stop_def by (intro core_rules stable_set) (simp add: core_def beliefs_vouched_def)

lemma core_review:
  assumes "\<And>c. core p c \<Longrightarrow> is_lit (own ''verdict'' (Some (r c))) ''PASSED'' \<Longrightarrow> review_vouched (st_files (ct_store c))"
  shows "stable (core p) (set_vars (\<lambda>c. c\<lparr>ct_review := r c, ct_accepted := a c\<rparr>))"
  by (rule stable_set) (use assms in \<open>auto simp: core_def beliefs_vouched_def\<close>)

text \<open>What the documents of the mark vouch for.\<close>

lemma core_docs: "core p c \<Longrightarrow> (t, a, r) \<in> set (mk_docs p) \<Longrightarrow> vouched (st_files (ct_store c)) t a r"
  by (auto simp: core_def list_all_iff)

lemma core_review_step:
  assumes "(''SOL_FINAL_REVIEW'', ask, response) \<in> set (mk_docs p)"
  shows "stable (core p) (review_step env n ask response)"
proof -
  have pass: "review_vouched (st_files (ct_store c))" if "core p c" "is_lit (fld ''verdict'' response) ''PASS''" for c
    using core_docs [OF that(1) assms] that(2) by (auto simp: review_vouched_def)
  show ?thesis
    unfolding review_step_def
    by (intro stable_bind core_rules)
       (auto intro!: stable_with stable_bind core_rules core_review split: option.split
         simp: obj_def unseen_def intro: pass)
qed

lemma closed_vouched:
  assumes "core p c" and "(''SOL_RECHECK'', ask, response) \<in> set (mk_docs p)"
    and "own ''priorFindingRef'' (fld ''recheck'' ask) = Some (deep_clone_json i)"
    and "is_lit (fld ''verdict'' response) ''RESOLVED''" and "open_with_id i f"
  shows "recheck_vouched (st_files (ct_store c)) (recheck_finding True f)"
proof -
  have f: "is_open f" "fld ''findingId'' f = Some i"
    using assms(5) by (auto simp: open_with_id_def)
  then have "fld ''findingId'' (recheck_finding True f) = Some i"
    by (simp add: recheck_finding_def Let_def set_field_own bump_open bump_own)
  then show ?thesis
    unfolding recheck_vouched_def
    by (intro exI [of _ ask] exI [of _ response]) (simp add: core_docs [OF assms(1,2)] assms(3,4))
qed

lemma core_recheck_step:
  assumes doc: "(''SOL_RECHECK'', ask, response) \<in> set (mk_docs p)"
    and finding: "fld ''findingId'' finding = Some i"
    and ref: "own ''priorFindingRef'' (fld ''recheck'' ask) = Some (deep_clone_json i)"
  shows "stable (core p) (recheck_step env n finding response)"
proof -
  let ?passed = "is_lit (fld ''verdict'' response) ''RESOLVED''"
  have close: "stable (core p) (update_finding (open_with_id i) (recheck_finding ?passed))"
    unfolding update_finding_def
  proof (rule core_findings)
    fix c f
    assume c: "core p c" and "f \<in> set (update_first (open_with_id i) (recheck_finding ?passed) (ct_findings c))"
    then consider "f \<in> set (ct_findings c)" | y where "open_with_id i y" "f = recheck_finding ?passed y"
      by (blast dest: update_first_set)
    then show "f \<in> set (ct_findings c) \<or> is_open f \<or> recheck_vouched (st_files (ct_store c)) f"
    proof cases
      case (2 y)
      then show ?thesis
        using closed_vouched [OF c doc ref]
        by (cases ?passed) (simp_all add: recheck_finding_def Let_def bump_open open_with_id_def)
    qed simp
  qed
  have pass: "review_vouched (st_files (ct_store c))" if "core p c" ?passed for c
    using core_docs [OF that(1) doc] that(2) by (auto simp: review_vouched_def)
  show ?thesis
    unfolding recheck_step_def Let_def
    apply (simp only: finding or_null_def option.case)
    by (rule stable_bind close core_review core_event core_persist_reported core_then
      | rule core_set, simp add: unseen_def
      | auto simp: obj_def intro: pass split: if_splits)+
qed

section \<open>What a SOL attempt teaches\<close>

abbreviation settled :: "mark \<Rightarrow> mark" where
  "settled p \<equiv> p\<lparr>mk_paid := 0\<rparr>"

lemma core_settled: "core p c \<Longrightarrow> core (settled p) c"
  by (auto simp: core_def)

lemma core_doc_iff: "core (p\<lparr>mk_docs := d # mk_docs p\<rparr>) c \<longleftrightarrow>
    core p c \<and> (case d of (t, a, r) \<Rightarrow> vouched (st_files (ct_store c)) t a r)"
  by (auto simp: core_def)

lemma triple_doc:
  assumes "stable (core (p\<lparr>mk_docs := (t, a, r) # mk_docs p\<rparr>)) m"
  shows "triple (\<lambda>c. core p c \<and> vouched (st_files (ct_store c)) t a r) m (\<lambda>_. core p) (core p)"
  by (rule triple_weaken [OF assms]) (auto simp: core_doc_iff)

lemma core_diagnose [core_rules]: "stable (core p) (diagnose_step r response)"
  unfolding diagnose_step_def by (auto split: option.split intro!: core_rules simp: unseen_def)

lemma core_contract_check [core_rules]: "stable (core p) (contract_check_step env n ask response)"
  unfolding contract_check_step_def
  by (rule stable_bind [OF stable_set]) (auto intro: core_rules simp: core_def beliefs_vouched_def)

definition recheck_bound :: "string \<Rightarrow> json option \<Rightarrow> bool" where
  "recheck_bound callType finding \<longleftrightarrow>
     callType \<in> {''SOL_DIAGNOSE'', ''SOL_CONTRACT_CHECK'', ''SOL_FINAL_REVIEW''} \<or>
     callType = ''SOL_RECHECK'' \<and> (\<exists>f i. finding = Some f \<and> fld ''findingId'' f = Some i)"

lemma core_learn_accepted:
  assumes "recheck_bound ct finding"
    and "ct = ''SOL_RECHECK'' \<longrightarrow> own ''priorFindingRef'' (fld ''recheck'' ask) = map_option deep_clone_json (own ''findingId'' finding)"
  shows "triple (\<lambda>c. core p c \<and> vouched (st_files (ct_store c)) ct ask response)
     (if ct = ''SOL_DIAGNOSE'' then diagnose_step r response
      else if ct = ''SOL_CONTRACT_CHECK'' then contract_check_step env n ask response
      else if ct = ''SOL_FINAL_REVIEW'' then review_step env n ask response
      else recheck_step env n (or_null finding) response) (\<lambda>_. core p) (core p)"
proof -
  consider "ct = ''SOL_DIAGNOSE''" | "ct = ''SOL_CONTRACT_CHECK''" | "ct = ''SOL_FINAL_REVIEW''"
    | f i where "ct = ''SOL_RECHECK''" "finding = Some f" "fld ''findingId'' f = Some i"
    using assms(1) unfolding recheck_bound_def by blast
  then show ?thesis
  proof cases
    case 1 then show ?thesis
      by simp (rule triple_doc, rule core_diagnose)
  next
    case 2 then show ?thesis
      by simp (rule triple_doc, rule core_contract_check)
  next
    case 3 then show ?thesis
      by simp (rule triple_doc, rule core_review_step, simp)
  next
    case (4 f i)
    then have "own ''priorFindingRef'' (fld ''recheck'' ask) = Some (deep_clone_json i)"
      using assms(2) by simp
    then show ?thesis
      using 4 by (simp add: or_null_def) (rule triple_doc, rule core_recheck_step, simp_all)
  qed
qed

lemma core_learn_sol:
  assumes "recheck_bound ct finding"
  shows "triple (\<lambda>c. core p c \<and> sol_vouched ct finding r (ct_store c)) (learn_sol env n ct finding r) (\<lambda>_. core p) (core p)"
  unfolding learn_sol_def
proof (rule triple_bind [OF triple_set])
  fix c assume "core p c \<and> sol_vouched ct finding r (ct_store c)"
  then show "core p (c\<lparr>ct_refs := uniq (ct_refs c @ sr_refs r)\<rparr>) \<and> sol_vouched ct finding r (ct_store (c\<lparr>ct_refs := uniq (ct_refs c @ sr_refs r)\<rparr>))"
    by (auto intro: core_unseen simp: unseen_def)
next
  fix x :: unit
  let ?code = "case sr_errorCode r of None \<Rightarrow> ''SOL_ASK_INVALID'' | Some x \<Rightarrow> x"
  have rej: "triple (\<lambda>c. core p c \<and> sol_vouched ct finding r (ct_store c))
      (stop ''REJECTED'' (Some ?code) (if ?code = ''CODEX_OAUTH_UNAVAILABLE'' then [?code] else [])) (\<lambda>_. core p) (core p)"
    by (rule triple_weaken [OF core_stop]) auto
  show "triple (\<lambda>c. core p c \<and> sol_vouched ct finding r (ct_store c))
      (case (sr_accepted r, sr_response r) of
        (True, Some response) \<Rightarrow>
          (if ct = ''SOL_DIAGNOSE'' then diagnose_step r response
           else if ct = ''SOL_CONTRACT_CHECK'' then contract_check_step env n (sr_ask r) response
           else if ct = ''SOL_FINAL_REVIEW'' then review_step env n (sr_ask r) response
           else recheck_step env n (or_null finding) response)
      | _ \<Rightarrow> (let code = ?code in stop ''REJECTED'' (Some code) (if code = ''CODEX_OAUTH_UNAVAILABLE'' then [code] else [])))
      (\<lambda>_. core p) (core p)"
  proof (cases "sr_accepted r \<and> sr_response r \<noteq> None")
    case False
    then show ?thesis
      using rej unfolding Let_def by (cases "sr_accepted r"; cases "sr_response r") simp_all
  next
    case True
    then obtain response where r: "sr_accepted r" "sr_response r = Some response" by blast
    show ?thesis
    proof (cases "ct = ''SOL_RECHECK'' \<longrightarrow> own ''priorFindingRef'' (fld ''recheck'' (sr_ask r)) = map_option deep_clone_json (own ''findingId'' finding)")
      case True
      show ?thesis
        by (simp only: r prod.case option.case bool.case)
           (rule triple_weaken [OF core_learn_accepted [OF assms True]], auto simp: sol_vouched_def r)
    next
      case False
      then show ?thesis
        by (intro tripleI) (auto simp: sol_vouched_def r)
    qed
  qed
qed

lemma core_call_sol:
  assumes paid: "mk_paid p = 1" and bound: "\<And>ct. callType = Some ct \<Longrightarrow> recheck_bound ct finding"
  shows "triple (core p) (call_sol env n route callType prior finding) (\<lambda>_. core (settled p)) (core (settled p))"
proof -
  have stopped: "case stop ''REJECTED'' reason errs (sol_failed_paths (ce_sol env n) d) of (q, e) \<Rightarrow> core (settled p) e"
    if "core (settled p) d" for reason errs d
  proof -
    have "core (settled p) (sol_failed_paths (ce_sol env n) d)"
      by (rule core_unseen [OF _ that]) (simp add: unseen_def sol_failed_paths_def)
    then show ?thesis
      using triple_gives [OF core_stop] by (simp add: case_prod_beta)
  qed
  have *: "(case call_sol env n route callType prior finding c of (q, d) \<Rightarrow> core (settled p) d)" if c: "core p c" for c
  proof (cases callType)
    case None
    then show ?thesis
      using stopped [OF core_settled [OF c]] by (simp add: call_sol_def Let_def)
  next
    case (Some ct)
    obtain q d where q: "on_store (executeSolAttempt env n route ct (ct_patch c) (ct_refs c) prior finding) c = (q, d)"
      by (metis surj_pair)
    have one: "triple (core p) (on_store (executeSolAttempt env n route ct (ct_patch c) (ct_refs c) prior finding))
        (\<lambda>_. core (settled p)) (core (settled p))"
      by (rule triple_one_start [OF sol_one_start paid])
    have d: "core (settled p) d"
      using triple_gives [OF one c] q by simp
    show ?thesis
    proof (cases q)
      case (Inl e)
      show ?thesis
        using stopped [OF d] by (simp add: call_sol_def Some q Inl Let_def)
    next
      case (Inr r)
      have v: "sol_vouched ct finding r (ct_store d)"
        using q triple_Inr [OF sol_attempt [of "\<lambda>_. True"] TrueI] unfolding Inr
        by (auto simp: on_store_eq split: prod.splits)
      let ?e = "sol_ok_paths (ce_sol env n) r d"
      have e: "core (settled p) ?e \<and> sol_vouched ct finding r (ct_store ?e)"
        using v core_unseen [OF _ d, of "sol_ok_paths (ce_sol env n) r"] by (simp add: unseen_def sol_ok_paths_def)
      show ?thesis
        unfolding call_sol_def Some option.case q Inr prod.case sum.case option.sel
        using triple_gives [OF core_learn_sol [OF bound [OF Some]] e] by (simp add: case_prod_beta)
    qed
  qed
  show ?thesis
    by (rule tripleI) (use * in fastforce)+
qed

section \<open>Attempts\<close>

lemma call_bound: "routeCallType d = Some ct \<Longrightarrow> ct \<noteq> ''SOL_RECHECK'' \<Longrightarrow> recheck_bound ct None"
  by (auto simp: routeCallType_def SOL_TARGETS_def recheck_bound_def split: if_splits)

lemma core_sol_step:
  assumes paid: "mk_paid p = 1"
  shows "triple (core p) (sol_step env n route decision) (\<lambda>_. core (settled p)) (core (settled p))"
  unfolding sol_step_def
proof (rule triple_with)
  fix c :: ctl
  let ?m = "let callType = routeCallType decision in
     if callType = Some ''SOL_RECHECK'' then
       (case List.find (open_with_id (ct_active c)) (ct_findings c) of
          None \<Rightarrow> act_of (Inl (ControllerError ''SOL_ASK_INVALID''))
        | Some f \<Rightarrow>
            (let prior = fld ''priorSol'' f in
             if nullish prior then act_of (Inl (ControllerError ''SOL_ASK_INVALID''))
             else
               act_bind (event env n ''SOL_FINDING_RECHECK_DISPATCHED''
                 [(''findingId'', or_null (fld ''findingId'' f)), (''repairCycles'', or_else (fld ''repairCycles'' f) (JInt 0)),
                  (''sourceAskId'', or_null (own ''askId'' (own ''ask'' prior))),
                  (''sourceResponseId'', or_null (own ''responseId'' (own ''response'' prior)))]) (\<lambda>_.
               call_sol env n route callType prior (Some f))))
     else call_sol env n route callType None None"
  have invalid: "triple (core p) (act_of (Inl e)) (\<lambda>_. core (settled p)) (core (settled p))" for e
    by (rule triple_of) (auto intro: core_settled)
  have "triple (core p) ?m (\<lambda>_. core (settled p)) (core (settled p))"
  proof (cases "routeCallType decision = Some ''SOL_RECHECK''")
    case False
    have "triple (core p) (call_sol env n route (routeCallType decision) None None) (\<lambda>_. core (settled p)) (core (settled p))"
      by (rule core_call_sol [OF paid], rule call_bound) (use False in auto)
    then show ?thesis
      using False by (simp add: Let_def)
  next
    case True
    show ?thesis
    proof (cases "List.find (open_with_id (ct_active c)) (ct_findings c)")
      case None
      then show ?thesis using True invalid by simp
    next
      case (Some f)
      then have "recheck_bound ''SOL_RECHECK'' (Some f)"
        by (auto simp: recheck_bound_def open_with_id_def find_Some_iff)
      then have "triple (core p) (call_sol env n route (Some ''SOL_RECHECK'') prior (Some f))
          (\<lambda>_. core (settled p)) (core (settled p))" for prior
        by (intro core_call_sol [OF paid]) simp
      moreover have "triple (core p) (event env n kind parts) (\<lambda>_. core p) (core (settled p))" for kind parts
        by (rule triple_weaken [OF core_event [of p]]) (auto intro: core_settled)
      ultimately show ?thesis
        using Some True invalid by (auto simp: Let_def intro!: triple_bind)
    qed
  qed
  then show "triple (\<lambda>d. d = c \<and> core p d) ?m (\<lambda>_. core (settled p)) (core (settled p))"
    by (rule triple_weaken) auto
qed

lemma core_worker_step:
  assumes paid: "mk_paid p = 1"
  shows "triple (core p) (worker_step env n route) (\<lambda>_. core (settled p)) (core (settled p))"
proof -
  have prep: "triple (core p) (if is_lit (fld ''targetRole'' route) ''REPAIR'' then prepare_repair env n else act_of (Inr ()))
      (\<lambda>_. core p) (core (settled p))"
    by (rule triple_weaken [of "core p" _ "\<lambda>_. core p" "core p"]) (auto intro: core_rules core_settled)
  have learn: "unseen (learn_worker env ob w)" for ob w
    by (simp add: unseen_def learn_worker_def worker_paths_def Let_def)
  show ?thesis
    unfolding worker_step_def
    by (rule triple_bind [OF prep], rule triple_bind [OF triple_one_start [OF worker_one_start paid]])
       (intro core_rules learn)
qed

section \<open>A dispatch\<close>

lemma core_consume:
  assumes "mk_spare p = 1" and "mk_paid p = 0"
  shows "triple (core p) (with_vars (\<lambda>c. act_bind (act_of (consume (ct_budget c))) (\<lambda>b. set_vars (\<lambda>c. c\<lparr>ct_budget := b\<rparr>))))
    (\<lambda>_. core (p\<lparr>mk_spare := 0, mk_paid := 1\<rparr>)) (core p)"
proof (rule tripleI)
  fix c x t
  assume c: "core p c" and "with_vars (\<lambda>c. act_bind (act_of (consume (ct_budget c))) (\<lambda>b. set_vars (\<lambda>c. c\<lparr>ct_budget := b\<rparr>))) c = (Inr x, t)"
  then obtain b where b: "consume (ct_budget c) = Inr b" and t: "t = c\<lparr>ct_budget := b\<rparr>"
    by (auto simp: with_vars_def act_bind_def set_vars_def act_of_def split: sum.splits)
  show "core (p\<lparr>mk_spare := 0, mk_paid := 1\<rparr>) t"
    using b c assms unfolding t consume_eq_Inr by (auto simp: core_def budget_ok_def available_def beliefs_vouched_def)
next
  fix c e t
  assume c: "core p c" and "with_vars (\<lambda>c. act_bind (act_of (consume (ct_budget c))) (\<lambda>b. set_vars (\<lambda>c. c\<lparr>ct_budget := b\<rparr>))) c = (Inl e, t)"
  then show "core p t"
    by (auto simp: with_vars_def act_bind_def set_vars_def act_of_def split: sum.splits)
qed

text \<open>A dispatched route is paid for and taken; the mark it leaves has nothing open.\<close>

definition taken :: "mark \<Rightarrow> mark" where
  "taken p = p\<lparr>mk_spare := 0, mk_paid := 0, mk_state := mk_end p\<rparr>"

lemma core_taken: "core p c \<Longrightarrow> mk_state p = mk_end p \<Longrightarrow> core (taken p) c"
  by (auto simp: core_def taken_def)

lemma core_dispatch:
  assumes p: "mk_spare p = 1" "mk_paid p = 0" and nx: "mk_end p = js_string (fld ''nextState'' route)"
  shows "triple (core p) (dispatch env worktree n route decision) (\<lambda>_. core (taken p)) (core (taken p))"
proof -
  define q where "q = p\<lparr>mk_state := mk_end p\<rparr>"
  have q: "mk_spare q = 1" "mk_paid q = 0" "mk_state q = mk_end q" "taken q = taken p"
    by (simp_all add: q_def p taken_def)
  have set: "triple (core p) (set_vars (\<lambda>c. c\<lparr>ct_state := js_string (fld ''nextState'' route)\<rparr>)) (\<lambda>_. core q) (core (taken p))"
    by (rule triple_set) (simp add: core_def beliefs_vouched_def q_def nx)
  have weak: "triple (core q) m Q (core (taken p))" if "triple (core q) m Q (core q)" for m :: "'a step" and Q
    by (rule triple_weaken [OF that]) (use core_taken [of q] q in auto)
  let ?r = "q\<lparr>mk_spare := 0, mk_paid := 1\<rparr>"
  have r: "mk_paid ?r = 1" "settled ?r = taken p"
    by (simp_all add: taken_def q_def)
  have wt: "stable (core q) (with_vars (\<lambda>c. if ct_worktree c then act_of (Inr ()) else fail_with worktree))"
    by (rule stable_with) (auto simp: fail_with_def intro: core_rules)
  show ?thesis
    unfolding dispatch_def Let_def
  proof (rule triple_bind [OF set])
    fix x :: unit
    let ?role = "if take 10 decision = ''ROUTE_SOL_'' then ''SOL'' else ''WORKER''"
    show "triple (core q)
       (if usesExternalProvider (ce_config env) ?role \<and> \<not> isExternalProviderAllowed (ce_permissions env)
        then stop ''REJECTED'' (Some ''UNSUPPORTED_CLAIM'') [''PROVIDER_PERMISSION_DENIED'']
        else
          act_bind (with_vars (\<lambda>c. if ct_worktree c then act_of (Inr ()) else fail_with worktree)) (\<lambda>_.
          act_bind (set_vars (\<lambda>c. c\<lparr>ct_worktree := True\<rparr>)) (\<lambda>_.
          act_bind (with_vars (\<lambda>c. act_bind (act_of (consume (ct_budget c))) (\<lambda>b. set_vars (\<lambda>c. c\<lparr>ct_budget := b\<rparr>)))) (\<lambda>_.
          if take 16 decision = ''ROUTE_IMPLEMENT_'' then worker_step env n route
          else sol_step env n route decision)))) (\<lambda>_. core (taken p)) (core (taken p))" (is "triple _ (if ?denied then ?stop else ?go) _ _")
    proof (cases ?denied)
      case True
      have "triple (core q) ?stop (\<lambda>_. core (taken p)) (core (taken p))"
        by (rule triple_weaken [OF core_stop [of q]]) (use core_taken [of q] q in auto)
      then show ?thesis by (simp only: True if_True simp_thms)
    next
      case False
      have unseen: "unseen (\<lambda>c. c\<lparr>ct_worktree := True\<rparr>)"
        by (simp add: unseen_def)
      have "triple (core q) ?go (\<lambda>_. core (taken p)) (core (taken p))"
        by (rule triple_bind [OF weak [OF wt]], rule triple_bind [OF weak [OF core_set [OF unseen]]],
            rule triple_bind [OF weak [OF core_consume [OF q(1,2)]]])
           (use core_worker_step [OF r(1), unfolded r(2)] core_sol_step [OF r(1), unfolded r(2)] in \<open>simp only: split: if_split, blast\<close>)
      then show ?thesis by (simp only: False if_False)
    qed
  qed
qed

section \<open>The end of the loop\<close>

text \<open>
  A run that is not rejected at the end of the loop: the machine finished the unit, no finding is
  open, and the disposition is the one the risk class calls for, with a review behind it unless
  the risk is low.
\<close>

definition low_risk :: "ctl_env \<Rightarrow> bool" where
  "low_risk env \<longleftrightarrow> is_lit (own ''riskClass'' (Some (ce_contract env))) ''LOW_RISK''"

definition finished :: "ctl_env \<Rightarrow> mark \<Rightarrow> ctl \<Rightarrow> bool" where
  "finished env p c \<longleftrightarrow>
     core p (c\<lparr>ct_disposition := ''REJECTED''\<rparr>) \<and> mk_end p = ''UNIT_COMPLETE'' \<and>
     list_all (\<lambda>f. \<not> is_open f) (ct_findings c) \<and>
     ct_disposition c = (if low_risk env then ''SEMANTICALLY_ACCEPTED'' else ''REVIEW_APPROVED'') \<and>
     (low_risk env \<or> review_vouched (st_files (ct_store c)))"

definition ended :: "ctl_env \<Rightarrow> budget \<times> nat \<Rightarrow> ctl \<Rightarrow> bool" where
  "ended env b c \<longleftrightarrow> kept b c \<or> (\<exists>p. mk_limits p = b \<and> finished env p c)"

lemma contract_risk:
  assumes "validateSemanticContract sha v = Inr ([], ws)"
  shows "is_lit (own ''riskClass'' (Some v)) ''LOW_RISK'' \<or> isHighRiskClass (own ''riskClass'' (Some v))"
proof -
  have acc: "accepts lcim_regexps v SEMANTIC_CONTRACT_SCHEMA"
    using assms validateSemanticContract_valid_iff [of sha v] by (blast intro: validate_accepts)
  have obj: "is_obj v"
    using accepts_type [OF acc, of "''object''"] by (simp add: SEMANTIC_CONTRACT_SCHEMA_def)
  obtain w where w: "fld ''riskClass'' v = Some w"
    using accepts_required [OF acc obj, of "as_list (the (own ''required'' (Some SEMANTIC_CONTRACT_SCHEMA)))" "''riskClass''"]
    by (auto simp: SEMANTIC_CONTRACT_SCHEMA_def inherited_names_def proto_methods_def)
  have "schema_prop SEMANTIC_CONTRACT_SCHEMA ''riskClass'' = Some (JObj [(''enum'', JArr (map JStr RISK_CLASSES))])"
    by (simp add: schema_prop_def SEMANTIC_CONTRACT_SCHEMA_def RISK_CLASSES_def HIGH_RISK_CLASSES_def)
  from accepts_enum [OF accepts_prop [OF acc this w]]
  obtain r where "r \<in> set RISK_CLASSES" "w = JStr r"
    by (cases w) auto
  then show ?thesis
    by (auto simp: w isHighRiskClass_def one_of_iff RISK_CLASSES_def)
qed

lemma context_own:
  "ctx_state (routeContext env c) = ct_state c"
  "ctx_get ''solReview'' (routeContext env c) = Some (ct_review c)"
  "ctx_get ''semanticContract'' (routeContext env c) = Some (ce_contract env)"
  by (simp_all add: routeContext_def obj_def ctx_state_def)

text \<open>A completion of a unit that is not of low risk rests on a review.\<close>

lemma complete_reviewed:
  assumes dec: "decideRoute (route_env_of env n c) (routeContext env c) = Inr route"
    and comp: "is_lit (fld ''decision'' route) ''ROUTE_COMPLETE''"
    and contract: "ce_contract env \<noteq> JNull" and risk: "\<not> low_risk env" and b: "beliefs_vouched c"
  shows "review_vouched (st_files (ct_store c))"
proof -
  obtain facts where facts: "resolveContractFacts (route_env_of env n c) (routeContext env c) = Inr facts"
    using dec comp by (cases rule: decideRoute_cases) (auto dest!: emit_decision)
  have nn: "\<not> nullish (Some (ce_contract env))"
    using contract by (cases "ce_contract env") auto
  obtain ws where v: "validateSemanticContract (ce_sha env) (ce_contract env) = Inr ([], ws)"
    and f: "f_highRisk facts \<longleftrightarrow> isHighRiskClass (own ''riskClass'' (Some (ce_contract env)))"
    using facts nn by (auto simp: resolveContractFacts_def context_own Let_def route_env_of_def)
  have "f_highRisk facts"
    using contract_risk [OF v] risk unfolding f low_risk_def by blast
  then have "is_lit (own ''verdict'' (Some (ct_review c))) ''PASSED''"
    using decideRoute_complete(2) [OF dec comp facts] by (simp add: context_own)
  then show ?thesis
    using b by (simp add: beliefs_vouched_def)
qed

section \<open>One step, and the loop\<close>

definition ready :: "budget \<times> nat \<Rightarrow> nat \<Rightarrow> ctl \<Rightarrow> bool" where
  "ready b k c \<longleftrightarrow> (\<exists>p. mk_limits p = b \<and> mk_left p = k \<and> mk_state p = mk_end p \<and> core p c)"

definition stepped :: "ctl_env \<Rightarrow> budget \<times> nat \<Rightarrow> nat \<Rightarrow> signal \<Rightarrow> ctl \<Rightarrow> bool" where
  "stepped env b k signal c \<longleftrightarrow> (signal = Continue \<longrightarrow> ready b k c) \<and> ended env b c"

lemma stepped_taken: "core (taken p) c \<Longrightarrow> stepped env (mk_limits p) (mk_left p) signal c"
  using core_kept [of "taken p" c] unfolding stepped_def ended_def ready_def
  by (auto simp: taken_def intro!: exI [of _ "taken p"])

lemma stopped_step:
  "triple (core p) (stop ''REJECTED'' reason errs) (stepped env (mk_limits p) (mk_left p)) (kept (mk_limits p))"
proof -
  have "triple (core p) (stop ''REJECTED'' reason errs) (\<lambda>g c. g = Break \<and> core p c) (core p)"
    unfolding stop_def then_signal_def
    by (rule triple_bind [OF stable_set], simp add: core_def beliefs_vouched_def) (auto intro: triple_of)
  then show ?thesis
    by (rule triple_weaken) (auto simp: stepped_def ended_def intro: core_kept)
qed

lemma completing_step:
  assumes "mk_end p = ''UNIT_COMPLETE''"
  shows "triple (\<lambda>c. core p c \<and> (low_risk env \<or> review_vouched (st_files (ct_store c)))) (complete_step env)
     (stepped env (mk_limits p) (mk_left p)) (kept (mk_limits p))"
  unfolding complete_step_def
proof (rule triple_with)
  fix c :: ctl
  let ?P = "\<lambda>d. d = c \<and> core p d \<and> (low_risk env \<or> review_vouched (st_files (ct_store d)))"
  show "triple ?P (if list_ex is_open (ct_findings c)
      then stop ''REJECTED'' (Some ''UNSUPPORTED_CLAIM'') [''OPEN_AUTHORITATIVE_SOL_FINDING'']
      else stop (if is_lit (own ''riskClass'' (Some (ce_contract env))) ''LOW_RISK'' then ''SEMANTICALLY_ACCEPTED''
                 else ''REVIEW_APPROVED'') None []) (stepped env (mk_limits p) (mk_left p)) (kept (mk_limits p))"
  proof (cases "list_ex is_open (ct_findings c)")
    case True
    then show ?thesis
      by (simp only: if_True) (rule triple_weaken [OF stopped_step [of p]], auto)
  next
    case False
    have fin: "finished env p (d\<lparr>ct_disposition := if low_risk env then ''SEMANTICALLY_ACCEPTED'' else ''REVIEW_APPROVED'',
        ct_reason := None, ct_errors := ct_errors d @ []\<rparr>)" if "?P d" for d
      using that False assms by (auto simp: finished_def core_def beliefs_vouched_def list_all_iff list_ex_iff)
    show ?thesis
      unfolding low_risk_def [symmetric] stop_def then_signal_def
      by (simp only: False if_False)
         (rule triple_bind [of _ _ "\<lambda>_. finished env p"], rule triple_set, erule fin,
          rule triple_of, auto simp: stepped_def ended_def)
  qed
qed

lemma core_perform:
  assumes p: "mk_spare p = 1" "mk_paid p = 0" "mk_end p = js_string (fld ''nextState'' route)"
    and comp: "js_string (fld ''decision'' route) = ''ROUTE_COMPLETE'' \<Longrightarrow> mk_end p = ''UNIT_COMPLETE''"
  shows "triple (\<lambda>c. core p c \<and> (js_string (fld ''decision'' route) = ''ROUTE_COMPLETE'' \<longrightarrow>
       low_risk env \<or> review_vouched (st_files (ct_store c)))) (perform env worktree n route)
     (stepped env (mk_limits p) (mk_left p)) (kept (mk_limits p))"
proof -
  let ?d = "js_string (fld ''decision'' route)"
  let ?P = "\<lambda>c. core p c \<and> (?d = ''ROUTE_COMPLETE'' \<longrightarrow> low_risk env \<or> review_vouched (st_files (ct_store c)))"
  have stopped: "triple ?P (stop ''REJECTED'' reason errs) (stepped env (mk_limits p) (mk_left p)) (kept (mk_limits p))" for reason errs
    by (rule triple_weaken [OF stopped_step [of p]]) auto
  have stuck: "triple ?P (with_vars (\<lambda>c. stop ''REJECTED'' (f c) [])) (stepped env (mk_limits p) (mk_left p)) (kept (mk_limits p))" for f
    by (rule triple_with, rule triple_weaken [OF stopped]) auto
  have fini: "triple ?P (complete_step env) (stepped env (mk_limits p) (mk_left p)) (kept (mk_limits p))" if "?d = ''ROUTE_COMPLETE''"
    by (rule triple_weaken [OF completing_step [OF comp [OF that]]]) (use that in auto)
  have lim: "mk_limits (taken p) = mk_limits p"
    by (simp add: taken_def)
  have go: "triple ?P (dispatch env worktree n route ?d) (stepped env (mk_limits p) (mk_left p)) (kept (mk_limits p))"
    by (rule triple_weaken [OF core_dispatch [OF p]])
       (use stepped_taken [of p] core_kept [of "taken p"] lim in auto)
  show ?thesis
    unfolding perform_def Let_def
    by (simp only: split: if_split) (intro conjI impI; (rule stopped stuck go | erule fini))
qed

text \<open>The files of a run only grow, whatever the controller does.\<close>

definition ctl_grows :: "ctl \<Rightarrow> ctl \<Rightarrow> bool" where
  "ctl_grows c d \<longleftrightarrow> files_grow (st_files (ct_store c)) (st_files (ct_store d))"

interpretation ctl_grow: store_relation ctl_grows
  by unfold_locales (auto simp: ctl_grows_def intro: files_grow_trans)

lemma grow_on_store: "(\<And>s. files_grow (st_files s) (st_files (snd (m s)))) \<Longrightarrow> ctl_grow.keeps (on_store m)"
  by (rule ctl_grow.keepsI) (auto simp: ctl_grows_def on_store_eq split: prod.split, metis snd_conv)

lemma grow_set: "(\<And>c. ct_store (f c) = ct_store c) \<Longrightarrow> ctl_grow.keeps (set_vars f)"
  by (rule ctl_grow.keepsI) (simp add: ctl_grows_def set_vars_def)

lemma grow_event: "ctl_grow.keeps (event env n kind parts)"
  unfolding event_def by (intro grow_on_store calm_grows calm_rules)

lemma record_route_grows: "ctl_grow.keeps (record_route env n route)"
  unfolding record_route_def
  by (intro ctl_grow.keeps_bind grow_set grow_on_store grow_event calm_grows calm_rules) simp

lemma core_record_route:
  assumes "follows (mk_end p) [route]" and "mk_left p = Suc k"
  defines "q \<equiv> p\<lparr>mk_left := k, mk_spare := Suc (mk_spare p), mk_end := js_string (fld ''nextState'' route)\<rparr>"
  shows "triple (core p) (record_route env n route) (\<lambda>_. core q) (core q)"
  unfolding record_route_def
proof (rule triple_bind [of _ _ "\<lambda>_. core q"])
  show "triple (core p) (set_vars (\<lambda>c. c\<lparr>ct_routes := ct_routes c @ [route]\<rparr>)) (\<lambda>_. core q) (core q)"
    by (rule triple_set) (use assms(1,2) in \<open>auto simp: q_def core_def beliefs_vouched_def follows_append leads_to_append\<close>)
qed (intro stable_bind core_rules calm_rules)

lemma complete_state:
  assumes "decideRoute env ctx = Inr r" and "js_string (fld ''decision'' r) = ''ROUTE_COMPLETE''"
  shows "js_string (fld ''nextState'' r) = ''UNIT_COMPLETE''" and "is_lit (fld ''decision'' r) ''ROUTE_COMPLETE''"
proof -
  obtain dec where "is_lit (fld ''decision'' r) dec"
    using decideRoute_emitted [OF assms(1)] by (auto simp: emitted_def dest: emit_decision)
  then show d: "is_lit (fld ''decision'' r) ''ROUTE_COMPLETE''"
    using assms(2) by simp
  then show "js_string (fld ''nextState'' r) = ''UNIT_COMPLETE''"
    using decideRoute_transition(2) [OF assms(1)] by simp
qed

lemma core_step:
  assumes contract: "ce_contract env \<noteq> JNull"
  shows "triple (ready b (Suc k)) (controller_step env worktree n) (stepped env b k) (kept b)"
  unfolding controller_step_def
proof (rule triple_with)
  fix c :: ctl
  let ?env = "route_env_of env n c" and ?ctx = "routeContext env c"
  show "triple (\<lambda>d. d = c \<and> ready b (Suc k) d) (act_bind (act_of (decideRoute ?env ?ctx)) (\<lambda>route.
     act_bind (record_route env n route) (\<lambda>_. perform env worktree n route))) (stepped env b k) (kept b)"
  proof (cases "decideRoute ?env ?ctx")
    case (Inl e)
    then show ?thesis
      by (simp only: act_bind_of) (rule triple_of, auto simp: ready_def kept_def)
  next
    case (Inr route)
    let ?n = "js_string (fld ''nextState'' route)" and ?d = "js_string (fld ''decision'' route)"
    have "triple (\<lambda>d. d = c \<and> core p d) (act_bind (record_route env n route) (\<lambda>_. perform env worktree n route))
        (stepped env b k) (kept b)"
      if p: "mk_limits p = b" "mk_left p = Suc k" "mk_state p = mk_end p" for p
    proof (cases "core p c")
      case False
      then show ?thesis by (auto intro: tripleI)
    next
      case True
      define z where "z = p\<lparr>mk_spare := 0, mk_paid := 0\<rparr>"
      let ?q = "z\<lparr>mk_left := k, mk_spare := 1, mk_end := ?n\<rparr>"
      have zc: "core z c"
        using True by (simp add: core_def z_def)
      have "ct_state c = mk_end z"
        using zc p by (simp add: core_def z_def)
      then have f: "follows (mk_end z) [route]"
        using decided_follows [OF Inr] by (simp only: context_own)
      have q: "mk_spare ?q = 1" "mk_paid ?q = 0" "mk_end ?q = ?n" "mk_limits ?q = b" "mk_left ?q = k" "mk_left z = Suc k"
        using p by (simp_all add: z_def)
      have rv: "low_risk env \<or> review_vouched (st_files (ct_store c))" if "?d = ''ROUTE_COMPLETE''"
        using complete_reviewed [OF Inr complete_state(2) [OF Inr that] contract] zc by (auto simp: core_def)
      let ?D = "\<lambda>d. d = c \<and> core z d" and ?R = "\<lambda>d. core ?q d \<and> (?d = ''ROUTE_COMPLETE'' \<longrightarrow> low_risk env \<or> review_vouched (st_files (ct_store d)))"
      have rec: "triple ?D (record_route env n route) (\<lambda>_. ?R) (kept b)"
      proof (rule tripleI)
        fix d x t
        assume d: "?D d" and r: "record_route env n route d = (Inr x, t)"
        have "core ?q t"
          using triple_Inr [OF core_record_route [OF f q(6)] _ r] d by (auto simp: z_def)
        moreover have "review_vouched (st_files (ct_store t))" if "review_vouched (st_files (ct_store c))"
          using review_vouched_grow [OF ctl_grow.keepsD [OF record_route_grows r, unfolded ctl_grows_def]] that d by simp
        ultimately show "?R t"
          using rv by auto
      next
        fix d e t
        assume "?D d" and r: "record_route env n route d = (Inl e, t)"
        then show "kept b t"
          using triple_Inl [OF core_record_route [OF f q(6)] _ r] q(4) core_kept [of ?q t] by (auto simp: z_def)
      qed
      have "triple ?R (perform env worktree n route) (stepped env b k) (kept b)"
        using core_perform [OF q(1-3), of env worktree n] complete_state(1) [OF Inr] unfolding q(3,4,5) by blast
      then have "triple ?D (act_bind (record_route env n route) (\<lambda>_. perform env worktree n route)) (stepped env b k) (kept b)"
        by (rule triple_bind [OF rec])
      then show ?thesis
        by (rule triple_weaken) (use zc in auto)
    qed
    then show ?thesis
      unfolding Inr act_bind_of ready_def triple_def by blast
  qed
qed

lemma core_loop:
  assumes "ce_contract env \<noteq> JNull"
  shows "triple (ready b k) (controller_loop env worktree k n) (\<lambda>_. ended env b) (kept b)"
proof (induction k arbitrary: n)
  case 0
  then show ?case
    by (simp only: controller_loop.simps) (rule triple_of, auto simp: ready_def ended_def kept_def)
next
  case (Suc k)
  have "triple (stepped env b k signal) (if signal = Continue then controller_loop env worktree k (Suc n) else act_of (Inr ()))
      (\<lambda>_. ended env b) (kept b)" for signal
    by (cases signal) (auto simp: stepped_def intro: triple_of triple_weaken [OF Suc.IH])
  then show ?case
    by (simp only: controller_loop.simps) (rule triple_bind [OF core_step [OF assms]])
qed

end
