(* ===== verification/Ctl_Run_Laws.thy ===== *)
theory Ctl_Run_Laws
  imports Ctl_Laws
begin

text \<open>
  What the end of a run guarantees: the guards between the loop and the records only reject, a run
  that is approved has passed all of them, every rejection has a canonical code, and the cleanup
  and the finalization of the ledger start nothing and forget nothing.
\<close>

section \<open>The ledger at the end\<close>

lemma finalize_started: "finalize sha clean now s d = (r, s', d') \<Longrightarrow> started_in d' \<le> started_in d"
  by (auto simp: finalize_def started_in_def split: sum.splits prod.splits)

lemma reconcileOrphans_started: "reconcileOrphans sha now at s d = (r, s', d') \<Longrightarrow> started_in d' \<le> started_in d"
  by (auto simp: reconcileOrphans_def split: sum.splits dest: reconcile_all_started)

lemma calm_closing [calm_rules]:
  "calm.keeps (run_op (finalize sha clean now))" "calm.keeps (run_op (reconcileOrphans sha now at))"
  by (rule calm_run_op, erule finalize_started) (rule calm_run_op, erule reconcileOrphans_started)

section \<open>Before the records\<close>

text \<open>The invariant of the loop, whatever the disposition.\<close>

definition base :: "budget \<times> nat \<Rightarrow> ctl \<Rightarrow> bool" where
  "base b c \<longleftrightarrow> kept b (c\<lparr>ct_disposition := ''REJECTED''\<rparr>)"

lemma core_rejected: "core p c \<Longrightarrow> core p (c\<lparr>ct_disposition := ''REJECTED''\<rparr>)"
  by (simp add: core_def beliefs_vouched_def)

lemma kept_base: "kept b c \<Longrightarrow> base b c"
  by (auto simp: kept_def base_def intro: core_rejected)

lemma ended_base: "ended env b c \<Longrightarrow> base b c"
  by (auto simp: ended_def finished_def base_def kept_def intro: core_rejected)

lemma kept_disposition: "kept b c \<Longrightarrow> ct_disposition c \<in> {''REJECTED'', ''REVIEW_REQUIRED''}"
  by (auto simp: kept_def core_def)

lemma base_update: "base b c \<Longrightarrow> unseen f \<Longrightarrow> base b (f c)"
  by (auto simp: base_def kept_def unseen_def core_def beliefs_vouched_def)

lemma core_rejected_store:
  "core p (c\<lparr>ct_disposition := d\<rparr>) \<Longrightarrow> calm (ct_store c) s \<Longrightarrow> core p (c\<lparr>ct_store := s, ct_disposition := d\<rparr>)"
proof (drule core_store [of _ _ s], simp)
  have "c\<lparr>ct_disposition := d, ct_store := s\<rparr> = c\<lparr>ct_store := s, ct_disposition := d\<rparr>"
    by simp
  then show "core p (c\<lparr>ct_disposition := d, ct_store := s\<rparr>) \<Longrightarrow> core p (c\<lparr>ct_store := s, ct_disposition := d\<rparr>)"
    by argo
qed

lemma base_store: "base b c \<Longrightarrow> calm (ct_store c) s \<Longrightarrow> base b (c\<lparr>ct_store := s\<rparr>)"
  unfolding base_def kept_def by (blast intro: core_rejected_store)

lemma finished_store: "finished env p c \<Longrightarrow> calm (ct_store c) s \<Longrightarrow> finished env p (c\<lparr>ct_store := s\<rparr>)"
  unfolding finished_def by (auto simp: core_rejected_store calm_def intro: review_vouched_grow)

lemma ended_store: "ended env b c \<Longrightarrow> calm (ct_store c) s \<Longrightarrow> ended env b (c\<lparr>ct_store := s\<rparr>)"
  unfolding ended_def kept_def by (auto intro: core_store finished_store)

lemma on_store_calm: "calm.keeps m \<Longrightarrow> (\<And>c s. I c \<Longrightarrow> calm (ct_store c) s \<Longrightarrow> I (c\<lparr>ct_store := s\<rparr>)) \<Longrightarrow> stable I (on_store m)"
  by (rule tripleI) (auto simp: on_store_eq split: prod.splits dest: calm.keepsD)

lemmas base_on_store = on_store_calm [where I = "base b" for b, OF _ base_store]

text \<open>A rejection leaves the invariant as it is.\<close>

lemma rejecting: "triple (base b) (reject_with reason errs) (\<lambda>_ c. kept b c \<and> ct_disposition c = ''REJECTED'') (\<lambda>_. False)"
  unfolding reject_with_def by (rule triple_set) (auto simp: base_def kept_def core_def beliefs_vouched_def)

text \<open>What the guards have checked when the run is still approved.\<close>

definition guarded :: "ctl_env \<Rightarrow> budget \<times> nat \<Rightarrow> (ctl \<Rightarrow> bool) \<Rightarrow> ctl \<Rightarrow> bool" where
  "guarded env b G c \<longleftrightarrow> ended env b c \<and> (approved c \<longrightarrow> G c)"

lemma rejected_guarded: "kept b c \<Longrightarrow> ct_disposition c = ''REJECTED'' \<Longrightarrow> guarded env b G c"
  by (simp add: guarded_def ended_def approved_def)

lemma rejecting_guarded: "triple (guarded env b G) (reject_with reason errs) (\<lambda>_. guarded env b H) (base b)"
  by (rule triple_weaken [OF rejecting [of b]]) (auto simp: guarded_def [of _ _ G] dest: ended_base intro: rejected_guarded)

lemma guard_when:
  assumes "\<And>c. guarded env b G c \<Longrightarrow> \<not> P c \<Longrightarrow> approved c \<Longrightarrow> H c"
  shows "triple (guarded env b G) (when_vars P (reject_with reason errs)) (\<lambda>_. guarded env b H) (base b)"
  unfolding when_vars_def
proof (rule triple_with)
  fix c :: ctl
  show "triple (\<lambda>d. d = c \<and> guarded env b G d) (if P c then reject_with reason errs else act_of (Inr ()))
      (\<lambda>_. guarded env b H) (base b)"
  proof (cases "P c")
    case True
    then show ?thesis
      by (simp only: if_True)
         (rule triple_weaken [OF rejecting_guarded [of env b G]], auto)
  next
    case False
    then show ?thesis
      by (simp only: if_False) (rule triple_of, auto simp: guarded_def assms)
  qed
qed

definition seam_ok :: "ctl_env \<Rightarrow> ctl \<Rightarrow> bool" where
  "seam_ok env c \<longleftrightarrow> (ct_disposition c = ''REVIEW_APPROVED'' \<longrightarrow> \<not> ce_testSeam env)"

definition swept_ok :: "ctl_env \<Rightarrow> ctl_end \<Rightarrow> ctl \<Rightarrow> bool" where
  "swept_ok env fin c \<longleftrightarrow> seam_ok env c \<and> (ct_solStore c \<longrightarrow> ed_removed fin)"

definition guards_ok :: "ctl_env \<Rightarrow> ctl_end \<Rightarrow> ctl \<Rightarrow> bool" where
  "guards_ok env fin c \<longleftrightarrow> swept_ok env fin c \<and> ed_swept fin"

lemma seam_guarded: "triple (ended env b) (seam_guard env) (\<lambda>_. guarded env b (seam_ok env)) (base b)"
  unfolding seam_guard_def
  by (rule triple_weaken [OF guard_when [of env b "\<lambda>_. True"]]) (auto simp: guarded_def seam_ok_def)

lemma store_guarded: "triple (guarded env b (seam_ok env)) (store_guard env fin) (\<lambda>_. guarded env b (swept_ok env fin)) (base b)"
  unfolding store_guard_def when_vars_def
proof (rule triple_with)
  fix c :: ctl
  let ?G = "guarded env b (seam_ok env)"
  let ?ev = "on_store (act_unit (appendControllerEvent (ed_now fin)
          (obj [(''kind'', JStr ''SOL_REAL_AUTH_READONLY_VERIFIED''), (''workUnitId'', JStr (ce_unit env)),
            (''invocationId'', JNull), (''readOnly'', JBool (fst (ed_realAuth fin))),
            (''reason'', snd (ed_realAuth fin)), (''recordedAt'', JStr (ed_now fin))])))"
  have ev: "triple ?G ?ev (\<lambda>_. ?G) (base b)"
    by (rule triple_weaken [OF on_store_calm [where I = ?G]])
       (auto intro: calm_rules simp: guarded_def approved_def seam_ok_def dest: ended_store ended_base)
  show "triple (\<lambda>d. d = c \<and> ?G d) (if ct_solStore c then act_bind ?ev (\<lambda>_.
        if ed_removed fin then set_vars (\<lambda>c. c\<lparr>ct_solRemoved := True\<rparr>)
        else reject_with ''SOL_TRANSPORT_CLEANUP_FAILED'' [''SOL_TRANSPORT_CLEANUP_FAILED'']) else act_of (Inr ()))
      (\<lambda>_. guarded env b (swept_ok env fin)) (base b)"
  proof (cases "ct_solStore c")
    case False
    then show ?thesis
      by (simp only: if_False) (rule triple_of, auto simp: guarded_def swept_ok_def)
  next
    case True
    have removed: "triple ?G (set_vars (\<lambda>c. c\<lparr>ct_solRemoved := True\<rparr>)) (\<lambda>_. guarded env b (swept_ok env fin)) (base b)"
      if "ed_removed fin"
      by (rule triple_set) (use that in \<open>auto simp: guarded_def ended_def kept_def finished_def core_def beliefs_vouched_def
         approved_def swept_ok_def seam_ok_def\<close>)
    have kept: "triple ?G (reject_with reason errs) (\<lambda>_. guarded env b (swept_ok env fin)) (base b)" for reason errs
      by (rule rejecting_guarded)
    have "triple ?G (act_bind ?ev (\<lambda>_. if ed_removed fin then set_vars (\<lambda>c. c\<lparr>ct_solRemoved := True\<rparr>)
        else reject_with ''SOL_TRANSPORT_CLEANUP_FAILED'' [''SOL_TRANSPORT_CLEANUP_FAILED'']))
        (\<lambda>_. guarded env b (swept_ok env fin)) (base b)"
      by (rule triple_bind [OF ev]) (use removed kept in \<open>simp split: if_split\<close>)
    then show ?thesis
      unfolding if_P [OF True] by (rule triple_weaken) auto
  qed
qed

lemma sweep_guarded: "triple (guarded env b (swept_ok env fin)) (sweep_guard fin) (\<lambda>_. guarded env b (guards_ok env fin)) (base b)"
proof (cases "ed_swept fin")
  case True
  then show ?thesis
    by (simp add: sweep_guard_def del: act_of_simps) (rule triple_of, auto simp: guarded_def guards_ok_def)
next
  case False
  then show ?thesis
    by (simp add: sweep_guard_def rejecting_guarded)
qed

lemma open_guarded: "triple (guarded env b (guards_ok env fin)) open_guard (\<lambda>_. guarded env b (guards_ok env fin)) (base b)"
  unfolding open_guard_def by (rule guard_when) (simp add: guarded_def)

section \<open>The records of the end\<close>

definition recorded :: "string \<Rightarrow> ctl \<Rightarrow> bool" where
  "recorded d c \<longleftrightarrow> list_ex (\<lambda>r. is_lit (fld ''disposition'' r) d) (cf_dispositions (st_files (ct_store c)))"

text \<open>The candidate a run returns is for review only, and is never published.\<close>

definition reviewable :: "ctl \<Rightarrow> bool" where
  "reviewable c \<longleftrightarrow> (\<exists>x. ct_candidate c = Some x \<and> is_lit (fld ''publication'' x) ''REVIEWABLE_ONLY'' \<and>
     fld ''autoPublished'' x = Some (JBool False))"

definition judged :: "ctl_env \<Rightarrow> ctl_end \<Rightarrow> budget \<times> nat \<Rightarrow> ctl \<Rightarrow> bool" where
  "judged env fin b c \<longleftrightarrow> base b c \<and>
     ct_disposition c \<in> {''REJECTED'', ''REVIEW_REQUIRED'', ''SEMANTICALLY_ACCEPTED'', ''REVIEW_APPROVED''} \<and>
     (ct_disposition c = ''REJECTED'' \<longrightarrow> (\<exists>r \<in> set CANONICAL_REJECTION_CODES. ct_reason c = Some r)) \<and>
     (approved c \<longrightarrow> (\<exists>p. mk_limits p = b \<and> finished env p c) \<and> guards_ok env fin c \<and> reviewable c \<and>
        recorded (ct_disposition c) c)"

lemma recorded_store: "recorded d c \<Longrightarrow> calm (ct_store c) s \<Longrightarrow> recorded d (c\<lparr>ct_store := s\<rparr>)"
  by (auto simp: recorded_def calm_def files_grow_def intro: extends_set)

lemma judged_base: "judged env fin b c \<Longrightarrow> base b c"
  by (simp add: judged_def)

lemma judged_store: "judged env fin b c \<Longrightarrow> calm (ct_store c) s \<Longrightarrow> judged env fin b (c\<lparr>ct_store := s\<rparr>)"
  unfolding judged_def
  by (auto intro: base_store finished_store recorded_store
      simp: approved_def guards_ok_def swept_ok_def seam_ok_def reviewable_def)

text \<open>An action on the store that keeps a predicate of the variables, with the error case weakened.\<close>

lemma then_base:
  assumes "stable I m" and "\<And>c. I c \<Longrightarrow> base b c"
  shows "triple I m (\<lambda>_. I) (base b)"
  by (rule triple_weaken [OF assms(1)]) (auto intro: assms(2))

lemma judged_on_store: "calm.keeps m \<Longrightarrow> triple (judged env fin b) (on_store m) (\<lambda>_. judged env fin b) (base b)"
  by (rule then_base [OF on_store_calm]) (auto intro: judged_store judged_base)

lemma calm_disposition: "calm.keeps (act_unit (persistDisposition d))"
  by (intro calm_rules)

lemma stamped_disposition:
  assumes "persistDisposition (Some (disposition_data env fin d reason refs)) s = (Inr rec, t)"
  shows "list_ex (\<lambda>r. is_lit (fld ''disposition'' r) d) (cf_dispositions (st_files t))"
  using assms
  by (auto simp: persistDisposition_def act_bind_eq_Inr stampRecord_def Let_def disposition_data_def obj_def)

lemma disposition_recorded: "triple P (record_disposition env fin d reason refs) (\<lambda>_. recorded d) (\<lambda>_. True)"
  by (rule tripleI)
     (auto simp: record_disposition_def on_store_eq act_unit_def recorded_def act_bind_eq_Inr
       split: prod.splits dest: stamped_disposition)

lemma triple_and:
  "triple P m Q E \<Longrightarrow> triple P m R F \<Longrightarrow> triple P m (\<lambda>x s. Q x s \<and> R x s) E"
  unfolding triple_def by blast

lemma candidate_reviewable:
  assumes "persistCandidate v s = (Inr rec, t)"
  shows "is_lit (fld ''publication'' rec) ''REVIEWABLE_ONLY'' \<and> fld ''autoPublished'' rec = Some (JBool False)"
  using assms by (auto simp: persistCandidate_def act_bind_eq_Inr candidate_record_def Let_def)

lemma rejected_recorded:
  "triple (\<lambda>c. base b c \<and> ct_disposition c = ''REJECTED'') (record_rejected env fin) (\<lambda>_. judged env fin b) (base b)"
  unfolding record_rejected_def
proof (rule triple_bind [of _ _ "\<lambda>_. judged env fin b"])
  show "triple (\<lambda>c. base b c \<and> ct_disposition c = ''REJECTED'') (set_vars (\<lambda>c. c\<lparr>ct_reason := Some (reason_text c)\<rparr>))
      (\<lambda>_. judged env fin b) (base b)"
    by (rule triple_set)
       (auto simp: judged_def approved_def reason_text_def canonicalRejectionCode_in base_def kept_def core_def beliefs_vouched_def)
  fix x :: unit
  show "triple (judged env fin b) (with_vars (\<lambda>c. let reason = reason_text c; refs = disposition_refs c in
       act_bind (on_store (persistRejection (Some (obj [(''workUnitId'', JStr (ce_unit env)), (''rejectionCode'', JStr reason),
         (''reason'', JStr (reason_of_code reason ''UNSUPPORTED_CLAIM'')), (''evidenceRefs'', strs refs),
         (''rejectedAt'', JStr (ed_now fin))])))) (\<lambda>_.
       record_disposition env fin ''REJECTED'' (Some reason) refs))) (\<lambda>_. judged env fin b) (base b)"
    unfolding Let_def record_disposition_def
    by (rule triple_with, rule triple_bind [of _ _ "\<lambda>_. judged env fin b"])
       (rule triple_weaken [OF judged_on_store [of _ env fin b]], auto intro: judged_on_store calm_disposition calm_rules)
qed

text \<open>A run that goes on to its records without a rejection.\<close>

definition passing :: "ctl_env \<Rightarrow> ctl_end \<Rightarrow> budget \<times> nat \<Rightarrow> ctl \<Rightarrow> bool" where
  "passing env fin b c \<longleftrightarrow> approved c \<and> (\<exists>p. mk_limits p = b \<and> finished env p c) \<and> guards_ok env fin c"

lemma passing_base: "passing env fin b c \<Longrightarrow> base b c"
  using ended_base [of env b c] by (auto simp: passing_def ended_def)

lemma passing_store: "passing env fin b c \<Longrightarrow> calm (ct_store c) s \<Longrightarrow> passing env fin b (c\<lparr>ct_store := s\<rparr>)"
  unfolding passing_def
  by (auto intro: finished_store simp: approved_def guards_ok_def swept_ok_def seam_ok_def)

lemma passing_guarded: "guarded env b (guards_ok env fin) c \<Longrightarrow> approved c \<Longrightarrow> passing env fin b c"
  using kept_disposition [of b c] by (auto simp: guarded_def passing_def ended_def approved_def)

lemma passing_on_store:
  assumes "calm.keeps m" and "\<And>c s. R c \<Longrightarrow> calm (ct_store c) s \<Longrightarrow> R (c\<lparr>ct_store := s\<rparr>)"
  shows "triple (\<lambda>c. passing env fin b c \<and> R c) (on_store m) (\<lambda>_ c. passing env fin b c \<and> R c) (base b)"
  by (rule then_base [OF on_store_calm [OF assms(1)]]) (auto intro: passing_store assms(2) passing_base)

lemma passing_disposition:
  assumes "\<And>c s. R c \<Longrightarrow> calm (ct_store c) s \<Longrightarrow> R (c\<lparr>ct_store := s\<rparr>)"
  shows "triple (\<lambda>c. passing env fin b c \<and> R c) (record_disposition env fin d reason refs)
    (\<lambda>_ c. (passing env fin b c \<and> R c) \<and> recorded d c) (base b)"
  by (rule triple_and [OF _ disposition_recorded], unfold record_disposition_def)
     (rule passing_on_store [OF calm_disposition], rule assms)

lemma passing_set:
  assumes "unseen f" and "\<And>c. ct_solStore (f c) = ct_solStore c"
  shows "passing env fin b c \<Longrightarrow> passing env fin b (f c)"
proof -
  have "core p ((f c)\<lparr>ct_disposition := d\<rparr>)" if "core p (c\<lparr>ct_disposition := d\<rparr>)" for p d
    using that assms(1) by (simp add: core_def unseen_def beliefs_vouched_def)
  then show "passing env fin b c \<Longrightarrow> passing env fin b (f c)"
    using assms
    by (auto simp: passing_def finished_def approved_def guards_ok_def swept_ok_def seam_ok_def unseen_def)
qed

lemma candidate_made:
  "triple P (on_store (persistCandidate v))
     (\<lambda>x _. is_lit (fld ''publication'' x) ''REVIEWABLE_ONLY'' \<and> fld ''autoPublished'' x = Some (JBool False)) (\<lambda>_. True)"
  by (rule tripleI) (auto simp: on_store_eq split: prod.splits dest: candidate_reviewable)

lemma accepted_recorded:
  "triple (passing env fin b) (record_accepted env fin) (\<lambda>_. judged env fin b) (base b)"
  unfolding record_accepted_def Let_def
proof (rule triple_with)
  fix c :: ctl
  let ?refs = "disposition_refs c"
  let ?D = "\<lambda>d. passing env fin b d \<and> ct_disposition d = ct_disposition c"
  let ?J = "\<lambda>d. passing env fin b d \<and> ct_disposition d = ct_disposition c \<and> recorded ''SEMANTICALLY_ACCEPTED'' d"
  let ?L = "\<lambda>d. passing env fin b d \<and> ct_disposition d = ct_disposition c \<and> recorded ''SEMANTICALLY_ACCEPTED'' d \<and> reviewable d"
  have dis: "triple ?D (record_disposition env fin k None ?refs) (\<lambda>_ d. ?D d \<and> recorded k d) (base b)" for k
    by (rule passing_disposition) simp
  have first: "triple (\<lambda>d. d = c \<and> passing env fin b d) (record_disposition env fin ''PATCH_VALID'' None ?refs) (\<lambda>_. ?D) (base b)"
    by (rule triple_weaken [OF dis]) auto
  have second: "triple ?D (record_disposition env fin ''SEMANTICALLY_ACCEPTED'' None ?refs) (\<lambda>_. ?J) (base b)"
    by (rule triple_weaken [OF dis]) auto
  have made: "triple ?J (on_store (persistCandidate (candidate_data env c)))
      (\<lambda>x d. ?J d \<and> is_lit (fld ''publication'' x) ''REVIEWABLE_ONLY'' \<and> fld ''autoPublished'' x = Some (JBool False)) (base b)"
    by (rule triple_and [OF passing_on_store candidate_made]) (auto intro: calm_rules recorded_store)
  have noted: "triple (\<lambda>d. ?J d \<and> is_lit (fld ''publication'' x) ''REVIEWABLE_ONLY'' \<and> fld ''autoPublished'' x = Some (JBool False))
      (set_vars (\<lambda>c. c\<lparr>ct_candidate := Some x\<rparr>)) (\<lambda>_. ?L) (base b)" for x
    by (rule triple_set) (auto simp: reviewable_def recorded_def unseen_def intro: passing_set [of "\<lambda>c. c\<lparr>ct_candidate := Some x\<rparr>"])
  have fin: "judged env fin b d" if "?L d" "recorded (ct_disposition c) d" for d
    using that passing_base [of env fin b d] by (auto simp: judged_def passing_def approved_def)
  have last: "triple ?L (if ct_disposition c = ''REVIEW_APPROVED'' then record_disposition env fin ''REVIEW_APPROVED'' None ?refs
       else act_of (Inr ())) (\<lambda>_. judged env fin b) (base b)"
  proof (cases "ct_disposition c = ''REVIEW_APPROVED''")
    case True
    have "triple ?L (record_disposition env fin ''REVIEW_APPROVED'' None ?refs) (\<lambda>_ d. ?L d \<and> recorded ''REVIEW_APPROVED'' d) (base b)"
      by (rule passing_disposition) (auto simp: reviewable_def intro: recorded_store)
    then show ?thesis
      unfolding if_P [OF True] by (rule triple_weaken) (use fin True in auto)
  next
    case False
    have "judged env fin b d" if "?L d" for d
      using fin [OF that] that False by (auto simp: passing_def approved_def)
    then show ?thesis
      unfolding if_not_P [OF False] by (rule triple_of) auto
  qed
  show "triple (\<lambda>d. d = c \<and> passing env fin b d)
     (act_bind (record_disposition env fin ''PATCH_VALID'' None ?refs) (\<lambda>_.
     act_bind (record_disposition env fin ''SEMANTICALLY_ACCEPTED'' None ?refs) (\<lambda>_.
     act_bind (on_store (persistCandidate (candidate_data env c))) (\<lambda>candidate.
     act_bind (set_vars (\<lambda>c. c\<lparr>ct_candidate := Some candidate\<rparr>)) (\<lambda>_.
     if ct_disposition c = ''REVIEW_APPROVED'' then record_disposition env fin ''REVIEW_APPROVED'' None ?refs
     else act_of (Inr ())))))) (\<lambda>_. judged env fin b) (base b)"
    by (rule triple_bind [OF first], rule triple_bind [OF second], rule triple_bind [OF made], rule triple_bind [OF noted], rule last)
qed

lemma end_recorded: "triple (guarded env b (guards_ok env fin)) (record_end env fin unit) (\<lambda>_. judged env fin b) (base b)"
  unfolding record_end_def
proof (rule triple_with, rule triple_bind)
  fix c :: ctl
  let ?G = "guarded env b (guards_ok env fin)"
  have base: "?G d \<Longrightarrow> base b d" for d
    by (auto simp: guarded_def intro: ended_base)
  show "triple (\<lambda>d. d = c \<and> ?G d) (if ct_disposition c = ''REJECTED'' then record_rejected env fin
       else if ct_disposition c = ''REVIEW_REQUIRED''
       then record_disposition env fin ''REVIEW_REQUIRED'' None (disposition_refs c)
       else record_accepted env fin) (\<lambda>_. judged env fin b) (base b)"
  proof (cases "approved c")
    case True
    then have n: "ct_disposition c \<noteq> ''REJECTED''" "ct_disposition c \<noteq> ''REVIEW_REQUIRED''"
      by (auto simp: approved_def)
    show ?thesis
      unfolding if_not_P [OF n(1)] if_not_P [OF n(2)]
      by (rule triple_weaken [OF accepted_recorded [of env fin b]]) (use True in \<open>auto intro: passing_guarded\<close>)
  next
    case False
    have req: "triple (judged env fin b) (record_disposition env fin ''REVIEW_REQUIRED'' None (disposition_refs c)) (\<lambda>_. judged env fin b) (base b)"
      unfolding record_disposition_def by (rule judged_on_store [OF calm_disposition])
    show ?thesis
    proof (cases "?G c")
      case True
      then have "ct_disposition c \<in> {''REJECTED'', ''REVIEW_REQUIRED''}"
        using False kept_disposition [of b c] by (auto simp: guarded_def ended_def finished_def approved_def split: if_splits)
      moreover have "judged env fin b c" if "ct_disposition c = ''REVIEW_REQUIRED''"
        using that base [OF True] by (simp add: judged_def approved_def)
      ultimately show ?thesis
        using base by (auto intro: triple_weaken [OF rejected_recorded [of b env fin]] triple_weaken [OF req])
    qed (auto intro: tripleI)
  qed
qed (auto intro: judged_on_store calm_rules)

lemma end_judged: "triple (ended env b) (end_of_loop env fin unit) (\<lambda>_. judged env fin b) (base b)"
  unfolding end_of_loop_def
  by (rule triple_bind [OF seam_guarded], rule triple_bind [OF store_guarded], rule triple_bind [OF sweep_guarded],
      rule triple_bind [OF open_guarded], rule end_recorded)

section \<open>The whole run\<close>

lemma judged_stable: "calm.keeps m \<Longrightarrow> stable (judged env fin b) (on_store m)"
  by (rule on_store_calm) (auto intro: judged_store)

lemma failure_judged: "triple (base b) (failure_path env fin e) (\<lambda>_. judged env fin b) (\<lambda>_. True)"
proof -
  let ?r = "canonicalRejectionCode (publicErrorCode e ''UNSUPPORTED_CLAIM'')"
  have rej: "triple (base b) (reject_with ?r errs) (\<lambda>_. judged env fin b) (\<lambda>_. True)" for errs
    unfolding reject_with_def
    by (rule triple_set)
       (auto simp: judged_def approved_def canonicalRejectionCode_in base_def kept_def core_def beliefs_vouched_def)
  have dis: "stable (judged env fin b) (record_disposition env fin d reason refs)" for d reason refs
    unfolding record_disposition_def by (rule judged_stable [OF calm_disposition])
  show ?thesis
    unfolding failure_path_def Let_def
    by (rule triple_bind [OF rej], rule triple_with, rule triple_weaken [OF triple_attempt [OF dis]]) auto
qed

lemma or_failure_judged:
  assumes "triple P m (\<lambda>_. judged env fin b) (base b)"
  shows "P c \<Longrightarrow> judged env fin b (snd (or_failure env fin m c))"
proof -
  assume P: "P c"
  obtain r d where m: "m c = (r, d)" by (metis surj_pair)
  have total: "fst (failure_path env fin e d) = Inr ()" for e
    by (simp add: failure_path_def Let_def reject_with_def set_vars_def act_bind_def with_vars_def)
  show ?thesis
  proof (cases r)
    case (Inl e)
    then have "base b d"
      using triple_Inl [OF assms P] m by simp
    then show ?thesis
      using triple_Inr [OF failure_judged, of b d env fin e] total [of e] m Inl
      by (cases "failure_path env fin e d") (simp add: or_failure_def)
  next
    case (Inr x)
    then show ?thesis
      using triple_Inr [OF assms P] m by (simp add: or_failure_def)
  qed
qed

text \<open>The cleanup only reports errors.\<close>

lemma judged_unseen:
  assumes "unseen f" and "\<And>c. ct_solStore (f c) = ct_solStore c \<and> ct_reason (f c) = ct_reason c \<and> ct_candidate (f c) = ct_candidate c"
    and "judged env fin b c"
  shows "judged env fin b (f c)"
proof -
  have eqs: "ct_store (f c) = ct_store c" "ct_disposition (f c) = ct_disposition c" "ct_findings (f c) = ct_findings c"
    "ct_solStore (f c) = ct_solStore c" "ct_reason (f c) = ct_reason c" "ct_candidate (f c) = ct_candidate c"
    using assms(1,2) by (simp_all add: unseen_def)
  have core: "core p ((f c)\<lparr>ct_disposition := d\<rparr>)" if "core p (c\<lparr>ct_disposition := d\<rparr>)" for p d
    using that assms(1) by (simp add: core_def unseen_def beliefs_vouched_def)
  then have "base b (f c)"
    using assms(3) by (auto simp: judged_def base_def kept_def)
  moreover have "finished env p (f c)" if "finished env p c" for p
    using that core by (simp add: finished_def eqs)
  moreover have "approved (f c) = approved c" "guards_ok env fin (f c) = guards_ok env fin c"
    "reviewable (f c) = reviewable c" "recorded d (f c) = recorded d c" for d
    by (simp_all add: approved_def guards_ok_def swept_ok_def seam_ok_def reviewable_def recorded_def eqs)
  ultimately show ?thesis
    using assms(3) unfolding judged_def eqs by blast
qed

lemma report_judged: "stable (judged env fin b) (report_error code)"
  unfolding report_error_def by (rule stable_set, rule judged_unseen) (simp_all add: unseen_def)

lemma clean_judged: "judged env fin b c \<Longrightarrow> judged env fin b (snd (finally_clean env fin c))"
proof -
  assume c: "judged env fin b c"
  have first: "stable (judged env fin b) (when_vars P (report_error code))" for P code
    unfolding when_vars_def by (rule stable_with) (auto intro: report_judged stable_of)
  have rec: "stable (judged env fin b) (on_store (run_op (reconcileOrphans (ce_sha env) (ed_now fin) None)))"
    by (rule judged_stable [OF calm_closing(2)])
  have second: "stable (judged env fin b) (\<lambda>c. case on_store (run_op (reconcileOrphans (ce_sha env) (ed_now fin) None)) c of
        (Inl _, c') \<Rightarrow> report_error ''INCOMPLETE_LEDGER'' c' | (Inr _, c') \<Rightarrow> (Inr (), c'))"
    (is "stable _ ?m")
  proof -
    have "judged env fin b (snd (?m c))" if "judged env fin b c" for c
      using triple_gives [OF rec that] triple_gives [OF report_judged [of env fin b]] by (auto split: prod.split sum.split)
    then show ?thesis
      by (rule stableI)
  qed
  show ?thesis
    unfolding finally_clean_def by (rule triple_gives [where P = "judged env fin b", OF _ c]) (rule stable_bind [OF first second])
qed

lemma finalize_judged: "stable (judged env fin b) (finalize_run env fin)"
  unfolding finalize_run_def by (intro stable_bind stable_of judged_stable calm_closing)

lemma close_judged:
  assumes "judged env fin b c" and "close_ledger env fin c = (r, d)"
  shows "judged env fin b d" and "\<exists>x. r = Inr x"
proof -
  have rep: "judged env fin b e \<Longrightarrow> judged env fin b (snd (report_error code e))" for e code
    by (rule triple_gives [OF report_judged])
  show "judged env fin b d" "\<exists>x. r = Inr x"
    using assms rep
    by (auto simp: close_ledger_def split: prod.splits sum.splits if_splits
        dest: triple_Inr [OF finalize_judged] triple_Inl [OF finalize_judged])
qed

lemma run_unit_judged:
  assumes "ready b MAX_CONTROLLER_STEPS c0" and "ce_contract env \<noteq> JNull" and "run_unit env worktree fin unit c0 = (r, c)"
  shows "judged env fin b c" and "\<exists>life. r = result_of c life"
proof -
  define c1 where "c1 = snd (or_failure env fin (act_bind (controller_loop env worktree MAX_CONTROLLER_STEPS 0)
                 (\<lambda>_. end_of_loop env fin unit)) c0)"
  define c2 where "c2 = snd (finally_clean env fin c1)"
  have "triple (ready b MAX_CONTROLLER_STEPS) (act_bind (controller_loop env worktree MAX_CONTROLLER_STEPS 0)
                 (\<lambda>_. end_of_loop env fin unit)) (\<lambda>_. judged env fin b) (base b)"
    by (rule triple_bind [OF triple_weaken [OF core_loop [OF assms(2)]] end_judged]) (auto intro: kept_base)
  then have "judged env fin b c1"
    unfolding c1_def by (rule or_failure_judged) (rule assms(1))
  then have c2: "judged env fin b c2"
    unfolding c2_def by (rule clean_judged)
  obtain q c3 where cl: "close_ledger env fin c2 = (q, c3)" by (metis surj_pair)
  note c3 = close_judged [OF c2 cl]
  then obtain life where q: "q = Inr life" by blast
  define c4 where "c4 = (if ct_worktree c3 \<and> \<not> ed_worktree fin
                     then c3\<lparr>ct_errors := ct_errors c3 @ [''WORKTREE_CLEANUP_FAILED'']\<rparr> else c3)"
  have c4: "judged env fin b c4"
    unfolding c4_def using c3(1) judged_unseen [of "\<lambda>c. c\<lparr>ct_errors := ct_errors c @ [''WORKTREE_CLEANUP_FAILED'']\<rparr>"]
    by (auto simp: unseen_def)
  have rc: "r = result_of c4 life" "c = c4"
    using assms(3) unfolding run_unit_def Let_def c1_def [symmetric] c2_def [symmetric] cl q c4_def by auto
  show "judged env fin b c" "\<exists>life. r = result_of c life"
    using c4 rc by blast+
qed

section \<open>From the start\<close>

lemma create_started: "create sha fresh version commit now b config existing = Inr (ss, d) \<Longrightarrow> started_in d = 0"
  by (auto simp: create_def started_in_def Let_def)

lemma open_unit_calm: "open_unit now unit s = Inr t \<Longrightarrow> started t \<le> started s"
proof -
  have "calm.keeps (act_bind (persistWorkUnit (Some unit)) (\<lambda>_.
           persistWorkUnit (Some (set_field ''status'' (JStr ''IN_PROGRESS'') unit))))"
    by (intro calm.keeps_bind calm_rules)
  then show "open_unit now unit s = Inr t \<Longrightarrow> started t \<le> started s"
    by (auto simp: open_unit_def calm_def split: prod.splits sum.splits dest: calm.keepsD)
qed

lemma initial_ready:
  assumes "createBudgetTracker u r = Inr b" and "started s = 0"
  shows "ready (b, k) k (initial_ctl b s)"
proof -
  let ?p = "\<lparr>mk_limits = (b, k), mk_left = k, mk_spare = 0, mk_paid = 0, mk_end = ''ROUTING_READY'', mk_state = ''ROUTING_READY'', mk_docs = []\<rparr>"
  have "core ?p (initial_ctl b s)"
    using createBudgetTracker_ok [OF assms(1)] assms(2) by (simp add: core_def initial_ctl_def beliefs_vouched_def)
  then show ?thesis
    unfolding ready_def by (intro exI [of _ ?p]) simp
qed

lemma compiled_contract: "compileProjectContract sha now config = Inr doc \<Longrightarrow> doc \<noteq> JNull"
  by (auto simp: compileProjectContract_def Let_def dest: compile_status)

text \<open>
  The run of the controller on an input: it has an environment whose contract is an object, a budget
  within the limits of the configuration, and a judged end.
\<close>

definition run_env :: "ctl_env \<Rightarrow> run_input \<Rightarrow> json \<Rightarrow> json \<Rightarrow> ctl_env" where
  "run_env env0 inp contract config =
     env0\<lparr>ce_contract := contract, ce_config := config, ce_permissions := ri_project inp, ce_base := or_null (ri_base inp)\<rparr>"

definition budgets :: "run_input \<Rightarrow> string \<Rightarrow> int" where
  "budgets inp k = int_value (own k (own ''budgets'' (Some (ri_project inp))))"

lemma run_judged:
  assumes "runController env0 worktree fin inp = Inr (r, c)"
  obtains contract config b life where "compileProjectContract (ce_sha env0) (ce_now env0 0) (ri_project inp) = Inr contract"
    "judged (run_env env0 inp contract config) fin (b, MAX_CONTROLLER_STEPS) c" "r = result_of c life"
    "unitCalls b = budgets inp ''unitCalls''" "runCalls b = budgets inp ''runCalls''"
proof -
  obtain contract config ss d s b where
    contract: "compileProjectContract (ce_sha env0) (ce_now env0 0) (ri_project inp) = Inr contract"
    and d: "create (ce_sha env0) (ri_runId inp) (ri_version inp) (ri_commit inp) (ce_now env0 0) (ri_base inp)
        (Some (JStr (digestConfig (ce_sha env0) config))) (ri_existing inp) = Inr (ss, d)"
    and s: "open_unit (ce_now env0 0) (createControllerWorkUnit (ce_now env0 0) (ss_runId ss) (ce_unit env0)
        (or_null (ri_base inp)) (ri_project inp) ''CREATED'') \<lparr>st_session = ss, st_dir = d, st_files = no_files\<rparr> = Inr s"
    and b: "createBudgetTracker (own ''unitCalls'' (own ''budgets'' (Some (ri_project inp))))
        (own ''runCalls'' (own ''budgets'' (Some (ri_project inp)))) = Inr b"
    and run: "run_unit (run_env env0 inp contract config) worktree fin (createControllerWorkUnit (ce_now env0 0) (ss_runId ss) (ce_unit env0)
        (or_null (ri_base inp)) (ri_project inp) ''CREATED'') (initial_ctl b s) = (r, c)"
    using assms unfolding runController_def Let_def run_env_def by (auto split: prod.splits)
  have "started s = 0"
    using open_unit_calm [OF s] create_started [OF d] by (simp add: started_def)
  note rd = initial_ready [OF b this, of MAX_CONTROLLER_STEPS]
  have "ce_contract (run_env env0 inp contract config) \<noteq> JNull"
    using compiled_contract [OF contract] by (simp add: run_env_def)
  from run_unit_judged [OF rd this run] obtain life
    where "judged (run_env env0 inp contract config) fin (b, MAX_CONTROLLER_STEPS) c" "r = result_of c life"
    by blast
  moreover have "unitCalls b = budgets inp ''unitCalls''" "runCalls b = budgets inp ''runCalls''"
    using b by (auto simp: createBudgetTracker_def budgets_def)
  ultimately show thesis
    using that contract by blast
qed

end
