(* ===== verification/Ctl_Verdicts.thy ===== *)
theory Ctl_Verdicts
  imports Ctl_Run_Laws Contract_Build Handoff_States
begin

text \<open>
  What an accepted attempt says of the observations the controller made, and two consequences of
  the order in which the loop takes its decisions: a repair needs a finding, and a recheck that
  resolves a finding overrides the rejection of the repair.
\<close>

section \<open>Accepted attempts\<close>

text \<open>What the observations of an accepted worker attempt come to, spelled out.\<close>

definition patch_sound :: "worker_obs \<Rightarrow> bool" where
  "patch_sound ob \<longleftrightarrow>
     wk_safety ob = None \<and> wk_evidenceError ob = None \<and>
     (\<exists>e. wk_evidence ob = Some e \<and> pr_changedPaths (er_record e) \<noteq> [] \<and> pr_clean (er_record e) \<and>
        (er_patchText e = [] \<or>
          ((\<exists>rs f. wk_validation ob = Inr (rs, f) \<and>
              \<not> list_ex (\<lambda>v. va_kind v \<in> {''test'', ''secret-scan''} \<and> va_outcome v \<noteq> ''PASS'') rs) \<and>
           \<not> list_ex (\<lambda>p. re_test p (er_patchText e)) SECRET_PATTERNS)))"

lemma all_pass_append [simp]: "all_pass k (xs @ ys) \<longleftrightarrow> all_pass k xs \<and> all_pass k ys"
  by (auto simp: all_pass_def)

lemma all_pass_Cons [simp]:
  "all_pass k []" "all_pass k (v # vs) \<longleftrightarrow> (va_kind v = k \<longrightarrow> va_outcome v = ''PASS'') \<and> all_pass k vs"
  by (auto simp: all_pass_def)

lemma all_pass_two:
  "all_pass ''test'' rs \<and> all_pass ''secret-scan'' rs \<longleftrightarrow>
     \<not> list_ex (\<lambda>v. va_kind v \<in> {''test'', ''secret-scan''} \<and> va_outcome v \<noteq> ''PASS'') rs"
  by (induction rs) auto

lemma validations_pass:
  "all_pass ''test'' (validation_results ob) \<and> all_pass ''secret-scan'' (validation_results ob) \<longleftrightarrow>
     patch_text ob = [] \<or>
     ((\<exists>rs f. wk_validation ob = Inr (rs, f) \<and>
         \<not> list_ex (\<lambda>v. va_kind v \<in> {''test'', ''secret-scan''} \<and> va_outcome v \<noteq> ''PASS'') rs) \<and>
      \<not> list_ex (\<lambda>p. re_test p (patch_text ob)) SECRET_PATTERNS)"
proof (cases "wk_validation ob")
  case (Inl m)
  then show ?thesis by (simp add: validation_results_def)
next
  case (Inr r)
  then show ?thesis
    using all_pass_two [of "fst r"]
    by (cases r) (auto simp: validation_results_def secretScan_def Let_def)
qed

lemma patch_valid_sound: "patch_valid ob \<longleftrightarrow> patch_sound ob"
  using validations_pass [of ob]
  by (cases "wk_evidence ob") (auto simp: patch_valid_def patch_sound_def patch_text_def)

lemma decision_accepts:
  assumes "semantic_decision config ob = Inr (b, code)" and "patch_valid ob"
  shows "b \<longleftrightarrow> own ''semanticRejectionCode'' (Some config) = Some JNull \<and>
    (wk_semantic ob = None \<or> (\<exists>d. wk_semantic ob = Some (Inr d) \<and> own ''accepted'' d = Some (JBool True)))"
proof (cases "wk_semantic ob")
  case None
  then show ?thesis
    using assms by (auto simp: semantic_decision_def Let_def split: if_splits)
next
  case (Some r)
  show ?thesis
  proof (cases r)
    case (Inl e)
    with Some assms show ?thesis by (simp add: semantic_decision_def)
  next
    case (Inr d)
    show ?thesis
    proof (cases "\<exists>x. own ''accepted'' d = Some (JBool x)")
      case True
      then obtain x where x: "own ''accepted'' d = Some (JBool x)" by blast
      then show ?thesis
        using assms Some Inr by (auto simp: semantic_decision_def Let_def split: if_splits)
    next
      case False
      show ?thesis
      proof (cases "own ''accepted'' d")
        case None
        with assms Some Inr show ?thesis by (simp add: semantic_decision_def)
      next
        case v: (Some v)
        show ?thesis
          by (cases v) (use assms Some Inr v False in \<open>simp_all add: semantic_decision_def\<close>)
      qed
    qed
  qed
qed

text \<open>The response is a result of the schema and of this unit.\<close>

definition answers_unit :: "string \<Rightarrow> string \<Rightarrow> bool" where
  "answers_unit unit raw \<longleftrightarrow>
     (\<exists>v x errs. parseWorkerResponse (Some (JStr raw)) = Inr (v, x) \<and> validateWorkerResult v = Inr (True, errs) \<and>
        is_lit (own ''workUnitId'' (Some v)) unit)"

lemma blank_unparsed: "blank_text raw \<Longrightarrow> \<exists>e. parseWorkerResponse (Some (JStr raw)) = Inl e"
  by simp

lemma assessed_answer:
  assumes "assessHandoff preserve u (Some (JStr raw)) root completed = Inr a"
  shows "schemaState (schema a) = ''VALID'' \<and> is_lit (own ''workUnitId'' (workerResult a)) unit \<longleftrightarrow> answers_unit unit raw"
  using assms
proof (cases rule: assess_cases)
  case (none c u')
  then have "blank_text raw" by (simp add: has_handoff_def)
  then obtain e where "parseWorkerResponse (Some (JStr raw)) = Inl e" using blank_unparsed by blast
  then show ?thesis
    using none(3) by (simp add: empty_assessment_def answers_unit_def del: parseWorkerResponse.simps)
next
  case (response c u' s)
  then show ?thesis
    using with_preserved_states [of preserve root u' s "empty_assessment u' True c"]
    by (auto simp: assess_response_eq empty_assessment_def malformed_def parsed_as_def answers_unit_def
      validateWorkerResult_eq worker_ok_def Let_def
      schema_valid_def schema_invalid_def simp del: parseWorkerResponse.simps split: sum.splits if_splits)
qed

lemma handoff_answers:
  "worker_handoff env ob p = Inr h \<Longrightarrow> transport_valid (ce_unit env) h \<longleftrightarrow> answers_unit (ce_unit env) (pv_stdout p)"
  by (auto simp: worker_handoff_def transport_valid_def recordPatchObservation_def dest!: assessed_answer
      simp del: assessHandoff.simps)

lemma or_reconcile_Inr: "or_reconcile env n i note m s = (Inr x, t) \<longleftrightarrow> m s = (Inr x, t)"
  by (auto simp: or_reconcile_def split: prod.splits sum.splits)

lemma close_unquiescent_Inr: "close_unquiescent env n i note lifetime ev s \<noteq> (Inr x, t)"
  by (simp add: close_unquiescent_def act_bind_eq_Inr)

lemma fail_if_Inr: "fail_if e s = (Inr x, t) \<longleftrightarrow> e = None \<and> t = s"
  by (auto simp: fail_if_def act_of_def split: option.splits)

lemma worker_try_Inr:
  assumes "worker_try env n ob s = (Inr p, t)"
  shows "(\<exists>b. wk_boundary ob = Inr b) \<and> wk_prompt ob = None \<and> wk_settle ob = None \<and> wk_quiescent ob \<and>
    p = provider_of (wk_provider ob)"
  using assms
  by (auto simp: worker_try_def worker_invoke_def act_bind_eq_Inr or_reconcile_Inr close_unquiescent_Inr fail_if_Inr
      act_of_def split: if_split_asm)

lemma provider_exited: "pv_status (provider_of r) = JInt 0 \<longleftrightarrow> (\<exists>p. r = Inr p \<and> pv_status p = JInt 0)"
  by (cases r) (auto simp: provider_of_def failed_provider_def)

lemma worker_attempt_judged:
  assumes "executeWorkerAttempt env n route s = (Inr w, t)"
  defines "ob \<equiv> ce_worker env n"
  shows "(\<exists>b. wk_boundary ob = Inr b) \<and> wk_prompt ob = None \<and> wk_settle ob = None \<and> wk_quiescent ob"
    and "wo_accepted w \<longleftrightarrow> patch_sound ob \<and>
      (\<exists>p. wk_provider ob = Inr p \<and> pv_status p = JInt 0 \<and> answers_unit (ce_unit env) (pv_stdout p)) \<and>
      own ''semanticRejectionCode'' (Some (ce_config env)) = Some JNull \<and>
      (wk_semantic ob = None \<or> (\<exists>d. wk_semantic ob = Some (Inr d) \<and> own ''accepted'' d = Some (JBool True)))"
    and "wo_accepted w \<longleftrightarrow> wo_rejectionCode w = None"
    and "wo_patch w = map_option er_record (wk_evidence ob)"
proof -
  obtain p s1 s2 handoff w' where p: "worker_try env n ob s1 = (Inr p, s2)"
    and h: "worker_handoff env ob p = Inr handoff"
    and w': "judge_worker (ce_config env) (ce_unit env) ob p handoff = Inr w'"
    and rec: "\<exists>s3. record_worker env n ob p w' s3 = (Inr w, t)"
    using assms(1) unfolding executeWorkerAttempt_def Let_def ob_def by (auto simp: act_bind_eq_Inr act_of_def) blast
  have w: "w = w'"
    using rec by (auto simp: record_worker_def act_bind_eq_Inr act_of_def)
  note judged = judge_worker_sound [OF w', folded w]
  note tried = worker_try_Inr [OF p]
  obtain decision where d: "semantic_decision (ce_config env) ob = Inr decision" "wo_semanticAccepted w = fst decision"
    using w' unfolding w judge_worker_def Let_def by (cases "semantic_decision (ce_config env) ob") (auto split: if_splits)
  have "transport_valid (ce_unit env) handoff \<longleftrightarrow> answers_unit (ce_unit env) (pv_stdout p)"
    by (rule handoff_answers [OF h])
  then have "pv_status p = JInt 0 \<and> transport_valid (ce_unit env) handoff \<longleftrightarrow>
      (\<exists>q. wk_provider ob = Inr q \<and> pv_status q = JInt 0 \<and> answers_unit (ce_unit env) (pv_stdout q))"
    using tried by (cases "wk_provider ob") (auto simp: provider_of_def failed_provider_def)
  moreover have "patch_valid ob \<Longrightarrow> fst decision \<longleftrightarrow> own ''semanticRejectionCode'' (Some (ce_config env)) = Some JNull \<and>
      (wk_semantic ob = None \<or> (\<exists>d. wk_semantic ob = Some (Inr d) \<and> own ''accepted'' d = Some (JBool True)))"
    using decision_accepts [of "ce_config env" ob "fst decision" "snd decision"] d by simp
  ultimately show "wo_accepted w \<longleftrightarrow> patch_sound ob \<and>
      (\<exists>p. wk_provider ob = Inr p \<and> pv_status p = JInt 0 \<and> answers_unit (ce_unit env) (pv_stdout p)) \<and>
      own ''semanticRejectionCode'' (Some (ce_config env)) = Some JNull \<and>
      (wk_semantic ob = None \<or> (\<exists>d. wk_semantic ob = Some (Inr d) \<and> own ''accepted'' d = Some (JBool True)))"
    unfolding judged(1) patch_valid_sound [symmetric] d(2) by blast
  show "(\<exists>b. wk_boundary ob = Inr b) \<and> wk_prompt ob = None \<and> wk_settle ob = None \<and> wk_quiescent ob"
    using tried by simp
  show "wo_accepted w \<longleftrightarrow> wo_rejectionCode w = None" "wo_patch w = map_option er_record (wk_evidence ob)"
    using judged by simp_all
qed

text \<open>The proofs of a SOL transport: of the process of the provider, and of what is left of it.\<close>

definition provider_proved :: "provider_result \<Rightarrow> bool" where
  "provider_proved p \<longleftrightarrow>
     pv_status p = JInt 0 \<and> pv_error p = None \<and> \<not> pv_timedOut p \<and> pv_truncated p = Some False \<and> pv_completed p \<and>
     pv_identityBefore p = Some True \<and> pv_identityAfter p = Some True"

definition sol_proved :: "sol_obs \<Rightarrow> bool" where
  "sol_proved ob \<longleftrightarrow>
     so_store ob = None \<and> so_settle ob = None \<and> so_quiescent ob \<and> so_absence ob \<and> so_cleanup ob \<and>
     so_proofs ob = Inr (True, True, False, True) \<and> so_canonical ob = Inr (False, True) \<and>
     so_proofFile ob \<noteq> None \<and> so_semanticFile ob \<noteq> None \<and>
     (\<exists>p. so_provider ob = Inr p \<and> provider_proved p)"

lemma provider_of_proved: "provider_proved (provider_of r) \<longleftrightarrow> (\<exists>p. r = Inr p \<and> provider_proved p)"
  by (cases r) (auto simp: provider_of_def failed_provider_def provider_proved_def)

lemma sol_try_Inr:
  assumes "sol_try env n ob s = (Inr r, t)"
  shows "so_store ob = None \<and> so_settle ob = None \<and> so_quiescent ob \<and> sol_proofs ob = Inr r"
  using assms
  by (auto simp: sol_try_def act_bind_eq_Inr or_reconcile_Inr close_unquiescent_Inr fail_if_Inr act_of_def split: if_split_asm)

lemma sol_proofs_Inr:
  assumes "sol_proofs ob = Inr (None, p)"
  shows "so_absence ob \<and> so_cleanup ob \<and> so_proofs ob = Inr (True, True, False, True) \<and> so_canonical ob = Inr (False, True) \<and>
    so_proofFile ob \<noteq> None \<and> (\<exists>p. so_provider ob = Inr p \<and> provider_proved p)"
proof -
  obtain proofs where proofs: "so_proofs ob = Inr proofs" "so_proofFile ob \<noteq> None"
    "transport_refusal ob (provider_of (so_provider ob)) proofs = None"
    using assms by (auto simp: sol_proofs_def Let_def)
  have "provider_proved (provider_of (so_provider ob))"
    using transport_accepted [OF proofs(3)] by (simp add: provider_proved_def)
  then show ?thesis
    using transport_accepted [OF proofs(3)] proofs(1,2) provider_of_proved by simp
qed

lemma sol_response_refused: "sol_response env n ct ask (Some code, p) s = (Inr (None, None, Some code), s)"
  by (simp add: sol_response_def)

lemma sol_attempt_sound:
  assumes "executeSolAttempt env n route ct p refs prior finding s = (Inr r, t)" and "sr_accepted r"
  shows "sol_proved (ce_sol env n) \<and> isCodexSolModel (fld ''targetModel'' route) \<and> usesExternalProvider (ce_config env) ''SOL''"
proof -
  let ?ob = "ce_sol env n"
  obtain s1 s2 ask q resp s3 s4 s5 where codex: "codex_only (ce_config env) route = Inr ()"
    and q: "sol_try env n ?ob s1 = (Inr q, s2)"
    and resp: "sol_response env n ct ask q s3 = (Inr resp, s4)"
    and rec: "record_sol env n ct refs ask resp s4 = (Inr r, s5)"
    using assms(1) unfolding executeSolAttempt_def Let_def by (auto 0 3 simp: act_bind_eq_Inr act_of_def intro: that)
  obtain response conversion code where parts: "resp = (response, conversion, code)" by (cases resp)
  have v: "fst (sol_verdict ?ob response code)"
    using rec assms(2) by (auto simp: record_sol_def parts Let_def act_bind_eq_Inr act_of_def)
  then have none: "code = None" and sem: "so_semanticFile ?ob \<noteq> None"
    by (auto simp: sol_verdict_def split: if_splits option.splits)
  obtain refusal p' where pq: "q = (refusal, p')" by (cases q)
  have "refusal = None"
    using resp none by (cases refusal) (auto simp: pq parts sol_response_refused)
  then show ?thesis
    using sol_try_Inr [OF q] sol_proofs_Inr [of ?ob p'] sem codex by (simp add: sol_proved_def pq codex_only_def)
qed

section \<open>The order of the decisions\<close>

lemma repair_needs_finding:
  assumes "list_all (\<lambda>f. \<not> is_open f) (ct_findings c)"
  shows "prepare_repair env n c = (Inl (ControllerError ''SOL_ASK_INVALID''), c)"
proof -
  have "List.find (open_with_id i) (ct_findings c) = None" for i
    using assms by (auto simp: find_None_iff open_with_id_def list_all_iff)
  moreover have "List.find unrepaired (ct_findings c) = None"
    using assms by (auto simp: find_None_iff unrepaired_def list_all_iff)
  ultimately show ?thesis
    by (simp add: prepare_repair_def with_vars_def bound_to_active_def bind_next_def act_bind_def act_of_def)
qed

lemma repair_step_needs_finding:
  assumes "list_all (\<lambda>f. \<not> is_open f) (ct_findings c)" and "is_lit (fld ''targetRole'' route) ''REPAIR''"
  shows "worker_step env n route c = (Inl (ControllerError ''SOL_ASK_INVALID''), c)"
  using repair_needs_finding [OF assms(1), of env n] assms(2) by (simp add: worker_step_def act_bind_def)

text \<open>Neither the recheck nor anything before it looks at the latest rejection.\<close>

lemma keeps_rejection:
  assumes "\<And>c. ct_rejection (snd (m c)) = ct_rejection c \<and> ct_patch (snd (m c)) = ct_patch c"
  shows "m c = (r, d) \<Longrightarrow> ct_rejection d = ct_rejection c \<and> ct_patch d = ct_patch c"
  using assms [of c] by simp

definition same_patch :: "ctl \<Rightarrow> ctl \<Rightarrow> bool" where
  "same_patch c d \<longleftrightarrow> ct_patch d = ct_patch c \<and> ct_rejection d = ct_rejection c"

interpretation same_patch: store_relation same_patch
  by unfold_locales (auto simp: same_patch_def)

lemma same_patch_on_store: "same_patch.keeps (on_store m)"
  by (auto simp: same_patch.keeps_def same_patch_def on_store_eq split: prod.splits)

lemma same_patch_set: "(\<And>c. same_patch c (f c)) \<Longrightarrow> same_patch.keeps (set_vars f)"
  by (simp add: same_patch.keeps_def set_vars_def)

lemma same_patch_event: "same_patch.keeps (event env n kind parts)"
  unfolding event_def by (rule same_patch_on_store)

lemma same_patch_reported: "same_patch.keeps (persist_reported env n items)"
  by (induction items) (simp_all del: act_of_simps add: same_patch.keeps_bind same_patch.keeps_of same_patch_on_store)

lemma recheck_step_patch: "same_patch.keeps (recheck_step env n finding response)"
  unfolding recheck_step_def Let_def update_finding_def then_signal_def
  by (intro same_patch.keeps_bind same_patch_set same_patch_event same_patch_reported same_patch.keeps_of)
     (simp_all add: same_patch_def)

lemma recheck_accepts:
  assumes "is_lit (fld ''verdict'' response) ''RESOLVED''"
  shows "triple (\<lambda>_. True) (recheck_step env n finding response) (\<lambda>_. ct_accepted) (\<lambda>_. True)"
proof -
  have ev: "triple ct_accepted (event env n kind parts) (\<lambda>_. ct_accepted) (\<lambda>_. True)" for kind parts
    unfolding event_def by (rule tripleI) (auto simp: on_store_eq split: prod.splits)
  show ?thesis
    unfolding recheck_step_def Let_def if_P [OF assms]
    by (intro triple_bind [OF triple_true] triple_bind [OF triple_set [where Q = "\<lambda>_. ct_accepted"]] triple_bind [OF ev] triple_then triple_set)
       (simp_all add: assms)
qed

lemma recheck_overrides:
  assumes "recheck_step env n finding response c = (Inr signal, d)" and "is_lit (fld ''verdict'' response) ''RESOLVED''"
  shows "ct_accepted d \<and> ct_patch d = ct_patch c \<and> ct_rejection d = ct_rejection c"
  using triple_Inr [OF recheck_accepts [OF assms(2)] TrueI assms(1)] same_patch.keepsD [OF recheck_step_patch assms(1)]
  by (simp add: same_patch_def)

lemma rejected_patch_kept:
  assumes "\<not> wo_accepted w" and "wo_patch w = Some p"
  shows "ct_patch (learn_worker env ob w c) = Some p \<and> \<not> ct_accepted (learn_worker env ob w c)"
  using assms by (simp add: learn_worker_def Let_def)

section \<open>The repair of a finding\<close>

text \<open>The repair is bound to one criterion of an authoritative contract, and to the exchange that found it.\<close>

definition binding_source :: "json \<Rightarrow> json \<Rightarrow> json \<Rightarrow> json \<Rightarrow> json \<Rightarrow> bool" where
  "binding_source contract finding ask repair spec \<longleftrightarrow>
     spec \<in> set (sideEffectSpecs contract) \<and> fld ''sideEffectId'' spec = Some (finding_criterion finding ask) \<and>
     fld ''rejectedAcceptanceRefs'' repair = Some (JArr [finding_criterion finding ask]) \<and>
     (\<exists>m. fld ''mustChange'' repair = Some (JArr [m]) \<and> fld ''target'' m = map_option deep_clone_json (fld ''scope'' spec))"

lemma binding_ticket_own:
  "fld ''findingId'' (binding_ticket repair finding ask response) = Some (or_null (fld ''findingId'' finding))"
  "fld ''repairId'' (binding_ticket repair finding ask response) = Some (or_null (fld ''repairId'' repair))"
  "fld ''sourceAskId'' (binding_ticket repair finding ask response) = Some (or_null (fld ''askId'' ask))"
  "fld ''sourceResponseId'' (binding_ticket repair finding ask response) = Some (or_null (fld ''responseId'' response))"
  by (simp_all add: binding_ticket_def)

lemma binding_input_own:
  "own ''semanticContract'' (Some (binding_input contract finding response criterion spec i)) = Some contract"
  "own ''rejectedAcceptanceRefs'' (Some (binding_input contract finding response criterion spec i)) = Some (JArr [criterion])"
  "\<exists>x. own ''mustChange'' (Some (binding_input contract finding response criterion spec i))
     = Some (JArr [JObj (optional_field ''target'' (fld ''scope'' spec) @ [(''change'', x)])])"
  by (simp_all add: binding_input_def Let_def map_of_parts del: map_of_append split: option.split)

lemma binding_bounded:
  assumes "createFinalReviewRepairBinding sha now contract finding ask response = Inr (repair, ticket)"
  shows "isAuthoritative sha (Some contract)" and "\<exists>spec. binding_source contract finding ask repair spec"
    and "ticket = binding_ticket repair finding ask response"
proof -
  let ?c = "finding_criterion finding ask"
  obtain spec where spec: "List.find (\<lambda>s. fld ''sideEffectId'' s = Some ?c) (sideEffectSpecs contract) = Some spec"
    and built: "buildRepairContract sha JNull (JStr now)
      (Some (binding_input contract finding response ?c spec (binding_repair_id sha finding ask response))) = Inr repair"
    and ticket: "ticket = binding_ticket repair finding ask response"
    using assms by (auto simp: createFinalReviewRepairBinding_def Let_def split: option.splits)
  let ?input = "Some (binding_input contract finding response ?c spec (binding_repair_id sha finding ask response))"
  obtain sem doc where doc: "repair_document sha JNull (JStr now) ?input = Inr (sem, doc)" "repair = deep_clone_json doc"
    using built by (auto simp: buildRepairContract_def)
  from doc(1) obtain refs where sem: "own ''semanticContract'' ?input = Some sem" "isAuthoritative sha (Some sem)"
    and refs: "own ''rejectedAcceptanceRefs'' ?input = Some (JArr refs)"
    and d: "doc = repair_draft JNull (JStr now) sem (items_of ''negativeSideEffects'' sem) refs ?input"
    by (elim repair_document_cases)
  have c: "sem = contract" "refs = [?c]"
    using sem(1) refs by (simp_all add: binding_input_own(1,2))
  then show auth: "isAuthoritative sha (Some contract)"
    using sem(2) by simp
  show "ticket = binding_ticket repair finding ask response"
    by (rule ticket)
  have s: "spec \<in> set (sideEffectSpecs contract)" "fld ''sideEffectId'' spec = Some ?c"
    using find_Some_iff' [OF spec] by blast+
  then have "isValidSideEffectId (Some ?c)"
    using authoritative_source(1) [OF auth] by (auto simp: sideEffectSpecs_def)
  then obtain x where x: "?c = JStr x"
    by (auto simp: isValidSideEffectId_def split: option.splits json.splits)
  have "fld ''rejectedAcceptanceRefs'' repair = Some (JArr [?c])"
    unfolding doc(2) by (subst deep_clone_own) (simp_all add: d repair_draft_own c x)
  moreover obtain m y where y: "own ''mustChange'' ?input = Some (JArr [m])"
    and m: "m = JObj (optional_field ''target'' (fld ''scope'' spec) @ [(''change'', y)])"
    using binding_input_own(3) by blast
  have "fld ''mustChange'' repair = Some (JArr [deep_clone_json m])"
    unfolding doc(2) by (subst deep_clone_own) (simp_all add: d repair_draft_own y or_null_def)
  moreover have "fld ''target'' (deep_clone_json m) = map_option deep_clone_json (fld ''scope'' spec)"
    unfolding m by (subst deep_clone_own) (simp_all add: map_of_parts del: map_of_append split: option.split)
  ultimately show "\<exists>spec. binding_source contract finding ask repair spec"
    using s unfolding binding_source_def by blast
qed

section \<open>The result of a run\<close>

lemma run_core:
  assumes "runController env0 worktree fin inp = Inr (r, c)"
  obtains q b d where "mk_limits q = (b, MAX_CONTROLLER_STEPS)" and "core q d" and "d = c\<lparr>ct_disposition := ''REJECTED''\<rparr>"
    and "unitCalls b = budgets inp ''unitCalls''" and "runCalls b = budgets inp ''runCalls''" and "rr_routes r = ct_routes c"
proof -
  obtain contract config b life where j: "judged (run_env env0 inp contract config) fin (b, MAX_CONTROLLER_STEPS) c"
    and r: "r = result_of c life" and b: "unitCalls b = budgets inp ''unitCalls''" "runCalls b = budgets inp ''runCalls''"
    by (rule run_judged [OF assms])
  obtain q where "mk_limits q = (b, MAX_CONTROLLER_STEPS)" "core q (c\<lparr>ct_disposition := ''REJECTED''\<rparr>)"
    using judged_base [OF j] by (auto simp: base_def kept_def)
  then show thesis
    using that b r by (simp add: result_of_def)
qed

lemma limits_judged:
  assumes "runController env0 worktree fin inp = Inr (r, c)"
  shows "length (rr_routes r) \<le> MAX_CONTROLLER_STEPS \<and> started (ct_store c) \<le> length (rr_routes r) \<and>
    int (started (ct_store c)) \<le> budgets inp ''unitCalls'' \<and> int (started (ct_store c)) \<le> budgets inp ''runCalls''"
proof -
  obtain q b d where q: "mk_limits q = (b, MAX_CONTROLLER_STEPS)" "core q d" "d = c\<lparr>ct_disposition := ''REJECTED''\<rparr>"
    and b: "unitCalls b = budgets inp ''unitCalls''" "runCalls b = budgets inp ''runCalls''" and r: "rr_routes r = ct_routes c"
    by (rule run_core [OF assms])
  show ?thesis
    using q(1,2) unfolding q(3) core_def budget_ok_def r b [symmetric] by auto
qed

lemma routes_judged:
  assumes "runController env0 worktree fin inp = Inr (r, c)"
  shows "follows ''ROUTING_READY'' (rr_routes r) \<and>
    rr_disposition r \<in> {''REJECTED'', ''REVIEW_REQUIRED'', ''SEMANTICALLY_ACCEPTED'', ''REVIEW_APPROVED''} \<and>
    (rr_disposition r = ''REJECTED'' \<or> rr_disposition r = ''REVIEW_REQUIRED'' \<or>
       leads_to ''ROUTING_READY'' (rr_routes r) = ''UNIT_COMPLETE'')"
proof -
  obtain contract config b life where j: "judged (run_env env0 inp contract config) fin (b, MAX_CONTROLLER_STEPS) c"
    and r: "r = result_of c life"
    by (rule run_judged [OF assms])
  have "follows ''ROUTING_READY'' (ct_routes c)"
    using judged_base [OF j] by (auto simp: base_def kept_def core_def)
  moreover have "leads_to ''ROUTING_READY'' (ct_routes c) = ''UNIT_COMPLETE''" if "approved c"
    using j that by (auto simp: judged_def finished_def core_def)
  ultimately show ?thesis
    using j by (auto simp: r result_of_def judged_def approved_def)
qed

lemma findings_judged:
  assumes "runController env0 worktree fin inp = Inr (r, c)"
  shows "list_all (\<lambda>f. is_open f \<or> recheck_vouched (st_files (ct_store c)) f) (ct_findings c)"
proof -
  obtain q b d where "core q d" "d = c\<lparr>ct_disposition := ''REJECTED''\<rparr>"
    by (rule run_core [OF assms])
  then show ?thesis
    by (simp add: core_def beliefs_vouched_def list_all_iff)
qed

lemma rejection_judged:
  assumes "runController env0 worktree fin inp = Inr (r, c)"
  shows "rr_disposition r = ''REJECTED'' \<longleftrightarrow> list_ex (\<lambda>code. rr_rejectionCode r = Some code) CANONICAL_REJECTION_CODES"
proof -
  obtain contract config b life where j: "judged (run_env env0 inp contract config) fin (b, MAX_CONTROLLER_STEPS) c"
    and r: "r = result_of c life"
    by (rule run_judged [OF assms])
  then show ?thesis
    by (auto simp: judged_def result_of_def list_ex_iff)
qed

lemma outcomes_judged:
  assumes "runController env0 worktree fin inp = Inr (r, c)"
  shows "rr_disposition r = ''REJECTED'' \<or> rr_disposition r = ''REVIEW_REQUIRED'' \<or>
    (ed_swept fin \<and> list_all (\<lambda>f. \<not> is_open f) (ct_findings c) \<and>
     leads_to ''ROUTING_READY'' (rr_routes r) = ''UNIT_COMPLETE'' \<and> reviewable c \<and> recorded (rr_disposition r) c \<and>
     (rr_disposition r = ''SEMANTICALLY_ACCEPTED'' \<and>
        (\<exists>contract. compileProjectContract (ce_sha env0) (ce_now env0 0) (ri_project inp) = Inr contract \<and>
           is_lit (fld ''riskClass'' contract) ''LOW_RISK'')
      \<or> rr_disposition r = ''REVIEW_APPROVED'' \<and> \<not> ce_testSeam env0 \<and> review_vouched (st_files (ct_store c))))"
proof -
  obtain contract config b life where con: "compileProjectContract (ce_sha env0) (ce_now env0 0) (ri_project inp) = Inr contract"
    and j: "judged (run_env env0 inp contract config) fin (b, MAX_CONTROLLER_STEPS) c" and r: "r = result_of c life"
    by (rule run_judged [OF assms])
  let ?env = "run_env env0 inp contract config"
  have d: "rr_disposition r = ct_disposition c" "rr_routes r = ct_routes c"
    by (simp_all add: r result_of_def)
  show ?thesis
  proof (cases "approved c")
    case False
    then show ?thesis
      using j by (auto simp: d judged_def approved_def)
  next
    case True
    then obtain q where q: "finished ?env q c" and g: "guards_ok ?env fin c" and c: "reviewable c" "recorded (ct_disposition c) c"
      using j by (auto simp: judged_def)
    have "list_all (\<lambda>f. \<not> is_open f) (ct_findings c)" "leads_to ''ROUTING_READY'' (ct_routes c) = ''UNIT_COMPLETE''"
      using q by (auto simp: finished_def core_def)
    moreover have "ed_swept fin" and seam: "ct_disposition c = ''REVIEW_APPROVED'' \<longrightarrow> \<not> ce_testSeam env0"
      using g by (auto simp: guards_ok_def swept_ok_def seam_ok_def run_env_def)
    moreover have "ct_disposition c = ''SEMANTICALLY_ACCEPTED'' \<and> is_lit (fld ''riskClass'' contract) ''LOW_RISK'' \<or>
        ct_disposition c = ''REVIEW_APPROVED'' \<and> review_vouched (st_files (ct_store c))"
      using q by (auto simp: finished_def low_risk_def run_env_def)
    ultimately show ?thesis
      using c con unfolding d by blast
  qed
qed

lemma sol_attempt_accepted:
  assumes "executeSolAttempt env n route ct p refs prior finding s = (Inr r, t)" and "sr_accepted r"
  shows "sol_proved (ce_sol env n) \<and> isCodexSolModel (fld ''targetModel'' route) \<and> usesExternalProvider (ce_config env) ''SOL'' \<and>
    (\<exists>response. sr_response r = Some response \<and> vouched (st_files t) ct (sr_ask r) response)"
  using sol_attempt_sound [OF assms] triple_Inr [OF sol_attempt [of "\<lambda>_. True"] TrueI assms(1)] assms(2)
  by (auto simp: sol_vouched_def)

text \<open>A refusal always names a code.\<close>

lemma sol_response_coded:
  assumes "sol_response env n ct ask q s = (Inr (response, conversion, code), t)"
  shows "response \<noteq> None \<or> code \<noteq> None"
  using assms by (cases q) (auto simp: sol_response_def split: option.splits sum.splits prod.splits)

lemma sol_attempt_refused:
  assumes "executeSolAttempt env n route ct p refs prior finding s = (Inr r, t)" and "\<not> sr_accepted r"
  shows "sr_errorCode r \<noteq> None"
proof -
  let ?ob = "ce_sol env n"
  obtain ask q resp s3 s4 s5 where resp: "sol_response env n ct ask q s3 = (Inr resp, s4)"
    and rec: "record_sol env n ct refs ask resp s4 = (Inr r, s5)"
    using assms(1) unfolding executeSolAttempt_def Let_def by (auto 0 3 simp: act_bind_eq_Inr act_of_def intro: that)
  obtain response conversion code where parts: "resp = (response, conversion, code)" by (cases resp)
  have "response \<noteq> None \<or> code \<noteq> None"
    using sol_response_coded resp parts by blast
  moreover have "\<not> fst (sol_verdict ?ob response code)" "sr_errorCode r = snd (sol_verdict ?ob response code)"
    using rec assms(2) by (auto simp: record_sol_def parts Let_def act_bind_eq_Inr act_of_def)
  ultimately show ?thesis
    by (auto simp: sol_verdict_def assessEvidencePersistenceFailure_def split: if_splits option.splits)
qed

text \<open>The outcome of an attempt, on every branch.\<close>

lemma sol_attempt_outcome:
  "case executeSolAttempt env n route callType patchRecord refs prior finding s of
     (Inl e, t) \<Rightarrow> one_start s t
   | (Inr r, t) \<Rightarrow> one_start s t \<and>
       (if sr_accepted r
        then sol_proved (ce_sol env n) \<and> isCodexSolModel (fld ''targetModel'' route) \<and>
          usesExternalProvider (ce_config env) ''SOL'' \<and>
          (\<exists>response. sr_response r = Some response \<and> vouched (st_files t) callType (sr_ask r) response)
        else sr_errorCode r \<noteq> None)"
proof -
  obtain q t where qt: "executeSolAttempt env n route callType patchRecord refs prior finding s = (q, t)" by (metis surj_pair)
  have one: "one_start s t"
    using sol_one_start [of s env n route callType patchRecord refs prior finding] qt by simp
  show ?thesis
  proof (cases q)
    case (Inl e)
    then show ?thesis
      using one qt by simp
  next
    case (Inr r)
    note eq = qt [unfolded Inr]
    show ?thesis
      using sol_attempt_accepted [OF eq] sol_attempt_refused [OF eq] one unfolding qt Inr by simp
  qed
qed

end
