(* ===== verification/Ctl_Samples.thy ===== *)
theory Ctl_Samples
  imports Ctl_Verdicts Lcim_Samples Ledger_Samples
begin

text \<open>
  A concrete run: a high-risk unit that a worker implements and a SOL review approves.  The
  witnesses need only that it starts; the other samples are a finding with the exchange that
  reported it, and the variables of a controller without findings.
\<close>

definition run_ident :: "string \<Rightarrow> string \<Rightarrow> string" where
  "run_ident kind digit = ''lcim_'' @ kind @ ''_'' @ zeros 31 @ digit"

definition run_project :: json where
  "run_project = JObj
    [(''projectKey'', JStr ''demo''), (''allowedWritePaths'', JArr [JStr ''src'']),
     (''endpoints'', JObj [(''deepseek-v4-flash'', JObj []), (''gpt-5.6-sol'', JObj [])]),
     (''worker'', JObj [(''command'', JNull)]), (''sol'', JObj [(''command'', JNull)]),
     (''permissions'', JObj [(''externalProvider'', JBool True)]),
     (''budgets'', JObj [(''unitCalls'', JInt 3), (''runCalls'', JInt 3)]),
     (''semanticRejectionCode'', JNull), (''semanticContract'', sample_input)]"

definition good_result :: "string \<Rightarrow> provider_result" where
  "good_result out = \<lparr>pv_status = JInt 0, pv_error = None, pv_timedOut = False, pv_truncated = Some False, pv_completed = True,
     pv_identityBefore = Some True, pv_identityAfter = Some True, pv_stdout = out, pv_stderr = []\<rparr>"

definition run_patch :: patch_record where
  "run_patch = \<lparr>pr_evidenceId = ''ev1'', pr_patchId = ''patch1'', pr_patchHash = zeros 64, pr_changedPaths = [''src/a.js''], pr_clean = True\<rparr>"

definition run_worker :: "nat \<Rightarrow> worker_obs" where
  "run_worker n = \<lparr>wk_invocation = run_ident ''inv'' (nat_str n), wk_boundary = Inr (JStr ''sandbox'', JStr ''none'', JStr ''/w'', ''b.json''),
     wk_prompt = None,
     wk_provider = Inr (good_result (json_stringify (JObj [(''workUnitId'', JStr (run_ident ''wu'' ''0'')), (''workerStatus'', JStr ''WORK_COMPLETE''),
       (''summary'', JStr ''done'')]))),
     wk_settle = None, wk_lifetime = ''life.json'', wk_quiescent = True, wk_safety = None, wk_evidenceError = None,
     wk_evidence = Some \<lparr>er_record = run_patch, er_evidenceId = ''ev1'', er_patchText = ''+x''\<rparr>,
     wk_validation = Inr ([], None), wk_semantic = None\<rparr>"

definition run_sol :: "nat \<Rightarrow> sol_obs" where
  "run_sol n = \<lparr>so_invocation = run_ident ''inv'' (nat_str n), so_askId = run_ident ''sol_ask'' ''0'',
     so_responseId = run_ident ''sol_resp'' ''0'', so_store = None, so_nonAuthoritative = False,
     so_provider = Inr (good_result (json_stringify (JObj [(''askId'', JStr (run_ident ''sol_ask'' ''0'')),
       (''callType'', JStr ''SOL_FINAL_REVIEW''), (''verdict'', JStr ''PASS''), (''decisionSummary'', JStr ''holds''),
       (''evidence'', JArr [])]))),
     so_settle = None, so_lifetime = ''life2.json'', so_quiescent = True, so_absence = True,
     so_proofs = Inr (True, True, False, True), so_cleanup = True, so_proofFile = Some ''proof.json'',
     so_canonical = Inr (False, True), so_semanticFile = Some ''sem.json'', so_acquired = True, so_failPaths = ([], [])\<rparr>"

definition run_host :: ctl_env where
  "run_host = \<lparr>ce_sha = sample_sha, ce_oauth = sample_host, ce_environment = JObj [], ce_config = JNull, ce_permissions = JNull,
     ce_contract = JNull, ce_fixture = False, ce_testSeam = False, ce_unit = run_ident ''wu'' ''0'', ce_base = JNull,
     ce_root = ''/r'', ce_preserve = (\<lambda>_ _ _. Inr ''raw.txt''), ce_now = (\<lambda>_. sample_time),
     ce_route = (\<lambda>n. JStr (run_ident ''route'' (nat_str n))), ce_worker = run_worker, ce_sol = run_sol\<rparr>"

definition run_fin :: ctl_end where
  "run_fin = \<lparr>ed_now = sample_time, ed_realAuth = (True, JNull), ed_removed = True, ed_swept = True, ed_removedLast = True,
     ed_sweptLast = True, ed_clean = True, ed_worktree = True\<rparr>"

definition run_start :: run_input where
  "run_start = \<lparr>ri_project = run_project, ri_worker = None, ri_sol = None, ri_base = Some (JStr (zeros 40)), ri_staleSwept = True,
     ri_runId = run_ident ''run'' ''0'', ri_version = ''2.1.0'', ri_commit = JNull, ri_existing = None\<rparr>"

section \<open>Evaluation\<close>

text \<open>
  The connectives stop at the first decided argument, and a schema is only looked at when it is the
  one that is asked for.
\<close>

lemma lazy_connectives [code_unfold]: "(P \<and> Q) = (if P then Q else False)" "(P \<or> Q) = (if P then True else Q)" "(P \<longrightarrow> Q) = (if P then Q else True)"
  by auto
lemma loadSchema_code [code]:
  "loadSchema name = (if name = ''lcim.common.disposition'' then Inr DISPOSITION_SCHEMA
     else if name = ''lcim.common.work-unit'' then Inr WORK_UNIT_SCHEMA
     else if name = ''lcim.common.rejection'' then Inr REJECTION_SCHEMA
     else if name = ''lcim.common.review-finding'' then Inr REVIEW_FINDING_SCHEMA
     else if name = ''lcim.common.run'' then Inr COMMON_RUN_SCHEMA
     else if name = ''lcim.common.invocation'' then Inr COMMON_INVOCATION_SCHEMA
     else if name = ''lcim.common.envelope'' then Inr ENVELOPE_SCHEMA
     else if name = ''lcim.common.enums'' then Inr ENUMS_SCHEMA
     else if name = ''lcim.common.error'' then Inr COMMON_ERROR_SCHEMA
     else Inl (ConfigError ''unknown schema name''))"
  by (simp add: loadSchema_def SCHEMA_MANIFEST_def DISPOSITION_SCHEMA_def WORK_UNIT_SCHEMA_def REJECTION_SCHEMA_def
     REVIEW_FINDING_SCHEMA_def COMMON_RUN_SCHEMA_def COMMON_INVOCATION_SCHEMA_def ENVELOPE_SCHEMA_def ENUMS_SCHEMA_def COMMON_ERROR_SCHEMA_def)
lemma schemaNames_code [code]: "schemaNames = [''lcim.common.envelope'', ''lcim.common.enums'', ''lcim.common.run'', ''lcim.common.invocation'',
   ''lcim.common.work-unit'', ''lcim.common.disposition'', ''lcim.common.review-finding'', ''lcim.common.rejection'', ''lcim.common.error'']"
  by (simp add: schemaNames_def SCHEMA_MANIFEST_def)

section \<open>The run starts\<close>

text \<open>A call that evaluates to a value.\<close>

lemma returned: "(case r of Inl e \<Rightarrow> False | Inr x \<Rightarrow> P x) \<Longrightarrow> \<exists>x. r = Inr x \<and> P x"
  by (cases r) auto

lemma run_contract: "\<exists>c. compileProjectContract sample_sha sample_time run_project = Inr c"
proof -
  have "(case compileProjectContract sample_sha sample_time run_project of Inl _ \<Rightarrow> False | Inr c \<Rightarrow> True)"
    by code_simp
  then show ?thesis
    by (auto split: sum.splits)
qed

lemma run_config: "\<exists>c. effectiveRoutingConfig run_project None None = Inr c"
proof -
  have "(case effectiveRoutingConfig run_project None None of Inl _ \<Rightarrow> False | Inr c \<Rightarrow> True)"
    by code_simp
  then show ?thesis
    by (auto split: sum.splits)
qed

lemma run_opened: "\<exists>ss d s. create sample_sha (run_ident ''run'' ''0'') ''2.1.0'' JNull sample_time (Some (JStr (zeros 40))) (Some (JStr (zeros 64))) None = Inr (ss, d) \<and>
   open_unit sample_time (createControllerWorkUnit sample_time (ss_runId ss) (run_ident ''wu'' ''0'') (JStr (zeros 40)) run_project ''CREATED'')
      \<lparr>st_session = ss, st_dir = d, st_files = no_files\<rparr> = Inr s"
proof -
  have "(case create sample_sha (run_ident ''run'' ''0'') ''2.1.0'' JNull sample_time (Some (JStr (zeros 40))) (Some (JStr (zeros 64))) None of
      Inl _ \<Rightarrow> False
    | Inr (ss, d) \<Rightarrow> (case open_unit sample_time (createControllerWorkUnit sample_time (ss_runId ss) (run_ident ''wu'' ''0'') (JStr (zeros 40)) run_project ''CREATED'')
      \<lparr>st_session = ss, st_dir = d, st_files = no_files\<rparr> of Inl _ \<Rightarrow> False | Inr s \<Rightarrow> True))"
    by code_simp
  from returned [OF this] show ?thesis
    by (auto dest: returned)
qed

lemma run_budget: "\<exists>b. createBudgetTracker (own ''unitCalls'' (own ''budgets'' (Some run_project))) (own ''runCalls'' (own ''budgets'' (Some run_project))) = Inr b"
  by (simp add: run_project_def createBudgetTracker_def safe_natural_def)

lemma run_exists: "\<exists>r c. runController run_host None run_fin run_start = Inr (r, c)"
proof -
  obtain contract config ss d s b where
    "compileProjectContract sample_sha sample_time run_project = Inr contract"
    "effectiveRoutingConfig run_project None None = Inr config"
    "create sample_sha (run_ident ''run'' ''0'') ''2.1.0'' JNull sample_time (Some (JStr (zeros 40))) (Some (JStr (zeros 64))) None = Inr (ss, d)"
    "open_unit sample_time (createControllerWorkUnit sample_time (ss_runId ss) (run_ident ''wu'' ''0'') (JStr (zeros 40)) run_project ''CREATED'')
      \<lparr>st_session = ss, st_dir = d, st_files = no_files\<rparr> = Inr s"
    "createBudgetTracker (own ''unitCalls'' (own ''budgets'' (Some run_project))) (own ''runCalls'' (own ''budgets'' (Some run_project))) = Inr b"
    using run_contract run_config run_opened run_budget by blast
  then have "\<exists>x. runController run_host None run_fin run_start = Inr x"
    by (simp add: runController_def Let_def run_host_def run_start_def digestConfig_def sample_sha_def or_null_def)
  then show ?thesis
    by auto
qed

section \<open>A finding\<close>

definition sample_finding :: json where
  "sample_finding = JObj [(''findingId'', JStr (run_ident ''finding'' ''0'')), (''status'', JStr ''OPEN''), (''repairCycles'', JInt 1), (''rechecks'', JInt 0),
     (''invariantRef'', JStr ''invariant1''), (''summary'', JStr ''a call''), (''priorSol'', JObj [])]"

definition sample_review_ask :: json where
  "sample_review_ask = JObj [(''askId'', JStr (run_ident ''sol_ask'' ''0'')), (''finalReview'', JObj [(''invariantChecklist'', JArr [JObj
     [(''invariantId'', JStr ''invariant1''), (''lockedRequirementRef'', JStr sample_effect_id)]])])]"

definition sample_review_answer :: json where
  "sample_review_answer = JObj [(''responseId'', JStr (run_ident ''sol_resp'' ''0'')), (''compiledAt'', JStr sample_time)]"

definition sample_binding :: "(json \<times> json) result" where
  "sample_binding = createFinalReviewRepairBinding sample_sha sample_time sample_contract sample_finding sample_review_ask sample_review_answer"

lemma sample_binding_made: "\<exists>repair ticket. sample_binding = Inr (repair, ticket)"
proof -
  have "(case sample_binding of Inl _ \<Rightarrow> False | Inr (r, t) \<Rightarrow> True)"
    by code_simp
  from returned [OF this] show ?thesis
    by auto
qed

definition sample_ctl :: ctl where
  "sample_ctl = initial_ctl \<lparr>unitCalls = 1, runCalls = 1, unitCallsConsumed = 0, runCallsConsumed = 0\<rparr>
     \<lparr>st_session = sample_session, st_dir = sample_dir, st_files = no_files\<rparr>"

lemma sample_recheck:
  "\<exists>signal d. recheck_step run_host 0 sample_finding (JObj [(''verdict'', JStr ''RESOLVED'')]) sample_ctl = (Inr signal, d)"
  by (simp add: recheck_step_def Let_def act_bind_def update_finding_def set_vars_def event_def on_store_eq act_unit_def
      appendControllerEvent_def file_op_def then_signal_def obj_def need_def)

end
