(* ===== verification/Audit_Time.thy ===== *)
theory Audit_Time
  imports Complex_Main Lcim_Patterns Lcim_Errors Js_Values
begin

text \<open>
  Exact instants, src/src/audit/time.mjs: timestamps with a zone become whole seconds of UTC and the
  digits of a fraction, and are compared without floating point.  The day count is the number of
  days of the Gregorian calendar, and the comparison is the order of the instants as rational
  numbers.
\<close>

section \<open>The calendar\<close>

definition isLeapYear :: "int \<Rightarrow> bool" where
  "isLeapYear year \<longleftrightarrow> year mod 4 = 0 \<and> (year mod 100 \<noteq> 0 \<or> year mod 400 = 0)"

definition daysInMonth :: "int \<Rightarrow> int \<Rightarrow> int" where
  "daysInMonth year month =
     (if month \<in> set [1, 3, 5, 7, 8, 10, 12] then 31
      else if month \<in> set [4, 6, 9, 11] then 30
      else if month = 2 then (if isLeapYear year then 29 else 28)
      else 0)"

definition daysFromCivil :: "int \<Rightarrow> int \<Rightarrow> int \<Rightarrow> int" where
  "daysFromCivil year month day =
     (let y = year - (if month \<le> 2 then 1 else 0);
          era = y div 400;
          yoe = y - era * 400;
          mp = month + (if month > 2 then -3 else 9);
          doy = (153 * mp + 2) div 5 + day - 1;
          doe = yoe * 365 + yoe div 4 - yoe div 100 + doy
      in era * 146097 + doe - 719468)"

section \<open>Timestamps\<close>

record instant =
  seconds :: int
  fraction :: string

text \<open>\<open>Number\<close> of a text of digits.\<close>

definition digits_int :: "string \<Rightarrow> int" where
  "digits_int s = fold (\<lambda>c n. 10 * n + (int (of_char c) - 48)) s 0"

definition cut_text :: "nat \<Rightarrow> nat \<Rightarrow> string \<Rightarrow> string" where
  "cut_text i j s = take (j - i) (drop i s)"

definition normalizeFraction :: "string \<Rightarrow> string" where
  "normalizeFraction digits = rev (dropWhile (\<lambda>c. c = CHR ''0'') (rev digits))"

text \<open>\<open>ISO.exec\<close>: the text up to the seconds, the digits of the fraction, and the zone.\<close>

definition iso_fraction :: "string \<Rightarrow> string" where
  "iso_fraction s = (case drop 19 s of c # cs \<Rightarrow> if c = CHR ''.'' then takeWhile digit_char cs else [] | [] \<Rightarrow> [])"

definition iso_zone :: "string \<Rightarrow> string" where
  "iso_zone s = skip_fraction (drop 19 s)"

definition zone_valid :: "string \<Rightarrow> bool" where
  "zone_valid z \<longleftrightarrow> z = ''Z'' \<or> digits_int (cut_text 1 3 z) \<le> 23 \<and> digits_int (cut_text 4 6 z) \<le> 59"

definition zone_offset :: "string \<Rightarrow> int" where
  "zone_offset z =
     (if z = ''Z'' then 0
      else (digits_int (cut_text 1 3 z) * 3600 + digits_int (cut_text 4 6 z) * 60) * (if hd z = CHR ''-'' then -1 else 1))"

definition iso_real :: "string \<Rightarrow> bool" where
  "iso_real s =
     (let year = digits_int (cut_text 0 4 s); month = digits_int (cut_text 5 7 s); day = digits_int (cut_text 8 10 s) in
      \<not> (month < 1 \<or> month > 12 \<or> day < 1 \<or> day > daysInMonth year month \<or>
         digits_int (cut_text 11 13 s) > 23 \<or> digits_int (cut_text 14 16 s) > 59 \<or> digits_int (cut_text 17 19 s) > 59 \<or>
         \<not> zone_valid (iso_zone s)))"

fun parseTimestamp :: "jsval \<Rightarrow> instant result" where
  "parseTimestamp (Some (JStr s)) =
     (if timestamp_text s \<and> iso_real s
      then Inr \<lparr>seconds = daysFromCivil (digits_int (cut_text 0 4 s)) (digits_int (cut_text 5 7 s)) (digits_int (cut_text 8 10 s)) * 86400
                 + digits_int (cut_text 11 13 s) * 3600 + digits_int (cut_text 14 16 s) * 60 + digits_int (cut_text 17 19 s)
                 - zone_offset (iso_zone s),
               fraction = normalizeFraction (iso_fraction s)\<rparr>
      else Inl (AuditError))"
| "parseTimestamp _ = Inl (AuditError)"

section \<open>Comparison\<close>

definition pad_end :: "nat \<Rightarrow> string \<Rightarrow> string" where
  "pad_end n s = s @ replicate (n - length s) (CHR ''0'')"

definition compare_text :: "string \<Rightarrow> string \<Rightarrow> int" where
  "compare_text a b = (if a < b then -1 else if a > b then 1 else 0)"

definition compareFraction :: "string \<Rightarrow> string \<Rightarrow> int" where
  "compareFraction a b =
     (let n = max (length a) (length b) in compare_text (pad_end n a) (pad_end n b))"

definition compareTimestampThenId :: "jsval \<Rightarrow> string \<Rightarrow> jsval \<Rightarrow> string \<Rightarrow> int result" where
  "compareTimestampThenId aTime aId bTime bId =
     rbind (parseTimestamp aTime) (\<lambda>a.
     rbind (parseTimestamp bTime) (\<lambda>b.
     Inr (if seconds a \<noteq> seconds b then (if seconds a < seconds b then -1 else 1)
          else if compareFraction (fraction a) (fraction b) \<noteq> 0 then compareFraction (fraction a) (fraction b)
          else compare_text aId bId)))"

section \<open>The number of days\<close>

text \<open>The days of the calendar before a date, counted from the first day of the year 0.\<close>

definition year_length :: "int \<Rightarrow> int" where
  "year_length y = (if isLeapYear y then 366 else 365)"

definition day_number :: "nat \<Rightarrow> int \<Rightarrow> int \<Rightarrow> int" where
  "day_number y m d = (\<Sum>i\<leftarrow>[0..<y]. year_length (int i)) + (\<Sum>j\<leftarrow>[1..m - 1]. daysInMonth (int y) j) + (d - 1)"

definition hit :: "int \<Rightarrow> int \<Rightarrow> int" where
  "hit k z = (if z mod k = 0 then 1 else 0)"

lemma div_step: "0 < k \<Longrightarrow> (z + 1) div k = z div k + hit k (z + 1)"
proof -
  assume k: "0 < k"
  define q r where "q = z div k" and "r = z mod k"
  have z: "z = k * q + r" and r: "0 \<le> r" "r < k"
    using k by (simp_all add: q_def r_def)
  have "(z + 1) div k = q + (r + 1) div k" "(z + 1) mod k = (r + 1) mod k"
    using k by (simp_all add: z add.assoc)
  moreover have "(r + 1) div k = (if r + 1 = k then 1 else 0)" "(r + 1) mod k = (if r + 1 = k then 0 else r + 1)"
    using k r by auto
  ultimately show ?thesis
    using r by (auto simp: q_def [symmetric] hit_def)
qed

lemma div_back: "0 < k \<Longrightarrow> z div k = (z - 1) div k + hit k z"
  using div_step [of k "z - 1"] by simp

lemma div_past: "0 < k \<Longrightarrow> (z + (k - 1)) div k = (z - 1) div k + 1" for z k :: int
proof -
  assume "0 < k"
  moreover have "z + (k - 1) = (z - 1) + k" by simp
  ultimately show ?thesis
    by (metis div_add_self2 less_irrefl)
qed

lemma nested_hits: "(C \<longrightarrow> B) \<Longrightarrow> (B \<longrightarrow> A) \<Longrightarrow> (if A \<and> (\<not> B \<or> C) then 1 else 0) =
    (if A then 1 else 0) - (if B then 1 else 0) + (if C then 1 else (0 :: int))"
  by (cases A; cases B; cases C; simp)

lemma leap_hits: "(if isLeapYear y then 1 else 0) = hit 4 y - hit 100 y + hit 400 y"
  unfolding isLeapYear_def hit_def mod_eq_0_iff_dvd
  by (rule nested_hits; intro impI; erule dvd_trans [rotated]; simp)

lemma year_hits: "year_length y = 365 + (hit 4 y - hit 100 y + hit 400 y)"
  unfolding leap_hits [symmetric] by (simp add: year_length_def)

lemma leap_count:
  "(\<Sum>i\<leftarrow>[0..<y]. year_length (int i)) = 365 * int y + (int y + 3) div 4 - (int y + 99) div 100 + (int y + 399) div 400"
proof (induction y)
  case (Suc y)
  have hits: "hit 4 (int y + 3 + 1) = hit 4 (int y)" "hit 100 (int y + 99 + 1) = hit 100 (int y)" "hit 400 (int y + 399 + 1) = hit 400 (int y)"
    by (simp_all add: hit_def)
  have shift: "int (Suc y) + 3 = int y + 3 + 1" "int (Suc y) + 99 = int y + 99 + 1" "int (Suc y) + 399 = int y + 399 + 1"
    by simp_all
  have "(\<Sum>i\<leftarrow>[0..<Suc y]. year_length (int i)) = (\<Sum>i\<leftarrow>[0..<y]. year_length (int i)) + year_length (int y)"
    by simp
  also have "\<dots> = 365 * int (Suc y) + (((int y + 3) div 4 + hit 4 (int y)) - ((int y + 99) div 100 + hit 100 (int y)) + ((int y + 399) div 400 + hit 400 (int y)))"
    unfolding Suc year_hits [of "int y"] by simp
  finally show ?case
    using div_step [of 4 "int y + 3"] div_step [of 100 "int y + 99"] div_step [of 400 "int y + 399"]
    unfolding hits shift by simp
qed simp

text \<open>The days of the 400-year eras.\<close>

lemma era_days:
  "(y div 400) * 146097 + ((y - y div 400 * 400) * 365 + (y - y div 400 * 400) div 4 - (y - y div 400 * 400) div 100)
     = 365 * y + y div 4 - y div 100 + y div (400 :: int)"
proof -
  define e r where "e = y div 400" and "r = y mod 400"
  have y: "y = 400 * e + r" and r: "0 \<le> r" "r < 400"
    by (simp_all add: e_def r_def)
  have "y = r + (100 * e) * 4" "y = r + (4 * e) * 100"
    by (simp_all add: y)
  then have "y div 4 = 100 * e + r div 4" "y div 100 = 4 * e + r div 100"
    by (metis add.commute div_mult_self1 zero_neq_numeral)+
  then show ?thesis
    unfolding e_def [symmetric] by (simp add: y)
qed

lemma months: "1 \<le> m \<Longrightarrow> m \<le> 12 \<Longrightarrow> m = 1 \<or> m = 2 \<or> m = 3 \<or> m = 4 \<or> m = 5 \<or> m = 6 \<or> m = 7 \<or> m = 8 \<or> m = 9 \<or> m = 10 \<or> m = 11 \<or> m = (12 :: int)"
  by presburger

definition february :: "int \<Rightarrow> int" where
  "february y = (if isLeapYear y then 29 else 28)"

lemma days_before_month:
  assumes "1 \<le> m" "m \<le> 12"
  shows "(\<Sum>j\<leftarrow>[1..m - 1]. daysInMonth y j) =
    (if m \<le> 2 then 31 * (m - 1) else 31 + february y + (153 * (m - 3) + 2) div 5)"
  using months [OF assms]
  by (elim disjE; simp only:; simp add: daysInMonth_def february_def upto.simps)

lemma february_days: "february y = 28 + (y div 4 - (y - 1) div 4) - (y div 100 - (y - 1) div 100) + (y div 400 - (y - 1) div 400)"
proof -
  have "february y = 28 + (if isLeapYear y then 1 else 0)"
    by (simp add: february_def)
  then show ?thesis
    unfolding leap_hits using div_back [of 4 y] div_back [of 100 y] div_back [of 400 y] by simp
qed

lemma epoch_number: "day_number 1970 1 1 = 719528"
  by (simp add: day_number_def leap_count)

lemma civil_late: "2 < m \<Longrightarrow>
    daysFromCivil y m d = 365 * y + y div 4 - y div 100 + y div 400 + ((153 * (m - 3) + 2) div 5 + d - 1) - 719468"
  unfolding daysFromCivil_def Let_def era_days [symmetric] by simp

lemma civil_early: "m \<le> 2 \<Longrightarrow>
    daysFromCivil y m d = 365 * (y - 1) + (y - 1) div 4 - (y - 1) div 100 + (y - 1) div 400 + ((153 * (m + 9) + 2) div 5 + d - 1) - 719468"
  unfolding daysFromCivil_def Let_def era_days [symmetric] by simp

lemma daysFromCivil_eq:
  assumes "1 \<le> m" "m \<le> 12"
  shows "daysFromCivil (int y) m d = day_number y m d - day_number 1970 1 1"
proof -
  have shift: "(int y + 3) div 4 = (int y - 1) div 4 + 1" "(int y + 99) div 100 = (int y - 1) div 100 + 1"
    "(int y + 399) div 400 = (int y - 1) div 400 + 1"
    using div_past [of 4 "int y"] div_past [of 100 "int y"] div_past [of 400 "int y"] by simp_all
  have early: "365 * (z - 1) + a - b + c + (306 + x + d - 1) - 719468 = 365 * z + (a + 1) - (b + 1) + (c + 1) + x + (d - 1) - 719528"
    for z a b c x :: int
    by simp
  have late: "f = 28 + (a - a') - (b - b') + (c - c') \<Longrightarrow> 365 * z + a - b + c + (x + d - 1) - 719468 =
      365 * z + (a' + 1) - (b' + 1) + (c' + 1) + (31 + f + x) + (d - 1) - 719528" for z a b c a' b' c' x f :: int
    by simp
  note eqs = day_number_def [of y] leap_count days_before_month [OF assms] shift epoch_number
  show ?thesis
  proof (cases "m \<le> 2")
    case True
    then have "m = 1 \<or> m = 2" using assms by presburger
    then have days: "(153 * (m + 9) + 2) div 5 = 306 + 31 * (m - 1)" by auto
    show ?thesis
      unfolding eqs civil_early [OF True] if_P [OF True] days by (rule early)
  next
    case False
    then have m: "2 < m" by simp
    show ?thesis
      unfolding eqs civil_late [OF m] if_not_P [OF False] by (rule late [OF february_days])
  qed
qed

section \<open>Fractions\<close>

fun frac_value :: "string \<Rightarrow> rat" where
  "frac_value [] = 0"
| "frac_value (c # cs) = (of_int (int (of_char c) - 48) + frac_value cs) / 10"

definition instant_value :: "instant \<Rightarrow> rat" where
  "instant_value i = of_int (seconds i) + frac_value (fraction i)"

lemma digit_value: "digit_char c \<Longrightarrow> 0 \<le> int (of_char c) - 48 \<and> int (of_char c) - 48 \<le> 9"
  by (simp add: digit_char_def less_eq_char_def)

lemma frac_bounds: "list_all digit_char s \<Longrightarrow> 0 \<le> frac_value s \<and> frac_value s < 1"
proof (induction s)
  case (Cons c cs)
  then have "0 \<le> frac_value cs" "frac_value cs < 1" and d: "0 \<le> int (of_char c) - 48" "int (of_char c) - 48 \<le> 9"
    using digit_value [of c] by auto
  moreover have "(0 :: rat) \<le> of_int (int (of_char c) - 48)" "(of_int (int (of_char c) - 48) :: rat) \<le> of_int 9"
    using d by (simp_all only: of_int_le_iff of_int_0_le_iff)
  ultimately show ?case
    by (simp del: of_int_diff)
qed simp

lemma char_less: "a < b \<longleftrightarrow> int (of_char a) < int (of_char b)" for a b :: char
  by (simp add: less_char_def)

lemma digit_step: "int m + 1 \<le> int n \<Longrightarrow> (of_int (int m - 48) :: rat) + 1 \<le> of_int (int n - 48)"
  by simp

lemma frac_less:
  "length a = length b \<Longrightarrow> list_all digit_char a \<Longrightarrow> list_all digit_char b \<Longrightarrow> a < b \<longleftrightarrow> frac_value a < frac_value b"
proof (induction a b rule: list_induct2)
  case (Cons x a y b)
  have ba: "0 \<le> frac_value a" "frac_value a < 1" "0 \<le> frac_value b" "frac_value b < 1"
    using frac_bounds Cons.prems by auto
  consider "x = y" | "int (of_char x) + 1 \<le> int (of_char y)" "x < y" | "int (of_char y) + 1 \<le> int (of_char x)" "y < x"
    using char_less [of x y] char_less [of y x] by (cases x y rule: linorder_cases) auto
  then show ?case
  proof cases
    case 1
    then show ?thesis using Cons by simp
  next
    case 2
    have "of_int (int (of_char x) - 48) + frac_value a < of_int (int (of_char y) - 48) + frac_value b"
      using digit_step [OF 2(1)] ba by linarith
    then have "frac_value (x # a) < frac_value (y # b)"
      unfolding frac_value.simps by (rule divide_strict_right_mono) simp
    with 2(2) show ?thesis by (simp del: frac_value.simps)
  next
    case 3
    have "of_int (int (of_char y) - 48) + frac_value b < of_int (int (of_char x) - 48) + frac_value a"
      using digit_step [OF 3(1)] ba by linarith
    then have "frac_value (y # b) < frac_value (x # a)"
      unfolding frac_value.simps by (rule divide_strict_right_mono) simp
    with 3(2) show ?thesis by (auto simp del: frac_value.simps)
  qed
qed simp

lemma frac_zeros: "frac_value (replicate n (CHR ''0'')) = 0"
  by (induction n) simp_all

lemma frac_append_zeros: "frac_value (s @ replicate n (CHR ''0'')) = frac_value s"
  by (induction s) (simp_all add: frac_zeros)

lemma compare_fraction_value:
  assumes "list_all digit_char a" "list_all digit_char b"
  shows "compareFraction a b =
    (if frac_value a < frac_value b then -1 else if frac_value b < frac_value a then 1 else 0)"
proof -
  let ?n = "max (length a) (length b)"
  have len: "length (pad_end ?n a) = length (pad_end ?n b)"
    by (simp add: pad_end_def)
  have zero: "list_all digit_char (replicate n (CHR ''0''))" for n
    by (simp add: list_all_iff digit_char_def less_eq_char_def)
  have "list_all digit_char (pad_end ?n a)" "list_all digit_char (pad_end ?n b)"
    using assms zero by (simp_all add: pad_end_def)
  note less = frac_less [OF len this] frac_less [OF len [symmetric] this(2,1)]
  show ?thesis
    using less by (simp add: compareFraction_def compare_text_def Let_def) (simp add: pad_end_def frac_append_zeros)
qed

lemma iso_fraction_digits: "list_all digit_char (iso_fraction s)"
  by (auto simp: iso_fraction_def list_all_iff dest: set_takeWhileD split: list.split)

lemma normalize_digits: "list_all digit_char s \<Longrightarrow> list_all digit_char (normalizeFraction s)"
  by (auto simp: normalizeFraction_def list_all_iff dest: set_dropWhileD)

lemma normalize_split: "\<exists>n. s = normalizeFraction s @ replicate n (CHR ''0'')"
proof -
  have "\<forall>c \<in> set (takeWhile (\<lambda>c. c = CHR ''0'') (rev s)). c = CHR ''0''"
    by (auto dest: set_takeWhileD)
  then have "takeWhile (\<lambda>c. c = CHR ''0'') (rev s) = replicate (length (takeWhile (\<lambda>c. c = CHR ''0'') (rev s))) (CHR ''0'')"
    by (metis replicate_length_same)
  moreover have "s = normalizeFraction s @ rev (takeWhile (\<lambda>c. c = CHR ''0'') (rev s))"
    by (metis normalizeFraction_def rev_append rev_rev_ident takeWhile_dropWhile_id)
  ultimately show ?thesis
    by (metis rev_replicate)
qed

lemma normalize_value: "frac_value (normalizeFraction s) = frac_value s"
  by (metis normalize_split frac_append_zeros)

lemma parsed_fraction: "parseTimestamp t = Inr i \<Longrightarrow> list_all digit_char (fraction i)"
  by (cases t rule: parseTimestamp.cases) (auto intro!: normalize_digits iso_fraction_digits split: if_splits)

lemma instant_order:
  assumes a: "list_all digit_char (fraction a)" and b: "list_all digit_char (fraction b)"
  shows "seconds a < seconds b \<Longrightarrow> instant_value a < instant_value b"
proof -
  assume "seconds a < seconds b"
  then have "(of_int (seconds a) :: rat) + 1 \<le> of_int (seconds b)"
    by (metis add1_zle_eq of_int_1 of_int_add of_int_le_iff)
  then show ?thesis
    using frac_bounds [OF a] frac_bounds [OF b] by (simp add: instant_value_def)
qed

lemma same_order:
  assumes "seconds a = seconds b"
  shows "instant_value a < instant_value b \<longleftrightarrow> frac_value (fraction a) < frac_value (fraction b)"
    "instant_value a = instant_value b \<longleftrightarrow> frac_value (fraction a) = frac_value (fraction b)"
  using assms by (auto simp: instant_value_def)

text \<open>The comparison is the order of the instants as rational numbers, then that of the ids.\<close>

lemma compare_order:
  assumes "parseTimestamp s = Inr a" "parseTimestamp t = Inr b"
  shows "compareTimestampThenId s x t y = Inr
    (if instant_value a < instant_value b \<or> instant_value a = instant_value b \<and> x < y then -1
     else if instant_value a = instant_value b \<and> x = y then 0 else 1)"
proof -
  note digits = parsed_fraction [OF assms(1)] parsed_fraction [OF assms(2)]
  note below = instant_order [OF digits] and above = instant_order [OF digits(2,1)]
  consider "seconds a < seconds b" | "seconds b < seconds a" | "seconds a = seconds b"
    by linarith
  then show ?thesis
  proof cases
    case 1
    then show ?thesis
      using below assms by (simp add: compareTimestampThenId_def)
  next
    case 2
    then show ?thesis
      using above assms by (simp add: compareTimestampThenId_def)
  next
    case 3
    note same = same_order [OF 3] same_order [OF 3 [symmetric]]
    show ?thesis
      unfolding compareTimestampThenId_def compare_fraction_value [OF digits] assms rbind_simps compare_text_def
      using 3 same
      by (cases "frac_value (fraction a)" "frac_value (fraction b)" rule: linorder_cases; cases x y rule: linorder_cases; simp)
  qed
qed

lemma shaped_take: "shaped (ps @ qs) t \<Longrightarrow> shaped ps (take (length ps) t)"
  by (induction ps t rule: shaped.induct) auto

lemma shaped_digits: "shaped (replicate n (CHR ''9'')) t \<Longrightarrow> list_all digit_char t"
  by (induction n arbitrary: t) (auto elim: shaped.elims)

lemma digits_nonneg: "list_all digit_char s \<Longrightarrow> 0 \<le> n \<Longrightarrow> 0 \<le> fold (\<lambda>c n. 10 * n + (int (of_char c) - 48)) s n"
  by (induction s arbitrary: n) (use digit_value in fastforce)+

lemma timestamp_year: "timestamp_text s \<Longrightarrow> 0 \<le> digits_int (cut_text 0 4 s)"
proof -
  assume "timestamp_text s"
  then have "shaped (replicate 4 (CHR ''9'') @ ''-99-99T99:99:99'') (take 19 s)"
    by (simp add: timestamp_text_def eval_nat_numeral)
  then have "list_all digit_char (cut_text 0 4 s)"
    by (drule_tac shaped_take) (auto dest: shaped_digits simp: cut_text_def)
  then show ?thesis
    unfolding digits_int_def by (rule digits_nonneg) simp
qed

text \<open>The seconds of a timestamp: its days in the calendar, then the time of the day and the zone.\<close>

lemma parsed_seconds:
  assumes "parseTimestamp (Some (JStr s)) = Inr i"
  shows "seconds i =
    (day_number (nat (digits_int (cut_text 0 4 s))) (digits_int (cut_text 5 7 s)) (digits_int (cut_text 8 10 s)) - day_number 1970 1 1) * 86400
    + digits_int (cut_text 11 13 s) * 3600 + digits_int (cut_text 14 16 s) * 60 + digits_int (cut_text 17 19 s) - zone_offset (iso_zone s)"
proof -
  have ok: "timestamp_text s" "iso_real s" and i: "seconds i =
      daysFromCivil (digits_int (cut_text 0 4 s)) (digits_int (cut_text 5 7 s)) (digits_int (cut_text 8 10 s)) * 86400
      + digits_int (cut_text 11 13 s) * 3600 + digits_int (cut_text 14 16 s) * 60 + digits_int (cut_text 17 19 s) - zone_offset (iso_zone s)"
    using assms by (auto split: if_splits)
  have "1 \<le> digits_int (cut_text 5 7 s)" "digits_int (cut_text 5 7 s) \<le> 12"
    using ok(2) by (auto simp: iso_real_def Let_def)
  from daysFromCivil_eq [OF this, of "nat (digits_int (cut_text 0 4 s))"] timestamp_year [OF ok(1)] i
  show ?thesis by simp
qed

end
