(* ===== verification/Posix_Path.thy ===== *)
theory Posix_Path
  imports Js_Values
begin

text \<open>
  What the program uses of Node's \<open>path.posix\<close>: the segments of a path, \<open>isAbsolute\<close> and
  \<open>normalize\<close>.  A normalized relative path is a number of parent segments and then proper names; a
  path below its root is one without parent segments.
\<close>

section \<open>Segments\<close>

fun segs :: "string \<Rightarrow> string list" where
  "segs [] = [[]]"
| "segs (c # cs) =
     (let rest = segs cs in
      if c = CHR ''/'' then [] # rest
      else case rest of [] \<Rightarrow> [[c]] | s # ss \<Rightarrow> (c # s) # ss)"

fun join_path :: "string list \<Rightarrow> string" where
  "join_path [] = []"
| "join_path [s] = s"
| "join_path (s # t # ss) = s @ ''/'' @ join_path (t # ss)"

lemma segs_not_Nil [simp]: "segs p \<noteq> []"
  by (induction p) (auto simp: Let_def split: list.split)

lemma join_path_simps [simp]:
  "join_path ((c # s) # ss) = c # join_path (s # ss)"
  "ss \<noteq> [] \<Longrightarrow> join_path ([] # ss) = CHR ''/'' # join_path ss"
  by (cases ss; simp)+

lemma join_segs [simp]: "join_path (segs p) = p"
  by (induction p) (auto simp: Let_def neq_Nil_conv split: list.split)

lemma segs_no_slash: "s \<in> set (segs p) \<Longrightarrow> CHR ''/'' \<notin> set s"
  by (induction p arbitrary: s) (auto simp: Let_def split: if_splits list.splits)

lemma segs_plain: "CHR ''/'' \<notin> set s \<Longrightarrow> segs s = [s]"
  by (induction s) (auto simp: Let_def)

lemma segs_append: "CHR ''/'' \<notin> set s \<Longrightarrow> segs (s @ ''/'' @ p) = s # segs p"
  by (induction s) (auto simp: Let_def)

lemma segs_join: "ss \<noteq> [] \<Longrightarrow> list_all (\<lambda>s. CHR ''/'' \<notin> set s) ss \<Longrightarrow> segs (join_path ss) = ss"
  by (induction ss rule: join_path.induct) (auto simp: segs_plain segs_append simp del: append_Cons)

section \<open>Normalization\<close>

text \<open>
  The stack of \<open>normalizeString\<close>, last segment first: \<open>.\<close> and empty segments are dropped, \<open>..\<close>
  removes the last name, and is kept at the front of a relative path.
\<close>

fun resolve_segs :: "bool \<Rightarrow> string list \<Rightarrow> string list \<Rightarrow> string list" where
  "resolve_segs up st [] = rev st"
| "resolve_segs up st (s # ss) =
     (if s = [] \<or> s = ''.'' then resolve_segs up st ss
      else if s = ''..'' then
        (case st of
           [] \<Rightarrow> resolve_segs up (if up then [s] else []) ss
         | t # ts \<Rightarrow> resolve_segs up (if t = ''..'' then s # st else ts) ss)
      else resolve_segs up (s # st) ss)"

definition posix_absolute :: "string \<Rightarrow> bool" where
  "posix_absolute p \<longleftrightarrow> p \<noteq> [] \<and> hd p = CHR ''/''"

definition posix_normalize :: "string \<Rightarrow> string" where
  "posix_normalize p =
     (if p = [] then ''.''
      else
        let trail = (last p = CHR ''/''); q = join_path (resolve_segs (\<not> posix_absolute p) [] (segs p)) in
        if q = [] then (if posix_absolute p then ''/'' else if trail then ''./'' else ''.'')
        else (if posix_absolute p then ''/'' else []) @ q @ (if trail then ''/'' else []))"

text \<open>\<open>replace(/\/+$/, '')\<close>.\<close>

definition strip_slashes :: "string \<Rightarrow> string" where
  "strip_slashes s = rev (dropWhile (\<lambda>c. c = CHR ''/'') (rev s))"

section \<open>Paths below their root\<close>

definition proper :: "string \<Rightarrow> bool" where
  "proper s \<longleftrightarrow> s \<noteq> [] \<and> s \<noteq> ''.'' \<and> s \<noteq> ''..'' \<and> CHR ''/'' \<notin> set s"

text \<open>Proper names only, and at least one.\<close>

definition below_root :: "string \<Rightarrow> bool" where
  "below_root p \<longleftrightarrow> list_all proper (segs p)"

lemma below_root_iff: "below_root p \<longleftrightarrow> (\<exists>ss. ss \<noteq> [] \<and> list_all proper ss \<and> p = join_path ss)"
proof
  assume "below_root p"
  then have "segs p \<noteq> [] \<and> list_all proper (segs p) \<and> p = join_path (segs p)"
    by (simp add: below_root_def)
  then show "\<exists>ss. ss \<noteq> [] \<and> list_all proper ss \<and> p = join_path ss" by blast
next
  assume "\<exists>ss. ss \<noteq> [] \<and> list_all proper ss \<and> p = join_path ss"
  then obtain ss where ss: "ss \<noteq> []" "list_all proper ss" "p = join_path ss" by blast
  then have "segs p = ss"
    by (auto simp: proper_def list_all_iff intro!: segs_join)
  with ss show "below_root p"
    by (simp add: below_root_def)
qed

text \<open>What the stack holds: names above parent segments.\<close>

definition stacked :: "string list \<Rightarrow> bool" where
  "stacked st \<longleftrightarrow> (\<exists>names ups. st = names @ ups \<and> list_all proper names \<and> list_all (\<lambda>s. s = ''..'') ups)"

lemma stacked_Nil [simp]: "stacked []"
  by (simp add: stacked_def)

lemma stacked_name: "stacked st \<Longrightarrow> proper s \<Longrightarrow> stacked (s # st)"
proof -
  assume "stacked st" and s: "proper s"
  then obtain names ups where "st = names @ ups" "list_all proper names" "list_all (\<lambda>s. s = ''..'') ups"
    by (auto simp: stacked_def)
  with s show "stacked (s # st)"
    unfolding stacked_def by (intro exI [of _ "s # names"] exI [of _ ups]) simp
qed

lemma stacked_up: "stacked st \<Longrightarrow> st = [] \<or> hd st = ''..'' \<Longrightarrow> stacked (''..'' # st)"
proof -
  assume "stacked st" and up: "st = [] \<or> hd st = ''..''"
  then obtain names ups where st: "st = names @ ups" "list_all proper names" "list_all (\<lambda>s. s = ''..'') ups"
    by (auto simp: stacked_def)
  moreover have "names = []"
    using up st by (cases names) (auto simp: proper_def)
  ultimately show "stacked (''..'' # st)"
    unfolding stacked_def by (intro exI [of _ "[]"] exI [of _ "''..'' # ups"]) simp
qed

lemma stacked_tl: "stacked (t # ts) \<Longrightarrow> t \<noteq> ''..'' \<Longrightarrow> stacked ts"
proof -
  assume "stacked (t # ts)" and t: "t \<noteq> ''..''"
  then obtain names ups where "t # ts = names @ ups" "list_all proper names" "list_all (\<lambda>s. s = ''..'') ups"
    by (auto simp: stacked_def)
  with t show "stacked ts"
    unfolding stacked_def by (cases names) auto
qed

lemma resolve_stacked:
  "stacked st \<Longrightarrow> list_all (\<lambda>s. CHR ''/'' \<notin> set s) ss \<Longrightarrow> stacked (rev (resolve_segs up st ss))"
proof (induction up st ss rule: resolve_segs.induct)
  case (2 up st s ss)
  consider "s = [] \<or> s = ''.''" | "s = ''..''" "st = []" | t ts where "s = ''..''" "st = t # ts" | "proper s"
    using "2.prems"(2) by (cases st) (auto simp: proper_def)
  then show ?case
  proof cases
    case 1
    then show ?thesis using 2 by auto
  next
    case 2
    then show ?thesis
      using "2.IH"(2) "2.prems" stacked_up [of "[]"] by (cases up) simp_all
  next
    case (3 t ts)
    then show ?thesis
      using "2.IH"(3) [of t ts] "2.prems" stacked_up [of st] stacked_tl [of t ts] by (cases "t = ''..''") simp_all
  next
    case 4
    then show ?thesis
      using "2.IH"(4) "2.prems" stacked_name [of st s] by (auto simp: proper_def)
  qed
qed simp

text \<open>Names only: nothing to resolve.\<close>

lemma resolve_proper: "list_all proper ss \<Longrightarrow> resolve_segs up st ss = rev st @ ss"
  by (induction ss arbitrary: st) (auto simp: proper_def)

lemma join_last: "list_all proper ss \<Longrightarrow> ss \<noteq> [] \<Longrightarrow> join_path ss \<noteq> [] \<and> last (join_path ss) \<noteq> CHR ''/'' \<and> hd (join_path ss) \<noteq> CHR ''/''"
proof (induction ss rule: join_path.induct)
  case (2 s)
  then show ?case
    by (auto simp: proper_def dest: last_in_set hd_in_set)
next
  case (3 s t ss)
  then show ?case
    by (auto simp: proper_def dest: hd_in_set)
qed simp

lemma strip_idle: "s \<noteq> [] \<Longrightarrow> last s \<noteq> CHR ''/'' \<Longrightarrow> strip_slashes s = s"
  by (cases s rule: rev_cases) (auto simp: strip_slashes_def)

lemma strip_one: "strip_slashes (s @ ''/'') = strip_slashes s"
  by (simp add: strip_slashes_def)

lemma normalize_below [simp]: "below_root p \<Longrightarrow> posix_normalize p = p"
proof -
  assume b: "below_root p"
  then obtain ss where ss: "ss \<noteq> []" "list_all proper ss" "p = join_path ss"
    by (auto simp: below_root_iff)
  note last = join_last [OF ss(2,1), folded ss(3)]
  have "segs p = ss"
    using ss by (auto simp: proper_def list_all_iff intro!: segs_join)
  then show "posix_normalize p = p"
    using last ss by (simp add: posix_normalize_def Let_def posix_absolute_def resolve_proper)
qed

lemma below_root_plain: "below_root p \<Longrightarrow> p \<noteq> [] \<and> last p \<noteq> CHR ''/'' \<and> \<not> posix_absolute p"
  using join_last by (auto simp: below_root_iff posix_absolute_def)

section \<open>Absolute paths\<close>

text \<open>The segments of \<open>path.resolve(cwd, p)\<close> and the path they make.\<close>

definition abs_segs :: "string \<Rightarrow> string \<Rightarrow> string list" where
  "abs_segs cwd p = resolve_segs False [] (segs (if posix_absolute p then p else cwd @ ''/'' @ p))"

definition path_of :: "string list \<Rightarrow> string" where
  "path_of ss = CHR ''/'' # join_path ss"

definition path_resolve :: "string \<Rightarrow> string \<Rightarrow> string" where
  "path_resolve cwd p = path_of (abs_segs cwd p)"

text \<open>\<open>path.join(a, b)\<close>.\<close>

definition path_join2 :: "string \<Rightarrow> string \<Rightarrow> string" where
  "path_join2 a b = posix_normalize (if a = [] then b else if b = [] then a else a @ ''/'' @ b)"

text \<open>The segments of \<open>path.relative\<close> between two absolute paths.\<close>

fun relative_segs :: "string list \<Rightarrow> string list \<Rightarrow> string list" where
  "relative_segs (f # fs) (t # ts) =
     (if f = t then relative_segs fs ts else replicate (Suc (length fs)) ''..'' @ t # ts)"
| "relative_segs fs ts = replicate (length fs) ''..'' @ ts"

text \<open>\<open>isPathWithin\<close> of src/src/config/runtime-path.mjs.\<close>

definition isPathWithin :: "string \<Rightarrow> string \<Rightarrow> string \<Rightarrow> bool" where
  "isPathWithin cwd p c \<longleftrightarrow>
     (let rel = join_path (relative_segs (abs_segs cwd p) (abs_segs cwd c)) in
      rel = [] \<or> (take 2 rel \<noteq> ''..'' \<and> \<not> posix_absolute rel))"

lemma resolve_plain:
  "list_all (\<lambda>s. CHR ''/'' \<notin> set s) ss \<Longrightarrow> list_all proper st \<Longrightarrow> list_all proper (resolve_segs False st ss)"
proof (induction False st ss rule: resolve_segs.induct)
  case (1 st)
  then show ?case by (simp add: list_all_iff)
next
  case (2 st s ss)
  consider "s = [] \<or> s = ''.''" | "s = ''..''" "st = []" | t ts where "s = ''..''" "st = t # ts" "t \<noteq> ''..''" | "proper s"
    using "2.prems" by (cases st) (auto simp: proper_def)
  then show ?case
    by cases (use 2 in \<open>simp_all add: proper_def\<close>)
qed

lemma abs_segs_proper: "list_all proper (abs_segs cwd p)"
  unfolding abs_segs_def by (rule resolve_plain) (auto simp: list_all_iff dest: segs_no_slash)

lemma join_path_start: "ss \<noteq> [] \<Longrightarrow> hd ss \<noteq> [] \<Longrightarrow> join_path ss \<noteq> [] \<and> hd (join_path ss) = hd (hd ss)"
  by (cases ss rule: join_path.cases) auto

lemma join_path_up: "join_path (''..'' # ss) = ''..'' @ (if ss = [] then [] else ''/'' @ join_path ss)"
  by (cases ss) simp_all

lemma relative_shape:
  "(\<exists>rest. ts = fs @ rest \<and> relative_segs fs ts = rest) \<or>
   (\<not> (\<exists>rest. ts = fs @ rest) \<and> (\<exists>rest. relative_segs fs ts = ''..'' # rest))"
  by (induction fs ts rule: relative_segs.induct) (auto split: if_splits simp: neq_Nil_conv)

lemma take_join: "proper s \<Longrightarrow> take 2 (join_path (s # ss)) = ''..'' \<longleftrightarrow> take 2 s = ''..''"
proof -
  assume s: "proper s"
  obtain a r where a: "s = a # r" using s by (cases s) (auto simp: proper_def)
  show ?thesis
  proof (cases r)
    case Nil
    with a s show ?thesis by (cases ss) (auto simp: proper_def)
  next
    case (Cons b q)
    with a show ?thesis by (cases ss) auto
  qed
qed

text \<open>A path is within another when it continues its segments, unless it goes on with two dots.\<close>

lemma isPathWithin_iff:
  "isPathWithin cwd p c \<longleftrightarrow>
     (\<exists>rest. abs_segs cwd c = abs_segs cwd p @ rest \<and> (rest = [] \<or> take 2 (hd rest) \<noteq> ''..''))"
proof -
  let ?f = "abs_segs cwd p" and ?t = "abs_segs cwd c"
  consider rest where "?t = ?f @ rest" "relative_segs ?f ?t = rest"
    | rest where "\<not> (\<exists>rest. ?t = ?f @ rest)" "relative_segs ?f ?t = ''..'' # rest"
    using relative_shape [of ?t ?f] by blast
  then show ?thesis
  proof cases
    case 1
    have rest: "list_all proper rest"
      using abs_segs_proper [of cwd c] 1(1) by simp
    show ?thesis
    proof (cases rest)
      case Nil
      with 1 show ?thesis by (simp add: isPathWithin_def)
    next
      case (Cons s ss)
      have s: "proper s" using rest Cons by simp
      then have "s \<noteq> []" "CHR ''/'' \<notin> set s"
        by (simp_all add: proper_def)
      then have ne: "s \<noteq> []" "hd s \<noteq> CHR ''/''"
        by (metis hd_in_set)+
      have start: "join_path (s # ss) \<noteq> []" "hd (join_path (s # ss)) = hd s"
        using join_path_start [of "s # ss"] ne by auto
      then have "isPathWithin cwd p c \<longleftrightarrow> take 2 s \<noteq> ''..''"
        using 1(2) Cons ne take_join [OF s, of ss] by (simp add: isPathWithin_def posix_absolute_def)
      moreover have "(\<exists>rest. ?t = ?f @ rest \<and> (rest = [] \<or> take 2 (hd rest) \<noteq> ''..'')) \<longleftrightarrow> take 2 s \<noteq> ''..''"
        using 1(1) Cons by auto
      ultimately show ?thesis by simp
    qed
  next
    case 2
    then show ?thesis
      by (auto simp: isPathWithin_def join_path_up)
  qed
qed

end
