(* ===== verification/Git_Host.thy ===== *)
theory Git_Host
  imports Ctl_Records Posix_Path Ctl_Ask
begin

text \<open>
  Git and the file system as the program sees them: src/src/git/exec.mjs, src/src/git/base.mjs,
  src/src/git/state.mjs and src/src/config/runtime-path.mjs.  What a command or a file operation does
  is a parameter that works on an abstract host; the commands that were run are remembered, and so are
  the files the program owns, the registry of worktrees and the store of patch evidence.
\<close>

section \<open>The host\<close>

record git_out =
  go_status :: "int option"
  go_stdout :: string
  go_stderr :: string

text \<open>
  \<open>spawnSync\<close> of git, \<open>None\<close> when it fails; \<open>readFileSync\<close>, \<open>realpathSync\<close>, \<open>existsSync\<close>,
  \<open>lstatSync\<close> with what can be read of the file and its mode, \<open>statSync(p).isDirectory()\<close>, the order
  \<open>localeCompare\<close> gives, \<open>readdirSync\<close>, and \<open>writeFileSync\<close> with the flag \<open>wx\<close>, which says
  whether it could write.
\<close>

datatype file_kind = Link string | Dir | File string | Unreadable

record 'w host =
  ho_cwd :: string
  ho_git :: "string \<Rightarrow> string list \<Rightarrow> 'w \<Rightarrow> git_out option \<times> 'w"
  ho_read :: "string \<Rightarrow> 'w \<Rightarrow> string option"
  ho_real :: "string \<Rightarrow> 'w \<Rightarrow> string option"
  ho_exists :: "string \<Rightarrow> 'w \<Rightarrow> bool"
  ho_lstat :: "string \<Rightarrow> 'w \<Rightarrow> (file_kind \<times> int) option"
  ho_isdir :: "string \<Rightarrow> 'w \<Rightarrow> bool"
  ho_collate :: "string \<Rightarrow> string \<Rightarrow> bool"
  ho_names :: "string \<Rightarrow> 'w \<Rightarrow> string list"
  ho_create :: "string \<Rightarrow> string \<Rightarrow> 'w \<Rightarrow> bool \<times> 'w"

text \<open>The files of the evidence store: artifacts and records, a record as the value it holds.\<close>

record evidence_store =
  es_patches :: "(string \<times> string) list"
  es_records :: "(string \<times> json option) list"

text \<open>The state: the host, the commands run so far, the lines of the registry, the evidence.\<close>

record 'w world =
  wd_host :: 'w
  wd_calls :: "(string \<times> string list) list"
  wd_registry :: "json option list"
  wd_evidence :: evidence_store

type_synonym ('w, 'a) git_act = "('w world, 'a) action"

definition look :: "('w world \<Rightarrow> 'a) \<Rightarrow> ('w, 'a) git_act" where
  "look f = (\<lambda>w. (Inr (f w), w))"

definition demand :: "bool \<Rightarrow> lcim_error \<Rightarrow> ('s, unit) action" where
  "demand b e = act_of (need b e)"

section \<open>Commands\<close>

text \<open>\<open>runGit\<close>: anything but the status 0 is an error, unless the caller allows it.\<close>

definition run_git :: "'w host \<Rightarrow> bool \<Rightarrow> string \<Rightarrow> string list \<Rightarrow> ('w, git_out) git_act" where
  "run_git h allowNonZero cwd args = (\<lambda>w.
     case ho_git h cwd args (wd_host w) of
       (r, w') \<Rightarrow>
         (case r of
            None \<Rightarrow> Inl GitOperationError
          | Some out \<Rightarrow> if go_status out = Some 0 \<or> allowNonZero then Inr out else Inl GitOperationError,
          w\<lparr>wd_host := w', wd_calls := wd_calls w @ [(cwd, args)]\<rparr>))"

definition git_text :: "'w host \<Rightarrow> string \<Rightarrow> string list \<Rightarrow> ('w, string) git_act" where
  "git_text h cwd args = act_bind (run_git h False cwd args) (\<lambda>out. act_of (Inr (go_stdout out)))"

definition git_any :: "'w host \<Rightarrow> string \<Rightarrow> string list \<Rightarrow> ('w, string) git_act" where
  "git_any h cwd args = act_bind (run_git h True cwd args) (\<lambda>out. act_of (Inr (go_stdout out)))"

text \<open>The non-empty lines, the parts between NUL characters, and sorting.\<close>

definition lines_of :: "string \<Rightarrow> string list" where
  "lines_of s = filter (\<lambda>l. l \<noteq> []) (split_at (\<lambda>c. c = CHR 0x0A) s)"

definition parts_of :: "string \<Rightarrow> string list" where
  "parts_of s = filter (\<lambda>l. l \<noteq> []) (split_at (\<lambda>c. c = CHR 0x00) s)"

section \<open>Facts of the repository\<close>

definition full_sha :: "jsval \<Rightarrow> bool" where
  "full_sha v = (case v of Some (JStr s) \<Rightarrow> hex_text 40 s | _ \<Rightarrow> False)"

definition assertFullSha :: "jsval \<Rightarrow> ('s, unit) action" where
  "assertFullSha v = demand (full_sha v) GitOperationError"

definition resolveHeadSha :: "'w host \<Rightarrow> string \<Rightarrow> ('w, string) git_act" where
  "resolveHeadSha h cwd = act_bind (git_text h cwd [''rev-parse'', ''HEAD'']) (\<lambda>s. act_of (Inr (js_trim s)))"

definition resolveCommitSha :: "'w host \<Rightarrow> string \<Rightarrow> string \<Rightarrow> ('w, string) git_act" where
  "resolveCommitSha h cwd r =
     act_bind (assertFullSha (Some (JStr r))) (\<lambda>_.
     act_bind (git_text h cwd [''rev-parse'', ''--verify'', r @ ''^{commit}'']) (\<lambda>s. act_of (Inr (js_trim s))))"

definition commitExists :: "'w host \<Rightarrow> string \<Rightarrow> string \<Rightarrow> ('w, bool) git_act" where
  "commitExists h cwd r = (\<lambda>w.
     case resolveCommitSha h cwd r w of
       (Inr _, w') \<Rightarrow> (Inr True, w')
     | (Inl GitOperationError, w') \<Rightarrow> (Inr False, w')
     | (Inl e, w') \<Rightarrow> (Inl e, w'))"

text \<open>\<open>aheadBehind\<close> only adds counts to a message; what matters is whether it throws.\<close>

definition isWorktreeClean :: "'w host \<Rightarrow> string \<Rightarrow> ('w, bool) git_act" where
  "isWorktreeClean h cwd = act_bind (git_text h cwd [''status'', ''--porcelain'']) (\<lambda>s. act_of (Inr (s = [])))"

section \<open>Paths\<close>

text \<open>\<open>normalizePath\<close>: the real path, or the absolute one of what does not exist.\<close>

definition normalizePath :: "'w host \<Rightarrow> 'w \<Rightarrow> string \<Rightarrow> string" where
  "normalizePath h x p = (case ho_real h p x of Some r \<Rightarrow> r | None \<Rightarrow> path_resolve (ho_cwd h) p)"

text \<open>\<open>RuntimePathError\<close> is the error of the resolution of the common directory.\<close>

definition RuntimePathError :: lcim_error where
  "RuntimePathError = OtherError (Some ''RUNTIME_PATH_INVALID'')"

definition resolveGitCommonDir :: "'w host \<Rightarrow> string \<Rightarrow> ('w, string) git_act" where
  "resolveGitCommonDir h cwd = (\<lambda>w.
     case git_text h cwd [''rev-parse'', ''--git-common-dir''] w of
       (Inl _, w') \<Rightarrow> (Inl RuntimePathError, w')
     | (Inr out, w') \<Rightarrow>
         (let raw = js_trim out; p = path_resolve (path_resolve (ho_cwd h) cwd) raw in
          if raw = [] then (Inl RuntimePathError, w')
          else
            if \<not> ho_exists h p (wd_host w') \<or> \<not> ho_isdir h p (wd_host w') then (Inl RuntimePathError, w')
            else case ho_real h p (wd_host w') of
                None \<Rightarrow> (Inl (SystemError ''ENOENT''), w')
              | Some r \<Rightarrow> (Inr r, w')))"

definition assertNoTrackedFilesUnder :: "'w host \<Rightarrow> string \<Rightarrow> string \<Rightarrow> ('w, unit) git_act" where
  "assertNoTrackedFilesUnder h dir cwd = (\<lambda>w.
     case git_text h cwd [''ls-files'', ''-z''] w of
       (Inl _, w') \<Rightarrow> (Inl RuntimePathError, w')
     | (Inr out, w') \<Rightarrow>
         (if \<exists>f \<in> set (parts_of out). isPathWithin (ho_cwd h) dir (path_resolve (path_resolve (ho_cwd h) cwd) f)
          then (Inl PublicSafetyError, w') else (Inr (), w')))"

end
