(* ===== verification/Git_State.thy ===== *)
theory Git_State
  imports Git_Host
begin

text \<open>
  The snapshots of a repository and their differences, src/src/git/state.mjs: refs, reflog,
  configuration, remotes with every URL a push could go to, and the state of the parent worktree with
  the digests of its dirty files.
\<close>

section \<open>Snapshots\<close>

definition snapshotRefs :: "'w host \<Rightarrow> string \<Rightarrow> ('w, string list) git_act" where
  "snapshotRefs h dir =
     act_bind (git_text h dir [''for-each-ref'', ''--format=%(refname) %(objectname)'']) (\<lambda>s.
     act_of (Inr (sort (lines_of s))))"

definition snapshotReflog :: "'w host \<Rightarrow> string \<Rightarrow> ('w, string list) git_act" where
  "snapshotReflog h dir =
     act_bind (git_any h dir [''reflog'', ''--format=%gd|%gs'']) (\<lambda>s. act_of (Inr (lines_of s)))"

definition snapshotConfig :: "'w host \<Rightarrow> string \<Rightarrow> ('w, string list) git_act" where
  "snapshotConfig h dir =
     act_bind (git_text h dir [''config'', ''--local'', ''--list'']) (\<lambda>s. act_of (Inr (sort (lines_of s))))"

text \<open>A remote: its fetch URL, its push URLs, and the advertised refs of each, \<open>None\<close> when unverifiable.\<close>

record remote_snapshot =
  rs_fetchUrl :: "string option"
  rs_pushUrls :: "string list"
  rs_refs :: "(string \<times> string list option) list"

primrec act_map :: "('a \<Rightarrow> ('s, 'b) action) \<Rightarrow> 'a list \<Rightarrow> ('s, 'b list) action" where
  "act_map f [] = act_of (Inr [])"
| "act_map f (x # xs) = act_bind (f x) (\<lambda>y. act_bind (act_map f xs) (\<lambda>ys. act_of (Inr (y # ys))))"

definition advertised :: "'w host \<Rightarrow> string \<Rightarrow> string \<Rightarrow> ('w, string \<times> string list option) git_act" where
  "advertised h dir url =
     act_bind (run_git h True dir [''ls-remote'', url]) (\<lambda>r.
     act_of (Inr (url, if go_status r = Some 0 then Some (sort (lines_of (go_stdout r))) else None)))"

definition snapshotRemote :: "'w host \<Rightarrow> string \<Rightarrow> string \<Rightarrow> ('w, string \<times> remote_snapshot) git_act" where
  "snapshotRemote h dir name =
     act_bind (git_any h dir [''config'', ''--get'', ''remote.'' @ name @ ''.url'']) (\<lambda>f.
     act_bind (git_any h dir [''config'', ''--get-all'', ''remote.'' @ name @ ''.pushurl'']) (\<lambda>p.
     let fetch = (if js_trim f = [] then None else Some (js_trim f));
         push = filter (\<lambda>u. u \<noteq> []) (map js_trim (split_at (\<lambda>c. c = CHR 0x0A) p)) in
     act_bind (act_map (advertised h dir) (uniq ((case fetch of None \<Rightarrow> [] | Some u \<Rightarrow> [u]) @ push))) (\<lambda>refs.
     act_of (Inr (name, \<lparr>rs_fetchUrl = fetch, rs_pushUrls = push, rs_refs = refs\<rparr>)))))"

definition snapshotRemotes :: "'w host \<Rightarrow> string \<Rightarrow> ('w, (string \<times> remote_snapshot) list) git_act" where
  "snapshotRemotes h dir =
     act_bind (git_text h dir [''remote'']) (\<lambda>s. act_map (snapshotRemote h dir) (sort (lines_of s)))"

section \<open>The parent worktree\<close>

record digest_entry =
  de_path :: string
  de_layer :: string
  de_digest :: "string option"
  de_mode :: "int option"

record parent_state =
  ps_head :: string
  ps_porcelain :: string
  ps_content :: "digest_entry list"

text \<open>\<open>git ls-files --stage -z\<close>: mode, object and stage, a tab, the path; later records win.\<close>

definition staged_oid :: "string \<Rightarrow> (string \<times> string option) option" where
  "staged_oid rec =
     (let fields = takeWhile (\<lambda>c. c \<noteq> CHR 0x09) rec in
      if fields = rec then None
      else Some (drop (Suc (length fields)) rec,
        (case split_at (\<lambda>c. c = CHR '' '') fields of _ # oid # _ \<Rightarrow> Some oid | _ \<Rightarrow> None)))"

definition staged_oids :: "string \<Rightarrow> (string \<times> string option) list" where
  "staged_oids out = rev (List.map_filter staged_oid (parts_of out))"

definition digest_layer :: "digest_fun \<Rightarrow> 'w host \<Rightarrow> string \<Rightarrow> string \<Rightarrow> string \<Rightarrow> ('w, digest_entry) git_act" where
  "digest_layer sha h dir layer p =
     look (\<lambda>w. case ho_lstat h (path_resolve (path_resolve (ho_cwd h) dir) p) (wd_host w) of
         None \<Rightarrow> \<lparr>de_path = p, de_layer = layer, de_digest = None, de_mode = None\<rparr>
       | Some (kind, mode) \<Rightarrow>
           \<lparr>de_path = p, de_layer = layer,
            de_digest = (case kind of Link t \<Rightarrow> Some (sha t) | File b \<Rightarrow> Some (sha b) | _ \<Rightarrow> None),
            de_mode = Some mode\<rparr>)"

definition digest_staged :: "digest_fun \<Rightarrow> 'w host \<Rightarrow> string \<Rightarrow> (string \<times> string option) list \<Rightarrow> string
    \<Rightarrow> ('w, digest_entry) git_act" where
  "digest_staged sha h dir oids p =
     (case Option.bind (map_of oids p) id of
        None \<Rightarrow> act_of (Inr \<lparr>de_path = p, de_layer = ''index'', de_digest = None, de_mode = None\<rparr>)
      | Some oid \<Rightarrow>
          act_bind (git_text h dir [''cat-file'', ''blob'', oid]) (\<lambda>b.
          act_of (Inr \<lparr>de_path = p, de_layer = ''index'', de_digest = Some (sha b), de_mode = None\<rparr>)))"

text \<open>The stable sort by path and then by layer, in the order of the locale.\<close>

definition entry_before :: "'w host \<Rightarrow> digest_entry \<Rightarrow> digest_entry \<Rightarrow> bool" where
  "entry_before h a b \<longleftrightarrow>
     (if de_path a = de_path b then ho_collate h (de_layer a) (de_layer b) else ho_collate h (de_path a) (de_path b))"

primrec insert_by :: "('a \<Rightarrow> 'a \<Rightarrow> bool) \<Rightarrow> 'a \<Rightarrow> 'a list \<Rightarrow> 'a list" where
  "insert_by lt x [] = [x]"
| "insert_by lt x (y # ys) = (if lt y x then y # insert_by lt x ys else x # y # ys)"

definition sort_by :: "('a \<Rightarrow> 'a \<Rightarrow> bool) \<Rightarrow> 'a list \<Rightarrow> 'a list" where
  "sort_by lt xs = foldr (insert_by lt) xs []"

definition parentContentDigest :: "digest_fun \<Rightarrow> 'w host \<Rightarrow> string \<Rightarrow> ('w, digest_entry list) git_act" where
  "parentContentDigest sha h dir =
     act_bind (git_text h dir [''ls-files'', ''--stage'', ''-z'']) (\<lambda>stage.
     act_bind (git_text h dir [''diff'', ''--cached'', ''--name-only'', ''-z'', ''--no-renames'']) (\<lambda>staged.
     act_bind (act_map (digest_staged sha h dir (staged_oids stage)) (parts_of staged)) (\<lambda>index.
     act_bind (git_text h dir [''diff'', ''--name-only'', ''-z'', ''--no-renames'']) (\<lambda>dirty.
     act_bind (act_map (digest_layer sha h dir ''worktree'') (parts_of dirty)) (\<lambda>tree.
     act_bind (git_text h dir [''ls-files'', ''--others'', ''--exclude-standard'', ''-z'']) (\<lambda>others.
     act_bind (act_map (digest_layer sha h dir ''untracked'') (parts_of others)) (\<lambda>new.
     act_of (Inr (sort_by (entry_before h) (index @ tree @ new))))))))))"

definition snapshotParentState :: "digest_fun \<Rightarrow> 'w host \<Rightarrow> string \<Rightarrow> ('w, parent_state) git_act" where
  "snapshotParentState sha h dir =
     act_bind (resolveHeadSha h dir) (\<lambda>head.
     act_bind (git_text h dir [''status'', ''--porcelain'']) (\<lambda>porcelain.
     act_bind (parentContentDigest sha h dir) (\<lambda>content.
     act_of (Inr \<lparr>ps_head = head, ps_porcelain = porcelain, ps_content = content\<rparr>))))"

section \<open>Differences\<close>

record line_diff =
  ld_added :: "string list"
  ld_removed :: "string list"

definition diffLineSnapshots :: "string list \<Rightarrow> string list \<Rightarrow> line_diff" where
  "diffLineSnapshots old new =
     \<lparr>ld_added = filter (\<lambda>l. l \<notin> set old) new, ld_removed = filter (\<lambda>l. l \<notin> set new) old\<rparr>"

definition same_lines :: "line_diff \<Rightarrow> bool" where
  "same_lines d \<longleftrightarrow> ld_added d = [] \<and> ld_removed d = []"

record remote_diff =
  rd_added :: "string list"
  rd_removed :: "string list"
  rd_changed :: "string list"
  rd_unverifiable :: "string list"

definition remoteUnverifiable :: "remote_snapshot \<Rightarrow> bool" where
  "remoteUnverifiable r \<longleftrightarrow> rs_refs r = [] \<or> list_ex (\<lambda>u. snd u = None) (rs_refs r)"

text \<open>What one URL says: its refs before and after, \<open>None\<close> when it is missing or unverifiable.\<close>

definition url_changed :: "string list option \<Rightarrow> string list option \<Rightarrow> bool" where
  "url_changed b a =
     (case (b, a) of
        (Some xs, Some ys) \<Rightarrow> \<not> same_lines (diffLineSnapshots xs ys)
      | (None, None) \<Rightarrow> False
      | _ \<Rightarrow> True)"

definition remote_changed :: "remote_snapshot \<Rightarrow> remote_snapshot \<Rightarrow> bool" where
  "remote_changed b a \<longleftrightarrow>
     (rs_fetchUrl b, rs_pushUrls b) \<noteq> (rs_fetchUrl a, rs_pushUrls a) \<or>
     list_ex (\<lambda>u. url_changed (Option.bind (map_of (rs_refs b) u) id) (Option.bind (map_of (rs_refs a) u) id))
       (sort (uniq (map fst (rs_refs b) @ map fst (rs_refs a))))"

definition diffRemoteSnapshots ::
    "(string \<times> remote_snapshot) list \<Rightarrow> (string \<times> remote_snapshot) list \<Rightarrow> remote_diff" where
  "diffRemoteSnapshots old new =
     (let names = sort (uniq (map fst old @ map fst new)); b = map_of old; a = map_of new in
      \<lparr>rd_added = filter (\<lambda>n. b n = None \<and> a n \<noteq> None) names,
       rd_removed = filter (\<lambda>n. b n \<noteq> None \<and> a n = None) names,
       rd_changed = filter (\<lambda>n. case (b n, a n) of (Some x, Some y) \<Rightarrow> remote_changed x y | _ \<Rightarrow> False) names,
       rd_unverifiable = filter (\<lambda>n.
         (case b n of Some x \<Rightarrow> remoteUnverifiable x | None \<Rightarrow> False) \<or>
         (case a n of Some y \<Rightarrow> remoteUnverifiable y | None \<Rightarrow> False)) names\<rparr>)"

lemma same_lines_iff: "same_lines (diffLineSnapshots old new) \<longleftrightarrow> set old = set new"
  by (auto simp: same_lines_def diffLineSnapshots_def filter_empty_conv)

end
