(* ===== verification/Git_Checks.thy ===== *)
theory Git_Checks
  imports Git_State
begin

text \<open>
  What the controller checks of a worker's changes: the write scope
  (src/src/validation/git/scope.mjs), the base at the four checkpoints
  (src/src/validation/git/base.mjs) and the safety of the repository after the worker exits
  (src/src/validation/git/safety.mjs).
\<close>

section \<open>The write scope\<close>

fun normalizeScopePath :: "jsval \<Rightarrow> string result" where
  "normalizeScopePath (Some (JStr p)) =
     (if p = [] then Inl (PathSafetyError ''non-empty'')
      else if CHR 0x5C \<in> set p then Inl (PathSafetyError ''backslash'')
      else if posix_absolute p then Inl (PathSafetyError ''relative'')
      else let n = strip_slashes (posix_normalize p) in
        if n = ''.'' \<or> n = [] then Inl (PathSafetyError ''dot'')
        else if n = ''..'' \<or> take 3 n = ''../'' then Inl (PathSafetyError ''escape'')
        else Inr n)"
| "normalizeScopePath _ = Inl (PathSafetyError ''non-empty'')"

fun map_result :: "('a \<Rightarrow> 'b result) \<Rightarrow> 'a list \<Rightarrow> 'b list result" where
  "map_result f [] = Inr []"
| "map_result f (x # xs) = rbind (f x) (\<lambda>y. rbind (map_result f xs) (\<lambda>ys. Inr (y # ys)))"

fun normalizeAll :: "jsval \<Rightarrow> string list result" where
  "normalizeAll (Some (JArr vs)) = map_result (\<lambda>v. normalizeScopePath (Some v)) vs"
| "normalizeAll _ = Inl (PathSafetyError ''array'')"

definition checkWriteScope :: "jsval \<Rightarrow> jsval \<Rightarrow> unit result" where
  "checkWriteScope changed allowed =
     rbind (normalizeAll changed) (\<lambda>cs.
     rbind (normalizeAll allowed) (\<lambda>as.
     need (filter (\<lambda>p. p \<notin> set as) cs = []) ScopeViolationError))"

definition checkMustChange :: "jsval \<Rightarrow> jsval \<Rightarrow> unit result" where
  "checkMustChange changed must =
     rbind (normalizeAll changed) (\<lambda>cs.
     rbind (normalizeAll must) (\<lambda>ms.
     need (filter (\<lambda>p. p \<notin> set cs) ms = []) ScopeViolationError))"

text \<open>An absent list of paths that must change is empty.\<close>

definition validateScope :: "jsval \<Rightarrow> jsval \<Rightarrow> jsval \<Rightarrow> unit result" where
  "validateScope changed allowed must =
     rbind (checkWriteScope changed allowed) (\<lambda>_.
     checkMustChange changed (case must of None \<Rightarrow> Some (JArr []) | Some m \<Rightarrow> Some m))"

section \<open>The base at the checkpoints\<close>

datatype checkpoint = PRE_SPAWN | POST_EXIT | PRE_EXTRACT | PRE_INTEGRATION

text \<open>\<open>aheadBehind\<close>: the counts only go into a message, but the command may fail.\<close>

definition words_of :: "string \<Rightarrow> string list" where
  "words_of s = (if s = [] then [[]] else filter (\<lambda>x. x \<noteq> []) (split_at trim_char s))"

definition count_text :: "string \<Rightarrow> bool" where
  "count_text s \<longleftrightarrow> list_all digit_char s"

definition aheadBehind :: "'w host \<Rightarrow> string \<Rightarrow> jsval \<Rightarrow> ('w, unit) git_act" where
  "aheadBehind h dir base =
     act_bind (assertFullSha base) (\<lambda>_.
     act_bind (git_text h dir [''rev-list'', ''--left-right'', ''--count'', js_string base @ ''...HEAD'']) (\<lambda>s.
     let parts = words_of (js_trim s) in
     demand (length parts = 2 \<and> list_all count_text parts) GitOperationError))"

definition check_head :: "'w host \<Rightarrow> string \<Rightarrow> jsval \<Rightarrow> ('w, string) git_act" where
  "check_head h dir base =
     act_bind (resolveHeadSha h dir) (\<lambda>head.
     if is_lit base head then act_of (Inr head)
     else act_bind (aheadBehind h dir base) (\<lambda>_. act_of (Inl BaseMismatchError)))"

definition check_spawn :: "'w host \<Rightarrow> string \<Rightarrow> jsval \<Rightarrow> jsval \<Rightarrow> ('w, unit) git_act" where
  "check_spawn h repo base serial =
     act_bind (commitExists h repo (js_string base)) (\<lambda>ok.
     act_bind (demand ok BaseMismatchError) (\<lambda>_.
     act_bind (resolveCommitSha h repo (js_string base)) (\<lambda>resolved.
     act_bind (demand (is_lit base resolved) BaseMismatchError) (\<lambda>_.
     demand (serial = None \<or> serial = base) BaseMismatchError))))"

definition check_integration :: "'w host \<Rightarrow> string \<Rightarrow> string option \<Rightarrow> jsval \<Rightarrow> ('w, unit) git_act" where
  "check_integration h repo dir base =
     act_bind (resolveHeadSha h repo) (\<lambda>parent.
     act_bind (case dir of None \<Rightarrow> act_of (Inr None)
       | Some d \<Rightarrow> act_bind (resolveHeadSha h d) (\<lambda>head. act_of (Inr (Some head)))) (\<lambda>tree.
     demand (is_lit base parent \<and> (case tree of None \<Rightarrow> True | Some head \<Rightarrow> is_lit base head)) BaseMismatchError))"

text \<open>A worktree directory that is not given is the current one.\<close>

definition the_dir :: "string option \<Rightarrow> string" where
  "the_dir d = (case d of None \<Rightarrow> ''.'' | Some p \<Rightarrow> p)"

definition validateBaseAtCheckpoint ::
    "'w host \<Rightarrow> string \<Rightarrow> string option \<Rightarrow> jsval \<Rightarrow> checkpoint \<Rightarrow> jsval \<Rightarrow> ('w, unit) git_act" where
  "validateBaseAtCheckpoint h repo dir base point serial =
     act_bind (assertFullSha base) (\<lambda>_.
     act_bind (if serial = None then act_of (Inr ()) else assertFullSha serial) (\<lambda>_.
     case point of
       PRE_SPAWN \<Rightarrow> check_spawn h repo base serial
     | POST_EXIT \<Rightarrow> act_bind (check_head h (the_dir dir) base) (\<lambda>_. act_of (Inr ()))
     | PRE_EXTRACT \<Rightarrow> act_bind (check_head h (the_dir dir) base) (\<lambda>_. act_of (Inr ()))
     | PRE_INTEGRATION \<Rightarrow> check_integration h repo dir base))"

text \<open>The base of the next unit is the head of the last accepted one.\<close>

definition nextSerialBase :: "jsval \<Rightarrow> jsval result" where
  "nextSerialBase unit =
     (if nullish unit then Inr None
      else rbind (need (full_sha (own ''headSha'' unit)) GitOperationError) (\<lambda>_. Inr (own ''headSha'' unit)))"

section \<open>The safety of the repository\<close>

definition FORBIDDEN_REFLOG_OPS :: "string list" where
  "FORBIDDEN_REFLOG_OPS = [''commit'', ''merge'', ''rebase'', ''pull'', ''cherry-pick'', ''reset'', ''clean'',
     ''push'', ''fetch'', ''am'', ''revert'']"

definition forbidden_reflog :: "string \<Rightarrow> bool" where
  "forbidden_reflog entry = re_test (seqs [Bound, words_i FORBIDDEN_REFLOG_OPS, Bound]) entry"

record snapshots =
  sn_refs :: "string list"
  sn_reflog :: "string list"
  sn_config :: "string list"
  sn_remotes :: "(string \<times> remote_snapshot) list"
  sn_parent :: parent_state

definition safe_remotes :: "remote_diff \<Rightarrow> bool" where
  "safe_remotes d \<longleftrightarrow> rd_unverifiable d = [] \<and> rd_added d = [] \<and> rd_removed d = [] \<and> rd_changed d = []"

definition checkWorkerSafety ::
    "digest_fun \<Rightarrow> 'w host \<Rightarrow> string \<Rightarrow> string \<Rightarrow> jsval \<Rightarrow> snapshots option \<Rightarrow> ('w, unit) git_act" where
  "checkWorkerSafety sha h repo dir base before =
     (case before of
        None \<Rightarrow> act_of (Inl WorktreeSafetyError)
      | Some sn \<Rightarrow>
          act_bind (resolveHeadSha h dir) (\<lambda>head.
          act_bind (demand (is_lit base head) WorktreeSafetyError) (\<lambda>_.
          act_bind (snapshotRefs h repo) (\<lambda>refs.
          act_bind (demand (same_lines (diffLineSnapshots (sn_refs sn) refs)) WorktreeSafetyError) (\<lambda>_.
          act_bind (snapshotReflog h dir) (\<lambda>reflog.
          act_bind (demand (filter forbidden_reflog (ld_added (diffLineSnapshots (sn_reflog sn) reflog)) = [])
            WorktreeSafetyError) (\<lambda>_.
          act_bind (snapshotConfig h repo) (\<lambda>config.
          act_bind (demand (same_lines (diffLineSnapshots (sn_config sn) config)) WorktreeSafetyError) (\<lambda>_.
          act_bind (snapshotRemotes h repo) (\<lambda>remotes.
          act_bind (demand (safe_remotes (diffRemoteSnapshots (sn_remotes sn) remotes)) WorktreeSafetyError) (\<lambda>_.
          act_bind (snapshotParentState sha h repo) (\<lambda>parent.
          demand (ps_head parent = ps_head (sn_parent sn) \<and> ps_porcelain parent = ps_porcelain (sn_parent sn) \<and>
            ps_content parent = ps_content (sn_parent sn)) WorktreeSafetyError))))))))))))"

text \<open>\<open>inspectWorkerExit\<close> of src/src/git/pipeline.mjs: the base first, then the safety.\<close>

definition inspectWorkerExit ::
    "digest_fun \<Rightarrow> 'w host \<Rightarrow> string \<Rightarrow> string \<Rightarrow> jsval \<Rightarrow> snapshots option \<Rightarrow> ('w, unit) git_act" where
  "inspectWorkerExit sha h repo dir base before =
     act_bind (validateBaseAtCheckpoint h repo (Some dir) base POST_EXIT None) (\<lambda>_.
     checkWorkerSafety sha h repo dir base before)"

end
