(* ===== verification/Patch_Evidence.thy ===== *)
theory Patch_Evidence
  imports Common_Schemas Git_Checks
begin

text \<open>
  The patch evidence, src/src/evidence/patch: its record (schema.mjs), the results of validations
  attached to it (hooks.mjs), the content-addressed store of artifacts and records (store.mjs) and the
  collector (collector.mjs).  A file of the store is keyed by its name without the suffix; nothing
  but the controller writes there.
\<close>

section \<open>Records\<close>

definition validatePatchEvidence :: "json \<Rightarrow> issue list result" where
  "validatePatchEvidence v = validate_against_schema lcim_regexps v PATCH_EVIDENCE_SCHEMA"

definition patch_id_of :: "string \<Rightarrow> string" where
  "patch_id_of hash = ''lcim_patch_'' @ take 32 hash"

definition derived_id :: "jsval \<Rightarrow> bool" where
  "derived_id data =
     (case (own ''patchId'' data, own ''patchHash'' data) of
        (Some (JStr i), Some (JStr x)) \<Rightarrow> i = patch_id_of x
      | _ \<Rightarrow> True)"

definition stampPatchEvidence :: "jsval \<Rightarrow> json result" where
  "stampPatchEvidence data =
     rbind (need (plain_object data) EvidenceError) (\<lambda>_.
     rbind (need (derived_id data) EvidenceError) (\<lambda>_.
     let rec = JObj (put ''schemaVersion'' (JStr ''2.0.0'') (put ''schemaName'' (JStr ''lcim.patch-evidence'') (spread data))) in
     rbind (validatePatchEvidence rec) (\<lambda>es.
     rbind (need (es = []) EvidenceError) (\<lambda>_. Inr rec))))"

definition VALIDATION_HOOK_KIND :: "string list" where
  "VALIDATION_HOOK_KIND = [''test'', ''secret-scan'']"

definition VALIDATION_HOOK_OUTCOME :: "string list" where
  "VALIDATION_HOOK_OUTCOME = [''PASS'', ''FAIL'', ''NOT_RUN'']"

definition hook_result :: "json \<Rightarrow> bool" where
  "hook_result r \<longleftrightarrow> is_obj r \<and> one_of VALIDATION_HOOK_KIND (own ''kind'' (Some r)) \<and>
     one_of VALIDATION_HOOK_OUTCOME (own ''outcome'' (Some r)) \<and> nonempty_string (own ''summary'' (Some r)) \<and>
     (own ''evidenceRef'' (Some r) = None \<or> nonempty_string (own ''evidenceRef'' (Some r)))"

definition attachValidationResults :: "json \<Rightarrow> jsval \<Rightarrow> json result" where
  "attachValidationResults rec results =
     rbind (need (is_lit (own ''schemaName'' (Some rec)) ''lcim.patch-evidence'') EvidenceError) (\<lambda>_.
     case results of
       Some (JArr rs) \<Rightarrow>
         rbind (each (\<lambda>r. need (hook_result r) EvidenceError) rs) (\<lambda>_.
         stampPatchEvidence (Some (JObj (put ''validationResults'' (JArr rs) (spread (Some rec))))))
     | _ \<Rightarrow> Inl EvidenceError)"

section \<open>The store\<close>

definition evidence_id :: "string \<Rightarrow> bool" where
  "evidence_id s = prefixed_hex ''lcim_ev_'' 32 s"

definition resolvePatchEvidenceDir :: "'w host \<Rightarrow> string \<Rightarrow> ('w, string) git_act" where
  "resolvePatchEvidenceDir h repo =
     act_bind (resolveGitCommonDir h repo) (\<lambda>c. act_of (Inr (path_join2 c ''lcim/evidence/patch'')))"

text \<open>The artifact: a file that exists must hold the bytes of its hash, and is left as it is.\<close>

definition publish_patch :: "digest_fun \<Rightarrow> string \<Rightarrow> jsval \<Rightarrow> string \<Rightarrow> evidence_store \<Rightarrow> evidence_store result" where
  "publish_patch sha i hash bytes es =
     (case map_of (es_patches es) i of
        Some old \<Rightarrow> (if is_lit hash (sha old) then Inr es else Inl EvidenceError)
      | None \<Rightarrow> Inr (es\<lparr>es_patches := put i bytes (es_patches es)\<rparr>))"

text \<open>The record: written once.\<close>

definition publish_record :: "string \<Rightarrow> json \<Rightarrow> evidence_store \<Rightarrow> evidence_store result" where
  "publish_record i rec es =
     (if map_of (es_records es) i = None then Inr (es\<lparr>es_records := put i (Some rec) (es_records es)\<rparr>)
      else Inl EvidenceError)"

definition on_evidence :: "(evidence_store \<Rightarrow> evidence_store result) \<Rightarrow> ('w, unit) git_act" where
  "on_evidence f = (\<lambda>w. case f (wd_evidence w) of
     Inl e \<Rightarrow> (Inl e, w) | Inr es \<Rightarrow> (Inr (), w\<lparr>wd_evidence := es\<rparr>))"

definition persistPatchEvidence ::
    "digest_fun \<Rightarrow> 'w host \<Rightarrow> string \<Rightarrow> json \<Rightarrow> string \<Rightarrow> ('w, unit) git_act" where
  "persistPatchEvidence sha h repo rec bytes =
     (let i = js_string (own ''evidenceId'' (Some rec)); p = js_string (own ''patchId'' (Some rec)) in
      act_bind (demand (is_obj rec) EvidenceError) (\<lambda>_.
      act_bind (demand (prefixed_hex ''lcim_patch_'' 32 p) EvidenceError) (\<lambda>_.
      act_bind (demand (evidence_id i) EvidenceError) (\<lambda>_.
      act_bind (demand (is_lit (own ''patchHash'' (Some rec)) (sha bytes)) EvidenceError) (\<lambda>_.
      act_bind (resolvePatchEvidenceDir h repo) (\<lambda>dir.
      act_bind (assertNoTrackedFilesUnder h dir repo) (\<lambda>_.
      act_bind (on_evidence (publish_patch sha p (own ''patchHash'' (Some rec)) bytes)) (\<lambda>_.
      on_evidence (publish_record i rec)))))))))"

text \<open>A record and its artifact, checked: \<open>loadPatchEvidence\<close> and the second half of \<open>resolveEvidenceRef\<close>.\<close>

definition read_evidence :: "digest_fun \<Rightarrow> evidence_store \<Rightarrow> string \<Rightarrow> (json \<times> string) result" where
  "read_evidence sha es i =
     (case Option.bind (map_of (es_records es) i) id of
        None \<Rightarrow> Inl EvidenceError
      | Some rec \<Rightarrow>
          rbind (validatePatchEvidence rec) (\<lambda>issues.
          rbind (need (issues = []) EvidenceError) (\<lambda>_.
          rbind (need (is_lit (own ''evidenceId'' (Some rec)) i) EvidenceError) (\<lambda>_.
          case map_of (es_patches es) (js_string (own ''patchId'' (Some rec))) of
            None \<Rightarrow> Inl EvidenceError
          | Some bytes \<Rightarrow>
              rbind (need (is_lit (own ''patchHash'' (Some rec)) (sha bytes)) EvidenceError) (\<lambda>_. Inr (rec, bytes))))))"

definition loadPatchEvidence :: "digest_fun \<Rightarrow> evidence_store \<Rightarrow> string \<Rightarrow> (json \<times> string) result" where
  "loadPatchEvidence sha es i =
     rbind (need (evidence_id i) EvidenceError) (\<lambda>_. read_evidence sha es i)"

text \<open>
  A reference is an id, or the path of a record in the store.  A path below a directory of the store
  names no file the program has written.
\<close>

definition record_name :: "string \<Rightarrow> string option" where
  "record_name b = (if drop (length b - 5) b = ''.json'' then Some (take (length b - 5) b) else None)"

definition evidence_ref :: "string \<Rightarrow> string \<Rightarrow> jsval \<Rightarrow> string result" where
  "evidence_ref cwd dir ref =
     (case ref of
        Some (JStr s) \<Rightarrow>
          if evidence_id s then Inr s
          else if s = [] then Inl EvidenceError
          else
            let p = abs_segs cwd s in
            if \<not> isPathWithin cwd dir s then Inl EvidenceError
            else (case record_name (if p = [] then [] else last p) of
                None \<Rightarrow> Inl EvidenceError
              | Some i \<Rightarrow> if evidence_id i \<and> p = abs_segs cwd dir @ [last p] then Inr i else Inl EvidenceError)
      | _ \<Rightarrow> Inl EvidenceError)"

definition resolveEvidenceRef ::
    "digest_fun \<Rightarrow> 'w host \<Rightarrow> string \<Rightarrow> jsval \<Rightarrow> ('w, string \<times> json) git_act" where
  "resolveEvidenceRef sha h repo ref =
     act_bind (resolvePatchEvidenceDir h repo) (\<lambda>dir.
     act_bind (act_of (evidence_ref (ho_cwd h) dir ref)) (\<lambda>i.
     act_bind (look wd_evidence) (\<lambda>es.
     act_of (rbind (read_evidence sha es i) (\<lambda>(rec, _). Inr (i, rec))))))"

section \<open>The collector\<close>

record name_status =
  ns_status :: char
  ns_path :: string
  ns_old :: "string option"

fun name_statuses :: "string list \<Rightarrow> name_status list" where
  "name_statuses [] = []"
| "name_statuses (s # parts) =
     (case s of
        [] \<Rightarrow> []
      | c # _ \<Rightarrow>
          if c = CHR ''R'' \<or> c = CHR ''C'' then
            (case parts of
               old # new # rest \<Rightarrow> \<lparr>ns_status = c, ns_path = new, ns_old = Some old\<rparr> # name_statuses rest
             | _ \<Rightarrow> [])
          else
            (case parts of
               p # rest \<Rightarrow> if p = [] then [] else \<lparr>ns_status = c, ns_path = p, ns_old = None\<rparr> # name_statuses rest
             | [] \<Rightarrow> []))"

definition parseNameStatus :: "string \<Rightarrow> name_status list" where
  "parseNameStatus out = name_statuses (split_at (\<lambda>c. c = CHR 0x00) out)"

definition sorted_set :: "string list \<Rightarrow> string list" where
  "sorted_set xs = sort (remdups xs)"

definition changed_paths :: "name_status list \<Rightarrow> string list" where
  "changed_paths es = sorted_set (concat (map (\<lambda>e. ns_path e # (case ns_old e of None \<Rightarrow> [] | Some p \<Rightarrow> [p])) es))"

definition added_paths :: "name_status list \<Rightarrow> string list" where
  "added_paths es = sorted_set (map ns_path (filter (\<lambda>e.
     ns_status e = CHR ''A'' \<or> ns_status e = CHR ''C'' \<or> ns_status e = CHR ''R'' \<and> ns_old e \<noteq> None) es))"

definition deleted_paths :: "name_status list \<Rightarrow> string list" where
  "deleted_paths es = sorted_set (concat (map (\<lambda>e.
     if ns_status e = CHR ''D'' then [ns_path e]
     else if ns_status e = CHR ''R'' then (case ns_old e of None \<Rightarrow> [] | Some p \<Rightarrow> [p]) else []) es))"

definition text_list :: "string list \<Rightarrow> json" where
  "text_list xs = JArr (map JStr xs)"

definition trim_end :: "string \<Rightarrow> string" where
  "trim_end s = rev (dropWhile trim_char (rev s))"

definition check_lines :: "git_out \<Rightarrow> string list" where
  "check_lines r = filter (\<lambda>l. l \<noteq> [])
     (map trim_end (split_at (\<lambda>c. c = CHR 0x0A) (go_stdout r) @ split_at (\<lambda>c. c = CHR 0x0A) (go_stderr r)))"

text \<open>What is stamped: the facts git reported and the digest of the patch.\<close>

definition evidence_fields ::
    "string \<Rightarrow> string \<Rightarrow> string \<Rightarrow> string \<Rightarrow> string \<Rightarrow> string \<Rightarrow> string \<Rightarrow> name_status list \<Rightarrow> git_out \<Rightarrow> json" where
  "evidence_fields now fresh hash unit tree base head es chk =
     JObj [(''evidenceId'', JStr fresh), (''patchId'', JStr (patch_id_of hash)), (''workUnitId'', JStr unit),
       (''worktreeId'', JStr tree), (''baseSha'', JStr base), (''worktreeHead'', JStr head),
       (''changedPaths'', text_list (changed_paths es)), (''additions'', text_list (added_paths es)),
       (''deletions'', text_list (deleted_paths es)), (''patchHash'', JStr hash),
       (''diffCheck'', JObj [(''clean'', JBool (go_status chk = Some 0)), (''errors'', text_list (check_lines chk))]),
       (''createdAt'', JStr now)]"

definition with_results :: "jsval \<Rightarrow> json \<Rightarrow> json result" where
  "with_results results rec =
     (if case results of Some (JArr rs) \<Rightarrow> rs \<noteq> [] | Some (JStr s) \<Rightarrow> s \<noteq> [] | _ \<Rightarrow> False
      then attachValidationResults rec results else Inr rec)"

definition collectPatchEvidence ::
    "digest_fun \<Rightarrow> string \<Rightarrow> string \<Rightarrow> 'w host \<Rightarrow> string \<Rightarrow> string \<Rightarrow> string \<Rightarrow> string \<Rightarrow> jsval
      \<Rightarrow> ('w, json \<times> string) git_act" where
  "collectPatchEvidence sha now fresh h dir base unit tree results =
     act_bind (assertFullSha (Some (JStr base))) (\<lambda>_.
     act_bind (demand (prefixed_hex ''lcim_wu_'' 32 unit) (ConfigError ''invalid work unit id'')) (\<lambda>_.
     act_bind (demand (prefixed_hex ''lcim_wt_'' 32 tree) (ConfigError ''invalid worktree id'')) (\<lambda>_.
     act_bind (resolveHeadSha h dir) (\<lambda>head.
     act_bind (demand (head = base) BaseMismatchError) (\<lambda>_.
     act_bind (git_text h dir [''ls-files'', ''--others'', ''--exclude-standard'', ''-z'']) (\<lambda>others.
     let untracked = parts_of others in
     act_bind (if untracked = [] then act_of (Inr [])
       else git_text h dir ([''add'', ''-N'', ''--''] @ untracked)) (\<lambda>_.
     act_bind (git_text h dir [''diff'', ''--name-status'', ''-z'', ''--no-renames'', base]) (\<lambda>statuses.
     act_bind (git_text h dir [''-c'', ''core.quotepath=false'', ''diff'', ''--no-ext-diff'', ''--no-textconv'',
       ''--full-index'', ''--binary'', ''--no-renames'', base]) (\<lambda>bytes.
     act_bind (run_git h True dir [''diff'', ''--check'', base]) (\<lambda>chk.
     act_bind (act_of (stampPatchEvidence (Some
       (evidence_fields now fresh (sha bytes) unit tree base head (parseNameStatus statuses) chk)))) (\<lambda>rec.
     act_bind (act_of (with_results results rec)) (\<lambda>rec.
     act_of (Inr (rec, bytes))))))))))))))"

section \<open>The pipeline\<close>

text \<open>
  \<open>collectAndPersistEvidence\<close> of src/src/git/pipeline.mjs: the evidence is persisted before the scope
  is judged.  An absent list of paths that must change is empty.
\<close>

definition scope_of :: "json \<Rightarrow> jsval \<Rightarrow> jsval \<Rightarrow> unit result" where
  "scope_of rec allowed must =
     (case allowed of
        Some (JArr _) \<Rightarrow> validateScope (own ''changedPaths'' (Some rec)) allowed must
      | _ \<Rightarrow> Inl ScopeViolationError)"

definition collectAndPersistEvidence ::
    "digest_fun \<Rightarrow> string \<Rightarrow> string \<Rightarrow> 'w host \<Rightarrow> string \<Rightarrow> string \<Rightarrow> string \<Rightarrow> string \<Rightarrow> string \<Rightarrow> jsval \<Rightarrow> jsval \<Rightarrow> jsval
      \<Rightarrow> ('w, json) git_act" where
  "collectAndPersistEvidence sha now fresh h repo dir base unit tree allowed must results =
     act_bind (validateBaseAtCheckpoint h repo (Some dir) (Some (JStr base)) PRE_EXTRACT None) (\<lambda>_.
     act_bind (collectPatchEvidence sha now fresh h dir base unit tree results) (\<lambda>(rec, bytes).
     act_bind (persistPatchEvidence sha h repo rec bytes) (\<lambda>_.
     act_bind (act_of (scope_of rec allowed must)) (\<lambda>_. act_of (Inr rec)))))"

definition validateIntegrationHandoff :: "'w host \<Rightarrow> string \<Rightarrow> string option \<Rightarrow> jsval \<Rightarrow> ('w, unit) git_act" where
  "validateIntegrationHandoff h repo dir base = validateBaseAtCheckpoint h repo dir base PRE_INTEGRATION None"

end
