(* ===== verification/Worktree_Registry.thy ===== *)
theory Worktree_Registry
  imports Patch_Evidence
begin

text \<open>
  The registry of worktrees, src/src/git/worktree-registry.mjs: an append-only file of events, each
  strictly validated, whose sequence for one worktree is CREATED and then at most one REMOVED.  The
  registry lock makes every operation one step and is not modelled itself.
\<close>

section \<open>Events\<close>

definition EVENT_KEYS :: "string list" where
  "EVENT_KEYS = [''worktreeId'', ''workUnitId'', ''worktreePath'', ''baseSha'', ''event'', ''at'', ''evidenceRefs'',
     ''pruned'', ''markerId'']"

definition WORKTREE_EVENT :: "string list" where
  "WORKTREE_EVENT = [''CREATED'', ''REMOVED'']"

definition text_such :: "(string \<Rightarrow> bool) \<Rightarrow> jsval \<Rightarrow> bool" where
  "text_such P v = (case v of Some (JStr s) \<Rightarrow> P s | _ \<Rightarrow> False)"

definition isValidWorktreeId :: "jsval \<Rightarrow> bool" where
  "isValidWorktreeId v = text_such (prefixed_hex ''lcim_wt_'' 32) v"

definition isValidOwnershipMarkerId :: "jsval \<Rightarrow> bool" where
  "isValidOwnershipMarkerId v = text_such (prefixed_hex ''lcim_mk_'' 32) v"

definition text_refs :: "jsval \<Rightarrow> bool" where
  "text_refs v = (case v of
     None \<Rightarrow> True | Some (JArr rs) \<Rightarrow> list_all (\<lambda>r. nonempty_string (Some r)) rs | _ \<Rightarrow> False)"

definition optional_bool :: "jsval \<Rightarrow> bool" where
  "optional_bool v = (case v of None \<Rightarrow> True | Some b \<Rightarrow> is_bool b)"

text \<open>\<open>validateWorktreeEvent\<close>: every failed check is a \<open>WorktreeSafetyError\<close>.\<close>

definition worktree_event :: "json \<Rightarrow> bool" where
  "worktree_event e \<longleftrightarrow> is_obj e \<and> list_all (\<lambda>k. k \<in> set EVENT_KEYS) (own_keys e) \<and>
     isValidWorktreeId (own ''worktreeId'' (Some e)) \<and>
     one_of WORKTREE_EVENT (own ''event'' (Some e)) \<and>
     isValidId ''work-unit'' (own ''workUnitId'' (Some e)) \<and>
     text_such posix_absolute (own ''worktreePath'' (Some e)) \<and>
     full_sha (own ''baseSha'' (Some e)) \<and>
     text_such timestamp_text (own ''at'' (Some e)) \<and>
     text_refs (own ''evidenceRefs'' (Some e)) \<and>
     optional_bool (own ''pruned'' (Some e)) \<and>
     (own ''markerId'' (Some e) = None \<or> isValidOwnershipMarkerId (own ''markerId'' (Some e)))"

definition validateWorktreeEvent :: "json \<Rightarrow> json result" where
  "validateWorktreeEvent e = rbind (need (worktree_event e) WorktreeSafetyError) (\<lambda>_. Inr e)"

definition tree_id :: "json \<Rightarrow> jsval" where
  "tree_id e = own ''worktreeId'' (Some e)"

definition created :: "json \<Rightarrow> bool" where
  "created e \<longleftrightarrow> is_lit (own ''event'' (Some e)) ''CREATED''"

text \<open>The events of one worktree so far, and whether one more is possible.\<close>

definition sequence_of :: "json list \<Rightarrow> jsval \<Rightarrow> bool list" where
  "sequence_of es i = map created (filter (\<lambda>e. tree_id e = i) es)"

definition possible :: "json list \<Rightarrow> json \<Rightarrow> bool" where
  "possible es e \<longleftrightarrow> (if created e then sequence_of es (tree_id e) = [] else sequence_of es (tree_id e) = [True])"

fun transitions_from :: "json list \<Rightarrow> json list \<Rightarrow> bool" where
  "transitions_from es [] \<longleftrightarrow> True"
| "transitions_from es (e # rest) \<longleftrightarrow> possible es e \<and> transitions_from (es @ [e]) rest"

definition assertValidRegistryTransitions :: "json list \<Rightarrow> json list result" where
  "assertValidRegistryTransitions es =
     rbind (need (transitions_from [] es) WorktreeSafetyError) (\<lambda>_. Inr es)"

section \<open>Reading\<close>

definition parsed_event :: "json option \<Rightarrow> json result" where
  "parsed_event line = (case line of None \<Rightarrow> Inl WorktreeSafetyError | Some v \<Rightarrow> validateWorktreeEvent v)"

definition registry_events :: "json option list \<Rightarrow> json list result" where
  "registry_events lines = rbind (map_result parsed_event lines) assertValidRegistryTransitions"

text \<open>The records whose latest event is CREATED, in the order of their first events.\<close>

definition latest :: "json list \<Rightarrow> jsval \<Rightarrow> json" where
  "latest es i = last (filter (\<lambda>e. tree_id e = i) es)"

definition active_records :: "json list \<Rightarrow> json list" where
  "active_records es = filter created (map (latest es) (uniq (map tree_id es)))"

text \<open>The lock: its directory must hold no tracked file.\<close>

definition with_registry :: "'w host \<Rightarrow> string \<Rightarrow> ('w, 'a) git_act \<Rightarrow> ('w, 'a) git_act" where
  "with_registry h repo m =
     act_bind (resolveGitCommonDir h repo) (\<lambda>c.
     act_bind (assertNoTrackedFilesUnder h (path_join2 c ''lcim/worktrees'') repo) (\<lambda>_. m))"

text \<open>The file is resolved once more inside the lock.\<close>

definition load_events :: "'w host \<Rightarrow> string \<Rightarrow> ('w, json list) git_act" where
  "load_events h repo =
     act_bind (resolveGitCommonDir h repo) (\<lambda>_. (\<lambda>w. (registry_events (wd_registry w), w)))"

definition loadWorktreeEvents :: "'w host \<Rightarrow> string \<Rightarrow> ('w, json list) git_act" where
  "loadWorktreeEvents h repo = with_registry h repo (load_events h repo)"

definition activeWorktreeRecords :: "'w host \<Rightarrow> string \<Rightarrow> ('w, json list) git_act" where
  "activeWorktreeRecords h repo =
     with_registry h repo (act_bind (load_events h repo) (\<lambda>es. act_of (Inr (active_records es))))"

definition findCreatedWorktree :: "'w host \<Rightarrow> string \<Rightarrow> jsval \<Rightarrow> ('w, json option) git_act" where
  "findCreatedWorktree h repo i =
     act_bind (demand (isValidWorktreeId i) WorktreeSafetyError) (\<lambda>_.
     act_bind (activeWorktreeRecords h repo) (\<lambda>rs. act_of (Inr (find (\<lambda>r. tree_id r = i) rs))))"

section \<open>Writing\<close>

definition tree_path :: "json \<Rightarrow> string" where
  "tree_path e = js_string (own ''worktreePath'' (Some e))"

definition claims :: "'w host \<Rightarrow> 'w \<Rightarrow> string \<Rightarrow> json \<Rightarrow> bool" where
  "claims h x target r \<longleftrightarrow> normalizePath h x (tree_path r) = target"

text \<open>The line of an event; \<open>extra\<close> are its optional fields.\<close>

definition event_line :: "string \<Rightarrow> string \<Rightarrow> json \<Rightarrow> json \<Rightarrow> string \<Rightarrow> json \<Rightarrow> string \<Rightarrow> (string \<times> json) list \<Rightarrow> json" where
  "event_line cwd now i unit p base ev extra =
     JObj (fold (\<lambda>(k, v). put k v) extra
       [(''worktreeId'', i), (''workUnitId'', unit), (''worktreePath'', JStr (path_resolve cwd p)), (''baseSha'', base),
        (''event'', JStr ev), (''at'', JStr now)])"

definition claimant_guard :: "'w host \<Rightarrow> json \<Rightarrow> json list \<Rightarrow> ('w, unit) git_act" where
  "claimant_guard h line es =
     act_bind (look (\<lambda>w. find (claims h (wd_host w) (normalizePath h (wd_host w) (tree_path line))) (active_records es)))
       (\<lambda>r. demand (case r of None \<Rightarrow> True | Some r \<Rightarrow> tree_id r = tree_id line) WorktreeSafetyError)"

definition append_event :: "json \<Rightarrow> ('w, unit) git_act" where
  "append_event line = (\<lambda>w. (Inr (), w\<lparr>wd_registry := wd_registry w @ [Some line]\<rparr>))"

definition recordWorktreeEvent :: "'w host \<Rightarrow> string \<Rightarrow> json \<Rightarrow> ('w, unit) git_act" where
  "recordWorktreeEvent h repo line =
     act_bind (resolveGitCommonDir h repo) (\<lambda>_.
     act_bind (act_of (validateWorktreeEvent line)) (\<lambda>_.
     with_registry h repo (
       act_bind (load_events h repo) (\<lambda>es.
       act_bind (act_of (assertValidRegistryTransitions (es @ [line]))) (\<lambda>_.
       act_bind (if created line then claimant_guard h line es else act_of (Inr ())) (\<lambda>_.
       append_event line))))))"

definition assertWorktreePathNotClaimed :: "'w host \<Rightarrow> string \<Rightarrow> string \<Rightarrow> ('w, unit) git_act" where
  "assertWorktreePathNotClaimed h repo target =
     with_registry h repo (
       act_bind (load_events h repo) (\<lambda>es.
       act_bind (look (\<lambda>w. find (claims h (wd_host w) (normalizePath h (wd_host w) target)) (active_records es))) (\<lambda>r.
       demand (r = None) WorktreeSafetyError)))"

end
