(* ===== verification/Worktree_Ownership.thy ===== *)
theory Worktree_Ownership
  imports Worktree_Registry Json_Parse
begin

text \<open>
  The ownership marker of a worktree, src/src/git/worktree-ownership.mjs: a file the controller writes
  into the Git admin directory of a worktree it created.  The admin directory is derived from what
  git itself wrote, from the checkout when it exists and from the repository when it is gone.
\<close>

section \<open>Markers\<close>

definition MARKER_KEYS :: "string list" where
  "MARKER_KEYS = [''schemaName'', ''schemaVersion'', ''markerId'', ''worktreeId'', ''workUnitId'', ''worktreePath'',
     ''baseSha'', ''createdAt'']"

definition ownership_marker :: "json \<Rightarrow> bool" where
  "ownership_marker m \<longleftrightarrow> is_obj m \<and> list_all (\<lambda>k. k \<in> set MARKER_KEYS) (own_keys m) \<and>
     is_lit (own ''schemaName'' (Some m)) ''lcim.worktree-ownership-marker'' \<and>
     is_lit (own ''schemaVersion'' (Some m)) ''1.0.0'' \<and>
     isValidOwnershipMarkerId (own ''markerId'' (Some m)) \<and>
     isValidWorktreeId (own ''worktreeId'' (Some m)) \<and>
     text_such (prefixed_hex ''lcim_wu_'' 32) (own ''workUnitId'' (Some m)) \<and>
     text_such posix_absolute (own ''worktreePath'' (Some m)) \<and>
     full_sha (own ''baseSha'' (Some m)) \<and>
     text_such timestamp_text (own ''createdAt'' (Some m))"

definition parseWorktreeOwnershipMarker :: "string \<Rightarrow> json result" where
  "parseWorktreeOwnershipMarker text =
     (case json_parse text of
        None \<Rightarrow> Inl WorktreeSafetyError
      | Some m \<Rightarrow> rbind (need (ownership_marker m) WorktreeSafetyError) (\<lambda>_. Inr m))"

definition marker_of :: "string \<Rightarrow> string \<Rightarrow> string \<Rightarrow> string \<Rightarrow> string \<Rightarrow> string \<Rightarrow> json" where
  "marker_of now fresh tree unit p base =
     JObj [(''schemaName'', JStr ''lcim.worktree-ownership-marker''), (''schemaVersion'', JStr ''1.0.0''),
       (''markerId'', JStr fresh), (''worktreeId'', JStr tree), (''workUnitId'', JStr unit),
       (''worktreePath'', JStr p), (''baseSha'', JStr base), (''createdAt'', JStr now)]"

text \<open>\<open>JSON.stringify(marker, null, 2)\<close> and a newline, for an object of scalars.\<close>

definition pretty_flat :: "(string \<times> json) list \<Rightarrow> string" where
  "pretty_flat kvs =
     ''{'' @ [CHR 0x0A] @
     join_with ('','' @ [CHR 0x0A]) (map (\<lambda>(k, v). ''  '' @ quote_string k @ '': '' @ json_stringify v) kvs) @
     [CHR 0x0A] @ ''}'' @ [CHR 0x0A]"

section \<open>The admin directory of an existing checkout\<close>

definition safe_catch :: "('w, 'a) git_act \<Rightarrow> ('w, 'a) git_act" where
  "safe_catch m = (\<lambda>w. case m w of (Inl _, w') \<Rightarrow> (Inl WorktreeSafetyError, w') | r \<Rightarrow> r)"

definition read_trimmed :: "'w host \<Rightarrow> string \<Rightarrow> ('w, string option) git_act" where
  "read_trimmed h p = look (\<lambda>w. map_option js_trim (ho_read h p (wd_host w)))"

definition norm_path :: "'w host \<Rightarrow> string \<Rightarrow> ('w, string) git_act" where
  "norm_path h p = look (\<lambda>w. normalizePath h (wd_host w) p)"

text \<open>A file of the admin directory \<open>admin\<close> must name the path \<open>wanted\<close>, up to links.\<close>

definition names_path :: "'w host \<Rightarrow> string \<Rightarrow> string \<Rightarrow> string \<Rightarrow> ('w, unit) git_act" where
  "names_path h admin file wanted =
     act_bind (read_trimmed h (path_join2 admin file)) (\<lambda>raw.
     case raw of
       None \<Rightarrow> act_of (Inl WorktreeSafetyError)
     | Some s \<Rightarrow>
         act_bind (norm_path h (path_resolve (path_resolve (ho_cwd h) admin) s)) (\<lambda>p.
         act_bind (norm_path h wanted) (\<lambda>q. demand (p = q) WorktreeSafetyError)))"

definition resolveWorktreeGitAdminDir :: "'w host \<Rightarrow> string \<Rightarrow> string \<Rightarrow> ('w, string) git_act" where
  "resolveWorktreeGitAdminDir h dir repo =
     act_bind (demand (dir \<noteq> []) WorktreeSafetyError) (\<lambda>_.
     act_bind (safe_catch (git_text h dir [''rev-parse'', ''--absolute-git-dir''])) (\<lambda>out.
     act_bind (demand (js_trim out \<noteq> []) WorktreeSafetyError) (\<lambda>_.
     act_bind (norm_path h (js_trim out)) (\<lambda>admin.
     act_bind (resolveGitCommonDir h repo) (\<lambda>c.
     act_bind (norm_path h admin) (\<lambda>a.
     act_bind (norm_path h c) (\<lambda>n.
     act_bind (demand (a \<noteq> n) WorktreeSafetyError) (\<lambda>_.
     act_bind (demand (isPathWithin (ho_cwd h) c admin) WorktreeSafetyError) (\<lambda>_.
     act_bind (names_path h admin ''commondir'' c) (\<lambda>_.
     act_bind (names_path h admin ''gitdir'' (path_join2 dir ''.git'')) (\<lambda>_.
     act_of (Inr admin))))))))))))"

section \<open>The admin directory of a checkout that is gone\<close>

text \<open>\<open>canonicalizePath\<close>: the real path of the nearest ancestor that exists, and the missing names.\<close>

fun canonical_from :: "'w host \<Rightarrow> 'w \<Rightarrow> string list \<Rightarrow> string list \<Rightarrow> string option" where
  "canonical_from h x [] missing =
     map_option (\<lambda>r. foldl path_join2 r missing) (ho_real h ''/'' x)"
| "canonical_from h x (s # up) missing =
     (case ho_real h (path_of (rev (s # up))) x of
        Some r \<Rightarrow> Some (foldl path_join2 r missing)
      | None \<Rightarrow> canonical_from h x up (s # missing))"

definition canonicalizePath :: "'w host \<Rightarrow> 'w \<Rightarrow> string \<Rightarrow> string" where
  "canonicalizePath h x p =
     (let resolved = path_resolve (ho_cwd h) p in
      case ho_real h resolved x of
        Some r \<Rightarrow> r
      | None \<Rightarrow> (case canonical_from h x (rev (abs_segs (ho_cwd h) p)) [] of None \<Rightarrow> resolved | Some q \<Rightarrow> q))"

record listed =
  li_path :: string
  li_head :: "string option"

text \<open>The blocks between blank lines: \<open>split(/\n\n+/)\<close>, as groups of lines.\<close>

fun blocks :: "string list \<Rightarrow> string list list" where
  "blocks [] = [[]]"
| "blocks (l # ls) = (if l = [] then [] # blocks ls else (l # hd (blocks ls)) # tl (blocks ls))"

definition head_value :: "string \<Rightarrow> string option" where
  "head_value line =
     (let key = takeWhile (\<lambda>c. c \<noteq> CHR '' '') line in
      if key = ''HEAD'' then Some (js_trim (drop (Suc (length key)) line)) else None)"

definition listed_block :: "string list \<Rightarrow> listed option" where
  "listed_block ls =
     (case ls of
        [] \<Rightarrow> None
      | l # rest \<Rightarrow>
          if take 9 l = ''worktree ''
          then Some \<lparr>li_path = drop 9 l,
                     li_head = (case List.map_filter head_value rest of [] \<Rightarrow> None | vs \<Rightarrow> Some (last vs))\<rparr>
          else None)"

definition parseWorktreeListPorcelain :: "string \<Rightarrow> listed list" where
  "parseWorktreeListPorcelain out = List.map_filter listed_block (blocks (split_at (\<lambda>c. c = CHR 0x0A) out))"

definition adminDirIsForWorktree :: "'w host \<Rightarrow> 'w \<Rightarrow> string \<Rightarrow> string \<Rightarrow> string \<Rightarrow> bool" where
  "adminDirIsForWorktree h x c target candidate \<longleftrightarrow>
     (case (map_option js_trim (ho_read h (path_join2 candidate ''commondir'') x),
            map_option js_trim (ho_read h (path_join2 candidate ''gitdir'') x)) of
        (Some cd, Some gd) \<Rightarrow>
          canonicalizePath h x (path_resolve (path_resolve (ho_cwd h) candidate) cd) = c \<and>
          canonicalizePath h x (path_resolve (path_resolve (ho_cwd h) candidate) gd) = canonicalizePath h x (path_join2 target ''.git'')
      | _ \<Rightarrow> False)"

text \<open>Exactly one: zero and several are refused.\<close>

definition the_one :: "'a list \<Rightarrow> 'a result" where
  "the_one xs = (case xs of [x] \<Rightarrow> Inr x | _ \<Rightarrow> Inl WorktreeSafetyError)"

definition admin_dirs :: "'w host \<Rightarrow> 'w \<Rightarrow> string \<Rightarrow> string \<Rightarrow> string list" where
  "admin_dirs h x c target =
     (let d = path_join2 c ''worktrees'' in
      if ho_exists h d x
      then filter (adminDirIsForWorktree h x c target) (filter (\<lambda>p. ho_isdir h p x) (map (path_join2 d) (ho_names h d x)))
      else [])"

definition resolveStaleWorktreeGitAdminDir ::
    "'w host \<Rightarrow> string \<Rightarrow> string \<Rightarrow> ('w, string \<times> string \<times> string) git_act" where
  "resolveStaleWorktreeGitAdminDir h repo p =
     act_bind (demand (p \<noteq> []) WorktreeSafetyError) (\<lambda>_.
     act_bind (resolveGitCommonDir h repo) (\<lambda>c.
     act_bind (look (\<lambda>w. canonicalizePath h (wd_host w) p)) (\<lambda>target.
     act_bind (git_text h repo [''worktree'', ''list'', ''--porcelain'']) (\<lambda>out.
     act_bind (look (\<lambda>w. filter (\<lambda>e. canonicalizePath h (wd_host w) (li_path e) = target) (parseWorktreeListPorcelain out))) (\<lambda>found.
     act_bind (act_of (the_one found)) (\<lambda>entry.
     act_bind (look (\<lambda>w. admin_dirs h (wd_host w) c target)) (\<lambda>dirs.
     act_bind (act_of (the_one dirs)) (\<lambda>admin.
     act_bind (read_trimmed h (path_join2 admin ''HEAD'')) (\<lambda>head.
     case (head, li_head entry) of
       (Some a, Some r) \<Rightarrow>
         act_bind (demand (hex_text 40 a \<and> a = r) WorktreeSafetyError) (\<lambda>_. act_of (Inr (admin, target, r)))
     | _ \<Rightarrow> act_of (Inl WorktreeSafetyError))))))))))"

section \<open>Writing, reading and checking\<close>

definition OWNERSHIP_MARKER_FILE :: string where
  "OWNERSHIP_MARKER_FILE = ''lcim-ownership.json''"

definition createWorktreeOwnershipMarker ::
    "string \<Rightarrow> string \<Rightarrow> 'w host \<Rightarrow> string \<Rightarrow> string \<Rightarrow> string \<Rightarrow> string \<Rightarrow> string \<Rightarrow> ('w, unit) git_act" where
  "createWorktreeOwnershipMarker now fresh h dir repo tree unit base =
     act_bind (demand (prefixed_hex ''lcim_wt_'' 32 tree \<and> prefixed_hex ''lcim_wu_'' 32 unit \<and> hex_text 40 base)
       WorktreeSafetyError) (\<lambda>_.
     act_bind (resolveWorktreeGitAdminDir h dir repo) (\<lambda>admin.
     act_bind (norm_path h dir) (\<lambda>p. (\<lambda>w.
       case ho_create h (path_join2 admin OWNERSHIP_MARKER_FILE)
           (pretty_flat (spread (Some (marker_of now fresh tree unit p base)))) (wd_host w) of
         (ok, x) \<Rightarrow> (if ok then Inr () else Inl WorktreeSafetyError, w\<lparr>wd_host := x\<rparr>)))))"

definition read_marker :: "'w host \<Rightarrow> string \<Rightarrow> ('w, json) git_act" where
  "read_marker h admin = (\<lambda>w.
     case ho_read h (path_join2 admin OWNERSHIP_MARKER_FILE) (wd_host w) of
       None \<Rightarrow> (Inl WorktreeSafetyError, w)
     | Some text \<Rightarrow> (parseWorktreeOwnershipMarker text, w))"

text \<open>The marker binds to every identity of the record of the registry.\<close>

definition marker_binds :: "'w host \<Rightarrow> 'w \<Rightarrow> json \<Rightarrow> json \<Rightarrow> bool" where
  "marker_binds h x r m \<longleftrightarrow>
     own ''markerId'' (Some m) = own ''markerId'' (Some r) \<and>
     own ''worktreeId'' (Some m) = tree_id r \<and>
     own ''workUnitId'' (Some m) = own ''workUnitId'' (Some r) \<and>
     own ''baseSha'' (Some m) = own ''baseSha'' (Some r) \<and>
     normalizePath h x (tree_path m) = normalizePath h x (tree_path r)"

definition assertMarkerBindsToLifecycle :: "'w host \<Rightarrow> json \<Rightarrow> json \<Rightarrow> ('w, unit) git_act" where
  "assertMarkerBindsToLifecycle h r m =
     act_bind (look (\<lambda>w. marker_binds h (wd_host w) r m)) (\<lambda>ok. demand ok WorktreeSafetyError)"

definition verifyWorktreeOwnershipMarker :: "'w host \<Rightarrow> string \<Rightarrow> string \<Rightarrow> json \<Rightarrow> ('w, unit) git_act" where
  "verifyWorktreeOwnershipMarker h dir repo r =
     act_bind (resolveWorktreeGitAdminDir h dir repo) (\<lambda>admin.
     act_bind (read_marker h admin) (\<lambda>m. assertMarkerBindsToLifecycle h r m))"

definition verifyWorktreeOwnershipMarkerFromGitMetadata ::
    "'w host \<Rightarrow> string \<Rightarrow> string \<Rightarrow> json \<Rightarrow> ('w, string) git_act" where
  "verifyWorktreeOwnershipMarkerFromGitMetadata h repo p r =
     act_bind (resolveStaleWorktreeGitAdminDir h repo p) (\<lambda>(admin, target, head).
     act_bind (demand (is_lit (own ''baseSha'' (Some r)) head) WorktreeSafetyError) (\<lambda>_.
     act_bind (read_marker h admin) (\<lambda>m.
     act_bind (assertMarkerBindsToLifecycle h r m) (\<lambda>_. act_of (Inr target)))))"

end
