(* ===== verification/Worktree.thy ===== *)
theory Worktree
  imports Worktree_Ownership
begin

text \<open>
  The life of a worker's worktree, src/src/git/worktree.mjs: created detached at the expected base with
  a marker, a registry record and the snapshots of the repository, and removed only when the registry,
  git and the marker agree that the controller created it.
\<close>

section \<open>Creation\<close>

text \<open>What creation takes from its surroundings: the clock and fresh hexadecimal ids.\<close>

record creation =
  cr_now :: string
  cr_tree :: string
  cr_marker :: string

record worktree =
  wt_dir :: string
  wt_id :: string
  wt_unit :: string
  wt_base :: string
  wt_marker :: string
  wt_snapshots :: snapshots

definition worktree_name :: "string \<Rightarrow> bool" where
  "worktree_name s \<longleftrightarrow> s \<noteq> [] \<and> list_all (\<lambda>c. word_char c \<or> c = CHR ''.'' \<or> c = CHR ''-'') s"

definition take_snapshots :: "digest_fun \<Rightarrow> 'w host \<Rightarrow> string \<Rightarrow> string \<Rightarrow> ('w, snapshots) git_act" where
  "take_snapshots sha h repo dir =
     act_bind (snapshotRefs h repo) (\<lambda>refs.
     act_bind (snapshotReflog h dir) (\<lambda>reflog.
     act_bind (snapshotConfig h repo) (\<lambda>config.
     act_bind (snapshotRemotes h repo) (\<lambda>remotes.
     act_bind (snapshotParentState sha h repo) (\<lambda>parent.
     act_of (Inr \<lparr>sn_refs = refs, sn_reflog = reflog, sn_config = config, sn_remotes = remotes, sn_parent = parent\<rparr>))))))"

text \<open>The root of the worktrees, with its links resolved; it is made when it is missing.\<close>

definition real_root :: "'w host \<Rightarrow> string \<Rightarrow> ('w, string) git_act" where
  "real_root h root =
     act_bind (look (\<lambda>w. ho_real h (path_resolve (ho_cwd h) root) (wd_host w))) (\<lambda>r.
     case r of None \<Rightarrow> act_of (Inl (SystemError ''ENOENT'')) | Some p \<Rightarrow> act_of (Inr p))"

definition target_guards :: "'w host \<Rightarrow> string \<Rightarrow> string \<Rightarrow> string \<Rightarrow> ('w, unit) git_act" where
  "target_guards h repo root target =
     act_bind (demand (isPathWithin (ho_cwd h) root target) WorktreeSafetyError) (\<lambda>_.
     act_bind (git_text h repo [''rev-parse'', ''--show-toplevel'']) (\<lambda>out.
     act_bind (norm_path h (js_trim out)) (\<lambda>parent.
     act_bind (demand (\<not> isPathWithin (ho_cwd h) parent target) WorktreeSafetyError) (\<lambda>_.
     act_bind (look (\<lambda>w. ho_exists h target (wd_host w))) (\<lambda>there.
     act_bind (demand (\<not> there) WorktreeSafetyError) (\<lambda>_.
     assertWorktreePathNotClaimed h repo target))))))"

definition createIsolatedWorktree ::
    "digest_fun \<Rightarrow> creation \<Rightarrow> 'w host \<Rightarrow> string \<Rightarrow> string \<Rightarrow> string \<Rightarrow> string \<Rightarrow> string option \<Rightarrow> jsval
      \<Rightarrow> ('w, worktree) git_act" where
  "createIsolatedWorktree sha cr h repo root base unit name serial =
     (let i = ''lcim_wt_'' @ cr_tree cr; mk = ''lcim_mk_'' @ cr_marker cr in
      act_bind (assertFullSha (Some (JStr base))) (\<lambda>_.
      act_bind (demand (isValidId ''work-unit'' (Some (JStr unit))) (ConfigError ''invalid work unit id'')) (\<lambda>_.
      act_bind (demand (case name of None \<Rightarrow> True | Some n \<Rightarrow> worktree_name n) (ConfigError ''invalid worktreeName'')) (\<lambda>_.
      act_bind (validateBaseAtCheckpoint h repo None (Some (JStr base)) PRE_SPAWN serial) (\<lambda>_.
      act_bind (real_root h root) (\<lambda>real.
      let target = path_resolve real (case name of None \<Rightarrow> ''lcim-wt-'' @ cr_tree cr | Some n \<Rightarrow> n) in
      act_bind (target_guards h repo real target) (\<lambda>_.
      act_bind (git_text h repo [''worktree'', ''add'', ''--detach'', target, base]) (\<lambda>_.
      act_bind (resolveHeadSha h target) (\<lambda>head.
      act_bind (demand (head = base) WorktreeSafetyError) (\<lambda>_.
      act_bind (createWorktreeOwnershipMarker (cr_now cr) mk h target repo i unit base) (\<lambda>_.
      act_bind (recordWorktreeEvent h repo (event_line (ho_cwd h) (cr_now cr) (JStr i) (JStr unit) target (JStr base)
        ''CREATED'' [(''markerId'', JStr mk)])) (\<lambda>_.
      act_bind (take_snapshots sha h repo target) (\<lambda>sn.
      act_of (Inr \<lparr>wt_dir = target, wt_id = i, wt_unit = unit, wt_base = base, wt_marker = mk, wt_snapshots = sn\<rparr>))))))))))))))"

section \<open>Removal\<close>

text \<open>The evidence of a worktree with uncommitted changes must belong to it.\<close>

definition evidence_matches :: "json \<Rightarrow> json \<Rightarrow> bool" where
  "evidence_matches r ev \<longleftrightarrow>
     own ''worktreeId'' (Some ev) = tree_id r \<and> own ''workUnitId'' (Some ev) = own ''workUnitId'' (Some r) \<and>
     own ''baseSha'' (Some ev) = own ''baseSha'' (Some r)"

definition verify_ref :: "digest_fun \<Rightarrow> 'w host \<Rightarrow> string \<Rightarrow> json \<Rightarrow> json \<Rightarrow> ('w, unit) git_act" where
  "verify_ref sha h repo r ref =
     act_bind (resolveEvidenceRef sha h repo (Some ref)) (\<lambda>(i, ev).
     demand (evidence_matches r ev) WorktreeSafetyError)"

definition verifyDirtyCleanupEvidence :: "digest_fun \<Rightarrow> 'w host \<Rightarrow> string \<Rightarrow> json \<Rightarrow> json list \<Rightarrow> ('w, unit) git_act" where
  "verifyDirtyCleanupEvidence sha h repo r refs =
     act_bind (demand (refs \<noteq> []) WorktreeSafetyError) (\<lambda>_.
     act_bind (act_map (verify_ref sha h repo r) refs) (\<lambda>_. act_of (Inr ())))"

definition same_path_guard :: "'w host \<Rightarrow> json \<Rightarrow> string option \<Rightarrow> ('w, unit) git_act" where
  "same_path_guard h r dir =
     (case dir of
        None \<Rightarrow> act_of (Inr ())
      | Some d \<Rightarrow> act_bind (look (\<lambda>w. normalizePath h (wd_host w) d = normalizePath h (wd_host w) (tree_path r)))
          (\<lambda>ok. demand ok WorktreeSafetyError))"

definition main_guard :: "'w host \<Rightarrow> string \<Rightarrow> json \<Rightarrow> ('w, unit) git_act" where
  "main_guard h repo r =
     act_bind (git_text h repo [''rev-parse'', ''--show-toplevel'']) (\<lambda>out.
     act_bind (norm_path h (js_trim out)) (\<lambda>top.
     act_bind (norm_path h (tree_path r)) (\<lambda>p. demand (p \<noteq> top) WorktreeSafetyError)))"

definition contention_guard :: "'w host \<Rightarrow> string \<Rightarrow> json \<Rightarrow> ('w, unit) git_act" where
  "contention_guard h repo r =
     act_bind (activeWorktreeRecords h repo) (\<lambda>rs.
     act_bind (look (\<lambda>w. filter (\<lambda>q. tree_id q \<noteq> tree_id r \<and>
         claims h (wd_host w) (normalizePath h (wd_host w) (tree_path r)) q) rs)) (\<lambda>others.
     demand (others = []) WorktreeSafetyError))"

definition removed_line :: "'w host \<Rightarrow> string \<Rightarrow> json \<Rightarrow> (string \<times> json) list \<Rightarrow> json" where
  "removed_line h now r extra =
     event_line (ho_cwd h) now (the (tree_id r)) (the (own ''workUnitId'' (Some r))) (tree_path r)
       (the (own ''baseSha'' (Some r))) ''REMOVED'' extra"

definition marker_field :: "json \<Rightarrow> string \<times> json" where
  "marker_field r = (''markerId'', the (own ''markerId'' (Some r)))"

text \<open>The checkout is gone: the marker is found through what the repository itself knows.\<close>

definition remove_stale :: "string \<Rightarrow> 'w host \<Rightarrow> string \<Rightarrow> json \<Rightarrow> json list \<Rightarrow> ('w, bool) git_act" where
  "remove_stale now h repo r refs =
     act_bind (demand (isValidOwnershipMarkerId (own ''markerId'' (Some r))) WorktreeSafetyError) (\<lambda>_.
     act_bind (verifyWorktreeOwnershipMarkerFromGitMetadata h repo (tree_path r) r) (\<lambda>canonical.
     act_bind (git_text h repo [''worktree'', ''remove'', ''--force'', canonical]) (\<lambda>_.
     act_bind (recordWorktreeEvent h repo
       (removed_line h now r [(''evidenceRefs'', JArr refs), (''pruned'', JBool True), marker_field r])) (\<lambda>_.
     act_of (Inr True)))))"

definition registered_guard :: "'w host \<Rightarrow> string \<Rightarrow> json \<Rightarrow> ('w, unit) git_act" where
  "registered_guard h repo r =
     act_bind (git_text h repo [''worktree'', ''list'', ''--porcelain'']) (\<lambda>out.
     act_bind (look (\<lambda>w. normalizePath h (wd_host w) (tree_path r) \<in>
       set (map (\<lambda>l. normalizePath h (wd_host w) (drop 9 l))
         (filter (\<lambda>l. take 9 l = ''worktree '') (split_at (\<lambda>c. c = CHR 0x0A) out))))) (\<lambda>ok.
     demand ok WorktreeSafetyError))"

definition remove_present :: "digest_fun \<Rightarrow> string \<Rightarrow> 'w host \<Rightarrow> string \<Rightarrow> json \<Rightarrow> json list \<Rightarrow> ('w, bool) git_act" where
  "remove_present sha now h repo r refs =
     act_bind (registered_guard h repo r) (\<lambda>_.
     act_bind (resolveHeadSha h (tree_path r)) (\<lambda>head.
     act_bind (demand (is_lit (own ''baseSha'' (Some r)) head) WorktreeSafetyError) (\<lambda>_.
     act_bind (isWorktreeClean h (tree_path r)) (\<lambda>clean.
     act_bind (if clean then act_of (Inr ()) else verifyDirtyCleanupEvidence sha h repo r refs) (\<lambda>_.
     act_bind (demand (isValidOwnershipMarkerId (own ''markerId'' (Some r))) WorktreeSafetyError) (\<lambda>_.
     act_bind (verifyWorktreeOwnershipMarker h (tree_path r) repo r) (\<lambda>_.
     act_bind (git_text h repo [''worktree'', ''remove'', ''--force'', tree_path r]) (\<lambda>_.
     act_bind (recordWorktreeEvent h repo (removed_line h now r [(''evidenceRefs'', JArr refs), marker_field r])) (\<lambda>_.
     act_of (Inr False))))))))))"

text \<open>The result says whether the registration was stale.\<close>

definition removeIsolatedWorktree ::
    "digest_fun \<Rightarrow> string \<Rightarrow> 'w host \<Rightarrow> string \<Rightarrow> jsval \<Rightarrow> string option \<Rightarrow> json list \<Rightarrow> ('w, bool) git_act" where
  "removeIsolatedWorktree sha now h repo i dir refs =
     act_bind (demand (\<not> nullish i) WorktreeSafetyError) (\<lambda>_.
     act_bind (findCreatedWorktree h repo i) (\<lambda>found.
     case found of
       None \<Rightarrow> act_of (Inl WorktreeSafetyError)
     | Some r \<Rightarrow>
         act_bind (same_path_guard h r dir) (\<lambda>_.
         act_bind (main_guard h repo r) (\<lambda>_.
         act_bind (contention_guard h repo r) (\<lambda>_.
         act_bind (look (\<lambda>w. ho_exists h (tree_path r) (wd_host w))) (\<lambda>there.
         if there then remove_present sha now h repo r refs else remove_stale now h repo r refs))))))"

end
