(* ===== verification/Git_Laws.thy ===== *)
theory Git_Laws
  imports Git_Checks
begin

text \<open>
  What the checks mean: a scope path that is accepted stays below the root and is its own normal form,
  the write scope is inclusion of sets, and a worker that passes the inspection has left refs,
  configuration, remotes and the parent worktree as they were.
\<close>

section \<open>Scope paths\<close>

lemma join_ups:
  "list_all (\<lambda>s. s = ''..'') ups \<Longrightarrow> ups \<noteq> [] \<Longrightarrow>
    join_path (ups @ names) = ''..'' \<or> take 3 (join_path (ups @ names)) = ''../''"
proof (induction ups)
  case (Cons u us)
  then show ?case
    by (cases "us @ names") auto
qed simp

lemma strip_slash_tail: "strip_slashes (s @ ''/'') = strip_slashes s"
  by (simp add: strip_slashes_def)

lemma strip_trail: "s \<noteq> [] \<Longrightarrow> last s \<noteq> CHR ''/'' \<Longrightarrow> strip_slashes (s @ (if b then ''/'' else [])) = s"
  by (simp add: strip_slash_tail strip_idle)

lemma no_slash_last: "s \<noteq> [] \<Longrightarrow> CHR ''/'' \<notin> set s \<Longrightarrow> last s \<noteq> CHR ''/''"
  by (metis last_in_set)

lemma join_last_stacked:
  assumes "list_all (\<lambda>s. s = ''..'') ups" "list_all proper names" "ups @ names \<noteq> []"
  shows "join_path (ups @ names) \<noteq> [] \<and> last (join_path (ups @ names)) \<noteq> CHR ''/''"
  using assms
proof (induction "ups @ names" arbitrary: ups rule: join_path.induct)
  case (2 s)
  then show ?case
    using no_slash_last [of s] by (cases ups) (auto simp: proper_def)
next
  case (3 s t ss)
  have rest: "join_path (t # ss) \<noteq> [] \<and> last (join_path (t # ss)) \<noteq> CHR ''/''"
  proof (cases ups)
    case Nil
    then have "list_all proper (t # ss)"
      using 3 by (metis append_Nil list.pred_inject(2))
    then show ?thesis
      using join_last [of "t # ss"] by simp
  next
    case (Cons u us)
    with \<open>s # t # ss = ups @ names\<close> have eq: "t # ss = us @ names"
      by simp
    have "list_all (\<lambda>s. s = ''..'') us"
      using "3.prems" Cons by simp
    then show ?thesis
      using "3.hyps"(1) [OF eq] "3.prems"(2) by (simp add: eq [symmetric])
  qed
  have "join_path (ups @ names) = s @ ''/'' @ join_path (t # ss)"
    by (simp only: \<open>s # t # ss = ups @ names\<close> [symmetric] join_path.simps)
  with rest show ?case by simp
qed simp

lemma normalized_scope:
  assumes "normalizeScopePath v = Inr n"
  shows "below_root n"
proof -
  obtain p where v: "v = Some (JStr p)" and p: "p \<noteq> []" "CHR 0x5C \<notin> set p" "\<not> posix_absolute p"
    and n: "n = strip_slashes (posix_normalize p)" "n \<noteq> ''.''" "n \<noteq> []" "n \<noteq> ''..''" "take 3 n \<noteq> ''../''"
    using assms by (cases v rule: normalizeScopePath.cases) (auto simp: Let_def split: if_splits)
  let ?ss = "resolve_segs True [] (segs p)"
  have "stacked (rev ?ss)"
    by (rule resolve_stacked) (auto simp: list_all_iff dest: segs_no_slash)
  then obtain names ups where "rev ?ss = names @ ups" and names: "list_all proper names" and ups: "list_all (\<lambda>s. s = ''..'') ups"
    by (auto simp: stacked_def)
  then have ss: "?ss = rev ups @ rev names"
    by (metis rev_append rev_rev_ident)
  have rev_ok: "list_all proper (rev names)" "list_all (\<lambda>s. s = ''..'') (rev ups)"
    using names ups by (simp_all add: list_all_iff)
  show ?thesis
  proof (cases "?ss = []")
    case True
    then have "posix_normalize p = ''.'' \<or> posix_normalize p = ''./''"
      using p by (simp add: posix_normalize_def Let_def)
    then have "n = ''.''"
      using n(1) by (auto simp: strip_slashes_def)
    with n show ?thesis by simp
  next
    case False
    let ?q = "join_path (rev ups @ rev names)"
    have q: "?q \<noteq> []" "last ?q \<noteq> CHR ''/''"
      using join_last_stacked [OF rev_ok(2,1)] False ss by auto
    have "posix_normalize p = ?q @ (if last p = CHR ''/'' then ''/'' else [])"
      using p q by (simp add: posix_normalize_def Let_def ss)
    then have nq: "n = ?q"
      using n(1) strip_trail [OF q] by simp
    have "rev ups = []"
    proof (rule ccontr)
      assume "rev ups \<noteq> []"
      from join_ups [OF rev_ok(2) this, of "rev names"] show False
        using n(4,5) unfolding nq by simp
    qed
    then show ?thesis
      using nq rev_ok False ss by (auto simp: below_root_iff)
  qed
qed

lemma below_scope: "below_root n \<Longrightarrow> CHR 0x5C \<notin> set n \<Longrightarrow> normalizeScopePath (Some (JStr n)) = Inr n"
proof -
  assume n: "below_root n" and bs: "CHR 0x5C \<notin> set n"
  note plain = below_root_plain [OF n]
  then have strip: "strip_slashes n = n"
    by (simp add: strip_idle)
  have segs: "list_all proper (segs n)"
    using n by (simp add: below_root_def)
  have dots: "n \<noteq> ''.''" "n \<noteq> ''..''"
    using segs by (auto simp: proper_def)
  have "take 3 n \<noteq> ''../''"
  proof
    assume "take 3 n = ''../''"
    then obtain r where "n = ''..'' @ ''/'' @ r"
      by (metis append_Cons append_Nil append_take_drop_id)
    then have "segs n = ''..'' # segs r"
      using segs_append [of "''..''" r] by simp
    with segs show False by (simp add: proper_def)
  qed
  with plain dots strip bs n show ?thesis
    by (simp add: Let_def)
qed

lemma normalize_chars: "c \<in> set (join_path ss) \<Longrightarrow> c = CHR ''/'' \<or> (\<exists>s \<in> set ss. c \<in> set s)"
  by (induction ss rule: join_path.induct) auto

lemma resolve_from: "s \<in> set (resolve_segs up st ss) \<Longrightarrow> s \<in> set st \<or> s \<in> set ss"
  by (induction up st ss rule: resolve_segs.induct) (auto split: if_splits list.splits)

lemma strip_set: "set (strip_slashes s) \<subseteq> set s"
  by (auto simp: strip_slashes_def dest: set_dropWhileD)

lemma join_chars: "s \<in> set ss \<Longrightarrow> c \<in> set s \<Longrightarrow> c \<in> set (join_path ss)"
  by (induction ss rule: join_path.induct) auto

lemma segs_chars: "s \<in> set (segs p) \<Longrightarrow> c \<in> set s \<Longrightarrow> c \<in> set p"
  using join_chars [of s "segs p" c] by simp

lemma posix_chars: "c \<in> set (posix_normalize p) \<Longrightarrow> c = CHR ''/'' \<or> c = CHR ''.'' \<or> c \<in> set p"
  by (auto simp: posix_normalize_def Let_def split: if_splits
      dest!: normalize_chars resolve_from dest: segs_chars)

text \<open>The normal form is normal.\<close>

lemma scope_idempotent:
  assumes "normalizeScopePath v = Inr n"
  shows "normalizeScopePath (Some (JStr n)) = Inr n"
proof (rule below_scope [OF normalized_scope [OF assms]])
  obtain p where "n = strip_slashes (posix_normalize p)" "CHR 0x5C \<notin> set p"
    using assms by (cases v rule: normalizeScopePath.cases) (auto simp: Let_def split: if_splits)
  then show "CHR 0x5C \<notin> set n"
    using strip_set [of "posix_normalize p"] posix_chars [of "CHR 0x5C" p] by auto
qed

section \<open>The scope rule\<close>

lemma map_result_Inr: "map_result f xs = Inr ys \<longleftrightarrow> list_all2 (\<lambda>x y. f x = Inr y) xs ys"
  by (induction xs arbitrary: ys) (auto simp: rbind_eq_Inr list_all2_Cons1)

lemma normalizeAll_below: "normalizeAll v = Inr ps \<Longrightarrow> list_all below_root ps"
proof -
  assume "normalizeAll v = Inr ps"
  then obtain vs where "list_all2 (\<lambda>x y. normalizeScopePath (Some x) = Inr y) vs ps"
    by (cases v rule: normalizeAll.cases) (auto simp: map_result_Inr)
  then show ?thesis
    by (induction vs ps rule: list_all2_induct) (auto intro: normalized_scope)
qed

lemma validateScope_iff:
  "validateScope changed allowed (Some must) = Inr () \<longleftrightarrow>
     (\<exists>cs as ms. normalizeAll changed = Inr cs \<and> normalizeAll allowed = Inr as \<and> normalizeAll (Some must) = Inr ms \<and>
       set ms \<subseteq> set cs \<and> set cs \<subseteq> set as)"
  by (auto simp: validateScope_def checkWriteScope_def checkMustChange_def rbind_eq_Inr need_eq_Inr filter_empty_conv)

section \<open>The inspection of a worker\<close>

text \<open>A value an action has returned at some moment.\<close>

definition observed :: "('s, 'a) action \<Rightarrow> 'a \<Rightarrow> bool" where
  "observed m x \<longleftrightarrow> (\<exists>s t. m s = (Inr x, t))"

lemma observedI: "m s = (Inr x, t) \<Longrightarrow> observed m x"
  by (auto simp: observed_def)

lemma demand_Inr [simp]: "demand b e s = (Inr x, t) \<longleftrightarrow> b \<and> t = s"
  by (auto simp: demand_def need_def)

text \<open>Every push-relevant URL was verifiable before and after, and advertises the same refs.\<close>

definition same_refs :: "remote_snapshot \<Rightarrow> remote_snapshot \<Rightarrow> bool" where
  "same_refs b a \<longleftrightarrow> rs_fetchUrl b = rs_fetchUrl a \<and> rs_pushUrls b = rs_pushUrls a \<and>
     rs_refs b \<noteq> [] \<and> rs_refs a \<noteq> [] \<and>
     (\<forall>u. (case (map_of (rs_refs b) u, map_of (rs_refs a) u) of
         (None, None) \<Rightarrow> True
       | (Some (Some xs), Some (Some ys)) \<Rightarrow> set xs = set ys
       | _ \<Rightarrow> False))"

definition same_remotes :: "(string \<times> remote_snapshot) list \<Rightarrow> (string \<times> remote_snapshot) list \<Rightarrow> bool" where
  "same_remotes old new \<longleftrightarrow>
     (\<forall>n. (case (map_of old n, map_of new n) of
         (None, None) \<Rightarrow> True | (Some b, Some a) \<Rightarrow> same_refs b a | _ \<Rightarrow> False))"

lemma set_uniq [simp]: "set (uniq xs) = set xs"
  by (simp add: uniq_def)

lemma verifiable_refs: "\<not> remoteUnverifiable r \<Longrightarrow> map_of (rs_refs r) u = Some x \<Longrightarrow> \<exists>xs. x = Some xs"
proof -
  assume "\<not> remoteUnverifiable r" and "map_of (rs_refs r) u = Some x"
  then have "(u, x) \<in> set (rs_refs r)" "\<forall>p \<in> set (rs_refs r). snd p \<noteq> None"
    by (auto simp: remoteUnverifiable_def list_ex_iff dest: map_of_SomeD)
  then show ?thesis by fastforce
qed

lemma url_same:
  assumes "\<not> url_changed (Option.bind b id) (Option.bind a id)" "b \<noteq> None \<or> a \<noteq> None"
    and "\<And>x. b = Some x \<Longrightarrow> \<exists>xs. x = Some xs" "\<And>x. a = Some x \<Longrightarrow> \<exists>xs. x = Some xs"
  shows "case (b, a) of (None, None) \<Rightarrow> True | (Some (Some xs), Some (Some ys)) \<Rightarrow> set xs = set ys | _ \<Rightarrow> False"
proof (cases b)
  case None
  with assms obtain ys where "a = Some (Some ys)" by blast
  with None assms(1) show ?thesis by (simp add: url_changed_def)
next
  case (Some x)
  with assms(3) obtain xs where b: "b = Some (Some xs)" by blast
  show ?thesis
  proof (cases a)
    case None
    with b assms(1) show ?thesis by (simp add: url_changed_def)
  next
    case (Some y)
    with assms(4) obtain ys where "a = Some (Some ys)" by blast
    with b assms(1) show ?thesis by (simp add: url_changed_def same_lines_iff)
  qed
qed

lemma unchanged_remote:
  assumes "\<not> remote_changed b a" "\<not> remoteUnverifiable b" "\<not> remoteUnverifiable a"
  shows "same_refs b a"
proof -
  have "case (map_of (rs_refs b) u, map_of (rs_refs a) u) of
      (None, None) \<Rightarrow> True | (Some (Some xs), Some (Some ys)) \<Rightarrow> set xs = set ys | _ \<Rightarrow> False" for u
  proof (cases "u \<in> fst ` set (rs_refs b) \<union> fst ` set (rs_refs a)")
    case False
    then have "map_of (rs_refs b) u = None" "map_of (rs_refs a) u = None"
      by (auto simp: map_of_eq_None_iff)
    then show ?thesis by simp
  next
    case True
    then have "\<not> url_changed (Option.bind (map_of (rs_refs b) u) id) (Option.bind (map_of (rs_refs a) u) id)"
      using assms(1) by (auto simp: remote_changed_def list_ex_iff)
    moreover have "map_of (rs_refs b) u \<noteq> None \<or> map_of (rs_refs a) u \<noteq> None"
      using True by (auto simp: map_of_eq_None_iff)
    ultimately show ?thesis
      by (rule url_same) (rule verifiable_refs [OF assms(2)] verifiable_refs [OF assms(3)], assumption)+
  qed
  then show ?thesis
    using assms by (auto simp: same_refs_def remote_changed_def remoteUnverifiable_def)
qed

lemma safe_remotes_same:
  assumes "safe_remotes (diffRemoteSnapshots old new)"
  shows "same_remotes old new"
proof -
  have "case (map_of old n, map_of new n) of
      (None, None) \<Rightarrow> True | (Some b, Some a) \<Rightarrow> same_refs b a | _ \<Rightarrow> False" for n
  proof (cases "n \<in> fst ` set old \<union> fst ` set new")
    case False
    then have "map_of old n = None" "map_of new n = None"
      by (auto simp: map_of_eq_None_iff)
    then show ?thesis by simp
  next
    case True
    then have "map_of old n \<noteq> None \<or> map_of new n \<noteq> None"
      by (auto simp: map_of_eq_None_iff)
    moreover note assms [unfolded safe_remotes_def diffRemoteSnapshots_def Let_def remote_diff.simps filter_empty_conv
        set_sort set_uniq set_append set_map, THEN conjunct1, THEN bspec, OF True]
      assms [unfolded safe_remotes_def diffRemoteSnapshots_def Let_def remote_diff.simps filter_empty_conv
        set_sort set_uniq set_append set_map, THEN conjunct2, THEN conjunct1, THEN bspec, OF True]
      assms [unfolded safe_remotes_def diffRemoteSnapshots_def Let_def remote_diff.simps filter_empty_conv
        set_sort set_uniq set_append set_map, THEN conjunct2, THEN conjunct2, THEN conjunct1, THEN bspec, OF True]
      assms [unfolded safe_remotes_def diffRemoteSnapshots_def Let_def remote_diff.simps filter_empty_conv
        set_sort set_uniq set_append set_map, THEN conjunct2, THEN conjunct2, THEN conjunct2, THEN bspec, OF True]
    ultimately show ?thesis
      by (auto simp: unchanged_remote split: option.splits)
  qed
  then show ?thesis
    by (simp add: same_remotes_def)
qed

lemma parent_eqI: "ps_head p = ps_head q \<Longrightarrow> ps_porcelain p = ps_porcelain q \<Longrightarrow> ps_content p = ps_content q \<Longrightarrow> p = (q :: parent_state)"
  by simp

end
