(* ===== verification/Evidence_Laws.thy ===== *)
theory Evidence_Laws
  imports Patch_Evidence Git_Laws
begin

text \<open>
  The store of patch evidence: it only grows, so what can be loaded stays what it is; and what the
  pipeline collects can be loaded again, also when it then refuses the scope.
\<close>

section \<open>Name and status\<close>

lemma split_at_app: "P c \<Longrightarrow> list_all (\<lambda>d. \<not> P d) s \<Longrightarrow> split_at P (s @ c # r) = s # split_at P r"
  by (induction s) (auto simp: Let_def)

definition nul_free :: "string \<Rightarrow> bool" where
  "nul_free s \<longleftrightarrow> list_all (\<lambda>c. c \<noteq> CHR 0x00) s"

text \<open>What \<open>git diff --name-status -z\<close> prints.\<close>

definition status_line :: "name_status \<Rightarrow> string" where
  "status_line e = ns_status e # CHR 0x00 #
     (case ns_old e of None \<Rightarrow> [] | Some p \<Rightarrow> p @ [CHR 0x00]) @ ns_path e @ [CHR 0x00]"

definition status_ok :: "name_status \<Rightarrow> bool" where
  "status_ok e \<longleftrightarrow> ns_status e \<noteq> CHR 0x00 \<and> nul_free (ns_path e) \<and>
     (if ns_status e = CHR ''R'' \<or> ns_status e = CHR ''C'' then (case ns_old e of None \<Rightarrow> False | Some p \<Rightarrow> nul_free p)
      else ns_old e = None \<and> ns_path e \<noteq> [])"

lemma split_parts: "nul_free s \<Longrightarrow> split_at (\<lambda>c. c = CHR 0x00) (s @ CHR 0x00 # r) = s # split_at (\<lambda>c. c = CHR 0x00) r"
  by (rule split_at_app) (simp_all add: nul_free_def)

lemma parse_status:
  assumes "status_ok e"
  shows "parseNameStatus (status_line e @ out) = e # parseNameStatus out"
proof -
  have one: "split_at (\<lambda>c. c = CHR 0x00) (c # CHR 0x00 # r) = [c] # split_at (\<lambda>c. c = CHR 0x00) r" if "c \<noteq> CHR 0x00" for c r
    using split_parts [of "[c]" r] that by (simp add: nul_free_def)
  show ?thesis
  proof (cases "ns_old e")
    case None
    with assms show ?thesis
      by (cases e) (auto simp: status_ok_def status_line_def parseNameStatus_def one split_parts split: if_splits)
  next
    case (Some p)
    with assms show ?thesis
      by (cases e) (auto simp: status_ok_def status_line_def parseNameStatus_def one split_parts split: if_splits)
  qed
qed

lemma parse_statuses: "list_all status_ok es \<Longrightarrow> parseNameStatus (concat (map status_line es)) = es"
  by (induction es) (simp_all add: parse_status, simp add: parseNameStatus_def)

section \<open>The store only grows\<close>

definition store_grows :: "evidence_store \<Rightarrow> evidence_store \<Rightarrow> bool" where
  "store_grows s t \<longleftrightarrow>
     map_of (es_patches s) \<subseteq>\<^sub>m map_of (es_patches t) \<and> map_of (es_records s) \<subseteq>\<^sub>m map_of (es_records t)"

lemma store_grows_refl [simp]: "store_grows s s"
  by (simp add: store_grows_def)

lemma store_grows_trans: "store_grows s t \<Longrightarrow> store_grows t u \<Longrightarrow> store_grows s u"
  unfolding store_grows_def by (blast intro: map_le_trans)

lemma fresh_key: "map_of xs i = None \<Longrightarrow> map_of xs \<subseteq>\<^sub>m map_of (put i v xs)"
  by (auto simp: map_le_def)

lemma publish_patch_grows: "publish_patch sha i hash bytes s = Inr t \<Longrightarrow> store_grows s t"
  by (auto simp: publish_patch_def store_grows_def fresh_key split: option.splits if_splits)

lemma publish_record_grows: "publish_record i rec s = Inr t \<Longrightarrow> store_grows s t"
  by (auto simp: publish_record_def store_grows_def fresh_key split: if_splits)

lemma read_grows:
  assumes "read_evidence sha s i = Inr x" "store_grows s t"
  shows "read_evidence sha t i = Inr x"
proof -
  obtain rec where rec: "map_of (es_records s) i = Some (Some rec)" and bytes: "map_of (es_patches s) (js_string (own ''patchId'' (Some rec))) \<noteq> None"
    using assms(1) by (auto simp: read_evidence_def rbind_eq_Inr bind_eq_Some_conv split: option.splits)
  have "map_of (es_records t) i = map_of (es_records s) i"
    "map_of (es_patches t) (js_string (own ''patchId'' (Some rec))) = map_of (es_patches s) (js_string (own ''patchId'' (Some rec)))"
    using assms(2) rec bytes by (auto simp: store_grows_def map_le_def dom_def)
  then show ?thesis
    using assms(1) rec by (simp add: read_evidence_def)
qed

definition evidence_grows :: "'w world \<Rightarrow> 'w world \<Rightarrow> bool" where
  "evidence_grows w w' \<longleftrightarrow> store_grows (wd_evidence w) (wd_evidence w')"

interpretation ev_grow: store_relation evidence_grows
  by unfold_locales (auto simp: evidence_grows_def intro: store_grows_trans)

section \<open>The registry and the store are only changed by their own operations\<close>

text \<open>
  No command that removes a worktree is run, the files of the program stay as they are, and the
  host is what the commands that were run since have made of it.
\<close>

definition removal :: "string \<times> string list \<Rightarrow> bool" where
  "removal c \<longleftrightarrow> take 2 (snd c) = [''worktree'', ''remove'']"

fun replay :: "'w host \<Rightarrow> (string \<times> string list) list \<Rightarrow> 'w \<Rightarrow> 'w" where
  "replay h [] x = x"
| "replay h ((cwd, args) # cs) x = replay h cs (snd (ho_git h cwd args x))"

lemma replay_append [simp]: "replay h (cs @ ds) x = replay h ds (replay h cs x)"
  by (induction h cs x rule: replay.induct) simp_all

definition left_alone :: "'w host \<Rightarrow> 'w world \<Rightarrow> 'w world \<Rightarrow> bool" where
  "left_alone h w w' \<longleftrightarrow> wd_registry w' = wd_registry w \<and> wd_evidence w' = wd_evidence w \<and>
     (\<exists>cs. wd_calls w' = wd_calls w @ cs \<and> \<not> list_ex removal cs \<and> wd_host w' = replay h cs (wd_host w))"

lemma left_alone_refl [simp]: "left_alone h w w"
  by (simp add: left_alone_def)

lemma left_alone_trans: "left_alone h u v \<Longrightarrow> left_alone h v w \<Longrightarrow> left_alone h u w"
  by (auto simp: left_alone_def)

interpretation idle: store_relation "left_alone h" for h
  by unfold_locales (auto intro: left_alone_trans)

lemma idle_grow: "idle.keeps h m \<Longrightarrow> ev_grow.keeps m"
  unfolding idle.keeps_def ev_grow.keeps_def by (metis evidence_grows_def store_grows_refl left_alone_def)

named_theorems idle_intros

lemma idleD: "idle.keeps h m \<Longrightarrow> left_alone h w (snd (m w))"
  by (simp add: idle.keeps_def)

lemma idle_look [idle_intros]: "idle.keeps h (look f)"
  by (rule idle.keepsI) (simp add: look_def)

lemma idle_demand [idle_intros]: "idle.keeps h (demand b e)"
  unfolding demand_def by (rule idle.keeps_of)

lemmas [idle_intros] = idle.keeps_of idle.keeps_bind

lemma idle_git [idle_intros]: "take 2 args \<noteq> [''worktree'', ''remove''] \<Longrightarrow> idle.keeps h (run_git h b dir args)"
  by (rule idle.keepsI) (simp add: run_git_def left_alone_def removal_def split: prod.split)

lemma idle_text [idle_intros]: "take 2 args \<noteq> [''worktree'', ''remove''] \<Longrightarrow> idle.keeps h (git_text h dir args)"
  unfolding git_text_def by (intro idle_intros)

lemma idle_any [idle_intros]: "take 2 args \<noteq> [''worktree'', ''remove''] \<Longrightarrow> idle.keeps h (git_any h dir args)"
  unfolding git_any_def by (intro idle_intros)

lemma idle_map [idle_intros]: "(\<And>x. idle.keeps h (f x)) \<Longrightarrow> idle.keeps h (act_map f xs)"
  by (induction xs) (auto intro: idle_intros)

lemma idle_head [idle_intros]: "idle.keeps h (resolveHeadSha h dir)"
  unfolding resolveHeadSha_def by (intro idle_intros) simp

lemma idle_sha [idle_intros]: "idle.keeps h (assertFullSha v)"
  unfolding assertFullSha_def by (intro idle_intros)

lemma idle_commit [idle_intros]: "idle.keeps h (resolveCommitSha h dir r)"
  unfolding resolveCommitSha_def by (intro idle_intros) simp

lemma idle_exists [idle_intros]: "idle.keeps h (commitExists h dir r)"
proof (rule idle.keepsI)
  fix w
  have "left_alone h w (snd (resolveCommitSha h dir r w))"
    by (intro idleD idle_intros)
  then show "left_alone h w (snd (commitExists h dir r w))"
    by (auto simp: commitExists_def split: prod.splits sum.splits lcim_error.splits)
qed

lemma idle_common [idle_intros]: "idle.keeps h (resolveGitCommonDir h dir)"
proof (rule idle.keepsI)
  fix w
  have "left_alone h w (snd (git_text h dir [''rev-parse'', ''--git-common-dir''] w))"
    by (intro idleD idle_intros) simp
  then show "left_alone h w (snd (resolveGitCommonDir h dir w))"
    by (auto simp: resolveGitCommonDir_def Let_def split: prod.splits sum.splits option.splits)
qed

lemma idle_tracked [idle_intros]: "idle.keeps h (assertNoTrackedFilesUnder h d dir)"
proof (rule idle.keepsI)
  fix w
  have "left_alone h w (snd (git_text h dir [''ls-files'', ''-z''] w))"
    by (intro idleD idle_intros) simp
  then show "left_alone h w (snd (assertNoTrackedFilesUnder h d dir w))"
    by (auto simp: assertNoTrackedFilesUnder_def split: prod.splits sum.splits)
qed

lemma idle_base [idle_intros]: "idle.keeps h (validateBaseAtCheckpoint h repo dir base point serial)"
  unfolding validateBaseAtCheckpoint_def check_spawn_def check_head_def check_integration_def aheadBehind_def Let_def
  by (cases point; simp only: checkpoint.simps; (intro idle_intros conjI impI allI | simp | (split if_split option.split))+)

lemma idle_collect [idle_intros]: "idle.keeps h (collectPatchEvidence sha now fresh h dir base unit tree results)"
  unfolding collectPatchEvidence_def Let_def by (intro idle_intros conjI impI | simp | split if_split)+

section \<open>Growth of the store\<close>

lemma grow_on_evidence: "(\<And>s t. f s = Inr t \<Longrightarrow> store_grows s t) \<Longrightarrow> ev_grow.keeps (on_evidence f)"
  by (rule ev_grow.keepsI) (auto simp: on_evidence_def evidence_grows_def split: sum.split)

lemma grow_persist: "ev_grow.keeps (persistPatchEvidence sha h repo rec bytes)"
  unfolding persistPatchEvidence_def Let_def resolvePatchEvidenceDir_def
  by (intro ev_grow.keeps_bind grow_on_evidence idle_grow [OF idle_demand] idle_grow [OF idle_tracked]
      idle_grow [OF idle_common] ev_grow.keeps_of) (auto intro: publish_patch_grows publish_record_grows)

lemma grow_pipeline:
  "ev_grow.keeps (collectAndPersistEvidence sha now fresh h repo dir base unit tree allowed must results)"
  unfolding collectAndPersistEvidence_def
  by (intro ev_grow.keeps_bind idle_grow [OF idle_base] idle_grow [OF idle_collect])
    (auto intro!: ev_grow.keeps_bind grow_persist ev_grow.keeps_of split: prod.split)

text \<open>What can be loaded is loaded the same after the pipeline has run, whatever it returned.\<close>

lemma load_grows: "loadPatchEvidence sha s i = Inr x \<Longrightarrow> store_grows s t \<Longrightarrow> loadPatchEvidence sha t i = Inr x"
  by (auto simp: loadPatchEvidence_def rbind_eq_Inr intro: read_grows)

section \<open>Stamped records\<close>

definition stamped :: "json \<Rightarrow> bool" where
  "stamped rec \<longleftrightarrow> is_obj rec \<and> validatePatchEvidence rec = Inr [] \<and>
     is_lit (own ''schemaName'' (Some rec)) ''lcim.patch-evidence'' \<and>
     derived_id (Some rec)"

lemma stamp_result:
  assumes "stampPatchEvidence (Some d) = Inr rec"
  shows "stamped rec" and "k \<noteq> ''schemaName'' \<Longrightarrow> k \<noteq> ''schemaVersion'' \<Longrightarrow> own k (Some rec) = own k (Some d)"
proof -
  obtain kvs where d: "d = JObj kvs" and dd: "derived_id (Some d)"
    and rec: "rec = JObj (put ''schemaVersion'' (JStr ''2.0.0'') (put ''schemaName'' (JStr ''lcim.patch-evidence'') kvs))"
    and ok: "validatePatchEvidence rec = Inr []"
    using assms by (cases d) (auto simp: stampPatchEvidence_def rbind_eq_Inr need_eq_Inr Let_def)
  show "stamped rec"
    using ok dd by (simp add: stamped_def rec d derived_id_def)
  show "k \<noteq> ''schemaName'' \<Longrightarrow> k \<noteq> ''schemaVersion'' \<Longrightarrow> own k (Some rec) = own k (Some d)"
    by (simp add: rec d)
qed

lemma attach_result:
  assumes "attachValidationResults rec results = Inr rec'" "is_obj rec"
  shows "stamped rec'" and "k \<noteq> ''schemaName'' \<Longrightarrow> k \<noteq> ''schemaVersion'' \<Longrightarrow> k \<noteq> ''validationResults'' \<Longrightarrow>
    own k (Some rec') = own k (Some rec)"
proof -
  obtain kvs where kvs: "rec = JObj kvs"
    using assms(2) by (cases rec) auto
  obtain rs where results: "results = Some (JArr rs)"
    using assms(1) by (simp add: attachValidationResults_def rbind_eq_Inr split: option.split_asm json.split_asm)
  have st: "stampPatchEvidence (Some (JObj (put ''validationResults'' (JArr rs) kvs))) = Inr rec'"
    using assms(1) unfolding attachValidationResults_def results kvs by (simp add: rbind_eq_Inr)
  show "stamped rec'"
    by (rule stamp_result(1) [OF st])
  show "k \<noteq> ''schemaName'' \<Longrightarrow> k \<noteq> ''schemaVersion'' \<Longrightarrow> k \<noteq> ''validationResults'' \<Longrightarrow> own k (Some rec') = own k (Some rec)"
    using stamp_result(2) [OF st] by (simp add: kvs)
qed

lemma if_result: "(if b then x else Inr r) = Inr r' \<Longrightarrow> r' = r \<or> x = Inr r'"
  by (cases b) auto

lemma with_results_result:
  assumes "with_results results rec = Inr rec'" "stamped rec"
  shows "stamped rec'" and "k \<notin> {''schemaName'', ''schemaVersion'', ''validationResults''} \<Longrightarrow> own k (Some rec') = own k (Some rec)"
proof -
  have obj: "is_obj rec" using assms(2) by (simp add: stamped_def)
  consider "rec' = rec" | "attachValidationResults rec results = Inr rec'"
    using if_result [OF assms(1) [unfolded with_results_def]] by blast
  then have "stamped rec' \<and> (k \<notin> {''schemaName'', ''schemaVersion'', ''validationResults''} \<longrightarrow> own k (Some rec') = own k (Some rec))"
  proof cases
    case 1
    with assms(2) show ?thesis by simp
  next
    case 2
    show ?thesis
      using attach_result(1) [OF 2 obj] attach_result(2) [OF 2 obj, of k] by blast
  qed
  then show "stamped rec'" and "k \<notin> {''schemaName'', ''schemaVersion'', ''validationResults''} \<Longrightarrow> own k (Some rec') = own k (Some rec)"
    by blast+
qed

text \<open>What is collected: the record is stamped, names its base and head, and the digest of its patch.\<close>

lemma collected:
  assumes "collectPatchEvidence sha now fresh h dir base unit tree results w = (Inr (rec, bytes), w')"
  shows "stamped rec \<and> is_lit (own ''evidenceId'' (Some rec)) fresh \<and> is_lit (own ''patchHash'' (Some rec)) (sha bytes) \<and>
    is_lit (own ''patchId'' (Some rec)) (patch_id_of (sha bytes)) \<and>
    is_lit (own ''baseSha'' (Some rec)) base \<and> is_lit (own ''worktreeHead'' (Some rec)) base \<and>
    is_lit (own ''worktreeId'' (Some rec)) tree \<and> is_lit (own ''workUnitId'' (Some rec)) unit \<and>
    (\<exists>statuses. observed (git_text h dir [''diff'', ''--name-status'', ''-z'', ''--no-renames'', base]) statuses \<and>
       own ''changedPaths'' (Some rec) = Some (text_list (changed_paths (parseNameStatus statuses))))"
proof -
  obtain statuses chk rec0 where st: "stampPatchEvidence (Some
      (evidence_fields now fresh (sha bytes) unit tree base base (parseNameStatus statuses) chk)) = Inr rec0"
    and wr: "with_results results rec0 = Inr rec"
    and ob: "observed (git_text h dir [''diff'', ''--name-status'', ''-z'', ''--no-renames'', base]) statuses"
    using assms unfolding collectPatchEvidence_def Let_def
    by (auto simp: act_bind_eq_Inr dest!: observedI)
  note r0 = stamp_result [OF st]
  note r1 = with_results_result [OF wr r0(1)]
  have "own k (Some rec) = own k (Some (evidence_fields now fresh (sha bytes) unit tree base base (parseNameStatus statuses) chk))"
    if "k \<notin> {''schemaName'', ''schemaVersion'', ''validationResults''}" for k
    using that r0(2) [of k] r1(2) [of k] by simp
  with r1(1) ob show ?thesis
    by (simp add: evidence_fields_def) blast
qed

section \<open>Round trip\<close>

lemma on_evidence_Inr: "on_evidence f w = (Inr (), w') \<longleftrightarrow> (\<exists>s. f (wd_evidence w) = Inr s \<and> w' = w\<lparr>wd_evidence := s\<rparr>)"
  by (auto simp: on_evidence_def split: sum.split)

lemma persisted:
  assumes "persistPatchEvidence sha h repo rec bytes w = (Inr (), w')" "stamped rec"
    and "is_lit (own ''evidenceId'' (Some rec)) i"
  shows "\<exists>bytes'. loadPatchEvidence sha (wd_evidence w') i = Inr (rec, bytes') \<and>
    is_lit (own ''patchHash'' (Some rec)) (sha bytes')"
proof -
  let ?p = "js_string (own ''patchId'' (Some rec))" and ?h = "own ''patchHash'' (Some rec)"
  obtain s t u where id: "evidence_id i" and hash: "is_lit ?h (sha bytes)"
    and p: "publish_patch sha ?p ?h bytes u = Inr s" and r: "publish_record i rec s = Inr t" and w': "wd_evidence w' = t"
    using assms(1,3) unfolding persistPatchEvidence_def Let_def
    by (auto simp: act_bind_eq_Inr on_evidence_Inr)
  obtain bytes' where b: "map_of (es_patches s) ?p = Some bytes'" "is_lit ?h (sha bytes')"
    using p hash by (auto simp: publish_patch_def split: option.splits if_splits)
  have "map_of (es_records t) i = Some (Some rec)" "es_patches t = es_patches s"
    using r by (auto simp: publish_record_def split: if_splits)
  with b id assms(2,3) show ?thesis
    by (simp add: w' loadPatchEvidence_def read_evidence_def stamped_def)
qed

text \<open>The evidence is on record before the scope is judged.\<close>

definition scope_judged :: "digest_fun \<Rightarrow> evidence_store \<Rightarrow> string \<Rightarrow> jsval \<Rightarrow> jsval \<Rightarrow> json result \<Rightarrow> bool" where
  "scope_judged sha s i allowed must r \<longleftrightarrow>
     (\<exists>rec bytes. loadPatchEvidence sha s i = Inr (rec, bytes) \<and> is_lit (own ''patchHash'' (Some rec)) (sha bytes) \<and>
       r = rbind (scope_of rec allowed must) (\<lambda>_. Inr rec))"

lemma pipeline_Inr:
  assumes "collectAndPersistEvidence sha now fresh h repo dir base unit tree allowed must results w = (Inr rec, w')"
  shows "scope_judged sha (wd_evidence w') fresh allowed must (Inr rec) \<and> scope_of rec allowed must = Inr () \<and>
    (\<exists>bytes. observed (collectPatchEvidence sha now fresh h dir base unit tree results) (rec, bytes))"
proof -
  obtain bytes v u where "collectPatchEvidence sha now fresh h dir base unit tree results v = (Inr (rec, bytes), u)"
    and p: "persistPatchEvidence sha h repo rec bytes u = (Inr (), w')" and s: "scope_of rec allowed must = Inr ()"
    using assms unfolding collectAndPersistEvidence_def
    by (auto simp: act_bind_eq_Inr split: prod.splits)
  then have c: "observed (collectPatchEvidence sha now fresh h dir base unit tree results) (rec, bytes)"
    by (intro observedI)
  from c have "stamped rec" "is_lit (own ''evidenceId'' (Some rec)) fresh"
    by (auto simp: observed_def dest: collected)
  from persisted [OF p this] c s show ?thesis
    by (auto simp: scope_judged_def)
qed

end
