(* ===== verification/Worktree_Laws.thy ===== *)
theory Worktree_Laws
  imports Worktree Evidence_Laws
begin

text \<open>
  The registry keeps its lifecycle and is only appended to, and a command that removes a worktree is
  run only when the marker of the worktree binds to its record.
\<close>

section \<open>The lifecycle of a worktree\<close>

text \<open>The machine each worktree goes through; \<open>True\<close> is CREATED, \<open>False\<close> is REMOVED.\<close>

datatype tree_state = Unknown | Active | Closed

fun tree_step :: "tree_state \<Rightarrow> bool \<Rightarrow> tree_state option" where
  "tree_step Unknown True = Some Active"
| "tree_step Active False = Some Closed"
| "tree_step _ _ = None"

interpretation tree: guarded_machine tree_step "\<lambda>s. s = Closed"
  by unfold_locales simp

definition tree_life :: "json list \<Rightarrow> jsval \<Rightarrow> tree_state option" where
  "tree_life es i = tree.run Unknown (sequence_of es i)"

lemma sequence_snoc: "sequence_of (es @ [e]) i = sequence_of es i @ (if tree_id e = i then [created e] else [])"
  by (simp add: sequence_of_def)

lemma tree_runs: "tree.run Unknown bs = Some s \<longleftrightarrow>
    (s = Unknown \<and> bs = []) \<or> (s = Active \<and> bs = [True]) \<or> (s = Closed \<and> bs = [True, False])"
proof -
  have stuck: "tree.run Closed cs = Some s \<longleftrightarrow> cs = [] \<and> s = Closed" for cs
    by (cases cs) auto
  have active: "tree.run Active cs = Some s \<longleftrightarrow> (cs = [] \<and> s = Active) \<or> (cs = [False] \<and> s = Closed)" for cs
  proof (cases cs)
    case (Cons b bs)
    then show ?thesis by (cases b) (auto simp: stuck)
  qed auto
  show ?thesis
  proof (cases bs)
    case (Cons b cs)
    then show ?thesis by (cases b) (auto simp: active)
  qed auto
qed

lemma possible_step:
  assumes "\<And>i. tree_life es i \<noteq> None"
  shows "possible es e \<longleftrightarrow> (\<forall>i. tree_life (es @ [e]) i \<noteq> None)"
proof -
  obtain s where s: "tree.run Unknown (sequence_of es (tree_id e)) = Some s"
    using assms [of "tree_id e"] by (auto simp: tree_life_def)
  have "(\<forall>i. tree_life (es @ [e]) i \<noteq> None) \<longleftrightarrow> tree_step s (created e) \<noteq> None"
    using assms s by (auto simp: tree_life_def sequence_snoc tree.run_append split: option.splits)
  moreover have "possible es e \<longleftrightarrow> tree_step s (created e) \<noteq> None"
    using s by (cases s; cases "created e") (auto simp: possible_def tree_runs)
  ultimately show ?thesis by simp
qed

lemma transitions_lifecycle:
  "(\<And>i. tree_life es i \<noteq> None) \<Longrightarrow> transitions_from es rest \<longleftrightarrow> (\<forall>k \<le> length rest. \<forall>i. tree_life (es @ take k rest) i \<noteq> None)"
proof (induction es rest rule: transitions_from.induct)
  case (2 es e rest)
  show ?case
  proof (cases "\<forall>i. tree_life (es @ [e]) i \<noteq> None")
    case True
    then have "transitions_from es (e # rest) \<longleftrightarrow> (\<forall>k \<le> length rest. \<forall>i. tree_life (es @ take (Suc k) (e # rest)) i \<noteq> None)"
      using "2.IH" possible_step [of es e] "2.prems" by simp
    also have "\<dots> \<longleftrightarrow> (\<forall>k \<le> length (e # rest). \<forall>i. tree_life (es @ take k (e # rest)) i \<noteq> None)"
      using "2.prems" by (metis (no_types, lifting) Suc_le_mono append.right_neutral length_Cons not0_implies_Suc take_0)
    finally show ?thesis .
  next
    case False
    then have "\<not> transitions_from es (e # rest)"
      using possible_step [of es e] "2.prems" by simp
    moreover have "\<not> (\<forall>k \<le> length (e # rest). \<forall>i. tree_life (es @ take k (e # rest)) i \<noteq> None)"
      using False by (auto intro!: exI [of _ "Suc 0"])
    ultimately show ?thesis by blast
  qed
qed simp

lemma transitions_snoc: "transitions_from es (rest @ [e]) \<longleftrightarrow> transitions_from es rest \<and> possible (es @ rest) e"
  by (induction es rest rule: transitions_from.induct) auto

text \<open>A sequence of events is valid exactly when every worktree's events are a run of the machine.\<close>

lemma lifecycle_prefix: "tree_life (es @ fs) i \<noteq> None \<Longrightarrow> tree_life es i \<noteq> None"
  by (auto simp: tree_life_def sequence_of_def tree.run_append split: option.splits)

lemma transitions_iff: "transitions_from [] es \<longleftrightarrow> (\<forall>i. tree_life es i \<noteq> None)"
proof -
  have empty: "tree_life [] i \<noteq> None" for i
    by (simp add: tree_life_def sequence_of_def)
  have "tree_life (take k es) i \<noteq> None" if "tree_life es i \<noteq> None" for k i
    using lifecycle_prefix [of "take k es" "drop k es" i] that by simp
  then show ?thesis
    unfolding transitions_lifecycle [OF empty] by (metis append_Nil order_refl take_all)
qed

section \<open>The registry\<close>

lemma map_result_append: "map_result f (xs @ ys) = rbind (map_result f xs) (\<lambda>as. rbind (map_result f ys) (\<lambda>bs. Inr (as @ bs)))"
proof (induction xs)
  case Nil
  show ?case by (cases "map_result f ys") simp_all
next
  case (Cons x xs)
  then show ?case
    by (cases "f x"; cases "map_result f xs"; cases "map_result f ys") simp_all
qed

lemma registry_snoc:
  assumes "registry_events ls = Inr es" "worktree_event e" "possible es e"
  shows "registry_events (ls @ [Some e]) = Inr (es @ [e])"
proof -
  have "map_result parsed_event ls = Inr es" "transitions_from [] es"
    using assms(1) by (auto simp: registry_events_def assertValidRegistryTransitions_def rbind_eq_Inr)
  with assms(2,3) show ?thesis
    by (simp add: registry_events_def map_result_append parsed_event_def validateWorktreeEvent_def
        assertValidRegistryTransitions_def transitions_snoc)
qed

lemma with_registry_left_alone: "idle.keeps h m \<Longrightarrow> idle.keeps h (with_registry h repo m)"
  unfolding with_registry_def by (intro idle_intros)

lemma idle_load [idle_intros]: "idle.keeps h (load_events h repo)"
  unfolding load_events_def by (intro idle_intros) (rule idle.keepsI, simp)

lemma idle_claimant [idle_intros]: "idle.keeps h (claimant_guard h line es)"
  unfolding claimant_guard_def by (intro idle_intros)

lemma idle_active [idle_intros]: "idle.keeps h (activeWorktreeRecords h repo)"
  unfolding activeWorktreeRecords_def by (intro with_registry_left_alone idle_intros)

lemma idle_find [idle_intros]: "idle.keeps h (findCreatedWorktree h repo i)"
  unfolding findCreatedWorktree_def by (intro idle_intros)

lemma idleE: "m w = (r, w') \<Longrightarrow> idle.keeps h m \<Longrightarrow> left_alone h w w'"
  by (metis idleD snd_conv)

text \<open>
  Either an action is refused and has changed nothing of the program, or \<open>Q\<close> holds of its result.
  An idle action at the front can only refuse.
\<close>

definition refused_or :: "'w host \<Rightarrow> 'w world \<Rightarrow> ('a result \<Rightarrow> 'w world \<Rightarrow> bool) \<Rightarrow> 'a result \<times> 'w world \<Rightarrow> bool" where
  "refused_or h w0 Q res \<longleftrightarrow> (\<exists>e. fst res = Inl e) \<and> left_alone h w0 (snd res) \<or> Q (fst res) (snd res)"

lemma idle_then:
  assumes "left_alone h w0 w" "idle.keeps h m"
    and "\<And>x u. m w = (Inr x, u) \<Longrightarrow> left_alone h w0 u \<Longrightarrow> refused_or h w0 Q (k x u)"
  shows "refused_or h w0 Q (act_bind m k w)"
proof (cases "m w")
  case (Pair a u)
  then have u: "left_alone h w0 u"
    using assms(1,2) by (metis idleE left_alone_trans)
  show ?thesis
  proof (cases a)
    case (Inl e)
    with Pair u show ?thesis by (simp add: act_bind_def refused_or_def)
  next
    case (Inr x)
    with Pair assms(3) [of x u] u show ?thesis by (simp add: act_bind_def)
  qed
qed

lemma active_read:
  assumes "load_events h repo w = (Inr es, u)"
  shows "registry_events (wd_registry w) = Inr es"
proof -
  obtain c v where "resolveGitCommonDir h repo w = (c, v)" "registry_events (wd_registry v) = Inr es"
    using assms by (auto simp: load_events_def act_bind_eq_Inr)
  then show ?thesis
    using idleE [OF _ idle_common] by (metis left_alone_def)
qed

text \<open>What a recorded event changes: one line, after which the registry can be read as before.\<close>

definition event_recorded :: "'w world \<Rightarrow> json \<Rightarrow> unit result \<Rightarrow> 'w world \<Rightarrow> bool" where
  "event_recorded w line r w' \<longleftrightarrow> r = Inr () \<and> (\<exists>es. registry_events (wd_registry w) = Inr es \<and>
     wd_registry w' = wd_registry w @ [Some line] \<and> registry_events (wd_registry w') = Inr (es @ [line]) \<and>
     wd_evidence w' = wd_evidence w \<and> (\<exists>cs. wd_calls w' = wd_calls w @ cs \<and> \<not> list_ex removal cs))"

lemma append_recorded:
  assumes u: "left_alone h w u" and es: "registry_events (wd_registry w) = Inr es"
    and "worktree_event line" "transitions_from [] (es @ [line])"
  shows "event_recorded w line (fst (append_event line u)) (snd (append_event line u))"
proof -
  have "possible es line"
    using assms(4) by (simp add: transitions_snoc)
  with assms show ?thesis
    by (auto simp: event_recorded_def append_event_def left_alone_def intro: registry_snoc)
qed

lemma record_event: "refused_or h w (event_recorded w line) (recordWorktreeEvent h repo line w)"
  unfolding recordWorktreeEvent_def with_registry_def
  apply (rule idle_then [OF left_alone_refl idle_common])
  apply (rule idle_then, assumption, intro idle_intros)
  apply (rule idle_then, assumption, intro idle_intros)
  apply (rule idle_then, assumption, intro idle_intros)
  apply (rule idle_then, assumption, intro idle_intros)
  apply (rule idle_then, assumption, intro idle_intros)
  apply (rule idle_then, assumption, split if_split, intro conjI impI idle_intros)
  subgoal premises p for c u1 l u2 c' u3 x u4 es u5 es' u6 y u7
  proof -
    have "registry_events (wd_registry w) = Inr es"
      using active_read [OF p(9)] p(8) by (simp add: left_alone_def)
    moreover have "worktree_event line" "transitions_from [] (es @ [line])"
      using p(3,11) by (auto simp: validateWorktreeEvent_def assertValidRegistryTransitions_def rbind_eq_Inr)
    ultimately show ?thesis
      using append_recorded [OF p(14)] by (simp add: refused_or_def)
  qed
  done

section \<open>Removal\<close>

lemma idle_norm [idle_intros]: "idle.keeps h (norm_path h p)"
  unfolding norm_path_def by (intro idle_intros)

lemma idle_trimmed [idle_intros]: "idle.keeps h (read_trimmed h p)"
  unfolding read_trimmed_def by (intro idle_intros)

lemma idle_names [idle_intros]: "idle.keeps h (names_path h admin file wanted)"
  unfolding names_path_def by (intro idle_intros) (auto intro: idle_intros split: option.split)

lemma idle_catch [idle_intros]: "idle.keeps h m \<Longrightarrow> idle.keeps h (safe_catch m)"
  by (rule idle.keepsI) (auto simp: safe_catch_def intro: idleE split: prod.splits sum.splits)

lemma idle_admin [idle_intros]: "idle.keeps h (resolveWorktreeGitAdminDir h dir repo)"
  unfolding resolveWorktreeGitAdminDir_def by (intro idle_intros) simp

lemma idle_marker [idle_intros]: "idle.keeps h (read_marker h admin)"
  by (rule idle.keepsI) (simp add: read_marker_def split: option.split)

lemma idle_binds [idle_intros]: "idle.keeps h (assertMarkerBindsToLifecycle h r m)"
  unfolding assertMarkerBindsToLifecycle_def by (intro idle_intros)

lemma idle_verify [idle_intros]: "idle.keeps h (verifyWorktreeOwnershipMarker h dir repo r)"
  unfolding verifyWorktreeOwnershipMarker_def by (intro idle_intros)

lemma idle_stale [idle_intros]: "idle.keeps h (resolveStaleWorktreeGitAdminDir h repo p)"
  unfolding resolveStaleWorktreeGitAdminDir_def
  by (intro idle_intros) (auto intro!: idle_intros split: option.split)

lemma idle_metadata [idle_intros]: "idle.keeps h (verifyWorktreeOwnershipMarkerFromGitMetadata h repo p r)"
  unfolding verifyWorktreeOwnershipMarkerFromGitMetadata_def
  by (intro idle_intros) (auto intro!: idle_intros split: prod.split)

lemma idle_ref [idle_intros]: "idle.keeps h (verify_ref sha h repo r ref)"
  unfolding verify_ref_def resolveEvidenceRef_def resolvePatchEvidenceDir_def
  by (intro idle_intros) (auto intro!: idle_intros split: prod.split)

lemma idle_dirty [idle_intros]: "idle.keeps h (verifyDirtyCleanupEvidence sha h repo r refs)"
  unfolding verifyDirtyCleanupEvidence_def by (intro idle_intros)

lemma idle_guards [idle_intros]:
  "idle.keeps h (same_path_guard h r dir)" "idle.keeps h (main_guard h repo r)" "idle.keeps h (contention_guard h repo r)"
  "idle.keeps h (registered_guard h repo r)" "idle.keeps h (isWorktreeClean h d)"
  unfolding same_path_guard_def main_guard_def contention_guard_def registered_guard_def isWorktreeClean_def
  by (auto intro!: idle_intros split: option.split)

lemma marker_read:
  assumes "read_marker h admin u = (Inr m, v)"
  shows "\<exists>text. ho_read h (path_join2 admin OWNERSHIP_MARKER_FILE) (wd_host u) = Some text \<and>
    parseWorktreeOwnershipMarker text = Inr m"
  using assms by (auto simp: read_marker_def split: option.splits)

lemma binds_checked: "assertMarkerBindsToLifecycle h r m u = (Inr x, v) \<Longrightarrow> marker_binds h (wd_host u) r m"
  by (auto simp: assertMarkerBindsToLifecycle_def act_bind_eq_Inr look_def)

text \<open>The marker file of an admin directory, as it is on the host, binds to the record.\<close>

definition marker_in :: "'w host \<Rightarrow> 'w \<Rightarrow> string \<Rightarrow> json \<Rightarrow> bool" where
  "marker_in h x admin r \<longleftrightarrow>
     (\<exists>text m. ho_read h (path_join2 admin OWNERSHIP_MARKER_FILE) x = Some text \<and>
        parseWorktreeOwnershipMarker text = Inr m \<and> marker_binds h x r m)"

text \<open>A file of an admin directory names a path, up to links.\<close>

definition file_names :: "'w host \<Rightarrow> 'w \<Rightarrow> string \<Rightarrow> string \<Rightarrow> string \<Rightarrow> bool" where
  "file_names h x admin file wanted \<longleftrightarrow>
     (\<exists>raw. ho_read h (path_join2 admin file) x = Some raw \<and>
        normalizePath h x (path_resolve (path_resolve (ho_cwd h) admin) (js_trim raw)) = normalizePath h x wanted)"

text \<open>
  In the world \<open>v\<close> the checkout of the record has an admin directory of this repository, below its
  common directory, whose own files point back to both, with a marker that binds to the record.
\<close>

definition checkout_owned :: "'w host \<Rightarrow> string \<Rightarrow> 'w world \<Rightarrow> 'w world \<Rightarrow> json \<Rightarrow> bool" where
  "checkout_owned h repo w v r \<longleftrightarrow>
     (\<exists>s c admin. left_alone h w s \<and> resolveGitCommonDir h repo s = (Inr c, v) \<and>
        isPathWithin (ho_cwd h) c admin \<and> normalizePath h (wd_host v) admin \<noteq> normalizePath h (wd_host v) c \<and>
        file_names h (wd_host v) admin ''commondir'' c \<and>
        file_names h (wd_host v) admin ''gitdir'' (path_join2 (tree_path r) ''.git'') \<and>
        marker_in h (wd_host v) admin r)"

text \<open>
  In the world \<open>v\<close> the repository has exactly one admin directory for the path of the record, whose
  head is the base of the record and whose marker binds to it; \<open>target\<close> is that path with the links
  of its ancestors resolved.
\<close>

definition registration_owned :: "'w host \<Rightarrow> string \<Rightarrow> 'w world \<Rightarrow> 'w world \<Rightarrow> json \<Rightarrow> string \<Rightarrow> bool" where
  "registration_owned h repo w v r target \<longleftrightarrow>
     (\<exists>s t c admin head. left_alone h w s \<and> resolveGitCommonDir h repo s = (Inr c, t) \<and> left_alone h t v \<and>
        target = canonicalizePath h (wd_host t) (tree_path r) \<and> admin_dirs h (wd_host v) c target = [admin] \<and>
        ho_read h (path_join2 admin ''HEAD'') (wd_host v) = Some head \<and>
        is_lit (own ''baseSha'' (Some r)) (js_trim head) \<and> marker_in h (wd_host v) admin r)"

lemma names_path_Inr: "names_path h admin file wanted u = (Inr x, v) \<longleftrightarrow> v = u \<and> file_names h (wd_host u) admin file wanted"
  by (auto simp: names_path_def file_names_def read_trimmed_def norm_path_def look_def act_bind_eq_Inr split: option.splits)

lemma look_Inr [simp]: "look f u = (Inr x, v) \<longleftrightarrow> x = f u \<and> v = u"
  by (auto simp: look_def)

lemma marker_Inr: "read_marker h admin u = (Inr m, v) \<longleftrightarrow>
    v = u \<and> (\<exists>text. ho_read h (path_join2 admin OWNERSHIP_MARKER_FILE) (wd_host u) = Some text \<and>
      parseWorktreeOwnershipMarker text = Inr m)"
  by (auto simp: read_marker_def split: option.splits)

lemma binds_Inr: "assertMarkerBindsToLifecycle h r m u = (Inr x, v) \<longleftrightarrow> v = u \<and> marker_binds h (wd_host u) r m"
  by (auto simp: assertMarkerBindsToLifecycle_def act_bind_eq_Inr)

lemma idle_ran: "idle.keeps h m \<Longrightarrow> m w = (r, w') \<Longrightarrow> left_alone h w w'"
  by (rule idleE)

lemma verified_marker:
  assumes "verifyWorktreeOwnershipMarker h (tree_path r) repo r u = (Inr x, v)"
  shows "checkout_owned h repo u v r"
proof -
  obtain out s c admin where s: "safe_catch (git_text h (tree_path r) [''rev-parse'', ''--absolute-git-dir'']) u = (Inr out, s)"
    and c: "resolveGitCommonDir h repo s = (Inr c, v)" and admin: "admin = normalizePath h (wd_host s) (js_trim out)"
    and rest: "isPathWithin (ho_cwd h) c admin" "normalizePath h (wd_host v) admin \<noteq> normalizePath h (wd_host v) c"
      "file_names h (wd_host v) admin ''commondir'' c"
      "file_names h (wd_host v) admin ''gitdir'' (path_join2 (tree_path r) ''.git'')" "marker_in h (wd_host v) admin r"
    using assms unfolding verifyWorktreeOwnershipMarker_def resolveWorktreeGitAdminDir_def
    by (auto simp: act_bind_eq_Inr norm_path_def names_path_Inr marker_Inr binds_Inr marker_in_def)
  have "idle.keeps h (safe_catch (git_text h (tree_path r) [''rev-parse'', ''--absolute-git-dir'']) :: 'a world \<Rightarrow> _)"
    by (intro idle_intros) simp
  from idle_ran [OF this s] have "left_alone h u s" .
  with c rest show ?thesis
    unfolding checkout_owned_def by blast
qed

lemma the_one_Inr: "the_one xs = Inr x \<longleftrightarrow> xs = [x]"
  by (auto simp: the_one_def split: list.splits)

lemma verified_stale:
  assumes "verifyWorktreeOwnershipMarkerFromGitMetadata h repo (tree_path r) r u = (Inr target, v)"
  shows "registration_owned h repo u v r target"
proof -
  obtain c t out s admin head where c: "resolveGitCommonDir h repo u = (Inr c, t)"
    and target: "target = canonicalizePath h (wd_host t) (tree_path r)"
    and out: "git_text h repo [''worktree'', ''list'', ''--porcelain''] t = (Inr out, v)"
    and rest: "admin_dirs h (wd_host v) c target = [admin]" "ho_read h (path_join2 admin ''HEAD'') (wd_host v) = Some head"
      "is_lit (own ''baseSha'' (Some r)) (js_trim head)" "marker_in h (wd_host v) admin r"
    using assms unfolding verifyWorktreeOwnershipMarkerFromGitMetadata_def resolveStaleWorktreeGitAdminDir_def
    by (auto simp: act_bind_eq_Inr read_trimmed_def the_one_Inr marker_Inr binds_Inr marker_in_def split: option.splits)
  have "idle.keeps h (git_text h repo [''worktree'', ''list'', ''--porcelain''] :: 'a world \<Rightarrow> _)"
    by (intro idle_intros) simp
  from idle_ran [OF this out] have "left_alone h t v" .
  with c target rest show ?thesis
    unfolding registration_owned_def by (metis left_alone_refl)
qed

lemma found_active:
  assumes "findCreatedWorktree h repo i w = (Inr (Some r), u)"
  shows "tree_id r = i \<and> (\<exists>es. registry_events (wd_registry w) = Inr es \<and> r \<in> set (active_records es))"
proof -
  obtain es where es: "observed (activeWorktreeRecords h repo) es" and f: "find (\<lambda>r. tree_id r = i) es = Some r"
    and a: "activeWorktreeRecords h repo w = (Inr es, u)"
    using assms by (auto simp: findCreatedWorktree_def act_bind_eq_Inr observed_def)
  obtain c v c' v' x v'' fs where
    "resolveGitCommonDir h repo w = (Inr c, v)" "assertNoTrackedFilesUnder h c' repo v = (Inr x, v')"
    "load_events h repo v' = (Inr fs, v'')" "es = active_records fs"
    using a by (auto simp: activeWorktreeRecords_def with_registry_def act_bind_eq_Inr)
  then have "registry_events (wd_registry w) = Inr fs"
    using active_read idleE [OF _ idle_common] idleE [OF _ idle_tracked] by (metis left_alone_def)
  with f \<open>es = active_records fs\<close> show ?thesis
    by (auto simp: find_Some_iff)
qed

lemma act_map_each:
  "act_map f xs u = (Inr ys, v) \<Longrightarrow> (\<And>x. idle.keeps h (f x)) \<Longrightarrow> x \<in> set xs \<Longrightarrow> \<exists>s y t. left_alone h u s \<and> f x s = (Inr y, t)"
proof (induction xs arbitrary: u ys)
  case (Cons z zs)
  then obtain y s ys' where y: "f z u = (Inr y, s)" and rest: "act_map f zs s = (Inr ys', v)"
    by (auto simp: act_bind_eq_Inr)
  have "left_alone h u s"
    by (rule idleE [OF y Cons.prems(2)])
  with Cons.IH [OF rest Cons.prems(2)] Cons.prems(3) y show ?case
    by (metis set_ConsD left_alone_refl left_alone_trans)
qed simp

text \<open>Every reference resolves to evidence of the store that belongs to the record.\<close>

definition backed :: "digest_fun \<Rightarrow> evidence_store \<Rightarrow> json \<Rightarrow> json list \<Rightarrow> bool" where
  "backed sha s r refs \<longleftrightarrow> refs \<noteq> [] \<and>
     list_all (\<lambda>_. \<exists>i ev bytes. read_evidence sha s i = Inr (ev, bytes) \<and> evidence_matches r ev) refs"

lemma dirty_backed:
  assumes "verifyDirtyCleanupEvidence sha h repo r refs u = (Inr x, v)"
  shows "backed sha (wd_evidence u) r refs"
proof -
  obtain ys where ne: "refs \<noteq> []" and map: "act_map (verify_ref sha h repo r) refs u = (Inr ys, v)"
    using assms by (auto simp: verifyDirtyCleanupEvidence_def act_bind_eq_Inr)
  have "\<exists>i ev bytes. read_evidence sha (wd_evidence u) i = Inr (ev, bytes) \<and> evidence_matches r ev" if ref: "ref \<in> set refs" for ref
  proof -
    obtain s y t where s: "left_alone h u s" and y: "verify_ref sha h repo r ref s = (Inr y, t)"
      using act_map_each [OF map _ ref] idle_ref by blast
    obtain dir c v i ev bytes where "resolvePatchEvidenceDir h repo s = (Inr dir, v)"
      and "read_evidence sha (wd_evidence v) i = Inr (ev, bytes)" "evidence_matches r ev"
      using y unfolding verify_ref_def resolveEvidenceRef_def
      by (auto simp: act_bind_eq_Inr look_def rbind_eq_Inr split: prod.splits)
    moreover have "idle.keeps h (resolvePatchEvidenceDir h repo :: 'a world \<Rightarrow> _)"
      unfolding resolvePatchEvidenceDir_def by (intro idle_intros)
    ultimately show ?thesis
      using s idleE by (metis left_alone_def)
  qed
  with ne show ?thesis by (auto simp: backed_def list_all_iff)
qed

text \<open>The last steps of a removal: the command that removes the path \<open>p\<close>, and the line of the registry.\<close>

definition finish_removal :: "'w host \<Rightarrow> string \<Rightarrow> string \<Rightarrow> json \<Rightarrow> bool \<Rightarrow> ('w, bool) git_act" where
  "finish_removal h repo p line stale =
     act_bind (git_text h repo [''worktree'', ''remove'', ''--force'', p]) (\<lambda>_.
     act_bind (recordWorktreeEvent h repo line) (\<lambda>_. act_of (Inr stale)))"

text \<open>
  A checkout that is there is removed in the world \<open>v\<close>, which the program has reached from \<open>w\<close> by
  commands that remove nothing: on the way the head of this checkout was the base of the record and
  its status was clean, or every reference resolved to evidence that belongs to the record, and in
  \<open>v\<close> itself the checkout is owned.
\<close>

definition removed_checkout ::
    "digest_fun \<Rightarrow> string \<Rightarrow> 'w host \<Rightarrow> string \<Rightarrow> json \<Rightarrow> json list \<Rightarrow> 'w world \<Rightarrow> bool result \<times> 'w world \<Rightarrow> bool" where
  "removed_checkout sha now h repo r refs w out \<longleftrightarrow>
     (\<exists>a b head c clean d v.
        left_alone h w a \<and> ho_exists h (tree_path r) (wd_host a) \<and>
        left_alone h a b \<and> resolveHeadSha h (tree_path r) b = (Inr head, c) \<and> is_lit (own ''baseSha'' (Some r)) head \<and>
        isWorktreeClean h (tree_path r) c = (Inr clean, d) \<and> (clean \<or> backed sha (wd_evidence w) r refs) \<and>
        checkout_owned h repo d v r \<and>
        out = finish_removal h repo (tree_path r)
          (removed_line h now r [(''evidenceRefs'', JArr refs), marker_field r]) False v)"

text \<open>A registration whose checkout is gone is removed in the world \<open>v\<close>, in which it is owned.\<close>

definition removed_registration ::
    "string \<Rightarrow> 'w host \<Rightarrow> string \<Rightarrow> json \<Rightarrow> json list \<Rightarrow> 'w world \<Rightarrow> bool result \<times> 'w world \<Rightarrow> bool" where
  "removed_registration now h repo r refs w out \<longleftrightarrow>
     (\<exists>a v target. left_alone h w a \<and> \<not> ho_exists h (tree_path r) (wd_host a) \<and>
        registration_owned h repo a v r target \<and>
        out = finish_removal h repo target
          (removed_line h now r [(''evidenceRefs'', JArr refs), (''pruned'', JBool True), marker_field r]) True v)"

definition removal_justified ::
    "digest_fun \<Rightarrow> string \<Rightarrow> 'w host \<Rightarrow> string \<Rightarrow> jsval \<Rightarrow> json list \<Rightarrow> 'w world \<Rightarrow> bool result \<times> 'w world \<Rightarrow> bool" where
  "removal_justified sha now h repo i refs w out \<longleftrightarrow>
     (\<exists>r es. registry_events (wd_registry w) = Inr es \<and> r \<in> set (active_records es) \<and> tree_id r = i \<and>
        (removed_checkout sha now h repo r refs w out \<or> removed_registration now h repo r refs w out))"

abbreviation justified where
  "justified sha now h repo i refs w \<equiv> refused_or h w (\<lambda>a b. removal_justified sha now h repo i refs w (a, b))"

lemma justifiedI: "removal_justified sha now h repo i refs w out \<Longrightarrow> justified sha now h repo i refs w out"
  by (cases out) (simp add: refused_or_def)

lemma owned_from: "left_alone h w u \<Longrightarrow> registration_owned h repo u v r p \<Longrightarrow> registration_owned h repo w v r p"
  unfolding registration_owned_def by (elim exE conjE, intro exI conjI) (rule left_alone_trans, assumption+)

lemma stale_justified:
  assumes "left_alone h w u" "\<not> ho_exists h (tree_path r) (wd_host u)"
    and "registry_events (wd_registry w) = Inr es" "r \<in> set (active_records es)" "tree_id r = i"
  shows "justified sha now h repo i refs w (remove_stale now h repo r refs u)"
  unfolding remove_stale_def
proof (rule idle_then [OF assms(1) idle_demand])
  fix x u' assume u': "demand (isValidOwnershipMarkerId (own ''markerId'' (Some r))) WorktreeSafetyError u = (Inr x, u')"
    and l: "left_alone h w u'"
  show "justified sha now h repo i refs w (act_bind (verifyWorktreeOwnershipMarkerFromGitMetadata h repo (tree_path r) r)
      (\<lambda>canonical. act_bind (git_text h repo [''worktree'', ''remove'', ''--force'', canonical])
        (\<lambda>_. act_bind (recordWorktreeEvent h repo
          (removed_line h now r [(''evidenceRefs'', JArr refs), (''pruned'', JBool True), marker_field r]))
          (\<lambda>_. act_of (Inr True)))) u')"
  proof (rule idle_then [OF l idle_metadata])
    fix p v' assume v: "verifyWorktreeOwnershipMarkerFromGitMetadata h repo (tree_path r) r u' = (Inr p, v')"
    have "u' = u" using u' by simp
    then have "removed_registration now h repo r refs w (finish_removal h repo p
        (removed_line h now r [(''evidenceRefs'', JArr refs), (''pruned'', JBool True), marker_field r]) True v')"
      unfolding removed_registration_def using assms(1,2) verified_stale [OF v] by blast
    then show "justified sha now h repo i refs w
        (act_bind (git_text h repo [''worktree'', ''remove'', ''--force'', p])
          (\<lambda>_. act_bind (recordWorktreeEvent h repo
            (removed_line h now r [(''evidenceRefs'', JArr refs), (''pruned'', JBool True), marker_field r]))
            (\<lambda>_. act_of (Inr True))) v')"
      using assms(3-5) by (intro justifiedI) (auto simp: removal_justified_def finish_removal_def)
  qed
qed

lemma present_justified:
  assumes "left_alone h w u" "ho_exists h (tree_path r) (wd_host u)"
    and "registry_events (wd_registry w) = Inr es" "r \<in> set (active_records es)" "tree_id r = i"
  shows "justified sha now h repo i refs w (remove_present sha now h repo r refs u)"
  unfolding remove_present_def
  apply (rule idle_then [OF assms(1) idle_guards(4)])
  apply (rule idle_then, assumption, rule idle_head)
  apply (rule idle_then, assumption, rule idle_demand)
  apply (rule idle_then, assumption, rule idle_guards(5))
  apply (rule idle_then, assumption, split if_split, intro conjI impI idle_intros)
  apply (rule idle_then, assumption, rule idle_demand)
  apply (rule idle_then, assumption, rule idle_verify)
  subgoal premises p for _ b head c _ c' clean d _ e _ f _ v
  proof (rule justifiedI)
    have same: "is_lit (own ''baseSha'' (Some r)) head" "c' = c" "f = e"
      using p(5,11) by simp_all
    have e: "left_alone h d e \<and> (clean \<or> backed sha (wd_evidence w) r refs)"
    proof (cases clean)
      case True
      with p(9) show ?thesis by simp
    next
      case False
      with p(9) have v: "verifyDirtyCleanupEvidence sha h repo r refs d = (Inr x, e)" for x :: unit
        by simp
      show ?thesis
        using dirty_backed [OF v] idleE [OF v idle_dirty] p(8) by (simp add: left_alone_def)
    qed
    have "checkout_owned h repo e v r"
      using verified_marker p(13) same by simp
    then have "checkout_owned h repo d v r"
      using e unfolding checkout_owned_def by (meson left_alone_trans)
    moreover have "left_alone h u b"
      by (rule idleE [OF p(1) idle_guards(4)])
    ultimately have "removed_checkout sha now h repo r refs w (finish_removal h repo (tree_path r)
        (removed_line h now r [(''evidenceRefs'', JArr refs), marker_field r]) False v)"
      unfolding removed_checkout_def
      by (intro exI [of _ u] exI [of _ b] exI [of _ head] exI [of _ c] exI [of _ clean] exI [of _ d] exI [of _ v] conjI refl)
        (use assms(1,2) p(3,7) same e in simp_all)
    then show "removal_justified sha now h repo i refs w (act_bind (git_text h repo [''worktree'', ''remove'', ''--force'', tree_path r])
        (\<lambda>_. act_bind (recordWorktreeEvent h repo (removed_line h now r [(''evidenceRefs'', JArr refs), marker_field r]))
          (\<lambda>_. act_of (Inr False))) v)"
      using assms(3-5) by (auto simp: removal_justified_def finish_removal_def)
  qed
  done

lemma removal_checked: "justified sha now h repo i refs w (removeIsolatedWorktree sha now h repo i dir refs w)"
  unfolding removeIsolatedWorktree_def
proof (rule idle_then [OF left_alone_refl idle_demand], rule idle_then, assumption, rule idle_find)
  fix x u found v
  assume u: "left_alone h w u" and f: "findCreatedWorktree h repo i u = (Inr found, v)" and v: "left_alone h w v"
  let ?k = "\<lambda>r. act_bind (same_path_guard h r dir) (\<lambda>_. act_bind (main_guard h repo r) (\<lambda>_.
      act_bind (contention_guard h repo r) (\<lambda>_. act_bind (look (\<lambda>w. ho_exists h (tree_path r) (wd_host w))) (\<lambda>there.
      if there then remove_present sha now h repo r refs else remove_stale now h repo r refs))))"
  show "justified sha now h repo i refs w ((case found of None \<Rightarrow> act_of (Inl WorktreeSafetyError) | Some r \<Rightarrow> ?k r) v)"
  proof (cases found)
    case None
    with v show ?thesis by (simp add: refused_or_def)
  next
    case (Some r)
    obtain es where r: "tree_id r = i" "registry_events (wd_registry w) = Inr es" "r \<in> set (active_records es)"
      using found_active [OF f [unfolded Some]] u by (auto simp: left_alone_def)
    have "justified sha now h repo i refs w (?k r v)"
    proof (rule idle_then [OF v idle_guards(1)], rule idle_then, assumption, rule idle_guards(2),
        rule idle_then, assumption, rule idle_guards(3), rule idle_then, assumption, rule idle_look)
      fix s t there
      assume "look (\<lambda>w. ho_exists h (tree_path r) (wd_host w)) s = (Inr there, t)" and t: "left_alone h w t"
      then have "there = ho_exists h (tree_path r) (wd_host t)"
        by simp
      with t r show "justified sha now h repo i refs w
          ((if there then remove_present sha now h repo r refs else remove_stale now h repo r refs) t)"
        using present_justified [OF t _ r(2,3,1)] stale_justified [OF t _ r(2,3,1)] by simp
    qed
    with Some show ?thesis by simp
  qed
qed

section \<open>The inspection of a worker\<close>

text \<open>
  The inspection takes the snapshots of the creation again, in the same order, from the state the
  worker has left; the verdict compares the two.
\<close>

definition exit_snapshots ::
    "digest_fun \<Rightarrow> 'w host \<Rightarrow> string \<Rightarrow> string \<Rightarrow> jsval \<Rightarrow> ('w, string \<times> snapshots) git_act" where
  "exit_snapshots sha h repo dir start =
     act_bind (validateBaseAtCheckpoint h repo (Some dir) start POST_EXIT None) (\<lambda>_.
     act_bind (resolveHeadSha h dir) (\<lambda>head.
     act_bind (take_snapshots sha h repo dir) (\<lambda>now. act_of (Inr (head, now)))))"

lemma inspection_retakes:
  assumes "inspectWorkerExit sha h repo dir start before w = (Inr u, w')"
  shows "\<exists>sn head now. before = Some sn \<and> exit_snapshots sha h repo dir start w = (Inr (head, now), w') \<and>
    is_lit start head \<and> set (sn_refs now) = set (sn_refs sn) \<and>
    filter (\<lambda>e. e \<notin> set (sn_reflog sn) \<and> forbidden_reflog e) (sn_reflog now) = [] \<and>
    set (sn_config now) = set (sn_config sn) \<and> same_remotes (sn_remotes sn) (sn_remotes now) \<and>
    sn_parent now = sn_parent sn"
proof -
  obtain x v where v: "validateBaseAtCheckpoint h repo (Some dir) start POST_EXIT None w = (Inr x, v)"
    and chk: "checkWorkerSafety sha h repo dir start before v = (Inr u, w')"
    using assms by (auto simp: inspectWorkerExit_def act_bind_eq_Inr)
  obtain sn where sn: "before = Some sn"
    using chk by (cases before) (simp_all add: checkWorkerSafety_def)
  obtain head w1 refs w2 reflog w3 config w4 remotes w5 parent where run:
      "resolveHeadSha h dir v = (Inr head, w1)" "snapshotRefs h repo w1 = (Inr refs, w2)"
      "snapshotReflog h dir w2 = (Inr reflog, w3)" "snapshotConfig h repo w3 = (Inr config, w4)"
      "snapshotRemotes h repo w4 = (Inr remotes, w5)" "snapshotParentState sha h repo w5 = (Inr parent, w')"
    and ok: "is_lit start head" "same_lines (diffLineSnapshots (sn_refs sn) refs)"
      "filter forbidden_reflog (ld_added (diffLineSnapshots (sn_reflog sn) reflog)) = []"
      "same_lines (diffLineSnapshots (sn_config sn) config)" "safe_remotes (diffRemoteSnapshots (sn_remotes sn) remotes)"
      "ps_head parent = ps_head (sn_parent sn)" "ps_porcelain parent = ps_porcelain (sn_parent sn)"
      "ps_content parent = ps_content (sn_parent sn)"
    using chk unfolding checkWorkerSafety_def sn option.case by (auto simp: act_bind_eq_Inr)
  let ?now = "\<lparr>sn_refs = refs, sn_reflog = reflog, sn_config = config, sn_remotes = remotes, sn_parent = parent\<rparr>"
  have "take_snapshots sha h repo dir w1 = (Inr ?now, w')"
    by (simp add: take_snapshots_def act_bind_def run)
  then have "exit_snapshots sha h repo dir start w = (Inr (head, ?now), w')"
    by (simp add: exit_snapshots_def act_bind_def v run(1))
  moreover have "parent = sn_parent sn"
    using ok(6-8) by (rule parent_eqI)
  moreover have "filter (\<lambda>e. e \<notin> set (sn_reflog sn) \<and> forbidden_reflog e) reflog = []"
    using ok(3) by (simp add: diffLineSnapshots_def)
  moreover have "set refs = set (sn_refs sn)" "set config = set (sn_config sn)"
    using ok(2,4) by (simp_all add: same_lines_iff)
  moreover have "same_remotes (sn_remotes sn) remotes"
    by (rule safe_remotes_same [OF ok(5)])
  ultimately have "before = Some sn \<and> exit_snapshots sha h repo dir start w = (Inr (head, ?now), w') \<and>
      is_lit start head \<and> set (sn_refs ?now) = set (sn_refs sn) \<and>
      filter (\<lambda>e. e \<notin> set (sn_reflog sn) \<and> forbidden_reflog e) (sn_reflog ?now) = [] \<and>
      set (sn_config ?now) = set (sn_config sn) \<and> same_remotes (sn_remotes sn) (sn_remotes ?now) \<and>
      sn_parent ?now = sn_parent sn"
    using sn ok(1) by simp
  then show ?thesis by blast
qed

end
