(* ===== verification/Compat_Schemas.thy ===== *)
theory Compat_Schemas
  imports Handoff_Assessment Ledger_Chain
begin

text \<open>
  The records of the version 1 reader: the schemas under src/schemas/compat, without their comments,
  and their registry, src/src/compat/v1/schemas.mjs.
\<close>

section \<open>The schemas\<close>

text \<open>src/schemas/compat/v1-ledger-event.v1.schema.json.\<close>

definition V1_LEDGER_EVENT_SCHEMA :: json where
  "V1_LEDGER_EVENT_SCHEMA =
    JObj [
      (''$schema'', JStr ''https://json-schema.org/draft/2020-12/schema''),
      (''$id'', JStr ''https://lcim.local/schemas/compat/v1-ledger-event.v1.schema.json''),
      (''title'', JStr ''LCIM V1 compatibility ledger event''),
      (''type'', JStr ''object''),
      (''additionalProperties'', JBool False),
      (''required'', JArr [JStr ''schemaName'', JStr ''schemaVersion'', JStr ''v1Version'', JStr ''seq'',
          JStr ''eventKind'', JStr ''workUnitId'', JStr ''occurredAt'', JStr ''prevDigest'',
          JStr ''digest'']),
      (''properties'', JObj [
          (''schemaName'', JObj [(''const'', JStr ''lcim.v1.ledger-event'')]),
          (''schemaVersion'', JObj [(''const'', JStr ''1.0.0'')]),
          (''v1Version'', JObj [(''const'', JStr ''1.0'')]),
          (''seq'', JObj [(''type'', JStr ''integer'')]),
          (''eventKind'', JObj [
              (''enum'', JArr [JStr ''ASSIGNMENT'', JStr ''HANDOFF'', JStr ''CONTROLLER_ACTION''])]),
          (''workUnitId'', JObj [
              (''type'', JStr ''string''),
              (''minLength'', JInt 1),
              (''maxLength'', JInt 200)]),
          (''occurredAt'', JObj [
              (''type'', JStr ''string''),
              (''pattern'', JStr (''^[0-9]{4}-[0-9]{2}-[0-9]{2}T[0-9]{2}:[0-9]{2}:[0-9]{2}('' @ [CHR 0x5C] @ ''.[0-9]+)?(Z|[+-][0-9]{2}:[0-9]{2})$''))]),
          (''prevDigest'', JObj [(''type'', JStr ''string''), (''pattern'', JStr ''^[0-9a-f]{64}$'')]),
          (''digest'', JObj [(''type'', JStr ''string''), (''pattern'', JStr ''^[0-9a-f]{64}$'')]),
          (''assignment'', JObj [
              (''type'', JStr ''object''),
              (''additionalProperties'', JBool False),
              (''required'', JArr [JStr ''summary'']),
              (''properties'', JObj [
                  (''summary'', JObj [
                      (''type'', JStr ''string''),
                      (''minLength'', JInt 1),
                      (''maxLength'', JInt 500)]),
                  (''baseShaClaim'', JObj [
                      (''type'', JArr [JStr ''string'', JStr ''null'']),
                      (''maxLength'', JInt 64)])])]),
          (''response'', JObj [
              (''type'', JStr ''object''),
              (''additionalProperties'', JBool False),
              (''required'', JArr [JStr ''text'', JStr ''responseRef'']),
              (''properties'', JObj [
                  (''text'', JObj [
                      (''type'', JArr [JStr ''string'', JStr ''null'']),
                      (''maxLength'', JInt 100000)]),
                  (''responseRef'', JObj [
                      (''type'', JArr [JStr ''string'', JStr ''null'']),
                      (''maxLength'', JInt 500)])])]),
          (''action'', JObj [
              (''type'', JStr ''object''),
              (''additionalProperties'', JBool False),
              (''required'', JArr [JStr ''actionKind'']),
              (''properties'', JObj [
                  (''actionKind'', JObj [(''enum'', JArr [JStr ''MANUAL_INTEGRATION'', JStr ''REJECTION''])]),
                  (''note'', JObj [
                      (''type'', JArr [JStr ''string'', JStr ''null'']),
                      (''maxLength'', JInt 500)])])])])]"

text \<open>src/schemas/compat/v1-handoff.v1.schema.json.\<close>

definition V1_HANDOFF_SCHEMA :: json where
  "V1_HANDOFF_SCHEMA =
    JObj [
      (''$schema'', JStr ''https://json-schema.org/draft/2020-12/schema''),
      (''$id'', JStr ''https://lcim.local/schemas/compat/v1-handoff.v1.schema.json''),
      (''title'', JStr ''LCIM V1 compatibility worker handoff''),
      (''type'', JStr ''object''),
      (''additionalProperties'', JBool False),
      (''required'', JArr [JStr ''workUnitId'', JStr ''workerStatus'', JStr ''summary'']),
      (''properties'', JObj [
          (''workUnitId'', JObj [
              (''type'', JStr ''string''),
              (''minLength'', JInt 1),
              (''maxLength'', JInt 200)]),
          (''workerStatus'', JObj [
              (''enum'', JArr [JStr ''WORK_COMPLETE'', JStr ''BLOCKED'', JStr ''FAILED'', JStr ''NO_CHANGE'',
                  JStr ''PATCH_READY''])]),
          (''summary'', JObj [
              (''type'', JStr ''string''),
              (''minLength'', JInt 1),
              (''maxLength'', JInt 2000)]),
          (''evidence'', JObj [
              (''type'', JArr [JStr ''string'', JStr ''array'']),
              (''items'', JObj [
                  (''type'', JStr ''string''),
                  (''minLength'', JInt 1),
                  (''maxLength'', JInt 500)])]),
          (''acceptanceClaims'', JObj [
              (''type'', JStr ''array''),
              (''items'', JObj [
                  (''type'', JStr ''object''),
                  (''additionalProperties'', JBool False),
                  (''required'', JArr [JStr ''claim'']),
                  (''properties'', JObj [
                      (''claim'', JObj [
                          (''type'', JStr ''string''),
                          (''minLength'', JInt 1),
                          (''maxLength'', JInt 500)]),
                      (''evidenceRefs'', JObj [
                          (''type'', JStr ''array''),
                          (''items'', JObj [
                              (''type'', JStr ''string''),
                              (''minLength'', JInt 1),
                              (''maxLength'', JInt 500)])]),
                      (''evidence'', JObj [
                          (''type'', JArr [JStr ''string'', JStr ''array'']),
                          (''items'', JObj [
                              (''type'', JStr ''string''),
                              (''minLength'', JInt 1),
                              (''maxLength'', JInt 500)])])])])]),
          (''changedFiles'', JObj [
              (''type'', JStr ''array''),
              (''items'', JObj [
                  (''type'', JStr ''string''),
                  (''minLength'', JInt 1),
                  (''maxLength'', JInt 500)])]),
          (''lineCount'', JObj [(''type'', JStr ''integer'')]),
          (''patchHash'', JObj [
              (''type'', JStr ''string''),
              (''minLength'', JInt 1),
              (''maxLength'', JInt 200)]),
          (''baseSha'', JObj [
              (''type'', JStr ''string''),
              (''minLength'', JInt 1),
              (''maxLength'', JInt 64)]),
          (''headSha'', JObj [
              (''type'', JStr ''string''),
              (''minLength'', JInt 1),
              (''maxLength'', JInt 64)]),
          (''testLogPath'', JObj [
              (''type'', JArr [JStr ''string'', JStr ''null'']),
              (''maxLength'', JInt 500)]),
          (''testExitStatus'', JObj [(''type'', JArr [JStr ''integer'', JStr ''null''])]),
          (''secretScan'', JObj [
              (''type'', JStr ''string''),
              (''minLength'', JInt 1),
              (''maxLength'', JInt 500)]),
          (''integrationStatus'', JObj [
              (''type'', JStr ''string''),
              (''minLength'', JInt 1),
              (''maxLength'', JInt 500)]),
          (''remainingIssues'', JObj [
              (''type'', JStr ''array''),
              (''items'', JObj [
                  (''type'', JStr ''string''),
                  (''minLength'', JInt 1),
                  (''maxLength'', JInt 500)])]),
          (''reviewRisks'', JObj [
              (''type'', JStr ''array''),
              (''items'', JObj [
                  (''type'', JStr ''string''),
                  (''minLength'', JInt 1),
                  (''maxLength'', JInt 500)])]),
          (''uncertainty'', JObj [
              (''type'', JStr ''string''),
              (''minLength'', JInt 1),
              (''maxLength'', JInt 1000)])])]"

text \<open>src/schemas/compat/v1-projection.v1.schema.json.\<close>

definition V1_PROJECTION_SCHEMA :: json where
  "V1_PROJECTION_SCHEMA =
    JObj [
      (''$schema'', JStr ''https://json-schema.org/draft/2020-12/schema''),
      (''$id'', JStr ''https://lcim.local/schemas/compat/v1-projection.v1.schema.json''),
      (''title'', JStr ''LCIM V1 compatibility projection''),
      (''type'', JStr ''object''),
      (''additionalProperties'', JBool False),
      (''required'', JArr [JStr ''schemaName'', JStr ''schemaVersion'', JStr ''provenance'', JStr ''sourceKind'',
          JStr ''sourceVersion'', JStr ''sourceByteCount'', JStr ''sourceDigest'',
          JStr ''workUnits'']),
      (''properties'', JObj [
          (''schemaName'', JObj [(''const'', JStr ''lcim.v1.projection'')]),
          (''schemaVersion'', JObj [(''const'', JStr ''1.0.0'')]),
          (''provenance'', JObj [(''const'', JStr ''V1_COMPAT'')]),
          (''sourceKind'', JObj [(''enum'', JArr [JStr ''ledger'', JStr ''handoff'', JStr ''response''])]),
          (''sourceVersion'', JObj [(''const'', JStr ''1.0'')]),
          (''sourceByteCount'', JObj [(''type'', JStr ''integer'')]),
          (''sourceDigest'', JObj [(''type'', JStr ''string''), (''pattern'', JStr ''^[0-9a-f]{64}$'')]),
          (''ledger'', JObj [
              (''type'', JStr ''object''),
              (''additionalProperties'', JBool False),
              (''required'', JArr [JStr ''eventCount'', JStr ''chainValid'', JStr ''workUnitCount'']),
              (''properties'', JObj [
                  (''eventCount'', JObj [(''type'', JStr ''integer'')]),
                  (''chainValid'', JObj [(''type'', JStr ''boolean'')]),
                  (''workUnitCount'', JObj [(''type'', JStr ''integer'')])])]),
          (''workUnits'', JObj [
              (''type'', JStr ''array''),
              (''minItems'', JInt 1),
              (''items'', JObj [
                  (''type'', JStr ''object''),
                  (''additionalProperties'', JBool False),
                  (''required'', JArr [JStr ''workUnitId'', JStr ''workUnitIdV2PatternCompatible'', JStr ''assignment'',
                      JStr ''handoff'', JStr ''patch'', JStr ''controller'', JStr ''coverage'',
                      JStr ''usageCost'', JStr ''semanticReview'']),
                  (''properties'', JObj [
                      (''workUnitId'', JObj [
                          (''type'', JStr ''string''),
                          (''minLength'', JInt 1),
                          (''maxLength'', JInt 200)]),
                      (''workUnitIdV2PatternCompatible'', JObj [
                          (''type'', JArr [JStr ''boolean'', JStr ''string'']),
                          (''enum'', JArr [JBool True, JBool False, JStr ''UNKNOWN_V1''])]),
                      (''assignment'', JObj [
                          (''type'', JStr ''object''),
                          (''additionalProperties'', JBool False),
                          (''required'', JArr [JStr ''present'', JStr ''taskSummary'', JStr ''baseShaClaim'']),
                          (''properties'', JObj [
                              (''present'', JObj [(''type'', JStr ''boolean'')]),
                              (''taskSummary'', JObj [(''type'', JStr ''string''), (''maxLength'', JInt 500)]),
                              (''baseShaClaim'', JObj [(''type'', JStr ''string''), (''maxLength'', JInt 64)])])]),
                      (''handoff'', JObj [
                          (''type'', JStr ''object''),
                          (''additionalProperties'', JBool False),
                          (''required'', JArr [JStr ''present'', JStr ''parseable'', JStr ''normalization'',
                              JStr ''historicallySchemaValid'', JStr ''v2WorkerSchemaValid'',
                              JStr ''defect'', JStr ''workerClaim'']),
                          (''properties'', JObj [
                              (''present'', JObj [(''type'', JStr ''boolean'')]),
                              (''parseable'', JObj [
                                  (''type'', JArr [JStr ''boolean'', JStr ''string'']),
                                  (''enum'', JArr [JBool True, JBool False, JStr ''UNKNOWN_V1''])]),
                              (''normalization'', JObj [
                                  (''type'', JStr ''string''),
                                  (''enum'', JArr [JStr ''none'', JStr ''fence'', JStr ''prose-wrapped'', JStr ''UNKNOWN_V1''])]),
                              (''historicallySchemaValid'', JObj [
                                  (''type'', JArr [JStr ''boolean'', JStr ''string'']),
                                  (''enum'', JArr [JBool True, JBool False, JStr ''UNKNOWN_V1''])]),
                              (''v2WorkerSchemaValid'', JObj [
                                  (''type'', JArr [JStr ''boolean'', JStr ''string'']),
                                  (''enum'', JArr [JBool True, JBool False, JStr ''UNKNOWN_V1''])]),
                              (''defect'', JObj [
                                  (''type'', JStr ''string''),
                                  (''enum'', JArr [JStr ''TRANSPORT_MALFORMED'', JStr ''SCHEMA_MISMATCH'', JStr ''NONE'',
                                      JStr ''UNKNOWN_V1''])]),
                              (''workerClaim'', JObj [
                                  (''type'', JStr ''object''),
                                  (''additionalProperties'', JBool False),
                                  (''required'', JArr [JStr ''status'', JStr ''statusInV1Vocabulary'', JStr ''v2WorkerStatus'', JStr ''summary'',
                                      JStr ''testLogPath'', JStr ''testExitStatus'',
                                      JStr ''changedFileCount'', JStr ''patchHashClaim'',
                                      JStr ''evidenceRefCount'']),
                                  (''properties'', JObj [
                                      (''status'', JObj [
                                          (''type'', JStr ''string''),
                                          (''maxLength'', JInt 100)]),
                                      (''statusInV1Vocabulary'', JObj [
                                          (''type'', JArr [JStr ''boolean'', JStr ''string'']),
                                          (''enum'', JArr [JBool True, JBool False, JStr ''UNKNOWN_V1''])]),
                                      (''v2WorkerStatus'', JObj [
                                          (''type'', JStr ''string''),
                                          (''enum'', JArr [JStr ''WORK_COMPLETE'', JStr ''BLOCKED'', JStr ''FAILED'', JStr ''NO_CHANGE'',
                                              JStr ''UNKNOWN_V1''])]),
                                      (''summary'', JObj [
                                          (''type'', JStr ''string''),
                                          (''maxLength'', JInt 2000)]),
                                      (''testLogPath'', JObj [
                                          (''type'', JStr ''string''),
                                          (''maxLength'', JInt 500)]),
                                      (''testExitStatus'', JObj [
                                          (''type'', JArr [JStr ''integer'', JStr ''string''])]),
                                      (''changedFileCount'', JObj [
                                          (''type'', JArr [JStr ''integer'', JStr ''string''])]),
                                      (''patchHashClaim'', JObj [
                                          (''type'', JStr ''string''),
                                          (''maxLength'', JInt 200)]),
                                      (''evidenceRefCount'', JObj [
                                          (''type'', JArr [JStr ''integer'', JStr ''string''])])])])])]),
                      (''patch'', JObj [
                          (''type'', JStr ''object''),
                          (''additionalProperties'', JBool False),
                          (''required'', JArr [JStr ''usefulness'', JStr ''usefulnessEvidence'', JStr ''preserved'']),
                          (''properties'', JObj [
                              (''usefulness'', JObj [
                                  (''type'', JStr ''string''),
                                  (''enum'', JArr [JStr ''USEFUL'', JStr ''NOT_USEFUL'', JStr ''UNKNOWN_V1''])]),
                              (''usefulnessEvidence'', JObj [(''type'', JStr ''string''), (''maxLength'', JInt 500)]),
                              (''preserved'', JObj [(''type'', JStr ''boolean''), (''const'', JBool True)])])]),
                      (''controller'', JObj [
                          (''type'', JStr ''object''),
                          (''additionalProperties'', JBool False),
                          (''required'', JArr [JStr ''manualIntegrationObserved'', JStr ''integrationNote'',
                              JStr ''v1RejectionObserved'', JStr ''v2Disposition'']),
                          (''properties'', JObj [
                              (''manualIntegrationObserved'', JObj [
                                  (''type'', JArr [JStr ''boolean'', JStr ''string'']),
                                  (''enum'', JArr [JBool True, JStr ''UNKNOWN_V1''])]),
                              (''integrationNote'', JObj [(''type'', JStr ''string''), (''maxLength'', JInt 500)]),
                              (''v1RejectionObserved'', JObj [
                                  (''type'', JArr [JStr ''boolean'', JStr ''string'']),
                                  (''enum'', JArr [JBool True, JStr ''UNKNOWN_V1''])]),
                              (''v2Disposition'', JObj [
                                  (''type'', JStr ''string''),
                                  (''enum'', JArr [JStr ''UNKNOWN_V1''])])])]),
                      (''coverage'', JObj [
                          (''type'', JStr ''object''),
                          (''additionalProperties'', JBool False),
                          (''required'', JArr [JStr ''laterLedgerCoverageKnown'', JStr ''laterEventCount'', JStr ''incomplete'',
                              JStr ''laterInvocationRecords'']),
                          (''properties'', JObj [
                              (''laterLedgerCoverageKnown'', JObj [(''type'', JStr ''boolean'')]),
                              (''laterEventCount'', JObj [(''type'', JArr [JStr ''integer'', JStr ''string''])]),
                              (''incomplete'', JObj [
                                  (''type'', JArr [JStr ''boolean'', JStr ''string'']),
                                  (''enum'', JArr [JBool True, JBool False, JStr ''UNKNOWN_V1''])]),
                              (''laterInvocationRecords'', JObj [
                                  (''type'', JStr ''string''),
                                  (''enum'', JArr [JStr ''UNKNOWN_V1''])])])]),
                      (''usageCost'', JObj [
                          (''type'', JStr ''object''),
                          (''additionalProperties'', JBool False),
                          (''required'', JArr [JStr ''tokens'', JStr ''cost'']),
                          (''properties'', JObj [
                              (''tokens'', JObj [
                                  (''type'', JStr ''string''),
                                  (''enum'', JArr [JStr ''UNKNOWN_V1''])]),
                              (''cost'', JObj [
                                  (''type'', JStr ''string''),
                                  (''enum'', JArr [JStr ''UNKNOWN_V1''])])])]),
                      (''semanticReview'', JObj [
                          (''type'', JStr ''object''),
                          (''additionalProperties'', JBool False),
                          (''required'', JArr [JStr ''findings'']),
                          (''properties'', JObj [
                              (''findings'', JObj [
                                  (''type'', JStr ''string''),
                                  (''enum'', JArr [JStr ''UNKNOWN_V1''])])])])])])])])]"

section \<open>The registry\<close>

definition COMPAT_SCHEMA_MANIFEST :: "(string \<times> json) list" where
  "COMPAT_SCHEMA_MANIFEST =
     [(''lcim.v1.ledger-event'', V1_LEDGER_EVENT_SCHEMA), (''lcim.v1.handoff'', V1_HANDOFF_SCHEMA),
      (''lcim.v1.projection'', V1_PROJECTION_SCHEMA)]"

definition COMPAT_SCHEMA_VERSION :: string where
  "COMPAT_SCHEMA_VERSION = ''1.0.0''"

definition V1_COMPAT :: json where
  "V1_COMPAT = JStr ''V1_COMPAT''"

definition UNKNOWN_V1 :: json where
  "UNKNOWN_V1 = JStr ''UNKNOWN_V1''"

definition compatSchemaNames :: "string list" where
  "compatSchemaNames = map fst COMPAT_SCHEMA_MANIFEST"

definition getCompatSchemaVersion :: "string \<Rightarrow> string result" where
  "getCompatSchemaVersion name =
     rbind (need (name \<in> set compatSchemaNames) (ConfigError ''unknown compat schema name'')) (\<lambda>_.
     Inr COMPAT_SCHEMA_VERSION)"

definition loadCompatSchema :: "string \<Rightarrow> json result" where
  "loadCompatSchema name =
     (case map_of COMPAT_SCHEMA_MANIFEST name of
        None \<Rightarrow> Inl (ConfigError ''unknown compat schema name'')
      | Some s \<Rightarrow>
          rbind (need (nonempty_string (own ''$id'' (Some s))) (ConfigError ''missing $id'')) (\<lambda>_. Inr s))"

text \<open>A fact of a projection must not be empty, and a number must be a natural one.\<close>

fun fact_issues :: "string \<Rightarrow> jsval \<Rightarrow> issue list" where
  "fact_issues at (Some (JStr s)) =
     (if s = [] then [(at, ''string facts must be non-empty'')] else [])"
| "fact_issues at (Some (JInt n)) =
     (if n < 0 then [(at, ''integer facts must be non-negative integers'')] else [])"
| "fact_issues at (Some (JFloat _)) = [(at, ''integer facts must be non-negative integers'')]"
| "fact_issues at _ = []"

text \<open>\<open>a?.b\<close> along a path of properties.\<close>

definition chain_get :: "string list \<Rightarrow> json \<Rightarrow> jsval" where
  "chain_get ks v = fold own ks (Some v)"

definition FACT_PATHS :: "string list list" where
  "FACT_PATHS =
     [[''workUnitId''], [''assignment'', ''taskSummary''], [''assignment'', ''baseShaClaim''],
      [''handoff'', ''workerClaim'', ''status''], [''handoff'', ''workerClaim'', ''summary''],
      [''handoff'', ''workerClaim'', ''testLogPath''], [''handoff'', ''workerClaim'', ''patchHashClaim''],
      [''handoff'', ''workerClaim'', ''evidenceRefCount''], [''handoff'', ''workerClaim'', ''changedFileCount''],
      [''handoff'', ''workerClaim'', ''testExitStatus''], [''patch'', ''usefulnessEvidence''],
      [''controller'', ''integrationNote''], [''coverage'', ''laterEventCount'']]"

definition unit_fact_issues :: "nat \<Rightarrow> json \<Rightarrow> issue list" where
  "unit_fact_issues i wu =
     (if is_obj wu
      then concat (map (\<lambda>ks. fact_issues (''workUnits['' @ nat_str i @ ''].'' @ join_with ''.'' ks) (chain_get ks wu)) FACT_PATHS)
      else [])"

definition assertNoEmptyStringFacts :: "string \<Rightarrow> json \<Rightarrow> issue list" where
  "assertNoEmptyStringFacts name v =
     (if name = ''lcim.v1.projection'' \<and> is_obj v
      then concat (map (\<lambda>(i, wu). unit_fact_issues i wu) (entries (arr_or_empty (own ''workUnits'' (Some v)))))
      else [])"

text \<open>The issues of a record; it is valid when there are none.\<close>

definition validateCompatRecord :: "string \<Rightarrow> json \<Rightarrow> issue list result" where
  "validateCompatRecord name v =
     rbind (loadCompatSchema name) (\<lambda>schema.
     rbind (validate_against_schema lcim_regexps v schema) (\<lambda>es.
     Inr (if es = [] then assertNoEmptyStringFacts name v else es)))"

definition stampCompatRecord :: "string \<Rightarrow> jsval \<Rightarrow> json result" where
  "stampCompatRecord name data =
     rbind (need (plain_object data) (ConfigError ''stampCompatRecord requires a plain object'')) (\<lambda>_.
     rbind (getCompatSchemaVersion name) (\<lambda>version.
     let rec = JObj (put ''schemaVersion'' (JStr version) (put ''schemaName'' (JStr name) (spread data))) in
     rbind (validateCompatRecord name rec) (\<lambda>es.
     rbind (need (es = []) (SchemaValidationError es)) (\<lambda>_. Inr rec))))"

end
