(* ===== verification/Compat_Handoff.thy ===== *)
theory Compat_Handoff
  imports Compat_Schemas
begin

text \<open>
  Which texts are version 1 evidence, src/src/compat/v1/version.mjs, and the errors of
  src/src/compat/v1/errors.mjs; and the interpretation of handoffs and final responses, handoff.mjs
  and response.mjs beside it.  The explanation of a verdict is left out.
\<close>

section \<open>Errors\<close>

definition V1CompatError :: lcim_error where
  "V1CompatError = OtherError (Some ''V1_COMPAT_INVALID'')"

definition UnsupportedV1VersionError :: lcim_error where
  "UnsupportedV1VersionError = OtherError (Some ''V1_UNSUPPORTED_VERSION'')"

definition V1ChainIntegrityError :: lcim_error where
  "V1ChainIntegrityError = OtherError (Some ''V1_HASH_CHAIN_BROKEN'')"

section \<open>Vocabulary\<close>

datatype v1_state = SUPPORTED_V1 | UNSUPPORTED_LEGACY_VARIANT | NOT_V1

datatype v1_kind = LEDGER | HANDOFF

definition SUPPORTED_V1_VERSION :: string where
  "SUPPORTED_V1_VERSION = ''1.0''"

definition SUPPORTED_V1_LEDGER_SCHEMA_NAME :: string where
  "SUPPORTED_V1_LEDGER_SCHEMA_NAME = ''lcim.v1.ledger-event''"

definition V1_STATUS_VOCABULARY :: "string list" where
  "V1_STATUS_VOCABULARY = [''WORK_COMPLETE'', ''BLOCKED'', ''FAILED'', ''NO_CHANGE'', ''PATCH_READY'']"

definition V1_LEGACY_FIELD_NAMES :: "string list" where
  "V1_LEGACY_FIELD_NAMES = [''evidence'', ''changedFiles'', ''lineCount'', ''patchHash'', ''baseSha'', ''headSha'',
     ''testLogPath'', ''testExitStatus'', ''secretScan'', ''integrationStatus'', ''patchReady'']"

definition V1_LEDGER_EVENT_KINDS :: "string list" where
  "V1_LEDGER_EVENT_KINDS = [''ASSIGNMENT'', ''HANDOFF'', ''CONTROLLER_ACTION'']"

definition V1_LEDGER_LIKE_FIELDS :: "string list" where
  "V1_LEDGER_LIKE_FIELDS = [''eventKind'', ''seq'', ''prevDigest'', ''digest'']"

section \<open>Verdicts\<close>

text \<open>How the evidence is encoded, the markers of a payload, and whether it can only be schema-invalid.\<close>

record v1_detail =
  dd_encoding :: string
  dd_markers :: "string list"
  dd_schemaInvalid :: bool

record v1_detection =
  dt_state :: v1_state
  dt_kind :: "v1_kind option"
  dt_version :: "string option"
  dt_detail :: "v1_detail option"

definition notV1 :: v1_detection where
  "notV1 = \<lparr>dt_state = NOT_V1, dt_kind = None, dt_version = None, dt_detail = None\<rparr>"

definition unsupported_v1 :: v1_detection where
  "unsupported_v1 = \<lparr>dt_state = UNSUPPORTED_LEGACY_VARIANT, dt_kind = None, dt_version = None, dt_detail = None\<rparr>"

definition supported_v1 :: "v1_kind \<Rightarrow> v1_detail \<Rightarrow> v1_detection" where
  "supported_v1 kind d =
     \<lparr>dt_state = SUPPORTED_V1, dt_kind = Some kind, dt_version = Some SUPPORTED_V1_VERSION, dt_detail = Some d\<rparr>"

definition is_string :: "jsval \<Rightarrow> bool" where
  "is_string v = (case v of Some (JStr _) \<Rightarrow> True | _ \<Rightarrow> False)"

section \<open>Ledgers\<close>

definition hasLedgerShape :: "json \<Rightarrow> bool" where
  "hasLedgerShape v \<longleftrightarrow> list_ex (\<lambda>f. own f (Some v) \<noteq> None) V1_LEDGER_LIKE_FIELDS"

text \<open>An event that makes a marked ledger a mixed history; values that are no objects are passed over.\<close>

definition mixed_event :: "json \<Rightarrow> bool" where
  "mixed_event ev \<longleftrightarrow> is_obj ev \<and>
     (is_string (own ''eventKind'' (Some ev)) \<and> \<not> one_of V1_LEDGER_EVENT_KINDS (own ''eventKind'' (Some ev)) \<or>
      is_string (own ''schemaName'' (Some ev)) \<and> \<not> is_lit (own ''schemaName'' (Some ev)) SUPPORTED_V1_LEDGER_SCHEMA_NAME \<or>
      is_string (own ''v1Version'' (Some ev)) \<and> \<not> is_lit (own ''v1Version'' (Some ev)) SUPPORTED_V1_VERSION \<or>
      own ''v1Version'' (Some ev) \<noteq> None \<and> \<not> is_string (own ''v1Version'' (Some ev)) \<or>
      own ''schemaName'' (Some ev) = None \<or> own ''v1Version'' (Some ev) = None)"

definition supportedLedger :: "string \<Rightarrow> json list \<Rightarrow> v1_detection" where
  "supportedLedger encoding evs =
     (if list_ex mixed_event evs then unsupported_v1
      else supported_v1 LEDGER \<lparr>dd_encoding = encoding, dd_markers = [], dd_schemaInvalid = False\<rparr>)"

definition detectLedgerForm :: "string \<Rightarrow> json \<Rightarrow> json list \<Rightarrow> v1_detection" where
  "detectLedgerForm encoding v evs =
     (let name = own ''schemaName'' (Some v); version = own ''v1Version'' (Some v) in
      if is_lit name SUPPORTED_V1_LEDGER_SCHEMA_NAME
      then (if is_lit version SUPPORTED_V1_VERSION then supportedLedger encoding evs else unsupported_v1)
      else if is_string name then notV1
      else if is_string version
      then (if is_lit version SUPPORTED_V1_VERSION then supportedLedger encoding evs else unsupported_v1)
      else if hasLedgerShape v then unsupported_v1 else notV1)"

section \<open>Payloads\<close>

definition payload_markers :: "json \<Rightarrow> string list" where
  "payload_markers v =
     (if one_of V1_STATUS_VOCABULARY (own ''workerStatus'' (Some v)) then [''workerStatus''] else [])
     @ filter (\<lambda>f. own f (Some v) \<noteq> None) V1_LEGACY_FIELD_NAMES"

definition detectPayloadForm :: "string \<Rightarrow> json \<Rightarrow> v1_detection" where
  "detectPayloadForm encoding v =
     (let markers = payload_markers v in
      if markers \<noteq> [] then supported_v1 HANDOFF \<lparr>dd_encoding = encoding, dd_markers = markers, dd_schemaInvalid = False\<rparr>
      else if own ''workerStatus'' (Some v) \<noteq> None then
        (if nonempty_string (own ''workUnitId'' (Some v)) \<or> nonempty_string (own ''summary'' (Some v))
         then supported_v1 HANDOFF \<lparr>dd_encoding = encoding, dd_markers = markers, dd_schemaInvalid = True\<rparr>
         else unsupported_v1)
      else notV1)"

section \<open>Texts\<close>

text \<open>The trimmed lines that are not empty, and a line that does not parse as \<open>null\<close>.\<close>

definition text_lines :: "string \<Rightarrow> string list" where
  "text_lines s = filter (\<lambda>l. l \<noteq> []) (map js_trim (split_lines s))"

definition line_value :: "string \<Rightarrow> json" where
  "line_value l = (case json_parse l of None \<Rightarrow> JNull | Some v \<Rightarrow> v)"

definition firstParseableObject :: "string list \<Rightarrow> json option" where
  "firstParseableObject ls = List.find is_obj (List.map_filter json_parse ls)"

definition detect_array :: "json list \<Rightarrow> v1_detection" where
  "detect_array evs =
     (case evs of [] \<Rightarrow> notV1 | v # _ \<Rightarrow> if is_obj v then detectLedgerForm ''array'' v evs else notV1)"

definition detect_object :: "json \<Rightarrow> v1_detection" where
  "detect_object v =
     (let d = detectLedgerForm ''single-object'' v [v] in
      if dt_state d \<noteq> NOT_V1 then d else detectPayloadForm ''strict'' v)"

definition detect_lines :: "string \<Rightarrow> v1_detection" where
  "detect_lines s =
     (case firstParseableObject (text_lines s) of
        None \<Rightarrow> notV1
      | Some v \<Rightarrow> detectLedgerForm ''jsonl'' v (map line_value (text_lines s)))"

definition detect_embedded :: "string \<Rightarrow> v1_detection result" where
  "detect_embedded s =
     (case parseWorkerResponse (Some (JStr s)) of
        Inl (TransportParseError _) \<Rightarrow> Inr notV1
      | Inl e \<Rightarrow> Inl e
      | Inr (v, x) \<Rightarrow> Inr (if is_obj v then detectPayloadForm (normalization x) v else notV1))"

fun detectV1Version :: "jsval \<Rightarrow> v1_detection result" where
  "detectV1Version (Some (JStr s)) =
     (if blank_text s then Inr notV1
      else case json_parse s of
          Some (JArr evs) \<Rightarrow> Inr (detect_array evs)
        | Some v \<Rightarrow> Inr (if is_obj v then detect_object v else notV1)
        | None \<Rightarrow>
            (let d = detect_lines s in
             if dt_state d \<noteq> NOT_V1 then Inr d else detect_embedded s))"
| "detectV1Version _ = Inr notV1"

definition detectionToError :: "v1_detection \<Rightarrow> lcim_error" where
  "detectionToError d =
     (if dt_state d = UNSUPPORTED_LEGACY_VARIANT then UnsupportedV1VersionError else V1CompatError)"


text \<open>
  The interpretation of a version 1 handoff, src/src/compat/v1/handoff.mjs and
  src/src/compat/v1/response.mjs: what the text claims, kept apart from what is known.  A fact that
  cannot be established is \<open>UNKNOWN_V1\<close>.
\<close>

section \<open>Claims\<close>

definition unknownClaim :: json where
  "unknownClaim =
     JObj [(''status'', UNKNOWN_V1), (''statusInV1Vocabulary'', UNKNOWN_V1), (''v2WorkerStatus'', UNKNOWN_V1),
       (''summary'', UNKNOWN_V1), (''testLogPath'', UNKNOWN_V1), (''testExitStatus'', UNKNOWN_V1),
       (''changedFileCount'', UNKNOWN_V1), (''patchHashClaim'', UNKNOWN_V1), (''evidenceRefCount'', UNKNOWN_V1)]"

text \<open>What one field adds to the count of evidence: nothing when it is absent, \<open>None\<close> when it cannot be counted.\<close>

fun field_evidence :: "jsval \<Rightarrow> (bool \<times> nat) option" where
  "field_evidence None = Some (False, 0)"
| "field_evidence (Some (JStr s)) = Some (True, if s = [] then 0 else 1)"
| "field_evidence (Some (JArr xs)) = Some (True, length xs)"
| "field_evidence (Some _) = None"

definition add_evidence :: "(bool \<times> nat) option \<Rightarrow> (bool \<times> nat) option \<Rightarrow> (bool \<times> nat) option" where
  "add_evidence a b =
     (case (a, b) of (Some (x, m), Some (y, n)) \<Rightarrow> Some (x \<or> y, m + n) | _ \<Rightarrow> None)"

text \<open>A claim that is an array has no such fields.\<close>

definition claim_evidence :: "json \<Rightarrow> (bool \<times> nat) option" where
  "claim_evidence c =
     (if is_obj c \<or> is_arr c
      then add_evidence (field_evidence (own ''evidenceRefs'' (Some c))) (field_evidence (own ''evidence'' (Some c)))
      else None)"

definition claims_evidence :: "jsval \<Rightarrow> (bool \<times> nat) option" where
  "claims_evidence v =
     (case v of
        None \<Rightarrow> Some (False, 0)
      | Some (JArr cs) \<Rightarrow> foldr (\<lambda>c. add_evidence (claim_evidence c)) cs (Some (False, 0))
      | _ \<Rightarrow> None)"

definition countEvidenceRefs :: "json \<Rightarrow> json" where
  "countEvidenceRefs v =
     (case add_evidence (field_evidence (own ''evidence'' (Some v))) (claims_evidence (own ''acceptanceClaims'' (Some v))) of
        Some (True, n) \<Rightarrow> JInt (int n)
      | _ \<Rightarrow> UNKNOWN_V1)"

definition text_or_unknown :: "jsval \<Rightarrow> json" where
  "text_or_unknown v = (if nonempty_string v then the v else UNKNOWN_V1)"

definition extractWorkerClaim :: "json \<Rightarrow> json" where
  "extractWorkerClaim v =
     (if \<not> is_obj v then unknownClaim
      else
        let status = own ''workerStatus'' (Some v) in
        JObj [(''status'', if is_string status then the status else UNKNOWN_V1),
          (''statusInV1Vocabulary'', if is_string status then JBool (one_of V1_STATUS_VOCABULARY status) else UNKNOWN_V1),
          (''v2WorkerStatus'', if one_of WORKER_STATUS status then the status else UNKNOWN_V1),
          (''summary'', text_or_unknown (own ''summary'' (Some v))),
          (''testLogPath'', text_or_unknown (own ''testLogPath'' (Some v))),
          (''testExitStatus'', (case own ''testExitStatus'' (Some v) of Some (JInt n) \<Rightarrow> JInt n | _ \<Rightarrow> UNKNOWN_V1)),
          (''changedFileCount'', (case own ''changedFiles'' (Some v) of Some (JArr xs) \<Rightarrow> JInt (int (length xs)) | _ \<Rightarrow> UNKNOWN_V1)),
          (''patchHashClaim'', text_or_unknown (own ''patchHash'' (Some v))),
          (''evidenceRefCount'', countEvidenceRefs v)])"

section \<open>Handoffs\<close>

record v1_handoff =
  vh_parseable :: json
  vh_normalization :: "string option"
  vh_extraction :: "extraction option"
  vh_value :: "json option"
  vh_schemaValid :: json
  vh_schemaErrors :: "issue list"
  vh_v2Valid :: json
  vh_defect :: json
  vh_claim :: json

text \<open>A text from which no payload could be taken.\<close>

definition no_payload :: "json \<Rightarrow> extraction option \<Rightarrow> json \<Rightarrow> v1_handoff" where
  "no_payload parseable x defect =
     \<lparr>vh_parseable = parseable, vh_normalization = map_option normalization x, vh_extraction = x, vh_value = None,
      vh_schemaValid = UNKNOWN_V1, vh_schemaErrors = [], vh_v2Valid = UNKNOWN_V1, vh_defect = defect,
      vh_claim = unknownClaim\<rparr>"

definition interpret_payload :: "json \<Rightarrow> extraction \<Rightarrow> v1_handoff result" where
  "interpret_payload v x =
     rbind (validateCompatRecord ''lcim.v1.handoff'' v) (\<lambda>es.
     rbind (validateWorkerResult v) (\<lambda>(ok, _).
     Inr \<lparr>vh_parseable = JBool True, vh_normalization = Some (normalization x), vh_extraction = Some x, vh_value = Some v,
       vh_schemaValid = JBool (es = []), vh_schemaErrors = es, vh_v2Valid = JBool ok,
       vh_defect = JStr (if es = [] then ''NONE'' else ''SCHEMA_MISMATCH''), vh_claim = extractWorkerClaim v\<rparr>))"

fun parseV1Handoff :: "jsval \<Rightarrow> v1_handoff result" where
  "parseV1Handoff (Some (JStr s)) =
     (if blank_text s then Inr (no_payload (JBool False) None UNKNOWN_V1)
      else case parseWorkerResponse (Some (JStr s)) of
          Inl _ \<Rightarrow> Inr (no_payload (JBool False) None (JStr ''TRANSPORT_MALFORMED''))
        | Inr (v, x) \<Rightarrow>
            if is_obj v then interpret_payload v x
            else Inr (no_payload (JBool False) (Some x) (JStr ''TRANSPORT_MALFORMED'')))"
| "parseV1Handoff _ = Inr (no_payload (JBool False) None UNKNOWN_V1)"

text \<open>A final response, and whether there is one.\<close>

definition interpretV1FinalResponse :: "jsval \<Rightarrow> (bool \<times> v1_handoff) result" where
  "interpretV1FinalResponse text =
     (case text of
        Some (JStr s) \<Rightarrow>
          if blank_text s then Inr (False, no_payload UNKNOWN_V1 None UNKNOWN_V1)
          else rbind (parseV1Handoff text) (\<lambda>h. Inr (True, h))
      | _ \<Rightarrow> Inr (False, no_payload UNKNOWN_V1 None UNKNOWN_V1))"

end
