(* ===== verification/Compat_Ledger.thy ===== *)
theory Compat_Ledger
  imports Compat_Handoff
begin

text \<open>
  The reader of a version 1 ledger, src/src/compat/v1/ledger.mjs: decoding, the check of every event
  against schema, rules and chain, and the grouping by work unit.  An event is hashed over its
  canonical text without the digest, as in version 2 (src/src/compat/v1/digest.mjs).  The second
  half holds the projection (normalize.mjs) and the entry point (index.mjs).
\<close>

section \<open>Events\<close>

definition V1_GENESIS_DIGEST :: string where
  "V1_GENESIS_DIGEST = replicate 64 (CHR ''0'')"

text \<open>The rules of each kind of event; an event of the schema has a known kind.\<close>

definition assignment_rules :: "json \<Rightarrow> bool" where
  "assignment_rules ev \<longleftrightarrow> own ''assignment'' (Some ev) \<noteq> None \<and>
     nonempty_string (own ''summary'' (own ''assignment'' (Some ev)))"

definition handoff_rules :: "json \<Rightarrow> bool" where
  "handoff_rules ev \<longleftrightarrow> own ''response'' (Some ev) \<noteq> None \<and>
     \<not> (own ''text'' (own ''response'' (Some ev)) = Some JNull \<and> own ''responseRef'' (own ''response'' (Some ev)) = Some JNull)"

definition is_kind :: "string \<Rightarrow> json \<Rightarrow> bool" where
  "is_kind k ev \<longleftrightarrow> is_lit (own ''eventKind'' (Some ev)) k"

definition validateLedgerEventRules :: "json \<Rightarrow> bool" where
  "validateLedgerEventRules ev \<longleftrightarrow>
     (if is_kind ''ASSIGNMENT'' ev then assignment_rules ev
      else if is_kind ''HANDOFF'' ev then handoff_rules ev
      else if is_kind ''CONTROLLER_ACTION'' ev then own ''action'' (Some ev) \<noteq> None
      else False)"

definition check_event :: "json \<Rightarrow> unit result" where
  "check_event ev =
     rbind (need (is_obj ev) V1CompatError) (\<lambda>_.
     rbind (validateCompatRecord ''lcim.v1.ledger-event'' ev) (\<lambda>es.
     rbind (need (es = []) V1CompatError) (\<lambda>_.
     rbind (need (validateLedgerEventRules ev) V1CompatError) (\<lambda>_.
     need (int_at_least 1 (own ''seq'' (Some ev))) V1CompatError))))"

definition seq_of :: "json \<Rightarrow> int" where
  "seq_of ev = (case own ''seq'' (Some ev) of Some (JInt n) \<Rightarrow> n | _ \<Rightarrow> 0)"

text \<open>The first event has the number 1, and the numbers of the others grow.\<close>

definition check_link :: "digest_fun \<Rightarrow> int option \<Rightarrow> jsval \<Rightarrow> json \<Rightarrow> unit result" where
  "check_link sha prev digest ev =
     rbind (need (case prev of None \<Rightarrow> seq_of ev = 1 | Some n \<Rightarrow> n < seq_of ev) V1ChainIntegrityError) (\<lambda>_.
     rbind (need (own ''prevDigest'' (Some ev) = digest) V1ChainIntegrityError) (\<lambda>_.
     need (is_lit (own ''digest'' (Some ev)) (sha (event_text ev))) V1ChainIntegrityError))"

fun check_events :: "digest_fun \<Rightarrow> int option \<Rightarrow> jsval \<Rightarrow> json list \<Rightarrow> jsval result" where
  "check_events sha prev digest [] = Inr digest"
| "check_events sha prev digest (ev # evs) =
     rbind (check_event ev) (\<lambda>_.
     rbind (check_link sha prev digest ev) (\<lambda>_.
     check_events sha (Some (seq_of ev)) (own ''digest'' (Some ev)) evs))"

section \<open>Work units\<close>

record v1_unit =
  vu_events :: "json list"
  vu_assignment :: "json option"
  vu_handoff :: "json option"
  vu_actions :: "json list"

definition new_unit :: v1_unit where
  "new_unit = \<lparr>vu_events = [], vu_assignment = None, vu_handoff = None, vu_actions = []\<rparr>"

definition add_event :: "json \<Rightarrow> v1_unit \<Rightarrow> v1_unit" where
  "add_event ev u =
     (let v = u\<lparr>vu_events := vu_events u @ [ev]\<rparr> in
      if is_kind ''ASSIGNMENT'' ev then v\<lparr>vu_assignment := Some ev\<rparr>
      else if is_kind ''HANDOFF'' ev then v\<lparr>vu_handoff := Some ev\<rparr>
      else v\<lparr>vu_actions := vu_actions u @ [ev]\<rparr>)"

definition unit_id :: "json \<Rightarrow> string" where
  "unit_id ev = js_string (own ''workUnitId'' (Some ev))"

text \<open>The \<open>Map\<close> of the units, in the order of their first events.\<close>

type_synonym v1_units = "(string \<times> v1_unit) list"

definition group_event :: "json \<Rightarrow> v1_units \<Rightarrow> v1_units" where
  "group_event ev units =
     put (unit_id ev) (add_event ev (case map_of units (unit_id ev) of None \<Rightarrow> new_unit | Some u \<Rightarrow> u)) units"

definition group_events :: "json list \<Rightarrow> v1_units" where
  "group_events evs = fold group_event evs []"

section \<open>Ledgers\<close>

text \<open>\<open>decodeEvents\<close>: the values of the container.\<close>

definition decodeEvents :: "string \<Rightarrow> string \<Rightarrow> json list result" where
  "decodeEvents s encoding =
     (if encoding = ''array'' then (case json_parse s of Some (JArr evs) \<Rightarrow> Inr evs | _ \<Rightarrow> Inl TypeError)
      else if encoding = ''single-object'' then (case json_parse s of Some v \<Rightarrow> Inr [v] | None \<Rightarrow> Inl TypeError)
      else if text_lines s = [] then Inl V1CompatError
      else (case those (map json_parse (text_lines s)) of Some evs \<Rightarrow> Inr evs | None \<Rightarrow> Inl V1CompatError))"

record v1_ledger =
  vl_encoding :: string
  vl_events :: "json list"
  vl_units :: v1_units
  vl_lastDigest :: jsval

definition encoding_of :: "v1_detection \<Rightarrow> string" where
  "encoding_of d = (case dt_detail d of None \<Rightarrow> ''jsonl'' | Some x \<Rightarrow> dd_encoding x)"

fun parseV1Ledger :: "digest_fun \<Rightarrow> jsval \<Rightarrow> v1_ledger result" where
  "parseV1Ledger sha (Some (JStr s)) =
     rbind (detectV1Version (Some (JStr s))) (\<lambda>d.
     rbind (need (dt_state d = SUPPORTED_V1 \<and> dt_kind d = Some LEDGER) (detectionToError d)) (\<lambda>_.
     rbind (need (dt_version d = Some SUPPORTED_V1_VERSION) (detectionToError d)) (\<lambda>_.
     rbind (decodeEvents s (encoding_of d)) (\<lambda>evs.
     rbind (check_events sha None (Some (JStr V1_GENESIS_DIGEST)) evs) (\<lambda>digest.
     Inr \<lparr>vl_encoding = encoding_of d, vl_events = evs, vl_units = group_events evs, vl_lastDigest = digest\<rparr>)))))"
| "parseV1Ledger sha _ = Inl V1CompatError"


text \<open>
  The projection of version 1 evidence onto the vocabulary of version 2,
  src/src/compat/v1/normalize.mjs, and the entry point src/src/compat/v1/index.mjs: what the evidence
  establishes, and \<open>UNKNOWN_V1\<close> for everything else.
\<close>

section \<open>Parts of a projection\<close>

definition v2PatternCompatibility :: "json \<Rightarrow> json" where
  "v2PatternCompatibility v =
     (case v of
        JStr s \<Rightarrow> if v \<noteq> UNKNOWN_V1 then JBool (prefixed_hex ''lcim_wu_'' 32 s) else UNKNOWN_V1
      | _ \<Rightarrow> UNKNOWN_V1)"

text \<open>What a handoff says, in the form of the projection.\<close>

definition handoff_facts :: "v1_handoff \<Rightarrow> json" where
  "handoff_facts h =
     JObj [(''present'', JBool True), (''parseable'', vh_parseable h),
       (''normalization'', (case vh_normalization h of None \<Rightarrow> UNKNOWN_V1 | Some n \<Rightarrow> JStr n)),
       (''historicallySchemaValid'', vh_schemaValid h), (''v2WorkerSchemaValid'', vh_v2Valid h),
       (''defect'', vh_defect h), (''workerClaim'', vh_claim h)]"

definition unavailable_handoff :: "bool \<Rightarrow> json" where
  "unavailable_handoff there =
     JObj [(''present'', JBool there), (''parseable'', UNKNOWN_V1), (''normalization'', UNKNOWN_V1),
       (''historicallySchemaValid'', UNKNOWN_V1), (''v2WorkerSchemaValid'', UNKNOWN_V1), (''defect'', UNKNOWN_V1),
       (''workerClaim'', unknownClaim)]"

definition usage_cost :: json where
  "usage_cost = JObj [(''tokens'', UNKNOWN_V1), (''cost'', UNKNOWN_V1)]"

definition semantic_review :: json where
  "semantic_review = JObj [(''findings'', UNKNOWN_V1)]"

section \<open>A payload on its own\<close>

definition payload_unit :: "v1_handoff \<Rightarrow> json" where
  "payload_unit h =
     (let i = text_or_unknown (own ''workUnitId'' (vh_value h)) in
      JObj [(''workUnitId'', i), (''workUnitIdV2PatternCompatible'', v2PatternCompatibility i),
        (''assignment'', JObj [(''present'', JBool False), (''taskSummary'', UNKNOWN_V1), (''baseShaClaim'', UNKNOWN_V1)]),
        (''handoff'', handoff_facts h),
        (''patch'', JObj [(''usefulness'', UNKNOWN_V1), (''usefulnessEvidence'', UNKNOWN_V1), (''preserved'', JBool True)]),
        (''controller'', JObj [(''manualIntegrationObserved'', UNKNOWN_V1), (''integrationNote'', UNKNOWN_V1),
          (''v1RejectionObserved'', UNKNOWN_V1), (''v2Disposition'', UNKNOWN_V1)]),
        (''coverage'', JObj [(''laterLedgerCoverageKnown'', JBool False), (''laterEventCount'', UNKNOWN_V1),
          (''incomplete'', UNKNOWN_V1), (''laterInvocationRecords'', UNKNOWN_V1)]),
        (''usageCost'', usage_cost), (''semanticReview'', semantic_review)])"

text \<open>The provenance of a projection: its source and the digest of its bytes.\<close>

definition source_fields :: "digest_fun \<Rightarrow> string \<Rightarrow> string \<Rightarrow> (string \<times> json) list" where
  "source_fields sha kind bytes =
     [(''provenance'', V1_COMPAT), (''sourceKind'', JStr kind), (''sourceVersion'', JStr SUPPORTED_V1_VERSION),
      (''sourceByteCount'', JInt (int (utf8_length bytes))), (''sourceDigest'', JStr (sha bytes))]"

definition projectV1Payload :: "digest_fun \<Rightarrow> v1_handoff \<Rightarrow> string \<Rightarrow> string \<Rightarrow> json result" where
  "projectV1Payload sha h kind bytes =
     stampCompatRecord ''lcim.v1.projection''
       (Some (JObj (source_fields sha kind bytes @ [(''workUnits'', JArr [payload_unit h])])))"

section \<open>A ledger\<close>

definition has_action :: "string \<Rightarrow> json \<Rightarrow> bool" where
  "has_action k ev \<longleftrightarrow> is_lit (own ''actionKind'' (own ''action'' (Some ev))) k"

definition unit_manual :: "v1_unit \<Rightarrow> json option" where
  "unit_manual u = List.find (has_action ''MANUAL_INTEGRATION'') (vu_actions u)"

definition unit_rejected :: "v1_unit \<Rightarrow> bool" where
  "unit_rejected u \<longleftrightarrow> list_ex (has_action ''REJECTION'') (vu_actions u)"

definition action_note :: "json \<Rightarrow> jsval" where
  "action_note ev = own ''note'' (own ''action'' (Some ev))"

text \<open>The facts of a handoff event; without a text nothing is known of the response.\<close>

definition projectLedgerHandoff :: "v1_unit \<Rightarrow> json result" where
  "projectLedgerHandoff u =
     (case vu_handoff u of
        None \<Rightarrow> Inr (unavailable_handoff False)
      | Some ev \<Rightarrow>
          (case own ''text'' (own ''response'' (Some ev)) of
             Some (JStr s) \<Rightarrow>
               if blank_text s then Inr (unavailable_handoff True)
               else rbind (parseV1Handoff (Some (JStr s))) (\<lambda>h. Inr (handoff_facts h))
           | _ \<Rightarrow> Inr (unavailable_handoff True)))"

definition assignment_facts :: "json option \<Rightarrow> json" where
  "assignment_facts a =
     JObj [(''present'', JBool (a \<noteq> None)),
       (''taskSummary'', text_or_unknown (own ''summary'' (own ''assignment'' a))),
       (''baseShaClaim'', text_or_unknown (own ''baseShaClaim'' (own ''assignment'' a)))]"

definition patch_facts :: "json option \<Rightarrow> json" where
  "patch_facts m =
     JObj [(''usefulness'', (case m of None \<Rightarrow> UNKNOWN_V1 | Some _ \<Rightarrow> JStr ''USEFUL'')),
       (''usefulnessEvidence'', (case m of
           None \<Rightarrow> UNKNOWN_V1
         | Some ev \<Rightarrow> if nonempty_string (action_note ev) then the (action_note ev)
             else JStr (''V1 ledger event seq '' @ js_string (own ''seq'' (Some ev)) @ '': CONTROLLER_ACTION MANUAL_INTEGRATION''))),
       (''preserved'', JBool True)]"

definition controller_facts :: "json option \<Rightarrow> bool \<Rightarrow> json" where
  "controller_facts m rejected =
     JObj [(''manualIntegrationObserved'', (case m of None \<Rightarrow> UNKNOWN_V1 | Some _ \<Rightarrow> JBool True)),
       (''integrationNote'', (case m of None \<Rightarrow> UNKNOWN_V1 | Some ev \<Rightarrow> text_or_unknown (action_note ev))),
       (''v1RejectionObserved'', if rejected then JBool True else UNKNOWN_V1),
       (''v2Disposition'', UNKNOWN_V1)]"

definition coverage_facts :: "json list \<Rightarrow> json" where
  "coverage_facts acts =
     JObj [(''laterLedgerCoverageKnown'', JBool (acts \<noteq> [])),
       (''laterEventCount'', if acts \<noteq> [] then JInt (int (length acts)) else UNKNOWN_V1),
       (''incomplete'', JBool (acts = [])), (''laterInvocationRecords'', UNKNOWN_V1)]"

definition projectWorkUnitFromLedger :: "string \<times> v1_unit \<Rightarrow> json result" where
  "projectWorkUnitFromLedger iu =
     (case iu of (i, u) \<Rightarrow>
        rbind (projectLedgerHandoff u) (\<lambda>handoff.
        Inr (JObj [(''workUnitId'', JStr i), (''workUnitIdV2PatternCompatible'', v2PatternCompatibility (JStr i)),
          (''assignment'', assignment_facts (vu_assignment u)), (''handoff'', handoff),
          (''patch'', patch_facts (unit_manual u)),
          (''controller'', controller_facts (unit_manual u) (unit_rejected u)),
          (''coverage'', coverage_facts (vu_actions u)),
          (''usageCost'', usage_cost), (''semanticReview'', semantic_review)])))"

fun project_units :: "v1_units \<Rightarrow> json list result" where
  "project_units [] = Inr []"
| "project_units (u # us) =
     rbind (projectWorkUnitFromLedger u) (\<lambda>v. rbind (project_units us) (\<lambda>vs. Inr (v # vs)))"

definition projectV1Ledger :: "digest_fun \<Rightarrow> v1_ledger \<Rightarrow> string \<Rightarrow> json result" where
  "projectV1Ledger sha l bytes =
     rbind (project_units (vl_units l)) (\<lambda>units.
     stampCompatRecord ''lcim.v1.projection''
       (Some (JObj (source_fields sha ''ledger'' bytes @
         [(''ledger'', JObj [(''eventCount'', JInt (int (length (vl_events l)))), (''chainValid'', JBool True),
            (''workUnitCount'', JInt (int (length units)))]),
          (''workUnits'', JArr units)]))))"

section \<open>Reading a source\<close>

datatype v1_parsed = Ledger v1_ledger | Handoff v1_handoff | Response bool v1_handoff

record v1_history =
  hi_detection :: v1_detection
  hi_parsed :: v1_parsed
  hi_projection :: json

definition kind_name :: "v1_kind \<Rightarrow> string" where
  "kind_name k = (case k of LEDGER \<Rightarrow> ''ledger'' | HANDOFF \<Rightarrow> ''handoff'')"

definition resolveSourceKind :: "jsval \<Rightarrow> v1_detection \<Rightarrow> string result" where
  "resolveSourceKind kind d =
     rbind (need (dt_state d = SUPPORTED_V1) (detectionToError d)) (\<lambda>_.
     if nullish kind \<or> is_lit kind ''auto'' then Inr (if dt_kind d = Some LEDGER then ''ledger'' else ''handoff'')
     else
       rbind (need (one_of [''ledger'', ''handoff'', ''response''] kind) V1CompatError) (\<lambda>_.
       rbind (need (map_option kind_name (dt_kind d) =
           Some (if is_lit kind ''response'' then ''handoff'' else js_string kind)) V1CompatError) (\<lambda>_.
       Inr (js_string kind))))"

definition text_of :: "jsval \<Rightarrow> string" where
  "text_of v = (case v of Some (JStr s) \<Rightarrow> s | _ \<Rightarrow> [])"

definition readV1History :: "digest_fun \<Rightarrow> jsval \<Rightarrow> jsval \<Rightarrow> v1_history result" where
  "readV1History sha src kind =
     rbind (detectV1Version src) (\<lambda>d.
     rbind (resolveSourceKind kind d) (\<lambda>k.
     if k = ''ledger'' then
       rbind (parseV1Ledger sha src) (\<lambda>l.
       rbind (projectV1Ledger sha l (text_of src)) (\<lambda>p.
       Inr \<lparr>hi_detection = d, hi_parsed = Ledger l, hi_projection = p\<rparr>))
     else if k = ''response'' then
       rbind (interpretV1FinalResponse src) (\<lambda>(available, h).
       rbind (projectV1Payload sha h k (text_of src)) (\<lambda>p.
       Inr \<lparr>hi_detection = d, hi_parsed = Response available h, hi_projection = p\<rparr>))
     else
       rbind (parseV1Handoff src) (\<lambda>h.
       rbind (projectV1Payload sha h k (text_of src)) (\<lambda>p.
       Inr \<lparr>hi_detection = d, hi_parsed = Handoff h, hi_projection = p\<rparr>))))"

end
