(* ===== verification/Compat_Laws.thy ===== *)
theory Compat_Laws
  imports Compat_Ledger Ctl_Ask
begin

text \<open>
  What the version 1 reader promises: a ledger is accepted exactly when all its events are valid and
  form one chain from the genesis digest, the grouping by work unit keeps every event, and a
  projection states of a work unit only what an event of the ledger establishes.
\<close>

section \<open>Values of a container\<close>

text \<open>The values of a text: the elements of an array, a single value, or one value for each line.\<close>

definition ledger_values :: "string \<Rightarrow> json list option" where
  "ledger_values s =
     (case json_parse s of
        Some (JArr evs) \<Rightarrow> Some evs
      | Some v \<Rightarrow> Some [v]
      | None \<Rightarrow> those (map json_parse (text_lines s)))"

definition ledger_form :: "string \<Rightarrow> string" where
  "ledger_form s =
     (case json_parse s of Some (JArr _) \<Rightarrow> ''array'' | Some _ \<Rightarrow> ''single-object'' | None \<Rightarrow> ''jsonl'')"

lemma those_Some [simp]: "those xs = Some ys \<longleftrightarrow> xs = map Some ys"
proof (induction xs arbitrary: ys)
  case (Cons x xs)
  then show ?case by (cases x; cases ys) auto
qed auto

lemma those_values [simp]: "those (map Some xs) = Some xs"
  by simp

lemma trim_not_ws: "trim_char c \<Longrightarrow> \<not> ws_char c \<Longrightarrow> c \<in> set [CHR 0x0B, CHR 0x0C, CHR 0xA0]"
  by (auto simp: trim_char_def ws_char_def)

lemma read_blank:
  assumes "c \<in> set [CHR 0x0B, CHR 0x0C, CHR 0xA0]" and "skip_ws s = c # cs"
  shows "read_value (Suc n) s = None"
proof -
  have "\<not> digit_ch c" "c \<noteq> CHR ''-''" "c \<noteq> CHR ''{''" "c \<noteq> CHR ''[''" "c \<noteq> CHR 0x22" "c \<noteq> CHR ''t''"
      "c \<noteq> CHR ''f''" "c \<noteq> CHR ''n''"
    using assms(1) by (auto simp: digit_ch_def less_eq_char_def)
  then show ?thesis
    using assms(2) by (simp only: read_value.simps(2)) (simp add: read_number_def read_digits_def)
qed

lemma blank_value: "blank_text s \<Longrightarrow> json_parse s = None"
proof (cases "skip_ws s")
  case Nil
  then have "read_value (Suc n) s = None" for n
    by (simp only: read_value.simps(2) list.case)
  from this [of "Suc (2 * length s)"] show ?thesis by (simp add: json_parse_def del: read_value.simps)
next
  case (Cons c cs)
  moreover assume "blank_text s"
  ultimately have "trim_char c"
    using set_dropWhileD [of c ws_char s] by (simp add: skip_ws_def blank_text_def list_all_iff)
  moreover have "\<not> ws_char c"
    using Cons hd_dropWhile [of ws_char s] by (simp add: skip_ws_def)
  ultimately have "read_value (Suc n) s = None" for n
    by (rule read_blank [OF trim_not_ws Cons])
  from this [of "Suc (2 * length s)"] show ?thesis by (simp add: json_parse_def del: read_value.simps)
qed

lemma split_lines_chars: "l \<in> set (split_lines s) \<Longrightarrow> set l \<subseteq> set s"
proof (induction s arbitrary: l)
  case (Cons c s)
  have "split_lines s \<noteq> []"
    by (cases s) simp_all
  then obtain m ms where s: "split_lines s = m # ms"
    by (cases "split_lines s") simp_all
  with Cons.prems have "l = [] \<or> l = m \<or> l = c # m \<or> l \<in> set ms"
    by (auto split: if_splits)
  with Cons.IH [of m] Cons.IH [of l] s show ?case by auto
qed simp

lemma blank_lines: "blank_text s \<Longrightarrow> text_lines s = []"
proof -
  assume "blank_text s"
  then have "\<forall>c \<in> set l. trim_char c" if "l \<in> set (split_lines s)" for l
    using split_lines_chars [OF that] by (auto simp: blank_text_def list_all_iff)
  then have "dropWhile trim_char l = []" if "l \<in> set (split_lines s)" for l
    using that by (simp only: dropWhile_eq_Nil_conv)
  then have "js_trim l = []" if "l \<in> set (split_lines s)" for l
    using that by (simp only: js_trim_def) simp
  then show ?thesis by (simp add: text_lines_def filter_empty_conv)
qed

section \<open>Valid events\<close>

definition v1_event_valid :: "json \<Rightarrow> bool" where
  "v1_event_valid ev \<longleftrightarrow> is_obj ev \<and> validateCompatRecord ''lcim.v1.ledger-event'' ev = Inr [] \<and>
     validateLedgerEventRules ev \<and> int_at_least 1 (own ''seq'' (Some ev))"

lemma check_event_iff: "check_event ev = Inr () \<longleftrightarrow> v1_event_valid ev"
  by (auto simp: check_event_def v1_event_valid_def)

lemma event_accepted: "v1_event_valid ev \<Longrightarrow> accepts lcim_regexps ev V1_LEDGER_EVENT_SCHEMA"
  by (rule validate_accepts)
    (auto simp: v1_event_valid_def validateCompatRecord_def loadCompatSchema_def COMPAT_SCHEMA_MANIFEST_def
      assertNoEmptyStringFacts_def split: if_splits)

lemma v1_event_required:
  "own ''required'' (Some V1_LEDGER_EVENT_SCHEMA) =
     Some (JArr (map JStr [''schemaName'', ''schemaVersion'', ''v1Version'', ''seq'', ''eventKind'', ''workUnitId'',
       ''occurredAt'', ''prevDigest'', ''digest'']))"
  by (simp add: V1_LEDGER_EVENT_SCHEMA_def)

lemma event_field:
  assumes "v1_event_valid ev" and "schema_prop V1_LEDGER_EVENT_SCHEMA k = Some sub"
    and "k \<in> set [''schemaName'', ''v1Version'', ''eventKind'', ''workUnitId'']"
  shows "\<exists>w. own k (Some ev) = Some w \<and> accepts lcim_regexps w sub"
proof -
  have plain: "k \<notin> set inherited_names"
    using assms(3) by (auto simp: inherited_names_def proto_methods_def)
  have listed: "JStr k \<in> set (map JStr [''schemaName'', ''schemaVersion'', ''v1Version'', ''seq'', ''eventKind'', ''workUnitId'',
      ''occurredAt'', ''prevDigest'', ''digest''])"
    using assms(3) by auto
  have "is_obj ev"
    using assms(1) by (simp add: v1_event_valid_def)
  then obtain w where w: "own k (Some ev) = Some w"
    using accepts_required [OF event_accepted [OF assms(1)] _ v1_event_required listed plain] by blast
  with accepts_prop [OF event_accepted [OF assms(1)] assms(2) w] show ?thesis by blast
qed

lemma v1_event_props:
  "schema_prop V1_LEDGER_EVENT_SCHEMA ''schemaName'' = Some (JObj [(''const'', JStr ''lcim.v1.ledger-event'')])"
  "schema_prop V1_LEDGER_EVENT_SCHEMA ''v1Version'' = Some (JObj [(''const'', JStr ''1.0'')])"
  "schema_prop V1_LEDGER_EVENT_SCHEMA ''workUnitId'' =
     Some (JObj [(''type'', JStr ''string''), (''minLength'', JInt 1), (''maxLength'', JInt 200)])"
  by (simp_all add: V1_LEDGER_EVENT_SCHEMA_def schema_prop_def)

lemma valid_markers:
  assumes "v1_event_valid ev"
  shows "is_lit (own ''schemaName'' (Some ev)) SUPPORTED_V1_LEDGER_SCHEMA_NAME"
    and "is_lit (own ''v1Version'' (Some ev)) SUPPORTED_V1_VERSION"
    and "one_of V1_LEDGER_EVENT_KINDS (own ''eventKind'' (Some ev))"
    and "\<exists>s. is_lit (own ''workUnitId'' (Some ev)) s"
proof -
  show "is_lit (own ''schemaName'' (Some ev)) SUPPORTED_V1_LEDGER_SCHEMA_NAME"
    using event_field [OF assms v1_event_props(1)]
    by (auto simp: SUPPORTED_V1_LEDGER_SCHEMA_NAME_def deep_equal_scalar dest: accepts_const)
  show "is_lit (own ''v1Version'' (Some ev)) SUPPORTED_V1_VERSION"
    using event_field [OF assms v1_event_props(2)]
    by (auto simp: SUPPORTED_V1_VERSION_def deep_equal_scalar dest: accepts_const)
  show "one_of V1_LEDGER_EVENT_KINDS (own ''eventKind'' (Some ev))"
    using assms by (auto simp: v1_event_valid_def validateLedgerEventRules_def is_kind_def V1_LEDGER_EVENT_KINDS_def split: if_splits)
  obtain u where u: "own ''workUnitId'' (Some ev) = Some u"
      "accepts lcim_regexps u (JObj [(''type'', JStr ''string''), (''minLength'', JInt 1), (''maxLength'', JInt 200)])"
    using event_field [OF assms v1_event_props(3)] by auto
  have "type_ok u (JStr ''string'')"
    by (rule accepts_type [OF u(2)]) simp
  with u show "\<exists>s. is_lit (own ''workUnitId'' (Some ev)) s"
    by (cases u) auto
qed

lemma valid_not_mixed: "v1_event_valid ev \<Longrightarrow> \<not> mixed_event ev"
  using valid_markers [of ev] by (auto simp: mixed_event_def is_string_def)

section \<open>The chain\<close>

text \<open>One chain: growing numbers from 1, and every event over its own digest and that of the one before.\<close>

definition v1_chain :: "digest_fun \<Rightarrow> json list \<Rightarrow> bool" where
  "v1_chain sha evs \<longleftrightarrow>
     sorted_wrt (<) (0 # map seq_of evs) \<and> take 1 (map seq_of evs) = take (length evs) [1] \<and>
     map (\<lambda>ev. own ''prevDigest'' (Some ev)) evs = take (length evs) (Some (JStr V1_GENESIS_DIGEST) # map (\<lambda>ev. own ''digest'' (Some ev)) evs) \<and>
     list_all (\<lambda>ev. is_lit (own ''digest'' (Some ev)) (sha (event_text ev))) evs"

lemma check_events_later:
  "check_events sha (Some n) d evs = Inr r \<longleftrightarrow> list_all v1_event_valid evs \<and>
     sorted_wrt (<) (n # map seq_of evs) \<and>
     map (\<lambda>ev. own ''prevDigest'' (Some ev)) evs = take (length evs) (d # map (\<lambda>ev. own ''digest'' (Some ev)) evs) \<and>
     list_all (\<lambda>ev. is_lit (own ''digest'' (Some ev)) (sha (event_text ev))) evs \<and>
     r = last (d # map (\<lambda>ev. own ''digest'' (Some ev)) evs)"
proof (induction evs arbitrary: n d)
  case (Cons ev evs)
  show ?case
    by (auto simp: Cons.IH check_event_iff check_link_def)
qed auto

lemma seq_positive: "v1_event_valid ev \<Longrightarrow> 0 < seq_of ev"
  by (auto simp: v1_event_valid_def seq_of_def int_at_least_iff)

lemma check_events_iff:
  "check_events sha None (Some (JStr V1_GENESIS_DIGEST)) evs = Inr r \<longleftrightarrow>
     list_all v1_event_valid evs \<and> v1_chain sha evs \<and>
     r = last (Some (JStr V1_GENESIS_DIGEST) # map (\<lambda>ev. own ''digest'' (Some ev)) evs)"
proof (cases evs)
  case (Cons ev es)
  then show ?thesis
    using seq_positive
    by (auto simp: check_events_later check_event_iff check_link_def v1_chain_def dest: seq_positive)
qed (auto simp: v1_chain_def)

section \<open>Accepted ledgers\<close>

lemma form_supported:
  assumes "v1_event_valid ev" and "list_all v1_event_valid evs"
  shows "detectLedgerForm encoding ev evs =
    supported_v1 LEDGER \<lparr>dd_encoding = encoding, dd_markers = [], dd_schemaInvalid = False\<rparr>"
proof -
  have "\<not> list_ex mixed_event evs"
    using assms(2) valid_not_mixed by (auto simp: list_all_iff list_ex_iff)
  with valid_markers [OF assms(1)] show ?thesis
    by (simp add: detectLedgerForm_def supportedLedger_def)
qed

lemma form_encoding:
  "dt_state (detectLedgerForm encoding ev evs) = SUPPORTED_V1 \<Longrightarrow>
     dt_version (detectLedgerForm encoding ev evs) = Some SUPPORTED_V1_VERSION \<and>
     encoding_of (detectLedgerForm encoding ev evs) = encoding"
  by (auto simp: detectLedgerForm_def supportedLedger_def supported_v1_def unsupported_v1_def notV1_def encoding_of_def
      Let_def split: if_splits)

lemma payload_not_ledger: "dt_kind (detectPayloadForm encoding v) \<noteq> Some LEDGER"
  by (simp add: detectPayloadForm_def supported_v1_def unsupported_v1_def notV1_def Let_def)

text \<open>What a text detected as a ledger is decoded to.\<close>

definition ledger_detected :: "v1_detection \<Rightarrow> bool" where
  "ledger_detected d \<longleftrightarrow> dt_state d = SUPPORTED_V1 \<and> dt_kind d = Some LEDGER"

lemma lines_value: "map json_parse ls = map Some evs \<Longrightarrow> map line_value ls = evs \<and> List.map_filter json_parse ls = evs"
proof (induction ls arbitrary: evs)
  case (Cons l ls)
  then show ?case
    by (cases evs) (auto simp: line_value_def List.map_filter_simps)
qed (simp add: List.map_filter_simps)

lemma detected_values:
  assumes "detectV1Version (Some (JStr s)) = Inr d" and "ledger_detected d"
  shows "dt_version d = Some SUPPORTED_V1_VERSION \<and> encoding_of d = ledger_form s \<and>
    (case ledger_values s of None \<Rightarrow> decodeEvents s (encoding_of d) = Inl V1CompatError
     | Some evs \<Rightarrow> evs \<noteq> [] \<and> decodeEvents s (encoding_of d) = Inr evs)"
proof (cases "json_parse s")
  case None
  have "\<not> blank_text s"
    using assms by (auto simp: ledger_detected_def notV1_def)
  with None assms(1) consider "d = detect_lines s" | "detect_embedded s = Inr d"
    by (cases "dt_state (detect_lines s) = NOT_V1") simp_all
  then show ?thesis
  proof cases
    case 1
    then obtain v where v: "d = detectLedgerForm ''jsonl'' v (map line_value (text_lines s))"
        "firstParseableObject (text_lines s) = Some v"
      using assms(2) by (auto simp: detect_lines_def ledger_detected_def notV1_def split: option.splits)
    then have "text_lines s \<noteq> []"
      by (auto simp: firstParseableObject_def List.map_filter_simps)
    with form_encoding [of "''jsonl''" v] v(1) assms(2) None show ?thesis
      by (cases "those (map json_parse (text_lines s))")
        (auto simp: ledger_detected_def ledger_form_def ledger_values_def decodeEvents_def)
  next
    case 2
    then show ?thesis
      using assms(2) payload_not_ledger
      by (auto simp: detect_embedded_def ledger_detected_def notV1_def split: sum.splits lcim_error.splits if_splits prod.splits)
  qed
next
  case (Some v)
  then have nb: "\<not> blank_text s"
    using blank_value by auto
  show ?thesis
  proof (cases "\<exists>evs. v = JArr evs")
    case True
    then obtain evs where v: "v = JArr evs" by blast
    then have d: "d = detect_array evs"
      using assms(1) Some nb by simp
    then obtain ev where "evs \<noteq> []" "d = detectLedgerForm ''array'' ev evs"
      using assms(2) by (auto simp: detect_array_def ledger_detected_def notV1_def split: list.splits if_splits)
    with form_encoding [of "''array''" ev evs] assms(2) Some v show ?thesis
      by (auto simp: ledger_detected_def ledger_form_def ledger_values_def decodeEvents_def)
  next
    case False
    then have d: "d = detect_object v"
      using assms Some nb by (cases v) (auto simp: ledger_detected_def notV1_def)
    then have "d = detectLedgerForm ''single-object'' v [v]"
      using assms(2) payload_not_ledger by (auto simp: detect_object_def ledger_detected_def Let_def split: if_splits)
    with form_encoding [of "''single-object''" v "[v]"] assms(2) Some False show ?thesis
      by (cases v) (auto simp: ledger_detected_def ledger_form_def ledger_values_def decodeEvents_def)
  qed
qed

lemma valid_detected:
  assumes "ledger_values s = Some evs" and "evs \<noteq> []" and "list_all v1_event_valid evs"
  shows "\<exists>d. detectV1Version (Some (JStr s)) = Inr d \<and> ledger_detected d"
proof -
  obtain ev es where evs: "evs = ev # es" and ev: "v1_event_valid ev" "is_obj ev"
    using assms(2,3) by (cases evs) (auto simp: v1_event_valid_def)
  note form = form_supported [OF ev(1) assms(3)]
  have nb: "\<not> blank_text s"
    using blank_value blank_lines assms(1,2) by (auto simp: ledger_values_def)
  show ?thesis
  proof (cases "json_parse s")
    case None
    then have "those (map json_parse (text_lines s)) = Some evs"
      using assms(1) by (simp add: ledger_values_def)
    then have "detect_lines s = detectLedgerForm ''jsonl'' ev evs"
      using lines_value [of "text_lines s" evs] evs ev(2) by (simp add: detect_lines_def firstParseableObject_def)
    with None nb form show ?thesis
      by (simp add: ledger_detected_def supported_v1_def)
  next
    case (Some v)
    show ?thesis
    proof (cases "v = JArr evs")
      case True
      with Some nb form evs ev(2) show ?thesis
        by (simp add: detect_array_def ledger_detected_def supported_v1_def)
    next
      case False
      then have v: "v = ev" "es = []"
        using Some assms(1) evs by (auto simp: ledger_values_def split: json.splits)
      with Some nb form evs ev(2) show ?thesis
        by (cases ev) (simp_all add: detect_object_def ledger_detected_def supported_v1_def Let_def)
    qed
  qed
qed

text \<open>The ledger that valid values make.\<close>

definition ledger_of :: "string \<Rightarrow> json list \<Rightarrow> v1_ledger" where
  "ledger_of s evs =
     \<lparr>vl_encoding = ledger_form s, vl_events = evs, vl_units = group_events evs,
      vl_lastDigest = last (Some (JStr V1_GENESIS_DIGEST) # map (\<lambda>ev. own ''digest'' (Some ev)) evs)\<rparr>"

lemma ledger_accepted:
  "parseV1Ledger sha (Some (JStr s)) = Inr l \<longleftrightarrow>
     (\<exists>evs. ledger_values s = Some evs \<and> evs \<noteq> [] \<and> list_all v1_event_valid evs \<and> v1_chain sha evs \<and>
        l = ledger_of s evs)"
proof
  assume "parseV1Ledger sha (Some (JStr s)) = Inr l"
  then obtain d evs digest where d: "detectV1Version (Some (JStr s)) = Inr d" "ledger_detected d"
      and evs: "decodeEvents s (encoding_of d) = Inr evs"
      and digest: "check_events sha None (Some (JStr V1_GENESIS_DIGEST)) evs = Inr digest"
      and l: "l = \<lparr>vl_encoding = encoding_of d, vl_events = evs, vl_units = group_events evs, vl_lastDigest = digest\<rparr>"
    by (auto simp: ledger_detected_def simp del: detectV1Version.simps)
  from detected_values [OF d] evs have "ledger_values s = Some evs \<and> evs \<noteq> []" "encoding_of d = ledger_form s"
    by (auto split: option.splits)
  with digest l show "\<exists>evs. ledger_values s = Some evs \<and> evs \<noteq> [] \<and> list_all v1_event_valid evs \<and> v1_chain sha evs \<and>
      l = ledger_of s evs"
    by (auto simp: check_events_iff ledger_of_def)
next
  assume "\<exists>evs. ledger_values s = Some evs \<and> evs \<noteq> [] \<and> list_all v1_event_valid evs \<and> v1_chain sha evs \<and>
      l = ledger_of s evs"
  then obtain evs where evs: "ledger_values s = Some evs" "evs \<noteq> []" "list_all v1_event_valid evs" "v1_chain sha evs"
      and l: "l = ledger_of s evs"
    by blast
  obtain d where d: "detectV1Version (Some (JStr s)) = Inr d" "ledger_detected d"
    using valid_detected [OF evs(1-3)] by blast
  with detected_values [OF d] evs l show "parseV1Ledger sha (Some (JStr s)) = Inr l"
    by (auto simp: ledger_detected_def check_events_iff ledger_of_def simp del: detectV1Version.simps)
qed

section \<open>Work units\<close>

lemma uniq_snoc: "uniq (xs @ [x]) = (if x \<in> set xs then uniq xs else uniq xs @ [x])"
  by (simp add: uniq_def)

lemma map_fst_put: "map fst (put k v kvs) = (if k \<in> set (map fst kvs) then map fst kvs else map fst kvs @ [k])"
proof (induction kvs)
  case (Cons kv kvs)
  then show ?case by (cases kv) (simp del: set_map)
qed simp

lemma group_snoc: "group_events (evs @ [ev]) = group_event ev (group_events evs)"
  by (simp add: group_events_def)

definition unit_of :: "json list \<Rightarrow> string \<Rightarrow> v1_unit" where
  "unit_of evs i = fold add_event (filter (\<lambda>ev. unit_id ev = i) evs) new_unit"

lemma grouped_ids: "map fst (group_events evs) = uniq (map unit_id evs)"
proof (induction evs rule: rev_induct)
  case (snoc ev evs)
  have "set (uniq (map unit_id evs)) = unit_id ` set evs"
    by (simp add: uniq_def)
  with snoc show ?case
    by (simp add: group_snoc group_event_def map_fst_put uniq_snoc)
qed (simp add: group_events_def uniq_def)

lemma grouped_units:
  "map_of (group_events evs) i = (if i \<in> unit_id ` set evs then Some (unit_of evs i) else None)"
proof (induction evs arbitrary: i rule: rev_induct)
  case (snoc ev evs)
  have "unit_of evs i = new_unit" if "i \<notin> unit_id ` set evs"
  proof -
    have "filter (\<lambda>ev. unit_id ev = i) evs = []"
      using that by (auto simp: filter_empty_conv)
    then show ?thesis by (simp add: unit_of_def)
  qed
  with snoc show ?case
    by (auto simp: group_snoc group_event_def unit_of_def)
qed (simp add: group_events_def)

text \<open>
  A unit keeps all its events: the last assignment and the last handoff count, and the actions are the
  events that are neither.
\<close>

definition of_unit :: "string \<Rightarrow> string \<Rightarrow> json \<Rightarrow> bool" where
  "of_unit k i ev \<longleftrightarrow> unit_id ev = i \<and> is_kind k ev"

lemma find_filter: "List.find P (filter Q xs) = List.find (\<lambda>x. Q x \<and> P x) xs"
  by (induction xs) auto

lemma find_snoc: "List.find P (xs @ ys) = (case List.find P xs of None \<Rightarrow> List.find P ys | Some x \<Rightarrow> Some x)"
  by (induction xs) auto

lemma one_kind: "is_kind k ev \<Longrightarrow> is_kind l ev \<longleftrightarrow> k = l"
  by (auto simp: is_kind_def)

lemma unit_facts:
  "vu_actions (unit_of evs i) =
     filter (\<lambda>ev. unit_id ev = i \<and> \<not> is_kind ''ASSIGNMENT'' ev \<and> \<not> is_kind ''HANDOFF'' ev) evs"
  "vu_assignment (unit_of evs i) = List.find (of_unit ''ASSIGNMENT'' i) (rev evs)"
  "vu_handoff (unit_of evs i) = List.find (of_unit ''HANDOFF'' i) (rev evs)"
proof -
  have acts: "vu_actions (fold add_event es u) =
      vu_actions u @ filter (\<lambda>ev. \<not> is_kind ''ASSIGNMENT'' ev \<and> \<not> is_kind ''HANDOFF'' ev) es" for es u
    by (induction es arbitrary: u) (simp_all add: add_event_def Let_def)
  have one: "vu_assignment (fold add_event es u) = (case List.find (is_kind ''ASSIGNMENT'') (rev es) of None \<Rightarrow> vu_assignment u | x \<Rightarrow> x)"
      "vu_handoff (fold add_event es u) = (case List.find (is_kind ''HANDOFF'') (rev es) of None \<Rightarrow> vu_handoff u | x \<Rightarrow> x)"
    for es u
    using one_kind [of "''ASSIGNMENT''" _ "''HANDOFF''"]
    by (induction es arbitrary: u) (auto simp: add_event_def Let_def find_snoc split: option.splits)
  have "List.find (is_kind k) (rev (filter (\<lambda>ev. unit_id ev = i) evs)) = List.find (of_unit k i) (rev evs)" for k
    by (simp add: rev_filter find_filter of_unit_def [abs_def])
  with acts one show "vu_actions (unit_of evs i) =
       filter (\<lambda>ev. unit_id ev = i \<and> \<not> is_kind ''ASSIGNMENT'' ev \<and> \<not> is_kind ''HANDOFF'' ev) evs"
    "vu_assignment (unit_of evs i) = List.find (of_unit ''ASSIGNMENT'' i) (rev evs)"
    "vu_handoff (unit_of evs i) = List.find (of_unit ''HANDOFF'' i) (rev evs)"
    by (simp_all add: unit_of_def new_unit_def conj_commute conj_left_commute cong: conj_cong split: option.split)
qed

section \<open>Projections\<close>

text \<open>An action of the controller on a work unit.\<close>

definition action_event :: "string \<Rightarrow> string \<Rightarrow> json \<Rightarrow> bool" where
  "action_event k i ev \<longleftrightarrow> of_unit ''CONTROLLER_ACTION'' i ev \<and> has_action k ev"

lemma valid_kinds:
  "v1_event_valid ev \<Longrightarrow> is_kind ''CONTROLLER_ACTION'' ev \<longleftrightarrow> \<not> is_kind ''ASSIGNMENT'' ev \<and> \<not> is_kind ''HANDOFF'' ev"
  by (auto simp: v1_event_valid_def validateLedgerEventRules_def is_kind_def split: if_splits)

lemma unit_actions:
  assumes "list_all v1_event_valid evs"
  shows "vu_actions (unit_of evs i) = filter (of_unit ''CONTROLLER_ACTION'' i) evs"
  using assms valid_kinds by (auto simp: unit_facts of_unit_def list_all_iff intro!: filter_cong)

lemma unit_manual_first:
  assumes "list_all v1_event_valid evs"
  shows "unit_manual (unit_of evs i) = List.find (action_event ''MANUAL_INTEGRATION'' i) evs"
  by (simp add: unit_manual_def unit_actions [OF assms] find_filter action_event_def [abs_def])

lemma unit_rejected_iff:
  assumes "list_all v1_event_valid evs"
  shows "unit_rejected (unit_of evs i) \<longleftrightarrow> list_ex (action_event ''REJECTION'' i) evs"
  by (auto simp: unit_rejected_def unit_actions [OF assms] list_ex_iff action_event_def)

text \<open>What a projected work unit says, in view of the events of the ledger.\<close>

definition known_if :: "bool \<Rightarrow> json \<Rightarrow> json" where
  "known_if b v = (if b then v else UNKNOWN_V1)"

definition says :: "json \<Rightarrow> string \<Rightarrow> string \<Rightarrow> json \<Rightarrow> bool" where
  "says u part field v \<longleftrightarrow> own field (own part (Some u)) = Some v"

text \<open>
  The handoff of a unit: the payload that is read, or the text of the last handoff event of the unit,
  as its own reader reads it.  The first component says whether there is a handoff at all.
\<close>

definition response_text :: "json \<Rightarrow> string option" where
  "response_text ev =
     (case own ''text'' (own ''response'' (Some ev)) of
        Some (JStr s) \<Rightarrow> if blank_text s then None else Some s
      | _ \<Rightarrow> None)"

definition handoff_source :: "v1_handoff option \<Rightarrow> json list \<Rightarrow> string \<Rightarrow> (bool \<times> v1_handoff option) result" where
  "handoff_source given evs i =
     (case given of
        Some p \<Rightarrow> Inr (True, Some p)
      | None \<Rightarrow>
          (case List.find (of_unit ''HANDOFF'' i) (rev evs) of
             None \<Rightarrow> Inr (False, None)
           | Some ev \<Rightarrow>
               (case response_text ev of
                  None \<Rightarrow> Inr (True, None)
                | Some s \<Rightarrow> rbind (parseV1Handoff (Some (JStr s))) (\<lambda>h. Inr (True, Some h)))))"

definition handoff_established :: "bool \<times> v1_handoff option \<Rightarrow> json \<Rightarrow> bool" where
  "handoff_established src u \<longleftrightarrow> says u ''handoff'' ''present'' (JBool (fst src)) \<and>
     (case snd src of
        None \<Rightarrow>
          says u ''handoff'' ''parseable'' UNKNOWN_V1 \<and> says u ''handoff'' ''normalization'' UNKNOWN_V1 \<and>
          says u ''handoff'' ''historicallySchemaValid'' UNKNOWN_V1 \<and>
          says u ''handoff'' ''v2WorkerSchemaValid'' UNKNOWN_V1 \<and> says u ''handoff'' ''defect'' UNKNOWN_V1 \<and>
          says u ''handoff'' ''workerClaim'' unknownClaim
      | Some h \<Rightarrow>
          says u ''handoff'' ''parseable'' (vh_parseable h) \<and>
          says u ''handoff'' ''normalization'' (case vh_normalization h of None \<Rightarrow> UNKNOWN_V1 | Some n \<Rightarrow> JStr n) \<and>
          says u ''handoff'' ''historicallySchemaValid'' (vh_schemaValid h) \<and>
          says u ''handoff'' ''v2WorkerSchemaValid'' (vh_v2Valid h) \<and> says u ''handoff'' ''defect'' (vh_defect h) \<and>
          says u ''handoff'' ''workerClaim'' (vh_claim h))"

text \<open>The assignment of a unit, the first manual integration of its patch, and the later actions.\<close>

definition assignment_established :: "json option \<Rightarrow> json \<Rightarrow> bool" where
  "assignment_established a u \<longleftrightarrow>
     says u ''assignment'' ''present'' (JBool (a \<noteq> None)) \<and>
     says u ''assignment'' ''taskSummary''
       (case a of None \<Rightarrow> UNKNOWN_V1 | Some ev \<Rightarrow> text_or_unknown (own ''summary'' (own ''assignment'' (Some ev)))) \<and>
     says u ''assignment'' ''baseShaClaim''
       (case a of None \<Rightarrow> UNKNOWN_V1 | Some ev \<Rightarrow> text_or_unknown (own ''baseShaClaim'' (own ''assignment'' (Some ev))))"

definition integration_reference :: "json \<Rightarrow> json" where
  "integration_reference ev =
     JStr (''V1 ledger event seq '' @ js_string (own ''seq'' (Some ev)) @ '': CONTROLLER_ACTION MANUAL_INTEGRATION'')"

definition integration_established :: "json option \<Rightarrow> json \<Rightarrow> bool" where
  "integration_established m u \<longleftrightarrow>
     says u ''patch'' ''usefulness'' (known_if (m \<noteq> None) (JStr ''USEFUL'')) \<and>
     says u ''patch'' ''usefulnessEvidence''
       (case m of None \<Rightarrow> UNKNOWN_V1
        | Some ev \<Rightarrow> (case own ''note'' (own ''action'' (Some ev)) of
            Some (JStr n) \<Rightarrow> if n \<noteq> [] then JStr n else integration_reference ev
          | _ \<Rightarrow> integration_reference ev)) \<and>
     says u ''controller'' ''manualIntegrationObserved'' (known_if (m \<noteq> None) (JBool True)) \<and>
     says u ''controller'' ''integrationNote''
       (case m of None \<Rightarrow> UNKNOWN_V1 | Some ev \<Rightarrow> text_or_unknown (own ''note'' (own ''action'' (Some ev))))"

definition coverage_established :: "bool \<Rightarrow> nat \<Rightarrow> json \<Rightarrow> bool" where
  "coverage_established recorded later u \<longleftrightarrow>
     says u ''coverage'' ''laterLedgerCoverageKnown'' (JBool (0 < later)) \<and>
     says u ''coverage'' ''laterEventCount'' (known_if (0 < later) (JInt (int later))) \<and>
     says u ''coverage'' ''incomplete'' (known_if recorded (JBool (later = 0))) \<and>
     says u ''coverage'' ''laterInvocationRecords'' UNKNOWN_V1"

definition established :: "v1_handoff option \<Rightarrow> json list \<Rightarrow> json \<Rightarrow> bool" where
  "established given evs u \<longleftrightarrow> (\<exists>i src. is_lit (own ''workUnitId'' (Some u)) i \<and>
     own ''workUnitIdV2PatternCompatible'' (Some u) = Some (known_if (JStr i \<noteq> UNKNOWN_V1) (JBool (prefixed_hex ''lcim_wu_'' 32 i))) \<and>
     assignment_established (List.find (of_unit ''ASSIGNMENT'' i) (rev evs)) u \<and>
     handoff_source given evs i = Inr src \<and> handoff_established src u \<and>
     says u ''patch'' ''preserved'' (JBool True) \<and>
     integration_established (List.find (action_event ''MANUAL_INTEGRATION'' i) evs) u \<and>
     says u ''controller'' ''v1RejectionObserved'' (known_if (list_ex (action_event ''REJECTION'' i) evs) (JBool True)) \<and>
     says u ''controller'' ''v2Disposition'' UNKNOWN_V1 \<and>
     coverage_established (evs \<noteq> []) (length (filter (of_unit ''CONTROLLER_ACTION'' i) evs)) u \<and>
     says u ''usageCost'' ''tokens'' UNKNOWN_V1 \<and> says u ''usageCost'' ''cost'' UNKNOWN_V1 \<and>
     says u ''semanticReview'' ''findings'' UNKNOWN_V1)"

lemmas established_parts = established_def assignment_established_def handoff_established_def integration_established_def
  coverage_established_def says_def known_if_def

lemma text_or_unknown_text: "\<exists>i. text_or_unknown v = JStr i"
proof (cases "nonempty_string v")
  case True
  then show ?thesis by (auto simp: text_or_unknown_def nonempty_string_iff)
qed (simp add: text_or_unknown_def UNKNOWN_V1_def)

lemma payload_established: "established (Some h) [] (payload_unit h)"
proof -
  obtain i where "text_or_unknown (own ''workUnitId'' (vh_value h)) = JStr i"
    using text_or_unknown_text by blast
  then show ?thesis
    by (simp add: established_parts payload_unit_def Let_def handoff_source_def handoff_facts_def v2PatternCompatibility_def
        usage_cost_def semantic_review_def)
qed

lemma handoff_projected:
  assumes "projectLedgerHandoff (unit_of evs i) = Inr ho"
  shows "\<exists>src. handoff_source None evs i = Inr src \<and> (own ''handoff'' (Some u) = Some ho \<longrightarrow> handoff_established src u)"
proof (cases "List.find (of_unit ''HANDOFF'' i) (rev evs)")
  case None
  with assms have "ho = unavailable_handoff False"
    by (simp add: projectLedgerHandoff_def unit_facts)
  with None show ?thesis
    by (simp add: handoff_source_def unavailable_handoff_def established_parts)
next
  case (Some ev)
  show ?thesis
  proof (cases "response_text ev")
    case None
    with assms Some have "ho = unavailable_handoff True"
      by (auto simp: projectLedgerHandoff_def unit_facts response_text_def simp del: parseV1Handoff.simps
        split: option.splits json.splits if_splits)
    with Some None show ?thesis
      by (simp add: handoff_source_def unavailable_handoff_def established_parts)
  next
    case (Some s)
    with assms \<open>List.find _ _ = Some ev\<close> obtain h where "parseV1Handoff (Some (JStr s)) = Inr h" "ho = handoff_facts h"
      by (auto simp: projectLedgerHandoff_def unit_facts response_text_def simp del: parseV1Handoff.simps
        split: option.splits json.splits if_splits)
    with Some \<open>List.find _ _ = Some ev\<close> show ?thesis
      by (simp add: handoff_source_def handoff_facts_def established_parts del: parseV1Handoff.simps)
  qed
qed

lemma note_or_reference:
  "(if nonempty_string (action_note ev) then the (action_note ev) else integration_reference ev) =
     (case own ''note'' (own ''action'' (Some ev)) of
        Some (JStr n) \<Rightarrow> if n \<noteq> [] then JStr n else integration_reference ev
      | _ \<Rightarrow> integration_reference ev)"
  by (auto simp: action_note_def nonempty_string_iff split: option.split json.split)

lemma patch_evidence:
  "own ''usefulness'' (Some (patch_facts m)) = Some (known_if (m \<noteq> None) (JStr ''USEFUL''))"
  "own ''usefulnessEvidence'' (Some (patch_facts m)) = Some (case m of None \<Rightarrow> UNKNOWN_V1
     | Some ev \<Rightarrow> (case own ''note'' (own ''action'' (Some ev)) of
          Some (JStr n) \<Rightarrow> if n \<noteq> [] then JStr n else integration_reference ev
        | _ \<Rightarrow> integration_reference ev))"
  "own ''preserved'' (Some (patch_facts m)) = Some (JBool True)"
  unfolding note_or_reference [symmetric]
  by (simp_all add: patch_facts_def integration_reference_def known_if_def split: option.split)

lemma ledger_established:
  assumes "list_all v1_event_valid evs" and "projectWorkUnitFromLedger (i, unit_of evs i) = Inr v" and "evs \<noteq> []"
  shows "established None evs v \<and> is_lit (own ''workUnitId'' (Some v)) i"
proof -
  let ?u = "unit_of evs i"
  obtain handoff where h: "projectLedgerHandoff ?u = Inr handoff"
    and v: "v = JObj [(''workUnitId'', JStr i), (''workUnitIdV2PatternCompatible'', v2PatternCompatibility (JStr i)),
      (''assignment'', assignment_facts (vu_assignment ?u)), (''handoff'', handoff),
      (''patch'', patch_facts (unit_manual ?u)),
      (''controller'', controller_facts (unit_manual ?u) (unit_rejected ?u)),
      (''coverage'', coverage_facts (vu_actions ?u)),
      (''usageCost'', usage_cost), (''semanticReview'', semantic_review)]"
    using assms(2) by (auto simp: projectWorkUnitFromLedger_def)
  obtain src where src: "handoff_source None evs i = Inr src" "handoff_established src v"
    using handoff_projected [OF h, of v] by (auto simp: v)
  have a: "assignment_established (List.find (of_unit ''ASSIGNMENT'' i) (rev evs)) v"
    by (cases "List.find (of_unit ''ASSIGNMENT'' i) (rev evs)")
      (simp_all add: v assignment_facts_def unit_facts assignment_established_def says_def text_or_unknown_def)
  have m: "integration_established (List.find (action_event ''MANUAL_INTEGRATION'' i) evs) v"
    by (cases "List.find (action_event ''MANUAL_INTEGRATION'' i) evs")
      (simp_all add: v patch_evidence controller_facts_def unit_manual_first [OF assms(1)]
        integration_established_def says_def known_if_def action_note_def)
  have c: "coverage_established (evs \<noteq> []) (length (filter (of_unit ''CONTROLLER_ACTION'' i) evs)) v"
    using assms(3) by (simp add: v coverage_facts_def unit_actions [OF assms(1)] coverage_established_def says_def known_if_def)
  show ?thesis
    unfolding established_def using src a m c
    by (intro conjI exI [of _ i] exI [of _ src])
      (simp_all add: v says_def known_if_def v2PatternCompatibility_def patch_facts_def controller_facts_def usage_cost_def
        semantic_review_def unit_rejected_iff [OF assms(1)])
qed

lemma units_established:
  assumes "list_all v1_event_valid evs" and "project_units us = Inr vs" and "evs \<noteq> []"
    and "\<And>i u. (i, u) \<in> set us \<Longrightarrow> u = unit_of evs i"
  shows "list_all (established None evs) vs \<and> map (\<lambda>v. own ''workUnitId'' (Some v)) vs = map (\<lambda>u. Some (JStr (fst u))) us"
  using assms(2,4)
proof (induction us arbitrary: vs)
  case (Cons u us)
  obtain i where u: "u = (i, unit_of evs i)"
    using Cons.prems(2) [of "fst u" "snd u"] by (cases u) auto
  obtain w ws where vs: "vs = w # ws" "projectWorkUnitFromLedger (i, unit_of evs i) = Inr w" "project_units us = Inr ws"
    using Cons.prems(1) u by auto
  have "list_all (established None evs) ws \<and> map (\<lambda>v. own ''workUnitId'' (Some v)) ws = map (\<lambda>u. Some (JStr (fst u))) us"
    by (rule Cons.IH [OF vs(3)]) (simp add: Cons.prems(2))
  with ledger_established [OF assms(1) vs(2) assms(3)] u vs(1) show ?case by simp
qed simp

lemma stamped_units:
  assumes "stampCompatRecord name (Some (JObj kvs)) = Inr v" and "map_of kvs ''workUnits'' = Some us"
  shows "own ''workUnits'' (Some v) = Some us"
  using assms by (auto simp: stampCompatRecord_def Let_def)

text \<open>The events a history rests on, and its projected work units.\<close>

definition ledger_evidence :: "v1_history \<Rightarrow> json list" where
  "ledger_evidence h = (case hi_parsed h of Ledger l \<Rightarrow> vl_events l | _ \<Rightarrow> [])"

definition payload_evidence :: "v1_history \<Rightarrow> v1_handoff option" where
  "payload_evidence h = (case hi_parsed h of Ledger _ \<Rightarrow> None | Handoff p \<Rightarrow> Some p | Response _ p \<Rightarrow> Some p)"

definition projected_units :: "v1_history \<Rightarrow> json list" where
  "projected_units h = arr_or_empty (own ''workUnits'' (Some (hi_projection h)))"

definition source_units :: "v1_history \<Rightarrow> json list" where
  "source_units h =
     (case hi_parsed h of
        Ledger l \<Rightarrow> map JStr (uniq (map unit_id (vl_events l)))
      | Handoff p \<Rightarrow> [text_or_unknown (own ''workUnitId'' (vh_value p))]
      | Response _ p \<Rightarrow> [text_or_unknown (own ''workUnitId'' (vh_value p))])"

definition history_honest :: "v1_history \<Rightarrow> bool" where
  "history_honest h \<longleftrightarrow> list_all (established (payload_evidence h) (ledger_evidence h)) (projected_units h) \<and>
     map (\<lambda>u. own ''workUnitId'' (Some u)) (projected_units h) = map Some (source_units h)"

lemma ledger_honest:
  assumes "parseV1Ledger sha src = Inr l" and "projectV1Ledger sha l bytes = Inr p"
  shows "history_honest \<lparr>hi_detection = d, hi_parsed = Ledger l, hi_projection = p\<rparr>"
proof -
  obtain s where s: "src = Some (JStr s)"
    using assms(1) by (cases "(sha, src)" rule: parseV1Ledger.cases) auto
  then obtain evs where evs: "list_all v1_event_valid evs" "evs \<noteq> []" and l: "vl_events l = evs" "vl_units l = group_events evs"
    using ledger_accepted assms(1) by (auto simp: ledger_of_def)
  obtain us where us: "project_units (group_events evs) = Inr us" "own ''workUnits'' (Some p) = Some (JArr us)"
    using assms(2) l(2) stamped_units by (fastforce simp: projectV1Ledger_def source_fields_def)
  have "u = unit_of evs i" if "(i, u) \<in> set (group_events evs)" for i u
  proof -
    have "distinct (map fst (group_events evs))"
      by (simp add: grouped_ids uniq_def)
    then have "map_of (group_events evs) i = Some u"
      using that by simp
    then show ?thesis by (simp add: grouped_units split: if_splits)
  qed
  from units_established [OF evs(1) us(1) evs(2) this] us(2) l grouped_ids [of evs] show ?thesis
    by (simp add: history_honest_def ledger_evidence_def payload_evidence_def projected_units_def source_units_def map_map comp_def
        flip: grouped_ids)
qed

lemma payload_honest:
  assumes "projectV1Payload sha h k bytes = Inr p"
  shows "history_honest \<lparr>hi_detection = d, hi_parsed = Handoff h, hi_projection = p\<rparr>"
    and "history_honest \<lparr>hi_detection = d, hi_parsed = Response b h, hi_projection = p\<rparr>"
proof -
  have us: "own ''workUnits'' (Some p) = Some (JArr [payload_unit h])"
    using assms stamped_units by (fastforce simp: projectV1Payload_def source_fields_def)
  have "own ''workUnitId'' (Some (payload_unit h)) = Some (text_or_unknown (own ''workUnitId'' (vh_value h)))"
    by (simp add: payload_unit_def Let_def)
  with us payload_established [of h]
  show "history_honest \<lparr>hi_detection = d, hi_parsed = Handoff h, hi_projection = p\<rparr>"
    and "history_honest \<lparr>hi_detection = d, hi_parsed = Response b h, hi_projection = p\<rparr>"
    by (simp_all add: history_honest_def ledger_evidence_def payload_evidence_def projected_units_def source_units_def)
qed

lemma read_honest: "readV1History sha src kind = Inr h \<Longrightarrow> history_honest h"
  using ledger_honest payload_honest by (fastforce simp: readV1History_def split: if_splits prod.splits)

section \<open>Claims that cannot be projected\<close>

text \<open>
  The projection refuses a negative number, so a handoff that reports a negative exit status, which its
  own schema allows, cannot be read.
\<close>

lemma projected_exit:
  assumes "projectV1Payload sha h k bytes = Inr p" and "own ''testExitStatus'' (Some (vh_claim h)) = Some (JInt n)"
  shows "0 \<le> n"
proof -
  obtain es kvs where "validateCompatRecord ''lcim.v1.projection'' (JObj kvs) = Inr es" "es = []"
      and kvs: "map_of kvs ''workUnits'' = Some (JArr [payload_unit h])"
    using assms(1) by (auto simp: projectV1Payload_def stampCompatRecord_def source_fields_def Let_def)
  then have "assertNoEmptyStringFacts ''lcim.v1.projection'' (JObj kvs) = []"
    by (auto simp: validateCompatRecord_def split: if_splits)
  then have "unit_fact_issues 0 (payload_unit h) = []"
    using kvs by (simp add: assertNoEmptyStringFacts_def entries_def)
  then have "fact_issues at (chain_get ks (payload_unit h)) = []"
    if "ks \<in> set FACT_PATHS" "at = ''workUnits['' @ nat_str 0 @ ''].'' @ join_with ''.'' ks" for ks at
    using that by (auto simp: unit_fact_issues_def payload_unit_def Let_def)
  from this [of "[''handoff'', ''workerClaim'', ''testExitStatus'']", OF _ refl] assms(2) show ?thesis
    by (simp add: FACT_PATHS_def chain_get_def payload_unit_def Let_def handoff_facts_def split: if_splits)
qed

lemma negative_exit_valid:
  "validateCompatRecord ''lcim.v1.handoff'' (JObj [(''workUnitId'', JStr ''wu-1''), (''workerStatus'', JStr ''FAILED''),
     (''summary'', JStr ''killed''), (''testExitStatus'', JInt (-1))]) = Inr []"
  by code_simp

end
