(* ===== verification/Project_Config.thy ===== *)
theory Project_Config
  imports Git_Checks Ctl_Run Git_Laws
begin

text \<open>
  The configuration of a project, src/src/project/config.mjs: what is refused as sensitive or unknown,
  the normal form of every field, and loading.  The URL parser of the platform is a parameter.  The
  lemmas at the end show that normalizing is idempotent and what the rest of the program makes of it.
\<close>

section \<open>Refused material\<close>

definition PROJECT_CONFIG_VERSION :: string where
  "PROJECT_CONFIG_VERSION = ''1.0.0''"

definition REJECTION_CODES :: "string list" where
  "REJECTION_CODES = [''TRANSPORT_MALFORMED'', ''SCHEMA_MISMATCH'', ''SEMANTIC_CONFLATION'', ''WRONG_BASE'',
     ''SCOPE_VIOLATION'', ''UNRESOLVED_SEMANTICS'', ''UNSUPPORTED_CLAIM'', ''INCOMPLETE_LEDGER'', ''BUDGET_EXHAUSTED'',
     ''SECRET_DENIED_PATH'', ''SOL_ASK_INVALID'']"

definition TOP_LEVEL_KEYS :: "string list" where
  "TOP_LEVEL_KEYS = [''schemaName'', ''schemaVersion'', ''projectKey'', ''allowedWritePaths'', ''mustChangePaths'',
     ''semanticContract'', ''endpoints'', ''exactSubstitutes'', ''enableOptionalFallbacks'', ''worker'', ''sol'',
     ''permissions'', ''budgets'', ''validation'', ''semanticRejectionCode'']"

definition PROVIDER_KEYS :: "string list" where
  "PROVIDER_KEYS = [''command'', ''args'', ''timeoutMs'']"

definition ENDPOINT_KEYS :: "string list" where
  "ENDPOINT_KEYS = [''baseUrl'', ''kind'', ''name'', ''timeoutMs'']"

definition VALIDATION_KEYS :: "string list" where
  "VALIDATION_KEYS = [''commands'']"

text \<open>\<open>a.?b\<close>: two words with at most one character between them that ends no line.\<close>

definition line_char :: regexp where
  "line_char = Cls (\<lambda>c. c \<noteq> CHR 0x0A \<and> c \<noteq> CHR 0x0D)"

definition two_words :: "string \<Rightarrow> string \<Rightarrow> regexp" where
  "two_words a b = seqs [word_i a, opt line_char, word_i b]"

definition SENSITIVE_KEY :: regexp where
  "SENSITIVE_KEY = alts [two_words ''api'' ''key'', two_words ''access'' ''token'', two_words ''auth'' ''token'',
     word_i ''password'', word_i ''passwd'', word_i ''secret'', word_i ''credential'', two_words ''private'' ''key'',
     word_i ''authorization'', word_i ''bearer'', word_i ''cookie'']"

text \<open>Under the flag \<open>i\<close> a class of capital letters and digits also takes small letters.\<close>

definition alnum_char :: "char \<Rightarrow> bool" where
  "alnum_char c \<longleftrightarrow> lower_char c \<or> upper_char c \<or> digit_char c"

definition secret_char :: "char \<Rightarrow> bool" where
  "secret_char c \<longleftrightarrow> alnum_char c \<or> c \<in> set ''_.:/=-''"

definition dash_or_underscore :: regexp where
  "dash_or_underscore = opt (Cls (\<lambda>c. c = CHR ''-'' \<or> c = CHR ''_''))"

definition CREDENTIAL_TOKEN :: regexp where
  "CREDENTIAL_TOKEN = seqs [Bound,
     alts [word_i ''sk-'', word_i ''ghp_'', word_i ''github_pat_'', word_i ''glpat-'',
       seqs [word_i ''akia'', Rep 16 (Some 16) (Cls alnum_char)], seqs [word_i ''bearer'', spaces]],
     Rep 8 None (Cls secret_char)]"

definition CREDENTIAL_OPTION :: regexp where
  "CREDENTIAL_OPTION = alts [
     seqs [word_i ''--'', alts [seqs [word_i ''api'', dash_or_underscore, word_i ''key''],
       seqs [word_i ''access'', dash_or_underscore, word_i ''token''], seqs [word_i ''auth'', dash_or_underscore, word_i ''token''],
       word_i ''password'', word_i ''secret'']],
     seqs [alts [seqs [word_i ''api'', dash_or_underscore, word_i ''key''],
       seqs [word_i ''access'', dash_or_underscore, word_i ''token'']], Rep 0 None (Cls trim_char), Cls (\<lambda>c. c = CHR '':'' \<or> c = CHR ''='')]]"

definition credential_text :: "string \<Rightarrow> bool" where
  "credential_text s \<longleftrightarrow> re_test CREDENTIAL_TOKEN s \<or> re_test CREDENTIAL_OPTION s"

fun sensitive :: "json \<Rightarrow> bool" where
  "sensitive (JArr xs) \<longleftrightarrow> list_ex sensitive xs"
| "sensitive (JObj kvs) \<longleftrightarrow> list_ex (\<lambda>kv. re_test SENSITIVE_KEY (fst kv) \<or> sensitive (snd kv)) kvs"
| "sensitive (JStr s) \<longleftrightarrow> credential_text s"
| "sensitive _ \<longleftrightarrow> False"

definition assertNoSensitiveMaterial :: "json \<Rightarrow> unit result" where
  "assertNoSensitiveMaterial v = need (\<not> sensitive v) PublicSafetyError"

definition FORBIDDEN_CONFIG_KEY :: "string list" where
  "FORBIDDEN_CONFIG_KEY = [''runtime'', ''runtimeroot'', ''evidence'', ''ledger'', ''runs'', ''raw'', ''transcript'',
     ''credential'', ''credentials'', ''secret'', ''secrets'']"

definition forbidden_key :: "string \<Rightarrow> bool" where
  "forbidden_key k \<longleftrightarrow> to_lower k \<in> set FORBIDDEN_CONFIG_KEY"

definition assertKnownKeys :: "json \<Rightarrow> string list \<Rightarrow> unit result" where
  "assertKnownKeys v allowed =
     each (\<lambda>k. rbind (need (k \<in> set allowed) (ConfigError ''unsupported field'')) (\<lambda>_.
       need (\<not> forbidden_key k) PublicSafetyError)) (own_keys v)"

section \<open>Fields\<close>

definition plainObject :: "jsval \<Rightarrow> json result" where
  "plainObject v = rbind (need (plain_object v) (ConfigError ''plain object'')) (\<lambda>_. Inr (the v))"

definition config_string :: "nat \<Rightarrow> jsval \<Rightarrow> string result" where
  "config_string hi v =
     (case v of
        Some (JStr s) \<Rightarrow> if s \<noteq> [] \<and> length s \<le> hi then Inr s else Inl (ConfigError ''string'')
      | _ \<Rightarrow> Inl (ConfigError ''string''))"

definition boundedInteger :: "int \<Rightarrow> int \<Rightarrow> jsval \<Rightarrow> int result" where
  "boundedInteger lo hi v =
     (case v of
        Some (JInt n) \<Rightarrow> if lo \<le> n \<and> n \<le> hi then Inr n else Inl (ConfigError ''integer'')
      | _ \<Rightarrow> Inl (ConfigError ''integer''))"

definition defaulted :: "int \<Rightarrow> int \<Rightarrow> int \<Rightarrow> jsval \<Rightarrow> int result" where
  "defaulted d lo hi v = (if v = None then Inr d else boundedInteger lo hi v)"

definition text_items :: "nat \<Rightarrow> json list \<Rightarrow> string list result" where
  "text_items hi vs = map_result (\<lambda>v. config_string hi (Some v)) vs"

definition text_array :: "string list \<Rightarrow> json" where
  "text_array xs = JArr (map JStr xs)"

text \<open>\<open>[...new Set(xs)].sort()\<close>.\<close>

definition sorted_uniq :: "string list \<Rightarrow> string list" where
  "sorted_uniq xs = sort (remdups xs)"

definition config_path :: "json \<Rightarrow> string result" where
  "config_path v =
     rbind (config_string 300 (Some v)) (\<lambda>p.
     rbind (need (CHR 0x5C \<notin> set p \<and> \<not> posix_absolute p) (ConfigError ''repository-relative'')) (\<lambda>_.
     let n = strip_slashes (posix_normalize p) in
     rbind (need (n \<noteq> [] \<and> n \<noteq> ''.'' \<and> n \<noteq> ''..'' \<and> take 3 n \<noteq> ''../'') (ConfigError ''escape'')) (\<lambda>_. Inr n)))"

definition normalizePathList :: "bool \<Rightarrow> jsval \<Rightarrow> string list result" where
  "normalizePathList required v =
     (case v of
        None \<Rightarrow> if required then Inl (ConfigError ''paths'') else Inr []
      | Some (JArr vs) \<Rightarrow>
          rbind (need (\<not> (required \<and> vs = [])) (ConfigError ''paths'')) (\<lambda>_.
          rbind (map_result config_path vs) (\<lambda>ps. Inr (sorted_uniq ps)))
      | _ \<Rightarrow> Inl (ConfigError ''paths''))"

definition normalizeCommand :: "jsval \<Rightarrow> json result" where
  "normalizeCommand v =
     (if nullish v then Inr JNull
      else case v of
          Some (JArr vs) \<Rightarrow> if vs = [] then Inl (ConfigError ''command'') else rbind (text_items 1000 vs) (\<lambda>xs. Inr (text_array xs))
        | _ \<Rightarrow> Inl (ConfigError ''command''))"

definition normalizeArgs :: "jsval \<Rightarrow> json result" where
  "normalizeArgs v =
     (case v of
        None \<Rightarrow> Inr (text_array [])
      | Some (JArr vs) \<Rightarrow> rbind (text_items 4000 vs) (\<lambda>xs. Inr (text_array xs))
      | _ \<Rightarrow> Inl (ConfigError ''args''))"

text \<open>What \<open>new URL\<close> reads from a text; \<open>None\<close> when it throws.\<close>

record url_parts =
  ur_username :: string
  ur_password :: string
  ur_params :: nat
  ur_search :: string

type_synonym url_parser = "string \<Rightarrow> url_parts option"

definition credential_query :: "string \<Rightarrow> bool" where
  "credential_query s \<longleftrightarrow>
     re_test (seqs [words_i [''token'', ''key'', ''secret'', ''password'', ''auth''], word_i ''='']) s"

definition url_safe :: "url_parts \<Rightarrow> bool" where
  "url_safe u \<longleftrightarrow> ur_username u = [] \<and> ur_password u = [] \<and> ur_params u = 0 \<and> \<not> credential_query (ur_search u)"

definition base_url :: "url_parser \<Rightarrow> jsval \<Rightarrow> (string \<times> json) list result" where
  "base_url url v =
     (if v = None then Inr []
      else
        rbind (config_string 500 v) (\<lambda>s.
        case url s of
          None \<Rightarrow> Inl (ConfigError ''baseUrl'')
        | Some u \<Rightarrow> rbind (need (url_safe u) PublicSafetyError) (\<lambda>_. Inr [(''baseUrl'', JStr s)])))"

definition text_field :: "string \<Rightarrow> nat \<Rightarrow> jsval \<Rightarrow> (string \<times> json) list result" where
  "text_field k hi v = (if v = None then Inr [] else rbind (config_string hi v) (\<lambda>s. Inr [(k, JStr s)]))"

definition timeout_field :: "jsval \<Rightarrow> (string \<times> json) list result" where
  "timeout_field v =
     (if v = None then Inr [] else rbind (boundedInteger 100 600000 v) (\<lambda>n. Inr [(''timeoutMs'', JInt n)]))"

definition normalizeEndpoint :: "url_parser \<Rightarrow> jsval \<Rightarrow> json result" where
  "normalizeEndpoint url v =
     rbind (plainObject v) (\<lambda>e.
     rbind (assertKnownKeys e ENDPOINT_KEYS) (\<lambda>_.
     rbind (base_url url (own ''baseUrl'' v)) (\<lambda>b.
     rbind (text_field ''kind'' 100 (own ''kind'' v)) (\<lambda>k.
     rbind (text_field ''name'' 100 (own ''name'' v)) (\<lambda>n.
     rbind (timeout_field (own ''timeoutMs'' v)) (\<lambda>t.
     Inr (JObj (b @ k @ n @ t))))))))"

text \<open>
  \<open>for (const key of Object.keys(v).sort()) result[key] = f(v[key])\<close>: assigning \<open>__proto__\<close> adds no
  property, and index-like names come first in the result.
\<close>

definition assign_keys :: "(string \<times> json) list \<Rightarrow> json" where
  "assign_keys kvs = JObj (property_order (filter assignable kvs))"

definition map_keys :: "(jsval \<Rightarrow> json result) \<Rightarrow> json \<Rightarrow> json result" where
  "map_keys f v =
     rbind (map_result (\<lambda>k. rbind (f (own k (Some v))) (\<lambda>x. Inr (k, x))) (sorted_uniq (own_keys v))) (\<lambda>kvs.
     Inr (assign_keys kvs))"

definition normalizeEndpoints :: "url_parser \<Rightarrow> jsval \<Rightarrow> json result" where
  "normalizeEndpoints url v =
     (if v = None then Inr (JObj [])
      else rbind (plainObject v) (\<lambda>es. map_keys (normalizeEndpoint url) es))"

definition provider_timeout :: "bool \<Rightarrow> int" where
  "provider_timeout worker = (if worker then 300000 else 120000)"

definition normalizeProviderBlock :: "bool \<Rightarrow> jsval \<Rightarrow> json result" where
  "normalizeProviderBlock worker v =
     (if v = None
      then Inr (JObj [(''command'', JNull), (''args'', JArr []), (''timeoutMs'', JInt (provider_timeout worker))])
      else
        rbind (plainObject v) (\<lambda>b.
        rbind (assertKnownKeys b PROVIDER_KEYS) (\<lambda>_.
        rbind (defaulted (provider_timeout worker) 100 1800000 (own ''timeoutMs'' v)) (\<lambda>t.
        rbind (normalizeCommand (own ''command'' v)) (\<lambda>c.
        rbind (normalizeArgs (own ''args'' v)) (\<lambda>a.
        Inr (JObj [(''command'', c), (''args'', a), (''timeoutMs'', JInt t)])))))))"

definition validation_command :: "json \<Rightarrow> json result" where
  "validation_command v =
     (case v of
        JArr vs \<Rightarrow> if vs = [] then Inl (ConfigError ''argv'') else rbind (text_items 2000 vs) (\<lambda>xs. Inr (text_array xs))
      | _ \<Rightarrow> Inl (ConfigError ''argv''))"

definition normalizeValidation :: "jsval \<Rightarrow> json result" where
  "normalizeValidation v =
     (if v = None then Inr (JObj [(''commands'', JArr [])])
      else
        rbind (plainObject v) (\<lambda>b.
        rbind (assertKnownKeys b VALIDATION_KEYS) (\<lambda>_.
        case own ''commands'' v of
          None \<Rightarrow> Inr (JObj [(''commands'', JArr [])])
        | Some (JArr cs) \<Rightarrow> rbind (map_result validation_command cs) (\<lambda>xs. Inr (JObj [(''commands'', JArr xs)]))
        | _ \<Rightarrow> Inl (ConfigError ''commands''))))"

definition normalizeSemanticRejection :: "jsval \<Rightarrow> json result" where
  "normalizeSemanticRejection v =
     (if nullish v then Inr JNull
      else rbind (need (one_of REJECTION_CODES v) (ConfigError ''semanticRejectionCode'')) (\<lambda>_. Inr (the v)))"

section \<open>The key of a project\<close>

definition key_char :: "char \<Rightarrow> bool" where
  "key_char c \<longleftrightarrow> lower_char c \<or> digit_char c \<or> c \<in> set ''._-''"

definition PROJECT_KEY :: "string \<Rightarrow> bool" where
  "PROJECT_KEY s \<longleftrightarrow> word_text lower_char key_char (Some 63) s"

text \<open>\<open>path.basename\<close>.\<close>

definition path_basename :: "string \<Rightarrow> string" where
  "path_basename p = (case filter (\<lambda>s. s \<noteq> []) (segs p) of [] \<Rightarrow> [] | ss \<Rightarrow> last ss)"

text \<open>\<open>replace(/[^a-z0-9._-]+/g, '-')\<close>: a run becomes one dash.\<close>

fun dash_runs :: "bool \<Rightarrow> string \<Rightarrow> string" where
  "dash_runs run [] = []"
| "dash_runs run (c # cs) =
     (if key_char c then c # dash_runs False cs else (if run then [] else ''-'') @ dash_runs True cs)"

definition fallback_key :: "string \<Rightarrow> string" where
  "fallback_key repoDir =
     (let s = dash_runs False (to_lower (path_basename repoDir));
          t = dropWhile (\<lambda>c. \<not> lower_char c) s;
          k = take 64 (if t = s then s else ''project'' @ t) in
      if k = [] then ''project'' else k)"

definition project_key :: "string \<Rightarrow> jsval \<Rightarrow> string result" where
  "project_key repoDir v =
     rbind (if v = None then Inr (fallback_key repoDir) else config_string 64 v) (\<lambda>k.
     rbind (need (PROJECT_KEY k) (ConfigError ''projectKey'')) (\<lambda>_. Inr k))"

section \<open>The configuration\<close>

definition object_or_empty :: "jsval \<Rightarrow> json result" where
  "object_or_empty v = (if v = None then Inr (JObj []) else plainObject v)"

definition normalize_budgets :: "jsval \<Rightarrow> json result" where
  "normalize_budgets v =
     rbind (object_or_empty v) (\<lambda>b.
     rbind (assertKnownKeys b [''unitCalls'', ''runCalls'']) (\<lambda>_.
     rbind (defaulted 4 1 1000 (own ''unitCalls'' (Some b))) (\<lambda>u.
     rbind (defaulted 16 1 10000 (own ''runCalls'' (Some b))) (\<lambda>r.
     Inr (JObj [(''unitCalls'', JInt u), (''runCalls'', JInt r)])))))"

definition normalize_permissions :: "jsval \<Rightarrow> json result" where
  "normalize_permissions v =
     rbind (object_or_empty v) (\<lambda>p.
     rbind (assertKnownKeys p [''externalProvider'']) (\<lambda>_.
     rbind (need (case own ''externalProvider'' (Some p) of None \<Rightarrow> True | Some b \<Rightarrow> is_bool b) (ConfigError ''permissions'')) (\<lambda>_.
     Inr (JObj [(''externalProvider'', JBool (is_true (own ''externalProvider'' (Some p))))]))))"

definition substitute_text :: "jsval \<Rightarrow> json result" where
  "substitute_text v = rbind (config_string 100 v) (\<lambda>s. Inr (JStr s))"

definition normalize_substitutes :: "jsval \<Rightarrow> json result" where
  "normalize_substitutes v = rbind (object_or_empty v) (map_keys substitute_text)"

definition normalize_fallbacks :: "jsval \<Rightarrow> json result" where
  "normalize_fallbacks v =
     (case v of
        None \<Rightarrow> Inr (text_array [])
      | Some (JArr vs) \<Rightarrow> rbind (text_items 100 vs) (\<lambda>xs. Inr (text_array (sorted_uniq xs)))
      | _ \<Rightarrow> Inl (ConfigError ''enableOptionalFallbacks''))"

definition semantic_contract :: "jsval \<Rightarrow> json" where
  "semantic_contract v = (case v of None \<Rightarrow> JNull | Some c \<Rightarrow> c)"

text \<open>The checks on the raw value as a whole.\<close>

definition raw_guards :: "jsval \<Rightarrow> unit result" where
  "raw_guards raw =
     rbind (plainObject raw) (\<lambda>v.
     rbind (assertNoSensitiveMaterial v) (\<lambda>_.
     rbind (assertKnownKeys v TOP_LEVEL_KEYS) (\<lambda>_.
     rbind (need (own ''schemaName'' raw = None \<or> is_lit (own ''schemaName'' raw) ''lcim.project'') (ConfigError ''schemaName'')) (\<lambda>_.
     need (own ''schemaVersion'' raw = None \<or> is_lit (own ''schemaVersion'' raw) PROJECT_CONFIG_VERSION)
       (ConfigError ''schemaVersion'')))))"

definition config_guards :: "json \<Rightarrow> json \<Rightarrow> unit result" where
  "config_guards contract config =
     rbind (if contract = JNull then Inr JNull else plainObject (Some contract)) (\<lambda>_.
     each (\<lambda>k. need (\<not> forbidden_key k) PublicSafetyError) (own_keys config))"

definition normalizeConfig :: "url_parser \<Rightarrow> string \<Rightarrow> jsval \<Rightarrow> json result" where
  "normalizeConfig url repoDir raw =
     rbind (raw_guards raw) (\<lambda>_.
     rbind (project_key repoDir (own ''projectKey'' raw)) (\<lambda>key.
     rbind (normalize_budgets (own ''budgets'' raw)) (\<lambda>budgets.
     rbind (normalize_permissions (own ''permissions'' raw)) (\<lambda>permissions.
     rbind (normalize_substitutes (own ''exactSubstitutes'' raw)) (\<lambda>substitutes.
     rbind (normalize_fallbacks (own ''enableOptionalFallbacks'' raw)) (\<lambda>fallbacks.
     rbind (normalizePathList True (Some (or_else (own ''allowedWritePaths'' raw) (JArr [JStr ''README.md''])))) (\<lambda>allowed.
     rbind (normalizePathList False (own ''mustChangePaths'' raw)) (\<lambda>must.
     rbind (normalizeEndpoints url (own ''endpoints'' raw)) (\<lambda>endpoints.
     rbind (normalizeProviderBlock True (own ''worker'' raw)) (\<lambda>worker.
     rbind (normalizeProviderBlock False (own ''sol'' raw)) (\<lambda>sol.
     rbind (normalizeValidation (own ''validation'' raw)) (\<lambda>validation.
     rbind (normalizeSemanticRejection (own ''semanticRejectionCode'' raw)) (\<lambda>rejection.
     let contract = semantic_contract (own ''semanticContract'' raw);
         config = JObj [(''schemaName'', JStr ''lcim.project''), (''schemaVersion'', JStr PROJECT_CONFIG_VERSION),
           (''projectKey'', JStr key), (''allowedWritePaths'', text_array allowed), (''mustChangePaths'', text_array must),
           (''semanticContract'', contract), (''endpoints'', endpoints), (''exactSubstitutes'', substitutes),
           (''enableOptionalFallbacks'', fallbacks), (''worker'', worker), (''sol'', sol), (''permissions'', permissions),
           (''budgets'', budgets), (''validation'', validation), (''semanticRejectionCode'', rejection)] in
     rbind (config_guards contract config) (\<lambda>_. Inr config))))))))))))))"

definition defaultProjectConfig :: "url_parser \<Rightarrow> string \<Rightarrow> json result" where
  "defaultProjectConfig url repoDir = normalizeConfig url repoDir (Some (JObj []))"

section \<open>Loading\<close>

definition resolveProjectRoot :: "'w host \<Rightarrow> string \<Rightarrow> ('w, string) git_act" where
  "resolveProjectRoot h cwd = (\<lambda>w.
     case git_text h cwd [''rev-parse'', ''--show-toplevel''] w of
       (Inl _, w') \<Rightarrow> (Inl (ConfigError ''not a Git worktree''), w')
     | (Inr out, w') \<Rightarrow>
         (let root = path_resolve (path_resolve (ho_cwd h) cwd) (js_trim out) in
          if js_trim out = [] \<or> \<not> ho_exists h root (wd_host w') \<or> \<not> ho_isdir h root (wd_host w')
          then (Inl (ConfigError ''root''), w')
          else case ho_real h root (wd_host w') of
              None \<Rightarrow> (Inl (SystemError ''ENOENT''), w')
            | Some r \<Rightarrow> (Inr r, w')))"

definition projectConfigPath :: "string \<Rightarrow> string" where
  "projectConfigPath repoDir = path_join2 (path_join2 repoDir ''.lcim'') ''project.json''"

text \<open>A directory or file that exists must be a real one.\<close>

definition real_kind :: "'w host \<Rightarrow> 'w \<Rightarrow> string \<Rightarrow> (file_kind \<Rightarrow> bool) \<Rightarrow> unit result" where
  "real_kind h x p ok =
     (if ho_exists h p x
      then (case ho_lstat h p x of
          None \<Rightarrow> Inl (SystemError ''ENOENT'')
        | Some (k, _) \<Rightarrow> need (ok k) PublicSafetyError)
      else Inr ())"

definition is_dir_kind :: "file_kind \<Rightarrow> bool" where
  "is_dir_kind k \<longleftrightarrow> k = Dir"

definition is_file_kind :: "file_kind \<Rightarrow> bool" where
  "is_file_kind k = (case k of File _ \<Rightarrow> True | Unreadable \<Rightarrow> True | _ \<Rightarrow> False)"

record project =
  pj_repoDir :: string
  pj_configPath :: string
  pj_exists :: bool
  pj_migrated :: bool
  pj_config :: json
  pj_digest :: string

text \<open>A file of version 1 is read as one of the current version.\<close>

definition migrate :: "json \<Rightarrow> bool \<times> json" where
  "migrate raw =
     (let version = own ''schemaVersion'' (Some raw) in
      (version = None \<or> is_lit version ''1'',
       if is_lit version ''1'' then JObj (put ''schemaVersion'' (JStr PROJECT_CONFIG_VERSION) (spread (Some raw))) else raw))"

definition read_project :: "url_parser \<Rightarrow> 'w host \<Rightarrow> string \<Rightarrow> bool \<Rightarrow> 'w \<Rightarrow> (bool \<times> bool \<times> json) result" where
  "read_project url h repoDir requireConfig x =
     (let file = projectConfigPath repoDir in
      rbind (real_kind h x (path_join2 repoDir ''.lcim'') is_dir_kind) (\<lambda>_.
      rbind (real_kind h x file is_file_kind) (\<lambda>_.
      if \<not> ho_exists h file x then
        rbind (need (\<not> requireConfig) (ConfigError ''missing'')) (\<lambda>_.
        rbind (defaultProjectConfig url repoDir) (\<lambda>c. Inr (False, False, c)))
      else
        case Option.bind (ho_read h file x) json_parse of
          None \<Rightarrow> Inl (ConfigError ''not valid JSON'')
        | Some raw \<Rightarrow> rbind (normalizeConfig url repoDir (Some (snd (migrate raw)))) (\<lambda>c. Inr (True, fst (migrate raw), c)))))"

definition loadProjectConfig ::
    "digest_fun \<Rightarrow> url_parser \<Rightarrow> 'w host \<Rightarrow> string \<Rightarrow> bool \<Rightarrow> ('w, project) git_act" where
  "loadProjectConfig sha url h cwd requireConfig =
     act_bind (resolveProjectRoot h cwd) (\<lambda>repoDir.
     act_bind (look (\<lambda>w. read_project url h repoDir requireConfig (wd_host w))) (\<lambda>r.
     act_bind (act_of r) (\<lambda>(there, migrated, c).
     act_of (Inr \<lparr>pj_repoDir = repoDir, pj_configPath = projectConfigPath repoDir, pj_exists = there,
       pj_migrated = migrated, pj_config = c, pj_digest = digestConfig sha c\<rparr>))))"


text \<open>
  The normal form of a configuration is normal: reading back what normalization returned gives the
  same configuration, and its paths and budgets are those the rest of the program accepts.
\<close>

section \<open>Texts and numbers\<close>

lemma config_string_Inr: "config_string n v = Inr s \<longleftrightarrow> v = Some (JStr s) \<and> s \<noteq> [] \<and> length s \<le> n"
  by (auto simp: config_string_def split: option.splits json.splits if_splits)

lemma boundedInteger_Inr: "boundedInteger a b v = Inr n \<longleftrightarrow> v = Some (JInt n) \<and> a \<le> n \<and> n \<le> b"
  by (auto simp: boundedInteger_def split: option.splits json.splits if_splits)

lemma defaulted_again:
  assumes "defaulted d a b v = Inr n" and "a \<le> d" and "d \<le> b"
  shows "defaulted d a b (Some (JInt n)) = Inr n"
  using assms by (auto simp: defaulted_def boundedInteger_Inr split: if_splits)

lemma text_items_Inr:
  "text_items n vs = Inr xs \<longleftrightarrow> vs = map JStr xs \<and> list_all (\<lambda>s. s \<noteq> [] \<and> length s \<le> n) xs"
proof (induction vs arbitrary: xs)
  case (Cons v vs)
  then show ?case
    by (cases xs) (auto simp: text_items_def config_string_Inr)
qed (auto simp: text_items_def)

lemma text_items_again: "list_all (\<lambda>s. s \<noteq> [] \<and> length s \<le> n) xs \<Longrightarrow> text_items n (map JStr xs) = Inr xs"
  by (simp add: text_items_Inr)

lemma sorted_uniq_facts [simp]:
  "set (sorted_uniq xs) = set xs" "sorted (sorted_uniq xs)" "distinct (sorted_uniq xs)"
  by (simp_all add: sorted_uniq_def)

lemma sorted_uniq_id: "sorted xs \<Longrightarrow> distinct xs \<Longrightarrow> sorted_uniq xs = xs"
  by (simp add: sorted_uniq_def distinct_remdups_id sorted_sort_id)

lemma sorted_uniq_again [simp]: "sorted_uniq (sorted_uniq xs) = sorted_uniq xs"
  by (simp add: sorted_uniq_id)

lemma sorted_uniq_set: "set xs = set ys \<Longrightarrow> sorted_uniq xs = sorted_uniq ys"
  by (metis sorted_distinct_set_unique sorted_uniq_facts)

section \<open>Paths\<close>

lemma join_size: "ss \<noteq> [] \<Longrightarrow> Suc (length (join_path ss)) = sum_list (map (\<lambda>s. Suc (length s)) ss)"
  by (induction ss rule: join_path.induct) auto

lemma resolve_size:
  "sum_list (map (\<lambda>s. Suc (length s)) (resolve_segs up st ss)) \<le>
     sum_list (map (\<lambda>s. Suc (length s)) st) + sum_list (map (\<lambda>s. Suc (length s)) ss)"
proof (induction up st ss rule: resolve_segs.induct)
  case (1 up st)
  then show ?case by (simp add: rev_map [symmetric])
next
  case (2 up st s ss)
  then show ?case
    by (auto split: list.split)
qed

lemma strip_size: "length (strip_slashes s) \<le> length s"
  by (simp add: strip_slashes_def length_dropWhile_le [THEN order_trans])

lemma normalize_size:
  assumes "\<not> posix_absolute p" and "p \<noteq> []" and "strip_slashes (posix_normalize p) \<noteq> ''.''"
  shows "length (strip_slashes (posix_normalize p)) \<le> length p"
proof -
  let ?q = "join_path (resolve_segs True [] (segs p))"
  have q: "posix_normalize p = (if ?q = [] then (if last p = CHR ''/'' then ''./'' else ''.'')
      else ?q @ (if last p = CHR ''/'' then ''/'' else []))"
    using assms(1,2) by (simp add: posix_normalize_def Let_def)
  have ne: "?q \<noteq> []"
    using assms(3) by (auto simp: q strip_slashes_def split: if_splits)
  then have "resolve_segs True [] (segs p) \<noteq> []"
    by auto
  then have "Suc (length ?q) \<le> Suc (length (join_path (segs p)))"
    using resolve_size [of True "[]" "segs p"] by (simp add: join_size del: join_segs)
  moreover have "length (strip_slashes (posix_normalize p)) \<le> length ?q"
    using ne strip_size [of ?q] by (simp add: q strip_slash_tail)
  ultimately show ?thesis by simp
qed

lemma config_path_iff:
  "config_path v = Inr n \<longleftrightarrow> (\<exists>p. v = JStr p \<and> length p \<le> 300 \<and> normalizeScopePath (Some v) = Inr n)"
  by (cases v) (auto simp: config_path_def config_string_Inr Let_def)

lemma config_path_again:
  assumes "config_path v = Inr n"
  shows "config_path (JStr n) = Inr n"
proof -
  obtain p where p: "v = JStr p" "length p \<le> 300" "normalizeScopePath (Some (JStr p)) = Inr n"
    using assms by (auto simp: config_path_iff)
  then have "length n \<le> length p"
    using normalize_size [of p] by (auto simp: Let_def split: if_splits)
  with p scope_idempotent [OF p(3)] show ?thesis
    by (simp add: config_path_iff del: normalizeScopePath.simps)
qed

lemma fixed_items: "\<forall>x \<in> set xs. f (g x) = Inr x \<Longrightarrow> map_result f (map g xs) = Inr xs"
  by (induction xs) auto

lemma map_result_origin: "map_result f vs = Inr xs \<Longrightarrow> x \<in> set xs \<Longrightarrow> \<exists>v. f v = Inr x"
proof (induction vs arbitrary: xs)
  case (Cons v vs)
  then show ?case by (cases xs) auto
qed simp

lemma path_list_items:
  assumes "normalizePathList b v = Inr ps"
  shows "map_result config_path (map JStr ps) = Inr ps" and "sorted_uniq ps = ps"
  using assms config_path_again
  by (auto intro!: fixed_items simp: normalizePathList_def sorted_uniq_id split: option.splits json.splits if_splits dest: map_result_origin)

lemma path_list_again:
  assumes "normalizePathList b v = Inr ps"
  shows "normalizePathList b (Some (text_array ps)) = Inr ps"
proof -
  have "\<not> (b \<and> ps = [])"
  proof
    assume b: "b \<and> ps = []"
    then obtain vs where vs: "v = Some (JArr vs)" "vs \<noteq> []"
      using assms by (auto simp: normalizePathList_def split: option.splits json.splits if_splits)
    then obtain qs where "map_result config_path vs = Inr qs" "sorted_uniq qs = []"
      using assms b by (auto simp: normalizePathList_def)
    moreover have "qs = []"
      using calculation(2) sorted_uniq_facts(1) [of qs] by simp
    ultimately show False
      using vs(2) by (cases vs) auto
  qed
  then show ?thesis
    using path_list_items [OF assms]
    by (auto simp: normalizePathList_def text_array_def)
qed

section \<open>Objects over their keys\<close>

lemma property_order_set [simp]: "set (property_order kvs) = set kvs"
  by (auto simp: property_order_def)

lemma property_order_keys: "distinct (map fst kvs) \<Longrightarrow> distinct (map fst (property_order kvs))"
  by (auto simp: distinct_map distinct_sort property_order_def intro: inj_on_subset)

lemma property_order_map_of: "distinct (map fst kvs) \<Longrightarrow> map_of (property_order kvs) = map_of kvs"
  by (rule map_of_inject_set [THEN iffD2]) (simp_all add: property_order_keys)

text \<open>Values of a function that returns its own values unchanged survive another pass.\<close>

lemma keyed_items:
  "map_result (\<lambda>k. rbind (f k) (\<lambda>x. Inr (k, x))) ks = Inr kvs \<longleftrightarrow>
     map fst kvs = ks \<and> (\<forall>(k, x) \<in> set kvs. f k = Inr x)"
proof (induction ks arbitrary: kvs)
  case (Cons k ks)
  then show ?case by (cases kvs) auto
qed auto

lemma map_keys_again:
  assumes w: "map_keys f v = Inr w" and again: "\<And>v x. f v = Inr x \<Longrightarrow> f (Some x) = Inr x"
  shows "map_keys f w = Inr w" and "is_obj w"
proof -
  obtain kvs where kvs: "map fst kvs = sorted_uniq (own_keys v)" "\<forall>(k, x) \<in> set kvs. f (own k (Some v)) = Inr x"
      and w: "w = assign_keys kvs"
    using w by (auto simp: map_keys_def keyed_items)
  let ?L = "filter assignable kvs"
  have dist: "distinct (map fst kvs)"
    by (simp add: kvs(1))
  then have distL: "distinct (map fst ?L)"
    by (simp add: distinct_map_filter)
  have keys: "sorted_uniq (own_keys w) = map fst ?L"
  proof -
    have "set (own_keys w) = set (map fst ?L)"
      by (simp add: w assign_keys_def)
    moreover have "sorted (map fst ?L)"
      using kvs(1) by (simp add: sorted_filter)
    ultimately show ?thesis
      using sorted_uniq_set [of "own_keys w" "map fst ?L"] distL by (simp add: sorted_uniq_id)
  qed
  have "f (own k (Some w)) = Inr x" if "(k, x) \<in> set ?L" for k x
  proof -
    have "own k (Some w) = Some x"
      using that distL by (simp add: w assign_keys_def property_order_map_of)
    moreover have "f (own k (Some v)) = Inr x"
      using kvs(2) that by auto
    ultimately show ?thesis
      by (simp add: again)
  qed
  then have "map_result (\<lambda>k. rbind (f (own k (Some w))) (\<lambda>x. Inr (k, x))) (sorted_uniq (own_keys w)) = Inr ?L"
    by (auto simp: keyed_items keys)
  then show "map_keys f w = Inr w"
    by (simp add: map_keys_def) (simp add: w assign_keys_def)
  show "is_obj w"
    by (simp add: w assign_keys_def)
qed

section \<open>Fields\<close>

lemma plainObject_Inr: "plainObject v = Inr x \<longleftrightarrow> v = Some x \<and> is_obj x"
  by (auto simp: plainObject_def plain_object_iff is_obj_iff)

lemma known_keys: "list_all (\<lambda>k. k \<in> set ks \<and> \<not> forbidden_key k) (own_keys v) \<Longrightarrow> assertKnownKeys v ks = Inr ()"
  by (simp add: assertKnownKeys_def list_all_iff)

lemma assertKnownKeys_Inr: "assertKnownKeys v ks = Inr u \<longleftrightarrow> list_all (\<lambda>k. k \<in> set ks \<and> \<not> forbidden_key k) (own_keys v)"
  by (auto simp: assertKnownKeys_def list_all_iff)

text \<open>None of the names the program uses is a forbidden one.\<close>

lemma names_allowed:
  "list_all (\<lambda>k. \<not> forbidden_key k) (TOP_LEVEL_KEYS @ PROVIDER_KEYS @ ENDPOINT_KEYS @ VALIDATION_KEYS @
     [''unitCalls'', ''runCalls'', ''externalProvider''])"
  by code_simp

lemma name_allowed [simp]:
  "\<not> forbidden_key ''baseUrl''" "\<not> forbidden_key ''kind''" "\<not> forbidden_key ''name''" "\<not> forbidden_key ''timeoutMs''"
  "\<not> forbidden_key ''command''" "\<not> forbidden_key ''args''" "\<not> forbidden_key ''commands''"
  "\<not> forbidden_key ''unitCalls''" "\<not> forbidden_key ''runCalls''" "\<not> forbidden_key ''externalProvider''"
  using names_allowed
  by (simp_all add: TOP_LEVEL_KEYS_def PROVIDER_KEYS_def ENDPOINT_KEYS_def VALIDATION_KEYS_def)

lemma endpoint_again:
  assumes "normalizeEndpoint url v = Inr x"
  shows "normalizeEndpoint url (Some x) = Inr x"
proof -
  have base: "b = [] \<or> (\<exists>s. b = [(''baseUrl'', s)] \<and> base_url url (Some s) = Inr b)" if read: "base_url url v = Inr b" for v b
  proof (cases "v = None")
    case False
    then obtain s where s: "config_string 500 v = Inr s" "b = [(''baseUrl'', JStr s)]"
      using read by (auto simp: base_url_def split: option.splits)
    then have "v = Some (JStr s)"
      by (simp add: config_string_Inr)
    with read s(2) show ?thesis by simp
  qed (use read in \<open>simp add: base_url_def\<close>)
  have texts: "text_field k n v = Inr b \<Longrightarrow> b = [] \<or> (\<exists>s. b = [(k, s)] \<and> text_field k n (Some s) = Inr b)" for k n v b
    by (auto simp: text_field_def config_string_Inr split: if_splits)
  have timeout: "timeout_field v = Inr b \<Longrightarrow> b = [] \<or> (\<exists>s. b = [(''timeoutMs'', s)] \<and> timeout_field (Some s) = Inr b)" for v b
    by (auto simp: timeout_field_def boundedInteger_Inr split: if_splits)
  have none: "base_url url None = Inr []" "text_field k n None = Inr []" "timeout_field None = Inr []" for k n
    by (simp_all add: base_url_def text_field_def timeout_field_def)
  obtain b k n t where parts: "base_url url (own ''baseUrl'' v) = Inr b" "text_field ''kind'' 100 (own ''kind'' v) = Inr k"
      "text_field ''name'' 100 (own ''name'' v) = Inr n" "timeout_field (own ''timeoutMs'' v) = Inr t"
      and x: "x = JObj (b @ k @ n @ t)"
    using assms by (auto simp: normalizeEndpoint_def)
  show ?thesis
    using base [OF parts(1)] texts [OF parts(2)] texts [OF parts(3)] timeout [OF parts(4)]
    by (elim disjE exE conjE)
      (simp_all add: x normalizeEndpoint_def plainObject_def assertKnownKeys_def ENDPOINT_KEYS_def none)
qed

lemma provider_again:
  assumes "normalizeProviderBlock b v = Inr x"
  shows "normalizeProviderBlock b (Some x) = Inr x"
proof -
  have command: "normalizeCommand v = Inr c \<Longrightarrow> normalizeCommand (Some c) = Inr c" for v c
    by (auto simp: normalizeCommand_def text_array_def text_items_Inr split: if_splits option.splits json.splits)
  have args: "normalizeArgs v = Inr c \<Longrightarrow> normalizeArgs (Some c) = Inr c" for v c
    by (auto simp: normalizeArgs_def text_array_def text_items_Inr split: option.splits json.splits)
  have empty: "normalizeCommand (Some JNull) = Inr JNull" "normalizeArgs (Some (JArr [])) = Inr (JArr [])"
    by (simp_all add: normalizeCommand_def normalizeArgs_def text_items_def text_array_def)
  obtain c a t where x: "x = JObj [(''command'', c), (''args'', a), (''timeoutMs'', JInt t)]"
      and parts: "normalizeCommand (Some c) = Inr c" "normalizeArgs (Some a) = Inr a"
        "defaulted (provider_timeout b) 100 1800000 (Some (JInt t)) = Inr t"
  proof (cases "v = None")
    case True
    with assms empty that [of JNull "JArr []" "provider_timeout b"] show ?thesis
      by (simp add: normalizeProviderBlock_def defaulted_def boundedInteger_def provider_timeout_def)
  next
    case False
    then obtain c a t where "x = JObj [(''command'', c), (''args'', a), (''timeoutMs'', JInt t)]"
        "normalizeCommand (own ''command'' v) = Inr c" "normalizeArgs (own ''args'' v) = Inr a"
        "defaulted (provider_timeout b) 100 1800000 (own ''timeoutMs'' v) = Inr t"
      using assms by (auto simp: normalizeProviderBlock_def)
    then show ?thesis
      using that command args defaulted_again [of "provider_timeout b" 100 1800000 "own ''timeoutMs'' v" t]
      by (simp add: provider_timeout_def)
  qed
  then show ?thesis
    by (simp add: normalizeProviderBlock_def plainObject_def assertKnownKeys_def PROVIDER_KEYS_def)
qed

lemma validation_again:
  assumes "normalizeValidation v = Inr x"
  shows "normalizeValidation (Some x) = Inr x"
proof -
  have one: "validation_command v = Inr c \<Longrightarrow> validation_command c = Inr c" for v c
    by (auto simp: validation_command_def text_array_def text_items_Inr split: json.splits if_splits)
  have all: "\<forall>c \<in> set cs. validation_command c = Inr c" if "map_result validation_command vs = Inr cs" for vs cs
    using that one by (blast dest: map_result_origin)
  consider "x = JObj [(''commands'', JArr [])]"
    | vs cs where "map_result validation_command vs = Inr cs" "x = JObj [(''commands'', JArr cs)]"
    using assms by (auto simp: normalizeValidation_def split: if_splits option.splits json.splits)
  then obtain cs where x: "x = JObj [(''commands'', JArr cs)]" and cs: "\<forall>c \<in> set cs. validation_command c = Inr c"
    using all by cases auto
  have "map_result validation_command cs = Inr cs"
    using fixed_items [of cs validation_command "\<lambda>c. c"] cs by simp
  with x show ?thesis
    by (simp add: normalizeValidation_def plainObject_def assertKnownKeys_def VALIDATION_KEYS_def)
qed

lemma rejection_again: "normalizeSemanticRejection v = Inr x \<Longrightarrow> normalizeSemanticRejection (Some x) = Inr x"
  by (auto simp: normalizeSemanticRejection_def one_of_iff split: if_splits)

lemma budgets_again:
  assumes "normalize_budgets v = Inr x"
  shows "normalize_budgets (Some x) = Inr x"
    and "\<exists>u r. x = JObj [(''unitCalls'', JInt u), (''runCalls'', JInt r)] \<and> 1 \<le> u \<and> u \<le> 1000 \<and> 1 \<le> r \<and> r \<le> 10000"
proof -
  obtain b u r where x: "x = JObj [(''unitCalls'', JInt u), (''runCalls'', JInt r)]"
      and parts: "defaulted 4 1 1000 (own ''unitCalls'' (Some b)) = Inr u" "defaulted 16 1 10000 (own ''runCalls'' (Some b)) = Inr r"
    using assms by (auto simp: normalize_budgets_def)
  note again = defaulted_again [OF parts(1)] defaulted_again [OF parts(2)]
  show "normalize_budgets (Some x) = Inr x"
    using again by (simp add: x normalize_budgets_def object_or_empty_def plainObject_def assertKnownKeys_def)
  show "\<exists>u r. x = JObj [(''unitCalls'', JInt u), (''runCalls'', JInt r)] \<and> 1 \<le> u \<and> u \<le> 1000 \<and> 1 \<le> r \<and> r \<le> 10000"
    using again x by (auto simp: defaulted_def boundedInteger_Inr)
qed

lemma permissions_again: "normalize_permissions v = Inr x \<Longrightarrow> normalize_permissions (Some x) = Inr x"
  by (auto simp: normalize_permissions_def object_or_empty_def plainObject_def assertKnownKeys_def)

lemma substitutes_again:
  assumes "normalize_substitutes v = Inr x"
  shows "normalize_substitutes (Some x) = Inr x"
proof -
  have texts: "substitute_text v = Inr x \<Longrightarrow> substitute_text (Some x) = Inr x" for v x
    by (auto simp: substitute_text_def config_string_Inr)
  obtain o1 where "map_keys substitute_text o1 = Inr x"
    using assms by (auto simp: normalize_substitutes_def)
  from map_keys_again [OF this texts] show ?thesis
    by (auto simp: normalize_substitutes_def object_or_empty_def plainObject_Inr)
qed

lemma endpoints_again:
  assumes "normalizeEndpoints url v = Inr x"
  shows "normalizeEndpoints url (Some x) = Inr x"
proof (cases "v = None")
  case True
  then have "x = JObj []"
    using assms by (simp add: normalizeEndpoints_def)
  then show ?thesis
    by (simp add: normalizeEndpoints_def plainObject_def map_keys_def sorted_uniq_def assign_keys_def property_order_def)
next
  case False
  then obtain o1 where "map_keys (normalizeEndpoint url) o1 = Inr x"
    using assms by (auto simp: normalizeEndpoints_def)
  from map_keys_again [OF this endpoint_again] show ?thesis
    by (auto simp: normalizeEndpoints_def plainObject_Inr)
qed

lemma fallbacks_again:
  assumes "normalize_fallbacks v = Inr x"
  shows "normalize_fallbacks (Some x) = Inr x"
proof -
  obtain xs where x: "x = text_array (sorted_uniq xs)" and xs: "list_all (\<lambda>s. s \<noteq> [] \<and> length s \<le> 100) xs"
    using assms
    by (auto simp: normalize_fallbacks_def text_items_Inr sorted_uniq_id intro: that [of "[]"] split: option.splits json.splits)
  have "text_items 100 (map JStr (sorted_uniq xs)) = Inr (sorted_uniq xs)"
    using xs by (intro text_items_again) (simp add: list_all_iff)
  with x show ?thesis
    by (simp add: normalize_fallbacks_def text_array_def)
qed

section \<open>The configuration\<close>

text \<open>The normal form of the fields of a configuration.\<close>

definition config_of ::
    "string \<Rightarrow> string list \<Rightarrow> string list \<Rightarrow> json \<Rightarrow> json \<Rightarrow> json \<Rightarrow> json \<Rightarrow> json \<Rightarrow> json \<Rightarrow> json \<Rightarrow> json \<Rightarrow> json \<Rightarrow> json \<Rightarrow> json" where
  "config_of key allowed must contract endpoints substitutes fallbacks worker sol permissions budgets validation rejection =
     JObj [(''schemaName'', JStr ''lcim.project''), (''schemaVersion'', JStr PROJECT_CONFIG_VERSION),
       (''projectKey'', JStr key), (''allowedWritePaths'', text_array allowed), (''mustChangePaths'', text_array must),
       (''semanticContract'', contract), (''endpoints'', endpoints), (''exactSubstitutes'', substitutes),
       (''enableOptionalFallbacks'', fallbacks), (''worker'', worker), (''sol'', sol), (''permissions'', permissions),
       (''budgets'', budgets), (''validation'', validation), (''semanticRejectionCode'', rejection)]"

lemma config_keys: "own_keys (config_of key a m c e s f w o' p b v r) = TOP_LEVEL_KEYS"
  by (simp add: config_of_def TOP_LEVEL_KEYS_def)

lemma normalized_parts:
  assumes "normalizeConfig url repo raw = Inr c"
  obtains key allowed must contract endpoints substitutes fallbacks worker sol permissions budgets validation rejection where
    "c = config_of key allowed must contract endpoints substitutes fallbacks worker sol permissions budgets validation rejection"
    "project_key repo (own ''projectKey'' raw) = Inr key"
    "normalize_budgets (own ''budgets'' raw) = Inr budgets"
    "normalize_permissions (own ''permissions'' raw) = Inr permissions"
    "normalize_substitutes (own ''exactSubstitutes'' raw) = Inr substitutes"
    "normalize_fallbacks (own ''enableOptionalFallbacks'' raw) = Inr fallbacks"
    "normalizePathList True (Some (or_else (own ''allowedWritePaths'' raw) (JArr [JStr ''README.md'']))) = Inr allowed"
    "normalizePathList False (own ''mustChangePaths'' raw) = Inr must"
    "normalizeEndpoints url (own ''endpoints'' raw) = Inr endpoints"
    "normalizeProviderBlock True (own ''worker'' raw) = Inr worker"
    "normalizeProviderBlock False (own ''sol'' raw) = Inr sol"
    "normalizeValidation (own ''validation'' raw) = Inr validation"
    "normalizeSemanticRejection (own ''semanticRejectionCode'' raw) = Inr rejection"
    "contract = JNull \<or> is_obj contract"
  using assms
  by (auto simp: normalizeConfig_def Let_def config_guards_def plainObject_Inr split: if_splits
      simp flip: config_of_def)

lemma project_key_again: "project_key repo v = Inr k \<Longrightarrow> project_key repo' (Some (JStr k)) = Inr k"
  by (auto simp: project_key_def config_string_def PROJECT_KEY_def word_text_def split: list.splits)

lemma guards_again:
  "raw_guards (Some (config_of key a m c e s f w o' p b v r)) =
     assertNoSensitiveMaterial (config_of key a m c e s f w o' p b v r)"
  "contract = JNull \<or> is_obj contract \<Longrightarrow> config_guards contract (config_of key a m c e s f w o' p b v r) = Inr ()"
proof -
  have keys: "assertKnownKeys (config_of key a m c e s f w o' p b v r) TOP_LEVEL_KEYS = Inr ()"
    using names_allowed by (simp add: assertKnownKeys_Inr config_keys list_all_iff)
  then show "raw_guards (Some (config_of key a m c e s f w o' p b v r)) =
      assertNoSensitiveMaterial (config_of key a m c e s f w o' p b v r)"
    by (simp add: raw_guards_def plainObject_def) (simp add: config_of_def assertNoSensitiveMaterial_def need_def)
  show "config_guards contract (config_of key a m c e s f w o' p b v r) = Inr ()" if "contract = JNull \<or> is_obj contract"
    using that names_allowed by (auto simp: config_guards_def plainObject_Inr config_keys list_all_iff)
qed

text \<open>Reading a normalized configuration gives it back, unless a normalized path looks like a credential.\<close>

lemma normalized_again:
  assumes "normalizeConfig url repo raw = Inr c"
  shows "normalizeConfig url repo' (Some c) = rbind (assertNoSensitiveMaterial c) (\<lambda>_. Inr c)"
proof -
  obtain key allowed must contract endpoints substitutes fallbacks worker sol permissions budgets validation rejection where
    c: "c = config_of key allowed must contract endpoints substitutes fallbacks worker sol permissions budgets validation rejection"
    and parts: "project_key repo (own ''projectKey'' raw) = Inr key"
    "normalize_budgets (own ''budgets'' raw) = Inr budgets"
    "normalize_permissions (own ''permissions'' raw) = Inr permissions"
    "normalize_substitutes (own ''exactSubstitutes'' raw) = Inr substitutes"
    "normalize_fallbacks (own ''enableOptionalFallbacks'' raw) = Inr fallbacks"
    "normalizePathList True (Some (or_else (own ''allowedWritePaths'' raw) (JArr [JStr ''README.md'']))) = Inr allowed"
    "normalizePathList False (own ''mustChangePaths'' raw) = Inr must"
    "normalizeEndpoints url (own ''endpoints'' raw) = Inr endpoints"
    "normalizeProviderBlock True (own ''worker'' raw) = Inr worker"
    "normalizeProviderBlock False (own ''sol'' raw) = Inr sol"
    "normalizeValidation (own ''validation'' raw) = Inr validation"
    "normalizeSemanticRejection (own ''semanticRejectionCode'' raw) = Inr rejection"
    and contract: "contract = JNull \<or> is_obj contract"
    by (rule normalized_parts [OF assms])
  have fields: "own ''projectKey'' (Some c) = Some (JStr key)" "own ''budgets'' (Some c) = Some budgets"
    "own ''permissions'' (Some c) = Some permissions" "own ''exactSubstitutes'' (Some c) = Some substitutes"
    "own ''enableOptionalFallbacks'' (Some c) = Some fallbacks" "own ''allowedWritePaths'' (Some c) = Some (text_array allowed)"
    "own ''mustChangePaths'' (Some c) = Some (text_array must)" "own ''endpoints'' (Some c) = Some endpoints"
    "own ''worker'' (Some c) = Some worker" "own ''sol'' (Some c) = Some sol" "own ''validation'' (Some c) = Some validation"
    "own ''semanticRejectionCode'' (Some c) = Some rejection" "own ''semanticContract'' (Some c) = Some contract"
    by (simp_all add: c config_of_def)
  have "Some (or_else (Some (text_array allowed)) (JArr [JStr ''README.md''])) = Some (text_array allowed)"
    by (simp add: or_else_def text_array_def)
  note again = this project_key_again [OF parts(1)] budgets_again(1) [OF parts(2)] permissions_again [OF parts(3)]
    substitutes_again [OF parts(4)] fallbacks_again [OF parts(5)] path_list_again [OF parts(6)] path_list_again [OF parts(7)]
    endpoints_again [OF parts(8)] provider_again [OF parts(9)] provider_again [OF parts(10)] validation_again [OF parts(11)]
    rejection_again [OF parts(12)]
  have guard: "raw_guards (Some c) = assertNoSensitiveMaterial c" "config_guards contract c = Inr ()"
    using guards_again contract by (simp_all add: c)
  show ?thesis
    by (simp only: normalizeConfig_def fields again guard rbind_simps semantic_contract_def option.case Let_def
        flip: config_of_def c)
qed

section \<open>What the rest of the program makes of it\<close>

lemma listed_paths_safe:
  assumes "normalizePathList required v = Inr ps"
  shows "normalizeAll (Some (text_array ps)) = Inr ps"
proof -
  have "map_result config_path (map JStr ps) = Inr ps"
    by (rule path_list_items(1) [OF assms])
  then show ?thesis
    by (auto simp: text_array_def map_result_Inr config_path_iff list_all2_map1 simp del: normalizeScopePath.simps
        elim!: list_all2_mono)
qed

lemma config_usable:
  assumes "normalizeConfig url repo raw = Inr c"
  shows "\<exists>ps ms b. own ''allowedWritePaths'' (Some c) = Some (text_array ps) \<and> ps \<noteq> [] \<and>
    normalizeAll (own ''allowedWritePaths'' (Some c)) = Inr ps \<and> list_all below_root ps \<and>
    own ''mustChangePaths'' (Some c) = Some (text_array ms) \<and>
    normalizeAll (own ''mustChangePaths'' (Some c)) = Inr ms \<and> list_all below_root ms \<and>
    createBudgetTracker (own ''unitCalls'' (own ''budgets'' (Some c))) (own ''runCalls'' (own ''budgets'' (Some c))) = Inr b \<and>
    available b"
proof (rule normalized_parts [OF assms], goal_cases)
  case (1 key allowed must contract endpoints substitutes fallbacks worker sol permissions budgets validation rejection)
  note c = 1(1) and bs = 1(3) and al = 1(7) and mu = 1(8)
  have ne: "allowed \<noteq> []"
    using path_list_again [OF al] by (auto simp: normalizePathList_def text_array_def)
  note paths = listed_paths_safe [OF al] and must = listed_paths_safe [OF mu]
  obtain u r where "budgets = JObj [(''unitCalls'', JInt u), (''runCalls'', JInt r)]" "1 \<le> u" "u \<le> 1000" "1 \<le> r" "r \<le> 10000"
    using budgets_again(2) [OF bs] by auto
  with ne paths must normalizeAll_below [OF paths] normalizeAll_below [OF must] show ?case
    by (simp add: c config_of_def createBudgetTracker_def safe_natural_def available_def)
qed

text \<open>
  The guard looks at the raw paths: a path can hide a token from it that its normal form shows.
\<close>

lemma path_hides_credential:
  "\<not> sensitive (JStr ''sk-ab/ /../cdefghi'') \<and> config_path (JStr ''sk-ab/ /../cdefghi'') = Inr ''sk-ab/cdefghi'' \<and>
     sensitive (JStr ''sk-ab/cdefghi'')"
  by code_simp

end
