(* ===== verification/Spec2Isabelle.thy ===== *)
theory Spec2Isabelle
  imports Lcim_Samples Ledger_Samples Handoff_States Sol_Samples Ctl_Samples Audit_Time Worktree_Laws Compat_Laws Project_Config
begin

text \<open>
  LCIM version 2: a controller that has language models implement units of work under semantic
  contracts, decides what to do next by a fixed policy, and records every model call in an
  append-only ledger.  The program is the JavaScript under src/src; this development models its
  decision core and its evidence chain and proves what they promise.

  Parts and theories.

  \<^item> Lcim_Prelude, Js_Values, Json_Text, Json_Unique, Lcim_Errors: results of fallible operations,
    issues, JavaScript values as parsed from JSON (own properties in order, the members of
    \<open>Object.prototype\<close>, \<open>undefined\<close> as \<open>None\<close>), the texts \<open>JSON.stringify\<close>, \<open>canonicalJson\<close> and
    \<open>canonicalizeJson\<close> give, their injectivity, and the error classes of src/src/shared/errors.mjs.
  \<^item> Schema_Engine, Schema_Spec: src/src/shared/schema/validate.mjs; \<open>conforms\<close> is what a schema
    means, \<open>check\<close> what the code does.  Lcim_Patterns and Lcim_Schemas hold the regular
    expressions and the files of src/schemas.
  \<^item> Contract_Digest, Contract_Validate, Contract_Acceptance, Contract_Build: src/src/contracts and
    src/src/risk, that is digests and identities, the rules of semantic and of repair contracts,
    the compiler and the repair builder.
  \<^item> Route_Machine (src/src/routing/state.mjs, budget.mjs, stuck.mjs, reasons.mjs),
    Route_Discovery (src/src/providers), Route_Registry (registry.mjs), Route_Policy
    (policy.mjs, one definition per step of \<open>decideRoute\<close>) and Route_Laws, its theorems.
  \<^item> Ledger_Events, Ledger_Chain: src/src/logging: an event and its rules, the states of the
    invocations, the digest chain and the writer.  Ledger_Laws proves the
    lifecycle, the balance of the counts, the invariant of the writer and tamper evidence.
  \<^item> Run_Store, Run_Lifecycle: src/src/runtime/run-store.mjs and src/src/logging/reader.mjs and
    invocation.mjs: the files of a run, the sessions that share it, finalizing and reopening.
    Run_Laws has the step relation of all sessions: an append, a finalization and an abort are one
    step under the run lock, and the refresh of an invocation record is a step of its own, after the
    lock is released.
  \<^item> Json_Parse, Json_Roundtrip: \<open>JSON.parse\<close> and its round trip with \<open>JSON.stringify\<close>.
    Handoff_Parse, Handoff_Assessment: src/src/handoff and src/src/workers, from the raw text of a
    worker's response to the assessment of a handoff.  Handoff_Laws and Handoff_States prove
    soundness (with a reading of fences and of objects in prose that does not refer to the scanner),
    the round trips and the separation of the states.
  \<^item> Js_Regexp: a backtracking matcher for the regular expressions the program scans texts with.
    Sol_Schemas, Sol_Types, Sol_Ask, Sol_Response, Sol_Validate: src/src/sol/contracts, the rules of
    decision requests to SOL, of its responses and of repair tickets.  Sol_Preflight, Sol_Budget,
    Sol_Compile, Sol_Ticket: src/src/sol/ask-compiler, their compilers.  Sol_Laws and
    the end of Sol_Budget prove closed evidence, bindings to sources, the provenance of a recheck and the
    scope of a repair.
  \<^item> Common_Schemas: src/schemas/common.  Ctl_Records: src/src/shared/schema-registry.mjs and
    src/src/controller/state.mjs, the records a run keeps beside the ledger.
    Ctl_Bind, Ctl_Ask, Ctl_Assess, Ctl_Attempts, Ctl_Loop, Ctl_Run:
    src/src/controller/orchestrator.mjs in the order of the code (helpers; asks and repair bindings;
    the judgement of an attempt; the worker and the SOL attempt; the loop; the start and the end of
    a run), with the acceptance gate of sol-transport.mjs and the pure functions of provider.mjs.
    Ctl_Triples, Ctl_Laws and Ctl_Run_Laws carry the invariant of the loop through every step and
    through the end of a run; Ctl_Ledger counts the started invocations, Ctl_Sol_Laws shows what an
    accepted SOL attempt leaves on record, Ctl_Verdicts spells out what an accepted attempt has observed.
  \<^item> Posix_Path: segments, normalization and containment of paths.  Git_Host, Git_State, Git_Checks:
    src/src/git/exec.mjs, base.mjs and state.mjs, src/src/config/runtime-path.mjs and
    src/src/validation/git, that is commands over an abstract host, the snapshots of a repository and
    their differences, and the checks of write scope, base and safety.  Patch_Evidence:
    src/src/evidence/patch, the record (its schema in Common_Schemas), the collector and the store.
    Worktree_Registry, Worktree_Ownership, Worktree: the modules of the same names in src/src/git,
    the registry of worktrees, the markers of ownership, creation and removal; pipeline.mjs is with
    the operations it composes.  Git_Laws, Evidence_Laws and Worktree_Laws prove what a passed check
    means, that evidence is never lost, the lifecycle of a worktree, from which state a removal was
    done and what was so in it, and that an inspection judges snapshots taken after the worker.
  \<^item> Audit_Time: src/src/audit/time.mjs, exact timestamps, against the Gregorian calendar and the
    order of the rational numbers.
  \<^item> Compat_Schemas, Compat_Handoff, Compat_Ledger:
    src/src/compat/v1 with src/schemas/compat, from the detection of version 1 evidence to its
    projection.  Compat_Laws proves which ledgers are accepted and determines every field of a projection from
    the events of its unit.
  \<^item> Project_Config: src/src/project/config.mjs, the normal form of a configuration, its guards and
    its loading, with the proofs that normalizing is idempotent and that the rest of the program
    accepts what it yields.
  \<^item> Lcim_Samples, Ledger_Samples, Sol_Samples, Ctl_Samples: concrete documents,
    ledgers, runs and responses for the witnesses.

  How they interact: \<open>decideRoute\<close> reads a contract that must be authoritative
  (\<open>isAuthoritative\<close>), the budget tracker, the STUCK criteria and the model discovery, and stamps
  a record that the schema engine validates; the controller records each model call through a
  session of the run store, whose appends go through the ledger's transition check and schema.
  A SOL ask is compiled against validated contracts, its response against the ask, and a diagnosed
  failure becomes a repair contract through the repair builder of the contract library.
  \<open>runController\<close> composes all of them: it compiles the contract of its unit, creates the run,
  and in each step of its loop asks \<open>decideRoute\<close> for the next decision, records the route, charges
  the budget, makes the worker or the SOL attempt through the run store, and learns from the
  assessed result what the next decision depends on.  Between these, a worker's worktree is created
  with a marker, a registry record and snapshots, inspected after the worker exits, its patch
  collected and stored as evidence, and removed only on the proof of ownership; the controller's
  model takes the verdicts of these operations, which the theories of git and worktrees define.

  State and operations: a record type per stateful component (\<open>budget\<close>, \<open>route_env\<close>,
  \<open>ledger\<close>, \<open>ledger_file\<close>, \<open>session\<close>, \<open>run_dir\<close>, \<open>store\<close>, and \<open>ctl\<close> for the variables of the
  controller), operations that return the changed state, a thrown error as \<open>Inl\<close> of the error
  class; an action of the controller that throws returns the state it leaves as well.  Interfaces
  are the locales \<open>guarded_machine\<close> (interpreted by the escalation machine, the invocation
  lifecycle and the lifecycle of a worktree), \<open>metered\<close> (interpreted by the budget tracker) and \<open>store_relation\<close>, a relation every
  write of the store keeps (interpreted by the growth of the files, by the count of started
  invocations, by the identity of the patch of an attempt, by the growth of the evidence, and by
  what an operation on git leaves as it is).

  What is a parameter: the hash \<open>sha\<close>, fresh ids, the clock, the credential file of the OAuth
  gate, the version of the program, the URL parser of the platform, the verdict of the sweep of the SOL transport, and what the
  attempt of each step observes: the records \<open>worker_obs\<close> and \<open>sol_obs\<close> hold what the provider
  process, git, the evidence collector, the validation copy and the credential scans report, one
  for each number of a step, and \<open>ctl_end\<close> what the end of a run observes.  Git and the file system
  are the functions of a \<open>host\<close> over a state of any type; the state of the git theories (\<open>world\<close>) keeps
  it beside the commands that were run, the registry and the evidence.  Nothing is assumed of them except where a theorem says so (no collision on the texts at hand, in the theorem on tamper evidence).

  What is simplified: a message of a semantic rule keeps its leading code, messages of the schema
  engine and the ledger are (but for some closing explanations) those of the code; own properties
  with the value \<open>undefined\<close> are absent; integers are unbounded, as the program checks no width;
  characters are code units below 256; a text compared with a number is read as a decimal number
  without exponent; a file of JSON lines is the list of its parsed lines with
  their lengths; failures of the operating system during a write are left out.  Loops are
  structural recursions, so no fuel is needed; the engine's recursion ends by the size of the
  schema, the loop of the controller is a recursion on the steps left of its eight
  (\<open>MAX_CONTROLLER_STEPS\<close>).  The clock is read once for each step of the controller, and of the errors
  the controller wraps the codes are kept.  The one exception is the reader of JSON texts, whose fuel is twice the length of the
  text and two more, one for each value and one for each element or member; the round trip shows it
  suffices for every printed value.

  Of the registry and the store of evidence, the program's own reads and writes are modelled: the lock of
  the registry makes an operation one step, a file of the store is keyed by its name, a directory is
  there when it is needed, and nobody else writes between the test for an artifact and its creation.

  Not modelled: the execution boundary, the process supervisor, the provider broker, the file
  system of the SOL transport and the validation copy (src/src/controller): processes and
  files, of which the controller's model takes the verdicts.  Of the controller, the snapshot of its
  options, the file with the raw output of a worker and the exclusive creation of files whose names
  are fresh ids; the handoff of a SOL decision to the Pro models (src/src/sol/pro-handoff), the
  texts rendered for people, the file the raw response is preserved in, the optional raw sink of a run, redaction, the reports of
  the audit, the explanations a version 1 detection gives, the setup of a new project and the command line.
\<close>

section \<open>The schema engine\<close>

text \<open>
  C20. The validator of src/src/shared/schema/validate.mjs reports no issue exactly when the value
  conforms to the schema, for every schema it accepts, as long as neither the schema's words nor
  the value's keys are names of \<open>Object.prototype\<close>.
\<close>

theorem schema_engine_meaning:
  assumes "validate_against_schema rx v s = Inr es" and "plain_words s" and "plain_keys v"
  shows "es = [] \<longleftrightarrow> conforms rx v s"
  using check_conforms_aux(1) [OF validate_supported [OF assms(1)] assms(2,3), of "[]"] assms(1)
  by (simp add: validate_eq_Inr)

lemma schema_engine_meaning_witness: "\<not> conforms lcim_regexps (JObj []) WORKER_RESULT_SCHEMA"
proof -
  have "case validate_against_schema lcim_regexps (JObj []) WORKER_RESULT_SCHEMA of
      Inl _ \<Rightarrow> False | Inr es \<Rightarrow> es \<noteq> []"
    by code_simp
  then obtain es where es: "validate_against_schema lcim_regexps (JObj []) WORKER_RESULT_SCHEMA = Inr es" "es \<noteq> []"
    by (auto split: sum.splits)
  have "plain_words WORKER_RESULT_SCHEMA"
    by code_simp
  then show ?thesis
    using schema_engine_meaning [OF es(1)] es(2) by simp
qed

text \<open>
  The engine is fail-closed: whenever it validates at all, every subschema of the schema, at any
  depth of properties and items, uses supported keywords only.
\<close>

lemma schema_engine_fail_closed:
  assumes "validate_against_schema rx v s = Inr es" and "subschema s t"
  shows "set (own_keys t) \<subseteq> set SUPPORTED_KEYWORDS"
  using supported_keywords [OF supported_subschema [OF assms(2) validate_supported [OF assms(1)]]] .

lemma schema_engine_fail_closed_witness:
  "set (own_keys (JObj [(''type'', JStr ''string'')])) \<subseteq> set SUPPORTED_KEYWORDS"
proof (rule schema_engine_fail_closed)
  let ?s = "JObj [(''properties'', JObj [(''a'', JObj [(''type'', JStr ''string'')])])]"
  show "validate_against_schema lcim_regexps (JObj []) ?s = Inr []"
    by code_simp
  show "subschema ?s (JObj [(''type'', JStr ''string'')])"
    by (rule subschema.property [where k = "''a''"]) (auto intro: subschema.whole)
qed

text \<open>
  The \<open>in\<close> operator makes both keywords blind to the names of \<open>Object.prototype\<close>: a closed
  schema without properties accepts an object with a property \<open>constructor\<close>, and a required
  property of that name may be missing.
\<close>

lemma schema_engine_inherited_names:
  "validate_against_schema rx (JObj [(''constructor'', v)])
     (JObj [(''type'', JStr ''object''), (''additionalProperties'', JBool False), (''properties'', JObj [])]) = Inr [] \<and>
    validate_against_schema rx (JObj []) (JObj [(''required'', JArr [JStr ''constructor''])]) = Inr [] \<and>
    \<not> conforms rx (JObj [(''constructor'', v)])
     (JObj [(''type'', JStr ''object''), (''additionalProperties'', JBool False), (''properties'', JObj [])]) \<and>
    \<not> conforms rx (JObj []) (JObj [(''required'', JArr [JStr ''constructor''])])"
proof (intro conjI)
  let ?closed = "JObj [(''type'', JStr ''object''), (''additionalProperties'', JBool False), (''properties'', JObj [])]"
  let ?req = "JObj [(''required'', JArr [JStr ''constructor''])]"
  have "assert_supported rx ?closed ''(root)'' = Inr ()" "assert_supported rx ?req ''(root)'' = Inr ()"
    by (simp_all add: assert_scalar_keywords_def assert_value_keywords_def SUPPORTED_KEYWORDS_def METADATA_KEYWORDS_def
        BOUND_KEYWORDS_def assert_type_keyword_def TYPE_NAMES_def)
  moreover have "check rx (JObj [(''constructor'', v)]) ?closed [] = []" "check rx (JObj []) ?req [] = []"
    by (simp_all add: check.simps type_admits_def check_const_def check_length_def check_additional_def
        known_property_def js_in_def inherited_names_def proto_methods_def)
  ultimately show "validate_against_schema rx (JObj [(''constructor'', v)]) ?closed = Inr []"
    "validate_against_schema rx (JObj []) ?req = Inr []"
    by (simp_all add: validate_against_schema_def)
  show "\<not> conforms rx (JObj [(''constructor'', v)]) ?closed" "\<not> conforms rx (JObj []) ?req"
    by (simp_all add: conforms.simps keys_admit_def)
qed

section \<open>Semantic contracts\<close>

text \<open>
  C21. \<open>validateSemanticContract\<close> finds no error exactly when the document satisfies the schema and
  is consistent: unique source keys and concept names, resolvable source references, transitions
  inside the declared lifecycle, exclusively owned field names, sound distinct pairs, the status
  its questions call for, content-bound side-effect identities and a recomputed digest.
\<close>

theorem contract_valid_iff:
  "(\<exists>ws. validateSemanticContract sha doc = Inr ([], ws)) \<longleftrightarrow>
     validate_against_schema lcim_regexps doc SEMANTIC_CONTRACT_SCHEMA = Inr [] \<and> contract_consistent sha doc"
proof -
  have "is_obj doc" if "validate_against_schema lcim_regexps doc SEMANTIC_CONTRACT_SCHEMA = Inr []"
    using accepts_type [OF validate_accepts [OF that], of "''object''"]
    by (simp add: SEMANTIC_CONTRACT_SCHEMA_def)
  then show ?thesis
    using validateSemanticContract_valid_iff by blast
qed

text \<open>
  C22. A contract that counts as authoritative has no open question of a high-risk class, carries
  the digest of its own content, and each of its side effects carries the identity derived from
  its own spec, no two the same.
\<close>

theorem authoritative_contract:
  assumes "isAuthoritative sha (Some sem)"
  shows "(\<forall>u \<in> set (items_of ''unresolvedSemantics'' sem). \<not> isHighRiskClass (own ''riskClass'' (Some u))) \<and>
    is_lit (fld ''semanticDigest'' sem) (computeSemanticDigest sha sem) \<and>
    distinct (map (fld ''sideEffectId'') (items_of ''negativeSideEffects'' sem)) \<and>
    (\<forall>s \<in> set (items_of ''negativeSideEffects'' sem).
           is_lit (fld ''sideEffectId'' s) (sideEffectIdForSpec sha s))"
proof (intro conjI)
  note src = authoritative_source [OF assms]
  have "computeCompileStatus (fld ''unresolvedSemantics'' sem) = ''COMPILED''"
    using assms src(5) by (simp add: isAuthoritative_iff contract_consistent_def)
  then show "\<forall>u \<in> set (items_of ''unresolvedSemantics'' sem). \<not> isHighRiskClass (own ''riskClass'' (Some u))"
    by (simp add: computeCompileStatus_iff)
  show "is_lit (fld ''semanticDigest'' sem) (computeSemanticDigest sha sem)" by (rule src(4))
  show "distinct (map (fld ''sideEffectId'') (items_of ''negativeSideEffects'' sem))" by (rule src(2))
  show "\<forall>s \<in> set (items_of ''negativeSideEffects'' sem). is_lit (fld ''sideEffectId'' s) (sideEffectIdForSpec sha s)"
    using src(1,5) by (simp add: contract_consistent_def side_effects_sound_def identified_def)
qed

lemma authoritative_contract_witness:
  "is_lit (fld ''semanticDigest'' sample_contract) (computeSemanticDigest sample_sha sample_contract)"
  using authoritative_contract [OF sample_authoritative, THEN conjunct2, THEN conjunct1] .

text \<open>
  The semantic digest depends on the authority-bearing content alone: documents with the same
  key and risk class whose collections hold the same items, up to the order of the items and of
  the properties inside them, have the same digest.
\<close>

lemma semantic_digest_content:
  assumes "fld ''contractKey'' d = fld ''contractKey'' d'" and "fld ''riskClass'' d = fld ''riskClass'' d'"
    and "\<And>f. f \<in> set SET_LIKE_ARRAYS \<Longrightarrow> mset (map canonicalSortKey (items_of f d)) = mset (map canonicalSortKey (items_of f d'))"
  shows "computeSemanticDigest sha d = computeSemanticDigest sha d'"
  using assms by (rule semantic_digest_cong)

lemma semantic_digest_content_witness:
  "computeSemanticDigest sample_sha (JObj [(''title'', JStr ''a''), (''factsEstablished'', JArr [JInt 1, JInt 2])])
     = computeSemanticDigest sample_sha (JObj [(''factsEstablished'', JArr [JInt 2, JInt 1])])"
  by (rule semantic_digest_content) (auto simp: SET_LIKE_ARRAYS_def)

text \<open>
  A compiled document without warnings is authoritative exactly when none of the questions the
  input leaves open is of a high-risk class; otherwise it is review-required.
\<close>

lemma compile_authority:
  assumes comp: "compileSemanticContract sha now opts input = Inr doc"
    and warn: "fld ''compileWarnings'' doc = None"
    and clean: "no_proto (compile_stamped sha (or_else (own ''compiledAt'' opts) (JStr now)) input)"
  shows "isAuthoritative sha (Some doc) \<longleftrightarrow>
    (\<forall>u \<in> set (arr_or_empty (own ''unresolvedSemantics'' input)). \<not> isHighRiskClass (own ''riskClass'' (Some u)))"
proof -
  obtain st ws where st: "st = compile_stamped sha (or_else (own ''compiledAt'' opts) (JStr now)) input"
    and valid: "validateSemanticContract sha st = Inr ([], ws)" and doc: "doc = deep_clone_json (with_warnings st ws)"
    using comp by (elim compile_result)
  have obj: "is_obj st" by (simp add: st compile_stamped_def Let_def)
  have "ws = []"
  proof (rule ccontr)
    assume "ws \<noteq> []"
    then have "fld ''compileWarnings'' (with_warnings st ws) = Some (JArr ws)"
      by (simp add: with_warnings_def st compile_stamped_def compile_draft_def Let_def)
    then show False using warn by (simp add: doc deep_clone_own)
  qed
  then have same: "doc = st"
    using clean by (simp add: doc with_warnings_Nil [OF obj] st [symmetric] deep_clone_id)
  have "is_lit (fld ''compileStatus'' doc) (computeCompileStatus (own ''unresolvedSemantics'' input))"
    by (rule compile_status [OF comp])
  then have "isAuthoritative sha (Some doc) \<longleftrightarrow> computeCompileStatus (own ''unresolvedSemantics'' input) = ''COMPILED''"
    unfolding isAuthoritative_iff using valid obj by (auto simp: same)
  then show ?thesis
    by (simp add: computeCompileStatus_iff)
qed

lemma compile_authority_witness: "isAuthoritative sample_sha (Some sample_contract)"
proof -
  have "no_proto (compile_stamped sample_sha (or_else (own ''compiledAt'' None) (JStr sample_time)) (Some sample_input))"
    by (simp add: or_else_def sample_compiled sample_clean)
  moreover have "fld ''compileWarnings'' sample_contract = None"
    by (simp add: sample_contract_def)
  ultimately show ?thesis
    using compile_authority [OF sample_compile] by (simp add: sample_input_def)
qed

section \<open>Repair contracts\<close>

text \<open>
  \<open>validateAcceptanceContract\<close> accepts a repair document together with its source exactly when
  the document satisfies the schema and its own rules, the source is authoritative, and the
  document is bound to that source: same key and digest, rejected references that resolve, changes
  inside the rejected scopes, exactly carried side effects with one test each, and frozen
  semantics carried verbatim.
\<close>

lemma acceptance_valid_iff:
  "is_obj doc \<and> (\<exists>ws. validateAcceptanceContract sha doc (Some sem) = Inr ([], ws)) \<longleftrightarrow>
     is_obj doc \<and> validate_against_schema lcim_regexps doc ACCEPTANCE_CONTRACT_SCHEMA = Inr [] \<and>
     acceptance_sound doc \<and> isAuthoritative sha (Some sem) \<and>
     repair_bound sha doc sem (items_of ''negativeSideEffects'' sem)"
proof (cases "is_obj doc")
  case True
  have "applyAcceptanceRules sha doc (Some sem) = Inr [] \<longleftrightarrow>
      acceptance_sound doc \<and> isAuthoritative sha (Some sem) \<and>
      repair_bound sha doc sem (items_of ''negativeSideEffects'' sem)"
    unfolding applyAcceptanceRules_iff using authoritative_source(3) isAuthoritative_obj by fastforce
  then show ?thesis
    using True validateAcceptanceContract_valid_iff [OF True, of sha sem] by auto
qed simp

text \<open>
  C23. A repair contract that is returned changes only what it may.  The source it was built from is
  authoritative, and the returned document carries its key, its digest and its side effects; its
  rejected references are those of the request, each of which is a side effect of the source; and
  every change of the returned document targets the scope of a rejected side effect.
\<close>

theorem repair_scope_bounded:
  assumes "buildRepairContract sha fresh now input = Inr d"
  shows "\<exists>sem refs. own ''semanticContract'' input = Some sem \<and> isAuthoritative sha (Some sem) \<and>
    own ''rejectedAcceptanceRefs'' input = Some (JArr refs) \<and> fld ''rejectedAcceptanceRefs'' d = Some (JArr refs) \<and>
    fld ''contractKey'' d = fld ''contractKey'' sem \<and> fld ''sourceSemanticDigest'' d = fld ''semanticDigest'' sem \<and>
    items_of ''negativeSideEffects'' d = map deep_clone_json (items_of ''negativeSideEffects'' sem) \<and>
    items_of ''mustChange'' d = map deep_clone_json (arr_or_empty (own ''mustChange'' input)) \<and>
    (\<forall>r \<in> set refs. source_by_id (items_of ''negativeSideEffects'' sem) (Some r) \<noteq> None) \<and>
    (\<forall>m \<in> set (items_of ''mustChange'' d). \<exists>r \<in> set refs. \<exists>s.
       source_by_id (items_of ''negativeSideEffects'' sem) (Some r) = Some s \<and> fld ''target'' m = fld ''scope'' s)"
  using assms by (elim returned_repair) blast

lemma repair_scope_bounded_witness:
  "\<exists>d. buildRepairContract sample_sha sample_repair_id (JStr sample_time) (Some sample_repair_input) = Inr d \<and>
     list_all (\<lambda>m. fld ''target'' m = fld ''scope'' sample_stamped_effect) (items_of ''mustChange'' d)"
proof -
  have "own ''semanticContract'' (Some sample_repair_input) = Some sample_contract"
    by (simp add: sample_repair_input_def)
  with repair_scope_bounded [OF sample_built] have
    "\<forall>m \<in> set (items_of ''mustChange'' (deep_clone_json sample_repair)). \<exists>r s.
       source_by_id [sample_stamped_effect] (Some r) = Some s \<and> fld ''target'' m = fld ''scope'' s"
    unfolding sample_source [symmetric] by fastforce
  then have "list_all (\<lambda>m. fld ''target'' m = fld ''scope'' sample_stamped_effect)
      (items_of ''mustChange'' (deep_clone_json sample_repair))"
    unfolding list_all_iff by (auto dest!: source_by_id_Some)
  with sample_built show ?thesis by blast
qed

section \<open>The escalation machine\<close>

text \<open>
  Terminal states absorb: once a run of events of the escalation machine has reached a terminal
  state, no further event is accepted.
\<close>

lemma escalation_terminal_absorbs:
  assumes "escalation.run s es = Some t" and "isTerminalState t" and "escalation.run s (es @ fs) = Some u"
  shows "fs = [] \<and> u = t"
  using assms by (rule escalation.final_absorbs)

lemma escalation_terminal_absorbs_witness: "escalation.run ''ROUTING_READY'' ([''STUCK''] @ [''TASK_READY'']) = None"
proof (rule ccontr)
  have "escalation.run ''ROUTING_READY'' [''STUCK''] = Some ''STOPPED_STUCK''"
    by (simp add: machine_step_def nextState_def TRANSITIONS_def)
  moreover have "isTerminalState ''STOPPED_STUCK''"
    by (simp add: isTerminalState_def TERMINAL_STATES_def)
  moreover assume "escalation.run ''ROUTING_READY'' ([''STUCK''] @ [''TASK_READY'']) \<noteq> None"
  then obtain u where "escalation.run ''ROUTING_READY'' ([''STUCK''] @ [''TASK_READY'']) = Some u" by blast
  ultimately show False
    using escalation_terminal_absorbs by fastforce
qed

text \<open>
  Hard stops are never refused by the table: in every state that is not terminal, the STUCK,
  budget, capability and provider events lead to their stop states.
\<close>

lemma escalation_stop_defined:
  assumes "s \<in> set ESCALATION_STATE" and "\<not> isTerminalState s"
  shows "nextState s ''STUCK'' = Inr ''STOPPED_STUCK'' \<and>
    nextState s ''BUDGET_EXHAUSTED'' = Inr ''STOPPED_BUDGET'' \<and>
    nextState s ''CAPABILITY_GAP'' = Inr ''FAILED_NO_SUBSTITUTE'' \<and>
    nextState s ''PROVIDER_UNAVAILABLE'' = Inr ''FAILED_NO_SUBSTITUTE''"
  using assms by (intro conjI stop_always_defined)

lemma escalation_stop_defined_witness: "nextState ''AWAITING_REPAIR'' ''STUCK'' = Inr ''STOPPED_STUCK''"
  by (rule escalation_stop_defined [THEN conjunct1]) (simp_all add: ESCALATION_STATE_def isTerminalState_def TERMINAL_STATES_def)

text \<open>
  One repair at a time: the machine never enters \<open>AWAITING_REPAIR\<close> from itself, and it enters
  \<open>UNIT_COMPLETE\<close> only on an accepted result or, out of a SOL review state, on a passed review.
\<close>

lemma escalation_bounded_repair:
  assumes "nextState s e = Inr t"
  shows "(t = ''AWAITING_REPAIR'' \<longrightarrow> s \<noteq> ''AWAITING_REPAIR'') \<and>
    (t = ''UNIT_COMPLETE'' \<longrightarrow> e = ''RESULT_ACCEPTED'' \<or>
      e = ''SOL_REVIEW_PASSED'' \<and> s \<in> {''AWAITING_SOL_FINAL_REVIEW'', ''AWAITING_SOL_RECHECK''})"
  using nextState_targets(1,5,6) [OF assms] by auto

lemma escalation_bounded_repair_witness:
  "nextState ''AWAITING_SOL_RECHECK'' ''SOL_REVIEW_PASSED'' = Inr ''UNIT_COMPLETE'' \<and>
   ''AWAITING_SOL_RECHECK'' \<in> {''AWAITING_SOL_FINAL_REVIEW'', ''AWAITING_SOL_RECHECK''}"
proof -
  have "nextState ''AWAITING_SOL_RECHECK'' ''SOL_REVIEW_PASSED'' = Inr ''UNIT_COMPLETE''"
    by (simp add: nextState_def TRANSITIONS_def)
  with escalation_bounded_repair [OF this] show ?thesis
    by simp
qed

section \<open>Budgets\<close>

text \<open>
  C24. A run-wide budget is never overrun, however often the unit counter is reset: after any
  sequence of operations on a fresh tracker, the run counter is the number of calls granted, and
  it is at most the limit.
\<close>

theorem budget_never_overrun:
  assumes "createBudgetTracker unit_limit run_limit = Inr b"
  shows "runCallsConsumed (run_meter.drive b ops) = granted b ops \<and>
    granted b ops \<le> runCalls b"
proof (intro conjI)
  have ok: "runCallsConsumed b = 0" "budget_ok b"
    using createBudgetTracker_ok [OF assms] by auto
  then show "runCallsConsumed (run_meter.drive b ops) = granted b ops"
    using granted_counts [of b ops] by simp
  then show "granted b ops \<le> runCalls b"
    using run_meter.never_overrun [of b ops] ok by (simp add: budget_ok_def)
qed

lemma budget_never_overrun_witness:
  "granted \<lparr>unitCalls = 1, runCalls = 2, unitCallsConsumed = 0, runCallsConsumed = 0\<rparr>
     [Consume, ResetUnit, Consume, ResetUnit, Consume] \<le> 2"
proof -
  have "createBudgetTracker (Some (JInt 1)) (Some (JInt 2))
      = Inr \<lparr>unitCalls = 1, runCalls = 2, unitCallsConsumed = 0, runCallsConsumed = 0\<rparr>"
    by (simp add: createBudgetTracker_def safe_natural_def)
  from budget_never_overrun [OF this, of "[Consume, ResetUnit, Consume, ResetUnit, Consume]", THEN conjunct2]
  show ?thesis by (simp del: granted.simps)
qed

section \<open>Routing decisions\<close>

text \<open>
  C25. Every decision \<open>decideRoute\<close> returns is a valid 2.1.0 record that obeys the law of its
  decision and carries the state it was taken in, a budget snapshot and the next state the
  machine assigns; completion, STUCK, budget and no-substitute decisions are exactly those whose
  next state is the terminal state of that name.
\<close>

theorem decision_valid:
  assumes "decideRoute env ctx = Inr r"
  shows "validateRouteDecision r = Inr [] \<and>
    route_lawful r \<and>
    is_lit (own ''state'' (Some r)) (ctx_state ctx) \<and>
    (\<exists>ev nx. ev \<in> set ESCALATION_EVENT \<and> nextState (ctx_state ctx) ev = Inr nx \<and>
           is_lit (own ''nextState'' (Some r)) nx) \<and>
    (is_lit (decision_of r) ''ROUTE_COMPLETE'' \<longleftrightarrow> is_lit (own ''nextState'' (Some r)) ''UNIT_COMPLETE'') \<and>
    (is_lit (decision_of r) ''STOP_STUCK'' \<longleftrightarrow> is_lit (own ''nextState'' (Some r)) ''STOPPED_STUCK'') \<and>
    (is_lit (decision_of r) ''STOP_BUDGET'' \<longleftrightarrow> is_lit (own ''nextState'' (Some r)) ''STOPPED_BUDGET'')"
  using decideRoute_valid [OF assms] decideRoute_transition [OF assms] by blast+

lemma decision_valid_witness: "\<exists>r. decideRoute (sample_env 0) stuck_ctx = Inr r \<and> route_lawful r"
  using sample_stuck decision_valid [THEN conjunct2, THEN conjunct1] by blast

text \<open>
  An exhausted budget stops the unit: whatever else the context says, the decision is
  STOP_BUDGET and never a dispatch.
\<close>

lemma exhausted_budget_stops:
  assumes "decideRoute env ctx = Inr r" and "isExhausted (the (env_budget env))"
  shows "is_lit (decision_of r) ''STOP_BUDGET''"
  using decideRoute_exhausted [OF assms(1)] assms(2) by (simp add: isExhausted_def)

lemma exhausted_budget_stops_witness:
  "\<exists>r. decideRoute (sample_env 3) (sample_ctx ''ROUTING_READY'' []) = Inr r \<and> is_lit (decision_of r) ''STOP_BUDGET''"
proof -
  have "isExhausted (the (env_budget (sample_env 3)))"
    by (simp add: isExhausted_def available_def sample_env_def)
  with sample_exhausted show ?thesis
    using exhausted_budget_stops by blast
qed

text \<open>
  Unresolved high-risk semantics never reach an implementer: with budget left and a contract
  (or controller fact) that requires review, the decision is the SOL contract check or a
  no-substitute failure.
\<close>

lemma review_required_never_implements:
  assumes "decideRoute env ctx = Inr r" and "\<not> isExhausted (the (env_budget env))"
    and "resolveContractFacts env ctx = Inr facts" and "f_reviewRequired facts"
  shows "one_of [''ROUTE_SOL_CONTRACT_CHECK'', ''FAIL_NO_SUBSTITUTE''] (decision_of r)"
  using decideRoute_review_required [OF assms(1) _ assms(3,4)] assms(2) by (auto simp: isExhausted_def)

lemma review_required_never_implements_witness:
  "\<exists>r. decideRoute (sample_env 0) review_ctx = Inr r \<and>
     one_of [''ROUTE_SOL_CONTRACT_CHECK'', ''FAIL_NO_SUBSTITUTE''] (decision_of r)"
proof -
  have "\<not> isExhausted (the (env_budget (sample_env 0)))"
    by (simp add: isExhausted_def available_def sample_env_def)
  moreover have "resolveContractFacts (sample_env 0) review_ctx
      = Inr \<lparr>f_contract = None, f_reviewRequired = True, f_highRisk = False\<rparr>"
    by (simp add: resolveContractFacts_def review_ctx_def sample_ctx_def Let_def)
  ultimately show ?thesis
    using sample_review review_required_never_implements by fastforce
qed

text \<open>
  STUCK is a hard stop: once a criterion fires on a reviewed unit with budget left, no accepted
  result and no escalation request bypasses it; the decision is STOP_STUCK with the first code.
\<close>

lemma stuck_stops:
  assumes "decideRoute env ctx = Inr r" and "\<not> isExhausted (the (env_budget env))"
    and "resolveContractFacts env ctx = Inr facts" and "\<not> f_reviewRequired facts"
    and "evaluateStuckCriteria (Some ctx) \<noteq> []"
  shows "is_lit (decision_of r) ''STOP_STUCK'' \<and>
    is_lit (own ''reasonCode'' (Some r)) (hd (evaluateStuckCriteria (Some ctx)))"
  using decideRoute_stuck [OF assms(1) _ assms(3-5)] assms(2) by (auto simp: isExhausted_def)

lemma stuck_stops_witness: "\<exists>r. decideRoute (sample_env 0) stuck_ctx = Inr r \<and> is_lit (decision_of r) ''STOP_STUCK''"
proof -
  have "\<not> isExhausted (the (env_budget (sample_env 0)))"
    by (simp add: isExhausted_def available_def sample_env_def)
  moreover have "resolveContractFacts (sample_env 0) stuck_ctx
      = Inr \<lparr>f_contract = None, f_reviewRequired = False, f_highRisk = False\<rparr>"
    by (simp add: resolveContractFacts_def stuck_ctx_def sample_ctx_def Let_def)
  moreover have "evaluateStuckCriteria (Some stuck_ctx) \<noteq> []"
    by code_simp
  ultimately show ?thesis
    using sample_stuck stuck_stops [THEN conjunct1] by fastforce
qed

text \<open>
  C26. Mandatory final review: a unit whose validated contract is of a high-risk class completes
  only out of a SOL review state, on a PASSED verdict, with no open finding, and either in the
  final review itself or after a recheck of findings that a final review produced.
\<close>

theorem high_risk_completion:
  assumes "decideRoute env ctx = Inr r" and "is_lit (decision_of r) ''ROUTE_COMPLETE''"
    and "resolveContractFacts env ctx = Inr facts" and "f_highRisk facts"
  shows "ctx_state ctx \<in> set SOL_REVIEW_STATES \<and>
    is_lit (own ''verdict'' (ctx_get ''solReview'' ctx)) ''PASSED'' \<and>
    openAuthoritativeFindings ctx = [] \<and>
    (ctx_state ctx = ''AWAITING_SOL_FINAL_REVIEW'' \<or>
      recheckHasFinalReviewProvenance ctx (ctx_get ''solReview'' ctx))"
  by (intro conjI decideRoute_complete [OF assms])

lemma high_risk_completion_witness:
  "\<exists>r. decideRoute (sample_env 0) complete_ctx = Inr r \<and> is_lit (decision_of r) ''ROUTE_COMPLETE'' \<and>
     openAuthoritativeFindings complete_ctx = []"
  using sample_complete sample_complete_facts high_risk_completion [THEN conjunct2, THEN conjunct2, THEN conjunct1] by fastforce

text \<open>
  C27. The SOL gate: a SOL decision is taken only when no local command is configured, the classic
  channel is not configured and Pi's store holds a usable credential, and it targets exactly
  gpt-5.6-sol through Pi at XHIGH.
\<close>

theorem sol_decision_gate:
  assumes "decideRoute env ctx = Inr r" and "one_of SOL_DECISIONS (decision_of r)"
  shows "nullish (sol_command ctx) \<and>
    \<not> configuredEndpoint (ctx_config ctx) CLASSIC_SOL_MODEL \<and>
    (\<exists>st. assertCodexOAuthAvailable (env_oauth env) (ctx_get ''environment'' ctx) = Inr st) \<and>
    is_lit (own ''targetModel'' (Some r)) ''gpt-5.6-sol'' \<and>
    is_lit (own ''targetProvider'' (Some r)) ''pi'' \<and>
    is_lit (own ''reasoningLevel'' (Some r)) ''XHIGH''"
  by (intro conjI decideRoute_sol_gate [OF assms])

lemma sol_decision_gate_witness:
  "\<exists>r. decideRoute (sample_env 0) diagnose_ctx = Inr r \<and> is_lit (own ''targetModel'' (Some r)) ''gpt-5.6-sol''"
  using sample_diagnose sol_decision_gate [THEN conjunct2, THEN conjunct2, THEN conjunct2, THEN conjunct1] by (fastforce simp: SOL_DECISIONS_def)

text \<open>
  Pro MAX is escalation-only: a Pro MAX decision answers an explicit request for it that names
  one of the three locked bases and a detail, and the record carries that justification.
\<close>

lemma pro_max_justified:
  assumes "decideRoute env ctx = Inr r" and "is_lit (decision_of r) ''ROUTE_IMPLEMENT_PRO_MAX''"
  shows "is_lit (own ''model'' (ctx_get ''escalation'' ctx)) ''deepseek-pro-max'' \<and>
    one_of PRO_MAX_BASES (own ''basis'' (ctx_get ''escalation'' ctx)) \<and>
    nonempty_string (own ''detail'' (ctx_get ''escalation'' ctx)) \<and>
    own ''escalationJustification'' (Some r)
      = Some (JObj [(''basis'', the (own ''basis'' (ctx_get ''escalation'' ctx))),
                    (''detail'', the (own ''detail'' (ctx_get ''escalation'' ctx)))])"
  by (intro conjI decideRoute_pro_max [OF assms])

lemma pro_max_justified_witness:
  "\<exists>r. decideRoute (sample_env 0) pro_ctx = Inr r \<and> one_of PRO_MAX_BASES (own ''basis'' (ctx_get ''escalation'' pro_ctx))"
  using sample_pro pro_max_justified [THEN conjunct2, THEN conjunct1] by blast

section \<open>The ledger\<close>

text \<open>
  C28. The ledger's canonical JSON is faithful: two JSON values get the same canonical text exactly
  when they are deeply equal, so nothing of an event escapes its digest and the order of
  properties never matters.
\<close>

theorem canonical_text_faithful:
  assumes "data_json a" and "data_json b"
  shows "canonical_json a = canonical_json b \<longleftrightarrow> deep_equal a b"
  using assms by (rule canonical_json_eq_iff)

lemma canonical_text_faithful_witness:
  "canonical_json (JObj [(''a'', JInt 1)]) \<noteq> canonical_json (JObj [(''a'', JStr ''1'')])"
  using canonical_text_faithful [of "JObj [(''a'', JInt 1)]" "JObj [(''a'', JStr ''1'')]"] by simp

text \<open>
  C29. The bookkeeping of \<open>buildInvocationStates\<close> refines the lifecycle machine: when it reports no
  error, the events of every invocation, taken alone and in order, are a run of that machine, and
  the recorded status is the state the run ends in.
\<close>

theorem lifecycle_refined:
  assumes "buildInvocationStates evs = Inr (S, [])"
  shows "invocation.run None (List.map_filter (lifecycle_of (Some (JStr i))) evs)
    = Some (status_of S (Some (JStr i)))"
  using lifecycle_refines_from [of "Some (JStr i)" "[]" "[]" evs S] assms
  by (simp add: buildInvocationStates_def status_of_def)

lemma lifecycle_refined_witness:
  "\<exists>S. buildInvocationStates [start_event, completion_event, assessment_event] = Inr (S, []) \<and>
     status_of S (Some (JStr sample_inv_id)) = Some ASSESSED"
proof -
  obtain S where S: "buildInvocationStates [start_event, completion_event, assessment_event] = Inr (S, [])"
    by (simp add: buildInvocationStates_def checkTransition_def transition_problem_def apply_to_def applyEvent_def
        Let_def start_event_def completion_event_def assessment_event_def)
  have "List.map_filter (lifecycle_of (Some (JStr sample_inv_id))) [start_event, completion_event, assessment_event]
      = [(START, False), (COMPLETION, False), (ASSESSMENT, False)]"
    by (simp add: List.map_filter_simps lifecycle_of_def start_event_def completion_event_def assessment_event_def)
  with lifecycle_refined [OF S, of sample_inv_id] S show ?thesis
    by auto
qed

text \<open>
  The summary of a ledger balances, whatever its events are: every known invocation has one
  START, and every START is matched by an assessment, by a reconciliation, or by an id in the list
  of incomplete invocations; there are no more assessments than completions, nor completions than
  starts.
\<close>

lemma ledger_balance:
  assumes "summarizeLedger evs = Inr sm"
  shows "sum_starts sm = sum_invocations sm \<and>
    sum_starts sm = sum_assessments sm + sum_reconciliations sm + length (sum_incompleteInvocationIds sm) \<and>
    sum_assessments sm \<le> sum_completions sm \<and>
    sum_completions sm \<le> sum_starts sm"
proof (intro conjI)
  obtain S errs where S: "buildInvocationStates evs = Inr (S, errs)" "sm = summary_of S evs"
    using assms by (auto simp: summarizeLedger_def)
  have "\<forall>e \<in> set S. state_ok (snd e)"
    using states_ok [OF S(1)] by blast
  from summary_balance [OF this] S(2)
  show "sum_starts sm = sum_invocations sm"
    and "sum_starts sm = sum_assessments sm + sum_reconciliations sm + length (sum_incompleteInvocationIds sm)"
    and "sum_assessments sm \<le> sum_completions sm" and "sum_completions sm \<le> sum_starts sm"
    by (simp_all add: summary_of_def)
qed

lemma ledger_balance_witness: "\<exists>sm. summarizeLedger [start_event] = Inr sm \<and> sum_starts sm = sum_invocations sm"
proof -
  obtain S where "buildInvocationStates [start_event] = Inr (S, [])"
    using start_states by blast
  then have "summarizeLedger [start_event] = Inr (summary_of S [start_event])"
    by (simp add: summarizeLedger_def)
  then show ?thesis
    using ledger_balance [THEN conjunct1] by blast
qed

text \<open>
  What a ledger without issues looks like: the events are numbered 1, 2, ... in order, each
  carries the digest of its own canonical text and the digest of the event before it, the first
  one the genesis digest; the summary's anchor is the number of events and the last digest.
\<close>

lemma valid_ledger_chain:
  assumes "validateLedger sha evs = Inr r" and "lr_valid r" and "n < length evs"
  shows "own ''seq'' (Some (evs ! n)) = Some (JInt (int (Suc n))) \<and>
    own ''digest'' (Some (evs ! n)) = Some (JStr (sha (event_text (evs ! n)))) \<and>
    own ''prevDigest'' (Some (evs ! n)) =
      Some (JStr (if n = 0 then LEDGER_GENESIS_DIGEST else sha (event_text (evs ! (n - 1))))) \<and>
    sum_lastSeq (lr_summary r) = Some (JInt (int (length evs))) \<and>
    sum_ledgerDigest (lr_summary r) = Some (JStr (sha (event_text (last evs))))"
proof (intro conjI)
  have v: "chained sha 0 genesis evs" "lr_summary r = summary_of (lr_states r) evs"
    using validateLedger_report [OF assms(1,2)] by (simp_all add: valid_ledger_def)
  show "own ''seq'' (Some (evs ! n)) = Some (JInt (int (Suc n)))"
    using chained_seq [OF v(1) assms(3)] by simp
  show "own ''digest'' (Some (evs ! n)) = Some (JStr (sha (event_text (evs ! n))))"
    by (rule chained_digest [OF v(1) assms(3)])
  show "own ''prevDigest'' (Some (evs ! n)) =
      Some (JStr (if n = 0 then LEDGER_GENESIS_DIGEST else sha (event_text (evs ! (n - 1)))))"
    using chained_prev [OF v(1) assms(3)] chained_digest [OF v(1), of "n - 1"] assms(3)
    by (cases n) (auto simp: end_digest_def genesis_def take_Suc_conv_app_nth)
  show "sum_lastSeq (lr_summary r) = Some (JInt (int (length evs)))"
    by (simp add: v(2) summary_of_def chained_last(1) [OF v(1)])
  show "sum_ledgerDigest (lr_summary r) = Some (JStr (sha (event_text (last evs))))"
    using chained_last(2) [OF v(1)] chained_digest [OF v(1), of "length evs - 1"] assms(3)
    by (auto simp: v(2) summary_of_def end_digest_def last_conv_nth)
qed

lemma valid_ledger_chain_witness:
  "\<exists>r. validateLedger sample_sha [start_event] = Inr r \<and> sum_lastSeq (lr_summary r) = Some (JInt 1)"
proof -
  obtain S where "valid_ledger sample_sha [start_event] S"
    using start_ledger start_states by (auto simp: valid_ledger_def)
  then obtain r where "validateLedger sample_sha [start_event] = Inr r" "lr_valid r"
    using validateLedger_valid_iff by blast
  then show ?thesis
    using valid_ledger_chain [of sample_sha "[start_event]" r 0] by auto
qed

text \<open>
  C30. Appending keeps the writer's invariant and the history: from a writer whose events are a valid
  ledger, an append that throws leaves the file alone, and one that returns an event adds exactly
  that event to the events in memory and one line to the file; either way the events in memory are
  a valid ledger again.
\<close>

theorem append_keeps_ledger:
  assumes "ledger_ok sha L" and "appendEventLocked sha now given f L = (r, L', f')"
  shows "ledger_ok sha L' \<and>
    (case r of Inl e \<Rightarrow> f' = f
      | Inr ev \<Rightarrow> f' = appendLineSync f ev \<and>
          (lg_events L' = lg_events L @ [ev] \<or> lg_events L' = fst (readJsonlFile f) @ [ev]))"
proof (intro conjI)
  show "ledger_ok sha L'"
    using append_cases [OF assms] by metis
  show "case r of Inl e \<Rightarrow> f' = f
      | Inr ev \<Rightarrow> f' = appendLineSync f ev \<and>
          (lg_events L' = lg_events L @ [ev] \<or> lg_events L' = fst (readJsonlFile f) @ [ev])"
    using assms
  proof (cases rule: append_cases)
    case (failed e)
    then show ?thesis by simp
  next
    case (appended ev L1)
    then show ?thesis
      using sync_ok(4) [OF assms(1) appended(2)] by auto
  qed
qed

lemma append_keeps_ledger_witness:
  "\<exists>L'. appendEventLocked sample_sha sample_time start_fields empty_file empty_ledger
      = (Inr start_event, L', appendLineSync empty_file start_event) \<and> ledger_ok sample_sha L'"
  using sample_append append_keeps_ledger [OF empty_ledger_ok, THEN conjunct1] by blast

text \<open>
  C31. Tamper evidence: two valid ledgers of JSON data that end with the same sequence number and the
  same digest have, event by event, deeply equal content, unless the hash collides on two of
  their canonical texts.
\<close>

theorem ledger_tamper_evident:
  assumes "validateLedger sha evs = Inr r" and "lr_valid r"
    and "validateLedger sha fs = Inr q" and "lr_valid q"
    and "sum_lastSeq (lr_summary r) = sum_lastSeq (lr_summary q)"
    and "sum_ledgerDigest (lr_summary r) = sum_ledgerDigest (lr_summary q)"
    and "list_all data_json evs" and "list_all data_json fs"
    and "inj_on sha (event_text ` (set evs \<union> set fs))"
  shows "list_all2 deep_equal evs fs"
proof -
  note v = validateLedger_report [OF assms(1,2), unfolded valid_ledger_def]
    and w = validateLedger_report [OF assms(3,4), unfolded valid_ledger_def]
  show ?thesis
    using v w assms(5-9) chained_last(1,2) [of sha evs] chained_last(1,2) [of sha fs]
    by (intro ledger_end_determines [of sha]) (simp_all add: summary_of_def)
qed

lemma ledger_tamper_evident_witness: "list_all2 deep_equal [start_event] [start_event_rotated]"
proof -
  obtain S where "valid_ledger sample_sha [start_event] S"
    using start_ledger start_states by (auto simp: valid_ledger_def)
  then obtain r where r: "validateLedger sample_sha [start_event] = Inr r" "lr_valid r"
    using validateLedger_valid_iff by blast
  have "\<exists>T. buildInvocationStates [start_event_rotated] = Inr (T, [])"
    by (simp add: buildInvocationStates_def checkTransition_def transition_problem_def start_event_rotated_def
        start_event_def)
  then obtain T where "valid_ledger sample_sha [start_event_rotated] T"
    using rotated_ledger by (auto simp: valid_ledger_def)
  then obtain q where q: "validateLedger sample_sha [start_event_rotated] = Inr q" "lr_valid q"
    using validateLedger_valid_iff by blast
  have data: "data_json start_event" "data_json start_event_rotated"
    by (simp_all add: start_event_def start_event_rotated_def)
  have "deep_equal (JObj (without ''digest'' (spread (Some start_event))))
      (JObj (without ''digest'' (spread (Some start_event_rotated))))"
    by (simp add: start_event_def start_event_rotated_def without_def)
  then have "event_text start_event = event_text start_event_rotated"
    unfolding event_text_def
    by (rule canonical_json_deep_equal) (simp_all add: start_event_def start_event_rotated_def without_def)
  then have inj: "inj_on sample_sha (event_text ` (set [start_event] \<union> set [start_event_rotated]))"
    by simp
  have "sum_lastSeq (lr_summary r) = sum_lastSeq (lr_summary q)"
      "sum_ledgerDigest (lr_summary r) = sum_ledgerDigest (lr_summary q)"
    using validateLedger_report [OF r] validateLedger_report [OF q]
    by (simp_all add: summary_of_def last_seq_def last_digest_def last_event_def start_event_def start_event_rotated_def)
  with r q data inj show ?thesis
    by (intro ledger_tamper_evident [of sample_sha "[start_event]" r "[start_event_rotated]" q]) simp_all
qed

section \<open>The run store\<close>

text \<open>
  C32. A finalized run is frozen up to the refreshes that are due: whatever the sessions of the run
  do next, also sessions of other processes that remember it as open, the record of the run and the
  ledger file stay as they are, and a record of an invocation changes only where a session that has
  appended its event before the finalization still has to refresh it, to what that session
  remembers of the invocation.  With no such refresh due, no file of the model changes.  The raw
  sink, which is no part of the model, is written without any check of the lifecycle.
\<close>

theorem finalized_run_frozen:
  assumes "sys_sessions c k = Some s" and "finalize sha clean now s (sys_dir c) = (Inr rec, s', d')"
    and "(run_step sha)\<^sup>*\<^sup>* (resumed k s' d' c) c'"
  shows "rd_run (sys_dir c') = Parsed rec \<and> rd_ledger (sys_dir c') = rd_ledger (sys_dir c) \<and>
    (\<forall>i. record_file i (sys_dir c') = record_file i (sys_dir c) \<or>
       (\<exists>j t r. (j, i) \<in> set (sys_due c) \<and> sys_sessions c j = Some t \<and> invocation_record i t = Inr r \<and>
          record_file i (sys_dir c') = Some (Parsed r))) \<and>
    (sys_due c = [] \<longrightarrow> sys_dir c' = (sys_dir c)\<lparr>rd_run := Parsed rec\<rparr>)"
proof -
  have d': "d' = (sys_dir c)\<lparr>rd_run := Parsed rec\<rparr>"
    using assms(2) by (auto elim: finalize_Inr)
  have mem: "invocation_record i s' = invocation_record i s" for i
    using assms(2) by (auto simp: finalize_def invocation_record_def split: sum.splits prod.splits option.splits)
  have "only_due (resumed k s' d' c) c'"
    using closed_steps [OF assms(3)] closed_after_finalize [OF assms(2)] by simp
  then show ?thesis
    using assms(1) by (auto simp: only_due_def d' record_file_def mem split: if_splits)
qed

lemma finalized_run_frozen_witness:
  "\<exists>s' c'. finalize sample_sha True sample_time sample_session (sys_dir sample_system)
      = (Inr final_record, s', sample_dir\<lparr>rd_run := Parsed final_record\<rparr>) \<and>
    run_step sample_sha (resumed 0 s' (sample_dir\<lparr>rd_run := Parsed final_record\<rparr>) sample_system) c' \<and>
    sys_dir c' = sample_dir\<lparr>rd_run := Parsed final_record\<rparr>"
proof -
  let ?d = "sample_dir\<lparr>rd_run := Parsed final_record\<rparr>"
  have sys: "sys_dir sample_system = sample_dir" "sys_sessions sample_system 0 = Some sample_session"
      "sys_sessions sample_system 1 = Some sample_session" "sys_due sample_system = []"
    by (simp_all add: sample_system_def)
  obtain s' where fin: "finalize sample_sha True sample_time sample_session (sys_dir sample_system) = (Inr final_record, s', ?d)"
    using sample_finalize sys(1) by auto
  let ?c = "resumed 0 s' ?d sample_system"
  obtain r t d2 where ab: "abort True sample_time None sample_session (sys_dir ?c) = (r, t, d2)"
    by (metis prod_cases3)
  have "run_step sample_sha ?c (resumed 1 t d2 ?c)"
    using sys(3) by (intro run_step.aborting [OF _ ab]) simp
  with finalized_run_frozen [OF sys(2) fin] fin show ?thesis
    using sys by (metis r_into_rtranclp)
qed

text \<open>
  C33. Finalizing is sound: a run record is only closed over a ledger file that parses and validates
  and whose projections match it, it says COMPLETED exactly when every invocation of the ledger is
  assessed, orphaned or superseded, and its summary anchors the end of that ledger.
\<close>

theorem finalize_sound:
  assumes "finalize sha clean now s d = (Inr rec, s', d')"
  shows "\<exists>f evs S. rd_ledger d = Some f \<and> readJsonlFile f = (evs, []) \<and> valid_ledger sha evs S \<and>
    checkProjections (rd_invocations d) evs = Inr [] \<and>
    (own ''lifecycleState'' (Some rec) = Some (JStr ''COMPLETED'') \<longleftrightarrow>
       (\<forall>(k, st) \<in> set S. st_status st \<in> {Some ASSESSED, Some ORPHANED, Some SUPERSEDED})) \<and>
    own ''lastSeq'' (own ''finalSummary'' (Some rec)) = Some (JInt (int (length evs))) \<and>
    own ''ledgerDigest'' (own ''finalSummary'' (Some rec)) = end_digest genesis evs"
  using assms
proof (rule finalize_Inr)
  fix f evs S sm
  assume f: "rd_ledger d = Some f" "readJsonlFile f = (evs, [])" "valid_ledger sha evs S"
    "sm = summary_of S evs" "checkProjections (rd_invocations d) evs = Inr []"
    "closing_record now s sm = Inr rec"
  have ch: "chained sha 0 genesis evs"
    using f(3) by (simp add: valid_ledger_def)
  have "own ''lifecycleState'' (Some rec) = Some (JStr ''COMPLETED'') \<longleftrightarrow>
       (\<forall>(k, st) \<in> set S. st_status st \<in> {Some ASSESSED, Some ORPHANED, Some SUPERSEDED})"
    using closing_state_iff [of S evs]
    by (simp add: closing_record_fields(3) [OF f(6)] f(4) incomplete_def FINAL_INVOCATION_STATUSES_def split_def)
  then show ?thesis
    using f closing_record_fields(5) [OF f(6)] chained_last(1,2) [OF ch]
    by (intro exI [of _ f] exI [of _ evs] exI [of _ S]) (simp add: summary_anchor)
qed

lemma finalize_sound_witness:
  "own ''ledgerDigest'' (own ''finalSummary'' (Some final_record)) = genesis"
proof -
  obtain s' where "finalize sample_sha True sample_time sample_session sample_dir
      = (Inr final_record, s', sample_dir\<lparr>rd_run := Parsed final_record\<rparr>)"
    using sample_finalize by blast
  from finalize_sound [OF this] show ?thesis
    by (auto simp: sample_dir_def empty_file_def readJsonlFile_def end_digest_def List.map_filter_simps)
qed

text \<open>
  Reopening: a run that was finalized opens again exactly when its ledger has an event.  For an
  empty ledger the summary holds the genesis digest, while opening compares it with
  \<open>undefined\<close>, so the store of a run finalized without invocations is refused as tampered.
\<close>

lemma reopen_finalized_iff:
  assumes "finalize sha clean now s d = (Inr rec, s', d')" and "isValidId ''run'' (Some runId)"
    and "rd_ledger d = Some f" and "readJsonlFile f = (evs, [])"
  shows "(\<exists>t. open_run sha (Some runId) (Some d') = Inr t) \<longleftrightarrow> evs \<noteq> []"
  using assms by (rule reopen_finalized)

lemma reopen_finalized_iff_witness:
  "\<nexists>t. open_run sample_sha (Some (JStr sample_run_id)) (Some (sample_dir\<lparr>rd_run := Parsed final_record\<rparr>)) = Inr t"
proof -
  obtain s' where fin: "finalize sample_sha True sample_time sample_session sample_dir
      = (Inr final_record, s', sample_dir\<lparr>rd_run := Parsed final_record\<rparr>)"
    using sample_finalize by blast
  have "isValidId ''run'' (Some (JStr sample_run_id))"
    by code_simp
  then show ?thesis
    using reopen_finalized_iff [OF fin, of "JStr sample_run_id" empty_file "[]"]
    by (simp add: sample_dir_def empty_file_def readJsonlFile_def List.map_filter_simps)
qed

section \<open>Worker responses\<close>

text \<open>
  C34. Soundness of the transport parser: whatever it accepts is the parse of a text that stands in
  the response.  That text is the whole response, or what stands between the only two fence lines of
  the response, the first of them without a tag or tagged json, or a span of a response that is
  itself not JSON.  An object that is printed after a part without quotes and opening braces is never
  passed over: in a response of the last kind it is the value that is accepted, and an accepted fence
  has none before or behind it.  (An object behind an unbalanced quote can be passed over.)
\<close>

theorem worker_response_sound:
  assumes "parseWorkerResponse (Some (JStr raw)) = Inr (v, e)"
  shows "sublist (payload raw e) raw \<and> json_parse (payload raw e) = Some v \<and>
    (case e of
       Strict \<Rightarrow> payload raw e = raw
     | ProseWrapped i j t \<Rightarrow> json_parse raw = None \<and> is_obj v \<and> t = slice i (Suc j) raw \<and>
         (\<forall>p u. shows_object raw p u \<longrightarrow> u = v \<and> i = length p)
     | Fenced i j t \<Rightarrow>
         filter (\<lambda>k. fence_line (split_lines raw ! k) \<noteq> None) [0..<length (split_lines raw)] = [i, j] \<and>
         (\<exists>tag. fence_line (split_lines raw ! i) = Some tag \<and> (tag = [] \<or> to_lower tag = ''json'')) \<and>
         t = join_lines (slice (Suc i) j (split_lines raw)) \<and>
         (\<nexists>p u. shows_object (join_lines (take i (split_lines raw))) p u) \<and>
         (\<nexists>p u. shows_object (join_lines (drop (Suc j) (split_lines raw))) p u))"
  using assms
proof (cases rule: accepted_cases)
  case unfenced
  show ?thesis
    using parse_unfenced_Inr [OF unfenced(2)] accepted_text [OF assms] shown_only by (fastforce simp: span_text_def)
next
  case (fenced f)
  note f = parse_fenced_Inr [OF fenced(2)]
  have "\<not> shows_object (join_lines (take (fence_start f) (split_lines raw))) p u"
    "\<not> shows_object (join_lines (drop (Suc (fence_end f)) (split_lines raw))) p u" for p u
    using f shown_candidate by blast+
  then show ?thesis
    using f accepted_text [OF assms] single_fence [OF fenced(1)] fenced_tag [OF fenced(2)]
    by (auto simp: fence_at_def fence_lines_def)
qed

lemma worker_response_sound_witness:
  "\<exists>e. sublist (payload sample_prose e) sample_prose \<and> json_parse (payload sample_prose e) = Some (JObj sample_fields)"
  using sample_parsed worker_response_sound by blast

text \<open>
  C35. Round trip through prose: an object a worker prints with \<open>JSON.stringify\<close> is recovered from
  any surrounding text that opens no string, object or array and holds no fence, with the exact
  offsets of the object, strings with braces and quotes in it included.
\<close>

theorem worker_prose_roundtrip:
  assumes "parsed_form (JObj kvs)" and "prose_text p" and "prose_text q"
    and "fence_free (p @ json_stringify (JObj kvs) @ q)"
  shows "parseWorkerResponse (Some (JStr (p @ json_stringify (JObj kvs) @ q)))
    = Inr (JObj kvs, if json_parse (p @ json_stringify (JObj kvs) @ q) = None
        then ProseWrapped (length p) (length p + length (json_stringify (JObj kvs)) - 1) (json_stringify (JObj kvs))
        else Strict)"
  using assms by (rule prose_response)

lemma worker_prose_roundtrip_witness:
  "\<exists>e. parseWorkerResponse (Some (JStr sample_prose)) = Inr (JObj sample_fields, e)"
  using worker_prose_roundtrip [OF sample_form sample_prose_parts(1,2)] sample_prose_parts(3)
  unfolding sample_prose_def by blast

text \<open>
  The states of a handoff are separate: no response decides the observations of the controller
  (process completion, patch, disposition) or denies the patch; the transport states follow one
  another, and the recorded defect says which of them is missing.
\<close>

lemma handoff_states_separate:
  assumes "assessHandoff preserve unit raw repository completed = Inr a"
  shows "patchObserved (states a) = JNull \<and> controllerValidated (states a) = JNull \<and> patchPreserved a \<and>
    observation completed = Some (modelProcessCompleted (states a)) \<and>
    responseReceived (states a) = has_handoff raw \<and>
    (responseParsed (states a) \<longrightarrow> responseReceived (states a)) \<and>
    (responseSchemaValid (states a) \<longrightarrow> responseParsed (states a)) \<and>
    (workerResult a \<noteq> None \<longleftrightarrow> responseSchemaValid (states a)) \<and>
    (transportDefect a = Some ''TRANSPORT_MALFORMED'' \<longleftrightarrow> responseReceived (states a) \<and> \<not> responseParsed (states a)) \<and>
    (transportDefect a = Some ''SCHEMA_MISMATCH'' \<longleftrightarrow> responseParsed (states a) \<and> \<not> responseSchemaValid (states a))"
  using assessed_states [OF assms] by (auto simp: orderly_def untouched_def)

lemma handoff_states_separate_witness:
  "\<exists>a. assessHandoff (\<lambda>_ _ _. Inl TypeError) (Some (JStr sample_unit)) (Some (JStr sample_prose)) None
      (Some (JBool True)) = Inr a \<and> patchObserved (states a) = JNull \<and> modelProcessCompleted (states a) = JBool True"
proof -
  obtain a where a: "assessHandoff (\<lambda>_ _ _. Inl TypeError) (Some (JStr sample_unit)) (Some (JStr sample_prose)) None
      (Some (JBool True)) = Inr a"
    using sample_assessed by blast
  with handoff_states_separate [OF a] show ?thesis
    by (auto simp: observation_def)
qed

text \<open>
  A result that an assessment keeps is the worker's own: the parse of a text in the response,
  with a status of the worker vocabulary, a well-formed work unit id, only worker-owned fields
  (or names of \<open>Object.prototype\<close>) and no controller-owned one.
\<close>

lemma handoff_result_owned:
  assumes "assessHandoff preserve unit raw repository completed = Inr a" and "workerResult a = Some v"
  shows "(\<exists>s t. raw = Some (JStr s) \<and> sublist t s \<and> json_parse t = Some v) \<and>
    (\<exists>st \<in> set WORKER_STATUS. workerStatus a = Some (JStr st)) \<and>
    isValidId ''work-unit'' (own ''workUnitId'' (Some v)) \<and>
    set (own_keys v) \<subseteq> set WORKER_OWNED_FIELDS \<union> set inherited_names \<and>
    (\<forall>k \<in> set (own_keys v). \<not> isForbiddenField k)"
proof -
  obtain s e where r: "raw = Some (JStr s)" "parseWorkerResponse raw = Inr (v, e)" "worker_ok v"
    "workerStatus a = own ''workerStatus'' (Some v)"
    using kept_result [OF assms] by blast
  have "sublist (payload s e) s \<and> json_parse (payload s e) = Some v"
    using accepted_text r(1,2) by simp
  then show ?thesis
    using r worker_ok_status [OF r(3)] worker_ok_unit [OF r(3)] worker_ok_keys [OF r(3)] by auto
qed

lemma handoff_result_owned_witness:
  "set (own_keys (JObj sample_fields)) \<subseteq> set WORKER_OWNED_FIELDS \<union> set inherited_names"
proof -
  obtain a where a: "assessHandoff (\<lambda>_ _ _. Inl TypeError) (Some (JStr sample_unit)) (Some (JStr sample_prose)) None
      (Some (JBool True)) = Inr a" "workerResult a = Some (JObj sample_fields)"
    using sample_assessed by blast
  then show ?thesis
    using handoff_result_owned by blast
qed

section \<open>SOL decision requests\<close>

text \<open>
  C36. The evidence budget of an ask or a response: what is returned is the given evidence, or a
  subsequence of it followed by the truncation marker; nothing critical to the decision or named by
  it is dropped; the number of items is within the budget, and so are the bytes, up to the digits
  by which the marker's four numbers exceed the thirteen its fixed allowance has room for.
\<close>

theorem sol_evidence_budget:
  assumes "applyEvidenceBudget (Some (JArr evs)) budget prot = Inr (r, truncated)"
  defines "items \<equiv> map deep_clone_json evs"
  shows "\<exists>kept. subseq kept items \<and> (\<forall>x \<in> set items. required_item prot x \<longrightarrow> x \<in> set kept) \<and>
    r = (if truncated then kept @ [truncation_marker (length kept) (length items) (evidence_bytes kept) (evidence_bytes items)]
         else items) \<and>
    int (length r) \<le> budget_int ''maxItems'' budget \<and>
    int (evidence_bytes r) \<le> budget_int ''maxBytes'' budget
      + (if truncated then int (marker_digits (length kept) (length items) (evidence_bytes kept) (evidence_bytes items) - 13) else 0)"
proof (cases truncated)
  case True
  then have "truncate_evidence items (budget_int ''maxItems'' budget) (budget_int ''maxBytes'' budget) prot = Inr r"
    using applied_budget [OF assms(1)] by (simp add: items_def)
  from truncate_evidence_Inr [OF this] True show ?thesis
    by (auto simp: marker_bytes TRUNCATION_MARKER_BYTES_def)
next
  case False
  with applied_budget [OF assms(1)] show ?thesis
    by (intro exI [of _ items]) (auto simp: items_def)
qed

lemma sol_evidence_budget_witness:
  "\<exists>kept. subseq kept (map deep_clone_json sample_pool) \<and>
     [hd sample_pool, truncation_marker 1 3 37 111] = kept @ [truncation_marker (length kept) 3 (evidence_bytes kept) 111]"
proof -
  have "map deep_clone_json sample_pool = sample_pool" "length sample_pool = 3" "evidence_bytes sample_pool = 111"
    by code_simp+
  then show ?thesis
    using sol_evidence_budget [OF sample_truncated] by auto
qed

text \<open>
  The evidence of a valid ask is closed and bounded: every reference its decision rests on is
  that of a retained item and never the marker; a condition does not speak of the marker, and names
  a retained item only if it declares it; the items and bytes are within the ask's own budget; and
  exactly the block of its call type is present.
\<close>

lemma sol_ask_evidence_closed:
  assumes "validateSolAsk sha doc sources prior = Inr []"
  shows "(\<forall>(place, refs) \<in> set (decision_refs doc). \<forall>r \<in> set refs. is_ref_of (Some doc) r) \<and>
    (\<forall>(field, declared) \<in> {(''passCondition'', ''passEvidenceRefs''), (''failCondition'', ''failEvidenceRefs'')}.
       \<forall>s. fld field doc = Some (JStr s) \<longrightarrow> \<not> sublist TRUNCATION_MARKER_REF s \<and>
         (\<forall>r. is_ref_of (Some doc) (JStr r) \<and> word_in r s \<longrightarrow> JStr r \<in> set (items_of declared doc))) \<and>
    (\<forall>b. budget_of doc = Some b \<longrightarrow> (\<exists>mi mb. fld ''maxItems'' b = Some (JInt mi) \<and> fld ''maxBytes'' b = Some (JInt mb) \<and>
       int (length (items_of ''evidence'' doc)) \<le> mi \<and> int (evidence_bytes (items_of ''evidence'' doc)) \<le> mb)) \<and>
    (\<exists>b. present_blocks doc = [b] \<and> for_type SOL_CALL_TYPE_BLOCKS (fld ''callType'' doc) = Some b)"
proof -
  note rules = valid_ask_parts(1) [OF assms]
  have "condition_issues doc ''passCondition'' ''passEvidenceRefs'' = []"
    "condition_issues doc ''failCondition'' ''failEvidenceRefs'' = []"
    using rules by (simp_all add: intrinsic_ask_issues_def)
  note conditions = this [THEN condition_closed]
  show ?thesis
    using valid_ask_refs [OF rules] conditions within_budget [OF rules] one_block [OF rules]
    by (auto simp: sublist_def)
qed

lemma sol_ask_evidence_closed_witness:
  "\<exists>b. present_blocks sample_ask = [b] \<and> for_type SOL_CALL_TYPE_BLOCKS (fld ''callType'' sample_ask) = Some b"
  using sol_ask_evidence_closed [OF sample_ask_valid] by blast

text \<open>
  C37. An ask that is valid against sources refers only to them: every contract reference is the
  key and digest of a source whose document is valid, every requirement reference is a side effect
  of that source, and a diagnosis, a final review and a recheck refer to authoritative sources only.
\<close>

theorem sol_ask_bound_to_sources:
  assumes "validateSolAsk sha doc (Some (JArr srcs)) prior = Inr []" and "ref \<in> set (items_of ''contractRefs'' doc)"
  shows "\<exists>s \<in> set srcs. fld ''contractKey'' s = fld ''contractKey'' ref \<and> fld ''semanticDigest'' s = fld ''semanticDigest'' ref \<and>
    (\<exists>ws. validateSemanticContract sha s = Inr ([], ws)) \<and>
    (\<forall>r \<in> set (items_of ''requirementRefs'' ref). \<exists>x \<in> set (items_of ''negativeSideEffects'' s). fld ''sideEffectId'' x = Some r) \<and>
    (one_of IMPLEMENTATION_FACING_CALL_TYPES (fld ''callType'' doc) \<longrightarrow> isAuthoritative sha (Some s))"
proof -
  have "applySourceBindingRules sha doc (Some (JArr srcs)) = []"
    using valid_ask_parts(2) [OF assms(1)] by simp
  from valid_binding [OF this] assms(2) obtain s where s: "bound_source srcs ref = Some s"
    "\<forall>s \<in> set srcs. is_obj s \<and> (\<exists>ws. validateSemanticContract sha s = Inr ([], ws))"
    "\<forall>r \<in> set (items_of ''requirementRefs'' ref). \<exists>x \<in> set (items_of ''negativeSideEffects'' s). fld ''sideEffectId'' x = Some r"
    "one_of IMPLEMENTATION_FACING_CALL_TYPES (fld ''callType'' doc) \<longrightarrow> is_lit (fld ''compileStatus'' s) ''COMPILED''"
    by auto
  note bound = bound_source_Some [OF s(1)]
  then obtain ws where "is_obj s" "validateSemanticContract sha s = Inr ([], ws)"
    using s(2) by blast
  with bound s(3,4) compiled_source_authoritative [of s sha ws] show ?thesis
    by blast
qed

lemma sol_ask_bound_to_sources_witness:
  "\<exists>s \<in> set [sample_contract]. is_lit (fld ''contractKey'' s) ''order-status''"
proof -
  have "hd (items_of ''contractRefs'' sample_ask) \<in> set (items_of ''contractRefs'' sample_ask)"
    "fld ''contractKey'' (hd (items_of ''contractRefs'' sample_ask)) = Some (JStr ''order-status'')"
    by (simp_all add: sample_ask_parts)
  with sol_ask_bound_to_sources [OF sample_ask_valid [unfolded sample_bound_def]] show ?thesis
    by metis
qed

text \<open>
  C38. The provenance of a recheck: an ask that is valid with its prior exchange names exactly that
  exchange, both of whose documents are valid, and a finding or adjacent defect of the prior
  response with the digest of its content.
\<close>

theorem sol_recheck_chained:
  assumes "validateSolAsk sha doc sources prior = Inr []" and "call_type doc ''SOL_RECHECK''" and "prior \<noteq> None"
  shows "\<exists>a r f. own ''ask'' prior = Some a \<and> own ''response'' prior = Some r \<and>
    validate_ask_alone a = Inr [] \<and> validateSolResponse r (Some a) None = Inr [] \<and>
    own ''priorAskId'' (fld ''recheck'' doc) = fld ''askId'' a \<and>
    own ''priorResponseId'' (fld ''recheck'' doc) = fld ''responseId'' r \<and>
    is_lit (own ''priorFindingDigest'' (fld ''recheck'' doc)) (content_digest sha f) \<and>
    (f \<in> set (items_of ''findings'' r) \<and> own ''priorFindingRef'' (fld ''recheck'' doc) = fld ''findingId'' f \<or>
     f \<in> set (items_of ''adjacentCriticalDefects'' r) \<and>
       is_lit (own ''priorFindingRef'' (fld ''recheck'' doc)) (adjacentDefectFindingId sha f))"
proof -
  have "applyPriorProvenanceRules sha doc prior = Inr []"
    by (rule valid_ask_parts(3) [OF assms])
  from provenance_chained [OF this] obtain a r f where *: "own ''ask'' prior = Some a" "own ''response'' prior = Some r"
    "recheck_chained sha (fld ''recheck'' doc) a r f"
    by blast
  then show ?thesis
    using prior_finding_Some [of sha r "own ''priorFindingRef'' (fld ''recheck'' doc)" f]
    by (intro exI [of _ a] exI [of _ r] exI [of _ f]) (auto simp: recheck_chained_def)
qed

lemma sol_recheck_chained_witness:
  "\<exists>a r f. own ''ask'' sample_prior = Some a \<and> own ''response'' sample_prior = Some r \<and>
     is_lit (own ''priorFindingDigest'' (fld ''recheck'' sample_recheck)) (content_digest sample_sha f)"
  using sol_recheck_chained [OF sample_recheck_valid sample_recheck_response_valid(3)]
  by (auto simp: sample_prior_def)

text \<open>
  C39. A recheck never reopens settled ground: the findings of a valid response are about the prior
  finding or a neighboring invariant the ask names, they rest on the ask's retained evidence and the
  response brings none of its own; it says RESOLVED exactly when it reports no finding.
\<close>

theorem sol_recheck_never_reopens:
  assumes "validateSolResponse doc (Some ask) sources = Inr []" and "call_type doc ''SOL_RECHECK''"
    and "plain_object (fld ''recheck'' ask)"
  shows "(is_lit (fld ''verdict'' doc) ''RESOLVED'' \<longleftrightarrow> items_of ''findings'' doc = []) \<and> items_of ''evidence'' doc = [] \<and>
    (\<forall>f \<in> set (items_of ''findings'' doc).
       (fld ''invariantRef'' f = own ''priorFindingRef'' (fld ''recheck'' ask) \<or>
        (\<exists>x \<in> set (neighbors (Some ask)). fld ''invariantRef'' f = Some x)) \<and>
       (\<forall>r \<in> set (items_of ''evidenceRefs'' f). is_ref_of (Some ask) r))"
  using recheck_response [OF assms] by (simp add: recheck_allowed_def)

lemma sol_recheck_never_reopens_witness:
  "\<not> is_lit (fld ''verdict'' sample_recheck_response) ''RESOLVED'' \<and> is_ref_of (Some sample_recheck) (JStr ''ev.fix'')"
proof -
  have "items_of ''findings'' sample_recheck_response = [sample_reported]"
    "items_of ''evidenceRefs'' sample_reported = [JStr ''ev.fix'']"
    by code_simp+
  then show ?thesis
    using sol_recheck_never_reopens [OF sample_recheck_response_valid(1,2,4)] by simp
qed

text \<open>
  What the ask compiler returns asks for one decision and is valid: its question has exactly
  one question mark, at most one decision clause and at most one concern, no request to edit or for
  a generic review passed with it, and the document is the copy of one that passes validation
  against the validated sources and keeps every item of evidence the decision rests on.
\<close>

lemma sol_compiled_ask:
  assumes "compileSolAsk sha fresh now sources prior (Some input) = Inr doc"
  shows "\<exists>q bound draft pool prot evidence.
    is_lit (fld ''singleDecisionQuestion'' doc) q \<and> single_decision q \<and>
    \<not> matches_any EDIT_REQUEST_PATTERNS (preflight_context (fld ''whyNeeded'' input) q (fld ''allowedScope'' input)) \<and>
    doc = deep_clone_json draft \<and> validateSourceSet sha sources = ([], bound) \<and>
    validateSolAsk sha draft (Some (JArr bound)) prior = Inr [] \<and> fld ''askId'' draft = Some fresh \<and>
    evidence_pool input = Inr pool \<and> protected_refs input = Inr prot \<and> fld ''evidence'' draft = Some (JArr evidence) \<and>
    (\<forall>x \<in> set (map deep_clone_json pool). required_item prot x \<longrightarrow> x \<in> set evidence)"
proof -
  obtain bound draft expected pool prot block budget evidence truncated where c:
    "validateSourceSet sha sources = ([], bound)" "ask_guards input = Inr expected"
    "evidence_pool input = Inr pool" "protected_refs input = Inr prot"
    "applyEvidenceBudget (Some (JArr pool)) (Some budget) prot = Inr (evidence, truncated)"
    "draft = ask_draft fresh now input expected block budget evidence"
    "validateSolAsk sha draft (Some (JArr bound)) prior = Inr []" "doc = deep_clone_json draft"
    by (rule ask_steps [OF assms])
  obtain q where q: "is_lit (fld ''singleDecisionQuestion'' input) q"
    "preflightSolRequest (Some (JStr q)) (fld ''whyNeeded'' input) (fld ''allowedScope'' input) (fld ''callType'' input) = None"
    using guarded_question [OF c(2)] by blast
  have "is_lit (fld ''singleDecisionQuestion'' doc) q"
    unfolding c(8) using q(1) by (simp add: deep_clone_own c(6) draft_own or_null_def)
  moreover have "\<forall>x \<in> set (map deep_clone_json pool). required_item prot x \<longrightarrow> x \<in> set evidence"
    using kept_required [OF c(5)] by blast
  moreover have "single_decision q"
    "\<not> matches_any EDIT_REQUEST_PATTERNS (preflight_context (fld ''whyNeeded'' input) q (fld ''allowedScope'' input))"
    using q(2) by (simp_all add: preflight_passed)
  moreover have "fld ''askId'' draft = Some fresh" "fld ''evidence'' draft = Some (JArr evidence)"
    by (simp_all only: c(6) draft_own)
  ultimately show ?thesis
    using c(1,3,4,7,8)
    by (intro exI [of _ q] exI [of _ bound] exI [of _ draft] exI [of _ pool] exI [of _ prot] exI [of _ evidence] conjI)
qed

lemma sol_compiled_ask_witness: "single_decision ''Why this call?''"
proof -
  have "fld ''singleDecisionQuestion'' sample_ask = Some (JStr ''Why this call?'')"
    by code_simp
  with sol_compiled_ask [OF sample_compiled_ask] show ?thesis
    by auto
qed

text \<open>
  C40. A diagnosed failure becomes a repair inside its scope.  The diagnosed criterion is claimed by one
  contract reference of the ask, which names an authoritative source by its key and digest, and is
  the identity of exactly one side effect of that source.  The repair contract and the ticket reject
  this criterion and nothing else; the contract carries the key and the digest of the source; its
  required behavior is the requirement of the side effect, never the model's text; and its changes are
  those of the response, every one of which targets the scope of the side effect.  The identity is the
  digest of the conversion, and a response of the same content, compiled at any time and under any
  response identity, yields the same one.
\<close>

theorem repair_ticket_source_derived:
  assumes "compileRepairTicket sha now (Some a) (Some r) sources = Inr (contract, ticket)"
  shows "\<exists>srcs s spec c b. sources = Some (JArr srcs) \<and> s \<in> set srcs \<and> isAuthoritative sha (Some s) \<and>
    criterion_ref (Some a) = Some (JStr c) \<and> claiming_refs a (JStr c) = [b] \<and>
    fld ''contractKey'' s = fld ''contractKey'' b \<and> fld ''semanticDigest'' s = fld ''semanticDigest'' b \<and>
    filter (\<lambda>e. is_lit (fld ''sideEffectId'' e) c) (items_of ''negativeSideEffects'' s) = [spec] \<and>
    repair_within contract s spec c r \<and> fld ''rejectedAcceptanceRefs'' ticket = Some (JArr [JStr c]) \<and>
    is_lit (fld ''conversionDigest'' ticket) (conversion_digest sha a r s spec) \<and>
    is_lit (fld ''repairId'' contract) (derived_repair_id sha a r s spec) \<and>
    fld ''ticketId'' ticket = fld ''repairId'' contract \<and>
    (\<forall>now' r' contract' ticket'. response_content r' = response_content r \<longrightarrow>
       compileRepairTicket sha now' (Some a) (Some r') sources = Inr (contract', ticket') \<longrightarrow>
       fld ''repairId'' contract' = fld ''repairId'' contract \<and> fld ''ticketId'' ticket' = fld ''ticketId'' ticket \<and>
       fld ''conversionDigest'' ticket' = fld ''conversionDigest'' ticket)"
proof -
  obtain bound b s spec where t: "ticket_sources sha sources = Inr bound"
    "resolveCriterionBinding a bound = Inr (b, s, spec)" "convert_repair sha now a r s spec = Inr (contract, ticket)"
    using ticket_steps [OF assms] by (metis option.inject)
  obtain c where c: "criterion_ref (Some a) = Some (JStr c)" "claiming_refs a (JStr c) = [b]" "s \<in> set bound"
    "fld ''contractKey'' s = fld ''contractKey'' b" "fld ''semanticDigest'' s = fld ''semanticDigest'' b"
    "spec \<in> set (items_of ''negativeSideEffects'' s)" "is_lit (fld ''sideEffectId'' spec) c"
    using claiming_refs_one [OF t(2)] by blast
  have auth: "sources = Some (JArr bound)" "isAuthoritative sha (Some s)"
    using ticket_sources_authoritative [OF t(1)] c(3) by simp_all
  note identity = ticket_identity [OF t(3) c(1)]
  show ?thesis
    by (intro exI conjI; (rule auth c converted_within [OF t(3) c(1)] only_effect [OF auth(2) c(6,7)] identity)?)
      (use identity same_content_identity [OF assms] in \<open>simp, blast\<close>)
qed

lemma repair_ticket_source_derived_witness:
  "\<exists>contract ticket s spec c. compileRepairTicket sample_sha JNull (Some sample_ask) (Some sample_response) sample_bound
     = Inr (contract, ticket) \<and> repair_within contract s spec c sample_response"
proof -
  obtain contract ticket where "compileRepairTicket sample_sha JNull (Some sample_ask) (Some sample_response) sample_bound
     = Inr (contract, ticket)"
    using sample_ticket by blast
  with repair_ticket_source_derived [OF this] show ?thesis
    by blast
qed

section \<open>The controller\<close>

text \<open>
  C1. How a run can end.  It is rejected, or its contract needs a review, or it is accepted: then
  the last sweep found no transport surface, no finding is open, the routes lead from ROUTING_READY
  to UNIT_COMPLETE, the candidate is for review only and was not published, and the decision is on
  record; the compiled contract is LOW_RISK, or the run did not use the test seam and a compiled
  final review with verdict PASS, or a compiled recheck with verdict RESOLVED, was accepted in it
  and is among its records.
\<close>

theorem run_outcomes:
  assumes "runController env0 worktree fin inp = Inr (r, c)"
  shows "rr_disposition r = ''REJECTED'' \<or> rr_disposition r = ''REVIEW_REQUIRED'' \<or>
    (ed_swept fin \<and> list_all (\<lambda>f. \<not> is_open f) (ct_findings c) \<and>
     leads_to ''ROUTING_READY'' (rr_routes r) = ''UNIT_COMPLETE'' \<and> reviewable c \<and> recorded (rr_disposition r) c \<and>
     (rr_disposition r = ''SEMANTICALLY_ACCEPTED'' \<and>
        (\<exists>contract. compileProjectContract (ce_sha env0) (ce_now env0 0) (ri_project inp) = Inr contract \<and>
           is_lit (fld ''riskClass'' contract) ''LOW_RISK'')
      \<or> rr_disposition r = ''REVIEW_APPROVED'' \<and> \<not> ce_testSeam env0 \<and> review_vouched (st_files (ct_store c))))"
  using assms by (rule outcomes_judged)

lemma run_outcomes_witness:
  "\<exists>r c. runController run_host None run_fin run_start = Inr (r, c) \<and>
     rr_disposition r \<in> {''REJECTED'', ''REVIEW_REQUIRED'', ''SEMANTICALLY_ACCEPTED'', ''REVIEW_APPROVED''}"
  using run_exists run_outcomes by fastforce

text \<open>
  C2. A run stays inside its limits: it takes at most eight routing decisions, starts no more
  invocations than it takes decisions, and no more than the budgets of the unit and of the run
  allow.
\<close>

theorem run_within_budget:
  assumes "runController env0 worktree fin inp = Inr (r, c)"
  shows "length (rr_routes r) \<le> MAX_CONTROLLER_STEPS \<and> started (ct_store c) \<le> length (rr_routes r) \<and>
    int (started (ct_store c)) \<le> budgets inp ''unitCalls'' \<and> int (started (ct_store c)) \<le> budgets inp ''runCalls''"
  using assms by (rule limits_judged)

lemma run_within_budget_witness:
  "\<exists>r c. runController run_host None run_fin run_start = Inr (r, c) \<and> started (ct_store c) \<le> 3"
proof -
  obtain r c where run: "runController run_host None run_fin run_start = Inr (r, c)"
    using run_exists by blast
  then have "int (started (ct_store c)) \<le> budgets run_start ''unitCalls''"
    using run_within_budget by blast
  with run show ?thesis
    by (auto simp: budgets_def run_start_def run_project_def)
qed

text \<open>
  C3. The routes of a run are a path of the escalation machine from ROUTING_READY: every decision
  is a valid route record whose state is the state the previous one leads to, by an event of the
  machine.  A run ends with one of four dispositions, and with an accepting one only in
  UNIT_COMPLETE.
\<close>

theorem run_follows_machine:
  assumes "runController env0 worktree fin inp = Inr (r, c)"
  shows "follows ''ROUTING_READY'' (rr_routes r) \<and>
    rr_disposition r \<in> {''REJECTED'', ''REVIEW_REQUIRED'', ''SEMANTICALLY_ACCEPTED'', ''REVIEW_APPROVED''} \<and>
    (rr_disposition r = ''REJECTED'' \<or> rr_disposition r = ''REVIEW_REQUIRED'' \<or>
       leads_to ''ROUTING_READY'' (rr_routes r) = ''UNIT_COMPLETE'')"
  using assms by (rule routes_judged)

lemma run_follows_machine_witness:
  "\<exists>r c. runController run_host None run_fin run_start = Inr (r, c) \<and> follows ''ROUTING_READY'' (rr_routes r)"
  using run_exists run_follows_machine by blast

text \<open>
  C4. A closed finding stays accounted for: every finding of the final reviews is open, or a
  compiled recheck of exactly this finding was accepted with verdict RESOLVED.
\<close>

theorem closed_findings_rechecked:
  assumes "runController env0 worktree fin inp = Inr (r, c)"
  shows "list_all (\<lambda>f. is_open f \<or> recheck_vouched (st_files (ct_store c)) f) (ct_findings c)"
  using assms by (rule findings_judged)

lemma closed_findings_rechecked_witness:
  "\<exists>r c. runController run_host None run_fin run_start = Inr (r, c) \<and>
     list_all (\<lambda>f. is_open f \<or> recheck_vouched (st_files (ct_store c)) f) (ct_findings c)"
  using run_exists closed_findings_rechecked by blast

text \<open>
  C5. Errors are values of a closed vocabulary: a run is rejected exactly when its result carries
  a rejection code, and the code is one of the eleven canonical ones, whatever error ended the run.
\<close>

theorem rejected_run_canonical:
  assumes "runController env0 worktree fin inp = Inr (r, c)"
  shows "rr_disposition r = ''REJECTED'' \<longleftrightarrow> list_ex (\<lambda>code. rr_rejectionCode r = Some code) CANONICAL_REJECTION_CODES"
  using assms by (rule rejection_judged)

lemma rejected_run_canonical_witness:
  "\<exists>r c. runController run_host None run_fin run_start = Inr (r, c) \<and>
     (rr_disposition r = ''REJECTED'') = list_ex (\<lambda>code. rr_rejectionCode r = Some code) CANONICAL_REJECTION_CODES"
  using run_exists rejected_run_canonical by blast

text \<open>
  C6. The outcome of a worker attempt on every branch, over what the controller observed.  It starts
  at most one invocation and only adds to the files of the run.  One that returns has verified its
  execution boundary and the quiet of its processes, and is accepted exactly when the exit
  inspection and the collection of the evidence threw nothing, there is evidence of a clean patch
  that changes a path, the tests of the validation copy and the secret patterns let a patch with
  text pass, the provider exited with status 0 and its output parses as a valid worker result of
  this unit, the project rejects nothing by configuration, and the validator of the caller, if
  there is one, accepted.  A rejected attempt carries a code.
\<close>

theorem worker_attempt_proved:
  "case executeWorkerAttempt env n route s of
     (Inl e, t) \<Rightarrow> one_start s t
   | (Inr w, t) \<Rightarrow> (let ob = ce_worker env n in one_start s t \<and>
       (\<exists>b. wk_boundary ob = Inr b) \<and> wk_prompt ob = None \<and> wk_settle ob = None \<and> wk_quiescent ob \<and>
       (wo_accepted w \<longleftrightarrow>
          wk_safety ob = None \<and> wk_evidenceError ob = None \<and>
          (\<exists>e. wk_evidence ob = Some e \<and> pr_changedPaths (er_record e) \<noteq> [] \<and> pr_clean (er_record e) \<and>
             (er_patchText e = [] \<or>
               ((\<exists>rs f. wk_validation ob = Inr (rs, f) \<and>
                   \<not> list_ex (\<lambda>v. va_kind v \<in> {''test'', ''secret-scan''} \<and> va_outcome v \<noteq> ''PASS'') rs) \<and>
                \<not> list_ex (\<lambda>p. re_test p (er_patchText e)) SECRET_PATTERNS))) \<and>
          (\<exists>p. wk_provider ob = Inr p \<and> pv_status p = JInt 0 \<and>
             (\<exists>v x errs. parseWorkerResponse (Some (JStr (pv_stdout p))) = Inr (v, x) \<and>
                validateWorkerResult v = Inr (True, errs) \<and> is_lit (own ''workUnitId'' (Some v)) (ce_unit env))) \<and>
          own ''semanticRejectionCode'' (Some (ce_config env)) = Some JNull \<and>
          (wk_semantic ob = None \<or> (\<exists>d. wk_semantic ob = Some (Inr d) \<and> own ''accepted'' d = Some (JBool True)))) \<and>
       (wo_accepted w \<longleftrightarrow> wo_rejectionCode w = None) \<and>
       wo_patch w = map_option er_record (wk_evidence ob))"
proof -
  obtain r t where rt: "executeWorkerAttempt env n route s = (r, t)" by (metis surj_pair)
  have one: "one_start s t"
    using worker_one_start [of s env n route] rt by simp
  show ?thesis
  proof (cases r)
    case (Inl e)
    then show ?thesis
      using one rt by simp
  next
    case (Inr w)
    note sound = worker_attempt_judged [OF rt [unfolded Inr], unfolded patch_sound_def answers_unit_def]
    show ?thesis
      unfolding rt Inr prod.case sum.case Let_def using one sound by simp
  qed
qed

text \<open>
  C7. The outcome of a SOL attempt on every branch.  It starts at most one invocation and only adds
  to the files of the run.  An accepted one ran on the authoritative Codex transport; its provider
  reported no error, exited with status 0 in time and completely, with untruncated output and with
  the identity of its entry point verified before and after; the store was reloaded, the processes
  are quiet and absent, the surface and the cleanup are proved, and neither the raw output nor the
  parsed values hold a credential by a complete scan.  Both evidence files are on disk, and the
  compiled ask and response are among the artifacts with an accepted assessment of exactly this
  exchange.  A refused one carries a code.
\<close>

theorem sol_attempt_proved:
  "case executeSolAttempt env n route callType patchRecord refs prior finding s of
     (Inl e, t) \<Rightarrow> one_start s t
   | (Inr r, t) \<Rightarrow> (let ob = ce_sol env n in one_start s t \<and>
       (if sr_accepted r
        then isCodexSolModel (fld ''targetModel'' route) \<and> usesExternalProvider (ce_config env) ''SOL'' \<and>
          so_store ob = None \<and> so_settle ob = None \<and>
          (\<exists>p. so_provider ob = Inr p \<and> pv_status p = JInt 0 \<and> pv_error p = None \<and> \<not> pv_timedOut p \<and>
             pv_truncated p = Some False \<and> pv_completed p \<and>
             pv_identityBefore p = Some True \<and> pv_identityAfter p = Some True) \<and>
          so_quiescent ob \<and> so_absence ob \<and> so_cleanup ob \<and>
          (\<exists>reloaded surface leak full. so_proofs ob = Inr (reloaded, surface, leak, full) \<and>
             reloaded \<and> surface \<and> \<not> leak \<and> full) \<and>
          (\<exists>leak full. so_canonical ob = Inr (leak, full) \<and> \<not> leak \<and> full) \<and>
          so_proofFile ob \<noteq> None \<and> so_semanticFile ob \<noteq> None \<and>
          (\<exists>response. sr_response r = Some response \<and> vouched (st_files t) callType (sr_ask r) response)
        else sr_errorCode r \<noteq> None))"
  using sol_attempt_outcome [of s env n route callType patchRecord refs prior finding]
  by (auto simp: sol_proved_def provider_proved_def Let_def split: prod.splits sum.splits if_splits)

text \<open>
  C8. The repair of a finding is bound by construction: the contract it is built from is
  authoritative, the repair rejects the one criterion the finding is about and changes only the
  scope of that criterion, and the binding record names the finding, the repair and the exchange
  that reported it.
\<close>

theorem finding_repair_bound:
  assumes "createFinalReviewRepairBinding sha now contract finding ask response = Inr (repair, ticket)"
  shows "isAuthoritative sha (Some contract) \<and> (\<exists>spec. binding_source contract finding ask repair spec) \<and>
    fld ''findingId'' ticket = Some (or_null (fld ''findingId'' finding)) \<and>
    fld ''repairId'' ticket = Some (or_null (fld ''repairId'' repair)) \<and>
    fld ''sourceAskId'' ticket = Some (or_null (fld ''askId'' ask)) \<and>
    fld ''sourceResponseId'' ticket = Some (or_null (fld ''responseId'' response))"
  using binding_bounded [OF assms] by (simp add: binding_ticket_own)

lemma finding_repair_bound_witness:
  "\<exists>repair ticket. sample_binding = Inr (repair, ticket) \<and>
     (\<exists>spec. binding_source sample_contract sample_finding sample_review_ask repair spec)"
  using sample_binding_made finding_repair_bound [THEN conjunct2, THEN conjunct1] unfolding sample_binding_def by blast

text \<open>
  A dispatched repair needs an open finding: as long as none is recorded as open, a route to
  the REPAIR role throws SOL_ASK_INVALID before anything is started or recorded.  The repair that
  the policy decides after the first credible failure of an ordinary worker attempt is therefore
  never carried out.
\<close>

lemma repair_without_finding_fails:
  assumes "list_all (\<lambda>f. \<not> is_open f) (ct_findings c)" and "is_lit (fld ''targetRole'' route) ''REPAIR''"
  shows "worker_step env n route c = (Inl (ControllerError ''SOL_ASK_INVALID''), c)"
  using assms by (rule repair_step_needs_finding)

lemma repair_without_finding_fails_witness:
  "worker_step run_host 0 (JObj [(''targetRole'', JStr ''REPAIR'')]) sample_ctl = (Inl (ControllerError ''SOL_ASK_INVALID''), sample_ctl)"
  by (rule repair_without_finding_fails) (simp_all add: sample_ctl_def initial_ctl_def)

text \<open>
  A recheck that resolves the finding overrides the rejection of the repair: when it returns,
  the result counts as accepted, while the patch and the latest rejection are still those of the
  last worker attempt.
\<close>

lemma resolved_recheck_overrides:
  assumes "recheck_step env n finding response c = (Inr signal, d)" and "is_lit (fld ''verdict'' response) ''RESOLVED''"
  shows "ct_accepted d \<and> ct_patch d = ct_patch c \<and> ct_rejection d = ct_rejection c"
  using assms by (rule recheck_overrides)

lemma resolved_recheck_overrides_witness:
  "\<exists>d. snd (recheck_step run_host 0 sample_finding (JObj [(''verdict'', JStr ''RESOLVED'')]) sample_ctl) = d \<and>
     ct_accepted d \<and> ct_patch d = ct_patch sample_ctl"
proof -
  obtain signal d where "recheck_step run_host 0 sample_finding (JObj [(''verdict'', JStr ''RESOLVED'')]) sample_ctl = (Inr signal, d)"
    using sample_recheck by blast
  then show ?thesis
    using resolved_recheck_overrides [of run_host 0 sample_finding "JObj [(''verdict'', JStr ''RESOLVED'')]" sample_ctl signal d] by simp
qed

section \<open>Git and worktrees\<close>


text \<open>
  C10. The inspection of a worker takes the snapshots of the creation again, from the state the worker
  left, after the base was validated there.  It passes only when the head it finds is the base, the
  refs and the configuration it finds are those of before, every reflog entry that is new is of an
  allowed operation, every remote is as before with every push-relevant URL verifiable, and the parent
  worktree has the same head, status and content.
\<close>

theorem worker_inspection_safe:
  "case inspectWorkerExit sha h repo dir start before w of
     (Inl _, _) \<Rightarrow> True
   | (Inr _, w') \<Rightarrow> \<exists>sn head now. before = Some sn \<and>
       exit_snapshots sha h repo dir start w = (Inr (head, now), w') \<and> is_lit start head \<and>
       set (sn_refs now) = set (sn_refs sn) \<and>
       filter (\<lambda>e. e \<notin> set (sn_reflog sn) \<and> forbidden_reflog e) (sn_reflog now) = [] \<and>
       set (sn_config now) = set (sn_config sn) \<and> same_remotes (sn_remotes sn) (sn_remotes now) \<and>
       sn_parent now = sn_parent sn"
proof (cases "inspectWorkerExit sha h repo dir start before w")
  case (Pair r w')
  show ?thesis
  proof (cases r)
    case (Inr u)
    with Pair inspection_retakes [of sha h repo dir start before w u w'] show ?thesis by simp
  qed (simp add: Pair)
qed

text \<open>
  C13. The scope is accepted exactly when all paths are safe, every changed path is among the allowed
  ones and every path that must change is among the changed ones; safe paths are proper paths below
  the root, compared in their normal form.
\<close>

theorem write_scope_inclusion:
  "validateScope changed allowed (Some must) = Inr () \<longleftrightarrow>
     (\<exists>cs as ms. normalizeAll changed = Inr cs \<and> normalizeAll allowed = Inr as \<and> normalizeAll (Some must) = Inr ms \<and>
       set ms \<subseteq> set cs \<and> set cs \<subseteq> set as \<and> list_all below_root as)"
  unfolding validateScope_iff by (blast dest: normalizeAll_below)

text \<open>
  C11. Evidence is immutable and is on record before the scope is judged: whatever the pipeline
  returns, all evidence that could be loaded is loaded the same afterwards; and when it returns a record, this
  record is loaded under its fresh id, with a patch that has the digest it names, and its changed paths
  satisfy the scope.
\<close>

theorem evidence_kept:
  "case collectAndPersistEvidence sha now fresh h repo dir start unit tree allowed must results w of (r, w') \<Rightarrow>
     {(i, x). loadPatchEvidence sha (wd_evidence w) i = Inr x} \<subseteq> {(i, x). loadPatchEvidence sha (wd_evidence w') i = Inr x} \<and>
     (case r of Inl _ \<Rightarrow> True
      | Inr ev \<Rightarrow> \<exists>bytes. loadPatchEvidence sha (wd_evidence w') fresh = Inr (ev, bytes) \<and>
          is_lit (own ''patchHash'' (Some ev)) (sha bytes) \<and> scope_of ev allowed must = Inr ())"
proof (cases "collectAndPersistEvidence sha now fresh h repo dir start unit tree allowed must results w")
  case (Pair r w')
  have "store_grows (wd_evidence w) (wd_evidence w')"
    using ev_grow.keepsD [OF grow_pipeline Pair] by (simp add: evidence_grows_def)
  then have "{(i, x). loadPatchEvidence sha (wd_evidence w) i = Inr x} \<subseteq> {(i, x). loadPatchEvidence sha (wd_evidence w') i = Inr x}"
    by (auto intro: load_grows)
  moreover have "\<exists>bytes. loadPatchEvidence sha (wd_evidence w') fresh = Inr (ev, bytes) \<and>
      is_lit (own ''patchHash'' (Some ev)) (sha bytes) \<and> scope_of ev allowed must = Inr ()" if "r = Inr ev" for ev
    using pipeline_Inr [of sha now fresh h repo dir start unit tree allowed must results w ev w'] Pair that
    by (auto simp: scope_judged_def rbind_eq_Inr eq_commute [of "Inr ev"])
  ultimately show ?thesis
    using Pair by (auto split: sum.split)
qed

text \<open>
  C12. The registry accepts a sequence of events exactly when the events of each worktree are a run
  of its lifecycle: unknown, active once CREATED, closed once REMOVED, and nothing after.
\<close>

theorem registry_lifecycle:
  "assertValidRegistryTransitions es = Inr es \<longleftrightarrow> (\<forall>i. tree.run Unknown (sequence_of es i) \<noteq> None)"
  unfolding assertValidRegistryTransitions_def
  using transitions_iff [of es] by (cases "transitions_from [] es") (auto simp: tree_life_def)

text \<open>
  Recording an event either fails and leaves the registry, the evidence and the worktrees as they are, or
  appends exactly this event to a readable registry, which stays readable.
\<close>

lemma registry_append_only:
  "case recordWorktreeEvent h repo line w of (r, w') \<Rightarrow>
     ((\<exists>e. r = Inl e) \<and> left_alone h w w') \<or>
     (\<exists>es. registry_events (wd_registry w) = Inr es \<and> wd_registry w' = wd_registry w @ [Some line] \<and>
        registry_events (wd_registry w') = Inr (es @ [line]) \<and> wd_evidence w' = wd_evidence w)"
  using record_event [of h w line repo] by (auto simp: refused_or_def event_recorded_def split: prod.split)

section \<open>Instants\<close>

text \<open>
  C14. The seconds of a timestamp are those of its date in the Gregorian calendar: the days counted year by
  year and month by month since the first of January 1970, then the time of the day less the offset
  of the zone.
\<close>

theorem timestamp_days:
  "case parseTimestamp v of
     Inl _ \<Rightarrow> True
   | Inr i \<Rightarrow> \<exists>s. v = Some (JStr s) \<and> seconds i =
       (day_number (nat (digits_int (cut_text 0 4 s))) (digits_int (cut_text 5 7 s)) (digits_int (cut_text 8 10 s))
          - day_number 1970 1 1) * 86400
       + digits_int (cut_text 11 13 s) * 3600 + digits_int (cut_text 14 16 s) * 60 + digits_int (cut_text 17 19 s)
       - zone_offset (iso_zone s)"
proof (cases "parseTimestamp v")
  case (Inr i)
  then obtain s where v: "v = Some (JStr s)"
    by (cases v rule: parseTimestamp.cases) auto
  from parsed_seconds [OF Inr [unfolded v]] Inr v show ?thesis by simp
qed simp

text \<open>
  C15. Timestamps are compared as exact rational instants, whatever the length of their fractions and
  their zones, and ids decide between equal instants.
\<close>

theorem timestamp_order:
  "case (parseTimestamp s, parseTimestamp t) of
     (Inr a, Inr b) \<Rightarrow> compareTimestampThenId s x t y = Inr
       (if instant_value a < instant_value b \<or> instant_value a = instant_value b \<and> x < y then -1
        else if instant_value a = instant_value b \<and> x = y then 0 else 1)
   | _ \<Rightarrow> compareTimestampThenId s x t y = Inl AuditError"
proof (cases "parseTimestamp s")
  case (Inl e)
  moreover have "e = AuditError"
    using Inl by (cases s rule: parseTimestamp.cases) (auto split: if_splits)
  ultimately show ?thesis by (simp add: compareTimestampThenId_def)
next
  case (Inr a)
  show ?thesis
  proof (cases "parseTimestamp t")
    case (Inl e)
    moreover have "e = AuditError"
      using Inl by (cases t rule: parseTimestamp.cases) (auto split: if_splits)
    ultimately show ?thesis using Inr by (simp add: compareTimestampThenId_def)
  next
    case (Inr b)
    with \<open>parseTimestamp s = Inr a\<close> show ?thesis by (simp add: compare_order)
  qed
qed

section \<open>Version 1 evidence\<close>

text \<open>
  C16. A text is read as a version 1 ledger exactly when its values, the elements of an array, a single
  value, or one for each line that is not blank, are at least one, all valid events, and form one
  chain: their numbers grow from 1, each names the digest of the event before, the first the genesis
  digest, and carries the digest of its own content.  What is read are these events, grouped by work unit.
\<close>

theorem v1_ledger_accepted:
  "parseV1Ledger sha (Some (JStr s)) = Inr l \<longleftrightarrow>
     (\<exists>evs. ledger_values s = Some evs \<and> evs \<noteq> [] \<and> list_all v1_event_valid evs \<and> v1_chain sha evs \<and>
        l = ledger_of s evs)"
  by (rule ledger_accepted)

text \<open>
  C17. The projection of version 1 evidence says exactly what the evidence establishes: one unit for
  every work unit of the source, in the order of their first events; the assignment is the one of
  its last assignment event and the handoff what the reader reads in its last handoff event, or in the
  payload; usefulness, its evidence, the integration and its note come from the first action that
  records a manual integration, the rejection from one that records it, and the coverage from
  the number of its actions.  Where there is no such event the field is \<open>UNKNOWN_V1\<close>, as the
  disposition, the later invocations, the usage, the cost and the review always are.
\<close>

theorem v1_projection_established:
  "case readV1History sha src kind of
     Inl _ \<Rightarrow> True
   | Inr h \<Rightarrow> list_all (established (payload_evidence h) (ledger_evidence h)) (projected_units h) \<and>
       map (\<lambda>u. own ''workUnitId'' (Some u)) (projected_units h) = map Some (source_units h)"
proof (cases "readV1History sha src kind")
  case (Inr h)
  then show ?thesis
    using read_honest [OF Inr] by (simp add: history_honest_def)
qed simp

section \<open>The configuration\<close>

text \<open>
  C18. Normalizing a configuration is idempotent: a normalized configuration is read back as it is,
  in any directory, unless its normalized texts look like a credential, which the guard then refuses.
\<close>

theorem config_normal_form:
  "case normalizeConfig url dir raw of
     Inl _ \<Rightarrow> True
   | Inr c \<Rightarrow> normalizeConfig url dir' (Some c) = rbind (assertNoSensitiveMaterial c) (\<lambda>_. Inr c)"
proof (cases "normalizeConfig url dir raw")
  case (Inr c)
  then show ?thesis
    using normalized_again [OF Inr] by simp
qed simp

text \<open>
  C19. A configuration that loads cannot make its consumers fail later: it has at least one path to
  write, the paths to write and the paths that must change are in the normal form of the scope
  check and stay below the root of the repository, so the scope rule over them comes down to two
  inclusions, and its budgets are accepted by the budget tracker and allow a call.
\<close>

theorem config_accepted_downstream:
  "case normalizeConfig url dir raw of
     Inl _ \<Rightarrow> True
   | Inr c \<Rightarrow> \<exists>ps ms b. own ''allowedWritePaths'' (Some c) = Some (text_array ps) \<and> ps \<noteq> [] \<and>
       normalizeAll (own ''allowedWritePaths'' (Some c)) = Inr ps \<and> list_all below_root ps \<and>
       own ''mustChangePaths'' (Some c) = Some (text_array ms) \<and>
       normalizeAll (own ''mustChangePaths'' (Some c)) = Inr ms \<and> list_all below_root ms \<and>
       (validateScope changed (own ''allowedWritePaths'' (Some c)) (own ''mustChangePaths'' (Some c)) = Inr () \<longleftrightarrow>
          (\<exists>cs. normalizeAll changed = Inr cs \<and> set ms \<subseteq> set cs \<and> set cs \<subseteq> set ps)) \<and>
       createBudgetTracker (own ''unitCalls'' (own ''budgets'' (Some c))) (own ''runCalls'' (own ''budgets'' (Some c))) = Inr b \<and>
       available b"
proof (cases "normalizeConfig url dir raw")
  case (Inr c)
  obtain ps ms b where c: "own ''allowedWritePaths'' (Some c) = Some (text_array ps)" "ps \<noteq> []"
      "normalizeAll (own ''allowedWritePaths'' (Some c)) = Inr ps" "list_all below_root ps"
      "own ''mustChangePaths'' (Some c) = Some (text_array ms)"
      "normalizeAll (own ''mustChangePaths'' (Some c)) = Inr ms" "list_all below_root ms"
      "createBudgetTracker (own ''unitCalls'' (own ''budgets'' (Some c))) (own ''runCalls'' (own ''budgets'' (Some c))) = Inr b"
      "available b"
    using config_usable [OF Inr] by blast
  have "validateScope changed (own ''allowedWritePaths'' (Some c)) (own ''mustChangePaths'' (Some c)) = Inr () \<longleftrightarrow>
      (\<exists>cs. normalizeAll changed = Inr cs \<and> set ms \<subseteq> set cs \<and> set cs \<subseteq> set ps)"
    using c(3,6) unfolding c(1,5) validateScope_iff by simp
  with c show ?thesis
    unfolding Inr sum.case by blast
qed simp

end
